(* ===== verification/Prelude.thy ===== *)
theory Prelude
  imports Main "HOL-Library.Char_ord" "HOL-Library.List_Lexorder" "HOL-Library.Product_Lexorder"
    "HOL-Library.Multiset"
begin

text \<open>
  Shared vocabulary of the development: the parts of the Python and SQLite
  string libraries the sources use, decimal printing and reading, results
  with errors, and the relational table operations of the catalog model.

  A Python \<open>str\<close> is a \<open>string\<close>: one \<open>char\<close> per code point, so the model
  covers the code points below 256.  An exception is \<open>Inl code\<close> where \<open>code\<close>
  is the message the source raises with; \<open>Inr\<close> is the normal return.
\<close>

named_theorems table_simps \<open>rewriting of table updates and lookups\<close>
named_theorems str_simps \<open>rewriting of string predicates\<close>

type_synonym 'a result = "string + 'a"

definition raise_if :: "bool \<Rightarrow> string \<Rightarrow> unit result" where
  "raise_if b code = (if b then Inl code else Inr ())"

definition and_then :: "'e + 'a \<Rightarrow> ('a \<Rightarrow> 'e + 'b) \<Rightarrow> 'e + 'b" where
  "and_then m f = (case m of Inl e \<Rightarrow> Inl e | Inr a \<Rightarrow> f a)"

lemma and_then_Inr_iff [simp]: "and_then m f = Inr b \<longleftrightarrow> (\<exists>a. m = Inr a \<and> f a = Inr b)"
  by (cases m) (auto simp: and_then_def)

lemma and_then_simps [simp]: "and_then (Inl e) f = Inl e" "and_then (Inr a) f = f a"
  by (simp_all add: and_then_def)

lemma raise_if_Inr_iff [simp]: "raise_if b code = Inr u \<longleftrightarrow> \<not> b"
  by (simp add: raise_if_def)

lemma raise_if_Inl_iff [simp]: "raise_if b code = Inl e \<longleftrightarrow> b \<and> e = code"
  by (auto simp: raise_if_def)

lemma and_then_Inl_iff: "and_then m f = Inl e \<longleftrightarrow> m = Inl e \<or> (\<exists>a. m = Inr a \<and> f a = Inl e)"
  by (cases m) (auto simp: and_then_def)

section \<open>Python strings\<close>

text \<open>\<open>str.isspace\<close> on one code point below 256.\<close>

definition py_isspace :: "char \<Rightarrow> bool" where
  "py_isspace c \<longleftrightarrow>
     (of_char c :: nat) \<in> {9, 10, 11, 12, 13, 28, 29, 30, 31, 32, 133, 160}"

definition trim_by :: "(char \<Rightarrow> bool) \<Rightarrow> string \<Rightarrow> string" where
  "trim_by p s = rev (dropWhile p (rev (dropWhile p s)))"

definition strip :: "string \<Rightarrow> string" where
  "strip s = trim_by py_isspace s"

text \<open>The sources test \<open>not s.strip()\<close> throughout.\<close>

definition blank :: "string \<Rightarrow> bool" where
  "blank s \<longleftrightarrow> strip s = []"

lemma trim_by_Nil_iff: "trim_by p s = [] \<longleftrightarrow> list_all p s"
proof -
  have "trim_by p s = [] \<longleftrightarrow> (\<forall>x \<in> set (dropWhile p s). p x)"
    unfolding trim_by_def rev_is_Nil_conv dropWhile_eq_Nil_conv set_rev ..
  also have "\<dots> \<longleftrightarrow> list_all p s"
    by (induction s) auto
  finally show ?thesis .
qed

lemma set_trim_by: "set (trim_by p s) \<subseteq> set s"
  by (auto simp: trim_by_def dest!: set_dropWhileD)

lemma trim_by_append_right:
  assumes "list_all p t"
  shows "trim_by p (s @ t) = trim_by p s"
proof (cases "list_all p s")
  case True
  with assms show ?thesis by (metis trim_by_Nil_iff list_all_append)
next
  case False
  then have "dropWhile p (s @ t) = dropWhile p s @ t"
    by (induction s) auto
  moreover have "dropWhile p (rev t @ u) = dropWhile p u" for u
    using assms by (intro dropWhile_append2) (auto simp: list_all_iff)
  ultimately show ?thesis by (simp add: trim_by_def)
qed

lemma trim_by_idem: "trim_by p (trim_by p s) = trim_by p s"
proof -
  define u where "u = dropWhile p s"
  define v where "v = rev (dropWhile p (rev u))"
  have u: "u = v @ rev (takeWhile p (rev u))"
    unfolding v_def by (metis rev_append rev_rev_ident takeWhile_dropWhile_id)
  have v: "trim_by p s = v" by (simp add: trim_by_def u_def v_def)
  have "trim_by p v = trim_by p (v @ rev (takeWhile p (rev u)))"
    by (rule trim_by_append_right [symmetric]) (auto simp: list_all_iff dest: set_takeWhileD)
  also have "\<dots> = trim_by p u" using u by simp
  also have "\<dots> = trim_by p s"
    by (simp add: trim_by_def u_def dropWhile_idem)
  finally show ?thesis using v by simp
qed

lemma blank_iff [str_simps]: "blank s \<longleftrightarrow> list_all py_isspace s"
  by (simp add: blank_def strip_def trim_by_Nil_iff)

lemma blank_Nil [simp]: "blank []"
  by (simp add: blank_iff)

lemma strip_strip [simp]: "strip (strip s) = strip s"
  by (simp add: strip_def trim_by_idem)

lemma blank_strip [simp]: "blank (strip s) \<longleftrightarrow> blank s"
  by (simp add: blank_def)

text \<open>SQLite's one-argument \<open>trim\<close> removes spaces only.\<close>

definition sql_trim :: "string \<Rightarrow> string" where
  "sql_trim s = trim_by (\<lambda>c. c = CHR '' '') s"

lemma sql_trim_nonempty: "\<not> blank s \<Longrightarrow> sql_trim s \<noteq> []"
  unfolding sql_trim_def trim_by_Nil_iff blank_iff
  by (erule contrapos_nn, erule list.pred_mono_strong) (simp add: py_isspace_def)

text \<open>\<open>re.compile(r"^[0-9a-f]{64}$").fullmatch\<close>.\<close>

definition is_hex64 :: "string \<Rightarrow> bool" where
  "is_hex64 s \<longleftrightarrow> length s = 64 \<and> list_all (\<lambda>c. c \<in> set ''0123456789abcdef'') s"

lemma hex64_not_blank: "is_hex64 s \<Longrightarrow> \<not> blank s"
proof -
  assume s: "is_hex64 s"
  have "\<not> py_isspace c" if "c \<in> set ''0123456789abcdef''" for c
    using that by (auto simp: py_isspace_def)
  then show ?thesis using s by (cases s) (auto simp: is_hex64_def blank_iff simp del: list.set)
qed

definition opt_blank :: "string option \<Rightarrow> bool" where
  "opt_blank v = (case v of None \<Rightarrow> True | Some s \<Rightarrow> blank s)"

lemma not_opt_blank_iff [simp]: "\<not> opt_blank v \<longleftrightarrow> (\<exists>s. v = Some s \<and> \<not> blank s)"
  by (cases v) (simp_all add: opt_blank_def)

text \<open>\<open>instr(haystack, needle) > 0\<close> for a non-empty needle.\<close>

fun contains_substring :: "string \<Rightarrow> string \<Rightarrow> bool" where
  "contains_substring needle [] = (needle = [])"
| "contains_substring needle (c # cs) =
     (take (length needle) (c # cs) = needle \<or> contains_substring needle cs)"

section \<open>Decimal numbers\<close>

definition digit_char :: "nat \<Rightarrow> char" where
  "digit_char d = char_of (48 + d)"

definition is_digit :: "char \<Rightarrow> bool" where
  "is_digit c \<longleftrightarrow> 48 \<le> (of_char c :: nat) \<and> (of_char c :: nat) \<le> 57"

definition digit_val :: "char \<Rightarrow> nat" where
  "digit_val c = of_char c - 48"

fun show_nat :: "nat \<Rightarrow> string" where
  "show_nat n = (if n < 10 then [digit_char n] else show_nat (n div 10) @ [digit_char (n mod 10)])"

declare show_nat.simps [simp del]

definition show_int :: "int \<Rightarrow> string" where
  "show_int i = (if i < 0 then CHR ''-'' # show_nat (nat (- i)) else show_nat (nat i))"

definition read_nat :: "string \<Rightarrow> nat" where
  "read_nat s = foldl (\<lambda>a c. 10 * a + digit_val c) 0 s"

lemma of_char_digit [simp]: "d < 10 \<Longrightarrow> (of_char (digit_char d) :: nat) = 48 + d"
  by (simp add: digit_char_def)

lemma digit_val_digit [simp]: "d < 10 \<Longrightarrow> digit_val (digit_char d) = d"
  by (simp add: digit_val_def)

lemma is_digit_digit [simp]: "d < 10 \<Longrightarrow> is_digit (digit_char d)"
  by (simp add: is_digit_def)

lemma read_nat_snoc [simp]: "read_nat (s @ [c]) = 10 * read_nat s + digit_val c"
  by (simp add: read_nat_def)

lemma read_show_nat [simp]: "read_nat (show_nat n) = n"
proof (induction n rule: show_nat.induct)
  case (1 n)
  show ?case
  proof (cases "n < 10")
    case True
    then show ?thesis by (subst show_nat.simps) (simp add: read_nat_def)
  next
    case False
    with 1 show ?thesis by (subst show_nat.simps) simp
  qed
qed

lemma show_nat_digits: "list_all is_digit (show_nat n)"
proof (induction n rule: show_nat.induct)
  case (1 n)
  then show ?case by (subst show_nat.simps) (auto simp: list_all_iff)
qed

lemma show_nat_nonempty [simp]: "show_nat n \<noteq> []"
  by (subst show_nat.simps) simp

lemma show_nat_inject [simp]: "show_nat m = show_nat n \<longleftrightarrow> m = n"
  by (metis read_show_nat)

lemma show_nat_no_leading_zero: "0 < n \<Longrightarrow> hd (show_nat n) \<noteq> CHR ''0''"
proof (induction n rule: show_nat.induct)
  case (1 n)
  show ?case
  proof (cases "n < 10")
    case True
    then have "(of_char (digit_char n) :: nat) \<noteq> of_char CHR ''0''"
      using 1 by simp
    then have "digit_char n \<noteq> CHR ''0''" by metis
    with True show ?thesis by (subst show_nat.simps) simp
  next
    case False
    with 1 show ?thesis by (subst show_nat.simps) simp
  qed
qed

text \<open>The format specification \<open>:04d\<close>.\<close>

definition pad04 :: "int \<Rightarrow> string" where
  "pad04 i =
     (if i < 0 then (let s = show_nat (nat (- i)) in CHR ''-'' # replicate (3 - length s) CHR ''0'' @ s)
      else (let s = show_nat (nat i) in replicate (4 - length s) CHR ''0'' @ s))"

lemma read_nat_zeros [simp]: "read_nat (replicate k CHR ''0'' @ s) = read_nat s"
proof -
  have "foldl (\<lambda>a c. 10 * a + digit_val c) 0 (replicate k CHR ''0'') = 0"
    by (induction k) (simp_all add: digit_val_def)
  then show ?thesis by (simp add: read_nat_def)
qed

lemma pad04_inject:
  assumes "0 \<le> i" "0 \<le> j" "pad04 i = pad04 j"
  shows "i = j"
proof -
  have "read_nat (pad04 k) = nat k" if "0 \<le> k" for k
    using that by (simp add: pad04_def Let_def)
  with assms have "nat i = nat j" by metis
  with assms show ?thesis by (simp add: nat_eq_iff2)
qed

section \<open>Lists as Python sequences\<close>

text \<open>\<open>next((x for x in xs if p(x)), None)\<close> is \<^const>\<open>List.find\<close>;
  \<open>sorted(xs, key=f)\<close> is \<^const>\<open>sort_key\<close>, which is stable as Python's is.\<close>

lemma find_Some_iff': "List.find p xs = Some x \<Longrightarrow> x \<in> set xs \<and> p x"
  by (auto simp: find_Some_iff)

lemma find_None_iff': "List.find p xs = None \<longleftrightarrow> (\<forall>x \<in> set xs. \<not> p x)"
  by (auto simp: find_None_iff)

lemma find_append: "List.find p (xs @ ys) = (case List.find p xs of None \<Rightarrow> List.find p ys | Some x \<Rightarrow> Some x)"
  by (induction xs) auto

lemma sort_key_perm_eq:
  assumes "mset xs = mset ys" "inj_on f (set xs)"
  shows "sort_key f xs = sort_key f ys"
proof -
  have s: "set xs = set ys" by (rule mset_eq_setD [OF assms(1)])
  have "sort (map f (sort_key f xs)) = map f (sort_key f ys)"
  proof (rule properties_for_sort)
    show "mset (map f (sort_key f ys)) = mset (map f (sort_key f xs))"
      using assms(1) by simp
  qed simp
  then have "map f (sort_key f xs) = map f (sort_key f ys)"
    by (simp add: sorted_sort_id)
  moreover have "inj_on f (set (sort_key f xs) \<union> set (sort_key f ys))"
    using assms(2) s by simp
  ultimately show ?thesis by (simp add: inj_on_map_eq_map)
qed

section \<open>Relational tables\<close>

text \<open>
  A table is the list of its rows.  \<open>UPDATE t SET f WHERE p\<close> is
  \<open>sql_update p f t\<close> and its \<open>rowcount\<close> is \<open>sql_count p t\<close>.
\<close>

definition sql_update :: "('r \<Rightarrow> bool) \<Rightarrow> ('r \<Rightarrow> 'r) \<Rightarrow> 'r list \<Rightarrow> 'r list" where
  "sql_update p f t = map (\<lambda>r. if p r then f r else r) t"

definition sql_count :: "('r \<Rightarrow> bool) \<Rightarrow> 'r list \<Rightarrow> nat" where
  "sql_count p t = length (filter p t)"

lemma set_sql_update: "set (sql_update p f t) = (\<lambda>r. if p r then f r else r) ` set t"
  by (simp add: sql_update_def)

lemma sql_update_map_key [table_simps]:
  "(\<And>r. k (f r) = k r) \<Longrightarrow> map k (sql_update p f t) = map k t"
  by (simp add: sql_update_def)

lemma sql_update_no_match [table_simps]:
  "sql_count p t = 0 \<Longrightarrow> sql_update p f t = t"
  by (induction t) (auto simp: sql_count_def sql_update_def split: if_splits)

lemma sql_count_pos: "0 < sql_count p t \<longleftrightarrow> (\<exists>r \<in> set t. p r)"
  by (auto simp: sql_count_def filter_empty_conv)

lemma sql_count_key_le_1:
  assumes "distinct (map k t)" "\<And>r. p r \<Longrightarrow> k r = a"
  shows "sql_count p t \<le> 1"
  using assms(1)
proof (induction t)
  case Nil
  then show ?case by (simp add: sql_count_def)
next
  case (Cons r t)
  have "sql_count p t = 0" if "p r"
  proof -
    have "\<not> p r'" if "r' \<in> set t" for r'
      using Cons.prems \<open>p r\<close> that assms(2) by (metis distinct.simps(2) imageI list.set_map list.simps(9))
    then show ?thesis by (simp add: sql_count_def filter_empty_conv)
  qed
  with Cons show ?case by (auto simp: sql_count_def)
qed

lemma sql_count_key:
  assumes "distinct (map k t)" "\<And>r. p r \<Longrightarrow> k r = a"
  shows "sql_count p t = 1 \<longleftrightarrow> (\<exists>r \<in> set t. p r)"
proof -
  have "sql_count p t \<le> 1" by (rule sql_count_key_le_1 [OF assms])
  then have "sql_count p t = 1 \<longleftrightarrow> 0 < sql_count p t" by auto
  then show ?thesis by (simp only: sql_count_pos)
qed

lemma find_sql_update:
  assumes "\<And>r. k (f r) = k r"
  shows "List.find (\<lambda>r. k r = a) (sql_update p f t) =
         map_option (\<lambda>r. if p r then f r else r) (List.find (\<lambda>r. k r = a) t)"
  using assms by (induction t) (auto simp: sql_update_def)

lemma find_unique_key:
  assumes "distinct (map k t)" "r \<in> set t" "k r = a"
  shows "List.find (\<lambda>r. k r = a) t = Some r"
  using assms by (induction t) (auto split: if_splits)

end
