(* ===== verification/Json.thy ===== *)
theory Json
  imports Prelude
begin

text \<open>
  Python's \<open>json\<close> module as the sources use it: \<open>json.dumps\<close> with
  \<open>sort_keys=True\<close> and \<open>separators=(",", ":")\<close> (the flag is \<open>ensure_ascii\<close>)
  and \<open>json.loads\<close>.  A \<open>dict\<close> is the list of its items in insertion order.
  Numbers with a fraction or an exponent, \<open>NaN\<close> and the infinities are kept
  as their lexeme (\<open>JFloat\<close>): no source computes with one.

  The parser takes a fuel argument that \<open>json_loads\<close> sets to one more than
  twice the length of its input; \<open>p_fuel_irrelevant\<close> shows that more fuel never
  changes the result.  \<open>loads_dumps\<close> is the round trip.
\<close>

datatype json =
    JNull
  | JBool bool
  | JInt int
  | JFloat string
  | JStr string
  | JArr "json list"
  | JObj "(string \<times> json) list"

section \<open>Dictionaries\<close>

fun dict_set :: "string \<Rightarrow> 'v \<Rightarrow> (string \<times> 'v) list \<Rightarrow> (string \<times> 'v) list" where
  "dict_set k v [] = [(k, v)]"
| "dict_set k v (p # ps) = (if fst p = k then (k, v) # ps else p # dict_set k v ps)"

definition dict_of :: "(string \<times> 'v) list \<Rightarrow> (string \<times> 'v) list" where
  "dict_of ps = foldl (\<lambda>d p. dict_set (fst p) (snd p) d) [] ps"

lemma map_of_dict_set: "map_of (dict_set k v d) = (map_of d)(k \<mapsto> v)"
  by (induction d) auto

lemma set_keys_dict_set: "fst ` set (dict_set k v d) = insert k (fst ` set d)"
  by (induction d) auto

lemma distinct_dict_set: "distinct (map fst d) \<Longrightarrow> distinct (map fst (dict_set k v d))"
proof (induction d)
  case (Cons p d)
  then show ?case using set_keys_dict_set [of k v d] by auto
qed simp

lemma dict_set_new: "k \<notin> fst ` set d \<Longrightarrow> dict_set k v d = d @ [(k, v)]"
  by (induction d) auto

lemma dict_of_distinct:
  assumes "distinct (map fst ps)"
  shows "dict_of ps = ps"
proof -
  have "distinct (map fst (d @ ps)) \<Longrightarrow>
        foldl (\<lambda>d p. dict_set (fst p) (snd p) d) d ps = d @ ps" for d
  proof (induction ps arbitrary: d)
    case (Cons p ps)
    then have "dict_set (fst p) (snd p) d = d @ [p]"
      using dict_set_new [of "fst p" d "snd p"] by auto
    moreover have "foldl (\<lambda>d p. dict_set (fst p) (snd p) d) (d @ [p]) ps = (d @ [p]) @ ps"
      using Cons.prems by (intro Cons.IH) simp
    ultimately show ?case by simp
  qed simp
  from this [of "[]"] show ?thesis using assms by (simp add: dict_of_def)
qed

section \<open>Printing\<close>

definition hex_char :: "nat \<Rightarrow> char" where
  "hex_char d = (if d < 10 then char_of (48 + d) else char_of (87 + d))"

definition hex4 :: "nat \<Rightarrow> string" where
  "hex4 n = [hex_char (n div 4096 mod 16), hex_char (n div 256 mod 16),
             hex_char (n div 16 mod 16), hex_char (n mod 16)]"

definition escape_char :: "bool \<Rightarrow> char \<Rightarrow> string" where
  "escape_char ascii c =
     (if c = CHR 0x5C then [CHR 0x5C, CHR 0x5C]
      else if c = CHR 0x22 then [CHR 0x5C, CHR 0x22]
      else if c = CHR 0x08 then [CHR 0x5C, CHR ''b'']
      else if c = CHR 0x0C then [CHR 0x5C, CHR ''f'']
      else if c = CHR 0x0A then [CHR 0x5C, CHR ''n'']
      else if c = CHR 0x0D then [CHR 0x5C, CHR ''r'']
      else if c = CHR 0x09 then [CHR 0x5C, CHR ''t'']
      else if (of_char c :: nat) < 32 \<or> (ascii \<and> 126 < (of_char c :: nat))
        then CHR 0x5C # CHR ''u'' # hex4 (of_char c)
      else [c])"

definition quote_str :: "bool \<Rightarrow> string \<Rightarrow> string" where
  "quote_str ascii s = CHR 0x22 # concat (map (escape_char ascii) s) @ [CHR 0x22]"

fun join :: "char \<Rightarrow> string list \<Rightarrow> string" where
  "join sep [] = []"
| "join sep [x] = x"
| "join sep (x # y # xs) = x @ sep # join sep (y # xs)"

fun json_dumps :: "bool \<Rightarrow> json \<Rightarrow> string" where
  "json_dumps ascii JNull = ''null''"
| "json_dumps ascii (JBool b) = (if b then ''true'' else ''false'')"
| "json_dumps ascii (JInt i) = show_int i"
| "json_dumps ascii (JFloat lexeme) = lexeme"
| "json_dumps ascii (JStr s) = quote_str ascii s"
| "json_dumps ascii (JArr xs) =
     CHR ''['' # join (CHR '','') (map (json_dumps ascii) xs) @ '']''"
| "json_dumps ascii (JObj kvs) =
     CHR ''{'' # join (CHR '','')
       (map (\<lambda>(k, t). quote_str ascii k @ CHR '':'' # t)
         (sort_key fst (map (\<lambda>(k, v). (k, json_dumps ascii v)) kvs))) @ ''}''"

section \<open>Parsing\<close>

definition is_json_ws :: "char \<Rightarrow> bool" where
  "is_json_ws c \<longleftrightarrow> c = CHR '' '' \<or> c = CHR 0x09 \<or> c = CHR 0x0A \<or> c = CHR 0x0D"

definition skip_ws :: "string \<Rightarrow> string" where
  "skip_ws s = dropWhile is_json_ws s"

definition hex_val :: "char \<Rightarrow> nat option" where
  "hex_val c =
     (let n = (of_char c :: nat) in
      if 48 \<le> n \<and> n \<le> 57 then Some (n - 48)
      else if 97 \<le> n \<and> n \<le> 102 then Some (n - 87)
      else if 65 \<le> n \<and> n \<le> 70 then Some (n - 55)
      else None)"

definition unescape :: "char \<Rightarrow> char option" where
  "unescape c =
     (if c = CHR 0x22 \<or> c = CHR 0x5C \<or> c = CHR ''/'' then Some c
      else if c = CHR ''b'' then Some (CHR 0x08)
      else if c = CHR ''f'' then Some (CHR 0x0C)
      else if c = CHR ''n'' then Some (CHR 0x0A)
      else if c = CHR ''r'' then Some (CHR 0x0D)
      else if c = CHR ''t'' then Some (CHR 0x09)
      else None)"

definition read_hex4 :: "string \<Rightarrow> (nat \<times> string) option" where
  "read_hex4 s =
     (case s of
        a # b # c # d # r \<Rightarrow>
          (case (hex_val a, hex_val b, hex_val c, hex_val d) of
             (Some w, Some x, Some y, Some z) \<Rightarrow> Some (4096 * w + 256 * x + 16 * y + z, r)
           | _ \<Rightarrow> None)
      | _ \<Rightarrow> None)"

lemma read_hex4_length: "read_hex4 s = Some (n, r) \<Longrightarrow> length r < length s"
  by (auto simp: read_hex4_def split: list.splits option.splits prod.splits)

text \<open>The characters after an opening quote, up to and past the closing one.  A code point of
  256 and above is not a \<open>char\<close> and is refused.\<close>

function (sequential) scan_string :: "string \<Rightarrow> (string \<times> string) option" where
  "scan_string [] = None"
| "scan_string (c # cs) =
     (if c = CHR 0x22 then Some ([], cs)
      else if c = CHR 0x5C then
        (case cs of
           [] \<Rightarrow> None
         | e # r \<Rightarrow>
             if e = CHR ''u'' then
               (case read_hex4 r of
                  None \<Rightarrow> None
                | Some (n, r') \<Rightarrow>
                    if n < 256 then map_option (apfst (Cons (char_of n))) (scan_string r') else None)
             else
               (case unescape e of
                  None \<Rightarrow> None
                | Some x \<Rightarrow> map_option (apfst (Cons x)) (scan_string r)))
      else if (of_char c :: nat) < 32 then None
      else map_option (apfst (Cons c)) (scan_string cs))"
  by pat_completeness auto
termination
  by (relation "measure length") (auto dest: read_hex4_length)

text \<open>\<open>NUMBER_RE\<close> of the decoder: an integer part, then an optional fraction and exponent.\<close>

definition scan_frac :: "string \<Rightarrow> string \<times> string" where
  "scan_frac s =
     (case s of
        c # d # r \<Rightarrow>
          if c = CHR ''.'' \<and> is_digit d
          then (c # takeWhile is_digit (d # r), dropWhile is_digit (d # r)) else ([], s)
      | _ \<Rightarrow> ([], s))"

definition scan_exp :: "string \<Rightarrow> string \<times> string" where
  "scan_exp s =
     (case s of
        c # r \<Rightarrow>
          if c = CHR ''e'' \<or> c = CHR ''E'' then
            (let (sg, r') = (case r of d # q \<Rightarrow> if d = CHR ''+'' \<or> d = CHR ''-'' then ([d], q) else ([], r)
                                     | [] \<Rightarrow> ([], r))
             in if takeWhile is_digit r' = [] then ([], s)
                else (c # sg @ takeWhile is_digit r', dropWhile is_digit r'))
          else ([], s)
      | [] \<Rightarrow> ([], s))"

definition scan_sign :: "string \<Rightarrow> bool \<times> string" where
  "scan_sign s =
     (case s of c # r \<Rightarrow> if c = CHR ''-'' then (True, r) else (False, s) | [] \<Rightarrow> (False, s))"

definition scan_int_part :: "string \<Rightarrow> string \<times> string" where
  "scan_int_part s =
     (case s of
        c # r \<Rightarrow> if c = CHR ''0'' then ([c], r) else (takeWhile is_digit s, dropWhile is_digit s)
      | [] \<Rightarrow> ([], s))"

definition scan_number :: "string \<Rightarrow> (json \<times> string) option" where
  "scan_number s =
     (let (neg, s1) = scan_sign s;
          (ds, s2) = scan_int_part s1;
          (fr, s3) = scan_frac s2;
          (ex, s4) = scan_exp s3
      in if ds = [] then None
         else if fr = [] \<and> ex = [] then
           Some (JInt (if neg then - int (read_nat ds) else int (read_nat ds)), s4)
         else Some (JFloat ((if neg then ''-'' else []) @ ds @ fr @ ex), s4))"

definition literals :: "(string \<times> json) list" where
  "literals = [(''null'', JNull), (''true'', JBool True), (''false'', JBool False),
               (''NaN'', JFloat ''NaN''), (''Infinity'', JFloat ''Infinity''),
               (''-Infinity'', JFloat ''-Infinity'')]"

definition scan_literal :: "string \<Rightarrow> (json \<times> string) option" where
  "scan_literal s =
     (case List.find (\<lambda>l. take (length (fst l)) s = fst l) literals of
        Some l \<Rightarrow> Some (snd l, drop (length (fst l)) s)
      | None \<Rightarrow> None)"

fun p_value :: "nat \<Rightarrow> string \<Rightarrow> (json \<times> string) option"
and p_elems :: "nat \<Rightarrow> string \<Rightarrow> (json list \<times> string) option"
and p_members :: "nat \<Rightarrow> string \<Rightarrow> ((string \<times> json) list \<times> string) option" where
  "p_value 0 s = None"
| "p_value (Suc n) s =
     (case s of
        [] \<Rightarrow> None
      | c # cs \<Rightarrow>
          if c = CHR 0x22 then map_option (apfst JStr) (scan_string cs)
          else if c = CHR ''{'' then
            (case skip_ws cs of
               [] \<Rightarrow> None
             | d # r \<Rightarrow> if d = CHR ''}'' then Some (JObj [], r)
                        else map_option (apfst (JObj \<circ> dict_of)) (p_members n (d # r)))
          else if c = CHR ''['' then
            (case skip_ws cs of
               [] \<Rightarrow> None
             | d # r \<Rightarrow> if d = CHR '']'' then Some (JArr [], r)
                        else map_option (apfst JArr) (p_elems n (d # r)))
          else (case scan_literal s of Some x \<Rightarrow> Some x | None \<Rightarrow> scan_number s))"
| "p_elems 0 s = None"
| "p_elems (Suc n) s =
     (case p_value n s of
        None \<Rightarrow> None
      | Some (v, r) \<Rightarrow>
          (case skip_ws r of
             [] \<Rightarrow> None
           | d # r' \<Rightarrow>
               if d = CHR '']'' then Some ([v], r')
               else if d = CHR '','' then map_option (apfst (Cons v)) (p_elems n (skip_ws r'))
               else None))"
| "p_members 0 s = None"
| "p_members (Suc n) s =
     (case s of
        [] \<Rightarrow> None
      | q # cs \<Rightarrow>
          if q \<noteq> CHR 0x22 then None
          else
            (case scan_string cs of
               None \<Rightarrow> None
             | Some (k, r) \<Rightarrow>
                 (case skip_ws r of
                    [] \<Rightarrow> None
                  | e # r1 \<Rightarrow>
                      if e \<noteq> CHR '':'' then None
                      else
                        (case p_value n (skip_ws r1) of
                           None \<Rightarrow> None
                         | Some (v, r2) \<Rightarrow>
                             (case skip_ws r2 of
                                [] \<Rightarrow> None
                              | d # r3 \<Rightarrow>
                                  if d = CHR ''}'' then Some ([(k, v)], r3)
                                  else if d = CHR '','' then
                                    map_option (apfst (Cons (k, v))) (p_members n (skip_ws r3))
                                  else None)))))"

definition json_loads :: "string \<Rightarrow> json option" where
  "json_loads s =
     (case p_value (Suc (2 * length s)) (skip_ws s) of
        Some (v, r) \<Rightarrow> if skip_ws r = [] then Some v else None
      | None \<Rightarrow> None)"

section \<open>The round trip\<close>

text \<open>What loading a printed value gives: the same value with the keys of every object sorted.\<close>

fun canon :: "json \<Rightarrow> json" where
  "canon (JArr xs) = JArr (map canon xs)"
| "canon (JObj kvs) = JObj (sort_key fst (map (\<lambda>(k, v). (k, canon v)) kvs))"
| "canon v = v"

text \<open>The values a program can build without floats: every object is a dictionary.\<close>

fun wf_json :: "json \<Rightarrow> bool" where
  "wf_json (JFloat l) = False"
| "wf_json (JArr xs) = list_all wf_json xs"
| "wf_json (JObj kvs) = (distinct (map fst kvs) \<and> list_all (\<lambda>(k, v). wf_json v) kvs)"
| "wf_json v = True"

lemma hex_val_hex_char: "d < 16 \<Longrightarrow> hex_val (hex_char d) = Some d"
  by (auto simp: hex_val_def hex_char_def Let_def)

lemma read_hex4_hex4:
  assumes "n < 65536"
  shows "read_hex4 (hex4 n @ r) = Some (n, r)"
proof -
  have d: "hex_val (hex_char (m mod 16)) = Some (m mod 16)" for m
    by (rule hex_val_hex_char) simp
  have "4096 * (n div 4096 mod 16) + 256 * (n div 256 mod 16) + 16 * (n div 16 mod 16) + n mod 16 = n"
  proof -
    have "n div 256 = n div 16 div 16" "n div 4096 = n div 16 div 16 div 16"
      by (simp_all flip: div_mult2_eq)
    moreover have "n div 16 div 16 div 16 < 16" using assms by (simp flip: div_mult2_eq)
    moreover have "n div 16 * 16 + n mod 16 = n" "n div 16 div 16 * 16 + n div 16 mod 16 = n div 16"
        "n div 16 div 16 div 16 * 16 + n div 16 div 16 mod 16 = n div 16 div 16"
      by (simp_all only: div_mult_mod_eq)
    ultimately show ?thesis by (simp only: mod_less)
  qed
  then show ?thesis
    by (simp only: read_hex4_def hex4_def d append_Cons append_Nil list.case prod.case option.case)
qed

lemma scan_escape:
  "scan_string (escape_char a c @ t) = map_option (apfst (Cons c)) (scan_string t)"
proof -
  have c: "(of_char c :: nat) < 256" by (rule nat_of_char_less_256)
  consider "c \<in> {CHR 0x5C, CHR 0x22, CHR 0x08, CHR 0x0C, CHR 0x0A, CHR 0x0D, CHR 0x09}"
    | (hex) "c \<notin> {CHR 0x5C, CHR 0x22, CHR 0x08, CHR 0x0C, CHR 0x0A, CHR 0x0D, CHR 0x09}"
        "(of_char c :: nat) < 32 \<or> (a \<and> 126 < (of_char c :: nat))"
    | (plain) "c \<notin> {CHR 0x5C, CHR 0x22, CHR 0x08, CHR 0x0C, CHR 0x0A, CHR 0x0D, CHR 0x09}"
        "\<not> ((of_char c :: nat) < 32 \<or> (a \<and> 126 < (of_char c :: nat)))"
    by blast
  then show ?thesis
  proof cases
    case 1
    then show ?thesis by (auto simp: escape_char_def unescape_def)
  next
    case hex
    then have "escape_char a c = CHR 0x5C # CHR ''u'' # hex4 (of_char c)"
      by (simp add: escape_char_def)
    moreover have "read_hex4 (hex4 (of_char c) @ t) = Some (of_char c, t)"
      using c by (intro read_hex4_hex4) (rule less_trans, assumption, simp)
    ultimately show ?thesis using c by simp
  next
    case plain
    then have "escape_char a c = [c]" by (simp add: escape_char_def)
    with plain show ?thesis by simp
  qed
qed

lemma scan_string_quoted:
  "scan_string (concat (map (escape_char a) s) @ CHR 0x22 # r) = Some (s, r)"
  by (induction s) (simp_all add: scan_escape)

text \<open>What may follow a printed value: nothing, or a separator.\<close>

definition ends_value :: "string \<Rightarrow> bool" where
  "ends_value r \<longleftrightarrow> (r = [] \<or> hd r \<in> {CHR '','', CHR '']'', CHR ''}''})"

lemma ends_value_Cons [simp]: "ends_value (c # r) \<longleftrightarrow> c \<in> {CHR '','', CHR '']'', CHR ''}''}"
  by (simp add: ends_value_def)

lemma scan_frac_exp_end: "ends_value r \<Longrightarrow> scan_frac r = ([], r) \<and> scan_exp r = ([], r)"
  by (auto simp: ends_value_def scan_frac_def scan_exp_def split: list.splits)

lemma takeWhile_digits_end:
  assumes "ends_value r" "list_all is_digit ds"
  shows "takeWhile is_digit (ds @ r) = ds \<and> dropWhile is_digit (ds @ r) = r"
proof -
  have "takeWhile is_digit r = [] \<and> dropWhile is_digit r = r"
    using assms(1) by (cases r) (auto simp: ends_value_def is_digit_def)
  then show ?thesis using assms(2) by (simp add: list_all_iff takeWhile_append2 dropWhile_append2)
qed

lemma digit_char_0: "digit_char 0 = CHR ''0''"
proof -
  have "(of_char (digit_char 0) :: nat) = of_char (CHR ''0'')" by simp
  then show ?thesis by (rule of_char_eq_iff [THEN iffD1])
qed

lemma show_nat_0: "show_nat 0 = ''0''"
  by (subst show_nat.simps) (simp add: digit_char_0)

lemma scan_int_part_show:
  assumes "ends_value r"
  shows "scan_int_part (show_nat n @ r) = (show_nat n, r)"
proof (cases "n = 0")
  case True
  then show ?thesis by (simp add: show_nat_0 scan_int_part_def)
next
  case False
  then have "hd (show_nat n) \<noteq> CHR ''0''" by (simp add: show_nat_no_leading_zero)
  moreover obtain c q where "show_nat n = c # q"
    by (meson show_nat_nonempty neq_Nil_conv)
  ultimately show ?thesis
    using takeWhile_digits_end [OF assms show_nat_digits [of n]]
    by (simp add: scan_int_part_def)
qed

lemma show_nat_hd: "\<exists>c q. show_nat n = c # q \<and> is_digit c"
  using show_nat_digits [of n] show_nat_nonempty [of n] by (cases "show_nat n") auto

lemma scan_sign_show:
  "scan_sign (show_int i @ r) = (i < 0, show_nat (nat \<bar>i\<bar>) @ r)"
proof (cases "i < 0")
  case True
  then show ?thesis by (simp add: scan_sign_def show_int_def)
next
  case False
  obtain c q where c: "show_nat (nat i) = c # q" "is_digit c" using show_nat_hd by blast
  then have "c \<noteq> CHR ''-''" by (auto simp: is_digit_def)
  with c False show ?thesis by (simp add: scan_sign_def show_int_def)
qed

lemma scan_number_show:
  assumes "ends_value r"
  shows "scan_number (show_int i @ r) = Some (JInt i, r)"
  using scan_frac_exp_end [OF assms] scan_int_part_show [OF assms]
  by (simp add: scan_number_def scan_sign_show)

lemma show_int_hd: "\<exists>c q. show_int i = c # q \<and> (is_digit c \<or> c = CHR ''-'' \<and> (\<exists>d q'. q = d # q' \<and> is_digit d))"
  using show_nat_hd [of "nat i"] show_nat_hd [of "nat (- i)"] by (auto simp: show_int_def)

lemma scan_literal_show_int: "scan_literal (show_int i @ r) = None"
proof -
  obtain c q where c: "show_int i = c # q"
      "is_digit c \<or> c = CHR ''-'' \<and> (\<exists>d q'. q = d # q' \<and> is_digit d)"
    using show_int_hd [of i] by (elim exE conjE)
  have nd: "\<not> is_digit (CHR ''n'')" "\<not> is_digit (CHR ''t'')" "\<not> is_digit (CHR ''f'')"
      "\<not> is_digit (CHR ''N'')" "\<not> is_digit (CHR ''I'')" "\<not> is_digit (CHR ''-'')"
    by (simp_all add: is_digit_def)
  from c(2) show ?thesis
  proof
    assume d: "is_digit c"
    then have "c \<noteq> CHR ''n''" "c \<noteq> CHR ''t''" "c \<noteq> CHR ''f''" "c \<noteq> CHR ''N''" "c \<noteq> CHR ''I''"
        "c \<noteq> CHR ''-''"
      using nd by metis+
    then show ?thesis by (simp add: c(1) scan_literal_def literals_def)
  next
    assume "c = CHR ''-'' \<and> (\<exists>d q'. q = d # q' \<and> is_digit d)"
    then obtain d q' where d: "c = CHR ''-''" "q = d # q'" "is_digit d" by blast
    then have "d \<noteq> CHR ''I''" using nd by metis
    with d show ?thesis by (simp add: c(1) scan_literal_def literals_def)
  qed
qed

lemma p_value_int: "ends_value r \<Longrightarrow> p_value (Suc n) (show_int i @ r) = Some (JInt i, r)"
proof -
  assume r: "ends_value r"
  obtain c q where c: "show_int i = c # q" "is_digit c \<or> c = CHR ''-''"
    using show_int_hd [of i] by (elim exE conjE disjE) simp_all
  then have "c \<noteq> CHR 0x22 \<and> c \<noteq> CHR ''{'' \<and> c \<noteq> CHR ''[''"
    by (auto simp: is_digit_def)
  then show ?thesis
    using c scan_number_show [OF r, of i] scan_literal_show_int [of i r] by simp
qed

lemma p_value_str: "p_value (Suc n) (quote_str a s @ r) = Some (JStr s, r)"
  by (simp add: quote_str_def scan_string_quoted)

lemma quote_str_hd: "\<exists>q. quote_str a s = CHR 0x22 # q"
  by (simp add: quote_str_def)

lemma dumps_hd:
  assumes "wf_json v"
  shows "\<exists>c q. json_dumps a v = c # q \<and> \<not> is_json_ws c \<and> c \<noteq> CHR '']'' \<and> c \<noteq> CHR ''}''"
proof (cases v)
  case (JInt i)
  then show ?thesis using show_int_hd [of i] by (auto simp: is_digit_def is_json_ws_def)
qed (use assms in \<open>auto simp: is_json_ws_def quote_str_def\<close>)

lemma skip_ws_dumps: "wf_json v \<Longrightarrow> skip_ws (json_dumps a v @ r) = json_dumps a v @ r"
  using dumps_hd [of v a] by (auto simp: skip_ws_def)

lemma skip_ws_ends: "ends_value r \<Longrightarrow> skip_ws r = r"
  by (cases r) (auto simp: skip_ws_def is_json_ws_def)

definition dump_member :: "bool \<Rightarrow> string \<times> json \<Rightarrow> string" where
  "dump_member a kv = quote_str a (fst kv) @ CHR '':'' # json_dumps a (snd kv)"

lemma sort_key_map_snd:
  "map (\<lambda>(k, t). (k, f t)) (sort_key fst kvs) = sort_key fst (map (\<lambda>(k, t). (k, f t)) kvs)"
proof -
  have ins: "map (\<lambda>(k, t). (k, f t)) (insort_key fst x xs) =
        insort_key fst (case x of (k, t) \<Rightarrow> (k, f t)) (map (\<lambda>(k, t). (k, f t)) xs)"
    for x xs
    by (induction xs) (auto split: prod.splits)
  show ?thesis by (induction kvs) (auto simp: ins split: prod.splits)
qed

lemma dumps_JObj:
  "json_dumps a (JObj kvs) =
     CHR ''{'' # join (CHR '','') (map (dump_member a) (sort_key fst kvs)) @ ''}''"
  by (simp add: sort_key_map_snd [symmetric] dump_member_def [abs_def] case_prod_beta comp_def)

lemma canon_JObj: "canon (JObj kvs) = JObj (map (\<lambda>(k, v). (k, canon v)) (sort_key fst kvs))"
  by (simp add: sort_key_map_snd)

lemma p_elems_join:
  assumes "xs \<noteq> []"
    and "\<And>v r n. v \<in> set xs \<Longrightarrow> ends_value r \<Longrightarrow> length (json_dumps a v) < n \<Longrightarrow>
           p_value n (json_dumps a v @ r) = Some (canon v, r)"
    and "list_all wf_json xs"
    and "Suc (length (join (CHR '','') (map (json_dumps a) xs))) < n"
  shows "p_elems n (join (CHR '','') (map (json_dumps a) xs) @ CHR '']'' # r) = Some (map canon xs, r)"
  using assms
proof (induction xs arbitrary: n)
  case (Cons x xs)
  obtain m where n: "n = Suc m" using Cons.prems(4) by (cases n) auto
  show ?case
  proof (cases xs)
    case Nil
    then have "p_value m (json_dumps a x @ CHR '']'' # r) = Some (canon x, CHR '']'' # r)"
      using Cons.prems n by (intro Cons.prems(2)) auto
    then show ?thesis using Nil n by (simp add: skip_ws_def is_json_ws_def)
  next
    case (Cons y ys)
    let ?t = "join (CHR '','') (map (json_dumps a) xs) @ CHR '']'' # r"
    have "p_value m (json_dumps a x @ CHR '','' # ?t) = Some (canon x, CHR '','' # ?t)"
      using Cons.prems(4) n Cons by (intro Cons.prems(2)) auto
    moreover have "skip_ws ?t = ?t"
      using Cons Cons.prems(3) skip_ws_dumps [of y a] by (cases ys) auto
    moreover have "p_elems m ?t = Some (map canon xs, r)"
    proof (rule Cons.IH)
      show "Suc (length (join (CHR '','') (map (json_dumps a) xs))) < m"
        using Cons Cons.prems(4) n dumps_hd [of x a] Cons.prems(3) by auto
    qed (use Cons Cons.prems in auto)
    ultimately show ?thesis using Cons n by (simp add: skip_ws_def is_json_ws_def)
  qed
qed simp

lemma p_members_member:
  assumes "p_value m (skip_ws (json_dumps a v @ q)) = Some (canon v, q)"
  shows "p_members (Suc m) (dump_member a (k, v) @ q) =
     (case skip_ws q of
        [] \<Rightarrow> None
      | d # r \<Rightarrow> if d = CHR ''}'' then Some ([(k, canon v)], r)
                 else if d = CHR '','' then
                   map_option (apfst (Cons (k, canon v))) (p_members m (skip_ws r))
                 else None)"
proof -
  have "scan_string (concat (map (escape_char a) k) @ CHR 0x22 # CHR '':'' # json_dumps a v @ q) =
        Some (k, CHR '':'' # json_dumps a v @ q)"
    by (rule scan_string_quoted)
  moreover have "skip_ws (CHR '':'' # json_dumps a v @ q) = CHR '':'' # json_dumps a v @ q"
    by (simp add: skip_ws_def is_json_ws_def)
  ultimately show ?thesis using assms by (simp add: dump_member_def quote_str_def)
qed

lemma p_members_join:
  assumes "kvs \<noteq> []"
    and "\<And>k v r n. (k, v) \<in> set kvs \<Longrightarrow> ends_value r \<Longrightarrow> length (json_dumps a v) < n \<Longrightarrow>
           p_value n (json_dumps a v @ r) = Some (canon v, r)"
    and "list_all (\<lambda>(k, v). wf_json v) kvs"
    and "Suc (length (join (CHR '','') (map (dump_member a) kvs))) < n"
  shows "p_members n (join (CHR '','') (map (dump_member a) kvs) @ CHR ''}'' # r) =
         Some (map (\<lambda>(k, v). (k, canon v)) kvs, r)"
  using assms
proof (induction kvs arbitrary: n)
  case (Cons kv kvs)
  obtain m where n: "n = Suc m" using Cons.prems(4) by (cases n) auto
  obtain k v where kv: "kv = (k, v)" by (cases kv)
  have wf: "wf_json v" using Cons.prems(3) kv by simp
  have ln: "length (dump_member a kv) = Suc (length (quote_str a k) + length (json_dumps a v))"
    by (simp add: dump_member_def kv)
  have val: "p_value m (skip_ws (json_dumps a v @ q)) = Some (canon v, q)"
    if "ends_value q" "length (json_dumps a v) < m" for q
    using Cons.prems(2) [of k v q m] that kv skip_ws_dumps [OF wf] by simp
  show ?case
  proof (cases kvs)
    case Nil
    then have "length (json_dumps a v) < m" using Cons.prems(4) n ln by simp
    then have "p_members n (dump_member a (k, v) @ CHR ''}'' # r) = Some ([(k, canon v)], r)"
      unfolding n by (subst p_members_member) (simp_all add: val skip_ws_ends)
    then show ?thesis using Nil kv by simp
  next
    case (Cons y ys)
    let ?t = "join (CHR '','') (map (dump_member a) kvs) @ CHR ''}'' # r"
    have len: "Suc (length (join (CHR '','') (map (dump_member a) kvs))) < m"
        "length (json_dumps a v) < m"
      using Cons Cons.prems(4) n ln by auto
    have "skip_ws ?t = ?t"
      using Cons by (cases ys) (auto simp: dump_member_def quote_str_def skip_ws_def is_json_ws_def)
    moreover have "p_members m ?t = Some (map (\<lambda>(k, v). (k, canon v)) kvs, r)"
      using Cons Cons.prems len by (intro Cons.IH) auto
    ultimately have "p_members n (dump_member a (k, v) @ CHR '','' # ?t) =
        Some ((k, canon v) # map (\<lambda>(k, v). (k, canon v)) kvs, r)"
      unfolding n using len by (subst p_members_member) (simp_all add: val skip_ws_ends)
    then show ?thesis using Cons kv by simp
  qed
qed simp

lemma p_value_dumps:
  "wf_json v \<Longrightarrow> ends_value r \<Longrightarrow> length (json_dumps a v) < n \<Longrightarrow>
   p_value n (json_dumps a v @ r) = Some (canon v, r)"
proof (induction v arbitrary: r n)
  case (JArr xs)
  then obtain m where n: "n = Suc m" by (cases n) auto
  show ?case
  proof (cases "xs = []")
    case True
    then show ?thesis by (simp add: n skip_ws_def is_json_ws_def)
  next
    case False
    let ?j = "join (CHR '','') (map (json_dumps a) xs)"
    obtain x ys where xs: "xs = x # ys" using False by (cases xs) auto
    have "p_elems m (?j @ CHR '']'' # r) = Some (map canon xs, r)"
      using JArr False n by (intro p_elems_join) (auto simp: list_all_iff)
    moreover obtain c q where c: "json_dumps a x = c # q" "\<not> is_json_ws c" "c \<noteq> CHR '']''"
      using JArr.prems(1) dumps_hd [of x a] xs by auto
    moreover from c xs have "\<exists>q'. ?j = c # q'" by (cases ys) auto
    ultimately show ?thesis by (auto simp: n skip_ws_def)
  qed
next
  case (JObj kvs)
  then obtain m where n: "n = Suc m" by (cases n) (auto simp: dumps_JObj)
  let ?s = "sort_key fst kvs"
  let ?j = "join (CHR '','') (map (dump_member a) ?s)"
  show ?case
  proof (cases "kvs = []")
    case True
    then show ?thesis by (simp add: n skip_ws_def is_json_ws_def)
  next
    case False
    then obtain x ys where xs: "?s = x # ys"
      by (cases ?s) (metis set_empty set_sort, auto)
    have "p_members m (?j @ CHR ''}'' # r) = Some (map (\<lambda>(k, v). (k, canon v)) ?s, r)"
    proof (rule p_members_join)
      show "?s \<noteq> []" using xs by simp
      show "list_all (\<lambda>(k, v). wf_json v) ?s" using JObj.prems(1) by (simp add: list_all_iff)
      show "Suc (length ?j) < m" using JObj.prems(3) n by (simp only: dumps_JObj) simp
    next
      fix k v q i
      assume "(k, v) \<in> set ?s" "ends_value q" "length (json_dumps a v) < i"
      then show "p_value i (json_dumps a v @ q) = Some (canon v, q)"
        using JObj.prems(1) by (intro JObj.IH [of "(k, v)"]) (auto simp: list_all_iff)
    qed
    moreover obtain q where "?j = CHR 0x22 # q"
      using xs by (cases ys) (auto simp: dump_member_def quote_str_def)
    moreover have "dict_of (map (\<lambda>(k, v). (k, canon v)) ?s) = map (\<lambda>(k, v). (k, canon v)) ?s"
    proof (rule dict_of_distinct)
      have "map fst (map (\<lambda>(k, v). (k, canon v)) ?s) = map fst ?s"
        by (simp add: case_prod_beta comp_def)
      moreover have "distinct (map fst ?s)"
        using JObj.prems(1) by (simp add: distinct_map)
      ultimately show "distinct (map fst (map (\<lambda>(k, v). (k, canon v)) ?s))" by (simp only:)
    qed
    ultimately show ?thesis
      by (simp add: n dumps_JObj canon_JObj skip_ws_def is_json_ws_def
          del: canon.simps json_dumps.simps)
  qed
next
  case (JInt i)
  then show ?case by (cases n) (auto simp del: p_value.simps simp: p_value_int)
next
  case (JStr s)
  then show ?case by (cases n) (auto simp del: p_value.simps simp: p_value_str)
next
  case (JBool b)
  then show ?case by (cases n) (auto simp: scan_literal_def literals_def)
next
  case JNull
  then show ?case by (cases n) (auto simp: scan_literal_def literals_def)
qed simp

theorem loads_dumps: "wf_json v \<Longrightarrow> json_loads (json_dumps a v) = Some (canon v)"
  using p_value_dumps [of v "[]" a "Suc (2 * length (json_dumps a v))"] skip_ws_dumps [of v a "[]"]
  by (simp add: json_loads_def ends_value_def skip_ws_def)

lemma dumps_inject:
  assumes "wf_json v" "wf_json w" "json_dumps a v = json_dumps a w"
  shows "canon v = canon w"
  using loads_dumps [OF assms(1), of a] loads_dumps [OF assms(2), of a] assms(3) by simp

section \<open>The fuel is enough\<close>

lemma skip_ws_length: "length (skip_ws s) \<le> length s"
  by (simp add: skip_ws_def length_dropWhile_le)

lemma skip_ws_Cons: "skip_ws s = d # r \<Longrightarrow> length r < length s"
  using skip_ws_length [of s] by simp

lemma scan_string_length: "scan_string s = Some (x, r) \<Longrightarrow> length r < length s"
proof (induction s arbitrary: x r rule: scan_string.induct)
  case (2 c cs)
  then show ?case
    by (auto split: if_splits list.splits option.splits prod.splits dest!: read_hex4_length)
      (metis less_SucI less_trans)+
qed simp

lemma scan_frac_length: "length (snd (scan_frac s)) \<le> length s"
  by (auto simp: scan_frac_def split: list.splits) (metis le_SucI length_dropWhile_le)+

lemma scan_exp_length: "length (snd (scan_exp s)) \<le> length s"
  by (auto simp: scan_exp_def split: list.splits prod.splits if_splits)
    (metis le_SucI length_dropWhile_le)+

lemma scan_number_length: "scan_number s = Some (v, r) \<Longrightarrow> length r < length s"
proof -
  assume s: "scan_number s = Some (v, r)"
  obtain neg s1 where s1: "scan_sign s = (neg, s1)" by (cases "scan_sign s")
  obtain ds s2 where s2: "scan_int_part s1 = (ds, s2)" by (cases "scan_int_part s1")
  obtain fr s3 where s3: "scan_frac s2 = (fr, s3)" by (cases "scan_frac s2")
  obtain ex s4 where s4: "scan_exp s3 = (ex, s4)" by (cases "scan_exp s3")
  have "length s1 \<le> length s"
    using s1 by (auto simp: scan_sign_def split: list.splits if_splits)
  moreover have "ds \<noteq> [] \<Longrightarrow> length s2 < length s1"
    using s2 length_dropWhile_le [of is_digit]
    by (auto simp: scan_int_part_def less_Suc_eq_le split: list.splits if_splits)
  moreover have "length s3 \<le> length s2" "length s4 \<le> length s3"
    using scan_frac_length [of s2] scan_exp_length [of s3] s3 s4 by simp_all
  ultimately show "length r < length s"
    using s s1 s2 s3 s4 by (auto simp: scan_number_def split: if_splits)
qed

lemma scan_literal_length: "scan_literal s = Some (v, r) \<Longrightarrow> length r < length s"
  by (cases s) (auto simp: scan_literal_def literals_def split: option.splits if_splits)

lemma p_lengths:
  "p_value n s = Some (v, r) \<Longrightarrow> length r < length s"
  "p_elems n s = Some (vs, r) \<Longrightarrow> length r < length s"
  "p_members n s = Some (kvs, r) \<Longrightarrow> length r < length s"
proof (induction n s and n s and n s arbitrary: v r and vs r and kvs r
    rule: p_value_p_elems_p_members.induct)
  case (2 n s)
  then show ?case
    by (auto split: list.splits if_splits option.splits
        dest!: scan_string_length skip_ws_Cons scan_literal_length scan_number_length)
      fastforce+
next
  case (4 n s)
  from 4(3) obtain w q d q' where q: "p_value n s = Some (w, q)" "skip_ws q = d # q'"
      "d = CHR '']'' \<and> r = q' \<or> (\<exists>ws. d = CHR '','' \<and> p_elems n (skip_ws q') = Some (ws, r))"
    by (auto split: list.splits if_splits option.splits prod.splits)
  have "length q < length s" by (rule 4(1)) (rule q(1))
  moreover have "length q' < length q" by (rule skip_ws_Cons [OF q(2)])
  moreover have "length r \<le> length q'"
    using q(3) 4(2) [OF q(1) refl q(2)] skip_ws_length [of q'] by fastforce
  ultimately show ?case by simp
next
  case (6 n s)
  from 6(3) obtain cs k q q1 w q2 d q3 where q: "s = CHR 0x22 # cs" "scan_string cs = Some (k, q)"
      "skip_ws q = CHR '':'' # q1" "p_value n (skip_ws q1) = Some (w, q2)" "skip_ws q2 = d # q3"
      "d = CHR ''}'' \<and> r = q3 \<or> (\<exists>ws. d = CHR '','' \<and> p_members n (skip_ws q3) = Some (ws, r))"
    by (auto split: list.splits if_splits option.splits prod.splits)
  have "length q2 < length (skip_ws q1)"
    by (rule 6(1) [OF q(1) _ q(2) refl q(3) _ q(4)]) simp_all
  moreover have "length r \<le> length q3"
    using q(6) 6(2) [OF q(1) _ q(2) refl q(3) _ q(4) refl q(5)] skip_ws_length [of q3] by fastforce
  ultimately show ?case
    using q(1) scan_string_length [OF q(2)] skip_ws_Cons [OF q(3)] skip_ws_length [of q1]
      skip_ws_Cons [OF q(5)] by simp
qed simp_all

lemma p_fuel_irrelevant:
  "2 * length s < n \<Longrightarrow> 2 * length s < m \<Longrightarrow> p_value n s = p_value m s"
  "Suc (2 * length s) < n \<Longrightarrow> Suc (2 * length s) < m \<Longrightarrow> p_elems n s = p_elems m s"
  "2 * length s < n \<Longrightarrow> 2 * length s < m \<Longrightarrow> p_members n s = p_members m s"
proof (induction n s and n s and n s arbitrary: m and m and m
    rule: p_value_p_elems_p_members.induct)
  case (2 n s)
  obtain k where m: "m = Suc k" using 2(4) by (cases m) simp_all
  have "p_members n (d # r) = p_members k (d # r)"
    if "s = c # cs" "c \<noteq> CHR 0x22" "c = CHR ''{''" "skip_ws cs = d # r" "d \<noteq> CHR ''}''" for c cs d r
    using that(1,4) 2(3,4) m skip_ws_length [of cs] by (intro 2(1) [OF that]) simp_all
  moreover have "p_elems n (d # r) = p_elems k (d # r)"
    if "s = c # cs" "c \<noteq> CHR 0x22" "c \<noteq> CHR ''{''" "c = CHR ''[''" "skip_ws cs = d # r" "d \<noteq> CHR '']''"
    for c cs d r
    using that(1,5) 2(3,4) m skip_ws_length [of cs] by (intro 2(2) [OF that]) simp_all
  ultimately show ?case unfolding m by (simp split: list.split)
next
  case (4 n s)
  obtain k where m: "m = Suc k" using 4(4) by (cases m) simp_all
  have v: "p_value n s = p_value k s" using 4(3,4) m by (intro 4(1)) simp_all
  have "p_elems n (skip_ws r') = p_elems k (skip_ws r')"
    if "p_value n s = Some (v, r)" "skip_ws r = CHR '','' # r'" for v r r'
    using 4(3,4) m p_lengths(1) [OF that(1)] skip_ws_Cons [OF that(2)] skip_ws_length [of r']
    by (intro 4(2) [OF that(1) refl that(2)]) simp_all
  then show ?case unfolding m by (auto simp: v [symmetric] split: option.split list.split)
next
  case (6 n s)
  obtain k where m: "m = Suc k" using 6(4) by (cases m) simp_all
  have v: "p_value n (skip_ws r1) = p_value k (skip_ws r1)"
    if "s = CHR 0x22 # cs" "scan_string cs = Some (x, r)" "skip_ws r = CHR '':'' # r1" for cs x r r1
    using that(1) 6(3,4) m scan_string_length [OF that(2)] skip_ws_Cons [OF that(3)]
      skip_ws_length [of r1]
    by (intro 6(1) [OF that(1) _ that(2) refl that(3)]) simp_all
  have "p_members n (skip_ws r3) = p_members k (skip_ws r3)"
    if "s = CHR 0x22 # cs" "scan_string cs = Some (x, r)" "skip_ws r = CHR '':'' # r1"
      "p_value n (skip_ws r1) = Some (w, r2)" "skip_ws r2 = CHR '','' # r3" for cs x r r1 w r2 r3
    using that(1) 6(3,4) m scan_string_length [OF that(2)] skip_ws_Cons [OF that(3)]
      skip_ws_length [of r1] p_lengths(1) [OF that(4)] skip_ws_Cons [OF that(5)] skip_ws_length [of r3]
    by (intro 6(2) [OF that(1) _ that(2) refl that(3) _ that(4) refl that(5)]) simp_all
  with v show ?case unfolding m by (auto split: option.split list.split)
qed simp_all

theorem json_loads_any_fuel:
  "2 * length s < n \<Longrightarrow>
   json_loads s =
     (case p_value n (skip_ws s) of
        Some (v, r) \<Rightarrow> if skip_ws r = [] then Some v else None
      | None \<Rightarrow> None)"
  using p_fuel_irrelevant(1) [of "skip_ws s" "Suc (2 * length s)" n] skip_ws_length [of s]
  by (simp add: json_loads_def)

end
