(* ===== verification/Sha256.thy ===== *)
theory Sha256
  imports Prelude "HOL-Library.Word"
begin

unbundle bit_operations_syntax

text \<open>
  \<open>hashlib.sha256\<close> (FIPS 180-4) on byte strings, and the two views of the digest the sources
  take: \<open>hexdigest()\<close> and \<open>int.from_bytes(digest[:8], "big")\<close>.\<open>utf8\<close> is \<open>str.encode("utf-8")\<close>.
\<close>

type_synonym u32 = "32 word"

definition utf8_char :: "char \<Rightarrow> nat list" where
  "utf8_char c = (let n = of_char c in if n < 128 then [n] else [192 + n div 64, 128 + n mod 64])"

definition utf8 :: "string \<Rightarrow> nat list" where
  "utf8 s = concat (map utf8_char s)"

definition sha_k :: "u32 list" where
  "sha_k =
     [1116352408, 1899447441, 3049323471, 3921009573, 961987163, 1508970993, 2453635748, 2870763221,
      3624381080, 310598401, 607225278, 1426881987, 1925078388, 2162078206, 2614888103, 3248222580,
      3835390401, 4022224774, 264347078, 604807628, 770255983, 1249150122, 1555081692, 1996064986,
      2554220882, 2821834349, 2952996808, 3210313671, 3336571891, 3584528711, 113926993, 338241895,
      666307205, 773529912, 1294757372, 1396182291, 1695183700, 1986661051, 2177026350, 2456956037,
      2730485921, 2820302411, 3259730800, 3345764771, 3516065817, 3600352804, 4094571909, 275423344,
      430227734, 506948616, 659060556, 883997877, 958139571, 1322822218, 1537002063, 1747873779,
      1955562222, 2024104815, 2227730452, 2361852424, 2428436474, 2756734187, 3204031479, 3329325298]"

definition sha_h0 :: "u32 list" where
  "sha_h0 =
     [1779033703, 3144134277, 1013904242, 2773480762, 1359893119, 2600822924, 528734635, 1541459225]"

text \<open>Padding: the bit 1, zeros up to 56 bytes modulo 64, the bit length in eight bytes.\<close>

definition be_bytes :: "nat \<Rightarrow> int \<Rightarrow> nat list" where
  "be_bytes k n = map (\<lambda>i. nat (n div 256 ^ (k - 1 - i) mod 256)) [0..<k]"

definition sha_pad :: "nat list \<Rightarrow> nat list" where
  "sha_pad m =
     m @ 128 # replicate ((119 - length m mod 64) mod 64) 0 @ be_bytes 8 (8 * int (length m))"

definition word_of_bytes :: "nat list \<Rightarrow> u32" where
  "word_of_bytes bs = foldl (\<lambda>a b. 256 * a + of_nat b) 0 bs"

definition rotr :: "nat \<Rightarrow> u32 \<Rightarrow> u32" where
  "rotr n w = (drop_bit n w) OR (push_bit (32 - n) w)"

definition big_sigma0 :: "u32 \<Rightarrow> u32" where
  "big_sigma0 x = rotr 2 x XOR rotr 13 x XOR rotr 22 x"

definition big_sigma1 :: "u32 \<Rightarrow> u32" where
  "big_sigma1 x = rotr 6 x XOR rotr 11 x XOR rotr 25 x"

definition small_sigma0 :: "u32 \<Rightarrow> u32" where
  "small_sigma0 x = rotr 7 x XOR rotr 18 x XOR drop_bit 3 x"

definition small_sigma1 :: "u32 \<Rightarrow> u32" where
  "small_sigma1 x = rotr 17 x XOR rotr 19 x XOR drop_bit 10 x"

definition sha_ch :: "u32 \<Rightarrow> u32 \<Rightarrow> u32 \<Rightarrow> u32" where
  "sha_ch x y z = (x AND y) XOR (NOT x AND z)"

definition sha_maj :: "u32 \<Rightarrow> u32 \<Rightarrow> u32 \<Rightarrow> u32" where
  "sha_maj x y z = (x AND y) XOR (x AND z) XOR (y AND z)"

fun sha_schedule :: "nat \<Rightarrow> u32 list \<Rightarrow> u32 list" where
  "sha_schedule 0 w = w"
| "sha_schedule (Suc k) w =
     (let t = length w in
      sha_schedule k (w @ [small_sigma1 (w ! (t - 2)) + w ! (t - 7) + small_sigma0 (w ! (t - 15)) + w ! (t - 16)]))"

fun sha_round :: "u32 list \<Rightarrow> u32 \<times> u32 \<Rightarrow> u32 list" where
  "sha_round [a, b, c, d, e, f, g, h] (k, w) =
     (let t1 = h + big_sigma1 e + sha_ch e f g + k + w;
          t2 = big_sigma0 a + sha_maj a b c
      in [t1 + t2, a, b, c, d + t1, e, f, g])"
| "sha_round s _ = s"

definition sha_block :: "u32 list \<Rightarrow> nat list \<Rightarrow> u32 list" where
  "sha_block h block =
     (let w0 = map (\<lambda>i. word_of_bytes (take 4 (drop (4 * i) block))) [0..<16];
          w = sha_schedule 48 w0
      in map2 (+) h (foldl sha_round h (zip sha_k w)))"

function (sequential) sha_blocks :: "u32 list \<Rightarrow> nat list \<Rightarrow> u32 list" where
  "sha_blocks h [] = h"
| "sha_blocks h (b # bs) = sha_blocks (sha_block h (take 64 (b # bs))) (drop 64 (b # bs))"
  by pat_completeness auto
termination
  by (relation "measure (length \<circ> snd)") auto

definition sha256_words :: "nat list \<Rightarrow> u32 list" where
  "sha256_words m = sha_blocks sha_h0 (sha_pad m)"

definition sha_hex_char :: "nat \<Rightarrow> char" where
  "sha_hex_char d = ''0123456789abcdef'' ! d"

definition sha256_hexdigest :: "nat list \<Rightarrow> string" where
  "sha256_hexdigest m =
     concat (map (\<lambda>w. map (\<lambda>i. sha_hex_char (nat (uint w div 16 ^ (7 - i) mod 16))) [0..<8]) (sha256_words m))"

text \<open>The first eight bytes of the digest as a big-endian number: its first two words.\<close>

definition sha256_first8 :: "nat list \<Rightarrow> int" where
  "sha256_first8 m =
     (case sha256_words m of a # b # _ \<Rightarrow> uint a * 2 ^ 32 + uint b | _ \<Rightarrow> 0)"

section \<open>The shape of a digest\<close>

lemma length_sha_round: "length (sha_round s kw) = length s"
  by (induction s kw rule: sha_round.induct) (auto simp: Let_def)

lemma length_sha_rounds: "length (foldl sha_round s kws) = length s"
  by (induction kws arbitrary: s) (simp_all add: length_sha_round)

lemma length_sha_block: "length (sha_block h b) = length h"
  by (simp add: sha_block_def Let_def length_sha_rounds)

lemma length_sha_blocks: "length (sha_blocks h m) = length h"
  by (induction h m rule: sha_blocks.induct) (simp_all add: length_sha_block del: take_Suc_Cons drop_Suc_Cons)

lemma length_sha256_words: "length (sha256_words m) = 8"
  by (simp add: sha256_words_def length_sha_blocks sha_h0_def)

lemma sha_hex_char_in: "d < 16 \<Longrightarrow> sha_hex_char d \<in> set ''0123456789abcdef''"
  unfolding sha_hex_char_def by (rule nth_mem) simp

theorem sha256_hexdigest_is_hex64: "is_hex64 (sha256_hexdigest m)"
proof -
  have "length (concat (map (\<lambda>w. map (f w) [0..<8]) ws)) = 8 * length ws" for f :: "u32 \<Rightarrow> nat \<Rightarrow> char" and ws
    by (induction ws) simp_all
  then have "length (sha256_hexdigest m) = 64"
    by (simp add: sha256_hexdigest_def length_sha256_words)
  moreover have "c \<in> set ''0123456789abcdef''" if c: "c \<in> set (sha256_hexdigest m)" for c
  proof -
    from c obtain d :: int where "c = sha_hex_char (nat (d mod 16))"
      unfolding sha256_hexdigest_def by auto
    then show ?thesis using sha_hex_char_in [of "nat (d mod 16)"] by (simp add: nat_less_iff)
  qed
  ultimately show ?thesis unfolding is_hex64_def list_all_iff by blast
qed

lemma utf8_char_append_inject:
  assumes "utf8_char c @ r = utf8_char d @ q"
  shows "c = d \<and> r = q"
proof -
  define m n where "m = (of_char c :: nat)" and "n = (of_char d :: nat)"
  have "m div 64 = n div 64 \<Longrightarrow> m mod 64 = n mod 64 \<Longrightarrow> m = n"
    by (metis div_mult_mod_eq)
  then have "m = n \<and> r = q"
    using assms unfolding utf8_char_def Let_def m_def [symmetric] n_def [symmetric]
    by (simp split: if_splits)
  then show ?thesis unfolding m_def n_def by simp
qed

lemma utf8_inject: "utf8 s = utf8 t \<Longrightarrow> s = t"
proof (induction s arbitrary: t)
  case Nil
  then show ?case by (cases t) (auto simp: utf8_def utf8_char_def Let_def split: if_splits)
next
  case (Cons c s)
  then obtain d t' where t: "t = d # t'"
    by (cases t) (auto simp: utf8_def utf8_char_def Let_def split: if_splits)
  with Cons.prems have "utf8_char c @ utf8 s = utf8_char d @ utf8 t'"
    by (simp add: utf8_def)
  then have "c = d \<and> utf8 s = utf8 t'" by (rule utf8_char_append_inject)
  then show ?case using Cons.IH t by simp
qed

end
