(* ===== verification/Command_Receipts.thy ===== *)
theory Command_Receipts
  imports Json Sha256
begin

text \<open>
  \<open>application/command_receipts.py\<close> and \<open>adapters/sqlite/command_receipts.py\<close>: every command that arrives over
  IPC has a receipt under its idempotency key.  A receipt that has ended can be compacted into a tombstone, which
  keeps answering for the key.

  The frame \<open>transactional\<close> is shared by the stores of the catalog that follow: the flag is
  \<open>self._connection.in_transaction\<close> on entry.  In these stores every exception the work can raise is one the
  \<open>except\<close> clauses name, so work that begins its own transaction is undone when it raises.  The same frame is
  \<open>SqliteImmediateTransactionRunner.run\<close> of \<open>adapters/sqlite/transactions.py\<close>, which rolls back on any exception.
\<close>

section \<open>Exceptions and transactions\<close>

datatype store_error =
    Receipt_Conflict string
  | Receipt_Transition_Violation string
  | Receipt_Reconciliation_Violation string
  | Receipt_Store_Error string
  | Outbox_Violation string
  | Outbox_Store_Error string
  | is_Handoff_Error: Handoff_Error string
  | Handoff_Store_Error string
  | Run_Store_Error string
  | Clock_Violation string
  | is_Claim_Expired: Claim_Expired string

type_synonym ('db, 'a) store_call = "'db \<Rightarrow> (store_error + 'a) \<times> 'db"

definition transactional :: "bool \<Rightarrow> ('db, 'a) store_call \<Rightarrow> ('db, 'a) store_call" where
  "transactional outer work db =
     (case work db of
        (Inl e, db') \<Rightarrow> (Inl e, if outer then db' else db)
      | (Inr v, db') \<Rightarrow> (Inr v, db'))"

text \<open>
  With \<open>except\<close> clauses that do not name every exception: one they do not name passes, and the transaction the
  operation began stays open with what was written.
\<close>

definition transactional_except ::
  "(store_error \<Rightarrow> bool) \<Rightarrow> bool \<Rightarrow> ('db, 'a) store_call \<Rightarrow> ('db, 'a) store_call" where
  "transactional_except handled outer work db =
     (case work db of
        (Inl e, db') \<Rightarrow> (Inl e, if outer \<or> \<not> handled e then db' else db)
      | (Inr v, db') \<Rightarrow> (Inr v, db'))"

definition call_then :: "('db, 'a) store_call \<Rightarrow> ('a \<Rightarrow> ('db, 'b) store_call) \<Rightarrow> ('db, 'b) store_call" where
  "call_then m f db = (case m db of (Inl e, db') \<Rightarrow> (Inl e, db') | (Inr v, db') \<Rightarrow> f v db')"

definition call_return :: "'a \<Rightarrow> ('db, 'a) store_call" where
  "call_return v db = (Inr v, db)"

definition call_raise :: "store_error \<Rightarrow> ('db, 'a) store_call" where
  "call_raise e db = (Inl e, db)"

lemma call_simps [simp]:
  "call_return v db = (Inr v, db)" "call_raise e db = (Inl e, db)"
  by (simp_all add: call_return_def call_raise_def)

lemma call_then_Inr_iff [simp]:
  "call_then m f db = (Inr v, db'') \<longleftrightarrow> (\<exists>a db'. m db = (Inr a, db') \<and> f a db' = (Inr v, db''))"
  by (auto simp: call_then_def split: prod.splits sum.splits)

lemma transactional_Inr_iff [simp]: "transactional outer work db = (Inr v, db') \<longleftrightarrow> work db = (Inr v, db')"
  by (auto simp: transactional_def split: prod.splits sum.splits)

lemma transactional_except_Inr_iff [simp]:
  "transactional_except handled outer work db = (Inr v, db') \<longleftrightarrow> work db = (Inr v, db')"
  by (auto simp: transactional_except_def split: prod.splits sum.splits)

lemma transactional_alone_raises: "transactional False work db = (Inl e, db') \<Longrightarrow> db' = db"
  by (auto simp: transactional_def split: prod.splits sum.splits)

lemma transactional_raises_code:
  "fst (transactional outer work db) = fst (work db)"
  by (auto simp: transactional_def split: prod.splits sum.splits)

section \<open>Receipts\<close>

datatype CommandReceiptState =
  RECEIPT_RECEIVED | RECEIPT_VALIDATED | RECEIPT_EFFECT_PREPARED | RECEIPT_ACCEPTED | RECEIPT_RUNNING
  | RECEIPT_SUCCEEDED | RECEIPT_REJECTED | RECEIPT_FAILED | RECEIPT_CANCELLED

fun receipt_state_value :: "CommandReceiptState \<Rightarrow> string" where
  "receipt_state_value RECEIPT_RECEIVED = ''RECEIVED''"
| "receipt_state_value RECEIPT_VALIDATED = ''VALIDATED''"
| "receipt_state_value RECEIPT_EFFECT_PREPARED = ''EFFECT_PREPARED''"
| "receipt_state_value RECEIPT_ACCEPTED = ''ACCEPTED''"
| "receipt_state_value RECEIPT_RUNNING = ''RUNNING''"
| "receipt_state_value RECEIPT_SUCCEEDED = ''SUCCEEDED''"
| "receipt_state_value RECEIPT_REJECTED = ''REJECTED''"
| "receipt_state_value RECEIPT_FAILED = ''FAILED''"
| "receipt_state_value RECEIPT_CANCELLED = ''CANCELLED''"

definition TERMINAL_COMMAND_RECEIPT_STATES :: "CommandReceiptState list" where
  "TERMINAL_COMMAND_RECEIPT_STATES = [RECEIPT_SUCCEEDED, RECEIPT_REJECTED, RECEIPT_FAILED, RECEIPT_CANCELLED]"

definition EARLY_RECONCILABLE_COMMAND_RECEIPT_STATES :: "CommandReceiptState list" where
  "EARLY_RECONCILABLE_COMMAND_RECEIPT_STATES = [RECEIPT_RECEIVED, RECEIPT_VALIDATED]"

definition PENDING_EFFECT_RECONCILIATION_COMMAND_RECEIPT_STATES :: "CommandReceiptState list" where
  "PENDING_EFFECT_RECONCILIATION_COMMAND_RECEIPT_STATES =
     [RECEIPT_EFFECT_PREPARED, RECEIPT_ACCEPTED, RECEIPT_RUNNING]"

fun COMMAND_RECEIPT_TRANSITIONS :: "CommandReceiptState \<Rightarrow> CommandReceiptState list" where
  "COMMAND_RECEIPT_TRANSITIONS RECEIPT_RECEIVED = [RECEIPT_VALIDATED, RECEIPT_REJECTED]"
| "COMMAND_RECEIPT_TRANSITIONS RECEIPT_VALIDATED = [RECEIPT_EFFECT_PREPARED, RECEIPT_REJECTED]"
| "COMMAND_RECEIPT_TRANSITIONS RECEIPT_EFFECT_PREPARED = [RECEIPT_ACCEPTED, RECEIPT_FAILED]"
| "COMMAND_RECEIPT_TRANSITIONS RECEIPT_ACCEPTED =
     [RECEIPT_RUNNING, RECEIPT_SUCCEEDED, RECEIPT_FAILED, RECEIPT_CANCELLED]"
| "COMMAND_RECEIPT_TRANSITIONS RECEIPT_RUNNING = [RECEIPT_SUCCEEDED, RECEIPT_FAILED, RECEIPT_CANCELLED]"
| "COMMAND_RECEIPT_TRANSITIONS _ = []"

record CommandReceipt =
  cr_request_id :: string
  cr_client_instance_id :: string
  cr_principal_fingerprint :: string
  cr_idempotency_key :: string
  cr_command_name :: string
  cr_payload_hash :: string
  cr_protocol_version :: int
  cr_schema_version :: int
  cr_state :: CommandReceiptState
  cr_expected_entity_revision :: "int option"
  cr_payload_hash_scope :: string
  cr_payload_canonicalization_algorithm :: string
  cr_payload_hash_algorithm :: string
  cr_result_entity_type :: "string option"
  cr_result_entity_id :: "string option"
  cr_rejection_reason :: "string option"

text \<open>What a repeated command has to agree in with the one that was recorded, in the order of the comparison.\<close>

definition ensure_idempotency_compatible :: "CommandReceipt \<Rightarrow> CommandReceipt \<Rightarrow> store_error + CommandReceipt" where
  "ensure_idempotency_compatible existing incoming =
     (case List.find snd
         [(''client_instance_id'', cr_client_instance_id existing \<noteq> cr_client_instance_id incoming),
          (''principal_fingerprint'', cr_principal_fingerprint existing \<noteq> cr_principal_fingerprint incoming),
          (''command_name'', cr_command_name existing \<noteq> cr_command_name incoming),
          (''expected_entity_revision'', cr_expected_entity_revision existing \<noteq> cr_expected_entity_revision incoming),
          (''payload_hash_scope'', cr_payload_hash_scope existing \<noteq> cr_payload_hash_scope incoming),
          (''payload_canonicalization_algorithm'',
             cr_payload_canonicalization_algorithm existing \<noteq> cr_payload_canonicalization_algorithm incoming),
          (''payload_hash_algorithm'', cr_payload_hash_algorithm existing \<noteq> cr_payload_hash_algorithm incoming),
          (''payload_hash'', cr_payload_hash existing \<noteq> cr_payload_hash incoming),
          (''protocol_version'', cr_protocol_version existing \<noteq> cr_protocol_version incoming),
          (''schema_version'', cr_schema_version existing \<noteq> cr_schema_version incoming)] of
        None \<Rightarrow> Inr existing
      | Some (field, _) \<Rightarrow> Inl (Receipt_Conflict (''COMMAND_IDEMPOTENCY_CONFLICT:'' @ field)))"

definition keep_or :: "'a option \<Rightarrow> 'a option \<Rightarrow> 'a option" where
  "keep_or new old = (case new of None \<Rightarrow> old | Some v \<Rightarrow> Some v)"

definition transition_command_receipt ::
  "CommandReceipt \<Rightarrow> CommandReceiptState \<Rightarrow> string option \<Rightarrow> string option \<Rightarrow> string option \<Rightarrow>
   store_error + CommandReceipt"
where
  "transition_command_receipt receipt next_state entity_type entity_id rejection =
     (if cr_state receipt = next_state then Inr receipt
      else if next_state \<notin> set (COMMAND_RECEIPT_TRANSITIONS (cr_state receipt))
      then Inl (Receipt_Transition_Violation (''COMMAND_RECEIPT_TRANSITION_FORBIDDEN:''
        @ receipt_state_value (cr_state receipt) @ ''->'' @ receipt_state_value next_state))
      else Inr (receipt\<lparr>cr_state := next_state,
        cr_result_entity_type := keep_or entity_type (cr_result_entity_type receipt),
        cr_result_entity_id := keep_or entity_id (cr_result_entity_id receipt),
        cr_rejection_reason := keep_or rejection (cr_rejection_reason receipt)\<rparr>))"

section \<open>Reconciliation after startup\<close>

definition MAX_COMMAND_RECEIPT_STARTUP_RECONCILIATION_LIMIT :: int where
  "MAX_COMMAND_RECEIPT_STARTUP_RECONCILIATION_LIMIT = 1000"

definition COMMAND_RECEIPT_REJECTED_AFTER_STARTUP_RECONCILIATION :: string where
  "COMMAND_RECEIPT_REJECTED_AFTER_STARTUP_RECONCILIATION = ''COMMAND_RECEIPT_REJECTED_AFTER_STARTUP_RECONCILIATION''"

record ReceiptReconciliationRequest =
  rrq_reconciler_instance_id :: string
  rrq_limit :: int

record ReceiptReconciliationReport =
  rrp_reconciler_instance_id :: string
  rrp_scanned :: nat
  rrp_rejected_idempotency_keys :: "string list"
  rrp_pending_effect_reconciliation_keys :: "string list"

definition validate_receipt_reconciliation_request :: "ReceiptReconciliationRequest \<Rightarrow> store_error + unit" where
  "validate_receipt_reconciliation_request q =
     (if blank (rrq_reconciler_instance_id q)
      then Inl (Receipt_Reconciliation_Violation ''COMMAND_RECEIPT_RECONCILIATION_REQUIRES_RECONCILER'')
      else if rrq_limit q < 1
      then Inl (Receipt_Reconciliation_Violation ''COMMAND_RECEIPT_RECONCILIATION_LIMIT_MUST_BE_POSITIVE'')
      else if rrq_limit q > MAX_COMMAND_RECEIPT_STARTUP_RECONCILIATION_LIMIT
      then Inl (Receipt_Reconciliation_Violation ''COMMAND_RECEIPT_RECONCILIATION_LIMIT_TOO_LARGE'')
      else Inr ())"

definition reject_early_command_receipt_after_startup ::
  "CommandReceipt \<Rightarrow> ReceiptReconciliationRequest \<Rightarrow> store_error + CommandReceipt" where
  "reject_early_command_receipt_after_startup receipt q =
     and_then (validate_receipt_reconciliation_request q) (\<lambda>_.
       if cr_state receipt \<notin> set EARLY_RECONCILABLE_COMMAND_RECEIPT_STATES
       then Inl (Receipt_Reconciliation_Violation ''COMMAND_RECEIPT_RECONCILIATION_REQUIRES_EARLY_STATE'')
       else transition_command_receipt receipt RECEIPT_REJECTED None None
         (Some COMMAND_RECEIPT_REJECTED_AFTER_STARTUP_RECONCILIATION))"

section \<open>The tables\<close>

record receipt_row =
  rcr_receipt :: CommandReceipt
  rcr_created_utc :: string
  rcr_updated_utc :: string

record tombstone_row =
  tbr_receipt :: CommandReceipt
  tbr_terminal_effect_hash :: string
  tbr_first_seen_utc :: string
  tbr_compacted_utc :: string

record receipt_tables =
  rcs_receipts :: "receipt_row list"
  rcs_tombstones :: "tombstone_row list"

definition receipt_key :: "receipt_row \<Rightarrow> string" where
  "receipt_key r = cr_idempotency_key (rcr_receipt r)"

definition tombstone_key :: "tombstone_row \<Rightarrow> string" where
  "tombstone_key r = cr_idempotency_key (tbr_receipt r)"

definition load_active_command_receipt :: "string \<Rightarrow> receipt_tables \<Rightarrow> CommandReceipt option" where
  "load_active_command_receipt key t =
     map_option rcr_receipt (List.find (\<lambda>r. receipt_key r = key) (rcs_receipts t))"

definition load_command_tombstone :: "string \<Rightarrow> receipt_tables \<Rightarrow> CommandReceipt option" where
  "load_command_tombstone key t =
     map_option tbr_receipt (List.find (\<lambda>r. tombstone_key r = key) (rcs_tombstones t))"

definition load_command_receipt :: "string \<Rightarrow> receipt_tables \<Rightarrow> CommandReceipt option" where
  "load_command_receipt key t =
     (case load_active_command_receipt key t of
        None \<Rightarrow> load_command_tombstone key t
      | Some receipt \<Rightarrow> Some receipt)"

section \<open>The store\<close>

definition record_received :: "bool \<Rightarrow> string \<Rightarrow> CommandReceipt \<Rightarrow> (receipt_tables, CommandReceipt) store_call" where
  "record_received outer now receipt t =
     (case load_command_receipt (cr_idempotency_key receipt) t of
        Some existing \<Rightarrow> (ensure_idempotency_compatible existing receipt, t)
      | None \<Rightarrow>
          transactional outer (\<lambda>t.
            if cr_idempotency_key receipt \<in> set (map receipt_key (rcs_receipts t))
            then (Inl (Receipt_Store_Error ''COMMAND_RECEIPT_RECORD_FAILED''), t)
            else (Inr receipt, t\<lparr>rcs_receipts := rcs_receipts t
                @ [\<lparr>rcr_receipt = receipt, rcr_created_utc = now, rcr_updated_utc = now\<rparr>]\<rparr>)) t)"

definition update_command_receipt :: "bool \<Rightarrow> string \<Rightarrow> CommandReceipt \<Rightarrow> (receipt_tables, unit) store_call" where
  "update_command_receipt outer now receipt =
     transactional outer (\<lambda>t.
       let same = (\<lambda>r. receipt_key r = cr_idempotency_key receipt);
           t' = t\<lparr>rcs_receipts := sql_update same
                  (\<lambda>r. r\<lparr>rcr_receipt := receipt, rcr_updated_utc := now\<rparr>) (rcs_receipts t)\<rparr>
       in if sql_count same (rcs_receipts t) \<noteq> 1
          then (Inl (Receipt_Store_Error ''COMMAND_RECEIPT_NOT_FOUND''), t')
          else (Inr (), t'))"

definition terminal_effect_hash :: "CommandReceipt \<Rightarrow> string" where
  "terminal_effect_hash r =
     sha256_hexdigest (utf8 (json_dumps True (JObj
       [(''command_name'', JStr (cr_command_name r)),
        (''idempotency_key'', JStr (cr_idempotency_key r)),
        (''rejection_reason'', (case cr_rejection_reason r of None \<Rightarrow> JNull | Some s \<Rightarrow> JStr s)),
        (''result_entity_id'', (case cr_result_entity_id r of None \<Rightarrow> JNull | Some s \<Rightarrow> JStr s)),
        (''result_entity_type'', (case cr_result_entity_type r of None \<Rightarrow> JNull | Some s \<Rightarrow> JStr s)),
        (''terminal_state'', JStr (receipt_state_value (cr_state r)))])))"

text \<open>
  The tombstone's constraints: one per key, a payload hash of 64 characters.  \<open>referenced\<close> tells whether a run
  refers to the receipt, in which case the foreign key of \<open>runs\<close> forbids its deletion.
\<close>

definition compact_work ::
  "(string \<Rightarrow> bool) \<Rightarrow> string \<Rightarrow> string \<Rightarrow> (receipt_tables, CommandReceipt) store_call" where
  "compact_work referenced now key t =
     (case List.find (\<lambda>r. receipt_key r = key) (rcs_receipts t) of
        None \<Rightarrow>
          (case load_command_tombstone key t of
             None \<Rightarrow> (Inl (Receipt_Store_Error ''COMMAND_RECEIPT_NOT_FOUND''), t)
           | Some compacted \<Rightarrow> (Inr compacted, t))
      | Some row \<Rightarrow>
          let receipt = rcr_receipt row;
              stone = \<lparr>tbr_receipt = receipt, tbr_terminal_effect_hash = terminal_effect_hash receipt,
                       tbr_first_seen_utc = rcr_created_utc row, tbr_compacted_utc = now\<rparr>;
              inserted = t\<lparr>rcs_tombstones := rcs_tombstones t @ [stone]\<rparr>
          in if cr_state receipt \<notin> set TERMINAL_COMMAND_RECEIPT_STATES
             then (Inl (Receipt_Store_Error ''COMMAND_RECEIPT_COMPACTION_REQUIRES_TERMINAL''), t)
             else if key \<in> set (map tombstone_key (rcs_tombstones t)) \<or> length (cr_payload_hash receipt) \<noteq> 64
             then (Inl (Receipt_Store_Error ''COMMAND_RECEIPT_COMPACTION_FAILED''), t)
             else if referenced key
             then (Inl (Receipt_Store_Error ''COMMAND_RECEIPT_COMPACTION_FAILED''), inserted)
             else if sql_count (\<lambda>r. receipt_key r = key) (rcs_receipts t) \<noteq> 1
             then (Inl (Receipt_Store_Error ''COMMAND_RECEIPT_COMPACTION_DELETE_FAILED''), inserted)
             else (Inr receipt, inserted\<lparr>rcs_receipts := filter (\<lambda>r. receipt_key r \<noteq> key) (rcs_receipts t)\<rparr>))"

definition compact_terminal_command_receipt ::
  "(string \<Rightarrow> bool) \<Rightarrow> bool \<Rightarrow> string \<Rightarrow> string \<Rightarrow> (receipt_tables, CommandReceipt) store_call" where
  "compact_terminal_command_receipt referenced outer now key = transactional outer (compact_work referenced now key)"

text \<open>The rows the reconciliation selected, handled one after the other.\<close>

fun reconcile_receipts ::
  "string \<Rightarrow> (string \<times> CommandReceiptState) list \<Rightarrow> (receipt_tables, string list \<times> string list) store_call" where
  "reconcile_receipts now [] t = (Inr ([], []), t)"
| "reconcile_receipts now ((key, state) # rows) t =
     (if state \<in> set EARLY_RECONCILABLE_COMMAND_RECEIPT_STATES then
        (let same = (\<lambda>r. receipt_key r = key \<and> cr_state (rcr_receipt r) = state);
             t' = t\<lparr>rcs_receipts := sql_update same
                    (\<lambda>r. r\<lparr>rcr_receipt := (rcr_receipt r)\<lparr>cr_state := RECEIPT_REJECTED,
                        cr_rejection_reason := Some COMMAND_RECEIPT_REJECTED_AFTER_STARTUP_RECONCILIATION\<rparr>,
                      rcr_updated_utc := now\<rparr>) (rcs_receipts t)\<rparr>
         in if sql_count same (rcs_receipts t) \<noteq> 1
            then (Inl (Receipt_Store_Error ''COMMAND_RECEIPT_RECONCILIATION_STATE_CONFLICT''), t')
            else call_then (reconcile_receipts now rows)
              (\<lambda>(rejected, pending). call_return (key # rejected, pending)) t')
      else if state \<in> set PENDING_EFFECT_RECONCILIATION_COMMAND_RECEIPT_STATES then
        call_then (reconcile_receipts now rows)
          (\<lambda>(rejected, pending). call_return (rejected, key # pending)) t
      else (Inl (Receipt_Store_Error ''COMMAND_RECEIPT_RECONCILIATION_STATE_UNSUPPORTED''), t))"

definition open_receipts :: "nat \<Rightarrow> receipt_tables \<Rightarrow> (string \<times> CommandReceiptState) list" where
  "open_receipts n t =
     map (\<lambda>r. (receipt_key r, cr_state (rcr_receipt r)))
       (take n (sort_key (\<lambda>r. (rcr_updated_utc r, receipt_key r))
         (filter (\<lambda>r. cr_state (rcr_receipt r) \<in> set
             (EARLY_RECONCILABLE_COMMAND_RECEIPT_STATES @ PENDING_EFFECT_RECONCILIATION_COMMAND_RECEIPT_STATES))
           (rcs_receipts t))))"

definition reconcile_non_terminal_after_startup ::
  "bool \<Rightarrow> string \<Rightarrow> ReceiptReconciliationRequest \<Rightarrow> (receipt_tables, ReceiptReconciliationReport) store_call" where
  "reconcile_non_terminal_after_startup outer now q t =
     (case validate_receipt_reconciliation_request q of
        Inl e \<Rightarrow> (Inl e, t)
      | Inr _ \<Rightarrow>
          transactional outer (\<lambda>t.
            let rows = open_receipts (nat (rrq_limit q)) t
            in call_then (reconcile_receipts now rows)
              (\<lambda>(rejected, pending). call_return
                \<lparr>rrp_reconciler_instance_id = rrq_reconciler_instance_id q, rrp_scanned = length rows,
                 rrp_rejected_idempotency_keys = rejected,
                 rrp_pending_effect_reconciliation_keys = pending\<rparr>) t) t)"

end
