(* ===== verification/Evolving_Store.thy ===== *)
theory Evolving_Store
  imports Prelude
begin

text \<open>
  The contract the stores of receipts, of the outbox and of the handoffs share: every step keeps an invariant and
  moves the store forward, in an order of its own that says what is never lost or changed.  Everything reached by
  steps then keeps both.
\<close>

locale evolving_store =
  fixes step :: "'s \<Rightarrow> 's \<Rightarrow> bool"
    and inv :: "'s \<Rightarrow> bool"
    and follows :: "'s \<Rightarrow> 's \<Rightarrow> bool"
  assumes step_keeps: "step s s' \<Longrightarrow> inv s \<Longrightarrow> inv s' \<and> follows s s'"
    and follows_refl: "follows s s"
    and follows_trans: "follows s s' \<Longrightarrow> follows s' s'' \<Longrightarrow> follows s s''"
begin

lemma all_steps_keep:
  assumes "step\<^sup>*\<^sup>* s s'" "inv s"
  shows "inv s' \<and> follows s s'"
  using assms(1)
proof (induction rule: rtranclp_induct)
  case base
  then show ?case using assms(2) follows_refl by simp
next
  case (step u v)
  then have "inv v \<and> follows u v" by (intro step_keeps) simp_all
  then show ?case using step.IH follows_trans by blast
qed

lemma reached_inv: "inv s \<Longrightarrow> step\<^sup>*\<^sup>* s s' \<Longrightarrow> inv s'"
  using all_steps_keep by blast

lemma reached_follows: "inv s \<Longrightarrow> step\<^sup>*\<^sup>* s s' \<Longrightarrow> follows s s'"
  using all_steps_keep by blast

end

end
