(* ===== verification/Receipt_Laws.thy ===== *)
theory Receipt_Laws
  imports Command_Receipts Evolving_Store
begin

text \<open>
  What the store of command receipts keeps: one receipt or tombstone per key, and, for a key that has one, the
  command it was recorded with and a state that only moves along the transitions.
\<close>

section \<open>How a receipt may change\<close>

text \<open>The part of a receipt that says which command it stands for.\<close>

definition command_identity :: "CommandReceipt \<Rightarrow> CommandReceipt" where
  "command_identity r = r\<lparr>cr_state := RECEIPT_RECEIVED, cr_result_entity_type := None,
     cr_result_entity_id := None, cr_rejection_reason := None\<rparr>"

definition receipt_transitions :: "(CommandReceiptState \<times> CommandReceiptState) set" where
  "receipt_transitions = {(a, b). b \<in> set (COMMAND_RECEIPT_TRANSITIONS a)}"

definition receipt_follows :: "CommandReceipt \<Rightarrow> CommandReceipt \<Rightarrow> bool" where
  "receipt_follows r r' \<longleftrightarrow>
     command_identity r' = command_identity r \<and> (cr_state r, cr_state r') \<in> receipt_transitions\<^sup>*
     \<and> (cr_state r \<in> set TERMINAL_COMMAND_RECEIPT_STATES \<longrightarrow> r' = r)"

lemma command_identity_key: "command_identity r' = command_identity r \<Longrightarrow> cr_idempotency_key r' = cr_idempotency_key r"
  by (cases r; cases r') (simp add: command_identity_def)

lemma receipt_follows_refl [simp]: "receipt_follows r r"
  by (simp add: receipt_follows_def)

lemma receipt_follows_trans: "receipt_follows r r' \<Longrightarrow> receipt_follows r' r'' \<Longrightarrow> receipt_follows r r''"
  unfolding receipt_follows_def by (auto intro: rtrancl_trans)

lemma terminal_has_no_transition:
  "cr_state r \<in> set TERMINAL_COMMAND_RECEIPT_STATES \<Longrightarrow> COMMAND_RECEIPT_TRANSITIONS (cr_state r) = []"
  by (auto simp: TERMINAL_COMMAND_RECEIPT_STATES_def)

lemma one_transition_follows:
  assumes "command_identity r' = command_identity r" "cr_state r' \<in> set (COMMAND_RECEIPT_TRANSITIONS (cr_state r))"
  shows "receipt_follows r r'"
  using assms terminal_has_no_transition [of r]
  by (auto simp: receipt_follows_def receipt_transitions_def)

lemma transition_follows:
  assumes "transition_command_receipt r s a b c = Inr r'"
  shows "receipt_follows r r'"
proof (cases "cr_state r = s")
  case True
  then show ?thesis using assms by (simp add: transition_command_receipt_def)
next
  case False
  then have "s \<in> set (COMMAND_RECEIPT_TRANSITIONS (cr_state r))" and r': "cr_state r' = s"
    and i: "command_identity r' = command_identity r"
    using assms by (auto simp: transition_command_receipt_def command_identity_def split: if_splits)
  then show ?thesis by (intro one_transition_follows [OF i]) simp
qed

section \<open>The invariant\<close>

definition receipt_inv :: "receipt_tables \<Rightarrow> bool" where
  "receipt_inv t \<longleftrightarrow>
     distinct (map receipt_key (rcs_receipts t)) \<and> distinct (map tombstone_key (rcs_tombstones t))
     \<and> set (map receipt_key (rcs_receipts t)) \<inter> set (map tombstone_key (rcs_tombstones t)) = {}
     \<and> (\<forall>s \<in> set (rcs_tombstones t). cr_state (tbr_receipt s) \<in> set TERMINAL_COMMAND_RECEIPT_STATES)"

definition empty_receipt_tables :: receipt_tables where
  "empty_receipt_tables = \<lparr>rcs_receipts = [], rcs_tombstones = []\<rparr>"

text \<open>Every key keeps its receipt, which may have moved on.\<close>

definition receipts_follow :: "receipt_tables \<Rightarrow> receipt_tables \<Rightarrow> bool" where
  "receipts_follow t t' \<longleftrightarrow>
     (\<forall>k r. load_command_receipt k t = Some r \<longrightarrow>
        (\<exists>r'. load_command_receipt k t' = Some r' \<and> receipt_follows r r'))"

lemma receipts_follow_refl [simp]: "receipts_follow t t"
  by (simp add: receipts_follow_def)

lemma receipts_follow_trans: "receipts_follow t t' \<Longrightarrow> receipts_follow t' t'' \<Longrightarrow> receipts_follow t t''"
  unfolding receipts_follow_def by (meson receipt_follows_trans)

lemma loaded_key: "load_command_receipt k t = Some r \<Longrightarrow> cr_idempotency_key r = k"
  by (auto simp: load_command_receipt_def load_active_command_receipt_def load_command_tombstone_def
      receipt_key_def tombstone_key_def dest: find_Some_iff' split: option.splits)

lemma active_None_iff: "load_active_command_receipt k t = None \<longleftrightarrow> k \<notin> set (map receipt_key (rcs_receipts t))"
  by (auto simp: load_active_command_receipt_def find_None_iff')

lemma tombstone_None_iff: "load_command_tombstone k t = None \<longleftrightarrow> k \<notin> set (map tombstone_key (rcs_tombstones t))"
  by (auto simp: load_command_tombstone_def find_None_iff')

lemma load_None_iff:
  "load_command_receipt k t = None \<longleftrightarrow>
     k \<notin> set (map receipt_key (rcs_receipts t)) \<and> k \<notin> set (map tombstone_key (rcs_tombstones t))"
  using active_None_iff [of k t] tombstone_None_iff [of k t]
  by (cases "load_active_command_receipt k t") (simp_all add: load_command_receipt_def)

section \<open>Recording and updating\<close>

text \<open>A key that is known is answered from the table; a new one is recorded.\<close>

lemma record_known:
  "load_command_receipt (cr_idempotency_key r) t = Some existing \<Longrightarrow>
     record_received outer now r t = (ensure_idempotency_compatible existing r, t)"
  by (simp add: record_received_def)

lemma record_new:
  assumes "load_command_receipt (cr_idempotency_key r) t = None"
  shows "record_received outer now r t = (Inr r, t\<lparr>rcs_receipts := rcs_receipts t
           @ [\<lparr>rcr_receipt = r, rcr_created_utc = now, rcr_updated_utc = now\<rparr>]\<rparr>)"
  using assms load_None_iff [of "cr_idempotency_key r" t] by (simp add: record_received_def transactional_def)

lemma record_received_keeps:
  assumes "record_received outer now r t = (Inr v, t')" "receipt_inv t"
  shows "receipt_inv t' \<and> receipts_follow t t'"
proof (cases "load_command_receipt (cr_idempotency_key r) t")
  case None
  let ?row = "\<lparr>rcr_receipt = r, rcr_created_utc = now, rcr_updated_utc = now\<rparr>"
  have t': "t' = t\<lparr>rcs_receipts := rcs_receipts t @ [?row]\<rparr>"
    using assms(1) record_new [OF None, of outer now] by auto
  have key: "receipt_key ?row = cr_idempotency_key r" by (simp add: receipt_key_def)
  have "receipt_inv t'"
    using assms(2) None unfolding load_None_iff by (simp add: t' receipt_inv_def key)
  moreover have "load_command_receipt k t' = load_command_receipt k t"
    if "load_command_receipt k t \<noteq> None" for k
  proof -
    have "k \<noteq> cr_idempotency_key r" using that None by auto
    then show ?thesis
      by (simp add: t' load_command_receipt_def load_active_command_receipt_def load_command_tombstone_def
          find_append key split: option.split)
  qed
  ultimately show ?thesis by (fastforce simp: receipts_follow_def)
next
  case (Some existing)
  then show ?thesis using assms by (simp add: record_known)
qed

lemma update_receipt_keeps:
  assumes load: "load_command_receipt (cr_idempotency_key r) t = Some r0" and follows: "receipt_follows r0 r"
    and update: "update_command_receipt outer now r t = (Inr (), t')" and inv: "receipt_inv t"
  shows "receipt_inv t' \<and> receipts_follow t t'"
proof -
  let ?k = "cr_idempotency_key r"
  have t': "t' = t\<lparr>rcs_receipts := sql_update (\<lambda>x. receipt_key x = ?k)
      (\<lambda>x. x\<lparr>rcr_receipt := r, rcr_updated_utc := now\<rparr>) (rcs_receipts t)\<rparr>"
    using update by (auto simp: update_command_receipt_def Let_def split: if_splits)
  have keys: "map receipt_key (rcs_receipts t') = map receipt_key (rcs_receipts t)"
    unfolding t' by (auto simp: sql_update_def receipt_key_def)
  have inv': "receipt_inv t'" using inv keys by (simp add: receipt_inv_def t')
  have find: "List.find (\<lambda>x. receipt_key x = k) (rcs_receipts t') =
      map_option (\<lambda>x. if receipt_key x = ?k then x\<lparr>rcr_receipt := r, rcr_updated_utc := now\<rparr> else x)
        (List.find (\<lambda>x. receipt_key x = k) (rcs_receipts t))" for k
  proof -
    have "List.find (\<lambda>x. receipt_key x = k) (sql_update (\<lambda>x. receipt_key x = ?k)
        (\<lambda>x. x\<lparr>rcr_receipt := r, rcr_updated_utc := now\<rparr>) rows) =
      map_option (\<lambda>x. if receipt_key x = ?k then x\<lparr>rcr_receipt := r, rcr_updated_utc := now\<rparr> else x)
        (List.find (\<lambda>x. receipt_key x = k) rows)" for rows
      by (induction rows) (auto simp: sql_update_def receipt_key_def)
    then show ?thesis by (simp add: t')
  qed
  have "receipts_follow t t'"
    unfolding receipts_follow_def
  proof (intro allI impI)
    fix k x
    assume x: "load_command_receipt k t = Some x"
    show "\<exists>x'. load_command_receipt k t' = Some x' \<and> receipt_follows x x'"
    proof (cases "List.find (\<lambda>x. receipt_key x = k) (rcs_receipts t)")
      case None
      then show ?thesis
        using x find [of k] by (auto simp: load_command_receipt_def load_active_command_receipt_def
            load_command_tombstone_def t')
    next
      case (Some row)
      then have "receipt_key row = k" by (auto dest: find_Some_iff')
      then show ?thesis
        using x Some find [of k] load follows
        by (auto simp: load_command_receipt_def load_active_command_receipt_def)
    qed
  qed
  with inv' show ?thesis ..
qed

section \<open>Compaction\<close>

lemma compact_keeps:
  assumes "compact_terminal_command_receipt referenced outer now k t = (Inr r, t')" and inv: "receipt_inv t"
  shows "receipt_inv t' \<and> load_command_receipt k t = Some r
    \<and> (\<forall>j. load_command_receipt j t' = load_command_receipt j t) \<and> k \<notin> set (map receipt_key (rcs_receipts t'))"
proof (cases "List.find (\<lambda>r. receipt_key r = k) (rcs_receipts t)")
  case None
  then have "t' = t" "load_command_tombstone k t = Some r" "k \<notin> set (map receipt_key (rcs_receipts t))"
    using assms(1) active_None_iff [of k t]
    by (auto simp: compact_terminal_command_receipt_def compact_work_def load_active_command_receipt_def
        split: option.splits)
  then show ?thesis
    using None inv by (simp add: load_command_receipt_def load_active_command_receipt_def)
next
  case (Some row)
  define stone where "stone = \<lparr>tbr_receipt = rcr_receipt row, tbr_terminal_effect_hash = terminal_effect_hash (rcr_receipt row),
                       tbr_first_seen_utc = rcr_created_utc row, tbr_compacted_utc = now\<rparr>"
  have row: "row \<in> set (rcs_receipts t)" "receipt_key row = k" using Some by (auto dest: find_Some_iff')
  have fresh: "k \<notin> set (map tombstone_key (rcs_tombstones t))" using inv row by (auto simp: receipt_inv_def)
  have t': "t' = t\<lparr>rcs_tombstones := rcs_tombstones t @ [stone],
      rcs_receipts := filter (\<lambda>r. receipt_key r \<noteq> k) (rcs_receipts t)\<rparr>"
    and r: "r = rcr_receipt row" and terminal: "cr_state (rcr_receipt row) \<in> set TERMINAL_COMMAND_RECEIPT_STATES"
    using assms(1) Some unfolding compact_terminal_command_receipt_def compact_work_def stone_def
    by (auto simp: Let_def split: if_splits)
  have key: "tombstone_key stone = k" using row by (simp add: stone_def tombstone_key_def receipt_key_def)
  have gone: "List.find (\<lambda>r. receipt_key r = j) (filter (\<lambda>r. receipt_key r \<noteq> k) rows) =
      (if j = k then None else List.find (\<lambda>r. receipt_key r = j) rows)" for j rows
    by (induction rows) auto
  have load: "load_command_receipt j t' = load_command_receipt j t" for j
  proof (cases "j = k")
    case True
    have "List.find (\<lambda>s. tombstone_key s = k) (rcs_tombstones t) = None" using fresh by (auto simp: find_None_iff')
    then show ?thesis
      using Some key by (simp add: True t' load_command_receipt_def load_active_command_receipt_def
          load_command_tombstone_def gone find_append stone_def)
  next
    case False
    then show ?thesis
      using key by (simp add: t' load_command_receipt_def load_active_command_receipt_def
          load_command_tombstone_def gone find_append split: option.split)
  qed
  have "receipt_inv t'"
    using inv fresh key terminal by (auto simp: receipt_inv_def t' stone_def distinct_map_filter)
  moreover have "load_command_receipt k t = Some r"
    using Some r by (simp add: load_command_receipt_def load_active_command_receipt_def)
  moreover have "k \<notin> set (map receipt_key (rcs_receipts t'))" by (auto simp: t')
  ultimately show ?thesis using load by blast
qed

lemma compact_follows:
  assumes "compact_terminal_command_receipt referenced outer now k t = (Inr r, t')" "receipt_inv t"
  shows "receipt_inv t' \<and> receipts_follow t t'"
  using compact_keeps [OF assms] by (simp add: receipts_follow_def)

section \<open>Reconciliation\<close>

definition rejected_row :: "string \<Rightarrow> receipt_row \<Rightarrow> receipt_row" where
  "rejected_row now r = r\<lparr>rcr_receipt := (rcr_receipt r)\<lparr>cr_state := RECEIPT_REJECTED,
     cr_rejection_reason := Some COMMAND_RECEIPT_REJECTED_AFTER_STARTUP_RECONCILIATION\<rparr>, rcr_updated_utc := now\<rparr>"

definition rejected_rows :: "string \<Rightarrow> string set \<Rightarrow> receipt_row list \<Rightarrow> receipt_row list" where
  "rejected_rows now ks rows = map (\<lambda>r. if receipt_key r \<in> ks then rejected_row now r else r) rows"

lemma rejected_row_key [simp]: "receipt_key (rejected_row now r) = receipt_key r"
  by (simp add: rejected_row_def receipt_key_def)

lemma rejected_rows_keys [simp]: "map receipt_key (rejected_rows now ks rows) = map receipt_key rows"
  by (simp add: rejected_rows_def)

definition early_keys :: "(string \<times> CommandReceiptState) list \<Rightarrow> string list" where
  "early_keys rows = map fst (filter (\<lambda>(k, s). s \<in> set EARLY_RECONCILABLE_COMMAND_RECEIPT_STATES) rows)"

definition pending_keys :: "(string \<times> CommandReceiptState) list \<Rightarrow> string list" where
  "pending_keys rows = map fst (filter (\<lambda>(k, s). s \<notin> set EARLY_RECONCILABLE_COMMAND_RECEIPT_STATES) rows)"

text \<open>Rows that were just selected are handled to the end.\<close>

lemma reconcile_receipts_result:
  assumes "distinct (map fst rows)" "distinct (map receipt_key (rcs_receipts t))"
    and "\<forall>(k, s) \<in> set rows. (\<exists>r \<in> set (rcs_receipts t). receipt_key r = k \<and> cr_state (rcr_receipt r) = s)
           \<and> s \<in> set (EARLY_RECONCILABLE_COMMAND_RECEIPT_STATES @ PENDING_EFFECT_RECONCILIATION_COMMAND_RECEIPT_STATES)"
  shows "reconcile_receipts now rows t = (Inr (early_keys rows, pending_keys rows),
           t\<lparr>rcs_receipts := rejected_rows now (set (early_keys rows)) (rcs_receipts t)\<rparr>)"
  using assms
proof (induction rows arbitrary: t)
  case Nil
  then show ?case by (simp add: early_keys_def pending_keys_def rejected_rows_def)
next
  case (Cons p rows)
  obtain k s where p: "p = (k, s)" by fastforce
  obtain r where r: "r \<in> set (rcs_receipts t)" "receipt_key r = k" "cr_state (rcr_receipt r) = s"
    using Cons.prems(3) p by auto
  show ?case
  proof (cases "s \<in> set EARLY_RECONCILABLE_COMMAND_RECEIPT_STATES")
    case False
    then have "s \<in> set PENDING_EFFECT_RECONCILIATION_COMMAND_RECEIPT_STATES" using Cons.prems(3) p by auto
    then show ?thesis
      using Cons False p by (simp add: call_then_def early_keys_def pending_keys_def)
  next
    case True
    let ?same = "\<lambda>r. receipt_key r = k \<and> cr_state (rcr_receipt r) = s"
    define rows1 where "rows1 = sql_update ?same (rejected_row now) (rcs_receipts t)"
    have same: "?same x \<longleftrightarrow> receipt_key x = k" if "x \<in> set (rcs_receipts t)" for x
      using that r Cons.prems(2) by (metis distinct_map inj_onD)
    then have rows1: "rows1 = rejected_rows now {k} (rcs_receipts t)"
      by (auto simp: rows1_def sql_update_def rejected_rows_def)
    have "sql_count ?same (rcs_receipts t) = 1"
      by (rule sql_count_key [THEN iffD2, OF Cons.prems(2)]) (use r in auto)
    then have step: "reconcile_receipts now (p # rows) t =
        call_then (reconcile_receipts now rows) (\<lambda>(rejected, pending). call_return (k # rejected, pending))
          (t\<lparr>rcs_receipts := rows1\<rparr>)"
      using True p by (simp add: Let_def rows1_def rejected_row_def [abs_def])
    have "\<exists>x \<in> set rows1. receipt_key x = j \<and> cr_state (rcr_receipt x) = u" if "(j, u) \<in> set rows" for j u
    proof -
      have "j \<noteq> k" using that Cons.prems(1) p by force
      then show ?thesis using Cons.prems(3) that by (force simp: rows1 rejected_rows_def)
    qed
    then have "reconcile_receipts now rows (t\<lparr>rcs_receipts := rows1\<rparr>) = (Inr (early_keys rows, pending_keys rows),
        t\<lparr>rcs_receipts := rejected_rows now (set (early_keys rows)) rows1\<rparr>)"
      using Cons.prems by (subst Cons.IH) (auto simp: rows1)
    moreover have "rejected_rows now (set (early_keys rows)) rows1 =
        rejected_rows now (insert k (set (early_keys rows))) (rcs_receipts t)"
    proof -
      have "k \<notin> set (early_keys rows)" using Cons.prems(1) p by (force simp: early_keys_def)
      then show ?thesis by (auto simp: rows1 rejected_rows_def)
    qed
    ultimately show ?thesis unfolding step using True by (simp add: p call_then_def early_keys_def pending_keys_def)
  qed
qed

lemma open_receipts_rows:
  assumes "receipt_inv t"
  shows "distinct (map fst (open_receipts n t))"
    "\<forall>(k, s) \<in> set (open_receipts n t). (\<exists>r \<in> set (rcs_receipts t). receipt_key r = k \<and> cr_state (rcr_receipt r) = s)
       \<and> s \<in> set (EARLY_RECONCILABLE_COMMAND_RECEIPT_STATES @ PENDING_EFFECT_RECONCILIATION_COMMAND_RECEIPT_STATES)"
proof -
  let ?p = "\<lambda>r. cr_state (rcr_receipt r) \<in> set
             (EARLY_RECONCILABLE_COMMAND_RECEIPT_STATES @ PENDING_EFFECT_RECONCILIATION_COMMAND_RECEIPT_STATES)"
  let ?sorted = "sort_key (\<lambda>r. (rcr_updated_utc r, receipt_key r)) (filter ?p (rcs_receipts t))"
  have "distinct (map receipt_key ?sorted)"
    using assms by (simp add: receipt_inv_def distinct_map inj_on_def)
  then have "distinct (map receipt_key (take n ?sorted))" by (simp add: take_map [symmetric])
  then show "distinct (map fst (open_receipts n t))" by (simp add: open_receipts_def comp_def)
  show "\<forall>(k, s) \<in> set (open_receipts n t). (\<exists>r \<in> set (rcs_receipts t). receipt_key r = k \<and> cr_state (rcr_receipt r) = s)
       \<and> s \<in> set (EARLY_RECONCILABLE_COMMAND_RECEIPT_STATES @ PENDING_EFFECT_RECONCILIATION_COMMAND_RECEIPT_STATES)"
    by (auto simp: open_receipts_def dest!: in_set_takeD)
qed

lemma reconcile_result:
  assumes "receipt_inv t" "validate_receipt_reconciliation_request q = Inr ()"
  defines "rows \<equiv> open_receipts (nat (rrq_limit q)) t"
  shows "reconcile_non_terminal_after_startup outer now q t =
     (Inr \<lparr>rrp_reconciler_instance_id = rrq_reconciler_instance_id q, rrp_scanned = length rows,
        rrp_rejected_idempotency_keys = early_keys rows, rrp_pending_effect_reconciliation_keys = pending_keys rows\<rparr>,
      t\<lparr>rcs_receipts := rejected_rows now (set (early_keys rows)) (rcs_receipts t)\<rparr>)"
  using assms reconcile_receipts_result [OF open_receipts_rows(1) [OF assms(1)] _ open_receipts_rows(2) [OF assms(1)]]
  by (simp add: reconcile_non_terminal_after_startup_def transactional_def Let_def call_then_def receipt_inv_def)

lemma load_rejected_rows:
  "load_active_command_receipt k (t\<lparr>rcs_receipts := rejected_rows now ks (rcs_receipts t)\<rparr>) =
     map_option (\<lambda>r. if k \<in> ks then r\<lparr>cr_state := RECEIPT_REJECTED,
       cr_rejection_reason := Some COMMAND_RECEIPT_REJECTED_AFTER_STARTUP_RECONCILIATION\<rparr> else r)
       (load_active_command_receipt k t)"
proof -
  have "map_option rcr_receipt (List.find (\<lambda>r. receipt_key r = k) (rejected_rows now ks rows)) =
     map_option ((\<lambda>r. if k \<in> ks then r\<lparr>cr_state := RECEIPT_REJECTED,
       cr_rejection_reason := Some COMMAND_RECEIPT_REJECTED_AFTER_STARTUP_RECONCILIATION\<rparr> else r) \<circ> rcr_receipt)
       (List.find (\<lambda>r. receipt_key r = k) rows)" for rows
    by (induction rows) (auto simp: rejected_rows_def rejected_row_def receipt_key_def)
  then show ?thesis by (simp add: load_active_command_receipt_def option.map_comp)
qed

lemma early_key_state:
  assumes "receipt_inv t" "k \<in> set (early_keys (open_receipts n t))" "load_active_command_receipt k t = Some r"
  shows "cr_state r \<in> set EARLY_RECONCILABLE_COMMAND_RECEIPT_STATES"
proof -
  obtain s where s: "(k, s) \<in> set (open_receipts n t)" "s \<in> set EARLY_RECONCILABLE_COMMAND_RECEIPT_STATES"
    using assms(2) by (auto simp: early_keys_def)
  then obtain row where row: "row \<in> set (rcs_receipts t)" "receipt_key row = k" "cr_state (rcr_receipt row) = s"
    using open_receipts_rows(2) [OF assms(1), of n] by auto
  then have "List.find (\<lambda>r. receipt_key r = k) (rcs_receipts t) = Some row"
    using assms(1) by (intro find_unique_key) (auto simp: receipt_inv_def)
  then show ?thesis using assms(3) row s by (simp add: load_active_command_receipt_def)
qed

lemma receipt_reconcile_keeps:
  assumes "reconcile_non_terminal_after_startup outer now q t = (Inr rep, t')" and inv: "receipt_inv t"
  shows "receipt_inv t' \<and> receipts_follow t t'"
proof -
  have valid: "validate_receipt_reconciliation_request q = Inr ()"
    using assms(1) by (auto simp: reconcile_non_terminal_after_startup_def split: sum.splits)
  define rows where "rows = open_receipts (nat (rrq_limit q)) t"
  have t': "t' = t\<lparr>rcs_receipts := rejected_rows now (set (early_keys rows)) (rcs_receipts t)\<rparr>"
    using assms(1) reconcile_result [OF inv valid] by (simp add: rows_def)
  have "receipts_follow t t'"
    unfolding receipts_follow_def
  proof (intro allI impI)
    fix k r
    assume r: "load_command_receipt k t = Some r"
    have stones: "load_command_tombstone k t' = load_command_tombstone k t"
      by (simp add: t' load_command_tombstone_def)
    show "\<exists>r'. load_command_receipt k t' = Some r' \<and> receipt_follows r r'"
    proof (cases "load_active_command_receipt k t")
      case None
      then show ?thesis using r stones load_rejected_rows [of k now _ t] t' by (simp add: load_command_receipt_def)
    next
      case (Some x)
      then have x: "x = r" using r by (simp add: load_command_receipt_def)
      show ?thesis
      proof (cases "k \<in> set (early_keys rows)")
        case False
        then show ?thesis
          using Some x load_rejected_rows [of k now _ t] t' by (simp add: load_command_receipt_def)
      next
        case True
        let ?r' = "r\<lparr>cr_state := RECEIPT_REJECTED,
           cr_rejection_reason := Some COMMAND_RECEIPT_REJECTED_AFTER_STARTUP_RECONCILIATION\<rparr>"
        have "cr_state r \<in> set EARLY_RECONCILABLE_COMMAND_RECEIPT_STATES"
          using early_key_state [OF inv _ Some] True x by (simp add: rows_def)
        then have "receipt_follows r ?r'"
          by (intro one_transition_follows)
            (auto simp: command_identity_def EARLY_RECONCILABLE_COMMAND_RECEIPT_STATES_def)
        then show ?thesis
          using True Some x load_rejected_rows [of k now _ t] t' by (simp add: load_command_receipt_def)
      qed
    qed
  qed
  moreover have "receipt_inv t'" using inv by (simp add: t' receipt_inv_def)
  ultimately show ?thesis by simp
qed

section \<open>Steps of the program\<close>

text \<open>
  What the program does with receipts: it records a command, moves a receipt it has loaded along the transitions,
  compacts, and reconciles after startup.  A call that raises leaves no trace: on its own it is undone, and inside
  a caller's transaction the exception undoes that transaction.
\<close>

inductive receipt_step :: "receipt_tables \<Rightarrow> receipt_tables \<Rightarrow> bool" where
  receive: "record_received outer now r t = (Inr v, t') \<Longrightarrow> receipt_step t t'"
| advance: "load_command_receipt k t = Some r \<Longrightarrow> transition_command_receipt r s a b c = Inr r' \<Longrightarrow>
    update_command_receipt outer now r' t = (Inr (), t') \<Longrightarrow> receipt_step t t'"
| compact: "compact_terminal_command_receipt referenced outer now k t = (Inr v, t') \<Longrightarrow> receipt_step t t'"
| reconcile: "reconcile_non_terminal_after_startup outer now q t = (Inr rep, t') \<Longrightarrow> receipt_step t t'"

lemma receipt_step_keeps: "receipt_step t t' \<Longrightarrow> receipt_inv t \<Longrightarrow> receipt_inv t' \<and> receipts_follow t t'"
proof (induction rule: receipt_step.induct)
  case (advance k t r s a b c r' outer now t')
  have follows: "receipt_follows r r'" by (rule transition_follows [OF advance(2)])
  then have "cr_idempotency_key r' = cr_idempotency_key r"
    by (intro command_identity_key) (simp add: receipt_follows_def)
  then have "load_command_receipt (cr_idempotency_key r') t = Some r"
    using loaded_key [OF advance(1)] advance(1) by simp
  then show ?case by (rule update_receipt_keeps [OF _ follows advance(3,4)])
next
  case (receive outer now r t v t')
  then show ?case by (rule record_received_keeps)
next
  case (compact referenced outer now k t v t')
  then show ?case by (rule compact_follows)
next
  case (reconcile outer now q t rep t')
  then show ?case by (rule receipt_reconcile_keeps)
qed

interpretation receipts: evolving_store receipt_step receipt_inv receipts_follow
proof unfold_locales
  show "receipt_inv s' \<and> receipts_follow s s'" if "receipt_step s s'" "receipt_inv s" for s s'
    using receipt_step_keeps [OF that] .
  show "receipts_follow s s" for s by simp
  show "receipts_follow s s''" if "receipts_follow s s'" "receipts_follow s' s''" for s s' s''
    using receipts_follow_trans [OF that] .
qed

definition receipt_reachable :: "receipt_tables \<Rightarrow> bool" where
  "receipt_reachable t \<longleftrightarrow> receipt_step\<^sup>*\<^sup>* empty_receipt_tables t"

lemma receipt_reachable_inv: "receipt_reachable t \<Longrightarrow> receipt_inv t"
  unfolding receipt_reachable_def using receipts.reached_inv [of empty_receipt_tables t]
  by (simp add: receipt_inv_def empty_receipt_tables_def)

end
