(* ===== verification/Outbox.thy ===== *)
theory Outbox
  imports Command_Receipts
begin

text \<open>
  The transactional outbox: \<open>application/outbox.py\<close>, \<open>adapters/sqlite/outbox.py\<close> and the claim window of
  \<open>application/clocks.py\<close>.  A message is claimed for a limited time, delivered, and leaves a tombstone that
  answers when the same effect is enqueued again.  The delivery port and the readings of the clock are arguments.
\<close>

section \<open>Messages\<close>

datatype OutboxMessageState = OUTBOX_PENDING | OUTBOX_CLAIMED | OUTBOX_DELIVERED | OUTBOX_DEAD_LETTER

record OutboxMessage =
  om_message_id :: string
  om_message_type :: string
  om_aggregate_type :: string
  om_aggregate_id :: string
  om_idempotency_key :: string
  om_payload_json :: string
  om_payload_hash :: string
  om_state :: OutboxMessageState
  om_claim_owner_instance_id :: "string option"
  om_claim_generation :: int
  om_claim_token :: "string option"
  om_claim_started_utc :: "string option"
  om_claim_ttl_ms :: "int option"
  om_attempt_count :: int
  om_terminal_effect_hash :: "string option"
  om_last_error_code :: "string option"

datatype OutboxDeliveryOutcome = DELIVERY_DELIVERED | DELIVERY_DEAD_LETTER

record OutboxDeliveryResult =
  odr_outcome :: OutboxDeliveryOutcome
  odr_terminal_effect_hash :: "string option"
  odr_error_code :: "string option"

record OutboxDispatchResult =
  ods_claimed :: bool
  ods_delivered :: bool
  ods_dead_lettered :: bool
  ods_message_id :: "string option"
  ods_claim_expired :: bool

record OutboxReconciliationRequest =
  oqr_reconciler_instance_id :: string
  oqr_inactive_owner_instance_ids :: "string list"
  oqr_limit :: int

record OutboxReconciliationReport =
  orp_reconciler_instance_id :: string
  orp_scanned :: nat
  orp_requeued_message_ids :: "string list"

definition MAX_OUTBOX_STARTUP_RECONCILIATION_LIMIT :: int where
  "MAX_OUTBOX_STARTUP_RECONCILIATION_LIMIT = 1000"

text \<open>The owners, one after the other, with the set of those seen before.\<close>

fun validate_owners :: "string \<Rightarrow> string list \<Rightarrow> store_error + unit" where
  "validate_owners reconciler [] = Inr ()"
| "validate_owners reconciler (owner # owners) =
     (if blank owner then Inl (Outbox_Violation ''OUTBOX_RECONCILIATION_REQUIRES_INACTIVE_OWNER_PROOF'')
      else if owner = reconciler then Inl (Outbox_Violation ''OUTBOX_RECONCILIATION_CANNOT_STEAL_CURRENT_OWNER'')
      else validate_owners reconciler owners)"

definition validate_outbox_startup_reconciliation_request :: "OutboxReconciliationRequest \<Rightarrow> store_error + unit" where
  "validate_outbox_startup_reconciliation_request q =
     (if blank (oqr_reconciler_instance_id q)
      then Inl (Outbox_Violation ''OUTBOX_RECONCILIATION_REQUIRES_RECONCILER'')
      else if oqr_limit q < 1 then Inl (Outbox_Violation ''OUTBOX_RECONCILIATION_LIMIT_MUST_BE_POSITIVE'')
      else if oqr_limit q > MAX_OUTBOX_STARTUP_RECONCILIATION_LIMIT
      then Inl (Outbox_Violation ''OUTBOX_RECONCILIATION_LIMIT_TOO_LARGE'')
      else if oqr_inactive_owner_instance_ids q = []
      then Inl (Outbox_Violation ''OUTBOX_RECONCILIATION_REQUIRES_INACTIVE_OWNER_PROOF'')
      else and_then (validate_owners (oqr_reconciler_instance_id q) (oqr_inactive_owner_instance_ids q)) (\<lambda>_.
        if \<not> distinct (oqr_inactive_owner_instance_ids q)
        then Inl (Outbox_Violation ''OUTBOX_RECONCILIATION_OWNERS_MUST_BE_UNIQUE'') else Inr ()))"

definition requeued_claimed_message_after_startup ::
  "OutboxMessage \<Rightarrow> OutboxReconciliationRequest \<Rightarrow> store_error + OutboxMessage" where
  "requeued_claimed_message_after_startup m q =
     and_then (validate_outbox_startup_reconciliation_request q) (\<lambda>_.
       if om_state m \<noteq> OUTBOX_CLAIMED
       then Inl (Outbox_Violation ''OUTBOX_RECONCILIATION_REQUIRES_CLAIMED_MESSAGE'')
       else if om_claim_owner_instance_id m \<notin> Some ` set (oqr_inactive_owner_instance_ids q)
       then Inl (Outbox_Violation ''OUTBOX_RECONCILIATION_REQUIRES_INACTIVE_OWNER_PROOF'')
       else Inr (m\<lparr>om_state := OUTBOX_PENDING, om_claim_owner_instance_id := None,
         om_claim_generation := om_claim_generation m + 1, om_claim_token := None,
         om_claim_started_utc := None, om_claim_ttl_ms := None,
         om_last_error_code := Some ''OUTBOX_CLAIM_REQUEUED_AFTER_STARTUP''\<rparr>))"

definition delivered_message_from_tombstone :: "OutboxMessage \<Rightarrow> string option \<Rightarrow> store_error + OutboxMessage" where
  "delivered_message_from_tombstone m effect_hash =
     (case effect_hash of
        None \<Rightarrow> Inl (Outbox_Violation ''OUTBOX_TOMBSTONE_REQUIRES_TERMINAL_EFFECT_HASH'')
      | Some h \<Rightarrow> Inr (m\<lparr>om_state := OUTBOX_DELIVERED, om_terminal_effect_hash := Some h,
          om_last_error_code := None\<rparr>))"

definition command_effect_outbox_message :: "CommandReceipt \<Rightarrow> store_error + OutboxMessage" where
  "command_effect_outbox_message receipt =
     (if cr_state receipt \<noteq> RECEIPT_SUCCEEDED
      then Inl (Outbox_Violation ''OUTBOX_COMMAND_EFFECT_REQUIRES_SUCCEEDED_RECEIPT'')
      else
        (case (cr_result_entity_type receipt, cr_result_entity_id receipt) of
           (Some entity_type, Some entity_id) \<Rightarrow>
             let payload_json = json_dumps True (JObj
                   [(''command_name'', JStr (cr_command_name receipt)),
                    (''idempotency_key'', JStr (cr_idempotency_key receipt)),
                    (''request_id'', JStr (cr_request_id receipt)),
                    (''result_entity_id'', JStr entity_id),
                    (''result_entity_type'', JStr entity_type)])
             in Inr \<lparr>om_message_id = ''command-effect:'' @ cr_idempotency_key receipt,
                  om_message_type = ''COMMAND_EFFECT_ACCEPTED'', om_aggregate_type = entity_type,
                  om_aggregate_id = entity_id, om_idempotency_key = ''command-effect:'' @ cr_idempotency_key receipt,
                  om_payload_json = payload_json, om_payload_hash = sha256_hexdigest (utf8 payload_json),
                  om_state = OUTBOX_PENDING, om_claim_owner_instance_id = None, om_claim_generation = 0,
                  om_claim_token = None, om_claim_started_utc = None, om_claim_ttl_ms = None,
                  om_attempt_count = 0, om_terminal_effect_hash = None, om_last_error_code = None\<rparr>
         | _ \<Rightarrow> Inl (Outbox_Violation ''OUTBOX_COMMAND_EFFECT_REQUIRES_RESULT_ENTITY'')))"

definition claimed_message :: "OutboxMessage \<Rightarrow> string \<Rightarrow> string \<Rightarrow> string \<Rightarrow> int \<Rightarrow> OutboxMessage" where
  "claimed_message m owner token started_utc ttl_ms =
     m\<lparr>om_state := OUTBOX_CLAIMED, om_claim_owner_instance_id := Some owner,
       om_claim_generation := om_claim_generation m + 1, om_claim_token := Some token,
       om_claim_started_utc := Some started_utc, om_claim_ttl_ms := Some ttl_ms,
       om_attempt_count := om_attempt_count m + 1\<rparr>"

definition delivered_message :: "OutboxMessage \<Rightarrow> string \<Rightarrow> store_error + OutboxMessage" where
  "delivered_message m effect_hash =
     (if om_state m \<noteq> OUTBOX_CLAIMED then Inl (Outbox_Violation ''OUTBOX_DELIVERY_REQUIRES_CLAIMED_MESSAGE'')
      else Inr (m\<lparr>om_state := OUTBOX_DELIVERED, om_terminal_effect_hash := Some effect_hash,
        om_last_error_code := None\<rparr>))"

section \<open>The tables\<close>

record outbox_row =
  obr_message :: OutboxMessage
  obr_next_attempt_utc :: string
  obr_last_attempt_utc :: "string option"
  obr_delivered_utc :: "string option"
  obr_updated_utc :: string
  obr_row_version :: int

datatype effect_kind = EFFECT_OUTBOX | EFFECT_TRIGGER

record effect_tombstone =
  eft_deduplication_key :: string
  eft_effect_kind :: effect_kind
  eft_payload_hash :: string
  eft_terminal_state :: string
  eft_effect_entity_type :: "string option"
  eft_effect_entity_id :: "string option"
  eft_terminal_effect_hash :: "string option"
  eft_first_seen_utc :: string
  eft_compacted_utc :: string

record outbox_tables =
  obx_messages :: "outbox_row list"
  obx_tombstones :: "effect_tombstone list"

definition message_id :: "outbox_row \<Rightarrow> string" where "message_id r = om_message_id (obr_message r)"
definition message_key :: "outbox_row \<Rightarrow> string" where "message_key r = om_idempotency_key (obr_message r)"

text \<open>The constraints of \<open>outbox_messages\<close> on a row.\<close>

definition outbox_check :: "outbox_row \<Rightarrow> bool" where
  "outbox_check r \<longleftrightarrow>
     (let m = obr_message r in
      length (om_payload_hash m) = 64 \<and> 0 \<le> om_claim_generation m \<and> 0 \<le> om_attempt_count m
      \<and> 1 \<le> obr_row_version r
      \<and> (case om_claim_ttl_ms m of None \<Rightarrow> True | Some ttl \<Rightarrow> 0 < ttl)
      \<and> (case om_terminal_effect_hash m of None \<Rightarrow> True | Some h \<Rightarrow> length h = 64)
      \<and> (om_state m = OUTBOX_CLAIMED \<longrightarrow> om_claim_owner_instance_id m \<noteq> None
          \<and> om_claim_token m \<noteq> None \<and> om_claim_started_utc m \<noteq> None)
      \<and> (om_state m = OUTBOX_DELIVERED \<longrightarrow> obr_delivered_utc r \<noteq> None \<and> om_terminal_effect_hash m \<noteq> None))"

definition load_outbox_message :: "string \<Rightarrow> outbox_tables \<Rightarrow> OutboxMessage option" where
  "load_outbox_message i t = map_option obr_message (List.find (\<lambda>r. message_id r = i) (obx_messages t))"

definition load_by_idempotency_key :: "string \<Rightarrow> outbox_tables \<Rightarrow> OutboxMessage option" where
  "load_by_idempotency_key k t = map_option obr_message (List.find (\<lambda>r. message_key r = k) (obx_messages t))"

text \<open>The payload hash and the effect hash of a delivered effect.\<close>

definition load_delivered_outbox_tombstone ::
  "string \<Rightarrow> outbox_tables \<Rightarrow> store_error + (string \<times> string) option" where
  "load_delivered_outbox_tombstone k t =
     (case List.find (\<lambda>s. eft_deduplication_key s = k \<and> eft_effect_kind s = EFFECT_OUTBOX) (obx_tombstones t) of
        None \<Rightarrow> Inr None
      | Some s \<Rightarrow>
          if eft_terminal_state s \<noteq> ''DELIVERED''
          then Inl (Outbox_Store_Error ''OUTBOX_TOMBSTONE_TERMINAL_STATE_UNSUPPORTED'')
          else
            (case eft_terminal_effect_hash s of
               None \<Rightarrow> Inl (Outbox_Store_Error ''OUTBOX_TOMBSTONE_REQUIRES_TERMINAL_EFFECT_HASH'')
             | Some h \<Rightarrow> Inr (Some (eft_payload_hash s, h))))"

text \<open>An \<open>UPDATE\<close> whose \<open>WHERE\<close> has to hit exactly one row, which then has to meet the constraints.\<close>

definition update_message ::
  "(outbox_row \<Rightarrow> bool) \<Rightarrow> (outbox_row \<Rightarrow> outbox_row) \<Rightarrow> string \<Rightarrow> string \<Rightarrow> (outbox_tables, unit) store_call" where
  "update_message guard f failed mismatch t =
     (let t' = t\<lparr>obx_messages := sql_update guard (\<lambda>r. (f r)\<lparr>obr_row_version := obr_row_version r + 1\<rparr>)
                  (obx_messages t)\<rparr>
      in if \<not> list_all (\<lambda>r. guard r \<longrightarrow> outbox_check ((f r)\<lparr>obr_row_version := obr_row_version r + 1\<rparr>)) (obx_messages t)
         then (Inl (Outbox_Store_Error failed), t)
         else if sql_count guard (obx_messages t) \<noteq> 1 then (Inl (Outbox_Store_Error mismatch), t')
         else (Inr (), t'))"

definition loaded_message :: "string \<Rightarrow> string \<Rightarrow> (outbox_tables, OutboxMessage) store_call" where
  "loaded_message i code t =
     (case load_outbox_message i t of
        None \<Rightarrow> (Inl (Outbox_Store_Error code), t)
      | Some m \<Rightarrow> (Inr m, t))"

section \<open>Enqueueing\<close>

definition outbox_row_of :: "string \<Rightarrow> OutboxMessage \<Rightarrow> outbox_row" where
  "outbox_row_of now m =
     \<lparr>obr_message = m\<lparr>om_claim_owner_instance_id := None, om_claim_generation := 0, om_claim_token := None,
        om_claim_started_utc := None, om_claim_ttl_ms := None, om_attempt_count := 0,
        om_terminal_effect_hash := None, om_last_error_code := None\<rparr>,
      obr_next_attempt_utc = now, obr_last_attempt_utc = None, obr_delivered_utc = None,
      obr_updated_utc = now, obr_row_version = 1\<rparr>"

definition enqueue_work :: "string \<Rightarrow> OutboxMessage \<Rightarrow> (outbox_tables, OutboxMessage) store_call" where
  "enqueue_work now m t =
     (case load_delivered_outbox_tombstone (om_idempotency_key m) t of
        Inl e \<Rightarrow> (Inl e, t)
      | Inr tombstone \<Rightarrow>
          (case (load_by_idempotency_key (om_idempotency_key m) t, tombstone) of
             (Some existing, _) \<Rightarrow>
               if om_payload_hash existing \<noteq> om_payload_hash m
                 \<or> (case tombstone of None \<Rightarrow> False | Some (h, _) \<Rightarrow> h \<noteq> om_payload_hash existing)
               then (Inl (Outbox_Store_Error ''OUTBOX_IDEMPOTENCY_CONFLICT''), t)
               else (Inr existing, t)
           | (None, Some (h, effect_hash)) \<Rightarrow>
               if h \<noteq> om_payload_hash m then (Inl (Outbox_Store_Error ''OUTBOX_IDEMPOTENCY_CONFLICT''), t)
               else (delivered_message_from_tombstone m (Some effect_hash), t)
           | (None, None) \<Rightarrow>
               if om_message_id m \<in> set (map message_id (obx_messages t)) \<or> \<not> outbox_check (outbox_row_of now m)
               then (Inl (Outbox_Store_Error ''OUTBOX_ENQUEUE_FAILED''), t)
               else (Inr m, t\<lparr>obx_messages := obx_messages t @ [outbox_row_of now m]\<rparr>)))"

definition enqueue_outbox_message :: "bool \<Rightarrow> string \<Rightarrow> OutboxMessage \<Rightarrow> (outbox_tables, OutboxMessage) store_call" where
  "enqueue_outbox_message outer now m = transactional outer (enqueue_work now m)"

section \<open>Claims\<close>

definition utc_with_z :: "string \<Rightarrow> bool" where
  "utc_with_z s \<longleftrightarrow> \<not> blank s \<and> last s = CHR ''Z''"

definition next_pending :: "string \<Rightarrow> outbox_tables \<Rightarrow> outbox_row option" where
  "next_pending now t =
     (case sort_key (\<lambda>r. (obr_next_attempt_utc r, message_id r))
         (filter (\<lambda>r. om_state (obr_message r) = OUTBOX_PENDING \<and> obr_next_attempt_utc r \<le> now) (obx_messages t)) of
        [] \<Rightarrow> None | r # _ \<Rightarrow> Some r)"

definition claimable :: "string \<Rightarrow> int \<Rightarrow> outbox_row \<Rightarrow> bool" where
  "claimable i generation r \<longleftrightarrow>
     message_id r = i \<and> om_state (obr_message r) = OUTBOX_PENDING \<and> om_claim_generation (obr_message r) = generation"

definition claim_row :: "string \<Rightarrow> string \<Rightarrow> string \<Rightarrow> string \<Rightarrow> int \<Rightarrow> outbox_row \<Rightarrow> outbox_row" where
  "claim_row now owner token started_utc ttl_ms r =
     r\<lparr>obr_message := claimed_message (obr_message r) owner token started_utc ttl_ms,
       obr_last_attempt_utc := Some now, obr_updated_utc := now\<rparr>"

definition claim_work ::
  "string \<Rightarrow> string \<Rightarrow> string \<Rightarrow> string \<Rightarrow> int \<Rightarrow> (outbox_tables, OutboxMessage option) store_call" where
  "claim_work now owner token started_utc ttl_ms t =
     (case next_pending now t of
        None \<Rightarrow> (Inr None, t)
      | Some row \<Rightarrow>
          call_then
            (update_message
              (claimable (message_id row) (om_claim_generation (obr_message row)))
              (claim_row now owner token started_utc ttl_ms)
              ''OUTBOX_CLAIM_FAILED'' ''OUTBOX_CLAIM_CONFLICT'')
            (\<lambda>_. call_then (loaded_message (message_id row) ''OUTBOX_CLAIM_LOAD_FAILED'') (\<lambda>m. call_return (Some m))) t)"

definition claim_next_pending ::
  "bool \<Rightarrow> string \<Rightarrow> string \<Rightarrow> string \<Rightarrow> string \<Rightarrow> int \<Rightarrow> (outbox_tables, OutboxMessage option) store_call" where
  "claim_next_pending outer now owner token started_utc ttl_ms t =
     (if ttl_ms \<le> 0 then (Inl (Outbox_Store_Error ''OUTBOX_CLAIM_TTL_MUST_BE_POSITIVE''), t)
      else if \<not> utc_with_z started_utc then (Inl (Outbox_Store_Error ''OUTBOX_CLAIM_STARTED_UTC_INVALID''), t)
      else transactional outer (claim_work now owner token started_utc ttl_ms) t)"

definition holds_claim :: "string \<Rightarrow> string \<Rightarrow> outbox_row \<Rightarrow> bool" where
  "holds_claim i token r \<longleftrightarrow>
     message_id r = i \<and> om_state (obr_message r) = OUTBOX_CLAIMED \<and> om_claim_token (obr_message r) = Some token"

definition expire_row :: "string \<Rightarrow> outbox_row \<Rightarrow> outbox_row" where
  "expire_row requeued_utc r =
     r\<lparr>obr_message := (obr_message r)\<lparr>om_state := OUTBOX_PENDING, om_claim_owner_instance_id := None,
         om_claim_generation := om_claim_generation (obr_message r) + 1, om_claim_token := None,
         om_claim_started_utc := None, om_claim_ttl_ms := None,
         om_last_error_code := Some ''OUTBOX_CLAIM_REQUEUED_AFTER_MONOTONIC_EXPIRY''\<rparr>,
       obr_next_attempt_utc := requeued_utc, obr_updated_utc := requeued_utc\<rparr>"

definition requeue_expired_claim ::
  "bool \<Rightarrow> string \<Rightarrow> string \<Rightarrow> int \<Rightarrow> string \<Rightarrow> string \<Rightarrow> (outbox_tables, OutboxMessage) store_call" where
  "requeue_expired_claim outer i owner generation token requeued_utc t =
     (if generation < 1 then (Inl (Outbox_Store_Error ''OUTBOX_EXPIRED_CLAIM_GENERATION_INVALID''), t)
      else if \<not> utc_with_z requeued_utc
      then (Inl (Outbox_Store_Error ''OUTBOX_EXPIRED_CLAIM_REQUEUED_UTC_INVALID''), t)
      else transactional outer (call_then
        (update_message
          (\<lambda>r. holds_claim i token r \<and> om_claim_owner_instance_id (obr_message r) = Some owner
             \<and> om_claim_generation (obr_message r) = generation)
          (expire_row requeued_utc)
          ''OUTBOX_EXPIRED_CLAIM_REQUEUE_FAILED'' ''OUTBOX_EXPIRED_CLAIM_MISMATCH'')
        (\<lambda>_. loaded_message i ''OUTBOX_EXPIRED_CLAIM_LOAD_FAILED'')) t)"

section \<open>Ends\<close>

text \<open>\<open>INSERT ... ON CONFLICT(deduplication_key) DO UPDATE\<close>: the kind and the first sighting of a row that is there stay.\<close>

definition upsert_tombstone :: "effect_tombstone \<Rightarrow> effect_tombstone list \<Rightarrow> effect_tombstone list" where
  "upsert_tombstone s stones =
     (if eft_deduplication_key s \<in> set (map eft_deduplication_key stones)
      then sql_update (\<lambda>r. eft_deduplication_key r = eft_deduplication_key s)
        (\<lambda>r. s\<lparr>eft_effect_kind := eft_effect_kind r, eft_first_seen_utc := eft_first_seen_utc r\<rparr>) stones
      else stones @ [s])"

definition delivery_tombstone :: "string \<Rightarrow> OutboxMessage \<Rightarrow> string \<Rightarrow> effect_tombstone" where
  "delivery_tombstone now m effect_hash =
     \<lparr>eft_deduplication_key = om_idempotency_key m, eft_effect_kind = EFFECT_OUTBOX,
      eft_payload_hash = om_payload_hash m, eft_terminal_state = ''DELIVERED'',
      eft_effect_entity_type = Some (om_aggregate_type m), eft_effect_entity_id = Some (om_aggregate_id m),
      eft_terminal_effect_hash = Some effect_hash, eft_first_seen_utc = now, eft_compacted_utc = now\<rparr>"

definition deliver_row :: "string \<Rightarrow> string \<Rightarrow> outbox_row \<Rightarrow> outbox_row" where
  "deliver_row now effect_hash r =
     r\<lparr>obr_message := (obr_message r)\<lparr>om_state := OUTBOX_DELIVERED,
         om_terminal_effect_hash := Some effect_hash, om_last_error_code := None\<rparr>,
       obr_delivered_utc := Some now, obr_updated_utc := now\<rparr>"

definition mark_delivered_work :: "string \<Rightarrow> string \<Rightarrow> string \<Rightarrow> string \<Rightarrow> (outbox_tables, OutboxMessage) store_call" where
  "mark_delivered_work now i token effect_hash t =
     (case load_outbox_message i t of
        None \<Rightarrow> (Inl (Outbox_Store_Error ''OUTBOX_MESSAGE_NOT_FOUND''), t)
      | Some m \<Rightarrow>
          call_then
            (update_message
              (\<lambda>r. holds_claim i token r \<and> om_payload_hash (obr_message r) = om_payload_hash m)
              (deliver_row now effect_hash)
              ''OUTBOX_DELIVERY_FAILED'' ''OUTBOX_DELIVERY_CLAIM_MISMATCH'')
            (\<lambda>_ t'. loaded_message i ''OUTBOX_DELIVERY_LOAD_FAILED''
              (t'\<lparr>obx_tombstones := upsert_tombstone
                 (delivery_tombstone now m effect_hash) (obx_tombstones t')\<rparr>)) t)"

definition mark_delivered ::
  "bool \<Rightarrow> string \<Rightarrow> string \<Rightarrow> string \<Rightarrow> string \<Rightarrow> (outbox_tables, OutboxMessage) store_call" where
  "mark_delivered outer now i token effect_hash = transactional outer (mark_delivered_work now i token effect_hash)"

definition dead_letter_row :: "string \<Rightarrow> string \<Rightarrow> outbox_row \<Rightarrow> outbox_row" where
  "dead_letter_row now error_code r =
     r\<lparr>obr_message := (obr_message r)\<lparr>om_state := OUTBOX_DEAD_LETTER, om_last_error_code := Some error_code\<rparr>,
       obr_updated_utc := now\<rparr>"

definition mark_dead_letter ::
  "bool \<Rightarrow> string \<Rightarrow> string \<Rightarrow> string \<Rightarrow> string \<Rightarrow> (outbox_tables, OutboxMessage) store_call" where
  "mark_dead_letter outer now i token error_code =
     transactional outer (call_then
       (update_message
         (holds_claim i token) (dead_letter_row now error_code)
         ''OUTBOX_DEAD_LETTER_FAILED'' ''OUTBOX_DEAD_LETTER_CLAIM_MISMATCH'')
       (\<lambda>_. loaded_message i ''OUTBOX_DEAD_LETTER_LOAD_FAILED''))"

section \<open>Startup\<close>

definition claimed_by :: "string list \<Rightarrow> outbox_row \<Rightarrow> bool" where
  "claimed_by owners r \<longleftrightarrow>
     om_state (obr_message r) = OUTBOX_CLAIMED \<and> om_claim_owner_instance_id (obr_message r) \<in> Some ` set owners"

definition requeue_row :: "string \<Rightarrow> outbox_row \<Rightarrow> outbox_row" where
  "requeue_row now r =
     r\<lparr>obr_message := (obr_message r)\<lparr>om_state := OUTBOX_PENDING, om_claim_owner_instance_id := None,
         om_claim_generation := om_claim_generation (obr_message r) + 1, om_claim_token := None,
         om_claim_started_utc := None, om_last_error_code := Some ''OUTBOX_CLAIM_REQUEUED_AFTER_STARTUP''\<rparr>,
       obr_next_attempt_utc := now, obr_updated_utc := now\<rparr>"

text \<open>A claimed row has a start time.\<close>

definition claim_start :: "outbox_row \<Rightarrow> string" where
  "claim_start r = (case om_claim_started_utc (obr_message r) of None \<Rightarrow> [] | Some s \<Rightarrow> s)"

fun requeue_rows :: "string \<Rightarrow> string list \<Rightarrow> (string \<times> int) list \<Rightarrow> (outbox_tables, string list) store_call" where
  "requeue_rows now owners [] t = (Inr [], t)"
| "requeue_rows now owners ((i, generation) # rows) t =
     call_then
       (update_message
         (\<lambda>r. message_id r = i \<and> om_claim_generation (obr_message r) = generation \<and> claimed_by owners r)
         (requeue_row now)
         ''OUTBOX_RECONCILIATION_FAILED'' ''OUTBOX_RECONCILIATION_CLAIM_CONFLICT'')
       (\<lambda>_. call_then (requeue_rows now owners rows) (\<lambda>ids. call_return (i # ids))) t"

definition requeue_claimed_after_startup ::
  "bool \<Rightarrow> string \<Rightarrow> OutboxReconciliationRequest \<Rightarrow> (outbox_tables, OutboxReconciliationReport) store_call" where
  "requeue_claimed_after_startup outer now q t =
     (case validate_outbox_startup_reconciliation_request q of
        Inl e \<Rightarrow> (Inl e, t)
      | Inr _ \<Rightarrow>
          transactional outer (\<lambda>t.
            let rows = map (\<lambda>r. (message_id r, om_claim_generation (obr_message r)))
                  (take (nat (oqr_limit q)) (sort_key (\<lambda>r. (claim_start r, message_id r))
                    (filter (claimed_by (oqr_inactive_owner_instance_ids q)) (obx_messages t))))
            in call_then (requeue_rows now (oqr_inactive_owner_instance_ids q) rows)
              (\<lambda>ids. call_return \<lparr>orp_reconciler_instance_id = oqr_reconciler_instance_id q,
                 orp_scanned = length rows, orp_requeued_message_ids = ids\<rparr>) t) t)"

section \<open>Dispatching one message\<close>

record claim_window =
  cw_started_utc :: string
  cw_started_monotonic_ns :: int
  cw_deadline_monotonic_ns :: int
  cw_ttl_ms :: int

text \<open>\<open>MonotonicClaimWindow.start\<close> and \<open>assert_active\<close> on a reading of the clock.\<close>

definition start_claim_window :: "int \<Rightarrow> string \<Rightarrow> int \<Rightarrow> store_error + claim_window" where
  "start_claim_window monotonic_ns utc_now ttl_ms =
     (if ttl_ms \<le> 0 then Inl (Clock_Violation ''MONOTONIC_CLAIM_TTL_MUST_BE_POSITIVE'')
      else if monotonic_ns < 0 then Inl (Clock_Violation ''MONOTONIC_CLOCK_MUST_BE_NON_NEGATIVE'')
      else if \<not> utc_with_z utc_now then Inl (Clock_Violation ''UTC_CLOCK_MUST_RETURN_RFC3339_Z'')
      else Inr \<lparr>cw_started_utc = utc_now, cw_started_monotonic_ns = monotonic_ns,
        cw_deadline_monotonic_ns = monotonic_ns + ttl_ms * 1000000, cw_ttl_ms = ttl_ms\<rparr>)"

definition window_active :: "claim_window \<Rightarrow> int \<Rightarrow> bool" where
  "window_active w monotonic_ns \<longleftrightarrow> monotonic_ns < cw_deadline_monotonic_ns w"

text \<open>What the clock reads in one dispatch, in the order of the readings, and SQLite's \<open>now\<close> in its two transactions.\<close>

record dispatch_clock =
  dc_monotonic_start :: int
  dc_utc_start :: string
  dc_claim_now :: string
  dc_monotonic_before :: int
  dc_monotonic_after :: int
  dc_utc_requeue :: string
  dc_end_now :: string

text \<open>
  The delivery port works on a state of its own.  A \<open>MonotonicClaimExpired\<close> that it raises is handled as the dispatcher's
  own; any other exception leaves the message claimed.
\<close>

type_synonym 'w delivery = "OutboxMessage \<Rightarrow> 'w \<Rightarrow> (store_error + OutboxDeliveryResult) \<times> 'w"

definition dispatch_result :: "bool \<Rightarrow> bool \<Rightarrow> bool \<Rightarrow> OutboxMessage \<Rightarrow> OutboxDispatchResult" where
  "dispatch_result delivered dead_lettered expired m =
     \<lparr>ods_claimed = True, ods_delivered = delivered, ods_dead_lettered = dead_lettered,
      ods_message_id = Some (om_message_id m), ods_claim_expired = expired\<rparr>"

definition requeue_after_expiry ::
  "dispatch_clock \<Rightarrow> string \<Rightarrow> string \<Rightarrow> OutboxMessage \<Rightarrow> (outbox_tables, OutboxDispatchResult) store_call" where
  "requeue_after_expiry clock owner token m =
     call_then (requeue_expired_claim False (om_message_id m) owner (om_claim_generation m) token (dc_utc_requeue clock))
       (\<lambda>_. call_return (dispatch_result False False True m))"

definition finish_delivery ::
  "dispatch_clock \<Rightarrow> string \<Rightarrow> OutboxMessage \<Rightarrow> OutboxDeliveryResult \<Rightarrow>
   (outbox_tables, OutboxDispatchResult) store_call"
where
  "finish_delivery clock token m result =
     (case odr_outcome result of
        DELIVERY_DELIVERED \<Rightarrow>
          (case odr_terminal_effect_hash result of
             None \<Rightarrow> call_raise (Outbox_Violation ''OUTBOX_DELIVERY_REQUIRES_TERMINAL_EFFECT_HASH'')
           | Some h \<Rightarrow> call_then (mark_delivered False (dc_end_now clock) (om_message_id m) token h)
               (\<lambda>_. call_return (dispatch_result True False False m)))
      | DELIVERY_DEAD_LETTER \<Rightarrow>
          (if opt_blank (odr_error_code result)
           then call_raise (Outbox_Violation ''OUTBOX_DEAD_LETTER_REQUIRES_ERROR_CODE'')
           else call_then (mark_dead_letter False (dc_end_now clock) (om_message_id m) token
                 (the (odr_error_code result)))
               (\<lambda>_. call_return (dispatch_result False True False m))))"

definition dispatch_one_outbox_message ::
  "'w delivery \<Rightarrow> dispatch_clock \<Rightarrow> string \<Rightarrow> string \<Rightarrow> int \<Rightarrow> outbox_tables \<times> 'w \<Rightarrow>
   (store_error + OutboxDispatchResult) \<times> outbox_tables \<times> 'w"
where
  "dispatch_one_outbox_message deliver clock owner token ttl_ms s =
     (let (t, w) = s in
      case start_claim_window (dc_monotonic_start clock) (dc_utc_start clock) ttl_ms of
        Inl e \<Rightarrow> (Inl e, t, w)
      | Inr window \<Rightarrow>
          (case claim_next_pending False (dc_claim_now clock) owner token (cw_started_utc window) ttl_ms t of
             (Inl e, t1) \<Rightarrow> (Inl e, t1, w)
           | (Inr None, t1) \<Rightarrow>
               (Inr \<lparr>ods_claimed = False, ods_delivered = False, ods_dead_lettered = False,
                  ods_message_id = None, ods_claim_expired = False\<rparr>, t1, w)
           | (Inr (Some m), t1) \<Rightarrow>
               if \<not> window_active window (dc_monotonic_before clock) then
                 (let (r, t2) = requeue_after_expiry clock owner token m t1 in (r, t2, w))
               else
                 (case deliver m w of
                    (Inl e, w') \<Rightarrow>
                      if is_Claim_Expired e then (let (r, t2) = requeue_after_expiry clock owner token m t1 in (r, t2, w'))
                      else (Inl e, t1, w')
                  | (Inr result, w') \<Rightarrow>
                      if \<not> window_active window (dc_monotonic_after clock) then
                        (let (r, t2) = requeue_after_expiry clock owner token m t1 in (r, t2, w'))
                      else (let (r, t2) = finish_delivery clock token m result t1 in (r, t2, w')))))"

end
