(* ===== verification/Outbox_Laws.thy ===== *)
theory Outbox_Laws
  imports Outbox Evolving_Store
begin

text \<open>
  What the outbox keeps: one message per key, what it says, a claim generation that only grows, and a tombstone for
  every delivered effect.
\<close>

section \<open>How a message may change\<close>

definition message_identity :: "OutboxMessage \<Rightarrow> OutboxMessage" where
  "message_identity m = m\<lparr>om_state := OUTBOX_PENDING, om_claim_owner_instance_id := None, om_claim_generation := 0,
     om_claim_token := None, om_claim_started_utc := None, om_claim_ttl_ms := None, om_attempt_count := 0,
     om_terminal_effect_hash := None, om_last_error_code := None\<rparr>"

definition message_ended :: "OutboxMessage \<Rightarrow> bool" where
  "message_ended m \<longleftrightarrow> om_state m \<in> {OUTBOX_DELIVERED, OUTBOX_DEAD_LETTER}"

text \<open>Within one generation of its claims a message keeps the claim, and can only end.\<close>

definition message_follows :: "OutboxMessage \<Rightarrow> OutboxMessage \<Rightarrow> bool" where
  "message_follows m m' \<longleftrightarrow>
     message_identity m' = message_identity m \<and> om_claim_generation m \<le> om_claim_generation m'
     \<and> om_attempt_count m \<le> om_attempt_count m' \<and> (message_ended m \<longrightarrow> m' = m)
     \<and> (om_claim_generation m' = om_claim_generation m \<longrightarrow>
          om_claim_token m' = om_claim_token m \<and> om_claim_owner_instance_id m' = om_claim_owner_instance_id m
          \<and> (om_state m' = om_state m \<or> om_state m = OUTBOX_CLAIMED))"

lemma message_follows_refl [simp]: "message_follows m m"
  by (simp add: message_follows_def)

lemma message_follows_trans: "message_follows m m' \<Longrightarrow> message_follows m' m'' \<Longrightarrow> message_follows m m''"
  unfolding message_follows_def by (smt (verit, ccfv_threshold) order_antisym order_trans)

lemma message_identity_same:
  assumes "message_identity m' = message_identity m"
  shows "om_message_id m' = om_message_id m" "om_idempotency_key m' = om_idempotency_key m"
    "om_payload_hash m' = om_payload_hash m" "om_aggregate_id m' = om_aggregate_id m"
  using assms by (cases m; cases m'; simp add: message_identity_def)+

section \<open>The invariant\<close>

definition tombstone_of :: "OutboxMessage \<Rightarrow> effect_tombstone \<Rightarrow> bool" where
  "tombstone_of m s \<longleftrightarrow>
     eft_deduplication_key s = om_idempotency_key m \<and> eft_payload_hash s = om_payload_hash m
     \<and> eft_terminal_effect_hash s = om_terminal_effect_hash m"

definition messages_inv :: "outbox_tables \<Rightarrow> bool" where
  "messages_inv t \<longleftrightarrow>
     distinct (map message_id (obx_messages t)) \<and> distinct (map message_key (obx_messages t))
     \<and> (\<forall>r \<in> set (obx_messages t). outbox_check r)"

definition tombstones_inv :: "outbox_tables \<Rightarrow> bool" where
  "tombstones_inv t \<longleftrightarrow>
     distinct (map eft_deduplication_key (obx_tombstones t))
     \<and> (\<forall>s \<in> set (obx_tombstones t). eft_effect_kind s = EFFECT_OUTBOX \<and> eft_terminal_state s = ''DELIVERED''
          \<and> eft_terminal_effect_hash s \<noteq> None
          \<and> (\<exists>r \<in> set (obx_messages t). om_state (obr_message r) = OUTBOX_DELIVERED \<and> tombstone_of (obr_message r) s))
     \<and> (\<forall>r \<in> set (obx_messages t). om_state (obr_message r) = OUTBOX_DELIVERED \<longrightarrow>
          (\<exists>s \<in> set (obx_tombstones t). tombstone_of (obr_message r) s))"

definition outbox_inv :: "outbox_tables \<Rightarrow> bool" where
  "outbox_inv t \<longleftrightarrow> messages_inv t \<and> tombstones_inv t"

definition messages_follow :: "outbox_tables \<Rightarrow> outbox_tables \<Rightarrow> bool" where
  "messages_follow t t' \<longleftrightarrow>
     (\<forall>i m. load_outbox_message i t = Some m \<longrightarrow>
        (\<exists>m'. load_outbox_message i t' = Some m' \<and> message_follows m m'))"

lemma messages_follow_refl [simp]: "messages_follow t t"
  by (simp add: messages_follow_def)

lemma messages_follow_trans: "messages_follow t t' \<Longrightarrow> messages_follow t' t'' \<Longrightarrow> messages_follow t t''"
  unfolding messages_follow_def by (meson message_follows_trans)

lemma load_outbox_messageD:
  "load_outbox_message i t = Some m \<Longrightarrow> \<exists>r \<in> set (obx_messages t). message_id r = i \<and> obr_message r = m"
  by (auto simp: load_outbox_message_def dest: find_Some_iff')

lemma load_outbox_message_row:
  "messages_inv t \<Longrightarrow> r \<in> set (obx_messages t) \<Longrightarrow> load_outbox_message (message_id r) t = Some (obr_message r)"
  using find_unique_key [of message_id "obx_messages t" r "message_id r"]
  by (simp add: load_outbox_message_def messages_inv_def)

section \<open>Updating one message\<close>

text \<open>An update that keeps to what a message may become.\<close>

definition good_update :: "(outbox_row \<Rightarrow> bool) \<Rightarrow> (outbox_row \<Rightarrow> outbox_row) \<Rightarrow> bool" where
  "good_update guard f \<longleftrightarrow> (\<forall>r. guard r \<longrightarrow> message_follows (obr_message r) (obr_message (f r)))"

definition bump :: "(outbox_row \<Rightarrow> outbox_row) \<Rightarrow> outbox_row \<Rightarrow> outbox_row" where
  "bump f r = (f r)\<lparr>obr_row_version := obr_row_version r + 1\<rparr>"

lemma update_message_Inr:
  assumes "update_message guard f failed mismatch t = (Inr (), t')"
  shows "t' = t\<lparr>obx_messages := sql_update guard (bump f) (obx_messages t)\<rparr>"
    "\<forall>r \<in> set (obx_messages t). guard r \<longrightarrow> outbox_check (bump f r)"
    "sql_count guard (obx_messages t) = 1"
  using assms by (auto simp: update_message_def Let_def bump_def [abs_def] list_all_iff split: if_splits)

lemma good_update_ids:
  assumes "good_update guard f" "guard r"
  shows "message_id (bump f r) = message_id r" "message_key (bump f r) = message_key r"
proof -
  have "message_identity (obr_message (f r)) = message_identity (obr_message r)"
    using assms by (simp add: good_update_def message_follows_def)
  note same = message_identity_same [OF this]
  show "message_id (bump f r) = message_id r" by (simp add: bump_def message_id_def same)
  show "message_key (bump f r) = message_key r" by (simp add: bump_def message_key_def same)
qed

lemma find_guarded_update:
  assumes "\<And>r. guard r \<Longrightarrow> k (f r) = k r"
  shows "List.find (\<lambda>r. k r = a) (sql_update guard f rows) =
     map_option (\<lambda>r. if guard r then f r else r) (List.find (\<lambda>r. k r = a) rows)"
  using assms by (induction rows) (auto simp: sql_update_def)

lemma map_guarded_update:
  assumes "\<And>r. guard r \<Longrightarrow> k (f r) = k r"
  shows "map k (sql_update guard f rows) = map k rows"
  using assms by (simp add: sql_update_def)

lemma update_message_keeps:
  assumes update: "update_message guard f failed mismatch t = (Inr (), t')"
    and good: "good_update guard f" and inv: "messages_inv t"
  shows "messages_inv t'" "messages_follow t t'"
proof -
  note t' = update_message_Inr [OF update]
  note ids = good_update_ids [OF good]
  show "messages_inv t'"
    using inv t'(2) map_guarded_update [of guard message_id "bump f"] map_guarded_update [of guard message_key "bump f"]
      ids by (auto simp: messages_inv_def t'(1) set_sql_update)
  show "messages_follow t t'"
    unfolding messages_follow_def
  proof (intro allI impI)
    fix i m
    assume "load_outbox_message i t = Some m"
    then obtain r where r: "List.find (\<lambda>r. message_id r = i) (obx_messages t) = Some r" "obr_message r = m"
      by (auto simp: load_outbox_message_def)
    have "load_outbox_message i t' = Some (obr_message (if guard r then bump f r else r))"
      using r find_guarded_update [of guard message_id "bump f" i "obx_messages t"] ids
      by (simp add: load_outbox_message_def t'(1))
    then show "\<exists>m'. load_outbox_message i t' = Some m' \<and> message_follows m m'"
      using good r(2) by (auto simp: good_update_def bump_def)
  qed
qed

text \<open>Unless it delivers, an update leaves the delivered messages and their tombstones alone.\<close>

lemma update_message_tombstones:
  assumes update: "update_message guard f failed mismatch t = (Inr (), t')"
    and guard: "\<And>r. guard r \<Longrightarrow> om_state (obr_message r) \<noteq> OUTBOX_DELIVERED
      \<and> om_state (obr_message (f r)) \<noteq> OUTBOX_DELIVERED"
    and inv: "tombstones_inv t"
  shows "tombstones_inv t'"
proof -
  note t' = update_message_Inr(1) [OF update]
  have same: "r \<in> set (obx_messages t') \<and> om_state (obr_message r) = OUTBOX_DELIVERED \<longleftrightarrow>
      r \<in> set (obx_messages t) \<and> om_state (obr_message r) = OUTBOX_DELIVERED" for r
    using guard by (auto simp: t' set_sql_update bump_def image_iff)
  have stones: "obx_tombstones t' = obx_tombstones t" by (simp add: t')
  show ?thesis
    using inv unfolding tombstones_inv_def stones by (metis same)
qed

lemma loaded_message_Inr: "loaded_message i code t = (Inr m, t') \<longleftrightarrow> load_outbox_message i t = Some m \<and> t' = t"
  by (auto simp: loaded_message_def split: option.splits)

section \<open>The calls of the store\<close>

lemma enqueue_keeps:
  assumes "enqueue_outbox_message outer now m t = (Inr v, t')" and inv: "outbox_inv t"
  shows "outbox_inv t' \<and> messages_follow t t'"
proof (cases "t' = t")
  case True
  then show ?thesis using inv by simp
next
  case False
  then have work: "enqueue_work now m t = (Inr v, t')" using assms(1) by (simp add: enqueue_outbox_message_def)
  then have t': "t' = t\<lparr>obx_messages := obx_messages t @ [outbox_row_of now m]\<rparr>"
    and fresh: "om_message_id m \<notin> set (map message_id (obx_messages t))"
      "load_by_idempotency_key (om_idempotency_key m) t = None"
    and check: "outbox_check (outbox_row_of now m)"
    using False by (auto simp: enqueue_work_def split: sum.splits option.splits if_splits)
  have ids: "message_id (outbox_row_of now m) = om_message_id m" "message_key (outbox_row_of now m) = om_idempotency_key m"
    by (simp_all add: outbox_row_of_def message_id_def message_key_def)
  have key: "om_idempotency_key m \<notin> set (map message_key (obx_messages t))"
    using fresh(2) by (auto simp: load_by_idempotency_key_def find_None_iff')
  have "om_state m \<noteq> OUTBOX_DELIVERED" using check by (auto simp: outbox_check_def outbox_row_of_def)
  then have "tombstones_inv t'"
    using inv by (auto simp: outbox_inv_def tombstones_inv_def t' outbox_row_of_def)
  moreover have "messages_inv t'"
    using inv fresh(1) key check by (auto simp: outbox_inv_def messages_inv_def t' ids)
  moreover have "messages_follow t t'"
    by (auto simp: messages_follow_def load_outbox_message_def t' find_append)
  ultimately show ?thesis by (simp add: outbox_inv_def)
qed

lemma message_rows_good:
  "good_update (claimable i g) (claim_row now owner token started ttl)"
  "(\<And>r. guard r \<Longrightarrow> om_state (obr_message r) = OUTBOX_CLAIMED) \<Longrightarrow> good_update guard (expire_row now)"
  "(\<And>r. guard r \<Longrightarrow> om_state (obr_message r) = OUTBOX_CLAIMED) \<Longrightarrow> good_update guard (requeue_row now)"
  "(\<And>r. guard r \<Longrightarrow> om_state (obr_message r) = OUTBOX_CLAIMED) \<Longrightarrow> good_update guard (deliver_row now h)"
  "(\<And>r. guard r \<Longrightarrow> om_state (obr_message r) = OUTBOX_CLAIMED) \<Longrightarrow> good_update guard (dead_letter_row now code)"
  unfolding good_update_def message_follows_def claimable_def claim_row_def claimed_message_def expire_row_def
    requeue_row_def deliver_row_def dead_letter_row_def message_identity_def message_ended_def
  by auto

lemma next_pendingD:
  assumes "next_pending now t = Some row"
  shows "row \<in> set (obx_messages t)" "om_state (obr_message row) = OUTBOX_PENDING"
    "obr_next_attempt_utc row \<le> now"
proof -
  let ?due = "filter (\<lambda>r. om_state (obr_message r) = OUTBOX_PENDING \<and> obr_next_attempt_utc r \<le> now) (obx_messages t)"
  obtain rest where "sort_key (\<lambda>r. (obr_next_attempt_utc r, message_id r)) ?due = row # rest"
    using assms by (auto simp: next_pending_def split: list.splits)
  from arg_cong [OF this, of set] have "row \<in> set ?due" by simp
  then show "row \<in> set (obx_messages t)" "om_state (obr_message row) = OUTBOX_PENDING"
    "obr_next_attempt_utc row \<le> now" by simp_all
qed

text \<open>A claim is the update of the row that is due next.\<close>

lemma claim_Inr:
  assumes "claim_next_pending outer now owner token started ttl t = (Inr (Some m), t')" "messages_inv t"
  obtains row where "next_pending now t = Some row"
    "m = claimed_message (obr_message row) owner token started ttl" "load_outbox_message (message_id row) t' = Some m"
    "update_message (claimable (message_id row) (om_claim_generation (obr_message row)))
       (claim_row now owner token started ttl) ''OUTBOX_CLAIM_FAILED'' ''OUTBOX_CLAIM_CONFLICT'' t = (Inr (), t')"
proof -
  obtain row where row: "next_pending now t = Some row"
    and update: "update_message (claimable (message_id row) (om_claim_generation (obr_message row)))
       (claim_row now owner token started ttl) ''OUTBOX_CLAIM_FAILED'' ''OUTBOX_CLAIM_CONFLICT'' t = (Inr (), t')"
    and load: "load_outbox_message (message_id row) t' = Some m"
    using assms(1)
    by (auto simp: claim_next_pending_def claim_work_def loaded_message_Inr split: if_splits option.splits)
  note row' = next_pendingD [OF row]
  have "List.find (\<lambda>r. message_id r = message_id row) (obx_messages t) = Some row"
    using assms(2) row' by (intro find_unique_key) (auto simp: messages_inv_def)
  then have "load_outbox_message (message_id row) t' = Some (obr_message (bump (claim_row now owner token started ttl) row))"
    using row'(2) find_guarded_update [of "claimable (message_id row) (om_claim_generation (obr_message row))"
        message_id "bump (claim_row now owner token started ttl)", OF good_update_ids(1) [OF message_rows_good(1)]]
    by (simp add: load_outbox_message_def update_message_Inr(1) [OF update] claimable_def)
  then have "m = claimed_message (obr_message row) owner token started ttl"
    using load by (simp add: bump_def claim_row_def)
  then show ?thesis using that row load update by blast
qed

lemma update_keeps:
  assumes "update_message guard f failed mismatch t = (Inr (), t')" "good_update guard f" "outbox_inv t"
    and "\<And>r. guard r \<Longrightarrow> om_state (obr_message r) \<noteq> OUTBOX_DELIVERED \<and> om_state (obr_message (f r)) \<noteq> OUTBOX_DELIVERED"
  shows "outbox_inv t' \<and> messages_follow t t'"
  using update_message_keeps [OF assms(1,2)] update_message_tombstones [OF assms(1) assms(4)] assms(3)
  by (simp add: outbox_inv_def)

lemma claim_keeps:
  assumes "claim_next_pending outer now owner token started ttl t = (Inr v, t')" and inv: "outbox_inv t"
  shows "outbox_inv t' \<and> messages_follow t t'"
proof (cases v)
  case None
  then have "t' = t" using assms(1)
    by (auto simp: claim_next_pending_def claim_work_def loaded_message_Inr split: if_splits option.splits)
  then show ?thesis using inv by simp
next
  case (Some m)
  have m: "messages_inv t" using inv by (simp add: outbox_inv_def)
  from claim_Inr [OF assms(1) [unfolded Some] m] obtain row where
    update: "update_message (claimable (message_id row) (om_claim_generation (obr_message row)))
       (claim_row now owner token started ttl) ''OUTBOX_CLAIM_FAILED'' ''OUTBOX_CLAIM_CONFLICT'' t = (Inr (), t')"
    by blast
  show ?thesis
    by (rule update_keeps [OF update message_rows_good(1) inv]) (auto simp: claimable_def claim_row_def claimed_message_def)
qed

lemma requeue_expired_Inr:
  assumes "requeue_expired_claim outer i owner g token now t = (Inr m, t')"
  shows "update_message (\<lambda>r. holds_claim i token r \<and> om_claim_owner_instance_id (obr_message r) = Some owner
             \<and> om_claim_generation (obr_message r) = g) (expire_row now)
           ''OUTBOX_EXPIRED_CLAIM_REQUEUE_FAILED'' ''OUTBOX_EXPIRED_CLAIM_MISMATCH'' t = (Inr (), t')"
    "load_outbox_message i t' = Some m"
  using assms by (auto simp: requeue_expired_claim_def loaded_message_Inr split: if_splits)

lemma requeue_expired_keeps:
  assumes "requeue_expired_claim outer i owner g token now t = (Inr m, t')" "outbox_inv t"
  shows "outbox_inv t' \<and> messages_follow t t'"
  by (rule update_keeps [OF requeue_expired_Inr(1) [OF assms(1)] _ assms(2)])
    (auto simp: holds_claim_def expire_row_def intro!: message_rows_good(2))

lemma dead_letter_Inr:
  assumes "mark_dead_letter outer now i token code t = (Inr m, t')"
  shows "update_message (holds_claim i token) (dead_letter_row now code)
           ''OUTBOX_DEAD_LETTER_FAILED'' ''OUTBOX_DEAD_LETTER_CLAIM_MISMATCH'' t = (Inr (), t')"
    "load_outbox_message i t' = Some m"
  using assms by (auto simp: mark_dead_letter_def loaded_message_Inr)

lemma dead_letter_keeps:
  assumes "mark_dead_letter outer now i token code t = (Inr m, t')" "outbox_inv t"
  shows "outbox_inv t' \<and> messages_follow t t'"
  by (rule update_keeps [OF dead_letter_Inr(1) [OF assms(1)] _ assms(2)])
    (auto simp: holds_claim_def dead_letter_row_def intro!: message_rows_good(5))

lemma requeue_rows_keeps:
  assumes "requeue_rows now owners rows t = (Inr ids, t')" "outbox_inv t"
  shows "outbox_inv t' \<and> messages_follow t t' \<and> ids = map fst rows"
  using assms
proof (induction rows arbitrary: t ids)
  case Nil
  then show ?case by simp
next
  case (Cons p rows)
  obtain i g where p: "p = (i, g)" by fastforce
  let ?guard = "\<lambda>r. message_id r = i \<and> om_claim_generation (obr_message r) = g \<and> claimed_by owners r"
  obtain t1 ids1 where
    update: "update_message ?guard (requeue_row now)
        ''OUTBOX_RECONCILIATION_FAILED'' ''OUTBOX_RECONCILIATION_CLAIM_CONFLICT'' t = (Inr (), t1)"
    and rest: "requeue_rows now owners rows t1 = (Inr ids1, t')" and ids: "ids = i # ids1"
    using Cons.prems(1) p by auto
  have "outbox_inv t1 \<and> messages_follow t t1"
    by (rule update_keeps [OF update _ Cons.prems(2)])
      (auto simp: claimed_by_def requeue_row_def intro!: message_rows_good(3))
  then show ?case using Cons.IH [OF rest] messages_follow_trans p ids by auto
qed

lemma requeue_startup_keeps:
  assumes "requeue_claimed_after_startup outer now q t = (Inr rep, t')" "outbox_inv t"
  shows "outbox_inv t' \<and> messages_follow t t'"
proof -
  obtain rows ids where "requeue_rows now (oqr_inactive_owner_instance_ids q) rows t = (Inr ids, t')"
    using assms(1) by (auto simp: requeue_claimed_after_startup_def Let_def split: sum.splits)
  then show ?thesis using requeue_rows_keeps assms(2) by blast
qed

section \<open>Delivery\<close>

lemma mark_delivered_Inr:
  assumes "mark_delivered outer now i token h t = (Inr d, t')"
  obtains m t1 where "load_outbox_message i t = Some m"
    "update_message (\<lambda>r. holds_claim i token r \<and> om_payload_hash (obr_message r) = om_payload_hash m)
       (deliver_row now h) ''OUTBOX_DELIVERY_FAILED'' ''OUTBOX_DELIVERY_CLAIM_MISMATCH'' t = (Inr (), t1)"
    "t' = t1\<lparr>obx_tombstones := upsert_tombstone (delivery_tombstone now m h) (obx_tombstones t1)\<rparr>"
    "load_outbox_message i t' = Some d"
  using assms that
  by (auto simp: mark_delivered_def mark_delivered_work_def loaded_message_Inr split: option.splits)

lemma mark_delivered_keeps:
  assumes "mark_delivered outer now i token h t = (Inr d, t')" and inv: "outbox_inv t"
  shows "outbox_inv t' \<and> messages_follow t t'"
proof -
  from mark_delivered_Inr [OF assms(1)] obtain m t1 where m: "load_outbox_message i t = Some m"
    and update: "update_message (\<lambda>r. holds_claim i token r \<and> om_payload_hash (obr_message r) = om_payload_hash m)
       (deliver_row now h) ''OUTBOX_DELIVERY_FAILED'' ''OUTBOX_DELIVERY_CLAIM_MISMATCH'' t = (Inr (), t1)"
    and t': "t' = t1\<lparr>obx_tombstones := upsert_tombstone (delivery_tombstone now m h) (obx_tombstones t1)\<rparr>" .
  let ?guard = "\<lambda>r. holds_claim i token r \<and> om_payload_hash (obr_message r) = om_payload_hash m"
  note t1 = update_message_Inr [OF update]
  have mi: "messages_inv t" and si: "tombstones_inv t" using inv by (simp_all add: outbox_inv_def)
  have good: "good_update ?guard (deliver_row now h)" by (rule message_rows_good(4)) (simp add: holds_claim_def)
  note keeps = update_message_keeps [OF update good mi]
  have guarded: "obr_message r = m" if "r \<in> set (obx_messages t)" "?guard r" for r
    using load_outbox_message_row [OF mi that(1)] m that(2) by (auto simp: holds_claim_def)
  have "\<exists>r \<in> set (obx_messages t). ?guard r" using t1(3) sql_count_pos [of ?guard "obx_messages t"] by simp
  then obtain r where r: "r \<in> set (obx_messages t)" "?guard r" by blast
  then have rm: "obr_message r = m" "om_state m = OUTBOX_CLAIMED" using guarded by (auto simp: holds_claim_def)
  have fresh: "om_idempotency_key m \<notin> set (map eft_deduplication_key (obx_tombstones t))"
  proof
    assume "om_idempotency_key m \<in> set (map eft_deduplication_key (obx_tombstones t))"
    then obtain r' where r': "r' \<in> set (obx_messages t)" "om_state (obr_message r') = OUTBOX_DELIVERED"
        "message_key r' = om_idempotency_key m"
      using si by (force simp: tombstones_inv_def tombstone_of_def message_key_def)
    have "inj_on message_key (set (obx_messages t))" using mi by (simp add: messages_inv_def distinct_map)
    then have "r' = r" using r(1) rm(1) r'(1,3) by (elim inj_onD) (simp_all add: message_key_def)
    then show False using r'(2) rm by simp
  qed
  let ?stone = "delivery_tombstone now m h"
  have stones: "obx_tombstones t' = obx_tombstones t @ [?stone]"
    using fresh by (simp add: t' t1(1) upsert_tombstone_def delivery_tombstone_def)
  have messages: "obx_messages t' = sql_update ?guard (bump (deliver_row now h)) (obx_messages t)"
    by (simp add: t' t1(1))
  have kept: "x \<in> set (obx_messages t')" if "x \<in> set (obx_messages t)" "om_state (obr_message x) = OUTBOX_DELIVERED" for x
    using that by (auto simp: messages set_sql_update holds_claim_def image_iff intro!: bexI [of _ x])
  have of_stone: "tombstone_of (obr_message (bump (deliver_row now h) x)) ?stone"
      "om_state (obr_message (bump (deliver_row now h) x)) = OUTBOX_DELIVERED"
    if "obr_message x = m" for x
    using that by (simp_all add: tombstone_of_def bump_def deliver_row_def delivery_tombstone_def)
  have "tombstones_inv t'"
    unfolding tombstones_inv_def
  proof (intro conjI ballI impI)
    show "distinct (map eft_deduplication_key (obx_tombstones t'))"
      using si fresh by (simp add: stones tombstones_inv_def delivery_tombstone_def)
  next
    fix s assume s: "s \<in> set (obx_tombstones t')"
    show "eft_effect_kind s = EFFECT_OUTBOX" "eft_terminal_state s = ''DELIVERED''" "eft_terminal_effect_hash s \<noteq> None"
      using s si by (auto simp: stones tombstones_inv_def delivery_tombstone_def)
    show "\<exists>r \<in> set (obx_messages t'). om_state (obr_message r) = OUTBOX_DELIVERED \<and> tombstone_of (obr_message r) s"
    proof (cases "s = ?stone")
      case True
      have "bump (deliver_row now h) r \<in> set (obx_messages t')"
        using r by (auto simp: messages set_sql_update intro!: image_eqI [of _ _ r])
      then show ?thesis using of_stone [OF rm(1)] True by blast
    next
      case False
      then have "s \<in> set (obx_tombstones t)" using s by (simp add: stones)
      then obtain x where "x \<in> set (obx_messages t)" "om_state (obr_message x) = OUTBOX_DELIVERED"
          "tombstone_of (obr_message x) s"
        using si unfolding tombstones_inv_def by blast
      then show ?thesis using kept by blast
    qed
  next
    fix x assume "x \<in> set (obx_messages t')" and x: "om_state (obr_message x) = OUTBOX_DELIVERED"
    then obtain y where y: "y \<in> set (obx_messages t)" "x = (if ?guard y then bump (deliver_row now h) y else y)"
      by (auto simp: messages set_sql_update)
    show "\<exists>s \<in> set (obx_tombstones t'). tombstone_of (obr_message x) s"
    proof (cases "?guard y")
      case True
      then have "tombstone_of (obr_message x) ?stone" using y guarded of_stone(1) by simp
      then show ?thesis by (auto simp: stones)
    next
      case False
      then show ?thesis using y x si by (auto simp: stones tombstones_inv_def)
    qed
  qed
  moreover have "messages_inv t'" using keeps(1) by (simp add: t' messages_inv_def)
  moreover have "messages_follow t t'" using keeps(2) by (simp add: t' messages_follow_def load_outbox_message_def)
  ultimately show ?thesis by (simp add: outbox_inv_def)
qed

section \<open>Tokens\<close>

text \<open>A message keeps its claim, or it has lost the claim, to nobody or to a holder of a token of \<open>T\<close>.\<close>

definition tokens_from :: "string set \<Rightarrow> outbox_tables \<Rightarrow> outbox_tables \<Rightarrow> bool" where
  "tokens_from T t t' \<longleftrightarrow>
     (\<forall>i m m'. load_outbox_message i t = Some m \<and> load_outbox_message i t' = Some m' \<longrightarrow>
        om_claim_generation m' = om_claim_generation m \<and> om_claim_token m' = om_claim_token m
        \<or> om_claim_token m' \<in> insert None (Some ` T))"

lemma tokens_from_refl [simp]: "tokens_from T t t"
  by (auto simp: tokens_from_def)

lemma tokens_from_trans:
  assumes "tokens_from T t t'" "tokens_from T t' t''" "messages_follow t t'"
  shows "tokens_from T t t''"
  unfolding tokens_from_def
proof (intro allI impI)
  fix i m m''
  assume m: "load_outbox_message i t = Some m \<and> load_outbox_message i t'' = Some m''"
  then obtain m' where m': "load_outbox_message i t' = Some m'" using assms(3) by (auto simp: messages_follow_def)
  have a: "om_claim_generation m' = om_claim_generation m \<and> om_claim_token m' = om_claim_token m
      \<or> om_claim_token m' \<in> insert None (Some ` T)"
    using assms(1) m m' unfolding tokens_from_def by blast
  have b: "om_claim_generation m'' = om_claim_generation m' \<and> om_claim_token m'' = om_claim_token m'
      \<or> om_claim_token m'' \<in> insert None (Some ` T)"
    using assms(2) m m' unfolding tokens_from_def by blast
  show "om_claim_generation m'' = om_claim_generation m \<and> om_claim_token m'' = om_claim_token m
      \<or> om_claim_token m'' \<in> insert None (Some ` T)"
    using a b by (elim disjE) simp_all
qed

lemma update_message_tokens:
  assumes update: "update_message guard f failed mismatch t = (Inr (), t')" and good: "good_update guard f"
    and token: "\<And>r. guard r \<Longrightarrow>
      om_claim_generation (obr_message (f r)) = om_claim_generation (obr_message r)
        \<and> om_claim_token (obr_message (f r)) = om_claim_token (obr_message r)
      \<or> om_claim_token (obr_message (f r)) \<in> insert None (Some ` T)"
  shows "tokens_from T t t'"
  unfolding tokens_from_def
proof (intro allI impI)
  fix i m m'
  assume m: "load_outbox_message i t = Some m \<and> load_outbox_message i t' = Some m'"
  then obtain r where r: "List.find (\<lambda>r. message_id r = i) (obx_messages t) = Some r" "obr_message r = m"
    by (auto simp: load_outbox_message_def)
  have "m' = obr_message (if guard r then bump f r else r)"
    using m r find_guarded_update [of guard message_id "bump f" i "obx_messages t"] good_update_ids(1) [OF good]
    by (simp add: load_outbox_message_def update_message_Inr(1) [OF update])
  then show "om_claim_generation m' = om_claim_generation m \<and> om_claim_token m' = om_claim_token m
      \<or> om_claim_token m' \<in> insert None (Some ` T)"
    using token [of r] r(2) by (cases "guard r") (simp_all add: bump_def)
qed

section \<open>Steps\<close>

text \<open>The calls of the store that return; the claims among them take tokens of \<open>T\<close>.\<close>

inductive outbox_step :: "string set \<Rightarrow> outbox_tables \<Rightarrow> outbox_tables \<Rightarrow> bool" for T where
  enqueue: "enqueue_outbox_message outer now m t = (Inr v, t') \<Longrightarrow> outbox_step T t t'"
| claim: "claim_next_pending outer now owner token started ttl t = (Inr c, t') \<Longrightarrow> token \<in> T \<Longrightarrow> outbox_step T t t'"
| expire: "requeue_expired_claim outer i owner g token now t = (Inr v, t') \<Longrightarrow> outbox_step T t t'"
| deliver: "mark_delivered outer now i token h t = (Inr v, t') \<Longrightarrow> outbox_step T t t'"
| dead_letter: "mark_dead_letter outer now i token code t = (Inr v, t') \<Longrightarrow> outbox_step T t t'"
| startup: "requeue_claimed_after_startup outer now q t = (Inr rep, t') \<Longrightarrow> outbox_step T t t'"

definition empty_outbox :: outbox_tables where
  "empty_outbox = \<lparr>obx_messages = [], obx_tombstones = []\<rparr>"

definition outbox_reachable :: "outbox_tables \<Rightarrow> bool" where
  "outbox_reachable t \<longleftrightarrow> (outbox_step UNIV)\<^sup>*\<^sup>* empty_outbox t"

lemma outbox_step_keeps: "outbox_step T t t' \<Longrightarrow> outbox_inv t \<Longrightarrow> outbox_inv t' \<and> messages_follow t t'"
proof (induction rule: outbox_step.induct)
  case (enqueue outer now m t v t')
  then show ?case by (rule enqueue_keeps)
next
  case (claim outer now owner token started ttl t c t')
  then show ?case by (intro claim_keeps)
next
  case (expire outer i owner g token now t v t')
  then show ?case by (rule requeue_expired_keeps)
next
  case (deliver outer now i token h t v t')
  then show ?case by (rule mark_delivered_keeps)
next
  case (dead_letter outer now i token code t v t')
  then show ?case by (rule dead_letter_keeps)
next
  case (startup outer now q t rep t')
  then show ?case by (rule requeue_startup_keeps)
qed

interpretation outbox: evolving_store "outbox_step T" outbox_inv messages_follow for T
proof unfold_locales
  show "outbox_inv s' \<and> messages_follow s s'" if "outbox_step T s s'" "outbox_inv s" for s s'
    using outbox_step_keeps [OF that] .
  show "messages_follow s s" for s by simp
  show "messages_follow s s''" if "messages_follow s s'" "messages_follow s' s''" for s s' s''
    using messages_follow_trans [OF that] .
qed

lemma outbox_reachable_inv: "outbox_reachable t \<Longrightarrow> outbox_inv t"
  unfolding outbox_reachable_def using outbox.reached_inv [of empty_outbox UNIV t]
  by (simp add: outbox_inv_def messages_inv_def tombstones_inv_def empty_outbox_def)

lemma requeue_rows_tokens:
  assumes "requeue_rows now owners rows t = (Inr ids, t')" "outbox_inv t"
  shows "tokens_from T t t'"
  using assms
proof (induction rows arbitrary: t ids)
  case Nil
  then show ?case by simp
next
  case (Cons p rows)
  obtain i g where p: "p = (i, g)" by fastforce
  let ?guard = "\<lambda>r. message_id r = i \<and> om_claim_generation (obr_message r) = g \<and> claimed_by owners r"
  obtain t1 ids1 where
    update: "update_message ?guard (requeue_row now)
        ''OUTBOX_RECONCILIATION_FAILED'' ''OUTBOX_RECONCILIATION_CLAIM_CONFLICT'' t = (Inr (), t1)"
    and rest: "requeue_rows now owners rows t1 = (Inr ids1, t')"
    using Cons.prems(1) p by auto
  have good: "good_update ?guard (requeue_row now)" by (rule message_rows_good(3)) (simp add: claimed_by_def)
  have "outbox_inv t1 \<and> messages_follow t t1"
    by (rule update_keeps [OF update good Cons.prems(2)]) (simp add: claimed_by_def requeue_row_def)
  moreover have "tokens_from T t t1"
    by (rule update_message_tokens [OF update good]) (simp add: requeue_row_def)
  ultimately show ?case using Cons.IH [OF rest] tokens_from_trans by blast
qed

lemma outbox_step_tokens: "outbox_step T t t' \<Longrightarrow> outbox_inv t \<Longrightarrow> tokens_from T t t'"
proof (induction rule: outbox_step.induct)
  case (enqueue outer now m t v t')
  then have "t' = t \<or> (\<exists>row. obx_messages t' = obx_messages t @ [row])"
    by (auto simp: enqueue_outbox_message_def enqueue_work_def split: sum.splits option.splits if_splits)
  then show ?case by (auto simp: tokens_from_def load_outbox_message_def find_append)
next
  case (claim outer now owner token started ttl t c t')
  show ?case
  proof (cases c)
    case None
    then have "t' = t" using claim(1)
      by (auto simp: claim_next_pending_def claim_work_def loaded_message_Inr split: if_splits option.splits)
    then show ?thesis by simp
  next
    case (Some m)
    have "messages_inv t" using claim(3) by (simp add: outbox_inv_def)
    from claim_Inr [OF claim(1) [unfolded Some] this] obtain row where
      update: "update_message (claimable (message_id row) (om_claim_generation (obr_message row)))
         (claim_row now owner token started ttl) ''OUTBOX_CLAIM_FAILED'' ''OUTBOX_CLAIM_CONFLICT'' t = (Inr (), t')"
      by blast
    show ?thesis
      by (rule update_message_tokens [OF update message_rows_good(1)]) (use claim(2) in \<open>simp add: claim_row_def claimed_message_def\<close>)
  qed
next
  case (expire outer i owner g token now t v t')
  show ?case
    by (rule update_message_tokens [OF requeue_expired_Inr(1) [OF expire(1)] message_rows_good(2)])
      (simp_all add: holds_claim_def expire_row_def)
next
  case (deliver outer now i token h t v t')
  from mark_delivered_Inr [OF deliver(1)] obtain m t1 where
    update: "update_message (\<lambda>r. holds_claim i token r \<and> om_payload_hash (obr_message r) = om_payload_hash m)
       (deliver_row now h) ''OUTBOX_DELIVERY_FAILED'' ''OUTBOX_DELIVERY_CLAIM_MISMATCH'' t = (Inr (), t1)"
    and t': "t' = t1\<lparr>obx_tombstones := upsert_tombstone (delivery_tombstone now m h) (obx_tombstones t1)\<rparr>" .
  have "tokens_from T t t1"
    by (rule update_message_tokens [OF update message_rows_good(4)]) (simp_all add: holds_claim_def deliver_row_def)
  then show ?case by (simp add: t' tokens_from_def load_outbox_message_def)
next
  case (dead_letter outer now i token code t v t')
  show ?case
    by (rule update_message_tokens [OF dead_letter_Inr(1) [OF dead_letter(1)] message_rows_good(5)])
      (simp_all add: holds_claim_def dead_letter_row_def)
next
  case (startup outer now q t rep t')
  obtain rows ids where "requeue_rows now (oqr_inactive_owner_instance_ids q) rows t = (Inr ids, t')"
    using startup(1) by (auto simp: requeue_claimed_after_startup_def Let_def split: sum.splits)
  then show ?case by (rule requeue_rows_tokens [OF _ startup(2)])
qed

lemma outbox_steps_tokens:
  assumes "(outbox_step T)\<^sup>*\<^sup>* t t'" "outbox_inv t"
  shows "tokens_from T t t'"
  using assms(1)
proof (induction rule: rtranclp_induct)
  case base
  then show ?case by simp
next
  case (step u v)
  have u: "outbox_inv u" "messages_follow t u" using outbox.all_steps_keep [OF step.hyps(1) assms(2)] by simp_all
  show ?case by (rule tokens_from_trans [OF step.IH outbox_step_tokens [OF step.hyps(2) u(1)] u(2)])
qed

section \<open>Calls that succeed\<close>

lemma update_message_succeeds:
  assumes inv: "messages_inv t" and good: "good_update guard f" and r: "r \<in> set (obx_messages t)" "guard r"
    and only: "\<And>x. guard x \<Longrightarrow> message_id x = message_id r" and check: "outbox_check (bump f r)"
  obtains t' where "update_message guard f failed mismatch t = (Inr (), t')"
    "load_outbox_message (message_id r) t' = Some (obr_message (f r))" "bump f r \<in> set (obx_messages t')"
proof -
  let ?t' = "t\<lparr>obx_messages := sql_update guard (bump f) (obx_messages t)\<rparr>"
  have d: "distinct (map message_id (obx_messages t))" using inv by (simp add: messages_inv_def)
  have one: "x = r" if "x \<in> set (obx_messages t)" "guard x" for x
    using that r only d by (metis distinct_map inj_onD)
  have "sql_count guard (obx_messages t) = 1"
    using r by (intro sql_count_key [THEN iffD2, OF d, of guard "message_id r"]) (auto intro: only)
  moreover have "list_all (\<lambda>x. guard x \<longrightarrow> outbox_check (bump f x)) (obx_messages t)"
    using one check by (auto simp: list_all_iff)
  ultimately have update: "update_message guard f failed mismatch t = (Inr (), ?t')"
    by (simp add: update_message_def Let_def bump_def [abs_def])
  moreover have "load_outbox_message (message_id r) ?t' = Some (obr_message (f r))"
    using find_guarded_update [of guard message_id "bump f" "message_id r" "obx_messages t"] good_update_ids(1) [OF good]
      find_unique_key [OF d r(1) refl] r(2)
    by (simp add: load_outbox_message_def bump_def)
  moreover have "bump f r \<in> set (obx_messages ?t')"
    using r by (auto simp: set_sql_update intro!: image_eqI [of _ _ r])
  ultimately show ?thesis using that by blast
qed

lemma claim_succeeds:
  assumes inv: "outbox_inv t" and due: "next_pending now t = Some row" and ttl: "0 < ttl" and utc: "utc_with_z started"
  obtains t' r where
    "claim_next_pending outer now owner token started ttl t =
       (Inr (Some (claimed_message (obr_message row) owner token started ttl)), t')"
    "outbox_inv t'" "r \<in> set (obx_messages t')"
    "obr_message r = claimed_message (obr_message row) owner token started ttl" "message_id r = message_id row"
proof -
  let ?f = "claim_row now owner token started ttl"
  let ?guard = "claimable (message_id row) (om_claim_generation (obr_message row))"
  note row = next_pendingD [OF due]
  have mi: "messages_inv t" using inv by (simp add: outbox_inv_def)
  have "outbox_check row" using mi row(1) by (simp add: messages_inv_def)
  then have check: "outbox_check (bump ?f row)"
    using ttl row(2) by (auto simp: outbox_check_def bump_def claim_row_def claimed_message_def Let_def)
  obtain t' where t': "update_message ?guard ?f ''OUTBOX_CLAIM_FAILED'' ''OUTBOX_CLAIM_CONFLICT'' t = (Inr (), t')"
    "load_outbox_message (message_id row) t' = Some (obr_message (?f row))" "bump ?f row \<in> set (obx_messages t')"
    by (rule update_message_succeeds [OF mi message_rows_good(1) row(1) _ _ check]) (use row(2) in \<open>auto simp: claimable_def\<close>)
  have "claim_next_pending outer now owner token started ttl t =
       (Inr (Some (claimed_message (obr_message row) owner token started ttl)), t')"
    using due t'(1,2) ttl utc
    by (simp add: claim_next_pending_def transactional_def claim_work_def call_then_def loaded_message_def claim_row_def)
  then show ?thesis
    using that [of t' "bump ?f row"] t'(3) claim_keeps [OF _ inv]
    by (simp add: bump_def claim_row_def message_id_def claimed_message_def)
qed

text \<open>The holder of a claim can give the message back, or end it.\<close>

lemma holder_succeeds:
  assumes inv: "outbox_inv t" and r: "r \<in> set (obx_messages t)" "obr_message r = m"
    and m: "om_state m = OUTBOX_CLAIMED" "om_claim_token m = Some token"
  shows "om_claim_owner_instance_id m = Some owner \<Longrightarrow> om_claim_generation m = g \<Longrightarrow> 1 \<le> g \<Longrightarrow> utc_with_z now \<Longrightarrow>
      \<exists>t'. requeue_expired_claim outer (om_message_id m) owner g token now t = (Inr (obr_message (expire_row now r)), t')
        \<and> load_outbox_message (om_message_id m) t' = Some (obr_message (expire_row now r))"
    and "length h = 64 \<Longrightarrow> \<exists>t'. mark_delivered outer now (om_message_id m) token h t = (Inr (obr_message (deliver_row now h r)), t')
        \<and> load_outbox_message (om_message_id m) t' = Some (obr_message (deliver_row now h r))"
    and "\<exists>t'. mark_dead_letter outer now (om_message_id m) token code t = (Inr (obr_message (dead_letter_row now code r)), t')
        \<and> load_outbox_message (om_message_id m) t' = Some (obr_message (dead_letter_row now code r))"
proof -
  have mi: "messages_inv t" using inv by (simp add: outbox_inv_def)
  have id: "message_id r = om_message_id m" using r(2) by (simp add: message_id_def)
  have holds: "holds_claim (om_message_id m) token r" using m r(2) id by (simp add: holds_claim_def)
  have check: "outbox_check r" using mi r(1) by (simp add: messages_inv_def)
  have load: "load_outbox_message (om_message_id m) t = Some m"
    using load_outbox_message_row [OF mi r(1)] r(2) id by simp
  show "\<exists>t'. requeue_expired_claim outer (om_message_id m) owner g token now t = (Inr (obr_message (expire_row now r)), t')
        \<and> load_outbox_message (om_message_id m) t' = Some (obr_message (expire_row now r))"
    if claim: "om_claim_owner_instance_id m = Some owner" "om_claim_generation m = g" "1 \<le> g" "utc_with_z now"
  proof -
    let ?guard = "\<lambda>r. holds_claim (om_message_id m) token r \<and> om_claim_owner_instance_id (obr_message r) = Some owner
             \<and> om_claim_generation (obr_message r) = g"
    have check': "outbox_check (bump (expire_row now) r)"
      using check by (auto simp: outbox_check_def bump_def expire_row_def Let_def)
    obtain t' where "update_message ?guard (expire_row now) ''OUTBOX_EXPIRED_CLAIM_REQUEUE_FAILED''
        ''OUTBOX_EXPIRED_CLAIM_MISMATCH'' t = (Inr (), t')"
      "load_outbox_message (message_id r) t' = Some (obr_message (expire_row now r))"
      by (rule update_message_succeeds [OF mi _ r(1) _ _ check', of ?guard])
        (use holds claim r(2) id in \<open>auto simp: holds_claim_def intro!: message_rows_good(2)\<close>)
    then show ?thesis
      using that id by (simp add: requeue_expired_claim_def transactional_def call_then_def loaded_message_def)
  qed
  show "\<exists>t'. mark_delivered outer now (om_message_id m) token h t = (Inr (obr_message (deliver_row now h r)), t')
        \<and> load_outbox_message (om_message_id m) t' = Some (obr_message (deliver_row now h r))"
    if "length h = 64"
  proof -
    let ?guard = "\<lambda>r. holds_claim (om_message_id m) token r \<and> om_payload_hash (obr_message r) = om_payload_hash m"
    have check': "outbox_check (bump (deliver_row now h) r)"
      using check that by (auto simp: outbox_check_def bump_def deliver_row_def Let_def)
    obtain t1 where t1: "update_message ?guard (deliver_row now h) ''OUTBOX_DELIVERY_FAILED''
        ''OUTBOX_DELIVERY_CLAIM_MISMATCH'' t = (Inr (), t1)"
      "load_outbox_message (message_id r) t1 = Some (obr_message (deliver_row now h r))"
      by (rule update_message_succeeds [OF mi _ r(1) _ _ check', of ?guard])
        (use holds r(2) id in \<open>auto simp: holds_claim_def intro!: message_rows_good(4)\<close>)
    have "load_outbox_message (om_message_id m) (t1\<lparr>obx_tombstones := x\<rparr>) = Some (obr_message (deliver_row now h r))" for x
      using t1(2) id by (simp add: load_outbox_message_def)
    then show ?thesis
      using load t1(1)
      by (simp add: mark_delivered_def transactional_def mark_delivered_work_def call_then_def loaded_message_def)
  qed
  show "\<exists>t'. mark_dead_letter outer now (om_message_id m) token code t = (Inr (obr_message (dead_letter_row now code r)), t')
        \<and> load_outbox_message (om_message_id m) t' = Some (obr_message (dead_letter_row now code r))"
  proof -
    have check': "outbox_check (bump (dead_letter_row now code) r)"
      using check by (auto simp: outbox_check_def bump_def dead_letter_row_def Let_def)
    obtain t' where "update_message (holds_claim (om_message_id m) token) (dead_letter_row now code)
        ''OUTBOX_DEAD_LETTER_FAILED'' ''OUTBOX_DEAD_LETTER_CLAIM_MISMATCH'' t = (Inr (), t')"
      "load_outbox_message (message_id r) t' = Some (obr_message (dead_letter_row now code r))"
      by (rule update_message_succeeds [OF mi _ r(1) _ _ check', of "holds_claim (om_message_id m) token"])
        (use holds r(2) id in \<open>auto simp: holds_claim_def intro!: message_rows_good(5)\<close>)
    then show ?thesis
      using id by (simp add: mark_dead_letter_def transactional_def call_then_def loaded_message_def)
  qed
qed

end
