(* ===== verification/Command_Properties.thy ===== *)
theory Command_Properties
  imports Receipt_Laws Outbox_Laws
begin

text \<open>The properties of the command receipts and of the outbox, with their witnesses.\<close>

section \<open>Receipts\<close>

lemma open_or_terminal:
  "s \<in> set (EARLY_RECONCILABLE_COMMAND_RECEIPT_STATES @ PENDING_EFFECT_RECONCILIATION_COMMAND_RECEIPT_STATES) \<longleftrightarrow>
     s \<notin> set TERMINAL_COMMAND_RECEIPT_STATES"
  by (cases s) (simp_all add: EARLY_RECONCILABLE_COMMAND_RECEIPT_STATES_def TERMINAL_COMMAND_RECEIPT_STATES_def
      PENDING_EFFECT_RECONCILIATION_COMMAND_RECEIPT_STATES_def)

lemma open_receipts_all:
  assumes "receipt_inv t" "load_active_command_receipt k t = Some r"
    and "length (filter (\<lambda>r. cr_state (rcr_receipt r) \<notin> set TERMINAL_COMMAND_RECEIPT_STATES) (rcs_receipts t)) \<le> n"
  shows "(k, s) \<in> set (open_receipts n t) \<longleftrightarrow> s = cr_state r \<and> s \<notin> set TERMINAL_COMMAND_RECEIPT_STATES"
proof -
  let ?open = "filter (\<lambda>r. cr_state (rcr_receipt r) \<notin> set TERMINAL_COMMAND_RECEIPT_STATES) (rcs_receipts t)"
  have "open_receipts n t = map (\<lambda>r. (receipt_key r, cr_state (rcr_receipt r)))
      (sort_key (\<lambda>r. (rcr_updated_utc r, receipt_key r)) ?open)"
    using assms(3) unfolding open_receipts_def open_or_terminal by simp
  then have member: "(k, s) \<in> set (open_receipts n t) \<longleftrightarrow>
      (\<exists>x. x \<in> set (rcs_receipts t) \<and> cr_state (rcr_receipt x) \<notin> set TERMINAL_COMMAND_RECEIPT_STATES
        \<and> receipt_key x = k \<and> cr_state (rcr_receipt x) = s)"
    by auto
  obtain row where row: "row \<in> set (rcs_receipts t)" "receipt_key row = k" "rcr_receipt row = r"
    using assms(2) by (auto simp: load_active_command_receipt_def dest: find_Some_iff')
  have "inj_on receipt_key (set (rcs_receipts t))" using assms(1) by (simp add: receipt_inv_def distinct_map)
  then have one: "x \<in> set (rcs_receipts t) \<and> receipt_key x = k \<longleftrightarrow> x = row" for x
    using row(1,2) by (auto dest: inj_onD)
  have "(k, s) \<in> set (open_receipts n t) \<longleftrightarrow>
      (\<exists>x. x = row \<and> cr_state (rcr_receipt x) \<notin> set TERMINAL_COMMAND_RECEIPT_STATES \<and> cr_state (rcr_receipt x) = s)"
    unfolding member using one by blast
  then show ?thesis using row(3) by auto
qed

text \<open>C26: A command is never forgotten and what it came to is final.  Once a key has a receipt, whatever the program
  does with the store afterwards (recording, moving receipts along their transitions, compacting ended receipts into
  tombstones, reconciling after a restart), the key still answers with a receipt of the same command, whose state was
  reached by the transitions, and unchanged if it had ended; and a command that arrives with this key is answered
  from it, or refused as a conflict, without a change of the store.\<close>

theorem commands_are_never_forgotten:
  assumes "receipt_reachable t" "load_command_receipt k t = Some r" "receipt_step\<^sup>*\<^sup>* t t'"
  shows "\<exists>r'. load_command_receipt k t' = Some r'
    \<and> command_identity r' = command_identity r \<and> (cr_state r, cr_state r') \<in> receipt_transitions\<^sup>*
    \<and> (cr_state r \<in> set TERMINAL_COMMAND_RECEIPT_STATES \<longrightarrow> r' = r)
    \<and> (\<forall>outer now incoming. cr_idempotency_key incoming = k \<longrightarrow>
         record_received outer now incoming t' = (ensure_idempotency_compatible r' incoming, t'))"
proof -
  have "receipts_follow t t'" using receipts.all_steps_keep [OF assms(3)] receipt_reachable_inv [OF assms(1)] by simp
  then obtain r' where "load_command_receipt k t' = Some r'" "receipt_follows r r'"
    using assms(2) by (auto simp: receipts_follow_def)
  then show ?thesis by (auto simp: receipt_follows_def record_known)
qed

definition ex_receipt :: CommandReceipt where
  "ex_receipt = \<lparr>cr_request_id = ''q1'', cr_client_instance_id = ''c1'', cr_principal_fingerprint = ''p1'',
     cr_idempotency_key = ''k1'', cr_command_name = ''run.pause'', cr_payload_hash = replicate 64 CHR ''a'',
     cr_protocol_version = 1, cr_schema_version = 1, cr_state = RECEIPT_REJECTED, cr_expected_entity_revision = None,
     cr_payload_hash_scope = ''PAYLOAD_ONLY'', cr_payload_canonicalization_algorithm = ''JCS-RFC8785'',
     cr_payload_hash_algorithm = ''BLAKE3-256'', cr_result_entity_type = None, cr_result_entity_id = None,
     cr_rejection_reason = Some ''NO''\<rparr>"

definition ex_receipts :: "CommandReceiptState \<Rightarrow> receipt_tables" where
  "ex_receipts s = \<lparr>rcs_receipts = [\<lparr>rcr_receipt = ex_receipt\<lparr>cr_state := s\<rparr>, rcr_created_utc = ''u1'',
     rcr_updated_utc = ''u1''\<rparr>], rcs_tombstones = []\<rparr>"

lemma ex_receipts_reachable: "receipt_reachable (ex_receipts s)"
proof -
  have "record_received False ''u1'' (ex_receipt\<lparr>cr_state := s\<rparr>) empty_receipt_tables =
      (Inr (ex_receipt\<lparr>cr_state := s\<rparr>), ex_receipts s)"
    by (subst record_new) (simp_all add: load_None_iff empty_receipt_tables_def ex_receipts_def)
  then show ?thesis unfolding receipt_reachable_def by (intro r_into_rtranclp) (rule receipt_step.receive)
qed

lemma ex_receipts_load [simp]:
  "load_active_command_receipt ''k1'' (ex_receipts s) = Some (ex_receipt\<lparr>cr_state := s\<rparr>)"
  "load_command_receipt ''k1'' (ex_receipts s) = Some (ex_receipt\<lparr>cr_state := s\<rparr>)"
  by (simp_all add: load_command_receipt_def load_active_command_receipt_def ex_receipts_def receipt_key_def ex_receipt_def)

lemma ex_receipts_compacted:
  "\<exists>t'. compact_terminal_command_receipt (\<lambda>_. False) False ''u2'' ''k1'' (ex_receipts RECEIPT_REJECTED) =
     (Inr ex_receipt, t') \<and> rcs_receipts t' = []"
  by (simp add: compact_terminal_command_receipt_def compact_work_def transactional_def Let_def ex_receipts_def
      receipt_key_def ex_receipt_def TERMINAL_COMMAND_RECEIPT_STATES_def sql_count_def)

theorem commands_are_never_forgotten_witness:
  "\<exists>t'. receipt_step\<^sup>*\<^sup>* (ex_receipts RECEIPT_REJECTED) t' \<and> rcs_receipts t' = []
     \<and> load_command_receipt ''k1'' t' = Some ex_receipt"
proof -
  obtain t' where t': "compact_terminal_command_receipt (\<lambda>_. False) False ''u2'' ''k1'' (ex_receipts RECEIPT_REJECTED) =
     (Inr ex_receipt, t')" "rcs_receipts t' = []"
    using ex_receipts_compacted by blast
  have steps: "receipt_step\<^sup>*\<^sup>* (ex_receipts RECEIPT_REJECTED) t'"
    by (intro r_into_rtranclp) (rule receipt_step.compact [OF t'(1)])
  have "load_command_receipt ''k1'' t' = Some (ex_receipt\<lparr>cr_state := RECEIPT_REJECTED\<rparr>)"
    using commands_are_never_forgotten [OF ex_receipts_reachable ex_receipts_load(2) steps]
    by (auto simp: TERMINAL_COMMAND_RECEIPT_STATES_def)
  moreover have "ex_receipt\<lparr>cr_state := RECEIPT_REJECTED\<rparr> = ex_receipt" by (simp add: ex_receipt_def)
  ultimately show ?thesis using steps t'(2) by auto
qed

text \<open>C29: After a restart every open receipt is settled or reported.  With a valid request whose limit covers the open
  receipts, the reconciliation succeeds; a receipt whose command had no effect yet becomes what the application's
  \<open>reject_early_command_receipt_after_startup\<close> makes of it and its key is reported as rejected; every other receipt
  is as before, and its key is reported as pending exactly when its effect may have been started.\<close>

theorem startup_settles_receipts:
  assumes "receipt_reachable t" "validate_receipt_reconciliation_request q = Inr ()"
    and "length (filter (\<lambda>r. cr_state (rcr_receipt r) \<notin> set TERMINAL_COMMAND_RECEIPT_STATES) (rcs_receipts t))
           \<le> nat (rrq_limit q)"
  shows "\<exists>rep t'. reconcile_non_terminal_after_startup outer now q t = (Inr rep, t')
    \<and> (\<forall>k r. load_active_command_receipt k t = Some r \<longrightarrow>
        (if cr_state r \<in> set EARLY_RECONCILABLE_COMMAND_RECEIPT_STATES
         then k \<in> set (rrp_rejected_idempotency_keys rep) \<and> k \<notin> set (rrp_pending_effect_reconciliation_keys rep)
           \<and> reject_early_command_receipt_after_startup r q = Inr (the (load_command_receipt k t'))
           \<and> load_command_receipt k t' \<noteq> None
         else load_command_receipt k t' = Some r \<and> k \<notin> set (rrp_rejected_idempotency_keys rep)
           \<and> (k \<in> set (rrp_pending_effect_reconciliation_keys rep) \<longleftrightarrow>
                cr_state r \<in> set PENDING_EFFECT_RECONCILIATION_COMMAND_RECEIPT_STATES)))"
proof -
  have inv: "receipt_inv t" by (rule receipt_reachable_inv [OF assms(1)])
  let ?rows = "open_receipts (nat (rrq_limit q)) t"
  let ?rep = "\<lparr>rrp_reconciler_instance_id = rrq_reconciler_instance_id q, rrp_scanned = length ?rows,
        rrp_rejected_idempotency_keys = early_keys ?rows, rrp_pending_effect_reconciliation_keys = pending_keys ?rows\<rparr>"
  let ?t' = "t\<lparr>rcs_receipts := rejected_rows now (set (early_keys ?rows)) (rcs_receipts t)\<rparr>"
  have result: "reconcile_non_terminal_after_startup outer now q t = (Inr ?rep, ?t')"
    by (rule reconcile_result [OF inv assms(2)])
  have early: "k \<in> set (early_keys ?rows) \<longleftrightarrow> cr_state r \<in> set EARLY_RECONCILABLE_COMMAND_RECEIPT_STATES"
    and pending: "k \<in> set (pending_keys ?rows) \<longleftrightarrow> cr_state r \<in> set PENDING_EFFECT_RECONCILIATION_COMMAND_RECEIPT_STATES"
    and load: "load_command_receipt k ?t' = Some (if k \<in> set (early_keys ?rows) then r\<lparr>cr_state := RECEIPT_REJECTED,
       cr_rejection_reason := Some COMMAND_RECEIPT_REJECTED_AFTER_STARTUP_RECONCILIATION\<rparr> else r)"
    if k: "load_active_command_receipt k t = Some r" for k r
  proof -
    note rows = open_receipts_all [OF inv k assms(3)]
    show "k \<in> set (early_keys ?rows) \<longleftrightarrow> cr_state r \<in> set EARLY_RECONCILABLE_COMMAND_RECEIPT_STATES"
      using rows open_or_terminal by (force simp: early_keys_def image_iff)
    show "k \<in> set (pending_keys ?rows) \<longleftrightarrow> cr_state r \<in> set PENDING_EFFECT_RECONCILIATION_COMMAND_RECEIPT_STATES"
      using rows open_or_terminal [of "cr_state r"]
      by (force simp: pending_keys_def image_iff EARLY_RECONCILABLE_COMMAND_RECEIPT_STATES_def
          PENDING_EFFECT_RECONCILIATION_COMMAND_RECEIPT_STATES_def)
    show "load_command_receipt k ?t' = Some (if k \<in> set (early_keys ?rows) then r\<lparr>cr_state := RECEIPT_REJECTED,
       cr_rejection_reason := Some COMMAND_RECEIPT_REJECTED_AFTER_STARTUP_RECONCILIATION\<rparr> else r)"
      using k load_rejected_rows [of k now "set (early_keys ?rows)" t] by (simp add: load_command_receipt_def)
  qed
  have rejected: "reject_early_command_receipt_after_startup r q = Inr (r\<lparr>cr_state := RECEIPT_REJECTED,
       cr_rejection_reason := Some COMMAND_RECEIPT_REJECTED_AFTER_STARTUP_RECONCILIATION\<rparr>)"
    if "cr_state r \<in> set EARLY_RECONCILABLE_COMMAND_RECEIPT_STATES" for r
  proof -
    have "cr_state r = RECEIPT_RECEIVED \<or> cr_state r = RECEIPT_VALIDATED"
      using that by (simp add: EARLY_RECONCILABLE_COMMAND_RECEIPT_STATES_def)
    then have "transition_command_receipt r RECEIPT_REJECTED None None
        (Some COMMAND_RECEIPT_REJECTED_AFTER_STARTUP_RECONCILIATION) = Inr (r\<lparr>cr_state := RECEIPT_REJECTED,
           cr_rejection_reason := Some COMMAND_RECEIPT_REJECTED_AFTER_STARTUP_RECONCILIATION\<rparr>)"
      by (elim disjE) (simp_all add: transition_command_receipt_def keep_or_def)
    then show ?thesis using that assms(2) by (simp add: reject_early_command_receipt_after_startup_def)
  qed
  have apart: "cr_state r \<notin> set PENDING_EFFECT_RECONCILIATION_COMMAND_RECEIPT_STATES"
    if "cr_state r \<in> set EARLY_RECONCILABLE_COMMAND_RECEIPT_STATES" for r
    using that by (auto simp: EARLY_RECONCILABLE_COMMAND_RECEIPT_STATES_def
        PENDING_EFFECT_RECONCILIATION_COMMAND_RECEIPT_STATES_def)
  show ?thesis
  proof (intro exI [of _ ?rep] exI [of _ ?t'] conjI result allI impI)
    fix k r
    assume k: "load_active_command_receipt k t = Some r"
    show "if cr_state r \<in> set EARLY_RECONCILABLE_COMMAND_RECEIPT_STATES
         then k \<in> set (rrp_rejected_idempotency_keys ?rep) \<and> k \<notin> set (rrp_pending_effect_reconciliation_keys ?rep)
           \<and> reject_early_command_receipt_after_startup r q = Inr (the (load_command_receipt k ?t'))
           \<and> load_command_receipt k ?t' \<noteq> None
         else load_command_receipt k ?t' = Some r \<and> k \<notin> set (rrp_rejected_idempotency_keys ?rep)
           \<and> (k \<in> set (rrp_pending_effect_reconciliation_keys ?rep) \<longleftrightarrow>
                cr_state r \<in> set PENDING_EFFECT_RECONCILIATION_COMMAND_RECEIPT_STATES)"
      using early [OF k] pending [OF k] load [OF k] rejected [of r] apart [of r]
      by (cases "cr_state r \<in> set EARLY_RECONCILABLE_COMMAND_RECEIPT_STATES") simp_all
  qed
qed

theorem startup_settles_receipts_witness:
  "\<exists>rep t'. reconcile_non_terminal_after_startup False ''u3''
       \<lparr>rrq_reconciler_instance_id = ''i1'', rrq_limit = 10\<rparr> (ex_receipts RECEIPT_VALIDATED) = (Inr rep, t')
     \<and> ''k1'' \<in> set (rrp_rejected_idempotency_keys rep)"
proof -
  let ?q = "\<lparr>rrq_reconciler_instance_id = ''i1'', rrq_limit = 10\<rparr>"
  have "validate_receipt_reconciliation_request ?q = Inr ()"
    by (simp add: validate_receipt_reconciliation_request_def MAX_COMMAND_RECEIPT_STARTUP_RECONCILIATION_LIMIT_def
        str_simps py_isspace_def)
  moreover have "length (filter (\<lambda>r. cr_state (rcr_receipt r) \<notin> set TERMINAL_COMMAND_RECEIPT_STATES)
      (rcs_receipts (ex_receipts RECEIPT_VALIDATED))) \<le> nat (rrq_limit ?q)"
    by (simp add: ex_receipts_def)
  ultimately obtain rep t' where "reconcile_non_terminal_after_startup False ''u3'' ?q (ex_receipts RECEIPT_VALIDATED) = (Inr rep, t')"
    and "\<forall>k r. load_active_command_receipt k (ex_receipts RECEIPT_VALIDATED) = Some r \<longrightarrow>
      cr_state r \<in> set EARLY_RECONCILABLE_COMMAND_RECEIPT_STATES \<longrightarrow> k \<in> set (rrp_rejected_idempotency_keys rep)"
    using startup_settles_receipts [OF ex_receipts_reachable, of ?q RECEIPT_VALIDATED False "''u3''"] by metis
  then show ?thesis
    by (auto simp: EARLY_RECONCILABLE_COMMAND_RECEIPT_STATES_def dest!: spec [of _ "''k1''"])
qed

section \<open>The outbox\<close>

lemma load_by_key_row:
  "messages_inv t \<Longrightarrow> r \<in> set (obx_messages t) \<Longrightarrow> load_by_idempotency_key (message_key r) t = Some (obr_message r)"
  using find_unique_key [of message_key "obx_messages t" r "message_key r"]
  by (simp add: load_by_idempotency_key_def messages_inv_def)

lemma tombstone_of_row:
  assumes inv: "outbox_inv t" and r: "r \<in> set (obx_messages t)"
  shows "load_delivered_outbox_tombstone (message_key r) t = Inr None
    \<or> (\<exists>h. load_delivered_outbox_tombstone (message_key r) t = Inr (Some (om_payload_hash (obr_message r), h)))"
proof (cases "List.find (\<lambda>s. eft_deduplication_key s = message_key r \<and> eft_effect_kind s = EFFECT_OUTBOX) (obx_tombstones t)")
  case None
  then show ?thesis by (simp add: load_delivered_outbox_tombstone_def)
next
  case (Some s)
  then have s: "s \<in> set (obx_tombstones t)" "eft_deduplication_key s = message_key r" by (auto dest: find_Some_iff')
  then obtain x h where x: "x \<in> set (obx_messages t)" "tombstone_of (obr_message x) s"
    and h: "eft_terminal_state s = ''DELIVERED''" "eft_terminal_effect_hash s = Some h"
    using inv unfolding outbox_inv_def tombstones_inv_def by blast
  have "inj_on message_key (set (obx_messages t))" using inv by (simp add: outbox_inv_def messages_inv_def distinct_map)
  then have "x = r" using x(1) r s(2) x(2) by (elim inj_onD) (simp_all add: tombstone_of_def message_key_def)
  then have "eft_payload_hash s = om_payload_hash (obr_message r)" using x(2) by (simp add: tombstone_of_def)
  then show ?thesis using Some h by (simp add: load_delivered_outbox_tombstone_def)
qed

text \<open>A row that is there answers every message with its key.\<close>

lemma enqueue_known:
  assumes inv: "outbox_inv t" and r: "r \<in> set (obx_messages t)" "om_idempotency_key x = message_key r"
  shows "enqueue_outbox_message outer now x t =
    (if om_payload_hash x = om_payload_hash (obr_message r) then (Inr (obr_message r), t)
     else (Inl (Outbox_Store_Error ''OUTBOX_IDEMPOTENCY_CONFLICT''), t))"
  using tombstone_of_row [OF inv r(1)] load_by_key_row [OF _ r(1)] inv r(2)
  by (auto simp: enqueue_outbox_message_def transactional_def enqueue_work_def outbox_inv_def split: if_splits)

lemma enqueued_row:
  assumes "enqueue_outbox_message outer now m t = (Inr v, t')" "outbox_inv t"
  shows "\<exists>r \<in> set (obx_messages t'). message_key r = om_idempotency_key m \<and> om_payload_hash (obr_message r) = om_payload_hash m"
proof (cases "om_idempotency_key m \<in> set (map message_key (obx_messages t))")
  case True
  then obtain r where "r \<in> set (obx_messages t)" "om_idempotency_key m = message_key r" by auto
  then show ?thesis using assms enqueue_known [OF assms(2), of r m outer now] by (auto split: if_splits)
next
  case False
  have "load_by_idempotency_key (om_idempotency_key m) t = None"
    using False by (force simp: load_by_idempotency_key_def find_None_iff')
  moreover have "load_delivered_outbox_tombstone (om_idempotency_key m) t = Inr None"
  proof -
    have "\<not> (eft_deduplication_key s = om_idempotency_key m \<and> eft_effect_kind s = EFFECT_OUTBOX)"
      if "s \<in> set (obx_tombstones t)" for s
      using that assms(2) False by (force simp: outbox_inv_def tombstones_inv_def tombstone_of_def message_key_def)
    then show ?thesis by (simp add: load_delivered_outbox_tombstone_def find_None_iff' [THEN iffD2])
  qed
  ultimately have "t' = t\<lparr>obx_messages := obx_messages t @ [outbox_row_of now m]\<rparr>"
    using assms(1) by (auto simp: enqueue_outbox_message_def enqueue_work_def split: if_splits)
  then show ?thesis by (auto simp: outbox_row_of_def message_key_def)
qed

text \<open>C28: An effect is enqueued once.  After a message was enqueued, and whatever the store did since, enqueueing a
  message with its key returns the message that is there and changes nothing when the payload is the same, and is
  refused as a conflict when it is not.\<close>

theorem effects_are_enqueued_once:
  assumes "outbox_reachable t" "enqueue_outbox_message outer now m t = (Inr v, t1)" "(outbox_step UNIV)\<^sup>*\<^sup>* t1 t2"
    and "om_idempotency_key x = om_idempotency_key m"
  shows "\<exists>m'. load_by_idempotency_key (om_idempotency_key m) t2 = Some m' \<and> om_payload_hash m' = om_payload_hash m
    \<and> enqueue_outbox_message outer' now' x t2 =
        (if om_payload_hash x = om_payload_hash m then (Inr m', t2)
         else (Inl (Outbox_Store_Error ''OUTBOX_IDEMPOTENCY_CONFLICT''), t2))"
proof -
  have inv: "outbox_inv t" by (rule outbox_reachable_inv [OF assms(1)])
  have inv1: "outbox_inv t1" using enqueue_keeps [OF assms(2) inv] by simp
  have inv2: "outbox_inv t2" and follow: "messages_follow t1 t2" using outbox.all_steps_keep [OF assms(3) inv1] by simp_all
  obtain r where r: "r \<in> set (obx_messages t1)" "message_key r = om_idempotency_key m"
    "om_payload_hash (obr_message r) = om_payload_hash m"
    using enqueued_row [OF assms(2) inv] by blast
  obtain m' where m': "load_outbox_message (message_id r) t2 = Some m'" "message_follows (obr_message r) m'"
    using follow load_outbox_message_row [OF _ r(1)] inv1 by (auto simp: messages_follow_def outbox_inv_def)
  obtain r2 where r2: "r2 \<in> set (obx_messages t2)" "obr_message r2 = m'" using load_outbox_messageD [OF m'(1)] by auto
  have same: "message_identity m' = message_identity (obr_message r)" using m'(2) by (simp add: message_follows_def)
  note same = message_identity_same [OF same]
  have key: "message_key r2 = om_idempotency_key m" using same r2(2) r(2) by (simp add: message_key_def)
  have "load_by_idempotency_key (om_idempotency_key m) t2 = Some m'"
    using load_by_key_row [OF _ r2(1)] inv2 key r2(2) by (simp add: outbox_inv_def)
  moreover have "enqueue_outbox_message outer' now' x t2 =
        (if om_payload_hash x = om_payload_hash m then (Inr m', t2)
         else (Inl (Outbox_Store_Error ''OUTBOX_IDEMPOTENCY_CONFLICT''), t2))"
    using enqueue_known [OF inv2 r2(1), of x outer' now'] assms(4) key r2(2) same r(3) by simp
  ultimately show ?thesis using same r(3) by auto
qed

definition ex_message :: "OutboxMessageState \<Rightarrow> OutboxMessage" where
  "ex_message s = \<lparr>om_message_id = ''m1'', om_message_type = ''COMMAND_EFFECT_ACCEPTED'', om_aggregate_type = ''run'',
     om_aggregate_id = ''r1'', om_idempotency_key = ''k1'', om_payload_json = ''{}'',
     om_payload_hash = replicate 64 CHR ''a'', om_state = s, om_claim_owner_instance_id = None,
     om_claim_generation = 0, om_claim_token = None, om_claim_started_utc = None, om_claim_ttl_ms = None,
     om_attempt_count = 0, om_terminal_effect_hash = None, om_last_error_code = None\<rparr>"

definition ex_row :: outbox_row where "ex_row = outbox_row_of ''u1'' (ex_message OUTBOX_PENDING)"

definition ex_outbox :: outbox_tables where
  "ex_outbox = \<lparr>obx_messages = [ex_row], obx_tombstones = []\<rparr>"

lemma ex_enqueue:
  "enqueue_outbox_message False ''u1'' (ex_message OUTBOX_PENDING) empty_outbox = (Inr (ex_message OUTBOX_PENDING), ex_outbox)"
  by (simp add: enqueue_outbox_message_def transactional_def enqueue_work_def empty_outbox_def ex_outbox_def ex_row_def
      load_delivered_outbox_tombstone_def load_by_idempotency_key_def outbox_row_of_def ex_message_def outbox_check_def)

lemma empty_outbox_reachable: "outbox_reachable empty_outbox"
  by (simp add: outbox_reachable_def)

lemma ex_outbox_reachable: "outbox_reachable ex_outbox"
  unfolding outbox_reachable_def by (intro r_into_rtranclp) (rule outbox_step.enqueue [OF ex_enqueue])

lemma ex_next_pending: "next_pending ''u2'' ex_outbox = Some ex_row"
  by (simp add: next_pending_def ex_outbox_def ex_row_def outbox_row_of_def ex_message_def)

theorem effects_are_enqueued_once_witness:
  "\<exists>m'. enqueue_outbox_message True ''u2'' (ex_message OUTBOX_DEAD_LETTER) ex_outbox = (Inr m', ex_outbox)"
  using effects_are_enqueued_once [OF empty_outbox_reachable ex_enqueue rtranclp.rtrancl_refl,
      of "ex_message OUTBOX_DEAD_LETTER" True "''u2''"]
  by (auto simp: ex_message_def)

text \<open>C27: A claim that was lost cannot end a message.  Suppose a message was claimed with a token that no later claim
  takes.  Whatever happened since (the claim may have expired, a restart may have given the message to others, they
  may have delivered it), if the holder of the token still succeeds in marking the message as delivered or dead, the
  message was all the time in this claim: same generation, same owner, still claimed.\<close>

theorem lost_claims_cannot_finish:
  assumes "outbox_reachable t0" "claim_next_pending outer now owner token started ttl t0 = (Inr (Some m), t1)"
    and "(outbox_step T)\<^sup>*\<^sup>* t1 t2" "token \<notin> T"
    and "fst (mark_delivered outer' now' (om_message_id m) token h t2) = Inr d
      \<or> fst (mark_dead_letter outer' now' (om_message_id m) token code t2) = Inr d"
  shows "\<exists>m'. load_outbox_message (om_message_id m) t2 = Some m' \<and> om_claim_generation m' = om_claim_generation m
    \<and> om_state m' = OUTBOX_CLAIMED \<and> om_claim_owner_instance_id m' = Some owner"
proof -
  have inv0: "outbox_inv t0" by (rule outbox_reachable_inv [OF assms(1)])
  then have mi0: "messages_inv t0" by (simp add: outbox_inv_def)
  from claim_Inr [OF assms(2) mi0] obtain row where row: "m = claimed_message (obr_message row) owner token started ttl"
    "load_outbox_message (message_id row) t1 = Some m" .
  then have m: "load_outbox_message (om_message_id m) t1 = Some m" "om_claim_token m = Some token"
    "om_claim_owner_instance_id m = Some owner"
    by (simp_all add: claimed_message_def message_id_def)
  have inv1: "outbox_inv t1" using claim_keeps [OF assms(2) inv0] by simp
  have inv2: "outbox_inv t2" and follow: "messages_follow t1 t2" using outbox.all_steps_keep [OF assms(3) inv1] by simp_all
  then obtain m' where m': "load_outbox_message (om_message_id m) t2 = Some m'" "message_follows m m'"
    using m(1) by (auto simp: messages_follow_def)
  have "\<exists>r \<in> set (obx_messages t2). holds_claim (om_message_id m) token r"
    using assms(5)
  proof
    assume "fst (mark_delivered outer' now' (om_message_id m) token h t2) = Inr d"
    then obtain t3 where "mark_delivered outer' now' (om_message_id m) token h t2 = (Inr d, t3)"
      by (metis prod.collapse)
    then obtain n :: OutboxMessage and t4 where
      "update_message (\<lambda>r. holds_claim (om_message_id m) token r \<and> om_payload_hash (obr_message r) = om_payload_hash n)
         (deliver_row now' h) ''OUTBOX_DELIVERY_FAILED'' ''OUTBOX_DELIVERY_CLAIM_MISMATCH'' t2 = (Inr (), t4)"
      by (rule mark_delivered_Inr) (rule that, assumption)
    from update_message_Inr(3) [OF this] show ?thesis
      using sql_count_pos [of "\<lambda>r. holds_claim (om_message_id m) token r \<and> om_payload_hash (obr_message r) = om_payload_hash n"
          "obx_messages t2"] by auto
  next
    assume "fst (mark_dead_letter outer' now' (om_message_id m) token code t2) = Inr d"
    then obtain t3 where "mark_dead_letter outer' now' (om_message_id m) token code t2 = (Inr d, t3)"
      by (metis prod.collapse)
    from update_message_Inr(3) [OF dead_letter_Inr(1) [OF this]] show ?thesis
      using sql_count_pos [of "holds_claim (om_message_id m) token" "obx_messages t2"] by auto
  qed
  then obtain r where r: "r \<in> set (obx_messages t2)" "holds_claim (om_message_id m) token r" by blast
  have "obr_message r = m'"
    using load_outbox_message_row [OF _ r(1)] inv2 r(2) m'(1) by (simp add: outbox_inv_def holds_claim_def)
  then have held: "om_state m' = OUTBOX_CLAIMED" "om_claim_token m' = Some token" using r(2) by (simp_all add: holds_claim_def)
  have "tokens_from T t1 t2" by (rule outbox_steps_tokens [OF assms(3) inv1])
  then have "om_claim_generation m' = om_claim_generation m"
    using m(1) m'(1) held(2) assms(4) unfolding tokens_from_def by (metis image_iff insert_iff option.distinct(1) option.inject)
  then show ?thesis using m' held m(3) by (auto simp: message_follows_def)
qed

definition ex_claimed :: OutboxMessage where
  "ex_claimed = claimed_message (obr_message ex_row) ''o1'' ''t1'' ''u2Z'' 5"

lemma utc_with_z_ex: "utc_with_z ''u2Z''"
  by (simp add: utc_with_z_def str_simps py_isspace_def)

lemma ex_claim:
  obtains t1 r where "claim_next_pending False ''u2'' ''o1'' ''t1'' ''u2Z'' 5 ex_outbox = (Inr (Some ex_claimed), t1)"
    "outbox_inv t1" "r \<in> set (obx_messages t1)" "obr_message r = ex_claimed" "message_id r = ''m1''"
  using claim_succeeds [OF outbox_reachable_inv [OF ex_outbox_reachable] ex_next_pending _ utc_with_z_ex,
      of 5 False "''o1''" "''t1''"]
  by (auto simp: ex_claimed_def ex_row_def outbox_row_of_def message_id_def ex_message_def)

theorem lost_claims_cannot_finish_witness:
  "\<exists>t1 m'. claim_next_pending False ''u2'' ''o1'' ''t1'' ''u2Z'' 5 ex_outbox = (Inr (Some ex_claimed), t1)
     \<and> load_outbox_message ''m1'' t1 = Some m' \<and> om_claim_owner_instance_id m' = Some ''o1''"
proof -
  obtain t1 r where t1: "claim_next_pending False ''u2'' ''o1'' ''t1'' ''u2Z'' 5 ex_outbox = (Inr (Some ex_claimed), t1)"
    "outbox_inv t1" "r \<in> set (obx_messages t1)" "obr_message r = ex_claimed" "message_id r = ''m1''"
    by (rule ex_claim)
  have "\<exists>d. fst (mark_dead_letter False ''u3'' (om_message_id ex_claimed) ''t1'' ''BROKEN'' t1) = Inr d"
    using holder_succeeds(3) [OF t1(2,3,4), of "''t1''" False "''u3''" "''BROKEN''"]
    by (auto simp: ex_claimed_def claimed_message_def)
  then obtain d where "fst (mark_dead_letter False ''u3'' (om_message_id ex_claimed) ''t1'' ''BROKEN'' t1) = Inr d" ..
  from lost_claims_cannot_finish [OF ex_outbox_reachable t1(1) rtranclp.rtrancl_refl, of "{}", OF _ disjI2 [OF this]]
  have "\<exists>m'. load_outbox_message (om_message_id ex_claimed) t1 = Some m' \<and> om_claim_owner_instance_id m' = Some ''o1''"
    by auto
  moreover have "om_message_id ex_claimed = ''m1''"
    by (simp add: ex_claimed_def claimed_message_def ex_row_def outbox_row_of_def ex_message_def)
  ultimately show ?thesis using t1(1) by auto
qed

text \<open>A delivery port that answers as the dispatcher requires.\<close>

definition port_answers :: "'w delivery \<Rightarrow> bool" where
  "port_answers deliver \<longleftrightarrow>
     (\<forall>m w. \<exists>result w'. deliver m w = (Inr result, w')
        \<and> (case odr_outcome result of
             DELIVERY_DELIVERED \<Rightarrow> \<exists>h. odr_terminal_effect_hash result = Some h \<and> length h = 64
           | DELIVERY_DEAD_LETTER \<Rightarrow> \<not> opt_blank (odr_error_code result)))"

lemma requeue_after_expiry_succeeds:
  assumes "outbox_inv t" "r \<in> set (obx_messages t)" "obr_message r = m" "m = claimed_message m0 owner token started ttl"
    and "0 \<le> om_claim_generation m0" "utc_with_z (dc_utc_requeue clock)"
  shows "\<exists>t' m'. requeue_after_expiry clock owner token m t = (Inr (dispatch_result False False True m), t')
    \<and> load_outbox_message (om_message_id m) t' = Some m' \<and> om_state m' = OUTBOX_PENDING
    \<and> om_claim_generation m' = om_claim_generation m + 1 \<and> om_attempt_count m' = om_attempt_count m"
proof -
  obtain t' where "requeue_expired_claim False (om_message_id m) owner (om_claim_generation m) token (dc_utc_requeue clock) t =
      (Inr (obr_message (expire_row (dc_utc_requeue clock) r)), t')"
    "load_outbox_message (om_message_id m) t' = Some (obr_message (expire_row (dc_utc_requeue clock) r))"
    using holder_succeeds(1) [OF assms(1-3), of token owner "om_claim_generation m" "dc_utc_requeue clock" False] assms(4-6)
    by (auto simp: claimed_message_def)
  then show ?thesis using assms(3) by (simp add: requeue_after_expiry_def call_then_def expire_row_def)
qed

lemma finish_delivery_succeeds:
  assumes "outbox_inv t" "r \<in> set (obx_messages t)" "obr_message r = m" "m = claimed_message m0 owner token started ttl"
    and result: "case odr_outcome result of
             DELIVERY_DELIVERED \<Rightarrow> \<exists>h. odr_terminal_effect_hash result = Some h \<and> length h = 64
           | DELIVERY_DEAD_LETTER \<Rightarrow> \<not> opt_blank (odr_error_code result)"
  shows "\<exists>t' m'. finish_delivery clock token m result t =
      (Inr (dispatch_result (odr_outcome result = DELIVERY_DELIVERED) (odr_outcome result = DELIVERY_DEAD_LETTER) False m), t')
    \<and> load_outbox_message (om_message_id m) t' = Some m'
    \<and> om_state m' = (if odr_outcome result = DELIVERY_DELIVERED then OUTBOX_DELIVERED else OUTBOX_DEAD_LETTER)
    \<and> om_claim_generation m' = om_claim_generation m \<and> om_attempt_count m' = om_attempt_count m"
proof -
  have claimed: "om_state m = OUTBOX_CLAIMED" "om_claim_token m = Some token"
    using assms(4) by (simp_all add: claimed_message_def)
  show ?thesis
  proof (cases "odr_outcome result")
    case DELIVERY_DELIVERED
    then obtain h where h: "odr_terminal_effect_hash result = Some h" "length h = 64" using result by auto
    obtain t' where "mark_delivered False (dc_end_now clock) (om_message_id m) token h t =
        (Inr (obr_message (deliver_row (dc_end_now clock) h r)), t')"
      "load_outbox_message (om_message_id m) t' = Some (obr_message (deliver_row (dc_end_now clock) h r))"
      using holder_succeeds(2) [OF assms(1-3) claimed h(2)] by blast
    then show ?thesis
      using DELIVERY_DELIVERED h(1) assms(3) by (simp add: finish_delivery_def call_then_def deliver_row_def)
  next
    case DELIVERY_DEAD_LETTER
    then obtain code where code: "odr_error_code result = Some code" "\<not> opt_blank (odr_error_code result)"
      using result by auto
    obtain t' where "mark_dead_letter False (dc_end_now clock) (om_message_id m) token code t =
        (Inr (obr_message (dead_letter_row (dc_end_now clock) code r)), t')"
      "load_outbox_message (om_message_id m) t' = Some (obr_message (dead_letter_row (dc_end_now clock) code r))"
      using holder_succeeds(3) [OF assms(1-3) claimed] by blast
    then show ?thesis
      using DELIVERY_DEAD_LETTER code assms(3) by (simp add: finish_delivery_def call_then_def dead_letter_row_def)
  qed
qed

text \<open>C30: A message that is due is dispatched, and ends only within its claim.  When a message is due, the clock and
  the delivery port behave, then the dispatcher claims the first due message and exactly one of three things comes of
  it: it is delivered or dead and stays in the generation of the claim, and then both readings of the monotonic clock
  were before the deadline; or a reading was at the deadline or after it, and the message is pending again in a later
  generation, although the port may have been called.\<close>

theorem due_message_is_dispatched:
  assumes "outbox_reachable t" "next_pending (dc_claim_now clock) t = Some row" "0 < ttl"
    and "0 \<le> dc_monotonic_start clock" "utc_with_z (dc_utc_start clock)" "utc_with_z (dc_utc_requeue clock)"
    and "port_answers deliver"
  defines "deadline \<equiv> dc_monotonic_start clock + ttl * 1000000"
  shows "\<exists>res t' w' m'. dispatch_one_outbox_message deliver clock owner token ttl (t, w) = (Inr res, t', w')
    \<and> ods_claimed res \<and> ods_message_id res = Some (message_id row) \<and> load_outbox_message (message_id row) t' = Some m'
    \<and> om_attempt_count m' = om_attempt_count (obr_message row) + 1
    \<and> (if dc_monotonic_before clock < deadline \<and> dc_monotonic_after clock < deadline
       then \<not> ods_claim_expired res \<and> om_claim_generation m' = om_claim_generation (obr_message row) + 1
         \<and> (ods_delivered res \<and> \<not> ods_dead_lettered res \<and> om_state m' = OUTBOX_DELIVERED
            \<or> ods_dead_lettered res \<and> \<not> ods_delivered res \<and> om_state m' = OUTBOX_DEAD_LETTER)
       else ods_claim_expired res \<and> \<not> ods_delivered res \<and> \<not> ods_dead_lettered res \<and> om_state m' = OUTBOX_PENDING
         \<and> om_claim_generation m' = om_claim_generation (obr_message row) + 2)"
proof -
  have inv: "outbox_inv t" by (rule outbox_reachable_inv [OF assms(1)])
  define m where "m = claimed_message (obr_message row) owner token (dc_utc_start clock) ttl"
  obtain t1 r where t1: "claim_next_pending False (dc_claim_now clock) owner token (dc_utc_start clock) ttl t = (Inr (Some m), t1)"
    "outbox_inv t1" "r \<in> set (obx_messages t1)" "obr_message r = m"
    using claim_succeeds [OF inv assms(2,3,5), of False owner token] unfolding m_def by blast
  have id: "om_message_id m = message_id row" and gen: "om_claim_generation m = om_claim_generation (obr_message row) + 1"
    and attempts: "om_attempt_count m = om_attempt_count (obr_message row) + 1"
    by (simp_all add: m_def claimed_message_def message_id_def)
  have gen0: "0 \<le> om_claim_generation (obr_message row)"
    using next_pendingD(1) [OF assms(2)] inv by (auto simp: outbox_inv_def messages_inv_def outbox_check_def Let_def)
  let ?window = "\<lparr>cw_started_utc = dc_utc_start clock, cw_started_monotonic_ns = dc_monotonic_start clock,
      cw_deadline_monotonic_ns = deadline, cw_ttl_ms = ttl\<rparr>"
  have window: "start_claim_window (dc_monotonic_start clock) (dc_utc_start clock) ttl = Inr ?window"
    using assms(3-5) by (simp add: start_claim_window_def deadline_def)
  have active: "window_active ?window n \<longleftrightarrow> n < deadline" for n by (simp add: window_active_def)
  obtain t2 m2 where expiry: "requeue_after_expiry clock owner token m t1 = (Inr (dispatch_result False False True m), t2)"
    "load_outbox_message (om_message_id m) t2 = Some m2" "om_state m2 = OUTBOX_PENDING"
    "om_claim_generation m2 = om_claim_generation m + 1" "om_attempt_count m2 = om_attempt_count m"
    using requeue_after_expiry_succeeds [OF t1(2,3,4) m_def gen0 assms(6)] by blast
  obtain result w' where port: "deliver m w = (Inr result, w')"
    and result: "case odr_outcome result of
             DELIVERY_DELIVERED \<Rightarrow> \<exists>h. odr_terminal_effect_hash result = Some h \<and> length h = 64
           | DELIVERY_DEAD_LETTER \<Rightarrow> \<not> opt_blank (odr_error_code result)"
    using assms(7) unfolding port_answers_def by blast
  obtain t3 m3 where finish: "finish_delivery clock token m result t1 =
      (Inr (dispatch_result (odr_outcome result = DELIVERY_DELIVERED) (odr_outcome result = DELIVERY_DEAD_LETTER) False m), t3)"
    "load_outbox_message (om_message_id m) t3 = Some m3"
    "om_state m3 = (if odr_outcome result = DELIVERY_DELIVERED then OUTBOX_DELIVERED else OUTBOX_DEAD_LETTER)"
    "om_claim_generation m3 = om_claim_generation m" "om_attempt_count m3 = om_attempt_count m"
    using finish_delivery_succeeds [OF t1(2,3,4) m_def result] by blast
  note run = dispatch_one_outbox_message_def window t1(1) port expiry(1) finish(1) active dispatch_result_def
  show ?thesis
  proof (cases "dc_monotonic_before clock < deadline \<and> dc_monotonic_after clock < deadline")
    case True
    then show ?thesis
      using finish(2-5) id gen attempts by (cases "odr_outcome result") (simp_all add: run)
  next
    case False
    then show ?thesis
      using expiry(2-5) id gen attempts by (cases "dc_monotonic_before clock < deadline") (simp_all add: run)
  qed
qed

definition ex_port :: "nat delivery" where
  "ex_port m w = (Inr \<lparr>odr_outcome = DELIVERY_DELIVERED, odr_terminal_effect_hash = Some (replicate 64 CHR ''b''),
     odr_error_code = None\<rparr>, w + 1)"

definition ex_clock :: dispatch_clock where
  "ex_clock = \<lparr>dc_monotonic_start = 0, dc_utc_start = ''u2Z'', dc_claim_now = ''u2'', dc_monotonic_before = 1,
     dc_monotonic_after = 5000000, dc_utc_requeue = ''u2Z'', dc_end_now = ''u3''\<rparr>"

theorem due_message_is_dispatched_witness:
  "\<exists>res t' w'. dispatch_one_outbox_message ex_port ex_clock ''o1'' ''t1'' 5 (ex_outbox, 0) = (Inr res, t', w')
     \<and> ods_claim_expired res"
  using due_message_is_dispatched [OF ex_outbox_reachable, of ex_clock ex_row 5 ex_port "''o1''" "''t1''" 0]
  by (auto simp: ex_clock_def ex_next_pending utc_with_z_ex port_answers_def ex_port_def)

section \<open>Restarts\<close>

text \<open>What the reconciliation after a restart makes of a message.\<close>

definition restarted :: "OutboxMessage \<Rightarrow> OutboxMessage" where
  "restarted m = m\<lparr>om_state := OUTBOX_PENDING, om_claim_owner_instance_id := None,
     om_claim_generation := om_claim_generation m + 1, om_claim_token := None, om_claim_started_utc := None,
     om_last_error_code := Some ''OUTBOX_CLAIM_REQUEUED_AFTER_STARTUP''\<rparr>"

lemma requeue_rows_result:
  assumes "requeue_rows now owners rows t = (Inr ids, t')" "outbox_inv t" "distinct (map fst rows)"
  shows "\<forall>i. load_outbox_message i t' =
      (if i \<in> set (map fst rows) then map_option restarted (load_outbox_message i t) else load_outbox_message i t)"
  using assms
proof (induction rows arbitrary: t ids)
  case Nil
  then show ?case by simp
next
  case (Cons p rows)
  obtain i g where p: "p = (i, g)" by fastforce
  let ?guard = "\<lambda>r. message_id r = i \<and> om_claim_generation (obr_message r) = g \<and> claimed_by owners r"
  obtain t1 ids1 where
    update: "update_message ?guard (requeue_row now)
        ''OUTBOX_RECONCILIATION_FAILED'' ''OUTBOX_RECONCILIATION_CLAIM_CONFLICT'' t = (Inr (), t1)"
    and rest: "requeue_rows now owners rows t1 = (Inr ids1, t')"
    using Cons.prems(1) p by auto
  have good: "good_update ?guard (requeue_row now)" by (rule message_rows_good(3)) (simp add: claimed_by_def)
  have inv1: "outbox_inv t1"
    using update_keeps [OF update good Cons.prems(2)] by (simp add: claimed_by_def requeue_row_def)
  have mi: "messages_inv t" using Cons.prems(2) by (simp add: outbox_inv_def)
  obtain r where r: "r \<in> set (obx_messages t)" "?guard r"
    using update_message_Inr(3) [OF update] sql_count_pos [of ?guard "obx_messages t"] by auto
  have find: "List.find (\<lambda>r. message_id r = j) (obx_messages t1) =
      map_option (\<lambda>x. if ?guard x then bump (requeue_row now) x else x)
        (List.find (\<lambda>r. message_id r = j) (obx_messages t))" for j
    using find_guarded_update [of ?guard message_id "bump (requeue_row now)" j "obx_messages t"] good_update_ids(1) [OF good]
    by (simp add: update_message_Inr(1) [OF update])
  have "List.find (\<lambda>x. message_id x = i) (obx_messages t) = Some r"
    using mi r by (intro find_unique_key) (auto simp: messages_inv_def)
  then have at: "load_outbox_message i t1 = map_option restarted (load_outbox_message i t)"
    using find [of i] r(2) by (simp add: load_outbox_message_def bump_def requeue_row_def restarted_def)
  have off: "load_outbox_message j t1 = load_outbox_message j t" if "j \<noteq> i" for j
    using find [of j] that
    by (cases "List.find (\<lambda>r. message_id r = j) (obx_messages t)") (auto simp: load_outbox_message_def dest: find_Some_iff')
  have rec: "\<forall>j. load_outbox_message j t' =
      (if j \<in> set (map fst rows) then map_option restarted (load_outbox_message j t1) else load_outbox_message j t1)"
    by (rule Cons.IH [OF rest inv1]) (use Cons.prems(3) in simp)
  have fresh: "i \<notin> set (map fst rows)" using Cons.prems(3) p by simp
  show ?case
  proof
    fix j
    show "load_outbox_message j t' = (if j \<in> set (map fst (p # rows))
        then map_option restarted (load_outbox_message j t) else load_outbox_message j t)"
    proof (cases "j = i")
      case True
      then show ?thesis using rec [rule_format, of i] fresh at p by simp
    next
      case False
      then show ?thesis using rec [rule_format, of j] off [OF False] p by simp
    qed
  qed
qed

text \<open>
  The store and the application differ in what a restart leaves of a claim.  Whenever the reconciliation after a
  restart gives a claimed message back, the application's \<open>requeued_claimed_message_after_startup\<close> clears the time to
  live of the claim, while the row of the store keeps it: the message is pending with the time to live of a claim
  nobody holds.  In everything else the two agree.
\<close>

theorem startup_requeue_keeps_claim_ttl:
  assumes "outbox_reachable t" "requeue_claimed_after_startup outer now q t = (Inr rep, t')"
    and "i \<in> set (orp_requeued_message_ids rep)"
  shows "\<exists>m m'. load_outbox_message i t = Some m \<and> load_outbox_message i t' = Some m'
    \<and> om_state m' = OUTBOX_PENDING \<and> om_claim_ttl_ms m' = om_claim_ttl_ms m
    \<and> requeued_claimed_message_after_startup m q = Inr (m'\<lparr>om_claim_ttl_ms := None\<rparr>)"
proof -
  let ?owners = "oqr_inactive_owner_instance_ids q"
  let ?chosen = "take (nat (oqr_limit q)) (sort_key (\<lambda>r. (claim_start r, message_id r))
      (filter (claimed_by ?owners) (obx_messages t)))"
  let ?rows = "map (\<lambda>r. (message_id r, om_claim_generation (obr_message r))) ?chosen"
  have inv: "outbox_inv t" by (rule outbox_reachable_inv [OF assms(1)])
  then have mi: "messages_inv t" by (simp add: outbox_inv_def)
  have valid: "validate_outbox_startup_reconciliation_request q = Inr ()"
    and requeue: "requeue_rows now ?owners ?rows t = (Inr (orp_requeued_message_ids rep), t')"
    using assms(2) by (auto simp: requeue_claimed_after_startup_def Let_def split: sum.splits)
  have ids: "orp_requeued_message_ids rep = map fst ?rows" using requeue_rows_keeps [OF requeue inv] by simp
  have "distinct (map message_id (sort_key (\<lambda>r. (claim_start r, message_id r))
      (filter (claimed_by ?owners) (obx_messages t))))"
    using mi by (simp add: messages_inv_def distinct_map inj_on_def)
  then have "distinct (map message_id ?chosen)" by (simp add: take_map [symmetric])
  then have d: "distinct (map fst ?rows)" by (simp add: comp_def)
  obtain r where "r \<in> set ?chosen" and i: "i = message_id r" using assms(3) ids by auto
  then have r: "r \<in> set (obx_messages t)" "claimed_by ?owners r" by (auto dest: in_set_takeD)
  have m: "load_outbox_message i t = Some (obr_message r)" using load_outbox_message_row [OF mi r(1)] i by simp
  have "load_outbox_message i t' = Some (restarted (obr_message r))"
    using requeue_rows_result [OF requeue inv d] assms(3) ids m by simp
  moreover have "requeued_claimed_message_after_startup (obr_message r) q =
      Inr ((restarted (obr_message r))\<lparr>om_claim_ttl_ms := None\<rparr>)"
    using valid r(2) by (simp add: requeued_claimed_message_after_startup_def claimed_by_def restarted_def)
  ultimately show ?thesis using m by (auto simp: restarted_def)
qed

end
