(* ===== verification/Handoff_Store.thy ===== *)
theory Handoff_Store
  imports Outbox
begin

text \<open>
  Handoffs between the catalog and the recovery database: the records and the evidence they carry
  (\<open>application/cross_store_handoffs.py\<close>) and the table that holds them on either side
  (\<open>adapters/sqlite/cross_store_handoffs.py\<close>, \<open>store_handoffs\<close> and \<open>recovery_handoffs\<close> of
  \<open>adapters/sqlite/migrations.py\<close>, which have the same constraints and triggers).
\<close>

section \<open>Handoffs\<close>

datatype CrossStoreHandoffState =
  HANDOFF_PREPARED | HANDOFF_PEER_COMMITTED | HANDOFF_SOURCE_CONFIRMED
  | HANDOFF_COMPLETED | HANDOFF_ABORTED | HANDOFF_AMBIGUOUS

fun handoff_state_value :: "CrossStoreHandoffState \<Rightarrow> string" where
  "handoff_state_value HANDOFF_PREPARED = ''PREPARED''"
| "handoff_state_value HANDOFF_PEER_COMMITTED = ''PEER_COMMITTED''"
| "handoff_state_value HANDOFF_SOURCE_CONFIRMED = ''SOURCE_CONFIRMED''"
| "handoff_state_value HANDOFF_COMPLETED = ''COMPLETED''"
| "handoff_state_value HANDOFF_ABORTED = ''ABORTED''"
| "handoff_state_value HANDOFF_AMBIGUOUS = ''AMBIGUOUS''"

definition HANDOFF_PAYLOAD_SCHEMA_VERSION :: int where "HANDOFF_PAYLOAD_SCHEMA_VERSION = 1"
definition RUN_START_HANDOFF_TYPE :: string where "RUN_START_HANDOFF_TYPE = ''RUN_START''"
definition CATALOG_TO_RECOVERY :: string where "CATALOG_TO_RECOVERY = ''CATALOG_TO_RECOVERY''"
definition RECOVERY_TO_CATALOG :: string where "RECOVERY_TO_CATALOG = ''RECOVERY_TO_CATALOG''"

record CrossStoreHandoff =
  ho_handoff_id :: string
  ho_handoff_type :: string
  ho_direction :: string
  ho_payload_schema_version :: int
  ho_entity_type :: string
  ho_entity_id :: string
  ho_payload_json :: string
  ho_payload_hash :: string
  ho_state :: CrossStoreHandoffState
  ho_expected_peer_state :: CrossStoreHandoffState
  ho_attempt_count :: int
  ho_last_error_code :: "string option"

record RecoveryRunBinding =
  rb_run_id :: string
  rb_job_id :: string
  rb_job_revision_id :: string
  rb_plan_id :: string
  rb_plan_checksum :: string
  rb_start_handoff_id :: string
  rb_state :: string

record HandoffReconciliationReport =
  hrr_scanned :: nat
  hrr_completed_handoff_ids :: "string list"
  hrr_ambiguous_handoff_ids :: "string list"

definition should_block_mutating_readiness :: "HandoffReconciliationReport \<Rightarrow> bool" where
  "should_block_mutating_readiness r \<longleftrightarrow> hrr_ambiguous_handoff_ids r \<noteq> []"

section \<open>Evidence\<close>

definition canonical_handoff_payload :: "json \<Rightarrow> string" where
  "canonical_handoff_payload payload = json_dumps True payload"

definition hash_handoff_payload :: "string \<Rightarrow> string" where
  "hash_handoff_payload payload_json = sha256_hexdigest (utf8 payload_json)"

definition decode_handoff_payload :: "CrossStoreHandoff \<Rightarrow> store_error + (string \<times> json) list" where
  "decode_handoff_payload h =
     (if hash_handoff_payload (ho_payload_json h) \<noteq> ho_payload_hash h
      then Inl (Handoff_Error ''CROSS_STORE_HANDOFF_PAYLOAD_HASH_MISMATCH'')
      else
        (case json_loads (ho_payload_json h) of
           Some (JObj payload) \<Rightarrow> Inr payload
         | _ \<Rightarrow> Inl (Handoff_Error ''CROSS_STORE_HANDOFF_PAYLOAD_INVALID'')))"

definition error_code :: "store_error \<Rightarrow> string" where
  "error_code e = (case e of Handoff_Error code \<Rightarrow> code | _ \<Rightarrow> [])"

text \<open>The first field two handoffs differ in, or the first fault of their payloads.\<close>

definition handoff_evidence_mismatch :: "CrossStoreHandoff \<Rightarrow> CrossStoreHandoff \<Rightarrow> string option" where
  "handoff_evidence_mismatch source peer =
     (case List.find snd
         [(''HANDOFF_ID'', ho_handoff_id source \<noteq> ho_handoff_id peer),
          (''HANDOFF_TYPE'', ho_handoff_type source \<noteq> ho_handoff_type peer),
          (''DIRECTION'', ho_direction source \<noteq> ho_direction peer),
          (''PAYLOAD_SCHEMA_VERSION'', ho_payload_schema_version source \<noteq> ho_payload_schema_version peer),
          (''ENTITY_TYPE'', ho_entity_type source \<noteq> ho_entity_type peer),
          (''ENTITY_ID'', ho_entity_id source \<noteq> ho_entity_id peer),
          (''PAYLOAD_JSON'', ho_payload_json source \<noteq> ho_payload_json peer),
          (''PAYLOAD_HASH'', ho_payload_hash source \<noteq> ho_payload_hash peer)] of
        Some (field, _) \<Rightarrow> Some (''CROSS_STORE_HANDOFF_'' @ field @ ''_MISMATCH'')
      | None \<Rightarrow>
          (case and_then (decode_handoff_payload source) (\<lambda>_. decode_handoff_payload peer) of
             Inl e \<Rightarrow> Some (error_code e)
           | Inr _ \<Rightarrow> None))"

definition required_payload_string :: "(string \<times> json) list \<Rightarrow> string \<Rightarrow> store_error + string" where
  "required_payload_string payload key =
     (case map_of payload key of
        Some (JStr value) \<Rightarrow>
          if blank value then Inl (Handoff_Error ''CROSS_STORE_HANDOFF_PAYLOAD_FIELD_MISSING'') else Inr value
      | _ \<Rightarrow> Inl (Handoff_Error ''CROSS_STORE_HANDOFF_PAYLOAD_FIELD_MISSING''))"

section \<open>The table of handoffs\<close>

record handoff_row =
  hor_handoff :: CrossStoreHandoff
  hor_updated_utc :: string
  hor_completed_utc :: "string option"

definition handoff_id_of :: "handoff_row \<Rightarrow> string" where
  "handoff_id_of r = ho_handoff_id (hor_handoff r)"

text \<open>The \<open>CHECK\<close> constraints.  The payload is JSON because it has been decoded before every insertion.\<close>

definition handoff_pairing :: "CrossStoreHandoffState \<Rightarrow> CrossStoreHandoffState \<Rightarrow> bool" where
  "handoff_pairing state expected_peer \<longleftrightarrow>
     state = HANDOFF_PREPARED \<and> expected_peer = HANDOFF_PEER_COMMITTED
     \<or> state = HANDOFF_PEER_COMMITTED \<and> expected_peer = HANDOFF_SOURCE_CONFIRMED
     \<or> state = HANDOFF_SOURCE_CONFIRMED \<and> expected_peer = HANDOFF_COMPLETED
     \<or> state \<in> {HANDOFF_COMPLETED, HANDOFF_ABORTED, HANDOFF_AMBIGUOUS} \<and> expected_peer = HANDOFF_COMPLETED"

definition handoff_check :: "handoff_row \<Rightarrow> bool" where
  "handoff_check r \<longleftrightarrow>
     (let h = hor_handoff r in
      sql_trim (ho_handoff_type h) \<noteq> [] \<and> ho_direction h \<in> {CATALOG_TO_RECOVERY, RECOVERY_TO_CATALOG}
      \<and> 1 \<le> ho_payload_schema_version h \<and> sql_trim (ho_entity_type h) \<noteq> [] \<and> sql_trim (ho_entity_id h) \<noteq> []
      \<and> is_hex64 (ho_payload_hash h) \<and> 0 \<le> ho_attempt_count h
      \<and> handoff_pairing (ho_state h) (ho_expected_peer_state h)
      \<and> (ho_handoff_type h = RUN_START_HANDOFF_TYPE \<longrightarrow>
          ho_entity_type h = ''RUN'' \<and> ho_direction h = CATALOG_TO_RECOVERY)
      \<and> (ho_state h = HANDOFF_COMPLETED \<longleftrightarrow> hor_completed_utc r \<noteq> None))"

definition handoff_unique :: "CrossStoreHandoff \<Rightarrow> string \<times> string \<times> string \<times> string" where
  "handoff_unique h = (ho_handoff_type h, ho_entity_type h, ho_entity_id h, ho_payload_hash h)"

text \<open>The state changes the trigger admits.\<close>

definition handoff_monotone :: "CrossStoreHandoffState \<Rightarrow> CrossStoreHandoffState \<Rightarrow> bool" where
  "handoff_monotone old new \<longleftrightarrow>
     new = old
     \<or> old = HANDOFF_PREPARED \<and> new \<in> {HANDOFF_SOURCE_CONFIRMED, HANDOFF_ABORTED, HANDOFF_AMBIGUOUS}
     \<or> old = HANDOFF_PEER_COMMITTED \<and> new \<in> {HANDOFF_COMPLETED, HANDOFF_AMBIGUOUS}
     \<or> old = HANDOFF_SOURCE_CONFIRMED \<and> new \<in> {HANDOFF_COMPLETED, HANDOFF_AMBIGUOUS}"

type_synonym handoffs = "handoff_row list"

definition load_handoff :: "string \<Rightarrow> handoffs \<Rightarrow> CrossStoreHandoff option" where
  "load_handoff i t = map_option hor_handoff (List.find (\<lambda>r. handoff_id_of r = i) t)"

definition HANDOFF_TERMINAL_STATES :: "CrossStoreHandoffState list" where
  "HANDOFF_TERMINAL_STATES = [HANDOFF_COMPLETED, HANDOFF_ABORTED, HANDOFF_AMBIGUOUS]"

section \<open>Recording\<close>

definition record_handoff_work :: "string \<Rightarrow> CrossStoreHandoff \<Rightarrow> (handoffs, CrossStoreHandoff) store_call" where
  "record_handoff_work now h t =
     (case load_handoff (ho_handoff_id h) t of
        Some existing \<Rightarrow>
          if handoff_evidence_mismatch existing h \<noteq> None
          then (Inl (Handoff_Store_Error ''HANDOFF_IDEMPOTENCY_CONFLICT''), t)
          else if ho_state existing \<noteq> ho_state h \<and> ho_state existing \<notin> set HANDOFF_TERMINAL_STATES
          then (Inl (Handoff_Store_Error ''HANDOFF_STATE_CONFLICT''), t)
          else (Inr existing, t)
      | None \<Rightarrow>
          (let row = \<lparr>hor_handoff = h, hor_updated_utc = now, hor_completed_utc = None\<rparr> in
           if ho_handoff_id h \<in> set (map handoff_id_of t)
             \<or> handoff_unique h \<in> set (map (handoff_unique \<circ> hor_handoff) t) \<or> \<not> handoff_check row
           then (Inl (Handoff_Store_Error ''HANDOFF_PERSISTENCE_FAILED''), t)
           else (Inr h, t @ [row])))"

definition record_handoff :: "bool \<Rightarrow> string \<Rightarrow> CrossStoreHandoff \<Rightarrow> (handoffs, CrossStoreHandoff) store_call" where
  "record_handoff outer now h t =
     (case decode_handoff_payload h of
        Inl e \<Rightarrow> (Inl e, t)
      | Inr _ \<Rightarrow>
          if ho_state h \<notin> {HANDOFF_PREPARED, HANDOFF_PEER_COMMITTED}
          then (Inl (Handoff_Store_Error ''HANDOFF_INSERT_STATE_INVALID''), t)
          else transactional outer (record_handoff_work now h) t)"

section \<open>Transitions\<close>

fun handoff_transitions :: "CrossStoreHandoffState \<Rightarrow> CrossStoreHandoffState list" where
  "handoff_transitions HANDOFF_PREPARED = [HANDOFF_SOURCE_CONFIRMED, HANDOFF_ABORTED, HANDOFF_AMBIGUOUS]"
| "handoff_transitions HANDOFF_PEER_COMMITTED = [HANDOFF_COMPLETED, HANDOFF_AMBIGUOUS]"
| "handoff_transitions HANDOFF_SOURCE_CONFIRMED = [HANDOFF_COMPLETED, HANDOFF_AMBIGUOUS]"
| "handoff_transitions _ = []"

definition validate_handoff_transition ::
  "CrossStoreHandoffState \<Rightarrow> CrossStoreHandoffState \<Rightarrow> store_error + unit" where
  "validate_handoff_transition source target =
     (if target \<notin> set (handoff_transitions source)
      then Inl (Handoff_Store_Error (''HANDOFF_TRANSITION_FORBIDDEN:'' @ handoff_state_value source @ ''->''
        @ handoff_state_value target))
      else Inr ())"

fun expected_peer_after :: "CrossStoreHandoffState \<Rightarrow> CrossStoreHandoffState" where
  "expected_peer_after HANDOFF_SOURCE_CONFIRMED = HANDOFF_COMPLETED"
| "expected_peer_after HANDOFF_COMPLETED = HANDOFF_COMPLETED"
| "expected_peer_after HANDOFF_ABORTED = HANDOFF_COMPLETED"
| "expected_peer_after HANDOFF_AMBIGUOUS = HANDOFF_COMPLETED"
| "expected_peer_after _ = HANDOFF_PEER_COMMITTED"

definition transitioned_row :: "string \<Rightarrow> CrossStoreHandoffState \<Rightarrow> string option \<Rightarrow> handoff_row \<Rightarrow> handoff_row" where
  "transitioned_row now next_state last_error r =
     \<lparr>hor_handoff = (hor_handoff r)\<lparr>ho_state := next_state, ho_expected_peer_state := expected_peer_after next_state,
        ho_attempt_count := ho_attempt_count (hor_handoff r) + 1, ho_last_error_code := last_error\<rparr>,
      hor_updated_utc = now, hor_completed_utc = (if next_state = HANDOFF_COMPLETED then Some now else None)\<rparr>"

definition transition_handoff_work ::
  "string \<Rightarrow> string \<Rightarrow> CrossStoreHandoffState \<Rightarrow> CrossStoreHandoffState \<Rightarrow> string \<Rightarrow> string option \<Rightarrow>
   (handoffs, CrossStoreHandoff option) store_call"
where
  "transition_handoff_work now i expected_state next_state expected_hash last_error t =
     (case load_handoff i t of
        None \<Rightarrow> (Inr None, t)
      | Some current \<Rightarrow>
          if ho_payload_hash current \<noteq> expected_hash
          then (Inl (Handoff_Store_Error ''HANDOFF_PAYLOAD_HASH_CONFLICT''), t)
          else if ho_state current = next_state then (Inr (Some current), t)
          else if ho_state current \<noteq> expected_state then (Inr None, t)
          else
            (let guard = (\<lambda>r. handoff_id_of r = i \<and> ho_state (hor_handoff r) = expected_state
                   \<and> ho_payload_hash (hor_handoff r) = expected_hash);
                 t' = sql_update guard (transitioned_row now next_state last_error) t
             in if \<not> list_all (\<lambda>r. guard r \<longrightarrow> handoff_monotone (ho_state (hor_handoff r)) next_state
                     \<and> handoff_check (transitioned_row now next_state last_error r)) t
                then (Inl (Handoff_Store_Error ''HANDOFF_TRANSITION_FAILED''), t)
                else if sql_count guard t \<noteq> 1 then (Inr None, t)
                else
                  (case load_handoff i t' of
                     None \<Rightarrow> (Inl (Handoff_Store_Error ''HANDOFF_LOAD_FAILED''), t')
                   | Some updated \<Rightarrow> (Inr (Some updated), t'))))"

definition transition_handoff ::
  "bool \<Rightarrow> string \<Rightarrow> string \<Rightarrow> CrossStoreHandoffState \<Rightarrow> CrossStoreHandoffState \<Rightarrow> string \<Rightarrow> string option \<Rightarrow>
   (handoffs, CrossStoreHandoff option) store_call"
where
  "transition_handoff outer now i expected_state next_state expected_hash last_error t =
     (case validate_handoff_transition expected_state next_state of
        Inl e \<Rightarrow> (Inl e, t)
      | Inr _ \<Rightarrow>
          transactional outer (transition_handoff_work now i expected_state next_state expected_hash last_error) t)"

definition list_handoffs_for_reconciliation ::
  "string \<Rightarrow> string \<Rightarrow> int \<Rightarrow> handoffs \<Rightarrow> store_error + CrossStoreHandoff list" where
  "list_handoffs_for_reconciliation handoff_type direction limit t =
     (if limit < 1 \<or> limit > 1000 then Inl (Handoff_Store_Error ''HANDOFF_LIST_LIMIT_INVALID'')
      else Inr (map hor_handoff (take (nat limit)
        (sort_key (\<lambda>r. (if ho_state (hor_handoff r) = HANDOFF_COMPLETED then 1 else 0 :: nat, hor_updated_utc r, handoff_id_of r))
          (filter (\<lambda>r. ho_handoff_type (hor_handoff r) = handoff_type \<and> ho_direction (hor_handoff r) = direction
             \<and> ho_state (hor_handoff r) \<noteq> HANDOFF_ABORTED) t)))))"

section \<open>The peer of a run start\<close>

record handoff_recovery =
  hv_runs :: "RecoveryRunBinding list"
  hv_handoffs :: handoffs

definition load_run_binding :: "string \<Rightarrow> handoff_recovery \<Rightarrow> RecoveryRunBinding option" where
  "load_run_binding run_id v = List.find (\<lambda>b. rb_run_id b = run_id) (hv_runs v)"

text \<open>The constraints of \<open>recovery_runs\<close>.\<close>

definition binding_check :: "RecoveryRunBinding list \<Rightarrow> RecoveryRunBinding \<Rightarrow> bool" where
  "binding_check bindings b \<longleftrightarrow>
     rb_run_id b \<notin> set (map rb_run_id bindings) \<and> rb_start_handoff_id b \<notin> set (map rb_start_handoff_id bindings)
     \<and> sql_trim (rb_job_id b) \<noteq> [] \<and> sql_trim (rb_job_revision_id b) \<noteq> [] \<and> sql_trim (rb_plan_id b) \<noteq> []
     \<and> is_hex64 (rb_plan_checksum b) \<and> rb_state b = ''BOUND''"

text \<open>An operation on the handoffs of the recovery database.\<close>

definition on_recovery_handoffs :: "(handoffs, 'a) store_call \<Rightarrow> (handoff_recovery, 'a) store_call" where
  "on_recovery_handoffs call v = (let (r, t) = call (hv_handoffs v) in (r, v\<lparr>hv_handoffs := t\<rparr>))"

text \<open>
  A payload that does not decode raises the application's exception, which the \<open>except\<close> clause does not name.
\<close>

definition commit_run_start_peer ::
  "bool \<Rightarrow> string \<Rightarrow> RecoveryRunBinding \<Rightarrow> CrossStoreHandoff \<Rightarrow> (handoff_recovery, CrossStoreHandoff) store_call" where
  "commit_run_start_peer outer now b h =
     transactional_except (\<lambda>e. \<not> is_Handoff_Error e) outer (\<lambda>v.
       case load_run_binding (rb_run_id b) v of
         None \<Rightarrow>
           if \<not> binding_check (hv_runs v) b
           then (Inl (Handoff_Store_Error ''RECOVERY_RUN_BINDING_FAILED''), v)
           else on_recovery_handoffs (record_handoff True now h) (v\<lparr>hv_runs := hv_runs v @ [b]\<rparr>)
       | Some existing \<Rightarrow>
           if existing \<noteq> b then (Inl (Handoff_Store_Error ''RECOVERY_RUN_BINDING_CONFLICT''), v)
           else on_recovery_handoffs (record_handoff True now h) v)"

end
