(* ===== verification/Handoff_Laws.thy ===== *)
theory Handoff_Laws
  imports Handoff_Store
begin

text \<open>
  What a table of handoffs keeps: ids and payloads are unique, every payload decodes, and a handoff keeps its
  evidence while its state moves forward.
\<close>

section \<open>Evidence\<close>

definition evidence :: "CrossStoreHandoff \<Rightarrow> CrossStoreHandoff" where
  "evidence h = h\<lparr>ho_state := HANDOFF_PREPARED, ho_expected_peer_state := HANDOFF_PEER_COMMITTED,
     ho_attempt_count := 0, ho_last_error_code := None\<rparr>"

definition decodes :: "CrossStoreHandoff \<Rightarrow> bool" where
  "decodes h \<longleftrightarrow> (\<exists>payload. decode_handoff_payload h = Inr payload)"

lemma evidence_same:
  assumes "evidence h = evidence h'"
  shows "ho_handoff_id h = ho_handoff_id h'" "ho_handoff_type h = ho_handoff_type h'" "ho_direction h = ho_direction h'"
    "ho_payload_schema_version h = ho_payload_schema_version h'" "ho_entity_type h = ho_entity_type h'"
    "ho_entity_id h = ho_entity_id h'" "ho_payload_json h = ho_payload_json h'" "ho_payload_hash h = ho_payload_hash h'"
  using assms by (cases h; cases h'; simp add: evidence_def)+

lemma decode_evidence: "evidence h = evidence h' \<Longrightarrow> decode_handoff_payload h = decode_handoff_payload h'"
  using evidence_same [of h h'] by (simp add: decode_handoff_payload_def)

lemma mismatch_None_iff: "handoff_evidence_mismatch h p = None \<longleftrightarrow> evidence h = evidence p \<and> decodes h"
proof -
  have "handoff_evidence_mismatch h p = None" if "evidence h = evidence p" "decodes h"
    using evidence_same [OF that(1)] decode_evidence [OF that(1)] that(2)
    by (auto simp: handoff_evidence_mismatch_def decodes_def)
  moreover have "evidence h = evidence p \<and> decodes h" if "handoff_evidence_mismatch h p = None"
  proof -
    have "evidence h = evidence p"
      using that by (cases h; cases p) (simp add: handoff_evidence_mismatch_def evidence_def split: if_splits)
    moreover have "decodes h"
      using that by (auto simp: handoff_evidence_mismatch_def decodes_def split: if_splits sum.splits)
    ultimately show ?thesis ..
  qed
  ultimately show ?thesis by blast
qed

section \<open>The invariant\<close>

definition handoffs_inv :: "handoffs \<Rightarrow> bool" where
  "handoffs_inv t \<longleftrightarrow>
     distinct (map handoff_id_of t) \<and> distinct (map (handoff_unique \<circ> hor_handoff) t)
     \<and> (\<forall>r \<in> set t. handoff_check r \<and> decodes (hor_handoff r))"

definition moved :: "CrossStoreHandoffState \<Rightarrow> string option \<Rightarrow> CrossStoreHandoff \<Rightarrow> CrossStoreHandoff" where
  "moved state code h = h\<lparr>ho_state := state, ho_expected_peer_state := expected_peer_after state,
     ho_attempt_count := ho_attempt_count h + 1, ho_last_error_code := code\<rparr>"

lemma moved_simps [simp]:
  "evidence (moved state code h) = evidence h" "ho_state (moved state code h) = state"
  "ho_handoff_id (moved state code h) = ho_handoff_id h" "ho_payload_hash (moved state code h) = ho_payload_hash h"
  "ho_entity_id (moved state code h) = ho_entity_id h"
  by (simp_all add: moved_def evidence_def)

lemma load_handoff_row:
  assumes "load_handoff i t = Some h"
  obtains r where "r \<in> set t" "handoff_id_of r = i" "hor_handoff r = h" "List.find (\<lambda>r. handoff_id_of r = i) t = Some r"
  using assms by (auto simp: load_handoff_def dest: find_Some_iff')

lemma load_handoffD:
  assumes "load_handoff i t = Some h" "handoffs_inv t"
  shows "ho_handoff_id h = i" "decodes h" "\<exists>r. hor_handoff r = h \<and> handoff_check r"
proof -
  obtain r where "r \<in> set t" "handoff_id_of r = i" "hor_handoff r = h"
    using load_handoff_row [OF assms(1)] by blast
  then show "ho_handoff_id h = i" "decodes h" "\<exists>r. hor_handoff r = h \<and> handoff_check r"
    using assms(2) by (auto simp: handoffs_inv_def handoff_id_of_def)
qed

lemma load_handoff_None: "load_handoff i t = None \<longleftrightarrow> i \<notin> set (map handoff_id_of t)"
  by (auto simp: load_handoff_def find_None_iff')

section \<open>Recording\<close>

definition fresh_row :: "string \<Rightarrow> CrossStoreHandoff \<Rightarrow> handoff_row" where
  "fresh_row now h = \<lparr>hor_handoff = h, hor_updated_utc = now, hor_completed_utc = None\<rparr>"

lemma fresh_row_simps [simp]: "hor_handoff (fresh_row now h) = h" "handoff_id_of (fresh_row now h) = ho_handoff_id h"
  by (simp_all add: fresh_row_def handoff_id_of_def)

lemma record_handoff_raises: "record_handoff outer now h t = (Inl e, t') \<Longrightarrow> t' = t"
  by (auto simp: record_handoff_def transactional_def record_handoff_work_def Let_def
      split: sum.splits option.splits if_splits)

lemma record_handoff_returns:
  assumes "record_handoff outer now h t = (Inr v, t')"
  shows "t' = t \<and> load_handoff (ho_handoff_id h) t = Some v \<and> evidence v = evidence h
    \<or> load_handoff (ho_handoff_id h) t = None \<and> v = h \<and> t' = t @ [fresh_row now h] \<and> handoff_check (fresh_row now h)
      \<and> decodes h \<and> handoff_unique h \<notin> set (map (handoff_unique \<circ> hor_handoff) t)
      \<and> ho_state h \<in> {HANDOFF_PREPARED, HANDOFF_PEER_COMMITTED}"
  using assms mismatch_None_iff
  by (auto simp: record_handoff_def record_handoff_work_def Let_def decodes_def fresh_row_def
      split: sum.splits option.splits if_splits)

lemma record_handoff_new:
  assumes "load_handoff (ho_handoff_id h) t = None" "handoff_check (fresh_row now h)" "decodes h"
    "handoff_unique h \<notin> set (map (handoff_unique \<circ> hor_handoff) t)" "ho_state h \<in> {HANDOFF_PREPARED, HANDOFF_PEER_COMMITTED}"
  shows "record_handoff outer now h t = (Inr h, t @ [fresh_row now h])"
  using assms load_handoff_None [of "ho_handoff_id h" t]
  by (auto simp: record_handoff_def transactional_def record_handoff_work_def Let_def decodes_def fresh_row_def)

lemma record_handoff_known:
  assumes "load_handoff (ho_handoff_id h) t = Some v" "evidence v = evidence h" "decodes h"
    and "ho_state h \<in> {HANDOFF_PREPARED, HANDOFF_PEER_COMMITTED}"
    and "ho_state v = ho_state h \<or> ho_state v \<in> set HANDOFF_TERMINAL_STATES"
  shows "record_handoff outer now h t = (Inr v, t)"
proof -
  have "decodes v" using decode_evidence [OF assms(2)] assms(3) by (simp add: decodes_def)
  then have "handoff_evidence_mismatch v h = None" using assms(2) by (simp add: mismatch_None_iff)
  then show ?thesis
    using assms by (auto simp: record_handoff_def transactional_def record_handoff_work_def decodes_def)
qed

lemma load_append_fresh:
  "load_handoff (ho_handoff_id h) t = None \<Longrightarrow>
     load_handoff i (t @ [fresh_row now h]) = (if i = ho_handoff_id h then Some h else load_handoff i t)"
  by (auto simp: load_handoff_def find_append split: option.split)

lemma record_keeps_inv:
  assumes "load_handoff (ho_handoff_id h) t = None" "handoff_check (fresh_row now h)" "decodes h"
    "handoff_unique h \<notin> set (map (handoff_unique \<circ> hor_handoff) t)" "handoffs_inv t"
  shows "handoffs_inv (t @ [fresh_row now h])"
  using assms by (auto simp: handoffs_inv_def load_handoff_None)

section \<open>Transitions\<close>

lemma expected_peer_pairs: "b \<in> set (handoff_transitions a) \<Longrightarrow> handoff_pairing b (expected_peer_after b)"
  by (cases a) (auto simp: handoff_pairing_def)

text \<open>A handoff in the expected state moves, and no other handoff does.\<close>

lemma transition_moves:
  assumes inv: "handoffs_inv t" and h: "load_handoff i t = Some h" "ho_state h = a" "ho_payload_hash h = hash"
    and next_state: "b \<in> set (handoff_transitions a)"
  obtains t' where "transition_handoff outer now i a b hash code t = (Inr (Some (moved b code h)), t')"
    "handoffs_inv t'" "\<And>j. load_handoff j t' = (if j = i then Some (moved b code h) else load_handoff j t)"
proof -
  obtain r where r: "r \<in> set t" "handoff_id_of r = i" "hor_handoff r = h"
    "List.find (\<lambda>r. handoff_id_of r = i) t = Some r"
    using load_handoff_row [OF h(1)] by blast
  let ?guard = "\<lambda>r. handoff_id_of r = i \<and> ho_state (hor_handoff r) = a \<and> ho_payload_hash (hor_handoff r) = hash"
  let ?f = "transitioned_row now b code"
  let ?t' = "sql_update ?guard ?f t"
  have d: "distinct (map handoff_id_of t)" using inv by (simp add: handoffs_inv_def)
  have one: "x = r" if "x \<in> set t" "?guard x" for x
  proof -
    have "inj_on handoff_id_of (set t)" using d by (simp add: distinct_map)
    then show ?thesis using that r(1,2) by (auto dest: inj_onD)
  qed
  have f: "hor_handoff (?f x) = moved b code (hor_handoff x)" for x by (simp add: transitioned_row_def moved_def)
  have keys: "handoff_id_of (?f x) = handoff_id_of x" "handoff_unique (hor_handoff (?f x)) = handoff_unique (hor_handoff x)" for x
    by (simp_all add: transitioned_row_def handoff_id_of_def handoff_unique_def)
  have check: "handoff_check (?f r)"
  proof -
    have "handoff_check r" using inv r(1) by (simp add: handoffs_inv_def)
    then show ?thesis
      using expected_peer_pairs [OF next_state] by (simp add: handoff_check_def Let_def transitioned_row_def)
  qed
  have monotone: "handoff_monotone a b" using next_state by (cases a) (auto simp: handoff_monotone_def)
  have "a \<noteq> b" using next_state by (cases a) auto
  have count: "sql_count ?guard t = 1"
    using sql_count_key [OF d, of ?guard i] r h(2,3) by blast
  have load: "load_handoff j ?t' = (if j = i then Some (moved b code h) else load_handoff j t)" for j
  proof -
    have "List.find (\<lambda>r. handoff_id_of r = j) ?t' =
        map_option (\<lambda>r. if ?guard r then ?f r else r) (List.find (\<lambda>r. handoff_id_of r = j) t)"
      by (rule find_sql_update) (rule keys)
    moreover have "\<not> ?guard x" if "List.find (\<lambda>r. handoff_id_of r = j) t = Some x" "j \<noteq> i" for x
      using that by (auto dest: find_Some_iff')
    ultimately show ?thesis
      using r(3,4) h(2,3) r(2) f by (cases "List.find (\<lambda>r. handoff_id_of r = j) t") (auto simp: load_handoff_def)
  qed
  have "list_all (\<lambda>x. ?guard x \<longrightarrow> handoff_monotone (ho_state (hor_handoff x)) b \<and> handoff_check (?f x)) t"
    using one check monotone by (auto simp: list_all_iff)
  then have "transition_handoff outer now i a b hash code t = (Inr (Some (moved b code h)), ?t')"
    using h next_state \<open>a \<noteq> b\<close> count load [of i]
    by (simp add: transition_handoff_def validate_handoff_transition_def transactional_def transition_handoff_work_def Let_def)
  moreover have "handoffs_inv ?t'"
  proof -
    have "decodes (hor_handoff (?f r))"
      using inv r(1) decode_evidence [of "hor_handoff (?f r)" "hor_handoff r"] by (simp add: handoffs_inv_def decodes_def f)
    moreover have "map (handoff_unique \<circ> hor_handoff) ?t' = map (handoff_unique \<circ> hor_handoff) t"
      by (rule sql_update_map_key) (simp add: keys)
    moreover have "map handoff_id_of ?t' = map handoff_id_of t" by (rule sql_update_map_key) (rule keys)
    ultimately show ?thesis
      using inv one check by (auto simp: handoffs_inv_def set_sql_update)
  qed
  ultimately show ?thesis using that load by blast
qed

text \<open>In every other case the table stays as it is.\<close>

lemma transition_cases:
  assumes inv: "handoffs_inv t" and result: "transition_handoff outer now i a b hash code t = (r, t')"
  shows "t' = t \<or> (\<exists>h. load_handoff i t = Some h \<and> ho_state h = a \<and> ho_payload_hash h = hash
    \<and> b \<in> set (handoff_transitions a) \<and> r = Inr (Some (moved b code h)) \<and> handoffs_inv t'
    \<and> (\<forall>j. load_handoff j t' = (if j = i then Some (moved b code h) else load_handoff j t)))"
proof (cases "\<exists>h. load_handoff i t = Some h \<and> ho_state h = a \<and> ho_payload_hash h = hash \<and> b \<in> set (handoff_transitions a)")
  case True
  then obtain h where h: "load_handoff i t = Some h" "ho_state h = a" "ho_payload_hash h = hash"
    "b \<in> set (handoff_transitions a)" by blast
  obtain t'' where "transition_handoff outer now i a b hash code t = (Inr (Some (moved b code h)), t'')"
    "handoffs_inv t''" "\<And>j. load_handoff j t'' = (if j = i then Some (moved b code h) else load_handoff j t)"
    using transition_moves [OF inv h] by blast
  then show ?thesis using result h by auto
next
  case False
  have "t' = t"
  proof (cases "b \<in> set (handoff_transitions a)")
    case True
    then have stuck: "load_handoff i t = Some h \<Longrightarrow> ho_payload_hash h = hash \<Longrightarrow> ho_state h \<noteq> a" for h
      using False by blast
    show ?thesis
    proof (cases "load_handoff i t")
      case None
      then show ?thesis
        using result True
        by (auto simp: transition_handoff_def validate_handoff_transition_def transactional_def transition_handoff_work_def
            split: if_splits)
    next
      case (Some h)
      then show ?thesis
        using result True stuck [OF Some]
        by (auto simp: transition_handoff_def validate_handoff_transition_def transactional_def transition_handoff_work_def
            split: if_splits)
    qed
  next
    case False
    then show ?thesis using result by (auto simp: transition_handoff_def validate_handoff_transition_def)
  qed
  then show ?thesis ..
qed

section \<open>Handoffs follow each other\<close>

text \<open>No handoff is lost, its evidence stays, and a completed one does not change.\<close>

definition handoffs_follow :: "handoffs \<Rightarrow> handoffs \<Rightarrow> bool" where
  "handoffs_follow t t' \<longleftrightarrow> (\<forall>i h. load_handoff i t = Some h \<longrightarrow>
     (\<exists>h'. load_handoff i t' = Some h' \<and> evidence h' = evidence h \<and> (ho_state h = HANDOFF_COMPLETED \<longrightarrow> h' = h)))"

lemma handoffs_follow_refl [simp]: "handoffs_follow t t"
  by (simp add: handoffs_follow_def)

lemma handoffs_follow_trans: "handoffs_follow t t' \<Longrightarrow> handoffs_follow t' t'' \<Longrightarrow> handoffs_follow t t''"
  unfolding handoffs_follow_def by (metis (no_types))

lemma fresh_follows: "load_handoff (ho_handoff_id h) t = None \<Longrightarrow> handoffs_follow t (t @ [fresh_row now h])"
  by (auto simp: handoffs_follow_def load_append_fresh)

lemma moved_follows:
  assumes "load_handoff i t = Some h" "ho_state h \<noteq> HANDOFF_COMPLETED"
    and "\<And>j. load_handoff j t' = (if j = i then Some (moved b code h) else load_handoff j t)"
  shows "handoffs_follow t t'"
  using assms by (auto simp: handoffs_follow_def)

section \<open>Binding a run\<close>

lemma load_run_binding_append:
  "load_run_binding run_id v = None \<Longrightarrow> rb_run_id b = run_id \<Longrightarrow>
     load_run_binding j (v\<lparr>hv_runs := hv_runs v @ [b]\<rparr>) = (if j = run_id then Some b else load_run_binding j v)"
  by (auto simp: load_run_binding_def find_append split: option.split)

lemma load_run_binding_id: "load_run_binding run_id v = Some b \<Longrightarrow> b \<in> set (hv_runs v) \<and> rb_run_id b = run_id"
  by (auto simp: load_run_binding_def dest: find_Some_iff')

lemma load_run_binding_None: "load_run_binding run_id v = None \<longleftrightarrow> run_id \<notin> set (map rb_run_id (hv_runs v))"
  by (auto simp: load_run_binding_def find_None_iff')

lemma load_run_binding_handoffs [simp]: "load_run_binding i (v\<lparr>hv_handoffs := t\<rparr>) = load_run_binding i v"
  by (simp add: load_run_binding_def)

lemma commit_peer_raises:
  assumes "commit_run_start_peer False now b h v = (Inl e, v')" "decodes h"
  shows "v' = v"
proof -
  have "\<not> is_Handoff_Error e'" if "record_handoff outer now h t = (Inl e', t')" for outer t e' t'
    using that assms(2)
    by (auto simp: record_handoff_def decodes_def transactional_def record_handoff_work_def Let_def
        split: sum.splits option.splits if_splits prod.splits)
  then show ?thesis
    using assms(1)
    by (auto simp: commit_run_start_peer_def transactional_except_def on_recovery_handoffs_def
        split: option.splits if_splits prod.splits sum.splits)
qed

text \<open>A successful binding: the run is bound, as before or by a new row, and its peer is recorded, before or now.\<close>

lemma commit_peer_returns:
  assumes "commit_run_start_peer outer now b h v = (Inr p, v')"
  shows "load_run_binding (rb_run_id b) v = Some b \<and> hv_runs v' = hv_runs v
      \<or> load_run_binding (rb_run_id b) v = None \<and> binding_check (hv_runs v) b \<and> hv_runs v' = hv_runs v @ [b]"
    "record_handoff True now h (hv_handoffs v) = (Inr p, hv_handoffs v')"
  using assms
  by (auto simp: commit_run_start_peer_def on_recovery_handoffs_def split: option.splits if_splits prod.splits)

end
