(* ===== verification/Source_Preconditions.thy ===== *)
theory Source_Preconditions
  imports Json
begin

text \<open>
  \<open>application/source_preconditions.py\<close>: the evidence a copy operation carries about its source
  file, its validation on construction and its JSON form.  \<open>SourceFilePreconditionError\<close> is a
  \<open>ValueError\<close>, so the handler in \<open>from_json\<close> also catches what the constructor raises.
\<close>

record SourceFilePrecondition =
  sfp_snapshot_id :: string
  sfp_snapshot_entry_id :: string
  sfp_relative_path :: string
  sfp_size_bytes :: int
  sfp_identity_fingerprint_hash :: string
  sfp_schema_version :: int
  sfp_object_type :: string

definition SOURCE_FILE_PRECONDITION_SCHEMA_VERSION :: int where
  "SOURCE_FILE_PRECONDITION_SCHEMA_VERSION = 1"

definition source_precondition_post_init :: "SourceFilePrecondition \<Rightarrow> SourceFilePrecondition result" where
  "source_precondition_post_init p =
     (if blank (sfp_snapshot_id p) \<or> blank (sfp_snapshot_entry_id p) \<or> blank (sfp_relative_path p)
      then Inl ''SOURCE_PRECONDITION_IDENTITY_INVALID''
      else if sfp_schema_version p \<noteq> SOURCE_FILE_PRECONDITION_SCHEMA_VERSION
        \<or> sfp_object_type p \<noteq> ''file'' \<or> sfp_size_bytes p < 0
        \<or> \<not> is_hex64 (sfp_identity_fingerprint_hash p)
      then Inl ''SOURCE_PRECONDITION_EVIDENCE_INVALID''
      else Inr p)"

definition source_precondition_to_json :: "SourceFilePrecondition \<Rightarrow> string" where
  "source_precondition_to_json p =
     json_dumps True (JObj
       [(''identity_fingerprint_hash'', JStr (sfp_identity_fingerprint_hash p)),
        (''object_type'', JStr (sfp_object_type p)),
        (''relative_path'', JStr (sfp_relative_path p)),
        (''schema_version'', JInt (sfp_schema_version p)),
        (''size_bytes'', JInt (sfp_size_bytes p)),
        (''snapshot_entry_id'', JStr (sfp_snapshot_entry_id p)),
        (''snapshot_id'', JStr (sfp_snapshot_id p))])"

definition required_text :: "json option \<Rightarrow> string result" where
  "required_text v =
     (case v of
        Some (JStr s) \<Rightarrow> if blank s then Inl ''source precondition text is invalid'' else Inr s
      | _ \<Rightarrow> Inl ''source precondition text is invalid'')"

definition required_int :: "json option \<Rightarrow> int result" where
  "required_int v =
     (case v of Some (JInt i) \<Rightarrow> Inr i | _ \<Rightarrow> Inl ''source precondition integer is invalid'')"

definition source_precondition_from_dict :: "(string \<times> json) list \<Rightarrow> SourceFilePrecondition result" where
  "source_precondition_from_dict value =
     and_then (required_text (map_of value ''snapshot_id'')) (\<lambda>snapshot_id.
     and_then (required_text (map_of value ''snapshot_entry_id'')) (\<lambda>snapshot_entry_id.
     and_then (required_text (map_of value ''relative_path'')) (\<lambda>relative_path.
     and_then (required_int (map_of value ''size_bytes'')) (\<lambda>size_bytes.
     and_then (required_text (map_of value ''identity_fingerprint_hash'')) (\<lambda>fingerprint.
     and_then (required_int (map_of value ''schema_version'')) (\<lambda>schema_version.
     and_then (required_text (map_of value ''object_type'')) (\<lambda>object_type.
       source_precondition_post_init
         \<lparr>sfp_snapshot_id = snapshot_id, sfp_snapshot_entry_id = snapshot_entry_id,
          sfp_relative_path = relative_path, sfp_size_bytes = size_bytes,
          sfp_identity_fingerprint_hash = fingerprint, sfp_schema_version = schema_version,
          sfp_object_type = object_type\<rparr>)))))))"

definition source_precondition_from_json :: "string option \<Rightarrow> SourceFilePrecondition result" where
  "source_precondition_from_json payload =
     (case payload of
        None \<Rightarrow> Inl ''SOURCE_PRECONDITION_MISSING''
      | Some text \<Rightarrow>
          (case json_loads text of
             None \<Rightarrow> Inl ''SOURCE_PRECONDITION_INVALID''
           | Some (JObj value) \<Rightarrow>
               (case source_precondition_from_dict value of
                  Inl _ \<Rightarrow> Inl ''SOURCE_PRECONDITION_INVALID''
                | Inr p \<Rightarrow> Inr p)
           | Some _ \<Rightarrow> Inl ''SOURCE_PRECONDITION_INVALID''))"

section \<open>Loading what was printed\<close>

lemma map_of_sort_key:
  assumes "distinct (map fst kvs)"
  shows "map_of (sort_key fst kvs) = map_of kvs"
proof (rule map_of_eqI)
  show "set (map fst (sort_key fst kvs)) = set (map fst kvs)" by simp
  have d: "distinct (map fst (sort_key fst kvs))"
    using assms by (simp add: distinct_map)
  show "\<forall>k \<in> set (map fst (sort_key fst kvs)). map_of (sort_key fst kvs) k = map_of kvs k"
  proof
    fix k assume "k \<in> set (map fst (sort_key fst kvs))"
    then obtain v where "(k, v) \<in> set kvs" by auto
    then show "map_of (sort_key fst kvs) k = map_of kvs k"
      using assms d by (simp add: map_of_eq_Some_iff)
  qed
qed

lemma canon_JObj_lookup:
  assumes "distinct (map fst kvs)" "canon (JObj kvs) = JObj d"
  shows "map_of d k = map_option canon (map_of kvs k)"
proof -
  let ?c = "map (\<lambda>(k, v). (k, canon v)) kvs"
  have "map fst ?c = map fst kvs" by (simp add: case_prod_beta comp_def)
  then have "map_of (sort_key fst ?c) = map_of ?c"
    using assms(1) by (intro map_of_sort_key) (simp only:)
  then show ?thesis using assms(2) by (simp add: map_of_map)
qed

text \<open>Validated evidence survives the trip through its JSON text.\<close>

lemma source_precondition_roundtrip_aux:
  assumes "source_precondition_post_init p = Inr p"
  shows "source_precondition_from_json (Some (source_precondition_to_json p)) = Inr p"
proof -
  define kvs where "kvs =
       [(''identity_fingerprint_hash'', JStr (sfp_identity_fingerprint_hash p)),
        (''object_type'', JStr (sfp_object_type p)),
        (''relative_path'', JStr (sfp_relative_path p)),
        (''schema_version'', JInt (sfp_schema_version p)),
        (''size_bytes'', JInt (sfp_size_bytes p)),
        (''snapshot_entry_id'', JStr (sfp_snapshot_entry_id p)),
        (''snapshot_id'', JStr (sfp_snapshot_id p))]"
  have d: "distinct (map fst kvs)" by (simp add: kvs_def)
  have "wf_json (JObj kvs)" by (simp add: kvs_def)
  then have l: "json_loads (json_dumps True (JObj kvs)) = Some (canon (JObj kvs))"
    by (rule loads_dumps)
  obtain v where v: "canon (JObj kvs) = JObj v" by simp
  have m: "map_of v k = map_option canon (map_of kvs k)" for k
    by (rule canon_JObj_lookup [OF d v])
  have ne: "\<not> blank (sfp_snapshot_id p)" "\<not> blank (sfp_snapshot_entry_id p)"
      "\<not> blank (sfp_relative_path p)" "\<not> blank (sfp_identity_fingerprint_hash p)"
      "sfp_object_type p = ''file''"
    using assms by (auto simp: source_precondition_post_init_def hex64_not_blank split: if_splits)
  have nb: "\<not> blank ''file''" by (simp add: blank_iff py_isspace_def)
  have "source_precondition_from_dict v = source_precondition_post_init p"
    using ne nb by (cases p) (simp add: source_precondition_from_dict_def m kvs_def required_text_def required_int_def)
  then have d: "source_precondition_from_dict v = Inr p" using assms by simp
  have t: "source_precondition_to_json p = json_dumps True (JObj kvs)"
    by (simp only: source_precondition_to_json_def kvs_def)
  show ?thesis
    unfolding source_precondition_from_json_def option.case t l v json.case d sum.case ..
qed

end
