(* ===== verification/Plans.thy ===== *)
theory Plans
  imports Source_Preconditions Sha256
begin

text \<open>
  \<open>application/plans.py\<close>: the data of a backup plan, the checks that seal it, and the checksum
  that binds a sealed plan to its contents.  Python sets that are only iterated to look for an
  error (the operation ids and the edges of the dependency check) are lists here; the theorems
  about them do not depend on the order.
\<close>

section \<open>Data\<close>

datatype PlanOperationType =
    COPY_NEW | REPLACE_CHANGED | CREATE_DIRECTORY | SKIP_IDENTICAL
  | DEFER_AUTOMATION_POLICY | BLOCK_ENDPOINT_CAPABILITIES_UNKNOWN

datatype TargetPreconditionKind = ABSENT | MATCH_FINGERPRINT | DIRECTORY_EMPTY | NONE

datatype PlanRiskLevel = LOW | MEDIUM | HIGH | BLOCKED

datatype PlanEndpointRole = SOURCE | TARGET_WRITABLE | TARGET_READONLY

definition operation_type_value :: "PlanOperationType \<Rightarrow> string" where
  "operation_type_value t =
     (case t of
        COPY_NEW \<Rightarrow> ''COPY_NEW''
      | REPLACE_CHANGED \<Rightarrow> ''REPLACE_CHANGED''
      | CREATE_DIRECTORY \<Rightarrow> ''CREATE_DIRECTORY''
      | SKIP_IDENTICAL \<Rightarrow> ''SKIP_IDENTICAL''
      | DEFER_AUTOMATION_POLICY \<Rightarrow> ''DEFER_AUTOMATION_POLICY''
      | BLOCK_ENDPOINT_CAPABILITIES_UNKNOWN \<Rightarrow> ''BLOCK_ENDPOINT_CAPABILITIES_UNKNOWN'')"

definition precondition_kind_value :: "TargetPreconditionKind \<Rightarrow> string" where
  "precondition_kind_value k =
     (case k of ABSENT \<Rightarrow> ''ABSENT'' | MATCH_FINGERPRINT \<Rightarrow> ''MATCH_FINGERPRINT''
      | DIRECTORY_EMPTY \<Rightarrow> ''DIRECTORY_EMPTY'' | NONE \<Rightarrow> ''NONE'')"

definition risk_level_value :: "PlanRiskLevel \<Rightarrow> string" where
  "risk_level_value r =
     (case r of LOW \<Rightarrow> ''LOW'' | MEDIUM \<Rightarrow> ''MEDIUM'' | HIGH \<Rightarrow> ''HIGH'' | BLOCKED \<Rightarrow> ''BLOCKED'')"

definition endpoint_role_value :: "PlanEndpointRole \<Rightarrow> string" where
  "endpoint_role_value r =
     (case r of SOURCE \<Rightarrow> ''SOURCE'' | TARGET_WRITABLE \<Rightarrow> ''TARGET_WRITABLE''
      | TARGET_READONLY \<Rightarrow> ''TARGET_READONLY'')"

definition MUTATING_OPERATION_TYPES :: "PlanOperationType list" where
  "MUTATING_OPERATION_TYPES = [COPY_NEW, CREATE_DIRECTORY]"

record PlanOperation =
  po_operation_id :: string
  po_operation_type :: PlanOperationType
  po_sequence_no :: int
  po_execution_phase :: int
  po_stable_order_key :: string
  po_target_precondition_kind :: TargetPreconditionKind
  po_reason_code :: string
  po_risk_level :: PlanRiskLevel
  po_target_endpoint_id :: "string option"
  po_target_relative_path :: "string option"
  po_source_relative_path :: "string option"
  po_source_precondition_json :: "string option"
  po_deferred_operation_type :: "PlanOperationType option"
  po_planned_bytes :: int

record PlanDependency =
  pd_before_operation_id :: string
  pd_after_operation_id :: string

record PlanEndpoint =
  pe_endpoint_id :: string
  pe_endpoint_revision_id :: string
  pe_snapshot_id :: string
  pe_role :: PlanEndpointRole
  pe_capabilities_hash :: string
  pe_root_case_context_hash :: string
  pe_endpoint_generation :: int
  pe_target_ordinal :: "int option"
  pe_required_owner_installation_id :: "string option"
  pe_required_ownership_epoch :: "int option"
  pe_control_schema_version :: "int option"
  pe_planned_operations :: int
  pe_planned_bytes :: int

record SealedPlan =
  sp_plan_id :: string
  sp_analysis_id :: string
  sp_job_id :: string
  sp_job_revision_id :: string
  sp_endpoints :: "PlanEndpoint list"
  sp_operations :: "PlanOperation list"
  sp_dependencies :: "PlanDependency list"
  sp_planner_version :: string
  sp_plan_schema_version :: int
  sp_operation_schema_version :: int
  sp_execution_policy :: string
  sp_checksum_algorithm :: string
  sp_serializer_version :: string
  sp_plan_checksum :: string
  sp_risk_summary :: "(string \<times> json) list"
  sp_operation_count :: int
  sp_planned_bytes :: int
  sp_immutable :: bool
  sp_parent_plan_id :: "string option"

definition PLAN_SCHEMA_VERSION :: int where "PLAN_SCHEMA_VERSION = 1"
definition OPERATION_SCHEMA_VERSION :: int where "OPERATION_SCHEMA_VERSION = 4"
definition PLANNER_VERSION :: string where "PLANNER_VERSION = ''0B-plan-sealer-skeleton''"
definition PLAN_CHECKSUM_ALGORITHM :: string where "PLAN_CHECKSUM_ALGORITHM = ''SHA-256''"
definition PLAN_SERIALIZER_VERSION :: string where "PLAN_SERIALIZER_VERSION = ''0B-CANONICAL-JSON-V1''"

section \<open>Validation\<close>

definition validate_plan_identity ::
  "string \<Rightarrow> string \<Rightarrow> string \<Rightarrow> string \<Rightarrow> string \<Rightarrow> unit result" where
  "validate_plan_identity plan_id analysis_id job_id job_revision_id execution_policy =
     (if blank plan_id then Inl ''PLAN_REQUIRES_PLAN_ID''
      else if blank analysis_id then Inl ''PLAN_REQUIRES_ANALYSIS_ID''
      else if blank job_id then Inl ''PLAN_REQUIRES_JOB_ID''
      else if blank job_revision_id then Inl ''PLAN_REQUIRES_JOB_REVISION_ID''
      else if blank execution_policy then Inl ''PLAN_REQUIRES_EXECUTION_POLICY''
      else Inr ())"

definition bind_single_target_operations ::
  "PlanOperation list \<Rightarrow> PlanEndpoint list \<Rightarrow> PlanOperation list" where
  "bind_single_target_operations operations endpoints =
     (case filter (\<lambda>e. pe_role e = TARGET_WRITABLE) endpoints of
        [t] \<Rightarrow>
          map (\<lambda>op. if po_target_endpoint_id op \<noteq> None then op
                    else op\<lparr>po_target_endpoint_id := Some (pe_endpoint_id t)\<rparr>) operations
      | _ \<Rightarrow> operations)"

text \<open>\<open>normalized.split("/", 1)[0]\<close> after backslashes became slashes.\<close>

definition looks_absolute_path :: "string \<Rightarrow> bool" where
  "looks_absolute_path path =
     (let normalized = map (\<lambda>c. if c = CHR 0x5C then CHR ''/'' else c) path in
      take 1 normalized = ''/'' \<or> CHR '':'' \<in> set (takeWhile (\<lambda>c. c \<noteq> CHR ''/'') normalized))"

definition validate_target_precondition :: "PlanOperation \<Rightarrow> unit result" where
  "validate_target_precondition op =
     (let requires_target_precondition =
        (po_operation_type op \<in> set MUTATING_OPERATION_TYPES
         \<or> po_operation_type op = DEFER_AUTOMATION_POLICY)
      in
      if requires_target_precondition \<and> po_target_precondition_kind op = NONE
      then Inl ''MUTATING_PLAN_OPERATION_REQUIRES_TARGET_PRECONDITION''
      else if requires_target_precondition \<and> opt_blank (po_target_relative_path op)
      then Inl ''MUTATING_PLAN_OPERATION_REQUIRES_TARGET_RELATIVE_PATH''
      else (case po_target_relative_path op of
              Some p \<Rightarrow> raise_if (looks_absolute_path p) ''PLAN_OPERATION_TARGET_PATH_MUST_BE_RELATIVE''
            | None \<Rightarrow> Inr ()))"

definition effective_operation_type :: "PlanOperation \<Rightarrow> PlanOperationType option" where
  "effective_operation_type op =
     (if po_operation_type op = DEFER_AUTOMATION_POLICY then po_deferred_operation_type op
      else Some (po_operation_type op))"

definition validate_source_precondition :: "PlanOperation \<Rightarrow> unit result" where
  "validate_source_precondition op =
     (if effective_operation_type op \<notin> {Some COPY_NEW, Some REPLACE_CHANGED}
      then raise_if (po_source_relative_path op \<noteq> None \<or> po_source_precondition_json op \<noteq> None)
             ''NONCOPY_PLAN_OPERATION_HAS_SOURCE_PRECONDITION''
      else
        (case po_source_relative_path op of
           None \<Rightarrow> Inl ''COPY_PLAN_OPERATION_REQUIRES_SOURCE_PATH''
         | Some path \<Rightarrow>
             if blank path then Inl ''COPY_PLAN_OPERATION_REQUIRES_SOURCE_PATH''
             else if looks_absolute_path path then Inl ''PLAN_OPERATION_SOURCE_PATH_MUST_BE_RELATIVE''
             else
               (case source_precondition_from_json (po_source_precondition_json op) of
                  Inl code \<Rightarrow> Inl code
                | Inr precondition \<Rightarrow>
                    raise_if (sfp_relative_path precondition \<noteq> path
                        \<or> sfp_size_bytes precondition \<noteq> po_planned_bytes op)
                      ''PLAN_OPERATION_SOURCE_PRECONDITION_MISMATCH'')))"

definition validate_deferred_operation :: "PlanOperation \<Rightarrow> unit result" where
  "validate_deferred_operation op =
     (if po_operation_type op = DEFER_AUTOMATION_POLICY
      then raise_if (po_deferred_operation_type op
               \<notin> {Some COPY_NEW, Some REPLACE_CHANGED, Some CREATE_DIRECTORY})
             ''DEFERRED_PLAN_OPERATION_TYPE_INVALID''
      else raise_if (po_deferred_operation_type op \<noteq> None)
             ''NONDEFERRED_PLAN_OPERATION_HAS_DEFERRED_TYPE'')"

text \<open>The body of the loop of \<open>_validate_operations\<close>, with the two sets it accumulates.\<close>

definition validate_operation ::
  "string list \<Rightarrow> string list \<Rightarrow> int list \<Rightarrow> PlanOperation \<Rightarrow> unit result" where
  "validate_operation writable_endpoint_ids operation_ids sequence_numbers op =
     (if blank (po_operation_id op) then Inl ''PLAN_OPERATION_REQUIRES_ID''
      else if po_operation_id op \<in> set operation_ids then Inl ''PLAN_OPERATION_IDS_MUST_BE_UNIQUE''
      else if po_sequence_no op < 0 then Inl ''PLAN_OPERATION_SEQUENCE_MUST_BE_NON_NEGATIVE''
      else if po_sequence_no op \<in> set sequence_numbers then Inl ''PLAN_OPERATION_SEQUENCE_MUST_BE_UNIQUE''
      else if po_execution_phase op < 0 then Inl ''PLAN_OPERATION_PHASE_MUST_BE_NON_NEGATIVE''
      else if blank (po_stable_order_key op) then Inl ''PLAN_OPERATION_REQUIRES_STABLE_ORDER_KEY''
      else if blank (po_reason_code op) then Inl ''PLAN_OPERATION_REQUIRES_REASON_CODE''
      else if po_planned_bytes op < 0 then Inl ''PLAN_OPERATION_BYTES_MUST_BE_NON_NEGATIVE''
      else
        and_then
          (case po_target_endpoint_id op of
             Some endpoint_id \<Rightarrow>
               if blank endpoint_id then Inl ''PLAN_OPERATION_TARGET_ENDPOINT_MUST_NOT_BE_BLANK''
               else raise_if (endpoint_id \<notin> set writable_endpoint_ids)
                      ''PLAN_OPERATION_TARGET_ENDPOINT_NOT_WRITABLE''
           | None \<Rightarrow>
               raise_if (po_operation_type op \<in> set MUTATING_OPERATION_TYPES \<and> writable_endpoint_ids \<noteq> [])
                 ''MUTATING_PLAN_OPERATION_REQUIRES_TARGET_ENDPOINT'')
          (\<lambda>_. and_then (validate_deferred_operation op)
          (\<lambda>_. and_then (validate_target_precondition op)
          (\<lambda>_. validate_source_precondition op))))"

fun validate_operations_loop ::
  "string list \<Rightarrow> string list \<Rightarrow> int list \<Rightarrow> PlanOperation list \<Rightarrow> unit result" where
  "validate_operations_loop writable ids seqs [] = Inr ()"
| "validate_operations_loop writable ids seqs (op # ops) =
     and_then (validate_operation writable ids seqs op)
       (\<lambda>_. validate_operations_loop writable (po_operation_id op # ids) (po_sequence_no op # seqs) ops)"

definition writable_endpoint_ids :: "PlanEndpoint list \<Rightarrow> string list" where
  "writable_endpoint_ids endpoints =
     map pe_endpoint_id (filter (\<lambda>e. pe_role e = TARGET_WRITABLE) endpoints)"

definition validate_operations :: "PlanOperation list \<Rightarrow> PlanEndpoint list \<Rightarrow> unit result" where
  "validate_operations operations endpoints =
     (if operations = [] then Inl ''PLAN_REQUIRES_OPERATIONS''
      else validate_operations_loop (writable_endpoint_ids endpoints) [] [] operations)"

definition validate_endpoint_text :: "string option \<Rightarrow> string \<Rightarrow> unit result" where
  "validate_endpoint_text value reason = raise_if (opt_blank value) reason"

text \<open>Returns the set of ordinals seen so far, which the source updates in place.\<close>

definition validate_writable_target_endpoint :: "PlanEndpoint \<Rightarrow> int list \<Rightarrow> int list result" where
  "validate_writable_target_endpoint endpoint target_ordinals =
     (case pe_target_ordinal endpoint of
        None \<Rightarrow> Inl ''WRITABLE_PLAN_TARGET_REQUIRES_TARGET_ORDINAL''
      | Some ordinal \<Rightarrow>
          if ordinal < 0 then Inl ''WRITABLE_PLAN_TARGET_REQUIRES_TARGET_ORDINAL''
          else if ordinal \<in> set target_ordinals then Inl ''PLAN_TARGET_ORDINALS_MUST_BE_UNIQUE''
          else
            and_then (validate_endpoint_text (pe_required_owner_installation_id endpoint)
                ''WRITABLE_PLAN_TARGET_REQUIRES_OWNER'')
            (\<lambda>_.
              if (case pe_required_ownership_epoch endpoint of None \<Rightarrow> True | Some e \<Rightarrow> e < 1)
              then Inl ''WRITABLE_PLAN_TARGET_REQUIRES_OWNERSHIP_EPOCH''
              else if (case pe_control_schema_version endpoint of None \<Rightarrow> True | Some v \<Rightarrow> v < 1)
              then Inl ''WRITABLE_PLAN_TARGET_REQUIRES_CONTROL_SCHEMA_VERSION''
              else Inr (ordinal # target_ordinals)))"

definition validate_endpoint ::
  "string list \<Rightarrow> int list \<Rightarrow> PlanEndpoint \<Rightarrow> int list result" where
  "validate_endpoint endpoint_ids target_ordinals endpoint =
     and_then (validate_endpoint_text (Some (pe_endpoint_id endpoint)) ''PLAN_ENDPOINT_REQUIRES_ID'')
     (\<lambda>_. and_then (validate_endpoint_text (Some (pe_endpoint_revision_id endpoint))
             ''PLAN_ENDPOINT_REQUIRES_REVISION_ID'')
     (\<lambda>_. and_then (validate_endpoint_text (Some (pe_snapshot_id endpoint))
             ''PLAN_ENDPOINT_REQUIRES_SNAPSHOT_ID'')
     (\<lambda>_. and_then (validate_endpoint_text (Some (pe_capabilities_hash endpoint))
             ''PLAN_ENDPOINT_REQUIRES_CAPABILITIES_HASH'')
     (\<lambda>_. and_then (validate_endpoint_text (Some (pe_root_case_context_hash endpoint))
             ''PLAN_ENDPOINT_REQUIRES_CASE_CONTEXT_HASH'')
     (\<lambda>_.
       if pe_endpoint_id endpoint \<in> set endpoint_ids then Inl ''PLAN_ENDPOINT_IDS_MUST_BE_UNIQUE''
       else if pe_planned_operations endpoint < 0
       then Inl ''PLAN_ENDPOINT_OPERATIONS_MUST_BE_NON_NEGATIVE''
       else if pe_planned_bytes endpoint < 0 then Inl ''PLAN_ENDPOINT_BYTES_MUST_BE_NON_NEGATIVE''
       else if pe_endpoint_generation endpoint < 1 then Inl ''PLAN_ENDPOINT_REQUIRES_GENERATION''
       else if pe_role endpoint = TARGET_WRITABLE
       then validate_writable_target_endpoint endpoint target_ordinals
       else if (case pe_target_ordinal endpoint of None \<Rightarrow> False | Some ordinal \<Rightarrow> ordinal < 0)
       then Inl ''PLAN_ENDPOINT_TARGET_ORDINAL_MUST_BE_NON_NEGATIVE''
       else Inr target_ordinals)))))"

fun validate_endpoints_loop ::
  "string list \<Rightarrow> int list \<Rightarrow> PlanEndpoint list \<Rightarrow> unit result" where
  "validate_endpoints_loop ids ordinals [] = Inr ()"
| "validate_endpoints_loop ids ordinals (e # es) =
     and_then (validate_endpoint ids ordinals e)
       (\<lambda>ordinals'. validate_endpoints_loop (pe_endpoint_id e # ids) ordinals' es)"

definition validate_endpoints :: "PlanEndpoint list \<Rightarrow> unit result" where
  "validate_endpoints endpoints = validate_endpoints_loop [] [] endpoints"

section \<open>Dependencies\<close>

type_synonym edges = "(string \<times> string list) list"

function (sequential)
  visit :: "edges \<Rightarrow> string list \<Rightarrow> string list \<Rightarrow> string \<Rightarrow> string list result" and
  visit_all :: "edges \<Rightarrow> string list \<Rightarrow> string list \<Rightarrow> string list \<Rightarrow> string list result" where
  "visit edges visiting visited operation_id =
     (if operation_id \<in> set visited then Inr visited
      else if operation_id \<in> set visiting then Inl ''PLAN_DEPENDENCIES_MUST_BE_ACYCLIC''
      else
        (case map_of edges operation_id of
           None \<Rightarrow> Inl ''KeyError''
         | Some after_ids \<Rightarrow>
             (case visit_all edges (operation_id # visiting) visited after_ids of
                Inl code \<Rightarrow> Inl code
              | Inr visited' \<Rightarrow> Inr (operation_id # visited'))))"
| "visit_all edges visiting visited [] = Inr visited"
| "visit_all edges visiting visited (x # xs) =
     (case visit edges visiting visited x of
        Inl code \<Rightarrow> Inl code
      | Inr visited' \<Rightarrow> visit_all edges visiting visited' xs)"
  by pat_completeness auto
termination
proof (relation "measures [\<lambda>x. case x of
      Inl (e, vg, vd, op) \<Rightarrow> card (fst ` set e - set vg)
    | Inr (e, vg, vd, xs) \<Rightarrow> card (fst ` set e - set vg),
    \<lambda>x. case x of Inl _ \<Rightarrow> 0 | Inr (e, vg, vd, xs) \<Rightarrow> Suc (length xs)]", goal_cases)
  case (2 edges visiting visited operation_id after_ids)
  then have "operation_id \<in> fst ` set edges - set visiting"
    by (force dest: map_of_SomeD)
  then have "card (fst ` set edges - set (operation_id # visiting)) < card (fst ` set edges - set visiting)"
    by (intro psubset_card_mono) auto
  then show ?case by simp
qed auto

declare visit.simps [simp del]

definition reject_dependency_cycles :: "edges \<Rightarrow> unit result" where
  "reject_dependency_cycles edges =
     and_then (visit_all edges [] [] (map fst edges)) (\<lambda>_. Inr ())"

fun add_dependencies :: "string list \<Rightarrow> edges \<Rightarrow> PlanDependency list \<Rightarrow> edges result" where
  "add_dependencies operation_ids edges [] = Inr edges"
| "add_dependencies operation_ids edges (d # ds) =
     (if pd_before_operation_id d = pd_after_operation_id d
      then Inl ''PLAN_DEPENDENCY_CANNOT_REFERENCE_SELF''
      else if pd_before_operation_id d \<notin> set operation_ids \<or> pd_after_operation_id d \<notin> set operation_ids
      then Inl ''PLAN_DEPENDENCY_REQUIRES_EXISTING_OPERATIONS''
      else add_dependencies operation_ids
        (map (\<lambda>(k, after_ids). (k, if k = pd_before_operation_id d
               then List.insert (pd_after_operation_id d) after_ids else after_ids)) edges) ds)"

definition validate_dependencies :: "PlanOperation list \<Rightarrow> PlanDependency list \<Rightarrow> unit result" where
  "validate_dependencies operations dependencies =
     (let operation_ids = map po_operation_id operations in
      and_then (add_dependencies operation_ids (map (\<lambda>i. (i, [])) operation_ids) dependencies)
        reject_dependency_cycles)"

section \<open>Risk summary\<close>

definition risk_count :: "PlanOperation list \<Rightarrow> PlanRiskLevel \<Rightarrow> nat" where
  "risk_count operations r = length (filter (\<lambda>op. po_risk_level op = r) operations)"

definition highest_risk :: "PlanOperation list \<Rightarrow> PlanRiskLevel" where
  "highest_risk operations =
     (case List.find (\<lambda>r. risk_count operations r \<noteq> 0) [BLOCKED, HIGH, MEDIUM, LOW] of
        Some r \<Rightarrow> r | None \<Rightarrow> LOW)"

definition risk_summary :: "PlanOperation list \<Rightarrow> (string \<times> json) list" where
  "risk_summary operations =
     [(''counts'', JObj (map (\<lambda>r. (risk_level_value r, JInt (int (risk_count operations r))))
                          [LOW, MEDIUM, HIGH, BLOCKED])),
      (''highest'', JStr (risk_level_value (highest_risk operations)))]"

section \<open>The canonical payload and the checksum\<close>

definition jopt_str :: "string option \<Rightarrow> json" where
  "jopt_str v = (case v of None \<Rightarrow> JNull | Some s \<Rightarrow> JStr s)"

definition jopt_int :: "int option \<Rightarrow> json" where
  "jopt_int v = (case v of None \<Rightarrow> JNull | Some i \<Rightarrow> JInt i)"

definition operation_payload :: "PlanOperation \<Rightarrow> bool \<Rightarrow> bool \<Rightarrow> bool \<Rightarrow> json" where
  "operation_payload op include_target_endpoint include_source_precondition include_deferred_operation_type =
     JObj
      ([(''execution_phase'', JInt (po_execution_phase op)),
        (''operation_id'', JStr (po_operation_id op)),
        (''operation_type'', JStr (operation_type_value (po_operation_type op))),
        (''planned_bytes'', JInt (po_planned_bytes op)),
        (''reason_code'', JStr (po_reason_code op)),
        (''risk_level'', JStr (risk_level_value (po_risk_level op))),
        (''sequence_no'', JInt (po_sequence_no op)),
        (''stable_order_key'', JStr (po_stable_order_key op)),
        (''target_precondition_kind'', JStr (precondition_kind_value (po_target_precondition_kind op))),
        (''target_relative_path'', jopt_str (po_target_relative_path op))]
       @ (if include_target_endpoint
          then [(''target_endpoint_id'', jopt_str (po_target_endpoint_id op))] else [])
       @ (if include_source_precondition
          then [(''source_relative_path'', jopt_str (po_source_relative_path op)),
                (''source_precondition_json'', jopt_str (po_source_precondition_json op))] else [])
       @ (if include_deferred_operation_type
          then [(''deferred_operation_type'',
                 jopt_str (map_option operation_type_value (po_deferred_operation_type op)))] else []))"

definition endpoint_payload :: "PlanEndpoint \<Rightarrow> json" where
  "endpoint_payload e =
     JObj
      [(''capabilities_hash'', JStr (pe_capabilities_hash e)),
       (''control_schema_version'', jopt_int (pe_control_schema_version e)),
       (''endpoint_id'', JStr (pe_endpoint_id e)),
       (''endpoint_generation'', JInt (pe_endpoint_generation e)),
       (''endpoint_revision_id'', JStr (pe_endpoint_revision_id e)),
       (''planned_bytes'', JInt (pe_planned_bytes e)),
       (''planned_operations'', JInt (pe_planned_operations e)),
       (''required_owner_installation_id'', jopt_str (pe_required_owner_installation_id e)),
       (''required_ownership_epoch'', jopt_int (pe_required_ownership_epoch e)),
       (''role'', JStr (endpoint_role_value (pe_role e))),
       (''root_case_context_hash'', JStr (pe_root_case_context_hash e)),
       (''snapshot_id'', JStr (pe_snapshot_id e)),
       (''target_ordinal'', jopt_int (pe_target_ordinal e))]"

definition dependency_payload :: "PlanDependency \<Rightarrow> json" where
  "dependency_payload d =
     JObj [(''after_operation_id'', JStr (pd_after_operation_id d)),
           (''before_operation_id'', JStr (pd_before_operation_id d))]"

text \<open>Every field of a sealed plan except the checksum itself is an argument of the payload.\<close>

definition canonical_payload :: "SealedPlan \<Rightarrow> json" where
  "canonical_payload plan =
     JObj
      [(''analysis_id'', JStr (sp_analysis_id plan)),
       (''checksum_algorithm'', JStr (sp_checksum_algorithm plan)),
       (''dependencies'', JArr (map dependency_payload (sp_dependencies plan))),
       (''execution_policy'', JStr (sp_execution_policy plan)),
       (''immutable'', JBool (sp_immutable plan)),
       (''job_id'', JStr (sp_job_id plan)),
       (''job_revision_id'', JStr (sp_job_revision_id plan)),
       (''operation_count'', JInt (sp_operation_count plan)),
       (''operation_schema_version'', JInt (sp_operation_schema_version plan)),
       (''endpoints'', JArr (map endpoint_payload (sp_endpoints plan))),
       (''operations'', JArr (map (\<lambda>op. operation_payload op
            (2 \<le> sp_operation_schema_version plan) (3 \<le> sp_operation_schema_version plan)
            (4 \<le> sp_operation_schema_version plan)) (sp_operations plan))),
       (''parent_plan_id'', jopt_str (sp_parent_plan_id plan)),
       (''planned_bytes'', JInt (sp_planned_bytes plan)),
       (''plan_id'', JStr (sp_plan_id plan)),
       (''plan_schema_version'', JInt (sp_plan_schema_version plan)),
       (''planner_version'', JStr (sp_planner_version plan)),
       (''risk_summary'', JObj (sp_risk_summary plan)),
       (''serializer_version'', JStr (sp_serializer_version plan))]"

definition checksum :: "json \<Rightarrow> string" where
  "checksum payload = sha256_hexdigest (utf8 (json_dumps False payload))"

definition verify_plan_checksum :: "SealedPlan \<Rightarrow> bool" where
  "verify_plan_checksum plan \<longleftrightarrow> sp_plan_checksum plan = checksum (canonical_payload plan)"

section \<open>Sealing\<close>

definition endpoint_order_key :: "PlanEndpoint \<Rightarrow> string \<times> int \<times> string" where
  "endpoint_order_key e =
     (endpoint_role_value (pe_role e),
      (case pe_target_ordinal e of None \<Rightarrow> -1 | Some ordinal \<Rightarrow> ordinal), pe_endpoint_id e)"

definition dependency_order_key :: "PlanDependency \<Rightarrow> string \<times> string" where
  "dependency_order_key d = (pd_before_operation_id d, pd_after_operation_id d)"

definition seal_plan ::
  "string \<Rightarrow> string \<Rightarrow> string \<Rightarrow> string \<Rightarrow> PlanOperation list \<Rightarrow> PlanEndpoint list \<Rightarrow>
   PlanDependency list \<Rightarrow> string option \<Rightarrow> string \<Rightarrow> (string \<times> json) list option \<Rightarrow>
   SealedPlan result" where
  "seal_plan plan_id analysis_id job_id job_revision_id operations endpoints dependencies
     parent_plan_id execution_policy risk_summary_arg =
     and_then (validate_plan_identity plan_id analysis_id job_id job_revision_id execution_policy) (\<lambda>_.
       let ordered_endpoints = sort_key endpoint_order_key endpoints;
           bound_operations = bind_single_target_operations operations ordered_endpoints;
           ordered_operations = sort_key po_sequence_no bound_operations;
           ordered_dependencies = sort_key dependency_order_key dependencies
       in
       and_then (validate_endpoints ordered_endpoints) (\<lambda>_.
       and_then (validate_operations ordered_operations ordered_endpoints) (\<lambda>_.
       and_then (validate_dependencies ordered_operations ordered_dependencies) (\<lambda>_.
         let plan_risk_summary =
               (case risk_summary_arg of
                  Some (kv # kvs) \<Rightarrow> kv # kvs
                | _ \<Rightarrow> risk_summary ordered_operations);
             plan =
               \<lparr>sp_plan_id = plan_id, sp_analysis_id = analysis_id, sp_job_id = job_id,
                sp_job_revision_id = job_revision_id, sp_endpoints = ordered_endpoints,
                sp_operations = ordered_operations, sp_dependencies = ordered_dependencies,
                sp_planner_version = PLANNER_VERSION, sp_plan_schema_version = PLAN_SCHEMA_VERSION,
                sp_operation_schema_version = OPERATION_SCHEMA_VERSION,
                sp_execution_policy = execution_policy,
                sp_checksum_algorithm = PLAN_CHECKSUM_ALGORITHM,
                sp_serializer_version = PLAN_SERIALIZER_VERSION, sp_plan_checksum = [],
                sp_risk_summary = plan_risk_summary,
                sp_operation_count = int (length ordered_operations),
                sp_planned_bytes = sum_list (map po_planned_bytes ordered_operations),
                sp_immutable = True, sp_parent_plan_id = parent_plan_id\<rparr>
         in Inr (plan\<lparr>sp_plan_checksum := checksum (canonical_payload plan)\<rparr>)))))"

end
