(* ===== verification/Run_Model.thy ===== *)
theory Run_Model
  imports Plans
begin

text \<open>
  The data of \<open>application/runs.py\<close>: the states of runs and run targets, the run as the
  application sees it, and the rows of the catalog tables \<open>runs\<close>, \<open>run_targets\<close>,
  \<open>run_stop_requests\<close> and \<open>run_target_endpoint_wait_events\<close>.  The \<open>CHECK\<close> constraints on the
  state columns admit exactly the values of the enumerations, so a row holds the enumeration.
\<close>

datatype RunState =
    CREATED | QUEUED | PREFLIGHT | EXECUTING | PAUSING | PAUSED | COMPLETED
  | COMPLETED_WITH_WARNINGS | PARTIAL_FAILURE | FAILED | CANCELLED | BLOCKED_BY_SAFETY
  | RECOVERY_REQUIRED

datatype RunTargetState =
    PENDING | ACQUIRING_LEASE | REVALIDATING | EXECUTING | PAUSED | WAITING_FOR_ENDPOINT
  | NEEDS_REVIEW | SUCCEEDED | SUCCEEDED_WITH_WARNINGS | FAILED | CANCELLED | BLOCKED
  | RECOVERY_REQUIRED

datatype RunTriggerType = MANUAL_LOCAL_PREVIEW

datatype RunStopState = STOP_PENDING | STOP_APPLIED

definition TERMINAL_RUN_STATES :: "RunState list" where
  "TERMINAL_RUN_STATES =
     [RunState.COMPLETED, RunState.COMPLETED_WITH_WARNINGS, RunState.PARTIAL_FAILURE, RunState.FAILED,
      RunState.CANCELLED, RunState.BLOCKED_BY_SAFETY, RunState.RECOVERY_REQUIRED]"

definition RETRYABLE_RUN_TARGET_STATES :: "RunTargetState list" where
  "RETRYABLE_RUN_TARGET_STATES = [RunTargetState.FAILED, RunTargetState.CANCELLED, RunTargetState.BLOCKED]"

definition OPERATION_RETRYABLE_RUN_TARGET_STATES :: "RunTargetState list" where
  "OPERATION_RETRYABLE_RUN_TARGET_STATES =
     RETRYABLE_RUN_TARGET_STATES @ [RunTargetState.SUCCEEDED_WITH_WARNINGS]"

section \<open>What the application sees\<close>

record StartedRunTarget =
  rt_run_target_id :: string
  rt_endpoint_id :: string
  rt_endpoint_revision_id :: string
  rt_state :: RunTargetState
  rt_required_owner_installation_id :: "string option"
  rt_required_ownership_epoch :: "int option"
  rt_lease_resource_key :: "string option"
  rt_last_lease_id :: "string option"
  rt_last_ownership_epoch :: "int option"
  rt_last_fencing_token :: "int option"
  rt_planned_operations :: int
  rt_planned_bytes :: int
  rt_completed_operations :: int
  rt_completed_bytes :: int

record StartedRun =
  sr_run_id :: string
  sr_job_id :: string
  sr_job_revision_id :: string
  sr_plan_id :: string
  sr_command_request_id :: string
  sr_idempotency_key :: string
  sr_command_receipt_id :: string
  sr_logical_run_group_id :: string
  sr_trigger_type :: RunTriggerType
  sr_state :: RunState
  sr_app_version :: string
  sr_plan_checksum :: string
  sr_planned_operations :: int
  sr_planned_bytes :: int
  sr_targets :: "StartedRunTarget list"
  sr_summary :: "(string \<times> json) list"
  sr_warning_count :: int
  sr_error_count :: int
  sr_trigger_occurrence_id :: "string option"
  sr_resumed_from_run_id :: "string option"

record RunStopRequest =
  srq_run_id :: string
  srq_boundary_run_target_id :: "string option"
  srq_boundary_operation_id :: "string option"

record RunTargetStopProgress =
  tsp_run_target_id :: string
  tsp_completed_operations :: int
  tsp_completed_bytes :: int

section \<open>Rows of the catalog\<close>

record run_row =
  rr_id :: string
  rr_job_id :: string
  rr_job_revision_id :: string
  rr_plan_id :: string
  rr_command_request_id :: string
  rr_command_receipt_id :: string
  rr_trigger_occurrence_id :: "string option"
  rr_logical_run_group_id :: string
  rr_resumed_from_run_id :: "string option"
  rr_trigger_type :: RunTriggerType
  rr_state :: RunState
  rr_started_utc :: string
  rr_finished_utc :: "string option"
  rr_summary_json :: string
  rr_warning_count :: int
  rr_error_count :: int
  rr_app_version :: string
  rr_row_version :: int
  rr_plan_checksum :: string
  rr_idempotency_key :: string
  rr_planned_operations :: int
  rr_planned_bytes :: int

record target_row =
  tr_id :: string
  tr_run_id :: string
  tr_endpoint_id :: string
  tr_endpoint_revision_id :: string
  tr_required_owner_installation_id :: "string option"
  tr_required_ownership_epoch :: "int option"
  tr_state :: RunTargetState
  tr_lease_resource_key :: "string option"
  tr_last_lease_id :: "string option"
  tr_last_ownership_epoch :: "int option"
  tr_last_fencing_token :: "int option"
  tr_started_utc :: "string option"
  tr_finished_utc :: "string option"
  tr_planned_operations :: int
  tr_completed_operations :: int
  tr_planned_bytes :: int
  tr_completed_bytes :: int
  tr_warning_count :: int
  tr_error_count :: int
  tr_result_json :: "string option"
  tr_row_version :: int

record stop_row =
  st_run_id :: string
  st_state :: RunStopState
  st_boundary_run_target_id :: "string option"
  st_boundary_operation_id :: "string option"
  st_requested_utc :: string
  st_applied_utc :: "string option"
  st_row_version :: int

record wait_row =
  we_id :: int
  we_run_id :: string
  we_run_target_id :: string
  we_attempt_no :: int
  we_reason_code :: string
  we_observed_utc :: string
  we_backoff_ms :: int
  we_retry_not_before_utc :: string

text \<open>
  The catalog: the four tables, the largest row id the \<open>AUTOINCREMENT\<close> column has given out, and
  the keys of the tables that the foreign keys of \<open>runs\<close> and \<open>run_targets\<close> point at, which no
  operation of the run store writes.
\<close>

record catalog =
  c_runs :: "run_row list"
  c_run_targets :: "target_row list"
  c_run_stop_requests :: "stop_row list"
  c_wait_events :: "wait_row list"
  c_wait_event_seq :: int
  c_job_revisions :: "(string \<times> string) list"
  c_plan_seal_details :: "(string \<times> string \<times> string) list"
  c_command_receipts :: "string list"
  c_endpoint_revisions :: "(string \<times> string) list"

text \<open>The states \<open>completion\<close> statements list as unfinished.\<close>

definition OPEN_TARGET_STATES :: "RunTargetState list" where
  "OPEN_TARGET_STATES =
     [RunTargetState.PENDING, RunTargetState.ACQUIRING_LEASE, RunTargetState.REVALIDATING,
      RunTargetState.EXECUTING, RunTargetState.PAUSED, RunTargetState.WAITING_FOR_ENDPOINT,
      RunTargetState.NEEDS_REVIEW]"

definition STOPPABLE_RUN_STATES :: "RunState list" where
  "STOPPABLE_RUN_STATES =
     [RunState.CREATED, RunState.QUEUED, RunState.PREFLIGHT, RunState.EXECUTING, RunState.PAUSING,
      RunState.PAUSED]"

end
