(* ===== verification/Endpoint_Retry.thy ===== *)
theory Endpoint_Retry
  imports Sha256
begin

text \<open>
  \<open>application/endpoint_retry.py\<close> and the clock port of \<open>application/clocks.py\<close>: the backoff of a
  waiting run target and the in-memory scheduler of retry deadlines.

  A \<open>datetime\<close> in UTC is an \<open>int\<close>: microseconds since the start of the year 1.  The parser takes
  the extended calendar forms of \<open>datetime.fromisoformat\<close> (a date, one separating character,
  hours and optionally minutes, seconds and a fraction); week dates and the forms without
  separators, which the program never writes, are refused.  \<open>timedelta.total_seconds\<close> is exact
  here, where Python rounds to a \<open>float\<close>.
\<close>

section \<open>UTC timestamps\<close>

definition is_leap :: "int \<Rightarrow> bool" where
  "is_leap y \<longleftrightarrow> y mod 4 = 0 \<and> (y mod 100 \<noteq> 0 \<or> y mod 400 = 0)"

definition days_before_year :: "int \<Rightarrow> int" where
  "days_before_year y = (y - 1) * 365 + (y - 1) div 4 - (y - 1) div 100 + (y - 1) div 400"

definition days_in_month :: "int \<Rightarrow> nat \<Rightarrow> int" where
  "days_in_month y m = [31, if is_leap y then 29 else 28, 31, 30, 31, 30, 31, 31, 30, 31, 30, 31] ! (m - 1)"

definition days_before_month :: "int \<Rightarrow> nat \<Rightarrow> int" where
  "days_before_month y m = sum_list (map (days_in_month y) [1..<m])"

definition ymd2ord :: "int \<Rightarrow> nat \<Rightarrow> int \<Rightarrow> int" where
  "ymd2ord y m d = days_before_year y + days_before_month y m + d"

definition ord2ymd :: "int \<Rightarrow> int \<times> nat \<times> int" where
  "ord2ymd ordinal =
     (let n = ordinal - 1;
          n400 = n div 146097; n = n mod 146097;
          n100 = n div 36524; n = n mod 36524;
          n4 = n div 1461; n = n mod 1461;
          n1 = n div 365; n = n mod 365;
          year = n400 * 400 + 1 + n100 * 100 + n4 * 4 + n1
      in if n1 = 4 \<or> n100 = 4 then (year - 1, 12, 31)
         else
           (let month = nat ((n + 50) div 32);
                preceding = days_before_month year month
            in if n < preceding
               then (year, month - 1, n - (preceding - days_in_month year (month - 1)) + 1)
               else (year, month, n - preceding + 1)))"

text \<open>Zero padded decimals of a fixed width, and reading them back.\<close>

definition pad :: "nat \<Rightarrow> int \<Rightarrow> string" where
  "pad w i = (let s = show_nat (nat i) in replicate (w - length s) CHR ''0'' @ s)"

definition read_digits :: "string \<Rightarrow> int option" where
  "read_digits s = (if s \<noteq> [] \<and> list_all is_digit s then Some (int (read_nat s)) else None)"

definition MICROS_PER_DAY :: int where "MICROS_PER_DAY = 86400000000"

definition format_utc :: "int \<Rightarrow> string" where
  "format_utc t =
     (let (y, m, d) = ord2ymd (t div MICROS_PER_DAY + 1);
          us = t mod MICROS_PER_DAY
      in pad 4 y @ ''-'' @ pad 2 (int m) @ ''-'' @ pad 2 d @ ''T''
         @ pad 2 (us div 3600000000) @ '':'' @ pad 2 (us div 60000000 mod 60) @ '':''
         @ pad 2 (us div 1000000 mod 60) @ ''.'' @ pad 3 (us div 1000 mod 1000) @ ''Z'')"

text \<open>The fraction of a second in microseconds: six digits are used, further ones are dropped.\<close>

definition parse_fraction :: "string \<Rightarrow> int option" where
  "parse_fraction s = map_option (\<lambda>_. int (read_nat (take 6 (s @ replicate 6 CHR ''0'')))) (read_digits s)"

definition parse_time :: "string \<Rightarrow> int option" where
  "parse_time s =
     (let h = read_digits (take 2 s); mi = read_digits (take 2 (drop 3 s));
          se = read_digits (take 2 (drop 6 s))
      in case h of
           None \<Rightarrow> None
         | Some hh \<Rightarrow>
             if length (take 2 s) \<noteq> 2 \<or> 23 < hh then None
             else if length s = 2 then Some (hh * 3600000000)
             else if s ! 2 \<noteq> CHR '':'' \<or> length (take 2 (drop 3 s)) \<noteq> 2 then None
             else
               (case mi of
                  None \<Rightarrow> None
                | Some mm \<Rightarrow>
                    if 59 < mm then None
                    else if length s = 5 then Some (hh * 3600000000 + mm * 60000000)
                    else if s ! 5 \<noteq> CHR '':'' \<or> length (take 2 (drop 6 s)) \<noteq> 2 then None
                    else
                      (case se of
                         None \<Rightarrow> None
                       | Some ss \<Rightarrow>
                           if 59 < ss then None
                           else if length s = 8 then Some (hh * 3600000000 + mm * 60000000 + ss * 1000000)
                           else if s ! 8 \<noteq> CHR ''.'' \<and> s ! 8 \<noteq> CHR '','' then None
                           else map_option (\<lambda>us. hh * 3600000000 + mm * 60000000 + ss * 1000000 + us)
                                  (parse_fraction (drop 9 s)))))"

definition parse_date :: "string \<Rightarrow> int option" where
  "parse_date s =
     (if length s \<noteq> 10 \<or> s ! 4 \<noteq> CHR ''-'' \<or> s ! 7 \<noteq> CHR ''-'' then None
      else
        (case (read_digits (take 4 s), read_digits (take 2 (drop 5 s)), read_digits (drop 8 s)) of
           (Some y, Some m, Some d) \<Rightarrow>
             if y < 1 \<or> m < 1 \<or> 12 < m \<or> d < 1 \<or> days_in_month y (nat m) < d then None
             else Some (ymd2ord y (nat m) d)
         | _ \<Rightarrow> None))"

definition parse_utc :: "string \<Rightarrow> int result" where
  "parse_utc value =
     (let normalized = strip value in
      if normalized = [] \<or> last normalized \<noteq> CHR ''Z'' then Inl ''ENDPOINT_RETRY_UTC_INVALID''
      else
        (let body = butlast normalized in
         case (parse_date (take 10 body), parse_time (drop 11 body)) of
           (Some ordinal, Some us) \<Rightarrow> Inr ((ordinal - 1) * MICROS_PER_DAY + us)
         | _ \<Rightarrow> Inl ''ENDPOINT_RETRY_UTC_INVALID''))"

section \<open>Backoff\<close>

definition ENDPOINT_RETRY_BASE_MS :: int where "ENDPOINT_RETRY_BASE_MS = 5000"
definition ENDPOINT_RETRY_MAX_MS :: int where "ENDPOINT_RETRY_MAX_MS = 300000"
definition ENDPOINT_RETRY_JITTER_FLOOR_PERCENT :: int where "ENDPOINT_RETRY_JITTER_FLOOR_PERCENT = 80"

definition nominal_backoff_ms :: "int \<Rightarrow> int" where
  "nominal_backoff_ms attempt_no =
     min (ENDPOINT_RETRY_BASE_MS * 2 ^ nat (min (attempt_no - 1) 31)) ENDPOINT_RETRY_MAX_MS"

definition endpoint_retry_backoff_ms :: "string \<Rightarrow> string \<Rightarrow> int \<Rightarrow> int result" where
  "endpoint_retry_backoff_ms run_id run_target_id attempt_no =
     (if blank run_id \<or> blank run_target_id then Inl ''ENDPOINT_RETRY_REQUIRES_TARGET_IDENTITY''
      else if attempt_no < 1 then Inl ''ENDPOINT_RETRY_ATTEMPT_MUST_BE_POSITIVE''
      else
        (let nominal_ms = nominal_backoff_ms attempt_no;
             floor_ms = nominal_ms * ENDPOINT_RETRY_JITTER_FLOOR_PERCENT div 100;
             jitter_span_ms = nominal_ms - floor_ms;
             digest8 = sha256_first8
               (utf8 (run_id @ [CHR 0x00] @ run_target_id @ [CHR 0x00] @ show_int attempt_no));
             jitter_ms = digest8 mod (jitter_span_ms + 1)
         in Inr (floor_ms + jitter_ms)))"

section \<open>The scheduler\<close>

text \<open>The two readings of the clock an operation takes.\<close>

record clock_reading =
  utc_now :: string
  monotonic_ns :: int

record EndpointRetryTiming =
  ert_observed_utc :: string
  ert_retry_not_before_utc :: string
  ert_backoff_ms :: int
  ert_deadline_monotonic_ns :: int

record ActiveDeadline =
  ad_retry_not_before_utc :: string
  ad_backoff_ms :: int
  ad_deadline_monotonic_ns :: int

type_synonym deadlines = "int \<rightharpoonup> ActiveDeadline"

definition validate_event_id :: "int \<Rightarrow> unit result" where
  "validate_event_id event_id = raise_if (event_id < 1) ''ENDPOINT_RETRY_EVENT_ID_INVALID''"

definition validate_backoff :: "int \<Rightarrow> unit result" where
  "validate_backoff backoff_ms =
     raise_if (backoff_ms < 1 \<or> ENDPOINT_RETRY_MAX_MS < backoff_ms) ''ENDPOINT_RETRY_BACKOFF_INVALID''"

definition monotonic_now :: "clock_reading \<Rightarrow> int result" where
  "monotonic_now clock =
     (if monotonic_ns clock < 0 then Inl ''ENDPOINT_RETRY_MONOTONIC_CLOCK_INVALID''
      else Inr (monotonic_ns clock))"

definition retry_plan :: "clock_reading \<Rightarrow> int \<Rightarrow> EndpointRetryTiming result" where
  "retry_plan clock backoff_ms =
     and_then (validate_backoff backoff_ms) (\<lambda>_.
     and_then (parse_utc (utc_now clock)) (\<lambda>observed.
     and_then (monotonic_now clock) (\<lambda>started_monotonic_ns.
       Inr \<lparr>ert_observed_utc = format_utc observed,
            ert_retry_not_before_utc = format_utc (observed + backoff_ms * 1000),
            ert_backoff_ms = backoff_ms,
            ert_deadline_monotonic_ns = started_monotonic_ns + backoff_ms * 1000000\<rparr>)))"

definition retry_activate :: "int \<Rightarrow> EndpointRetryTiming \<Rightarrow> deadlines \<Rightarrow> deadlines result" where
  "retry_activate event_id timing dl =
     and_then (validate_event_id event_id) (\<lambda>_.
     and_then (validate_backoff (ert_backoff_ms timing)) (\<lambda>_.
     and_then (parse_utc (ert_retry_not_before_utc timing)) (\<lambda>_.
       Inr (dl(event_id \<mapsto>
         \<lparr>ad_retry_not_before_utc = ert_retry_not_before_utc timing,
          ad_backoff_ms = ert_backoff_ms timing,
          ad_deadline_monotonic_ns = ert_deadline_monotonic_ns timing\<rparr>)))))"

text \<open>\<open>math.ceil(max(0.0, delta.total_seconds() * 1_000))\<close> of a difference in microseconds.\<close>

definition ceil_ms :: "int \<Rightarrow> int" where
  "ceil_ms delta_us = - ((- max 0 delta_us) div 1000)"

definition retry_is_due :: "clock_reading \<Rightarrow> int \<Rightarrow> int \<Rightarrow> string \<Rightarrow> deadlines \<Rightarrow> (bool \<times> deadlines) result" where
  "retry_is_due clock event_id backoff_ms retry_not_before_utc dl =
     and_then (validate_event_id event_id) (\<lambda>_.
     and_then (validate_backoff backoff_ms) (\<lambda>_.
     and_then (parse_utc retry_not_before_utc) (\<lambda>retry_not_before.
     and_then (monotonic_now clock) (\<lambda>now_monotonic_ns.
       let fresh =
         and_then (parse_utc (utc_now clock)) (\<lambda>now_utc.
           let active = \<lparr>ad_retry_not_before_utc = retry_not_before_utc, ad_backoff_ms = backoff_ms,
                 ad_deadline_monotonic_ns =
                   now_monotonic_ns + min backoff_ms (ceil_ms (retry_not_before - now_utc)) * 1000000\<rparr>
           in Inr (ad_deadline_monotonic_ns active \<le> now_monotonic_ns, dl(event_id \<mapsto> active)))
       in case dl event_id of
            None \<Rightarrow> fresh
          | Some active \<Rightarrow>
              if ad_backoff_ms active \<noteq> backoff_ms
                \<or> ad_retry_not_before_utc active \<noteq> retry_not_before_utc
              then fresh
              else Inr (ad_deadline_monotonic_ns active \<le> now_monotonic_ns, dl)))))"

definition retry_discard :: "int \<Rightarrow> deadlines \<Rightarrow> deadlines" where
  "retry_discard event_id dl = dl(event_id := None)"

section \<open>Bounds\<close>

lemma nominal_backoff_bounds:
  assumes "1 \<le> attempt_no"
  shows "ENDPOINT_RETRY_BASE_MS \<le> nominal_backoff_ms attempt_no"
    "nominal_backoff_ms attempt_no \<le> ENDPOINT_RETRY_MAX_MS"
proof -
  have "(1::int) \<le> 2 ^ nat (min (attempt_no - 1) 31)" by simp
  then show "ENDPOINT_RETRY_BASE_MS \<le> nominal_backoff_ms attempt_no"
    by (simp add: nominal_backoff_ms_def ENDPOINT_RETRY_BASE_MS_def ENDPOINT_RETRY_MAX_MS_def)
  show "nominal_backoff_ms attempt_no \<le> ENDPOINT_RETRY_MAX_MS"
    by (simp add: nominal_backoff_ms_def)
qed

lemma nominal_backoff_mono:
  assumes "a \<le> b"
  shows "nominal_backoff_ms a \<le> nominal_backoff_ms b"
proof -
  have "nat (min (a - 1) 31) \<le> nat (min (b - 1) 31)" using assms by simp
  then have "(2::int) ^ nat (min (a - 1) 31) \<le> 2 ^ nat (min (b - 1) 31)"
    by (rule power_increasing) simp
  then show ?thesis
    by (simp add: nominal_backoff_ms_def ENDPOINT_RETRY_BASE_MS_def min.coboundedI1 min_le_iff_disj)
qed

lemma backoff_bounds_aux:
  assumes "endpoint_retry_backoff_ms run_id run_target_id attempt_no = Inr ms"
  shows "nominal_backoff_ms attempt_no * 80 div 100 \<le> ms" "ms \<le> nominal_backoff_ms attempt_no"
    "1 \<le> attempt_no"
proof -
  let ?n = "nominal_backoff_ms attempt_no"
  let ?s = "?n - ?n * 80 div 100"
  obtain d where a: "1 \<le> attempt_no" and ms: "ms = ?n * 80 div 100 + d mod (?s + 1)"
    using assms by (auto simp: endpoint_retry_backoff_ms_def Let_def ENDPOINT_RETRY_JITTER_FLOOR_PERCENT_def
        split: if_splits)
  have n: "5000 \<le> ?n" using nominal_backoff_bounds(1) [OF a] by (simp add: ENDPOINT_RETRY_BASE_MS_def)
  then have "0 < ?s + 1" by simp
  then have "0 \<le> d mod (?s + 1)" "d mod (?s + 1) < ?s + 1"
    by (simp_all only: pos_mod_sign pos_mod_bound)
  then show "?n * 80 div 100 \<le> ms" "ms \<le> ?n" using ms by linarith+
  show "1 \<le> attempt_no" by (rule a)
qed

lemma ceil_ms_nonneg: "0 \<le> ceil_ms d"
  by (simp add: ceil_ms_def)

lemma format_utc_ends_with_Z: "format_utc t \<noteq> [] \<and> last (format_utc t) = CHR ''Z''"
  by (simp add: format_utc_def Let_def split: prod.split)

end
