(* ===== verification/Run_Store.thy ===== *)
theory Run_Store
  imports Run_Model Endpoint_Retry
begin

text \<open>
  \<open>adapters/sqlite/runs.py\<close>: the run store over the catalog tables.  An operation takes the catalog
  and returns its result with the catalog it leaves.  The flag \<open>outer\<close> is
  \<open>self._connection.in_transaction\<close> on entry: a caller's transaction is open, so the operation
  neither begins, commits nor rolls back, and what it wrote before giving up stays for the caller
  to commit.  The argument \<open>now\<close> is what \<open>strftime(..., 'now')\<close> yields.  Faults of the database
  itself (disk, locking) are not modelled; violated constraints are.
\<close>

declare json_dumps.simps [simp del]

section \<open>Statements\<close>

definition update_runs :: "(run_row \<Rightarrow> bool) \<Rightarrow> (run_row \<Rightarrow> run_row) \<Rightarrow> catalog \<Rightarrow> catalog" where
  "update_runs p f db = db\<lparr>c_runs := sql_update p (\<lambda>r. (f r)\<lparr>rr_row_version := rr_row_version r + 1\<rparr>) (c_runs db)\<rparr>"

definition update_targets :: "(target_row \<Rightarrow> bool) \<Rightarrow> (target_row \<Rightarrow> target_row) \<Rightarrow> catalog \<Rightarrow> catalog" where
  "update_targets p f db =
     db\<lparr>c_run_targets := sql_update p (\<lambda>t. (f t)\<lparr>tr_row_version := tr_row_version t + 1\<rparr>) (c_run_targets db)\<rparr>"

definition update_stops :: "(stop_row \<Rightarrow> bool) \<Rightarrow> (stop_row \<Rightarrow> stop_row) \<Rightarrow> catalog \<Rightarrow> catalog" where
  "update_stops p f db =
     db\<lparr>c_run_stop_requests :=
       sql_update p (\<lambda>s. (f s)\<lparr>st_row_version := st_row_version s + 1\<rparr>) (c_run_stop_requests db)\<rparr>"

text \<open>The \<open>EXISTS\<close> subqueries.\<close>

definition run_in :: "catalog \<Rightarrow> string \<Rightarrow> RunState list \<Rightarrow> bool" where
  "run_in db run_id states \<longleftrightarrow>
     list_ex (\<lambda>r. rr_id r = run_id \<and> rr_state r \<in> set states) (c_runs db)"

definition target_in :: "catalog \<Rightarrow> string \<Rightarrow> RunTargetState list \<Rightarrow> bool" where
  "target_in db run_id states \<longleftrightarrow>
     list_ex (\<lambda>t. tr_run_id t = run_id \<and> tr_state t \<in> set states) (c_run_targets db)"

definition target_not_in :: "catalog \<Rightarrow> string \<Rightarrow> RunTargetState list \<Rightarrow> bool" where
  "target_not_in db run_id states \<longleftrightarrow>
     list_ex (\<lambda>t. tr_run_id t = run_id \<and> tr_state t \<notin> set states) (c_run_targets db)"

definition stop_pending :: "catalog \<Rightarrow> string \<Rightarrow> bool" where
  "stop_pending db run_id \<longleftrightarrow>
     list_ex (\<lambda>s. st_run_id s = run_id \<and> st_state s = STOP_PENDING) (c_run_stop_requests db)"

definition clear_lease :: "target_row \<Rightarrow> target_row" where
  "clear_lease t = t\<lparr>tr_last_lease_id := None, tr_last_ownership_epoch := None, tr_last_fencing_token := None\<rparr>"

definition coalesce :: "string option \<Rightarrow> string \<Rightarrow> string option" where
  "coalesce v d = (case v of None \<Rightarrow> Some d | Some s \<Rightarrow> Some s)"

section \<open>Reading\<close>

definition json_object :: "string \<Rightarrow> (string \<times> json) list result" where
  "json_object payload =
     (case json_loads payload of Some (JObj data) \<Rightarrow> Inr data | _ \<Rightarrow> Inl ''RUN_JSON_INVALID'')"

definition started_target :: "target_row \<Rightarrow> StartedRunTarget" where
  "started_target t =
     \<lparr>rt_run_target_id = tr_id t, rt_endpoint_id = tr_endpoint_id t,
      rt_endpoint_revision_id = tr_endpoint_revision_id t, rt_state = tr_state t,
      rt_required_owner_installation_id = tr_required_owner_installation_id t,
      rt_required_ownership_epoch = tr_required_ownership_epoch t,
      rt_lease_resource_key = tr_lease_resource_key t, rt_last_lease_id = tr_last_lease_id t,
      rt_last_ownership_epoch = tr_last_ownership_epoch t, rt_last_fencing_token = tr_last_fencing_token t,
      rt_planned_operations = tr_planned_operations t, rt_planned_bytes = tr_planned_bytes t,
      rt_completed_operations = tr_completed_operations t, rt_completed_bytes = tr_completed_bytes t\<rparr>"

definition load_targets :: "catalog \<Rightarrow> string \<Rightarrow> StartedRunTarget list" where
  "load_targets db run_id =
     map started_target (sort_key tr_id (filter (\<lambda>t. tr_run_id t = run_id) (c_run_targets db)))"

definition load_target :: "catalog \<Rightarrow> string \<Rightarrow> string \<Rightarrow> StartedRunTarget option" where
  "load_target db run_id run_target_id =
     map_option started_target
       (List.find (\<lambda>t. tr_run_id t = run_id \<and> tr_id t = run_target_id) (c_run_targets db))"

definition started_run :: "catalog \<Rightarrow> run_row \<Rightarrow> StartedRun result" where
  "started_run db r =
     and_then (json_object (rr_summary_json r)) (\<lambda>summary.
       Inr \<lparr>sr_run_id = rr_id r, sr_job_id = rr_job_id r, sr_job_revision_id = rr_job_revision_id r,
            sr_plan_id = rr_plan_id r, sr_command_request_id = rr_command_request_id r,
            sr_idempotency_key = rr_idempotency_key r, sr_command_receipt_id = rr_command_receipt_id r,
            sr_logical_run_group_id = rr_logical_run_group_id r, sr_trigger_type = rr_trigger_type r,
            sr_state = rr_state r, sr_app_version = rr_app_version r,
            sr_plan_checksum = rr_plan_checksum r, sr_planned_operations = rr_planned_operations r,
            sr_planned_bytes = rr_planned_bytes r, sr_targets = load_targets db (rr_id r),
            sr_summary = summary, sr_warning_count = rr_warning_count r,
            sr_error_count = rr_error_count r, sr_trigger_occurrence_id = rr_trigger_occurrence_id r,
            sr_resumed_from_run_id = rr_resumed_from_run_id r\<rparr>)"

definition load_one :: "catalog \<Rightarrow> run_row option \<Rightarrow> StartedRun option result" where
  "load_one db row =
     (case row of None \<Rightarrow> Inr None | Some r \<Rightarrow> and_then (started_run db r) (\<lambda>run. Inr (Some run)))"

definition db_load_started_run :: "string \<Rightarrow> catalog \<Rightarrow> StartedRun option result" where
  "db_load_started_run run_id db = load_one db (List.find (\<lambda>r. rr_id r = run_id) (c_runs db))"

definition db_load_started_run_by_idempotency_key :: "string \<Rightarrow> catalog \<Rightarrow> StartedRun option result" where
  "db_load_started_run_by_idempotency_key key db =
     load_one db (List.find (\<lambda>r. rr_idempotency_key r = key) (c_runs db))"

text \<open>\<open>ORDER BY started_utc, id LIMIT 1\<close>.\<close>

definition first_run :: "(run_row \<Rightarrow> bool) \<Rightarrow> catalog \<Rightarrow> run_row option" where
  "first_run p db =
     (case sort_key (\<lambda>r. (rr_started_utc r, rr_id r)) (filter p (c_runs db)) of [] \<Rightarrow> None | r # _ \<Rightarrow> Some r)"

definition ACTIVE_RUN_STATES :: "RunState list" where
  "ACTIVE_RUN_STATES =
     [RunState.CREATED, RunState.QUEUED, RunState.PREFLIGHT, RunState.EXECUTING, RunState.PAUSING,
      RunState.PAUSED, RunState.RECOVERY_REQUIRED]"

definition db_load_active_run_for_job :: "string \<Rightarrow> catalog \<Rightarrow> StartedRun option result" where
  "db_load_active_run_for_job job_id db =
     load_one db (first_run (\<lambda>r. rr_job_id r = job_id \<and> rr_state r \<in> set ACTIVE_RUN_STATES) db)"

definition db_load_next_pausing_run :: "catalog \<Rightarrow> StartedRun option result" where
  "db_load_next_pausing_run db = load_one db (first_run (\<lambda>r. rr_state r = RunState.PAUSING) db)"

definition db_load_next_runnable_run :: "catalog \<Rightarrow> StartedRun option result" where
  "db_load_next_runnable_run db =
     load_one db (first_run (\<lambda>r. rr_state r \<in> set [RunState.QUEUED, RunState.PREFLIGHT, RunState.EXECUTING]
       \<and> target_in db (rr_id r) [RunTargetState.PENDING]) db)"

text \<open>The joins behind \<open>load_next_revalidating_run_target_key\<close> and its executing twin.\<close>

definition next_target_key :: "RunState list \<Rightarrow> RunTargetState \<Rightarrow> catalog \<Rightarrow> (string \<times> string) option" where
  "next_target_key run_states target_state db =
     (case sort_key (\<lambda>(r, t). (rr_started_utc r, rr_id r, tr_id t))
         (filter (\<lambda>(r, t). rr_id r = tr_run_id t \<and> rr_state r \<in> set run_states \<and> tr_state t = target_state)
           (List.product (c_runs db) (c_run_targets db))) of
        [] \<Rightarrow> None | (r, t) # _ \<Rightarrow> Some (rr_id r, tr_id t))"

definition db_load_next_revalidating_run_target_key :: "catalog \<Rightarrow> (string \<times> string) option" where
  "db_load_next_revalidating_run_target_key db =
     next_target_key [RunState.PREFLIGHT, RunState.EXECUTING] RunTargetState.REVALIDATING db"

definition db_load_next_executing_run_target_key :: "catalog \<Rightarrow> (string \<times> string) option" where
  "db_load_next_executing_run_target_key db =
     next_target_key [RunState.EXECUTING] RunTargetState.EXECUTING db"

definition db_load_next_pending_run_target :: "string \<Rightarrow> catalog \<Rightarrow> StartedRunTarget option" where
  "db_load_next_pending_run_target run_id db =
     (case sort (map tr_id (filter (\<lambda>t. tr_run_id t = run_id \<and> tr_state t = RunTargetState.PENDING)
             (c_run_targets db))) of
        [] \<Rightarrow> None
      | i # _ \<Rightarrow> load_target db run_id i)"

definition stop_request :: "stop_row \<Rightarrow> RunStopRequest" where
  "stop_request s =
     \<lparr>srq_run_id = st_run_id s, srq_boundary_run_target_id = st_boundary_run_target_id s,
      srq_boundary_operation_id = st_boundary_operation_id s\<rparr>"

definition db_load_run_stop_request :: "string \<Rightarrow> catalog \<Rightarrow> RunStopRequest option" where
  "db_load_run_stop_request run_id db =
     map_option stop_request
       (List.find (\<lambda>s. st_run_id s = run_id \<and> st_state s = STOP_PENDING) (c_run_stop_requests db))"

definition db_load_next_requested_run_stop :: "catalog \<Rightarrow> RunStopRequest option" where
  "db_load_next_requested_run_stop db =
     (case sort_key (\<lambda>s. (st_requested_utc s, st_run_id s))
         (filter (\<lambda>s. st_state s = STOP_PENDING) (c_run_stop_requests db)) of
        [] \<Rightarrow> None | s # _ \<Rightarrow> Some (stop_request s))"

section \<open>Ending an operation\<close>

text \<open>\<open>ROLLBACK\<close> is only executed when the operation began the transaction.\<close>

definition give_up :: "bool \<Rightarrow> catalog \<Rightarrow> catalog \<Rightarrow> 'a \<Rightarrow> 'a \<times> catalog" where
  "give_up outer db0 db1 x = (x, if outer then db1 else db0)"

definition return_run :: "bool \<Rightarrow> catalog \<Rightarrow> catalog \<Rightarrow> string \<Rightarrow> StartedRun option result \<times> catalog" where
  "return_run outer db0 db1 run_id =
     (case db_load_started_run run_id db1 of
        Inl e \<Rightarrow> give_up outer db0 db1 (Inl e)
      | Inr None \<Rightarrow> give_up outer db0 db1 (Inl ''RUN_LOAD_FAILED'')
      | Inr (Some run) \<Rightarrow> (Inr (Some run), db1))"

definition return_target ::
  "bool \<Rightarrow> catalog \<Rightarrow> catalog \<Rightarrow> string \<Rightarrow> string \<Rightarrow> StartedRunTarget option result \<times> catalog" where
  "return_target outer db0 db1 run_id run_target_id =
     (case load_target db1 run_id run_target_id of
        None \<Rightarrow> give_up outer db0 db1 (Inl ''RUN_TARGET_LOAD_FAILED'')
      | Some target \<Rightarrow> (Inr (Some target), db1))"

section \<open>Creating a run\<close>

definition run_row_of :: "string \<Rightarrow> StartedRun \<Rightarrow> run_row" where
  "run_row_of now run =
     \<lparr>rr_id = sr_run_id run, rr_job_id = sr_job_id run, rr_job_revision_id = sr_job_revision_id run,
      rr_plan_id = sr_plan_id run, rr_command_request_id = sr_command_request_id run,
      rr_command_receipt_id = sr_command_receipt_id run,
      rr_trigger_occurrence_id = sr_trigger_occurrence_id run,
      rr_logical_run_group_id = sr_logical_run_group_id run,
      rr_resumed_from_run_id = sr_resumed_from_run_id run, rr_trigger_type = sr_trigger_type run,
      rr_state = sr_state run, rr_started_utc = now, rr_finished_utc = None,
      rr_summary_json = json_dumps True (JObj (sr_summary run)), rr_warning_count = sr_warning_count run,
      rr_error_count = sr_error_count run, rr_app_version = sr_app_version run, rr_row_version = 1,
      rr_plan_checksum = sr_plan_checksum run, rr_idempotency_key = sr_idempotency_key run,
      rr_planned_operations = sr_planned_operations run, rr_planned_bytes = sr_planned_bytes run\<rparr>"

definition target_row_of :: "string \<Rightarrow> StartedRunTarget \<Rightarrow> target_row" where
  "target_row_of run_id t =
     \<lparr>tr_id = rt_run_target_id t, tr_run_id = run_id, tr_endpoint_id = rt_endpoint_id t,
      tr_endpoint_revision_id = rt_endpoint_revision_id t,
      tr_required_owner_installation_id = rt_required_owner_installation_id t,
      tr_required_ownership_epoch = rt_required_ownership_epoch t, tr_state = rt_state t,
      tr_lease_resource_key = rt_lease_resource_key t, tr_last_lease_id = None,
      tr_last_ownership_epoch = None, tr_last_fencing_token = None, tr_started_utc = None,
      tr_finished_utc = None, tr_planned_operations = rt_planned_operations t,
      tr_completed_operations = 0, tr_planned_bytes = rt_planned_bytes t, tr_completed_bytes = 0,
      tr_warning_count = 0, tr_error_count = 0, tr_result_json = None, tr_row_version = 1\<rparr>"

text \<open>The constraints of \<open>CATALOG_RUN_START_SKELETON\<close> that an inserted row has to meet.\<close>

definition run_constraints :: "catalog \<Rightarrow> run_row \<Rightarrow> bool" where
  "run_constraints db r \<longleftrightarrow>
     rr_id r \<notin> set (map rr_id (c_runs db))
     \<and> rr_idempotency_key r \<notin> set (map rr_idempotency_key (c_runs db))
     \<and> 0 \<le> rr_warning_count r \<and> 0 \<le> rr_error_count r \<and> length (rr_plan_checksum r) = 64
     \<and> 0 \<le> rr_planned_operations r \<and> 0 \<le> rr_planned_bytes r
     \<and> (rr_job_id r, rr_job_revision_id r) \<in> set (c_job_revisions db)
     \<and> (rr_plan_id r, rr_job_id r, rr_job_revision_id r) \<in> set (c_plan_seal_details db)
     \<and> rr_command_receipt_id r \<in> set (c_command_receipts db)
     \<and> (case rr_resumed_from_run_id r of None \<Rightarrow> True
        | Some s \<Rightarrow> s = rr_id r \<or> s \<in> set (map rr_id (c_runs db)))"

definition target_constraints :: "catalog \<Rightarrow> target_row \<Rightarrow> bool" where
  "target_constraints db t \<longleftrightarrow>
     tr_id t \<notin> set (map tr_id (c_run_targets db))
     \<and> (tr_run_id t, tr_endpoint_id t) \<notin> set (map (\<lambda>t. (tr_run_id t, tr_endpoint_id t)) (c_run_targets db))
     \<and> tr_run_id t \<in> set (map rr_id (c_runs db))
     \<and> (tr_endpoint_id t, tr_endpoint_revision_id t) \<in> set (c_endpoint_revisions db)
     \<and> 0 \<le> tr_planned_operations t \<and> 0 \<le> tr_planned_bytes t"

fun insert_targets :: "target_row list \<Rightarrow> catalog \<Rightarrow> bool \<times> catalog" where
  "insert_targets [] db = (True, db)"
| "insert_targets (t # ts) db =
     (if target_constraints db t then insert_targets ts (db\<lparr>c_run_targets := c_run_targets db @ [t]\<rparr>)
      else (False, db))"

definition db_save_started_run :: "bool \<Rightarrow> string \<Rightarrow> StartedRun \<Rightarrow> catalog \<Rightarrow> unit result \<times> catalog" where
  "db_save_started_run outer now run db =
     (let r = run_row_of now run in
      if \<not> run_constraints db r then give_up outer db db (Inl ''RUN_PERSISTENCE_FAILED'')
      else
        (case insert_targets (map (target_row_of (sr_run_id run)) (sr_targets run))
            (db\<lparr>c_runs := c_runs db @ [r]\<rparr>) of
           (True, db1) \<Rightarrow> (Inr (), db1)
         | (False, db1) \<Rightarrow> give_up outer db db1 (Inl ''RUN_PERSISTENCE_FAILED'')))"

definition db_release_created_run :: "bool \<Rightarrow> string \<Rightarrow> catalog \<Rightarrow> StartedRun option result \<times> catalog" where
  "db_release_created_run outer run_id db =
     (let guard = (\<lambda>r. rr_id r = run_id \<and> rr_state r = RunState.CREATED);
          db1 = update_runs guard (\<lambda>r. r\<lparr>rr_state := RunState.QUEUED\<rparr>) db
      in case db_load_started_run run_id db1 of
           Inl e \<Rightarrow> give_up outer db db1 (Inl e)
         | Inr None \<Rightarrow> give_up outer db db1 (Inr None)
         | Inr (Some run) \<Rightarrow>
             if sql_count guard (c_runs db) = 0 \<and> sr_state run = RunState.CREATED
             then give_up outer db db1 (Inl ''RUN_RELEASE_STATE_CONFLICT'')
             else (Inr (Some run), db1))"

section \<open>Pause and resume\<close>

definition db_request_run_pause :: "bool \<Rightarrow> string \<Rightarrow> catalog \<Rightarrow> StartedRun option result \<times> catalog" where
  "db_request_run_pause outer run_id db =
     (let guard = (\<lambda>r. rr_id r = run_id
            \<and> rr_state r \<in> set [RunState.CREATED, RunState.QUEUED, RunState.PREFLIGHT, RunState.EXECUTING]
            \<and> \<not> stop_pending db (rr_id r));
          db1 = update_runs guard (\<lambda>r. r\<lparr>rr_state := RunState.PAUSING\<rparr>) db
      in if sql_count guard (c_runs db) \<noteq> 1 then give_up outer db db1 (Inr None)
         else return_run outer db db1 run_id)"

definition db_finalize_requested_run_pause :: "bool \<Rightarrow> string \<Rightarrow> catalog \<Rightarrow> StartedRun option result \<times> catalog" where
  "db_finalize_requested_run_pause outer run_id db =
     (let db1 = update_targets
            (\<lambda>t. tr_run_id t = run_id
              \<and> tr_state t \<in> set [RunTargetState.ACQUIRING_LEASE, RunTargetState.REVALIDATING,
                                 RunTargetState.EXECUTING, RunTargetState.WAITING_FOR_ENDPOINT]
              \<and> run_in db (tr_run_id t) [RunState.PAUSING])
            (\<lambda>t. (clear_lease t)\<lparr>tr_state := RunTargetState.PAUSED\<rparr>) db;
          guard = (\<lambda>r. rr_id r = run_id \<and> rr_state r = RunState.PAUSING);
          db2 = update_runs guard (\<lambda>r. r\<lparr>rr_state := RunState.PAUSED\<rparr>) db1
      in if sql_count guard (c_runs db1) \<noteq> 1 then give_up outer db db2 (Inr None)
         else return_run outer db db2 run_id)"

definition db_resume_paused_run :: "bool \<Rightarrow> string \<Rightarrow> catalog \<Rightarrow> StartedRun option result \<times> catalog" where
  "db_resume_paused_run outer run_id db =
     (let db1 = update_targets
            (\<lambda>t. tr_run_id t = run_id \<and> tr_state t = RunTargetState.PAUSED
              \<and> run_in db (tr_run_id t) [RunState.PAUSED])
            (\<lambda>t. (clear_lease t)\<lparr>tr_state := RunTargetState.PENDING\<rparr>) db;
          guard = (\<lambda>r. rr_id r = run_id \<and> rr_state r = RunState.PAUSED \<and> \<not> stop_pending db1 (rr_id r)
            \<and> target_in db1 (rr_id r) [RunTargetState.PENDING]);
          db2 = update_runs guard (\<lambda>r. r\<lparr>rr_state := RunState.QUEUED\<rparr>) db1
      in if sql_count guard (c_runs db1) \<noteq> 1 then give_up outer db db2 (Inr None)
         else return_run outer db db2 run_id)"

section \<open>Stop after the active file\<close>

definition db_request_run_stop_after_active_file ::
  "bool \<Rightarrow> string \<Rightarrow> string \<Rightarrow> catalog \<Rightarrow> StartedRun option result \<times> catalog" where
  "db_request_run_stop_after_active_file outer now run_id db =
     (if run_in db run_id STOPPABLE_RUN_STATES \<and> run_id \<notin> set (map st_run_id (c_run_stop_requests db)) then
        (let row = \<lparr>st_run_id = run_id, st_state = STOP_PENDING, st_boundary_run_target_id = None,
                    st_boundary_operation_id = None, st_requested_utc = now, st_applied_utc = None,
                    st_row_version = 1\<rparr>;
             db1 = db\<lparr>c_run_stop_requests := c_run_stop_requests db @ [row]\<rparr>;
             db2 = update_runs (\<lambda>r. rr_id r = run_id) (\<lambda>r. r) db1
         in return_run outer db db2 run_id)
      else if db_load_run_stop_request run_id db = None then give_up outer db db (Inr None)
      else return_run outer db db run_id)"

definition db_bind_requested_run_stop_boundary ::
  "bool \<Rightarrow> string \<Rightarrow> string \<Rightarrow> string \<Rightarrow> catalog \<Rightarrow> RunStopRequest option result \<times> catalog" where
  "db_bind_requested_run_stop_boundary outer run_id run_target_id operation_id db =
     (let guard = (\<lambda>s. st_run_id s = run_id \<and> st_state s = STOP_PENDING
            \<and> st_boundary_run_target_id s = None \<and> st_boundary_operation_id s = None);
          db1 = update_stops guard (\<lambda>s. s\<lparr>st_boundary_run_target_id := Some run_target_id,
                  st_boundary_operation_id := Some operation_id\<rparr>) db
      in if sql_count guard (c_run_stop_requests db) = 0 then give_up outer db db (Inr None)
         else if (run_id, run_target_id) \<notin> set (map (\<lambda>t. (tr_run_id t, tr_id t)) (c_run_targets db))
           \<or> sql_trim operation_id = []
         then give_up outer db db (Inl ''RUN_STOP_BOUNDARY_BIND_FAILED'')
         else if sql_count guard (c_run_stop_requests db) \<noteq> 1 then give_up outer db db1 (Inr None)
         else
           (case db_load_run_stop_request run_id db1 of
              None \<Rightarrow> give_up outer db db1 (Inl ''RUN_STOP_REQUEST_LOAD_FAILED'')
            | Some request \<Rightarrow> (Inr (Some request), db1)))"

definition active_next_state :: "catalog \<Rightarrow> string \<Rightarrow> RunState" where
  "active_next_state db run_id =
     (if target_in db run_id [RunTargetState.EXECUTING] then RunState.EXECUTING
      else if target_in db run_id [RunTargetState.REVALIDATING, RunTargetState.ACQUIRING_LEASE]
      then RunState.PREFLIGHT
      else RunState.QUEUED)"

definition db_activate_requested_run_stop :: "bool \<Rightarrow> string \<Rightarrow> catalog \<Rightarrow> StartedRun option result \<times> catalog" where
  "db_activate_requested_run_stop outer run_id db =
     (case db_load_started_run run_id db of
        Inl e \<Rightarrow> give_up outer db db (Inl e)
      | Inr None \<Rightarrow> give_up outer db db (Inr None)
      | Inr (Some run) \<Rightarrow>
          (case db_load_run_stop_request run_id db of
             None \<Rightarrow> give_up outer db db (Inr None)
           | Some request \<Rightarrow>
               if sr_state run = RunState.PAUSED then
                 (case srq_boundary_run_target_id request of
                    None \<Rightarrow> give_up outer db db (Inr None)
                  | Some boundary \<Rightarrow>
                      let guard = (\<lambda>t. tr_run_id t = run_id \<and> tr_id t = boundary
                            \<and> tr_state t = RunTargetState.PAUSED);
                          db1 = update_targets guard
                            (\<lambda>t. (clear_lease t)\<lparr>tr_state := RunTargetState.PENDING\<rparr>) db
                      in if sql_count guard (c_run_targets db) \<noteq> 1 then give_up outer db db1 (Inr None)
                         else return_run outer db
                           (update_runs (\<lambda>r. rr_id r = run_id \<and> rr_state r = RunState.PAUSED)
                             (\<lambda>r. r\<lparr>rr_state := RunState.QUEUED\<rparr>) db1) run_id)
               else if sr_state run = RunState.PAUSING then
                 return_run outer db
                   (update_runs (\<lambda>r. rr_id r = run_id \<and> rr_state r = RunState.PAUSING)
                     (\<lambda>r. r\<lparr>rr_state := active_next_state db run_id\<rparr>) db) run_id
               else return_run outer db db run_id))"

text \<open>One iteration of the loop over the targets of the run that is stopped.\<close>

definition stop_target ::
  "string \<Rightarrow> string \<Rightarrow> (string \<rightharpoonup> RunTargetStopProgress) \<Rightarrow> StartedRunTarget \<Rightarrow> catalog \<Rightarrow> catalog" where
  "stop_target now run_id progress_by_target target db =
     (let (ops, bytes) = (case progress_by_target (rt_run_target_id target) of
            None \<Rightarrow> (0, 0) | Some p \<Rightarrow> (tsp_completed_operations p, tsp_completed_bytes p))
      in update_targets
           (\<lambda>t. tr_run_id t = run_id \<and> tr_id t = rt_run_target_id target \<and> tr_state t \<in> set OPEN_TARGET_STATES)
           (\<lambda>t. (clear_lease t)\<lparr>tr_state := RunTargetState.CANCELLED,
                  tr_completed_operations := max (rt_completed_operations target) ops,
                  tr_completed_bytes := max (rt_completed_bytes target) bytes,
                  tr_finished_utc := Some now,
                  tr_result_json := Some (json_dumps True
                    (JObj [(''reason'', JStr ''USER_STOP_AFTER_ACTIVE_FILE'')]))\<rparr>) db)"

definition db_finalize_requested_run_stop ::
  "bool \<Rightarrow> string \<Rightarrow> string \<Rightarrow> RunTargetStopProgress list \<Rightarrow> catalog \<Rightarrow> StartedRun option result \<times> catalog" where
  "db_finalize_requested_run_stop outer now run_id target_progress db =
     (case db_load_started_run run_id db of
        Inl e \<Rightarrow> give_up outer db db (Inl e)
      | Inr None \<Rightarrow> give_up outer db db (Inr None)
      | Inr (Some run) \<Rightarrow>
          if db_load_run_stop_request run_id db = None then give_up outer db db (Inr None)
          else
            (let progress_by_target = map_of (rev (map (\<lambda>p. (tsp_run_target_id p, p)) target_progress));
                 db1 = fold (stop_target now run_id progress_by_target) (sr_targets run) db;
                 summary = dict_set ''stop_mode'' (JStr ''AFTER_ACTIVE_FILE'')
                   (dict_set ''result'' (JStr ''STOPPED'') (sr_summary run));
                 guard = (\<lambda>r. rr_id r = run_id \<and> rr_state r \<in> set STOPPABLE_RUN_STATES);
                 db2 = update_runs guard (\<lambda>r. r\<lparr>rr_state := RunState.CANCELLED, rr_finished_utc := Some now,
                         rr_summary_json := json_dumps True (JObj summary)\<rparr>) db1
             in if sql_count guard (c_runs db1) \<noteq> 1 then give_up outer db db2 (Inr None)
                else return_run outer db
                  (update_stops (\<lambda>s. st_run_id s = run_id \<and> st_state s = STOP_PENDING)
                    (\<lambda>s. s\<lparr>st_state := STOP_APPLIED, st_applied_utc := Some now\<rparr>) db2) run_id))"

end
