(* ===== verification/Run_Target_Store.thy ===== *)
theory Run_Target_Store
  imports Run_Store
begin

text \<open>
  \<open>adapters/sqlite/runs.py\<close>, second half: the operations that move one target of a run through
  preflight, waiting, lease, execution and completion.  The two operations that use the retry
  scheduler also take and return its deadlines, which live in memory and are never rolled back.
\<close>

section \<open>Preflight\<close>

definition db_begin_run_target_preflight ::
  "bool \<Rightarrow> string \<Rightarrow> string \<Rightarrow> string \<Rightarrow> catalog \<Rightarrow> StartedRunTarget option result \<times> catalog" where
  "db_begin_run_target_preflight outer now run_id run_target_id db =
     (let claimable = [RunState.QUEUED, RunState.PREFLIGHT, RunState.EXECUTING];
          guard = (\<lambda>t. tr_run_id t = run_id \<and> tr_id t = run_target_id \<and> tr_state t = RunTargetState.PENDING
            \<and> (case tr_lease_resource_key t of None \<Rightarrow> False | Some k \<Rightarrow> sql_trim k \<noteq> [])
            \<and> run_in db (tr_run_id t) claimable);
          db1 = update_targets guard (\<lambda>t. t\<lparr>tr_state := RunTargetState.ACQUIRING_LEASE,
                  tr_started_utc := coalesce (tr_started_utc t) now\<rparr>) db;
          run_guard = (\<lambda>r. rr_id r = run_id \<and> rr_state r \<in> set claimable);
          db2 = update_runs run_guard (\<lambda>r. r\<lparr>rr_state :=
                  (if rr_state r = RunState.EXECUTING then RunState.EXECUTING else RunState.PREFLIGHT)\<rparr>) db1
      in if sql_count guard (c_run_targets db) \<noteq> 1 then give_up outer db db1 (Inr None)
         else if sql_count run_guard (c_runs db1) \<noteq> 1 then give_up outer db db2 (Inr None)
         else return_target outer db db2 run_id run_target_id)"

section \<open>Waiting for an endpoint\<close>

definition next_attempt_no :: "catalog \<Rightarrow> string \<Rightarrow> string \<Rightarrow> int" where
  "next_attempt_no db run_id run_target_id =
     foldl max 0 (map we_attempt_no
       (filter (\<lambda>e. we_run_id e = run_id \<and> we_run_target_id e = run_target_id) (c_wait_events db))) + 1"

text \<open>The constraints and the insert trigger of \<open>run_target_endpoint_wait_events\<close>.\<close>

definition wait_constraints :: "catalog \<Rightarrow> wait_row \<Rightarrow> bool" where
  "wait_constraints db e \<longleftrightarrow>
     1 \<le> we_attempt_no e \<and> sql_trim (we_reason_code e) \<noteq> []
     \<and> 1 \<le> we_backoff_ms e \<and> we_backoff_ms e \<le> 300000
     \<and> sql_trim (we_retry_not_before_utc e) \<noteq> [] \<and> last (sql_trim (we_retry_not_before_utc e)) = CHR ''Z''
     \<and> (we_run_id e, we_run_target_id e, we_attempt_no e)
         \<notin> set (map (\<lambda>e. (we_run_id e, we_run_target_id e, we_attempt_no e)) (c_wait_events db))
     \<and> (we_run_id e, we_run_target_id e) \<in> set (map (\<lambda>t. (tr_run_id t, tr_id t)) (c_run_targets db))"

definition wait_result_json :: "EndpointRetryTiming \<Rightarrow> int \<Rightarrow> string \<Rightarrow> string" where
  "wait_result_json timing attempt_no reason =
     json_dumps True (JObj
       [(''endpoint_retry_backoff_ms'', JInt (ert_backoff_ms timing)),
        (''endpoint_retry_not_before_utc'', JStr (ert_retry_not_before_utc timing)),
        (''endpoint_wait_attempts'', JInt attempt_no),
        (''last_endpoint_error_code'', JStr reason),
        (''status'', JStr ''WAITING_FOR_ENDPOINT'')])"

definition db_record_run_target_waiting_for_endpoint ::
  "bool \<Rightarrow> clock_reading \<Rightarrow> string \<Rightarrow> string \<Rightarrow> RunTargetState \<Rightarrow> string \<Rightarrow> catalog \<times> deadlines \<Rightarrow>
   StartedRunTarget option result \<times> catalog \<times> deadlines" where
  "db_record_run_target_waiting_for_endpoint outer clock run_id run_target_id expected_state reason_code s =
     (let (db, dl) = s; reason = strip reason_code; failed = Inl ''RUN_TARGET_ENDPOINT_WAIT_RECORD_FAILED'' in
      if expected_state \<notin> set [RunTargetState.ACQUIRING_LEASE, RunTargetState.REVALIDATING, RunTargetState.EXECUTING]
        \<or> reason = [] then (Inr None, db, dl)
      else
        (let attempt_no = next_attempt_no db run_id run_target_id in
         case and_then (endpoint_retry_backoff_ms run_id run_target_id attempt_no) (retry_plan clock) of
           Inl _ \<Rightarrow> (failed, db, dl)
         | Inr timing \<Rightarrow>
             (let guard = (\<lambda>t. tr_run_id t = run_id \<and> tr_id t = run_target_id \<and> tr_state t = expected_state
                    \<and> run_in db (tr_run_id t) [RunState.PREFLIGHT, RunState.EXECUTING]);
                  db1 = update_targets guard (\<lambda>t. (clear_lease t)\<lparr>tr_state := RunTargetState.WAITING_FOR_ENDPOINT,
                          tr_result_json := Some (wait_result_json timing attempt_no reason)\<rparr>) db;
                  event_id = c_wait_event_seq db1 + 1;
                  event = \<lparr>we_id = event_id, we_run_id = run_id, we_run_target_id = run_target_id,
                           we_attempt_no = attempt_no, we_reason_code = reason,
                           we_observed_utc = ert_observed_utc timing, we_backoff_ms = ert_backoff_ms timing,
                           we_retry_not_before_utc = ert_retry_not_before_utc timing\<rparr>;
                  db2 = db1\<lparr>c_wait_events := c_wait_events db1 @ [event], c_wait_event_seq := event_id\<rparr>
              in if sql_count guard (c_run_targets db) \<noteq> 1
                 then (Inr None, if outer then db1 else db, dl)
                 else if \<not> wait_constraints db1 event then (failed, if outer then db1 else db, dl)
                 else
                   (case return_target outer db db2 run_id run_target_id of
                      (Inr (Some target), db3) \<Rightarrow>
                        (case retry_activate event_id timing dl of
                           Inl _ \<Rightarrow> (failed, db3, dl)
                         | Inr dl' \<Rightarrow> (Inr (Some target), db3, dl'))
                    | (r, db3) \<Rightarrow> (r, db3, dl)))))"

text \<open>The candidates for a retry: the latest event of every waiting target of an active run.\<close>

definition MAX_ENDPOINT_RETRY_CANDIDATES :: nat where "MAX_ENDPOINT_RETRY_CANDIDATES = 128"

definition latest_event :: "catalog \<Rightarrow> target_row \<Rightarrow> wait_row \<Rightarrow> bool" where
  "latest_event db t e \<longleftrightarrow>
     we_run_id e = tr_run_id t \<and> we_run_target_id e = tr_id t \<and>
     list_all (\<lambda>l. we_run_id l = tr_run_id t \<and> we_run_target_id l = tr_id t \<longrightarrow> we_id l \<le> we_id e) (c_wait_events db)"

definition retry_candidates :: "catalog \<Rightarrow> (target_row \<times> wait_row) list" where
  "retry_candidates db =
     take MAX_ENDPOINT_RETRY_CANDIDATES
       (sort_key (\<lambda>(t, e). (we_id e, tr_run_id t, tr_id t))
         (filter (\<lambda>(t, e). tr_state t = RunTargetState.WAITING_FOR_ENDPOINT
             \<and> run_in db (tr_run_id t) [RunState.QUEUED, RunState.PREFLIGHT, RunState.EXECUTING]
             \<and> latest_event db t e)
           (List.product (c_run_targets db) (c_wait_events db))))"

fun first_due ::
  "clock_reading \<Rightarrow> (target_row \<times> wait_row) list \<Rightarrow> deadlines \<Rightarrow> (target_row \<times> wait_row) option result \<times> deadlines" where
  "first_due clock [] dl = (Inr None, dl)"
| "first_due clock ((t, e) # rest) dl =
     (case retry_is_due clock (we_id e) (we_backoff_ms e) (we_retry_not_before_utc e) dl of
        Inl code \<Rightarrow> (Inl code, dl)
      | Inr (due, dl') \<Rightarrow> if due then (Inr (Some (t, e)), dl') else first_due clock rest dl')"

definition db_requeue_next_due_waiting_run_target ::
  "bool \<Rightarrow> clock_reading \<Rightarrow> catalog \<times> deadlines \<Rightarrow> StartedRunTarget option result \<times> catalog \<times> deadlines" where
  "db_requeue_next_due_waiting_run_target outer clock s =
     (let (db, dl) = s in
      case first_due clock (retry_candidates db) dl of
        (Inl _, dl') \<Rightarrow> (Inl ''RUN_TARGET_ENDPOINT_REQUEUE_FAILED'', db, dl')
      | (Inr None, dl') \<Rightarrow> (Inr None, db, dl')
      | (Inr (Some (t, e)), dl') \<Rightarrow>
          (let guard = (\<lambda>u. tr_run_id u = tr_run_id t \<and> tr_id u = tr_id t
                 \<and> tr_state u = RunTargetState.WAITING_FOR_ENDPOINT);
               db1 = update_targets guard (\<lambda>u. u\<lparr>tr_state := RunTargetState.PENDING, tr_result_json := None\<rparr>) db
           in if sql_count guard (c_run_targets db) \<noteq> 1 then (Inr None, if outer then db1 else db, dl')
              else
                (case return_target outer db db1 (tr_run_id t) (tr_id t) of
                   (Inr (Some target), db2) \<Rightarrow> (Inr (Some target), db2, retry_discard (we_id e) dl')
                 | (r, db2) \<Rightarrow> (r, db2, dl'))))"

section \<open>Lease\<close>

definition owner_accepts :: "target_row \<Rightarrow> string \<Rightarrow> int \<Rightarrow> bool" where
  "owner_accepts t owner_installation_id ownership_epoch \<longleftrightarrow>
     (case tr_required_owner_installation_id t of None \<Rightarrow> True | Some o' \<Rightarrow> o' = owner_installation_id)
     \<and> (case tr_required_ownership_epoch t of None \<Rightarrow> True | Some e \<Rightarrow> e = ownership_epoch)"

definition lease_is :: "target_row \<Rightarrow> string \<Rightarrow> int \<Rightarrow> int \<Rightarrow> bool" where
  "lease_is t lease_id ownership_epoch fencing_token \<longleftrightarrow>
     tr_last_lease_id t = Some lease_id \<and> tr_last_ownership_epoch t = Some ownership_epoch
     \<and> tr_last_fencing_token t = Some fencing_token"

definition set_lease :: "string \<Rightarrow> int \<Rightarrow> int \<Rightarrow> target_row \<Rightarrow> target_row" where
  "set_lease lease_id ownership_epoch fencing_token t =
     t\<lparr>tr_last_lease_id := Some lease_id, tr_last_ownership_epoch := Some ownership_epoch,
       tr_last_fencing_token := Some fencing_token\<rparr>"

definition db_record_run_target_lease_acquired ::
  "bool \<Rightarrow> string \<Rightarrow> string \<Rightarrow> string \<Rightarrow> string \<Rightarrow> int \<Rightarrow> int \<Rightarrow> catalog \<Rightarrow>
   StartedRunTarget option result \<times> catalog" where
  "db_record_run_target_lease_acquired outer run_id run_target_id lease_id owner epoch token db =
     (let guard = (\<lambda>t. tr_run_id t = run_id \<and> tr_id t = run_target_id
            \<and> tr_state t = RunTargetState.ACQUIRING_LEASE \<and> owner_accepts t owner epoch
            \<and> run_in db (tr_run_id t) [RunState.PREFLIGHT, RunState.EXECUTING]);
          db1 = update_targets guard
            (\<lambda>t. (set_lease lease_id epoch token t)\<lparr>tr_state := RunTargetState.REVALIDATING\<rparr>) db
      in if sql_count guard (c_run_targets db) \<noteq> 1 then give_up outer db db1 (Inr None)
         else return_target outer db db1 run_id run_target_id)"

definition db_record_run_target_lease_reacquired ::
  "bool \<Rightarrow> string \<Rightarrow> string \<Rightarrow> string \<Rightarrow> int \<Rightarrow> int \<Rightarrow> string \<Rightarrow> string \<Rightarrow> int \<Rightarrow> int \<Rightarrow> catalog \<Rightarrow>
   StartedRunTarget option result \<times> catalog" where
  "db_record_run_target_lease_reacquired outer run_id run_target_id expected_lease_id expected_epoch
     expected_token lease_id owner epoch token db =
     (let guard = (\<lambda>t. tr_run_id t = run_id \<and> tr_id t = run_target_id
            \<and> tr_state t \<in> set [RunTargetState.REVALIDATING, RunTargetState.EXECUTING]
            \<and> lease_is t expected_lease_id expected_epoch expected_token \<and> owner_accepts t owner epoch
            \<and> (tr_state t = RunTargetState.REVALIDATING
                 \<and> run_in db (tr_run_id t) [RunState.PREFLIGHT, RunState.EXECUTING]
               \<or> tr_state t = RunTargetState.EXECUTING \<and> run_in db (tr_run_id t) [RunState.EXECUTING]));
          db1 = update_targets guard (set_lease lease_id epoch token) db
      in if sql_count guard (c_run_targets db) \<noteq> 1 then give_up outer db db1 (Inr None)
         else return_target outer db db1 run_id run_target_id)"

section \<open>Execution and completion\<close>

definition db_record_run_target_execution_started ::
  "bool \<Rightarrow> string \<Rightarrow> string \<Rightarrow> string \<Rightarrow> string \<Rightarrow> int \<Rightarrow> int \<Rightarrow> catalog \<Rightarrow>
   StartedRunTarget option result \<times> catalog" where
  "db_record_run_target_execution_started outer run_id run_target_id lease_id owner epoch token db =
     (let guard = (\<lambda>t. tr_run_id t = run_id \<and> tr_id t = run_target_id
            \<and> tr_state t = RunTargetState.REVALIDATING \<and> lease_is t lease_id epoch token
            \<and> owner_accepts t owner epoch
            \<and> run_in db (tr_run_id t) [RunState.PREFLIGHT, RunState.EXECUTING]);
          db1 = update_targets guard (\<lambda>t. t\<lparr>tr_state := RunTargetState.EXECUTING\<rparr>) db;
          run_guard = (\<lambda>r. rr_id r = run_id \<and> rr_state r \<in> set [RunState.PREFLIGHT, RunState.EXECUTING]);
          db2 = update_runs run_guard (\<lambda>r. r\<lparr>rr_state := RunState.EXECUTING\<rparr>) db1
      in if sql_count guard (c_run_targets db) \<noteq> 1 then give_up outer db db1 (Inr None)
         else if sql_count run_guard (c_runs db1) \<noteq> 1 then give_up outer db db2 (Inr None)
         else return_target outer db db2 run_id run_target_id)"

text \<open>
  The four completions share their shape: the executing target of an executing run is updated,
  then the run, whose next state the \<open>CASE\<close> expression computes from the updated targets.
\<close>

definition complete_target ::
  "bool \<Rightarrow> string \<Rightarrow> string \<Rightarrow> (target_row \<Rightarrow> bool) \<Rightarrow> (target_row \<Rightarrow> target_row) \<Rightarrow>
   (catalog \<Rightarrow> run_row \<Rightarrow> run_row) \<Rightarrow> catalog \<Rightarrow> StartedRun option result \<times> catalog" where
  "complete_target outer run_id run_target_id extra f finish db =
     (let guard = (\<lambda>t. tr_run_id t = run_id \<and> tr_id t = run_target_id \<and> tr_state t = RunTargetState.EXECUTING
            \<and> extra t \<and> run_in db (tr_run_id t) [RunState.EXECUTING]);
          db1 = update_targets guard f db;
          run_guard = (\<lambda>r. rr_id r = run_id \<and> rr_state r = RunState.EXECUTING);
          db2 = update_runs run_guard (finish db1) db1
      in if sql_count guard (c_run_targets db) \<noteq> 1 then give_up outer db db1 (Inr None)
         else if sql_count run_guard (c_runs db1) \<noteq> 1 then give_up outer db db2 (Inr None)
         else return_run outer db db2 run_id)"

text \<open>\<open>WHEN NOT EXISTS (... unfinished target ...) THEN next ELSE state\<close>, and \<open>finished_utc\<close> with it.\<close>

definition finish_run :: "string \<Rightarrow> (catalog \<Rightarrow> run_row \<Rightarrow> RunState) \<Rightarrow> catalog \<Rightarrow> run_row \<Rightarrow> run_row" where
  "finish_run now next_state db r =
     (if target_in db (rr_id r) OPEN_TARGET_STATES then r
      else r\<lparr>rr_state := next_state db r, rr_finished_utc := coalesce (rr_finished_utc r) now\<rparr>)"

definition succeeded_next_state :: "catalog \<Rightarrow> run_row \<Rightarrow> RunState" where
  "succeeded_next_state db r =
     (if contains_substring [CHR 0x22, CHR ''a'', CHR ''c'', CHR ''t'', CHR ''i'', CHR ''o'', CHR ''n'',
           CHR ''_'', CHR ''r'', CHR ''e'', CHR ''q'', CHR ''u'', CHR ''i'', CHR ''r'', CHR ''e'',
           CHR ''d'', CHR 0x22, CHR '':'', CHR ''t'', CHR ''r'', CHR ''u'', CHR ''e''] (rr_summary_json r)
      then RunState.COMPLETED_WITH_WARNINGS
      else if \<not> target_not_in db (rr_id r) [RunTargetState.SUCCEEDED] then RunState.COMPLETED
      else if \<not> target_not_in db (rr_id r) [RunTargetState.SUCCEEDED, RunTargetState.SUCCEEDED_WITH_WARNINGS]
      then RunState.COMPLETED_WITH_WARNINGS
      else RunState.PARTIAL_FAILURE)"

definition warned_next_state :: "catalog \<Rightarrow> run_row \<Rightarrow> RunState" where
  "warned_next_state db r =
     (if \<not> target_not_in db (rr_id r) [RunTargetState.SUCCEEDED, RunTargetState.SUCCEEDED_WITH_WARNINGS]
      then RunState.COMPLETED_WITH_WARNINGS
      else RunState.PARTIAL_FAILURE)"

definition cancelled_next_state :: "catalog \<Rightarrow> run_row \<Rightarrow> RunState" where
  "cancelled_next_state db r =
     (if \<not> target_not_in db (rr_id r) [RunTargetState.CANCELLED] then RunState.CANCELLED
      else RunState.PARTIAL_FAILURE)"

definition db_record_run_target_succeeded ::
  "bool \<Rightarrow> string \<Rightarrow> string \<Rightarrow> string \<Rightarrow> int \<Rightarrow> int \<Rightarrow> catalog \<Rightarrow> StartedRun option result \<times> catalog" where
  "db_record_run_target_succeeded outer now run_id run_target_id completed_operations completed_bytes db =
     complete_target outer run_id run_target_id
       (\<lambda>t. tr_planned_operations t = completed_operations \<and> tr_planned_bytes t = completed_bytes)
       (\<lambda>t. t\<lparr>tr_state := RunTargetState.SUCCEEDED, tr_completed_operations := completed_operations,
              tr_completed_bytes := completed_bytes, tr_finished_utc := coalesce (tr_finished_utc t) now\<rparr>)
       (finish_run now succeeded_next_state) db"

definition db_record_run_target_succeeded_with_warnings ::
  "bool \<Rightarrow> string \<Rightarrow> string \<Rightarrow> string \<Rightarrow> int \<Rightarrow> int \<Rightarrow> int \<Rightarrow> int \<Rightarrow> string \<Rightarrow> catalog \<Rightarrow>
   StartedRun option result \<times> catalog" where
  "db_record_run_target_succeeded_with_warnings outer now run_id run_target_id completed_operations
     completed_bytes skipped_operations skipped_bytes last_error_code db =
     (let code = strip last_error_code in
      if completed_operations < 0 \<or> completed_bytes < 0 \<or> skipped_operations < 1 \<or> skipped_bytes < 0 \<or> code = []
      then (Inr None, db)
      else complete_target outer run_id run_target_id
        (\<lambda>t. tr_planned_operations t = completed_operations + skipped_operations
           \<and> tr_planned_bytes t = completed_bytes + skipped_bytes)
        (\<lambda>t. t\<lparr>tr_state := RunTargetState.SUCCEEDED_WITH_WARNINGS,
               tr_completed_operations := completed_operations, tr_completed_bytes := completed_bytes,
               tr_warning_count := tr_warning_count t + skipped_operations,
               tr_result_json := Some (json_dumps True
                 (JObj [(''last_error_code'', JStr code), (''skipped_bytes'', JInt skipped_bytes),
                        (''skipped_operations'', JInt skipped_operations)])),
               tr_finished_utc := coalesce (tr_finished_utc t) now\<rparr>)
        (\<lambda>db r. (finish_run now warned_next_state db r)\<lparr>rr_warning_count := rr_warning_count r + skipped_operations\<rparr>)
        db)"

definition terminal_recovery_json :: "string \<Rightarrow> string \<Rightarrow> string" where
  "terminal_recovery_json code phase =
     json_dumps True (JObj [(''last_error_code'', JStr code), (''terminal_recovery_phase'', JStr phase)])"

definition db_record_run_target_recovery_required ::
  "bool \<Rightarrow> string \<Rightarrow> string \<Rightarrow> string \<Rightarrow> string \<Rightarrow> catalog \<Rightarrow> StartedRun option result \<times> catalog" where
  "db_record_run_target_recovery_required outer now run_id run_target_id last_error_code db =
     (let code = strip last_error_code in
      if code = [] then (Inr None, db)
      else complete_target outer run_id run_target_id (\<lambda>_. True)
        (\<lambda>t. t\<lparr>tr_state := RunTargetState.RECOVERY_REQUIRED, tr_error_count := tr_error_count t + 1,
               tr_result_json := Some (terminal_recovery_json code ''USER_DECISION_REQUIRED''),
               tr_finished_utc := coalesce (tr_finished_utc t) now\<rparr>)
        (\<lambda>_ r. r\<lparr>rr_state := RunState.RECOVERY_REQUIRED, rr_error_count := rr_error_count r + 1,
                 rr_finished_utc := coalesce (rr_finished_utc r) now\<rparr>) db)"

definition db_record_run_target_cancelled ::
  "bool \<Rightarrow> string \<Rightarrow> string \<Rightarrow> string \<Rightarrow> string \<Rightarrow> catalog \<Rightarrow> StartedRun option result \<times> catalog" where
  "db_record_run_target_cancelled outer now run_id run_target_id last_error_code db =
     (let code = strip last_error_code in
      if code = [] then (Inr None, db)
      else complete_target outer run_id run_target_id (\<lambda>_. True)
        (\<lambda>t. t\<lparr>tr_state := RunTargetState.CANCELLED, tr_error_count := tr_error_count t + 1,
               tr_result_json := Some (terminal_recovery_json code ''CANCELLED''),
               tr_finished_utc := coalesce (tr_finished_utc t) now\<rparr>)
        (\<lambda>db r. (finish_run now cancelled_next_state db r)\<lparr>rr_error_count := rr_error_count r + 1\<rparr>) db)"

end
