(* ===== verification/Run_Invariants.thy ===== *)
theory Run_Invariants
  imports Run_Target_Store
begin

text \<open>
  The invariant of the run tables and the way rows may evolve, with the lemma that reduces an
  operation of the store to a statement about one run row and one target row.
\<close>

section \<open>Rows\<close>

definition no_lease :: "target_row \<Rightarrow> bool" where
  "no_lease t \<longleftrightarrow> tr_last_lease_id t = None \<and> tr_last_ownership_epoch t = None \<and> tr_last_fencing_token t = None"

definition has_lease :: "target_row \<Rightarrow> bool" where
  "has_lease t \<longleftrightarrow> tr_last_lease_id t \<noteq> None \<and> tr_last_fencing_token t \<noteq> None \<and>
     (\<exists>e. tr_last_ownership_epoch t = Some e \<and>
        (case tr_required_ownership_epoch t of None \<Rightarrow> True | Some e' \<Rightarrow> e' = e))"

text \<open>What the columns of a target row say in each state.\<close>

definition target_state_ok :: "target_row \<Rightarrow> bool" where
  "target_state_ok t =
     (case tr_state t of
        RunTargetState.PENDING \<Rightarrow> no_lease t
      | RunTargetState.ACQUIRING_LEASE \<Rightarrow> no_lease t
      | RunTargetState.PAUSED \<Rightarrow> no_lease t
      | RunTargetState.WAITING_FOR_ENDPOINT \<Rightarrow> no_lease t
      | RunTargetState.REVALIDATING \<Rightarrow> has_lease t
      | RunTargetState.EXECUTING \<Rightarrow> has_lease t
      | RunTargetState.RECOVERY_REQUIRED \<Rightarrow> has_lease t
      | RunTargetState.SUCCEEDED \<Rightarrow>
          has_lease t \<and> tr_completed_operations t = tr_planned_operations t \<and> tr_completed_bytes t = tr_planned_bytes t
      | RunTargetState.SUCCEEDED_WITH_WARNINGS \<Rightarrow>
          has_lease t \<and> tr_completed_operations t < tr_planned_operations t \<and> tr_completed_bytes t \<le> tr_planned_bytes t
      | RunTargetState.CANCELLED \<Rightarrow> True
      | _ \<Rightarrow> False)"

definition target_ok :: "target_row \<Rightarrow> bool" where
  "target_ok t \<longleftrightarrow> target_state_ok t
     \<and> (tr_finished_utc t = None \<longleftrightarrow> tr_state t \<in> set OPEN_TARGET_STATES)
     \<and> 0 \<le> tr_planned_operations t \<and> 0 \<le> tr_planned_bytes t
     \<and> 0 \<le> tr_completed_operations t \<and> 0 \<le> tr_completed_bytes t"

definition json_object_ok :: "string \<Rightarrow> bool" where
  "json_object_ok s \<longleftrightarrow> (\<exists>d. json_object s = Inr d \<and> wf_json (JObj d))"

definition run_ok :: "run_row \<Rightarrow> bool" where
  "run_ok r \<longleftrightarrow> rr_state r \<notin> {RunState.FAILED, RunState.BLOCKED_BY_SAFETY}
     \<and> (rr_finished_utc r = None \<longleftrightarrow> rr_state r \<notin> set TERMINAL_RUN_STATES)
     \<and> json_object_ok (rr_summary_json r)"

text \<open>Which target states a run in a given state can have.\<close>

definition compat :: "RunState \<Rightarrow> RunTargetState \<Rightarrow> bool" where
  "compat rs ts =
     (case rs of
        RunState.CREATED \<Rightarrow> ts = RunTargetState.PENDING
      | RunState.QUEUED \<Rightarrow> ts \<notin> {RunTargetState.ACQUIRING_LEASE, RunTargetState.REVALIDATING, RunTargetState.EXECUTING}
      | RunState.PREFLIGHT \<Rightarrow> ts \<noteq> RunTargetState.EXECUTING
      | RunState.PAUSED \<Rightarrow> ts \<notin> {RunTargetState.ACQUIRING_LEASE, RunTargetState.REVALIDATING,
                              RunTargetState.EXECUTING, RunTargetState.WAITING_FOR_ENDPOINT}
      | RunState.COMPLETED \<Rightarrow> ts = RunTargetState.SUCCEEDED
      | RunState.COMPLETED_WITH_WARNINGS \<Rightarrow> ts \<notin> set OPEN_TARGET_STATES
      | RunState.PARTIAL_FAILURE \<Rightarrow> ts \<notin> set OPEN_TARGET_STATES
      | RunState.CANCELLED \<Rightarrow> ts \<notin> set OPEN_TARGET_STATES
      | _ \<Rightarrow> True)"

lemmas state_lists = OPEN_TARGET_STATES_def STOPPABLE_RUN_STATES_def TERMINAL_RUN_STATES_def

section \<open>Keys\<close>

definition run_keys_ok :: "catalog \<Rightarrow> bool" where
  "run_keys_ok db \<longleftrightarrow> distinct (map rr_id (c_runs db)) \<and> distinct (map rr_idempotency_key (c_runs db))"

definition target_keys_ok :: "catalog \<Rightarrow> bool" where
  "target_keys_ok db \<longleftrightarrow> distinct (map tr_id (c_run_targets db))
     \<and> distinct (map (\<lambda>t. (tr_run_id t, tr_endpoint_id t)) (c_run_targets db))
     \<and> set (map tr_run_id (c_run_targets db)) \<subseteq> set (map rr_id (c_runs db))"

definition boundary_ok :: "(string \<times> string) set \<Rightarrow> stop_row \<Rightarrow> bool" where
  "boundary_ok keys s \<longleftrightarrow>
     (case (st_boundary_run_target_id s, st_boundary_operation_id s) of
        (None, None) \<Rightarrow> True
      | (Some t, Some oid) \<Rightarrow> (st_run_id s, t) \<in> keys \<and> sql_trim oid \<noteq> []
      | _ \<Rightarrow> False)"

definition stop_keys_ok :: "catalog \<Rightarrow> bool" where
  "stop_keys_ok db \<longleftrightarrow> distinct (map st_run_id (c_run_stop_requests db))
     \<and> set (map st_run_id (c_run_stop_requests db)) \<subseteq> set (map rr_id (c_runs db))
     \<and> list_all (boundary_ok (set (map (\<lambda>t. (tr_run_id t, tr_id t)) (c_run_targets db)))) (c_run_stop_requests db)
     \<and> list_all (\<lambda>s. st_state s = STOP_PENDING \<longleftrightarrow> st_applied_utc s = None) (c_run_stop_requests db)"

definition wait_keys_ok :: "catalog \<Rightarrow> bool" where
  "wait_keys_ok db \<longleftrightarrow> distinct (map we_id (c_wait_events db))
     \<and> distinct (map (\<lambda>e. (we_run_id e, we_run_target_id e, we_attempt_no e)) (c_wait_events db))
     \<and> 0 \<le> c_wait_event_seq db
     \<and> list_all (\<lambda>e. 1 \<le> we_id e \<and> we_id e \<le> c_wait_event_seq db \<and> 1 \<le> we_attempt_no e
          \<and> 1 \<le> we_backoff_ms e \<and> we_backoff_ms e \<le> ENDPOINT_RETRY_MAX_MS) (c_wait_events db)"

lemmas keys_defs = run_keys_ok_def target_keys_ok_def stop_keys_ok_def wait_keys_ok_def

definition cross_ok :: "catalog \<Rightarrow> bool" where
  "cross_ok db \<longleftrightarrow>
     (\<forall>r \<in> set (c_runs db). \<forall>t \<in> set (c_run_targets db). tr_run_id t = rr_id r \<longrightarrow> compat (rr_state r) (tr_state t))"

definition catalog_inv :: "catalog \<Rightarrow> bool" where
  "catalog_inv db \<longleftrightarrow> run_keys_ok db \<and> target_keys_ok db \<and> stop_keys_ok db \<and> wait_keys_ok db
     \<and> list_all run_ok (c_runs db) \<and> list_all target_ok (c_run_targets db) \<and> cross_ok db"

section \<open>Evolution of rows\<close>

text \<open>The edges of the two state machines.\<close>

definition run_edge :: "RunState \<Rightarrow> RunState list" where
  "run_edge s =
     (case s of
        RunState.CREATED \<Rightarrow> [RunState.QUEUED, RunState.PAUSING, RunState.CANCELLED]
      | RunState.QUEUED \<Rightarrow> [RunState.PREFLIGHT, RunState.PAUSING, RunState.CANCELLED]
      | RunState.PREFLIGHT \<Rightarrow> [RunState.EXECUTING, RunState.PAUSING, RunState.CANCELLED]
      | RunState.EXECUTING \<Rightarrow> [RunState.PAUSING, RunState.COMPLETED, RunState.COMPLETED_WITH_WARNINGS,
          RunState.PARTIAL_FAILURE, RunState.CANCELLED, RunState.RECOVERY_REQUIRED]
      | RunState.PAUSING \<Rightarrow> [RunState.PAUSED, RunState.EXECUTING, RunState.PREFLIGHT, RunState.QUEUED,
          RunState.CANCELLED]
      | RunState.PAUSED \<Rightarrow> [RunState.QUEUED, RunState.CANCELLED]
      | _ \<Rightarrow> [])"

definition target_edge :: "RunTargetState \<Rightarrow> RunTargetState list" where
  "target_edge s =
     (case s of
        RunTargetState.PENDING \<Rightarrow> [RunTargetState.ACQUIRING_LEASE, RunTargetState.CANCELLED]
      | RunTargetState.ACQUIRING_LEASE \<Rightarrow> [RunTargetState.REVALIDATING, RunTargetState.WAITING_FOR_ENDPOINT,
          RunTargetState.PAUSED, RunTargetState.CANCELLED]
      | RunTargetState.REVALIDATING \<Rightarrow> [RunTargetState.EXECUTING, RunTargetState.WAITING_FOR_ENDPOINT,
          RunTargetState.PAUSED, RunTargetState.CANCELLED]
      | RunTargetState.EXECUTING \<Rightarrow> [RunTargetState.SUCCEEDED, RunTargetState.SUCCEEDED_WITH_WARNINGS,
          RunTargetState.RECOVERY_REQUIRED, RunTargetState.CANCELLED, RunTargetState.WAITING_FOR_ENDPOINT,
          RunTargetState.PAUSED]
      | RunTargetState.PAUSED \<Rightarrow> [RunTargetState.PENDING, RunTargetState.CANCELLED]
      | RunTargetState.WAITING_FOR_ENDPOINT \<Rightarrow> [RunTargetState.PENDING, RunTargetState.PAUSED, RunTargetState.CANCELLED]
      | RunTargetState.NEEDS_REVIEW \<Rightarrow> [RunTargetState.CANCELLED]
      | _ \<Rightarrow> [])"

definition run_identity :: "run_row \<Rightarrow> run_row" where
  "run_identity r = r\<lparr>rr_state := RunState.CREATED, rr_finished_utc := None, rr_summary_json := [],
     rr_warning_count := 0, rr_error_count := 0, rr_row_version := 0\<rparr>"

definition target_identity :: "target_row \<Rightarrow> target_row" where
  "target_identity t = (clear_lease t)\<lparr>tr_state := RunTargetState.PENDING, tr_started_utc := None,
     tr_finished_utc := None, tr_completed_operations := 0, tr_completed_bytes := 0, tr_warning_count := 0,
     tr_error_count := 0, tr_result_json := None, tr_row_version := 0\<rparr>"

definition run_evolves :: "run_row \<Rightarrow> run_row \<Rightarrow> bool" where
  "run_evolves r r' \<longleftrightarrow> r' = r \<or>
     run_identity r' = run_identity r \<and> rr_row_version r < rr_row_version r'
     \<and> rr_state r \<notin> set TERMINAL_RUN_STATES
     \<and> (rr_state r' = rr_state r \<or> rr_state r' \<in> set (run_edge (rr_state r)))"

definition target_evolves :: "target_row \<Rightarrow> target_row \<Rightarrow> bool" where
  "target_evolves t t' \<longleftrightarrow> t' = t \<or>
     target_identity t' = target_identity t \<and> tr_row_version t < tr_row_version t'
     \<and> tr_state t \<in> set OPEN_TARGET_STATES
     \<and> (tr_state t' = tr_state t \<or> tr_state t' \<in> set (target_edge (tr_state t)))"

definition evolves :: "catalog \<Rightarrow> catalog \<Rightarrow> bool" where
  "evolves db db' \<longleftrightarrow>
     (\<exists>rs ts. c_runs db' = rs @ drop (length rs) (c_runs db') \<and> list_all2 run_evolves (c_runs db) rs
        \<and> c_run_targets db' = ts @ drop (length ts) (c_run_targets db')
        \<and> list_all2 target_evolves (c_run_targets db) ts)"

lemma run_evolves_refl [simp]: "run_evolves r r"
  by (simp add: run_evolves_def)

lemma target_evolves_refl [simp]: "target_evolves t t"
  by (simp add: target_evolves_def)

lemma evolves_intro:
  assumes "c_runs db' = rs @ rs'" "list_all2 run_evolves (c_runs db) rs"
    "c_run_targets db' = ts @ ts'" "list_all2 target_evolves (c_run_targets db) ts"
  shows "evolves db db'"
  unfolding evolves_def by (rule exI [of _ rs], rule exI [of _ ts]) (simp add: assms)

lemma evolves_refl [simp]: "evolves db db"
  by (rule evolves_intro [of _ "c_runs db" "[]" _ "c_run_targets db" "[]"])
    (simp_all add: list.rel_refl)

section \<open>From rows to the catalog\<close>

lemma run_in_iff:
  assumes "distinct (map rr_id (c_runs db))" "r \<in> set (c_runs db)" "rr_id r = i"
  shows "run_in db i S \<longleftrightarrow> rr_state r \<in> set S"
proof
  assume "run_in db i S"
  then obtain r' where "r' \<in> set (c_runs db)" "rr_id r' = i" "rr_state r' \<in> set S"
    by (auto simp: run_in_def list_ex_iff)
  moreover have "r' = r" using assms calculation by (metis distinct_map inj_onD)
  ultimately show "rr_state r \<in> set S" by simp
next
  assume "rr_state r \<in> set S"
  then show "run_in db i S" using assms by (auto simp: run_in_def list_ex_iff)
qed

lemma ok_row_version [simp]:
  "run_ok (r\<lparr>rr_row_version := v\<rparr>) = run_ok r"
  "target_ok (t\<lparr>tr_row_version := v\<rparr>) = target_ok t"
  "run_identity (r\<lparr>rr_row_version := v\<rparr>) = run_identity r"
  "target_identity (t\<lparr>tr_row_version := v\<rparr>) = target_identity t"
  by (simp_all add: run_ok_def target_ok_def target_state_ok_def no_lease_def has_lease_def
      run_identity_def target_identity_def clear_lease_def cong: RunTargetState.case_cong)

definition run_move :: "run_row \<Rightarrow> run_row \<Rightarrow> bool" where
  "run_move r r' \<longleftrightarrow> run_identity r' = run_identity r \<and> rr_state r \<notin> set TERMINAL_RUN_STATES
     \<and> (rr_state r' = rr_state r \<or> rr_state r' \<in> set (run_edge (rr_state r)))
     \<and> (run_ok r \<longrightarrow> run_ok r')"

definition target_move :: "target_row \<Rightarrow> target_row \<Rightarrow> bool" where
  "target_move t t' \<longleftrightarrow> target_identity t' = target_identity t \<and> tr_state t \<in> set OPEN_TARGET_STATES
     \<and> (tr_state t' = tr_state t \<or> tr_state t' \<in> set (target_edge (tr_state t)))
     \<and> (target_ok t \<longrightarrow> target_ok t')"

lemma run_identity_keys:
  assumes "run_identity r' = run_identity r"
  shows "rr_id r' = rr_id r" "rr_idempotency_key r' = rr_idempotency_key r"
  using assms by (cases r; cases r'; simp add: run_identity_def)+

lemma target_identity_keys:
  assumes "target_identity t' = target_identity t"
  shows "tr_id t' = tr_id t" "tr_run_id t' = tr_run_id t" "tr_endpoint_id t' = tr_endpoint_id t"
    "tr_planned_operations t' = tr_planned_operations t" "tr_planned_bytes t' = tr_planned_bytes t"
  using assms by (cases t; cases t'; simp add: target_identity_def clear_lease_def)+

lemma run_evolves_keys:
  assumes "run_evolves r r'"
  shows "rr_id r' = rr_id r" "rr_idempotency_key r' = rr_idempotency_key r"
  using assms run_identity_keys [of r' r] by (auto simp: run_evolves_def)

lemma target_evolves_keys:
  assumes "target_evolves t t'"
  shows "tr_id t' = tr_id t" "tr_run_id t' = tr_run_id t" "tr_endpoint_id t' = tr_endpoint_id t"
  using assms target_identity_keys [of t' t] by (auto simp: target_evolves_def)

text \<open>An operation that maps the rows of both tables keeps the invariant when every row evolves,
  stays well-formed, and rows that belong together stay compatible.\<close>

lemma rows_good:
  assumes inv: "catalog_inv db"
    and runs: "c_runs db' = map h (c_runs db)" and targets: "c_run_targets db' = map k (c_run_targets db)"
    and stops: "stop_keys_ok db'" and waits: "wait_keys_ok db'"
    and r: "\<And>r. r \<in> set (c_runs db) \<Longrightarrow> run_evolves r (h r) \<and> run_ok (h r)"
    and t: "\<And>t. t \<in> set (c_run_targets db) \<Longrightarrow> target_evolves t (k t) \<and> target_ok (k t)"
    and c: "\<And>r t. r \<in> set (c_runs db) \<Longrightarrow> t \<in> set (c_run_targets db) \<Longrightarrow> tr_run_id t = rr_id r \<Longrightarrow>
        compat (rr_state r) (tr_state t) \<Longrightarrow> compat (rr_state (h r)) (tr_state (k t))"
  shows "catalog_inv db' \<and> evolves db db'"
proof -
  have rk: "map rr_id (map h (c_runs db)) = map rr_id (c_runs db)"
      "map rr_idempotency_key (map h (c_runs db)) = map rr_idempotency_key (c_runs db)"
    using r run_evolves_keys by auto
  have tk: "map tr_id (map k (c_run_targets db)) = map tr_id (c_run_targets db)"
      "map tr_run_id (map k (c_run_targets db)) = map tr_run_id (c_run_targets db)"
      "map (\<lambda>t. (tr_run_id t, tr_endpoint_id t)) (map k (c_run_targets db)) =
       map (\<lambda>t. (tr_run_id t, tr_endpoint_id t)) (c_run_targets db)"
    using t target_evolves_keys by auto
  have "run_keys_ok db'" using inv unfolding catalog_inv_def run_keys_ok_def runs rk by blast
  moreover have "target_keys_ok db'"
    using inv unfolding catalog_inv_def target_keys_ok_def runs targets rk tk by blast
  moreover have "list_all run_ok (c_runs db')" "list_all target_ok (c_run_targets db')"
    using r t by (simp_all add: runs targets list_all_iff)
  moreover have "cross_ok db'"
    unfolding cross_ok_def runs targets
  proof clarsimp
    fix x y assume a: "x \<in> set (c_runs db)" "y \<in> set (c_run_targets db)" "tr_run_id (k y) = rr_id (h x)"
    then have e: "tr_run_id y = rr_id x" using r [of x] t [of y] run_evolves_keys target_evolves_keys by metis
    have "compat (rr_state x) (tr_state y)"
      using inv a e by (simp add: catalog_inv_def cross_ok_def)
    then show "compat (rr_state (h x)) (tr_state (k y))" using c [OF a(1,2) e] by simp
  qed
  moreover have "evolves db db'"
    by (rule evolves_intro [of _ "map h (c_runs db)" "[]" _ "map k (c_run_targets db)" "[]"])
      (use runs targets r t in \<open>auto simp: list.rel_map intro!: list.rel_refl_strong\<close>)
  ultimately show ?thesis using stops waits by (simp add: catalog_inv_def)
qed

lemma stop_keys_cong:
  assumes "stop_keys_ok db" "c_run_stop_requests db' = c_run_stop_requests db"
    "set (map rr_id (c_runs db')) = set (map rr_id (c_runs db))"
    "set (map (\<lambda>t. (tr_run_id t, tr_id t)) (c_run_targets db')) = set (map (\<lambda>t. (tr_run_id t, tr_id t)) (c_run_targets db))"
  shows "stop_keys_ok db'"
  using assms unfolding stop_keys_ok_def by metis

lemma wait_keys_cong:
  "wait_keys_ok db \<Longrightarrow> c_wait_events db' = c_wait_events db \<Longrightarrow> c_wait_event_seq db' = c_wait_event_seq db \<Longrightarrow>
   wait_keys_ok db'"
  by (simp add: wait_keys_ok_def)

lemma run_move_evolves:
  "run_move r r' \<Longrightarrow> run_evolves r (r'\<lparr>rr_row_version := rr_row_version r + 1\<rparr>)"
  by (auto simp: run_move_def run_evolves_def)

lemma target_move_evolves:
  "target_move t t' \<Longrightarrow> target_evolves t (t'\<lparr>tr_row_version := tr_row_version t + 1\<rparr>)"
  by (auto simp: target_move_def target_evolves_def)

lemma update_good:
  assumes inv: "catalog_inv db"
    and t: "\<And>t. t \<in> set (c_run_targets db) \<Longrightarrow> p t \<Longrightarrow> target_move t (f t)"
    and r: "\<And>r. r \<in> set (c_runs db) \<Longrightarrow> q r \<Longrightarrow> run_move r (g r)"
    and c: "\<And>r t. r \<in> set (c_runs db) \<Longrightarrow> t \<in> set (c_run_targets db) \<Longrightarrow> tr_run_id t = rr_id r \<Longrightarrow>
        compat (rr_state r) (tr_state t) \<Longrightarrow>
        compat (rr_state (if q r then g r else r)) (tr_state (if p t then f t else t))"
  shows "catalog_inv (update_runs q g (update_targets p f db)) \<and> evolves db (update_runs q g (update_targets p f db))"
proof -
  let ?h = "\<lambda>r. if q r then (g r)\<lparr>rr_row_version := rr_row_version r + 1\<rparr> else r"
  let ?k = "\<lambda>t. if p t then (f t)\<lparr>tr_row_version := tr_row_version t + 1\<rparr> else t"
  let ?db = "update_runs q g (update_targets p f db)"
  have cols: "c_runs ?db = map ?h (c_runs db)" "c_run_targets ?db = map ?k (c_run_targets db)"
    by (simp_all add: update_runs_def update_targets_def sql_update_def)
  have ev: "run_evolves r (?h r) \<and> run_ok (?h r)" if "r \<in> set (c_runs db)" for r
    using inv r [OF that] that run_move_evolves [of r "g r"]
    by (auto simp: catalog_inv_def list_all_iff run_move_def)
  have et: "target_evolves t (?k t) \<and> target_ok (?k t)" if "t \<in> set (c_run_targets db)" for t
    using inv t [OF that] that target_move_evolves [of t "f t"]
    by (auto simp: catalog_inv_def list_all_iff target_move_def)
  have "map rr_id (c_runs ?db) = map rr_id (c_runs db)"
    unfolding cols map_map comp_def
  proof (rule map_cong [OF refl])
    fix x assume "x \<in> set (c_runs db)"
    from conjunct1 [OF ev [OF this]] show "rr_id (?h x) = rr_id x" by (rule run_evolves_keys)
  qed
  moreover have "map (\<lambda>t. (tr_run_id t, tr_id t)) (c_run_targets ?db) =
      map (\<lambda>t. (tr_run_id t, tr_id t)) (c_run_targets db)"
    unfolding cols map_map comp_def
  proof (rule map_cong [OF refl])
    fix y assume "y \<in> set (c_run_targets db)"
    from target_evolves_keys(1,2) [OF conjunct1 [OF et [OF this]]]
    show "(tr_run_id (?k y), tr_id (?k y)) = (tr_run_id y, tr_id y)" by simp
  qed
  moreover have so: "c_run_stop_requests ?db = c_run_stop_requests db"
    by (simp add: update_runs_def update_targets_def)
  moreover have "stop_keys_ok db" using inv by (simp only: catalog_inv_def)
  ultimately have s: "stop_keys_ok ?db" by (intro stop_keys_cong [of db ?db]) (simp_all only:)
  have w: "wait_keys_ok ?db"
    by (rule wait_keys_cong [of db]) (use inv in \<open>simp_all add: catalog_inv_def update_runs_def update_targets_def\<close>)
  show ?thesis
  proof (rule rows_good [OF inv cols s w ev et])
    fix x y assume "x \<in> set (c_runs db)" "y \<in> set (c_run_targets db)" "tr_run_id y = rr_id x"
      "compat (rr_state x) (tr_state y)"
    from c [OF this] show "compat (rr_state (?h x)) (tr_state (?k y))" by (simp split: if_splits)
  qed
qed

text \<open>The two one-table forms.\<close>

lemma update_runs_none [simp]: "update_runs (\<lambda>_. False) g db = db"
  by (simp add: update_runs_def sql_update_def)

lemma update_targets_none [simp]: "update_targets (\<lambda>_. False) g db = db"
  by (simp add: update_targets_def sql_update_def)

lemmas update_targets_good = update_good [where q = "\<lambda>_. False" and g = "\<lambda>r. r", simplified]
lemmas update_runs_good = update_good [where p = "\<lambda>_. False" and f = "\<lambda>t. t", simplified]

end
