(* ===== verification/Run_Store_Safety.thy ===== *)
theory Run_Store_Safety
  imports Run_Invariants
begin

text \<open>Every operation of the run store keeps the invariant of the catalog and moves rows only
  along the edges of the two state machines, inside a caller's transaction or not.\<close>

definition good :: "catalog \<Rightarrow> catalog \<Rightarrow> bool" where
  "good db db' \<longleftrightarrow> catalog_inv db' \<and> evolves db db'"

lemma good_refl: "catalog_inv db \<Longrightarrow> good db db"
  by (simp add: good_def)

lemma good_give_up: "good db a \<Longrightarrow> good db b \<Longrightarrow> good db (snd (give_up outer a b x))"
  by (simp add: give_up_def)

lemma good_return_run: "good db a \<Longrightarrow> good db b \<Longrightarrow> good db (snd (return_run outer a b i))"
  by (simp add: return_run_def give_up_def split: sum.split option.split)

lemma good_return_target: "good db a \<Longrightarrow> good db b \<Longrightarrow> good db (snd (return_target outer a b i j))"
  by (simp add: return_target_def give_up_def split: option.split)

lemmas ends = good_give_up good_return_run good_return_target

lemma run_of_target:
  assumes "catalog_inv db" "r \<in> set (c_runs db)" "tr_run_id t = rr_id r"
  shows "run_in db (tr_run_id t) S \<longleftrightarrow> rr_state r \<in> set S"
  using assms by (intro run_in_iff) (auto simp: catalog_inv_def run_keys_ok_def)

section \<open>Moves of one row\<close>

lemma run_move_state:
  assumes "s \<in> set (run_edge (rr_state r)) \<or> s = rr_state r" "rr_state r \<notin> set TERMINAL_RUN_STATES"
    "s \<notin> set TERMINAL_RUN_STATES"
  shows "run_move r (r\<lparr>rr_state := s\<rparr>)"
  using assms by (auto simp: run_move_def run_ok_def run_identity_def TERMINAL_RUN_STATES_def)

lemma run_move_finish:
  assumes "s \<in> set (run_edge (rr_state r))" "s \<in> set TERMINAL_RUN_STATES"
    "rr_state r \<notin> set TERMINAL_RUN_STATES" "json_object_ok j \<or> j = rr_summary_json r"
  shows "run_move r (r\<lparr>rr_state := s, rr_finished_utc := Some n, rr_summary_json := j,
    rr_warning_count := w, rr_error_count := e\<rparr>)"
proof -
  have "s \<notin> {RunState.FAILED, RunState.BLOCKED_BY_SAFETY}"
    using assms(1) by (auto simp: run_edge_def split: RunState.splits)
  then show ?thesis
    using assms by (auto simp: run_move_def run_ok_def run_identity_def)
qed

lemma run_move_same: "rr_state r \<notin> set TERMINAL_RUN_STATES \<Longrightarrow> run_move r r"
  by (simp add: run_move_def)

text \<open>Back to a state without a lease.\<close>

lemma target_move_unleased:
  assumes "s \<in> set (target_edge (tr_state t))" "tr_state t \<in> set OPEN_TARGET_STATES"
    "s \<in> {RunTargetState.PENDING, RunTargetState.PAUSED, RunTargetState.WAITING_FOR_ENDPOINT}"
  shows "target_move t ((clear_lease t)\<lparr>tr_state := s, tr_result_json := j\<rparr>)"
    "target_move t ((clear_lease t)\<lparr>tr_state := s\<rparr>)"
  using assms
  by (auto simp: target_move_def target_ok_def target_state_ok_def no_lease_def target_identity_def
      clear_lease_def OPEN_TARGET_STATES_def)

lemma clear_lease_id: "no_lease t \<Longrightarrow> clear_lease t = t"
  by (cases t) (simp add: no_lease_def clear_lease_def)

lemma target_ok_finish:
  assumes "target_ok t" "tr_state t = RunTargetState.EXECUTING"
  shows "has_lease t" "tr_finished_utc t = None" "0 \<le> tr_planned_operations t" "0 \<le> tr_planned_bytes t"
    "0 \<le> tr_completed_operations t" "0 \<le> tr_completed_bytes t"
  using assms by (auto simp: target_ok_def target_state_ok_def OPEN_TARGET_STATES_def)

lemma coalesce_Some [simp]: "coalesce v d \<noteq> None" "\<exists>y. coalesce v d = Some y"
  by (simp_all add: coalesce_def split: option.split)

section \<open>Runs\<close>

lemma release_created_run_good:
  assumes "catalog_inv db"
  shows "good db (snd (db_release_created_run outer run_id db))"
proof -
  let ?X = "update_runs (\<lambda>r. rr_id r = run_id \<and> rr_state r = RunState.CREATED) (\<lambda>r. r\<lparr>rr_state := RunState.QUEUED\<rparr>) db"
  have "good db ?X"
    unfolding good_def
    by (rule update_runs_good [OF assms])
      (auto simp: run_edge_def TERMINAL_RUN_STATES_def compat_def intro!: run_move_state)
  then show ?thesis
    using good_refl [OF assms]
    by (simp add: db_release_created_run_def Let_def give_up_def split: sum.split option.split)
qed

lemma request_run_pause_good:
  assumes inv: "catalog_inv db"
  shows "good db (snd (db_request_run_pause outer run_id db))"
proof -
  have "good db (update_runs (\<lambda>r. rr_id r = run_id
            \<and> rr_state r \<in> set [RunState.CREATED, RunState.QUEUED, RunState.PREFLIGHT, RunState.EXECUTING]
            \<and> \<not> stop_pending db (rr_id r)) (\<lambda>r. r\<lparr>rr_state := RunState.PAUSING\<rparr>) db)"
    unfolding good_def
    by (rule update_runs_good [OF inv])
      (auto simp: run_edge_def TERMINAL_RUN_STATES_def compat_def intro!: run_move_state)
  with good_refl [OF inv] show ?thesis
    unfolding db_request_run_pause_def Let_def by (simp add: ends)
qed

lemma finalize_requested_run_pause_good:
  assumes inv: "catalog_inv db"
  shows "good db (snd (db_finalize_requested_run_pause outer run_id db))"
proof -
  have "good db (update_runs (\<lambda>r. rr_id r = run_id \<and> rr_state r = RunState.PAUSING) (\<lambda>r. r\<lparr>rr_state := RunState.PAUSED\<rparr>)
      (update_targets (\<lambda>t. tr_run_id t = run_id
              \<and> tr_state t \<in> set [RunTargetState.ACQUIRING_LEASE, RunTargetState.REVALIDATING,
                                 RunTargetState.EXECUTING, RunTargetState.WAITING_FOR_ENDPOINT]
              \<and> run_in db (tr_run_id t) [RunState.PAUSING])
            (\<lambda>t. (clear_lease t)\<lparr>tr_state := RunTargetState.PAUSED\<rparr>) db))"
    unfolding good_def
  proof (rule update_good [OF inv], goal_cases)
    case (3 r t)
    then show ?case using run_of_target [OF inv 3(1,3)] by (auto simp: compat_def)
  qed (auto simp: run_edge_def target_edge_def state_lists intro!: run_move_state target_move_unleased)
  with good_refl [OF inv] show ?thesis
    unfolding db_finalize_requested_run_pause_def Let_def by (simp add: ends)
qed

lemma resume_paused_run_good:
  assumes inv: "catalog_inv db"
  shows "good db (snd (db_resume_paused_run outer run_id db))"
proof -
  have "good db (update_runs (\<lambda>r. rr_id r = run_id \<and> rr_state r = RunState.PAUSED \<and> Q r) (\<lambda>r. r\<lparr>rr_state := RunState.QUEUED\<rparr>)
      (update_targets (\<lambda>t. tr_run_id t = run_id \<and> tr_state t = RunTargetState.PAUSED
              \<and> run_in db (tr_run_id t) [RunState.PAUSED])
            (\<lambda>t. (clear_lease t)\<lparr>tr_state := RunTargetState.PENDING\<rparr>) db))" for Q
    unfolding good_def
  proof (rule update_good [OF inv], goal_cases)
    case (3 r t)
    then show ?case using run_of_target [OF inv 3(1,3)] by (auto simp: compat_def)
  qed (auto simp: run_edge_def target_edge_def state_lists intro!: run_move_state target_move_unleased)
  with good_refl [OF inv] show ?thesis
    unfolding db_resume_paused_run_def Let_def by (simp add: ends)
qed

section \<open>Stop requests\<close>

text \<open>Changing only the stop requests.\<close>

lemma stops_good:
  assumes "good db db'" "stop_keys_ok (db'\<lparr>c_run_stop_requests := ss\<rparr>)"
  shows "good db (db'\<lparr>c_run_stop_requests := ss\<rparr>)"
  using assms
  by (simp add: good_def catalog_inv_def run_keys_ok_def target_keys_ok_def wait_keys_ok_def cross_ok_def evolves_def)

lemma request_stop_good:
  assumes inv: "catalog_inv db"
  shows "good db (snd (db_request_run_stop_after_active_file outer now run_id db))"
proof (cases "run_in db run_id STOPPABLE_RUN_STATES \<and> run_id \<notin> set (map st_run_id (c_run_stop_requests db))")
  case True
  define row where "row = \<lparr>st_run_id = run_id, st_state = STOP_PENDING, st_boundary_run_target_id = None,
      st_boundary_operation_id = None, st_requested_utc = now, st_applied_utc = None, st_row_version = 1\<rparr>"
  define X where "X = update_runs (\<lambda>r. rr_id r = run_id) (\<lambda>r. r)
      (db\<lparr>c_run_stop_requests := c_run_stop_requests db @ [row]\<rparr>)"
  let ?h = "\<lambda>r. if rr_id r = run_id then r\<lparr>rr_row_version := rr_row_version r + 1\<rparr> else r"
  have runs: "c_runs X = map ?h (c_runs db)" by (simp add: X_def update_runs_def sql_update_def)
  have targets: "c_run_targets X = map (\<lambda>t. t) (c_run_targets db)" by (simp add: X_def update_runs_def)
  have stops: "c_run_stop_requests X = c_run_stop_requests db @ [row]" by (simp add: X_def update_runs_def)
  have ids: "map rr_id (c_runs X) = map rr_id (c_runs db)" by (simp add: runs)
  have "run_id \<in> set (map rr_id (c_runs db))" using True by (auto simp: run_in_def list_ex_iff)
  then have "stop_keys_ok X"
    using inv True unfolding catalog_inv_def stop_keys_ok_def ids stops targets
    by (auto simp: row_def boundary_ok_def)
  moreover have "wait_keys_ok X"
    using inv by (simp add: catalog_inv_def wait_keys_ok_def X_def update_runs_def)
  moreover have "run_evolves r (?h r) \<and> run_ok (?h r)" if "r \<in> set (c_runs db)" for r
  proof -
    have "rr_state r \<notin> set TERMINAL_RUN_STATES" if "rr_id r = run_id"
      using True run_in_iff [of db r run_id STOPPABLE_RUN_STATES] that \<open>r \<in> set (c_runs db)\<close> inv
      by (auto simp: catalog_inv_def run_keys_ok_def state_lists)
    then show ?thesis using inv that by (auto simp: catalog_inv_def list_all_iff run_evolves_def)
  qed
  ultimately have "good db X"
    unfolding good_def by (intro rows_good [OF inv runs targets]) (use inv in \<open>auto simp: catalog_inv_def list_all_iff\<close>)
  with good_refl [OF inv] True show ?thesis
    by (simp add: db_request_run_stop_after_active_file_def Let_def X_def [unfolded row_def, symmetric] ends
        del: set_map)
next
  case False
  with good_refl [OF inv] show ?thesis
    by (auto simp: db_request_run_stop_after_active_file_def ends)
qed

lemma bind_stop_boundary_good:
  assumes inv: "catalog_inv db"
  shows "good db (snd (db_bind_requested_run_stop_boundary outer run_id run_target_id operation_id db))"
proof -
  let ?guard = "\<lambda>s. st_run_id s = run_id \<and> st_state s = STOP_PENDING
            \<and> st_boundary_run_target_id s = None \<and> st_boundary_operation_id s = None"
  let ?f = "\<lambda>s. (s\<lparr>st_boundary_run_target_id := Some run_target_id, st_boundary_operation_id := Some operation_id\<rparr>)
      \<lparr>st_row_version := st_row_version s + 1\<rparr>"
  let ?ss = "sql_update ?guard ?f (c_run_stop_requests db)"
  have "good db (db\<lparr>c_run_stop_requests := ?ss\<rparr>)"
    if "(run_id, run_target_id) \<in> set (map (\<lambda>t. (tr_run_id t, tr_id t)) (c_run_targets db))" "sql_trim operation_id \<noteq> []"
  proof (rule stops_good [OF good_refl [OF inv]])
    have "map st_run_id ?ss = map st_run_id (c_run_stop_requests db)"
      by (rule sql_update_map_key) simp
    then show "stop_keys_ok (db\<lparr>c_run_stop_requests := ?ss\<rparr>)"
      using inv that unfolding catalog_inv_def stop_keys_ok_def
      by (auto simp: list_all_iff set_sql_update boundary_ok_def)
  qed
  with good_refl [OF inv] show ?thesis
    by (auto simp: db_bind_requested_run_stop_boundary_def Let_def update_stops_def give_up_def
        split: option.split)
qed

lemma active_next_state_cases:
  assumes "t \<in> set (c_run_targets db)" "tr_run_id t = i"
  shows "compat (active_next_state db i) (tr_state t)"
  using assms by (auto simp: active_next_state_def compat_def target_in_def list_ex_iff)

lemma activate_stop_good:
  assumes inv: "catalog_inv db"
  shows "good db (snd (db_activate_requested_run_stop outer run_id db))"
proof -
  have a: "good db (update_runs (\<lambda>r. rr_id r = run_id \<and> rr_state r = RunState.PAUSED) (\<lambda>r. r\<lparr>rr_state := RunState.QUEUED\<rparr>)
      (update_targets (\<lambda>t. tr_run_id t = run_id \<and> tr_id t = b \<and> tr_state t = RunTargetState.PAUSED)
            (\<lambda>t. (clear_lease t)\<lparr>tr_state := RunTargetState.PENDING\<rparr>) db))" for b
    unfolding good_def
  proof (rule update_good [OF inv], goal_cases)
    case (3 r t)
    then show ?case by (auto simp: compat_def state_lists split: RunState.splits)
  qed (auto simp: run_edge_def target_edge_def state_lists intro!: run_move_state target_move_unleased)
  have b: "good db (update_runs (\<lambda>r. rr_id r = run_id \<and> rr_state r = RunState.PAUSING)
      (\<lambda>r. r\<lparr>rr_state := active_next_state db run_id\<rparr>) db)"
    unfolding good_def
  proof (rule update_runs_good [OF inv], goal_cases)
    case (1 r)
    then show ?case
      by (intro run_move_state) (auto simp: run_edge_def active_next_state_def state_lists)
  next
    case (2 r t)
    then show ?case using active_next_state_cases [of t db run_id] by auto
  qed
  have c: "good db (update_targets (\<lambda>t. tr_run_id t = run_id \<and> tr_id t = bt \<and> tr_state t = RunTargetState.PAUSED)
            (\<lambda>t. (clear_lease t)\<lparr>tr_state := RunTargetState.PENDING\<rparr>) db)"
    if "sql_count (\<lambda>t. tr_run_id t = run_id \<and> tr_id t = bt \<and> tr_state t = RunTargetState.PAUSED) (c_run_targets db) \<noteq> 1"
    for bt
  proof -
    have "sql_count (\<lambda>t. tr_run_id t = run_id \<and> tr_id t = bt \<and> tr_state t = RunTargetState.PAUSED) (c_run_targets db) \<le> 1"
      using inv by (intro sql_count_key_le_1 [of tr_id _ _ bt]) (auto simp: catalog_inv_def target_keys_ok_def)
    then show ?thesis
      using that good_refl [OF inv] by (simp add: update_targets_def sql_update_no_match)
  qed
  from a b c good_refl [OF inv] show ?thesis
    unfolding db_activate_requested_run_stop_def Let_def
    by (simp add: ends split: sum.split option.split)
qed

section \<open>Finalizing a stop\<close>

text \<open>The effect of the loop on one target row.\<close>

definition stop_row_step ::
  "string \<Rightarrow> string \<Rightarrow> (string \<rightharpoonup> RunTargetStopProgress) \<Rightarrow> StartedRunTarget \<Rightarrow> target_row \<Rightarrow> target_row" where
  "stop_row_step now run_id progress tg t =
     hd (c_run_targets (stop_target now run_id progress tg
       \<lparr>c_runs = [], c_run_targets = [t], c_run_stop_requests = [], c_wait_events = [], c_wait_event_seq = 0,
        c_job_revisions = [], c_plan_seal_details = [], c_command_receipts = [], c_endpoint_revisions = []\<rparr>))"

lemma stop_target_rows:
  "stop_target now run_id progress tg db = db\<lparr>c_run_targets := map (stop_row_step now run_id progress tg) (c_run_targets db)\<rparr>"
  by (simp add: stop_target_def stop_row_step_def update_targets_def sql_update_def Let_def split: prod.split)

lemma fold_stop_target_rows:
  "fold (stop_target now run_id progress) tgs db =
   db\<lparr>c_run_targets := map (fold (stop_row_step now run_id progress) tgs) (c_run_targets db)\<rparr>"
  by (induction tgs arbitrary: db) (simp_all add: stop_target_rows comp_def)

definition stop_hits :: "string \<Rightarrow> StartedRunTarget list \<Rightarrow> target_row \<Rightarrow> bool" where
  "stop_hits run_id tgs t \<longleftrightarrow> tr_state t \<in> set OPEN_TARGET_STATES \<and> tr_run_id t = run_id
     \<and> tr_id t \<in> rt_run_target_id ` set tgs"

lemma stop_row_step_miss: "\<not> stop_hits run_id [tg] t \<Longrightarrow> stop_row_step now run_id progress tg t = t"
  by (auto simp: stop_row_step_def stop_target_def update_targets_def sql_update_def stop_hits_def Let_def
      split: prod.split)

lemma stop_row_step_hit:
  assumes "stop_hits run_id [tg] t" "0 \<le> rt_completed_operations tg" "0 \<le> rt_completed_bytes tg"
  shows "tr_state (stop_row_step now run_id progress tg t) = RunTargetState.CANCELLED"
    "no_lease (stop_row_step now run_id progress tg t)"
    "target_evolves t (stop_row_step now run_id progress tg t)"
    "target_ok t \<Longrightarrow> target_ok (stop_row_step now run_id progress tg t)"
  using assms
  by (auto simp: stop_row_step_def stop_target_def update_targets_def sql_update_def stop_hits_def Let_def
      target_evolves_def target_identity_def clear_lease_def state_lists target_edge_def target_ok_def
      target_state_ok_def no_lease_def split: prod.split)

lemma fold_stop_row:
  assumes "\<And>tg. tg \<in> set tgs \<Longrightarrow> 0 \<le> rt_completed_operations tg \<and> 0 \<le> rt_completed_bytes tg"
  shows "if stop_hits run_id tgs t
    then tr_state (fold (stop_row_step now run_id progress) tgs t) = RunTargetState.CANCELLED
       \<and> no_lease (fold (stop_row_step now run_id progress) tgs t)
       \<and> target_evolves t (fold (stop_row_step now run_id progress) tgs t)
       \<and> (target_ok t \<longrightarrow> target_ok (fold (stop_row_step now run_id progress) tgs t))
    else fold (stop_row_step now run_id progress) tgs t = t"
  using assms
proof (induction tgs)
  case Nil
  then show ?case by (simp add: stop_hits_def)
next
  case (Cons tg tgs)
  show ?case
  proof (cases "stop_hits run_id [tg] t")
    case True
    let ?t = "stop_row_step now run_id progress tg t"
    have nn: "0 \<le> rt_completed_operations tg" "0 \<le> rt_completed_bytes tg" using Cons.prems by auto
    note hit = stop_row_step_hit [OF True nn]
    have "fold (stop_row_step now run_id progress) us ?t = ?t" for us
    proof (induction us)
      case (Cons u us)
      have "\<not> stop_hits run_id [u] ?t" by (simp add: stop_hits_def hit OPEN_TARGET_STATES_def)
      then show ?case using Cons by (simp add: stop_row_step_miss)
    qed simp
    then show ?thesis using True hit by (auto simp: stop_hits_def)
  next
    case False
    then have "stop_row_step now run_id progress tg t = t" by (rule stop_row_step_miss)
    moreover have "stop_hits run_id (tg # tgs) t \<longleftrightarrow> stop_hits run_id tgs t"
      using False by (auto simp: stop_hits_def)
    ultimately show ?thesis using Cons by simp
  qed
qed

lemma load_started_run_SomeD:
  assumes "db_load_started_run run_id db = Inr (Some run)"
  obtains r where "r \<in> set (c_runs db)" "rr_id r = run_id" "sr_run_id run = run_id" "sr_state run = rr_state r"
    "sr_targets run = load_targets db run_id" "json_object (rr_summary_json r) = Inr (sr_summary run)"
proof -
  obtain r where r: "List.find (\<lambda>r. rr_id r = run_id) (c_runs db) = Some r" "started_run db r = Inr run"
    using assms by (auto simp: db_load_started_run_def load_one_def split: option.splits)
  have "r \<in> set (c_runs db)" "rr_id r = run_id" using find_Some_iff' [OF r(1)] by auto
  with r(2) show ?thesis by (intro that [of r]) (auto simp: started_run_def)
qed

lemma load_targets_ids:
  "rt_run_target_id ` set (load_targets db run_id) = tr_id ` {t \<in> set (c_run_targets db). tr_run_id t = run_id}"
  by (auto simp: load_targets_def started_target_def image_image)

lemma load_targets_nonneg:
  assumes "catalog_inv db" "tg \<in> set (load_targets db run_id)"
  shows "0 \<le> rt_completed_operations tg \<and> 0 \<le> rt_completed_bytes tg"
  using assms by (auto simp: load_targets_def started_target_def catalog_inv_def list_all_iff target_ok_def)

text \<open>Printing a summary with members set gives an object again.\<close>

lemma wf_json_canon: "wf_json v \<Longrightarrow> wf_json (canon v)"
proof (induction v rule: canon.induct)
  case (2 kvs)
  let ?c = "map (\<lambda>(k, v). (k, canon v)) kvs"
  have "map fst ?c = map fst kvs" by (simp add: case_prod_beta comp_def)
  then have "distinct (map fst ?c)" using 2(2) by (simp only: wf_json.simps)
  then have "distinct (map fst (sort_key fst ?c))" by (simp only: distinct_map set_sort distinct_sort)
  moreover have "list_all (\<lambda>(k, v). wf_json v) (sort_key fst ?c)" using 2 by (auto simp: list_all_iff)
  ultimately show ?case by (simp only: canon.simps wf_json.simps)
qed (simp_all add: list_all_iff)

lemma wf_json_dict_set:
  "wf_json (JObj d) \<Longrightarrow> wf_json v \<Longrightarrow> wf_json (JObj (dict_set k v d))"
proof -
  assume a: "wf_json (JObj d)" "wf_json v"
  have "set (dict_set k v d) \<subseteq> insert (k, v) (set d)" by (induction d) auto
  then show ?thesis using a distinct_dict_set [of d k v] by (auto simp: list_all_iff)
qed

lemma json_object_ok_dumps: "wf_json (JObj d) \<Longrightarrow> json_object_ok (json_dumps True (JObj d))"
  using loads_dumps [of "JObj d" True] wf_json_canon [of "JObj d"]
  by (simp add: json_object_ok_def json_object_def)

lemma finalize_stop_rows_good:
  assumes inv: "catalog_inv db" and j: "json_object_ok j"
  shows "good db (update_runs (\<lambda>r. rr_id r = run_id \<and> rr_state r \<in> set STOPPABLE_RUN_STATES)
        (\<lambda>r. r\<lparr>rr_state := RunState.CANCELLED, rr_finished_utc := Some now, rr_summary_json := j\<rparr>)
        (fold (stop_target now run_id progress) (load_targets db run_id) db))" (is "good db ?X")
proof -
  let ?q = "\<lambda>r. rr_id r = run_id \<and> rr_state r \<in> set STOPPABLE_RUN_STATES"
  let ?h = "\<lambda>r. if ?q r then (r\<lparr>rr_state := RunState.CANCELLED, rr_finished_utc := Some now,
      rr_summary_json := j\<rparr>)\<lparr>rr_row_version := rr_row_version r + 1\<rparr> else r"
  let ?k = "fold (stop_row_step now run_id progress) (load_targets db run_id)"
  have cols: "c_runs ?X = map ?h (c_runs db)" "c_run_targets ?X = map ?k (c_run_targets db)"
      "c_run_stop_requests ?X = c_run_stop_requests db" "c_wait_events ?X = c_wait_events db"
      "c_wait_event_seq ?X = c_wait_event_seq db"
    by (simp_all add: fold_stop_target_rows update_runs_def sql_update_def)
  have hits: "stop_hits run_id (load_targets db run_id) t \<longleftrightarrow> tr_state t \<in> set OPEN_TARGET_STATES \<and> tr_run_id t = run_id"
    if "t \<in> set (c_run_targets db)" for t
    using that by (auto simp: stop_hits_def load_targets_ids)
  note row = fold_stop_row [where tgs = "load_targets db run_id" and run_id = run_id and now = now
      and progress = progress, OF load_targets_nonneg [OF inv, where run_id = run_id], simplified]
  have ev: "run_evolves r (?h r) \<and> run_ok (?h r)" if "r \<in> set (c_runs db)" for r
  proof (cases "?q r")
    case True
    then have "run_move r (r\<lparr>rr_state := RunState.CANCELLED, rr_finished_utc := Some now, rr_summary_json := j\<rparr>)"
      using run_move_finish [where s = RunState.CANCELLED and r = r and j = j and n = now
          and w = "rr_warning_count r" and e = "rr_error_count r"] j
      by (auto simp: run_edge_def state_lists)
    with True inv that show ?thesis
      using run_move_evolves by (fastforce simp: catalog_inv_def list_all_iff run_move_def)
  qed (use inv that in \<open>auto simp: catalog_inv_def list_all_iff\<close>)
  have et: "target_evolves t (?k t) \<and> target_ok (?k t)" if "t \<in> set (c_run_targets db)" for t
    using row [where t = t] inv that by (auto simp: catalog_inv_def list_all_iff split: if_splits)
  have s: "stop_keys_ok ?X"
  proof (rule stop_keys_cong [of db])
    show "stop_keys_ok db" using inv by (simp only: catalog_inv_def)
    have "map rr_id (map ?h (c_runs db)) = map rr_id (c_runs db)" by simp
    then show "set (map rr_id (c_runs ?X)) = set (map rr_id (c_runs db))" by (simp only: cols(1))
    have "map (\<lambda>t. (tr_run_id t, tr_id t)) (map ?k (c_run_targets db)) = map (\<lambda>t. (tr_run_id t, tr_id t)) (c_run_targets db)"
      using et target_evolves_keys by auto
    then show "set (map (\<lambda>t. (tr_run_id t, tr_id t)) (c_run_targets ?X)) =
        set (map (\<lambda>t. (tr_run_id t, tr_id t)) (c_run_targets db))" by (simp only: cols(2))
  qed (rule cols(3))
  have w: "wait_keys_ok ?X"
    by (rule wait_keys_cong [OF _ cols(4,5)]) (use inv in \<open>simp only: catalog_inv_def\<close>)
  show ?thesis
    unfolding good_def
  proof (rule rows_good [OF inv cols(1,2) s w ev et])
    fix x y assume a: "x \<in> set (c_runs db)" "y \<in> set (c_run_targets db)" "tr_run_id y = rr_id x"
      "compat (rr_state x) (tr_state y)"
    show "compat (rr_state (?h x)) (tr_state (?k y))"
    proof (cases "tr_state y \<in> set OPEN_TARGET_STATES \<and> tr_run_id y = run_id")
      case True
      then have "tr_state (?k y) = RunTargetState.CANCELLED" using row [where t = y] hits [OF a(2)] by simp
      then show ?thesis using a True by (auto simp: compat_def state_lists split: RunState.splits)
    next
      case False
      then have "?k y = y" using row [where t = y] hits [OF a(2)] by (simp split: if_splits)
      then show ?thesis using a False by (auto simp: compat_def state_lists split: RunState.splits)
    qed
  qed
qed

lemma boundary_ok_state [simp]:
  "boundary_ok keys (s\<lparr>st_state := x, st_applied_utc := u, st_row_version := v\<rparr>) = boundary_ok keys s"
  by (simp add: boundary_ok_def split: option.split)

lemma applied_good:
  assumes "good db db'"
  shows "good db (update_stops (\<lambda>s. st_run_id s = run_id \<and> st_state s = STOP_PENDING)
      (\<lambda>s. s\<lparr>st_state := STOP_APPLIED, st_applied_utc := Some now\<rparr>) db')"
  unfolding update_stops_def
proof (rule stops_good [OF assms])
  let ?f = "\<lambda>s. (s\<lparr>st_state := STOP_APPLIED, st_applied_utc := Some now\<rparr>)\<lparr>st_row_version := st_row_version s + 1\<rparr>"
  let ?ss = "sql_update (\<lambda>s. st_run_id s = run_id \<and> st_state s = STOP_PENDING) ?f (c_run_stop_requests db')"
  have "map st_run_id ?ss = map st_run_id (c_run_stop_requests db')"
    by (rule sql_update_map_key) simp
  moreover have "stop_keys_ok db'" using assms by (simp only: good_def catalog_inv_def)
  ultimately show "stop_keys_ok (db'\<lparr>c_run_stop_requests := ?ss\<rparr>)"
    unfolding stop_keys_ok_def by (auto simp: list_all_iff set_sql_update)
qed

lemma finalize_stop_good:
  assumes inv: "catalog_inv db"
  shows "good db (snd (db_finalize_requested_run_stop outer now run_id target_progress db))"
proof (cases "\<exists>run. db_load_started_run run_id db = Inr (Some run) \<and> db_load_run_stop_request run_id db \<noteq> None")
  case False
  then show ?thesis
    using good_refl [OF inv] by (auto simp: db_finalize_requested_run_stop_def ends split: sum.split option.split)
next
  case True
  then obtain run where run: "db_load_started_run run_id db = Inr (Some run)" "db_load_run_stop_request run_id db \<noteq> None"
    by blast
  obtain r where r: "r \<in> set (c_runs db)" "json_object (rr_summary_json r) = Inr (sr_summary run)"
      "sr_targets run = load_targets db run_id"
    using load_started_run_SomeD [OF run(1)] by metis
  have "run_ok r" using inv r(1) by (simp add: catalog_inv_def list_all_iff)
  then have "wf_json (JObj (sr_summary run))"
    using r(2) by (auto simp: run_ok_def json_object_ok_def simp del: wf_json.simps)
  then have j: "json_object_ok (json_dumps True (JObj (dict_set ''stop_mode'' (JStr ''AFTER_ACTIVE_FILE'')
      (dict_set ''result'' (JStr ''STOPPED'') (sr_summary run)))))"
    by (intro json_object_ok_dumps wf_json_dict_set) simp_all
  note X = finalize_stop_rows_good [OF inv j, of run_id now "map_of (rev (map (\<lambda>p. (tsp_run_target_id p, p)) target_progress))",
      folded r(3)]
  from applied_good [OF X] X good_refl [OF inv] run show ?thesis
    by (simp add: db_finalize_requested_run_stop_def Let_def ends)
qed

end
