(* ===== verification/Run_Target_Safety.thy ===== *)
theory Run_Target_Safety
  imports Run_Store_Safety
begin

text \<open>The remaining operations of the run store keep the invariant: creating a run, and moving one
  target through preflight, waiting, lease, execution and completion.\<close>

section \<open>Creating a run\<close>

text \<open>The runs the application saves: not started, every target pending.\<close>

definition fresh_run :: "StartedRun \<Rightarrow> bool" where
  "fresh_run run \<longleftrightarrow> sr_state run \<in> {RunState.CREATED, RunState.QUEUED}
     \<and> list_all (\<lambda>t. rt_state t = RunTargetState.PENDING) (sr_targets run)
     \<and> wf_json (JObj (sr_summary run))"

lemma insert_run_good:
  assumes inv: "catalog_inv db" and c: "run_constraints db r" and ok: "run_ok r"
  shows "good db (db\<lparr>c_runs := c_runs db @ [r]\<rparr>)"
proof -
  let ?X = "db\<lparr>c_runs := c_runs db @ [r]\<rparr>"
  have new: "rr_id r \<notin> set (map rr_id (c_runs db))" "rr_idempotency_key r \<notin> set (map rr_idempotency_key (c_runs db))"
    using c unfolding run_constraints_def by blast+
  have t: "tr_run_id t \<noteq> rr_id r" if "t \<in> set (c_run_targets db)" for t
  proof -
    have "tr_run_id t \<in> rr_id ` set (c_runs db)"
      using inv that by (auto simp: catalog_inv_def target_keys_ok_def)
    with new(1) show ?thesis by auto
  qed
  have "run_keys_ok ?X" using inv new by (auto simp: catalog_inv_def run_keys_ok_def)
  moreover have "target_keys_ok ?X" using inv by (auto simp: catalog_inv_def target_keys_ok_def)
  moreover have "stop_keys_ok ?X" using inv by (auto simp: catalog_inv_def stop_keys_ok_def)
  moreover have "wait_keys_ok ?X" using inv by (simp add: catalog_inv_def wait_keys_ok_def)
  moreover have "cross_ok ?X" using inv t by (auto simp: catalog_inv_def cross_ok_def)
  moreover have "evolves db ?X"
    by (rule evolves_intro [of _ "c_runs db" "[r]" _ "c_run_targets db" "[]"]) (simp_all add: list.rel_refl)
  ultimately show ?thesis using inv ok by (simp add: good_def catalog_inv_def)
qed

lemma insert_target_good:
  assumes g: "good db db'" and c: "target_constraints db' t" and ok: "target_ok t"
    and s: "tr_state t = RunTargetState.PENDING"
    and r: "\<And>r. r \<in> set (c_runs db') \<Longrightarrow> rr_id r = tr_run_id t \<Longrightarrow> rr_state r \<in> {RunState.CREATED, RunState.QUEUED}"
  shows "good db (db'\<lparr>c_run_targets := c_run_targets db' @ [t]\<rparr>)"
proof -
  let ?X = "db'\<lparr>c_run_targets := c_run_targets db' @ [t]\<rparr>"
  have inv: "catalog_inv db'" using g by (simp add: good_def)
  have new: "tr_id t \<notin> set (map tr_id (c_run_targets db'))"
      "(tr_run_id t, tr_endpoint_id t) \<notin> set (map (\<lambda>t. (tr_run_id t, tr_endpoint_id t)) (c_run_targets db'))"
      "tr_run_id t \<in> set (map rr_id (c_runs db'))"
    using c unfolding target_constraints_def by blast+
  have "target_keys_ok ?X" using inv new by (auto simp: catalog_inv_def target_keys_ok_def)
  moreover have "stop_keys_ok ?X"
    using inv by (auto simp: catalog_inv_def stop_keys_ok_def list_all_iff boundary_ok_def split: option.splits)
  moreover have "run_keys_ok ?X" "wait_keys_ok ?X"
    using inv by (simp_all add: catalog_inv_def run_keys_ok_def wait_keys_ok_def)
  moreover have "compat (rr_state r) (tr_state t)" if "r \<in> set (c_runs db')" "tr_run_id t = rr_id r" for r
    using assms(5) [of r] that s by (auto simp: compat_def)
  then have "cross_ok ?X" using inv by (auto simp: catalog_inv_def cross_ok_def)
  moreover have "evolves db ?X"
  proof -
    obtain rs ts where e: "c_runs db' = rs @ drop (length rs) (c_runs db')" "list_all2 run_evolves (c_runs db) rs"
        "c_run_targets db' = ts @ drop (length ts) (c_run_targets db')" "list_all2 target_evolves (c_run_targets db) ts"
      using g by (auto simp: good_def evolves_def)
    show ?thesis
      by (rule evolves_intro [of _ rs "drop (length rs) (c_runs db')" _ ts "drop (length ts) (c_run_targets db') @ [t]"])
        (use e in \<open>simp_all flip: append_assoc\<close>)
  qed
  ultimately show ?thesis using inv ok by (simp add: good_def catalog_inv_def)
qed

lemma insert_targets_good:
  assumes "good db db'" "list_all (\<lambda>t. tr_state t = RunTargetState.PENDING \<and> target_state_ok t \<and> tr_finished_utc t = None
      \<and> tr_completed_operations t = 0 \<and> tr_completed_bytes t = 0 \<and> tr_run_id t = i) ts"
    "\<And>r. r \<in> set (c_runs db') \<Longrightarrow> rr_id r = i \<Longrightarrow> rr_state r \<in> {RunState.CREATED, RunState.QUEUED}"
  shows "good db (snd (insert_targets ts db'))"
  using assms
proof (induction ts arbitrary: db')
  case (Cons t ts)
  have "good db (db'\<lparr>c_run_targets := c_run_targets db' @ [t]\<rparr>)" if "target_constraints db' t"
  proof (rule insert_target_good [OF Cons.prems(1) that])
    show "target_ok t"
      using Cons.prems(2) that by (simp add: target_ok_def target_constraints_def OPEN_TARGET_STATES_def)
  qed (use Cons.prems in auto)
  note t = this
  show ?case
  proof (cases "target_constraints db' t")
    case True
    have "good db (snd (insert_targets ts (db'\<lparr>c_run_targets := c_run_targets db' @ [t]\<rparr>)))"
      by (rule Cons.IH [OF t [OF True]]) (use Cons.prems in auto)
    with True show ?thesis by simp
  qed (use Cons.prems in simp)
qed simp

lemma save_started_run_good:
  assumes inv: "catalog_inv db" and f: "fresh_run run"
  shows "good db (snd (db_save_started_run outer now run db))"
proof (cases "run_constraints db (run_row_of now run)")
  case True
  let ?r = "run_row_of now run"
  let ?X = "db\<lparr>c_runs := c_runs db @ [?r]\<rparr>"
  have "run_ok ?r"
    using f by (auto simp: run_ok_def run_row_of_def fresh_run_def TERMINAL_RUN_STATES_def
        simp del: wf_json.simps intro: json_object_ok_dumps)
  then have X: "good db ?X" by (rule insert_run_good [OF inv True])
  have "good db (snd (insert_targets (map (target_row_of (sr_run_id run)) (sr_targets run)) ?X))"
  proof (rule insert_targets_good [OF X, of "sr_run_id run"])
    show "list_all (\<lambda>t. tr_state t = RunTargetState.PENDING \<and> target_state_ok t \<and> tr_finished_utc t = None
      \<and> tr_completed_operations t = 0 \<and> tr_completed_bytes t = 0 \<and> tr_run_id t = sr_run_id run)
      (map (target_row_of (sr_run_id run)) (sr_targets run))"
      using f by (auto simp: list_all_iff fresh_run_def target_row_of_def target_state_ok_def no_lease_def)
    fix r assume "r \<in> set (c_runs ?X)" "rr_id r = sr_run_id run"
    moreover have "rr_id r \<in> rr_id ` set (c_runs db)" if "r \<in> set (c_runs db)" using that by simp
    moreover have "sr_run_id run \<notin> rr_id ` set (c_runs db)"
      using True by (simp add: run_constraints_def run_row_of_def)
    ultimately have "r = ?r" by auto
    then show "rr_state r \<in> {RunState.CREATED, RunState.QUEUED}"
      using f by (simp add: run_row_of_def fresh_run_def)
  qed
  then show ?thesis
    using True good_refl [OF inv]
    by (auto simp: db_save_started_run_def Let_def give_up_def split: prod.split bool.split)
next
  case False
  then show ?thesis using good_refl [OF inv] by (simp add: db_save_started_run_def Let_def give_up_def)
qed

section \<open>One target\<close>

text \<open>A statement that names one target by its key changes at most one row.\<close>

lemma target_count_le_1:
  assumes "catalog_inv db"
  shows "sql_count (\<lambda>t. tr_run_id t = i \<and> tr_id t = j \<and> p t) (c_run_targets db) \<le> 1"
  using assms by (intro sql_count_key_le_1 [of tr_id _ _ j]) (auto simp: catalog_inv_def target_keys_ok_def)

lemma target_miss:
  assumes "catalog_inv db" "sql_count (\<lambda>t. tr_run_id t = i \<and> tr_id t = j \<and> p t) (c_run_targets db) \<noteq> Suc 0"
  shows "update_targets (\<lambda>t. tr_run_id t = i \<and> tr_id t = j \<and> p t) f db = db"
  using target_count_le_1 [OF assms(1), of i j p] assms(2) by (simp add: update_targets_def sql_update_no_match)

lemma target_move_acquiring:
  "tr_state t = RunTargetState.PENDING \<Longrightarrow>
   target_move t (t\<lparr>tr_state := RunTargetState.ACQUIRING_LEASE, tr_started_utc := u\<rparr>)"
  by (auto simp: target_move_def target_ok_def target_state_ok_def no_lease_def target_identity_def
      clear_lease_def OPEN_TARGET_STATES_def target_edge_def)

lemma target_move_lease:
  assumes "owner_accepts t owner epoch"
  shows "tr_state t = RunTargetState.ACQUIRING_LEASE \<Longrightarrow>
      target_move t ((set_lease lease_id epoch token t)\<lparr>tr_state := RunTargetState.REVALIDATING\<rparr>)"
    "tr_state t \<in> {RunTargetState.REVALIDATING, RunTargetState.EXECUTING} \<Longrightarrow>
      target_move t (set_lease lease_id epoch token t)"
  using assms
  by (auto simp: target_move_def target_ok_def target_state_ok_def has_lease_def target_identity_def
      clear_lease_def set_lease_def owner_accepts_def OPEN_TARGET_STATES_def target_edge_def
      split: option.splits)

lemma target_move_executing:
  "tr_state t = RunTargetState.REVALIDATING \<Longrightarrow> target_move t (t\<lparr>tr_state := RunTargetState.EXECUTING\<rparr>)"
  by (auto simp: target_move_def target_ok_def target_state_ok_def has_lease_def target_identity_def
      clear_lease_def OPEN_TARGET_STATES_def target_edge_def)

lemma target_move_requeue:
  "tr_state t = RunTargetState.WAITING_FOR_ENDPOINT \<Longrightarrow>
   target_move t (t\<lparr>tr_state := RunTargetState.PENDING, tr_result_json := j\<rparr>)"
  by (auto simp: target_move_def target_ok_def target_state_ok_def no_lease_def target_identity_def
      clear_lease_def OPEN_TARGET_STATES_def target_edge_def)

lemma begin_preflight_good:
  assumes inv: "catalog_inv db"
  shows "good db (snd (db_begin_run_target_preflight outer now run_id run_target_id db))"
proof -
  let ?claimable = "[RunState.QUEUED, RunState.PREFLIGHT, RunState.EXECUTING]"
  let ?p = "\<lambda>t. tr_run_id t = run_id \<and> tr_id t = run_target_id \<and> tr_state t = RunTargetState.PENDING
            \<and> (case tr_lease_resource_key t of None \<Rightarrow> False | Some k \<Rightarrow> sql_trim k \<noteq> [])
            \<and> run_in db (tr_run_id t) ?claimable"
  have "good db (update_runs (\<lambda>r. rr_id r = run_id \<and> rr_state r \<in> set ?claimable) (\<lambda>r. r\<lparr>rr_state :=
          (if rr_state r = RunState.EXECUTING then RunState.EXECUTING else RunState.PREFLIGHT)\<rparr>)
      (update_targets ?p (\<lambda>t. t\<lparr>tr_state := RunTargetState.ACQUIRING_LEASE,
          tr_started_utc := coalesce (tr_started_utc t) now\<rparr>) db))"
    unfolding good_def
  proof (rule update_good [OF inv], goal_cases)
    case (3 r t)
    then show ?case using run_of_target [OF inv 3(1,3)] by (auto simp: compat_def)
  qed (auto simp: run_edge_def state_lists intro!: run_move_state target_move_acquiring)
  with good_refl [OF inv] target_miss [OF inv] show ?thesis
    unfolding db_begin_run_target_preflight_def Let_def by (simp add: ends)
qed

lemma lease_acquired_good:
  assumes inv: "catalog_inv db"
  shows "good db (snd (db_record_run_target_lease_acquired outer run_id run_target_id lease_id owner epoch token db))"
proof -
  have "good db (update_targets (\<lambda>t. tr_run_id t = run_id \<and> tr_id t = run_target_id
            \<and> tr_state t = RunTargetState.ACQUIRING_LEASE \<and> owner_accepts t owner epoch
            \<and> run_in db (tr_run_id t) [RunState.PREFLIGHT, RunState.EXECUTING])
            (\<lambda>t. (set_lease lease_id epoch token t)\<lparr>tr_state := RunTargetState.REVALIDATING\<rparr>) db)"
    unfolding good_def
  proof (rule update_targets_good [OF inv], goal_cases)
    case (2 r t)
    then show ?case using run_of_target [OF inv 2(1,3)] by (auto simp: compat_def)
  qed (auto intro!: target_move_lease)
  with good_refl [OF inv] show ?thesis
    unfolding db_record_run_target_lease_acquired_def Let_def by (simp add: ends)
qed

lemma lease_reacquired_good:
  assumes inv: "catalog_inv db"
  shows "good db (snd (db_record_run_target_lease_reacquired outer run_id run_target_id expected_lease_id
    expected_epoch expected_token lease_id owner epoch token db))"
proof -
  have "good db (update_targets (\<lambda>t. tr_run_id t = run_id \<and> tr_id t = run_target_id
            \<and> tr_state t \<in> set [RunTargetState.REVALIDATING, RunTargetState.EXECUTING]
            \<and> Q t \<and> owner_accepts t owner epoch \<and> P t) (set_lease lease_id epoch token) db)" for P Q
    unfolding good_def
    by (rule update_targets_good [OF inv]) (auto simp: set_lease_def intro!: target_move_lease [unfolded set_lease_def])
  with good_refl [OF inv] show ?thesis
    unfolding db_record_run_target_lease_reacquired_def Let_def by (simp add: ends)
qed

lemma execution_started_good:
  assumes inv: "catalog_inv db"
  shows "good db (snd (db_record_run_target_execution_started outer run_id run_target_id lease_id owner epoch token db))"
proof -
  let ?p = "\<lambda>t. tr_run_id t = run_id \<and> tr_id t = run_target_id
            \<and> tr_state t = RunTargetState.REVALIDATING \<and> lease_is t lease_id epoch token
            \<and> owner_accepts t owner epoch
            \<and> run_in db (tr_run_id t) [RunState.PREFLIGHT, RunState.EXECUTING]"
  have "good db (update_runs (\<lambda>r. rr_id r = run_id \<and> rr_state r \<in> set [RunState.PREFLIGHT, RunState.EXECUTING])
      (\<lambda>r. r\<lparr>rr_state := RunState.EXECUTING\<rparr>)
      (update_targets ?p (\<lambda>t. t\<lparr>tr_state := RunTargetState.EXECUTING\<rparr>) db))"
    unfolding good_def
  proof (rule update_good [OF inv], goal_cases)
    case (3 r t)
    then show ?case using run_of_target [OF inv 3(1,3)] by (auto simp: compat_def)
  qed (auto simp: run_edge_def state_lists intro!: run_move_state target_move_executing)
  with good_refl [OF inv] target_miss [OF inv] show ?thesis
    unfolding db_record_run_target_execution_started_def Let_def by (simp add: ends)
qed

section \<open>Completion\<close>

lemma complete_target_good:
  assumes inv: "catalog_inv db"
    and f: "\<And>t. tr_state t = RunTargetState.EXECUTING \<Longrightarrow> extra t \<Longrightarrow> target_move t (f t)"
    and finish: "\<And>db1 r. rr_state r = RunState.EXECUTING \<Longrightarrow> run_move r (finish db1 r)"
    and compat: "\<And>db1 r t. t \<in> set (c_run_targets db1) \<Longrightarrow> tr_run_id t = rr_id r \<Longrightarrow> rr_state r = RunState.EXECUTING \<Longrightarrow>
        compat (rr_state (finish db1 r)) (tr_state t)"
  shows "good db (snd (complete_target outer run_id run_target_id extra f finish db))"
proof -
  let ?p = "\<lambda>t. tr_run_id t = run_id \<and> tr_id t = run_target_id \<and> tr_state t = RunTargetState.EXECUTING
            \<and> extra t \<and> run_in db (tr_run_id t) [RunState.EXECUTING]"
  let ?db1 = "update_targets ?p f db"
  have "good db (update_runs (\<lambda>r. rr_id r = run_id \<and> rr_state r = RunState.EXECUTING) (finish ?db1) ?db1)"
    unfolding good_def
  proof (rule update_good [OF inv], goal_cases)
    case (1 t)
    then show ?case using f by blast
  next
    case (2 r)
    then show ?case using finish by blast
  next
    case (3 r t)
    let ?u = "if ?p t then (f t)\<lparr>tr_row_version := tr_row_version t + 1\<rparr> else t"
    have cols: "c_run_targets ?db1 =
        map (\<lambda>t. if ?p t then (f t)\<lparr>tr_row_version := tr_row_version t + 1\<rparr> else t) (c_run_targets db)"
      by (simp add: update_targets_def sql_update_def)
    have u: "?u \<in> set (c_run_targets ?db1)" unfolding cols set_map by (rule image_eqI [OF refl 3(2)])
    have "tr_run_id ?u = rr_id r" "tr_state ?u = tr_state (if ?p t then f t else t)"
      using 3(3) f [of t] target_identity_keys(2) [of "f t" t] by (auto simp: target_move_def)
    then show ?case
      using compat [OF u, of r] run_of_target [OF inv 3(1,3), of "[RunState.EXECUTING]"] 3(3,4) by auto
  qed
  with good_refl [OF inv] target_miss [OF inv] show ?thesis
    unfolding complete_target_def Let_def by (simp add: ends)
qed

lemma target_move_terminal:
  assumes "tr_state t = RunTargetState.EXECUTING"
    "s = RunTargetState.SUCCEEDED \<and> ops = tr_planned_operations t \<and> bytes = tr_planned_bytes t
     \<or> s = RunTargetState.SUCCEEDED_WITH_WARNINGS \<and> 0 \<le> ops \<and> ops < tr_planned_operations t \<and> 0 \<le> bytes \<and> bytes \<le> tr_planned_bytes t
     \<or> s \<in> {RunTargetState.RECOVERY_REQUIRED, RunTargetState.CANCELLED} \<and> ops = tr_completed_operations t \<and> bytes = tr_completed_bytes t"
  shows "target_move t (t\<lparr>tr_state := s, tr_completed_operations := ops, tr_completed_bytes := bytes,
      tr_warning_count := w, tr_error_count := e, tr_result_json := j, tr_finished_utc := coalesce u n\<rparr>)"
  using assms
  by (auto simp: target_move_def target_ok_def target_state_ok_def has_lease_def target_identity_def
      clear_lease_def OPEN_TARGET_STATES_def target_edge_def)

lemma finish_run_move:
  assumes "rr_state r = RunState.EXECUTING"
    "next_state db r \<in> {RunState.COMPLETED, RunState.COMPLETED_WITH_WARNINGS, RunState.PARTIAL_FAILURE, RunState.CANCELLED}"
  shows "run_move r ((finish_run now next_state db r)\<lparr>rr_warning_count := w, rr_error_count := e\<rparr>)"
proof (cases "target_in db (rr_id r) OPEN_TARGET_STATES")
  case True
  then show ?thesis using assms
    by (auto simp: finish_run_def run_move_def run_ok_def run_identity_def TERMINAL_RUN_STATES_def)
next
  case False
  obtain n where n: "coalesce (rr_finished_utc r) now = Some n" using coalesce_Some(2) by blast
  show ?thesis
    using assms False run_move_finish [where s = "next_state db r" and r = r and j = "rr_summary_json r" and n = n and w = w and e = e]
    by (auto simp: finish_run_def n run_edge_def TERMINAL_RUN_STATES_def)
qed

lemma finish_run_move_plain:
  assumes "rr_state r = RunState.EXECUTING"
    "next_state db r \<in> {RunState.COMPLETED, RunState.COMPLETED_WITH_WARNINGS, RunState.PARTIAL_FAILURE, RunState.CANCELLED}"
  shows "run_move r (finish_run now next_state db r)"
    "run_move r ((finish_run now next_state db r)\<lparr>rr_warning_count := w\<rparr>)"
    "run_move r ((finish_run now next_state db r)\<lparr>rr_error_count := e\<rparr>)"
proof -
  have k: "rr_warning_count (finish_run now next_state db r) = rr_warning_count r"
      "rr_error_count (finish_run now next_state db r) = rr_error_count r"
    by (simp_all add: finish_run_def)
  note m = finish_run_move [where r = r and db = db and next_state = next_state and now = now, OF assms]
  show "run_move r (finish_run now next_state db r)"
    using m [where w = "rr_warning_count r" and e = "rr_error_count r"] k
    by (cases "finish_run now next_state db r") simp
  show "run_move r ((finish_run now next_state db r)\<lparr>rr_warning_count := w\<rparr>)"
    using m [where w = w and e = "rr_error_count r"] k by (cases "finish_run now next_state db r") simp
  show "run_move r ((finish_run now next_state db r)\<lparr>rr_error_count := e\<rparr>)"
    using m [where w = "rr_warning_count r" and e = e] k by (cases "finish_run now next_state db r") simp
qed

lemma finish_run_compat:
  assumes "t \<in> set (c_run_targets db)" "tr_run_id t = rr_id r" "rr_state r = RunState.EXECUTING"
    "next_state db r \<in> {RunState.COMPLETED_WITH_WARNINGS, RunState.PARTIAL_FAILURE, RunState.CANCELLED}
     \<or> next_state db r = RunState.COMPLETED \<and> \<not> target_not_in db (rr_id r) [RunTargetState.SUCCEEDED]"
  shows "compat (rr_state (finish_run now next_state db r)) (tr_state t)"
  using assms by (auto simp: finish_run_def compat_def target_in_def target_not_in_def list_ex_iff)

lemma succeeded_good:
  assumes inv: "catalog_inv db"
  shows "good db (snd (db_record_run_target_succeeded outer now run_id run_target_id ops bytes db))"
  unfolding db_record_run_target_succeeded_def
proof (rule complete_target_good [OF inv], goal_cases)
  case (1 t)
  then show ?case
    using target_move_terminal [where t = t and s = RunTargetState.SUCCEEDED and ops = ops and bytes = bytes
        and w = "tr_warning_count t" and e = "tr_error_count t" and j = "tr_result_json t" and u = "tr_finished_utc t" and n = now]
    by simp
next
  case (2 db1 r)
  then show ?case by (intro finish_run_move_plain) (auto simp: succeeded_next_state_def)
next
  case (3 db1 r t)
  then show ?case by (intro finish_run_compat) (auto simp: succeeded_next_state_def)
qed

lemma succeeded_with_warnings_good:
  assumes inv: "catalog_inv db"
  shows "good db (snd (db_record_run_target_succeeded_with_warnings outer now run_id run_target_id ops bytes
    skipped_ops skipped_bytes code db))"
proof (cases "ops < 0 \<or> bytes < 0 \<or> skipped_ops < 1 \<or> skipped_bytes < 0 \<or> strip code = []")
  case True
  then show ?thesis
    using good_refl [OF inv] by (auto simp: db_record_run_target_succeeded_with_warnings_def Let_def)
next
  case False
  have "good db (snd (complete_target outer run_id run_target_id
        (\<lambda>t. tr_planned_operations t = ops + skipped_ops \<and> tr_planned_bytes t = bytes + skipped_bytes)
        (\<lambda>t. t\<lparr>tr_state := RunTargetState.SUCCEEDED_WITH_WARNINGS,
               tr_completed_operations := ops, tr_completed_bytes := bytes,
               tr_warning_count := tr_warning_count t + skipped_ops, tr_result_json := j,
               tr_finished_utc := coalesce (tr_finished_utc t) now\<rparr>)
        (\<lambda>db r. (finish_run now warned_next_state db r)\<lparr>rr_warning_count := rr_warning_count r + skipped_ops\<rparr>)
        db))" for j
  proof (rule complete_target_good [OF inv], goal_cases)
    case (1 t)
    then show ?case
      using False target_move_terminal [where t = t and s = RunTargetState.SUCCEEDED_WITH_WARNINGS and ops = ops and bytes = bytes
          and w = "tr_warning_count t + skipped_ops" and e = "tr_error_count t" and j = j and u = "tr_finished_utc t" and n = now]
      by simp
  next
    case (2 db1 r)
    then show ?case by (intro finish_run_move_plain) (auto simp: warned_next_state_def)
  next
    case (3 db1 r t)
    then show ?case using finish_run_compat [OF 3, of warned_next_state now] by (auto simp: warned_next_state_def)
  qed
  then show ?thesis using False by (simp add: db_record_run_target_succeeded_with_warnings_def Let_def)
qed

lemma recovery_required_good:
  assumes inv: "catalog_inv db"
  shows "good db (snd (db_record_run_target_recovery_required outer now run_id run_target_id code db))"
proof -
  have "good db (snd (complete_target outer run_id run_target_id (\<lambda>_. True)
        (\<lambda>t. t\<lparr>tr_state := RunTargetState.RECOVERY_REQUIRED, tr_error_count := tr_error_count t + 1,
               tr_result_json := j, tr_finished_utc := coalesce (tr_finished_utc t) now\<rparr>)
        (\<lambda>_ r. r\<lparr>rr_state := RunState.RECOVERY_REQUIRED, rr_error_count := rr_error_count r + 1,
                 rr_finished_utc := coalesce (rr_finished_utc r) now\<rparr>) db))" for j
  proof (rule complete_target_good [OF inv], goal_cases)
    case (1 t)
    then show ?case
      using target_move_terminal [where t = t and s = RunTargetState.RECOVERY_REQUIRED and ops = "tr_completed_operations t"
          and bytes = "tr_completed_bytes t" and w = "tr_warning_count t" and e = "tr_error_count t + 1" and j = j
          and u = "tr_finished_utc t" and n = now]
      by simp
  next
    case (2 db1 r)
    then show ?case
      by (auto simp: run_move_def run_ok_def run_identity_def run_edge_def TERMINAL_RUN_STATES_def)
  next
    case (3 db1 r t)
    then show ?case by (simp add: compat_def)
  qed
  then show ?thesis using good_refl [OF inv] by (simp add: db_record_run_target_recovery_required_def Let_def)
qed

lemma cancelled_good:
  assumes inv: "catalog_inv db"
  shows "good db (snd (db_record_run_target_cancelled outer now run_id run_target_id code db))"
proof -
  have "good db (snd (complete_target outer run_id run_target_id (\<lambda>_. True)
        (\<lambda>t. t\<lparr>tr_state := RunTargetState.CANCELLED, tr_error_count := tr_error_count t + 1,
               tr_result_json := j, tr_finished_utc := coalesce (tr_finished_utc t) now\<rparr>)
        (\<lambda>db r. (finish_run now cancelled_next_state db r)\<lparr>rr_error_count := rr_error_count r + 1\<rparr>) db))" for j
  proof (rule complete_target_good [OF inv], goal_cases)
    case (1 t)
    then show ?case
      using target_move_terminal [where t = t and s = RunTargetState.CANCELLED and ops = "tr_completed_operations t"
          and bytes = "tr_completed_bytes t" and w = "tr_warning_count t" and e = "tr_error_count t + 1" and j = j
          and u = "tr_finished_utc t" and n = now]
      by simp
  next
    case (2 db1 r)
    then show ?case by (intro finish_run_move_plain) (auto simp: cancelled_next_state_def)
  next
    case (3 db1 r t)
    then show ?case using finish_run_compat [OF 3, of cancelled_next_state now] by (auto simp: cancelled_next_state_def)
  qed
  then show ?thesis using good_refl [OF inv] by (simp add: db_record_run_target_cancelled_def Let_def)
qed

section \<open>Waiting\<close>

lemma waits_good:
  assumes "good db db'" "wait_keys_ok (db'\<lparr>c_wait_events := es, c_wait_event_seq := n\<rparr>)"
  shows "good db (db'\<lparr>c_wait_events := es, c_wait_event_seq := n\<rparr>)"
  using assms
  by (simp add: good_def catalog_inv_def run_keys_ok_def target_keys_ok_def stop_keys_ok_def cross_ok_def evolves_def)

lemma wait_keys_append:
  assumes "wait_keys_ok db" "wait_constraints db e" "we_id e = c_wait_event_seq db + 1"
  shows "wait_keys_ok (db\<lparr>c_wait_events := c_wait_events db @ [e], c_wait_event_seq := we_id e\<rparr>)"
proof -
  have "we_id e \<notin> we_id ` set (c_wait_events db)"
    using assms(1,3) by (auto simp: wait_keys_ok_def list_all_iff)
  moreover have "(we_run_id e, we_run_target_id e, we_attempt_no e) \<notin>
      (\<lambda>e. (we_run_id e, we_run_target_id e, we_attempt_no e)) ` set (c_wait_events db)"
    using assms(2) unfolding wait_constraints_def by (metis list.set_map)
  ultimately show ?thesis
    using assms by (auto simp: wait_keys_ok_def wait_constraints_def list_all_iff ENDPOINT_RETRY_MAX_MS_def)
qed

lemma waiting_good:
  assumes inv: "catalog_inv db"
  shows "good db (fst (snd (db_record_run_target_waiting_for_endpoint outer clock run_id run_target_id expected reason (db, dl))))"
proof -
  let ?p = "\<lambda>t. tr_run_id t = run_id \<and> tr_id t = run_target_id \<and> tr_state t = expected
                    \<and> run_in db (tr_run_id t) [RunState.PREFLIGHT, RunState.EXECUTING]"
  have g: "good db (update_targets ?p (\<lambda>t. (clear_lease t)\<lparr>tr_state := RunTargetState.WAITING_FOR_ENDPOINT,
      tr_result_json := j\<rparr>) db)"
    if e: "expected \<in> set [RunTargetState.ACQUIRING_LEASE, RunTargetState.REVALIDATING, RunTargetState.EXECUTING]" for j
    unfolding good_def
  proof (rule update_targets_good [OF inv], goal_cases)
    case (1 t)
    then show ?case using e by (intro target_move_unleased) (auto simp: target_edge_def OPEN_TARGET_STATES_def)
  next
    case (2 r t)
    then show ?case using run_of_target [OF inv 2(1,3)] e by (auto simp: compat_def)
  qed
  have w: "good db (db1\<lparr>c_wait_events := c_wait_events db1 @ [e], c_wait_event_seq := c_wait_event_seq db1 + 1\<rparr>)"
    if "good db db1" "wait_constraints db1 e" "we_id e = c_wait_event_seq db1 + 1" for db1 e
  proof -
    have "wait_keys_ok db1" using that(1) by (simp add: good_def catalog_inv_def)
    from waits_good [OF that(1) wait_keys_append [OF this that(2,3)]] show ?thesis using that(3) by simp
  qed
  have t: "good db (fst (snd (case return_target b db db2 run_id run_target_id of
              (Inr (Some target), db3) \<Rightarrow>
                (case retry_activate i timing dl of Inl _ \<Rightarrow> (x, db3, dl) | Inr dl' \<Rightarrow> (Inr (Some target), db3, dl'))
            | (r, db3) \<Rightarrow> (r, db3, dl))))"
    if "good db db2" for db2 i timing x b
    using good_return_target [OF good_refl [OF inv] that, of b run_id run_target_id]
    by (auto split: prod.split sum.split option.split)
  show ?thesis
    using g good_refl [OF inv]
    by (auto simp: db_record_run_target_waiting_for_endpoint_def Let_def simp del: set_simps
        split: sum.split intro!: t w)
qed

lemma requeue_good:
  assumes inv: "catalog_inv db"
  shows "good db (fst (snd (db_requeue_next_due_waiting_run_target outer clock (db, dl))))"
proof -
  have g: "good db (update_targets (\<lambda>u. tr_run_id u = i \<and> tr_id u = j \<and> tr_state u = RunTargetState.WAITING_FOR_ENDPOINT)
      (\<lambda>u. u\<lparr>tr_state := RunTargetState.PENDING, tr_result_json := None\<rparr>) db)" for i j
    unfolding good_def
  proof (rule update_targets_good [OF inv], goal_cases)
    case (2 r t)
    then show ?case by (auto simp: compat_def OPEN_TARGET_STATES_def split: RunState.splits)
  qed (auto intro: target_move_requeue)
  have t: "good db (fst (snd (case return_target outer db db2 i j of
              (Inr (Some target), db3) \<Rightarrow> (Inr (Some target), db3, dl1)
            | (r, db3) \<Rightarrow> (r, db3, dl2))))"
    if "good db db2" for db2 i j dl1 dl2
    using good_return_target [OF good_refl [OF inv] that, of outer i j]
    by (auto split: prod.split sum.split option.split)
  obtain x dl' where f: "first_due clock (retry_candidates db) dl = (x, dl')" by fastforce
  consider "\<exists>e. x = Inl e" | "x = Inr None" | u e where "x = Inr (Some (u, e))"
    by (metis option.exhaust sum.exhaust surj_pair)
  then show ?thesis
  proof cases
    case 3
    then show ?thesis
      using g [of "tr_run_id u" "tr_id u"] good_refl [OF inv]
      by (simp add: db_requeue_next_due_waiting_run_target_def Let_def f t)
  qed (use f good_refl [OF inv] in \<open>auto simp: db_requeue_next_due_waiting_run_target_def\<close>)
qed

end
