(* ===== verification/Run_Steps.thy ===== *)
theory Run_Steps
  imports Run_Target_Safety
begin

text \<open>
  The run store as a transition system.  A state is the catalog with the retry deadlines held in
  memory.  Every operation may be called with any arguments, inside a caller's transaction that is
  later committed (\<open>outer = True\<close>) or on its own; a restart of the process forgets the deadlines.
  The only assumption on the caller is that the runs it saves have not started, which is what
  \<open>start_run_from_sealed_plan\<close> saves.
\<close>

type_synonym store_state = "catalog \<times> deadlines"

inductive store_step :: "store_state \<Rightarrow> store_state \<Rightarrow> bool" where
  save_started_run: "fresh_run run \<Longrightarrow>
    store_step (db, dl) (snd (db_save_started_run outer now run db), dl)"
| release_created_run: "store_step (db, dl) (snd (db_release_created_run outer run_id db), dl)"
| request_run_pause: "store_step (db, dl) (snd (db_request_run_pause outer run_id db), dl)"
| finalize_requested_run_pause: "store_step (db, dl) (snd (db_finalize_requested_run_pause outer run_id db), dl)"
| resume_paused_run: "store_step (db, dl) (snd (db_resume_paused_run outer run_id db), dl)"
| request_run_stop: "store_step (db, dl) (snd (db_request_run_stop_after_active_file outer now run_id db), dl)"
| bind_requested_run_stop_boundary:
    "store_step (db, dl) (snd (db_bind_requested_run_stop_boundary outer run_id target_id operation_id db), dl)"
| activate_requested_run_stop: "store_step (db, dl) (snd (db_activate_requested_run_stop outer run_id db), dl)"
| finalize_requested_run_stop:
    "store_step (db, dl) (snd (db_finalize_requested_run_stop outer now run_id progress db), dl)"
| begin_run_target_preflight:
    "store_step (db, dl) (snd (db_begin_run_target_preflight outer now run_id target_id db), dl)"
| record_run_target_waiting_for_endpoint:
    "store_step s (snd (db_record_run_target_waiting_for_endpoint outer clock run_id target_id expected reason s))"
| requeue_next_due_waiting_run_target:
    "store_step s (snd (db_requeue_next_due_waiting_run_target outer clock s))"
| record_run_target_lease_acquired:
    "store_step (db, dl)
       (snd (db_record_run_target_lease_acquired outer run_id target_id lease_id owner epoch token db), dl)"
| record_run_target_lease_reacquired:
    "store_step (db, dl)
       (snd (db_record_run_target_lease_reacquired outer run_id target_id old_lease old_epoch old_token
              lease_id owner epoch token db), dl)"
| record_run_target_execution_started:
    "store_step (db, dl)
       (snd (db_record_run_target_execution_started outer run_id target_id lease_id owner epoch token db), dl)"
| record_run_target_succeeded:
    "store_step (db, dl) (snd (db_record_run_target_succeeded outer now run_id target_id ops bytes db), dl)"
| record_run_target_succeeded_with_warnings:
    "store_step (db, dl)
       (snd (db_record_run_target_succeeded_with_warnings outer now run_id target_id ops bytes
              skipped_ops skipped_bytes code db), dl)"
| record_run_target_recovery_required:
    "store_step (db, dl) (snd (db_record_run_target_recovery_required outer now run_id target_id code db), dl)"
| record_run_target_cancelled:
    "store_step (db, dl) (snd (db_record_run_target_cancelled outer now run_id target_id code db), dl)"
| restart: "store_step (db, dl) (db, Map.empty)"

inductive_cases store_stepE: "store_step s s'"

inductive reachable :: "store_state \<Rightarrow> bool" where
  reachable_init: "c_runs db = [] \<Longrightarrow> c_run_targets db = [] \<Longrightarrow> c_run_stop_requests db = [] \<Longrightarrow>
    c_wait_events db = [] \<Longrightarrow> c_wait_event_seq db = 0 \<Longrightarrow> reachable (db, Map.empty)"
| reachable_step: "reachable s \<Longrightarrow> store_step s s' \<Longrightarrow> reachable s'"

lemmas store_operations_good =
  save_started_run_good release_created_run_good request_run_pause_good finalize_requested_run_pause_good
  resume_paused_run_good request_stop_good bind_stop_boundary_good activate_stop_good finalize_stop_good
  begin_preflight_good lease_acquired_good lease_reacquired_good execution_started_good succeeded_good
  succeeded_with_warnings_good recovery_required_good cancelled_good good_refl

lemma store_step_good:
  assumes "store_step s s'" "catalog_inv (fst s)"
  shows "good (fst s) (fst s')"
  using assms
proof (induction rule: store_step.induct)
  case (record_run_target_waiting_for_endpoint s outer clock run_id target_id expected reason)
  then show ?case using waiting_good [of "fst s" outer clock run_id target_id expected reason "snd s"] by simp
next
  case (requeue_next_due_waiting_run_target s outer clock)
  then show ?case using requeue_good [of "fst s" outer clock "snd s"] by simp
qed (simp_all add: store_operations_good)

lemma reachable_catalog_inv: "reachable s \<Longrightarrow> catalog_inv (fst s)"
proof (induction rule: reachable.induct)
  case (reachable_init db)
  then show ?case
    by (simp add: catalog_inv_def keys_defs cross_ok_def)
next
  case (reachable_step s s')
  then show ?case using store_step_good [of s s'] by (simp add: good_def)
qed

section \<open>Consequences\<close>

lemma inv_row:
  assumes "catalog_inv db"
  shows "r \<in> set (c_runs db) \<Longrightarrow> run_ok r" "t \<in> set (c_run_targets db) \<Longrightarrow> target_ok t"
    "r \<in> set (c_runs db) \<Longrightarrow> t \<in> set (c_run_targets db) \<Longrightarrow> tr_run_id t = rr_id r \<Longrightarrow>
     compat (rr_state r) (tr_state t)"
  using assms by (auto simp: catalog_inv_def list_all_iff cross_ok_def)

lemma evolves_run:
  assumes "evolves db db'" "r \<in> set (c_runs db)"
  obtains r' where "r' \<in> set (c_runs db')" "run_evolves r r'"
proof -
  obtain rs where rs: "c_runs db' = rs @ drop (length rs) (c_runs db')" "list_all2 run_evolves (c_runs db) rs"
    using assms(1) by (auto simp: evolves_def)
  then obtain r' where "r' \<in> set rs" "run_evolves r r'"
    using assms(2) by (metis in_set_conv_nth list_all2_conv_all_nth)
  moreover have "r' \<in> set (c_runs db')" using rs(1) calculation(1) by (metis UnCI set_append)
  ultimately show ?thesis using that by blast
qed

lemma evolves_target:
  assumes "evolves db db'" "t \<in> set (c_run_targets db)"
  obtains t' where "t' \<in> set (c_run_targets db')" "target_evolves t t'"
proof -
  obtain ts where ts: "c_run_targets db' = ts @ drop (length ts) (c_run_targets db')"
      "list_all2 target_evolves (c_run_targets db) ts"
    using assms(1) by (auto simp: evolves_def)
  then obtain t' where "t' \<in> set ts" "target_evolves t t'"
    using assms(2) by (metis in_set_conv_nth list_all2_conv_all_nth)
  moreover have "t' \<in> set (c_run_targets db')" using ts(1) calculation(1) by (metis UnCI set_append)
  ultimately show ?thesis using that by blast
qed

end
