(* ===== verification/Run_Start_Handoff.thy ===== *)
theory Run_Start_Handoff
  imports Handoff_Store Run_Steps
begin

text \<open>
  \<open>CrossStoreRunStartCoordinator\<close> of \<open>application/cross_store_handoffs.py\<close>: how the start of a run is handed
  from the catalog to the recovery database.  A handoff is recorded with the run; the recovery database binds the
  run and records its copy; the catalog releases the run and accepts the command; both records are completed.
  Every step is a transaction of one database, and a crash can come between any two.

  A call reads the time once.  The coordinator is called while no transaction is open, except for
  \<open>prepare_run_start\<close>, which runs in the transaction that creates the run.
\<close>

section \<open>The two databases\<close>

record handoff_catalog =
  hc_runs :: catalog
  hc_receipts :: receipt_tables
  hc_outbox :: outbox_tables
  hc_handoffs :: handoffs

record handoff_stores =
  hs_catalog :: handoff_catalog
  hs_recovery :: handoff_recovery

type_synonym 'a catalog_call = "(handoff_catalog, 'a) store_call"
type_synonym 'a stores_call = "(handoff_stores, 'a) store_call"

definition on_runs :: "(catalog \<Rightarrow> 'a result \<times> catalog) \<Rightarrow> 'a catalog_call" where
  "on_runs call c =
     (case call (hc_runs c) of
        (Inl code, db) \<Rightarrow> (Inl (Run_Store_Error code), c\<lparr>hc_runs := db\<rparr>)
      | (Inr v, db) \<Rightarrow> (Inr v, c\<lparr>hc_runs := db\<rparr>))"

definition on_receipts :: "(receipt_tables, 'a) store_call \<Rightarrow> 'a catalog_call" where
  "on_receipts call c = (let (r, t) = call (hc_receipts c) in (r, c\<lparr>hc_receipts := t\<rparr>))"

definition on_outbox :: "(outbox_tables, 'a) store_call \<Rightarrow> 'a catalog_call" where
  "on_outbox call c = (let (r, t) = call (hc_outbox c) in (r, c\<lparr>hc_outbox := t\<rparr>))"

definition on_catalog_handoffs :: "(handoffs, 'a) store_call \<Rightarrow> 'a catalog_call" where
  "on_catalog_handoffs call c = (let (r, t) = call (hc_handoffs c) in (r, c\<lparr>hc_handoffs := t\<rparr>))"

definition in_catalog :: "'a catalog_call \<Rightarrow> 'a stores_call" where
  "in_catalog call s = (let (r, c) = call (hs_catalog s) in (r, s\<lparr>hs_catalog := c\<rparr>))"

definition in_recovery :: "(handoff_recovery, 'a) store_call \<Rightarrow> 'a stores_call" where
  "in_recovery call s = (let (r, v) = call (hs_recovery s) in (r, s\<lparr>hs_recovery := v\<rparr>))"

text \<open>A computation that reads the database and may raise.\<close>

definition reading :: "('db \<Rightarrow> store_error + 'a) \<Rightarrow> ('db, 'a) store_call" where
  "reading f db = (f db, db)"

section \<open>The handoff of a run\<close>

definition run_start_handoff_id :: "string \<Rightarrow> string" where
  "run_start_handoff_id run_id = ''run-start:'' @ run_id"

definition json_text :: "string option \<Rightarrow> json" where
  "json_text v = (case v of None \<Rightarrow> JNull | Some s \<Rightarrow> JStr s)"

definition run_start_target_payload :: "StartedRunTarget \<Rightarrow> json" where
  "run_start_target_payload t = JObj
     [(''endpoint_id'', JStr (rt_endpoint_id t)),
      (''endpoint_revision_id'', JStr (rt_endpoint_revision_id t)),
      (''required_owner_installation_id'', json_text (rt_required_owner_installation_id t)),
      (''required_ownership_epoch'',
         (case rt_required_ownership_epoch t of None \<Rightarrow> JNull | Some n \<Rightarrow> JInt n)),
      (''run_target_id'', JStr (rt_run_target_id t))]"

definition run_start_payload :: "StartedRun \<Rightarrow> bool \<Rightarrow> json" where
  "run_start_payload run transition_receipt = JObj
     [(''command_receipt_id'', JStr (sr_command_receipt_id run)),
      (''job_id'', JStr (sr_job_id run)),
      (''job_revision_id'', JStr (sr_job_revision_id run)),
      (''plan_checksum'', JStr (sr_plan_checksum run)),
      (''plan_id'', JStr (sr_plan_id run)),
      (''run_id'', JStr (sr_run_id run)),
      (''transition_command_receipt'', JBool transition_receipt),
      (''targets'', JArr (map run_start_target_payload (sort_key rt_run_target_id (sr_targets run))))]"

definition run_start_source_handoff :: "StartedRun \<Rightarrow> bool \<Rightarrow> CrossStoreHandoff" where
  "run_start_source_handoff run transition_receipt =
     (let payload_json = canonical_handoff_payload (run_start_payload run transition_receipt) in
      \<lparr>ho_handoff_id = run_start_handoff_id (sr_run_id run), ho_handoff_type = RUN_START_HANDOFF_TYPE,
       ho_direction = CATALOG_TO_RECOVERY, ho_payload_schema_version = HANDOFF_PAYLOAD_SCHEMA_VERSION,
       ho_entity_type = ''RUN'', ho_entity_id = sr_run_id run, ho_payload_json = payload_json,
       ho_payload_hash = hash_handoff_payload payload_json, ho_state = HANDOFF_PREPARED,
       ho_expected_peer_state = HANDOFF_PEER_COMMITTED, ho_attempt_count = 0, ho_last_error_code = None\<rparr>)"

definition recovery_run_binding_from_handoff :: "CrossStoreHandoff \<Rightarrow> store_error + RecoveryRunBinding" where
  "recovery_run_binding_from_handoff h =
     and_then (decode_handoff_payload h) (\<lambda>payload.
     and_then (required_payload_string payload ''run_id'') (\<lambda>run_id.
       if run_id \<noteq> ho_entity_id h then Inl (Handoff_Error ''RUN_START_HANDOFF_ENTITY_MISMATCH'')
       else
         and_then (required_payload_string payload ''job_id'') (\<lambda>job_id.
         and_then (required_payload_string payload ''job_revision_id'') (\<lambda>job_revision_id.
         and_then (required_payload_string payload ''plan_id'') (\<lambda>plan_id.
         and_then (required_payload_string payload ''plan_checksum'') (\<lambda>plan_checksum.
           Inr \<lparr>rb_run_id = run_id, rb_job_id = job_id, rb_job_revision_id = job_revision_id,
             rb_plan_id = plan_id, rb_plan_checksum = plan_checksum, rb_start_handoff_id = ho_handoff_id h,
             rb_state = ''BOUND''\<rparr>))))))"

definition assert_source_run_start_handoff :: "CrossStoreHandoff \<Rightarrow> store_error + unit" where
  "assert_source_run_start_handoff h =
     (if ho_handoff_type h \<noteq> RUN_START_HANDOFF_TYPE \<or> ho_direction h \<noteq> CATALOG_TO_RECOVERY
        \<or> ho_entity_type h \<noteq> ''RUN''
        \<or> ho_state h \<notin> {HANDOFF_PREPARED, HANDOFF_SOURCE_CONFIRMED, HANDOFF_COMPLETED}
      then Inl (Handoff_Error ''RUN_START_SOURCE_HANDOFF_INVALID'')
      else and_then (decode_handoff_payload h) (\<lambda>_. Inr ()))"

definition load_source :: "string \<Rightarrow> handoff_catalog \<Rightarrow> store_error + CrossStoreHandoff" where
  "load_source run_id c =
     (case load_handoff (run_start_handoff_id run_id) (hc_handoffs c) of
        None \<Rightarrow> Inl (Handoff_Error ''RUN_START_SOURCE_HANDOFF_NOT_FOUND'')
      | Some h \<Rightarrow> Inr h)"

section \<open>Preparing and binding\<close>

definition prepare_run_start :: "bool \<Rightarrow> string \<Rightarrow> StartedRun \<Rightarrow> bool \<Rightarrow> CrossStoreHandoff catalog_call" where
  "prepare_run_start outer now run transition_receipt =
     (if sr_state run \<noteq> RunState.CREATED
      then call_raise (Handoff_Error ''RUN_START_HANDOFF_REQUIRES_CREATED_RUN'')
      else on_catalog_handoffs (record_handoff outer now (run_start_source_handoff run transition_receipt)))"

definition peer_of :: "CrossStoreHandoff \<Rightarrow> CrossStoreHandoff" where
  "peer_of source =
     source\<lparr>ho_state := HANDOFF_PEER_COMMITTED, ho_expected_peer_state := HANDOFF_SOURCE_CONFIRMED\<rparr>"

definition commit_recovery_peer :: "string \<Rightarrow> string \<Rightarrow> CrossStoreHandoff stores_call" where
  "commit_recovery_peer now run_id =
     call_then (reading (\<lambda>s.
         and_then (load_source run_id (hs_catalog s)) (\<lambda>source.
         and_then (assert_source_run_start_handoff source) (\<lambda>_.
         and_then (recovery_run_binding_from_handoff source) (\<lambda>binding. Inr (source, binding))))))
       (\<lambda>(source, binding). in_recovery (commit_run_start_peer False now binding (peer_of source)))"

section \<open>Ambiguity\<close>

definition closed_handoff :: "CrossStoreHandoff \<Rightarrow> bool" where
  "closed_handoff h \<longleftrightarrow> ho_state h \<in> {HANDOFF_COMPLETED, HANDOFF_AMBIGUOUS, HANDOFF_ABORTED}"

definition make_ambiguous :: "string \<Rightarrow> string \<Rightarrow> CrossStoreHandoff \<Rightarrow> (handoffs, unit) store_call" where
  "make_ambiguous now code h =
     call_then (transition_handoff False now (ho_handoff_id h) (ho_state h) HANDOFF_AMBIGUOUS (ho_payload_hash h)
       (Some code)) (\<lambda>_. call_return ())"

definition mark_ambiguous ::
  "string \<Rightarrow> CrossStoreHandoff \<Rightarrow> CrossStoreHandoff \<Rightarrow> string \<Rightarrow> unit stores_call" where
  "mark_ambiguous now source peer code =
     call_then
       (if closed_handoff source then call_return ()
        else in_catalog (on_catalog_handoffs (make_ambiguous now code source)))
       (\<lambda>_. if closed_handoff peer then call_return ()
            else in_recovery (on_recovery_handoffs (make_ambiguous now code peer)))"

text \<open>The source and the peer of a run; handoffs that differ are marked before the mismatch is raised.\<close>

definition matching_handoffs ::
  "string \<Rightarrow> string \<Rightarrow> (CrossStoreHandoff \<times> CrossStoreHandoff) stores_call" where
  "matching_handoffs now run_id =
     call_then (reading (\<lambda>s.
         and_then (load_source run_id (hs_catalog s)) (\<lambda>source.
           case load_handoff (ho_handoff_id source) (hv_handoffs (hs_recovery s)) of
             None \<Rightarrow> Inl (Handoff_Error ''RUN_START_PEER_HANDOFF_NOT_COMMITTED'')
           | Some peer \<Rightarrow> Inr (source, peer))))
       (\<lambda>(source, peer).
         case handoff_evidence_mismatch source peer of
           None \<Rightarrow> call_return (source, peer)
         | Some mismatch \<Rightarrow>
             call_then (mark_ambiguous now source peer mismatch) (\<lambda>_. call_raise (Handoff_Error mismatch)))"

section \<open>Confirming: the run is released and the command accepted\<close>

definition on_receipt_state ::
  "string \<Rightarrow> CommandReceiptState \<Rightarrow> CommandReceiptState \<Rightarrow> CommandReceipt \<Rightarrow> CommandReceipt catalog_call" where
  "on_receipt_state now state next_state receipt =
     (if cr_state receipt \<noteq> state then call_return receipt
      else
        (case transition_command_receipt receipt next_state None None None of
           Inl e \<Rightarrow> call_raise e
         | Inr updated \<Rightarrow>
             call_then (on_receipts (update_command_receipt True now updated)) (\<lambda>_. call_return updated)))"

definition finish_receipt :: "string \<Rightarrow> string \<Rightarrow> CommandReceipt \<Rightarrow> unit catalog_call" where
  "finish_receipt now entity_id receipt =
     (if cr_state receipt \<noteq> RECEIPT_SUCCEEDED
      then call_raise (Handoff_Error ''RUN_START_COMMAND_RECEIPT_STATE_CONFLICT'')
      else if cr_result_entity_id receipt \<noteq> Some entity_id
      then call_raise (Handoff_Error ''RUN_START_COMMAND_RECEIPT_ENTITY_MISMATCH'')
      else
        (case command_effect_outbox_message receipt of
           Inl e \<Rightarrow> call_raise e
         | Inr message \<Rightarrow>
             call_then (on_outbox (enqueue_outbox_message True now message)) (\<lambda>_. call_return ())))"

definition accept_run_start_receipt :: "string \<Rightarrow> CrossStoreHandoff \<Rightarrow> unit catalog_call" where
  "accept_run_start_receipt now h =
     (case decode_handoff_payload h of
        Inl e \<Rightarrow> call_raise e
      | Inr payload \<Rightarrow>
          (case map_of payload ''transition_command_receipt'' of
             Some (JBool False) \<Rightarrow> call_return ()
           | Some (JBool True) \<Rightarrow>
               (case required_payload_string payload ''command_receipt_id'' of
                  Inl e \<Rightarrow> call_raise e
                | Inr receipt_id \<Rightarrow>
                    call_then (reading (\<lambda>c.
                        case load_command_receipt receipt_id (hc_receipts c) of
                          None \<Rightarrow> Inl (Handoff_Error ''RUN_START_COMMAND_RECEIPT_NOT_FOUND'')
                        | Some receipt \<Rightarrow> Inr receipt)) (\<lambda>receipt.
                    call_then (on_receipt_state now RECEIPT_EFFECT_PREPARED RECEIPT_ACCEPTED receipt) (\<lambda>receipt.
                    call_then (on_receipt_state now RECEIPT_ACCEPTED RECEIPT_SUCCEEDED receipt) (\<lambda>receipt.
                      finish_receipt now (ho_entity_id h) receipt))))
           | _ \<Rightarrow> call_raise (Handoff_Error ''RUN_START_COMMAND_RECEIPT_POLICY_MISSING'')))"

definition release_run :: "string \<Rightarrow> unit catalog_call" where
  "release_run run_id =
     call_then (on_runs (db_release_created_run True run_id)) (\<lambda>released.
       case released of
         None \<Rightarrow> call_raise (Handoff_Error ''RUN_START_RELEASE_FAILED'')
       | Some run \<Rightarrow>
           if sr_state run = RunState.CREATED then call_raise (Handoff_Error ''RUN_START_RELEASE_FAILED'')
           else call_return ())"

definition confirm_source :: "string \<Rightarrow> CrossStoreHandoff \<Rightarrow> CrossStoreHandoff catalog_call" where
  "confirm_source now current =
     call_then (on_catalog_handoffs (transition_handoff True now (ho_handoff_id current)
         HANDOFF_PREPARED HANDOFF_SOURCE_CONFIRMED (ho_payload_hash current) None)) (\<lambda>transitioned.
       case transitioned of
         None \<Rightarrow> call_raise (Handoff_Error ''RUN_START_SOURCE_CONFIRMATION_CONFLICT'')
       | Some h \<Rightarrow> call_return h)"

definition confirm_work :: "string \<Rightarrow> string \<Rightarrow> CrossStoreHandoff catalog_call" where
  "confirm_work now run_id =
     call_then (reading (load_source run_id)) (\<lambda>current.
     call_then
       (if ho_state current = HANDOFF_PREPARED
        then call_then (release_run run_id) (\<lambda>_. confirm_source now current)
        else call_return current) (\<lambda>current.
     call_then (accept_run_start_receipt now current) (\<lambda>_. call_return current)))"

definition confirm_catalog_source :: "string \<Rightarrow> string \<Rightarrow> CrossStoreHandoff stores_call" where
  "confirm_catalog_source now run_id =
     call_then (matching_handoffs now run_id) (\<lambda>(source, peer).
       if ho_state peer \<notin> {HANDOFF_PEER_COMMITTED, HANDOFF_COMPLETED}
       then call_raise (Handoff_Error ''RUN_START_PEER_HANDOFF_STATE_INVALID'')
       else in_catalog (transactional False (confirm_work now run_id)))"

section \<open>Completing\<close>

definition complete_peer :: "string \<Rightarrow> CrossStoreHandoff \<Rightarrow> CrossStoreHandoff stores_call" where
  "complete_peer now peer =
     (if ho_state peer \<noteq> HANDOFF_PEER_COMMITTED then call_return peer
      else
        call_then (in_recovery (on_recovery_handoffs (transition_handoff False now (ho_handoff_id peer)
            HANDOFF_PEER_COMMITTED HANDOFF_COMPLETED (ho_payload_hash peer) None))) (\<lambda>transitioned.
          case transitioned of
            None \<Rightarrow> call_raise (Handoff_Error ''RUN_START_PEER_COMPLETION_CONFLICT'')
          | Some h \<Rightarrow> call_return h))"

definition complete_source :: "string \<Rightarrow> CrossStoreHandoff \<Rightarrow> CrossStoreHandoff stores_call" where
  "complete_source now source =
     call_then (in_catalog (on_catalog_handoffs (transition_handoff False now (ho_handoff_id source)
         HANDOFF_SOURCE_CONFIRMED HANDOFF_COMPLETED (ho_payload_hash source) None))) (\<lambda>transitioned.
       case transitioned of
         None \<Rightarrow> call_raise (Handoff_Error ''RUN_START_SOURCE_COMPLETION_CONFLICT'')
       | Some h \<Rightarrow> call_return h)"

definition complete_run_start :: "string \<Rightarrow> string \<Rightarrow> CrossStoreHandoff stores_call" where
  "complete_run_start now run_id =
     call_then (matching_handoffs now run_id) (\<lambda>(source, peer).
       if ho_state source = HANDOFF_COMPLETED then
         (if ho_state peer \<noteq> HANDOFF_COMPLETED
          then call_raise (Handoff_Error ''RUN_START_COMPLETION_STATE_DIVERGED'') else call_return source)
       else if ho_state source \<noteq> HANDOFF_SOURCE_CONFIRMED
       then call_raise (Handoff_Error ''RUN_START_SOURCE_NOT_CONFIRMED'')
       else
         call_then (complete_peer now peer) (\<lambda>peer.
           if ho_state peer \<noteq> HANDOFF_COMPLETED
           then call_raise (Handoff_Error ''RUN_START_PEER_NOT_COMPLETED'')
           else complete_source now source))"

definition advance_run_start :: "string \<Rightarrow> string \<Rightarrow> CrossStoreHandoff stores_call" where
  "advance_run_start now run_id =
     call_then (commit_recovery_peer now run_id) (\<lambda>_.
     call_then (confirm_catalog_source now run_id) (\<lambda>_.
     complete_run_start now run_id))"

section \<open>Reconciliation\<close>

datatype reconciled = Reconciled_Completed | Reconciled_Ambiguous | Reconciled_Done

text \<open>Marks a peer whose source cannot be trusted.\<close>

definition distrust_peer :: "string \<Rightarrow> string \<Rightarrow> CrossStoreHandoff option \<Rightarrow> unit stores_call" where
  "distrust_peer now code peer =
     (case peer of
        None \<Rightarrow> call_return ()
      | Some h \<Rightarrow>
          if ho_state h \<in> {HANDOFF_AMBIGUOUS, HANDOFF_COMPLETED} then call_return ()
          else in_recovery (on_recovery_handoffs (make_ambiguous now code h)))"

text \<open>The exception handler around \<open>advance_run_start\<close>.\<close>

definition reconcile_advance :: "string \<Rightarrow> string \<Rightarrow> CrossStoreHandoff \<Rightarrow> reconciled stores_call" where
  "reconcile_advance now handoff_id source s =
     (case advance_run_start now (ho_entity_id source) s of
        (Inr _, s') \<Rightarrow> (Inr Reconciled_Completed, s')
      | (Inl e, s') \<Rightarrow>
          (case load_handoff handoff_id (hc_handoffs (hs_catalog s')) of
             None \<Rightarrow> (Inl e, s')
           | Some current \<Rightarrow>
               if is_Handoff_Error e \<and> ho_state current = HANDOFF_AMBIGUOUS
               then (Inr Reconciled_Ambiguous, s') else (Inl e, s')))"

definition reconcile_one :: "string \<Rightarrow> string \<Rightarrow> reconciled stores_call" where
  "reconcile_one now handoff_id s =
     (let peer = load_handoff handoff_id (hv_handoffs (hs_recovery s)) in
      case load_handoff handoff_id (hc_handoffs (hs_catalog s)) of
        None \<Rightarrow>
          call_then (distrust_peer now ''RUN_START_SOURCE_HANDOFF_NOT_FOUND'' peer)
            (\<lambda>_. call_return Reconciled_Ambiguous) s
      | Some source \<Rightarrow>
          if ho_state source = HANDOFF_AMBIGUOUS
            \<or> (case peer of None \<Rightarrow> False | Some h \<Rightarrow> ho_state h = HANDOFF_AMBIGUOUS)
          then (Inr Reconciled_Ambiguous, s)
          else if ho_state source = HANDOFF_COMPLETED then
            (if (case peer of None \<Rightarrow> True | Some h \<Rightarrow> ho_state h \<noteq> HANDOFF_COMPLETED)
             then call_then (distrust_peer now ''RUN_START_COMPLETION_STATE_DIVERGED'' peer)
               (\<lambda>_. call_return Reconciled_Ambiguous) s
             else (Inr Reconciled_Done, s))
          else reconcile_advance now handoff_id source s)"

fun reconcile_all :: "string \<Rightarrow> string list \<Rightarrow> (string list \<times> string list) stores_call" where
  "reconcile_all now [] s = (Inr ([], []), s)"
| "reconcile_all now (i # is) s =
     call_then (reconcile_one now i) (\<lambda>outcome.
       call_then (reconcile_all now is) (\<lambda>(completed, ambiguous).
         call_return (if outcome = Reconciled_Completed then i # completed else completed,
           if outcome = Reconciled_Ambiguous then i # ambiguous else ambiguous))) s"

text \<open>\<open>tuple(dict.fromkeys(ids))\<close>: the first occurrence of every id.\<close>

definition first_occurrences :: "'a list \<Rightarrow> 'a list" where
  "first_occurrences xs = rev (remdups (rev xs))"

definition candidate_ids :: "int \<Rightarrow> handoff_stores \<Rightarrow> store_error + string list" where
  "candidate_ids limit s =
     and_then (list_handoffs_for_reconciliation RUN_START_HANDOFF_TYPE CATALOG_TO_RECOVERY limit
         (hc_handoffs (hs_catalog s))) (\<lambda>sources.
     and_then (list_handoffs_for_reconciliation RUN_START_HANDOFF_TYPE CATALOG_TO_RECOVERY limit
         (hv_handoffs (hs_recovery s))) (\<lambda>peers.
       Inr (first_occurrences (map ho_handoff_id (sources @ peers)))))"

definition reconcile_pending :: "string \<Rightarrow> int \<Rightarrow> HandoffReconciliationReport stores_call" where
  "reconcile_pending now limit =
     (if limit < 1 \<or> limit > 1000
      then call_raise (Handoff_Error ''RUN_START_HANDOFF_RECONCILIATION_LIMIT_INVALID'')
      else call_then (reading (candidate_ids limit)) (\<lambda>ids.
        call_then (reconcile_all now ids) (\<lambda>(completed, ambiguous).
          call_return \<lparr>hrr_scanned = length ids, hrr_completed_handoff_ids = completed,
            hrr_ambiguous_handoff_ids = ambiguous\<rparr>)))"

end
