(* ===== verification/Start_Handoff_Laws.thy ===== *)
theory Start_Handoff_Laws
  imports Handoff_Laws Run_Start_Handoff Receipt_Laws Outbox_Laws
begin

text \<open>
  The two databases together: the invariant of the handoffs of run starts, kept by every operation of the catalog
  and by every call of the coordinator, whether it returns or raises.
\<close>

section \<open>Calls on a part of a database\<close>

lemma on_part_Inr [simp]:
  "on_runs call1 c = (Inr v1, c') \<longleftrightarrow> (\<exists>db. call1 (hc_runs c) = (Inr v1, db) \<and> c' = c\<lparr>hc_runs := db\<rparr>)"
  "on_receipts call2 c = (Inr v2, c') \<longleftrightarrow> (\<exists>t. call2 (hc_receipts c) = (Inr v2, t) \<and> c' = c\<lparr>hc_receipts := t\<rparr>)"
  "on_outbox call3 c = (Inr v3, c') \<longleftrightarrow> (\<exists>t. call3 (hc_outbox c) = (Inr v3, t) \<and> c' = c\<lparr>hc_outbox := t\<rparr>)"
  "on_catalog_handoffs call4 c = (Inr v4, c') \<longleftrightarrow> (\<exists>t. call4 (hc_handoffs c) = (Inr v4, t) \<and> c' = c\<lparr>hc_handoffs := t\<rparr>)"
  "on_recovery_handoffs call5 v = (Inr v5, v') \<longleftrightarrow> (\<exists>t. call5 (hv_handoffs v) = (Inr v5, t) \<and> v' = v\<lparr>hv_handoffs := t\<rparr>)"
  "in_catalog call6 s = (Inr v6, s') \<longleftrightarrow> (\<exists>c. call6 (hs_catalog s) = (Inr v6, c) \<and> s' = s\<lparr>hs_catalog := c\<rparr>)"
  "in_recovery call7 s = (Inr v7, s') \<longleftrightarrow> (\<exists>v. call7 (hs_recovery s) = (Inr v7, v) \<and> s' = s\<lparr>hs_recovery := v\<rparr>)"
  "reading f db = (r, db') \<longleftrightarrow> f db = r \<and> db' = db"
  by (auto simp: on_runs_def on_receipts_def on_outbox_def on_catalog_handoffs_def on_recovery_handoffs_def
      in_catalog_def in_recovery_def reading_def Let_def split: prod.splits sum.splits)

lemma call_then_reading:
  "call_then (reading f) g db = (case f db of Inl e \<Rightarrow> (Inl e, db) | Inr a \<Rightarrow> g a db)"
  by (simp add: call_then_def reading_def)

section \<open>Handoffs of run starts\<close>

definition run_start_handoff :: "CrossStoreHandoff \<Rightarrow> bool" where
  "run_start_handoff h \<longleftrightarrow> (\<exists>run transition_receipt. evidence h = run_start_source_handoff run transition_receipt)"

lemma evidence_source [simp]: "evidence (run_start_source_handoff run tr) = run_start_source_handoff run tr"
  by (simp add: evidence_def run_start_source_handoff_def Let_def)

lemma run_start_handoffD:
  assumes "run_start_handoff h"
  shows "ho_handoff_id h = run_start_handoff_id (ho_entity_id h)" "ho_handoff_type h = RUN_START_HANDOFF_TYPE"
    "ho_direction h = CATALOG_TO_RECOVERY" "ho_entity_type h = ''RUN''"
proof -
  obtain run tr where "evidence h = evidence (run_start_source_handoff run tr)"
    using assms by (auto simp: run_start_handoff_def)
  from evidence_same [OF this] show
    "ho_handoff_id h = run_start_handoff_id (ho_entity_id h)" "ho_handoff_type h = RUN_START_HANDOFF_TYPE"
    "ho_direction h = CATALOG_TO_RECOVERY" "ho_entity_type h = ''RUN''"
    by (simp_all add: run_start_source_handoff_def Let_def)
qed

lemma run_start_handoff_id_inject [simp]: "run_start_handoff_id i = run_start_handoff_id j \<longleftrightarrow> i = j"
  by (simp add: run_start_handoff_id_def)

lemma evidence_peer [simp]: "evidence (peer_of h) = evidence h"
  by (simp add: evidence_def peer_of_def)

lemma binding_evidence:
  assumes "evidence h = evidence h'"
  shows "recovery_run_binding_from_handoff h = recovery_run_binding_from_handoff h'"
  unfolding recovery_run_binding_from_handoff_def decode_evidence [OF assms] evidence_same(1) [OF assms]
    evidence_same(6) [OF assms] ..

lemma binding_keys:
  "recovery_run_binding_from_handoff h = Inr b \<Longrightarrow>
     rb_run_id b = ho_entity_id h \<and> rb_start_handoff_id b = ho_handoff_id h \<and> decodes h"
  by (auto simp: recovery_run_binding_from_handoff_def decodes_def and_then_def split: sum.splits if_splits)

section \<open>The invariant\<close>

text \<open>How far each side may be.\<close>

fun paired :: "CrossStoreHandoffState \<Rightarrow> CrossStoreHandoffState option \<Rightarrow> bool" where
  "paired HANDOFF_PREPARED None \<longleftrightarrow> True"
| "paired HANDOFF_PREPARED (Some p) \<longleftrightarrow> p = HANDOFF_PEER_COMMITTED"
| "paired HANDOFF_SOURCE_CONFIRMED (Some p) \<longleftrightarrow> p = HANDOFF_PEER_COMMITTED \<or> p = HANDOFF_COMPLETED"
| "paired HANDOFF_COMPLETED (Some p) \<longleftrightarrow> p = HANDOFF_COMPLETED"
| "paired _ _ \<longleftrightarrow> False"

definition run_released :: "string \<Rightarrow> catalog \<Rightarrow> bool" where
  "run_released run_id db \<longleftrightarrow> (\<exists>r \<in> set (c_runs db). rr_id r = run_id \<and> rr_state r \<noteq> RunState.CREATED)"

definition source_ok :: "catalog \<Rightarrow> CrossStoreHandoff option \<Rightarrow> CrossStoreHandoff \<Rightarrow> bool" where
  "source_ok runs peer h \<longleftrightarrow> run_start_handoff h \<and> ho_entity_id h \<in> rr_id ` set (c_runs runs)
     \<and> paired (ho_state h) (map_option ho_state peer)
     \<and> (ho_state h \<noteq> HANDOFF_PREPARED \<longrightarrow> run_released (ho_entity_id h) runs)"

definition peer_ok :: "handoff_recovery \<Rightarrow> CrossStoreHandoff option \<Rightarrow> CrossStoreHandoff \<Rightarrow> bool" where
  "peer_ok v source p \<longleftrightarrow> (\<exists>h b. source = Some h \<and> evidence p = evidence h
     \<and> recovery_run_binding_from_handoff h = Inr b \<and> load_run_binding (rb_run_id b) v = Some b)"

definition binding_ok :: "handoffs \<Rightarrow> RecoveryRunBinding \<Rightarrow> bool" where
  "binding_ok peers b \<longleftrightarrow> (\<exists>p. load_handoff (rb_start_handoff_id b) peers = Some p
     \<and> recovery_run_binding_from_handoff p = Inr b)"

definition handoff_inv :: "handoff_stores \<Rightarrow> bool" where
  "handoff_inv s \<longleftrightarrow>
     (let c = hs_catalog s; v = hs_recovery s in
      catalog_inv (hc_runs c) \<and> handoffs_inv (hc_handoffs c) \<and> handoffs_inv (hv_handoffs v)
      \<and> (\<forall>i h. load_handoff i (hc_handoffs c) = Some h \<longrightarrow> source_ok (hc_runs c) (load_handoff i (hv_handoffs v)) h)
      \<and> (\<forall>i p. load_handoff i (hv_handoffs v) = Some p \<longrightarrow> peer_ok v (load_handoff i (hc_handoffs c)) p)
      \<and> (\<forall>b \<in> set (hv_runs v). binding_ok (hv_handoffs v) b))"

lemma handoff_invD:
  assumes "handoff_inv s"
  shows "catalog_inv (hc_runs (hs_catalog s))" "handoffs_inv (hc_handoffs (hs_catalog s))" "handoffs_inv (hv_handoffs (hs_recovery s))"
    "\<And>i h. load_handoff i (hc_handoffs (hs_catalog s)) = Some h \<Longrightarrow>
       source_ok (hc_runs (hs_catalog s)) (load_handoff i (hv_handoffs (hs_recovery s))) h"
    "\<And>i p. load_handoff i (hv_handoffs (hs_recovery s)) = Some p \<Longrightarrow>
       peer_ok (hs_recovery s) (load_handoff i (hc_handoffs (hs_catalog s))) p"
    "\<And>b. b \<in> set (hv_runs (hs_recovery s)) \<Longrightarrow> binding_ok (hv_handoffs (hs_recovery s)) b"
  using assms by (simp_all add: handoff_inv_def Let_def)

lemma handoff_invI:
  assumes "catalog_inv (hc_runs (hs_catalog s))" "handoffs_inv (hc_handoffs (hs_catalog s))" "handoffs_inv (hv_handoffs (hs_recovery s))"
    "\<And>i h. load_handoff i (hc_handoffs (hs_catalog s)) = Some h \<Longrightarrow>
       source_ok (hc_runs (hs_catalog s)) (load_handoff i (hv_handoffs (hs_recovery s))) h"
    "\<And>i p. load_handoff i (hv_handoffs (hs_recovery s)) = Some p \<Longrightarrow>
       peer_ok (hs_recovery s) (load_handoff i (hc_handoffs (hs_catalog s))) p"
    "\<And>b. b \<in> set (hv_runs (hs_recovery s)) \<Longrightarrow> binding_ok (hv_handoffs (hs_recovery s)) b"
  shows "handoff_inv s"
  using assms by (simp add: handoff_inv_def Let_def)

lemma handoff_inv_cong:
  assumes "handoff_inv s" "hc_runs (hs_catalog s') = hc_runs (hs_catalog s)"
    "hc_handoffs (hs_catalog s') = hc_handoffs (hs_catalog s)" "hs_recovery s' = hs_recovery s"
  shows "handoff_inv s'"
  using assms by (simp add: handoff_inv_def Let_def)

section \<open>The catalog moves on\<close>

lemma run_released_evolves:
  assumes "run_released i db" "evolves db db'"
  shows "run_released i db'"
proof -
  obtain r where r: "r \<in> set (c_runs db)" "rr_id r = i" "rr_state r \<noteq> RunState.CREATED"
    using assms(1) by (auto simp: run_released_def)
  obtain r' where r': "r' \<in> set (c_runs db')" "run_evolves r r'" using evolves_run [OF assms(2) r(1)] .
  then have "rr_id r' = i" using r(2) run_evolves_keys [OF r'(2)] by simp
  moreover have "rr_state r' \<noteq> RunState.CREATED"
    using r(3) r'(2) by (cases "rr_state r") (auto simp: run_evolves_def run_edge_def)
  ultimately show ?thesis using r'(1) by (auto simp: run_released_def)
qed

lemma run_ids_evolve:
  assumes "i \<in> rr_id ` set (c_runs db)" "evolves db db'"
  shows "i \<in> rr_id ` set (c_runs db')"
proof -
  obtain r where r: "r \<in> set (c_runs db)" "rr_id r = i" using assms(1) by auto
  obtain r' where "r' \<in> set (c_runs db')" "run_evolves r r'" using evolves_run [OF assms(2) r(1)] .
  then show ?thesis using run_evolves_keys(1) [of r r'] r(2) by (metis imageI)
qed

lemma runs_keep_inv:
  assumes "handoff_inv s" "good (hc_runs (hs_catalog s)) db"
  shows "handoff_inv (s\<lparr>hs_catalog := hs_catalog s\<lparr>hc_runs := db\<rparr>\<rparr>)"
proof -
  have e: "evolves (hc_runs (hs_catalog s)) db" "catalog_inv db" using assms(2) by (simp_all add: good_def)
  have "source_ok (hc_runs (hs_catalog s)) p h \<Longrightarrow> source_ok db p h" for p h
    using run_released_evolves [OF _ e(1)] run_ids_evolve [OF _ e(1), of "ho_entity_id h"] by (auto simp: source_ok_def)
  then show ?thesis using handoff_invD [OF assms(1)] e(2) by (intro handoff_invI) simp_all
qed

section \<open>Nothing is lost\<close>

definition stores_follow :: "handoff_stores \<Rightarrow> handoff_stores \<Rightarrow> bool" where
  "stores_follow s s' \<longleftrightarrow> handoffs_follow (hc_handoffs (hs_catalog s)) (hc_handoffs (hs_catalog s'))
     \<and> handoffs_follow (hv_handoffs (hs_recovery s)) (hv_handoffs (hs_recovery s'))"

lemma stores_follow_refl [simp]: "stores_follow s s"
  by (simp add: stores_follow_def)

lemma stores_follow_trans: "stores_follow s s' \<Longrightarrow> stores_follow s' s'' \<Longrightarrow> stores_follow s s''"
  unfolding stores_follow_def using handoffs_follow_trans by blast

section \<open>Preparing\<close>

lemma prepare_keeps_inv:
  assumes inv: "handoff_inv s" and saved: "sr_run_id run \<in> rr_id ` set (c_runs (hc_runs (hs_catalog s)))"
  shows "handoff_inv (s\<lparr>hs_catalog := snd (prepare_run_start outer now run tr (hs_catalog s))\<rparr>)
    \<and> stores_follow s (s\<lparr>hs_catalog := snd (prepare_run_start outer now run tr (hs_catalog s))\<rparr>)"
proof -
  let ?c = "hs_catalog s"
  let ?h = "run_start_source_handoff run tr"
  obtain r c' where result: "prepare_run_start outer now run tr ?c = (r, c')" by fastforce
  consider "c' = ?c" | t where "c' = ?c\<lparr>hc_handoffs := t\<rparr>" "record_handoff outer now ?h (hc_handoffs ?c) = (Inr ?h, t)"
    "load_handoff (ho_handoff_id ?h) (hc_handoffs ?c) = None" "t = hc_handoffs ?c @ [fresh_row now ?h]"
    "handoff_check (fresh_row now ?h)" "decodes ?h"
    "handoff_unique ?h \<notin> set (map (handoff_unique \<circ> hor_handoff) (hc_handoffs ?c))"
  proof (cases r)
    case (Inl e)
    then have "c' = ?c"
      using result record_handoff_raises
      by (fastforce simp: prepare_run_start_def on_catalog_handoffs_def Let_def split: if_splits prod.splits)
    then show ?thesis using that by blast
  next
    case (Inr v)
    then obtain t where t: "record_handoff outer now ?h (hc_handoffs ?c) = (Inr v, t)" "c' = ?c\<lparr>hc_handoffs := t\<rparr>"
      using result by (auto simp: prepare_run_start_def split: if_splits)
    from record_handoff_returns [OF t(1)] show ?thesis using t that by auto
  qed
  then show ?thesis
  proof cases
    case 1
    then show ?thesis using result inv by simp
  next
    case 2
    note D = handoff_invD [OF inv]
    have none: "load_handoff (ho_handoff_id ?h) (hv_handoffs (hs_recovery s)) = None"
      using D(5) [of "ho_handoff_id ?h"] 2(3) by (cases "load_handoff (ho_handoff_id ?h) (hv_handoffs (hs_recovery s))") (auto simp: peer_ok_def)
    have load: "load_handoff i t = (if i = ho_handoff_id ?h then Some ?h else load_handoff i (hc_handoffs ?c))" for i
      using load_append_fresh [OF 2(3)] 2(4) by simp
    have "run_start_handoff ?h" by (auto simp: run_start_handoff_def)
    moreover have "ho_state ?h = HANDOFF_PREPARED" "ho_entity_id ?h = sr_run_id run"
      by (simp_all add: run_start_source_handoff_def Let_def)
    ultimately have "source_ok (hc_runs ?c) None ?h" using saved by (simp add: source_ok_def)
    moreover have "handoffs_inv t" using record_keeps_inv [OF 2(3,5-7) D(2)] 2(4) by simp
    ultimately have "handoff_inv (s\<lparr>hs_catalog := c'\<rparr>)"
      using D none load 2(1) by (intro handoff_invI) (auto split: if_splits)
    moreover have "handoffs_follow (hc_handoffs ?c) t" using fresh_follows [OF 2(3)] 2(4) by simp
    ultimately show ?thesis using result 2(1) by (simp add: stores_follow_def)
  qed
qed

section \<open>Binding\<close>

lemma assert_source_returns:
  "assert_source_run_start_handoff h = Inr u \<Longrightarrow>
     ho_state h \<in> {HANDOFF_PREPARED, HANDOFF_SOURCE_CONFIRMED, HANDOFF_COMPLETED} \<and> decodes h"
  by (auto simp: assert_source_run_start_handoff_def decodes_def and_then_def split: if_splits sum.splits)

lemma load_source_returns:
  "load_source run_id c = Inr h \<longleftrightarrow> load_handoff (run_start_handoff_id run_id) (hc_handoffs c) = Some h"
  by (auto simp: load_source_def split: option.splits)

lemma peer_state [simp]: "ho_state (peer_of h) = HANDOFF_PEER_COMMITTED"
  "ho_handoff_id (peer_of h) = ho_handoff_id h"
  by (simp_all add: peer_of_def)

lemma decodes_evidence: "evidence h = evidence h' \<Longrightarrow> decodes h \<longleftrightarrow> decodes h'"
  using decode_evidence [of h h'] by (simp add: decodes_def)

lemma binding_in_table:
  assumes "handoff_inv s" "load_handoff i (hc_handoffs (hs_catalog s)) = Some h" "recovery_run_binding_from_handoff h = Inr b"
    and "load_run_binding (rb_run_id b) (hs_recovery s) = Some b'"
  shows "b' = b \<and> (\<exists>p. load_handoff i (hv_handoffs (hs_recovery s)) = Some p)"
proof -
  note D = handoff_invD [OF assms(1)]
  have b': "b' \<in> set (hv_runs (hs_recovery s))" "rb_run_id b' = rb_run_id b" using load_run_binding_id [OF assms(4)] by auto
  obtain p where p: "load_handoff (rb_start_handoff_id b') (hv_handoffs (hs_recovery s)) = Some p"
    "recovery_run_binding_from_handoff p = Inr b'"
    using D(6) [OF b'(1)] by (auto simp: binding_ok_def)
  obtain g where g: "load_handoff (rb_start_handoff_id b') (hc_handoffs (hs_catalog s)) = Some g" "evidence p = evidence g"
    using D(5) [OF p(1)] by (auto simp: peer_ok_def)
  have "run_start_handoff g" "run_start_handoff h"
    using D(4) [OF g(1)] D(4) [OF assms(2)] by (simp_all add: source_ok_def)
  then have ids: "ho_handoff_id g = run_start_handoff_id (ho_entity_id g)" "ho_handoff_id h = run_start_handoff_id (ho_entity_id h)"
    using run_start_handoffD(1) by blast+
  have "ho_entity_id g = ho_entity_id h"
    using binding_keys [OF p(2)] binding_keys [OF assms(3)] b'(2) evidence_same(6) [OF g(2)] by simp
  then have "ho_handoff_id g = ho_handoff_id h" using ids by simp
  moreover have "ho_handoff_id g = rb_start_handoff_id b'" "ho_handoff_id h = i"
    using load_handoffD(1) [OF g(1) D(2)] load_handoffD(1) [OF assms(2) D(2)] by auto
  ultimately have i: "rb_start_handoff_id b' = i" by simp
  then have "g = h" using g(1) assms(2) by simp
  then have "b' = b" using binding_evidence [OF g(2)] p(2) assms(3) by simp
  then show ?thesis using p(1) i by auto
qed

lemma commit_keeps_inv:
  assumes inv: "handoff_inv s" and result: "commit_recovery_peer now run_id s = (r, s')"
  shows "handoff_inv s'"
    and "r = Inr p \<Longrightarrow> hs_catalog s' = hs_catalog s
      \<and> load_handoff (run_start_handoff_id run_id) (hv_handoffs (hs_recovery s')) = Some p"
    and "stores_follow s s'"
proof -
  note D = handoff_invD [OF inv]
  let ?i = "run_start_handoff_id run_id"
  consider "s' = s" "\<exists>e. r = Inl e" | h b v' where "load_handoff ?i (hc_handoffs (hs_catalog s)) = Some h" "decodes h"
    "recovery_run_binding_from_handoff h = Inr b" "s' = s\<lparr>hs_recovery := v'\<rparr>"
    "commit_run_start_peer False now b (peer_of h) (hs_recovery s) = (r, v')"
  proof (cases "load_source run_id (hs_catalog s)")
    case (Inl e)
    then have "(Inl e, s) = (r, s')" using result by (simp add: commit_recovery_peer_def call_then_reading)
    then show ?thesis using that(1) by auto
  next
    case (Inr h)
    show ?thesis
    proof (cases "and_then (assert_source_run_start_handoff h) (\<lambda>_. recovery_run_binding_from_handoff h)")
      case (Inl e)
      then show ?thesis
        using result Inr that(1)
        by (auto simp: commit_recovery_peer_def call_then_reading and_then_def split: sum.splits)
    next
      case b: (Inr b)
      then show ?thesis
        using result Inr that(2) [of h b "snd (commit_run_start_peer False now b (peer_of h) (hs_recovery s))"]
          assert_source_returns [of h]
        by (auto simp: commit_recovery_peer_def call_then_reading and_then_def load_source_returns in_recovery_def Let_def
            split: sum.splits prod.splits)
    qed
  qed
  then have "handoff_inv s' \<and> stores_follow s s' \<and> (\<forall>p. r = Inr p \<longrightarrow> hs_catalog s' = hs_catalog s
      \<and> load_handoff ?i (hv_handoffs (hs_recovery s')) = Some p)"
  proof cases
    case 1
    then show ?thesis using inv by auto
  next
    case h: 2
    let ?v = "hs_recovery s"
    have peer: "decodes (peer_of h)" using h(2) decodes_evidence [of "peer_of h" h] by simp
    have i: "ho_handoff_id h = ?i" using load_handoffD(1) [OF h(1) D(2)] .
    show ?thesis
    proof (cases r)
      case (Inl e)
      then show ?thesis using commit_peer_raises h(4,5) peer inv by fastforce
    next
      case (Inr p)
      note c = commit_peer_returns [OF h(5) [unfolded Inr]]
      show ?thesis
      proof (cases "load_handoff ?i (hv_handoffs ?v)")
        case (Some q)
        have "peer_ok ?v (Some h) q" using D(5) [OF Some] h(1) by simp
        then have "load_run_binding (rb_run_id b) ?v = Some b" using h(3) by (auto simp: peer_ok_def)
        then have "hv_runs v' = hv_runs ?v" using c(1) by auto
        moreover have "hv_handoffs v' = hv_handoffs ?v \<and> p = q" using record_handoff_returns [OF c(2)] Some i by auto
        ultimately have "v' = ?v" "p = q" by simp_all
        then show ?thesis using h(4) inv Some Inr by simp
      next
        case None
        have fresh: "p = peer_of h" "hv_handoffs v' = hv_handoffs ?v @ [fresh_row now (peer_of h)]"
          "handoff_check (fresh_row now (peer_of h))"
          "handoff_unique (peer_of h) \<notin> set (map (handoff_unique \<circ> hor_handoff) (hv_handoffs ?v))"
          using record_handoff_returns [OF c(2)] None i by auto
        have unbound: "load_run_binding (rb_run_id b) ?v = None"
          using binding_in_table [OF inv h(1,3)] None by (cases "load_run_binding (rb_run_id b) ?v") auto
        then have runs: "hv_runs v' = hv_runs ?v @ [b]" using c(1) by auto
        have load: "load_handoff j (hv_handoffs v') = (if j = ?i then Some (peer_of h) else load_handoff j (hv_handoffs ?v))" for j
          using load_append_fresh [of "peer_of h" "hv_handoffs ?v" j now] None i fresh(2) by simp
        have bound: "load_run_binding j v' = (if j = rb_run_id b then Some b else load_run_binding j ?v)" for j
          using load_run_binding_append [OF unbound, of b j] runs by (simp add: load_run_binding_def)
        have keys: "rb_start_handoff_id b = ?i" using binding_keys [OF h(3)] i by simp
        have "source_ok (hc_runs (hs_catalog s)) None h" using D(4) [OF h(1)] None by simp
        then have "ho_state h = HANDOFF_PREPARED" "source_ok (hc_runs (hs_catalog s)) (Some (peer_of h)) h"
          by (cases "ho_state h"; simp add: source_ok_def)+
        moreover have "handoffs_inv (hv_handoffs v')"
          using record_keeps_inv [of "peer_of h" "hv_handoffs ?v" now] None i fresh peer D(3) by simp
        moreover have "peer_ok v' (load_handoff ?i (hc_handoffs (hs_catalog s))) (peer_of h)"
          using h(1,3) bound by (simp add: peer_ok_def)
        moreover have "peer_ok v' g q" if "peer_ok ?v g q" for g q
          using that unbound bound by (fastforce simp: peer_ok_def)
        moreover have "binding_ok (hv_handoffs v') b"
          using load keys binding_evidence [of "peer_of h" h] h(3) by (simp add: binding_ok_def)
        moreover have "binding_ok (hv_handoffs v') b'" if "binding_ok (hv_handoffs ?v) b'" for b'
          using that load None by (auto simp: binding_ok_def)
        ultimately have "handoff_inv (s\<lparr>hs_recovery := v'\<rparr>)"
          using D load runs h(1) by (intro handoff_invI) (auto split: if_splits)
        then show ?thesis
          using h(4) load fresh Inr fresh_follows [of "peer_of h" "hv_handoffs ?v" now] None i by (simp add: stores_follow_def)
      qed
    qed
  qed
  then show "handoff_inv s'" and "r = Inr p \<Longrightarrow> hs_catalog s' = hs_catalog s
      \<and> load_handoff (run_start_handoff_id run_id) (hv_handoffs (hs_recovery s')) = Some p"
    and "stores_follow s s'" by blast+
qed

section \<open>Confirming\<close>

text \<open>The two sides never differ in their evidence, so nothing is marked as ambiguous.\<close>

lemma matching_handoffs_eq:
  assumes inv: "handoff_inv s"
  shows "matching_handoffs now run_id s =
    (case load_handoff (run_start_handoff_id run_id) (hc_handoffs (hs_catalog s)) of
       None \<Rightarrow> (Inl (Handoff_Error ''RUN_START_SOURCE_HANDOFF_NOT_FOUND''), s)
     | Some source \<Rightarrow>
         (case load_handoff (run_start_handoff_id run_id) (hv_handoffs (hs_recovery s)) of
            None \<Rightarrow> (Inl (Handoff_Error ''RUN_START_PEER_HANDOFF_NOT_COMMITTED''), s)
          | Some peer \<Rightarrow> (Inr (source, peer), s)))"
proof -
  note D = handoff_invD [OF inv]
  let ?i = "run_start_handoff_id run_id"
  have "handoff_evidence_mismatch source peer = None"
    if "load_handoff ?i (hc_handoffs (hs_catalog s)) = Some source" "load_handoff ?i (hv_handoffs (hs_recovery s)) = Some peer"
    for source peer
    using D(5) [OF that(2)] that(1) load_handoffD(2) [OF that(1) D(2)] by (auto simp: peer_ok_def mismatch_None_iff)
  moreover have "ho_handoff_id source = ?i" if "load_handoff ?i (hc_handoffs (hs_catalog s)) = Some source" for source
    using load_handoffD(1) [OF that D(2)] .
  ultimately show ?thesis
    by (auto simp: matching_handoffs_def call_then_reading load_source_def and_then_def split: option.splits)
qed

lemma on_receipt_state_frame:
  "on_receipt_state now a b receipt c = (Inr r, c') \<Longrightarrow> hc_runs c' = hc_runs c \<and> hc_handoffs c' = hc_handoffs c"
  by (auto simp: on_receipt_state_def split: if_splits sum.splits)

lemma finish_receipt_frame:
  "finish_receipt now i receipt c = (Inr u, c') \<Longrightarrow> hc_runs c' = hc_runs c \<and> hc_handoffs c' = hc_handoffs c"
  by (auto simp: finish_receipt_def split: if_splits sum.splits)

lemma accept_receipt_frame:
  assumes "accept_run_start_receipt now h c = (Inr u, c')"
  shows "hc_runs c' = hc_runs c \<and> hc_handoffs c' = hc_handoffs c"
proof -
  obtain payload where payload: "decode_handoff_payload h = Inr payload"
    using assms by (cases "decode_handoff_payload h") (auto simp: accept_run_start_receipt_def)
  then obtain required where required: "map_of payload ''transition_command_receipt'' = Some (JBool required)"
    using assms by (auto simp: accept_run_start_receipt_def split: option.splits json.splits)
  show ?thesis
  proof (cases required)
    case True
    then obtain i where "required_payload_string payload ''command_receipt_id'' = Inr i"
      using assms payload required
      by (cases "required_payload_string payload ''command_receipt_id''") (auto simp: accept_run_start_receipt_def)
    then obtain r c1 r1 c2 r2 where "on_receipt_state now RECEIPT_EFFECT_PREPARED RECEIPT_ACCEPTED r c = (Inr r1, c1)"
      "on_receipt_state now RECEIPT_ACCEPTED RECEIPT_SUCCEEDED r1 c1 = (Inr r2, c2)"
      "finish_receipt now (ho_entity_id h) r2 c2 = (Inr u, c')"
      using assms payload required True by (fastforce simp: accept_run_start_receipt_def)
    then show ?thesis using on_receipt_state_frame finish_receipt_frame by metis
  next
    case False
    then show ?thesis using assms payload required by (simp add: accept_run_start_receipt_def)
  qed
qed

lemma release_run_returns:
  assumes "release_run run_id c = (Inr u, c')"
  obtains run db where "db_release_created_run True run_id (hc_runs c) = (Inr (Some run), db)" "c' = c\<lparr>hc_runs := db\<rparr>"
    "sr_state run \<noteq> RunState.CREATED"
proof -
  obtain released c1 where "on_runs (db_release_created_run True run_id) c = (Inr released, c1)"
    "(case released of None \<Rightarrow> call_raise (Handoff_Error ''RUN_START_RELEASE_FAILED'')
       | Some run \<Rightarrow> if sr_state run = RunState.CREATED then call_raise (Handoff_Error ''RUN_START_RELEASE_FAILED'')
           else call_return ()) c1 = (Inr u, c')"
    using assms unfolding release_run_def call_then_Inr_iff by blast
  then show ?thesis using that by (auto split: option.splits if_splits)
qed

lemma released_after_release:
  assumes "db_release_created_run True run_id db = (Inr (Some run), db')" "sr_state run \<noteq> RunState.CREATED"
  shows "run_released run_id db'"
proof -
  have "db_load_started_run run_id db' = Inr (Some run)"
    using assms(1) by (auto simp: db_release_created_run_def Let_def give_up_def split: sum.splits option.splits if_splits)
  then obtain r where "r \<in> set (c_runs db')" "rr_id r = run_id" "sr_state run = rr_state r"
    by (rule load_started_run_SomeD)
  then show ?thesis using assms(2) by (auto simp: run_released_def)
qed

text \<open>A transition of a handoff of the catalog that keeps the two sides paired.\<close>

lemma source_moves_inv:
  assumes inv: "handoff_inv s" and h: "load_handoff i (hc_handoffs (hs_catalog s)) = Some h"
    and db: "good (hc_runs (hs_catalog s)) (hc_runs c)" and t: "handoffs_inv (hc_handoffs c)"
    "\<And>j. load_handoff j (hc_handoffs c) = (if j = i then Some (moved b code h) else load_handoff j (hc_handoffs (hs_catalog s)))"
    and paired: "paired b (map_option ho_state (load_handoff i (hv_handoffs (hs_recovery s))))"
    and released: "run_released (ho_entity_id h) (hc_runs c)"
  shows "handoff_inv (s\<lparr>hs_catalog := c\<rparr>)"
proof -
  have base: "handoff_inv (s\<lparr>hs_catalog := hs_catalog s\<lparr>hc_runs := hc_runs c\<rparr>\<rparr>)" by (rule runs_keep_inv [OF inv db])
  note D = handoff_invD [OF base, simplified]
  have "source_ok (hc_runs c) (load_handoff i (hv_handoffs (hs_recovery s))) (moved b code h)"
    using D(4) [OF h] paired released by (simp add: source_ok_def run_start_handoff_def)
  have "peer_ok v (Some (moved b code h)) p" if "peer_ok v (Some h) p" for v p
    using that binding_evidence [of "moved b code h" h] by (auto simp: peer_ok_def)
  then have "peer_ok (hs_recovery s) (Some (moved b code h)) p" if "load_handoff i (hv_handoffs (hs_recovery s)) = Some p" for p
    using D(5) [OF that] h by simp
  with \<open>source_ok _ _ (moved b code h)\<close> show ?thesis using D t h by (intro handoff_invI) (auto split: if_splits)
qed

lemma peer_moves_inv:
  assumes inv: "handoff_inv s" and p: "load_handoff i (hv_handoffs (hs_recovery s)) = Some p"
    "load_handoff i (hc_handoffs (hs_catalog s)) = Some h"
    and t: "handoffs_inv t" "\<And>j. load_handoff j t = (if j = i then Some (moved b code p) else load_handoff j (hv_handoffs (hs_recovery s)))"
    and paired: "paired (ho_state h) (Some b)"
  shows "handoff_inv (s\<lparr>hs_recovery := hs_recovery s\<lparr>hv_handoffs := t\<rparr>\<rparr>)"
proof -
  note D = handoff_invD [OF inv]
  have "source_ok (hc_runs (hs_catalog s)) (Some (moved b code p)) h"
    using D(4) [OF p(2)] paired by (simp add: source_ok_def)
  moreover have "peer_ok (hs_recovery s\<lparr>hv_handoffs := t\<rparr>) g (moved b code p)" if "peer_ok (hs_recovery s) g p" for g
    using that by (auto simp: peer_ok_def)
  moreover have "peer_ok (hs_recovery s\<lparr>hv_handoffs := t\<rparr>) g q" if "peer_ok (hs_recovery s) g q" for g q
    using that by (auto simp: peer_ok_def)
  moreover have "binding_ok t b'" if "binding_ok (hv_handoffs (hs_recovery s)) b'" for b'
    using that t(2) p(1) binding_evidence [of "moved b code p" p] by (auto simp: binding_ok_def)
  moreover have "peer_ok (hs_recovery s) (Some h) p" using D(5) [OF p(1)] p(2) by simp
  ultimately show ?thesis using D t p by (intro handoff_invI) (auto split: if_splits)
qed

text \<open>What a successful confirmation did.\<close>

lemma confirm_work_returns:
  assumes inv: "handoff_inv s" and result: "confirm_work now run_id (hs_catalog s) = (Inr h', c)"
    and h: "load_handoff (run_start_handoff_id run_id) (hc_handoffs (hs_catalog s)) = Some h"
    and p: "load_handoff (run_start_handoff_id run_id) (hv_handoffs (hs_recovery s)) = Some p"
      "ho_state p \<in> {HANDOFF_PEER_COMMITTED, HANDOFF_COMPLETED}"
  shows "handoff_inv (s\<lparr>hs_catalog := c\<rparr>)" "load_handoff (run_start_handoff_id run_id) (hc_handoffs c) = Some h'"
    "ho_state h' \<in> {HANDOFF_SOURCE_CONFIRMED, HANDOFF_COMPLETED}" "run_released run_id (hc_runs c)"
    "handoffs_follow (hc_handoffs (hs_catalog s)) (hc_handoffs c)"
proof -
  let ?c = "hs_catalog s"
  let ?i = "run_start_handoff_id run_id"
  note D = handoff_invD [OF inv]
  have ok: "source_ok (hc_runs ?c) (Some p) h" using D(4) [OF h] p(1) by simp
  then have entity: "ho_entity_id h = run_id" "ho_handoff_id h = ?i"
    using load_handoffD(1) [OF h D(2)] run_start_handoffD(1) [of h] by (auto simp: source_ok_def)
  have "handoff_inv (s\<lparr>hs_catalog := c\<rparr>) \<and> load_handoff ?i (hc_handoffs c) = Some h'
    \<and> ho_state h' \<in> {HANDOFF_SOURCE_CONFIRMED, HANDOFF_COMPLETED} \<and> run_released run_id (hc_runs c)
    \<and> handoffs_follow (hc_handoffs ?c) (hc_handoffs c)"
  proof (cases "ho_state h = HANDOFF_PREPARED")
    case True
    obtain c1 c2 where steps: "release_run run_id ?c = (Inr (), c1)" "confirm_source now h c1 = (Inr h', c2)"
      "accept_run_start_receipt now h' c2 = (Inr (), c)"
      using result h True by (auto simp: confirm_work_def load_source_returns)
    obtain run db where release: "db_release_created_run True run_id (hc_runs ?c) = (Inr (Some run), db)"
      "c1 = ?c\<lparr>hc_runs := db\<rparr>" "sr_state run \<noteq> RunState.CREATED"
      using release_run_returns [OF steps(1)] .
    obtain t where t: "transition_handoff True now ?i HANDOFF_PREPARED HANDOFF_SOURCE_CONFIRMED (ho_payload_hash h) None (hc_handoffs ?c)
        = (Inr (Some (moved HANDOFF_SOURCE_CONFIRMED None h)), t)" "handoffs_inv t"
      "\<And>j. load_handoff j t = (if j = ?i then Some (moved HANDOFF_SOURCE_CONFIRMED None h) else load_handoff j (hc_handoffs ?c))"
      using transition_moves [OF D(2) h True refl, of HANDOFF_SOURCE_CONFIRMED True now None] by auto
    have "h' = moved HANDOFF_SOURCE_CONFIRMED None h" "c2 = c1\<lparr>hc_handoffs := t\<rparr>"
      using steps(2) t(1) release(2) entity(2) by (auto simp: confirm_source_def on_catalog_handoffs_def call_then_def)
    moreover have "hc_runs c = db" "hc_handoffs c = t"
      using accept_receipt_frame [OF steps(3)] calculation release(2) by simp_all
    moreover have "good (hc_runs ?c) db" using release_created_run_good [OF D(1), of True run_id] release(1) by simp
    moreover have "run_released run_id db" by (rule released_after_release [OF release(1,3)])
    moreover have "handoff_inv (s\<lparr>hs_catalog := c\<rparr>)"
      using source_moves_inv [OF inv h, of c HANDOFF_SOURCE_CONFIRMED None] calculation t p entity by auto
    moreover have "handoffs_follow (hc_handoffs ?c) t" using moved_follows [OF h _ t(3)] True by simp
    ultimately show ?thesis using t(3) by simp
  next
    case False
    then have "h' = h" "hc_runs c = hc_runs ?c" "hc_handoffs c = hc_handoffs ?c"
      using result h accept_receipt_frame [of now h ?c "()" c] by (auto simp: confirm_work_def load_source_returns)
    moreover have "ho_state h \<in> {HANDOFF_SOURCE_CONFIRMED, HANDOFF_COMPLETED}" "run_released run_id (hc_runs ?c)"
      using ok False entity by (cases "ho_state h"; auto simp: source_ok_def)+
    ultimately show ?thesis using inv h handoff_inv_cong [OF inv, of "s\<lparr>hs_catalog := c\<rparr>"] by simp
  qed
  then show "handoff_inv (s\<lparr>hs_catalog := c\<rparr>)" "load_handoff ?i (hc_handoffs c) = Some h'"
    "ho_state h' \<in> {HANDOFF_SOURCE_CONFIRMED, HANDOFF_COMPLETED}" "run_released run_id (hc_runs c)" "handoffs_follow (hc_handoffs ?c) (hc_handoffs c)" by blast+
qed

lemma confirm_raises:
  assumes "handoff_inv s" "confirm_catalog_source now run_id s = (Inl e, s')"
  shows "s' = s"
  using assms(2) transactional_alone_raises
  by (fastforce simp: confirm_catalog_source_def call_then_def matching_handoffs_eq [OF assms(1)] in_catalog_def Let_def
      split: option.splits if_splits prod.splits)

lemma confirm_returns:
  assumes inv: "handoff_inv s" and result: "confirm_catalog_source now run_id s = (Inr h', s')"
  obtains h c where "confirm_work now run_id (hs_catalog s) = (Inr h', c)" "s' = s\<lparr>hs_catalog := c\<rparr>" "handoff_inv s'"
    "load_handoff (run_start_handoff_id run_id) (hc_handoffs (hs_catalog s)) = Some h"
    "load_handoff (run_start_handoff_id run_id) (hc_handoffs c) = Some h'"
    "ho_state h' \<in> {HANDOFF_SOURCE_CONFIRMED, HANDOFF_COMPLETED}" "run_released run_id (hc_runs c)"
    "stores_follow s s'"
proof -
  let ?i = "run_start_handoff_id run_id"
  obtain h p c where *: "load_handoff ?i (hc_handoffs (hs_catalog s)) = Some h"
    "load_handoff ?i (hv_handoffs (hs_recovery s)) = Some p" "ho_state p \<in> {HANDOFF_PEER_COMMITTED, HANDOFF_COMPLETED}"
    "confirm_work now run_id (hs_catalog s) = (Inr h', c)" "s' = s\<lparr>hs_catalog := c\<rparr>"
    using result by (auto simp: confirm_catalog_source_def matching_handoffs_eq [OF inv] split: option.splits if_splits)
  from confirm_work_returns [OF inv *(4,1-3)] show ?thesis using that * by (auto simp: stores_follow_def)
qed

section \<open>Completing\<close>

text \<open>The peer of a confirmed source can be completed, and then the source.\<close>

lemma complete_peer_eq:
  assumes inv: "handoff_inv s" and h: "load_handoff i (hc_handoffs (hs_catalog s)) = Some h" "ho_state h = HANDOFF_SOURCE_CONFIRMED"
    and p: "load_handoff i (hv_handoffs (hs_recovery s)) = Some p"
  obtains p' s' where "complete_peer now p s = (Inr p', s')" "ho_state p' = HANDOFF_COMPLETED" "handoff_inv s'"
    "hs_catalog s' = hs_catalog s" "load_handoff i (hv_handoffs (hs_recovery s')) = Some p'" "stores_follow s s'"
proof -
  note D = handoff_invD [OF inv]
  have state: "ho_state p = HANDOFF_PEER_COMMITTED \<or> ho_state p = HANDOFF_COMPLETED"
    using D(4) [OF h(1)] p h(2) by (simp add: source_ok_def)
  have id: "ho_handoff_id p = i" using load_handoffD(1) [OF p D(3)] .
  show ?thesis
  proof (cases "ho_state p = HANDOFF_PEER_COMMITTED")
    case True
    let ?q = "moved HANDOFF_COMPLETED None p"
    obtain t where t: "transition_handoff False now i HANDOFF_PEER_COMMITTED HANDOFF_COMPLETED (ho_payload_hash p) None
          (hv_handoffs (hs_recovery s)) = (Inr (Some ?q), t)" "handoffs_inv t"
      "\<And>j. load_handoff j t = (if j = i then Some ?q else load_handoff j (hv_handoffs (hs_recovery s)))"
      using transition_moves [OF D(3) p True refl, of HANDOFF_COMPLETED False now None] by auto
    let ?s = "s\<lparr>hs_recovery := hs_recovery s\<lparr>hv_handoffs := t\<rparr>\<rparr>"
    have "complete_peer now p s = (Inr ?q, ?s)" using True id t(1) by (simp add: complete_peer_def)
    moreover have "handoff_inv ?s" using peer_moves_inv [OF inv p h(1) t(2,3)] h(2) by simp
    moreover have "stores_follow s ?s" using moved_follows [OF p _ t(3)] True by (simp add: stores_follow_def)
    ultimately show ?thesis using that [of ?q ?s] t(3) by simp
  next
    case False
    then show ?thesis using state that [of p s] inv p by (simp add: complete_peer_def)
  qed
qed

lemma complete_source_eq:
  assumes inv: "handoff_inv s" and h: "load_handoff i (hc_handoffs (hs_catalog s)) = Some h" "ho_state h = HANDOFF_SOURCE_CONFIRMED"
    and p: "load_handoff i (hv_handoffs (hs_recovery s)) = Some p" "ho_state p = HANDOFF_COMPLETED"
  obtains h' s' where "complete_source now h s = (Inr h', s')" "ho_state h' = HANDOFF_COMPLETED" "handoff_inv s'"
    "hs_recovery s' = hs_recovery s" "load_handoff i (hc_handoffs (hs_catalog s')) = Some h'"
    "hc_runs (hs_catalog s') = hc_runs (hs_catalog s)" "stores_follow s s'"
proof -
  note D = handoff_invD [OF inv]
  have id: "ho_handoff_id h = i" using load_handoffD(1) [OF h(1) D(2)] .
  let ?h = "moved HANDOFF_COMPLETED None h"
  obtain t where t: "transition_handoff False now i HANDOFF_SOURCE_CONFIRMED HANDOFF_COMPLETED (ho_payload_hash h) None
        (hc_handoffs (hs_catalog s)) = (Inr (Some ?h), t)" "handoffs_inv t"
    "\<And>j. load_handoff j t = (if j = i then Some ?h else load_handoff j (hc_handoffs (hs_catalog s)))"
    using transition_moves [OF D(2) h refl, of HANDOFF_COMPLETED False now None] by auto
  let ?c = "hs_catalog s\<lparr>hc_handoffs := t\<rparr>"
  have "complete_source now h s = (Inr ?h, s\<lparr>hs_catalog := ?c\<rparr>)" using id t(1) by (simp add: complete_source_def)
  moreover have "run_released (ho_entity_id h) (hc_runs ?c)" using D(4) [OF h(1)] h(2) by (simp add: source_ok_def)
  then have "handoff_inv (s\<lparr>hs_catalog := ?c\<rparr>)"
    using source_moves_inv [OF inv h(1), of ?c HANDOFF_COMPLETED None] t(2,3) p good_refl [OF D(1)] by simp
  moreover have "stores_follow s (s\<lparr>hs_catalog := ?c\<rparr>)" using moved_follows [OF h(1) _ t(3)] h(2) by (simp add: stores_follow_def)
  ultimately show ?thesis using that [of ?h "s\<lparr>hs_catalog := ?c\<rparr>"] t(3) by simp
qed

lemma complete_run_start_confirmed:
  assumes inv: "handoff_inv s" and h: "load_handoff (run_start_handoff_id run_id) (hc_handoffs (hs_catalog s)) = Some h"
    and state: "ho_state h \<in> {HANDOFF_SOURCE_CONFIRMED, HANDOFF_COMPLETED}"
  obtains h' p' s' where "complete_run_start now run_id s = (Inr h', s')" "handoff_inv s'"
    "ho_state h' = HANDOFF_COMPLETED" "ho_state p' = HANDOFF_COMPLETED"
    "load_handoff (run_start_handoff_id run_id) (hc_handoffs (hs_catalog s')) = Some h'"
    "load_handoff (run_start_handoff_id run_id) (hv_handoffs (hs_recovery s')) = Some p'"
    "hc_runs (hs_catalog s') = hc_runs (hs_catalog s)" "stores_follow s s'"
proof -
  let ?i = "run_start_handoff_id run_id"
  have "source_ok (hc_runs (hs_catalog s)) (load_handoff ?i (hv_handoffs (hs_recovery s))) h"
    using handoff_invD(4) [OF inv h] .
  then obtain p where p: "load_handoff ?i (hv_handoffs (hs_recovery s)) = Some p" "paired (ho_state h) (Some (ho_state p))"
    using state by (cases "load_handoff ?i (hv_handoffs (hs_recovery s))") (auto simp: source_ok_def)
  show ?thesis
  proof (cases "ho_state h = HANDOFF_COMPLETED")
    case True
    then show ?thesis
      using p that [of h s p] inv h by (simp add: complete_run_start_def call_then_def matching_handoffs_eq [OF inv])
  next
    case False
    then have confirmed: "ho_state h = HANDOFF_SOURCE_CONFIRMED" using state by simp
    from complete_peer_eq [OF inv h confirmed p(1)] obtain p' s1 where s1: "complete_peer now p s = (Inr p', s1)"
      "ho_state p' = HANDOFF_COMPLETED" "handoff_inv s1" "hs_catalog s1 = hs_catalog s"
      "load_handoff ?i (hv_handoffs (hs_recovery s1)) = Some p'"
      "stores_follow s s1" .
    have h1: "load_handoff ?i (hc_handoffs (hs_catalog s1)) = Some h" using s1(4) h by simp
    from complete_source_eq [OF s1(3) h1 confirmed s1(5,2)] obtain h' s2 where s2: "complete_source now h s1 = (Inr h', s2)"
      "ho_state h' = HANDOFF_COMPLETED" "handoff_inv s2" "hs_recovery s2 = hs_recovery s1"
      "load_handoff ?i (hc_handoffs (hs_catalog s2)) = Some h'" "hc_runs (hs_catalog s2) = hc_runs (hs_catalog s1)"
      "stores_follow s1 s2" .
    have "complete_run_start now run_id s = (Inr h', s2)"
      using h p(1) confirmed s1(1,2) s2(1) by (simp add: complete_run_start_def call_then_def matching_handoffs_eq [OF inv])
    then show ?thesis using that [of h' s2 p'] s1 s2 stores_follow_trans [OF s1(6) s2(7)] by simp
  qed
qed

lemma complete_keeps_inv:
  assumes inv: "handoff_inv s"
  shows "handoff_inv (snd (complete_run_start now run_id s)) \<and> stores_follow s (snd (complete_run_start now run_id s))"
proof (cases "\<exists>h. load_handoff (run_start_handoff_id run_id) (hc_handoffs (hs_catalog s)) = Some h
    \<and> ho_state h \<in> {HANDOFF_SOURCE_CONFIRMED, HANDOFF_COMPLETED}")
  case True
  then obtain h where "load_handoff (run_start_handoff_id run_id) (hc_handoffs (hs_catalog s)) = Some h"
    "ho_state h \<in> {HANDOFF_SOURCE_CONFIRMED, HANDOFF_COMPLETED}" by blast
  from complete_run_start_confirmed [OF inv this] show ?thesis by (metis snd_conv)
next
  case False
  then have "snd (complete_run_start now run_id s) = s"
    by (auto simp: complete_run_start_def call_then_def matching_handoffs_eq [OF inv] split: option.splits)
  then show ?thesis using inv by simp
qed

end
