(* ===== verification/Run_Control.thy ===== *)
theory Run_Control
  imports Run_Steps
begin

text \<open>
  The pause, resume and stop commands of \<open>application/runs.py\<close>.  The handlers take the operations of
  the \<open>RunControlStore\<close> protocol as arguments.  The laws the handlers rely on are the locales
  \<open>run_pause_store\<close> and \<open>run_control_store\<close>; the SQLite store satisfies the first inside and
  outside a caller's transaction, the second only outside one.  The guidance text
  \<open>next_action\<close> of the outcomes, which no code reads, is left out.
\<close>

record RunControlCommand =
  rcc_request_id :: string
  rcc_idempotency_key :: string
  rcc_run_id :: string

record RunControlOutcome =
  rco_applied :: bool
  rco_idempotent_replay :: bool
  rco_run_id :: string
  rco_run :: "StartedRun option"
  rco_validation_codes :: "string list"

definition parse_run_control_command ::
  "string \<Rightarrow> string \<Rightarrow> (string \<times> json) list \<Rightarrow> RunControlCommand result" where
  "parse_run_control_command request_id idempotency_key payload =
     (case map_of payload ''run_id'' of
        Some (JStr run_id) \<Rightarrow>
          if blank run_id then Inl ''RUN_CONTROL_REQUIRES_RUN_ID''
          else Inr \<lparr>rcc_request_id = request_id, rcc_idempotency_key = idempotency_key, rcc_run_id = strip run_id\<rparr>
      | _ \<Rightarrow> Inl ''RUN_CONTROL_REQUIRES_RUN_ID'')"

definition run_control_rejected :: "string \<Rightarrow> string \<Rightarrow> StartedRun option \<Rightarrow> RunControlOutcome" where
  "run_control_rejected run_id validation_code run =
     \<lparr>rco_applied = False, rco_idempotent_replay = False, rco_run_id = run_id, rco_run = run,
      rco_validation_codes = [validation_code]\<rparr>"

definition run_control_applied :: "bool \<Rightarrow> StartedRun \<Rightarrow> RunControlOutcome" where
  "run_control_applied replay run =
     \<lparr>rco_applied = True, rco_idempotent_replay = replay, rco_run_id = sr_run_id run, rco_run = Some run,
      rco_validation_codes = []\<rparr>"

type_synonym 's loader = "string \<Rightarrow> 's \<Rightarrow> StartedRun option result"
type_synonym 's run_operation = "string \<Rightarrow> 's \<Rightarrow> StartedRun option result \<times> 's"

definition request_run_pause ::
  "'s loader \<Rightarrow> 's run_operation \<Rightarrow> RunControlCommand \<Rightarrow> 's \<Rightarrow> RunControlOutcome result \<times> 's" where
  "request_run_pause load_run pause command s =
     (case load_run (rcc_run_id command) s of
        Inl e \<Rightarrow> (Inl e, s)
      | Inr None \<Rightarrow> (Inr (run_control_rejected (rcc_run_id command) ''RUN_NOT_FOUND'' None), s)
      | Inr (Some run) \<Rightarrow>
          if sr_state run \<in> set [RunState.PAUSING, RunState.PAUSED] then (Inr (run_control_applied True run), s)
          else if sr_state run \<notin> set [RunState.CREATED, RunState.QUEUED, RunState.PREFLIGHT, RunState.EXECUTING]
          then (Inr (run_control_rejected (sr_run_id run) ''RUN_NOT_PAUSABLE'' (Some run)), s)
          else
            (case pause (sr_run_id run) s of
               (Inl e, s') \<Rightarrow> (Inl e, s')
             | (Inr None, s') \<Rightarrow> (Inr (run_control_rejected (sr_run_id run) ''RUN_PAUSE_STATE_CONFLICT'' None), s')
             | (Inr (Some updated), s') \<Rightarrow> (Inr (run_control_applied False updated), s')))"

definition resume_paused_run ::
  "'s loader \<Rightarrow> 's run_operation \<Rightarrow> RunControlCommand \<Rightarrow> 's \<Rightarrow> RunControlOutcome result \<times> 's" where
  "resume_paused_run load_run resume command s =
     (case load_run (rcc_run_id command) s of
        Inl e \<Rightarrow> (Inl e, s)
      | Inr None \<Rightarrow> (Inr (run_control_rejected (rcc_run_id command) ''RUN_NOT_FOUND'' None), s)
      | Inr (Some run) \<Rightarrow>
          if sr_state run = RunState.PAUSING
          then (Inr (run_control_rejected (sr_run_id run) ''RUN_PAUSE_BOUNDARY_PENDING'' (Some run)), s)
          else if sr_state run \<noteq> RunState.PAUSED
          then (Inr (run_control_rejected (sr_run_id run) ''RUN_NOT_RESUMABLE'' (Some run)), s)
          else
            (case resume (sr_run_id run) s of
               (Inl e, s') \<Rightarrow> (Inl e, s')
             | (Inr None, s') \<Rightarrow> (Inr (run_control_rejected (sr_run_id run) ''RUN_RESUME_STATE_CONFLICT'' None), s')
             | (Inr (Some updated), s') \<Rightarrow> (Inr (run_control_applied False updated), s')))"

definition request_run_stop_after_active_file ::
  "'s loader \<Rightarrow> 's run_operation \<Rightarrow> RunControlCommand \<Rightarrow> 's \<Rightarrow> RunControlOutcome result \<times> 's" where
  "request_run_stop_after_active_file load_run stop command s =
     (case load_run (rcc_run_id command) s of
        Inl e \<Rightarrow> (Inl e, s)
      | Inr None \<Rightarrow> (Inr (run_control_rejected (rcc_run_id command) ''RUN_NOT_FOUND'' None), s)
      | Inr (Some run) \<Rightarrow>
          if sr_state run = RunState.CANCELLED then (Inr (run_control_applied True run), s)
          else if sr_state run \<notin> set STOPPABLE_RUN_STATES
          then (Inr (run_control_rejected (sr_run_id run) ''RUN_NOT_STOPPABLE'' (Some run)), s)
          else
            (case stop (sr_run_id run) s of
               (Inl e, s') \<Rightarrow> (Inl e, s')
             | (Inr None, s') \<Rightarrow> (Inr (run_control_rejected (sr_run_id run) ''RUN_STOP_STATE_CONFLICT'' None), s')
             | (Inr (Some updated), s') \<Rightarrow> (Inr (run_control_applied False updated), s')))"

section \<open>What the handlers need of the store\<close>

text \<open>\<open>stopping i s\<close>: the store holds a pending stop request for run \<open>i\<close>.\<close>

locale run_pause_store =
  fixes load_run :: "string \<Rightarrow> 's \<Rightarrow> StartedRun option result"
    and pause :: "string \<Rightarrow> 's \<Rightarrow> StartedRun option result \<times> 's"
    and stop :: "string \<Rightarrow> 's \<Rightarrow> StartedRun option result \<times> 's"
    and valid :: "'s \<Rightarrow> bool"
    and stopping :: "string \<Rightarrow> 's \<Rightarrow> bool"
  assumes load_id: "load_run i s = Inr (Some run) \<Longrightarrow> sr_run_id run = i"
    and load_total: "valid s \<Longrightarrow> \<exists>x. load_run i s = Inr x"
    and pause_done: "valid s \<Longrightarrow> pause i s = (Inr (Some run), s') \<Longrightarrow>
          valid s' \<and> load_run i s' = Inr (Some run) \<and> sr_state run = RunState.PAUSING \<and> \<not> stopping i s"
    and pause_refused: "valid s \<Longrightarrow> pause i s = (Inr None, s') \<Longrightarrow> s' = s"
    and pause_total: "valid s \<Longrightarrow> \<exists>x s'. pause i s = (Inr x, s')"
    and stop_done: "valid s \<Longrightarrow> stop i s = (Inr (Some run), s') \<Longrightarrow>
          valid s' \<and> load_run i s' = Inr (Some run) \<and> stopping i s'"
    and stop_refused: "valid s \<Longrightarrow> stop i s = (Inr None, s') \<Longrightarrow> s' = s"
    and stop_total: "valid s \<Longrightarrow> \<exists>x s'. stop i s = (Inr x, s')"
begin

text \<open>The handlers raise nothing on a valid store, and an outcome that is not applied changed nothing.\<close>

lemma pause_handler:
  assumes "valid s"
  shows "\<exists>out s'. request_run_pause load_run pause c s = (Inr out, s') \<and> valid s' \<and>
     (if rco_applied out
      then \<exists>run. rco_run out = Some run \<and> load_run (rcc_run_id c) s' = Inr (Some run)
             \<and> sr_state run \<in> {RunState.PAUSING, RunState.PAUSED} \<and> (rco_idempotent_replay out \<longrightarrow> s' = s)
      else s' = s \<and> rco_validation_codes out \<noteq> [])"
proof -
  obtain x where x: "load_run (rcc_run_id c) s = Inr x" using load_total [OF assms] by blast
  obtain y s1 where y: "pause (rcc_run_id c) s = (Inr y, s1)" using pause_total [OF assms] by blast
  show ?thesis
  proof (cases x)
    case None
    then show ?thesis using x assms by (simp add: request_run_pause_def run_control_rejected_def)
  next
    case (Some run)
    then have id: "sr_run_id run = rcc_run_id c" using load_id x by blast
    show ?thesis
    proof (cases y)
      case None
      then have "s1 = s" using pause_refused [OF assms] y by blast
      then show ?thesis
        using None Some x y id assms
        by (auto simp: request_run_pause_def run_control_rejected_def run_control_applied_def)
    next
      case (Some updated)
      then show ?thesis
        using pause_done [OF assms] \<open>x = Some run\<close> x y id assms
        by (auto simp: request_run_pause_def run_control_rejected_def run_control_applied_def)
    qed
  qed
qed

lemma stop_handler:
  assumes "valid s"
  shows "\<exists>out s'. request_run_stop_after_active_file load_run stop c s = (Inr out, s') \<and> valid s' \<and>
     (if rco_applied out
      then \<exists>run. rco_run out = Some run \<and> load_run (rcc_run_id c) s' = Inr (Some run)
             \<and> (if rco_idempotent_replay out then s' = s \<and> sr_state run = RunState.CANCELLED
                else stopping (rcc_run_id c) s')
      else s' = s \<and> rco_validation_codes out \<noteq> [])"
proof -
  obtain x where x: "load_run (rcc_run_id c) s = Inr x" using load_total [OF assms] by blast
  obtain y s1 where y: "stop (rcc_run_id c) s = (Inr y, s1)" using stop_total [OF assms] by blast
  show ?thesis
  proof (cases x)
    case None
    then show ?thesis using x assms by (simp add: request_run_stop_after_active_file_def run_control_rejected_def)
  next
    case (Some run)
    then have id: "sr_run_id run = rcc_run_id c" using load_id x by blast
    show ?thesis
    proof (cases y)
      case None
      then have "s1 = s" using stop_refused [OF assms] y by blast
      then show ?thesis
        using None Some x y id assms
        by (auto simp: request_run_stop_after_active_file_def run_control_rejected_def run_control_applied_def)
    next
      case (Some updated)
      then show ?thesis
        using stop_done [OF assms] \<open>x = Some run\<close> x y id assms
        by (auto simp: request_run_stop_after_active_file_def run_control_rejected_def run_control_applied_def)
    qed
  qed
qed

end

locale run_control_store = run_pause_store load_run pause stop valid stopping
  for load_run :: "string \<Rightarrow> 's \<Rightarrow> StartedRun option result"
    and pause :: "string \<Rightarrow> 's \<Rightarrow> StartedRun option result \<times> 's"
    and stop :: "string \<Rightarrow> 's \<Rightarrow> StartedRun option result \<times> 's"
    and valid :: "'s \<Rightarrow> bool"
    and stopping :: "string \<Rightarrow> 's \<Rightarrow> bool" +
  fixes resume :: "string \<Rightarrow> 's \<Rightarrow> StartedRun option result \<times> 's"
  assumes resume_done: "valid s \<Longrightarrow> resume i s = (Inr (Some run), s') \<Longrightarrow>
          valid s' \<and> load_run i s' = Inr (Some run) \<and> sr_state run = RunState.QUEUED
          \<and> list_all (\<lambda>t. rt_state t \<noteq> RunTargetState.PAUSED) (sr_targets run)
          \<and> list_ex (\<lambda>t. rt_state t = RunTargetState.PENDING) (sr_targets run) \<and> \<not> stopping i s"
    and resume_refused: "valid s \<Longrightarrow> resume i s = (Inr None, s') \<Longrightarrow> s' = s"
    and resume_total: "valid s \<Longrightarrow> \<exists>x s'. resume i s = (Inr x, s')"
begin

lemma resume_handler:
  assumes "valid s"
  shows "\<exists>out s'. resume_paused_run load_run resume c s = (Inr out, s') \<and> valid s' \<and>
     (if rco_applied out
      then \<exists>run. rco_run out = Some run \<and> load_run (rcc_run_id c) s' = Inr (Some run) \<and> sr_state run = RunState.QUEUED
             \<and> list_ex (\<lambda>t. rt_state t = RunTargetState.PENDING) (sr_targets run) \<and> \<not> stopping (rcc_run_id c) s
      else s' = s \<and> rco_validation_codes out \<noteq> [])"
proof -
  obtain x where x: "load_run (rcc_run_id c) s = Inr x" using load_total [OF assms] by blast
  obtain y s1 where y: "resume (rcc_run_id c) s = (Inr y, s1)" using resume_total [OF assms] by blast
  show ?thesis
  proof (cases x)
    case None
    then show ?thesis using x assms by (simp add: resume_paused_run_def run_control_rejected_def)
  next
    case (Some run)
    then have id: "sr_run_id run = rcc_run_id c" using load_id x by blast
    show ?thesis
    proof (cases y)
      case None
      then have "s1 = s" using resume_refused [OF assms] y by blast
      then show ?thesis
        using None Some x y id assms
        by (auto simp: resume_paused_run_def run_control_rejected_def run_control_applied_def)
    next
      case (Some updated)
      then show ?thesis
        using resume_done [OF assms] \<open>x = Some run\<close> x y id assms
        by (auto simp: resume_paused_run_def run_control_rejected_def run_control_applied_def)
    qed
  qed
qed

end

section \<open>The SQLite store as a provider\<close>

lemma load_run_total:
  assumes "catalog_inv db"
  shows "\<exists>x. db_load_started_run i db = Inr x \<and> (x = None \<longleftrightarrow> i \<notin> rr_id ` set (c_runs db))"
proof (cases "List.find (\<lambda>r. rr_id r = i) (c_runs db)")
  case None
  then have "i \<notin> rr_id ` set (c_runs db)" by (auto simp: find_None_iff')
  then show ?thesis by (simp add: db_load_started_run_def load_one_def None)
next
  case (Some r)
  then have r: "r \<in> set (c_runs db)" "rr_id r = i" using find_Some_iff' [OF Some] by auto
  then obtain d where "json_object (rr_summary_json r) = Inr d"
    using inv_row(1) [OF assms] by (auto simp: run_ok_def json_object_ok_def)
  then show ?thesis using Some r by (auto simp: db_load_started_run_def load_one_def started_run_def)
qed

lemma load_run_row:
  assumes "db_load_started_run i db = Inr (Some run)"
  shows "\<exists>r. r \<in> set (c_runs db) \<and> rr_id r = i \<and> sr_state run = rr_state r \<and> sr_targets run = load_targets db i"
  by (rule load_started_run_SomeD [OF assms]) auto

lemma load_run_id: "db_load_started_run i db = Inr (Some run) \<Longrightarrow> sr_run_id run = i"
  by (erule load_started_run_SomeD)

lemma return_run_valid:
  assumes "catalog_inv db1" "i \<in> rr_id ` set (c_runs db1)"
  shows "\<exists>run. return_run outer db db1 i = (Inr (Some run), db1) \<and> db_load_started_run i db1 = Inr (Some run)"
  using load_run_total [OF assms(1), of i] assms(2) by (auto simp: return_run_def)

lemma count_runs_le_1:
  assumes "catalog_inv db"
  shows "sql_count (\<lambda>r. rr_id r = i \<and> p r) (c_runs db) \<le> 1"
  using assms by (intro sql_count_key_le_1 [of rr_id _ _ i]) (auto simp: catalog_inv_def run_keys_ok_def)

lemma run_miss:
  assumes "catalog_inv db" "sql_count (\<lambda>r. rr_id r = i \<and> p r) (c_runs db) \<noteq> Suc 0"
  shows "update_runs (\<lambda>r. rr_id r = i \<and> p r) f db = db"
  using count_runs_le_1 [OF assms(1), of i p] assms(2) by (simp add: update_runs_def sql_update_no_match)

lemma count_runs_hit:
  assumes "sql_count (\<lambda>r. rr_id r = i \<and> p r) rows = Suc 0"
  obtains r where "r \<in> set rows" "rr_id r = i" "p r"
  using assms sql_count_pos [of "\<lambda>r. rr_id r = i \<and> p r" rows] by auto

text \<open>The row a guarded update of one run leaves under its key.\<close>

lemma updated_run:
  assumes "distinct (map rr_id (c_runs db))" "r0 \<in> set (c_runs db)" "rr_id r0 = i" "p r0"
    "\<And>r. rr_id (f r) = rr_id r" "r \<in> set (c_runs (update_runs (\<lambda>r. rr_id r = i \<and> p r) f db))" "rr_id r = i"
  shows "r = (f r0)\<lparr>rr_row_version := rr_row_version r0 + 1\<rparr>"
proof -
  obtain r1 where r1: "r1 \<in> set (c_runs db)"
      "r = (if rr_id r1 = i \<and> p r1 then (f r1)\<lparr>rr_row_version := rr_row_version r1 + 1\<rparr> else r1)"
    using assms(6) by (auto simp: update_runs_def set_sql_update)
  then have "rr_id r1 = i" using assms(5,7) by (auto split: if_splits)
  then have "r1 = r0" using assms(1,2,3) r1(1) by (metis distinct_map inj_onD)
  then show ?thesis using r1 assms(3,4) by simp
qed

lemma update_runs_ids:
  "(\<And>r. rr_id (f r) = rr_id r) \<Longrightarrow> map rr_id (c_runs (update_runs p f db)) = map rr_id (c_runs db)"
  by (simp add: update_runs_def sql_update_map_key)

lemma distinct_run_ids: "catalog_inv db \<Longrightarrow> distinct (map rr_id (c_runs db))"
  by (simp add: catalog_inv_def run_keys_ok_def)

lemma db_pause_laws:
  assumes inv: "catalog_inv db"
  shows "(\<exists>run db'. db_request_run_pause outer i db = (Inr (Some run), db') \<and> catalog_inv db'
            \<and> db_load_started_run i db' = Inr (Some run) \<and> sr_state run = RunState.PAUSING \<and> \<not> stop_pending db i)
         \<or> db_request_run_pause outer i db = (Inr None, db)"
proof -
  let ?p = "\<lambda>r. rr_state r \<in> set [RunState.CREATED, RunState.QUEUED, RunState.PREFLIGHT, RunState.EXECUTING]
            \<and> \<not> stop_pending db (rr_id r)"
  let ?db1 = "update_runs (\<lambda>r. rr_id r = i \<and> ?p r) (\<lambda>r. r\<lparr>rr_state := RunState.PAUSING\<rparr>) db"
  show ?thesis
  proof (cases "sql_count (\<lambda>r. rr_id r = i \<and> ?p r) (c_runs db) = Suc 0")
    case True
    then obtain r0 where r0: "r0 \<in> set (c_runs db)" "rr_id r0 = i" "?p r0" by (rule count_runs_hit)
    have op: "db_request_run_pause b i db = return_run b db ?db1 i" for b
      using True by (simp add: db_request_run_pause_def Let_def)
    have inv1: "catalog_inv ?db1"
      using request_run_pause_good [OF inv, of True i] unfolding op
      by (simp add: good_def return_run_def give_up_def split: sum.splits option.splits)
    have "i \<in> set (map rr_id (c_runs ?db1))" using r0 by (subst update_runs_ids) auto
    then obtain run where run: "return_run outer db ?db1 i = (Inr (Some run), ?db1)" "db_load_started_run i ?db1 = Inr (Some run)"
      using return_run_valid [OF inv1, of i outer db] by auto
    from load_run_row [OF run(2)] obtain r where r: "r \<in> set (c_runs ?db1)" "rr_id r = i" "sr_state run = rr_state r"
      by (elim exE conjE)
    have "r = (r0\<lparr>rr_state := RunState.PAUSING\<rparr>)\<lparr>rr_row_version := rr_row_version r0 + 1\<rparr>"
      by (rule updated_run [OF distinct_run_ids [OF inv] r0 _ r(1,2)]) simp
    with r(3) have "sr_state run = RunState.PAUSING" by simp
    moreover have "db_request_run_pause outer i db = (Inr (Some run), ?db1)" using op run(1) by (simp only:)
    moreover have "\<not> stop_pending db i" using r0(2,3) by simp
    ultimately show ?thesis using run(2) inv1 by blast
  next
    case False
    then show ?thesis
      using run_miss [OF inv False, of "\<lambda>r. r\<lparr>rr_state := RunState.PAUSING\<rparr>"]
      by (simp add: db_request_run_pause_def Let_def give_up_def)
  qed
qed

lemma db_stop_laws:
  assumes inv: "catalog_inv db"
  shows "(\<exists>run db'. db_request_run_stop_after_active_file outer now i db = (Inr (Some run), db') \<and> catalog_inv db'
            \<and> db_load_started_run i db' = Inr (Some run) \<and> stop_pending db' i)
         \<or> db_request_run_stop_after_active_file outer now i db = (Inr None, db)"
proof -
  consider (new) "run_in db i STOPPABLE_RUN_STATES" "i \<notin> set (map st_run_id (c_run_stop_requests db))"
    | (none) "\<not> (run_in db i STOPPABLE_RUN_STATES \<and> i \<notin> set (map st_run_id (c_run_stop_requests db)))"
        "db_load_run_stop_request i db = None"
    | (old) "\<not> (run_in db i STOPPABLE_RUN_STATES \<and> i \<notin> set (map st_run_id (c_run_stop_requests db)))"
        "db_load_run_stop_request i db \<noteq> None"
    by blast
  then show ?thesis
  proof cases
    case new
    define X where "X = update_runs (\<lambda>r. rr_id r = i) (\<lambda>r. r) (db\<lparr>c_run_stop_requests := c_run_stop_requests db @
        [\<lparr>st_run_id = i, st_state = STOP_PENDING, st_boundary_run_target_id = None,
          st_boundary_operation_id = None, st_requested_utc = now, st_applied_utc = None, st_row_version = 1\<rparr>]\<rparr>)"
    have op: "db_request_run_stop_after_active_file b now i db = return_run b db X i" for b
      using new by (simp add: db_request_run_stop_after_active_file_def X_def)
    have invX: "catalog_inv X"
      using request_stop_good [OF inv, of True now i] unfolding op
      by (simp add: good_def return_run_def give_up_def split: sum.splits option.splits)
    have "map rr_id (c_runs X) = map rr_id (c_runs db)" by (simp add: X_def update_runs_ids)
    moreover have "i \<in> set (map rr_id (c_runs db))" using new(1) by (auto simp: run_in_def list_ex_iff)
    ultimately have "i \<in> rr_id ` set (c_runs X)" by (metis list.set_map)
    from return_run_valid [OF invX this, of outer db] obtain run where
      "return_run outer db X i = (Inr (Some run), X)" "db_load_started_run i X = Inr (Some run)" by (elim exE conjE)
    moreover have "stop_pending X i" by (simp add: stop_pending_def X_def update_runs_def)
    ultimately show ?thesis using op invX by metis
  next
    case none
    then show ?thesis by (auto simp: db_request_run_stop_after_active_file_def give_up_def)
  next
    case old
    then have p: "stop_pending db i"
      by (auto simp: db_load_run_stop_request_def stop_pending_def list_ex_iff find_None_iff')
    then have "i \<in> rr_id ` set (c_runs db)"
      using inv by (auto simp: stop_pending_def list_ex_iff catalog_inv_def stop_keys_ok_def)
    from return_run_valid [OF inv this, of outer db] obtain run where
      "return_run outer db db i = (Inr (Some run), db)" "db_load_started_run i db = Inr (Some run)" by (elim exE conjE)
    moreover have "db_request_run_stop_after_active_file outer now i db = return_run outer db db i"
      using old by (auto simp: db_request_run_stop_after_active_file_def)
    ultimately show ?thesis using inv p by metis
  qed
qed

interpretation sqlite_pause: run_pause_store db_load_started_run "db_request_run_pause outer"
  "db_request_run_stop_after_active_file outer now" catalog_inv "\<lambda>i db. stop_pending db i"
  for outer now
proof
  fix i s run s'
  show "db_load_started_run i s = Inr (Some run) \<Longrightarrow> sr_run_id run = i" by (rule load_run_id)
  assume v: "catalog_inv s"
  show "\<exists>x. db_load_started_run i s = Inr x" using load_run_total [OF v] by blast
  note p = db_pause_laws [OF v, of outer i] and q = db_stop_laws [OF v, of outer now i]
  show "db_request_run_pause outer i s = (Inr (Some run), s') \<Longrightarrow>
     catalog_inv s' \<and> db_load_started_run i s' = Inr (Some run) \<and> sr_state run = RunState.PAUSING \<and> \<not> stop_pending s i"
    using p by auto
  show "db_request_run_pause outer i s = (Inr None, s') \<Longrightarrow> s' = s" using p by auto
  show "\<exists>x s'. db_request_run_pause outer i s = (Inr x, s')" using p by auto
  show "db_request_run_stop_after_active_file outer now i s = (Inr (Some run), s') \<Longrightarrow>
     catalog_inv s' \<and> db_load_started_run i s' = Inr (Some run) \<and> stop_pending s' i" using q by auto
  show "db_request_run_stop_after_active_file outer now i s = (Inr None, s') \<Longrightarrow> s' = s" using q by auto
  show "\<exists>x s'. db_request_run_stop_after_active_file outer now i s = (Inr x, s')" using q by auto
qed

section \<open>Resuming\<close>

abbreviation resume_targets :: "string \<Rightarrow> catalog \<Rightarrow> catalog" where
  "resume_targets i db \<equiv> update_targets
     (\<lambda>t. tr_run_id t = i \<and> tr_state t = RunTargetState.PAUSED \<and> run_in db (tr_run_id t) [RunState.PAUSED])
     (\<lambda>t. (clear_lease t)\<lparr>tr_state := RunTargetState.PENDING\<rparr>) db"

lemma update_targets_frame [simp]:
  "c_runs (update_targets p f db) = c_runs db"
  "c_run_stop_requests (update_targets p f db) = c_run_stop_requests db"
  "stop_pending (update_targets p f db) i = stop_pending db i"
  "run_in (update_targets p f db) i S = run_in db i S"
  by (simp_all add: update_targets_def stop_pending_def run_in_def)

lemma update_runs_frame [simp]:
  "c_run_targets (update_runs p f db) = c_run_targets db"
  "c_run_stop_requests (update_runs p f db) = c_run_stop_requests db"
  "stop_pending (update_runs p f db) i = stop_pending db i"
  "target_in (update_runs p f db) i S = target_in db i S"
  by (simp_all add: update_runs_def stop_pending_def target_in_def)

lemma load_targets_set:
  "set (load_targets db i) = started_target ` {t \<in> set (c_run_targets db). tr_run_id t = i}"
  by (auto simp: load_targets_def)

lemma updated_target_row:
  assumes "t \<in> set (c_run_targets (update_targets p f db))"
  shows "\<exists>u \<in> set (c_run_targets db). t = (if p u then (f u)\<lparr>tr_row_version := tr_row_version u + 1\<rparr> else u)"
proof -
  have "t \<in> (\<lambda>u. if p u then (f u)\<lparr>tr_row_version := tr_row_version u + 1\<rparr> else u) ` set (c_run_targets db)"
    using assms unfolding update_targets_def sql_update_def by simp
  then show ?thesis by (simp only: image_iff)
qed

lemma resume_targets_rows:
  assumes "run_in db i [RunState.PAUSED]" "t \<in> set (c_run_targets (resume_targets i db))" "tr_run_id t = i"
  shows "tr_state t \<noteq> RunTargetState.PAUSED"
proof -
  let ?p = "\<lambda>t. tr_run_id t = i \<and> tr_state t = RunTargetState.PAUSED \<and> run_in db (tr_run_id t) [RunState.PAUSED]"
  from updated_target_row [OF assms(2)] obtain u where
    u: "t = (if ?p u then ((clear_lease u)\<lparr>tr_state := RunTargetState.PENDING\<rparr>)
      \<lparr>tr_row_version := tr_row_version u + 1\<rparr> else u)" ..
  show ?thesis
  proof (cases "?p u")
    case False
    then show ?thesis using u assms(1,3) by auto
  qed (simp add: u assms(1))
qed

lemma db_resume_laws:
  assumes inv: "catalog_inv db"
  shows "(\<exists>run db'. db_resume_paused_run outer i db = (Inr (Some run), db') \<and> catalog_inv db'
            \<and> db_load_started_run i db' = Inr (Some run) \<and> sr_state run = RunState.QUEUED
            \<and> list_all (\<lambda>t. rt_state t \<noteq> RunTargetState.PAUSED) (sr_targets run)
            \<and> list_ex (\<lambda>t. rt_state t = RunTargetState.PENDING) (sr_targets run) \<and> \<not> stop_pending db i)
         \<or> db_resume_paused_run outer i db = (Inr None, if outer then resume_targets i db else db)"
proof -
  let ?db1 = "resume_targets i db"
  let ?p = "\<lambda>r. rr_state r = RunState.PAUSED \<and> \<not> stop_pending ?db1 (rr_id r) \<and> target_in ?db1 (rr_id r) [RunTargetState.PENDING]"
  let ?db2 = "update_runs (\<lambda>r. rr_id r = i \<and> ?p r) (\<lambda>r. r\<lparr>rr_state := RunState.QUEUED\<rparr>) ?db1"
  show ?thesis
  proof (cases "sql_count (\<lambda>r. rr_id r = i \<and> ?p r) (c_runs ?db1) = Suc 0")
    case True
    then obtain r0 where r0: "r0 \<in> set (c_runs db)" "rr_id r0 = i" "?p r0" by (auto elim: count_runs_hit)
    have op: "db_resume_paused_run b i db = return_run b db ?db2 i" for b
      using True by (simp add: db_resume_paused_run_def Let_def)
    have inv2: "catalog_inv ?db2"
      using resume_paused_run_good [OF inv, of True i] unfolding op
      by (simp add: good_def return_run_def give_up_def split: sum.splits option.splits)
    have "i \<in> set (map rr_id (c_runs ?db2))" using r0 by (subst update_runs_ids) auto
    then have "i \<in> rr_id ` set (c_runs ?db2)" by (simp only: list.set_map)
    from return_run_valid [OF inv2 this, of outer db] obtain run where
      run: "return_run outer db ?db2 i = (Inr (Some run), ?db2)" "db_load_started_run i ?db2 = Inr (Some run)"
      by (elim exE conjE)
    from load_run_row [OF run(2)] obtain r where r: "r \<in> set (c_runs ?db2)" "rr_id r = i"
        "sr_state run = rr_state r" "sr_targets run = load_targets ?db2 i"
      by (elim exE conjE)
    have "r = (r0\<lparr>rr_state := RunState.QUEUED\<rparr>)\<lparr>rr_row_version := rr_row_version r0 + 1\<rparr>"
      by (rule updated_run [OF _ _ r0(2,3) _ r(1,2)]) (use r0(1) distinct_run_ids [OF inv] in simp_all)
    with r(3) have "sr_state run = RunState.QUEUED" by simp
    moreover have "run_in db i [RunState.PAUSED]" using r0 by (auto simp: run_in_def list_ex_iff)
    then have "list_all (\<lambda>t. rt_state t \<noteq> RunTargetState.PAUSED) (sr_targets run)"
      using resume_targets_rows [of db i] by (auto simp: list_all_iff r(4) load_targets_set started_target_def)
    moreover have "list_ex (\<lambda>t. rt_state t = RunTargetState.PENDING) (sr_targets run)"
      using r0 by (auto simp: list_ex_iff r(4) load_targets_set started_target_def target_in_def)
    moreover have "db_resume_paused_run outer i db = (Inr (Some run), ?db2)" using op run(1) by (simp only:)
    moreover have "\<not> stop_pending db i" using r0(2,3) by simp
    ultimately show ?thesis using run(2) inv2 by blast
  next
    case False
    have "sql_count (\<lambda>r. rr_id r = i \<and> ?p r) (c_runs ?db1) = 0"
      using count_runs_le_1 [OF inv, of i ?p] False by simp
    then have "?db2 = ?db1" by (simp add: update_runs_def sql_update_no_match update_targets_def)
    then show ?thesis using False by (simp add: db_resume_paused_run_def Let_def give_up_def)
  qed
qed

interpretation sqlite_control: run_control_store db_load_started_run "db_request_run_pause False"
  "db_request_run_stop_after_active_file False now" catalog_inv "\<lambda>i db. stop_pending db i" "db_resume_paused_run False"
  for now
proof
  fix i s run s'
  assume v: "catalog_inv s"
  note p = db_resume_laws [OF v, of False i]
  show "db_resume_paused_run False i s = (Inr (Some run), s') \<Longrightarrow>
     catalog_inv s' \<and> db_load_started_run i s' = Inr (Some run) \<and> sr_state run = RunState.QUEUED
          \<and> list_all (\<lambda>t. rt_state t \<noteq> RunTargetState.PAUSED) (sr_targets run)
          \<and> list_ex (\<lambda>t. rt_state t = RunTargetState.PENDING) (sr_targets run) \<and> \<not> stop_pending s i"
    using p by auto
  show "db_resume_paused_run False i s = (Inr None, s') \<Longrightarrow> s' = s" using p by auto
  show "\<exists>x s'. db_resume_paused_run False i s = (Inr x, s')" using p by auto
qed

text \<open>A resume that is refused inside a caller's transaction leaves the targets pending, and the
  stop request can then no longer be activated.\<close>

lemma refused_resume_aux:
  assumes inv: "catalog_inv db" and r: "run_in db i [RunState.PAUSED]" and p: "stop_pending db i"
  shows "db_resume_paused_run True i db = (Inr None, resume_targets i db)"
    "db_activate_requested_run_stop outer i (resume_targets i db) = (Inr None, resume_targets i db)"
proof -
  show "db_resume_paused_run True i db = (Inr None, resume_targets i db)"
    using db_resume_laws [OF inv, of True i] p by auto
  let ?db = "resume_targets i db"
  have inv': "catalog_inv ?db"
    using resume_paused_run_good [OF inv, of True i] db_resume_laws [OF inv, of True i] p by (auto simp: good_def)
  obtain x where x: "db_load_started_run i ?db = Inr x" "x = None \<longleftrightarrow> i \<notin> rr_id ` set (c_runs ?db)"
    using load_run_total [OF inv', of i] by blast
  have "i \<in> rr_id ` set (c_runs ?db)" using r by (auto simp: run_in_def list_ex_iff)
  then obtain run where run: "x = Some run" using x(2) by (cases x) auto
  from load_run_row [of i ?db run] x(1) run obtain q where
    q: "q \<in> set (c_runs ?db)" "rr_id q = i" "sr_state run = rr_state q" by auto
  have "sr_state run = RunState.PAUSED"
    using run_in_iff [OF distinct_run_ids [OF inv'], of q i "[RunState.PAUSED]"] q r by simp
  moreover have "sql_count (\<lambda>t. tr_run_id t = i \<and> tr_id t = b \<and> tr_state t = RunTargetState.PAUSED) (c_run_targets ?db) = 0" for b
    using resume_targets_rows [OF r] by (auto simp: sql_count_def filter_empty_conv)
  ultimately show "db_activate_requested_run_stop outer i ?db = (Inr None, ?db)"
    using x(1) run
    by (auto simp: db_activate_requested_run_stop_def Let_def give_up_def update_targets_def
        sql_update_no_match split: option.split)
qed

end
