(* ===== verification/Start_Handoff_Steps.thy ===== *)
theory Start_Handoff_Steps
  imports Start_Handoff_Laws Run_Control
begin

text \<open>
  The two databases as a transition system, and that the coordinator can always take an interrupted start to its
  end.
\<close>

section \<open>Steps\<close>

text \<open>
  Everything that writes the tables involved: the operations of the run store, of the receipts and of the outbox,
  and the transactions of the coordinator, each of which may be the last before a crash.  The start of a run is
  prepared in the transaction that saves it, so its row is there.
\<close>

inductive handoff_step :: "handoff_stores \<Rightarrow> handoff_stores \<Rightarrow> bool" where
  of_runs: "store_step (hc_runs (hs_catalog s), deadlines) (db, deadlines') \<Longrightarrow>
    handoff_step s (s\<lparr>hs_catalog := hs_catalog s\<lparr>hc_runs := db\<rparr>\<rparr>)"
| of_receipts: "receipt_step (hc_receipts (hs_catalog s)) t \<Longrightarrow>
    handoff_step s (s\<lparr>hs_catalog := hs_catalog s\<lparr>hc_receipts := t\<rparr>\<rparr>)"
| of_outbox: "outbox_step UNIV (hc_outbox (hs_catalog s)) t \<Longrightarrow>
    handoff_step s (s\<lparr>hs_catalog := hs_catalog s\<lparr>hc_outbox := t\<rparr>\<rparr>)"
| prepare: "sr_run_id run \<in> rr_id ` set (c_runs (hc_runs (hs_catalog s))) \<Longrightarrow>
    handoff_step s (s\<lparr>hs_catalog := snd (prepare_run_start outer now run transition_receipt (hs_catalog s))\<rparr>)"
| commit: "handoff_step s (snd (commit_recovery_peer now run_id s))"
| confirm: "handoff_step s (snd (confirm_catalog_source now run_id s))"
| complete: "handoff_step s (snd (complete_run_start now run_id s))"
| complete_interrupted:
    "load_handoff (run_start_handoff_id run_id) (hc_handoffs (hs_catalog s)) = Some h \<Longrightarrow> ho_state h = HANDOFF_SOURCE_CONFIRMED \<Longrightarrow>
     load_handoff (run_start_handoff_id run_id) (hv_handoffs (hs_recovery s)) = Some p \<Longrightarrow>
     handoff_step s (snd (complete_peer now p s))"

inductive handoff_reachable :: "handoff_stores \<Rightarrow> bool" where
  handoff_init: "reachable (hc_runs (hs_catalog s), deadlines) \<Longrightarrow> hc_handoffs (hs_catalog s) = [] \<Longrightarrow>
    hv_runs (hs_recovery s) = [] \<Longrightarrow> hv_handoffs (hs_recovery s) = [] \<Longrightarrow> handoff_reachable s"
| handoff_next: "handoff_reachable s \<Longrightarrow> handoff_step s s' \<Longrightarrow> handoff_reachable s'"

lemma handoff_step_keeps:
  assumes "handoff_step s s'" "handoff_inv s"
  shows "handoff_inv s' \<and> stores_follow s s'"
  using assms
proof (induction rule: handoff_step.induct)
  case (of_runs s deadlines db deadlines')
  then show ?case
    using store_step_good [OF of_runs(1)] handoff_invD(1) [OF of_runs(2)] runs_keep_inv [OF of_runs(2), of db]
    by (simp add: stores_follow_def)
next
  case (of_receipts s t)
  then show ?case using handoff_inv_cong [OF of_receipts(2)] by (simp add: stores_follow_def)
next
  case (of_outbox s t)
  then show ?case using handoff_inv_cong [OF of_outbox(2)] by (simp add: stores_follow_def)
next
  case (prepare run s outer now transition_receipt)
  then show ?case by (intro prepare_keeps_inv)
next
  case (commit s now run_id)
  then show ?case using commit_keeps_inv(1,3) by (metis prod.collapse)
next
  case (confirm s now run_id)
  obtain r s' where result: "confirm_catalog_source now run_id s = (r, s')" by fastforce
  show ?case
  proof (cases r)
    case (Inl e)
    then have "s' = s" using confirm_raises [OF confirm] result by blast
    then show ?thesis using confirm result by simp
  next
    case (Inr h)
    have "handoff_inv s' \<and> stores_follow s s'" using confirm_returns [OF confirm result [unfolded Inr]] by blast
    then show ?thesis using result by simp
  qed
next
  case (complete s now run_id)
  then show ?case by (rule complete_keeps_inv)
next
  case (complete_interrupted run_id s h p now)
  from complete_peer_eq [OF complete_interrupted(4,1,2,3)] show ?case by (metis snd_conv)
qed

interpretation handoffs: evolving_store handoff_step handoff_inv stores_follow
proof unfold_locales
  show "handoff_inv s' \<and> stores_follow s s'" if "handoff_step s s'" "handoff_inv s" for s s'
    using handoff_step_keeps [OF that] .
  show "stores_follow s s" for s by simp
  show "stores_follow s s''" if "stores_follow s s'" "stores_follow s' s''" for s s' s''
    using stores_follow_trans [OF that] .
qed

lemma handoff_reachable_inv: "handoff_reachable s \<Longrightarrow> handoff_inv s"
proof (induction rule: handoff_reachable.induct)
  case (handoff_init s deadlines)
  then show ?case
    using reachable_catalog_inv [OF handoff_init(1)]
    by (simp add: handoff_inv_def Let_def handoffs_inv_def load_handoff_def)
next
  case (handoff_next s s')
  then show ?case using handoff_step_keeps by simp
qed

section \<open>Binding succeeds\<close>

definition bindable :: "StartedRun \<Rightarrow> bool" where
  "bindable run \<longleftrightarrow> \<not> blank (sr_run_id run) \<and> \<not> blank (sr_job_id run) \<and> \<not> blank (sr_job_revision_id run)
     \<and> \<not> blank (sr_plan_id run) \<and> is_hex64 (sr_plan_checksum run)"

definition run_binding :: "StartedRun \<Rightarrow> RecoveryRunBinding" where
  "run_binding run = \<lparr>rb_run_id = sr_run_id run, rb_job_id = sr_job_id run, rb_job_revision_id = sr_job_revision_id run,
     rb_plan_id = sr_plan_id run, rb_plan_checksum = sr_plan_checksum run,
     rb_start_handoff_id = run_start_handoff_id (sr_run_id run), rb_state = ''BOUND''\<rparr>"

lemma map_of_sorted: "distinct (map fst kvs) \<Longrightarrow> map_of (sort_key fst kvs) = map_of kvs"
  by (rule map_of_inject_set [THEN iffD2]) (auto simp: distinct_map)

lemma run_start_payload_decodes:
  obtains payload where "decode_handoff_payload (run_start_source_handoff run tr) = Inr payload"
    "map_of payload ''run_id'' = Some (JStr (sr_run_id run))" "map_of payload ''job_id'' = Some (JStr (sr_job_id run))"
    "map_of payload ''job_revision_id'' = Some (JStr (sr_job_revision_id run))"
    "map_of payload ''plan_id'' = Some (JStr (sr_plan_id run))"
    "map_of payload ''plan_checksum'' = Some (JStr (sr_plan_checksum run))"
    "map_of payload ''command_receipt_id'' = Some (JStr (sr_command_receipt_id run))"
    "map_of payload ''transition_command_receipt'' = Some (JBool tr)"
proof -
  obtain kvs where kvs: "run_start_payload run tr = JObj kvs" by (simp add: run_start_payload_def)
  have "wf_json (run_start_target_payload t)" for t
    by (simp add: run_start_target_payload_def json_text_def split: option.split)
  then have wf: "wf_json (JObj kvs)" unfolding kvs [symmetric] by (simp add: run_start_payload_def list_all_iff)
  let ?sorted = "sort_key fst (map (\<lambda>(k, v). (k, canon v)) kvs)"
  have "distinct (map fst (map (\<lambda>(k, v). (k, canon v)) kvs))" using wf by (simp add: comp_def case_prod_beta)
  then have map: "map_of ?sorted = map_of (map (\<lambda>(k, v). (k, canon v)) kvs)" by (rule map_of_sorted)
  have "decode_handoff_payload (run_start_source_handoff run tr) = Inr ?sorted"
    using loads_dumps [OF wf, of True]
    by (simp add: decode_handoff_payload_def run_start_source_handoff_def Let_def canonical_handoff_payload_def kvs)
  then show ?thesis
    using that [of ?sorted] kvs unfolding map by (auto simp: run_start_payload_def)
qed

lemma run_start_binding:
  assumes "bindable run" "evidence h = run_start_source_handoff run tr"
  shows "recovery_run_binding_from_handoff h = Inr (run_binding run)"
proof -
  have same: "evidence h = evidence (run_start_source_handoff run tr)" using assms(2) by simp
  have "ho_entity_id h = sr_run_id run" "ho_handoff_id h = run_start_handoff_id (sr_run_id run)"
    using evidence_same [OF same] by (simp_all add: run_start_source_handoff_def Let_def)
  moreover have "\<not> blank (sr_plan_checksum run)" using assms(1) hex64_not_blank by (simp add: bindable_def)
  moreover note run = assms(1) [unfolded bindable_def]
  ultimately show ?thesis
    by (rule_tac run_start_payload_decodes [of run tr])
      (simp add: recovery_run_binding_from_handoff_def required_payload_string_def and_then_def run_binding_def
        decode_evidence [OF same])
qed

lemma commit_succeeds:
  assumes inv: "handoff_inv s" and h: "load_handoff (run_start_handoff_id (sr_run_id run)) (hc_handoffs (hs_catalog s)) = Some h"
    "evidence h = run_start_source_handoff run tr" and run: "bindable run"
  shows "\<exists>p s'. commit_recovery_peer now (sr_run_id run) s = (Inr p, s') \<and> handoff_inv s' \<and> hs_catalog s' = hs_catalog s
    \<and> load_handoff (run_start_handoff_id (sr_run_id run)) (hv_handoffs (hs_recovery s')) = Some p
    \<and> load_run_binding (sr_run_id run) (hs_recovery s') = Some (run_binding run) \<and> stores_follow s s'"
proof -
  let ?i = "run_start_handoff_id (sr_run_id run)" and ?v = "hs_recovery s" and ?b = "run_binding run"
  note D = handoff_invD [OF inv]
  have binding: "recovery_run_binding_from_handoff h = Inr ?b" using run_start_binding [OF run h(2)] .
  have id: "ho_handoff_id h = ?i" using load_handoffD(1) [OF h(1) D(2)] .
  have dec: "decodes h" "decodes (peer_of h)" using load_handoffD(2) [OF h(1) D(2)] decodes_evidence [of "peer_of h" h] by simp_all
  have ok: "source_ok (hc_runs (hs_catalog s)) (load_handoff ?i (hv_handoffs ?v)) h" using D(4) [OF h(1)] .
  then have "ho_state h \<in> {HANDOFF_PREPARED, HANDOFF_SOURCE_CONFIRMED, HANDOFF_COMPLETED}"
    by (cases "ho_state h"; cases "load_handoff ?i (hv_handoffs ?v)") (auto simp: source_ok_def)
  then have assert: "assert_source_run_start_handoff h = Inr ()"
    using run_start_handoffD [of h] ok dec(1) by (auto simp: assert_source_run_start_handoff_def source_ok_def decodes_def)
  have "\<exists>p v'. commit_run_start_peer False now ?b (peer_of h) ?v = (Inr p, v') \<and> load_run_binding (sr_run_id run) v' = Some ?b"
  proof (cases "load_handoff ?i (hv_handoffs ?v)")
    case (Some q)
    have q: "evidence q = evidence h" "load_run_binding (rb_run_id ?b) ?v = Some ?b"
      using D(5) [OF Some] h(1) binding by (auto simp: peer_ok_def)
    have "ho_state q \<in> {HANDOFF_PEER_COMMITTED, HANDOFF_COMPLETED}"
      using ok Some by (cases "ho_state h") (auto simp: source_ok_def)
    then have "record_handoff True now (peer_of h) (hv_handoffs ?v) = (Inr q, hv_handoffs ?v)"
      using Some id dec q(1) by (intro record_handoff_known) (auto simp: HANDOFF_TERMINAL_STATES_def)
    then show ?thesis
      using q(2) by (simp add: commit_run_start_peer_def transactional_except_def on_recovery_handoffs_def run_binding_def)
  next
    case None
    have unbound: "load_run_binding (rb_run_id ?b) ?v = None"
      using binding_in_table [OF inv h(1) binding] None by (cases "load_run_binding (rb_run_id ?b) ?v") auto
    have "?i \<notin> rb_start_handoff_id ` set (hv_runs ?v)"
    proof
      assume "?i \<in> rb_start_handoff_id ` set (hv_runs ?v)"
      then obtain b where "rb_start_handoff_id b = ?i" "b \<in> set (hv_runs ?v)" by (rule imageE) simp
      then show False using D(6) [of b] None by (simp add: binding_ok_def)
    qed
    then have check: "binding_check (hv_runs ?v) ?b"
      using unbound run sql_trim_nonempty
      by (auto simp: binding_check_def load_run_binding_None bindable_def run_binding_def)
    obtain r where "hor_handoff r = h" "handoff_check r" using load_handoffD(3) [OF h(1) D(2)] by blast
    then have "handoff_check (fresh_row now (peer_of h))"
      by (simp add: handoff_check_def Let_def fresh_row_def peer_of_def handoff_pairing_def)
    moreover have "handoff_unique (peer_of h) \<notin> set (map (handoff_unique \<circ> hor_handoff) (hv_handoffs ?v))"
    proof
      assume "handoff_unique (peer_of h) \<in> set (map (handoff_unique \<circ> hor_handoff) (hv_handoffs ?v))"
      then obtain x where x: "x \<in> set (hv_handoffs ?v)" "ho_entity_id (hor_handoff x) = ho_entity_id h"
        by (auto simp: handoff_unique_def peer_of_def)
      have "distinct (map handoff_id_of (hv_handoffs ?v))" using D(3) by (simp add: handoffs_inv_def)
      then have "List.find (\<lambda>y. handoff_id_of y = handoff_id_of x) (hv_handoffs ?v) = Some x"
        using x(1) by (intro find_unique_key) simp_all
      then have load: "load_handoff (handoff_id_of x) (hv_handoffs ?v) = Some (hor_handoff x)" by (simp add: load_handoff_def)
      then obtain g where g: "load_handoff (handoff_id_of x) (hc_handoffs (hs_catalog s)) = Some g" "evidence (hor_handoff x) = evidence g"
        using D(5) by (fastforce simp: peer_ok_def)
      have "run_start_handoff g" using D(4) [OF g(1)] by (simp add: source_ok_def)
      then have "ho_handoff_id g = run_start_handoff_id (ho_entity_id h)"
        using run_start_handoffD(1) [of g] evidence_same(6) [OF g(2)] x(2) by simp
      moreover have "ho_handoff_id h = run_start_handoff_id (ho_entity_id h)"
        using ok run_start_handoffD(1) by (auto simp: source_ok_def)
      ultimately have "handoff_id_of x = ?i" using id load_handoffD(1) [OF g(1) D(2)] by simp
      then show False using load None by simp
    qed
    ultimately have "record_handoff True now (peer_of h) (hv_handoffs ?v)
        = (Inr (peer_of h), hv_handoffs ?v @ [fresh_row now (peer_of h)])"
      using None id dec by (intro record_handoff_new) simp_all
    then show ?thesis
      using unbound check load_run_binding_append [OF unbound refl, of "rb_run_id ?b"]
      by (simp add: commit_run_start_peer_def transactional_except_def on_recovery_handoffs_def run_binding_def)
  qed
  then obtain p v' where v': "commit_run_start_peer False now ?b (peer_of h) ?v = (Inr p, v')"
    "load_run_binding (sr_run_id run) v' = Some ?b" by blast
  have eq: "commit_recovery_peer now (sr_run_id run) s = (Inr p, s\<lparr>hs_recovery := v'\<rparr>)"
    using h(1) assert binding v'(1)
    by (simp add: commit_recovery_peer_def call_then_reading load_source_def and_then_def in_recovery_def)
  show ?thesis using eq commit_keeps_inv(1) [OF inv eq] commit_keeps_inv(2) [OF inv eq refl] commit_keeps_inv(3) [OF inv eq] v'(2) by auto
qed

section \<open>Confirming succeeds\<close>

lemma release_succeeds:
  assumes inv: "catalog_inv db" and run: "run_id \<in> rr_id ` set (c_runs db)"
  obtains run db' where "db_release_created_run True run_id db = (Inr (Some run), db')" "sr_state run \<noteq> RunState.CREATED"
proof -
  let ?guard = "\<lambda>r. rr_id r = run_id \<and> rr_state r = RunState.CREATED"
  let ?db = "update_runs ?guard (\<lambda>r. r\<lparr>rr_state := RunState.QUEUED\<rparr>) db"
  have "snd (db_release_created_run True run_id db) = ?db"
    by (simp add: db_release_created_run_def Let_def give_up_def split: sum.split option.split)
  then have good: "good db ?db" using release_created_run_good [OF inv, of True run_id] by simp
  then have "catalog_inv ?db" "run_id \<in> rr_id ` set (c_runs ?db)"
    using run_ids_evolve [OF run] by (simp_all add: good_def)
  then obtain run' where run': "db_load_started_run run_id ?db = Inr (Some run')"
  proof -
    obtain x where "db_load_started_run run_id ?db = Inr x" "x = None \<longleftrightarrow> run_id \<notin> rr_id ` set (c_runs ?db)"
      using load_run_total [OF \<open>catalog_inv ?db\<close>] by blast
    then show ?thesis using that \<open>run_id \<in> rr_id ` set (c_runs ?db)\<close> by (cases x) simp_all
  qed
  then obtain r where r: "r \<in> set (c_runs ?db)" "rr_id r = run_id" "sr_state run' = rr_state r"
    by (rule load_started_run_SomeD)
  have "rr_state r \<noteq> RunState.CREATED"
  proof -
    have "r \<in> (\<lambda>r. if ?guard r then r\<lparr>rr_state := RunState.QUEUED, rr_row_version := rr_row_version r + 1\<rparr> else r) ` set (c_runs db)"
      using r(1) by (simp add: update_runs_def set_sql_update)
    then obtain r0 where "r = (if ?guard r0 then r0\<lparr>rr_state := RunState.QUEUED, rr_row_version := rr_row_version r0 + 1\<rparr> else r0)"
      by (rule imageE)
    then show ?thesis using r(2) by (cases "?guard r0") auto
  qed
  then have "db_release_created_run True run_id db = (Inr (Some run'), ?db)" "sr_state run' \<noteq> RunState.CREATED"
    using run' r(3) by (simp_all add: db_release_created_run_def Let_def)
  then show ?thesis using that by blast
qed

text \<open>A call that depends on the receipts and the outbox only.\<close>

definition elsewhere :: "catalog \<Rightarrow> handoffs \<Rightarrow> handoff_catalog \<Rightarrow> handoff_catalog" where
  "elsewhere db t c = c\<lparr>hc_runs := db, hc_handoffs := t\<rparr>"

definition local_call :: "'a catalog_call \<Rightarrow> bool" where
  "local_call call \<longleftrightarrow> (\<forall>c db t. call (elsewhere db t c) = (let (r, c') = call c in (r, elsewhere db t c')))"

lemma local_callI [intro]:
  "local_call (call_return v)" "local_call (call_raise e)"
  "local_call (on_receipts call1)" "local_call (on_outbox call2)"
  "(\<And>c db t. f (elsewhere db t c) = f c) \<Longrightarrow> local_call (reading f)"
  by (simp_all add: local_call_def on_receipts_def on_outbox_def reading_def elsewhere_def Let_def split: prod.split)

lemma local_call_then [intro]: "local_call m \<Longrightarrow> (\<And>v. local_call (f v)) \<Longrightarrow> local_call (call_then m f)"
  by (auto simp: local_call_def call_then_def Let_def split: prod.splits sum.splits)

lemma local_accept: "local_call (accept_run_start_receipt now h)"
proof -
  have moves: "local_call (on_receipt_state now a b receipt)" for a b receipt
    unfolding on_receipt_state_def by (auto split: sum.split)
  have finish: "local_call (finish_receipt now i receipt)" for i receipt
    unfolding finish_receipt_def by (auto split: sum.split)
  have load: "local_call (reading (\<lambda>c. case load_command_receipt i (hc_receipts c) of
      None \<Rightarrow> Inl e | Some receipt \<Rightarrow> Inr receipt))" for i e
    by (rule local_callI) (simp add: elsewhere_def)
  show ?thesis
  proof (cases "decode_handoff_payload h")
    case (Inl e)
    then show ?thesis by (simp add: accept_run_start_receipt_def local_callI)
  next
    case (Inr payload)
    have "local_call (case required_payload_string payload ''command_receipt_id'' of
        Inl e \<Rightarrow> call_raise e
      | Inr receipt_id \<Rightarrow>
          call_then (reading (\<lambda>c. case load_command_receipt receipt_id (hc_receipts c) of
              None \<Rightarrow> Inl (Handoff_Error ''RUN_START_COMMAND_RECEIPT_NOT_FOUND'') | Some receipt \<Rightarrow> Inr receipt))
            (\<lambda>receipt. call_then (on_receipt_state now RECEIPT_EFFECT_PREPARED RECEIPT_ACCEPTED receipt)
              (\<lambda>receipt. call_then (on_receipt_state now RECEIPT_ACCEPTED RECEIPT_SUCCEEDED receipt)
                (finish_receipt now (ho_entity_id h)))))"
      by (cases "required_payload_string payload ''command_receipt_id''")
        (simp_all add: local_callI local_call_then moves finish load)
    then show ?thesis
      unfolding accept_run_start_receipt_def Inr by (auto split: option.split json.split bool.split)
  qed
qed

lemma accept_anywhere:
  assumes "fst (accept_run_start_receipt now h c) = Inr ()" "evidence h' = evidence h"
    and "hc_receipts c' = hc_receipts c" "hc_outbox c' = hc_outbox c"
  shows "fst (accept_run_start_receipt now h' c') = Inr ()"
proof -
  have "c' = elsewhere (hc_runs c') (hc_handoffs c') c" using assms(3,4) by (simp add: elsewhere_def)
  moreover have "accept_run_start_receipt now h' = accept_run_start_receipt now h"
    unfolding accept_run_start_receipt_def evidence_same(6) [OF assms(2)] decode_evidence [OF assms(2)] ..
  moreover have "fst (accept_run_start_receipt now h (elsewhere db t c)) = fst (accept_run_start_receipt now h c)" for db t
    using local_accept [of now h] by (simp add: local_call_def Let_def case_prod_beta)
  ultimately show ?thesis using assms(1) by metis
qed

lemma confirm_succeeds:
  assumes inv: "handoff_inv s" and h: "load_handoff (run_start_handoff_id run_id) (hc_handoffs (hs_catalog s)) = Some h"
    and p: "load_handoff (run_start_handoff_id run_id) (hv_handoffs (hs_recovery s)) = Some p"
    and accept: "fst (accept_run_start_receipt now h (hs_catalog s)) = Inr ()"
  obtains h' s' where "confirm_catalog_source now run_id s = (Inr h', s')"
proof -
  let ?c = "hs_catalog s" and ?i = "run_start_handoff_id run_id"
  note D = handoff_invD [OF inv]
  have ok: "source_ok (hc_runs ?c) (Some p) h" using D(4) [OF h] p by simp
  then have id: "ho_handoff_id h = ?i" "ho_entity_id h = run_id"
    using load_handoffD(1) [OF h D(2)] run_start_handoffD(1) [of h] by (auto simp: source_ok_def)
  have "\<exists>h' c'. confirm_work now run_id ?c = (Inr h', c')"
  proof (cases "ho_state h = HANDOFF_PREPARED")
    case True
    let ?h = "moved HANDOFF_SOURCE_CONFIRMED None h"
    obtain run db where release: "db_release_created_run True run_id (hc_runs ?c) = (Inr (Some run), db)" "sr_state run \<noteq> RunState.CREATED"
      using release_succeeds [OF D(1), of run_id] ok id(2) by (auto simp: source_ok_def)
    obtain t where t: "transition_handoff True now ?i HANDOFF_PREPARED HANDOFF_SOURCE_CONFIRMED (ho_payload_hash h) None (hc_handoffs ?c)
        = (Inr (Some ?h), t)"
      using transition_moves [OF D(2) h True refl, of HANDOFF_SOURCE_CONFIRMED True now None] by auto
    let ?c2 = "?c\<lparr>hc_runs := db, hc_handoffs := t\<rparr>"
    have "fst (accept_run_start_receipt now ?h ?c2) = Inr ()" by (rule accept_anywhere [OF accept]) simp_all
    then obtain c3 where "accept_run_start_receipt now ?h ?c2 = (Inr (), c3)" by (metis prod.collapse)
    moreover have "release_run run_id ?c = (Inr (), ?c\<lparr>hc_runs := db\<rparr>)"
      using release by (auto simp: release_run_def call_then_def on_runs_def)
    moreover have "confirm_source now h (?c\<lparr>hc_runs := db\<rparr>) = (Inr ?h, ?c2)"
      using t id(1) by (auto simp: confirm_source_def call_then_def on_catalog_handoffs_def)
    ultimately have "confirm_work now run_id ?c = (Inr ?h, c3)"
      using h True by (simp add: confirm_work_def load_source_def)
    then show ?thesis by blast
  next
    case False
    obtain c3 where "accept_run_start_receipt now h ?c = (Inr (), c3)" using accept by (metis prod.collapse)
    then have "confirm_work now run_id ?c = (Inr h, c3)" using h False by (simp add: confirm_work_def load_source_def)
    then show ?thesis by blast
  qed
  then obtain h' c' where work: "confirm_work now run_id ?c = (Inr h', c')" by blast
  have "ho_state p \<in> {HANDOFF_PEER_COMMITTED, HANDOFF_COMPLETED}"
    using ok by (cases "ho_state h") (auto simp: source_ok_def)
  then have "confirm_catalog_source now run_id s = (Inr h', s\<lparr>hs_catalog := c'\<rparr>)"
    using h p work by (auto simp: confirm_catalog_source_def call_then_def matching_handoffs_eq [OF inv] in_catalog_def transactional_def)
  then show ?thesis by (rule that)
qed

section \<open>Advancing and reconciling\<close>

definition start_completed :: "string \<Rightarrow> handoff_stores \<Rightarrow> bool" where
  "start_completed i s \<longleftrightarrow> (\<exists>h p. load_handoff i (hc_handoffs (hs_catalog s)) = Some h \<and> ho_state h = HANDOFF_COMPLETED
     \<and> load_handoff i (hv_handoffs (hs_recovery s)) = Some p \<and> ho_state p = HANDOFF_COMPLETED)"

lemma completed_follows: "start_completed i s \<Longrightarrow> stores_follow s s' \<Longrightarrow> start_completed i s'"
  unfolding start_completed_def stores_follow_def handoffs_follow_def by metis

lemma source_follows:
  "load_handoff i (hc_handoffs (hs_catalog s)) = Some h \<Longrightarrow> stores_follow s s' \<Longrightarrow>
     \<exists>h'. load_handoff i (hc_handoffs (hs_catalog s')) = Some h' \<and> evidence h' = evidence h"
  unfolding stores_follow_def handoffs_follow_def by metis

text \<open>What a call of the coordinator does to the databases is a sequence of steps.\<close>

definition progressed :: "handoff_stores \<Rightarrow> handoff_stores \<Rightarrow> bool" where
  "progressed s s' \<longleftrightarrow> handoff_inv s \<and> handoff_step\<^sup>*\<^sup>* s s'"

lemma progressed_refl: "handoff_inv s \<Longrightarrow> progressed s s"
  by (simp add: progressed_def)

lemma progressed_trans: "progressed s s' \<Longrightarrow> progressed s' s'' \<Longrightarrow> progressed s s''"
  by (auto simp: progressed_def)

lemma progressedD:
  assumes "progressed s s'"
  shows "handoff_inv s'" "stores_follow s s'" "handoff_step\<^sup>*\<^sup>* s s'"
  using assms handoffs.all_steps_keep by (auto simp: progressed_def)

lemma step_progress: "handoff_inv s \<Longrightarrow> handoff_step s s' \<Longrightarrow> progressed s s'"
  by (simp add: progressed_def)

lemma commit_progress: "handoff_inv s \<Longrightarrow> commit_recovery_peer now run_id s = (r, s') \<Longrightarrow> progressed s s'"
  using handoff_step.commit [of s now run_id] by (intro step_progress) simp_all

lemma confirm_progress: "handoff_inv s \<Longrightarrow> confirm_catalog_source now run_id s = (r, s') \<Longrightarrow> progressed s s'"
  using handoff_step.confirm [of s now run_id] by (intro step_progress) simp_all

lemma complete_progress:
  assumes "handoff_inv s" "load_handoff (run_start_handoff_id run_id) (hc_handoffs (hs_catalog s)) = Some h"
    and "ho_state h \<in> {HANDOFF_SOURCE_CONFIRMED, HANDOFF_COMPLETED}"
  obtains h' s' where "complete_run_start now run_id s = (Inr h', s')" "progressed s s'"
    "start_completed (run_start_handoff_id run_id) s'" "hc_runs (hs_catalog s') = hc_runs (hs_catalog s)"
    "load_handoff (run_start_handoff_id run_id) (hc_handoffs (hs_catalog s')) = Some h'" "ho_state h' = HANDOFF_COMPLETED"
proof -
  from complete_run_start_confirmed [OF assms] obtain h' p' s' where
    *: "complete_run_start now run_id s = (Inr h', s')" "handoff_inv s'" "ho_state h' = HANDOFF_COMPLETED" "ho_state p' = HANDOFF_COMPLETED"
    "load_handoff (run_start_handoff_id run_id) (hc_handoffs (hs_catalog s')) = Some h'"
    "load_handoff (run_start_handoff_id run_id) (hv_handoffs (hs_recovery s')) = Some p'"
    "hc_runs (hs_catalog s') = hc_runs (hs_catalog s)" "stores_follow s s'" .
  have "progressed s s'" using handoff_step.complete [of s now run_id] *(1) assms(1) by (intro step_progress) simp_all
  moreover have "start_completed (run_start_handoff_id run_id) s'" using *(3-6) by (auto simp: start_completed_def)
  ultimately show ?thesis using that * by blast
qed

lemma advance_progress:
  assumes inv: "handoff_inv s" and result: "advance_run_start now run_id s = (r, s')"
  shows "progressed s s'" and "r = Inr h \<Longrightarrow> start_completed (run_start_handoff_id run_id) s'"
proof -
  let ?i = "run_start_handoff_id run_id"
  have "progressed s s' \<and> (\<forall>h. r = Inr h \<longrightarrow> start_completed ?i s')"
  proof (cases "commit_recovery_peer now run_id s")
    case (Pair r1 s1)
    have p1: "progressed s s1" by (rule commit_progress [OF inv Pair])
    show ?thesis
    proof (cases r1)
      case (Inl e)
      then show ?thesis using result Pair p1 by (auto simp: advance_run_start_def call_then_def)
    next
      case (Inr p)
      obtain r2 s2 where confirm: "confirm_catalog_source now run_id s1 = (r2, s2)" by fastforce
      show ?thesis
      proof (cases r2)
        case (Inl e)
        then have "s2 = s1" using confirm_raises [OF progressedD(1) [OF p1]] confirm by simp
        then show ?thesis using result Pair Inr Inl confirm p1 by (auto simp: advance_run_start_def call_then_def)
      next
        case r2: (Inr h2)
        have p2: "progressed s1 s2" by (rule confirm_progress [OF progressedD(1) [OF p1] confirm [unfolded r2]])
        have "load_handoff ?i (hc_handoffs (hs_catalog s2)) = Some h2" "ho_state h2 \<in> {HANDOFF_SOURCE_CONFIRMED, HANDOFF_COMPLETED}"
          using confirm_returns [OF progressedD(1) [OF p1] confirm [unfolded r2]] by fastforce+
        from complete_progress [OF progressedD(1) [OF p2] this, of now] obtain h' s3 where
          s3: "complete_run_start now run_id s2 = (Inr h', s3)" "progressed s2 s3" "start_completed ?i s3"
          "hc_runs (hs_catalog s3) = hc_runs (hs_catalog s2)"
          "load_handoff ?i (hc_handoffs (hs_catalog s3)) = Some h'" "ho_state h' = HANDOFF_COMPLETED" .
        then show ?thesis
          using result Pair Inr r2 confirm progressed_trans [OF progressed_trans [OF p1 p2] s3(2)]
          by (auto simp: advance_run_start_def call_then_def)
      qed
    qed
  qed
  then show "progressed s s'" and "r = Inr h \<Longrightarrow> start_completed ?i s'" by blast+
qed

lemma advance_succeeds:
  assumes inv: "handoff_inv s" and h: "load_handoff (run_start_handoff_id (sr_run_id run)) (hc_handoffs (hs_catalog s)) = Some h"
    "evidence h = run_start_source_handoff run tr" and run: "bindable run"
    and accept: "fst (accept_run_start_receipt now h (hs_catalog s)) = Inr ()"
  obtains h' s' where "advance_run_start now (sr_run_id run) s = (Inr h', s')" "progressed s s'"
    "start_completed (run_start_handoff_id (sr_run_id run)) s'" "run_released (sr_run_id run) (hc_runs (hs_catalog s'))"
proof -
  let ?run_id = "sr_run_id run" and ?i = "run_start_handoff_id (sr_run_id run)"
  obtain p s1 where s1: "commit_recovery_peer now ?run_id s = (Inr p, s1)" "handoff_inv s1" "hs_catalog s1 = hs_catalog s"
    "load_handoff ?i (hv_handoffs (hs_recovery s1)) = Some p"
    using commit_succeeds [OF inv h run, of now] by blast
  have h1: "load_handoff ?i (hc_handoffs (hs_catalog s1)) = Some h" using h(1) s1(3) by simp
  have accept1: "fst (accept_run_start_receipt now h (hs_catalog s1)) = Inr ()" using accept s1(3) by simp
  from confirm_succeeds [OF s1(2) h1 s1(4) accept1] obtain h2 s2 where
    s2: "confirm_catalog_source now ?run_id s1 = (Inr h2, s2)" .
  from confirm_returns [OF s1(2) s2] obtain c where c: "s2 = s1\<lparr>hs_catalog := c\<rparr>" "handoff_inv s2"
    "load_handoff ?i (hc_handoffs c) = Some h2" "ho_state h2 \<in> {HANDOFF_SOURCE_CONFIRMED, HANDOFF_COMPLETED}"
    "run_released ?run_id (hc_runs c)" by blast
  have h2: "load_handoff ?i (hc_handoffs (hs_catalog s2)) = Some h2" using c by simp
  from complete_progress [OF c(2) h2 c(4), of now] obtain h' s3 where
    s3: "complete_run_start now ?run_id s2 = (Inr h', s3)" "hc_runs (hs_catalog s3) = hc_runs (hs_catalog s2)" by blast
  have "advance_run_start now ?run_id s = (Inr h', s3)"
    using s1(1) s2 s3(1) by (simp add: advance_run_start_def call_then_def)
  moreover have "run_released ?run_id (hc_runs (hs_catalog s3))" using c(1,5) s3(2) by simp
  ultimately show ?thesis using that advance_progress [OF inv] by blast
qed

lemma reconcile_one_progress:
  assumes inv: "handoff_inv s" and h: "load_handoff i (hc_handoffs (hs_catalog s)) = Some h"
    and result: "reconcile_one now i s = (r, s')"
  shows "progressed s s'" and "r = Inr outcome \<Longrightarrow> start_completed i s' \<and> outcome \<noteq> Reconciled_Ambiguous"
proof -
  note D = handoff_invD [OF inv]
  let ?peer = "load_handoff i (hv_handoffs (hs_recovery s))"
  have ok: "source_ok (hc_runs (hs_catalog s)) ?peer h" by (rule D(4) [OF h])
  have sound: "ho_state h \<noteq> HANDOFF_AMBIGUOUS" "\<not> (case ?peer of None \<Rightarrow> False | Some p \<Rightarrow> ho_state p = HANDOFF_AMBIGUOUS)"
    using ok by (cases "ho_state h"; cases ?peer; auto simp: source_ok_def)+
  have "progressed s s' \<and> (\<forall>outcome. r = Inr outcome \<longrightarrow> start_completed i s' \<and> outcome \<noteq> Reconciled_Ambiguous)"
  proof (cases "ho_state h = HANDOFF_COMPLETED")
    case True
    then obtain p where p: "?peer = Some p" "ho_state p = HANDOFF_COMPLETED"
      using ok by (cases ?peer) (auto simp: source_ok_def)
    then have "r = Inr Reconciled_Done" "s' = s" using result h True sound by (simp_all add: reconcile_one_def)
    moreover have "start_completed i s" using h p True by (auto simp: start_completed_def)
    ultimately show ?thesis using progressed_refl [OF inv] by simp
  next
    case False
    then have advance: "reconcile_advance now i h s = (r, s')" using result h sound by (simp add: reconcile_one_def)
    have id: "i = run_start_handoff_id (ho_entity_id h)"
      using load_handoffD(1) [OF h D(2)] ok run_start_handoffD(1) [of h] by (simp add: source_ok_def)
    obtain r1 s1 where s1: "advance_run_start now (ho_entity_id h) s = (r1, s1)" by fastforce
    have p1: "progressed s s1" by (rule advance_progress(1) [OF inv s1])
    show ?thesis
    proof (cases r1)
      case (Inr h')
      then have "start_completed i s1" using advance_progress(2) [OF inv s1] id by simp
      then show ?thesis using advance s1 Inr p1 by (auto simp: reconcile_advance_def)
    next
      case (Inl e)
      obtain g where g: "load_handoff i (hc_handoffs (hs_catalog s1)) = Some g"
        using source_follows [OF h progressedD(2) [OF p1]] by blast
      have "ho_state g \<noteq> HANDOFF_AMBIGUOUS"
        using handoff_invD(4) [OF progressedD(1) [OF p1] g]
        by (cases "load_handoff i (hv_handoffs (hs_recovery s1))"; cases "ho_state g") (auto simp: source_ok_def)
      then show ?thesis using advance s1 Inl g p1 by (auto simp: reconcile_advance_def)
    qed
  qed
  then show "progressed s s'" and "r = Inr outcome \<Longrightarrow> start_completed i s' \<and> outcome \<noteq> Reconciled_Ambiguous" by blast+
qed

lemma reconcile_all_progress:
  assumes "handoff_inv s" "\<forall>i \<in> set is. \<exists>h. load_handoff i (hc_handoffs (hs_catalog s)) = Some h"
    and "reconcile_all now is s = (r, s')"
  shows "progressed s s' \<and> (\<forall>completed ambiguous. r = Inr (completed, ambiguous) \<longrightarrow>
    ambiguous = [] \<and> set completed \<subseteq> set is \<and> (\<forall>i \<in> set is. start_completed i s'))"
  using assms
proof (induction "is" arbitrary: s r s')
  case Nil
  then show ?case using progressed_refl by auto
next
  case (Cons i "is")
  obtain h where h: "load_handoff i (hc_handoffs (hs_catalog s)) = Some h" using Cons.prems(2) by auto
  obtain r1 s1 where s1: "reconcile_one now i s = (r1, s1)" by fastforce
  note p1 = reconcile_one_progress [OF Cons.prems(1) h s1]
  have sources: "\<forall>i \<in> set is. \<exists>h. load_handoff i (hc_handoffs (hs_catalog s1)) = Some h"
    using Cons.prems(2) source_follows [OF _ progressedD(2) [OF p1(1)]] by fastforce
  obtain r2 s2 where s2: "reconcile_all now is s1 = (r2, s2)" by fastforce
  note p2 = Cons.IH [OF progressedD(1) [OF p1(1)] sources s2]
  show ?case
  proof (cases r1)
    case (Inl e)
    then show ?thesis using Cons.prems(3) s1 p1(1) by (auto simp: call_then_def)
  next
    case (Inr outcome)
    have "progressed s s2" using progressed_trans p1(1) p2 by blast
    moreover have "start_completed i s2" "outcome \<noteq> Reconciled_Ambiguous"
      using p1(2) [OF Inr] completed_follows [OF _ progressedD(2) [of s1 s2]] p2 by auto
    ultimately show ?thesis using Cons.prems(3) s1 s2 Inr p2 by (cases r2) (auto simp: call_then_def split: if_splits)
  qed
qed

lemma candidates_have_sources:
  assumes inv: "handoff_inv s" and ids: "candidate_ids limit s = Inr is" and i: "i \<in> set is"
  shows "\<exists>h. load_handoff i (hc_handoffs (hs_catalog s)) = Some h"
proof -
  note D = handoff_invD [OF inv]
  have listed: "\<exists>h. load_handoff i t = Some h"
    if list: "list_handoffs_for_reconciliation a b limit t = Inr hs" "i \<in> ho_handoff_id ` set hs" for a b t hs
  proof -
    obtain h rows where "ho_handoff_id h = i" "h \<in> hor_handoff ` set rows" "set rows \<subseteq> set t"
    proof -
      let ?rows = "take (nat limit) (sort_key (\<lambda>r. (if ho_state (hor_handoff r) = HANDOFF_COMPLETED then 1 else 0 :: nat,
          hor_updated_utc r, handoff_id_of r)) (filter (\<lambda>r. ho_handoff_type (hor_handoff r) = a
          \<and> ho_direction (hor_handoff r) = b \<and> ho_state (hor_handoff r) \<noteq> HANDOFF_ABORTED) t))"
      have "hs = map hor_handoff ?rows"
        using list(1) by (simp add: list_handoffs_for_reconciliation_def split: if_splits)
      moreover have "set ?rows \<subseteq> set t" by (auto dest: in_set_takeD)
      moreover obtain h where "h \<in> set hs" "ho_handoff_id h = i" using list(2) by blast
      ultimately show thesis by (intro that [of h ?rows]) simp_all
    qed
    then obtain row where "row \<in> set t" "handoff_id_of row = i" by (auto simp: handoff_id_of_def)
    then have "i \<in> set (map handoff_id_of t)" by auto
    then show ?thesis using load_handoff_None [of i t] by (cases "load_handoff i t") auto
  qed
  obtain sources peers where lists: "list_handoffs_for_reconciliation RUN_START_HANDOFF_TYPE CATALOG_TO_RECOVERY limit (hc_handoffs (hs_catalog s)) = Inr sources"
    "list_handoffs_for_reconciliation RUN_START_HANDOFF_TYPE CATALOG_TO_RECOVERY limit (hv_handoffs (hs_recovery s)) = Inr peers"
    "i \<in> ho_handoff_id ` set sources \<or> i \<in> ho_handoff_id ` set peers"
    using ids i by (auto simp: candidate_ids_def and_then_def first_occurrences_def split: sum.splits)
  then show ?thesis using listed [OF lists(1)] listed [OF lists(2)] D(5) by (fastforce simp: peer_ok_def)
qed

end
