(* ===== verification/Run_Execution.thy ===== *)
theory Run_Execution
  imports Run_Control
begin

text \<open>
  The handlers of \<open>application/runs.py\<close> that take a run target from preflight over the endpoint
  lease to execution and completion.  The store operations are arguments; the endpoint lease
  authority, which lives outside this module, is three more arguments over its own state \<open>'l\<close>:
  \<open>acquire\<close>, \<open>release\<close> and \<open>issue\<close> (\<open>issue_mutation_permit\<close>, whose \<open>RuntimeError\<close> carries an
  optional validation code).
\<close>

record EndpointLeaseRequest =
  elr_run_id :: string
  elr_run_target_id :: string
  elr_endpoint_id :: string
  elr_endpoint_revision_id :: string
  elr_resource_key :: string
  elr_required_owner_installation_id :: "string option"
  elr_required_ownership_epoch :: "int option"

record LiveEndpointLease =
  lel_lease_id :: string
  lel_owner_installation_id :: string
  lel_ownership_epoch :: int
  lel_fencing_token :: int

record EndpointLeaseAttempt =
  ela_acquired :: bool
  ela_lease :: "LiveEndpointLease option"
  ela_validation_codes :: "string list"

record MutationPermit =
  mp_lease_id :: string
  mp_resource_key :: string
  mp_owner_installation_id :: string
  mp_ownership_epoch :: int
  mp_fencing_token :: int
  mp_run_id :: string
  mp_run_target_id :: string
  mp_endpoint_id :: string
  mp_endpoint_generation :: int
  mp_endpoint_revision_id :: string

record RunTargetPreflightOutcome =
  rpo_claimed :: bool
  rpo_run_target_id :: "string option"
  rpo_target :: "StartedRunTarget option"
  rpo_validation_codes :: "string list"

record RunTargetLeaseOutcome =
  rlo_acquired :: bool
  rlo_target :: "StartedRunTarget option"
  rlo_lease :: "LiveEndpointLease option"
  rlo_validation_codes :: "string list"

record RunTargetExecutionStartOutcome =
  reo_started :: bool
  reo_target :: "StartedRunTarget option"
  reo_mutation_permit :: "MutationPermit option"
  reo_validation_codes :: "string list"

record RunTargetCompletionOutcome =
  rcp_completed :: bool
  rcp_run_completed :: bool
  rcp_run :: "StartedRun option"
  rcp_target :: "StartedRunTarget option"
  rcp_validation_codes :: "string list"

definition WAITABLE_ENDPOINT_LEASE_CODES :: "string list" where
  "WAITABLE_ENDPOINT_LEASE_CODES = [''ENDPOINT_LEASE_UNAVAILABLE'', ''ENDPOINT_ROOT_UNAVAILABLE'']"

definition target_by_id :: "StartedRun \<Rightarrow> string \<Rightarrow> StartedRunTarget option" where
  "target_by_id run run_target_id = List.find (\<lambda>t. rt_run_target_id t = run_target_id) (sr_targets run)"

type_synonym 's target_result = "StartedRunTarget option result \<times> 's"

section \<open>Preflight\<close>

definition preflight_outcome :: "bool \<Rightarrow> string option \<Rightarrow> StartedRunTarget option \<Rightarrow> string list \<Rightarrow> RunTargetPreflightOutcome" where
  "preflight_outcome claimed i target codes =
     \<lparr>rpo_claimed = claimed, rpo_run_target_id = i, rpo_target = target, rpo_validation_codes = codes\<rparr>"

definition begin_next_run_target_preflight ::
  "'s loader \<Rightarrow> (string \<Rightarrow> 's \<Rightarrow> StartedRunTarget option) \<Rightarrow> (string \<Rightarrow> string \<Rightarrow> 's \<Rightarrow> 's target_result) \<Rightarrow>
   string \<Rightarrow> 's \<Rightarrow> RunTargetPreflightOutcome result \<times> 's" where
  "begin_next_run_target_preflight load_run next_pending begin_preflight run_id s =
     (case load_run run_id s of
        Inl e \<Rightarrow> (Inl e, s)
      | Inr None \<Rightarrow> (Inr (preflight_outcome False None None [''RUN_NOT_FOUND'']), s)
      | Inr (Some run) \<Rightarrow>
          if sr_state run \<notin> set [RunState.QUEUED, RunState.PREFLIGHT, RunState.EXECUTING]
          then (Inr (preflight_outcome False None None [''RUN_NOT_READY_FOR_TARGET_PREFLIGHT'']), s)
          else
            (case next_pending run_id s of
               None \<Rightarrow> (Inr (preflight_outcome False None None [''RUN_HAS_NO_PENDING_TARGETS'']), s)
             | Some target \<Rightarrow>
                 if opt_blank (rt_lease_resource_key target)
                 then (Inr (preflight_outcome False (Some (rt_run_target_id target)) (Some target)
                        [''RUN_TARGET_REQUIRES_LEASE_RESOURCE_KEY'']), s)
                 else
                   (case begin_preflight run_id (rt_run_target_id target) s of
                      (Inl e, s') \<Rightarrow> (Inl e, s')
                    | (Inr None, s') \<Rightarrow>
                        (Inr (preflight_outcome False (Some (rt_run_target_id target)) None
                           [''RUN_TARGET_PREFLIGHT_CLAIM_CONFLICT'']), s')
                    | (Inr (Some claimed), s') \<Rightarrow>
                        (Inr (preflight_outcome True (Some (rt_run_target_id claimed)) (Some claimed) []), s'))))"

section \<open>Lease\<close>

definition endpoint_wait_reason :: "EndpointLeaseAttempt \<Rightarrow> string option" where
  "endpoint_wait_reason attempt =
     (case ela_validation_codes attempt of
        [reason_code] \<Rightarrow> if reason_code \<in> set WAITABLE_ENDPOINT_LEASE_CODES then Some reason_code else None
      | _ \<Rightarrow> None)"

definition lease_refused :: "StartedRunTarget option \<Rightarrow> string list \<Rightarrow> RunTargetLeaseOutcome" where
  "lease_refused target codes =
     \<lparr>rlo_acquired = False, rlo_target = target, rlo_lease = None, rlo_validation_codes = codes\<rparr>"

definition endpoint_lease_request :: "string \<Rightarrow> string \<Rightarrow> string \<Rightarrow> StartedRunTarget \<Rightarrow> EndpointLeaseRequest" where
  "endpoint_lease_request run_id run_target_id key target =
     \<lparr>elr_run_id = run_id, elr_run_target_id = run_target_id, elr_endpoint_id = rt_endpoint_id target,
      elr_endpoint_revision_id = rt_endpoint_revision_id target, elr_resource_key = key,
      elr_required_owner_installation_id = rt_required_owner_installation_id target,
      elr_required_ownership_epoch = rt_required_ownership_epoch target\<rparr>"

text \<open>The second half of \<open>acquire_run_target_lease\<close>: what is done with the answer of the authority.\<close>

definition settle_lease_attempt ::
  "(string \<Rightarrow> string \<Rightarrow> RunTargetState \<Rightarrow> string \<Rightarrow> 's \<Rightarrow> 's target_result) \<Rightarrow>
   (string \<Rightarrow> string \<Rightarrow> string \<Rightarrow> string \<Rightarrow> int \<Rightarrow> int \<Rightarrow> 's \<Rightarrow> 's target_result) \<Rightarrow> (LiveEndpointLease \<Rightarrow> 'l \<Rightarrow> 'l) \<Rightarrow>
   string \<Rightarrow> string \<Rightarrow> StartedRunTarget \<Rightarrow> EndpointLeaseAttempt \<Rightarrow> 's \<Rightarrow> 'l \<Rightarrow> RunTargetLeaseOutcome result \<times> 's \<times> 'l" where
  "settle_lease_attempt record_waiting record_acquired release run_id run_target_id target attempt s l =
     (if \<not> ela_acquired attempt then
        (case endpoint_wait_reason attempt of
           Some reason \<Rightarrow>
             (case record_waiting run_id run_target_id RunTargetState.ACQUIRING_LEASE reason s of
                (Inl e, s') \<Rightarrow> (Inl e, s', l)
              | (Inr None, s') \<Rightarrow>
                  (Inr (lease_refused None [''RUN_TARGET_ENDPOINT_WAIT_RECORD_CONFLICT'']), s', l)
              | (Inr (Some waiting), s') \<Rightarrow> (Inr (lease_refused (Some waiting) []), s', l))
         | None \<Rightarrow>
             (Inr (lease_refused (Some target)
                (if ela_validation_codes attempt = [] then [''RUN_TARGET_ENDPOINT_LEASE_UNAVAILABLE'']
                 else ela_validation_codes attempt)), s, l))
      else
        (case ela_lease attempt of
           None \<Rightarrow> (Inr (lease_refused (Some target) [''RUN_TARGET_ENDPOINT_LEASE_INVALID'']), s, l)
         | Some lease \<Rightarrow>
             (case record_acquired run_id run_target_id (lel_lease_id lease)
                 (lel_owner_installation_id lease) (lel_ownership_epoch lease) (lel_fencing_token lease) s of
                (Inl e, s') \<Rightarrow> (Inl e, s', l)
              | (Inr None, s') \<Rightarrow>
                  (Inr (lease_refused None [''RUN_TARGET_LEASE_RECORD_CONFLICT'']), s', release lease l)
              | (Inr (Some updated), s') \<Rightarrow>
                  (Inr \<lparr>rlo_acquired = True, rlo_target = Some updated, rlo_lease = Some lease,
                        rlo_validation_codes = []\<rparr>, s', l))))"

definition acquire_run_target_lease ::
  "'s loader \<Rightarrow> (string \<Rightarrow> string \<Rightarrow> RunTargetState \<Rightarrow> string \<Rightarrow> 's \<Rightarrow> 's target_result) \<Rightarrow>
   (string \<Rightarrow> string \<Rightarrow> string \<Rightarrow> string \<Rightarrow> int \<Rightarrow> int \<Rightarrow> 's \<Rightarrow> 's target_result) \<Rightarrow>
   (EndpointLeaseRequest \<Rightarrow> 'l \<Rightarrow> EndpointLeaseAttempt \<times> 'l) \<Rightarrow> (LiveEndpointLease \<Rightarrow> 'l \<Rightarrow> 'l) \<Rightarrow>
   string \<Rightarrow> string \<Rightarrow> 's \<Rightarrow> 'l \<Rightarrow> RunTargetLeaseOutcome result \<times> 's \<times> 'l" where
  "acquire_run_target_lease load_run record_waiting record_acquired acquire release run_id run_target_id s l =
     (case load_run run_id s of
        Inl e \<Rightarrow> (Inl e, s, l)
      | Inr None \<Rightarrow> (Inr (lease_refused None [''RUN_NOT_FOUND'']), s, l)
      | Inr (Some run) \<Rightarrow>
          if sr_state run \<notin> set [RunState.PREFLIGHT, RunState.EXECUTING]
          then (Inr (lease_refused None [''RUN_NOT_IN_PREFLIGHT'']), s, l)
          else
            (case target_by_id run run_target_id of
               None \<Rightarrow> (Inr (lease_refused None [''RUN_TARGET_NOT_FOUND'']), s, l)
             | Some target \<Rightarrow>
                 if rt_state target \<noteq> RunTargetState.ACQUIRING_LEASE
                 then (Inr (lease_refused (Some target) [''RUN_TARGET_NOT_ACQUIRING_LEASE'']), s, l)
                 else if opt_blank (rt_lease_resource_key target)
                 then (Inr (lease_refused (Some target) [''RUN_TARGET_REQUIRES_LEASE_RESOURCE_KEY'']), s, l)
                 else
                   (case acquire (endpoint_lease_request run_id run_target_id
                          (the (rt_lease_resource_key target)) target) l of
                      (attempt, l1) \<Rightarrow>
                        settle_lease_attempt record_waiting record_acquired release run_id run_target_id
                          target attempt s l1)))"

section \<open>Execution\<close>

definition permit_matches_run_target :: "MutationPermit \<Rightarrow> string \<Rightarrow> StartedRunTarget \<Rightarrow> bool" where
  "permit_matches_run_target permit run_id target \<longleftrightarrow>
     mp_run_id permit = run_id \<and> mp_run_target_id permit = rt_run_target_id target
     \<and> mp_endpoint_id permit = rt_endpoint_id target
     \<and> mp_endpoint_revision_id permit = rt_endpoint_revision_id target
     \<and> Some (mp_resource_key permit) = rt_lease_resource_key target
     \<and> Some (mp_lease_id permit) = rt_last_lease_id target
     \<and> Some (mp_ownership_epoch permit) = rt_last_ownership_epoch target
     \<and> Some (mp_fencing_token permit) = rt_last_fencing_token target"

definition exception_validation_code :: "string option \<Rightarrow> string" where
  "exception_validation_code attr =
     (case attr of Some code \<Rightarrow> if blank code then ''RUN_TARGET_MUTATION_PERMIT_UNAVAILABLE'' else code
      | None \<Rightarrow> ''RUN_TARGET_MUTATION_PERMIT_UNAVAILABLE'')"

definition not_started :: "StartedRunTarget option \<Rightarrow> string \<Rightarrow> RunTargetExecutionStartOutcome" where
  "not_started target code =
     \<lparr>reo_started = False, reo_target = target, reo_mutation_permit = None, reo_validation_codes = [code]\<rparr>"

definition start_run_target_execution ::
  "'s loader \<Rightarrow> (string \<Rightarrow> string \<Rightarrow> string \<Rightarrow> string \<Rightarrow> int \<Rightarrow> int \<Rightarrow> 's \<Rightarrow> 's target_result) \<Rightarrow>
   (LiveEndpointLease \<Rightarrow> string option + MutationPermit) \<Rightarrow> string \<Rightarrow> string \<Rightarrow> LiveEndpointLease \<Rightarrow> 's \<Rightarrow>
   RunTargetExecutionStartOutcome result \<times> 's" where
  "start_run_target_execution load_run record_started issue run_id run_target_id lease s =
     (case load_run run_id s of
        Inl e \<Rightarrow> (Inl e, s)
      | Inr None \<Rightarrow> (Inr (not_started None ''RUN_NOT_FOUND''), s)
      | Inr (Some run) \<Rightarrow>
          if sr_state run \<notin> set [RunState.PREFLIGHT, RunState.EXECUTING]
          then (Inr (not_started None ''RUN_NOT_READY_FOR_EXECUTION_START''), s)
          else
            (case target_by_id run run_target_id of
               None \<Rightarrow> (Inr (not_started None ''RUN_TARGET_NOT_FOUND''), s)
             | Some target \<Rightarrow>
                 if rt_state target \<noteq> RunTargetState.REVALIDATING
                 then (Inr (not_started (Some target) ''RUN_TARGET_NOT_REVALIDATING''), s)
                 else if rt_last_lease_id target = None \<or> rt_last_ownership_epoch target = None
                   \<or> rt_last_fencing_token target = None
                 then (Inr (not_started (Some target) ''RUN_TARGET_LEASE_METADATA_MISSING''), s)
                 else if Some (lel_lease_id lease) \<noteq> rt_last_lease_id target
                   \<or> Some (lel_ownership_epoch lease) \<noteq> rt_last_ownership_epoch target
                   \<or> Some (lel_fencing_token lease) \<noteq> rt_last_fencing_token target
                 then (Inr (not_started (Some target) ''RUN_TARGET_RETAINED_LEASE_MISMATCH''), s)
                 else
                   (case issue lease of
                      Inl attr \<Rightarrow> (Inr (not_started (Some target) (exception_validation_code attr)), s)
                    | Inr permit \<Rightarrow>
                        if \<not> permit_matches_run_target permit run_id target
                        then (Inr (not_started (Some target) ''RUN_TARGET_MUTATION_PERMIT_MISMATCH''), s)
                        else
                          (case record_started run_id run_target_id (mp_lease_id permit)
                              (mp_owner_installation_id permit) (mp_ownership_epoch permit) (mp_fencing_token permit) s of
                             (Inl e, s') \<Rightarrow> (Inl e, s')
                           | (Inr None, s') \<Rightarrow> (Inr (not_started None ''RUN_TARGET_EXECUTION_START_CONFLICT''), s')
                           | (Inr (Some updated), s') \<Rightarrow>
                               (Inr \<lparr>reo_started = True, reo_target = Some updated,
                                     reo_mutation_permit = Some permit, reo_validation_codes = []\<rparr>, s')))))"

section \<open>Completion\<close>

definition not_completed :: "StartedRun option \<Rightarrow> StartedRunTarget option \<Rightarrow> string \<Rightarrow> RunTargetCompletionOutcome" where
  "not_completed run target code =
     \<lparr>rcp_completed = False, rcp_run_completed = False, rcp_run = run, rcp_target = target,
      rcp_validation_codes = [code]\<rparr>"

text \<open>The end all completions share: the store's answer, then the reloaded target.\<close>

definition completion_result ::
  "string \<Rightarrow> string \<Rightarrow> string \<Rightarrow> (RunState \<Rightarrow> bool) \<Rightarrow> StartedRun option result \<times> 's \<Rightarrow>
   RunTargetCompletionOutcome result \<times> 's" where
  "completion_result run_target_id conflict load_failed run_completed answer =
     (case answer of
        (Inl e, s') \<Rightarrow> (Inl e, s')
      | (Inr None, s') \<Rightarrow> (Inr (not_completed None None conflict), s')
      | (Inr (Some updated_run), s') \<Rightarrow>
          (case target_by_id updated_run run_target_id of
             None \<Rightarrow> (Inl load_failed, s')
           | Some updated_target \<Rightarrow>
               (Inr \<lparr>rcp_completed = True, rcp_run_completed = run_completed (sr_state updated_run),
                     rcp_run = Some updated_run, rcp_target = Some updated_target, rcp_validation_codes = []\<rparr>, s')))"

definition complete_run_target_success ::
  "'s loader \<Rightarrow> (string \<Rightarrow> string \<Rightarrow> int \<Rightarrow> int \<Rightarrow> 's \<Rightarrow> StartedRun option result \<times> 's) \<Rightarrow>
   string \<Rightarrow> string \<Rightarrow> int \<Rightarrow> int \<Rightarrow> 's \<Rightarrow> RunTargetCompletionOutcome result \<times> 's" where
  "complete_run_target_success load_run record_succeeded run_id run_target_id completed_operations completed_bytes s =
     (if completed_operations < 0 \<or> completed_bytes < 0
      then (Inr (not_completed None None ''RUN_TARGET_COMPLETION_REQUIRES_NON_NEGATIVE_COUNTS''), s)
      else
        (case load_run run_id s of
           Inl e \<Rightarrow> (Inl e, s)
         | Inr None \<Rightarrow> (Inr (not_completed None None ''RUN_NOT_FOUND''), s)
         | Inr (Some run) \<Rightarrow>
             if sr_state run \<noteq> RunState.EXECUTING
             then (Inr (not_completed (Some run) None ''RUN_NOT_EXECUTING''), s)
             else
               (case target_by_id run run_target_id of
                  None \<Rightarrow> (Inr (not_completed (Some run) None ''RUN_TARGET_NOT_FOUND''), s)
                | Some target \<Rightarrow>
                    if rt_state target \<noteq> RunTargetState.EXECUTING
                    then (Inr (not_completed (Some run) (Some target) ''RUN_TARGET_NOT_EXECUTING''), s)
                    else if completed_operations \<noteq> rt_planned_operations target \<or> completed_bytes \<noteq> rt_planned_bytes target
                    then (Inr (not_completed (Some run) (Some target) ''RUN_TARGET_COMPLETION_COUNTS_MISMATCH''), s)
                    else completion_result run_target_id ''RUN_TARGET_COMPLETION_CONFLICT''
                      ''RUN_TARGET_COMPLETION_LOAD_FAILED'' (\<lambda>st. st = RunState.COMPLETED)
                      (record_succeeded run_id run_target_id completed_operations completed_bytes s))))"

definition normalized_error_code :: "string \<Rightarrow> string option" where
  "normalized_error_code value = (if strip value = [] then None else Some (strip value))"

definition complete_run_target_with_warnings ::
  "'s loader \<Rightarrow> (string \<Rightarrow> string \<Rightarrow> int \<Rightarrow> int \<Rightarrow> int \<Rightarrow> int \<Rightarrow> string \<Rightarrow> 's \<Rightarrow> StartedRun option result \<times> 's) \<Rightarrow>
   string \<Rightarrow> string \<Rightarrow> int \<Rightarrow> int \<Rightarrow> int \<Rightarrow> int \<Rightarrow> string \<Rightarrow> 's \<Rightarrow> RunTargetCompletionOutcome result \<times> 's" where
  "complete_run_target_with_warnings load_run record_warned run_id run_target_id completed_operations
     completed_bytes skipped_operations skipped_bytes last_error_code s =
     (case (if completed_operations < 0 \<or> completed_bytes < 0 \<or> skipped_operations < 1 \<or> skipped_bytes < 0
            then None else normalized_error_code last_error_code) of
        None \<Rightarrow> (Inr (not_completed None None ''RUN_TARGET_WARNING_COMPLETION_REQUIRES_VALID_COUNTS''), s)
      | Some code \<Rightarrow>
          (case load_run run_id s of
             Inl e \<Rightarrow> (Inl e, s)
           | Inr None \<Rightarrow> (Inr (not_completed None None ''RUN_NOT_FOUND''), s)
           | Inr (Some run) \<Rightarrow>
               if sr_state run \<noteq> RunState.EXECUTING
               then (Inr (not_completed (Some run) None ''RUN_NOT_EXECUTING''), s)
               else
                 (case target_by_id run run_target_id of
                    None \<Rightarrow> (Inr (not_completed (Some run) None ''RUN_TARGET_NOT_EXECUTING''), s)
                  | Some target \<Rightarrow>
                      if rt_state target \<noteq> RunTargetState.EXECUTING
                      then (Inr (not_completed (Some run) (Some target) ''RUN_TARGET_NOT_EXECUTING''), s)
                      else if completed_operations + skipped_operations \<noteq> rt_planned_operations target
                        \<or> completed_bytes + skipped_bytes \<noteq> rt_planned_bytes target
                      then (Inr (not_completed (Some run) (Some target) ''RUN_TARGET_COMPLETION_COUNTS_MISMATCH''), s)
                      else completion_result run_target_id ''RUN_TARGET_WARNING_COMPLETION_CONFLICT''
                        ''RUN_TARGET_WARNING_COMPLETION_LOAD_FAILED'' (\<lambda>st. st \<noteq> RunState.EXECUTING)
                        (record_warned run_id run_target_id completed_operations completed_bytes
                           skipped_operations skipped_bytes code s))))"

text \<open>\<open>_terminal_completion_readiness\<close>: the outcome to return, or \<open>None\<close> when the target may be completed.\<close>

definition terminal_completion_readiness ::
  "'s loader \<Rightarrow> string \<Rightarrow> string \<Rightarrow> string \<Rightarrow> 's \<Rightarrow> RunTargetCompletionOutcome option result" where
  "terminal_completion_readiness load_run run_id run_target_id target_state_code s =
     (case load_run run_id s of
        Inl e \<Rightarrow> Inl e
      | Inr None \<Rightarrow> Inr (Some (not_completed None None ''RUN_NOT_FOUND''))
      | Inr (Some run) \<Rightarrow>
          if sr_state run \<noteq> RunState.EXECUTING then Inr (Some (not_completed (Some run) None ''RUN_NOT_EXECUTING''))
          else
            (case target_by_id run run_target_id of
               None \<Rightarrow> Inr (Some (not_completed (Some run) None ''RUN_TARGET_NOT_FOUND''))
             | Some target \<Rightarrow>
                 if rt_state target \<noteq> RunTargetState.EXECUTING
                 then Inr (Some (not_completed (Some run) (Some target) target_state_code))
                 else Inr None))"

definition complete_terminal ::
  "'s loader \<Rightarrow> (string \<Rightarrow> string \<Rightarrow> string \<Rightarrow> 's \<Rightarrow> StartedRun option result \<times> 's) \<Rightarrow> (RunState \<Rightarrow> bool) \<Rightarrow>
   string \<Rightarrow> string \<Rightarrow> string \<Rightarrow> 's \<Rightarrow> RunTargetCompletionOutcome result \<times> 's" where
  "complete_terminal load_run record run_completed run_id run_target_id last_error_code s =
     (case normalized_error_code last_error_code of
        None \<Rightarrow> (Inr (not_completed None None ''RUN_TARGET_TERMINAL_RECOVERY_REQUIRES_ERROR_CODE''), s)
      | Some code \<Rightarrow>
          (case terminal_completion_readiness load_run run_id run_target_id ''RUN_TARGET_NOT_EXECUTING'' s of
             Inl e \<Rightarrow> (Inl e, s)
           | Inr (Some outcome) \<Rightarrow> (Inr outcome, s)
           | Inr None \<Rightarrow>
               completion_result run_target_id ''RUN_TARGET_TERMINAL_RECOVERY_CONFLICT''
                 ''RUN_TARGET_TERMINAL_RECOVERY_LOAD_FAILED'' run_completed (record run_id run_target_id code s)))"

definition complete_run_target_recovery_required where
  "complete_run_target_recovery_required load_run record =
     complete_terminal load_run record (\<lambda>st. st = RunState.RECOVERY_REQUIRED)"

definition complete_run_target_cancelled where
  "complete_run_target_cancelled load_run record =
     complete_terminal load_run record (\<lambda>st. st \<in> set [RunState.CANCELLED, RunState.PARTIAL_FAILURE])"

end
