(* ===== verification/Run_Execution_Laws.thy ===== *)
theory Run_Execution_Laws
  imports Run_Execution
begin

text \<open>
  The contract between the lease and execution handlers and the run store, what the handlers then
  guarantee, and the proof that the SQLite store meets the contract.
\<close>

section \<open>What a handler call can be\<close>

lemma execution_cases:
  assumes "start_run_target_execution load_run record_started issue run_id run_target_id lease s = (Inr out, s')"
  shows "(s' = s \<and> \<not> reo_started out \<and> reo_mutation_permit out = None \<and> reo_validation_codes out \<noteq> []) \<or>
    (\<exists>permit r t0. issue lease = Inr permit \<and> permit_matches_run_target permit run_id t0 \<and>
        rt_last_lease_id t0 = Some (lel_lease_id lease) \<and>
        record_started run_id run_target_id (mp_lease_id permit) (mp_owner_installation_id permit)
           (mp_ownership_epoch permit) (mp_fencing_token permit) s = (Inr r, s') \<and>
        (reo_started out \<longleftrightarrow> r \<noteq> None) \<and> reo_target out = r \<and>
        reo_mutation_permit out = (if r = None then None else Some permit) \<and> (r = None \<longrightarrow> reo_validation_codes out \<noteq> []))"
    using assms unfolding start_run_target_execution_def
    by (simp add: not_started_def split: sum.splits option.splits if_splits prod.splits) (auto | metis)+

lemma execution_target:
  assumes "start_run_target_execution load_run record_started issue run_id run_target_id lease s = (Inr out, s')" "reo_started out"
  shows "\<exists>run t0 permit. load_run run_id s = Inr (Some run) \<and> target_by_id run run_target_id = Some t0
    \<and> permit_matches_run_target permit run_id t0 \<and> reo_mutation_permit out = Some permit"
  using assms unfolding start_run_target_execution_def
  by (auto simp: not_started_def split: sum.splits option.splits if_splits prod.splits)

lemma execution_raises:
  assumes "start_run_target_execution load_run record_started issue run_id run_target_id lease s = (Inl e, s')"
  shows "s' = s \<or> (\<exists>lease_id owner epoch token. record_started run_id run_target_id lease_id owner epoch token s = (Inl e, s'))"
  using assms unfolding start_run_target_execution_def
  by (auto split: sum.splits option.splits if_splits prod.splits)

lemma settle_cases:
  assumes "settle_lease_attempt record_waiting record_acquired release run_id run_target_id target attempt s l1 = (Inr out, s', l')"
  shows "\<not> rlo_acquired out \<and> rlo_lease out = None \<and> l' = l1 \<and> \<not> (ela_acquired attempt \<and> ela_lease attempt \<noteq> None) \<and>
          (s' = s \<or> (\<exists>reason r. record_waiting run_id run_target_id RunTargetState.ACQUIRING_LEASE reason s = (Inr r, s')))
    \<or> (\<exists>lease r. ela_acquired attempt \<and> ela_lease attempt = Some lease \<and>
         record_acquired run_id run_target_id (lel_lease_id lease) (lel_owner_installation_id lease)
           (lel_ownership_epoch lease) (lel_fencing_token lease) s = (Inr r, s') \<and>
         (rlo_acquired out \<longleftrightarrow> r \<noteq> None) \<and> rlo_target out = r \<and>
         rlo_lease out = (if r = None then None else Some lease) \<and> l' = (if r = None then release lease l1 else l1))"
  using assms unfolding settle_lease_attempt_def
  by (auto simp: lease_refused_def split: sum.splits option.splits if_splits prod.splits)

lemma acquire_cases:
  assumes "acquire_run_target_lease load_run record_waiting record_acquired acquire release run_id run_target_id s l = (Inr out, s', l')"
  shows "(s' = s \<and> l' = l \<and> \<not> rlo_acquired out \<and> rlo_lease out = None) \<or>
    (\<exists>request attempt l1 target. acquire request l = (attempt, l1) \<and>
       settle_lease_attempt record_waiting record_acquired release run_id run_target_id target attempt s l1 = (Inr out, s', l'))"
  using assms unfolding acquire_run_target_lease_def
  by (auto simp: lease_refused_def split: sum.splits option.splits if_splits prod.splits)

lemma settle_raises:
  assumes "settle_lease_attempt record_waiting record_acquired release run_id run_target_id target attempt s l1 = (Inl e, s', l')"
  shows "l' = l1 \<and> (\<not> ela_acquired attempt \<or> (\<exists>lease_id owner epoch token.
    record_acquired run_id run_target_id lease_id owner epoch token s = (Inl e, s')))"
  using assms unfolding settle_lease_attempt_def
  by (auto split: sum.splits option.splits if_splits prod.splits)

lemma acquire_raises:
  assumes "acquire_run_target_lease load_run record_waiting record_acquired acquire release run_id run_target_id s l = (Inl e, s', l')"
  shows "(s' = s \<and> l' = l) \<or>
    (\<exists>request attempt l1 target. acquire request l = (attempt, l1) \<and>
       settle_lease_attempt record_waiting record_acquired release run_id run_target_id target attempt s l1 = (Inl e, s', l'))"
  using assms unfolding acquire_run_target_lease_def
  by (auto split: sum.splits option.splits if_splits prod.splits)

section \<open>The contract\<close>

locale run_target_store =
  fixes load_run :: "string \<Rightarrow> 's \<Rightarrow> StartedRun option result"
    and target :: "string \<Rightarrow> string \<Rightarrow> 's \<Rightarrow> StartedRunTarget option"
    and valid :: "'s \<Rightarrow> bool"
    and record_waiting :: "string \<Rightarrow> string \<Rightarrow> RunTargetState \<Rightarrow> string \<Rightarrow> 's \<Rightarrow> StartedRunTarget option result \<times> 's"
    and record_acquired :: "string \<Rightarrow> string \<Rightarrow> string \<Rightarrow> string \<Rightarrow> int \<Rightarrow> int \<Rightarrow> 's \<Rightarrow> StartedRunTarget option result \<times> 's"
    and record_started :: "string \<Rightarrow> string \<Rightarrow> string \<Rightarrow> string \<Rightarrow> int \<Rightarrow> int \<Rightarrow> 's \<Rightarrow> StartedRunTarget option result \<times> 's"
  assumes loaded: "valid s \<Longrightarrow> load_run i s = Inr (Some run) \<Longrightarrow> target_by_id run j = Some t \<Longrightarrow> target i j s = Some t"
    and waiting_done: "valid s \<Longrightarrow> record_waiting i j st reason s = (Inr (Some t), s') \<Longrightarrow>
          valid s' \<and> target i j s' = Some t \<and> rt_state t = RunTargetState.WAITING_FOR_ENDPOINT \<and> rt_last_lease_id t = None"
    and waiting_refused: "valid s \<Longrightarrow> record_waiting i j st reason s = (Inr None, s') \<Longrightarrow> s' = s"
    and acquired_returns: "valid s \<Longrightarrow> record_acquired i j lease_id owner epoch token s \<noteq> (Inl e, s')"
    and acquired_done: "valid s \<Longrightarrow> record_acquired i j lease_id owner epoch token s = (Inr (Some t), s') \<Longrightarrow>
          valid s' \<and> target i j s' = Some t \<and> rt_state t = RunTargetState.REVALIDATING
          \<and> rt_last_lease_id t = Some lease_id \<and> rt_last_ownership_epoch t = Some epoch \<and> rt_last_fencing_token t = Some token
          \<and> rt_required_owner_installation_id t \<in> {None, Some owner} \<and> rt_required_ownership_epoch t \<in> {None, Some epoch}"
    and acquired_refused: "valid s \<Longrightarrow> record_acquired i j lease_id owner epoch token s = (Inr None, s') \<Longrightarrow> s' = s"
    and started_returns: "valid s \<Longrightarrow> record_started i j lease_id owner epoch token s \<noteq> (Inl e, s')"
    and started_done: "valid s \<Longrightarrow> record_started i j lease_id owner epoch token s = (Inr (Some t), s') \<Longrightarrow>
          valid s' \<and> target i j s' = Some t \<and> target i j s \<noteq> None
          \<and> t = (the (target i j s))\<lparr>rt_state := RunTargetState.EXECUTING\<rparr> \<and> rt_state t = RunTargetState.EXECUTING
          \<and> rt_last_lease_id t = Some lease_id \<and> rt_last_ownership_epoch t = Some epoch \<and> rt_last_fencing_token t = Some token
          \<and> rt_required_owner_installation_id t \<in> {None, Some owner} \<and> rt_required_ownership_epoch t \<in> {None, Some epoch}"
    and started_refused: "valid s \<Longrightarrow> record_started i j lease_id owner epoch token s = (Inr None, s') \<Longrightarrow> s' = s"
begin

text \<open>No live lease is left behind: a call that does not hand one out has not got one or gave it back.\<close>

lemma lease_handler:
  assumes v: "valid s" and c: "acquire_run_target_lease load_run record_waiting record_acquired acquire release
      run_id run_target_id s l = (Inr out, s', l')"
  shows "if rlo_acquired out
    then \<exists>t lease. rlo_target out = Some t \<and> rlo_lease out = Some lease \<and> valid s' \<and> target run_id run_target_id s' = Some t
       \<and> rt_state t = RunTargetState.REVALIDATING \<and> rt_last_lease_id t = Some (lel_lease_id lease)
       \<and> rt_last_ownership_epoch t = Some (lel_ownership_epoch lease) \<and> rt_last_fencing_token t = Some (lel_fencing_token lease)
       \<and> rt_required_owner_installation_id t \<in> {None, Some (lel_owner_installation_id lease)}
       \<and> rt_required_ownership_epoch t \<in> {None, Some (lel_ownership_epoch lease)}
    else rlo_lease out = None \<and> valid s' \<and>
      (l' = l \<or> (\<exists>request attempt l1. acquire request l = (attempt, l1) \<and>
         (if ela_acquired attempt \<and> ela_lease attempt \<noteq> None then l' = release (the (ela_lease attempt)) l1 \<and> s' = s
          else l' = l1)))"
  using acquire_cases [OF c]
proof (elim disjE exE conjE)
  fix request attempt l1 tg
  assume a: "acquire request l = (attempt, l1)"
    and st: "settle_lease_attempt record_waiting record_acquired release run_id run_target_id tg attempt s l1 = (Inr out, s', l')"
  have refused: ?thesis if "\<not> rlo_acquired out" "rlo_lease out = None" "valid s'"
      "if ela_acquired attempt \<and> ela_lease attempt \<noteq> None then l' = release (the (ela_lease attempt)) l1 \<and> s' = s else l' = l1"
    using that a by (simp only: if_False) blast
  show ?thesis
    using settle_cases [OF st]
  proof (elim disjE exE conjE)
    assume "\<not> rlo_acquired out" "rlo_lease out = None" "l' = l1" "\<not> (ela_acquired attempt \<and> ela_lease attempt \<noteq> None)" "s' = s"
    then show ?thesis using v by (intro refused) auto
  next
    fix reason r assume "record_waiting run_id run_target_id RunTargetState.ACQUIRING_LEASE reason s = (Inr r, s')"
      and n: "\<not> rlo_acquired out" "rlo_lease out = None" "l' = l1" "\<not> (ela_acquired attempt \<and> ela_lease attempt \<noteq> None)"
    then have "valid s'" using waiting_done [OF v] waiting_refused [OF v] v by (cases r; blast)
    then show ?thesis using n by (intro refused) auto
  next
    fix lease r
    assume r: "record_acquired run_id run_target_id (lel_lease_id lease) (lel_owner_installation_id lease)
           (lel_ownership_epoch lease) (lel_fencing_token lease) s = (Inr r, s')"
      and n: "ela_acquired attempt" "ela_lease attempt = Some lease" "rlo_acquired out \<longleftrightarrow> r \<noteq> None" "rlo_target out = r"
        "rlo_lease out = (if r = None then None else Some lease)" "l' = (if r = None then release lease l1 else l1)"
    show ?thesis
    proof (cases r)
      case None
      then have "s' = s" using acquired_refused [OF v] r by blast
      then show ?thesis using None n v by (intro refused) simp_all
    next
      case (Some t)
      then show ?thesis using acquired_done [OF v] r n by auto
    qed
  qed
qed (use v in auto)

text \<open>A call that raises has not got a lease: the store records every lease it is given or refuses it.\<close>

lemma lease_handler_raises:
  assumes v: "valid s" and c: "acquire_run_target_lease load_run record_waiting record_acquired acquire release
      run_id run_target_id s l = (Inl e, s', l')"
  shows "l' = l \<or> (\<exists>request attempt. acquire request l = (attempt, l') \<and> \<not> ela_acquired attempt)"
  using acquire_raises [OF c] settle_raises acquired_returns [OF v] by metis

lemma execution_handler_raises:
  assumes v: "valid s" and c: "start_run_target_execution load_run record_started issue run_id run_target_id lease s = (Inl e, s')"
  shows "s' = s"
  using execution_raises [OF c] started_returns [OF v] by blast

lemma execution_handler:
  assumes v: "valid s" and c: "start_run_target_execution load_run record_started issue run_id run_target_id lease s = (Inr out, s')"
  shows "valid s' \<and> (if reo_started out
    then \<exists>t permit. reo_target out = Some t \<and> reo_mutation_permit out = Some permit \<and> issue lease = Inr permit
       \<and> target run_id run_target_id s' = Some t \<and> rt_state t = RunTargetState.EXECUTING
       \<and> mp_run_id permit = run_id \<and> mp_run_target_id permit = run_target_id \<and> mp_endpoint_id permit = rt_endpoint_id t
       \<and> mp_endpoint_revision_id permit = rt_endpoint_revision_id t \<and> rt_lease_resource_key t = Some (mp_resource_key permit)
       \<and> mp_lease_id permit = lel_lease_id lease \<and> rt_last_lease_id t = Some (mp_lease_id permit)
       \<and> rt_last_ownership_epoch t = Some (mp_ownership_epoch permit) \<and> rt_last_fencing_token t = Some (mp_fencing_token permit)
       \<and> rt_required_owner_installation_id t \<in> {None, Some (mp_owner_installation_id permit)}
    else s' = s \<and> reo_mutation_permit out = None \<and> reo_validation_codes out \<noteq> [])"
  using execution_cases [OF c]
proof (elim disjE exE conjE)
  fix permit r t0
  assume r: "record_started run_id run_target_id (mp_lease_id permit) (mp_owner_installation_id permit)
           (mp_ownership_epoch permit) (mp_fencing_token permit) s = (Inr r, s')"
    and n: "issue lease = Inr permit" "permit_matches_run_target permit run_id t0" "rt_last_lease_id t0 = Some (lel_lease_id lease)"
      "reo_started out \<longleftrightarrow> r \<noteq> None" "reo_target out = r"
      "reo_mutation_permit out = (if r = None then None else Some permit)" "r = None \<longrightarrow> reo_validation_codes out \<noteq> []"
  have m: "mp_run_id permit = run_id" "mp_lease_id permit = lel_lease_id lease"
    using n(2,3) by (auto simp: permit_matches_run_target_def)
  show ?thesis
  proof (cases r)
    case None
    then have "s' = s" using started_refused [OF v] r by blast
    then show ?thesis using None n v by auto
  next
    case (Some t)
    note d = started_done [OF v r [unfolded Some]]
    obtain run t1 where t1: "load_run run_id s = Inr (Some run)" "target_by_id run run_target_id = Some t1"
        "permit_matches_run_target permit run_id t1"
      using execution_target [OF c] n Some by auto
    have loaded_t1: "target run_id run_target_id s = Some t1" by (rule loaded [OF v t1(1,2)])
    have "rt_run_target_id t1 = run_target_id" using find_Some_iff' [OF t1(2) [unfolded target_by_id_def]] by simp
    moreover have "t = t1\<lparr>rt_state := RunTargetState.EXECUTING\<rparr>" using d loaded_t1 by simp
    ultimately have same: "mp_run_target_id permit = run_target_id" "mp_endpoint_id permit = rt_endpoint_id t"
      "mp_endpoint_revision_id permit = rt_endpoint_revision_id t" "rt_lease_resource_key t = Some (mp_resource_key permit)"
      using t1(3) by (simp_all add: permit_matches_run_target_def)
    have d': "valid s'" "target run_id run_target_id s' = Some t" "rt_state t = RunTargetState.EXECUTING"
      "rt_last_lease_id t = Some (mp_lease_id permit)" "rt_last_ownership_epoch t = Some (mp_ownership_epoch permit)"
      "rt_last_fencing_token t = Some (mp_fencing_token permit)"
      "rt_required_owner_installation_id t \<in> {None, Some (mp_owner_installation_id permit)}"
      using d by blast+
    then show ?thesis
      using n m same by (simp add: Some)
  qed
qed (use v in simp)

end

section \<open>The SQLite store as a provider\<close>

lemma find_unique:
  assumes "r \<in> set xs" "P r" "\<And>x. x \<in> set xs \<Longrightarrow> P x \<Longrightarrow> x = r"
  shows "List.find P xs = Some r"
proof (cases "List.find P xs")
  case None
  then show ?thesis using assms(1,2) by (auto simp: find_None_iff')
next
  case (Some y)
  then show ?thesis using find_Some_iff' [OF Some] assms(3) by blast
qed

lemma loaded_target:
  assumes "catalog_inv db" "db_load_started_run i db = Inr (Some run)" "target_by_id run j = Some target"
  shows "load_target db i j = Some target"
proof -
  have "sr_targets run = load_targets db i" using assms(2) by (rule load_started_run_SomeD)
  then have "target \<in> set (load_targets db i)" "rt_run_target_id target = j"
    using find_Some_iff' [OF assms(3) [unfolded target_by_id_def]] by simp_all
  then obtain x where x: "x \<in> set (c_run_targets db)" "tr_run_id x = i" "target = started_target x" "tr_id x = j"
    by (auto simp: load_targets_set started_target_def)
  have u: "y = x" if "y \<in> set (c_run_targets db)" "tr_run_id y = i \<and> tr_id y = j" for y
    using assms(1) that x by (auto simp: catalog_inv_def target_keys_ok_def distinct_map inj_on_def)
  have "List.find (\<lambda>t. tr_run_id t = i \<and> tr_id t = j) (c_run_targets db) = Some x"
    by (rule find_unique [OF x(1)]) (simp add: x, rule u)
  then show ?thesis using x by (simp add: load_target_def)
qed

text \<open>The target a guarded update of one target row leaves under its key.\<close>

lemma updated_target:
  assumes inv: "catalog_inv db" and n: "sql_count (\<lambda>t. tr_run_id t = i \<and> tr_id t = j \<and> p t) (c_run_targets db) = Suc 0"
    and k: "\<And>t. tr_id (f t) = tr_id t" "\<And>t. tr_run_id (f t) = tr_run_id t"
    and t: "c_run_targets db' = c_run_targets (update_targets (\<lambda>t. tr_run_id t = i \<and> tr_id t = j \<and> p t) f db)"
  shows "\<exists>t0. p t0 \<and> load_target db i j = Some (started_target t0)
    \<and> load_target db' i j = Some (started_target ((f t0)\<lparr>tr_row_version := tr_row_version t0 + 1\<rparr>))"
proof -
  have "0 < sql_count (\<lambda>t. tr_run_id t = i \<and> tr_id t = j \<and> p t) (c_run_targets db)" using n by simp
  then obtain t0 where t0: "t0 \<in> set (c_run_targets db)" "tr_run_id t0 = i" "tr_id t0 = j" "p t0"
    unfolding sql_count_pos by blast
  let ?g = "\<lambda>t. if tr_run_id t = i \<and> tr_id t = j \<and> p t then (f t)\<lparr>tr_row_version := tr_row_version t + 1\<rparr> else t"
  have rows: "set (c_run_targets db') = ?g ` set (c_run_targets db)"
    by (simp add: t update_targets_def sql_update_def)
  have "List.find (\<lambda>t. tr_run_id t = i \<and> tr_id t = j) (c_run_targets db') = Some (?g t0)"
  proof (rule find_unique)
    show "?g t0 \<in> set (c_run_targets db')" unfolding rows using t0(1) by (rule imageI)
    show "tr_run_id (?g t0) = i \<and> tr_id (?g t0) = j" using t0 k by simp
    fix x assume x: "x \<in> set (c_run_targets db')" "tr_run_id x = i \<and> tr_id x = j"
    obtain u where u: "u \<in> set (c_run_targets db)" "x = ?g u" using x(1) unfolding rows by blast
    have "tr_id u = j" using x(2) u(2) k by (simp split: if_splits)
    moreover have "distinct (map tr_id (c_run_targets db))" using inv by (simp add: catalog_inv_def target_keys_ok_def)
    ultimately have "u = t0" using t0(1,3) u(1) by (metis distinct_map inj_onD)
    then show "x = ?g t0" using u(2) by simp
  qed
  moreover have "List.find (\<lambda>t. tr_run_id t = i \<and> tr_id t = j) (c_run_targets db) = Some t0"
  proof (rule find_unique [OF t0(1)])
    show "tr_run_id t0 = i \<and> tr_id t0 = j" using t0 by simp
    fix x assume "x \<in> set (c_run_targets db)" "tr_run_id x = i \<and> tr_id x = j"
    moreover have "distinct (map tr_id (c_run_targets db))" using inv by (simp add: catalog_inv_def target_keys_ok_def)
    ultimately show "x = t0" using t0(1,3) by (metis distinct_map inj_onD)
  qed
  ultimately show ?thesis using t0 by (intro exI [of _ t0]) (simp add: load_target_def)
qed

lemma return_target_SomeD:
  assumes "return_target outer db0 db1 i j = (Inr x, db')"
  shows "db' = db1 \<and> x = load_target db1 i j \<and> x \<noteq> None"
  using assms by (cases "load_target db1 i j") (simp_all add: return_target_def give_up_def, blast?)

lemma started_target_lease [simp]:
  "rt_state (started_target t) = tr_state t" "rt_last_lease_id (started_target t) = tr_last_lease_id t"
  "rt_last_ownership_epoch (started_target t) = tr_last_ownership_epoch t"
  "rt_last_fencing_token (started_target t) = tr_last_fencing_token t"
  "rt_required_owner_installation_id (started_target t) = tr_required_owner_installation_id t"
  "rt_required_ownership_epoch (started_target t) = tr_required_ownership_epoch t"
  by (simp_all add: started_target_def)

lemma owner_accepts_iff:
  "owner_accepts t owner epoch \<longleftrightarrow> tr_required_owner_installation_id t \<in> {None, Some owner}
     \<and> tr_required_ownership_epoch t \<in> {None, Some epoch}"
  by (auto simp: owner_accepts_def split: option.splits)

lemma db_acquired_laws:
  assumes inv: "catalog_inv db"
    and op: "db_record_run_target_lease_acquired outer i j lease_id owner epoch token db = (Inr x, db')"
  shows "case x of None \<Rightarrow> db' = db
     | Some t \<Rightarrow> catalog_inv db' \<and> load_target db' i j = Some t \<and> rt_state t = RunTargetState.REVALIDATING
          \<and> rt_last_lease_id t = Some lease_id \<and> rt_last_ownership_epoch t = Some epoch \<and> rt_last_fencing_token t = Some token
          \<and> rt_required_owner_installation_id t \<in> {None, Some owner} \<and> rt_required_ownership_epoch t \<in> {None, Some epoch}"
proof -
  let ?q = "\<lambda>t. tr_state t = RunTargetState.ACQUIRING_LEASE \<and> owner_accepts t owner epoch
            \<and> run_in db (tr_run_id t) [RunState.PREFLIGHT, RunState.EXECUTING]"
  let ?p = "\<lambda>t. tr_run_id t = i \<and> tr_id t = j \<and> ?q t"
  let ?f = "\<lambda>t. (set_lease lease_id epoch token t)\<lparr>tr_state := RunTargetState.REVALIDATING\<rparr>"
  show ?thesis
  proof (cases "sql_count ?p (c_run_targets db) = Suc 0")
    case True
    then have r: "db' = update_targets ?p ?f db" "x = load_target (update_targets ?p ?f db) i j"
      using op return_target_SomeD [of outer db "update_targets ?p ?f db" i j x db']
      by (simp_all add: db_record_run_target_lease_acquired_def Let_def)
    have "catalog_inv db'"
      using lease_acquired_good [OF inv, of outer i j lease_id owner epoch token] op by (simp add: good_def)
    moreover obtain t0 where "?q t0" "load_target db' i j = Some (started_target ((?f t0)\<lparr>tr_row_version := tr_row_version t0 + 1\<rparr>))"
      using updated_target [OF inv True, of ?f db'] r(1) by (auto simp: set_lease_def)
    ultimately show ?thesis using r by (simp add: set_lease_def owner_accepts_iff)
  next
    case False
    then show ?thesis
      using op target_miss [OF inv False, of ?f] by (auto simp: db_record_run_target_lease_acquired_def Let_def give_up_def)
  qed
qed

lemma update_runs_hit:
  assumes "catalog_inv db" "run_in db i S" "\<And>r. p r \<longleftrightarrow> rr_state r \<in> set S"
  shows "sql_count (\<lambda>r. rr_id r = i \<and> p r) (c_runs db) = Suc 0"
proof -
  have "0 < sql_count (\<lambda>r. rr_id r = i \<and> p r) (c_runs db)"
    using assms(2,3) unfolding sql_count_pos by (auto simp: run_in_def list_ex_iff)
  then show ?thesis using count_runs_le_1 [OF assms(1), of i p] by simp
qed

lemma db_started_laws:
  assumes inv: "catalog_inv db"
    and op: "db_record_run_target_execution_started outer i j lease_id owner epoch token db = (Inr x, db')"
  shows "case x of None \<Rightarrow> db' = db
     | Some t \<Rightarrow> catalog_inv db' \<and> load_target db' i j = Some t \<and> load_target db i j \<noteq> None
          \<and> t = (the (load_target db i j))\<lparr>rt_state := RunTargetState.EXECUTING\<rparr> \<and> rt_state t = RunTargetState.EXECUTING
          \<and> rt_last_lease_id t = Some lease_id \<and> rt_last_ownership_epoch t = Some epoch \<and> rt_last_fencing_token t = Some token
          \<and> rt_required_owner_installation_id t \<in> {None, Some owner} \<and> rt_required_ownership_epoch t \<in> {None, Some epoch}"
proof -
  let ?q = "\<lambda>t. tr_state t = RunTargetState.REVALIDATING \<and> lease_is t lease_id epoch token \<and> owner_accepts t owner epoch
            \<and> run_in db (tr_run_id t) [RunState.PREFLIGHT, RunState.EXECUTING]"
  let ?p = "\<lambda>t. tr_run_id t = i \<and> tr_id t = j \<and> ?q t"
  let ?f = "\<lambda>t. t\<lparr>tr_state := RunTargetState.EXECUTING\<rparr>"
  let ?db1 = "update_targets ?p ?f db"
  let ?run_guard = "\<lambda>r. rr_id r = i \<and> rr_state r \<in> set [RunState.PREFLIGHT, RunState.EXECUTING]"
  let ?db2 = "update_runs ?run_guard (\<lambda>r. r\<lparr>rr_state := RunState.EXECUTING\<rparr>) ?db1"
  show ?thesis
  proof (cases "sql_count ?p (c_run_targets db) = Suc 0")
    case True
    obtain t1 where "?p t1" using True sql_count_pos [of ?p "c_run_targets db"] by auto
    then have "run_in db i [RunState.PREFLIGHT, RunState.EXECUTING]" by auto
    then have "sql_count ?run_guard (c_runs db) = Suc 0" by (rule update_runs_hit [OF inv]) simp
    then have r: "db' = ?db2" "x = load_target ?db2 i j"
      using op True return_target_SomeD [of outer db ?db2 i j x db']
      by (simp_all add: db_record_run_target_execution_started_def Let_def)
    have "catalog_inv db'"
      using execution_started_good [OF inv, of outer i j lease_id owner epoch token] op by (simp add: good_def)
    moreover obtain t0 where "?q t0" "load_target db i j = Some (started_target t0)"
        "load_target db' i j = Some (started_target ((?f t0)\<lparr>tr_row_version := tr_row_version t0 + 1\<rparr>))"
      using updated_target [OF inv True, of ?f db'] r(1) by auto
    ultimately show ?thesis using r by (simp add: lease_is_def owner_accepts_iff) (simp add: started_target_def)
  next
    case False
    then show ?thesis
      using op target_miss [OF inv False, of ?f] by (auto simp: db_record_run_target_execution_started_def Let_def give_up_def)
  qed
qed

text \<open>Neither of the two raises: the target they updated can be loaded.\<close>

lemma return_target_raises:
  assumes "catalog_inv db" "sql_count (\<lambda>t. tr_run_id t = i \<and> tr_id t = j \<and> p t) (c_run_targets db) = Suc 0"
    and "\<And>t. tr_id (f t) = tr_id t" "\<And>t. tr_run_id (f t) = tr_run_id t"
    and "c_run_targets db' = c_run_targets (update_targets (\<lambda>t. tr_run_id t = i \<and> tr_id t = j \<and> p t) f db)"
  shows "return_target outer db db' i j \<noteq> (Inl e, db'')"
  using updated_target [OF assms] by (auto simp: return_target_def give_up_def)

lemma db_acquired_returns:
  assumes inv: "catalog_inv db"
  shows "db_record_run_target_lease_acquired outer i j lease_id owner epoch token db \<noteq> (Inl e, db')"
  using return_target_raises [OF inv, of i j "\<lambda>t. tr_state t = RunTargetState.ACQUIRING_LEASE \<and> owner_accepts t owner epoch
      \<and> run_in db (tr_run_id t) [RunState.PREFLIGHT, RunState.EXECUTING]"
      "\<lambda>t. (set_lease lease_id epoch token t)\<lparr>tr_state := RunTargetState.REVALIDATING\<rparr>"]
  by (auto simp: db_record_run_target_lease_acquired_def Let_def give_up_def set_lease_def)

lemma db_started_returns:
  assumes inv: "catalog_inv db"
  shows "db_record_run_target_execution_started outer i j lease_id owner epoch token db \<noteq> (Inl e, db')"
  using return_target_raises [OF inv, of i j "\<lambda>t. tr_state t = RunTargetState.REVALIDATING \<and> lease_is t lease_id epoch token
      \<and> owner_accepts t owner epoch \<and> run_in db (tr_run_id t) [RunState.PREFLIGHT, RunState.EXECUTING]"
      "\<lambda>t. t\<lparr>tr_state := RunTargetState.EXECUTING\<rparr>"]
  by (auto simp: db_record_run_target_execution_started_def Let_def give_up_def)

lemma wait_return:
  assumes "(case return_target outer db db2 i j of
              (Inr (Some target), db3) \<Rightarrow>
                (case act of Inl _ \<Rightarrow> (Inl code, db3, dl) | Inr dl' \<Rightarrow> (Inr (Some target), db3, dl'))
            | (r, db3) \<Rightarrow> (r, db3, dl)) = (Inr x, db', dl')"
  shows "db' = db2 \<and> x = load_target db2 i j \<and> x \<noteq> None \<and> act = Inr dl'"
proof -
  obtain t where "load_target db2 i j = Some t"
    using assms by (cases "load_target db2 i j") (simp_all add: return_target_def give_up_def)
  then show ?thesis using assms by (cases act) (simp_all add: return_target_def, metis option.distinct(1))
qed

text \<open>A wait that is recorded: the event, the deadline and the row of the target.\<close>

definition wait_recorded ::
  "clock_reading \<Rightarrow> string \<Rightarrow> string \<Rightarrow> string \<Rightarrow> catalog \<Rightarrow> deadlines \<Rightarrow> StartedRunTarget \<Rightarrow> catalog \<Rightarrow> deadlines \<Rightarrow> bool" where
  "wait_recorded clock i j reason db dl t db' dl' \<longleftrightarrow>
     (\<exists>timing backoff. endpoint_retry_backoff_ms i j (next_attempt_no db i j) = Inr backoff \<and> retry_plan clock backoff = Inr timing
        \<and> c_wait_events db' = c_wait_events db @ [\<lparr>we_id = c_wait_event_seq db + 1, we_run_id = i, we_run_target_id = j,
             we_attempt_no = next_attempt_no db i j, we_reason_code = strip reason,
             we_observed_utc = ert_observed_utc timing, we_backoff_ms = ert_backoff_ms timing,
             we_retry_not_before_utc = ert_retry_not_before_utc timing\<rparr>]
        \<and> retry_activate (c_wait_event_seq db + 1) timing dl = Inr dl'
        \<and> load_target db' i j = Some t \<and> rt_state t = RunTargetState.WAITING_FOR_ENDPOINT \<and> rt_last_lease_id t = None)"

lemma waiting_shape:
  assumes inv: "catalog_inv db"
    and op: "db_record_run_target_waiting_for_endpoint outer clock i j st reason (db, dl) = (Inr x, db', dl')"
  shows "case x of None \<Rightarrow> db' = db \<and> dl' = dl | Some t \<Rightarrow> wait_recorded clock i j reason db dl t db' dl'"
proof (cases "st \<notin> set [RunTargetState.ACQUIRING_LEASE, RunTargetState.REVALIDATING, RunTargetState.EXECUTING] \<or> strip reason = []")
  case True
  then show ?thesis using op by (auto simp: db_record_run_target_waiting_for_endpoint_def Let_def)
next
  case False
  let ?n = "next_attempt_no db i j"
  obtain timing where tm: "and_then (endpoint_retry_backoff_ms i j ?n) (retry_plan clock) = Inr timing"
  proof (cases "and_then (endpoint_retry_backoff_ms i j ?n) (retry_plan clock)")
    case (Inl e)
    have "db_record_run_target_waiting_for_endpoint outer clock i j st reason (db, dl) =
        (Inl ''RUN_TARGET_ENDPOINT_WAIT_RECORD_FAILED'', db, dl)"
      unfolding db_record_run_target_waiting_for_endpoint_def Let_def prod.case Inl sum.case using False by (simp only: if_False)
    then show ?thesis using op by simp
  qed
  let ?q = "\<lambda>t. tr_state t = st \<and> run_in db (tr_run_id t) [RunState.PREFLIGHT, RunState.EXECUTING]"
  let ?p = "\<lambda>t. tr_run_id t = i \<and> tr_id t = j \<and> ?q t"
  let ?f = "\<lambda>t. (clear_lease t)\<lparr>tr_state := RunTargetState.WAITING_FOR_ENDPOINT,
                          tr_result_json := Some (wait_result_json timing ?n (strip reason))\<rparr>"
  let ?db1 = "update_targets ?p ?f db"
  show ?thesis
  proof (cases "sql_count ?p (c_run_targets db) = Suc 0")
    case True
    let ?id = "c_wait_event_seq ?db1 + 1"
    let ?event = "\<lparr>we_id = ?id, we_run_id = i, we_run_target_id = j,
                         we_attempt_no = ?n, we_reason_code = strip reason,
                         we_observed_utc = ert_observed_utc timing, we_backoff_ms = ert_backoff_ms timing,
                         we_retry_not_before_utc = ert_retry_not_before_utc timing\<rparr>"
    let ?db2 = "?db1\<lparr>c_wait_events := c_wait_events ?db1 @ [?event], c_wait_event_seq := ?id\<rparr>"
    have "(case return_target outer db ?db2 i j of
                    (Inr (Some target), db3) \<Rightarrow>
                      (case retry_activate ?id timing dl of
                         Inl _ \<Rightarrow> (Inl ''RUN_TARGET_ENDPOINT_WAIT_RECORD_FAILED'', db3, dl)
                       | Inr dl' \<Rightarrow> (Inr (Some target), db3, dl'))
                  | (r, db3) \<Rightarrow> (r, db3, dl)) = (Inr x, db', dl')"
      using op unfolding db_record_run_target_waiting_for_endpoint_def Let_def prod.case tm sum.case if_not_P [OF False]
      by (simp add: True split: if_splits)
    note w = wait_return [OF this]
    have seq: "c_wait_event_seq ?db1 = c_wait_event_seq db" "c_wait_events ?db1 = c_wait_events db"
      by (simp_all add: update_targets_def)
    have rows: "c_run_targets db' = c_run_targets ?db1" "c_wait_events db' = c_wait_events db @ [?event]"
      using w by (simp_all add: update_targets_def)
    obtain t0 where t0: "load_target db' i j = Some (started_target ((?f t0)\<lparr>tr_row_version := tr_row_version t0 + 1\<rparr>))"
      using updated_target [OF inv True, of ?f db'] rows(1) by (auto simp: clear_lease_def)
    obtain backoff where b: "endpoint_retry_backoff_ms i j ?n = Inr backoff" "retry_plan clock backoff = Inr timing"
      using tm by auto
    obtain t where t: "x = Some t" "load_target db' i j = Some t" using w by auto
    have "rt_state t = RunTargetState.WAITING_FOR_ENDPOINT" "rt_last_lease_id t = None"
      using t0 t(2) by (auto simp: clear_lease_def)
    then show ?thesis
      using b rows(2) w t unfolding t(1) option.case wait_recorded_def seq by blast
  next
    case miss: False
    then show ?thesis
      using op target_miss [OF inv miss, of ?f]
      unfolding db_record_run_target_waiting_for_endpoint_def Let_def prod.case tm sum.case if_not_P [OF False]
      by (auto simp: miss)
  qed
qed

lemma db_waiting_laws:
  assumes inv: "catalog_inv db"
    and op: "db_record_run_target_waiting_for_endpoint outer clock i j st reason (db, dl) = (Inr x, db', dl')"
  shows "case x of None \<Rightarrow> db' = db \<and> dl' = dl
     | Some t \<Rightarrow> catalog_inv db' \<and> load_target db' i j = Some t \<and> rt_state t = RunTargetState.WAITING_FOR_ENDPOINT
          \<and> rt_last_lease_id t = None"
proof -
  have "catalog_inv db'"
    using waiting_good [OF inv, of outer clock i j st reason dl] op by (simp add: good_def)
  then show ?thesis using waiting_shape [OF inv op] by (auto simp: wait_recorded_def split: option.splits)
qed

text \<open>The store of a target is the catalog and the monotonic deadlines of the retry scheduler.\<close>

interpretation sqlite_target: run_target_store "\<lambda>i s. db_load_started_run i (fst s)" "\<lambda>i j s. load_target (fst s) i j"
  "\<lambda>s. catalog_inv (fst s)" "db_record_run_target_waiting_for_endpoint outer clock"
  "\<lambda>i j lease_id owner epoch token s. map_prod id (\<lambda>db. (db, snd s))
     (db_record_run_target_lease_acquired outer i j lease_id owner epoch token (fst s))"
  "\<lambda>i j lease_id owner epoch token s. map_prod id (\<lambda>db. (db, snd s))
     (db_record_run_target_execution_started outer i j lease_id owner epoch token (fst s))"
  for outer clock
proof (unfold_locales, goal_cases)
  case (1 s i run j t)
  then show ?case using loaded_target by blast
next
  case (2 s i j st reason t s')
  then show ?case using db_waiting_laws [of "fst s" outer clock i j st reason "snd s" "Some t" "fst s'" "snd s'"] by simp
next
  case (3 s i j st reason s')
  then show ?case using db_waiting_laws [of "fst s" outer clock i j st reason "snd s" None "fst s'" "snd s'"]
    by (simp add: prod_eq_iff)
next
  case (4 s i j lease_id owner epoch token e s')
  then show ?case using db_acquired_returns by (auto simp: map_prod_def split: prod.splits)
next
  case (5 s i j lease_id owner epoch token t s')
  then obtain db' where "db_record_run_target_lease_acquired outer i j lease_id owner epoch token (fst s) = (Inr (Some t), db')"
    "s' = (db', snd s)" by (auto simp: map_prod_def split: prod.splits)
  then show ?case using db_acquired_laws [OF 5(1)] by fastforce
next
  case (6 s i j lease_id owner epoch token s')
  then obtain db' where "db_record_run_target_lease_acquired outer i j lease_id owner epoch token (fst s) = (Inr None, db')"
    "s' = (db', snd s)" by (auto simp: map_prod_def split: prod.splits)
  then show ?case using db_acquired_laws [OF 6(1)] by fastforce
next
  case (7 s i j lease_id owner epoch token e s')
  then show ?case using db_started_returns by (auto simp: map_prod_def split: prod.splits)
next
  case (8 s i j lease_id owner epoch token t s')
  then obtain db' where "db_record_run_target_execution_started outer i j lease_id owner epoch token (fst s) = (Inr (Some t), db')"
    "s' = (db', snd s)" by (auto simp: map_prod_def split: prod.splits)
  then show ?case using db_started_laws [OF 8(1)] by fastforce
next
  case (9 s i j lease_id owner epoch token s')
  then obtain db' where "db_record_run_target_execution_started outer i j lease_id owner epoch token (fst s) = (Inr None, db')"
    "s' = (db', snd s)" by (auto simp: map_prod_def split: prod.splits)
  then show ?case using db_started_laws [OF 9(1)] by fastforce
qed

end
