(* ===== verification/Run_Examples.thy ===== *)
theory Run_Examples
  imports Run_Execution_Laws
begin

text \<open>
  Concrete runs of the store: one run with two targets, driven through the operations.  The
  theories with the properties evaluate them to show that the hypotheses of a property can hold.
\<close>

definition demo_target :: "string \<Rightarrow> string \<Rightarrow> StartedRunTarget" where
  "demo_target i e =
     \<lparr>rt_run_target_id = i, rt_endpoint_id = e, rt_endpoint_revision_id = ''rev'', rt_state = RunTargetState.PENDING,
      rt_required_owner_installation_id = Some ''home'', rt_required_ownership_epoch = Some 3,
      rt_lease_resource_key = Some ''disk'', rt_last_lease_id = None, rt_last_ownership_epoch = None,
      rt_last_fencing_token = None, rt_planned_operations = 2, rt_planned_bytes = 10,
      rt_completed_operations = 0, rt_completed_bytes = 0\<rparr>"

definition demo_started_run :: "(string \<times> json) list \<Rightarrow> StartedRun" where
  "demo_started_run summary =
     \<lparr>sr_run_id = ''run'', sr_job_id = ''job'', sr_job_revision_id = ''job-1'', sr_plan_id = ''plan'',
      sr_command_request_id = ''req'', sr_idempotency_key = ''key'', sr_command_receipt_id = ''receipt'',
      sr_logical_run_group_id = ''run'', sr_trigger_type = MANUAL_LOCAL_PREVIEW, sr_state = RunState.QUEUED,
      sr_app_version = ''1'', sr_plan_checksum = replicate 64 CHR ''a'', sr_planned_operations = 4,
      sr_planned_bytes = 20, sr_targets = [demo_target ''t1'' ''e1'', demo_target ''t2'' ''e2''],
      sr_summary = summary, sr_warning_count = 0, sr_error_count = 0, sr_trigger_occurrence_id = None,
      sr_resumed_from_run_id = None\<rparr>"

definition demo_empty :: catalog where
  "demo_empty = \<lparr>c_runs = [], c_run_targets = [], c_run_stop_requests = [], c_wait_events = [], c_wait_event_seq = 0,
     c_job_revisions = [(''job'', ''job-1'')], c_plan_seal_details = [(''plan'', ''job'', ''job-1'')],
     c_command_receipts = [''receipt''], c_endpoint_revisions = [(''e1'', ''rev''), (''e2'', ''rev'')]\<rparr>"

definition demo_queued :: catalog where
  "demo_queued = snd (db_save_started_run False ''0'' (demo_started_run []) demo_empty)"

text \<open>Target \<open>j\<close> claimed, leased and executing.\<close>

definition demo_claim :: "string \<Rightarrow> catalog \<Rightarrow> catalog" where
  "demo_claim j db = snd (db_begin_run_target_preflight False ''1'' ''run'' j db)"

definition demo_lease :: "string \<Rightarrow> catalog \<Rightarrow> catalog" where
  "demo_lease j db = snd (db_record_run_target_lease_acquired False ''run'' j ''lease'' ''home'' 3 7 db)"

definition demo_execute :: "string \<Rightarrow> catalog \<Rightarrow> catalog" where
  "demo_execute j db = snd (db_record_run_target_execution_started False ''run'' j ''lease'' ''home'' 3 7
     (demo_lease j (demo_claim j db)))"

definition demo_executing :: catalog where
  "demo_executing = demo_execute ''t1'' demo_queued"

definition demo_completed :: catalog where
  "demo_completed = snd (db_record_run_target_succeeded False ''3'' ''run'' ''t2'' 2 10
     (demo_execute ''t2'' (snd (db_record_run_target_succeeded False ''2'' ''run'' ''t1'' 2 10 demo_executing))))"

definition demo_paused :: catalog where
  "demo_paused = snd (db_request_run_stop_after_active_file False ''4'' ''run''
     (snd (db_finalize_requested_run_pause False ''run'' (snd (db_request_run_pause False ''run'' demo_executing)))))"

definition demo_command :: RunControlCommand where
  "demo_command = \<lparr>rcc_request_id = ''req'', rcc_idempotency_key = ''k'', rcc_run_id = ''run''\<rparr>"

lemmas demo_defs = demo_queued_def demo_claim_def demo_lease_def demo_execute_def demo_executing_def
  demo_completed_def demo_paused_def

lemma demo_fresh: "wf_json (JObj summary) \<Longrightarrow> fresh_run (demo_started_run summary)"
  by (simp add: fresh_run_def demo_started_run_def demo_target_def)

lemma demo_queued_reachable: "reachable (demo_queued, Map.empty)"
proof -
  have "reachable (demo_empty, Map.empty)" by (rule reachable_init) (simp_all add: demo_empty_def)
  then show ?thesis
    unfolding demo_queued_def by (rule reachable_step) (rule store_step.save_started_run, simp add: demo_fresh)
qed

lemma demo_execute_reachable:
  assumes "reachable (db, dl)"
  shows "reachable (demo_execute j db, dl)"
proof -
  have "reachable (demo_claim j db, dl)"
    unfolding demo_claim_def by (rule reachable_step [OF assms store_step.begin_run_target_preflight])
  then have "reachable (demo_lease j (demo_claim j db), dl)"
    unfolding demo_lease_def by (rule reachable_step [OF _ store_step.record_run_target_lease_acquired])
  then show ?thesis
    unfolding demo_execute_def by (rule reachable_step [OF _ store_step.record_run_target_execution_started])
qed

lemma demo_executing_reachable: "reachable (demo_executing, Map.empty)"
  unfolding demo_executing_def by (rule demo_execute_reachable [OF demo_queued_reachable])

lemma demo_completed_reachable: "reachable (demo_completed, Map.empty)"
  unfolding demo_completed_def
  by (rule reachable_step [OF demo_execute_reachable
        [OF reachable_step [OF demo_executing_reachable store_step.record_run_target_succeeded]]
        store_step.record_run_target_succeeded])

lemma demo_paused_reachable: "reachable (demo_paused, Map.empty)"
  unfolding demo_paused_def
  by (rule reachable_step [OF reachable_step [OF reachable_step [OF demo_executing_reachable
        store_step.request_run_pause] store_step.finalize_requested_run_pause] store_step.request_run_stop])

text \<open>What the rows of the examples hold.\<close>

lemma demo_queued_rows:
  "map rr_state (c_runs demo_queued) = [RunState.QUEUED]"
  "map tr_state (c_run_targets demo_queued) = [RunTargetState.PENDING, RunTargetState.PENDING]"
  by code_simp+

lemma demo_executing_rows:
  "map (\<lambda>r. (rr_id r, rr_state r)) (c_runs demo_executing) = [(''run'', RunState.EXECUTING)]"
  "map (\<lambda>t. (tr_run_id t, tr_id t, tr_state t)) (c_run_targets demo_executing) =
     [(''run'', ''t1'', RunTargetState.EXECUTING), (''run'', ''t2'', RunTargetState.PENDING)]"
  by code_simp+

lemma demo_completed_rows:
  "map (\<lambda>r. (rr_id r, rr_state r)) (c_runs demo_completed) = [(''run'', RunState.COMPLETED)]"
  "map (\<lambda>t. (tr_run_id t, tr_state t)) (c_run_targets demo_completed) =
     [(''run'', RunTargetState.SUCCEEDED), (''run'', RunTargetState.SUCCEEDED)]"
  by code_simp+

lemma demo_paused_rows:
  "map rr_state (c_runs demo_paused) = [RunState.PAUSED]" "run_in demo_paused ''run'' [RunState.PAUSED]"
  "stop_pending demo_paused ''run''"
  "map tr_state (c_run_targets demo_paused) = [RunTargetState.PAUSED, RunTargetState.PENDING]"
  by code_simp+

lemmas demo_inv = demo_queued_reachable [THEN reachable_catalog_inv, simplified]
  demo_executing_reachable [THEN reachable_catalog_inv, simplified]
  demo_completed_reachable [THEN reachable_catalog_inv, simplified]
  demo_paused_reachable [THEN reachable_catalog_inv, simplified]

end
