(* ===== verification/Handoff_Properties.thy ===== *)
theory Handoff_Properties
  imports Start_Handoff_Steps Run_Examples
begin

text \<open>
  Properties of the start of runs across the two databases, with a run at which they are applied.
\<close>

section \<open>Helpers\<close>

lemma steps_reachable: "handoff_step\<^sup>*\<^sup>* s s' \<Longrightarrow> handoff_reachable s \<Longrightarrow> handoff_reachable s'"
  by (induction rule: rtranclp_induct) (auto intro: handoff_next)

lemma updated_receipt_loads:
  assumes "update_command_receipt outer now r t = (Inr (), t')"
  shows "load_command_receipt (cr_idempotency_key r) t' = Some r"
proof -
  let ?same = "\<lambda>x. receipt_key x = cr_idempotency_key r"
  have t': "t' = t\<lparr>rcs_receipts := sql_update ?same (\<lambda>x. x\<lparr>rcr_receipt := r, rcr_updated_utc := now\<rparr>) (rcs_receipts t)\<rparr>"
    "sql_count ?same (rcs_receipts t) = 1"
    using assms by (auto simp: update_command_receipt_def Let_def split: if_splits)
  have "\<exists>x. List.find ?same (sql_update ?same (\<lambda>x. x\<lparr>rcr_receipt := r, rcr_updated_utc := now\<rparr>) rows) = Some x
      \<and> rcr_receipt x = r" if "\<exists>x \<in> set rows. ?same x" for rows
    using that by (induction rows) (auto simp: sql_update_def receipt_key_def)
  then have "\<exists>x. List.find ?same (rcs_receipts t') = Some x \<and> rcr_receipt x = r" if "\<exists>x \<in> set (rcs_receipts t). ?same x"
    using that t'(1) by simp
  moreover have "\<exists>x \<in> set (rcs_receipts t). ?same x" using t'(2) sql_count_pos [of ?same "rcs_receipts t"] by simp
  ultimately show ?thesis by (auto simp: load_command_receipt_def load_active_command_receipt_def)
qed

definition effect_announced :: "string \<Rightarrow> outbox_tables \<Rightarrow> bool" where
  "effect_announced key t \<longleftrightarrow> load_by_idempotency_key key t \<noteq> None
     \<or> (\<exists>tombstone. load_delivered_outbox_tombstone key t = Inr (Some tombstone))"

lemma enqueued_is_announced:
  assumes "enqueue_outbox_message outer now m t = (Inr m', t')"
  shows "effect_announced (om_idempotency_key m) t'"
  using assms
  by (auto simp: enqueue_outbox_message_def enqueue_work_def effect_announced_def load_by_idempotency_key_def
      find_append outbox_row_of_def message_key_def split: sum.splits option.splits if_splits)

lemma on_receipt_state_returns:
  assumes "on_receipt_state now a b receipt c = (Inr r, c')" "load_command_receipt k (hc_receipts c) = Some receipt"
  shows "load_command_receipt k (hc_receipts c') = Some r"
proof (cases "cr_state receipt = a")
  case True
  then obtain t where "transition_command_receipt receipt b None None None = Inr r"
    "update_command_receipt True now r (hc_receipts c) = (Inr (), t)" "c' = c\<lparr>hc_receipts := t\<rparr>"
    using assms(1) by (auto simp: on_receipt_state_def split: sum.splits)
  moreover have "cr_idempotency_key r = cr_idempotency_key receipt"
    using calculation(1) by (auto simp: transition_command_receipt_def split: if_splits)
  ultimately show ?thesis using updated_receipt_loads loaded_key [OF assms(2)] by fastforce
next
  case False
  then show ?thesis using assms by (simp add: on_receipt_state_def)
qed

lemma finish_receipt_returns:
  assumes "finish_receipt now i receipt c = (Inr u, c')"
  shows "cr_state receipt = RECEIPT_SUCCEEDED" "cr_result_entity_id receipt = Some i" "hc_receipts c' = hc_receipts c"
    "effect_announced (''command-effect:'' @ cr_idempotency_key receipt) (hc_outbox c')"
proof -
  show state: "cr_state receipt = RECEIPT_SUCCEEDED" "cr_result_entity_id receipt = Some i"
    using assms by (auto simp: finish_receipt_def split: if_splits)
  obtain m m' t where m: "command_effect_outbox_message receipt = Inr m"
    "enqueue_outbox_message True now m (hc_outbox c) = (Inr m', t)" "c' = c\<lparr>hc_outbox := t\<rparr>"
    using assms state by (auto simp: finish_receipt_def split: sum.splits)
  then show "hc_receipts c' = hc_receipts c" by simp
  have "om_idempotency_key m = ''command-effect:'' @ cr_idempotency_key receipt"
    using m(1) by (auto simp: command_effect_outbox_message_def Let_def split: if_splits option.splits)
  then show "effect_announced (''command-effect:'' @ cr_idempotency_key receipt) (hc_outbox c')"
    using enqueued_is_announced [OF m(2)] m(3) by simp
qed

lemma accept_returns:
  assumes accept: "accept_run_start_receipt now h c = (Inr u, c')" and "evidence h = run_start_source_handoff run True"
  shows "\<exists>receipt. load_command_receipt (sr_command_receipt_id run) (hc_receipts c') = Some receipt
    \<and> cr_state receipt = RECEIPT_SUCCEEDED \<and> cr_result_entity_id receipt = Some (ho_entity_id h)
    \<and> effect_announced (''command-effect:'' @ sr_command_receipt_id run) (hc_outbox c')"
proof -
  let ?k = "sr_command_receipt_id run"
  have same: "decode_handoff_payload h = decode_handoff_payload (run_start_source_handoff run True)"
    by (rule decode_evidence) (simp add: assms(2))
  obtain payload where payload: "decode_handoff_payload h = Inr payload"
    "map_of payload ''command_receipt_id'' = Some (JStr ?k)"
    "map_of payload ''transition_command_receipt'' = Some (JBool True)"
  proof -
    show thesis
      by (rule run_start_payload_decodes [of run True]) (rule that; simp add: same)
  qed
  have "required_payload_string payload ''command_receipt_id'' = Inr ?k"
  proof (cases "blank ?k")
    case True
    then show ?thesis using accept payload by (simp add: accept_run_start_receipt_def required_payload_string_def)
  next
    case False
    then show ?thesis using payload(2) by (simp add: required_payload_string_def)
  qed
  then obtain r0 r1 c1 r2 c2 where steps: "load_command_receipt ?k (hc_receipts c) = Some r0"
    "on_receipt_state now RECEIPT_EFFECT_PREPARED RECEIPT_ACCEPTED r0 c = (Inr r1, c1)"
    "on_receipt_state now RECEIPT_ACCEPTED RECEIPT_SUCCEEDED r1 c1 = (Inr r2, c2)"
    "finish_receipt now (ho_entity_id h) r2 c2 = (Inr u, c')"
    using accept payload by (auto simp: accept_run_start_receipt_def split: option.splits)
  have loaded: "load_command_receipt ?k (hc_receipts c2) = Some r2"
    by (rule on_receipt_state_returns [OF steps(3) on_receipt_state_returns [OF steps(2,1)]])
  have key: "cr_idempotency_key r2 = ?k" by (rule loaded_key [OF loaded])
  show ?thesis using finish_receipt_returns [OF steps(4)] loaded unfolding key by auto
qed

section \<open>A run that is being started\<close>

definition ex_run :: StartedRun where
  "ex_run = (demo_started_run [])\<lparr>sr_state := RunState.CREATED\<rparr>"

definition ex_catalog :: "catalog \<Rightarrow> handoffs \<Rightarrow> handoff_catalog" where
  "ex_catalog db t = \<lparr>hc_runs = db, hc_receipts = \<lparr>rcs_receipts = [], rcs_tombstones = []\<rparr>,
     hc_outbox = \<lparr>obx_messages = [], obx_tombstones = []\<rparr>, hc_handoffs = t\<rparr>"

definition ex_created :: catalog where
  "ex_created = snd (db_save_started_run True ''0'' ex_run demo_empty)"

definition ex_source :: CrossStoreHandoff where
  "ex_source = run_start_source_handoff ex_run False"

text \<open>After the transaction that saved the run, and after the recovery database has bound it.\<close>

definition ex_prepared :: handoff_stores where
  "ex_prepared = \<lparr>hs_catalog = ex_catalog ex_created [fresh_row ''0'' ex_source], hs_recovery = \<lparr>hv_runs = [], hv_handoffs = []\<rparr>\<rparr>"

definition ex_bound :: handoff_stores where
  "ex_bound = snd (commit_recovery_peer ''1'' ''run'' ex_prepared)"

lemma ex_created_rows: "map (\<lambda>r. (rr_id r, rr_state r)) (c_runs ex_created) = [(''run'', RunState.CREATED)]"
  by code_simp

lemma ex_created_run_id: "''run'' \<in> rr_id ` set (c_runs ex_created)"
proof -
  have "''run'' \<in> set (map rr_id (c_runs ex_created))" by code_simp
  then show ?thesis by simp
qed

lemma ex_run_facts: "bindable ex_run" "sr_run_id ex_run = ''run''" "sr_state ex_run = RunState.CREATED" "fresh_run ex_run"
  by code_simp+

lemma ex_source_facts [simp]:
  "evidence ex_source = run_start_source_handoff ex_run False" "ho_state ex_source = HANDOFF_PREPARED"
  "ho_handoff_id ex_source = run_start_handoff_id ''run''"
  by (simp_all add: ex_source_def) (simp_all add: run_start_source_handoff_def Let_def ex_run_facts)

lemma ex_source_recordable: "handoff_check (fresh_row ''0'' ex_source)" "decodes ex_source"
proof -
  have "sql_trim ''RUN'' \<noteq> []" "sql_trim ''RUN_START'' \<noteq> []" "sql_trim ''run'' \<noteq> []" by code_simp+
  then show "handoff_check (fresh_row ''0'' ex_source)"
    using sha256_hexdigest_is_hex64
    by (simp add: handoff_check_def Let_def fresh_row_def ex_source_def run_start_source_handoff_def handoff_pairing_def
        RUN_START_HANDOFF_TYPE_def CATALOG_TO_RECOVERY_def HANDOFF_PAYLOAD_SCHEMA_VERSION_def ex_run_facts
        hash_handoff_payload_def)
  show "decodes ex_source"
    unfolding decodes_def ex_source_def by (rule run_start_payload_decodes [of ex_run False]) blast
qed

lemma ex_prepared_reachable: "handoff_reachable ex_prepared"
proof -
  let ?start = "\<lparr>hs_catalog = ex_catalog demo_empty [], hs_recovery = \<lparr>hv_runs = [], hv_handoffs = []\<rparr>\<rparr>"
  let ?saved = "\<lparr>hs_catalog = ex_catalog ex_created [], hs_recovery = \<lparr>hv_runs = [], hv_handoffs = []\<rparr>\<rparr>"
  have "reachable (demo_empty, Map.empty)" by (rule reachable_init) (simp_all add: demo_empty_def)
  then have "handoff_reachable ?start" by (rule_tac handoff_init) (simp_all add: ex_catalog_def)
  moreover have "store_step (demo_empty, Map.empty) (ex_created, Map.empty)"
    unfolding ex_created_def by (rule store_step.save_started_run) (rule ex_run_facts)
  then have "handoff_step ?start ?saved"
    using of_runs [of ?start Map.empty ex_created Map.empty] by (simp add: ex_catalog_def)
  ultimately have saved: "handoff_reachable ?saved" by (rule handoff_next)
  have "record_handoff True ''0'' ex_source [] = (Inr ex_source, [fresh_row ''0'' ex_source])"
    using record_handoff_new [of ex_source "[]" "''0''" True] ex_source_recordable by (simp add: load_handoff_def)
  then have "snd (prepare_run_start True ''0'' ex_run False (hs_catalog ?saved)) = ex_catalog ex_created [fresh_row ''0'' ex_source]"
    by (simp add: prepare_run_start_def ex_run_facts on_catalog_handoffs_def ex_catalog_def flip: ex_source_def)
  moreover have "''run'' \<in> rr_id ` set (c_runs ex_created)"
    using ex_created_run_id by simp
  ultimately have "handoff_step ?saved ex_prepared"
    using prepare [of ex_run ?saved True "''0''" False] by (simp add: ex_run_facts ex_prepared_def ex_catalog_def)
  then show ?thesis by (rule handoff_next [OF saved])
qed

lemma ex_prepared_source:
  "load_handoff (run_start_handoff_id ''run'') (hc_handoffs (hs_catalog ex_prepared)) = Some ex_source"
  "load_handoff (run_start_handoff_id ''run'') (hv_handoffs (hs_recovery ex_prepared)) = None"
  by (simp_all add: ex_prepared_def ex_catalog_def load_handoff_def)

lemma ex_accept: "accept_run_start_receipt now ex_source c = (Inr (), c)"
  by (rule run_start_payload_decodes [of ex_run False]) (simp add: accept_run_start_receipt_def ex_source_def)

lemma ex_bound_facts:
  obtains p where "handoff_reachable ex_bound" "hs_catalog ex_bound = hs_catalog ex_prepared"
    "load_handoff (run_start_handoff_id ''run'') (hv_handoffs (hs_recovery ex_bound)) = Some p"
proof -
  have "handoff_inv ex_prepared" by (rule handoff_reachable_inv [OF ex_prepared_reachable])
  then obtain p s' where "commit_recovery_peer ''1'' ''run'' ex_prepared = (Inr p, s')" "hs_catalog s' = hs_catalog ex_prepared"
    "load_handoff (run_start_handoff_id ''run'') (hv_handoffs (hs_recovery s')) = Some p"
    using commit_succeeds [of ex_prepared ex_run ex_source False "''1''"] ex_prepared_source ex_run_facts by auto
  moreover have "handoff_reachable ex_bound" unfolding ex_bound_def by (rule handoff_next [OF ex_prepared_reachable commit])
  ultimately show ?thesis using that by (simp add: ex_bound_def)
qed

section \<open>Properties\<close>

text \<open>C5: A run that was started is bound before it is released.  In every reachable state of the two databases, after
  any crash between their transactions, the handoff of a run stands in one of the admitted pairs of states: nothing in
  the recovery database while the source is prepared, otherwise a peer with exactly the same evidence that is ahead of
  the source by one state at most, never ambiguous or aborted; then the recovery database holds the binding that the
  payload of the handoff determines.  Once the source has left PREPARED the run has left CREATED.  And no peer and no
  binding is without its source.\<close>

theorem started_runs_are_bound:
  assumes "handoff_reachable s" "load_handoff (run_start_handoff_id run_id) (hc_handoffs (hs_catalog s)) = Some h"
  shows "(case load_handoff (run_start_handoff_id run_id) (hv_handoffs (hs_recovery s)) of
       None \<Rightarrow> ho_state h = HANDOFF_PREPARED
     | Some p \<Rightarrow>
         handoff_evidence_mismatch h p = None
         \<and> (ho_state h, ho_state p) \<in> {(HANDOFF_PREPARED, HANDOFF_PEER_COMMITTED),
             (HANDOFF_SOURCE_CONFIRMED, HANDOFF_PEER_COMMITTED), (HANDOFF_SOURCE_CONFIRMED, HANDOFF_COMPLETED),
             (HANDOFF_COMPLETED, HANDOFF_COMPLETED)}
         \<and> (\<exists>b. recovery_run_binding_from_handoff h = Inr b \<and> load_run_binding run_id (hs_recovery s) = Some b))
    \<and> (ho_state h \<noteq> HANDOFF_PREPARED \<longrightarrow>
         (\<exists>r \<in> set (c_runs (hc_runs (hs_catalog s))). rr_id r = run_id \<and> rr_state r \<noteq> RunState.CREATED))
    \<and> (\<forall>i p. load_handoff i (hv_handoffs (hs_recovery s)) = Some p \<longrightarrow> load_handoff i (hc_handoffs (hs_catalog s)) \<noteq> None)
    \<and> (\<forall>b \<in> set (hv_runs (hs_recovery s)). load_handoff (rb_start_handoff_id b) (hv_handoffs (hs_recovery s)) \<noteq> None)"
proof -
  note D = handoff_invD [OF handoff_reachable_inv [OF assms(1)]]
  let ?i = "run_start_handoff_id run_id"
  have ok: "source_ok (hc_runs (hs_catalog s)) (load_handoff ?i (hv_handoffs (hs_recovery s))) h" by (rule D(4) [OF assms(2)])
  have id: "ho_entity_id h = run_id"
    using load_handoffD(1) [OF assms(2) D(2)] ok run_start_handoffD(1) [of h] by (simp add: source_ok_def)
  have "case load_handoff ?i (hv_handoffs (hs_recovery s)) of
       None \<Rightarrow> ho_state h = HANDOFF_PREPARED
     | Some p \<Rightarrow> handoff_evidence_mismatch h p = None
         \<and> (ho_state h, ho_state p) \<in> {(HANDOFF_PREPARED, HANDOFF_PEER_COMMITTED),
             (HANDOFF_SOURCE_CONFIRMED, HANDOFF_PEER_COMMITTED), (HANDOFF_SOURCE_CONFIRMED, HANDOFF_COMPLETED),
             (HANDOFF_COMPLETED, HANDOFF_COMPLETED)}
         \<and> (\<exists>b. recovery_run_binding_from_handoff h = Inr b \<and> load_run_binding run_id (hs_recovery s) = Some b)"
  proof (cases "load_handoff ?i (hv_handoffs (hs_recovery s))")
    case None
    then show ?thesis using ok by (cases "ho_state h") (simp_all add: source_ok_def)
  next
    case (Some p)
    have "peer_ok (hs_recovery s) (Some h) p" using D(5) [OF Some] assms(2) by simp
    then obtain b where b: "evidence p = evidence h" "recovery_run_binding_from_handoff h = Inr b"
      "load_run_binding (rb_run_id b) (hs_recovery s) = Some b"
      by (auto simp: peer_ok_def)
    have "handoff_evidence_mismatch h p = None"
      using b(1) load_handoffD(2) [OF assms(2) D(2)] by (simp add: mismatch_None_iff)
    moreover have "rb_run_id b = run_id" using binding_keys [OF b(2)] id by simp
    ultimately show ?thesis using Some ok b by (cases "ho_state h") (auto simp: source_ok_def)
  qed
  moreover have "load_handoff i (hc_handoffs (hs_catalog s)) \<noteq> None"
    if "load_handoff i (hv_handoffs (hs_recovery s)) = Some p" for i p
    using D(5) [OF that] by (auto simp: peer_ok_def)
  moreover have "load_handoff (rb_start_handoff_id b) (hv_handoffs (hs_recovery s)) \<noteq> None" if "b \<in> set (hv_runs (hs_recovery s))" for b
    using D(6) [OF that] by (auto simp: binding_ok_def)
  ultimately show ?thesis using ok id by (simp add: source_ok_def run_released_def)
qed

theorem started_runs_are_bound_witness:
  "\<exists>b. load_run_binding ''run'' (hs_recovery ex_bound) = Some b"
proof -
  obtain p where bound: "handoff_reachable ex_bound" "hs_catalog ex_bound = hs_catalog ex_prepared"
    "load_handoff (run_start_handoff_id ''run'') (hv_handoffs (hs_recovery ex_bound)) = Some p"
    by (rule ex_bound_facts)
  then show ?thesis using started_runs_are_bound [OF bound(1), of "''run''" ex_source] ex_prepared_source(1) by auto
qed

text \<open>C7: The confirmation of a start is all or nothing.  When \<open>confirm_catalog_source\<close> raises, neither database has
  changed.  When it returns, the recovery database has not changed, the run has been released from CREATED, the source
  is confirmed or completed, and when the handoff owns the command receipt, the receipt has succeeded with this run as
  its result and the effect of the command is in the outbox or was delivered: no client is told of a run that is not
  released, and none is released without being told.\<close>

theorem confirmation_is_all_or_nothing:
  assumes "handoff_reachable s" "confirm_catalog_source now (sr_run_id run) s = (r, s')"
  shows "case r of
      Inl e \<Rightarrow> s' = s
    | Inr h \<Rightarrow>
        hs_recovery s' = hs_recovery s
        \<and> load_handoff (run_start_handoff_id (sr_run_id run)) (hc_handoffs (hs_catalog s')) = Some h
        \<and> ho_state h \<in> {HANDOFF_SOURCE_CONFIRMED, HANDOFF_COMPLETED}
        \<and> (\<exists>row \<in> set (c_runs (hc_runs (hs_catalog s'))). rr_id row = sr_run_id run \<and> rr_state row \<noteq> RunState.CREATED)
        \<and> (evidence h = run_start_source_handoff run True \<longrightarrow>
             (\<exists>receipt. load_command_receipt (sr_command_receipt_id run) (hc_receipts (hs_catalog s')) = Some receipt
               \<and> cr_state receipt = RECEIPT_SUCCEEDED \<and> cr_result_entity_id receipt = Some (sr_run_id run))
             \<and> effect_announced (''command-effect:'' @ sr_command_receipt_id run) (hc_outbox (hs_catalog s')))"
proof (cases r)
  case (Inl e)
  then show ?thesis using confirm_raises [OF handoff_reachable_inv [OF assms(1)]] assms(2) by simp
next
  case (Inr h)
  note inv = handoff_reachable_inv [OF assms(1)]
  from confirm_returns [OF inv assms(2) [unfolded Inr]] obtain c where c: "confirm_work now (sr_run_id run) (hs_catalog s) = (Inr h, c)"
    "s' = s\<lparr>hs_catalog := c\<rparr>" "load_handoff (run_start_handoff_id (sr_run_id run)) (hc_handoffs c) = Some h"
    "ho_state h \<in> {HANDOFF_SOURCE_CONFIRMED, HANDOFF_COMPLETED}" "run_released (sr_run_id run) (hc_runs c)"
    by blast
  obtain c1 where accept: "accept_run_start_receipt now h c1 = (Inr (), c)" using c(1) by (auto simp: confirm_work_def)
  have "ho_entity_id h = sr_run_id run" if "evidence h = run_start_source_handoff run True"
  proof -
    have "evidence h = evidence (run_start_source_handoff run True)" using that by simp
    from evidence_same(6) [OF this] show ?thesis by (simp add: run_start_source_handoff_def Let_def)
  qed
  then show ?thesis using Inr c accept_returns [OF accept, of run] by (auto simp: run_released_def)
qed

theorem confirmation_is_all_or_nothing_witness:
  "\<exists>h s'. confirm_catalog_source ''2'' ''run'' ex_bound = (Inr h, s') \<and> hs_recovery s' = hs_recovery ex_bound"
proof -
  obtain p where bound: "handoff_reachable ex_bound" "hs_catalog ex_bound = hs_catalog ex_prepared"
    "load_handoff (run_start_handoff_id ''run'') (hv_handoffs (hs_recovery ex_bound)) = Some p"
    by (rule ex_bound_facts)
  then have "load_handoff (run_start_handoff_id ''run'') (hc_handoffs (hs_catalog ex_bound)) = Some ex_source"
    using ex_prepared_source(1) by simp
  from confirm_succeeds [OF handoff_reachable_inv [OF bound(1)] this bound(3), of "''2''"] obtain h s' where
    result: "confirm_catalog_source ''2'' ''run'' ex_bound = (Inr h, s')" by (auto simp: ex_accept)
  then show ?thesis using confirmation_is_all_or_nothing [OF bound(1), of "''2''" ex_run] by (simp add: ex_run_facts)
qed

text \<open>C6: An interrupted start can always be completed.  Take any reachable state in which the start of a run has been
  prepared, however far a crash let it get.  If the run's identity is not blank, its plan checksum is a digest and its
  command receipt can be accepted, \<open>advance_run_start\<close> returns: both handoffs are completed, the run is released and
  the recovery database holds its binding.\<close>

theorem interrupted_start_is_completed:
  assumes "handoff_reachable s"
    and "load_handoff (run_start_handoff_id (sr_run_id run)) (hc_handoffs (hs_catalog s)) = Some h"
    and "evidence h = run_start_source_handoff run transition_receipt" "bindable run"
    and "fst (accept_run_start_receipt now h (hs_catalog s)) = Inr ()"
  shows "\<exists>h' s'. advance_run_start now (sr_run_id run) s = (Inr h', s') \<and> handoff_reachable s'
    \<and> start_completed (run_start_handoff_id (sr_run_id run)) s'
    \<and> run_released (sr_run_id run) (hc_runs (hs_catalog s'))
    \<and> load_run_binding (sr_run_id run) (hs_recovery s') = Some (run_binding run)"
proof -
  have inv: "handoff_inv s" by (rule handoff_reachable_inv [OF assms(1)])
  from advance_succeeds [OF inv assms(2-5)] obtain h' s' where
    s': "advance_run_start now (sr_run_id run) s = (Inr h', s')" "progressed s s'"
    "start_completed (run_start_handoff_id (sr_run_id run)) s'" "run_released (sr_run_id run) (hc_runs (hs_catalog s'))" .
  have reach: "handoff_reachable s'" using steps_reachable [OF progressedD(3) [OF s'(2)] assms(1)] .
  obtain g p where g: "load_handoff (run_start_handoff_id (sr_run_id run)) (hc_handoffs (hs_catalog s')) = Some g"
    "load_handoff (run_start_handoff_id (sr_run_id run)) (hv_handoffs (hs_recovery s')) = Some p"
    using s'(3) by (auto simp: start_completed_def)
  have "evidence g = run_start_source_handoff run transition_receipt"
    using source_follows [OF assms(2) progressedD(2) [OF s'(2)]] g(1) assms(3) by auto
  then have "recovery_run_binding_from_handoff g = Inr (run_binding run)" by (rule run_start_binding [OF assms(4)])
  moreover have "peer_ok (hs_recovery s') (Some g) p" using handoff_invD(5) [OF progressedD(1) [OF s'(2)] g(2)] g(1) by simp
  ultimately have "load_run_binding (sr_run_id run) (hs_recovery s') = Some (run_binding run)"
    by (auto simp: peer_ok_def run_binding_def)
  then show ?thesis using s' reach by blast
qed

theorem interrupted_start_is_completed_witness:
  "\<exists>h' s'. advance_run_start ''2'' ''run'' ex_prepared = (Inr h', s') \<and> start_completed (run_start_handoff_id ''run'') s'"
  using interrupted_start_is_completed [OF ex_prepared_reachable, of ex_run ex_source False "''2''"] ex_prepared_source(1)
    ex_run_facts
  by (auto simp: ex_accept)

text \<open>C19: Reconciliation after a restart never meets an ambiguous start.  When \<open>reconcile_pending\<close> returns, it reports no
  ambiguous handoff and does not block the readiness to change files; every start it looked at is completed on both
  sides, and when its limit is not below the number of handoffs, so is every start there is.\<close>

theorem reconciliation_completes_starts:
  assumes "handoff_reachable s" "reconcile_pending now limit s = (Inr report, s')"
  shows "hrr_ambiguous_handoff_ids report = [] \<and> \<not> should_block_mutating_readiness report \<and> handoff_reachable s'
    \<and> (\<exists>ids. candidate_ids limit s = Inr ids \<and> hrr_scanned report = length ids
         \<and> set (hrr_completed_handoff_ids report) \<subseteq> set ids \<and> (\<forall>i \<in> set ids. start_completed i s'))
    \<and> (int (length (hc_handoffs (hs_catalog s))) \<le> limit \<longrightarrow>
         (\<forall>i h. load_handoff i (hc_handoffs (hs_catalog s)) = Some h \<longrightarrow> start_completed i s'))"
proof -
  have inv: "handoff_inv s" by (rule handoff_reachable_inv [OF assms(1)])
  note D = handoff_invD [OF inv]
  have limits: "1 \<le> limit" "limit \<le> 1000" using assms(2) by (auto simp: reconcile_pending_def split: if_splits)
  then obtain ids completed ambiguous where ids: "candidate_ids limit s = Inr ids"
    "reconcile_all now ids s = (Inr (completed, ambiguous), s')"
    "report = \<lparr>hrr_scanned = length ids, hrr_completed_handoff_ids = completed, hrr_ambiguous_handoff_ids = ambiguous\<rparr>"
    using assms(2) by (auto simp: reconcile_pending_def split: if_splits)
  have all: "progressed s s'" "ambiguous = []" "set completed \<subseteq> set ids" "\<forall>i \<in> set ids. start_completed i s'"
    using reconcile_all_progress [OF inv _ ids(2)] candidates_have_sources [OF inv ids(1)] by auto
  have "i \<in> set ids" if few: "int (length (hc_handoffs (hs_catalog s))) \<le> limit"
    and h: "load_handoff i (hc_handoffs (hs_catalog s)) = Some h" for i h
  proof -
    let ?t = "hc_handoffs (hs_catalog s)"
    let ?listed = "\<lambda>r. ho_handoff_type (hor_handoff r) = RUN_START_HANDOFF_TYPE \<and> ho_direction (hor_handoff r) = CATALOG_TO_RECOVERY
      \<and> ho_state (hor_handoff r) \<noteq> HANDOFF_ABORTED"
    from load_handoff_row [OF h] obtain row where row: "row \<in> set ?t" "handoff_id_of row = i" "hor_handoff row = h" by blast
    have "source_ok (hc_runs (hs_catalog s)) (load_handoff i (hv_handoffs (hs_recovery s))) h" by (rule D(4) [OF h])
    then have "?listed row" using row(3) run_start_handoffD [of h] by (auto simp: source_ok_def)
    moreover have "length (filter ?listed ?t) \<le> nat limit" using few length_filter_le [of ?listed ?t] by linarith
    ultimately have "h \<in> set (map hor_handoff (take (nat limit) (sort_key (\<lambda>r. (if ho_state (hor_handoff r) = HANDOFF_COMPLETED
        then 1 else 0 :: nat, hor_updated_utc r, handoff_id_of r)) (filter ?listed ?t))))"
      using row by auto
    moreover have "ho_handoff_id h = i" by (rule load_handoffD(1) [OF h D(2)])
    ultimately show ?thesis
      using ids(1) limits
      by (auto simp: candidate_ids_def and_then_def first_occurrences_def list_handoffs_for_reconciliation_def split: sum.splits if_splits)
  qed
  moreover have "handoff_reachable s'" using steps_reachable [OF progressedD(3) [OF all(1)] assms(1)] .
  ultimately show ?thesis using all ids by (simp add: should_block_mutating_readiness_def)
qed

theorem reconciliation_completes_starts_witness:
  "\<exists>report s'. reconcile_pending ''2'' 10 ex_prepared = (Inr report, s') \<and> start_completed (run_start_handoff_id ''run'') s'"
proof -
  have inv: "handoff_inv ex_prepared" by (rule handoff_reachable_inv [OF ex_prepared_reachable])
  from advance_succeeds [OF inv, of ex_run ex_source False "''2''"] ex_prepared_source(1) ex_run_facts obtain h' s' where
    advance: "advance_run_start ''2'' ''run'' ex_prepared = (Inr h', s')" by (simp add: ex_accept) blast
  have source: "ho_handoff_type ex_source = RUN_START_HANDOFF_TYPE" "ho_direction ex_source = CATALOG_TO_RECOVERY"
    "ho_entity_id ex_source = ''run''"
    by (simp_all add: ex_source_def run_start_source_handoff_def Let_def ex_run_facts)
  have "candidate_ids 10 ex_prepared = Inr [run_start_handoff_id ''run'']"
    using source
    by (simp add: candidate_ids_def and_then_def list_handoffs_for_reconciliation_def ex_prepared_def ex_catalog_def first_occurrences_def)
  moreover have "reconcile_one ''2'' (run_start_handoff_id ''run'') ex_prepared = (Inr Reconciled_Completed, s')"
    using advance ex_prepared_source source by (simp add: reconcile_one_def reconcile_advance_def)
  ultimately obtain report where result: "reconcile_pending ''2'' 10 ex_prepared = (Inr report, s')"
    by (simp add: reconcile_pending_def reading_def call_then_def)
  have "int (length (hc_handoffs (hs_catalog ex_prepared))) \<le> 10" by (simp add: ex_prepared_def ex_catalog_def)
  then show ?thesis
    using reconciliation_completes_starts [OF ex_prepared_reachable result] ex_prepared_source(1) result by blast
qed

text \<open>The run of the example, paused before it was bound, resumed, and executed.\<close>

definition ex_escaped :: catalog where
  "ex_escaped = demo_execute ''t1'' (snd (db_resume_paused_run False ''run''
     (snd (db_finalize_requested_run_pause False ''run'' (snd (db_request_run_pause False ''run'' ex_created))))))"

lemma ex_escaped_rows:
  "map (\<lambda>r. (rr_id r, rr_state r)) (c_runs ex_escaped) = [(''run'', RunState.EXECUTING)]"
  "map (\<lambda>t. (tr_run_id t, tr_id t, tr_state t)) (c_run_targets ex_escaped) =
     [(''run'', ''t1'', RunTargetState.EXECUTING), (''run'', ''t2'', RunTargetState.PENDING)]"
  by code_simp+

text \<open>C33: A run can escape its handoff.  A pause is accepted while the run is CREATED, and resuming puts it into the queue,
  from which targets are claimed without a look at the handoff.  There is a reachable state in which a run and one of
  its targets are EXECUTING while the source of its handoff is still PREPARED and the recovery database knows neither
  the handoff nor the run.\<close>

theorem paused_start_escapes_its_handoff:
  "\<exists>s run_id h. handoff_reachable s
    \<and> load_handoff (run_start_handoff_id run_id) (hc_handoffs (hs_catalog s)) = Some h \<and> ho_state h = HANDOFF_PREPARED
    \<and> load_handoff (run_start_handoff_id run_id) (hv_handoffs (hs_recovery s)) = None
    \<and> load_run_binding run_id (hs_recovery s) = None
    \<and> map (\<lambda>r. (rr_id r, rr_state r)) (c_runs (hc_runs (hs_catalog s))) = [(run_id, RunState.EXECUTING)]
    \<and> (\<exists>t \<in> set (c_run_targets (hc_runs (hs_catalog s))). tr_run_id t = run_id \<and> tr_state t = RunTargetState.EXECUTING)"
proof -
  let ?s = "\<lambda>db. ex_prepared\<lparr>hs_catalog := (hs_catalog ex_prepared)\<lparr>hc_runs := db\<rparr>\<rparr>"
  have run: "handoff_reachable (?s db')" if "handoff_reachable (?s db)" "store_step (db, Map.empty) (db', Map.empty)" for db db'
    using handoff_next [OF that(1) of_runs [of "?s db" Map.empty db' Map.empty]] that(2) by simp
  have "?s ex_created = ex_prepared" by (simp add: ex_prepared_def ex_catalog_def)
  then have "handoff_reachable (?s ex_created)" using ex_prepared_reachable by simp
  then have "handoff_reachable (?s (snd (db_request_run_pause False ''run'' ex_created)))"
    by (rule run) (rule store_step.request_run_pause)
  then have "handoff_reachable (?s (snd (db_finalize_requested_run_pause False ''run'' (snd (db_request_run_pause False ''run'' ex_created)))))"
    by (rule run) (rule store_step.finalize_requested_run_pause)
  then have "handoff_reachable (?s (snd (db_resume_paused_run False ''run'' (snd (db_finalize_requested_run_pause False ''run''
      (snd (db_request_run_pause False ''run'' ex_created)))))))"
    by (rule run) (rule store_step.resume_paused_run)
  then have "handoff_reachable (?s ex_escaped)" unfolding ex_escaped_def demo_execute_def demo_lease_def demo_claim_def
    by (rule run [OF run [OF run]])
      (rule store_step.begin_run_target_preflight store_step.record_run_target_lease_acquired
        store_step.record_run_target_execution_started)+
  moreover have "\<exists>t \<in> set (c_run_targets ex_escaped). tr_run_id t = ''run'' \<and> tr_state t = RunTargetState.EXECUTING"
    using ex_escaped_rows(2) by (cases "c_run_targets ex_escaped") auto
  moreover have "load_run_binding ''run'' (hs_recovery ex_prepared) = None"
    by (simp add: ex_prepared_def load_run_binding_def)
  ultimately show ?thesis
    using ex_prepared_source ex_source_facts(2) ex_escaped_rows(1)
    by (intro exI [of _ "?s ex_escaped"] exI [of _ "''run''"] exI [of _ ex_source]) simp
qed

end
