(* ===== verification/Staging_Retry.thy ===== *)
theory Staging_Retry
  imports Endpoint_Retry
begin

text \<open>
  \<open>application/staging_retry.py\<close>: the backoff after a failed staging attempt and the in-memory scheduler
  of its deadlines.  Times are read and printed as in \<open>Endpoint_Retry\<close>; unlike there, a text of more than
  64 characters is refused, the deadlines are kept per run and operation, and the bounds are one and thirty
  seconds.
\<close>

definition STAGING_RETRY_BASE_MS :: int where "STAGING_RETRY_BASE_MS = 1000"
definition STAGING_RETRY_MAX_MS :: int where "STAGING_RETRY_MAX_MS = 30000"
definition STAGING_RETRY_JITTER_FLOOR_PERCENT :: int where "STAGING_RETRY_JITTER_FLOOR_PERCENT = 80"

record StagingRetryTiming =
  srt_observed_utc :: string
  srt_retry_not_before_utc :: string
  srt_backoff_ms :: int
  srt_deadline_monotonic_ns :: int

type_synonym staging_deadlines = "string \<times> string \<rightharpoonup> ActiveDeadline"

definition staging_nominal_ms :: "int \<Rightarrow> int" where
  "staging_nominal_ms attempt_no =
     min (STAGING_RETRY_BASE_MS * 2 ^ nat (min (attempt_no - 1) 31)) STAGING_RETRY_MAX_MS"

definition staging_retry_backoff_ms :: "string \<Rightarrow> string \<Rightarrow> int \<Rightarrow> int result" where
  "staging_retry_backoff_ms run_id operation_id attempt_no =
     (if blank run_id \<or> blank operation_id then Inl ''STAGING_RETRY_REQUIRES_OPERATION_IDENTITY''
      else if attempt_no < 1 then Inl ''STAGING_RETRY_ATTEMPT_MUST_BE_POSITIVE''
      else
        (let nominal_ms = staging_nominal_ms attempt_no;
             floor_ms = nominal_ms * STAGING_RETRY_JITTER_FLOOR_PERCENT div 100;
             jitter_span_ms = nominal_ms - floor_ms;
             digest8 = sha256_first8
               (utf8 (run_id @ [CHR 0x00] @ operation_id @ [CHR 0x00] @ show_int attempt_no));
             jitter_ms = digest8 mod (jitter_span_ms + 1)
         in Inr (floor_ms + jitter_ms)))"

section \<open>Validation\<close>

definition staging_validate_backoff :: "int \<Rightarrow> unit result" where
  "staging_validate_backoff backoff_ms =
     raise_if (backoff_ms < 1 \<or> STAGING_RETRY_MAX_MS < backoff_ms) ''STAGING_RETRY_BACKOFF_INVALID''"

definition staging_parse_utc :: "string \<Rightarrow> int result" where
  "staging_parse_utc value =
     (let normalized = strip value in
      if normalized = [] \<or> last normalized \<noteq> CHR ''Z'' \<or> 64 < length normalized
      then Inl ''STAGING_RETRY_UTC_INVALID''
      else
        (let body = butlast normalized in
         case (parse_date (take 10 body), parse_time (drop 11 body)) of
           (Some ordinal, Some us) \<Rightarrow> Inr ((ordinal - 1) * MICROS_PER_DAY + us)
         | _ \<Rightarrow> Inl ''STAGING_RETRY_UTC_INVALID''))"

definition validate_staging_retry_persistence :: "int option \<Rightarrow> string option \<Rightarrow> unit result" where
  "validate_staging_retry_persistence backoff_ms retry_not_before_utc =
     (case (backoff_ms, retry_not_before_utc) of
        (None, None) \<Rightarrow> Inr ()
      | (Some backoff, Some not_before) \<Rightarrow>
          and_then (staging_validate_backoff backoff) (\<lambda>_.
          and_then (staging_parse_utc not_before) (\<lambda>_. Inr ()))
      | _ \<Rightarrow> Inl ''STAGING_RETRY_TIMING_PAIR_INVALID'')"

definition staging_monotonic_now :: "clock_reading \<Rightarrow> int result" where
  "staging_monotonic_now clock =
     (if monotonic_ns clock < 0 then Inl ''STAGING_RETRY_MONOTONIC_CLOCK_INVALID''
      else Inr (monotonic_ns clock))"

definition operation_key :: "string \<Rightarrow> string \<Rightarrow> (string \<times> string) result" where
  "operation_key run_id operation_id =
     (if blank run_id \<or> blank operation_id then Inl ''STAGING_RETRY_REQUIRES_OPERATION_IDENTITY''
      else Inr (strip run_id, strip operation_id))"

section \<open>The scheduler\<close>

definition staging_plan :: "clock_reading \<Rightarrow> int \<Rightarrow> StagingRetryTiming result" where
  "staging_plan clock backoff_ms =
     and_then (staging_validate_backoff backoff_ms) (\<lambda>_.
     and_then (staging_parse_utc (utc_now clock)) (\<lambda>observed.
     and_then (staging_monotonic_now clock) (\<lambda>started_monotonic_ns.
       Inr \<lparr>srt_observed_utc = format_utc observed,
            srt_retry_not_before_utc = format_utc (observed + backoff_ms * 1000),
            srt_backoff_ms = backoff_ms,
            srt_deadline_monotonic_ns = started_monotonic_ns + backoff_ms * 1000000\<rparr>)))"

definition staging_activate ::
  "string \<Rightarrow> string \<Rightarrow> StagingRetryTiming \<Rightarrow> staging_deadlines \<Rightarrow> staging_deadlines result" where
  "staging_activate run_id operation_id timing dl =
     and_then (operation_key run_id operation_id) (\<lambda>key.
     and_then (staging_validate_backoff (srt_backoff_ms timing)) (\<lambda>_.
     and_then (staging_parse_utc (srt_retry_not_before_utc timing)) (\<lambda>_.
       Inr (dl(key \<mapsto>
         \<lparr>ad_retry_not_before_utc = srt_retry_not_before_utc timing,
          ad_backoff_ms = srt_backoff_ms timing,
          ad_deadline_monotonic_ns = srt_deadline_monotonic_ns timing\<rparr>)))))"

definition staging_is_due ::
  "clock_reading \<Rightarrow> string \<Rightarrow> string \<Rightarrow> int \<Rightarrow> string \<Rightarrow> staging_deadlines \<Rightarrow> (bool \<times> staging_deadlines) result"
where
  "staging_is_due clock run_id operation_id backoff_ms retry_not_before_utc dl =
     and_then (operation_key run_id operation_id) (\<lambda>key.
     and_then (staging_validate_backoff backoff_ms) (\<lambda>_.
     and_then (staging_parse_utc retry_not_before_utc) (\<lambda>retry_not_before.
     and_then (staging_monotonic_now clock) (\<lambda>now_monotonic_ns.
       let fresh =
         and_then (staging_parse_utc (utc_now clock)) (\<lambda>now_utc.
           let active = \<lparr>ad_retry_not_before_utc = retry_not_before_utc, ad_backoff_ms = backoff_ms,
                 ad_deadline_monotonic_ns =
                   now_monotonic_ns + min backoff_ms (ceil_ms (retry_not_before - now_utc)) * 1000000\<rparr>
           in Inr (ad_deadline_monotonic_ns active \<le> now_monotonic_ns, dl(key \<mapsto> active)))
       in case dl key of
            None \<Rightarrow> fresh
          | Some active \<Rightarrow>
              if ad_backoff_ms active \<noteq> backoff_ms
                \<or> ad_retry_not_before_utc active \<noteq> retry_not_before_utc
              then fresh
              else Inr (ad_deadline_monotonic_ns active \<le> now_monotonic_ns, dl)))))"

definition staging_discard :: "string \<Rightarrow> string \<Rightarrow> staging_deadlines \<Rightarrow> staging_deadlines result" where
  "staging_discard run_id operation_id dl =
     and_then (operation_key run_id operation_id) (\<lambda>key. Inr (dl(key := None)))"

end
