(* ===== verification/Recovery_Data.thy ===== *)
theory Recovery_Data
  imports Source_Preconditions Staging_Retry
begin

text \<open>
  \<open>application/recovery_operations.py\<close> and the recovery enumerations of \<open>generated/contract_types.py\<close>: the
  phases of a recovery operation, the operation as the journal keeps it, its validation and the phase changes
  the application allows.  A \<open>RecoveryOperationViolation\<close> is \<open>Inl\<close> of its code.
\<close>

section \<open>Phases\<close>

datatype RecoveryOperationPhase =
    PLANNED | SOURCE_VALIDATED | SOURCE_STABILITY_BOUND | TARGET_PRECONDITION_VALIDATED
  | STAGING_ALLOCATED | TRANSFERRED | STAGING_DURABLE | STAGING_VERIFIED | COMMIT_INTENT_RECORDED
  | COMMIT_PRECONDITIONS_REVALIDATED | OLD_TARGET_PRESERVED | FILESYSTEM_APPLIED | FINAL_DURABLE
  | FINAL_VERIFIED | CATALOG_RECORDED | CLEANED | SKIPPED | CONFLICT | DEFERRED | FAILED_RETRYABLE
  | FAILED_BLOCKED | CANCELLED | ROLLBACK_REQUIRED | USER_DECISION_REQUIRED

fun phase_value :: "RecoveryOperationPhase \<Rightarrow> string" where
  "phase_value PLANNED = ''PLANNED''"
| "phase_value SOURCE_VALIDATED = ''SOURCE_VALIDATED''"
| "phase_value SOURCE_STABILITY_BOUND = ''SOURCE_STABILITY_BOUND''"
| "phase_value TARGET_PRECONDITION_VALIDATED = ''TARGET_PRECONDITION_VALIDATED''"
| "phase_value STAGING_ALLOCATED = ''STAGING_ALLOCATED''"
| "phase_value TRANSFERRED = ''TRANSFERRED''"
| "phase_value STAGING_DURABLE = ''STAGING_DURABLE''"
| "phase_value STAGING_VERIFIED = ''STAGING_VERIFIED''"
| "phase_value COMMIT_INTENT_RECORDED = ''COMMIT_INTENT_RECORDED''"
| "phase_value COMMIT_PRECONDITIONS_REVALIDATED = ''COMMIT_PRECONDITIONS_REVALIDATED''"
| "phase_value OLD_TARGET_PRESERVED = ''OLD_TARGET_PRESERVED''"
| "phase_value FILESYSTEM_APPLIED = ''FILESYSTEM_APPLIED''"
| "phase_value FINAL_DURABLE = ''FINAL_DURABLE''"
| "phase_value FINAL_VERIFIED = ''FINAL_VERIFIED''"
| "phase_value CATALOG_RECORDED = ''CATALOG_RECORDED''"
| "phase_value CLEANED = ''CLEANED''"
| "phase_value SKIPPED = ''SKIPPED''"
| "phase_value CONFLICT = ''CONFLICT''"
| "phase_value DEFERRED = ''DEFERRED''"
| "phase_value FAILED_RETRYABLE = ''FAILED_RETRYABLE''"
| "phase_value FAILED_BLOCKED = ''FAILED_BLOCKED''"
| "phase_value CANCELLED = ''CANCELLED''"
| "phase_value ROLLBACK_REQUIRED = ''ROLLBACK_REQUIRED''"
| "phase_value USER_DECISION_REQUIRED = ''USER_DECISION_REQUIRED''"

definition RECOVERY_OPERATION_PHASES :: "RecoveryOperationPhase list" where
  "RECOVERY_OPERATION_PHASES =
     [PLANNED, SOURCE_VALIDATED, SOURCE_STABILITY_BOUND, TARGET_PRECONDITION_VALIDATED,
      STAGING_ALLOCATED, TRANSFERRED, STAGING_DURABLE, STAGING_VERIFIED,
      COMMIT_INTENT_RECORDED, COMMIT_PRECONDITIONS_REVALIDATED, OLD_TARGET_PRESERVED, FILESYSTEM_APPLIED,
      FINAL_DURABLE, FINAL_VERIFIED, CATALOG_RECORDED, CLEANED,
      SKIPPED, CONFLICT, DEFERRED, FAILED_RETRYABLE,
      FAILED_BLOCKED, CANCELLED, ROLLBACK_REQUIRED, USER_DECISION_REQUIRED]"

definition RECOVERY_OPERATION_TERMINAL_PHASES :: "RecoveryOperationPhase list" where
  "RECOVERY_OPERATION_TERMINAL_PHASES =
     [CLEANED, SKIPPED, CONFLICT, DEFERRED, FAILED_RETRYABLE, FAILED_BLOCKED, CANCELLED, ROLLBACK_REQUIRED,
      USER_DECISION_REQUIRED]"

definition RECOVERY_OPERATION_LINEAR_SUCCESS_PATH :: "RecoveryOperationPhase list" where
  "RECOVERY_OPERATION_LINEAR_SUCCESS_PATH =
     [PLANNED, SOURCE_VALIDATED, SOURCE_STABILITY_BOUND, TARGET_PRECONDITION_VALIDATED, STAGING_ALLOCATED,
      TRANSFERRED, STAGING_DURABLE, STAGING_VERIFIED, COMMIT_INTENT_RECORDED, COMMIT_PRECONDITIONS_REVALIDATED,
      FILESYSTEM_APPLIED, FINAL_DURABLE, FINAL_VERIFIED, CATALOG_RECORDED, CLEANED]"

definition SUCCESS_TRANSITIONS :: "RecoveryOperationPhase \<Rightarrow> RecoveryOperationPhase list" where
  "SUCCESS_TRANSITIONS p =
     (case p of
        PLANNED \<Rightarrow> [SOURCE_VALIDATED]
      | SOURCE_VALIDATED \<Rightarrow> [SOURCE_STABILITY_BOUND]
      | SOURCE_STABILITY_BOUND \<Rightarrow> [TARGET_PRECONDITION_VALIDATED]
      | TARGET_PRECONDITION_VALIDATED \<Rightarrow> [STAGING_ALLOCATED]
      | STAGING_ALLOCATED \<Rightarrow> [TRANSFERRED]
      | TRANSFERRED \<Rightarrow> [STAGING_DURABLE]
      | STAGING_DURABLE \<Rightarrow> [STAGING_VERIFIED]
      | STAGING_VERIFIED \<Rightarrow> [COMMIT_INTENT_RECORDED]
      | COMMIT_INTENT_RECORDED \<Rightarrow> [COMMIT_PRECONDITIONS_REVALIDATED]
      | COMMIT_PRECONDITIONS_REVALIDATED \<Rightarrow> [OLD_TARGET_PRESERVED, FILESYSTEM_APPLIED]
      | OLD_TARGET_PRESERVED \<Rightarrow> [FILESYSTEM_APPLIED]
      | FILESYSTEM_APPLIED \<Rightarrow> [FINAL_DURABLE]
      | FINAL_DURABLE \<Rightarrow> [FINAL_VERIFIED]
      | FINAL_VERIFIED \<Rightarrow> [CATALOG_RECORDED]
      | CATALOG_RECORDED \<Rightarrow> [CLEANED]
      | _ \<Rightarrow> [])"

definition PHASES_REQUIRING_INTENT :: "RecoveryOperationPhase list" where
  "PHASES_REQUIRING_INTENT =
     [COMMIT_INTENT_RECORDED, COMMIT_PRECONDITIONS_REVALIDATED, OLD_TARGET_PRESERVED, FILESYSTEM_APPLIED,
      FINAL_DURABLE, FINAL_VERIFIED, CATALOG_RECORDED, CLEANED]"

definition PHASES_REQUIRING_CATALOG_HANDOFF :: "RecoveryOperationPhase list" where
  "PHASES_REQUIRING_CATALOG_HANDOFF = [CATALOG_RECORDED, CLEANED]"

definition PRE_COMMIT_LEASE_REBIND_PHASES :: "RecoveryOperationPhase list" where
  "PRE_COMMIT_LEASE_REBIND_PHASES =
     [PLANNED, SOURCE_VALIDATED, SOURCE_STABILITY_BOUND, TARGET_PRECONDITION_VALIDATED, STAGING_ALLOCATED,
      TRANSFERRED, STAGING_DURABLE, STAGING_VERIFIED]"

definition validate_recovery_phase_transition ::
  "RecoveryOperationPhase \<Rightarrow> RecoveryOperationPhase \<Rightarrow> unit result" where
  "validate_recovery_phase_transition from_phase to_phase =
     (if from_phase \<in> set RECOVERY_OPERATION_TERMINAL_PHASES
      then Inl ''RECOVERY_OPERATION_TERMINAL_PHASE_CANNOT_TRANSITION''
      else if to_phase \<in> set RECOVERY_OPERATION_TERMINAL_PHASES then Inr ()
      else if to_phase \<notin> set (SUCCESS_TRANSITIONS from_phase)
      then Inl ''RECOVERY_OPERATION_INVALID_PHASE_TRANSITION''
      else Inr ())"

section \<open>The operation\<close>

datatype RecoveryTargetPreconditionKind = ABSENT | MATCH_FINGERPRINT | DIRECTORY_EMPTY | NONE

datatype RecoveryOperationKind = COPY_NEW | CREATE_DIRECTORY

fun recovery_precondition_kind_value :: "RecoveryTargetPreconditionKind \<Rightarrow> string" where
  "recovery_precondition_kind_value ABSENT = ''ABSENT''"
| "recovery_precondition_kind_value MATCH_FINGERPRINT = ''MATCH_FINGERPRINT''"
| "recovery_precondition_kind_value DIRECTORY_EMPTY = ''DIRECTORY_EMPTY''"
| "recovery_precondition_kind_value NONE = ''NONE''"

fun recovery_operation_kind_value :: "RecoveryOperationKind \<Rightarrow> string" where
  "recovery_operation_kind_value COPY_NEW = ''COPY_NEW''"
| "recovery_operation_kind_value CREATE_DIRECTORY = ''CREATE_DIRECTORY''"

record RecoveryOperation =
  rop_run_id :: string
  rop_run_target_id :: string
  rop_operation_id :: string
  rop_target_endpoint_id :: string
  rop_target_endpoint_revision_id :: string
  rop_endpoint_generation :: int
  rop_owner_installation_id :: string
  rop_ownership_epoch :: int
  rop_lease_id :: string
  rop_lease_resource_key :: string
  rop_fencing_token :: int
  rop_phase :: RecoveryOperationPhase
  rop_final_relative_path :: string
  rop_target_precondition_kind :: RecoveryTargetPreconditionKind
  rop_operation_kind :: RecoveryOperationKind
  rop_plan_sequence_no :: int
  rop_planned_bytes :: int
  rop_job_id :: "string option"
  rop_job_revision_id :: "string option"
  rop_retention_policy :: "string option"
  rop_source_endpoint_id :: "string option"
  rop_source_endpoint_revision_id :: "string option"
  rop_source_relative_path :: "string option"
  rop_source_precondition_json :: "string option"
  rop_source_guard_kind :: "string option"
  rop_source_guard_evidence_hash :: "string option"
  rop_source_hash_evidence_kind :: "string option"
  rop_source_path_chain_hash :: "string option"
  rop_source_case_context_hash :: "string option"
  rop_staging_object_id :: "string option"
  rop_version_object_id :: "string option"
  rop_version_created_utc :: "string option"
  rop_version_retention_until_utc :: "string option"
  rop_version_manifest_hash :: "string option"
  rop_quarantine_object_id :: "string option"
  rop_intent_segment_id :: "string option"
  rop_intent_ordinal :: "int option"
  rop_expected_source_fingerprint_json :: "string option"
  rop_expected_target_fingerprint_json :: "string option"
  rop_expected_source_parent_identity_json :: "string option"
  rop_expected_target_parent_identity_json :: "string option"
  rop_expected_target_path_chain_hash :: "string option"
  rop_expected_staging_fingerprint_json :: "string option"
  rop_expected_final_fingerprint_json :: "string option"
  rop_observed_target_file_id :: "string option"
  rop_transfer_state :: "string option"
  rop_assurance_level :: "string option"
  rop_staging_durability_state :: "string option"
  rop_final_durability_state :: "string option"
  rop_catalog_handoff_id :: "string option"
  rop_last_error_code :: "string option"
  rop_staging_failure_count :: int
  rop_staging_retry_backoff_ms :: "int option"
  rop_staging_retry_not_before_utc :: "string option"

record RecoveryOperationMetadata =
  rom_source_guard_kind :: "string option"
  rom_source_guard_evidence_hash :: "string option"
  rom_source_hash_evidence_kind :: "string option"
  rom_staging_object_id :: "string option"
  rom_version_object_id :: "string option"
  rom_version_created_utc :: "string option"
  rom_version_retention_until_utc :: "string option"
  rom_version_manifest_hash :: "string option"
  rom_quarantine_object_id :: "string option"
  rom_expected_source_fingerprint_json :: "string option"
  rom_expected_target_fingerprint_json :: "string option"
  rom_expected_staging_fingerprint_json :: "string option"
  rom_expected_final_fingerprint_json :: "string option"
  rom_transfer_state :: "string option"
  rom_assurance_level :: "string option"
  rom_staging_durability_state :: "string option"
  rom_final_durability_state :: "string option"
  rom_last_error_code :: "string option"
section \<open>Validation\<close>

text \<open>\<open>re.compile(r"^[A-Za-z]:").match\<close>.\<close>

definition has_windows_drive :: "string \<Rightarrow> bool" where
  "has_windows_drive value =
     (case value of
        c # d # _ \<Rightarrow> d = CHR '':'' \<and>
          (let n = (of_char c :: nat) in 65 \<le> n \<and> n \<le> 90 \<or> 97 \<le> n \<and> n \<le> 122)
      | _ \<Rightarrow> False)"

text \<open>\<open>str.split\<close> on one character.\<close>

fun split_on :: "char \<Rightarrow> string \<Rightarrow> string list" where
  "split_on sep [] = [[]]"
| "split_on sep (c # cs) =
     (if c = sep then [] # split_on sep cs
      else (case split_on sep cs of [] \<Rightarrow> [[c]] | p # ps \<Rightarrow> (c # p) # ps))"

definition slashes :: "string \<Rightarrow> string" where
  "slashes = map (\<lambda>c. if c = CHR 0x5C then CHR ''/'' else c)"

definition plain_path_part :: "string \<Rightarrow> bool" where
  "plain_path_part part \<longleftrightarrow> part \<notin> {[], ''.'', ''..''}"

definition starts_with :: "string \<Rightarrow> string \<Rightarrow> bool" where
  "starts_with prefix s \<longleftrightarrow> take (length prefix) s = prefix"

definition valid_relative_path :: "string \<Rightarrow> bool" where
  "valid_relative_path value \<longleftrightarrow>
     \<not> blank value
     \<and> \<not> (starts_with ''/'' value \<or> starts_with [CHR 0x5C] value \<or> has_windows_drive value)
     \<and> (let normalized = slashes value in
          \<not> starts_with ''//'' normalized \<and> list_all plain_path_part (split_on (CHR ''/'') normalized))"

definition validate_hash :: "string \<Rightarrow> string option \<Rightarrow> unit result" where
  "validate_hash code value = (case value of None \<Rightarrow> Inr () | Some v \<Rightarrow> raise_if (\<not> is_hex64 v) code)"

definition validate_identity_and_numbers :: "RecoveryOperation \<Rightarrow> unit result" where
  "validate_identity_and_numbers op =
     (if list_ex blank [rop_run_id op, rop_run_target_id op, rop_operation_id op, rop_target_endpoint_id op,
          rop_target_endpoint_revision_id op, rop_owner_installation_id op, rop_lease_id op,
          rop_lease_resource_key op]
      then Inl ''RECOVERY_OPERATION_REQUIRES_IDENTIFIERS''
      else if rop_endpoint_generation op < 1 \<or> rop_ownership_epoch op < 1 \<or> rop_fencing_token op < 1
      then Inl ''RECOVERY_OPERATION_REQUIRES_POSITIVE_NUMBERS''
      else if rop_plan_sequence_no op < 0 then Inl ''RECOVERY_OPERATION_REQUIRES_NONNEGATIVE_PLAN_SEQUENCE''
      else if rop_planned_bytes op < 0 then Inl ''RECOVERY_OPERATION_REQUIRES_NONNEGATIVE_PLANNED_BYTES''
      else Inr ())"

definition validate_retention :: "RecoveryOperation \<Rightarrow> unit result" where
  "validate_retention op =
     (let job_binding = [rop_job_id op, rop_job_revision_id op, rop_retention_policy op];
          version_metadata =
            [rop_version_created_utc op, rop_version_retention_until_utc op, rop_version_manifest_hash op]
      in if list_ex (\<lambda>v. v \<noteq> None) job_binding \<and> list_ex opt_blank job_binding
         then Inl ''RECOVERY_OPERATION_JOB_RETENTION_BINDING_INVALID''
         else if rop_retention_policy op \<notin> {None, Some ''THIRTY_DAYS''}
         then Inl ''RECOVERY_OPERATION_RETENTION_POLICY_INVALID''
         else if list_ex (\<lambda>v. v \<noteq> None) version_metadata
         then
           (if list_all opt_blank [rop_version_object_id op, rop_quarantine_object_id op]
              \<or> list_ex opt_blank version_metadata \<or> rop_job_id op = None
            then Inl ''RECOVERY_OPERATION_VERSION_METADATA_INVALID''
            else if \<not> (case rop_version_manifest_hash op of None \<Rightarrow> False | Some h \<Rightarrow> is_hex64 h)
            then Inl ''RECOVERY_OPERATION_VERSION_MANIFEST_HASH_INVALID''
            else Inr ())
         else Inr ())"

definition validate_staging_state :: "RecoveryOperation \<Rightarrow> unit result" where
  "validate_staging_state op =
     (if rop_staging_failure_count op < 0 then Inl ''RECOVERY_OPERATION_REQUIRES_NONNEGATIVE_FAILURE_COUNT''
      else
        and_then (validate_staging_retry_persistence (rop_staging_retry_backoff_ms op)
          (rop_staging_retry_not_before_utc op)) (\<lambda>_.
        raise_if (rop_staging_retry_backoff_ms op \<noteq> None
            \<and> (rop_staging_failure_count op < 1
               \<or> rop_phase op \<notin> set (butlast PRE_COMMIT_LEASE_REBIND_PHASES)))
          ''RECOVERY_OPERATION_STAGING_RETRY_STATE_INVALID''))"

definition validate_source :: "RecoveryOperation \<Rightarrow> unit result" where
  "validate_source op =
     (if (case rop_source_relative_path op of None \<Rightarrow> False | Some p \<Rightarrow> \<not> valid_relative_path p)
      then Inl ''RECOVERY_OPERATION_REQUIRES_RELATIVE_SOURCE_PATH''
      else
        (case rop_source_precondition_json op of
           None \<Rightarrow> Inr ()
         | Some text \<Rightarrow>
             and_then (source_precondition_from_json (Some text)) (\<lambda>precondition.
             raise_if (Some (sfp_relative_path precondition) \<noteq> rop_source_relative_path op)
               ''RECOVERY_OPERATION_SOURCE_PRECONDITION_MISMATCH'')))"

definition validate_phase_requirements :: "RecoveryOperation \<Rightarrow> unit result" where
  "validate_phase_requirements op =
     (if rop_phase op \<in> set PHASES_REQUIRING_INTENT \<and> opt_blank (rop_intent_segment_id op)
      then Inl ''RECOVERY_OPERATION_REQUIRES_INTENT_SEGMENT''
      else if rop_phase op \<in> set PHASES_REQUIRING_INTENT
        \<and> (case rop_intent_ordinal op of None \<Rightarrow> True | Some n \<Rightarrow> n < 0)
      then Inl ''RECOVERY_OPERATION_REQUIRES_INTENT_ORDINAL''
      else if rop_phase op \<in> set PHASES_REQUIRING_CATALOG_HANDOFF \<and> opt_blank (rop_catalog_handoff_id op)
      then Inl ''RECOVERY_OPERATION_REQUIRES_CATALOG_HANDOFF''
      else Inr ())"

definition validate_recovery_operation :: "RecoveryOperation \<Rightarrow> unit result" where
  "validate_recovery_operation op =
     and_then (validate_identity_and_numbers op) (\<lambda>_.
     and_then (validate_retention op) (\<lambda>_.
     and_then (validate_staging_state op) (\<lambda>_.
     and_then (raise_if (\<not> valid_relative_path (rop_final_relative_path op))
        ''RECOVERY_OPERATION_REQUIRES_RELATIVE_FINAL_PATH'') (\<lambda>_.
     and_then (validate_source op) (\<lambda>_.
     and_then (validate_hash ''RECOVERY_OPERATION_REQUIRES_SOURCE_GUARD_HASH'' (rop_source_guard_evidence_hash op)) (\<lambda>_.
     and_then (validate_hash ''RECOVERY_OPERATION_REQUIRES_SOURCE_PATH_CHAIN_HASH'' (rop_source_path_chain_hash op)) (\<lambda>_.
     and_then (validate_hash ''RECOVERY_OPERATION_REQUIRES_SOURCE_CASE_CONTEXT_HASH'' (rop_source_case_context_hash op)) (\<lambda>_.
     and_then (validate_hash ''RECOVERY_OPERATION_REQUIRES_TARGET_PATH_CHAIN_HASH'' (rop_expected_target_path_chain_hash op)) (\<lambda>_.
       validate_phase_requirements op)))))))))"

definition planned_recovery_operation ::
  "string \<Rightarrow> string \<Rightarrow> string \<Rightarrow> string \<Rightarrow>
   string \<Rightarrow> int \<Rightarrow> string \<Rightarrow> int \<Rightarrow>
   string \<Rightarrow> string \<Rightarrow> int \<Rightarrow> string \<Rightarrow>
   RecoveryTargetPreconditionKind \<Rightarrow> RecoveryOperationKind \<Rightarrow>
   int \<Rightarrow> int \<Rightarrow> string option \<Rightarrow> string option \<Rightarrow>
   string option \<Rightarrow> string option \<Rightarrow> string option \<Rightarrow>
   string option \<Rightarrow> string option \<Rightarrow> RecoveryOperation result"
where
  "planned_recovery_operation
       run_id run_target_id operation_id target_endpoint_id target_endpoint_revision_id
       endpoint_generation owner_installation_id ownership_epoch lease_id lease_resource_key
       fencing_token final_relative_path target_precondition_kind operation_kind plan_sequence_no
       planned_bytes job_id job_revision_id retention_policy source_endpoint_id
       source_endpoint_revision_id source_relative_path source_precondition_json =
     (let operation = \<lparr>
         rop_run_id = run_id, rop_run_target_id = run_target_id, rop_operation_id = operation_id,
         rop_target_endpoint_id = target_endpoint_id,
         rop_target_endpoint_revision_id = target_endpoint_revision_id,
         rop_endpoint_generation = endpoint_generation,
         rop_owner_installation_id = owner_installation_id, rop_ownership_epoch = ownership_epoch,
         rop_lease_id = lease_id, rop_lease_resource_key = lease_resource_key,
         rop_fencing_token = fencing_token, rop_phase = PLANNED,
         rop_final_relative_path = final_relative_path,
         rop_target_precondition_kind = target_precondition_kind,
         rop_operation_kind = operation_kind, rop_plan_sequence_no = plan_sequence_no,
         rop_planned_bytes = planned_bytes, rop_job_id = job_id,
         rop_job_revision_id = job_revision_id, rop_retention_policy = retention_policy,
         rop_source_endpoint_id = source_endpoint_id,
         rop_source_endpoint_revision_id = source_endpoint_revision_id,
         rop_source_relative_path = source_relative_path,
         rop_source_precondition_json = source_precondition_json, rop_source_guard_kind = None,
         rop_source_guard_evidence_hash = None, rop_source_hash_evidence_kind = None,
         rop_source_path_chain_hash = None, rop_source_case_context_hash = None,
         rop_staging_object_id = None, rop_version_object_id = None,
         rop_version_created_utc = None, rop_version_retention_until_utc = None,
         rop_version_manifest_hash = None, rop_quarantine_object_id = None,
         rop_intent_segment_id = None, rop_intent_ordinal = None,
         rop_expected_source_fingerprint_json = None, rop_expected_target_fingerprint_json = None,
         rop_expected_source_parent_identity_json = None,
         rop_expected_target_parent_identity_json = None,
         rop_expected_target_path_chain_hash = None, rop_expected_staging_fingerprint_json = None,
         rop_expected_final_fingerprint_json = None, rop_observed_target_file_id = None,
         rop_transfer_state = None, rop_assurance_level = None,
         rop_staging_durability_state = None, rop_final_durability_state = None,
         rop_catalog_handoff_id = None, rop_last_error_code = None, rop_staging_failure_count = 0,
         rop_staging_retry_backoff_ms = None, rop_staging_retry_not_before_utc = None\<rparr>
      in and_then (validate_recovery_operation operation) (\<lambda>_. Inr operation))"

end
