(* ===== verification/Recovery_Intents.thy ===== *)
theory Recovery_Intents
  imports Recovery_Data
begin

text \<open>
  \<open>application/recovery_intents.py\<close>: an intent segment announces, in a file on the target, the operations that
  are about to be committed there.  Its validation, and the evidence two copies of it must share.
\<close>

definition MAX_INTENT_SEGMENT_OPERATIONS :: int where "MAX_INTENT_SEGMENT_OPERATIONS = 10000"
definition MAX_INTENT_SEGMENT_BYTES :: int where "MAX_INTENT_SEGMENT_BYTES = 16 * 1024 * 1024"

datatype RecoveryIntentSegmentDurabilityState = DURABILITY_PENDING | DURABILITY_DURABLE

datatype RecoveryIntentSegmentState =
  SEGMENT_BUILDING | SEGMENT_DURABLE | SEGMENT_RECONCILED | SEGMENT_CLEANUP_ELIGIBLE | SEGMENT_CLEANED

record RecoveryIntentSegment =
  ris_segment_id :: string
  ris_run_id :: string
  ris_run_target_id :: string
  ris_target_endpoint_id :: string
  ris_target_endpoint_revision_id :: string
  ris_endpoint_generation :: int
  ris_owner_installation_id :: string
  ris_ownership_epoch :: int
  ris_lease_id :: string
  ris_fencing_token :: int
  ris_segment_sequence :: int
  ris_relative_path :: string
  ris_schema_version :: int
  ris_operation_count :: int
  ris_byte_count :: int
  ris_segment_hash :: string
  ris_previous_segment_hash :: "string option"
  ris_durability_state :: RecoveryIntentSegmentDurabilityState
  ris_state :: RecoveryIntentSegmentState

definition validate_recovery_intent_segment :: "RecoveryIntentSegment \<Rightarrow> unit result" where
  "validate_recovery_intent_segment s =
     (if list_ex blank [ris_segment_id s, ris_run_id s, ris_run_target_id s, ris_target_endpoint_id s,
          ris_target_endpoint_revision_id s, ris_owner_installation_id s, ris_lease_id s]
      then Inl ''RECOVERY_INTENT_SEGMENT_REQUIRES_IDENTIFIERS''
      else if \<not> valid_relative_path (ris_relative_path s)
      then Inl ''RECOVERY_INTENT_SEGMENT_REQUIRES_RELATIVE_PATH''
      else if ris_endpoint_generation s < 1 \<or> ris_ownership_epoch s < 1 \<or> ris_fencing_token s < 1
        \<or> ris_segment_sequence s < 0 \<or> ris_schema_version s < 1
      then Inl ''RECOVERY_INTENT_SEGMENT_REQUIRES_POSITIVE_NUMBERS''
      else if \<not> (1 \<le> ris_operation_count s \<and> ris_operation_count s \<le> MAX_INTENT_SEGMENT_OPERATIONS)
      then Inl ''RECOVERY_INTENT_SEGMENT_OPERATION_COUNT_OUT_OF_RANGE''
      else if \<not> (0 \<le> ris_byte_count s \<and> ris_byte_count s \<le> MAX_INTENT_SEGMENT_BYTES)
      then Inl ''RECOVERY_INTENT_SEGMENT_BYTE_COUNT_OUT_OF_RANGE''
      else if \<not> is_hex64 (ris_segment_hash s) then Inl ''RECOVERY_INTENT_SEGMENT_REQUIRES_HASH''
      else if (case ris_previous_segment_hash s of None \<Rightarrow> False | Some h \<Rightarrow> \<not> is_hex64 h)
      then Inl ''RECOVERY_INTENT_SEGMENT_REQUIRES_PREVIOUS_HASH''
      else if ris_state s \<noteq> SEGMENT_DURABLE then Inl ''RECOVERY_INTENT_SEGMENT_REQUIRES_DURABLE_STATE''
      else if ris_durability_state s \<noteq> DURABILITY_DURABLE
      then Inl ''RECOVERY_INTENT_SEGMENT_REQUIRES_DURABLE_STORAGE''
      else Inr ())"

definition durable_recovery_intent_segment ::
  "string \<Rightarrow> string \<Rightarrow> string \<Rightarrow> string \<Rightarrow> string \<Rightarrow> int \<Rightarrow> string \<Rightarrow> int \<Rightarrow> string \<Rightarrow> int \<Rightarrow> int \<Rightarrow>
   string \<Rightarrow> int \<Rightarrow> int \<Rightarrow> int \<Rightarrow> string \<Rightarrow> string option \<Rightarrow> RecoveryIntentSegment result"
where
  "durable_recovery_intent_segment segment_id run_id run_target_id target_endpoint_id
       target_endpoint_revision_id endpoint_generation owner_installation_id ownership_epoch lease_id
       fencing_token segment_sequence relative_path schema_version operation_count byte_count
       segment_hash previous_segment_hash =
     (let segment = \<lparr>ris_segment_id = segment_id, ris_run_id = run_id, ris_run_target_id = run_target_id,
         ris_target_endpoint_id = target_endpoint_id,
         ris_target_endpoint_revision_id = target_endpoint_revision_id,
         ris_endpoint_generation = endpoint_generation,
         ris_owner_installation_id = owner_installation_id, ris_ownership_epoch = ownership_epoch,
         ris_lease_id = lease_id, ris_fencing_token = fencing_token,
         ris_segment_sequence = segment_sequence, ris_relative_path = relative_path,
         ris_schema_version = schema_version, ris_operation_count = operation_count,
         ris_byte_count = byte_count, ris_segment_hash = segment_hash,
         ris_previous_segment_hash = previous_segment_hash,
         ris_durability_state = DURABILITY_DURABLE, ris_state = SEGMENT_DURABLE\<rparr>
      in and_then (validate_recovery_intent_segment segment) (\<lambda>_. Inr segment))"

definition recovery_intent_segment_evidence_matches ::
  "RecoveryIntentSegment \<Rightarrow> RecoveryIntentSegment \<Rightarrow> bool" where
  "recovery_intent_segment_evidence_matches first second \<longleftrightarrow>
     ris_segment_id first = ris_segment_id second
     \<and> ris_run_id first = ris_run_id second
     \<and> ris_run_target_id first = ris_run_target_id second
     \<and> ris_target_endpoint_id first = ris_target_endpoint_id second
     \<and> ris_target_endpoint_revision_id first = ris_target_endpoint_revision_id second
     \<and> ris_endpoint_generation first = ris_endpoint_generation second
     \<and> ris_owner_installation_id first = ris_owner_installation_id second
     \<and> ris_ownership_epoch first = ris_ownership_epoch second
     \<and> ris_lease_id first = ris_lease_id second
     \<and> ris_fencing_token first = ris_fencing_token second
     \<and> ris_segment_sequence first = ris_segment_sequence second
     \<and> ris_relative_path first = ris_relative_path second
     \<and> ris_schema_version first = ris_schema_version second
     \<and> ris_operation_count first = ris_operation_count second
     \<and> ris_byte_count first = ris_byte_count second
     \<and> ris_segment_hash first = ris_segment_hash second
     \<and> ris_previous_segment_hash first = ris_previous_segment_hash second
     \<and> ris_durability_state first = ris_durability_state second"

end
