(* ===== verification/Directory_Recovery.thy ===== *)
theory Directory_Recovery
  imports Recovery_Data
begin

text \<open>
  \<open>application/directory_recovery.py\<close>: the life of a directory that is created, given its metadata, moved to
  quarantine or restored.  The four state enumerations are \<open>str\<close> enumerations: Python's \<open>==\<close>, \<open>in\<close> and
  \<open>index\<close> compare them by value, \<open>is\<close> compares members, which is HOL equality here.  The evidence texts
  hold no numbers with a fraction (\<open>JFloat\<close> is printed as it was read).
\<close>

section \<open>States\<close>

datatype DirectoryRecoveryKind = CREATE | METADATA | QUARANTINE | RESTORE

fun directory_kind_value :: "DirectoryRecoveryKind \<Rightarrow> string" where
  "directory_kind_value CREATE = ''CREATE''"
| "directory_kind_value METADATA = ''METADATA''"
| "directory_kind_value QUARANTINE = ''QUARANTINE''"
| "directory_kind_value RESTORE = ''RESTORE''"

datatype DirectoryCreateState =
    DIRECTORY_PLANNED | DIRECTORY_PARENT_VALIDATED | DIRECTORY_CREATE_INTENT_RECORDED
  | DIRECTORY_CREATED | DIRECTORY_IDENTITY_VERIFIED | DIRECTORY_CATALOG_RECORDED
  | DIRECTORY_TYPE_CONFLICT

datatype DirectoryMetadataState =
    DIRECTORY_METADATA_PLANNED | CHILDREN_TERMINAL | METADATA_PRECONDITION_VALIDATED
  | METADATA_INTENT_RECORDED | METADATA_APPLIED | METADATA_VERIFIED | DIRECTORY_CATALOG_RECORDED
  | DIRECTORY_METADATA_CONFLICT

datatype DirectoryQuarantineState =
    DIRECTORY_QUARANTINE_PLANNED | DIRECTORY_EMPTY_REVALIDATED | QUARANTINE_INTENT_RECORDED
  | DIRECTORY_OBJECT_PRESERVED | SOURCE_PATH_REMOVED | QUARANTINE_CATALOG_RECORDED
  | DIRECTORY_QUARANTINE_CONFLICT

datatype DirectoryRestoreState =
    DIRECTORY_RESTORE_PLANNED | RESTORE_TARGET_ABSENT_REVALIDATED | RESTORE_INTENT_RECORDED
  | DIRECTORY_RESTORED | DIRECTORY_RESTORE_VERIFIED | RESTORE_CATALOG_RECORDED
  | DIRECTORY_RESTORE_CONFLICT

fun create_state_value :: "DirectoryCreateState \<Rightarrow> string" where
  "create_state_value DIRECTORY_PLANNED = ''DIRECTORY_PLANNED''"
| "create_state_value DIRECTORY_PARENT_VALIDATED = ''DIRECTORY_PARENT_VALIDATED''"
| "create_state_value DIRECTORY_CREATE_INTENT_RECORDED = ''DIRECTORY_CREATE_INTENT_RECORDED''"
| "create_state_value DIRECTORY_CREATED = ''DIRECTORY_CREATED''"
| "create_state_value DIRECTORY_IDENTITY_VERIFIED = ''DIRECTORY_IDENTITY_VERIFIED''"
| "create_state_value DirectoryCreateState.DIRECTORY_CATALOG_RECORDED = ''DIRECTORY_CATALOG_RECORDED''"
| "create_state_value DIRECTORY_TYPE_CONFLICT = ''DIRECTORY_TYPE_CONFLICT''"

fun metadata_state_value :: "DirectoryMetadataState \<Rightarrow> string" where
  "metadata_state_value DIRECTORY_METADATA_PLANNED = ''DIRECTORY_METADATA_PLANNED''"
| "metadata_state_value CHILDREN_TERMINAL = ''CHILDREN_TERMINAL''"
| "metadata_state_value METADATA_PRECONDITION_VALIDATED = ''METADATA_PRECONDITION_VALIDATED''"
| "metadata_state_value METADATA_INTENT_RECORDED = ''METADATA_INTENT_RECORDED''"
| "metadata_state_value METADATA_APPLIED = ''METADATA_APPLIED''"
| "metadata_state_value METADATA_VERIFIED = ''METADATA_VERIFIED''"
| "metadata_state_value DirectoryMetadataState.DIRECTORY_CATALOG_RECORDED = ''DIRECTORY_CATALOG_RECORDED''"
| "metadata_state_value DIRECTORY_METADATA_CONFLICT = ''DIRECTORY_METADATA_CONFLICT''"

fun quarantine_state_value :: "DirectoryQuarantineState \<Rightarrow> string" where
  "quarantine_state_value DIRECTORY_QUARANTINE_PLANNED = ''DIRECTORY_QUARANTINE_PLANNED''"
| "quarantine_state_value DIRECTORY_EMPTY_REVALIDATED = ''DIRECTORY_EMPTY_REVALIDATED''"
| "quarantine_state_value QUARANTINE_INTENT_RECORDED = ''QUARANTINE_INTENT_RECORDED''"
| "quarantine_state_value DIRECTORY_OBJECT_PRESERVED = ''DIRECTORY_OBJECT_PRESERVED''"
| "quarantine_state_value SOURCE_PATH_REMOVED = ''SOURCE_PATH_REMOVED''"
| "quarantine_state_value QUARANTINE_CATALOG_RECORDED = ''QUARANTINE_CATALOG_RECORDED''"
| "quarantine_state_value DIRECTORY_QUARANTINE_CONFLICT = ''DIRECTORY_QUARANTINE_CONFLICT''"

fun restore_state_value :: "DirectoryRestoreState \<Rightarrow> string" where
  "restore_state_value DIRECTORY_RESTORE_PLANNED = ''DIRECTORY_RESTORE_PLANNED''"
| "restore_state_value RESTORE_TARGET_ABSENT_REVALIDATED = ''RESTORE_TARGET_ABSENT_REVALIDATED''"
| "restore_state_value RESTORE_INTENT_RECORDED = ''RESTORE_INTENT_RECORDED''"
| "restore_state_value DIRECTORY_RESTORED = ''DIRECTORY_RESTORED''"
| "restore_state_value DIRECTORY_RESTORE_VERIFIED = ''DIRECTORY_RESTORE_VERIFIED''"
| "restore_state_value RESTORE_CATALOG_RECORDED = ''RESTORE_CATALOG_RECORDED''"
| "restore_state_value DIRECTORY_RESTORE_CONFLICT = ''DIRECTORY_RESTORE_CONFLICT''"

datatype DirectoryRecoveryState =
    Create_State DirectoryCreateState
  | Metadata_State DirectoryMetadataState
  | Quarantine_State DirectoryQuarantineState
  | Restore_State DirectoryRestoreState

fun directory_state_value :: "DirectoryRecoveryState \<Rightarrow> string" where
  "directory_state_value (Create_State s) = create_state_value s"
| "directory_state_value (Metadata_State s) = metadata_state_value s"
| "directory_state_value (Quarantine_State s) = quarantine_state_value s"
| "directory_state_value (Restore_State s) = restore_state_value s"

definition SUCCESS_PATH_BY_KIND :: "DirectoryRecoveryKind \<Rightarrow> DirectoryRecoveryState list" where
  "SUCCESS_PATH_BY_KIND kind =
     (case kind of
        CREATE \<Rightarrow> map Create_State
           [DIRECTORY_PLANNED, DIRECTORY_PARENT_VALIDATED, DIRECTORY_CREATE_INTENT_RECORDED,
            DIRECTORY_CREATED, DIRECTORY_IDENTITY_VERIFIED,
            DirectoryCreateState.DIRECTORY_CATALOG_RECORDED]
      | METADATA \<Rightarrow> map Metadata_State
           [DIRECTORY_METADATA_PLANNED, CHILDREN_TERMINAL, METADATA_PRECONDITION_VALIDATED,
            METADATA_INTENT_RECORDED, METADATA_APPLIED, METADATA_VERIFIED,
            DirectoryMetadataState.DIRECTORY_CATALOG_RECORDED]
      | QUARANTINE \<Rightarrow> map Quarantine_State
           [DIRECTORY_QUARANTINE_PLANNED, DIRECTORY_EMPTY_REVALIDATED, QUARANTINE_INTENT_RECORDED,
            DIRECTORY_OBJECT_PRESERVED, SOURCE_PATH_REMOVED, QUARANTINE_CATALOG_RECORDED]
      | RESTORE \<Rightarrow> map Restore_State
           [DIRECTORY_RESTORE_PLANNED, RESTORE_TARGET_ABSENT_REVALIDATED, RESTORE_INTENT_RECORDED,
            DIRECTORY_RESTORED, DIRECTORY_RESTORE_VERIFIED, RESTORE_CATALOG_RECORDED])"

definition INITIAL_STATE_BY_KIND :: "DirectoryRecoveryKind \<Rightarrow> DirectoryRecoveryState" where
  "INITIAL_STATE_BY_KIND kind =
     (case kind of
        CREATE \<Rightarrow> Create_State DIRECTORY_PLANNED
      | METADATA \<Rightarrow> Metadata_State DIRECTORY_METADATA_PLANNED
      | QUARANTINE \<Rightarrow> Quarantine_State DIRECTORY_QUARANTINE_PLANNED
      | RESTORE \<Rightarrow> Restore_State DIRECTORY_RESTORE_PLANNED)"

definition CONFLICT_STATE_BY_KIND :: "DirectoryRecoveryKind \<Rightarrow> DirectoryRecoveryState" where
  "CONFLICT_STATE_BY_KIND kind =
     (case kind of
        CREATE \<Rightarrow> Create_State DIRECTORY_TYPE_CONFLICT
      | METADATA \<Rightarrow> Metadata_State DIRECTORY_METADATA_CONFLICT
      | QUARANTINE \<Rightarrow> Quarantine_State DIRECTORY_QUARANTINE_CONFLICT
      | RESTORE \<Rightarrow> Restore_State DIRECTORY_RESTORE_CONFLICT)"

text \<open>The members of the enumeration a kind uses, and \<open>enum_type(value)\<close>.\<close>

definition directory_states_of_kind :: "DirectoryRecoveryKind \<Rightarrow> DirectoryRecoveryState list" where
  "directory_states_of_kind kind = SUCCESS_PATH_BY_KIND kind @ [CONFLICT_STATE_BY_KIND kind]"

definition directory_state_from_value :: "DirectoryRecoveryKind \<Rightarrow> string \<Rightarrow> DirectoryRecoveryState option" where
  "directory_state_from_value kind v = List.find (\<lambda>s. directory_state_value s = v) (directory_states_of_kind kind)"

text \<open>\<open>state in collection\<close> for a collection of state members.\<close>

definition state_in :: "DirectoryRecoveryState \<Rightarrow> DirectoryRecoveryState list \<Rightarrow> bool" where
  "state_in s states \<longleftrightarrow> directory_state_value s \<in> set (map directory_state_value states)"

section \<open>The operation\<close>

record DirectoryRecoveryOperation =
  dro_recovery_id :: string
  dro_operation_id :: string
  dro_run_id :: string
  dro_run_target_id :: string
  dro_target_endpoint_id :: string
  dro_target_endpoint_revision_id :: string
  dro_owner_installation_id :: string
  dro_ownership_epoch :: int
  dro_kind :: DirectoryRecoveryKind
  dro_state :: DirectoryRecoveryState
  dro_final_relative_path :: string
  dro_expected_precondition_json :: "string option"
  dro_desired_metadata_json :: "string option"
  dro_managed_object_id :: "string option"
  dro_last_error_code :: "string option"
  dro_event_sequence :: int
  dro_event_hash :: "string option"
  dro_row_version :: int

record DirectoryRecoveryTransition =
  drt_recovery_id :: string
  drt_expected_state :: DirectoryRecoveryState
  drt_next_state :: DirectoryRecoveryState
  drt_process_instance_id :: string
  drt_payload :: "(string \<times> json) list"
  drt_managed_object_id :: "string option"
  drt_last_error_code :: "string option"

section \<open>Validation\<close>

text \<open>\<open>not value.strip() or value != value.strip()\<close>.\<close>

definition untrimmed :: "string \<Rightarrow> bool" where
  "untrimmed value \<longleftrightarrow> blank value \<or> value \<noteq> strip value"

definition opt_untrimmed :: "string option \<Rightarrow> bool" where
  "opt_untrimmed value \<longleftrightarrow> (case value of None \<Rightarrow> True | Some v \<Rightarrow> untrimmed v)"

definition directory_relative_path_ok :: "string \<Rightarrow> bool" where
  "directory_relative_path_ok value \<longleftrightarrow>
     (let normalized = slashes value in
      \<not> (normalized = [] \<or> starts_with ''/'' normalized \<or> has_windows_drive normalized
         \<or> \<not> list_all plain_path_part (split_on (CHR ''/'') normalized)))"

definition canonical_directory_recovery_payload :: "(string \<times> json) list \<Rightarrow> string" where
  "canonical_directory_recovery_payload payload = json_dumps True (JObj payload)"

definition canonical_json_object :: "string \<Rightarrow> unit result" where
  "canonical_json_object payload =
     (case json_loads payload of
        Some (JObj kvs) \<Rightarrow>
          raise_if (json_dumps True (JObj kvs) \<noteq> payload) ''DIRECTORY_RECOVERY_EVIDENCE_NOT_CANONICAL''
      | _ \<Rightarrow> Inl ''DIRECTORY_RECOVERY_EVIDENCE_JSON_INVALID'')"

definition opt_canonical_json_object :: "string option \<Rightarrow> unit result" where
  "opt_canonical_json_object payload = (case payload of None \<Rightarrow> Inr () | Some p \<Rightarrow> canonical_json_object p)"

definition validate_directory_recovery_operation :: "DirectoryRecoveryOperation \<Rightarrow> unit result" where
  "validate_directory_recovery_operation op =
     (if list_ex untrimmed [dro_recovery_id op, dro_operation_id op, dro_run_id op, dro_run_target_id op,
          dro_target_endpoint_id op, dro_target_endpoint_revision_id op, dro_owner_installation_id op]
      then Inl ''DIRECTORY_RECOVERY_BINDING_INVALID''
      else if \<not> directory_relative_path_ok (dro_final_relative_path op)
      then Inl ''DIRECTORY_RECOVERY_RELATIVE_PATH_INVALID''
      else if dro_ownership_epoch op < 1 then Inl ''DIRECTORY_RECOVERY_OWNERSHIP_EPOCH_INVALID''
      else if \<not> state_in (dro_state op) (directory_states_of_kind (dro_kind op))
      then Inl ''DIRECTORY_RECOVERY_STATE_KIND_MISMATCH''
      else if dro_state op = CONFLICT_STATE_BY_KIND (dro_kind op) \<and> opt_untrimmed (dro_last_error_code op)
      then Inl ''DIRECTORY_RECOVERY_CONFLICT_REQUIRES_ERROR''
      else if (case dro_managed_object_id op of None \<Rightarrow> False | Some v \<Rightarrow> untrimmed v)
      then Inl ''DIRECTORY_RECOVERY_MANAGED_OBJECT_INVALID''
      else if dro_event_sequence op < 0 \<or> dro_row_version op < 1
      then Inl ''DIRECTORY_RECOVERY_SEQUENCE_INVALID''
      else if (dro_event_sequence op = 0) \<noteq> (dro_event_hash op = None)
      then Inl ''DIRECTORY_RECOVERY_EVENT_HASH_MISSING''
      else if (case dro_event_hash op of None \<Rightarrow> False | Some h \<Rightarrow> \<not> is_hex64 h)
      then Inl ''DIRECTORY_RECOVERY_EVENT_HASH_INVALID''
      else
        and_then (opt_canonical_json_object (dro_expected_precondition_json op)) (\<lambda>_.
          opt_canonical_json_object (dro_desired_metadata_json op)))"

definition planned_directory_recovery_operation ::
  "string \<Rightarrow> string \<Rightarrow> string \<Rightarrow> string \<Rightarrow> string \<Rightarrow> string \<Rightarrow> string \<Rightarrow> int \<Rightarrow>
   DirectoryRecoveryKind \<Rightarrow> string \<Rightarrow> string option \<Rightarrow> string option \<Rightarrow> DirectoryRecoveryOperation result"
where
  "planned_directory_recovery_operation recovery_id operation_id run_id run_target_id target_endpoint_id
       target_endpoint_revision_id owner_installation_id ownership_epoch kind final_relative_path
       expected_precondition_json desired_metadata_json =
     (let operation = \<lparr>dro_recovery_id = recovery_id, dro_operation_id = operation_id, dro_run_id = run_id,
         dro_run_target_id = run_target_id, dro_target_endpoint_id = target_endpoint_id,
         dro_target_endpoint_revision_id = target_endpoint_revision_id,
         dro_owner_installation_id = owner_installation_id, dro_ownership_epoch = ownership_epoch,
         dro_kind = kind, dro_state = INITIAL_STATE_BY_KIND kind,
         dro_final_relative_path = final_relative_path,
         dro_expected_precondition_json = expected_precondition_json,
         dro_desired_metadata_json = desired_metadata_json, dro_managed_object_id = None,
         dro_last_error_code = None, dro_event_sequence = 0, dro_event_hash = None, dro_row_version = 1\<rparr>
      in and_then (validate_directory_recovery_operation operation) (\<lambda>_. Inr operation))"

definition directory_recovery_id :: "string \<Rightarrow> string \<Rightarrow> DirectoryRecoveryKind \<Rightarrow> string" where
  "directory_recovery_id run_id operation_id kind =
     ''directory-'' @ sha256_hexdigest (utf8 (canonical_directory_recovery_payload
       [(''kind'', JStr (directory_kind_value kind)), (''operation_id'', JStr operation_id),
        (''run_id'', JStr run_id), (''schema_version'', JInt 1)]))"

section \<open>Transitions\<close>

definition directory_recovery_is_terminal :: "DirectoryRecoveryOperation \<Rightarrow> bool" where
  "directory_recovery_is_terminal op \<longleftrightarrow>
     state_in (dro_state op) [last (SUCCESS_PATH_BY_KIND (dro_kind op)), CONFLICT_STATE_BY_KIND (dro_kind op)]"

text \<open>\<open>success_path.index(state)\<close>.\<close>

fun index_of :: "string \<Rightarrow> string list \<Rightarrow> nat option" where
  "index_of v [] = None"
| "index_of v (x # xs) = (if x = v then Some 0 else map_option Suc (index_of v xs))"

definition validate_directory_recovery_transition ::
  "DirectoryRecoveryOperation \<Rightarrow> DirectoryRecoveryTransition \<Rightarrow> unit result" where
  "validate_directory_recovery_transition op transition =
     and_then (validate_directory_recovery_operation op) (\<lambda>_.
       if drt_recovery_id transition \<noteq> dro_recovery_id op
       then Inl ''DIRECTORY_RECOVERY_TRANSITION_BINDING_MISMATCH''
       else if drt_expected_state transition \<noteq> dro_state op
       then Inl ''DIRECTORY_RECOVERY_TRANSITION_STATE_MISMATCH''
       else if untrimmed (drt_process_instance_id transition)
       then Inl ''DIRECTORY_RECOVERY_TRANSITION_REQUIRES_PROCESS''
       else if directory_recovery_is_terminal op
       then Inl ''DIRECTORY_RECOVERY_TERMINAL_STATE_CANNOT_TRANSITION''
       else if drt_next_state transition = CONFLICT_STATE_BY_KIND (dro_kind op)
       then raise_if (opt_untrimmed (drt_last_error_code transition)) ''DIRECTORY_RECOVERY_CONFLICT_REQUIRES_ERROR''
       else
         (let success_path = SUCCESS_PATH_BY_KIND (dro_kind op) in
          case index_of (directory_state_value (dro_state op)) (map directory_state_value success_path) of
            None \<Rightarrow> Inl ''DIRECTORY_RECOVERY_TERMINAL_STATE_CANNOT_TRANSITION''
          | Some index \<Rightarrow>
              raise_if (length success_path \<le> index + 1
                  \<or> success_path ! (index + 1) \<noteq> drt_next_state transition)
                ''DIRECTORY_RECOVERY_INVALID_STATE_TRANSITION''))"

end
