(* ===== verification/Recovery_Tables.thy ===== *)
theory Recovery_Tables
  imports Recovery_Intents Directory_Recovery
begin

text \<open>
  The recovery database: its tables (\<open>adapters/sqlite/migrations.py\<close>), the connection with its transaction,
  and the frame every operation of its stores has: begin unless the caller has begun, work, commit; roll back
  and translate the exceptions the \<open>except\<close> clauses name.  An exception no clause names passes through, and the
  transaction stays open.

  SQLite's own failures (\<open>sqlite3.OperationalError\<close>) and integers outside 64 bits are not modelled.  Text is
  compared in code point order, as the \<open>BINARY\<close> collation does.
\<close>

section \<open>Exceptions\<close>

datatype recovery_error =
    Operation_Violation string
  | is_Operation_Store_Error: Operation_Store_Error string
  | Segment_Violation string
  | is_Segment_Store_Error: Segment_Store_Error string
  | Directory_Violation string
  | is_Directory_Store_Error: Directory_Store_Error string
  | is_Lease_Error: Lease_Error string
  | is_Fencing_Error: Fencing_Error string
  | is_Staging_Violation: Staging_Violation string
  | Value_Error
  | Integrity_Error

text \<open>A validation of the application layer raises its own exception class.\<close>

definition raising :: "(string \<Rightarrow> recovery_error) \<Rightarrow> 'a result \<Rightarrow> recovery_error + 'a" where
  "raising wrap r = (case r of Inl code \<Rightarrow> Inl (wrap code) | Inr a \<Rightarrow> Inr a)"

lemma raising_Inr_iff [simp]: "raising wrap r = Inr a \<longleftrightarrow> r = Inr a"
  by (simp add: raising_def split: sum.split)

lemma raising_Inl_iff: "raising wrap r = Inl e \<longleftrightarrow> (\<exists>code. r = Inl code \<and> e = wrap code)"
  by (auto simp: raising_def split: sum.split)

section \<open>Tables\<close>

datatype ResourceLeaseState = ACQUIRED | RELEASED

record lease_counter =
  lc_resource_key :: string
  lc_ownership_epoch :: int
  lc_last_fencing_token :: int
  lc_updated_utc :: string

record resource_lease =
  rl_lease_id :: string
  rl_resource_key :: string
  rl_ownership_epoch :: int
  rl_fencing_token :: int
  rl_lease_mode :: string
  rl_owner_instance_id :: string
  rl_run_id :: "string option"
  rl_run_target_id :: "string option"
  rl_endpoint_id :: "string option"
  rl_endpoint_generation :: "int option"
  rl_os_lock_kind :: string
  rl_state :: ResourceLeaseState
  rl_acquired_utc :: string
  rl_heartbeat_utc :: string
  rl_released_utc :: "string option"

record intent_segment_row =
  isr_segment :: RecoveryIntentSegment
  isr_updated_utc :: string

record recovery_operation_row =
  ror_operation :: RecoveryOperation
  ror_updated_utc :: string

record recovery_event =
  rev_run_id :: string
  rev_run_sequence :: int
  rev_operation_id :: string
  rev_from_phase :: "RecoveryOperationPhase option"
  rev_to_phase :: RecoveryOperationPhase
  rev_event_utc :: string
  rev_process_instance_id :: string
  rev_payload_json :: string
  rev_previous_event_hash :: "string option"
  rev_event_hash :: string

record directory_operation_row =
  dor_operation :: DirectoryRecoveryOperation
  dor_updated_utc :: string

record directory_event =
  dre_recovery_id :: string
  dre_event_sequence :: int
  dre_from_state :: "DirectoryRecoveryState option"
  dre_to_state :: DirectoryRecoveryState
  dre_process_instance_id :: string
  dre_payload_json :: string
  dre_previous_event_hash :: "string option"
  dre_event_hash :: string

record recovery_tables =
  lease_counters :: "lease_counter list"
  resource_leases :: "resource_lease list"
  intent_segments :: "intent_segment_row list"
  recovery_operations :: "recovery_operation_row list"
  recovery_events :: "recovery_event list"
  directory_operations :: "directory_operation_row list"
  directory_events :: "directory_event list"

definition empty_recovery_tables :: recovery_tables where
  "empty_recovery_tables = \<lparr>lease_counters = [], resource_leases = [], intent_segments = [],
     recovery_operations = [], recovery_events = [], directory_operations = [], directory_events = []\<rparr>"

section \<open>Work inside a transaction\<close>

text \<open>
  The work of an operation returns a value, gives up with a \<open>ROLLBACK\<close> of its own and returns \<open>None\<close>, or
  raises.  What it has written so far is in the tables in every case.
\<close>

datatype 'a outcome = Raises recovery_error | Rolls_Back | Returns 'a

type_synonym 'a work = "recovery_tables \<Rightarrow> 'a outcome \<times> recovery_tables"

definition work_return :: "'a \<Rightarrow> 'a work" where
  "work_return v t = (Returns v, t)"

definition work_none :: "'a work" where
  "work_none t = (Rolls_Back, t)"

definition work_raise :: "recovery_error \<Rightarrow> 'a work" where
  "work_raise e t = (Raises e, t)"

definition work_then :: "'a work \<Rightarrow> ('a \<Rightarrow> 'b work) \<Rightarrow> 'b work" where
  "work_then m f t =
     (case m t of
        (Returns v, t') \<Rightarrow> f v t'
      | (Rolls_Back, t') \<Rightarrow> (Rolls_Back, t')
      | (Raises e, t') \<Rightarrow> (Raises e, t'))"

text \<open>A query that may raise.\<close>

definition work_check :: "(recovery_tables \<Rightarrow> recovery_error + 'a) \<Rightarrow> 'a work" where
  "work_check q t = (case q t of Inl e \<Rightarrow> (Raises e, t) | Inr v \<Rightarrow> (Returns v, t))"

section \<open>The connection\<close>

record recovery_connection =
  rc_tables :: recovery_tables
  rc_begun :: "recovery_tables option"

definition in_transaction :: "recovery_connection \<Rightarrow> bool" where
  "in_transaction c \<longleftrightarrow> rc_begun c \<noteq> None"

definition begin_immediate :: "recovery_connection \<Rightarrow> recovery_connection" where
  "begin_immediate c = c\<lparr>rc_begun := Some (rc_tables c)\<rparr>"

definition commit :: "recovery_connection \<Rightarrow> recovery_connection" where
  "commit c = c\<lparr>rc_begun := None\<rparr>"

definition rollback :: "recovery_connection \<Rightarrow> recovery_connection" where
  "rollback c = (case rc_begun c of None \<Rightarrow> c | Some t \<Rightarrow> \<lparr>rc_tables = t, rc_begun = None\<rparr>)"

text \<open>
  The frame.  \<open>translate\<close> is what the \<open>except\<close> clauses do with an exception: \<open>Some\<close> of what they raise after
  the rollback, \<open>None\<close> when no clause names it.
\<close>

definition transaction ::
  "(recovery_error \<Rightarrow> recovery_error option) \<Rightarrow> 'a work \<Rightarrow> recovery_connection \<Rightarrow>
   (recovery_error + 'a option) \<times> recovery_connection"
where
  "transaction translate body c =
     (let outer_transaction = in_transaction c;
          begun = (if outer_transaction then c else begin_immediate c);
          (result, tables) = body (rc_tables begun);
          after = begun\<lparr>rc_tables := tables\<rparr>
      in case result of
           Returns v \<Rightarrow> (Inr (Some v), if outer_transaction then after else commit after)
         | Rolls_Back \<Rightarrow> (Inr None, if outer_transaction then after else rollback after)
         | Raises e \<Rightarrow>
             (case translate e of
                None \<Rightarrow> (Inl e, after)
              | Some e' \<Rightarrow> (Inl e', if outer_transaction then after else rollback after)))"

text \<open>An operation of a store that another store calls while the transaction is open.\<close>

definition nested :: "(recovery_error \<Rightarrow> recovery_error option) \<Rightarrow> 'a work \<Rightarrow> 'a option work" where
  "nested translate body t =
     (case body t of
        (Returns v, t') \<Rightarrow> (Returns (Some v), t')
      | (Rolls_Back, t') \<Rightarrow> (Returns None, t')
      | (Raises e, t') \<Rightarrow> (Raises (case translate e of None \<Rightarrow> e | Some e' \<Rightarrow> e'), t'))"

text \<open>The \<open>except\<close> clauses of a store: its own exceptions pass, \<open>sqlite3.IntegrityError\<close> becomes a conflict.\<close>

definition store_handlers ::
  "(recovery_error \<Rightarrow> bool) \<Rightarrow> recovery_error \<Rightarrow> recovery_error \<Rightarrow> recovery_error option" where
  "store_handlers own conflict e =
     (if e = Integrity_Error then Some conflict else if own e then Some e else None)"

lemma store_handlers_simps [simp]:
  "store_handlers own conflict Integrity_Error = Some conflict"
  "e \<noteq> Integrity_Error \<Longrightarrow> store_handlers own conflict e = (if own e then Some e else None)"
  by (simp_all add: store_handlers_def)

section \<open>Rules for work\<close>

lemma work_simps [simp]:
  "work_return v t = (Returns v, t)" "work_none t = (Rolls_Back, t)" "work_raise e t = (Raises e, t)"
  by (simp_all add: work_return_def work_none_def work_raise_def)

lemma work_then_Returns_iff [simp]:
  "work_then m f t = (Returns v, t'') \<longleftrightarrow> (\<exists>a t'. m t = (Returns a, t') \<and> f a t' = (Returns v, t''))"
  by (simp add: work_then_def split: prod.split outcome.split)

lemma work_check_Returns_iff [simp]:
  "work_check q t = (Returns v, t') \<longleftrightarrow> q t = Inr v \<and> t' = t"
  by (auto simp: work_check_def split: sum.split)

text \<open>
  \<open>work_keeps P m\<close>: whatever \<open>m\<close> does, it does not leave \<open>P\<close>.  \<open>work_reads m\<close>: \<open>m\<close> only queries.
\<close>

definition work_keeps :: "(recovery_tables \<Rightarrow> bool) \<Rightarrow> 'a work \<Rightarrow> bool" where
  "work_keeps P m \<longleftrightarrow> (\<forall>t. P t \<longrightarrow> P (snd (m t)))"

named_theorems work_rules \<open>how work keeps an invariant\<close>

lemma work_keepsI: "(\<And>t. P t \<Longrightarrow> P (snd (m t))) \<Longrightarrow> work_keeps P m"
  by (simp add: work_keeps_def)

lemma work_keepsD: "work_keeps P m \<Longrightarrow> P t \<Longrightarrow> P (snd (m t))"
  by (simp add: work_keeps_def)

lemma work_keeps_basic [work_rules]:
  "work_keeps P (work_return v)" "work_keeps P work_none" "work_keeps P (work_raise e)"
  "work_keeps P (work_check q)"
  by (simp_all add: work_keeps_def work_check_def split: sum.split)

lemma work_keeps_then [work_rules]:
  assumes "work_keeps P m" "\<And>a. work_keeps P (f a)"
  shows "work_keeps P (work_then m f)"
  using assms unfolding work_keeps_def work_then_def
  by (force split: prod.split outcome.split)

lemma work_keeps_nested [work_rules]: "work_keeps P m \<Longrightarrow> work_keeps P (nested translate m)"
  unfolding work_keeps_def nested_def by (force split: prod.split outcome.split)

text \<open>The committed tables and the working tables of a connection.\<close>

definition connection_inv :: "(recovery_tables \<Rightarrow> bool) \<Rightarrow> recovery_connection \<Rightarrow> bool" where
  "connection_inv P c \<longleftrightarrow> P (rc_tables c) \<and> (case rc_begun c of None \<Rightarrow> True | Some t \<Rightarrow> P t)"

lemma connection_inv_begin [intro]: "connection_inv P c \<Longrightarrow> connection_inv P (begin_immediate c)"
  by (simp add: connection_inv_def begin_immediate_def)

lemma connection_inv_commit [intro]: "connection_inv P c \<Longrightarrow> connection_inv P (commit c)"
  by (simp add: connection_inv_def commit_def)

lemma connection_inv_rollback [intro]: "connection_inv P c \<Longrightarrow> connection_inv P (rollback c)"
  by (auto simp: connection_inv_def rollback_def split: option.split)

lemma transaction_keeps:
  assumes "work_keeps P body" "connection_inv P c"
  shows "connection_inv P (snd (transaction translate body c))"
proof -
  define begun where "begun = (if in_transaction c then c else begin_immediate c)"
  define after where "after = begun\<lparr>rc_tables := snd (body (rc_tables begun))\<rparr>"
  have b: "connection_inv P begun" using assms(2) by (auto simp: begun_def)
  then have "connection_inv P after"
    using work_keepsD [OF assms(1), of "rc_tables begun"] by (simp add: after_def connection_inv_def)
  moreover have "snd (transaction translate body c) \<in> {after, commit after, rollback after}"
    unfolding transaction_def Let_def begun_def [symmetric] after_def
    by (cases "body (rc_tables begun)") (simp split: outcome.split option.split)
  ultimately show ?thesis by auto
qed

text \<open>Inside a caller's transaction the frame is the nested call.\<close>

lemma transaction_in_outer:
  assumes "in_transaction c"
  shows "rc_begun (snd (transaction translate body c)) = rc_begun c"
    "rc_tables (snd (transaction translate body c)) = snd (body (rc_tables c))"
  using assms by (simp_all add: transaction_def Let_def split: prod.split outcome.split option.split)

text \<open>On its own an operation that returns is committed; one that refuses or raises what is handled is undone.\<close>

lemma transaction_alone:
  assumes "\<not> in_transaction c" "body (rc_tables c) = (r, t)"
  shows "r = Returns v \<Longrightarrow> transaction translate body c = (Inr (Some v), \<lparr>rc_tables = t, rc_begun = None\<rparr>)"
    "r = Rolls_Back \<Longrightarrow> transaction translate body c = (Inr None, c)"
    "r = Raises e \<Longrightarrow> translate e = Some e' \<Longrightarrow> transaction translate body c = (Inl e', c)"
    "r = Raises e \<Longrightarrow> translate e = None \<Longrightarrow>
       transaction translate body c = (Inl e, \<lparr>rc_tables = t, rc_begun = Some (rc_tables c)\<rparr>)"
  using assms by (cases c;
      simp add: transaction_def in_transaction_def begin_immediate_def commit_def rollback_def Let_def)+

end
