(* ===== verification/Recovery_Rows.thy ===== *)
theory Recovery_Rows
  imports Recovery_Tables
begin

text \<open>
  How a recovery operation is written to and read from its 54 columns
  (\<open>_operation_values\<close> and \<open>_operation_from_row\<close> of \<open>adapters/sqlite/recovery_operations.py\<close>), the constraints
  of the table, and what a transition's metadata changes.
\<close>

datatype sql_value = SQL_NULL | SQL_TEXT string | SQL_INT int

definition sql_text :: "string option \<Rightarrow> sql_value" where
  "sql_text v = (case v of None \<Rightarrow> SQL_NULL | Some s \<Rightarrow> SQL_TEXT s)"

definition sql_int :: "int option \<Rightarrow> sql_value" where
  "sql_int v = (case v of None \<Rightarrow> SQL_NULL | Some i \<Rightarrow> SQL_INT i)"

text \<open>\<open>str(value)\<close>, \<open>int(value)\<close> and \<open>Enum(str(value))\<close>.  A text in an \<open>INTEGER\<close> column is not a numeral.\<close>

definition text_column :: "sql_value \<Rightarrow> string" where
  "text_column v = (case v of SQL_NULL \<Rightarrow> ''None'' | SQL_TEXT s \<Rightarrow> s | SQL_INT i \<Rightarrow> show_int i)"

definition optional_text_column :: "sql_value \<Rightarrow> string option" where
  "optional_text_column v = (if v = SQL_NULL then None else Some (text_column v))"

definition int_column :: "sql_value \<Rightarrow> recovery_error + int" where
  "int_column v = (case v of SQL_INT i \<Rightarrow> Inr i | _ \<Rightarrow> Inl Value_Error)"

definition optional_int_column :: "sql_value \<Rightarrow> recovery_error + int option" where
  "optional_int_column v = (if v = SQL_NULL then Inr None else and_then (int_column v) (\<lambda>i. Inr (Some i)))"

definition enum_member :: "('a \<Rightarrow> string) \<Rightarrow> 'a list \<Rightarrow> sql_value \<Rightarrow> recovery_error + 'a" where
  "enum_member value members v =
     (case List.find (\<lambda>m. value m = text_column v) members of None \<Rightarrow> Inl Value_Error | Some m \<Rightarrow> Inr m)"

definition column :: "sql_value list \<Rightarrow> nat \<Rightarrow> sql_value" where
  "column row i = row ! i"

definition or_else :: "'a option \<Rightarrow> 'a option \<Rightarrow> 'a option" where
  "or_else new old = (case new of None \<Rightarrow> old | Some v \<Rightarrow> Some v)"

definition operation_values :: "RecoveryOperation \<Rightarrow> sql_value list" where
  "operation_values op =
     [SQL_TEXT (rop_run_id op), SQL_TEXT (rop_run_target_id op), SQL_TEXT (rop_operation_id op),
      SQL_TEXT (recovery_operation_kind_value (rop_operation_kind op)),
      SQL_INT (rop_plan_sequence_no op), sql_text (rop_source_endpoint_id op),
      sql_text (rop_source_endpoint_revision_id op), sql_text (rop_source_precondition_json op),
      SQL_TEXT (rop_target_endpoint_id op), SQL_TEXT (rop_target_endpoint_revision_id op),
      SQL_INT (rop_endpoint_generation op), SQL_TEXT (rop_owner_installation_id op),
      SQL_INT (rop_ownership_epoch op), SQL_TEXT (rop_lease_id op),
      SQL_TEXT (rop_lease_resource_key op), SQL_INT (rop_fencing_token op),
      SQL_TEXT (phase_value (rop_phase op)), sql_text (rop_source_relative_path op),
      sql_text (rop_source_guard_kind op), sql_text (rop_source_guard_evidence_hash op),
      sql_text (rop_source_hash_evidence_kind op), sql_text (rop_source_path_chain_hash op),
      sql_text (rop_source_case_context_hash op), sql_text (rop_staging_object_id op),
      SQL_TEXT (rop_final_relative_path op), sql_text (rop_version_object_id op),
      sql_text (rop_quarantine_object_id op), sql_text (rop_intent_segment_id op),
      sql_int (rop_intent_ordinal op),
      SQL_TEXT (recovery_precondition_kind_value (rop_target_precondition_kind op)),
      sql_text (rop_expected_source_fingerprint_json op),
      sql_text (rop_expected_target_fingerprint_json op),
      sql_text (rop_expected_source_parent_identity_json op),
      sql_text (rop_expected_target_parent_identity_json op),
      sql_text (rop_expected_target_path_chain_hash op),
      sql_text (rop_expected_staging_fingerprint_json op),
      sql_text (rop_expected_final_fingerprint_json op), sql_text (rop_observed_target_file_id op),
      sql_text (rop_transfer_state op), sql_text (rop_assurance_level op),
      sql_text (rop_staging_durability_state op), sql_text (rop_final_durability_state op),
      sql_text (rop_catalog_handoff_id op), sql_text (rop_last_error_code op),
      SQL_INT (rop_planned_bytes op), SQL_INT (rop_staging_failure_count op),
      sql_int (rop_staging_retry_backoff_ms op), sql_text (rop_staging_retry_not_before_utc op),
      sql_text (rop_job_id op), sql_text (rop_job_revision_id op), sql_text (rop_retention_policy op),
      sql_text (rop_version_created_utc op), sql_text (rop_version_retention_until_utc op),
      sql_text (rop_version_manifest_hash op)]"

definition operation_from_row :: "sql_value list \<Rightarrow> recovery_error + RecoveryOperation" where
  "operation_from_row row =
     and_then (enum_member recovery_operation_kind_value [COPY_NEW, CREATE_DIRECTORY] (column row 3)) (\<lambda>operation_kind.
     and_then (int_column (column row 4)) (\<lambda>plan_sequence_no.
     and_then (int_column (column row 10)) (\<lambda>endpoint_generation.
     and_then (int_column (column row 12)) (\<lambda>ownership_epoch.
     and_then (int_column (column row 15)) (\<lambda>fencing_token.
     and_then (enum_member phase_value RECOVERY_OPERATION_PHASES (column row 16)) (\<lambda>phase.
     and_then (optional_int_column (column row 28)) (\<lambda>intent_ordinal.
     and_then (enum_member recovery_precondition_kind_value [ABSENT, MATCH_FINGERPRINT, DIRECTORY_EMPTY, NONE]
        (column row 29)) (\<lambda>target_precondition_kind.
     and_then (int_column (column row 44)) (\<lambda>planned_bytes.
     and_then (int_column (column row 45)) (\<lambda>staging_failure_count.
     and_then (optional_int_column (column row 46)) (\<lambda>staging_retry_backoff_ms.
       Inr \<lparr>
         rop_run_id = text_column (column row 0), rop_run_target_id = text_column (column row 1),
         rop_operation_id = text_column (column row 2),
         rop_target_endpoint_id = text_column (column row 8),
         rop_target_endpoint_revision_id = text_column (column row 9),
         rop_endpoint_generation = endpoint_generation,
         rop_owner_installation_id = text_column (column row 11),
         rop_ownership_epoch = ownership_epoch, rop_lease_id = text_column (column row 13),
         rop_lease_resource_key = text_column (column row 14), rop_fencing_token = fencing_token,
         rop_phase = phase, rop_final_relative_path = text_column (column row 24),
         rop_target_precondition_kind = target_precondition_kind, rop_operation_kind = operation_kind,
         rop_plan_sequence_no = plan_sequence_no, rop_planned_bytes = planned_bytes,
         rop_job_id = optional_text_column (column row 48),
         rop_job_revision_id = optional_text_column (column row 49),
         rop_retention_policy = optional_text_column (column row 50),
         rop_source_endpoint_id = optional_text_column (column row 5),
         rop_source_endpoint_revision_id = optional_text_column (column row 6),
         rop_source_relative_path = optional_text_column (column row 17),
         rop_source_precondition_json = optional_text_column (column row 7),
         rop_source_guard_kind = optional_text_column (column row 18),
         rop_source_guard_evidence_hash = optional_text_column (column row 19),
         rop_source_hash_evidence_kind = optional_text_column (column row 20),
         rop_source_path_chain_hash = optional_text_column (column row 21),
         rop_source_case_context_hash = optional_text_column (column row 22),
         rop_staging_object_id = optional_text_column (column row 23),
         rop_version_object_id = optional_text_column (column row 25),
         rop_version_created_utc = optional_text_column (column row 51),
         rop_version_retention_until_utc = optional_text_column (column row 52),
         rop_version_manifest_hash = optional_text_column (column row 53),
         rop_quarantine_object_id = optional_text_column (column row 26),
         rop_intent_segment_id = optional_text_column (column row 27),
         rop_intent_ordinal = intent_ordinal,
         rop_expected_source_fingerprint_json = optional_text_column (column row 30),
         rop_expected_target_fingerprint_json = optional_text_column (column row 31),
         rop_expected_source_parent_identity_json = optional_text_column (column row 32),
         rop_expected_target_parent_identity_json = optional_text_column (column row 33),
         rop_expected_target_path_chain_hash = optional_text_column (column row 34),
         rop_expected_staging_fingerprint_json = optional_text_column (column row 35),
         rop_expected_final_fingerprint_json = optional_text_column (column row 36),
         rop_observed_target_file_id = optional_text_column (column row 37),
         rop_transfer_state = optional_text_column (column row 38),
         rop_assurance_level = optional_text_column (column row 39),
         rop_staging_durability_state = optional_text_column (column row 40),
         rop_final_durability_state = optional_text_column (column row 41),
         rop_catalog_handoff_id = optional_text_column (column row 42),
         rop_last_error_code = optional_text_column (column row 43),
         rop_staging_failure_count = staging_failure_count,
         rop_staging_retry_backoff_ms = staging_retry_backoff_ms,
         rop_staging_retry_not_before_utc = optional_text_column (column row 47)\<rparr>)))))))))))"

definition apply_operation_metadata :: "RecoveryOperation \<Rightarrow> RecoveryOperationMetadata option \<Rightarrow> RecoveryOperation" where
  "apply_operation_metadata op metadata =
     (case metadata of
        None \<Rightarrow> op
      | Some md \<Rightarrow> op\<lparr>
          rop_source_guard_kind := or_else (rom_source_guard_kind md) (rop_source_guard_kind op),
          rop_source_guard_evidence_hash := or_else (rom_source_guard_evidence_hash md) (rop_source_guard_evidence_hash op),
          rop_source_hash_evidence_kind := or_else (rom_source_hash_evidence_kind md) (rop_source_hash_evidence_kind op),
          rop_staging_object_id := or_else (rom_staging_object_id md) (rop_staging_object_id op),
          rop_version_object_id := or_else (rom_version_object_id md) (rop_version_object_id op),
          rop_version_created_utc := or_else (rom_version_created_utc md) (rop_version_created_utc op),
          rop_version_retention_until_utc := or_else (rom_version_retention_until_utc md) (rop_version_retention_until_utc op),
          rop_version_manifest_hash := or_else (rom_version_manifest_hash md) (rop_version_manifest_hash op),
          rop_quarantine_object_id := or_else (rom_quarantine_object_id md) (rop_quarantine_object_id op),
          rop_expected_source_fingerprint_json := or_else (rom_expected_source_fingerprint_json md) (rop_expected_source_fingerprint_json op),
          rop_expected_target_fingerprint_json := or_else (rom_expected_target_fingerprint_json md) (rop_expected_target_fingerprint_json op),
          rop_expected_staging_fingerprint_json := or_else (rom_expected_staging_fingerprint_json md) (rop_expected_staging_fingerprint_json op),
          rop_expected_final_fingerprint_json := or_else (rom_expected_final_fingerprint_json md) (rop_expected_final_fingerprint_json op),
          rop_transfer_state := or_else (rom_transfer_state md) (rop_transfer_state op),
          rop_assurance_level := or_else (rom_assurance_level md) (rop_assurance_level op),
          rop_staging_durability_state := or_else (rom_staging_durability_state md) (rop_staging_durability_state op),
          rop_final_durability_state := or_else (rom_final_durability_state md) (rop_final_durability_state op),
          rop_last_error_code := or_else (rom_last_error_code md) (rop_last_error_code op)\<rparr>)"

section \<open>Constraints\<close>

definition length_64 :: "string option \<Rightarrow> bool" where
  "length_64 v = (case v of None \<Rightarrow> True | Some h \<Rightarrow> length h = 64)"

definition recovery_row_ok :: "RecoveryOperation \<Rightarrow> bool" where
  "recovery_row_ok op \<longleftrightarrow>
     1 \<le> rop_endpoint_generation op \<and> 1 \<le> rop_ownership_epoch op \<and> 1 \<le> rop_fencing_token op
     \<and> 0 \<le> rop_plan_sequence_no op \<and> 0 \<le> rop_planned_bytes op \<and> 0 \<le> rop_staging_failure_count op
     \<and> list_all length_64 [rop_source_guard_evidence_hash op, rop_source_path_chain_hash op,
         rop_source_case_context_hash op, rop_expected_target_path_chain_hash op, rop_version_manifest_hash op]
     \<and> (case rop_intent_ordinal op of None \<Rightarrow> True | Some n \<Rightarrow> 0 \<le> n)
     \<and> (case rop_staging_retry_backoff_ms op of None \<Rightarrow> True | Some ms \<Rightarrow> 1 \<le> ms \<and> ms \<le> 30000)
     \<and> (case rop_staging_retry_not_before_utc op of None \<Rightarrow> True
        | Some u \<Rightarrow> 20 \<le> length u \<and> length u \<le> 64 \<and> last u = CHR ''Z'')
     \<and> rop_retention_policy op \<in> {None, Some ''THIRTY_DAYS''}
     \<and> (rop_phase op \<in> set PHASES_REQUIRING_INTENT \<longrightarrow>
          rop_intent_segment_id op \<noteq> None \<and> rop_intent_ordinal op \<noteq> None)"

text \<open>The foreign keys of a row, and the unique index over the place of an operation in its segment.\<close>

definition recovery_row_references_ok :: "recovery_tables \<Rightarrow> RecoveryOperation \<Rightarrow> bool" where
  "recovery_row_references_ok t op \<longleftrightarrow>
     list_ex (\<lambda>l. rl_lease_id l = rop_lease_id op) (resource_leases t)
     \<and> (case rop_intent_segment_id op of None \<Rightarrow> True
        | Some s \<Rightarrow> list_ex (\<lambda>r. ris_segment_id (isr_segment r) = s) (intent_segments t))"

definition intent_place :: "recovery_operation_row \<Rightarrow> (string \<times> int) option" where
  "intent_place r =
     (case (rop_intent_segment_id (ror_operation r), rop_intent_ordinal (ror_operation r)) of
        (Some s, Some n) \<Rightarrow> Some (s, n) | _ \<Rightarrow> None)"

definition intent_places_unique :: "recovery_operation_row list \<Rightarrow> bool" where
  "intent_places_unique rows \<longleftrightarrow> distinct (List.map_filter intent_place rows)"

section \<open>Writing and reading back\<close>

lemma column_simps [simp]:
  "column (v # vs) 0 = v" "column (v # vs) (Suc n) = column vs n"
  "column (v # vs) (numeral k) = column vs (pred_numeral k)"
  by (simp_all add: column_def)

lemma column_values [simp]:
  "text_column (SQL_TEXT s) = s" "int_column (SQL_INT i) = Inr i"
  "optional_text_column (sql_text v) = v" "optional_int_column (sql_int w) = Inr w"
  by (simp_all add: text_column_def int_column_def optional_text_column_def optional_int_column_def
      sql_text_def sql_int_def split: option.split)

lemma enum_member_found:
  assumes "m \<in> set members" "inj_on value (set members)"
  shows "enum_member value members (SQL_TEXT (value m)) = Inr m"
proof -
  have "List.find (\<lambda>x. value x = value m) members = Some m"
    using assms by (induction members) (auto simp: inj_on_def)
  then show ?thesis by (simp add: enum_member_def)
qed

lemma phase_value_eq [simp]: "phase_value p = phase_value q \<longleftrightarrow> p = q"
  by (cases p; cases q) simp_all

lemma phases_complete [simp]: "p \<in> set RECOVERY_OPERATION_PHASES"
  by (cases p) (simp_all add: RECOVERY_OPERATION_PHASES_def)

lemma kind_value_eqs [simp]:
  "recovery_operation_kind_value a = recovery_operation_kind_value b \<longleftrightarrow> a = b"
  "recovery_precondition_kind_value c = recovery_precondition_kind_value d \<longleftrightarrow> c = d"
  by ((cases a; cases b), simp_all, (cases c; cases d), simp_all)

lemma enum_members [simp]:
  "enum_member phase_value RECOVERY_OPERATION_PHASES (SQL_TEXT (phase_value p)) = Inr p"
  "enum_member recovery_operation_kind_value [COPY_NEW, CREATE_DIRECTORY]
     (SQL_TEXT (recovery_operation_kind_value k)) = Inr k"
  "enum_member recovery_precondition_kind_value [ABSENT, MATCH_FINGERPRINT, DIRECTORY_EMPTY, NONE]
     (SQL_TEXT (recovery_precondition_kind_value c)) = Inr c"
  by (rule enum_member_found, simp, simp add: inj_on_def)
     (rule enum_member_found, (cases k; simp), simp add: inj_on_def,
      rule enum_member_found, (cases c; simp), simp add: inj_on_def)

lemma operation_from_values [simp]: "operation_from_row (operation_values op) = Inr op"
  unfolding operation_from_row_def operation_values_def by simp

end
