(* ===== verification/Directory_Store.thy ===== *)
theory Directory_Store
  imports Recovery_Tables
begin

text \<open>
  \<open>adapters/sqlite/directory_recovery.py\<close>: the journal of directory recoveries.  Each recovery keeps its state,
  the number of its last event and that event's hash; the events form a hash chain that starts at one.  A row is
  validated whenever it is read.
\<close>

definition directory_handlers :: "string \<Rightarrow> recovery_error \<Rightarrow> recovery_error option" where
  "directory_handlers conflict = store_handlers is_Directory_Store_Error (Directory_Store_Error conflict)"

definition directory_event_hash ::
  "string \<Rightarrow> int \<Rightarrow> DirectoryRecoveryState option \<Rightarrow> DirectoryRecoveryState \<Rightarrow> string \<Rightarrow> string \<Rightarrow>
   string option \<Rightarrow> string"
where
  "directory_event_hash recovery_id event_sequence from_state to_state process_instance_id payload_json
       previous_event_hash =
     sha256_hexdigest (utf8 (json_dumps True (JObj
       [(''event_sequence'', JInt event_sequence),
        (''from_state'', (case from_state of None \<Rightarrow> JNull | Some s \<Rightarrow> JStr (directory_state_value s))),
        (''payload_json'', JStr payload_json),
        (''previous_event_hash'', (case previous_event_hash of None \<Rightarrow> JNull | Some h \<Rightarrow> JStr h)),
        (''process_instance_id'', JStr process_instance_id),
        (''recovery_id'', JStr recovery_id),
        (''schema_version'', JInt 1),
        (''to_state'', JStr (directory_state_value to_state))])))"

section \<open>Reading\<close>

text \<open>The state column holds the value; the member is looked up among those of the row's kind.\<close>

definition directory_operation_from_row ::
  "DirectoryRecoveryOperation \<Rightarrow> recovery_error + DirectoryRecoveryOperation" where
  "directory_operation_from_row row =
     (case directory_state_from_value (dro_kind row) (directory_state_value (dro_state row)) of
        None \<Rightarrow> Inl Value_Error
      | Some state \<Rightarrow>
          (let operation = row\<lparr>dro_state := state\<rparr>
           in and_then (raising Directory_Violation (validate_directory_recovery_operation operation))
                (\<lambda>_. Inr operation)))"

definition load_directory_recovery_operation ::
  "string \<Rightarrow> recovery_tables \<Rightarrow> recovery_error + DirectoryRecoveryOperation option" where
  "load_directory_recovery_operation recovery_id t =
     (case List.find (\<lambda>r. dro_recovery_id (dor_operation r) = recovery_id) (directory_operations t) of
        None \<Rightarrow> Inr None
      | Some r \<Rightarrow> and_then (directory_operation_from_row (dor_operation r)) (\<lambda>operation. Inr (Some operation)))"

fun rows_of :: "(recovery_error + 'a) list \<Rightarrow> recovery_error + 'a list" where
  "rows_of [] = Inr []"
| "rows_of (r # rs) = and_then r (\<lambda>a. and_then (rows_of rs) (\<lambda>as. Inr (a # as)))"

definition DIRECTORY_CONFLICT_STATES :: "DirectoryRecoveryState list" where
  "DIRECTORY_CONFLICT_STATES = map CONFLICT_STATE_BY_KIND [CREATE, METADATA, QUARANTINE, RESTORE]"

definition DIRECTORY_TERMINAL_STATES :: "DirectoryRecoveryState list" where
  "DIRECTORY_TERMINAL_STATES =
     map (\<lambda>k. last (SUCCESS_PATH_BY_KIND k)) [CREATE, METADATA, QUARANTINE, RESTORE] @ DIRECTORY_CONFLICT_STATES"

definition list_directory_operations ::
  "(DirectoryRecoveryOperation \<Rightarrow> bool) \<Rightarrow> int \<Rightarrow> recovery_tables \<Rightarrow>
   recovery_error + DirectoryRecoveryOperation list"
where
  "list_directory_operations wanted limit t =
     (if limit < 1 \<or> 1000 < limit then Inl (Directory_Store_Error ''DIRECTORY_RECOVERY_LIST_LIMIT_INVALID'')
      else rows_of (map (\<lambda>r. directory_operation_from_row (dor_operation r)) (take (nat limit)
        (sort_key (\<lambda>r. (dor_updated_utc r, dro_recovery_id (dor_operation r)))
          (filter (\<lambda>r. wanted (dor_operation r)) (directory_operations t))))))"

definition list_unresolved_directory_recovery_operations ::
  "int \<Rightarrow> recovery_tables \<Rightarrow> recovery_error + DirectoryRecoveryOperation list" where
  "list_unresolved_directory_recovery_operations =
     list_directory_operations (\<lambda>op. \<not> state_in (dro_state op) DIRECTORY_TERMINAL_STATES)"

definition list_conflicted_directory_recovery_operations ::
  "int \<Rightarrow> recovery_tables \<Rightarrow> recovery_error + DirectoryRecoveryOperation list" where
  "list_conflicted_directory_recovery_operations =
     list_directory_operations (\<lambda>op. state_in (dro_state op) DIRECTORY_CONFLICT_STATES)"

section \<open>Constraints\<close>

text \<open>
  The \<open>CHECK\<close> constraints of \<open>directory_recovery_operations\<close>.  Of \<open>json_valid\<close> only that the text parses is
  used, which the validation has established before.
\<close>

definition directory_row_ok :: "DirectoryRecoveryOperation \<Rightarrow> bool" where
  "directory_row_ok op \<longleftrightarrow>
     list_all (\<lambda>s. sql_trim s \<noteq> []) [dro_recovery_id op, dro_operation_id op, dro_run_id op, dro_run_target_id op,
       dro_target_endpoint_id op, dro_target_endpoint_revision_id op, dro_owner_installation_id op,
       dro_final_relative_path op]
     \<and> 1 \<le> dro_ownership_epoch op \<and> 0 \<le> dro_event_sequence op \<and> 1 \<le> dro_row_version op
     \<and> (case dro_event_hash op of None \<Rightarrow> True | Some h \<Rightarrow> is_hex64 h)
     \<and> (dro_event_sequence op = 0 \<longleftrightarrow> dro_event_hash op = None)
     \<and> (state_in (dro_state op) DIRECTORY_CONFLICT_STATES \<longrightarrow>
          (case dro_last_error_code op of None \<Rightarrow> False | Some e \<Rightarrow> sql_trim e \<noteq> []))
     \<and> state_in (dro_state op) (directory_states_of_kind (dro_kind op))"

text \<open>\<open>trg_directory_recovery_monotone_state\<close>: the successors the trigger admits, on the stored values.\<close>

definition directory_trigger_successors :: "(string \<times> string list) list" where
  "directory_trigger_successors =
     [(''DIRECTORY_PLANNED'', [''DIRECTORY_PARENT_VALIDATED'', ''DIRECTORY_TYPE_CONFLICT'']),
      (''DIRECTORY_PARENT_VALIDATED'', [''DIRECTORY_CREATE_INTENT_RECORDED'', ''DIRECTORY_TYPE_CONFLICT'']),
      (''DIRECTORY_CREATE_INTENT_RECORDED'', [''DIRECTORY_CREATED'', ''DIRECTORY_TYPE_CONFLICT'']),
      (''DIRECTORY_CREATED'', [''DIRECTORY_IDENTITY_VERIFIED'', ''DIRECTORY_TYPE_CONFLICT'']),
      (''DIRECTORY_IDENTITY_VERIFIED'', [''DIRECTORY_CATALOG_RECORDED'', ''DIRECTORY_TYPE_CONFLICT'']),
      (''DIRECTORY_METADATA_PLANNED'', [''CHILDREN_TERMINAL'', ''DIRECTORY_METADATA_CONFLICT'']),
      (''CHILDREN_TERMINAL'', [''METADATA_PRECONDITION_VALIDATED'', ''DIRECTORY_METADATA_CONFLICT'']),
      (''METADATA_PRECONDITION_VALIDATED'', [''METADATA_INTENT_RECORDED'', ''DIRECTORY_METADATA_CONFLICT'']),
      (''METADATA_INTENT_RECORDED'', [''METADATA_APPLIED'', ''DIRECTORY_METADATA_CONFLICT'']),
      (''METADATA_APPLIED'', [''METADATA_VERIFIED'', ''DIRECTORY_METADATA_CONFLICT'']),
      (''METADATA_VERIFIED'', [''DIRECTORY_CATALOG_RECORDED'', ''DIRECTORY_METADATA_CONFLICT'']),
      (''DIRECTORY_QUARANTINE_PLANNED'', [''DIRECTORY_EMPTY_REVALIDATED'', ''DIRECTORY_QUARANTINE_CONFLICT'']),
      (''DIRECTORY_EMPTY_REVALIDATED'', [''QUARANTINE_INTENT_RECORDED'', ''DIRECTORY_QUARANTINE_CONFLICT'']),
      (''QUARANTINE_INTENT_RECORDED'', [''DIRECTORY_OBJECT_PRESERVED'', ''DIRECTORY_QUARANTINE_CONFLICT'']),
      (''DIRECTORY_OBJECT_PRESERVED'', [''SOURCE_PATH_REMOVED'', ''DIRECTORY_QUARANTINE_CONFLICT'']),
      (''SOURCE_PATH_REMOVED'', [''QUARANTINE_CATALOG_RECORDED'', ''DIRECTORY_QUARANTINE_CONFLICT'']),
      (''DIRECTORY_RESTORE_PLANNED'', [''RESTORE_TARGET_ABSENT_REVALIDATED'', ''DIRECTORY_RESTORE_CONFLICT'']),
      (''RESTORE_TARGET_ABSENT_REVALIDATED'', [''RESTORE_INTENT_RECORDED'', ''DIRECTORY_RESTORE_CONFLICT'']),
      (''RESTORE_INTENT_RECORDED'', [''DIRECTORY_RESTORED'', ''DIRECTORY_RESTORE_CONFLICT'']),
      (''DIRECTORY_RESTORED'', [''DIRECTORY_RESTORE_VERIFIED'', ''DIRECTORY_RESTORE_CONFLICT'']),
      (''DIRECTORY_RESTORE_VERIFIED'', [''RESTORE_CATALOG_RECORDED'', ''DIRECTORY_RESTORE_CONFLICT''])]"

definition directory_state_monotone :: "DirectoryRecoveryState \<Rightarrow> DirectoryRecoveryState \<Rightarrow> bool" where
  "directory_state_monotone old new \<longleftrightarrow>
     directory_state_value new = directory_state_value old
     \<or> (case map_of directory_trigger_successors (directory_state_value old) of
          None \<Rightarrow> False | Some news \<Rightarrow> directory_state_value new \<in> set news)"

section \<open>Writing\<close>

definition insert_directory_operation :: "string \<Rightarrow> DirectoryRecoveryOperation \<Rightarrow> unit work" where
  "insert_directory_operation now op t =
     (let rows = map dor_operation (directory_operations t) in
      if \<not> directory_row_ok op
        \<or> list_ex (\<lambda>r. dro_recovery_id r = dro_recovery_id op) rows
        \<or> list_ex (\<lambda>r. dro_run_id r = dro_run_id op \<and> dro_operation_id r = dro_operation_id op
             \<and> dro_kind r = dro_kind op) rows
      then (Raises Integrity_Error, t)
      else (Returns (), t\<lparr>directory_operations :=
             directory_operations t @ [\<lparr>dor_operation = op, dor_updated_utc = now\<rparr>]\<rparr>))"

definition insert_directory_event :: "directory_event \<Rightarrow> unit work" where
  "insert_directory_event e t =
     (if dre_event_sequence e < 1 \<or> sql_trim (dre_process_instance_id e) = []
        \<or> (case dre_previous_event_hash e of None \<Rightarrow> False | Some h \<Rightarrow> \<not> is_hex64 h)
        \<or> \<not> is_hex64 (dre_event_hash e)
        \<or> list_ex (\<lambda>d. dre_recovery_id d = dre_recovery_id e \<and> dre_event_sequence d = dre_event_sequence e)
            (directory_events t)
        \<or> \<not> list_ex (\<lambda>r. dro_recovery_id (dor_operation r) = dre_recovery_id e) (directory_operations t)
      then (Raises Integrity_Error, t)
      else (Returns (), t\<lparr>directory_events := directory_events t @ [e]\<rparr>))"

definition update_directory_operations ::
  "(DirectoryRecoveryOperation \<Rightarrow> bool) \<Rightarrow> (directory_operation_row \<Rightarrow> directory_operation_row) \<Rightarrow> nat work" where
  "update_directory_operations p f t =
     (let q = (\<lambda>r. p (dor_operation r)) in
      if list_all (\<lambda>r. q r \<longrightarrow> directory_row_ok (dor_operation (f r))
           \<and> directory_state_monotone (dro_state (dor_operation r)) (dro_state (dor_operation (f r))))
         (directory_operations t)
      then (Returns (sql_count q (directory_operations t)),
            t\<lparr>directory_operations := sql_update q f (directory_operations t)\<rparr>)
      else (Raises Integrity_Error, t))"

definition immutable_signature_eq :: "DirectoryRecoveryOperation \<Rightarrow> DirectoryRecoveryOperation \<Rightarrow> bool" where
  "immutable_signature_eq a b \<longleftrightarrow>
     (dro_recovery_id a, dro_operation_id a, dro_run_id a, dro_run_target_id a, dro_target_endpoint_id a,
      dro_target_endpoint_revision_id a, dro_owner_installation_id a, dro_ownership_epoch a, dro_kind a,
      dro_final_relative_path a, dro_expected_precondition_json a, dro_desired_metadata_json a) =
     (dro_recovery_id b, dro_operation_id b, dro_run_id b, dro_run_target_id b, dro_target_endpoint_id b,
      dro_target_endpoint_revision_id b, dro_owner_installation_id b, dro_ownership_epoch b, dro_kind b,
      dro_final_relative_path b, dro_expected_precondition_json b, dro_desired_metadata_json b)"

text \<open>The row must be there after the write.\<close>

definition load_recorded_directory_operation :: "string \<Rightarrow> DirectoryRecoveryOperation work" where
  "load_recorded_directory_operation recovery_id =
     work_check (\<lambda>t. and_then (load_directory_recovery_operation recovery_id t) (\<lambda>loaded.
       case loaded of
         None \<Rightarrow> Inl (Directory_Store_Error ''DIRECTORY_RECOVERY_LOAD_FAILED'')
       | Some op \<Rightarrow> Inr op))"

section \<open>Recording a recovery\<close>

definition record_directory_work ::
  "string \<Rightarrow> DirectoryRecoveryOperation \<Rightarrow> string \<Rightarrow> (string \<times> json) list \<Rightarrow> DirectoryRecoveryOperation work"
where
  "record_directory_work now op process_instance_id payload =
     work_then (work_check (load_directory_recovery_operation (dro_recovery_id op))) (\<lambda>loaded.
       case loaded of
         Some existing \<Rightarrow>
           if \<not> immutable_signature_eq existing op
           then work_raise (Directory_Store_Error ''DIRECTORY_RECOVERY_IDEMPOTENCY_CONFLICT'')
           else work_return existing
       | None \<Rightarrow>
           (let payload_json = canonical_directory_recovery_payload payload;
                event_hash = directory_event_hash (dro_recovery_id op) 1 None (dro_state op)
                  process_instance_id payload_json None
            in work_then (insert_directory_operation now op) (\<lambda>_.
               work_then (insert_directory_event \<lparr>dre_recovery_id = dro_recovery_id op, dre_event_sequence = 1,
                   dre_from_state = None, dre_to_state = dro_state op,
                   dre_process_instance_id = process_instance_id, dre_payload_json = payload_json,
                   dre_previous_event_hash = None, dre_event_hash = event_hash\<rparr>) (\<lambda>_.
               work_then (update_directory_operations
                   (\<lambda>r. dro_recovery_id r = dro_recovery_id op \<and> dro_event_sequence r = 0)
                   (\<lambda>r. r\<lparr>dor_operation := (dor_operation r)\<lparr>dro_event_sequence := 1,
                      dro_event_hash := Some event_hash\<rparr>\<rparr>)) (\<lambda>_.
               load_recorded_directory_operation (dro_recovery_id op))))))"

text \<open>What is checked before the transaction begins; the nested call of the recovery store runs it too.\<close>

definition record_directory_precheck ::
  "DirectoryRecoveryOperation \<Rightarrow> string \<Rightarrow> recovery_error + unit" where
  "record_directory_precheck op process_instance_id =
     and_then (raising Directory_Violation (validate_directory_recovery_operation op)) (\<lambda>_.
       if untrimmed process_instance_id
       then Inl (Directory_Store_Error ''DIRECTORY_RECOVERY_PROCESS_INSTANCE_INVALID'')
       else if dro_state op \<noteq> INITIAL_STATE_BY_KIND (dro_kind op) \<or> dro_event_sequence op \<noteq> 0
         \<or> dro_event_hash op \<noteq> None \<or> dro_row_version op \<noteq> 1 \<or> dro_managed_object_id op \<noteq> None
         \<or> dro_last_error_code op \<noteq> None
       then Inl (Directory_Store_Error ''DIRECTORY_RECOVERY_INSERT_STATE_INVALID'')
       else Inr ())"

definition record_directory_recovery_operation ::
  "string \<Rightarrow> DirectoryRecoveryOperation \<Rightarrow> string \<Rightarrow> (string \<times> json) list \<Rightarrow> recovery_connection \<Rightarrow>
   (recovery_error + DirectoryRecoveryOperation option) \<times> recovery_connection"
where
  "record_directory_recovery_operation now op process_instance_id payload c =
     (case record_directory_precheck op process_instance_id of
        Inl e \<Rightarrow> (Inl e, c)
      | Inr _ \<Rightarrow> transaction (directory_handlers ''DIRECTORY_RECOVERY_PERSISTENCE_CONFLICT'')
          (record_directory_work now op process_instance_id payload) c)"

section \<open>Transitions\<close>

definition validate_replay_evidence ::
  "DirectoryRecoveryOperation \<Rightarrow> DirectoryRecoveryTransition \<Rightarrow> recovery_error + unit" where
  "validate_replay_evidence op transition =
     (if list_ex (\<lambda>(persisted, requested).
           case requested of None \<Rightarrow> False | Some v \<Rightarrow> persisted \<noteq> Some (strip v))
         [(dro_managed_object_id op, drt_managed_object_id transition),
          (dro_last_error_code op, drt_last_error_code transition)]
      then Inl (Directory_Store_Error ''DIRECTORY_RECOVERY_REPLAY_EVIDENCE_CONFLICT'') else Inr ())"

definition normalized_evidence :: "string option \<Rightarrow> string option \<Rightarrow> recovery_error + string option" where
  "normalized_evidence current requested =
     (case requested of
        None \<Rightarrow> Inr current
      | Some v \<Rightarrow>
          if untrimmed v then Inl (Directory_Store_Error ''DIRECTORY_RECOVERY_EVIDENCE_INVALID'')
          else Inr (Some (strip v)))"

definition apply_directory_transition ::
  "string \<Rightarrow> DirectoryRecoveryOperation \<Rightarrow> DirectoryRecoveryTransition \<Rightarrow> DirectoryRecoveryOperation work"
where
  "apply_directory_transition now current transition =
     work_then (work_check (\<lambda>_. raising Directory_Violation
        (validate_directory_recovery_transition current transition))) (\<lambda>_.
     work_then (work_check (\<lambda>_. normalized_evidence (dro_managed_object_id current)
        (drt_managed_object_id transition))) (\<lambda>managed_object_id.
     work_then (work_check (\<lambda>_. normalized_evidence (dro_last_error_code current)
        (drt_last_error_code transition))) (\<lambda>last_error_code.
       let payload_json = canonical_directory_recovery_payload (drt_payload transition);
           next_sequence = dro_event_sequence current + 1;
           event_hash = directory_event_hash (dro_recovery_id current) next_sequence (Some (dro_state current))
             (drt_next_state transition) (drt_process_instance_id transition) payload_json (dro_event_hash current)
       in
       work_then (insert_directory_event \<lparr>dre_recovery_id = dro_recovery_id current,
           dre_event_sequence = next_sequence, dre_from_state = Some (dro_state current),
           dre_to_state = drt_next_state transition,
           dre_process_instance_id = drt_process_instance_id transition, dre_payload_json = payload_json,
           dre_previous_event_hash = dro_event_hash current, dre_event_hash = event_hash\<rparr>) (\<lambda>_.
       work_then (update_directory_operations
           (\<lambda>r. dro_recovery_id r = dro_recovery_id current
              \<and> directory_state_value (dro_state r) = directory_state_value (dro_state current)
              \<and> dro_event_sequence r = dro_event_sequence current \<and> dro_row_version r = dro_row_version current)
           (\<lambda>r. r\<lparr>dor_operation := (dor_operation r)\<lparr>dro_state := drt_next_state transition,
                dro_managed_object_id := managed_object_id, dro_last_error_code := last_error_code,
                dro_event_sequence := next_sequence, dro_event_hash := Some event_hash,
                dro_row_version := dro_row_version (dor_operation r) + 1\<rparr>,
              dor_updated_utc := now\<rparr>)) (\<lambda>rowcount.
       if rowcount \<noteq> 1 then work_raise (Directory_Store_Error ''DIRECTORY_RECOVERY_CONCURRENT_UPDATE'')
       else load_recorded_directory_operation (dro_recovery_id current))))))"

definition transition_directory_work ::
  "string \<Rightarrow> DirectoryRecoveryTransition \<Rightarrow> DirectoryRecoveryOperation work" where
  "transition_directory_work now transition =
     work_then (work_check (load_directory_recovery_operation (drt_recovery_id transition))) (\<lambda>loaded.
       case loaded of
         None \<Rightarrow> work_none
       | Some current \<Rightarrow>
           if dro_state current = drt_next_state transition
           then
             work_then (work_check (\<lambda>_. raising Directory_Violation (validate_directory_recovery_transition
               (current\<lparr>dro_state := drt_expected_state transition\<rparr>) transition))) (\<lambda>_.
             work_then (work_check (\<lambda>_. validate_replay_evidence current transition)) (\<lambda>_.
             work_return current))
           else if dro_state current \<noteq> drt_expected_state transition then work_none
           else apply_directory_transition now current transition)"

definition transition_directory_recovery_operation ::
  "string \<Rightarrow> DirectoryRecoveryTransition \<Rightarrow> recovery_connection \<Rightarrow>
   (recovery_error + DirectoryRecoveryOperation option) \<times> recovery_connection"
where
  "transition_directory_recovery_operation now transition c =
     (if untrimmed (drt_process_instance_id transition)
      then (Inl (Directory_Store_Error ''DIRECTORY_RECOVERY_PROCESS_INSTANCE_INVALID''), c)
      else transaction (directory_handlers ''DIRECTORY_RECOVERY_TRANSITION_CONFLICT'')
        (transition_directory_work now transition) c)"

end
