(* ===== verification/Resource_Leases.thy ===== *)
theory Resource_Leases
  imports Recovery_Tables
begin

text \<open>
  \<open>adapters/sqlite/lease_tokens.py\<close>: fencing tokens per resource and ownership epoch, and the leases that are
  registered with them.  Of the exceptions' code and advice the code is kept.  \<open>now\<close> is SQLite's \<open>strftime('now')\<close>.
\<close>

definition fencing_handlers :: "recovery_error \<Rightarrow> recovery_error option" where
  "fencing_handlers =
     store_handlers is_Fencing_Error (Fencing_Error ''ENDPOINT_FENCING_TOKEN_PERSISTENCE_FAILED'')"

definition lease_handlers :: "recovery_error \<Rightarrow> recovery_error option" where
  "lease_handlers =
     store_handlers (\<lambda>e. is_Lease_Error e \<or> is_Fencing_Error e)
       (Lease_Error ''ENDPOINT_RESOURCE_LEASE_PERSISTENCE_FAILED'')"

section \<open>Fencing tokens\<close>

definition insert_lease_counter :: "lease_counter \<Rightarrow> unit work" where
  "insert_lease_counter row t =
     (if lc_resource_key row \<in> set (map lc_resource_key (lease_counters t))
        \<or> lc_ownership_epoch row < 1 \<or> lc_last_fencing_token row < 0
      then (Raises Integrity_Error, t)
      else (Returns (), t\<lparr>lease_counters := lease_counters t @ [row]\<rparr>))"

definition update_lease_counter ::
  "(lease_counter \<Rightarrow> bool) \<Rightarrow> (lease_counter \<Rightarrow> lease_counter) \<Rightarrow> unit work" where
  "update_lease_counter p f t =
     (if sql_count p (lease_counters t) \<noteq> 1
      then (Raises (Fencing_Error ''ENDPOINT_FENCING_TOKEN_ALLOCATE_CONFLICT''), t)
      else (Returns (), t\<lparr>lease_counters := sql_update p f (lease_counters t)\<rparr>))"

definition allocate_token :: "string \<Rightarrow> string \<Rightarrow> int \<Rightarrow> int work" where
  "allocate_token now resource_key ownership_epoch t =
     (case List.find (\<lambda>c. lc_resource_key c = resource_key) (lease_counters t) of
        None \<Rightarrow>
          work_then (insert_lease_counter \<lparr>lc_resource_key = resource_key, lc_ownership_epoch = ownership_epoch,
              lc_last_fencing_token = 1, lc_updated_utc = now\<rparr>) (\<lambda>_. work_return 1) t
      | Some row \<Rightarrow>
          (let stored_epoch = lc_ownership_epoch row; last_token = lc_last_fencing_token row in
           if stored_epoch > ownership_epoch
           then (Raises (Fencing_Error ''ENDPOINT_FENCING_TOKEN_STALE_EPOCH''), t)
           else if stored_epoch < ownership_epoch
           then
             work_then (update_lease_counter
               (\<lambda>c. lc_resource_key c = resource_key \<and> lc_ownership_epoch c = stored_epoch)
               (\<lambda>c. c\<lparr>lc_ownership_epoch := ownership_epoch, lc_last_fencing_token := 1, lc_updated_utc := now\<rparr>))
               (\<lambda>_. work_return 1) t
           else
             work_then (update_lease_counter
               (\<lambda>c. lc_resource_key c = resource_key \<and> lc_ownership_epoch c = ownership_epoch
                  \<and> lc_last_fencing_token c = last_token)
               (\<lambda>c. c\<lparr>lc_last_fencing_token := last_token + 1, lc_updated_utc := now\<rparr>))
               (\<lambda>_. work_return (last_token + 1)) t))"

definition allocate_next_fencing_token ::
  "string \<Rightarrow> string \<Rightarrow> int \<Rightarrow> recovery_connection \<Rightarrow> (recovery_error + int option) \<times> recovery_connection"
where
  "allocate_next_fencing_token now resource_key ownership_epoch c =
     (if blank resource_key \<or> ownership_epoch < 1
      then (Inl (Fencing_Error ''ENDPOINT_FENCING_TOKEN_INVALID_REQUEST''), c)
      else transaction fencing_handlers (allocate_token now resource_key ownership_epoch) c)"

section \<open>Leases\<close>

definition active_exclusive :: "string \<Rightarrow> resource_lease \<Rightarrow> bool" where
  "active_exclusive resource_key l \<longleftrightarrow>
     rl_resource_key l = resource_key \<and> rl_lease_mode l = ''EXCLUSIVE'' \<and> rl_state l = ACQUIRED"

text \<open>\<open>str(row[i])\<close> of a nullable column.\<close>

definition str_of :: "string option \<Rightarrow> string" where
  "str_of v = (case v of None \<Rightarrow> ''None'' | Some s \<Rightarrow> s)"

definition released :: "string \<Rightarrow> resource_lease \<Rightarrow> resource_lease" where
  "released now l = l\<lparr>rl_state := RELEASED, rl_heartbeat_utc := now, rl_released_utc := Some now\<rparr>"

definition reconcile_work :: "string \<Rightarrow> string \<Rightarrow> string \<Rightarrow> string list work" where
  "reconcile_work now resource_key endpoint_id t =
     (let rows = sort_key (\<lambda>l. (rl_acquired_utc l, rl_lease_id l))
            (filter (active_exclusive resource_key) (resource_leases t))
      in if rows = [] then (Returns [], t)
         else if list_ex (\<lambda>l. str_of (rl_endpoint_id l) \<noteq> endpoint_id \<or> rl_os_lock_kind l \<noteq> ''LOCAL_OS_HANDLE'') rows
         then (Raises (Lease_Error ''ENDPOINT_RESOURCE_LEASE_ACTIVE_CONFLICT''), t)
         else
           (let lease_ids = map rl_lease_id rows;
                stale = (\<lambda>l. rl_lease_id l \<in> set lease_ids \<and> active_exclusive resource_key l
                  \<and> rl_os_lock_kind l = ''LOCAL_OS_HANDLE'');
                t' = t\<lparr>resource_leases := sql_update stale (released now) (resource_leases t)\<rparr>
            in if sql_count stale (resource_leases t) \<noteq> length lease_ids
               then (Raises (Lease_Error ''ENDPOINT_RESOURCE_LEASE_RECONCILIATION_CONFLICT''), t')
               else (Returns lease_ids, t')))"

definition reconcile_stale_active_resource_lease_after_lock_acquired ::
  "string \<Rightarrow> string \<Rightarrow> string \<Rightarrow> recovery_connection \<Rightarrow>
   (recovery_error + string list option) \<times> recovery_connection"
where
  "reconcile_stale_active_resource_lease_after_lock_acquired now resource_key endpoint_id c =
     (if blank resource_key \<or> blank endpoint_id
      then (Inl (Lease_Error ''ENDPOINT_RESOURCE_LEASE_INVALID_REQUEST''), c)
      else transaction lease_handlers (reconcile_work now resource_key endpoint_id) c)"

record lease_request =
  lq_lease_id :: string
  lq_resource_key :: string
  lq_owner_instance_id :: string
  lq_ownership_epoch :: int
  lq_run_id :: string
  lq_run_target_id :: string
  lq_endpoint_id :: string
  lq_endpoint_generation :: "int option"
  lq_lease_mode :: string
  lq_os_lock_kind :: string

definition validate_resource_lease_request :: "lease_request \<Rightarrow> bool" where
  "validate_resource_lease_request q \<longleftrightarrow>
     \<not> list_ex blank [lq_lease_id q, lq_resource_key q, lq_owner_instance_id q]
     \<and> 1 \<le> lq_ownership_epoch q
     \<and> \<not> list_ex blank [lq_run_id q, lq_run_target_id q, lq_endpoint_id q]
     \<and> (case lq_endpoint_generation q of None \<Rightarrow> True | Some g \<Rightarrow> 1 \<le> g)
     \<and> lq_lease_mode q = ''EXCLUSIVE'' \<and> lq_os_lock_kind q = ''LOCAL_OS_HANDLE''"

text \<open>
  The constraints of \<open>resource_leases\<close>: the primary key, the unique token of a resource and epoch, and the
  partial unique index that admits one active exclusive lease per resource.
\<close>

definition lease_row_ok :: "resource_lease \<Rightarrow> bool" where
  "lease_row_ok l \<longleftrightarrow>
     1 \<le> rl_ownership_epoch l \<and> 1 \<le> rl_fencing_token l \<and> rl_lease_mode l = ''EXCLUSIVE''
     \<and> (case rl_endpoint_generation l of None \<Rightarrow> True | Some g \<Rightarrow> 1 \<le> g)
     \<and> rl_os_lock_kind l = ''LOCAL_OS_HANDLE''
     \<and> (rl_state l = ACQUIRED \<longleftrightarrow> rl_released_utc l = None)"

definition insert_lease :: "resource_lease \<Rightarrow> unit work" where
  "insert_lease row t =
     (if \<not> lease_row_ok row
        \<or> list_ex (\<lambda>l. rl_lease_id l = rl_lease_id row) (resource_leases t)
        \<or> list_ex (\<lambda>l. rl_resource_key l = rl_resource_key row \<and> rl_ownership_epoch l = rl_ownership_epoch row
             \<and> rl_fencing_token l = rl_fencing_token row) (resource_leases t)
        \<or> (rl_state row = ACQUIRED \<and> list_ex (active_exclusive (rl_resource_key row)) (resource_leases t))
      then (Raises Integrity_Error, t)
      else (Returns (), t\<lparr>resource_leases := resource_leases t @ [row]\<rparr>))"

definition reject_active_exclusive_resource_lease :: "string \<Rightarrow> unit work" where
  "reject_active_exclusive_resource_lease resource_key =
     work_check (\<lambda>t. if list_ex (active_exclusive resource_key) (resource_leases t)
       then Inl (Lease_Error ''ENDPOINT_RESOURCE_LEASE_ACTIVE_CONFLICT'') else Inr ())"

definition register_work :: "string \<Rightarrow> lease_request \<Rightarrow> int work" where
  "register_work now q =
     work_then (reject_active_exclusive_resource_lease (lq_resource_key q)) (\<lambda>_.
     work_then (allocate_token now (lq_resource_key q) (lq_ownership_epoch q)) (\<lambda>fencing_token.
     work_then (insert_lease \<lparr>rl_lease_id = lq_lease_id q, rl_resource_key = lq_resource_key q,
         rl_ownership_epoch = lq_ownership_epoch q, rl_fencing_token = fencing_token,
         rl_lease_mode = lq_lease_mode q, rl_owner_instance_id = lq_owner_instance_id q,
         rl_run_id = Some (lq_run_id q), rl_run_target_id = Some (lq_run_target_id q),
         rl_endpoint_id = Some (lq_endpoint_id q), rl_endpoint_generation = lq_endpoint_generation q,
         rl_os_lock_kind = lq_os_lock_kind q, rl_state = ACQUIRED, rl_acquired_utc = now,
         rl_heartbeat_utc = now, rl_released_utc = None\<rparr>) (\<lambda>_.
     work_return fencing_token)))"

definition register_acquired_resource_lease ::
  "string \<Rightarrow> lease_request \<Rightarrow> recovery_connection \<Rightarrow> (recovery_error + int option) \<times> recovery_connection"
where
  "register_acquired_resource_lease now q c =
     (if \<not> validate_resource_lease_request q
      then (Inl (Lease_Error ''ENDPOINT_RESOURCE_LEASE_INVALID_REQUEST''), c)
      else transaction lease_handlers (register_work now q) c)"

definition release_work :: "string \<Rightarrow> string \<Rightarrow> unit work" where
  "release_work now lease_id t =
     (let held = (\<lambda>l. rl_lease_id l = lease_id \<and> rl_state l = ACQUIRED);
          t' = t\<lparr>resource_leases := sql_update held (released now) (resource_leases t)\<rparr>
      in if sql_count held (resource_leases t) \<noteq> 1
         then (Raises (Lease_Error ''ENDPOINT_RESOURCE_LEASE_RELEASE_CONFLICT''), t')
         else (Returns (), t'))"

definition release_resource_lease ::
  "string \<Rightarrow> string \<Rightarrow> recovery_connection \<Rightarrow> (recovery_error + unit option) \<times> recovery_connection"
where
  "release_resource_lease now lease_id c =
     (if blank lease_id then (Inl (Lease_Error ''ENDPOINT_RESOURCE_LEASE_INVALID_REQUEST''), c)
      else transaction lease_handlers (release_work now lease_id) c)"

end
