(* ===== verification/Segment_Store.thy ===== *)
theory Segment_Store
  imports Resource_Leases
begin

text \<open>
  \<open>adapters/sqlite/recovery_intents.py\<close>: publishing an intent segment under its lease, importing one that is
  found on a target, and its life from durable to cleaned.  The trigger on the table refuses changes of
  columns that no statement here writes.
\<close>

definition segment_handlers :: "string \<Rightarrow> recovery_error \<Rightarrow> recovery_error option" where
  "segment_handlers conflict = store_handlers is_Segment_Store_Error (Segment_Store_Error conflict)"

definition load_intent_segment :: "string \<Rightarrow> recovery_tables \<Rightarrow> RecoveryIntentSegment option" where
  "load_intent_segment segment_id t =
     map_option isr_segment (List.find (\<lambda>r. ris_segment_id (isr_segment r) = segment_id) (intent_segments t))"

definition segment_require_active_matching_lease ::
  "RecoveryIntentSegment \<Rightarrow> recovery_tables \<Rightarrow> recovery_error + unit" where
  "segment_require_active_matching_lease s t =
     (case List.find (\<lambda>l. rl_lease_id l = ris_lease_id s) (resource_leases t) of
        None \<Rightarrow> Inl (Segment_Store_Error ''RECOVERY_INTENT_SEGMENT_LEASE_MISMATCH'')
      | Some l \<Rightarrow>
          if rl_owner_instance_id l \<noteq> ris_owner_installation_id s
            \<or> rl_ownership_epoch l \<noteq> ris_ownership_epoch s \<or> rl_fencing_token l \<noteq> ris_fencing_token s
            \<or> str_of (rl_endpoint_id l) \<noteq> ris_target_endpoint_id s \<or> rl_state l \<noteq> ACQUIRED
          then Inl (Segment_Store_Error ''RECOVERY_INTENT_SEGMENT_LEASE_MISMATCH'')
          else Inr ())"

definition segment_require_historical_matching_lease ::
  "RecoveryIntentSegment \<Rightarrow> recovery_tables \<Rightarrow> recovery_error + unit" where
  "segment_require_historical_matching_lease s t =
     (case List.find (\<lambda>l. rl_lease_id l = ris_lease_id s) (resource_leases t) of
        None \<Rightarrow> Inl (Segment_Store_Error ''RECOVERY_INTENT_SEGMENT_HISTORICAL_LEASE_MISMATCH'')
      | Some l \<Rightarrow>
          if rl_owner_instance_id l \<noteq> ris_owner_installation_id s
            \<or> rl_ownership_epoch l \<noteq> ris_ownership_epoch s \<or> rl_fencing_token l \<noteq> ris_fencing_token s
            \<or> str_of (rl_run_id l) \<noteq> ris_run_id s \<or> str_of (rl_run_target_id l) \<noteq> ris_run_target_id s
            \<or> str_of (rl_endpoint_id l) \<noteq> ris_target_endpoint_id s
          then Inl (Segment_Store_Error ''RECOVERY_INTENT_SEGMENT_HISTORICAL_LEASE_MISMATCH'')
          else Inr ())"

definition require_segment_chain :: "RecoveryIntentSegment \<Rightarrow> recovery_tables \<Rightarrow> recovery_error + unit" where
  "require_segment_chain s t =
     (if ris_segment_sequence s = 0
      then
        (if ris_previous_segment_hash s \<noteq> None
         then Inl (Segment_Store_Error ''RECOVERY_INTENT_SEGMENT_CHAIN_MISMATCH'') else Inr ())
      else
        (case List.find (\<lambda>r. ris_run_target_id (isr_segment r) = ris_run_target_id s
            \<and> ris_segment_sequence (isr_segment r) = ris_segment_sequence s - 1) (intent_segments t) of
           None \<Rightarrow> Inl (Segment_Store_Error ''RECOVERY_INTENT_SEGMENT_CHAIN_MISMATCH'')
         | Some r \<Rightarrow>
             if ris_previous_segment_hash s \<noteq> Some (ris_segment_hash (isr_segment r))
             then Inl (Segment_Store_Error ''RECOVERY_INTENT_SEGMENT_CHAIN_MISMATCH'') else Inr ()))"

text \<open>The constraints of \<open>recovery_intent_segments\<close>.\<close>

definition segment_row_ok :: "RecoveryIntentSegment \<Rightarrow> bool" where
  "segment_row_ok s \<longleftrightarrow>
     1 \<le> ris_endpoint_generation s \<and> 1 \<le> ris_ownership_epoch s \<and> 1 \<le> ris_fencing_token s
     \<and> 0 \<le> ris_segment_sequence s \<and> 1 \<le> ris_schema_version s
     \<and> 1 \<le> ris_operation_count s \<and> ris_operation_count s \<le> 10000
     \<and> 0 \<le> ris_byte_count s \<and> ris_byte_count s \<le> 16777216
     \<and> length (ris_segment_hash s) = 64
     \<and> (case ris_previous_segment_hash s of None \<Rightarrow> True | Some h \<Rightarrow> length h = 64)
     \<and> (ris_state s = SEGMENT_DURABLE \<longrightarrow> ris_durability_state s = DURABILITY_DURABLE)"

definition insert_segment :: "string \<Rightarrow> RecoveryIntentSegment \<Rightarrow> unit work" where
  "insert_segment now s t =
     (let rows = map isr_segment (intent_segments t) in
      if \<not> segment_row_ok s
        \<or> list_ex (\<lambda>r. ris_segment_id r = ris_segment_id s) rows
        \<or> list_ex (\<lambda>r. ris_run_target_id r = ris_run_target_id s
             \<and> (ris_segment_sequence r = ris_segment_sequence s \<or> ris_relative_path r = ris_relative_path s)) rows
        \<or> \<not> list_ex (\<lambda>l. rl_lease_id l = ris_lease_id s) (resource_leases t)
      then (Raises Integrity_Error, t)
      else (Returns (), t\<lparr>intent_segments := intent_segments t @ [\<lparr>isr_segment = s, isr_updated_utc = now\<rparr>]\<rparr>))"

text \<open>Publishing and importing differ in the lease they ask for.\<close>

definition record_segment_work ::
  "(RecoveryIntentSegment \<Rightarrow> recovery_tables \<Rightarrow> recovery_error + unit) \<Rightarrow> string \<Rightarrow>
   RecoveryIntentSegment \<Rightarrow> RecoveryIntentSegment work"
where
  "record_segment_work require_lease now s t =
     (case load_intent_segment (ris_segment_id s) t of
        Some existing \<Rightarrow>
          if existing \<noteq> s
          then (Raises (Segment_Store_Error ''RECOVERY_INTENT_SEGMENT_IDEMPOTENCY_CONFLICT''), t)
          else (Returns existing, t)
      | None \<Rightarrow>
          work_then (work_check (require_lease s)) (\<lambda>_.
          work_then (work_check (require_segment_chain s)) (\<lambda>_.
          work_then (insert_segment now s) (\<lambda>_.
          work_check (\<lambda>t. case load_intent_segment (ris_segment_id s) t of
              None \<Rightarrow> Inl (Segment_Store_Error ''RECOVERY_INTENT_SEGMENT_LOAD_FAILED'')
            | Some recorded \<Rightarrow> Inr recorded)))) t)"

definition publish_intent_segment ::
  "string \<Rightarrow> RecoveryIntentSegment \<Rightarrow> recovery_connection \<Rightarrow>
   (recovery_error + RecoveryIntentSegment option) \<times> recovery_connection"
where
  "publish_intent_segment now s c =
     (case validate_recovery_intent_segment s of
        Inl code \<Rightarrow> (Inl (Segment_Violation code), c)
      | Inr _ \<Rightarrow> transaction (segment_handlers ''RECOVERY_INTENT_SEGMENT_PERSISTENCE_CONFLICT'')
          (record_segment_work segment_require_active_matching_lease now s) c)"

definition import_intent_segment ::
  "string \<Rightarrow> RecoveryIntentSegment \<Rightarrow> recovery_connection \<Rightarrow>
   (recovery_error + RecoveryIntentSegment option) \<times> recovery_connection"
where
  "import_intent_segment now s c =
     (case validate_recovery_intent_segment s of
        Inl code \<Rightarrow> (Inl (Segment_Violation code), c)
      | Inr _ \<Rightarrow> transaction (segment_handlers ''RECOVERY_INTENT_SEGMENT_IMPORT_CONFLICT'')
          (record_segment_work segment_require_historical_matching_lease now s) c)"

section \<open>Queries\<close>

text \<open>\<open>ORDER BY segment_sequence DESC LIMIT 1\<close>.\<close>

definition load_latest_intent_segment_for_run_target ::
  "string \<Rightarrow> string \<Rightarrow> recovery_tables \<Rightarrow> RecoveryIntentSegment option" where
  "load_latest_intent_segment_for_run_target run_id run_target_id t =
     (case sort_key (\<lambda>s. - ris_segment_sequence s)
         (filter (\<lambda>s. ris_run_id s = run_id \<and> ris_run_target_id s = run_target_id)
           (map isr_segment (intent_segments t))) of
        [] \<Rightarrow> None | s # _ \<Rightarrow> Some s)"

definition list_unresolved_intent_segments ::
  "int \<Rightarrow> recovery_tables \<Rightarrow> recovery_error + RecoveryIntentSegment list" where
  "list_unresolved_intent_segments limit t =
     (if \<not> (1 \<le> limit \<and> limit \<le> 10000)
      then Inl (Segment_Store_Error ''RECOVERY_INTENT_SEGMENT_LIST_LIMIT_INVALID'')
      else Inr (take (nat limit)
        (sort_key (\<lambda>s. (ris_run_target_id s, ris_segment_sequence s, ris_segment_id s))
          (filter (\<lambda>s. ris_state s \<in> {SEGMENT_BUILDING, SEGMENT_DURABLE, SEGMENT_RECONCILED})
            (map isr_segment (intent_segments t))))))"

definition load_next_intent_segment_lifecycle_candidate ::
  "string \<Rightarrow> string \<Rightarrow> recovery_tables \<Rightarrow> RecoveryIntentSegment option" where
  "load_next_intent_segment_lifecycle_candidate run_id run_target_id t =
     (case sort_key (\<lambda>s. (ris_segment_sequence s, ris_segment_id s))
         (filter (\<lambda>s. ris_run_id s = run_id \<and> ris_run_target_id s = run_target_id
             \<and> ris_state s \<in> {SEGMENT_DURABLE, SEGMENT_RECONCILED, SEGMENT_CLEANUP_ELIGIBLE})
           (map isr_segment (intent_segments t))) of
        [] \<Rightarrow> None | s # _ \<Rightarrow> Some s)"

text \<open>Every operation of the segment's run target has ended.\<close>

definition segment_operations_terminal :: "recovery_tables \<Rightarrow> RecoveryIntentSegment \<Rightarrow> bool" where
  "segment_operations_terminal t s \<longleftrightarrow>
     list_all (\<lambda>r. rop_run_id (ror_operation r) = ris_run_id s \<and> rop_run_target_id (ror_operation r) = ris_run_target_id s
         \<longrightarrow> rop_phase (ror_operation r) \<in> set RECOVERY_OPERATION_TERMINAL_PHASES) (recovery_operations t)"

definition intent_segment_reconciliation_ready :: "string \<Rightarrow> recovery_tables \<Rightarrow> bool" where
  "intent_segment_reconciliation_ready segment_id t \<longleftrightarrow>
     list_ex (\<lambda>candidate. ris_segment_id candidate = segment_id \<and> ris_state candidate = SEGMENT_DURABLE
         \<and> segment_operations_terminal t candidate
         \<and> (list_ex (\<lambda>r. rop_intent_segment_id (ror_operation r) = Some segment_id) (recovery_operations t)
            \<or> list_ex (\<lambda>later. ris_run_id later = ris_run_id candidate
                  \<and> ris_run_target_id later = ris_run_target_id candidate
                  \<and> ris_segment_sequence candidate < ris_segment_sequence later
                  \<and> ris_previous_segment_hash later = Some (ris_segment_hash candidate))
                (map isr_segment (intent_segments t))))
       (map isr_segment (intent_segments t))"

section \<open>The life of a segment\<close>

definition set_segment_state ::
  "string \<Rightarrow> RecoveryIntentSegmentState \<Rightarrow> intent_segment_row \<Rightarrow> intent_segment_row" where
  "set_segment_state now next_state r =
     r\<lparr>isr_segment := (isr_segment r)\<lparr>ris_state := next_state\<rparr>, isr_updated_utc := now\<rparr>"

definition finalize_missing_work :: "string \<Rightarrow> string \<Rightarrow> bool work" where
  "finalize_missing_work now segment_id t =
     (let candidate = (\<lambda>r. ris_segment_id (isr_segment r) = segment_id
            \<and> ris_state (isr_segment r) \<in> {SEGMENT_DURABLE, SEGMENT_RECONCILED}
            \<and> list_ex (\<lambda>b. rop_run_id (ror_operation b) = ris_run_id (isr_segment r)
                 \<and> rop_run_target_id (ror_operation b) = ris_run_target_id (isr_segment r)
                 \<and> rop_intent_segment_id (ror_operation b) = Some (ris_segment_id (isr_segment r)))
               (recovery_operations t)
            \<and> segment_operations_terminal t (isr_segment r))
      in (Returns (sql_count candidate (intent_segments t) = 1),
          t\<lparr>intent_segments := sql_update candidate (set_segment_state now SEGMENT_CLEANED) (intent_segments t)\<rparr>))"

definition finalize_missing_terminal_intent_segment ::
  "string \<Rightarrow> string \<Rightarrow> recovery_connection \<Rightarrow> (recovery_error + bool option) \<times> recovery_connection" where
  "finalize_missing_terminal_intent_segment now segment_id c =
     transaction (segment_handlers ''RECOVERY_INTENT_SEGMENT_TERMINAL_RECONCILIATION_FAILED'')
       (finalize_missing_work now segment_id) c"

definition segment_state_allowed ::
  "RecoveryIntentSegmentState \<Rightarrow> RecoveryIntentSegmentState option" where
  "segment_state_allowed s =
     (case s of
        SEGMENT_DURABLE \<Rightarrow> Some SEGMENT_RECONCILED
      | SEGMENT_RECONCILED \<Rightarrow> Some SEGMENT_CLEANUP_ELIGIBLE
      | SEGMENT_CLEANUP_ELIGIBLE \<Rightarrow> Some SEGMENT_CLEANED
      | _ \<Rightarrow> None)"

definition transition_segment_work ::
  "string \<Rightarrow> string \<Rightarrow> RecoveryIntentSegmentState \<Rightarrow> RecoveryIntentSegmentState \<Rightarrow> RecoveryIntentSegment work"
where
  "transition_segment_work now segment_id expected_state next_state t =
     (let p = (\<lambda>r. ris_segment_id (isr_segment r) = segment_id \<and> ris_state (isr_segment r) = expected_state);
          t' = t\<lparr>intent_segments := sql_update p (set_segment_state now next_state) (intent_segments t)\<rparr>
      in if sql_count p (intent_segments t) \<noteq> 1 then (Rolls_Back, t')
         else
           (case load_intent_segment segment_id t' of
              None \<Rightarrow> (Raises (Segment_Store_Error ''RECOVERY_INTENT_SEGMENT_LOAD_FAILED''), t')
            | Some transitioned \<Rightarrow> (Returns transitioned, t')))"

definition transition_intent_segment_state ::
  "string \<Rightarrow> string \<Rightarrow> RecoveryIntentSegmentState \<Rightarrow> RecoveryIntentSegmentState \<Rightarrow> recovery_connection \<Rightarrow>
   (recovery_error + RecoveryIntentSegment option) \<times> recovery_connection"
where
  "transition_intent_segment_state now segment_id expected_state next_state c =
     (if segment_state_allowed expected_state \<noteq> Some next_state
      then (Inl (Segment_Store_Error ''RECOVERY_INTENT_SEGMENT_LIFECYCLE_TRANSITION_INVALID''), c)
      else transaction (segment_handlers ''RECOVERY_INTENT_SEGMENT_LIFECYCLE_UPDATE_FAILED'')
        (transition_segment_work now segment_id expected_state next_state) c)"

end
