(* ===== verification/Recovery_Store.thy ===== *)
theory Recovery_Store
  imports Recovery_Rows Directory_Store Segment_Store
begin

text \<open>
  \<open>adapters/sqlite/recovery_operations.py\<close>: the journal of recovery operations.  Every change of an operation
  asks for an acquired lease that matches it, and appends an event to the hash chain of the run.  The store
  may be given a directory recovery store (\<open>directory_store = True\<close>, as \<open>engine_host.py\<close> builds it) on the same
  connection; the retry deadlines of failed staging attempts are kept in memory.
\<close>

definition recovery_handlers :: "recovery_error \<Rightarrow> recovery_error option" where
  "recovery_handlers =
     store_handlers is_Operation_Store_Error (Operation_Store_Error ''RECOVERY_OPERATION_PERSISTENCE_CONFLICT'')"

definition staging_failure_handlers :: "recovery_error \<Rightarrow> recovery_error option" where
  "staging_failure_handlers e =
     (if is_Staging_Violation e then Some (Operation_Store_Error ''RECOVERY_OPERATION_PERSISTENCE_FAILED'')
      else recovery_handlers e)"

definition validate_process_instance_id :: "string \<Rightarrow> recovery_error + unit" where
  "validate_process_instance_id process_instance_id =
     (if blank process_instance_id
      then Inl (Operation_Store_Error ''RECOVERY_OPERATION_REQUIRES_PROCESS_INSTANCE'') else Inr ())"

section \<open>Reading\<close>

definition at_operation :: "string \<Rightarrow> string \<Rightarrow> recovery_operation_row \<Rightarrow> bool" where
  "at_operation run_id operation_id r \<longleftrightarrow>
     rop_run_id (ror_operation r) = run_id \<and> rop_operation_id (ror_operation r) = operation_id"

definition read_operation :: "RecoveryOperation \<Rightarrow> recovery_error + RecoveryOperation" where
  "read_operation op = operation_from_row (operation_values op)"

definition load_operation ::
  "string \<Rightarrow> string \<Rightarrow> recovery_tables \<Rightarrow> recovery_error + RecoveryOperation option" where
  "load_operation run_id operation_id t =
     (case List.find (at_operation run_id operation_id) (recovery_operations t) of
        None \<Rightarrow> Inr None
      | Some r \<Rightarrow> and_then (read_operation (ror_operation r)) (\<lambda>op. Inr (Some op)))"

definition load_recorded_operation :: "string \<Rightarrow> string \<Rightarrow> RecoveryOperation work" where
  "load_recorded_operation run_id operation_id =
     work_check (\<lambda>t. and_then (load_operation run_id operation_id t) (\<lambda>loaded.
       case loaded of
         None \<Rightarrow> Inl (Operation_Store_Error ''RECOVERY_OPERATION_LOAD_FAILED'')
       | Some op \<Rightarrow> Inr op))"

definition require_active_matching_lease :: "RecoveryOperation \<Rightarrow> recovery_tables \<Rightarrow> recovery_error + unit" where
  "require_active_matching_lease op t =
     (case List.find (\<lambda>l. rl_lease_id l = rop_lease_id op) (resource_leases t) of
        None \<Rightarrow> Inl (Operation_Store_Error ''RECOVERY_OPERATION_LEASE_MISMATCH'')
      | Some l \<Rightarrow>
          if rl_resource_key l \<noteq> rop_lease_resource_key op
            \<or> rl_owner_instance_id l \<noteq> rop_owner_installation_id op
            \<or> rl_ownership_epoch l \<noteq> rop_ownership_epoch op \<or> rl_fencing_token l \<noteq> rop_fencing_token op
            \<or> str_of (rl_endpoint_id l) \<noteq> rop_target_endpoint_id op \<or> rl_state l \<noteq> ACQUIRED
          then Inl (Operation_Store_Error ''RECOVERY_OPERATION_LEASE_MISMATCH'')
          else Inr ())"

definition require_matching_intent_segment ::
  "RecoveryOperation \<Rightarrow> recovery_tables \<Rightarrow> recovery_error + unit" where
  "require_matching_intent_segment op t =
     (case List.find (\<lambda>r. Some (ris_segment_id (isr_segment r)) = rop_intent_segment_id op) (intent_segments t) of
        None \<Rightarrow> Inl (Operation_Store_Error ''RECOVERY_OPERATION_INTENT_SEGMENT_MISMATCH'')
      | Some r \<Rightarrow>
          (let s = isr_segment r in
           if ris_run_id s \<noteq> rop_run_id op \<or> ris_run_target_id s \<noteq> rop_run_target_id op
             \<or> ris_target_endpoint_id s \<noteq> rop_target_endpoint_id op
             \<or> ris_target_endpoint_revision_id s \<noteq> rop_target_endpoint_revision_id op
             \<or> ris_endpoint_generation s \<noteq> rop_endpoint_generation op
             \<or> ris_owner_installation_id s \<noteq> rop_owner_installation_id op
             \<or> ris_ownership_epoch s \<noteq> rop_ownership_epoch op
             \<or> ris_lease_id s \<noteq> rop_lease_id op \<or> ris_fencing_token s \<noteq> rop_fencing_token op
             \<or> ris_durability_state s \<noteq> DURABILITY_DURABLE \<or> ris_state s \<noteq> SEGMENT_DURABLE
           then Inl (Operation_Store_Error ''RECOVERY_OPERATION_INTENT_SEGMENT_MISMATCH'')
           else Inr ()))"

section \<open>The event log\<close>

definition recovery_event_hash ::
  "string \<Rightarrow> int \<Rightarrow> string \<Rightarrow> RecoveryOperationPhase option \<Rightarrow> RecoveryOperationPhase \<Rightarrow> string \<Rightarrow> string \<Rightarrow>
   string option \<Rightarrow> string"
where
  "recovery_event_hash run_id run_sequence operation_id from_phase to_phase process_instance_id payload_json
       previous_event_hash =
     sha256_hexdigest (utf8 (json_dumps True (JObj
       [(''schema_version'', JInt 1),
        (''run_id'', JStr run_id),
        (''run_sequence'', JInt run_sequence),
        (''operation_id'', JStr operation_id),
        (''from_phase'', (case from_phase of None \<Rightarrow> JNull | Some p \<Rightarrow> JStr (phase_value p))),
        (''to_phase'', JStr (phase_value to_phase)),
        (''process_instance_id'', JStr process_instance_id),
        (''payload_json'', JStr payload_json),
        (''previous_event_hash'', (case previous_event_hash of None \<Rightarrow> JNull | Some h \<Rightarrow> JStr h))])))"

definition jtext :: "string option \<Rightarrow> json" where
  "jtext v = (case v of None \<Rightarrow> JNull | Some s \<Rightarrow> JStr s)"

text \<open>Python's \<open>a or b\<close> on optional texts.\<close>

definition text_or :: "string option \<Rightarrow> string option \<Rightarrow> string option" where
  "text_or a b = (case a of None \<Rightarrow> b | Some s \<Rightarrow> if s = [] then b else Some s)"

definition operation_audit_payload :: "RecoveryOperation \<Rightarrow> json" where
  "operation_audit_payload op = JObj
     [(''assurance_level'', jtext (rop_assurance_level op)),
      (''durability_level'', jtext (text_or (rop_final_durability_state op) (rop_staging_durability_state op))),
      (''fencing_token'', JInt (rop_fencing_token op)),
      (''lease_id'', JStr (rop_lease_id op)),
      (''ownership_epoch'', JInt (rop_ownership_epoch op)),
      (''planned_bytes'', JInt (rop_planned_bytes op)),
      (''source_guard_evidence_hash'', jtext (rop_source_guard_evidence_hash op)),
      (''source_guard_kind'', jtext (rop_source_guard_kind op)),
      (''staging_object_id'', jtext (rop_staging_object_id op)),
      (''transfer_state'', jtext (rop_transfer_state op))]"

definition event_payload_json ::
  "RecoveryOperation option \<Rightarrow> RecoveryOperationPhase option \<Rightarrow> RecoveryOperationPhase \<Rightarrow>
   (string \<times> json) list option \<Rightarrow> string"
where
  "event_payload_json operation from_phase to_phase payload =
     (let event_payload = (case payload of None \<Rightarrow> [] | Some p \<Rightarrow> p);
          audited = map_of event_payload ''event_kind'' = Some (JStr ''STAGING_ATTEMPT_FAILED'')
            \<or> from_phase = Some STAGING_DURABLE \<and> to_phase = STAGING_VERIFIED
      in case operation of
           None \<Rightarrow> json_dumps True (JObj event_payload)
         | Some op \<Rightarrow> json_dumps True (JObj
             (if audited then dict_set ''operation_audit'' (operation_audit_payload op) event_payload
              else event_payload)))"

text \<open>\<open>ORDER BY run_sequence DESC LIMIT 1\<close>.\<close>

definition last_run_event :: "string \<Rightarrow> recovery_tables \<Rightarrow> recovery_event option" where
  "last_run_event run_id t =
     (case sort_key (\<lambda>e. - rev_run_sequence e) (filter (\<lambda>e. rev_run_id e = run_id) (recovery_events t)) of
        [] \<Rightarrow> None | e # _ \<Rightarrow> Some e)"

definition insert_recovery_event :: "recovery_event \<Rightarrow> unit work" where
  "insert_recovery_event e t =
     (if rev_run_sequence e < 0 \<or> \<not> length_64 (rev_previous_event_hash e) \<or> length (rev_event_hash e) \<noteq> 64
        \<or> list_ex (\<lambda>d. rev_run_id d = rev_run_id e \<and> rev_run_sequence d = rev_run_sequence e) (recovery_events t)
        \<or> \<not> list_ex (at_operation (rev_run_id e) (rev_operation_id e)) (recovery_operations t)
      then (Raises Integrity_Error, t)
      else (Returns (), t\<lparr>recovery_events := recovery_events t @ [e]\<rparr>))"

definition append_event ::
  "string \<Rightarrow> string \<Rightarrow> string \<Rightarrow> RecoveryOperationPhase option \<Rightarrow> RecoveryOperationPhase \<Rightarrow> string \<Rightarrow>
   (string \<times> json) list option \<Rightarrow> unit work"
where
  "append_event now run_id operation_id from_phase to_phase process_instance_id payload =
     work_then (work_check (\<lambda>t. Inr (last_run_event run_id t))) (\<lambda>row.
     work_then (work_check (load_operation run_id operation_id)) (\<lambda>operation.
       let run_sequence = (case row of None \<Rightarrow> 0 | Some e \<Rightarrow> rev_run_sequence e + 1);
           previous_event_hash = map_option rev_event_hash row;
           payload_json = event_payload_json operation from_phase to_phase payload
       in insert_recovery_event \<lparr>rev_run_id = run_id, rev_run_sequence = run_sequence,
            rev_operation_id = operation_id, rev_from_phase = from_phase, rev_to_phase = to_phase,
            rev_event_utc = now, rev_process_instance_id = process_instance_id,
            rev_payload_json = payload_json, rev_previous_event_hash = previous_event_hash,
            rev_event_hash = recovery_event_hash run_id run_sequence operation_id from_phase to_phase
              process_instance_id payload_json previous_event_hash\<rparr>))"

section \<open>Writing\<close>

definition insert_operation :: "string \<Rightarrow> RecoveryOperation \<Rightarrow> unit work" where
  "insert_operation now op t =
     (let rows = recovery_operations t @ [\<lparr>ror_operation = op, ror_updated_utc = now\<rparr>] in
      if \<not> recovery_row_ok op \<or> \<not> recovery_row_references_ok t op
        \<or> list_ex (at_operation (rop_run_id op) (rop_operation_id op)) (recovery_operations t)
        \<or> \<not> intent_places_unique rows
      then (Raises Integrity_Error, t)
      else (Returns (), t\<lparr>recovery_operations := rows\<rparr>))"

definition update_operations ::
  "(RecoveryOperation \<Rightarrow> bool) \<Rightarrow> (recovery_operation_row \<Rightarrow> recovery_operation_row) \<Rightarrow> nat work" where
  "update_operations p f t =
     (let q = (\<lambda>r. p (ror_operation r)); rows = sql_update q f (recovery_operations t) in
      if list_all (\<lambda>r. q r \<longrightarrow> recovery_row_ok (ror_operation (f r))
           \<and> recovery_row_references_ok t (ror_operation (f r))) (recovery_operations t)
        \<and> intent_places_unique rows
      then (Returns (sql_count q (recovery_operations t)), t\<lparr>recovery_operations := rows\<rparr>)
      else (Raises Integrity_Error, t))"

text \<open>\<open>if cursor.rowcount != 1: ROLLBACK; return None\<close>.\<close>

definition one_row :: "nat \<Rightarrow> unit work" where
  "one_row rowcount = (if rowcount \<noteq> 1 then work_none else work_return ())"

section \<open>Directories\<close>

definition directory_kind_of :: "RecoveryOperation \<Rightarrow> DirectoryRecoveryKind option" where
  "directory_kind_of op =
     (if rop_operation_kind op = CREATE_DIRECTORY then Some CREATE
      else if rop_target_precondition_kind op = DIRECTORY_EMPTY then Some QUARANTINE
      else None)"

definition record_directory_recovery_if_applicable ::
  "string \<Rightarrow> bool \<Rightarrow> RecoveryOperation \<Rightarrow> string \<Rightarrow> unit work" where
  "record_directory_recovery_if_applicable now directory_store op process_instance_id =
     (if \<not> directory_store then work_return ()
      else
        (case directory_kind_of op of
           None \<Rightarrow> work_return ()
         | Some kind \<Rightarrow>
             work_then (work_check (\<lambda>_. raising Directory_Violation (planned_directory_recovery_operation
                (directory_recovery_id (rop_run_id op) (rop_operation_id op) kind)
                (rop_operation_id op) (rop_run_id op) (rop_run_target_id op) (rop_target_endpoint_id op)
                (rop_target_endpoint_revision_id op) (rop_owner_installation_id op) (rop_ownership_epoch op)
                kind (rop_final_relative_path op)
                (if kind = CREATE then Some (json_dumps True (JObj [(''kind'', JStr ''ABSENT'')]))
                 else rop_expected_target_fingerprint_json op)
                None))) (\<lambda>planned.
             work_then (work_check (\<lambda>_. record_directory_precheck planned process_instance_id)) (\<lambda>_.
             work_then (nested (directory_handlers ''DIRECTORY_RECOVERY_PERSISTENCE_CONFLICT'')
                (record_directory_work now planned process_instance_id
                   [(''generic_recovery_phase'', JStr (phase_value (rop_phase op)))])) (\<lambda>_.
             work_return ())))))"

definition record_directory_catalog_terminal ::
  "string \<Rightarrow> bool \<Rightarrow> RecoveryOperation \<Rightarrow> string \<Rightarrow> (string \<times> json) list option \<Rightarrow> unit work" where
  "record_directory_catalog_terminal now directory_store op process_instance_id payload =
     (if \<not> directory_store then work_return ()
      else
        (case directory_kind_of op of
           None \<Rightarrow> work_return ()
         | Some kind \<Rightarrow>
             (let recovery_id = directory_recovery_id (rop_run_id op) (rop_operation_id op) kind;
                  terminal_state = last (SUCCESS_PATH_BY_KIND kind);
                  expected_state = last (butlast (SUCCESS_PATH_BY_KIND kind))
              in
              work_then (work_check (load_directory_recovery_operation recovery_id)) (\<lambda>loaded.
              case loaded of
                None \<Rightarrow> work_raise (Operation_Store_Error ''RECOVERY_OPERATION_DIRECTORY_LIFECYCLE_MISSING'')
              | Some directory_operation \<Rightarrow>
                  if dro_state directory_operation = terminal_state then work_return ()
                  else if dro_state directory_operation \<noteq> expected_state
                  then work_raise (Operation_Store_Error ''RECOVERY_OPERATION_DIRECTORY_LIFECYCLE_NOT_VERIFIED'')
                  else
                    (let transition = \<lparr>drt_recovery_id = recovery_id, drt_expected_state = expected_state,
                          drt_next_state = terminal_state, drt_process_instance_id = process_instance_id,
                          drt_payload = [(''catalog_handoff_id'', jtext (rop_catalog_handoff_id op)),
                            (''generic_payload'', JObj (case payload of None \<Rightarrow> [] | Some p \<Rightarrow> p))],
                          drt_managed_object_id = None, drt_last_error_code = None\<rparr>
                     in
                     work_then (work_check (\<lambda>_. if untrimmed process_instance_id
                         then Inl (Directory_Store_Error ''DIRECTORY_RECOVERY_PROCESS_INSTANCE_INVALID'')
                         else Inr ())) (\<lambda>_.
                     work_then (nested (directory_handlers ''DIRECTORY_RECOVERY_TRANSITION_CONFLICT'')
                         (transition_directory_work now transition)) (\<lambda>transitioned.
                     case transitioned of
                       None \<Rightarrow> work_raise (Operation_Store_Error ''RECOVERY_OPERATION_DIRECTORY_CATALOG_CONFLICT'')
                     | Some _ \<Rightarrow> work_return ())))))))"

section \<open>Planning an operation\<close>

definition record_planned_work ::
  "string \<Rightarrow> bool \<Rightarrow> RecoveryOperation \<Rightarrow> string \<Rightarrow> (string \<times> json) list option \<Rightarrow> RecoveryOperation work"
where
  "record_planned_work now directory_store op process_instance_id payload =
     work_then (work_check (load_operation (rop_run_id op) (rop_operation_id op))) (\<lambda>loaded.
       case loaded of
         Some existing \<Rightarrow>
           if existing \<noteq> op
           then work_raise (Operation_Store_Error ''RECOVERY_OPERATION_IDEMPOTENCY_CONFLICT'')
           else
             work_then (record_directory_recovery_if_applicable now directory_store existing process_instance_id)
               (\<lambda>_. work_return existing)
       | None \<Rightarrow>
           work_then (work_check (require_active_matching_lease op)) (\<lambda>_.
           work_then (insert_operation now op) (\<lambda>_.
           work_then (append_event now (rop_run_id op) (rop_operation_id op) None (rop_phase op)
              process_instance_id payload) (\<lambda>_.
           work_then (record_directory_recovery_if_applicable now directory_store op process_instance_id) (\<lambda>_.
             load_recorded_operation (rop_run_id op) (rop_operation_id op))))))"

definition record_planned_operation ::
  "string \<Rightarrow> bool \<Rightarrow> RecoveryOperation \<Rightarrow> string \<Rightarrow> (string \<times> json) list option \<Rightarrow> recovery_connection \<Rightarrow>
   (recovery_error + RecoveryOperation option) \<times> recovery_connection"
where
  "record_planned_operation now directory_store op process_instance_id payload c =
     (if rop_phase op \<noteq> PLANNED
      then (Inl (Operation_Store_Error ''RECOVERY_OPERATION_REQUIRES_PLANNED_PHASE''), c)
      else
        (case and_then (validate_process_instance_id process_instance_id)
             (\<lambda>_. raising Operation_Violation (validate_recovery_operation op)) of
           Inl e \<Rightarrow> (Inl e, c)
         | Inr _ \<Rightarrow> transaction recovery_handlers
             (record_planned_work now directory_store op process_instance_id payload) c))"

section \<open>Phase transitions\<close>

record phase_transition =
  pt_run_id :: string
  pt_operation_id :: string
  pt_expected_phase :: RecoveryOperationPhase
  pt_next_phase :: RecoveryOperationPhase
  pt_process_instance_id :: string
  pt_payload :: "(string \<times> json) list option"
  pt_intent_segment_id :: "string option"
  pt_intent_ordinal :: "int option"
  pt_catalog_handoff_id :: "string option"
  pt_operation_metadata :: "RecoveryOperationMetadata option"

definition transition_bindings ::
  "RecoveryOperation \<Rightarrow> phase_transition \<Rightarrow> recovery_error + RecoveryOperation" where
  "transition_bindings op q =
     (if pt_next_phase q = COMMIT_INTENT_RECORDED
      then
        (if pt_intent_segment_id q = None \<or> pt_intent_ordinal q = None
         then Inl (Operation_Store_Error ''RECOVERY_OPERATION_REQUIRES_INTENT_SEGMENT'')
         else if pt_catalog_handoff_id q \<noteq> None
         then Inl (Operation_Store_Error ''RECOVERY_OPERATION_UNEXPECTED_CATALOG_HANDOFF'')
         else Inr (op\<lparr>rop_phase := pt_next_phase q, rop_intent_segment_id := pt_intent_segment_id q,
                rop_intent_ordinal := pt_intent_ordinal q\<rparr>))
      else if pt_next_phase q = CATALOG_RECORDED
      then
        (if pt_intent_segment_id q \<noteq> None \<or> pt_intent_ordinal q \<noteq> None
         then Inl (Operation_Store_Error ''RECOVERY_OPERATION_UNEXPECTED_INTENT_SEGMENT'')
         else if opt_blank (pt_catalog_handoff_id q)
         then Inl (Operation_Store_Error ''RECOVERY_OPERATION_REQUIRES_CATALOG_HANDOFF'')
         else Inr (op\<lparr>rop_phase := pt_next_phase q, rop_catalog_handoff_id := pt_catalog_handoff_id q\<rparr>))
      else
        (if pt_intent_segment_id q \<noteq> None \<or> pt_intent_ordinal q \<noteq> None
         then Inl (Operation_Store_Error ''RECOVERY_OPERATION_UNEXPECTED_INTENT_SEGMENT'')
         else if pt_catalog_handoff_id q \<noteq> None
         then Inl (Operation_Store_Error ''RECOVERY_OPERATION_UNEXPECTED_CATALOG_HANDOFF'')
         else Inr (op\<lparr>rop_phase := pt_next_phase q\<rparr>)))"

definition operation_after_transition ::
  "RecoveryOperation \<Rightarrow> phase_transition \<Rightarrow> recovery_error + RecoveryOperation" where
  "operation_after_transition op q =
     and_then (transition_bindings op q) (\<lambda>bound.
       let updated = apply_operation_metadata
             (bound\<lparr>rop_staging_retry_backoff_ms := None, rop_staging_retry_not_before_utc := None\<rparr>)
             (pt_operation_metadata q)
       in and_then (raising Operation_Violation (validate_recovery_operation updated)) (\<lambda>_. Inr updated))"

definition set_transition_columns :: "string \<Rightarrow> RecoveryOperation \<Rightarrow> recovery_operation_row \<Rightarrow> recovery_operation_row" where
  "set_transition_columns now updated r =
     r\<lparr>ror_operation := (ror_operation r)\<lparr>
         rop_phase := rop_phase updated, rop_source_guard_kind := rop_source_guard_kind updated,
         rop_source_guard_evidence_hash := rop_source_guard_evidence_hash updated,
         rop_source_hash_evidence_kind := rop_source_hash_evidence_kind updated,
         rop_staging_object_id := rop_staging_object_id updated,
         rop_version_object_id := rop_version_object_id updated,
         rop_version_created_utc := rop_version_created_utc updated,
         rop_version_retention_until_utc := rop_version_retention_until_utc updated,
         rop_version_manifest_hash := rop_version_manifest_hash updated,
         rop_quarantine_object_id := rop_quarantine_object_id updated,
         rop_intent_segment_id := rop_intent_segment_id updated,
         rop_intent_ordinal := rop_intent_ordinal updated,
         rop_expected_source_fingerprint_json := rop_expected_source_fingerprint_json updated,
         rop_expected_target_fingerprint_json := rop_expected_target_fingerprint_json updated,
         rop_expected_staging_fingerprint_json := rop_expected_staging_fingerprint_json updated,
         rop_expected_final_fingerprint_json := rop_expected_final_fingerprint_json updated,
         rop_transfer_state := rop_transfer_state updated,
         rop_assurance_level := rop_assurance_level updated,
         rop_staging_durability_state := rop_staging_durability_state updated,
         rop_final_durability_state := rop_final_durability_state updated,
         rop_catalog_handoff_id := rop_catalog_handoff_id updated,
         rop_last_error_code := rop_last_error_code updated, rop_staging_retry_backoff_ms := None,
         rop_staging_retry_not_before_utc := None\<rparr>,
       ror_updated_utc := now\<rparr>"

definition phase_transition_work :: "string \<Rightarrow> bool \<Rightarrow> phase_transition \<Rightarrow> RecoveryOperation work" where
  "phase_transition_work now directory_store q =
     work_then (work_check (load_operation (pt_run_id q) (pt_operation_id q))) (\<lambda>loaded.
       case loaded of
         None \<Rightarrow> work_none
       | Some operation \<Rightarrow>
           if rop_phase operation \<noteq> pt_expected_phase q then work_none
           else
             work_then (work_check (\<lambda>_. operation_after_transition operation q)) (\<lambda>updated.
             work_then (work_check (require_active_matching_lease updated)) (\<lambda>_.
             work_then (if pt_next_phase q = COMMIT_INTENT_RECORDED
                then work_check (require_matching_intent_segment updated) else work_return ()) (\<lambda>_.
             work_then (update_operations
                (\<lambda>op. rop_run_id op = pt_run_id q \<and> rop_operation_id op = pt_operation_id q
                   \<and> rop_phase op = pt_expected_phase q)
                (set_transition_columns now updated)) (\<lambda>rowcount.
             work_then (one_row rowcount) (\<lambda>_.
             work_then (append_event now (pt_run_id q) (pt_operation_id q) (Some (pt_expected_phase q))
                (pt_next_phase q) (pt_process_instance_id q) (pt_payload q)) (\<lambda>_.
             work_then (if pt_next_phase q = CATALOG_RECORDED
                then record_directory_catalog_terminal now directory_store updated (pt_process_instance_id q)
                  (pt_payload q)
                else work_return ()) (\<lambda>_.
               load_recorded_operation (pt_run_id q) (pt_operation_id q)))))))))"

type_synonym recovery_state = "recovery_connection \<times> staging_deadlines"

text \<open>\<open>discard\<close> runs after the commit, still inside the \<open>try\<close>.\<close>

definition record_operation_phase_transition ::
  "string \<Rightarrow> bool \<Rightarrow> phase_transition \<Rightarrow> recovery_state \<Rightarrow>
   (recovery_error + RecoveryOperation option) \<times> recovery_state"
where
  "record_operation_phase_transition now directory_store q s =
     (case s of (c, dl) \<Rightarrow>
        (case and_then (validate_process_instance_id (pt_process_instance_id q))
             (\<lambda>_. raising Operation_Violation
                (validate_recovery_phase_transition (pt_expected_phase q) (pt_next_phase q))) of
           Inl e \<Rightarrow> (Inl e, s)
         | Inr _ \<Rightarrow>
             (case transaction recovery_handlers (phase_transition_work now directory_store q) c of
                (Inr (Some loaded), c') \<Rightarrow>
                  (case staging_discard (pt_run_id q) (pt_operation_id q) dl of
                     Inl code \<Rightarrow> (Inl (Staging_Violation code), (c', dl))
                   | Inr dl' \<Rightarrow> (Inr (Some loaded), (c', dl')))
              | (result, c') \<Rightarrow> (result, (c', dl)))))"

section \<open>A failed staging attempt\<close>

record staging_failure =
  sf_run_id :: string
  sf_operation_id :: string
  sf_expected_phase :: RecoveryOperationPhase
  sf_expected_failure_count :: int
  sf_next_phase :: RecoveryOperationPhase
  sf_error_code :: string
  sf_process_instance_id :: string
  sf_payload :: "(string \<times> json) list option"

definition staging_failure_payload ::
  "staging_failure \<Rightarrow> int option \<Rightarrow> string option \<Rightarrow> (string \<times> json) list" where
  "staging_failure_payload q backoff_ms not_before =
     foldl (\<lambda>d (k, v). dict_set k v d) (case sf_payload q of None \<Rightarrow> [] | Some p \<Rightarrow> p)
       [(''attempt_number'', JInt (sf_expected_failure_count q + 1)),
        (''error_code'', JStr (strip (sf_error_code q))),
        (''event_kind'', JStr ''STAGING_ATTEMPT_FAILED''),
        (''retry_scheduled'', JBool (sf_next_phase q = sf_expected_phase q)),
        (''retry_backoff_ms'', (case backoff_ms of None \<Rightarrow> JNull | Some ms \<Rightarrow> JInt ms)),
        (''retry_not_before_utc'', jtext not_before)]"

definition plan_staging_retry :: "clock_reading \<Rightarrow> staging_failure \<Rightarrow> recovery_error + StagingRetryTiming option" where
  "plan_staging_retry clock q =
     (if sf_next_phase q = sf_expected_phase q
      then
        and_then (raising Staging_Violation
            (staging_retry_backoff_ms (sf_run_id q) (sf_operation_id q) (sf_expected_failure_count q + 1)))
          (\<lambda>ms. and_then (raising Staging_Violation (staging_plan clock ms)) (\<lambda>timing. Inr (Some timing)))
      else Inr None)"

definition staging_failure_work ::
  "string \<Rightarrow> clock_reading \<Rightarrow> staging_failure \<Rightarrow> (RecoveryOperation \<times> StagingRetryTiming option) work" where
  "staging_failure_work now clock q =
     work_then (work_check (load_operation (sf_run_id q) (sf_operation_id q))) (\<lambda>loaded.
       case loaded of
         None \<Rightarrow> work_none
       | Some operation \<Rightarrow>
           if rop_phase operation \<noteq> sf_expected_phase q
             \<or> rop_staging_failure_count operation \<noteq> sf_expected_failure_count q
           then work_none
           else
             work_then (work_check (\<lambda>_. plan_staging_retry clock q)) (\<lambda>timing.
             let updated = operation\<lparr>rop_phase := sf_next_phase q,
                   rop_last_error_code := Some (strip (sf_error_code q)),
                   rop_staging_failure_count := sf_expected_failure_count q + 1,
                   rop_staging_retry_backoff_ms := map_option srt_backoff_ms timing,
                   rop_staging_retry_not_before_utc := map_option srt_retry_not_before_utc timing\<rparr>
             in
             work_then (work_check (\<lambda>_. raising Operation_Violation (validate_recovery_operation updated))) (\<lambda>_.
             work_then (work_check (require_active_matching_lease updated)) (\<lambda>_.
             work_then (update_operations
                (\<lambda>op. rop_run_id op = sf_run_id q \<and> rop_operation_id op = sf_operation_id q
                   \<and> rop_phase op = sf_expected_phase q
                   \<and> rop_staging_failure_count op = sf_expected_failure_count q)
                (\<lambda>r. r\<lparr>ror_operation := (ror_operation r)\<lparr>rop_phase := sf_next_phase q,
                     rop_last_error_code := Some (strip (sf_error_code q)),
                     rop_staging_failure_count := sf_expected_failure_count q + 1,
                     rop_staging_retry_backoff_ms := rop_staging_retry_backoff_ms updated,
                     rop_staging_retry_not_before_utc := rop_staging_retry_not_before_utc updated\<rparr>,
                   ror_updated_utc := now\<rparr>)) (\<lambda>rowcount.
             work_then (one_row rowcount) (\<lambda>_.
             work_then (append_event now (sf_run_id q) (sf_operation_id q) (Some (sf_expected_phase q))
                (sf_next_phase q) (sf_process_instance_id q)
                (Some (staging_failure_payload q (rop_staging_retry_backoff_ms updated)
                   (rop_staging_retry_not_before_utc updated)))) (\<lambda>_.
             work_then (load_recorded_operation (sf_run_id q) (sf_operation_id q)) (\<lambda>recorded.
               work_return (recorded, timing)))))))))"

definition validate_staging_failure :: "staging_failure \<Rightarrow> recovery_error + unit" where
  "validate_staging_failure q =
     and_then (validate_process_instance_id (sf_process_instance_id q)) (\<lambda>_.
       if sf_expected_failure_count q < 0
       then Inl (Operation_Store_Error ''RECOVERY_OPERATION_REQUIRES_NONNEGATIVE_FAILURE_COUNT'')
       else if blank (sf_error_code q)
       then Inl (Operation_Store_Error ''RECOVERY_OPERATION_REQUIRES_ERROR_CODE'')
       else if sf_expected_phase q \<notin> set (butlast PRE_COMMIT_LEASE_REBIND_PHASES)
       then Inl (Operation_Store_Error ''RECOVERY_OPERATION_STAGING_FAILURE_PHASE_UNSUPPORTED'')
       else if sf_next_phase q \<notin> {sf_expected_phase q, SKIPPED}
       then Inl (Operation_Store_Error ''RECOVERY_OPERATION_STAGING_FAILURE_TRANSITION_UNSUPPORTED'')
       else Inr ())"

definition record_staging_failure ::
  "string \<Rightarrow> clock_reading \<Rightarrow> staging_failure \<Rightarrow> recovery_state \<Rightarrow>
   (recovery_error + RecoveryOperation option) \<times> recovery_state"
where
  "record_staging_failure now clock q s =
     (case s of (c, dl) \<Rightarrow>
        (case validate_staging_failure q of
           Inl e \<Rightarrow> (Inl e, s)
         | Inr _ \<Rightarrow>
             (case transaction staging_failure_handlers (staging_failure_work now clock q) c of
                (Inl e, c') \<Rightarrow> (Inl e, (c', dl))
              | (Inr None, c') \<Rightarrow> (Inr None, (c', dl))
              | (Inr (Some (loaded, timing)), c') \<Rightarrow>
                  (case (case timing of
                       Some planned \<Rightarrow> staging_activate (sf_run_id q) (sf_operation_id q) planned dl
                     | None \<Rightarrow> staging_discard (sf_run_id q) (sf_operation_id q) dl) of
                     Inl code \<Rightarrow>
                       (Inl (Operation_Store_Error ''RECOVERY_OPERATION_PERSISTENCE_FAILED''), (c', dl))
                   | Inr dl' \<Rightarrow> (Inr (Some loaded), (c', dl'))))))"

definition staging_retry_is_due ::
  "clock_reading \<Rightarrow> RecoveryOperation \<Rightarrow> staging_deadlines \<Rightarrow> recovery_error + bool \<times> staging_deadlines" where
  "staging_retry_is_due clock op dl =
     (case (rop_staging_retry_backoff_ms op, rop_staging_retry_not_before_utc op) of
        (None, None) \<Rightarrow> Inr (True, dl)
      | (Some backoff_ms, Some not_before) \<Rightarrow>
          (case staging_is_due clock (rop_run_id op) (rop_operation_id op) backoff_ms not_before dl of
             Inl code \<Rightarrow> Inl (Operation_Store_Error ''RECOVERY_OPERATION_STAGING_RETRY_INVALID'')
           | Inr r \<Rightarrow> Inr r)
      | _ \<Rightarrow> Inl (Operation_Store_Error ''RECOVERY_OPERATION_STAGING_RETRY_INVALID''))"

section \<open>A new lease\<close>

record lease_change =
  lch_run_id :: string
  lch_operation_id :: string
  lch_expected_lease_id :: string
  lch_expected_ownership_epoch :: int
  lch_expected_fencing_token :: int
  lch_lease_id :: string
  lch_owner_installation_id :: string
  lch_ownership_epoch :: int
  lch_fencing_token :: int
  lch_process_instance_id :: string
  lch_payload :: "(string \<times> json) list option"

definition set_lease_columns :: "lease_change \<Rightarrow> RecoveryOperation \<Rightarrow> RecoveryOperation" where
  "set_lease_columns q op = op\<lparr>rop_owner_installation_id := lch_owner_installation_id q,
     rop_ownership_epoch := lch_ownership_epoch q, rop_lease_id := lch_lease_id q,
     rop_fencing_token := lch_fencing_token q\<rparr>"

definition expected_lease :: "lease_change \<Rightarrow> RecoveryOperation \<Rightarrow> bool" where
  "expected_lease q op \<longleftrightarrow> rop_lease_id op = lch_expected_lease_id q
     \<and> rop_ownership_epoch op = lch_expected_ownership_epoch q
     \<and> rop_fencing_token op = lch_expected_fencing_token q"

text \<open>
  The three operations that bind an operation to a new lease have the same body: \<open>record_operation_lease_rebound\<close>
  before the commit, \<open>record_commit_intent_refreshed\<close> and \<open>record_old_target_preserved_commit_intent_refreshed\<close>
  together with a new place in an intent segment.
\<close>

definition lease_change_work ::
  "string \<Rightarrow> lease_change \<Rightarrow> RecoveryOperationPhase \<Rightarrow> (string \<times> int) option \<Rightarrow> RecoveryOperation work" where
  "lease_change_work now q phase intent =
     (let change = (\<lambda>op. case intent of None \<Rightarrow> set_lease_columns q op
            | Some (segment_id, ordinal) \<Rightarrow> (set_lease_columns q op)
                \<lparr>rop_intent_segment_id := Some segment_id, rop_intent_ordinal := Some ordinal\<rparr>)
      in
      work_then (work_check (load_operation (lch_run_id q) (lch_operation_id q))) (\<lambda>loaded.
        case loaded of
          None \<Rightarrow> work_none
        | Some operation \<Rightarrow>
            if rop_phase operation \<noteq> phase then work_none
            else if \<not> expected_lease q operation then work_none
            else
              work_then (work_check (\<lambda>_. raising Operation_Violation
                 (validate_recovery_operation (change operation)))) (\<lambda>_.
              work_then (work_check (require_active_matching_lease (change operation))) (\<lambda>_.
              work_then (if intent = None then work_return ()
                 else work_check (require_matching_intent_segment (change operation))) (\<lambda>_.
              work_then (update_operations
                 (\<lambda>op. rop_run_id op = lch_run_id q \<and> rop_operation_id op = lch_operation_id q
                    \<and> rop_phase op = phase \<and> expected_lease q op)
                 (\<lambda>r. r\<lparr>ror_operation := change (ror_operation r), ror_updated_utc := now\<rparr>)) (\<lambda>rowcount.
              work_then (one_row rowcount) (\<lambda>_.
              work_then (append_event now (lch_run_id q) (lch_operation_id q) (Some phase) phase
                 (lch_process_instance_id q) (lch_payload q)) (\<lambda>_.
                load_recorded_operation (lch_run_id q) (lch_operation_id q)))))))))"

definition record_operation_lease_rebound ::
  "string \<Rightarrow> lease_change \<Rightarrow> RecoveryOperationPhase \<Rightarrow> recovery_connection \<Rightarrow>
   (recovery_error + RecoveryOperation option) \<times> recovery_connection"
where
  "record_operation_lease_rebound now q expected_phase c =
     (case validate_process_instance_id (lch_process_instance_id q) of
        Inl e \<Rightarrow> (Inl e, c)
      | Inr _ \<Rightarrow>
          if expected_phase \<notin> set PRE_COMMIT_LEASE_REBIND_PHASES
          then (Inl (Operation_Store_Error ''RECOVERY_OPERATION_LEASE_REBIND_PHASE_UNSUPPORTED''), c)
          else transaction recovery_handlers (lease_change_work now q expected_phase None) c)"

definition record_commit_intent_refreshed ::
  "string \<Rightarrow> lease_change \<Rightarrow> string \<Rightarrow> int \<Rightarrow> recovery_connection \<Rightarrow>
   (recovery_error + RecoveryOperation option) \<times> recovery_connection"
where
  "record_commit_intent_refreshed now q intent_segment_id intent_ordinal c =
     (case validate_process_instance_id (lch_process_instance_id q) of
        Inl e \<Rightarrow> (Inl e, c)
      | Inr _ \<Rightarrow> transaction recovery_handlers
          (lease_change_work now q COMMIT_INTENT_RECORDED (Some (intent_segment_id, intent_ordinal))) c)"

definition record_old_target_preserved_commit_intent_refreshed ::
  "string \<Rightarrow> lease_change \<Rightarrow> string \<Rightarrow> int \<Rightarrow> recovery_connection \<Rightarrow>
   (recovery_error + RecoveryOperation option) \<times> recovery_connection"
where
  "record_old_target_preserved_commit_intent_refreshed now q intent_segment_id intent_ordinal c =
     (case validate_process_instance_id (lch_process_instance_id q) of
        Inl e \<Rightarrow> (Inl e, c)
      | Inr _ \<Rightarrow> transaction recovery_handlers
          (lease_change_work now q OLD_TARGET_PRESERVED (Some (intent_segment_id, intent_ordinal))) c)"

section \<open>Listings\<close>

definition positive_limit :: "int \<Rightarrow> recovery_error + nat" where
  "positive_limit limit =
     (if limit < 1 then Inl (Operation_Store_Error ''RECOVERY_OPERATION_REQUIRES_POSITIVE_LIMIT'')
      else Inr (nat limit))"

definition list_operations ::
  "(recovery_operation_row \<Rightarrow> bool) \<Rightarrow> (recovery_operation_row \<Rightarrow> 'k :: linorder) \<Rightarrow> int \<Rightarrow> recovery_tables \<Rightarrow>
   recovery_error + RecoveryOperation list"
where
  "list_operations wanted order limit t =
     and_then (positive_limit limit) (\<lambda>n.
       rows_of (map (\<lambda>r. read_operation (ror_operation r))
         (take n (sort_key order (filter wanted (recovery_operations t))))))"

definition plan_order :: "recovery_operation_row \<Rightarrow> int \<times> string" where
  "plan_order r = (rop_plan_sequence_no (ror_operation r), rop_operation_id (ror_operation r))"

definition list_operations_in_phase ::
  "RecoveryOperationPhase \<Rightarrow> int \<Rightarrow> recovery_tables \<Rightarrow> recovery_error + RecoveryOperation list" where
  "list_operations_in_phase phase =
     list_operations (\<lambda>r. rop_phase (ror_operation r) = phase)
       (\<lambda>r. (ror_updated_utc r, rop_run_id (ror_operation r), rop_operation_id (ror_operation r)))"

definition list_operations_for_run_target ::
  "string \<Rightarrow> string \<Rightarrow> int \<Rightarrow> recovery_tables \<Rightarrow> recovery_error + RecoveryOperation list" where
  "list_operations_for_run_target run_id run_target_id =
     list_operations (\<lambda>r. rop_run_id (ror_operation r) = run_id
         \<and> rop_run_target_id (ror_operation r) = run_target_id) plan_order"

definition list_operations_for_run_target_in_phase ::
  "string \<Rightarrow> string \<Rightarrow> RecoveryOperationPhase \<Rightarrow> int \<Rightarrow> recovery_tables \<Rightarrow>
   recovery_error + RecoveryOperation list"
where
  "list_operations_for_run_target_in_phase run_id run_target_id phase =
     list_operations (\<lambda>r. rop_run_id (ror_operation r) = run_id
         \<and> rop_run_target_id (ror_operation r) = run_target_id \<and> rop_phase (ror_operation r) = phase) plan_order"

definition list_started_operations_for_run ::
  "string \<Rightarrow> int \<Rightarrow> recovery_tables \<Rightarrow> recovery_error + RecoveryOperation list" where
  "list_started_operations_for_run run_id =
     list_operations (\<lambda>r. rop_run_id (ror_operation r) = run_id \<and> rop_phase (ror_operation r) \<noteq> PLANNED
         \<and> rop_phase (ror_operation r) \<notin> set RECOVERY_OPERATION_TERMINAL_PHASES) plan_order"

definition list_planned_operations_for_run ::
  "string \<Rightarrow> string option \<Rightarrow> int \<Rightarrow> recovery_tables \<Rightarrow> recovery_error + RecoveryOperation list" where
  "list_planned_operations_for_run run_id exclude_operation_id =
     list_operations (\<lambda>r. rop_run_id (ror_operation r) = run_id \<and> rop_phase (ror_operation r) = PLANNED
         \<and> Some (rop_operation_id (ror_operation r)) \<noteq> exclude_operation_id)
       (\<lambda>r. (rop_run_target_id (ror_operation r), plan_order r))"

record RunTargetStopProgress_row =
  sp_run_target_id :: string
  sp_completed_operations :: int
  sp_completed_bytes :: int

definition summarize_successful_operations_for_run ::
  "string \<Rightarrow> recovery_tables \<Rightarrow> RunTargetStopProgress_row list" where
  "summarize_successful_operations_for_run run_id t =
     (let done = filter (\<lambda>op. rop_run_id op = run_id \<and> rop_phase op \<in> {CATALOG_RECORDED, CLEANED})
            (map ror_operation (recovery_operations t))
      in map (\<lambda>target. let group = filter (\<lambda>op. rop_run_target_id op = target) done in
            \<lparr>sp_run_target_id = target, sp_completed_operations = int (length group),
             sp_completed_bytes = sum_list (map rop_planned_bytes group)\<rparr>)
          (sort (remdups (map rop_run_target_id done))))"

record RecoveryOperationAuditEvent =
  rae_run_id :: string
  rae_run_sequence :: int
  rae_operation_id :: string
  rae_from_phase :: "RecoveryOperationPhase option"
  rae_to_phase :: RecoveryOperationPhase
  rae_event_utc :: string
  rae_process_instance_id :: string
  rae_payload :: "(string \<times> json) list"
  rae_event_hash :: string

definition operation_audit_event_from_row :: "recovery_event \<Rightarrow> recovery_error + RecoveryOperationAuditEvent" where
  "operation_audit_event_from_row e =
     (case json_loads (rev_payload_json e) of
        Some (JObj payload) \<Rightarrow> Inr \<lparr>rae_run_id = rev_run_id e, rae_run_sequence = rev_run_sequence e,
          rae_operation_id = rev_operation_id e, rae_from_phase = rev_from_phase e, rae_to_phase = rev_to_phase e,
          rae_event_utc = rev_event_utc e, rae_process_instance_id = rev_process_instance_id e,
          rae_payload = payload, rae_event_hash = rev_event_hash e\<rparr>
      | _ \<Rightarrow> Inl (Operation_Store_Error ''RECOVERY_OPERATION_AUDIT_PAYLOAD_INVALID''))"

definition list_operation_audit_events ::
  "string \<Rightarrow> string \<Rightarrow> int \<Rightarrow> recovery_tables \<Rightarrow> recovery_error + RecoveryOperationAuditEvent list" where
  "list_operation_audit_events run_id operation_id limit t =
     and_then (positive_limit limit) (\<lambda>n.
       rows_of (map operation_audit_event_from_row (take n (sort_key rev_run_sequence
         (filter (\<lambda>e. rev_run_id e = run_id \<and> rev_operation_id e = operation_id) (recovery_events t))))))"

record RunProcessAuditEvidence =
  rpe_process_instance_id :: string
  rpe_first_run_sequence :: int
  rpe_first_event_utc :: string
  rpe_last_event_utc :: string

definition list_run_process_audit_evidence ::
  "string \<Rightarrow> int \<Rightarrow> recovery_tables \<Rightarrow> recovery_error + RunProcessAuditEvidence list" where
  "list_run_process_audit_evidence run_id limit t =
     and_then (positive_limit limit) (\<lambda>n.
       let evs = sort_key rev_run_sequence (filter (\<lambda>e. rev_run_id e = run_id) (recovery_events t));
           bounds = map (\<lambda>p. let own = filter (\<lambda>e. rev_process_instance_id e = p) evs in (p, hd own, last own))
             (remdups (map rev_process_instance_id evs));
           ordered = take n (sort_key (\<lambda>(p, first, last_event). (rev_run_sequence first, p)) bounds)
       in Inr (map (\<lambda>(p, first, last_event). \<lparr>rpe_process_instance_id = p,
            rpe_first_run_sequence = rev_run_sequence first, rpe_first_event_utc = rev_event_utc first,
            rpe_last_event_utc = rev_event_utc last_event\<rparr>) ordered))"

section \<open>References of retained versions\<close>

datatype RetainedVersionState = RETAINED | DELETE_PENDING | DELETED | BLOCKED

record RetainedVersionRecord =
  rvr_version_object_id :: string
  rvr_handoff_id :: string
  rvr_run_id :: string
  rvr_run_target_id :: string
  rvr_operation_id :: string
  rvr_job_id :: string
  rvr_job_revision_id :: string
  rvr_target_endpoint_id :: string
  rvr_target_endpoint_revision_id :: string
  rvr_endpoint_generation :: int
  rvr_owner_installation_id :: string
  rvr_ownership_epoch :: int
  rvr_final_relative_path :: string
  rvr_original_fingerprint_json :: string
  rvr_created_utc :: string
  rvr_retention_policy :: string
  rvr_retention_until_utc :: string
  rvr_manifest_hash :: string
  rvr_state :: RetainedVersionState
  rvr_row_version :: int
  rvr_object_role :: string

definition released_reference_validation_code ::
  "RetainedVersionRecord \<Rightarrow> recovery_tables \<Rightarrow> recovery_error + string option" where
  "released_reference_validation_code rec t =
     and_then (load_operation (rvr_run_id rec) (rvr_operation_id rec) t) (\<lambda>loaded.
       case loaded of
         None \<Rightarrow> Inr (Some ''VERSION_RETENTION_RECOVERY_REFERENCE_MISSING'')
       | Some op \<Rightarrow>
           (let retained_object_id =
                  (if rvr_object_role rec = ''EMPTY_DIRECTORY_QUARANTINE'' then rop_quarantine_object_id op
                   else rop_version_object_id op)
            in if rop_run_target_id op \<noteq> rvr_run_target_id rec
                 \<or> retained_object_id \<noteq> Some (rvr_version_object_id rec)
                 \<or> rop_version_manifest_hash op \<noteq> Some (rvr_manifest_hash rec)
                 \<or> rop_job_id op \<noteq> Some (rvr_job_id rec)
                 \<or> rop_job_revision_id op \<noteq> Some (rvr_job_revision_id rec)
                 \<or> rop_target_endpoint_id op \<noteq> rvr_target_endpoint_id rec
                 \<or> rop_target_endpoint_revision_id op \<noteq> rvr_target_endpoint_revision_id rec
                 \<or> rop_endpoint_generation op \<noteq> rvr_endpoint_generation rec
                 \<or> rop_owner_installation_id op \<noteq> rvr_owner_installation_id rec
                 \<or> rop_ownership_epoch op \<noteq> rvr_ownership_epoch rec
               then Inr (Some ''VERSION_RETENTION_RECOVERY_REFERENCE_MISMATCH'')
               else if rop_phase op \<noteq> CLEANED
               then Inr (Some ''VERSION_RETENTION_RECOVERY_REFERENCE_ACTIVE'')
               else Inr None))"

end
