(* ===== verification/Run_Completion.thy ===== *)
theory Run_Completion
  imports Run_Execution Recovery_Store
begin

text \<open>
  \<open>application/run_completion.py\<close>: how an executing target is brought to its end from what the recovery journal
  holds for it, and the counts by which \<open>application/run_executor_cycle.py\<close> decides that it is time to.  The run
  store is given by its operations, as in \<open>Run_Execution\<close>; the recovery store only by its listing by run target
  and phase, \<open>list_phase\<close>.  An exception of either store passes through: \<open>engine_error\<close>.
\<close>

datatype engine_error = Run_Error string | Recovery_Error recovery_error

type_synonym ('a, 's) engine_call = "(engine_error + 'a) \<times> 's"

definition run_call :: "'a result \<times> 's \<Rightarrow> ('a, 's) engine_call" where
  "run_call answer = (case answer of (Inl e, s) \<Rightarrow> (Inl (Run_Error e), s) | (Inr a, s) \<Rightarrow> (Inr a, s))"

type_synonym operation_lister =
  "string \<Rightarrow> string \<Rightarrow> RecoveryOperationPhase \<Rightarrow> int \<Rightarrow> recovery_error + RecoveryOperation list"

definition RESTORED_OLD_TARGET_CANCEL_CODE :: string where
  "RESTORED_OLD_TARGET_CANCEL_CODE = ''RUN_TARGET_PRESERVED_OLD_TARGET_RESTORED''"

definition USER_DECISION_REQUIRED_CODE :: string where
  "USER_DECISION_REQUIRED_CODE = ''RUN_TARGET_USER_DECISION_REQUIRED''"

section \<open>The permit\<close>

definition target_permit_mismatch :: "StartedRunTarget \<Rightarrow> MutationPermit \<Rightarrow> bool" where
  "target_permit_mismatch target permit \<longleftrightarrow>
     rt_endpoint_id target \<noteq> mp_endpoint_id permit
     \<or> rt_endpoint_revision_id target \<noteq> mp_endpoint_revision_id permit
     \<or> rt_lease_resource_key target \<noteq> Some (mp_resource_key permit)
     \<or> rt_last_lease_id target \<noteq> Some (mp_lease_id permit)
     \<or> rt_last_ownership_epoch target \<noteq> Some (mp_ownership_epoch permit)
     \<or> rt_last_fencing_token target \<noteq> Some (mp_fencing_token permit)
     \<or> rt_required_owner_installation_id target \<notin> {None, Some (mp_owner_installation_id permit)}
     \<or> rt_required_ownership_epoch target \<notin> {None, Some (mp_ownership_epoch permit)}"

definition operation_matches_permit :: "RecoveryOperation \<Rightarrow> MutationPermit \<Rightarrow> bool" where
  "operation_matches_permit op permit \<longleftrightarrow>
     rop_phase op \<in> {CATALOG_RECORDED, CLEANED}
     \<and> rop_run_id op = mp_run_id permit \<and> rop_run_target_id op = mp_run_target_id permit
     \<and> rop_target_endpoint_id op = mp_endpoint_id permit
     \<and> rop_target_endpoint_revision_id op = mp_endpoint_revision_id permit
     \<and> rop_owner_installation_id op = mp_owner_installation_id permit
     \<and> rop_ownership_epoch op = mp_ownership_epoch permit
     \<and> rop_lease_resource_key op = mp_resource_key permit"

definition operation_matches_terminal_permit ::
  "RecoveryOperation \<Rightarrow> MutationPermit \<Rightarrow> RecoveryOperationPhase \<Rightarrow> bool" where
  "operation_matches_terminal_permit op permit phase \<longleftrightarrow>
     rop_phase op = phase
     \<and> rop_run_id op = mp_run_id permit \<and> rop_run_target_id op = mp_run_target_id permit
     \<and> rop_target_endpoint_id op = mp_endpoint_id permit
     \<and> rop_target_endpoint_revision_id op = mp_endpoint_revision_id permit
     \<and> rop_owner_installation_id op = mp_owner_installation_id permit
     \<and> rop_ownership_epoch op = mp_ownership_epoch permit
     \<and> rop_lease_resource_key op = mp_resource_key permit"

definition terminal_operation_mismatch ::
  "RecoveryOperation list \<Rightarrow> MutationPermit \<Rightarrow> RecoveryOperationPhase \<Rightarrow> RecoveryOperation option" where
  "terminal_operation_mismatch operations permit phase =
     List.find (\<lambda>op. \<not> operation_matches_terminal_permit op permit phase) operations"

section \<open>The journal of the target\<close>

definition cataloged_operations ::
  "operation_lister \<Rightarrow> MutationPermit \<Rightarrow> StartedRunTarget \<Rightarrow> recovery_error + RecoveryOperation list" where
  "cataloged_operations list_phase permit target =
     (if rt_planned_operations target = 0 then Inr []
      else
        and_then (list_phase (mp_run_id permit) (mp_run_target_id permit) CATALOG_RECORDED
            (rt_planned_operations target + 1)) (\<lambda>cataloged.
        and_then (list_phase (mp_run_id permit) (mp_run_target_id permit) CLEANED
            (rt_planned_operations target + 1)) (\<lambda>cleaned.
          Inr (sort_key rop_operation_id (cataloged @ cleaned)))))"

definition terminal_operations ::
  "operation_lister \<Rightarrow> MutationPermit \<Rightarrow> StartedRunTarget \<Rightarrow> RecoveryOperationPhase \<Rightarrow>
   recovery_error + RecoveryOperation list"
where
  "terminal_operations list_phase permit target phase =
     (if rt_planned_operations target = 0 then Inr []
      else list_phase (mp_run_id permit) (mp_run_target_id permit) phase (rt_planned_operations target + 1))"

fun first_error_code :: "RecoveryOperation list \<Rightarrow> string \<Rightarrow> string" where
  "first_error_code [] fallback = fallback"
| "first_error_code (op # ops) fallback =
     (case rop_last_error_code op of
        Some code \<Rightarrow> if blank code then first_error_code ops fallback else strip code
      | None \<Rightarrow> first_error_code ops fallback)"

text \<open>One turn of the loop; a \<open>bool\<close> is an \<open>int\<close> in Python.\<close>

definition payload_byte_count :: "string option \<Rightarrow> int option" where
  "payload_byte_count raw_payload =
     (case raw_payload of
        None \<Rightarrow> None
      | Some raw \<Rightarrow>
          (case json_loads raw of
             Some (JObj payload) \<Rightarrow>
               (case map_of payload ''byte_count'' of
                  Some (JInt n) \<Rightarrow> if 0 \<le> n then Some n else None
                | Some (JBool b) \<Rightarrow> Some (if b then 1 else 0)
                | _ \<Rightarrow> None)
           | _ \<Rightarrow> None))"

definition operation_byte_count :: "RecoveryOperation \<Rightarrow> int" where
  "operation_byte_count op =
     (case payload_byte_count (rop_expected_final_fingerprint_json op) of
        Some n \<Rightarrow> n
      | None \<Rightarrow>
          (case payload_byte_count (rop_expected_staging_fingerprint_json op) of Some n \<Rightarrow> n | None \<Rightarrow> 0))"

section \<open>Completion\<close>

text \<open>The checks both completions begin with: the outcome to return, or the run and the target.\<close>

definition completion_target ::
  "MutationPermit \<Rightarrow> StartedRun option \<Rightarrow> RunTargetCompletionOutcome + StartedRun \<times> StartedRunTarget" where
  "completion_target permit loaded =
     (case loaded of
        None \<Rightarrow> Inl (not_completed None None ''RUN_NOT_FOUND'')
      | Some run \<Rightarrow>
          if sr_state run \<noteq> RunState.EXECUTING then Inl (not_completed (Some run) None ''RUN_NOT_EXECUTING'')
          else
            (case target_by_id run (mp_run_target_id permit) of
               None \<Rightarrow> Inl (not_completed (Some run) None ''RUN_TARGET_NOT_FOUND'')
             | Some target \<Rightarrow>
                 if rt_state target \<noteq> RunTargetState.EXECUTING
                 then Inl (not_completed (Some run) (Some target) ''RUN_TARGET_NOT_EXECUTING'')
                 else if target_permit_mismatch target permit
                 then Inl (not_completed (Some run) (Some target) ''RUN_TARGET_COMPLETION_PERMIT_MISMATCH'')
                 else Inr (run, target)))"

text \<open>
  The steps of the completions: the operations of a phase, or the end, which leaves the state \<open>s\<close> as it is.
\<close>

definition with_terminal_operations ::
  "operation_lister \<Rightarrow> MutationPermit \<Rightarrow> StartedRun \<Rightarrow> StartedRunTarget \<Rightarrow> 's \<Rightarrow> RecoveryOperationPhase \<Rightarrow>
   (RecoveryOperation list \<Rightarrow> (RunTargetCompletionOutcome, 's) engine_call) \<Rightarrow> (RunTargetCompletionOutcome, 's) engine_call"
where
  "with_terminal_operations list_phase permit run target s phase continue =
     (case terminal_operations list_phase permit target phase of
        Inl e \<Rightarrow> (Inl (Recovery_Error e), s)
      | Inr operations \<Rightarrow>
          if terminal_operation_mismatch operations permit phase \<noteq> None
          then (Inr (not_completed (Some run) (Some target)
            ''RUN_TARGET_TERMINAL_RECOVERY_OPERATION_PERMIT_MISMATCH''), s)
          else continue operations)"

definition with_cataloged_operations ::
  "operation_lister \<Rightarrow> MutationPermit \<Rightarrow> StartedRun \<Rightarrow> StartedRunTarget \<Rightarrow> 's \<Rightarrow>
   (RecoveryOperation list \<Rightarrow> (RunTargetCompletionOutcome, 's) engine_call) \<Rightarrow> (RunTargetCompletionOutcome, 's) engine_call"
where
  "with_cataloged_operations list_phase permit run target s continue =
     (case cataloged_operations list_phase permit target of
        Inl e \<Rightarrow> (Inl (Recovery_Error e), s)
      | Inr operations \<Rightarrow>
          if list_ex (\<lambda>op. \<not> operation_matches_permit op permit) operations
          then (Inr (not_completed (Some run) (Some target) ''RUN_TARGET_COMPLETION_OPERATION_PERMIT_MISMATCH''), s)
          else continue operations)"

definition complete_run_target_after_catalog_handoffs ::
  "'s loader \<Rightarrow> (string \<Rightarrow> string \<Rightarrow> int \<Rightarrow> int \<Rightarrow> 's \<Rightarrow> StartedRun option result \<times> 's) \<Rightarrow> operation_lister \<Rightarrow>
   MutationPermit \<Rightarrow> 's \<Rightarrow> (RunTargetCompletionOutcome, 's) engine_call"
where
  "complete_run_target_after_catalog_handoffs load_run record_succeeded list_phase permit s =
     (case load_run (mp_run_id permit) s of
        Inl e \<Rightarrow> (Inl (Run_Error e), s)
      | Inr loaded \<Rightarrow>
          (case completion_target permit loaded of
             Inl outcome \<Rightarrow> (Inr outcome, s)
           | Inr (run, target) \<Rightarrow>
               with_cataloged_operations list_phase permit run target s (\<lambda>cataloged.
                 run_call (complete_run_target_success load_run record_succeeded (mp_run_id permit)
                   (mp_run_target_id permit) (int (length cataloged))
                   (sum_list (map operation_byte_count cataloged)) s))))"

definition complete_run_target_after_terminal_recovery ::
  "'s loader \<Rightarrow> (string \<Rightarrow> string \<Rightarrow> string \<Rightarrow> 's \<Rightarrow> StartedRun option result \<times> 's) \<Rightarrow>
   (string \<Rightarrow> string \<Rightarrow> int \<Rightarrow> int \<Rightarrow> int \<Rightarrow> int \<Rightarrow> string \<Rightarrow> 's \<Rightarrow> StartedRun option result \<times> 's) \<Rightarrow>
   (string \<Rightarrow> string \<Rightarrow> string \<Rightarrow> 's \<Rightarrow> StartedRun option result \<times> 's) \<Rightarrow> operation_lister \<Rightarrow>
   MutationPermit \<Rightarrow> 's \<Rightarrow> (RunTargetCompletionOutcome, 's) engine_call"
where
  "complete_run_target_after_terminal_recovery load_run record_recovery_required record_warned record_cancelled
       list_phase permit s =
     (case load_run (mp_run_id permit) s of
        Inl e \<Rightarrow> (Inl (Run_Error e), s)
      | Inr loaded \<Rightarrow>
          (case completion_target permit loaded of
             Inl outcome \<Rightarrow> (Inr outcome, s)
           | Inr (run, target) \<Rightarrow>
               let run_id = mp_run_id permit; run_target_id = mp_run_target_id permit;
                   planned = rt_planned_operations target;
                   terminal = with_terminal_operations list_phase permit run target s
               in
               terminal USER_DECISION_REQUIRED (\<lambda>decisions.
               if decisions \<noteq> []
               then run_call (complete_run_target_recovery_required load_run record_recovery_required run_id
                 run_target_id (first_error_code decisions USER_DECISION_REQUIRED_CODE) s)
               else
               terminal SKIPPED (\<lambda>skipped.
               with_cataloged_operations list_phase permit run target s (\<lambda>cataloged.
               if skipped \<noteq> [] \<and> planned \<le> int (length skipped) + int (length cataloged)
               then run_call (complete_run_target_with_warnings load_run record_warned run_id run_target_id
                 (int (length cataloged)) (sum_list (map operation_byte_count cataloged))
                 (int (length skipped)) (sum_list (map rop_planned_bytes skipped))
                 (first_error_code skipped ''RUN_TARGET_STAGING_ATTEMPTS_EXHAUSTED'') s)
               else
               terminal RecoveryOperationPhase.CANCELLED (\<lambda>cancelled.
               let restored = filter (\<lambda>op. rop_last_error_code op = Some RESTORED_OLD_TARGET_CANCEL_CODE) cancelled in
               if length restored \<noteq> length cancelled
               then (Inr (not_completed (Some run) (Some target)
                 ''RUN_TARGET_TERMINAL_RECOVERY_CANCEL_REASON_UNSUPPORTED''), s)
               else if restored \<noteq> [] \<and> planned \<le> int (length restored) + int (length cataloged)
               then run_call (complete_run_target_cancelled load_run record_cancelled run_id run_target_id
                 RESTORED_OLD_TARGET_CANCEL_CODE s)
               else (Inr (not_completed (Some run) (Some target) ''RUN_TARGET_TERMINAL_RECOVERY_NOT_READY''), s)))))))"

section \<open>When the executor completes a target\<close>

definition phase_count ::
  "operation_lister \<Rightarrow> MutationPermit \<Rightarrow> RecoveryOperationPhase \<Rightarrow> int \<Rightarrow> recovery_error + int" where
  "phase_count list_phase permit phase limit =
     and_then (list_phase (mp_run_id permit) (mp_run_target_id permit) phase (max limit 1))
       (\<lambda>operations. Inr (int (length operations)))"

definition has_phase ::
  "operation_lister \<Rightarrow> MutationPermit \<Rightarrow> RecoveryOperationPhase \<Rightarrow> int \<Rightarrow> recovery_error + bool" where
  "has_phase list_phase permit phase limit =
     and_then (list_phase (mp_run_id permit) (mp_run_target_id permit) phase (max limit 1))
       (\<lambda>operations. Inr (operations \<noteq> []))"

definition catalog_recorded_count ::
  "operation_lister \<Rightarrow> MutationPermit \<Rightarrow> StartedRunTarget \<Rightarrow> recovery_error + int" where
  "catalog_recorded_count list_phase permit target =
     and_then (list_phase (mp_run_id permit) (mp_run_target_id permit) CATALOG_RECORDED
         (max (rt_planned_operations target + 1) 1)) (\<lambda>cataloged.
     and_then (list_phase (mp_run_id permit) (mp_run_target_id permit) CLEANED
         (max (rt_planned_operations target + 1) 1)) (\<lambda>cleaned.
       Inr (int (length cataloged) + int (length cleaned))))"

definition terminal_recovery_ready ::
  "operation_lister \<Rightarrow> MutationPermit \<Rightarrow> StartedRunTarget \<Rightarrow> recovery_error + bool" where
  "terminal_recovery_ready list_phase permit target =
     and_then (has_phase list_phase permit USER_DECISION_REQUIRED (rt_planned_operations target + 1)) (\<lambda>waiting.
       if waiting then Inr True
       else
         and_then (phase_count list_phase permit RecoveryOperationPhase.CANCELLED
             (rt_planned_operations target + 1)) (\<lambda>cancelled_count.
           if cancelled_count = 0 then Inr False
           else and_then (catalog_recorded_count list_phase permit target) (\<lambda>recorded.
             Inr (rt_planned_operations target \<le> cancelled_count + recorded))))"

definition skipped_recovery_ready ::
  "operation_lister \<Rightarrow> MutationPermit \<Rightarrow> StartedRunTarget \<Rightarrow> recovery_error + bool" where
  "skipped_recovery_ready list_phase permit target =
     and_then (phase_count list_phase permit SKIPPED (rt_planned_operations target + 1)) (\<lambda>skipped_count.
       if skipped_count = 0 then Inr False
       else and_then (catalog_recorded_count list_phase permit target) (\<lambda>recorded.
         Inr (rt_planned_operations target \<le> skipped_count + recorded)))"

text \<open>The condition under which the executor asks for a completion after catalog handoffs.\<close>

definition catalog_completion_ready ::
  "operation_lister \<Rightarrow> MutationPermit \<Rightarrow> StartedRunTarget \<Rightarrow> recovery_error + bool" where
  "catalog_completion_ready list_phase permit target =
     and_then (catalog_recorded_count list_phase permit target)
       (\<lambda>recorded. Inr (rt_planned_operations target \<le> recorded))"

end
