(* ===== verification/Recovery_Logs.thy ===== *)
theory Recovery_Logs
  imports Recovery_Store
begin

text \<open>
  Three tables of the recovery database are append-only logs with a hash chain per stream: the events of a run,
  the events of a directory recovery and the intent segments of a run target.  The contract of such a log is a
  locale; what it promises is proved once.
\<close>

section \<open>Chains\<close>

text \<open>The rows of one stream in the order they were written: numbered without gaps and linked by hash.\<close>

definition numbered_chain ::
  "('r \<Rightarrow> int) \<Rightarrow> ('r \<Rightarrow> string option) \<Rightarrow> ('r \<Rightarrow> string) \<Rightarrow> int \<Rightarrow> 'r list \<Rightarrow> bool" where
  "numbered_chain position previous hash start rows \<longleftrightarrow>
     (\<forall>i < length rows. position (rows ! i) = start + int i
        \<and> previous (rows ! i) = (if i = 0 then None else Some (hash (rows ! (i - 1)))))"

lemma numbered_chain_Nil [simp]: "numbered_chain position previous hash start []"
  by (simp add: numbered_chain_def)

lemma numbered_chain_snoc [simp]:
  "numbered_chain position previous hash start (rows @ [r]) \<longleftrightarrow>
     numbered_chain position previous hash start rows
     \<and> position r = start + int (length rows)
     \<and> previous r = (if rows = [] then None else Some (hash (last rows)))"
proof -
  have "(\<forall>i < length rows. position ((rows @ [r]) ! i) = start + int i
        \<and> previous ((rows @ [r]) ! i) = (if i = 0 then None else Some (hash ((rows @ [r]) ! (i - 1)))))
      \<longleftrightarrow> numbered_chain position previous hash start rows"
    unfolding numbered_chain_def by (intro all_cong) (auto simp: nth_append less_imp_diff_less)
  moreover have "(rows @ [r]) ! (length rows - 1) = last rows" if "rows \<noteq> []"
    using that by (simp add: nth_append last_conv_nth)
  ultimately show ?thesis
    unfolding numbered_chain_def [of _ _ _ _ "rows @ [r]"] by (auto simp: All_less_Suc)
qed

lemma numbered_chain_map:
  assumes "\<And>r. position (f r) = position r" "\<And>r. previous (f r) = previous r" "\<And>r. hash (f r) = hash r"
  shows "numbered_chain position previous hash start (map f rows) \<longleftrightarrow>
    numbered_chain position previous hash start rows"
  using assms by (simp add: numbered_chain_def)

text \<open>A stream's rows are exactly the numbers from the start on.\<close>

lemma numbered_chain_contiguous:
  assumes "numbered_chain position previous hash start rows" "r \<in> set rows" "start \<le> n" "n \<le> position r"
  shows "\<exists>p \<in> set rows. position p = n"
proof -
  obtain i where i: "i < length rows" "rows ! i = r" using assms(2) by (auto simp: in_set_conv_nth)
  then have "position r = start + int i" using assms(1) by (auto simp: numbered_chain_def)
  then have "nat (n - start) < length rows" using i assms(3,4) by linarith
  then show ?thesis
    using assms(1,3) by (intro bexI [of _ "rows ! nat (n - start)"]) (auto simp: numbered_chain_def)
qed

section \<open>Logs\<close>

definition streams_chained ::
  "('r \<Rightarrow> 'k) \<Rightarrow> ('r \<Rightarrow> int) \<Rightarrow> ('r \<Rightarrow> string option) \<Rightarrow> ('r \<Rightarrow> string) \<Rightarrow> int \<Rightarrow> 'r list \<Rightarrow> bool" where
  "streams_chained stream position previous hash start rows \<longleftrightarrow>
     (\<forall>s. numbered_chain position previous hash start (filter (\<lambda>r. stream r = s) rows))"

lemma streams_chained_Nil [simp]: "streams_chained stream position previous hash start []"
  by (simp add: streams_chained_def)

lemma streams_chained_map:
  assumes "\<And>r. stream (f r) = stream r" "\<And>r. position (f r) = position r"
    "\<And>r. previous (f r) = previous r" "\<And>r. hash (f r) = hash r"
  shows "streams_chained stream position previous hash start (map f rows) \<longleftrightarrow>
    streams_chained stream position previous hash start rows"
  using assms by (simp add: streams_chained_def filter_map comp_def numbered_chain_map)

locale chained_log =
  fixes stream :: "'r \<Rightarrow> 'k"
    and position :: "'r \<Rightarrow> int"
    and previous :: "'r \<Rightarrow> string option"
    and hash :: "'r \<Rightarrow> string"
    and start :: int
    and records :: "'r list \<Rightarrow> 'r \<Rightarrow> bool"
  assumes fresh: "records rows r \<Longrightarrow> p \<in> set rows \<Longrightarrow> stream p = stream r \<Longrightarrow> position p \<noteq> position r"
    and linked: "records rows r \<Longrightarrow>
      position r = start \<and> previous r = None
      \<or> (\<exists>p \<in> set rows. stream p = stream r \<and> position r = position p + 1 \<and> previous r = Some (hash p))"
begin

lemma records_extends:
  assumes chained: "streams_chained stream position previous hash start rows" and rec: "records rows r"
  shows "streams_chained stream position previous hash start (rows @ [r])"
  unfolding streams_chained_def
proof
  fix s
  let ?xs = "filter (\<lambda>p. stream p = s) rows"
  have c: "numbered_chain position previous hash start ?xs"
    using chained by (simp add: streams_chained_def)
  show "numbered_chain position previous hash start (filter (\<lambda>p. stream p = s) (rows @ [r]))"
  proof (cases "stream r = s")
    case True
    have no: "position (?xs ! i) \<noteq> position r" if "i < length ?xs" for i
    proof -
      have "?xs ! i \<in> set ?xs" using that by (rule nth_mem)
      then show ?thesis using fresh [OF rec, of "?xs ! i"] True by auto
    qed
    have pos: "position (?xs ! i) = start + int i" if "i < length ?xs" for i
      using c that by (simp add: numbered_chain_def)
    from linked [OF rec] show ?thesis
    proof
      assume first: "position r = start \<and> previous r = None"
      have "?xs = []"
      proof (rule ccontr)
        assume "?xs \<noteq> []"
        then have "0 < length ?xs" by simp
        from no [OF this] pos [OF this] first show False by simp
      qed
      then show ?thesis using True first numbered_chain_snoc [of position previous hash start "[]" r] by simp
    next
      assume "\<exists>p \<in> set rows. stream p = stream r \<and> position r = position p + 1 \<and> previous r = Some (hash p)"
      then obtain p where p: "p \<in> set ?xs" "position r = position p + 1" "previous r = Some (hash p)"
        using True by auto
      then obtain i where i: "i < length ?xs" "?xs ! i = p" by (metis in_set_conv_nth)
      have "\<not> Suc i < length ?xs"
        using no [of "Suc i"] pos [of "Suc i"] pos [OF i(1)] i(2) p(2) by auto
      then have n: "length ?xs = Suc i" using i(1) by simp
      then have "last ?xs = p" using i(2) by (metis diff_Suc_1 last_conv_nth length_0_conv nat.simps(3))
      moreover have "?xs \<noteq> []" using i(1) by auto
      moreover have "position r = start + int (length ?xs)" using p(2) pos [OF i(1)] i(2) n by simp
      ultimately show ?thesis using c True p(3) by simp
    qed
  next
    case False
    then show ?thesis using c by simp
  qed
qed

text \<open>A row is determined by its stream and number.\<close>

lemma row_determined:
  assumes "streams_chained stream position previous hash start rows" "p \<in> set rows" "q \<in> set rows"
    "stream p = stream q" "position p = position q"
  shows "p = q"
proof -
  let ?xs = "filter (\<lambda>r. stream r = stream p) rows"
  have c: "numbered_chain position previous hash start ?xs" using assms(1) by (simp add: streams_chained_def)
  obtain i where i: "i < length ?xs" "?xs ! i = p" using assms(2) 
    using in_set_conv_nth [of p ?xs] by auto
  obtain j where j: "j < length ?xs" "?xs ! j = q" using assms(3,4) 
    using in_set_conv_nth [of q ?xs] by auto
  have "start + int i = start + int j"
    using c i j assms(5) unfolding numbered_chain_def by metis
  then show ?thesis using i j by simp
qed

end

section \<open>The events of a run\<close>

text \<open>The row \<open>append_event\<close> writes.\<close>

definition next_event ::
  "string \<Rightarrow> string \<Rightarrow> string \<Rightarrow> RecoveryOperationPhase option \<Rightarrow> RecoveryOperationPhase \<Rightarrow> string \<Rightarrow>
   (string \<times> json) list option \<Rightarrow> recovery_tables \<Rightarrow> recovery_event"
where
  "next_event now run_id operation_id from_phase to_phase process_instance_id payload t =
     (let l = last_run_event run_id t;
          n = (case l of None \<Rightarrow> 0 | Some e \<Rightarrow> rev_run_sequence e + 1);
          pj = event_payload_json (map_option ror_operation (List.find (at_operation run_id operation_id)
            (recovery_operations t))) from_phase to_phase payload
      in \<lparr>rev_run_id = run_id, rev_run_sequence = n, rev_operation_id = operation_id,
           rev_from_phase = from_phase, rev_to_phase = to_phase, rev_event_utc = now,
           rev_process_instance_id = process_instance_id, rev_payload_json = pj,
           rev_previous_event_hash = map_option rev_event_hash l,
           rev_event_hash = recovery_event_hash run_id n operation_id from_phase to_phase process_instance_id pj
             (map_option rev_event_hash l)\<rparr>)"

definition recovery_event_recorded :: "recovery_event list \<Rightarrow> recovery_event \<Rightarrow> bool" where
  "recovery_event_recorded rows e \<longleftrightarrow>
     (\<exists>now run_id operation_id from_phase to_phase process_instance_id payload t.
        recovery_events t = rows
        \<and> append_event now run_id operation_id from_phase to_phase process_instance_id payload t =
            (Returns (), t\<lparr>recovery_events := rows @ [e]\<rparr>))"

lemma last_run_event_None: "last_run_event run_id t = None \<Longrightarrow> e \<in> set (recovery_events t) \<Longrightarrow> rev_run_id e \<noteq> run_id"
proof -
  assume n: "last_run_event run_id t = None" and e: "e \<in> set (recovery_events t)"
  have "sort_key (\<lambda>e. - rev_run_sequence e) (filter (\<lambda>e. rev_run_id e = run_id) (recovery_events t)) = []"
    using n by (simp add: last_run_event_def split: list.splits)
  then have "set (filter (\<lambda>e. rev_run_id e = run_id) (recovery_events t)) = {}"
    by (metis set_empty set_sort)
  then show ?thesis using e by (auto simp: filter_empty_conv)
qed

lemma last_run_event_Some:
  assumes "last_run_event run_id t = Some l"
  shows "l \<in> set (recovery_events t)" "rev_run_id l = run_id"
    "e \<in> set (recovery_events t) \<Longrightarrow> rev_run_id e = run_id \<Longrightarrow> rev_run_sequence e \<le> rev_run_sequence l"
proof -
  define xs where "xs = filter (\<lambda>e. rev_run_id e = run_id) (recovery_events t)"
  obtain r where s: "sort_key (\<lambda>e. - rev_run_sequence e) xs = l # r"
    using assms by (auto simp: last_run_event_def xs_def split: list.splits)
  have "set (l # r) = set xs" using s by (metis set_sort)
  then show "l \<in> set (recovery_events t)" "rev_run_id l = run_id" by (auto simp: xs_def)
  show "rev_run_sequence e \<le> rev_run_sequence l" if "e \<in> set (recovery_events t)" "rev_run_id e = run_id"
  proof -
    have "e \<in> set (l # r)" using that \<open>set (l # r) = set xs\<close> by (simp add: xs_def)
    moreover have "sorted (map (\<lambda>e. - rev_run_sequence e) (l # r))" using s by (metis sorted_sort_key)
    ultimately show ?thesis by auto
  qed
qed

lemma load_operation_reads [simp]:
  "load_operation run_id operation_id t =
     Inr (map_option ror_operation (List.find (at_operation run_id operation_id) (recovery_operations t)))"
  by (simp add: load_operation_def read_operation_def split: option.split)

lemma append_event_effect:
  "append_event now run_id operation_id from_phase to_phase process_instance_id payload t =
     insert_recovery_event
       (next_event now run_id operation_id from_phase to_phase process_instance_id payload t) t"
  by (simp add: append_event_def work_then_def work_check_def next_event_def Let_def)

lemma next_event_simps [simp]:
  fixes t :: recovery_tables
  defines "e \<equiv> \<lambda>now run_id operation_id from_phase to_phase pi payload.
    next_event now run_id operation_id from_phase to_phase pi payload t"
  shows "rev_run_id (e now r op f p pi pl) = r" "rev_operation_id (e now r op f p pi pl) = op"
    "rev_from_phase (e now r op f p pi pl) = f" "rev_to_phase (e now r op f p pi pl) = p"
    "rev_process_instance_id (e now r op f p pi pl) = pi"
    "rev_previous_event_hash (e now r op f p pi pl) = map_option rev_event_hash (last_run_event r t)"
    "rev_run_sequence (e now r op f p pi pl) =
       (case last_run_event r t of None \<Rightarrow> 0 | Some l \<Rightarrow> rev_run_sequence l + 1)"
  by (simp_all add: e_def next_event_def Let_def)

lemma event_hash_length [simp]: "length (recovery_event_hash a b c d e f g h) = 64"
  unfolding recovery_event_hash_def using sha256_hexdigest_is_hex64 by (simp add: is_hex64_def)

interpretation run_log: chained_log rev_run_id rev_run_sequence rev_previous_event_hash rev_event_hash 0
  recovery_event_recorded
proof
  fix rows r p
  assume rec: "recovery_event_recorded rows r"
  then obtain now run_id operation_id from_phase to_phase pi payload t where t: "recovery_events t = rows"
    and n: "append_event now run_id operation_id from_phase to_phase pi payload t =
       (Returns (), t\<lparr>recovery_events := rows @ [r]\<rparr>)"
    by (auto simp: recovery_event_recorded_def)
  let ?l = "last_run_event run_id t"
  have r: "r = next_event now run_id operation_id from_phase to_phase pi payload t"
    using n by (auto simp: append_event_effect insert_recovery_event_def t
        dest!: arg_cong [where f = recovery_events] split: if_splits)
  have run: "rev_run_id r = run_id"
    and pos: "rev_run_sequence r = (case ?l of None \<Rightarrow> 0 | Some e \<Rightarrow> rev_run_sequence e + 1)"
    and prev: "rev_previous_event_hash r = map_option rev_event_hash ?l"
    by (simp_all add: r)
  show "rev_run_sequence p \<noteq> rev_run_sequence r" if "p \<in> set rows" "rev_run_id p = rev_run_id r"
  proof (cases ?l)
    case None
    then show ?thesis using last_run_event_None [OF None, of p] that t run by simp
  next
    case (Some l)
    then show ?thesis using last_run_event_Some(3) [OF Some, of p] that t run pos by simp
  qed
  show "rev_run_sequence r = 0 \<and> rev_previous_event_hash r = None
    \<or> (\<exists>p \<in> set rows. rev_run_id p = rev_run_id r \<and> rev_run_sequence r = rev_run_sequence p + 1
        \<and> rev_previous_event_hash r = Some (rev_event_hash p))"
  proof (cases ?l)
    case None
    then show ?thesis using pos prev by simp
  next
    case (Some l)
    then show ?thesis using last_run_event_Some(1,2) [OF Some] t run pos prev by (intro disjI2 bexI [of _ l]) simp_all
  qed
qed

end
