(* ===== verification/Recovery_Journal.thy ===== *)
theory Recovery_Journal
  imports Recovery_Logs
begin

text \<open>
  The invariant of the recovery journal, and that everything that works on the recovery database keeps it,
  whether it returns, gives up or raises: every recorded operation is valid, is bound to a matching durable
  intent segment once it says so, and is at the phase its events lead to.
\<close>

section \<open>Histories\<close>

text \<open>
  The phase changes the events of an operation may record: it starts as planned, a terminal phase is never
  left, a phase may be recorded again (a new lease, a failed attempt), and otherwise the change is one the
  application validates.  Only a catalog-recorded operation is cleaned.
\<close>

definition legal_step :: "RecoveryOperationPhase option \<Rightarrow> RecoveryOperationPhase \<Rightarrow> bool" where
  "legal_step from_phase to_phase \<longleftrightarrow>
     (case from_phase of
        None \<Rightarrow> to_phase = PLANNED
      | Some p \<Rightarrow> p \<notin> set RECOVERY_OPERATION_TERMINAL_PHASES
          \<and> (to_phase = p \<or> validate_recovery_phase_transition p to_phase = Inr ())
          \<and> (to_phase = CLEANED \<longrightarrow> p = CATALOG_RECORDED))"

definition replay_step ::
  "RecoveryOperationPhase option option \<Rightarrow> recovery_event \<Rightarrow> RecoveryOperationPhase option option" where
  "replay_step st e =
     (case st of
        None \<Rightarrow> None
      | Some from_phase \<Rightarrow>
          if rev_from_phase e = from_phase \<and> legal_step from_phase (rev_to_phase e)
          then Some (Some (rev_to_phase e)) else None)"

text \<open>Reading the events from the start: \<open>None\<close> when one does not fit.\<close>

definition replay :: "recovery_event list \<Rightarrow> RecoveryOperationPhase option option" where
  "replay evs = foldl replay_step (Some None) evs"

lemma replay_Nil [simp]: "replay [] = Some None"
  by (simp add: replay_def)

lemma replay_snoc [simp]: "replay (evs @ [e]) = replay_step (replay evs) e"
  by (simp add: replay_def)

definition operation_events :: "RecoveryOperation \<Rightarrow> recovery_tables \<Rightarrow> recovery_event list" where
  "operation_events op t =
     filter (\<lambda>e. rev_run_id e = rop_run_id op \<and> rev_operation_id e = rop_operation_id op) (recovery_events t)"

section \<open>The invariant\<close>

definition segment_binds :: "RecoveryIntentSegment \<Rightarrow> RecoveryOperation \<Rightarrow> bool" where
  "segment_binds s op \<longleftrightarrow>
     Some (ris_segment_id s) = rop_intent_segment_id op
     \<and> ris_run_id s = rop_run_id op \<and> ris_run_target_id s = rop_run_target_id op
     \<and> ris_target_endpoint_id s = rop_target_endpoint_id op
     \<and> ris_target_endpoint_revision_id s = rop_target_endpoint_revision_id op
     \<and> ris_endpoint_generation s = rop_endpoint_generation op
     \<and> ris_owner_installation_id s = rop_owner_installation_id op
     \<and> ris_ownership_epoch s = rop_ownership_epoch op
     \<and> ris_lease_id s = rop_lease_id op \<and> ris_fencing_token s = rop_fencing_token op
     \<and> ris_durability_state s = DURABILITY_DURABLE"

definition operation_sound :: "RecoveryIntentSegment list \<Rightarrow> RecoveryOperation \<Rightarrow> bool" where
  "operation_sound segments op \<longleftrightarrow>
     validate_recovery_operation op = Inr ()
     \<and> (rop_phase op \<in> set PRE_COMMIT_LEASE_REBIND_PHASES \<longrightarrow> rop_intent_segment_id op = None)
     \<and> (rop_catalog_handoff_id op \<noteq> None \<longrightarrow>
          rop_phase op = CATALOG_RECORDED \<or> rop_phase op \<in> set RECOVERY_OPERATION_TERMINAL_PHASES)
     \<and> (rop_intent_segment_id op \<noteq> None \<longrightarrow> list_ex (\<lambda>s. segment_binds s op) segments)"

definition event_sealed :: "recovery_event \<Rightarrow> bool" where
  "event_sealed e \<longleftrightarrow>
     rev_event_hash e = recovery_event_hash (rev_run_id e) (rev_run_sequence e) (rev_operation_id e)
       (rev_from_phase e) (rev_to_phase e) (rev_process_instance_id e) (rev_payload_json e)
       (rev_previous_event_hash e)"

definition row_key :: "recovery_operation_row \<Rightarrow> string \<times> string" where
  "row_key r = (rop_run_id (ror_operation r), rop_operation_id (ror_operation r))"

definition journal_inv :: "recovery_tables \<Rightarrow> bool" where
  "journal_inv t \<longleftrightarrow>
     distinct (map row_key (recovery_operations t))
     \<and> (\<forall>r \<in> set (recovery_operations t). operation_sound (map isr_segment (intent_segments t)) (ror_operation r)
          \<and> replay (operation_events (ror_operation r) t) = Some (Some (rop_phase (ror_operation r))))
     \<and> (\<forall>e \<in> set (recovery_events t). event_sealed e
          \<and> (\<exists>r \<in> set (recovery_operations t). row_key r = (rev_run_id e, rev_operation_id e)))
     \<and> streams_chained rev_run_id rev_run_sequence rev_previous_event_hash rev_event_hash 0 (recovery_events t)"

lemma at_operation_key: "at_operation run_id operation_id r \<longleftrightarrow> row_key r = (run_id, operation_id)"
  by (auto simp: at_operation_def row_key_def)

section \<open>Appending an event\<close>

lemma next_event_sealed [simp]:
  "event_sealed (next_event now run_id operation_id from_phase to_phase process_instance_id payload t)"
  by (simp add: event_sealed_def next_event_def Let_def)

lemma sealed_hash_length: "event_sealed e \<Longrightarrow> length (rev_event_hash e) = 64"
  by (simp add: event_sealed_def)

lemma chained_positions:
  assumes "streams_chained stream position previous hash start rows" "r \<in> set rows"
  shows "start \<le> position r"
proof -
  have "numbered_chain position previous hash start (filter (\<lambda>p. stream p = stream r) rows)"
    using assms(1) by (simp add: streams_chained_def)
  moreover obtain i where "i < length (filter (\<lambda>p. stream p = stream r) rows)"
      "filter (\<lambda>p. stream p = stream r) rows ! i = r"
    using assms(2) in_set_conv_nth [of r "filter (\<lambda>p. stream p = stream r) rows"] by auto
  ultimately show ?thesis by (auto simp: numbered_chain_def)
qed

text \<open>In a sound log the append always succeeds.\<close>

lemma append_event_returns:
  fixes now process_instance_id :: string
    and from_phase :: "RecoveryOperationPhase option" and to_phase :: RecoveryOperationPhase
    and payload :: "(string \<times> json) list option"
  assumes "streams_chained rev_run_id rev_run_sequence rev_previous_event_hash rev_event_hash 0 (recovery_events t)"
    and "\<And>e. e \<in> set (recovery_events t) \<Longrightarrow> event_sealed e"
    and "\<exists>r \<in> set (recovery_operations t). row_key r = (run_id, operation_id)"
  defines "e \<equiv> next_event now run_id operation_id from_phase to_phase process_instance_id payload t"
  shows "append_event now run_id operation_id from_phase to_phase process_instance_id payload t =
     (Returns (), t\<lparr>recovery_events := recovery_events t @ [e]\<rparr>)"
proof -
  have l: "event_sealed l" "0 \<le> rev_run_sequence l" if "last_run_event run_id t = Some l" for l
    using assms(2) chained_positions [OF assms(1)] last_run_event_Some(1) [OF that] by auto
  have "\<not> rev_run_sequence e < 0" "length_64 (rev_previous_event_hash e)" "length (rev_event_hash e) = 64"
    using l by (auto simp: e_def length_64_def sealed_hash_length split: option.split)
  moreover have "\<not> list_ex (\<lambda>d. rev_run_id d = rev_run_id e \<and> rev_run_sequence d = rev_run_sequence e) (recovery_events t)"
  proof (cases "last_run_event run_id t")
    case None
    then show ?thesis using last_run_event_None [OF None] by (auto simp: e_def list_ex_iff)
  next
    case (Some l)
    then show ?thesis using last_run_event_Some(3) [OF Some] by (fastforce simp: e_def list_ex_iff)
  qed
  moreover have "list_ex (at_operation (rev_run_id e) (rev_operation_id e)) (recovery_operations t)"
    using assms(3) by (simp add: e_def list_ex_iff at_operation_key)
  ultimately show ?thesis by (simp add: append_event_effect e_def [symmetric] insert_recovery_event_def)
qed

lemma append_event_chained:
  assumes "append_event now run_id operation_id from_phase to_phase process_instance_id payload t =
     (Returns (), t\<lparr>recovery_events := recovery_events t @ [e]\<rparr>)"
    and "streams_chained rev_run_id rev_run_sequence rev_previous_event_hash rev_event_hash 0 (recovery_events t)"
  shows "streams_chained rev_run_id rev_run_sequence rev_previous_event_hash rev_event_hash 0
    (recovery_events t @ [e])"
  using assms(2)
proof (rule run_log.records_extends)
  show "recovery_event_recorded (recovery_events t) e"
    unfolding recovery_event_recorded_def using assms(1) by blast
qed

section \<open>Changing one operation\<close>

definition with_operation :: "string \<Rightarrow> RecoveryOperation \<Rightarrow> recovery_operation_row list \<Rightarrow> recovery_operation_row list" where
  "with_operation now op =
     sql_update (at_operation (rop_run_id op) (rop_operation_id op)) (\<lambda>r. r\<lparr>ror_operation := op, ror_updated_utc := now\<rparr>)"

definition change_operation ::
  "string \<Rightarrow> RecoveryOperationPhase \<Rightarrow> RecoveryOperation \<Rightarrow> string \<Rightarrow> (string \<times> json) list option \<Rightarrow>
   recovery_tables \<Rightarrow> recovery_tables"
where
  "change_operation now from_phase op process_instance_id payload t =
     (let t1 = t\<lparr>recovery_operations := with_operation now op (recovery_operations t)\<rparr>
      in t1\<lparr>recovery_events := recovery_events t @
          [next_event now (rop_run_id op) (rop_operation_id op) (Some from_phase) (rop_phase op)
             process_instance_id payload t1]\<rparr>)"

text \<open>The tables agree except for the directory journal.\<close>

definition same_journal :: "recovery_tables \<Rightarrow> recovery_tables \<Rightarrow> bool" where
  "same_journal t t' \<longleftrightarrow>
     lease_counters t' = lease_counters t \<and> resource_leases t' = resource_leases t
     \<and> intent_segments t' = intent_segments t \<and> recovery_operations t' = recovery_operations t
     \<and> recovery_events t' = recovery_events t"

lemma same_journal_refl [simp]: "same_journal t t"
  by (simp add: same_journal_def)

lemma journal_inv_same: "same_journal t t' \<Longrightarrow> journal_inv t' \<longleftrightarrow> journal_inv t"
  by (simp add: same_journal_def journal_inv_def operation_events_def)

lemma with_operation_keys:
  "map row_key (with_operation now op rows) = map row_key rows"
  by (auto simp: with_operation_def sql_update_def row_key_def at_operation_def)

lemma with_operation_rows:
  "r \<in> set (with_operation now op rows) \<longleftrightarrow>
     (\<exists>q \<in> set rows. if row_key q = (rop_run_id op, rop_operation_id op)
        then r = q\<lparr>ror_operation := op, ror_updated_utc := now\<rparr> else r = q)"
  by (auto simp: with_operation_def set_sql_update at_operation_key image_iff)

lemma distinct_key_eq:
  assumes "distinct (map k rows)" "a \<in> set rows" "b \<in> set rows" "k a = k b"
  shows "a = b"
  using assms by (simp add: distinct_map inj_on_def)

lemma journal_inv_change:
  assumes inv: "journal_inv t" and r: "r \<in> set (recovery_operations t)"
    and key: "row_key r = (rop_run_id op', rop_operation_id op')"
    and sound: "operation_sound (map isr_segment (intent_segments t)) op'"
    and step: "legal_step (Some (rop_phase (ror_operation r))) (rop_phase op')"
  shows "journal_inv (change_operation now (rop_phase (ror_operation r)) op' process_instance_id payload t)"
    (is "journal_inv ?t'")
proof -
  let ?op = "ror_operation r"
  define t1 where "t1 = t\<lparr>recovery_operations := with_operation now op' (recovery_operations t)\<rparr>"
  define e where "e = next_event now (rop_run_id op') (rop_operation_id op') (Some (rop_phase ?op)) (rop_phase op')
    process_instance_id payload t1"
  have t': "?t' = t1\<lparr>recovery_events := recovery_events t1 @ [e]\<rparr>"
    by (simp add: change_operation_def Let_def t1_def e_def)
  have d: "distinct (map row_key (recovery_operations t))"
    and chained: "streams_chained rev_run_id rev_run_sequence rev_previous_event_hash rev_event_hash 0 (recovery_events t1)"
    and sealed: "\<And>x. x \<in> set (recovery_events t1) \<Longrightarrow> event_sealed x"
    using inv by (auto simp: journal_inv_def t1_def)
  have r': "r\<lparr>ror_operation := op', ror_updated_utc := now\<rparr> \<in> set (recovery_operations t1)"
    using r key by (auto simp: t1_def with_operation_rows)
  then have ex: "\<exists>q \<in> set (recovery_operations t1). row_key q = (rop_run_id op', rop_operation_id op')"
    by (intro bexI) (simp_all add: row_key_def)
  have app: "append_event now (rop_run_id op') (rop_operation_id op') (Some (rop_phase ?op)) (rop_phase op')
      process_instance_id payload t1 = (Returns (), t1\<lparr>recovery_events := recovery_events t1 @ [e]\<rparr>)"
    unfolding e_def by (rule append_event_returns [OF chained sealed ex])
  have evs: "operation_events op ?t' = operation_events op t @
      (if (rop_run_id op, rop_operation_id op) = (rop_run_id op', rop_operation_id op') then [e] else [])" for op
    by (auto simp: operation_events_def t' t1_def e_def)
  have same: "operation_events op' t = operation_events ?op t"
    using key by (simp add: operation_events_def row_key_def)
  have rows: "operation_sound (map isr_segment (intent_segments ?t')) (ror_operation q)
      \<and> replay (operation_events (ror_operation q) ?t') = Some (Some (rop_phase (ror_operation q)))"
    if q: "q \<in> set (recovery_operations ?t')" for q
  proof -
    from q obtain p where p: "p \<in> set (recovery_operations t)"
      "if row_key p = (rop_run_id op', rop_operation_id op')
       then q = p\<lparr>ror_operation := op', ror_updated_utc := now\<rparr> else q = p"
      unfolding t' t1_def by (auto simp: with_operation_rows)
    show ?thesis
    proof (cases "row_key p = (rop_run_id op', rop_operation_id op')")
      case True
      then have "q = p\<lparr>ror_operation := op', ror_updated_utc := now\<rparr>" using p(2) by simp
      moreover have "replay (operation_events ?op t) = Some (Some (rop_phase ?op))"
        using inv r by (simp add: journal_inv_def)
      ultimately show ?thesis using sound step same
        by (simp add: evs) (simp add: t' t1_def e_def replay_step_def)
    next
      case False
      then have "q = p" using p(2) by simp
      moreover have "operation_events (ror_operation p) ?t' = operation_events (ror_operation p) t"
        using False by (auto simp: evs row_key_def)
      moreover have "intent_segments ?t' = intent_segments t" by (simp add: t' t1_def)
      ultimately show ?thesis using p(1) inv by (simp add: journal_inv_def)
    qed
  qed
  have keys: "map row_key (recovery_operations ?t') = map row_key (recovery_operations t)"
    by (simp add: t' t1_def with_operation_keys)
  have events: "event_sealed x \<and> (\<exists>q \<in> set (recovery_operations ?t'). row_key q = (rev_run_id x, rev_operation_id x))"
    if x: "x \<in> set (recovery_events ?t')" for x
  proof (cases "x = e")
    case True
    then show ?thesis using ex by (simp add: t' e_def)
  next
    case False
    then have x: "x \<in> set (recovery_events t)" using x by (simp add: t' t1_def)
    then obtain q where "q \<in> set (recovery_operations t)" "row_key q = (rev_run_id x, rev_operation_id x)"
      using inv unfolding journal_inv_def by blast
    then have "(rev_run_id x, rev_operation_id x) \<in> set (map row_key (recovery_operations ?t'))"
      unfolding keys by force
    then show ?thesis using sealed [of x] x by (auto simp: t1_def)
  qed
  have log: "streams_chained rev_run_id rev_run_sequence rev_previous_event_hash rev_event_hash 0 (recovery_events ?t')"
    using append_event_chained [OF app chained] by (simp add: t')
  show ?thesis
    unfolding journal_inv_def keys using d rows events log by blast
qed

end
