(* ===== verification/Recovery_Work.thy ===== *)
theory Recovery_Work
  imports Recovery_Journal
begin

text \<open>
  What the operations of the recovery store do to the journal: each either leaves it as it is or changes one
  operation and appends its event.  With it the invariant is kept.
\<close>

section \<open>Directories do not touch the journal\<close>

lemma work_keeps_if [work_rules]:
  "(b \<Longrightarrow> work_keeps P m) \<Longrightarrow> (\<not> b \<Longrightarrow> work_keeps P n) \<Longrightarrow> work_keeps P (if b then m else n)"
  by simp

lemma work_keeps_option [work_rules]:
  "work_keeps P m \<Longrightarrow> (\<And>a. work_keeps P (f a)) \<Longrightarrow> work_keeps P (case x of None \<Rightarrow> m | Some a \<Rightarrow> f a)"
  by (simp split: option.split)

lemma work_keeps_let [work_rules]: "work_keeps P (f x) \<Longrightarrow> work_keeps P (let a = x in f a)"
  by simp

definition ignores_directories :: "(recovery_tables \<Rightarrow> bool) \<Rightarrow> bool" where
  "ignores_directories P \<longleftrightarrow>
     (\<forall>t d. P (t\<lparr>directory_operations := d\<rparr>) = P t) \<and> (\<forall>t d. P (t\<lparr>directory_events := d\<rparr>) = P t)"

lemma directory_writes_keep:
  assumes "ignores_directories P"
  shows "work_keeps P (insert_directory_operation now op)" "work_keeps P (insert_directory_event e)"
    "work_keeps P (update_directory_operations p f)" "work_keeps P (load_recorded_directory_operation i)"
  using assms
  by (auto simp: ignores_directories_def work_keeps_def insert_directory_operation_def insert_directory_event_def
      update_directory_operations_def load_recorded_directory_operation_def work_check_def Let_def split: sum.split)

lemma directory_work_keeps:
  assumes "ignores_directories P"
  shows "work_keeps P (record_directory_work now op process_instance_id payload)"
    "work_keeps P (transition_directory_work now transition)"
  unfolding record_directory_work_def transition_directory_work_def apply_directory_transition_def Let_def
  by (intro work_rules directory_writes_keep [OF assms])+

lemma directory_glue_keeps:
  assumes "ignores_directories P"
  shows "work_keeps P (record_directory_recovery_if_applicable now ds op process_instance_id)"
    "work_keeps P (record_directory_catalog_terminal now ds op process_instance_id pl)"
  unfolding record_directory_recovery_if_applicable_def record_directory_catalog_terminal_def Let_def
  by (intro work_rules directory_work_keeps [OF assms])+

lemma same_journal_ignores [simp]: "ignores_directories (same_journal t)"
  by (simp add: ignores_directories_def same_journal_def)

lemma journal_inv_ignores [simp]: "ignores_directories journal_inv"
  unfolding ignores_directories_def by (auto intro!: journal_inv_same simp: same_journal_def)

section \<open>Running work\<close>

lemma work_then_returns: "m t = (Returns a, t1) \<Longrightarrow> work_then m f t = f a t1"
  by (simp add: work_then_def)

lemma work_then_check: "work_then (work_check q) f t = (case q t of Inl e \<Rightarrow> (Raises e, t) | Inr a \<Rightarrow> f a t)"
  by (simp add: work_then_def work_check_def split: sum.split)

lemma find_at_operation:
  assumes "List.find (at_operation run_id operation_id) rows = Some r"
  shows "r \<in> set rows" "row_key r = (run_id, operation_id)"
  using assms find_Some_iff' by (fastforce simp: at_operation_key)+

text \<open>An update that matches the operation read before writes exactly its row.\<close>

lemma update_operations_one:
  assumes d: "distinct (map row_key (recovery_operations t))" and r: "r \<in> set (recovery_operations t)"
    and key: "row_key r = (rop_run_id op', rop_operation_id op')" and p: "p (ror_operation r)"
    and only: "\<And>x. p x \<Longrightarrow> rop_run_id x = rop_run_id op' \<and> rop_operation_id x = rop_operation_id op'"
    and f: "f r = r\<lparr>ror_operation := op', ror_updated_utc := now\<rparr>"
  shows "update_operations p f t \<in>
     {(Raises Integrity_Error, t),
      (Returns 1, t\<lparr>recovery_operations := with_operation now op' (recovery_operations t)\<rparr>)}"
proof -
  have u: "x = r" if "x \<in> set (recovery_operations t)"
      "rop_run_id (ror_operation x) = rop_run_id op'" "rop_operation_id (ror_operation x) = rop_operation_id op'" for x
    by (rule distinct_key_eq [OF d]) (use that r key in \<open>simp_all add: row_key_def\<close>)
  have "sql_update (\<lambda>x. p (ror_operation x)) f (recovery_operations t) = with_operation now op' (recovery_operations t)"
    unfolding with_operation_def sql_update_def
  proof (rule map_cong [OF refl])
    fix x assume x: "x \<in> set (recovery_operations t)"
    show "(if p (ror_operation x) then f x else x) =
      (if at_operation (rop_run_id op') (rop_operation_id op') x
       then x\<lparr>ror_operation := op', ror_updated_utc := now\<rparr> else x)"
      using u [OF x] only [of "ror_operation x"] p f key by (auto simp: at_operation_def row_key_def)
  qed
  moreover have "sql_count (\<lambda>x. p (ror_operation x)) (recovery_operations t) = 1"
  proof (rule sql_count_key [THEN iffD2, OF d])
    show "row_key x = row_key r" if "p (ror_operation x)" for x
      using only [OF that] key by (simp add: row_key_def)
    show "\<exists>x \<in> set (recovery_operations t). p (ror_operation x)" using r p by blast
  qed
  ultimately show ?thesis by (simp add: update_operations_def Let_def)
qed

text \<open>The second half of every change: update, append, and what is left to do.\<close>

lemma change_suffix:
  fixes process_instance_id :: string and payload :: "(string \<times> json) list option"
  assumes inv: "journal_inv t" and r: "r \<in> set (recovery_operations t)"
    and key: "row_key r = (rop_run_id op', rop_operation_id op')" and p: "p (ror_operation r)"
    and only: "\<And>x. p x \<Longrightarrow> rop_run_id x = rop_run_id op' \<and> rop_operation_id x = rop_operation_id op'"
    and f: "f r = r\<lparr>ror_operation := op', ror_updated_utc := now\<rparr>"
    and from_p: "from_phase = rop_phase (ror_operation r)" and to_p: "to_phase = rop_phase op'"
    and ids: "run_id = rop_run_id op'" "operation_id = rop_operation_id op'"
  defines "t' \<equiv> change_operation now from_phase op' process_instance_id payload t"
  shows "work_then (update_operations p f) (\<lambda>n. work_then (one_row n) (\<lambda>_.
       work_then (append_event now run_id operation_id (Some from_phase) to_phase process_instance_id payload)
         (\<lambda>_. tail))) t \<in> {(Raises Integrity_Error, t), tail t'}"
proof -
  define t1 where "t1 = t\<lparr>recovery_operations := with_operation now op' (recovery_operations t)\<rparr>"
  have d: "distinct (map row_key (recovery_operations t))" using inv by (simp add: journal_inv_def)
  have "append_event now run_id operation_id (Some from_phase) to_phase process_instance_id payload t1 = (Returns (), t')"
  proof -
    have "\<exists>q \<in> set (recovery_operations t1). row_key q = (run_id, operation_id)"
      using r key ids by (intro bexI [of _ "r\<lparr>ror_operation := op', ror_updated_utc := now\<rparr>"])
        (auto simp: t1_def with_operation_rows row_key_def)
    then have "append_event now run_id operation_id (Some from_phase) to_phase process_instance_id payload t1 =
        (Returns (), t1\<lparr>recovery_events := recovery_events t1 @
           [next_event now run_id operation_id (Some from_phase) to_phase process_instance_id payload t1]\<rparr>)"
      using inv by (intro append_event_returns) (auto simp: t1_def journal_inv_def)
    then show ?thesis by (simp add: t'_def change_operation_def t1_def ids to_p Let_def)
  qed
  then show ?thesis
    using update_operations_one [where p = p and f = f, OF d r key p only f]
    by (auto simp: work_then_def one_row_def t1_def)
qed

section \<open>Planning\<close>

lemma journal_inv_plan:
  fixes now process_instance_id :: string and payload :: "(string \<times> json) list option"
  assumes inv: "journal_inv t" and sound: "operation_sound (map isr_segment (intent_segments t)) op"
    and planned: "rop_phase op = PLANNED"
    and new: "List.find (at_operation (rop_run_id op) (rop_operation_id op)) (recovery_operations t) = None"
  defines "t1 \<equiv> t\<lparr>recovery_operations := recovery_operations t @ [\<lparr>ror_operation = op, ror_updated_utc = now\<rparr>]\<rparr>"
  defines "t' \<equiv> t1\<lparr>recovery_events := recovery_events t1 @ [next_event now (rop_run_id op) (rop_operation_id op)
      None PLANNED process_instance_id payload t1]\<rparr>"
  shows "append_event now (rop_run_id op) (rop_operation_id op) None PLANNED process_instance_id payload t1 =
      (Returns (), t')"
    and "journal_inv t'"
proof -
  let ?k = "(rop_run_id op, rop_operation_id op)"
  let ?e = "next_event now (rop_run_id op) (rop_operation_id op) None PLANNED process_instance_id payload t1"
  have nokey: "\<forall>q \<in> set (recovery_operations t). row_key q \<noteq> ?k"
    using new by (auto simp: find_None_iff' at_operation_key)
  have noev: "(rev_run_id e, rev_operation_id e) \<noteq> ?k" if e: "e \<in> set (recovery_events t)" for e
  proof
    assume k: "(rev_run_id e, rev_operation_id e) = ?k"
    obtain q where "q \<in> set (recovery_operations t)" "row_key q = (rev_run_id e, rev_operation_id e)"
      using inv e unfolding journal_inv_def by blast
    then show False using nokey k by metis
  qed
  have chained: "streams_chained rev_run_id rev_run_sequence rev_previous_event_hash rev_event_hash 0 (recovery_events t1)"
    and sealed: "\<And>x. x \<in> set (recovery_events t1) \<Longrightarrow> event_sealed x"
    using inv by (auto simp: journal_inv_def t1_def)
  have ex: "\<exists>q \<in> set (recovery_operations t1). row_key q = ?k"
    by (rule bexI [of _ "\<lparr>ror_operation = op, ror_updated_utc = now\<rparr>"]) (simp_all add: t1_def row_key_def)
  show app: "append_event now (rop_run_id op) (rop_operation_id op) None PLANNED process_instance_id payload t1 =
      (Returns (), t')"
    unfolding t'_def by (rule append_event_returns [OF chained sealed ex])
  have evs: "operation_events x t' = operation_events x t @ (if (rop_run_id x, rop_operation_id x) = ?k then [?e] else [])" for x
    by (auto simp: operation_events_def t'_def t1_def)
  have none: "operation_events op t = []"
    using noev by (auto simp: operation_events_def filter_empty_conv)
  have rows: "operation_sound (map isr_segment (intent_segments t')) (ror_operation q)
      \<and> replay (operation_events (ror_operation q) t') = Some (Some (rop_phase (ror_operation q)))"
    if "q \<in> set (recovery_operations t')" for q
  proof (cases "q \<in> set (recovery_operations t)")
    case True
    then have "(rop_run_id (ror_operation q), rop_operation_id (ror_operation q)) \<noteq> ?k"
      using nokey by (auto simp: row_key_def)
    then have "operation_events (ror_operation q) t' = operation_events (ror_operation q) t" by (simp add: evs)
    then show ?thesis using True inv by (simp add: journal_inv_def t'_def t1_def)
  next
    case False
    then have "ror_operation q = op" using that by (auto simp: t'_def t1_def)
    moreover have "replay (operation_events op t') = Some (Some PLANNED)"
      using none by (simp add: evs replay_def replay_step_def legal_step_def)
    ultimately show ?thesis using sound planned by (simp add: t'_def t1_def)
  qed
  have events: "event_sealed x \<and> (\<exists>q \<in> set (recovery_operations t'). row_key q = (rev_run_id x, rev_operation_id x))"
    if "x \<in> set (recovery_events t')" for x
  proof (cases "x \<in> set (recovery_events t)")
    case True
    then show ?thesis using inv by (auto simp: journal_inv_def t'_def t1_def)
  next
    case False
    then show ?thesis using that ex by (auto simp: t'_def t1_def)
  qed
  have "distinct (map row_key (recovery_operations t'))"
    using inv nokey by (force simp: journal_inv_def t'_def t1_def row_key_def)
  moreover have "streams_chained rev_run_id rev_run_sequence rev_previous_event_hash rev_event_hash 0 (recovery_events t')"
    using append_event_chained [OF app [unfolded t'_def] chained] by (simp add: t'_def)
  ultimately show "journal_inv t'"
    unfolding journal_inv_def using rows events by blast
qed

lemma record_planned_keeps:
  assumes "validate_recovery_operation op = Inr ()" "rop_phase op = PLANNED" "rop_intent_segment_id op = None"
    "rop_catalog_handoff_id op = None"
  shows "work_keeps journal_inv (record_planned_work now ds op process_instance_id payload)"
proof (rule work_keepsI)
  fix t assume inv: "journal_inv t"
  have sound: "operation_sound (map isr_segment (intent_segments t)) op"
    using assms by (simp add: operation_sound_def)
  show "journal_inv (snd (record_planned_work now ds op process_instance_id payload t))"
  proof (cases "List.find (at_operation (rop_run_id op) (rop_operation_id op)) (recovery_operations t)")
    case (Some r)
    have "work_keeps journal_inv (work_then (record_directory_recovery_if_applicable now ds (ror_operation r)
        process_instance_id) (\<lambda>_. work_return (ror_operation r)))"
      by (intro work_rules directory_glue_keeps) simp
    then show ?thesis using inv Some by (auto simp: record_planned_work_def work_then_check dest: work_keepsD)
  next
    case None
    define t1 where "t1 = t\<lparr>recovery_operations := recovery_operations t @ [\<lparr>ror_operation = op, ror_updated_utc = now\<rparr>]\<rparr>"
    note plan = journal_inv_plan [OF inv sound assms(2) None, of now process_instance_id payload, folded t1_def]
    have tail: "work_keeps journal_inv (work_then (record_directory_recovery_if_applicable now ds op process_instance_id)
        (\<lambda>_. load_recorded_operation (rop_run_id op) (rop_operation_id op)))"
      unfolding load_recorded_operation_def by (intro work_rules directory_glue_keeps) simp
    have "insert_operation now op t \<in> {(Raises Integrity_Error, t), (Returns (), t1)}"
      by (simp add: insert_operation_def Let_def t1_def)
    then show ?thesis
      using inv work_keepsD [OF tail plan(2)] plan(1) None
      by (auto simp: record_planned_work_def work_then_check assms(2) work_then_returns split: sum.split)
         (auto simp: work_then_def)
  qed
qed

end
