(* ===== verification/Recovery_Changes.thy ===== *)
theory Recovery_Changes
  imports Recovery_Work
begin

text \<open>
  The three kinds of change of a recovery operation: a phase transition, a failed staging attempt and a new
  lease.  Each keeps the invariant of the journal; what a change that is recorded has established is stated by
  its effect lemma.
\<close>

section \<open>Phases\<close>

lemmas phase_sets = RECOVERY_OPERATION_TERMINAL_PHASES_def PRE_COMMIT_LEASE_REBIND_PHASES_def
  PHASES_REQUIRING_INTENT_def PHASES_REQUIRING_CATALOG_HANDOFF_def

lemma transition_from_nonterminal:
  "validate_recovery_phase_transition p q = Inr () \<Longrightarrow> p \<notin> set RECOVERY_OPERATION_TERMINAL_PHASES"
  by (auto simp: validate_recovery_phase_transition_def split: if_splits)

lemma transition_into_pre_commit:
  assumes "validate_recovery_phase_transition p q = Inr ()" "q \<in> set PRE_COMMIT_LEASE_REBIND_PHASES"
  shows "p \<in> set PRE_COMMIT_LEASE_REBIND_PHASES"
  using assms by (cases p) (auto simp: validate_recovery_phase_transition_def phase_sets SUCCESS_TRANSITIONS_def
      split: if_splits)

lemma transition_from_catalog_recorded:
  assumes "validate_recovery_phase_transition CATALOG_RECORDED q = Inr ()"
  shows "q \<in> set RECOVERY_OPERATION_TERMINAL_PHASES"
  using assms by (auto simp: validate_recovery_phase_transition_def phase_sets SUCCESS_TRANSITIONS_def split: if_splits)

section \<open>The operation after a transition\<close>

lemma metadata_keeps [simp]:
  "rop_run_id (apply_operation_metadata op md) = rop_run_id op"
  "rop_run_target_id (apply_operation_metadata op md) = rop_run_target_id op"
  "rop_operation_id (apply_operation_metadata op md) = rop_operation_id op"
  "rop_target_endpoint_id (apply_operation_metadata op md) = rop_target_endpoint_id op"
  "rop_target_endpoint_revision_id (apply_operation_metadata op md) = rop_target_endpoint_revision_id op"
  "rop_endpoint_generation (apply_operation_metadata op md) = rop_endpoint_generation op"
  "rop_owner_installation_id (apply_operation_metadata op md) = rop_owner_installation_id op"
  "rop_ownership_epoch (apply_operation_metadata op md) = rop_ownership_epoch op"
  "rop_lease_id (apply_operation_metadata op md) = rop_lease_id op"
  "rop_lease_resource_key (apply_operation_metadata op md) = rop_lease_resource_key op"
  "rop_fencing_token (apply_operation_metadata op md) = rop_fencing_token op"
  "rop_phase (apply_operation_metadata op md) = rop_phase op"
  "rop_intent_segment_id (apply_operation_metadata op md) = rop_intent_segment_id op"
  "rop_catalog_handoff_id (apply_operation_metadata op md) = rop_catalog_handoff_id op"
  by (simp_all add: apply_operation_metadata_def split: option.split)

lemma transition_columns_are_complete:
  assumes "operation_after_transition (ror_operation r) q = Inr u"
  shows "set_transition_columns now u r = r\<lparr>ror_operation := u, ror_updated_utc := now\<rparr>"
proof -
  obtain bound where b: "transition_bindings (ror_operation r) q = Inr bound"
    and u: "u = apply_operation_metadata
      (bound\<lparr>rop_staging_retry_backoff_ms := None, rop_staging_retry_not_before_utc := None\<rparr>) (pt_operation_metadata q)"
    using assms by (auto simp: operation_after_transition_def Let_def)
  obtain p s n h where bound: "bound = (ror_operation r)\<lparr>rop_phase := p, rop_intent_segment_id := s, rop_intent_ordinal := n,
      rop_catalog_handoff_id := h\<rparr>"
  proof (rule that)
    show "bound = (ror_operation r)\<lparr>rop_phase := rop_phase bound, rop_intent_segment_id := rop_intent_segment_id bound,
        rop_intent_ordinal := rop_intent_ordinal bound, rop_catalog_handoff_id := rop_catalog_handoff_id bound\<rparr>"
      using b by (cases "ror_operation r") (auto simp: transition_bindings_def split: if_splits)
  qed
  show ?thesis
    unfolding set_transition_columns_def u bound
    by (cases "ror_operation r"; cases "pt_operation_metadata q") (simp_all add: apply_operation_metadata_def)
qed

lemma after_transition_binding:
  assumes "operation_after_transition op q = Inr u"
  shows "validate_recovery_operation u = Inr ()" "rop_phase u = pt_next_phase q"
    "pt_next_phase q \<noteq> COMMIT_INTENT_RECORDED \<Longrightarrow> rop_intent_segment_id u = rop_intent_segment_id op"
    "pt_next_phase q \<noteq> CATALOG_RECORDED \<Longrightarrow> rop_catalog_handoff_id u = rop_catalog_handoff_id op"
    "rop_run_id u = rop_run_id op" "rop_operation_id u = rop_operation_id op"
    "rop_run_target_id u = rop_run_target_id op" "rop_target_endpoint_id u = rop_target_endpoint_id op"
    "rop_target_endpoint_revision_id u = rop_target_endpoint_revision_id op"
    "rop_endpoint_generation u = rop_endpoint_generation op"
    "rop_owner_installation_id u = rop_owner_installation_id op"
    "rop_ownership_epoch u = rop_ownership_epoch op" "rop_lease_id u = rop_lease_id op"
    "rop_lease_resource_key u = rop_lease_resource_key op"
    "rop_fencing_token u = rop_fencing_token op"
  using assms by (auto simp: operation_after_transition_def transition_bindings_def Let_def split: if_splits)

lemma cleaned_needs_handoff:
  assumes "validate_recovery_operation op = Inr ()" "rop_phase op \<in> {CATALOG_RECORDED, CLEANED}"
  shows "rop_catalog_handoff_id op \<noteq> None"
proof -
  have "validate_phase_requirements op = Inr ()" using assms(1) by (auto simp: validate_recovery_operation_def)
  then show ?thesis using assms(2)
    by (auto simp: validate_phase_requirements_def phase_sets opt_blank_def split: if_splits option.splits)
qed

lemma intent_phases_need_segment:
  assumes "validate_recovery_operation op = Inr ()" "rop_phase op \<in> set PHASES_REQUIRING_INTENT"
  shows "rop_intent_segment_id op \<noteq> None"
proof -
  have "validate_phase_requirements op = Inr ()" using assms(1) by (auto simp: validate_recovery_operation_def)
  then show ?thesis using assms(2)
    by (auto simp: validate_phase_requirements_def opt_blank_def split: if_splits option.splits)
qed

lemma matching_segment_binds:
  assumes "require_matching_intent_segment op t = Inr ()"
  shows "list_ex (\<lambda>s. segment_binds s op) (map isr_segment (intent_segments t))"
proof -
  obtain r where f: "List.find (\<lambda>r. Some (ris_segment_id (isr_segment r)) = rop_intent_segment_id op)
      (intent_segments t) = Some r"
    using assms by (auto simp: require_matching_intent_segment_def split: option.splits)
  then have "r \<in> set (intent_segments t)" "Some (ris_segment_id (isr_segment r)) = rop_intent_segment_id op"
    using find_Some_iff' [OF f] by auto
  moreover have "segment_binds (isr_segment r) op"
    using assms f calculation(2)
    by (auto simp: require_matching_intent_segment_def segment_binds_def Let_def split: if_splits)
  ultimately show ?thesis by (auto simp: list_ex_iff)
qed

lemma segment_binds_cong:
  assumes "rop_intent_segment_id a = rop_intent_segment_id b" "rop_run_id a = rop_run_id b"
    "rop_run_target_id a = rop_run_target_id b" "rop_target_endpoint_id a = rop_target_endpoint_id b"
    "rop_target_endpoint_revision_id a = rop_target_endpoint_revision_id b"
    "rop_endpoint_generation a = rop_endpoint_generation b"
    "rop_owner_installation_id a = rop_owner_installation_id b" "rop_ownership_epoch a = rop_ownership_epoch b"
    "rop_lease_id a = rop_lease_id b" "rop_fencing_token a = rop_fencing_token b"
  shows "segment_binds s a = segment_binds s b"
  using assms by (simp add: segment_binds_def)

lemma after_transition_sound:
  assumes sound: "operation_sound (map isr_segment (intent_segments t)) op"
    and u: "operation_after_transition op q = Inr u"
    and valid: "validate_recovery_phase_transition (rop_phase op) (pt_next_phase q) = Inr ()"
    and seg: "pt_next_phase q = COMMIT_INTENT_RECORDED \<Longrightarrow> require_matching_intent_segment u t = Inr ()"
  shows "operation_sound (map isr_segment (intent_segments t)) u" "legal_step (Some (rop_phase op)) (rop_phase u)"
proof -
  note b = after_transition_binding [OF u]
  have live: "rop_phase op \<notin> set RECOVERY_OPERATION_TERMINAL_PHASES"
    by (rule transition_from_nonterminal [OF valid])
  have handoff: "rop_phase op = CATALOG_RECORDED"
    if "rop_catalog_handoff_id u \<noteq> None" "pt_next_phase q \<noteq> CATALOG_RECORDED"
    using that b(4) sound live by (auto simp: operation_sound_def)
  have "list_ex (\<lambda>s. segment_binds s u) (map isr_segment (intent_segments t))" if i: "rop_intent_segment_id u \<noteq> None"
  proof (cases "pt_next_phase q = COMMIT_INTENT_RECORDED")
    case True
    then show ?thesis using matching_segment_binds [OF seg] by simp
  next
    case False
    have "segment_binds s u = segment_binds s op" for s
      by (rule segment_binds_cong) (simp_all add: b False)
    then show ?thesis using i sound b(3) [OF False] by (simp add: operation_sound_def)
  qed
  moreover have "rop_intent_segment_id u = None" if "pt_next_phase q \<in> set PRE_COMMIT_LEASE_REBIND_PHASES"
  proof -
    have "pt_next_phase q \<noteq> COMMIT_INTENT_RECORDED" using that by (auto simp: phase_sets)
    then show ?thesis using b(3) sound transition_into_pre_commit [OF valid that] by (simp add: operation_sound_def)
  qed
  moreover have "pt_next_phase q = CATALOG_RECORDED \<or> pt_next_phase q \<in> set RECOVERY_OPERATION_TERMINAL_PHASES"
    if "rop_catalog_handoff_id u \<noteq> None"
    using handoff [OF that] transition_from_catalog_recorded valid by metis
  ultimately show "operation_sound (map isr_segment (intent_segments t)) u"
    using b(1,2) by (simp add: operation_sound_def)
  have "rop_phase op = CATALOG_RECORDED" if "pt_next_phase q = CLEANED"
    using handoff cleaned_needs_handoff [OF b(1)] that b(2) by simp
  then show "legal_step (Some (rop_phase op)) (rop_phase u)"
    using live valid b(2) by (simp add: legal_step_def)
qed

section \<open>Phase transitions\<close>

text \<open>A transition that is recorded was asked of a row at the expected phase, under its lease.\<close>

definition transition_recorded ::
  "string \<Rightarrow> phase_transition \<Rightarrow> recovery_tables \<Rightarrow> recovery_operation_row \<Rightarrow> RecoveryOperation \<Rightarrow> bool" where
  "transition_recorded now q t r u \<longleftrightarrow>
     r \<in> set (recovery_operations t) \<and> row_key r = (pt_run_id q, pt_operation_id q)
     \<and> rop_phase (ror_operation r) = pt_expected_phase q
     \<and> operation_after_transition (ror_operation r) q = Inr u
     \<and> require_active_matching_lease u t = Inr ()
     \<and> (pt_next_phase q = COMMIT_INTENT_RECORDED \<longrightarrow> require_matching_intent_segment u t = Inr ())"

definition transition_tail :: "string \<Rightarrow> bool \<Rightarrow> phase_transition \<Rightarrow> RecoveryOperation \<Rightarrow> RecoveryOperation work" where
  "transition_tail now ds q u =
     work_then (if pt_next_phase q = CATALOG_RECORDED
        then record_directory_catalog_terminal now ds u (pt_process_instance_id q) (pt_payload q)
        else work_return ()) (\<lambda>_.
      load_recorded_operation (pt_run_id q) (pt_operation_id q))"

lemma transition_tail_keeps: "ignores_directories P \<Longrightarrow> work_keeps P (transition_tail now ds q u)"
  unfolding transition_tail_def load_recorded_operation_def by (intro work_rules directory_glue_keeps)

lemma phase_transition_effect:
  assumes inv: "journal_inv t"
  shows "(\<exists>o'. phase_transition_work now ds q t = (o', t) \<and> (\<forall>v. o' \<noteq> Returns v))
    \<or> (\<exists>r u. transition_recorded now q t r u
         \<and> phase_transition_work now ds q t = transition_tail now ds q u
             (change_operation now (pt_expected_phase q) u (pt_process_instance_id q) (pt_payload q) t))"
proof (cases "List.find (at_operation (pt_run_id q) (pt_operation_id q)) (recovery_operations t)")
  case None
  then show ?thesis by (simp add: phase_transition_work_def work_then_check)
next
  case (Some r)
  note r = find_at_operation [OF Some]
  let ?op = "ror_operation r"
  show ?thesis
  proof (cases "rop_phase ?op = pt_expected_phase q")
    case False
    then show ?thesis using Some by (simp add: phase_transition_work_def work_then_check)
  next
    case phase: True
    show ?thesis
    proof (cases "operation_after_transition ?op q")
      case (Inl e)
      then show ?thesis using Some phase by (simp add: phase_transition_work_def work_then_check)
    next
      case (Inr u)
      note b = after_transition_binding [OF Inr]
      let ?suffix = "work_then (update_operations
          (\<lambda>op. rop_run_id op = pt_run_id q \<and> rop_operation_id op = pt_operation_id q \<and> rop_phase op = pt_expected_phase q)
          (set_transition_columns now u)) (\<lambda>n. work_then (one_row n) (\<lambda>_.
          work_then (append_event now (pt_run_id q) (pt_operation_id q) (Some (pt_expected_phase q)) (pt_next_phase q)
             (pt_process_instance_id q) (pt_payload q)) (\<lambda>_. transition_tail now ds q u)))"
      have keys: "rop_run_id u = pt_run_id q" "rop_operation_id u = pt_operation_id q"
        using r(2) b(5,6) by (simp_all add: row_key_def)
      have suffix: "?suffix t \<in> {(Raises Integrity_Error, t), transition_tail now ds q u
          (change_operation now (pt_expected_phase q) u (pt_process_instance_id q) (pt_payload q) t)}"
        by (rule change_suffix [OF inv r(1)])
          (use r(2) phase keys b(2) transition_columns_are_complete [OF Inr] in \<open>auto simp: row_key_def\<close>)
      have "phase_transition_work now ds q t =
         (case require_active_matching_lease u t of
            Inl e \<Rightarrow> (Raises e, t)
          | Inr _ \<Rightarrow>
              if pt_next_phase q = COMMIT_INTENT_RECORDED
              then (case require_matching_intent_segment u t of Inl e \<Rightarrow> (Raises e, t) | Inr _ \<Rightarrow> ?suffix t)
              else ?suffix t)"
        using Some phase Inr
        by (simp add: phase_transition_work_def work_then_check transition_tail_def [symmetric] work_then_returns
            split: sum.split)
      then show ?thesis
        using suffix r phase Inr
        by (auto simp: transition_recorded_def split: sum.splits if_splits)
    qed
  qed
qed

lemma phase_transition_keeps:
  assumes "validate_recovery_phase_transition (pt_expected_phase q) (pt_next_phase q) = Inr ()"
  shows "work_keeps journal_inv (phase_transition_work now ds q)"
proof (rule work_keepsI)
  fix t assume inv: "journal_inv t"
  from phase_transition_effect [OF inv, of now ds q]
  show "journal_inv (snd (phase_transition_work now ds q t))"
  proof
    assume "\<exists>r u. transition_recorded now q t r u
         \<and> phase_transition_work now ds q t = transition_tail now ds q u
             (change_operation now (pt_expected_phase q) u (pt_process_instance_id q) (pt_payload q) t)"
    then obtain r u where rec: "transition_recorded now q t r u"
      and w: "phase_transition_work now ds q t = transition_tail now ds q u
             (change_operation now (pt_expected_phase q) u (pt_process_instance_id q) (pt_payload q) t)" by blast
    have r: "r \<in> set (recovery_operations t)" "rop_phase (ror_operation r) = pt_expected_phase q"
      using rec by (simp_all add: transition_recorded_def)
    have "operation_sound (map isr_segment (intent_segments t)) (ror_operation r)"
      using inv r(1) by (simp add: journal_inv_def)
    note s = after_transition_sound [OF this, of q u]
    have "journal_inv (change_operation now (rop_phase (ror_operation r)) u (pt_process_instance_id q) (pt_payload q) t)"
      using rec s assms r(2)
      by (intro journal_inv_change [OF inv r(1)])
        (auto simp: transition_recorded_def row_key_def after_transition_binding)
    then show ?thesis
      using work_keepsD [OF transition_tail_keeps [OF journal_inv_ignores]] w r(2) by simp
  qed (use inv in auto)
qed

section \<open>Failed staging attempts\<close>

definition failed_operation :: "staging_failure \<Rightarrow> StagingRetryTiming option \<Rightarrow> RecoveryOperation \<Rightarrow> RecoveryOperation" where
  "failed_operation q timing op = op\<lparr>rop_phase := sf_next_phase q,
     rop_last_error_code := Some (strip (sf_error_code q)),
     rop_staging_failure_count := sf_expected_failure_count q + 1,
     rop_staging_retry_backoff_ms := map_option srt_backoff_ms timing,
     rop_staging_retry_not_before_utc := map_option srt_retry_not_before_utc timing\<rparr>"

definition failure_recorded ::
  "clock_reading \<Rightarrow> staging_failure \<Rightarrow> recovery_tables \<Rightarrow> recovery_operation_row \<Rightarrow> StagingRetryTiming option \<Rightarrow> bool" where
  "failure_recorded clock q t r timing \<longleftrightarrow>
     r \<in> set (recovery_operations t) \<and> row_key r = (sf_run_id q, sf_operation_id q)
     \<and> rop_phase (ror_operation r) = sf_expected_phase q
     \<and> rop_staging_failure_count (ror_operation r) = sf_expected_failure_count q
     \<and> plan_staging_retry clock q = Inr timing
     \<and> validate_recovery_operation (failed_operation q timing (ror_operation r)) = Inr ()
     \<and> require_active_matching_lease (failed_operation q timing (ror_operation r)) t = Inr ()"

lemma staging_failure_effect:
  assumes inv: "journal_inv t"
  shows "(\<exists>o'. staging_failure_work now clock q t = (o', t) \<and> (\<forall>v. o' \<noteq> Returns v))
    \<or> (\<exists>r timing payload. failure_recorded clock q t r timing
         \<and> staging_failure_work now clock q t =
             work_then (load_recorded_operation (sf_run_id q) (sf_operation_id q))
               (\<lambda>recorded. work_return (recorded, timing))
               (change_operation now (sf_expected_phase q) (failed_operation q timing (ror_operation r))
                 (sf_process_instance_id q) payload t))"
proof (cases "List.find (at_operation (sf_run_id q) (sf_operation_id q)) (recovery_operations t)")
  case None
  then show ?thesis by (simp add: staging_failure_work_def work_then_check)
next
  case (Some r)
  note r = find_at_operation [OF Some]
  let ?op = "ror_operation r"
  show ?thesis
  proof (cases "rop_phase ?op = sf_expected_phase q \<and> rop_staging_failure_count ?op = sf_expected_failure_count q")
    case False
    then show ?thesis using Some by (auto simp: staging_failure_work_def work_then_check)
  next
    case guards: True
    show ?thesis
    proof (cases "plan_staging_retry clock q")
      case (Inl e)
      then show ?thesis using Some guards by (simp add: staging_failure_work_def work_then_check)
    next
      case (Inr timing)
      let ?u = "failed_operation q timing ?op"
      let ?tail = "work_then (load_recorded_operation (sf_run_id q) (sf_operation_id q))
          (\<lambda>recorded. work_return (recorded, timing))"
      let ?payload = "Some (staging_failure_payload q (rop_staging_retry_backoff_ms ?u)
          (rop_staging_retry_not_before_utc ?u))"
      let ?suffix = "work_then (update_operations
          (\<lambda>op. rop_run_id op = sf_run_id q \<and> rop_operation_id op = sf_operation_id q
             \<and> rop_phase op = sf_expected_phase q \<and> rop_staging_failure_count op = sf_expected_failure_count q)
          (\<lambda>r. r\<lparr>ror_operation := failed_operation q timing (ror_operation r), ror_updated_utc := now\<rparr>))
          (\<lambda>n. work_then (one_row n) (\<lambda>_.
          work_then (append_event now (sf_run_id q) (sf_operation_id q) (Some (sf_expected_phase q)) (sf_next_phase q)
             (sf_process_instance_id q) ?payload) (\<lambda>_. ?tail)))"
      have keys: "rop_run_id ?u = sf_run_id q" "rop_operation_id ?u = sf_operation_id q"
        using r(2) by (simp_all add: row_key_def failed_operation_def)
      have suffix: "?suffix t \<in> {(Raises Integrity_Error, t), ?tail
          (change_operation now (sf_expected_phase q) ?u (sf_process_instance_id q) ?payload t)}"
        by (rule change_suffix [OF inv r(1)])
          (use r(2) guards keys in \<open>auto simp: row_key_def failed_operation_def\<close>)
      have "staging_failure_work now clock q t =
         (case validate_recovery_operation ?u of
            Inl code \<Rightarrow> (Raises (Operation_Violation code), t)
          | Inr _ \<Rightarrow>
              (case require_active_matching_lease ?u t of Inl e \<Rightarrow> (Raises e, t) | Inr _ \<Rightarrow> ?suffix t))"
        using Some guards Inr
        by (simp add: staging_failure_work_def work_then_check failed_operation_def raising_def Let_def split: sum.split)
      then show ?thesis
        using suffix r guards Inr
        by (auto simp: failure_recorded_def split: sum.splits)
    qed
  qed
qed

lemma staging_failure_keeps:
  assumes "validate_staging_failure q = Inr ()"
  shows "work_keeps journal_inv (staging_failure_work now clock q)"
proof (rule work_keepsI)
  fix t assume inv: "journal_inv t"
  have phases: "sf_expected_phase q \<in> set (butlast PRE_COMMIT_LEASE_REBIND_PHASES)"
      "sf_next_phase q \<in> {sf_expected_phase q, SKIPPED}"
    using assms by (auto simp: validate_staging_failure_def split: if_splits)
  from staging_failure_effect [OF inv, of now clock q]
  show "journal_inv (snd (staging_failure_work now clock q t))"
  proof
    assume "\<exists>r timing payload. failure_recorded clock q t r timing
         \<and> staging_failure_work now clock q t =
             work_then (load_recorded_operation (sf_run_id q) (sf_operation_id q))
               (\<lambda>recorded. work_return (recorded, timing))
               (change_operation now (sf_expected_phase q) (failed_operation q timing (ror_operation r))
                 (sf_process_instance_id q) payload t)"
    then obtain r timing payload where rec: "failure_recorded clock q t r timing"
      and w: "staging_failure_work now clock q t =
             work_then (load_recorded_operation (sf_run_id q) (sf_operation_id q))
               (\<lambda>recorded. work_return (recorded, timing))
               (change_operation now (sf_expected_phase q) (failed_operation q timing (ror_operation r))
                 (sf_process_instance_id q) payload t)" by blast
    let ?u = "failed_operation q timing (ror_operation r)"
    have r: "r \<in> set (recovery_operations t)" "rop_phase (ror_operation r) = sf_expected_phase q"
      using rec by (simp_all add: failure_recorded_def)
    have sound: "operation_sound (map isr_segment (intent_segments t)) (ror_operation r)"
      using inv r(1) by (simp add: journal_inv_def)
    have pre: "sf_expected_phase q \<in> set PRE_COMMIT_LEASE_REBIND_PHASES"
      "sf_expected_phase q \<notin> insert CATALOG_RECORDED (set RECOVERY_OPERATION_TERMINAL_PHASES)"
      using phases(1) by (auto simp: phase_sets)
    have "operation_sound (map isr_segment (intent_segments t)) ?u"
      using sound pre r(2) rec by (auto simp: operation_sound_def failure_recorded_def failed_operation_def)
    moreover have "legal_step (Some (rop_phase (ror_operation r))) (rop_phase ?u)"
      using phases(2) pre r(2)
      by (auto simp: legal_step_def failed_operation_def validate_recovery_phase_transition_def phase_sets)
    ultimately have "journal_inv (change_operation now (rop_phase (ror_operation r)) ?u
        (sf_process_instance_id q) payload t)"
      by (intro journal_inv_change [OF inv r(1)])
        (use rec in \<open>auto simp: failure_recorded_def row_key_def failed_operation_def\<close>)
    moreover have "work_keeps journal_inv (work_then (load_recorded_operation (sf_run_id q) (sf_operation_id q))
        (\<lambda>recorded. work_return (recorded, timing)))"
      unfolding load_recorded_operation_def by (intro work_rules)
    ultimately show ?thesis using w r(2) by (simp add: work_keepsD)
  qed (use inv in auto)
qed

section \<open>New leases\<close>

definition leased_operation :: "lease_change \<Rightarrow> (string \<times> int) option \<Rightarrow> RecoveryOperation \<Rightarrow> RecoveryOperation" where
  "leased_operation q intent op =
     (case intent of
        None \<Rightarrow> set_lease_columns q op
      | Some (segment_id, ordinal) \<Rightarrow>
          (set_lease_columns q op)\<lparr>rop_intent_segment_id := Some segment_id, rop_intent_ordinal := Some ordinal\<rparr>)"

lemma leased_operation_keeps [simp]:
  "rop_run_id (leased_operation q i op) = rop_run_id op"
  "rop_operation_id (leased_operation q i op) = rop_operation_id op"
  "rop_phase (leased_operation q i op) = rop_phase op"
  "rop_catalog_handoff_id (leased_operation q i op) = rop_catalog_handoff_id op"
  "rop_intent_segment_id (leased_operation q i op) =
     (case i of None \<Rightarrow> rop_intent_segment_id op | Some p \<Rightarrow> Some (fst p))"
  by (simp_all add: leased_operation_def set_lease_columns_def split: option.split prod.split)

definition lease_change_recorded ::
  "lease_change \<Rightarrow> RecoveryOperationPhase \<Rightarrow> (string \<times> int) option \<Rightarrow> recovery_tables \<Rightarrow>
   recovery_operation_row \<Rightarrow> bool"
where
  "lease_change_recorded q phase intent t r \<longleftrightarrow>
     r \<in> set (recovery_operations t) \<and> row_key r = (lch_run_id q, lch_operation_id q)
     \<and> rop_phase (ror_operation r) = phase \<and> expected_lease q (ror_operation r)
     \<and> validate_recovery_operation (leased_operation q intent (ror_operation r)) = Inr ()
     \<and> require_active_matching_lease (leased_operation q intent (ror_operation r)) t = Inr ()
     \<and> (intent \<noteq> None \<longrightarrow> require_matching_intent_segment (leased_operation q intent (ror_operation r)) t = Inr ())"

lemma lease_change_effect:
  assumes inv: "journal_inv t"
  shows "(\<exists>o'. lease_change_work now q phase intent t = (o', t) \<and> (\<forall>v. o' \<noteq> Returns v))
    \<or> (\<exists>r. lease_change_recorded q phase intent t r
         \<and> lease_change_work now q phase intent t =
             load_recorded_operation (lch_run_id q) (lch_operation_id q)
               (change_operation now phase (leased_operation q intent (ror_operation r))
                 (lch_process_instance_id q) (lch_payload q) t))"
proof (cases "List.find (at_operation (lch_run_id q) (lch_operation_id q)) (recovery_operations t)")
  case None
  then show ?thesis by (simp add: lease_change_work_def work_then_check Let_def)
next
  case (Some r)
  note r = find_at_operation [OF Some]
  let ?op = "ror_operation r"
  let ?u = "leased_operation q intent ?op"
  show ?thesis
  proof (cases "rop_phase ?op = phase \<and> expected_lease q ?op")
    case False
    then show ?thesis using Some by (auto simp: lease_change_work_def work_then_check Let_def)
  next
    case guards: True
    let ?tail = "load_recorded_operation (lch_run_id q) (lch_operation_id q)"
    let ?suffix = "work_then (update_operations
        (\<lambda>op. rop_run_id op = lch_run_id q \<and> rop_operation_id op = lch_operation_id q
           \<and> rop_phase op = phase \<and> expected_lease q op)
        (\<lambda>r. r\<lparr>ror_operation := leased_operation q intent (ror_operation r), ror_updated_utc := now\<rparr>))
        (\<lambda>n. work_then (one_row n) (\<lambda>_.
        work_then (append_event now (lch_run_id q) (lch_operation_id q) (Some phase) phase
           (lch_process_instance_id q) (lch_payload q)) (\<lambda>_. ?tail)))"
    have keys: "rop_run_id ?op = lch_run_id q" "rop_operation_id ?op = lch_operation_id q"
      using r(2) by (simp_all add: row_key_def)
    have suffix: "?suffix t \<in> {(Raises Integrity_Error, t), ?tail
        (change_operation now phase ?u (lch_process_instance_id q) (lch_payload q) t)}"
      by (rule change_suffix [OF inv r(1)]) (use r(2) guards keys in \<open>auto simp: row_key_def\<close>)
    have "lease_change_work now q phase intent t =
       (case validate_recovery_operation ?u of
          Inl code \<Rightarrow> (Raises (Operation_Violation code), t)
        | Inr _ \<Rightarrow>
            (case require_active_matching_lease ?u t of
               Inl e \<Rightarrow> (Raises e, t)
             | Inr _ \<Rightarrow>
                 if intent = None then ?suffix t
                 else (case require_matching_intent_segment ?u t of Inl e \<Rightarrow> (Raises e, t) | Inr _ \<Rightarrow> ?suffix t)))"
      using Some guards
      by (cases intent)
        (simp_all add: lease_change_work_def work_then_check leased_operation_def [abs_def] raising_def Let_def
          work_then_returns split: sum.split prod.split)
    then show ?thesis
      using suffix r guards
      by (auto simp: lease_change_recorded_def split: sum.splits if_splits)
  qed
qed

lemma lease_change_keeps:
  assumes "intent = None \<longrightarrow> phase \<in> set PRE_COMMIT_LEASE_REBIND_PHASES"
    and "intent \<noteq> None \<longrightarrow> phase \<in> {COMMIT_INTENT_RECORDED, OLD_TARGET_PRESERVED}"
  shows "work_keeps journal_inv (lease_change_work now q phase intent)"
proof (rule work_keepsI)
  fix t assume inv: "journal_inv t"
  from lease_change_effect [OF inv, of now q phase intent]
  show "journal_inv (snd (lease_change_work now q phase intent t))"
  proof
    assume "\<exists>r. lease_change_recorded q phase intent t r
         \<and> lease_change_work now q phase intent t =
             load_recorded_operation (lch_run_id q) (lch_operation_id q)
               (change_operation now phase (leased_operation q intent (ror_operation r))
                 (lch_process_instance_id q) (lch_payload q) t)"
    then obtain r where rec: "lease_change_recorded q phase intent t r"
      and w: "lease_change_work now q phase intent t =
             load_recorded_operation (lch_run_id q) (lch_operation_id q)
               (change_operation now phase (leased_operation q intent (ror_operation r))
                 (lch_process_instance_id q) (lch_payload q) t)" by blast
    let ?u = "leased_operation q intent (ror_operation r)"
    have r: "r \<in> set (recovery_operations t)" "rop_phase (ror_operation r) = phase"
      using rec by (simp_all add: lease_change_recorded_def)
    have sound: "operation_sound (map isr_segment (intent_segments t)) (ror_operation r)"
      using inv r(1) by (simp add: journal_inv_def)
    have live: "phase \<notin> set RECOVERY_OPERATION_TERMINAL_PHASES" "phase \<noteq> CATALOG_RECORDED"
      using assms by (cases intent; auto simp: phase_sets)+
    have "operation_sound (map isr_segment (intent_segments t)) ?u"
    proof (cases intent)
      case None
      then show ?thesis using sound assms(1) r(2) live rec
        by (auto simp: operation_sound_def lease_change_recorded_def)
    next
      case (Some p)
      then have "phase \<notin> set PRE_COMMIT_LEASE_REBIND_PHASES" using assms(2) by (auto simp: phase_sets)
      moreover have "list_ex (\<lambda>s. segment_binds s ?u) (map isr_segment (intent_segments t))"
        by (rule matching_segment_binds) (use rec Some in \<open>simp add: lease_change_recorded_def\<close>)
      ultimately show ?thesis using Some sound r(2) live rec
        by (auto simp: operation_sound_def lease_change_recorded_def)
    qed
    moreover have "legal_step (Some (rop_phase (ror_operation r))) (rop_phase ?u)"
      using live r(2) by (auto simp: legal_step_def phase_sets)
    ultimately have "journal_inv (change_operation now (rop_phase (ror_operation r)) ?u
        (lch_process_instance_id q) (lch_payload q) t)"
      by (intro journal_inv_change [OF inv r(1)])
        (use rec in \<open>auto simp: lease_change_recorded_def row_key_def\<close>)
    moreover have "work_keeps journal_inv (load_recorded_operation (lch_run_id q) (lch_operation_id q))"
      unfolding load_recorded_operation_def by (intro work_rules)
    ultimately show ?thesis using w r(2) by (simp add: work_keepsD)
  qed (use inv in auto)
qed

end
