(* ===== verification/Lease_Laws.thy ===== *)
theory Lease_Laws
  imports Resource_Leases
begin

text \<open>
  The invariant of fencing tokens and leases: the leases of a resource carry strictly increasing pairs of
  epoch and token, the counter is never behind them, and only the last one can be held.
\<close>

definition lease_token :: "resource_lease \<Rightarrow> int \<times> int" where
  "lease_token l = (rl_ownership_epoch l, rl_fencing_token l)"

definition counter_token :: "lease_counter \<Rightarrow> int \<times> int" where
  "counter_token c = (lc_ownership_epoch c, lc_last_fencing_token c)"

definition resource_history :: "string \<Rightarrow> resource_lease list \<Rightarrow> resource_lease list" where
  "resource_history k leases = filter (\<lambda>l. rl_resource_key l = k) leases"

definition leases_sound :: "lease_counter list \<Rightarrow> resource_lease list \<Rightarrow> bool" where
  "leases_sound counters leases \<longleftrightarrow>
     distinct (map lc_resource_key counters) \<and> distinct (map rl_lease_id leases)
     \<and> (\<forall>l \<in> set leases. rl_lease_mode l = ''EXCLUSIVE''
          \<and> (\<exists>c \<in> set counters. lc_resource_key c = rl_resource_key l \<and> lease_token l \<le> counter_token c))
     \<and> (\<forall>k. sorted_wrt (<) (map lease_token (resource_history k leases)))
     \<and> (\<forall>k. list_all (\<lambda>l. rl_state l = RELEASED) (butlast (resource_history k leases)))"

definition lease_inv :: "recovery_tables \<Rightarrow> bool" where
  "lease_inv t \<longleftrightarrow> leases_sound (lease_counters t) (resource_leases t)"

section \<open>Tokens\<close>

text \<open>A token that is allocated is beyond the counter, which then holds it; nothing else changes.\<close>

lemma allocate_token_effect:
  assumes d: "distinct (map lc_resource_key (lease_counters t))" and e: "1 \<le> epoch"
  shows "(\<exists>x. allocate_token now k epoch t = (Raises x, t))
    \<or> (\<exists>token counters. allocate_token now k epoch t = (Returns token, t\<lparr>lease_counters := counters\<rparr>)
         \<and> distinct (map lc_resource_key counters)
         \<and> (\<exists>c \<in> set counters. lc_resource_key c = k \<and> counter_token c = (epoch, token))
         \<and> (\<forall>c \<in> set (lease_counters t). lc_resource_key c \<noteq> k \<longrightarrow> c \<in> set counters)
         \<and> (\<forall>c \<in> set (lease_counters t). lc_resource_key c = k \<longrightarrow> counter_token c < (epoch, token)))"
proof (cases "List.find (\<lambda>c. lc_resource_key c = k) (lease_counters t)")
  case None
  then have "k \<notin> set (map lc_resource_key (lease_counters t))" by (auto simp: find_None_iff')
  then show ?thesis using None e d
    by (auto simp: allocate_token_def work_then_def insert_lease_counter_def counter_token_def)
next
  case (Some row)
  then have row: "row \<in> set (lease_counters t)" "lc_resource_key row = k" using find_Some_iff' [OF Some] by auto
  have u: "c = row" if "c \<in> set (lease_counters t)" "lc_resource_key c = k" for c
    using d that row by (auto simp: distinct_map inj_on_def)
  have upd: "update_lease_counter p f t =
      (Returns (), t\<lparr>lease_counters := sql_update p f (lease_counters t)\<rparr>)"
    if "p row" "\<And>c. p c \<Longrightarrow> lc_resource_key c = k" for p f
  proof -
    have "sql_count p (lease_counters t) = 1"
      using sql_count_key [OF d, of p k] that row(1) by blast
    then show ?thesis by (simp add: update_lease_counter_def)
  qed
  have new: "distinct (map lc_resource_key (sql_update p f (lease_counters t)))
      \<and> (\<exists>c \<in> set (sql_update p f (lease_counters t)). lc_resource_key c = k \<and> counter_token c = counter_token (f row))
      \<and> (\<forall>c \<in> set (lease_counters t). lc_resource_key c \<noteq> k \<longrightarrow> c \<in> set (sql_update p f (lease_counters t)))"
    if p: "p row" "\<And>c. p c \<Longrightarrow> lc_resource_key c = k" and f: "\<And>c. lc_resource_key (f c) = lc_resource_key c" for p f
  proof (intro conjI)
    show "distinct (map lc_resource_key (sql_update p f (lease_counters t)))"
      using d f by (simp add: table_simps)
    show "\<exists>c \<in> set (sql_update p f (lease_counters t)). lc_resource_key c = k \<and> counter_token c = counter_token (f row)"
      using row p f by (intro bexI [of _ "f row"]) (auto simp: set_sql_update intro: image_eqI [of _ _ row])
    show "\<forall>c \<in> set (lease_counters t). lc_resource_key c \<noteq> k \<longrightarrow> c \<in> set (sql_update p f (lease_counters t))"
      using p by (force simp: set_sql_update)
  qed
  show ?thesis
  proof (cases "epoch < lc_ownership_epoch row")
    case True
    then show ?thesis using Some by (auto simp: allocate_token_def Let_def)
  next
    case False
    let ?p = "\<lambda>c. lc_resource_key c = k \<and> lc_ownership_epoch c = lc_ownership_epoch row"
    let ?f = "\<lambda>c. c\<lparr>lc_ownership_epoch := epoch, lc_last_fencing_token := 1, lc_updated_utc := now\<rparr>"
    let ?q = "\<lambda>c. lc_resource_key c = k \<and> lc_ownership_epoch c = epoch
        \<and> lc_last_fencing_token c = lc_last_fencing_token row"
    let ?g = "\<lambda>c. c\<lparr>lc_last_fencing_token := lc_last_fencing_token row + 1, lc_updated_utc := now\<rparr>"
    show ?thesis
    proof (cases "lc_ownership_epoch row < epoch")
      case True
      have "allocate_token now k epoch t = (Returns 1, t\<lparr>lease_counters := sql_update ?p ?f (lease_counters t)\<rparr>)"
        using Some True upd [of ?p ?f] row(2) by (simp add: allocate_token_def Let_def work_then_def)
      then show ?thesis
        using new [of ?p ?f] u True row(2) by (intro disjI2 exI conjI) (auto simp: counter_token_def)
    next
      case same: False
      then have eq: "lc_ownership_epoch row = epoch" using False by simp
      have a: "allocate_token now k epoch t = (Returns (lc_last_fencing_token row + 1),
          t\<lparr>lease_counters := sql_update ?q ?g (lease_counters t)\<rparr>)"
        using Some eq upd [of ?q ?g] row(2) by (simp add: allocate_token_def Let_def work_then_def)
      have below: "counter_token c < (epoch, lc_last_fencing_token row + 1)"
        if "c \<in> set (lease_counters t)" "lc_resource_key c = k" for c
        using u [OF that] eq by (simp add: counter_token_def)
      have q: "?q row" "\<And>c. ?q c \<Longrightarrow> lc_resource_key c = k"
        "\<And>c. lc_resource_key (?g c) = lc_resource_key c" "counter_token (?g row) = (epoch, lc_last_fencing_token row + 1)"
        using row(2) eq by (auto simp: counter_token_def)
      let ?cs = "sql_update ?q ?g (lease_counters t)"
      have n: "distinct (map lc_resource_key ?cs)
        \<and> (\<exists>c \<in> set ?cs. lc_resource_key c = k \<and> counter_token c = counter_token (?g row))
        \<and> (\<forall>c \<in> set (lease_counters t). lc_resource_key c \<noteq> k \<longrightarrow> c \<in> set ?cs)"
        by (rule new) (use q in \<open>simp_all\<close>)
      have b: "\<forall>c \<in> set (lease_counters t). lc_resource_key c = k \<longrightarrow>
          counter_token c < (epoch, lc_last_fencing_token row + 1)"
        using below by blast
      show ?thesis
        by (rule disjI2, rule exI [of _ "lc_last_fencing_token row + 1"], rule exI [of _ ?cs])
          (intro conjI a b n [THEN conjunct1] n [THEN conjunct2, THEN conjunct1, unfolded q(4)]
            n [THEN conjunct2, THEN conjunct2])
    qed
  qed
qed

section \<open>The operations keep the invariant\<close>

lemma leases_sound_update:
  assumes "leases_sound counters leases"
    and "\<And>l. rl_state (f l) = RELEASED" "\<And>l. lease_token (f l) = lease_token l"
    "\<And>l. rl_resource_key (f l) = rl_resource_key l" "\<And>l. rl_lease_id (f l) = rl_lease_id l"
    "\<And>l. rl_lease_mode (f l) = rl_lease_mode l"
  shows "leases_sound counters (sql_update p f leases)"
proof -
  let ?g = "\<lambda>l. if p l then f l else l"
  have h: "resource_history k (sql_update p f leases) = map ?g (resource_history k leases)" for k
    using assms(4) by (simp add: resource_history_def sql_update_def filter_map comp_def if_distrib cong: if_cong)
  have tok: "lease_token \<circ> ?g = lease_token"
    using assms(3) by auto
  have "map rl_lease_id (sql_update p f leases) = map rl_lease_id leases"
    using assms(5) by (simp add: table_simps)
  moreover have "list_all (\<lambda>l. rl_state l = RELEASED) (butlast (map ?g (resource_history k leases)))" for k
    using assms(1,2) by (auto simp: leases_sound_def map_butlast [symmetric] list_all_iff)
  ultimately show ?thesis
    using assms unfolding leases_sound_def h by (auto simp: set_sql_update tok)
qed

lemma lease_inv_update:
  assumes "lease_inv t"
  shows "lease_inv (t\<lparr>resource_leases := sql_update p (released now) (resource_leases t)\<rparr>)"
  using assms unfolding lease_inv_def by (auto intro!: leases_sound_update simp: released_def lease_token_def)

lemma release_keeps: "work_keeps lease_inv (release_work now lease_id)"
  by (rule work_keepsI) (simp add: release_work_def Let_def lease_inv_update)

lemma reconcile_keeps: "work_keeps lease_inv (reconcile_work now k endpoint_id)"
  by (rule work_keepsI) (simp add: reconcile_work_def Let_def lease_inv_update)

lemma leases_sound_counters:
  assumes "leases_sound counters leases" "distinct (map lc_resource_key counters')"
    and "\<And>c. c \<in> set counters \<Longrightarrow>
      \<exists>c' \<in> set counters'. lc_resource_key c' = lc_resource_key c \<and> counter_token c \<le> counter_token c'"
  shows "leases_sound counters' leases"
  unfolding leases_sound_def
proof (intro conjI ballI)
  fix l assume "l \<in> set leases"
  then obtain c where c: "c \<in> set counters" "lc_resource_key c = rl_resource_key l" "lease_token l \<le> counter_token c"
    using assms(1) by (auto simp: leases_sound_def)
  obtain c' where "c' \<in> set counters'" "lc_resource_key c' = lc_resource_key c" "counter_token c \<le> counter_token c'"
    using assms(3) [OF c(1)] by blast
  then show "\<exists>c \<in> set counters'. lc_resource_key c = rl_resource_key l \<and> lease_token l \<le> counter_token c"
    using c by (metis order_trans)
qed (use assms in \<open>auto simp: leases_sound_def\<close>)

lemma allocate_keeps:
  assumes "1 \<le> epoch"
  shows "work_keeps lease_inv (allocate_token now k epoch)"
proof (rule work_keepsI)
  fix t assume inv: "lease_inv t"
  then have d: "distinct (map lc_resource_key (lease_counters t))" by (simp add: lease_inv_def leases_sound_def)
  from allocate_token_effect [OF d assms, of now k] show "lease_inv (snd (allocate_token now k epoch t))"
  proof (elim disjE exE conjE bexE)
    fix token counters c
    assume a: "allocate_token now k epoch t = (Returns token, t\<lparr>lease_counters := counters\<rparr>)"
      and new: "distinct (map lc_resource_key counters)" "c \<in> set counters" "lc_resource_key c = k"
        "counter_token c = (epoch, token)"
      and others: "\<forall>c \<in> set (lease_counters t). lc_resource_key c \<noteq> k \<longrightarrow> c \<in> set counters"
      and below: "\<forall>c \<in> set (lease_counters t). lc_resource_key c = k \<longrightarrow> counter_token c < (epoch, token)"
    have "leases_sound counters (resource_leases t)"
    proof (rule leases_sound_counters)
      show "leases_sound (lease_counters t) (resource_leases t)" using inv by (simp add: lease_inv_def)
      show "distinct (map lc_resource_key counters)" by (rule new(1))
      show "\<exists>c' \<in> set counters. lc_resource_key c' = lc_resource_key x \<and> counter_token x \<le> counter_token c'"
        if "x \<in> set (lease_counters t)" for x
      proof (cases "lc_resource_key x = k")
        case True
        then show ?thesis using that new below by (intro bexI [of _ c]) (auto simp: less_imp_le)
      next
        case False
        then show ?thesis using that others by blast
      qed
    qed
    then show ?thesis using a by (simp add: lease_inv_def)
  qed (use inv in auto)
qed

text \<open>What is appended carries a token beyond every lease of its resource, none of which is still held.\<close>

lemma leases_sound_append:
  assumes "leases_sound counters leases" "c \<in> set counters" "lc_resource_key c = rl_resource_key l"
    "lease_token l = counter_token c" "rl_lease_mode l = ''EXCLUSIVE''" "rl_lease_id l \<notin> rl_lease_id ` set leases"
    and older: "\<And>x. x \<in> set leases \<Longrightarrow> rl_resource_key x = rl_resource_key l \<Longrightarrow> lease_token x < lease_token l"
    and free: "\<And>x. x \<in> set leases \<Longrightarrow> rl_resource_key x = rl_resource_key l \<Longrightarrow> rl_state x = RELEASED"
  shows "leases_sound counters (leases @ [l])"
proof -
  have h: "resource_history k (leases @ [l]) =
      resource_history k leases @ (if rl_resource_key l = k then [l] else [])" for k
    by (simp add: resource_history_def)
  have "list_all (\<lambda>l. rl_state l = RELEASED) (butlast (resource_history k (leases @ [l])))" for k
    using assms(1) free unfolding h by (auto simp: leases_sound_def butlast_append resource_history_def list_all_iff)
  moreover have "sorted_wrt (<) (map lease_token (resource_history k (leases @ [l])))" for k
    using assms(1) older unfolding h by (auto simp: leases_sound_def sorted_wrt_append resource_history_def)
  ultimately show ?thesis
    using assms(1-6) unfolding leases_sound_def by auto
qed

lemma register_keeps:
  assumes "validate_resource_lease_request q"
  shows "work_keeps lease_inv (register_work now q)"
proof (rule work_keepsI)
  fix t assume inv: "lease_inv t"
  let ?k = "lq_resource_key q" and ?e = "lq_ownership_epoch q"
  have e: "1 \<le> ?e" and mode: "lq_lease_mode q = ''EXCLUSIVE''"
    using assms by (auto simp: validate_resource_lease_request_def)
  have d: "distinct (map lc_resource_key (lease_counters t))" using inv by (simp add: lease_inv_def leases_sound_def)
  show "lease_inv (snd (register_work now q t))"
  proof (cases "list_ex (active_exclusive ?k) (resource_leases t)")
    case True
    then show ?thesis using inv
      by (simp add: register_work_def reject_active_exclusive_resource_lease_def work_then_def work_check_def)
  next
    case False
    then have free: "rl_state x = RELEASED" if "x \<in> set (resource_leases t)" "rl_resource_key x = ?k" for x
      using inv that by (cases "rl_state x") (auto simp: list_ex_iff active_exclusive_def lease_inv_def leases_sound_def)
    from allocate_token_effect [OF d e, of now ?k] show ?thesis
    proof (elim disjE exE conjE bexE)
      fix x assume "allocate_token now ?k ?e t = (Raises x, t)"
      then show ?thesis using inv False
        by (simp add: register_work_def reject_active_exclusive_resource_lease_def work_then_def work_check_def)
    next
      fix token counters c
      assume a: "allocate_token now ?k ?e t = (Returns token, t\<lparr>lease_counters := counters\<rparr>)"
        and c: "c \<in> set counters" "lc_resource_key c = ?k" "counter_token c = (?e, token)"
        and below: "\<forall>c \<in> set (lease_counters t). lc_resource_key c = ?k \<longrightarrow> counter_token c < (?e, token)"
      let ?t1 = "t\<lparr>lease_counters := counters\<rparr>"
      define l where "l = \<lparr>rl_lease_id = lq_lease_id q, rl_resource_key = ?k,
         rl_ownership_epoch = ?e, rl_fencing_token = token,
         rl_lease_mode = lq_lease_mode q, rl_owner_instance_id = lq_owner_instance_id q,
         rl_run_id = Some (lq_run_id q), rl_run_target_id = Some (lq_run_target_id q),
         rl_endpoint_id = Some (lq_endpoint_id q), rl_endpoint_generation = lq_endpoint_generation q,
         rl_os_lock_kind = lq_os_lock_kind q, rl_state = ACQUIRED, rl_acquired_utc = now,
         rl_heartbeat_utc = now, rl_released_utc = None\<rparr>"
      have inv1: "lease_inv ?t1" using work_keepsD [OF allocate_keeps [OF e, of now ?k] inv] a by simp
      have older: "lease_token x < (?e, token)" if x: "x \<in> set (resource_leases t)" "rl_resource_key x = ?k" for x
      proof -
        obtain y where "y \<in> set (lease_counters t)" "lc_resource_key y = ?k" "lease_token x \<le> counter_token y"
          using inv x unfolding lease_inv_def leases_sound_def by metis
        then show ?thesis using below by (meson le_less_trans)
      qed
      have w: "register_work now q t = work_then (insert_lease l) (\<lambda>_. work_return token) ?t1"
        using False a by (simp add: register_work_def reject_active_exclusive_resource_lease_def work_then_def
            work_check_def l_def)
      show ?thesis
      proof (cases "rl_lease_id l \<in> rl_lease_id ` set (resource_leases t)")
        case True
        then have "insert_lease l ?t1 = (Raises Integrity_Error, ?t1)"
          by (auto simp: insert_lease_def list_ex_iff)
        then show ?thesis using w inv1 by (simp add: work_then_def)
      next
        case new: False
        have "leases_sound counters (resource_leases t @ [l])"
          by (rule leases_sound_append [of counters "resource_leases t" c l])
            (use inv1 c older free new mode in \<open>auto simp: l_def lease_inv_def lease_token_def\<close>)
        then show ?thesis using w inv1 by (auto simp: insert_lease_def work_then_def lease_inv_def)
      qed
    qed
  qed
qed

section \<open>What the invariant gives\<close>

text \<open>A lease that is held carries the greatest token of its resource, so at most one is.\<close>

lemma held_lease_is_newest:
  assumes inv: "lease_inv t" and l: "l \<in> set (resource_leases t)" "rl_state l = ACQUIRED"
    and x: "x \<in> set (resource_leases t)" "rl_resource_key x = rl_resource_key l" "x \<noteq> l"
  shows "lease_token x < lease_token l" "rl_state x = RELEASED"
proof -
  let ?h = "resource_history (rl_resource_key l) (resource_leases t)"
  have sorted: "sorted_wrt (<) (map lease_token ?h)" and rel: "list_all (\<lambda>l. rl_state l = RELEASED) (butlast ?h)"
    using inv by (auto simp: lease_inv_def leases_sound_def)
  have h: "l \<in> set ?h" "x \<in> set ?h" using l x by (auto simp: resource_history_def)
  then have ne: "?h \<noteq> []" by auto
  have last: "last ?h = l"
  proof (rule ccontr)
    assume "last ?h \<noteq> l"
    then have "l \<in> set (butlast ?h)" using h(1) ne by (metis in_set_butlast_appendI append_butlast_last_id set_ConsD
        Un_iff set_append list.set(1) empty_iff)
    then show False using rel l(2) by (auto simp: list_all_iff)
  qed
  then have "x \<in> set (butlast ?h)"
    using h(2) x(3) ne by (metis append_butlast_last_id set_ConsD Un_iff set_append list.set(1) empty_iff)
  then show "rl_state x = RELEASED" using rel by (auto simp: list_all_iff)
  have "sorted_wrt (<) (map lease_token (butlast ?h) @ [lease_token l])"
    using sorted last ne by (metis append_butlast_last_id list.simps(8,9) map_append)
  then show "lease_token x < lease_token l"
    using \<open>x \<in> set (butlast ?h)\<close> by (auto simp: sorted_wrt_append)
qed

end
