(* ===== verification/Recovery_Frames.thy ===== *)
theory Recovery_Frames
  imports Recovery_Changes Lease_Laws
begin

text \<open>
  Which tables an operation leaves alone: whatever does not depend on the tables it writes is kept.
\<close>

definition ignores_leases :: "(recovery_tables \<Rightarrow> bool) \<Rightarrow> bool" where
  "ignores_leases P \<longleftrightarrow>
     (\<forall>t x. P (t\<lparr>lease_counters := x\<rparr>) = P t) \<and> (\<forall>t x. P (t\<lparr>resource_leases := x\<rparr>) = P t)"

definition ignores_segments :: "(recovery_tables \<Rightarrow> bool) \<Rightarrow> bool" where
  "ignores_segments P \<longleftrightarrow> (\<forall>t x. P (t\<lparr>intent_segments := x\<rparr>) = P t)"

definition ignores_operations :: "(recovery_tables \<Rightarrow> bool) \<Rightarrow> bool" where
  "ignores_operations P \<longleftrightarrow>
     (\<forall>t x. P (t\<lparr>recovery_operations := x\<rparr>) = P t) \<and> (\<forall>t x. P (t\<lparr>recovery_events := x\<rparr>) = P t)"

lemma lease_work_frame:
  assumes "ignores_leases P"
  shows "work_keeps P (allocate_token now k epoch)" "work_keeps P (register_work now request)"
    "work_keeps P (release_work now lease_id)" "work_keeps P (reconcile_work now k endpoint_id)"
proof -
  have writes: "work_keeps P (insert_lease_counter row)" "work_keeps P (update_lease_counter p f)"
    "work_keeps P (insert_lease lease)" for row p f lease
    using assms by (auto simp: ignores_leases_def work_keeps_def insert_lease_counter_def update_lease_counter_def
        insert_lease_def)
  show allocate: "work_keeps P (allocate_token now k epoch)" for k epoch
  proof -
    have "work_keeps P (work_then (insert_lease_counter row) (\<lambda>_. work_return (1 :: int)))"
      "work_keeps P (work_then (update_lease_counter p f) (\<lambda>_. work_return i))" for row p f and i :: int
      by (intro work_rules writes)+
    then show ?thesis
      unfolding work_keeps_def allocate_token_def Let_def by (auto split: option.split)
  qed
  show "work_keeps P (register_work now request)"
    unfolding register_work_def reject_active_exclusive_resource_lease_def by (intro work_rules writes allocate)
  show "work_keeps P (release_work now lease_id)" "work_keeps P (reconcile_work now k endpoint_id)"
    using assms by (auto simp: ignores_leases_def work_keeps_def release_work_def reconcile_work_def Let_def)
qed

lemma segment_work_frame:
  assumes "ignores_segments P"
  shows "work_keeps P (record_segment_work require_lease now s)" "work_keeps P (finalize_missing_work now segment_id)"
    "work_keeps P (transition_segment_work now segment_id expected_state next_state)"
proof -
  have "work_keeps P (insert_segment now s)"
    using assms by (auto simp: ignores_segments_def work_keeps_def insert_segment_def Let_def)
  then have "work_keeps P (work_then (work_check q) (\<lambda>_. work_then (work_check q') (\<lambda>_.
      work_then (insert_segment now s) (\<lambda>_. work_check q''))))" for q q' q''
    by (intro work_rules)
  then show "work_keeps P (record_segment_work require_lease now s)"
    unfolding work_keeps_def record_segment_work_def by (auto split: option.split)
  show "work_keeps P (finalize_missing_work now segment_id)"
    "work_keeps P (transition_segment_work now segment_id expected_state next_state)"
    using assms by (auto simp: ignores_segments_def work_keeps_def finalize_missing_work_def
        transition_segment_work_def Let_def split: option.split)
qed

lemma journal_work_frame:
  assumes P: "ignores_operations P"
    and planned: "\<And>op. work_keeps P (record_directory_recovery_if_applicable now ds op process_instance_id)"
    and terminal: "\<And>op payload. work_keeps P (record_directory_catalog_terminal now ds op (pt_process_instance_id q) payload)"
  shows "work_keeps P (record_planned_work now ds op process_instance_id payload)"
    "work_keeps P (phase_transition_work now ds q)" "work_keeps P (staging_failure_work now clock failure)"
    "work_keeps P (lease_change_work now change phase intent)"
proof -
  have writes: "work_keeps P (insert_operation now x)" "work_keeps P (update_operations p f)"
    "work_keeps P (insert_recovery_event e)" for x p f e
    using P by (auto simp: ignores_operations_def work_keeps_def insert_operation_def update_operations_def
        insert_recovery_event_def Let_def)
  note defs = append_event_def load_recorded_operation_def one_row_def Let_def
  show "work_keeps P (record_planned_work now ds op process_instance_id payload)"
    unfolding record_planned_work_def defs by (intro work_rules writes planned)
  show "work_keeps P (phase_transition_work now ds q)"
    unfolding phase_transition_work_def defs by (intro work_rules writes terminal)
  show "work_keeps P (staging_failure_work now clock failure)"
    unfolding staging_failure_work_def defs by (intro work_rules writes)
  show "work_keeps P (lease_change_work now change phase intent)"
    unfolding lease_change_work_def defs by (intro work_rules writes)
qed

lemma lease_inv_ignores [simp]:
  "ignores_directories lease_inv" "ignores_segments lease_inv" "ignores_operations lease_inv"
  by (simp_all add: ignores_directories_def ignores_segments_def ignores_operations_def lease_inv_def)

lemma journal_inv_ignores_leases [simp]: "ignores_leases journal_inv"
  by (simp add: ignores_leases_def journal_inv_def operation_events_def)

section \<open>The constraints of the table\<close>

text \<open>Every row of the operations table passes its \<open>CHECK\<close> constraints, and no place in a segment is taken twice.\<close>

definition rows_admitted :: "recovery_tables \<Rightarrow> bool" where
  "rows_admitted t \<longleftrightarrow>
     (\<forall>r \<in> set (recovery_operations t). recovery_row_ok (ror_operation r)) \<and> intent_places_unique (recovery_operations t)"

lemma rows_admitted_ignores [simp]:
  "ignores_leases rows_admitted" "ignores_segments rows_admitted" "ignores_directories rows_admitted"
  by (simp_all add: ignores_leases_def ignores_segments_def ignores_directories_def rows_admitted_def)

lemma journal_writes_keep_rows:
  "work_keeps rows_admitted (insert_operation now op)" "work_keeps rows_admitted (update_operations p f)"
  "work_keeps rows_admitted (insert_recovery_event e)"
proof -
  show "work_keeps rows_admitted (update_operations p f)"
  proof (rule work_keepsI)
    fix t assume a: "rows_admitted t"
    show "rows_admitted (snd (update_operations p f t))"
    proof (cases "fst (update_operations p f t) = Raises Integrity_Error")
      case True
      then show ?thesis using a by (auto simp: update_operations_def Let_def split: if_splits)
    next
      case False
      have "recovery_row_ok (ror_operation x)"
        if "x \<in> set (sql_update (\<lambda>r. p (ror_operation r)) f (recovery_operations t))" for x
        using that a False
        by (auto simp: sql_update_def update_operations_def rows_admitted_def list_all_iff Let_def split: if_splits)
      then show ?thesis using a False
        by (auto simp: update_operations_def rows_admitted_def Let_def split: if_splits)
    qed
  qed
qed (auto simp: work_keeps_def rows_admitted_def insert_operation_def insert_recovery_event_def Let_def)

lemma journal_works_keep_rows:
  "work_keeps rows_admitted (record_planned_work now ds op process_instance_id payload)"
  "work_keeps rows_admitted (phase_transition_work now ds q)" "work_keeps rows_admitted (staging_failure_work now clock failure)"
  "work_keeps rows_admitted (lease_change_work now change phase intent)"
proof -
  note defs = append_event_def load_recorded_operation_def one_row_def Let_def
  show "work_keeps rows_admitted (record_planned_work now ds op process_instance_id payload)"
    unfolding record_planned_work_def defs
    by (intro work_rules journal_writes_keep_rows directory_glue_keeps rows_admitted_ignores)
  show "work_keeps rows_admitted (phase_transition_work now ds q)"
    unfolding phase_transition_work_def defs
    by (intro work_rules journal_writes_keep_rows directory_glue_keeps rows_admitted_ignores)
  show "work_keeps rows_admitted (staging_failure_work now clock failure)"
    unfolding staging_failure_work_def defs by (intro work_rules journal_writes_keep_rows)
  show "work_keeps rows_admitted (lease_change_work now change phase intent)"
    unfolding lease_change_work_def defs by (intro work_rules journal_writes_keep_rows)
qed

end
