(* ===== verification/Segment_Laws.thy ===== *)
theory Segment_Laws
  imports Recovery_Frames
begin

text \<open>
  The intent segments of a run target are a chain: numbered from zero and linked by the hash of the segment
  before.  Appending a segment and moving one along its life keep the chain, and keep every operation bound to
  the segment it names.
\<close>

definition segments :: "recovery_tables \<Rightarrow> RecoveryIntentSegment list" where
  "segments t = map isr_segment (intent_segments t)"

text \<open>A segment that is written has passed \<open>_require_segment_chain\<close> and the constraints of the table.\<close>

definition segment_recorded :: "RecoveryIntentSegment list \<Rightarrow> RecoveryIntentSegment \<Rightarrow> bool" where
  "segment_recorded rows s \<longleftrightarrow>
     (\<exists>now t. segments t = rows \<and> require_segment_chain s t = Inr ()
        \<and> insert_segment now s t =
            (Returns (), t\<lparr>intent_segments := intent_segments t @ [\<lparr>isr_segment = s, isr_updated_utc = now\<rparr>]\<rparr>))"

interpretation segment_log: chained_log ris_run_target_id ris_segment_sequence ris_previous_segment_hash
  ris_segment_hash 0 segment_recorded
proof
  fix rows s p
  assume "segment_recorded rows s"
  then obtain now t where t: "segments t = rows" and chain: "require_segment_chain s t = Inr ()"
    and ins: "insert_segment now s t =
      (Returns (), t\<lparr>intent_segments := intent_segments t @ [\<lparr>isr_segment = s, isr_updated_utc = now\<rparr>]\<rparr>)"
    by (auto simp: segment_recorded_def)
  have ok: "segment_row_ok s"
    and unique: "\<And>r. r \<in> set rows \<Longrightarrow> ris_run_target_id r = ris_run_target_id s \<Longrightarrow>
        ris_segment_sequence r \<noteq> ris_segment_sequence s"
    using ins t unfolding insert_segment_def Let_def segments_def by (auto simp: list_ex_iff split: if_splits)
  show "ris_segment_sequence p \<noteq> ris_segment_sequence s"
    if "p \<in> set rows" "ris_run_target_id p = ris_run_target_id s"
    using unique that by blast
  show "ris_segment_sequence s = 0 \<and> ris_previous_segment_hash s = None
    \<or> (\<exists>p \<in> set rows. ris_run_target_id p = ris_run_target_id s \<and> ris_segment_sequence s = ris_segment_sequence p + 1
        \<and> ris_previous_segment_hash s = Some (ris_segment_hash p))"
  proof (cases "ris_segment_sequence s = 0")
    case True
    then show ?thesis using chain by (simp add: require_segment_chain_def split: if_splits)
  next
    case False
    then obtain r where f: "List.find (\<lambda>r. ris_run_target_id (isr_segment r) = ris_run_target_id s
          \<and> ris_segment_sequence (isr_segment r) = ris_segment_sequence s - 1) (intent_segments t) = Some r"
      and h: "ris_previous_segment_hash s = Some (ris_segment_hash (isr_segment r))"
      using chain by (auto simp: require_segment_chain_def split: option.splits if_splits)
    have "isr_segment r \<in> set rows" "ris_run_target_id (isr_segment r) = ris_run_target_id s"
      "ris_segment_sequence (isr_segment r) = ris_segment_sequence s - 1"
      using find_Some_iff' [OF f] t by (auto simp: segments_def)
    then show ?thesis using h by (intro disjI2 bexI [of _ "isr_segment r"]) simp_all
  qed
qed

section \<open>The invariant\<close>

definition segment_inv :: "recovery_tables \<Rightarrow> bool" where
  "segment_inv t \<longleftrightarrow>
     distinct (map ris_segment_id (segments t))
     \<and> list_all (\<lambda>s. ris_durability_state s = DURABILITY_DURABLE) (segments t)
     \<and> streams_chained ris_run_target_id ris_segment_sequence ris_previous_segment_hash ris_segment_hash 0 (segments t)"

lemma segment_inv_ignores [simp]:
  "ignores_leases segment_inv" "ignores_operations segment_inv" "ignores_directories segment_inv"
  by (simp_all add: ignores_leases_def ignores_operations_def ignores_directories_def segment_inv_def segments_def)

text \<open>What the two writes to the table do.\<close>

lemma record_segment_cases:
  "(\<exists>o'. record_segment_work require_lease now s t = (o', t))
   \<or> (let t' = t\<lparr>intent_segments := intent_segments t @ [\<lparr>isr_segment = s, isr_updated_utc = now\<rparr>]\<rparr>
      in snd (record_segment_work require_lease now s t) = t' \<and> require_lease s t = Inr ()
         \<and> require_segment_chain s t = Inr () \<and> insert_segment now s t = (Returns (), t')
         \<and> ris_segment_id s \<notin> ris_segment_id ` set (segments t))"
proof (cases "load_intent_segment (ris_segment_id s) t")
  case (Some existing)
  then show ?thesis by (simp add: record_segment_work_def)
next
  case None
  let ?t' = "t\<lparr>intent_segments := intent_segments t @ [\<lparr>isr_segment = s, isr_updated_utc = now\<rparr>]\<rparr>"
  have "insert_segment now s t = (Raises Integrity_Error, t)
      \<or> insert_segment now s t = (Returns (), ?t') \<and> ris_segment_id s \<notin> ris_segment_id ` set (segments t)"
    by (auto simp: insert_segment_def Let_def list_ex_iff segments_def image_iff)
  then show ?thesis
    using None
    by (auto simp: record_segment_work_def work_then_check work_then_def work_check_def Let_def split: sum.split)
qed

lemma set_segment_state_keeps:
  "map ris_segment_id (map isr_segment (sql_update p (set_segment_state now next_state) rows)) =
     map ris_segment_id (map isr_segment rows)"
  "list_all (\<lambda>s. ris_durability_state s = DURABILITY_DURABLE)
     (map isr_segment (sql_update p (set_segment_state now next_state) rows)) \<longleftrightarrow>
     list_all (\<lambda>s. ris_durability_state s = DURABILITY_DURABLE) (map isr_segment rows)"
  by (auto simp: sql_update_def set_segment_state_def list_all_iff)

lemma streams_chained_cong:
  assumes "length rows' = length rows"
    and "\<And>i. i < length rows \<Longrightarrow> stream (rows' ! i) = stream (rows ! i) \<and> position (rows' ! i) = position (rows ! i)
        \<and> previous (rows' ! i) = previous (rows ! i) \<and> hash (rows' ! i) = hash (rows ! i)"
  shows "streams_chained stream position previous hash start rows' \<longleftrightarrow>
    streams_chained stream position previous hash start rows"
proof -
  let ?view = "\<lambda>r. (stream r, position r, previous r, hash r)"
  have views: "map ?view rows' = map ?view rows"
    using assms by (intro nth_equalityI) auto
  have via: "streams_chained stream position previous hash start xs \<longleftrightarrow>
      streams_chained (\<lambda>v. fst v) (\<lambda>v. fst (snd v)) (\<lambda>v. fst (snd (snd v))) (\<lambda>v. snd (snd (snd v))) start
        (map ?view xs)" for xs
  proof -
    have "numbered_chain (\<lambda>v. fst (snd v)) (\<lambda>v. fst (snd (snd v))) (\<lambda>v. snd (snd (snd v))) start (map ?view ys) \<longleftrightarrow>
        numbered_chain position previous hash start ys" for ys
      by (auto simp: numbered_chain_def)
    then show ?thesis by (simp add: streams_chained_def filter_map comp_def)
  qed
  show ?thesis unfolding via [of rows'] via [of rows] views ..
qed

lemma set_segment_state_chained:
  "streams_chained ris_run_target_id ris_segment_sequence ris_previous_segment_hash ris_segment_hash 0
     (map isr_segment (sql_update p (set_segment_state now next_state) rows)) \<longleftrightarrow>
   streams_chained ris_run_target_id ris_segment_sequence ris_previous_segment_hash ris_segment_hash 0
     (map isr_segment rows)"
  by (rule streams_chained_cong) (auto simp: sql_update_def set_segment_state_def)

lemma segments_with_rows: "segments (t\<lparr>intent_segments := rows\<rparr>) = map isr_segment rows"
  by (simp add: segments_def)

lemma set_segment_state_inv:
  "segment_inv t \<Longrightarrow>
     segment_inv (t\<lparr>intent_segments := sql_update p (set_segment_state now next_state) (intent_segments t)\<rparr>)"
  unfolding segment_inv_def segments_with_rows set_segment_state_keeps set_segment_state_chained
  by (simp only: segments_def)

lemma segment_works_keep_chain:
  "validate_recovery_intent_segment s = Inr () \<Longrightarrow> work_keeps segment_inv (record_segment_work require_lease now s)"
  "work_keeps segment_inv (finalize_missing_work now segment_id)"
  "work_keeps segment_inv (transition_segment_work now segment_id expected_state next_state)"
proof -
  show "work_keeps segment_inv (record_segment_work require_lease now s)"
    if assms: "validate_recovery_intent_segment s = Inr ()"
  proof (rule work_keepsI)
    fix t assume inv: "segment_inv t"
    let ?t' = "t\<lparr>intent_segments := intent_segments t @ [\<lparr>isr_segment = s, isr_updated_utc = now\<rparr>]\<rparr>"
    have durable: "ris_durability_state s = DURABILITY_DURABLE"
      using assms by (auto simp: validate_recovery_intent_segment_def split: if_splits)
    from record_segment_cases [of require_lease now s t]
    show "segment_inv (snd (record_segment_work require_lease now s t))"
    proof (elim disjE exE)
      fix o' assume "record_segment_work require_lease now s t = (o', t)"
      then show ?thesis using inv by simp
    next
      assume w: "let t' = ?t' in snd (record_segment_work require_lease now s t) = t' \<and> require_lease s t = Inr ()
         \<and> require_segment_chain s t = Inr () \<and> insert_segment now s t = (Returns (), t')
         \<and> ris_segment_id s \<notin> ris_segment_id ` set (segments t)"
      have "segment_recorded (segments t) s"
        unfolding segment_recorded_def using w by (intro exI [of _ now] exI [of _ t]) (simp add: Let_def)
      then have "streams_chained ris_run_target_id ris_segment_sequence ris_previous_segment_hash ris_segment_hash 0
          (segments t @ [s])"
        using inv by (intro segment_log.records_extends) (simp_all add: segment_inv_def)
      then have "segment_inv ?t'" using inv w durable by (simp add: segment_inv_def segments_def Let_def image_image)
      then show ?thesis using w by (simp add: Let_def)
    qed
  qed
  show "work_keeps segment_inv (finalize_missing_work now segment_id)"
    "work_keeps segment_inv (transition_segment_work now segment_id expected_state next_state)"
    by (auto simp: work_keeps_def finalize_missing_work_def transition_segment_work_def Let_def
        intro: set_segment_state_inv split: option.split)
qed

section \<open>Bound operations stay bound\<close>

lemma operation_sound_mono:
  assumes "operation_sound xs op" "\<And>s. s \<in> set xs \<Longrightarrow> segment_binds s op \<Longrightarrow> \<exists>s' \<in> set ys. segment_binds s' op"
  shows "operation_sound ys op"
  using assms by (auto simp: operation_sound_def list_ex_iff)

lemma journal_inv_segments:
  assumes inv: "journal_inv t"
    and "\<And>s op. s \<in> set (segments t) \<Longrightarrow> segment_binds s op \<Longrightarrow>
      \<exists>s' \<in> set (map isr_segment rows). segment_binds s' op"
  shows "journal_inv (t\<lparr>intent_segments := rows\<rparr>)"
proof -
  have "operation_sound (map isr_segment rows) (ror_operation r)" if "r \<in> set (recovery_operations t)" for r
    using inv that assms(2) operation_sound_mono [of "segments t" "ror_operation r" "map isr_segment rows"]
    by (simp add: journal_inv_def segments_def)
  then show ?thesis using inv by (simp add: journal_inv_def operation_events_def)
qed

lemma set_segment_state_journal:
  assumes "journal_inv t"
  shows "journal_inv (t\<lparr>intent_segments := sql_update p (set_segment_state now next_state) (intent_segments t)\<rparr>)"
proof (rule journal_inv_segments [OF assms])
  fix s op assume "s \<in> set (segments t)" and b: "segment_binds s op"
  then obtain r where r: "r \<in> set (intent_segments t)" "isr_segment r = s" by (auto simp: segments_def)
  let ?r = "if p r then set_segment_state now next_state r else r"
  have "isr_segment ?r \<in> set (map isr_segment (sql_update p (set_segment_state now next_state) (intent_segments t)))"
    using r(1) by (auto simp: sql_update_def)
  moreover have "segment_binds (isr_segment ?r) op"
    using b r(2) by (auto simp: segment_binds_def set_segment_state_def)
  ultimately show "\<exists>s' \<in> set (map isr_segment (sql_update p (set_segment_state now next_state) (intent_segments t))).
      segment_binds s' op" by blast
qed

lemma segment_works_keep_journal:
  "work_keeps journal_inv (record_segment_work require_lease now s)"
  "work_keeps journal_inv (finalize_missing_work now segment_id)"
  "work_keeps journal_inv (transition_segment_work now segment_id expected_state next_state)"
proof -
  show "work_keeps journal_inv (record_segment_work require_lease now s)"
  proof (rule work_keepsI)
    fix t assume inv: "journal_inv t"
    have "journal_inv (t\<lparr>intent_segments := intent_segments t @ [\<lparr>isr_segment = s, isr_updated_utc = now\<rparr>]\<rparr>)"
      by (rule journal_inv_segments [OF inv]) (auto simp: segments_def)
    then show "journal_inv (snd (record_segment_work require_lease now s t))"
      using record_segment_cases [of require_lease now s t] inv by (auto simp: Let_def)
  qed
  show "work_keeps journal_inv (finalize_missing_work now segment_id)"
    "work_keeps journal_inv (transition_segment_work now segment_id expected_state next_state)"
    by (auto simp: work_keeps_def finalize_missing_work_def transition_segment_work_def Let_def
        intro: set_segment_state_journal split: option.split)
qed

end
