(* ===== verification/Directory_Laws.thy ===== *)
theory Directory_Laws
  imports Segment_Laws
begin

text \<open>
  The journal of directory recoveries: the states a recovery goes through are a prefix of the success path of
  its kind, with a conflict at the end at most; its row agrees with the last of its events; and a change is
  written entirely or not at all, also where nothing is rolled back.
\<close>

section \<open>Paths\<close>

definition directory_step :: "DirectoryRecoveryKind \<Rightarrow> DirectoryRecoveryState \<Rightarrow> DirectoryRecoveryState \<Rightarrow> bool" where
  "directory_step kind s s' \<longleftrightarrow>
     (s, s') \<in> set (zip (SUCCESS_PATH_BY_KIND kind) (tl (SUCCESS_PATH_BY_KIND kind)))
     \<or> s \<in> set (butlast (SUCCESS_PATH_BY_KIND kind)) \<and> s' = CONFLICT_STATE_BY_KIND kind"

definition directory_histories :: "DirectoryRecoveryKind \<Rightarrow> DirectoryRecoveryState list list" where
  "directory_histories kind =
     (let path = SUCCESS_PATH_BY_KIND kind in
      map (\<lambda>n. take n path) [1..<Suc (length path)]
      @ map (\<lambda>n. take n path @ [CONFLICT_STATE_BY_KIND kind]) [1..<length path])"

definition directory_kinds :: "DirectoryRecoveryKind list" where
  "directory_kinds = [CREATE, METADATA, QUARANTINE, RESTORE]"

lemma all_directory_kinds: "list_all P directory_kinds \<Longrightarrow> P kind"
  by (cases kind) (simp_all add: directory_kinds_def)

lemma in_set_tlD: "x \<in> set (tl xs) \<Longrightarrow> x \<in> set xs"
  by (cases xs) simp_all

lemma in_set_zip_tl:
  "(a, b) \<in> set (zip xs (tl xs)) \<longleftrightarrow> (\<exists>i. Suc i < length xs \<and> xs ! i = a \<and> xs ! Suc i = b)"
proof -
  have "i < length xs - Suc 0 \<longleftrightarrow> Suc i < length xs" for i by linarith
  then show ?thesis by (auto simp: set_zip nth_tl)
qed

lemma in_set_zip_tl_left: "(a, b) \<in> set (zip xs (tl xs)) \<Longrightarrow> a \<in> set (butlast xs)"
proof -
  assume "(a, b) \<in> set (zip xs (tl xs))"
  then obtain i where "Suc i < length xs" "xs ! i = a" unfolding in_set_zip_tl by blast
  then have "i < length (butlast xs)" "butlast xs ! i = a" by (simp_all add: nth_butlast)
  then show ?thesis by (metis nth_mem)
qed

lemma directory_step_states:
  assumes "directory_step kind s s'"
  shows "s \<in> set (directory_states_of_kind kind)" "s' \<in> set (directory_states_of_kind kind)"
  using assms by (auto simp: directory_step_def directory_states_of_kind_def dest: set_zip_leftD set_zip_rightD in_set_butlastD
      in_set_tlD)

lemma directory_history_extends:
  assumes "h \<in> set (directory_histories kind)" "directory_step kind (last h) s"
  shows "h @ [s] \<in> set (directory_histories kind)"
proof -
  have "list_all (\<lambda>kind. list_all (\<lambda>h. list_all (\<lambda>s. directory_step kind (last h) s \<longrightarrow>
      h @ [s] \<in> set (directory_histories kind)) (directory_states_of_kind kind)) (directory_histories kind)) directory_kinds"
    by code_simp
  note all_directory_kinds [OF this, of kind]
  moreover have "s \<in> set (directory_states_of_kind kind)" by (rule directory_step_states(2) [OF assms(2)])
  ultimately show ?thesis using assms unfolding list_all_iff by blast
qed

lemma directory_history_states:
  assumes "h \<in> set (directory_histories kind)"
  shows "h \<noteq> []" "last h \<in> set (directory_states_of_kind kind)"
proof -
  have "list_all (\<lambda>kind. list_all (\<lambda>h. h \<noteq> [] \<and> last h \<in> set (directory_states_of_kind kind))
      (directory_histories kind)) directory_kinds"
    by code_simp
  note all_directory_kinds [OF this, of kind]
  then show "h \<noteq> []" "last h \<in> set (directory_states_of_kind kind)"
    using assms unfolding list_all_iff by blast+
qed

lemma initial_directory_history: "[INITIAL_STATE_BY_KIND kind] \<in> set (directory_histories kind)"
proof -
  have "list_all (\<lambda>kind. [INITIAL_STATE_BY_KIND kind] \<in> set (directory_histories kind)) directory_kinds"
    by code_simp
  then show ?thesis by (rule all_directory_kinds)
qed

text \<open>The trigger of the table admits what the application validates, and the state that does not change.\<close>

lemma trigger_admits_steps:
  assumes "s \<in> set (directory_states_of_kind kind)" "s' \<in> set (directory_states_of_kind kind)"
  shows "directory_state_monotone s s' \<longleftrightarrow> s' = s \<or> directory_step kind s s'"
proof -
  have "list_all (\<lambda>kind. list_all (\<lambda>s. list_all (\<lambda>s'. directory_state_monotone s s' = (s' = s \<or> directory_step kind s s'))
      (directory_states_of_kind kind)) (directory_states_of_kind kind)) directory_kinds"
    by code_simp
  note all_directory_kinds [OF this, of kind]
  then show ?thesis using assms unfolding list_all_iff by blast
qed

lemma directory_values_distinct: "distinct (map directory_state_value (directory_states_of_kind kind))"
proof -
  have "list_all (\<lambda>kind. distinct (map directory_state_value (directory_states_of_kind kind))) directory_kinds"
    by code_simp
  then show ?thesis by (rule all_directory_kinds)
qed

lemma directory_value_eq:
  assumes "s \<in> set (directory_states_of_kind kind)" "s' \<in> set (directory_states_of_kind kind)"
  shows "directory_state_value s = directory_state_value s' \<longleftrightarrow> s = s'"
  using directory_values_distinct [of kind] assms by (auto simp: distinct_map inj_on_def)

lemma directory_state_from_value [simp]:
  assumes "s \<in> set (directory_states_of_kind kind)"
  shows "directory_state_from_value kind (directory_state_value s) = Some s" "state_in s (directory_states_of_kind kind)"
proof -
  have "List.find (\<lambda>x. directory_state_value x = directory_state_value s) (directory_states_of_kind kind) \<noteq> None"
    using assms by (auto simp: find_None_iff)
  then obtain x where x: "List.find (\<lambda>x. directory_state_value x = directory_state_value s)
      (directory_states_of_kind kind) = Some x" by blast
  then show "directory_state_from_value kind (directory_state_value s) = Some s"
    using find_Some_iff' [OF x] directory_value_eq [of x kind s] assms by (simp add: directory_state_from_value_def)
  show "state_in s (directory_states_of_kind kind)" using assms by (simp add: state_in_def)
qed

lemma index_of_iff:
  assumes "distinct xs"
  shows "index_of v xs = Some i \<longleftrightarrow> i < length xs \<and> xs ! i = v"
  using assms
proof (induction xs arbitrary: i)
  case (Cons x xs)
  then show ?case by (cases i) (auto simp: in_set_conv_nth)
qed simp

text \<open>What a validated transition of a sound operation is.\<close>

lemma validated_directory_transition:
  assumes s: "dro_state op \<in> set (directory_states_of_kind (dro_kind op))"
  shows "validate_directory_recovery_transition op tr = Inr () \<longleftrightarrow>
     validate_directory_recovery_operation op = Inr ()
     \<and> drt_recovery_id tr = dro_recovery_id op \<and> drt_expected_state tr = dro_state op
     \<and> \<not> untrimmed (drt_process_instance_id tr)
     \<and> directory_step (dro_kind op) (dro_state op) (drt_next_state tr)
     \<and> (drt_next_state tr = CONFLICT_STATE_BY_KIND (dro_kind op) \<longrightarrow> \<not> opt_untrimmed (drt_last_error_code tr))"
proof -
  let ?path = "SUCCESS_PATH_BY_KIND (dro_kind op)" and ?s = "dro_state op" and ?s' = "drt_next_state tr"
  let ?conflict = "CONFLICT_STATE_BY_KIND (dro_kind op)"
  have dist: "distinct ?path" "?conflict \<notin> set ?path" "?path \<noteq> []"
    using directory_values_distinct [of "dro_kind op"]
    by (auto simp: directory_states_of_kind_def distinct_map) (cases "dro_kind op"; simp add: SUCCESS_PATH_BY_KIND_def)
  have sub: "set ?path \<subseteq> set (directory_states_of_kind (dro_kind op))"
    "?conflict \<in> set (directory_states_of_kind (dro_kind op))"
    by (auto simp: directory_states_of_kind_def)
  have terminal: "directory_recovery_is_terminal op \<longleftrightarrow> ?s \<notin> set (butlast ?path)"
  proof -
    obtain front where f: "?path = front @ [last ?path]" using dist(3) by (metis append_butlast_last_id)
    then have "butlast ?path = front" by (metis butlast_snoc)
    moreover have "set ?path = insert (last ?path) (set front)" by (subst f) simp
    moreover have "last ?path \<notin> set front" using dist(1) by (subst (asm) f) simp
    ultimately have "set ?path = insert (last ?path) (set (butlast ?path))" "last ?path \<notin> set (butlast ?path)"
      by simp_all
    moreover have "directory_recovery_is_terminal op \<longleftrightarrow> ?s = last ?path \<or> ?s = ?conflict"
      using directory_value_eq [OF s, of "last ?path"] directory_value_eq [OF s sub(2)] sub(1) dist(3)
      by (auto simp: directory_recovery_is_terminal_def state_in_def dest: last_in_set)
    moreover have "?s \<in> set ?path \<or> ?s = ?conflict" using s by (auto simp: directory_states_of_kind_def)
    ultimately show ?thesis using dist(2) by (metis insert_iff in_set_butlastD)
  qed
  have along: "(?s, ?s') \<in> set (zip ?path (tl ?path)) \<longleftrightarrow>
      (\<exists>i. index_of (directory_state_value ?s) (map directory_state_value ?path) = Some i
         \<and> i + 1 < length ?path \<and> ?path ! (i + 1) = ?s')"
  proof -
    have "index_of (directory_state_value ?s) (map directory_state_value ?path) = Some i \<longleftrightarrow>
        i < length ?path \<and> ?path ! i = ?s" for i
    proof -
      have "distinct (map directory_state_value ?path)"
        using directory_values_distinct [of "dro_kind op"] by (simp add: directory_states_of_kind_def)
      note index_of_iff [OF this, of "directory_state_value ?s" i]
      moreover have "directory_state_value (?path ! i) = directory_state_value ?s \<longleftrightarrow> ?path ! i = ?s" if "i < length ?path"
        by (rule directory_value_eq [OF _ s]) (use that sub(1) in \<open>meson nth_mem subsetD\<close>)
      ultimately show ?thesis by (metis length_map nth_map)
    qed
    then show ?thesis unfolding in_set_zip_tl by (metis Suc_eq_plus1 Suc_lessD)
  qed
  have "directory_step (dro_kind op) ?s ?s' \<longleftrightarrow> \<not> directory_recovery_is_terminal op
      \<and> (?s' = ?conflict \<or> (?s, ?s') \<in> set (zip ?path (tl ?path)))"
  proof -
    have "?s \<in> set (butlast ?path)" if "(?s, ?s') \<in> set (zip ?path (tl ?path))"
      using that by (rule in_set_zip_tl_left)
    then show ?thesis unfolding terminal directory_step_def by auto
  qed
  moreover have "?s' \<noteq> ?conflict" if "(?s, ?s') \<in> set (zip ?path (tl ?path))"
    using set_zip_rightD [OF that] dist(2) in_set_tlD by metis
  ultimately show ?thesis
    unfolding validate_directory_recovery_transition_def Let_def
    using along by (auto split: option.splits)
qed

end
