(* ===== verification/Directory_Journal.thy ===== *)
theory Directory_Journal
  imports Directory_Laws
begin

text \<open>
  The invariant of the journal of directory recoveries, and the two things its store writes: a planned recovery
  with its first event, and a transition with its event.  Neither fails half-way.
\<close>

definition directory_events_of :: "string \<Rightarrow> recovery_tables \<Rightarrow> directory_event list" where
  "directory_events_of recovery_id t = filter (\<lambda>e. dre_recovery_id e = recovery_id) (directory_events t)"

definition directory_event_sealed :: "directory_event \<Rightarrow> bool" where
  "directory_event_sealed e \<longleftrightarrow>
     dre_event_hash e = directory_event_hash (dre_recovery_id e) (dre_event_sequence e) (dre_from_state e)
       (dre_to_state e) (dre_process_instance_id e) (dre_payload_json e) (dre_previous_event_hash e)"

text \<open>The events tell a path of the kind, and the row stands at its end.\<close>

definition directory_history_fits :: "DirectoryRecoveryOperation \<Rightarrow> directory_event list \<Rightarrow> bool" where
  "directory_history_fits op evs \<longleftrightarrow>
     evs \<noteq> []
     \<and> map dre_to_state evs \<in> set (directory_histories (dro_kind op))
     \<and> map dre_from_state evs = None # map Some (butlast (map dre_to_state evs))
     \<and> dro_state op = dre_to_state (last evs)
     \<and> dro_event_sequence op = int (length evs) \<and> dro_row_version op = int (length evs)
     \<and> dro_event_hash op = Some (dre_event_hash (last evs))"

definition directory_row_sound :: "recovery_tables \<Rightarrow> DirectoryRecoveryOperation \<Rightarrow> bool" where
  "directory_row_sound t op \<longleftrightarrow>
     validate_directory_recovery_operation op = Inr () \<and> directory_row_ok op
     \<and> directory_history_fits op (directory_events_of (dro_recovery_id op) t)"

definition dor_key :: "directory_operation_row \<Rightarrow> string" where
  "dor_key r = dro_recovery_id (dor_operation r)"

definition directory_inv :: "recovery_tables \<Rightarrow> bool" where
  "directory_inv t \<longleftrightarrow>
     distinct (map dor_key (directory_operations t))
     \<and> (\<forall>r \<in> set (directory_operations t). directory_row_sound t (dor_operation r))
     \<and> (\<forall>e \<in> set (directory_events t). directory_event_sealed e
          \<and> dre_recovery_id e \<in> dor_key ` set (directory_operations t))
     \<and> streams_chained dre_recovery_id dre_event_sequence dre_previous_event_hash dre_event_hash 1 (directory_events t)"

lemma directory_inv_ignores [simp]:
  "ignores_leases directory_inv" "ignores_segments directory_inv" "ignores_operations directory_inv"
  by (simp_all add: ignores_leases_def ignores_segments_def ignores_operations_def directory_inv_def
      directory_row_sound_def directory_events_of_def)

section \<open>The log\<close>

text \<open>The event of a change, written when the row it follows agrees with its last event.\<close>

definition directory_event_recorded :: "directory_event list \<Rightarrow> directory_event \<Rightarrow> bool" where
  "directory_event_recorded rows e \<longleftrightarrow>
     (\<exists>t. directory_events t = rows
        \<and> insert_directory_event e t = (Returns (), t\<lparr>directory_events := directory_events t @ [e]\<rparr>)
        \<and> (dre_event_sequence e = 1 \<and> dre_previous_event_hash e = None
           \<or> (\<exists>op. directory_row_sound t op \<and> dro_recovery_id op = dre_recovery_id e
                \<and> streams_chained dre_recovery_id dre_event_sequence dre_previous_event_hash dre_event_hash 1 rows
                \<and> dre_event_sequence e = dro_event_sequence op + 1 \<and> dre_previous_event_hash e = dro_event_hash op)))"

lemma chained_last_position:
  assumes "streams_chained stream position previous hash start rows" "filter (\<lambda>r. stream r = s) rows \<noteq> []"
  shows "position (last (filter (\<lambda>r. stream r = s) rows)) = start + int (length (filter (\<lambda>r. stream r = s) rows)) - 1"
proof -
  let ?xs = "filter (\<lambda>r. stream r = s) rows"
  have "numbered_chain position previous hash start ?xs" using assms(1) by (simp add: streams_chained_def)
  moreover have "length ?xs - 1 < length ?xs" using assms(2) by (cases ?xs) simp_all
  ultimately have "position (?xs ! (length ?xs - 1)) = start + int (length ?xs - 1)"
    unfolding numbered_chain_def by blast
  then show ?thesis using assms(2) by (cases ?xs rule: rev_cases) (simp_all add: last_conv_nth)
qed

interpretation directory_log: chained_log dre_recovery_id dre_event_sequence dre_previous_event_hash dre_event_hash 1
  directory_event_recorded
proof
  fix rows e p
  assume "directory_event_recorded rows e"
  then obtain t where t: "directory_events t = rows"
    and ins: "insert_directory_event e t = (Returns (), t\<lparr>directory_events := directory_events t @ [e]\<rparr>)"
    and follows: "dre_event_sequence e = 1 \<and> dre_previous_event_hash e = None
           \<or> (\<exists>op. directory_row_sound t op \<and> dro_recovery_id op = dre_recovery_id e
                \<and> streams_chained dre_recovery_id dre_event_sequence dre_previous_event_hash dre_event_hash 1 rows
                \<and> dre_event_sequence e = dro_event_sequence op + 1 \<and> dre_previous_event_hash e = dro_event_hash op)"
    unfolding directory_event_recorded_def by blast
  show "dre_event_sequence p \<noteq> dre_event_sequence e" if "p \<in> set rows" "dre_recovery_id p = dre_recovery_id e"
    using ins that t by (auto simp: insert_directory_event_def list_ex_iff split: if_splits)
  show "dre_event_sequence e = 1 \<and> dre_previous_event_hash e = None
    \<or> (\<exists>p \<in> set rows. dre_recovery_id p = dre_recovery_id e \<and> dre_event_sequence e = dre_event_sequence p + 1
        \<and> dre_previous_event_hash e = Some (dre_event_hash p))"
    using follows
  proof
    assume "\<exists>op. directory_row_sound t op \<and> dro_recovery_id op = dre_recovery_id e
                \<and> streams_chained dre_recovery_id dre_event_sequence dre_previous_event_hash dre_event_hash 1 rows
                \<and> dre_event_sequence e = dro_event_sequence op + 1 \<and> dre_previous_event_hash e = dro_event_hash op"
    then obtain op where op: "directory_row_sound t op" "dro_recovery_id op = dre_recovery_id e"
      and chained: "streams_chained dre_recovery_id dre_event_sequence dre_previous_event_hash dre_event_hash 1 rows"
      and e: "dre_event_sequence e = dro_event_sequence op + 1" "dre_previous_event_hash e = dro_event_hash op" by blast
    let ?evs = "filter (\<lambda>x. dre_recovery_id x = dre_recovery_id e) rows"
    have fits: "?evs \<noteq> []" "dro_event_sequence op = int (length ?evs)" "dro_event_hash op = Some (dre_event_hash (last ?evs))"
      using op t by (auto simp: directory_row_sound_def directory_history_fits_def directory_events_of_def)
    have "last ?evs \<in> set ?evs" using fits(1) by (rule last_in_set)
    then show ?thesis
      using chained_last_position [OF chained fits(1)] fits e by (intro disjI2 bexI [of _ "last ?evs"]) auto
  qed simp
qed

section \<open>Reading a sound row\<close>

lemma directory_row_state:
  assumes "directory_row_sound t op"
  shows "dro_state op \<in> set (directory_states_of_kind (dro_kind op))"
proof -
  let ?evs = "directory_events_of (dro_recovery_id op) t"
  have "?evs \<noteq> []" "map dre_to_state ?evs \<in> set (directory_histories (dro_kind op))"
    "dro_state op = dre_to_state (last ?evs)"
    using assms by (simp_all add: directory_row_sound_def directory_history_fits_def)
  then show ?thesis using directory_history_states(2) by (metis last_map)
qed

lemma directory_row_reads:
  assumes "validate_directory_recovery_operation op = Inr ()" "dro_state op \<in> set (directory_states_of_kind (dro_kind op))"
  shows "directory_operation_from_row op = Inr op"
  using assms by (simp add: directory_operation_from_row_def)

lemma load_directory_operation:
  assumes inv: "directory_inv t"
  shows "load_directory_recovery_operation recovery_id t =
    Inr (map_option dor_operation (List.find (\<lambda>r. dor_key r = recovery_id) (directory_operations t)))"
proof (cases "List.find (\<lambda>r. dor_key r = recovery_id) (directory_operations t)")
  case None
  then show ?thesis by (simp add: load_directory_recovery_operation_def dor_key_def)
next
  case (Some r)
  then have "r \<in> set (directory_operations t)" using find_Some_iff' by fastforce
  then have s: "directory_row_sound t (dor_operation r)" using inv by (simp add: directory_inv_def)
  then have "directory_operation_from_row (dor_operation r) = Inr (dor_operation r)"
    using directory_row_reads [OF _ directory_row_state [OF s]] by (simp add: directory_row_sound_def)
  then show ?thesis using Some by (simp add: load_directory_recovery_operation_def dor_key_def)
qed

section \<open>Planning a recovery\<close>

lemma work_then_raises: "m t = (Raises e, t1) \<Longrightarrow> work_then m f t = (Raises e, t1)"
  by (simp add: work_then_def)

lemma directory_hash_is_hex64 [simp]: "is_hex64 (directory_event_hash a b c d e f g)"
  unfolding directory_event_hash_def by (rule sha256_hexdigest_is_hex64)

lemma not_untrimmed [simp]: "\<not> untrimmed v \<Longrightarrow> strip v = v" "\<not> untrimmed v \<Longrightarrow> \<not> blank v"
  by (auto simp: untrimmed_def)

definition first_directory_event ::
  "DirectoryRecoveryOperation \<Rightarrow> string \<Rightarrow> (string \<times> json) list \<Rightarrow> directory_event" where
  "first_directory_event op process_instance_id payload =
     (let payload_json = canonical_directory_recovery_payload payload in
      \<lparr>dre_recovery_id = dro_recovery_id op, dre_event_sequence = 1, dre_from_state = None,
        dre_to_state = dro_state op, dre_process_instance_id = process_instance_id, dre_payload_json = payload_json,
        dre_previous_event_hash = None,
        dre_event_hash = directory_event_hash (dro_recovery_id op) 1 None (dro_state op) process_instance_id
          payload_json None\<rparr>)"

definition first_directory_row ::
  "DirectoryRecoveryOperation \<Rightarrow> string \<Rightarrow> (string \<times> json) list \<Rightarrow> DirectoryRecoveryOperation" where
  "first_directory_row op process_instance_id payload =
     op\<lparr>dro_event_sequence := 1,
        dro_event_hash := Some (dre_event_hash (first_directory_event op process_instance_id payload))\<rparr>"

definition directory_planned ::
  "string \<Rightarrow> DirectoryRecoveryOperation \<Rightarrow> string \<Rightarrow> (string \<times> json) list \<Rightarrow> recovery_tables \<Rightarrow> recovery_tables" where
  "directory_planned now op process_instance_id payload t =
     t\<lparr>directory_operations := directory_operations t @
          [\<lparr>dor_operation = first_directory_row op process_instance_id payload, dor_updated_utc = now\<rparr>],
       directory_events := directory_events t @ [first_directory_event op process_instance_id payload]\<rparr>"

lemma directory_event_simps [simp]:
  "dre_recovery_id (first_directory_event op pi pl) = dro_recovery_id op"
  "dre_event_sequence (first_directory_event op pi pl) = 1"
  "dre_previous_event_hash (first_directory_event op pi pl) = None"
  "dre_from_state (first_directory_event op pi pl) = None"
  "dre_to_state (first_directory_event op pi pl) = dro_state op"
  "dre_process_instance_id (first_directory_event op pi pl) = pi"
  "is_hex64 (dre_event_hash (first_directory_event op pi pl))"
  "directory_event_sealed (first_directory_event op pi pl)"
  by (simp_all add: first_directory_event_def directory_event_sealed_def Let_def)

lemma validate_first_row:
  assumes "record_directory_precheck op process_instance_id = Inr ()" "directory_row_ok op"
  shows "validate_directory_recovery_operation (first_directory_row op process_instance_id payload) = Inr ()"
    "directory_row_ok (first_directory_row op process_instance_id payload)"
    "dro_state op = INITIAL_STATE_BY_KIND (dro_kind op)" "dro_row_version op = 1" "dro_event_sequence op = 0"
    "\<not> untrimmed process_instance_id"
proof -
  show v: "dro_state op = INITIAL_STATE_BY_KIND (dro_kind op)" "dro_row_version op = 1" "dro_event_sequence op = 0"
    "\<not> untrimmed process_instance_id"
    using assms(1) by (auto simp: record_directory_precheck_def split: if_splits)
  have "validate_directory_recovery_operation op = Inr ()"
    using assms(1) by (auto simp: record_directory_precheck_def)
  then show "validate_directory_recovery_operation (first_directory_row op process_instance_id payload) = Inr ()"
    by (auto simp: validate_directory_recovery_operation_def first_directory_row_def split: if_splits)
  show "directory_row_ok (first_directory_row op process_instance_id payload)"
    using assms(2) by (auto simp: directory_row_ok_def first_directory_row_def)
qed

lemma fresh_recovery_has_no_events:
  assumes "directory_inv t" "recovery_id \<notin> dor_key ` set (directory_operations t)"
  shows "directory_events_of recovery_id t = []"
  using assms by (auto simp: directory_inv_def directory_events_of_def filter_empty_conv)

lemma insert_first_event:
  assumes inv: "directory_inv t" and fresh: "dro_recovery_id op \<notin> dor_key ` set (directory_operations t)"
    and process: "\<not> untrimmed process_instance_id"
    and row: "rows = directory_operations t @ [\<lparr>dor_operation = op', dor_updated_utc = now\<rparr>]"
      "dro_recovery_id op' = dro_recovery_id op"
  shows "insert_directory_event (first_directory_event op process_instance_id payload) (t\<lparr>directory_operations := rows\<rparr>) =
    (Returns (), t\<lparr>directory_operations := rows,
       directory_events := directory_events t @ [first_directory_event op process_instance_id payload]\<rparr>)"
proof -
  have "dre_recovery_id e \<noteq> dro_recovery_id op" if "e \<in> set (directory_events t)" for e
    using inv fresh that unfolding directory_inv_def by metis
  then show ?thesis
    using process row sql_trim_nonempty [of process_instance_id] by (auto simp: insert_directory_event_def list_ex_iff)
qed

lemma directory_planned_inv:
  assumes inv: "directory_inv t" and pre: "record_directory_precheck op process_instance_id = Inr ()"
    and ok: "directory_row_ok op" and fresh: "dro_recovery_id op \<notin> dor_key ` set (directory_operations t)"
  shows "directory_inv (directory_planned now op process_instance_id payload t)" (is "directory_inv ?t'")
proof -
  let ?e = "first_directory_event op process_instance_id payload"
  let ?op' = "first_directory_row op process_instance_id payload"
  let ?rows = "directory_operations t @ [\<lparr>dor_operation = ?op', dor_updated_utc = now\<rparr>]"
  note v = validate_first_row [OF pre ok]
  have id: "dro_recovery_id ?op' = dro_recovery_id op" by (simp add: first_directory_row_def)
  have evs: "directory_events_of i ?t' = directory_events_of i t @ (if i = dro_recovery_id op then [?e] else [])" for i
    by (simp add: directory_events_of_def directory_planned_def)
  have "directory_event_recorded (directory_events t) ?e"
    unfolding directory_event_recorded_def
    using insert_first_event [OF inv fresh v(6) refl id, where now = now and payload = payload]
    by (intro exI [of _ "t\<lparr>directory_operations := ?rows\<rparr>"]) simp
  then have log: "streams_chained dre_recovery_id dre_event_sequence dre_previous_event_hash dre_event_hash 1
      (directory_events t @ [?e])"
    using inv by (intro directory_log.records_extends) (simp_all add: directory_inv_def)
  have "directory_history_fits ?op' [?e]"
    using v(3,4) initial_directory_history by (simp add: directory_history_fits_def first_directory_row_def)
  then have new: "directory_row_sound ?t' ?op'"
    using v(1,2) fresh_recovery_has_no_events [OF inv fresh] by (simp add: directory_row_sound_def evs id)
  have old: "directory_row_sound ?t' (dor_operation r)" if r: "r \<in> set (directory_operations t)" for r
  proof -
    have "dro_recovery_id (dor_operation r) \<noteq> dro_recovery_id op" using fresh r by (force simp: dor_key_def)
    then show ?thesis using inv r by (simp add: directory_inv_def directory_row_sound_def evs)
  qed
  have "distinct (map dor_key (directory_operations ?t'))"
    using inv fresh by (simp add: directory_inv_def directory_planned_def dor_key_def id)
  moreover have "\<forall>e \<in> set (directory_events ?t'). directory_event_sealed e
      \<and> dre_recovery_id e \<in> dor_key ` set (directory_operations ?t')"
    using inv by (auto simp: directory_inv_def directory_planned_def dor_key_def id)
  moreover have "\<forall>r \<in> set (directory_operations ?t'). directory_row_sound ?t' (dor_operation r)"
    using new old by (auto simp: directory_planned_def)
  ultimately show ?thesis using log by (simp add: directory_inv_def directory_planned_def)
qed

lemma record_directory_effect:
  assumes inv: "directory_inv t" and pre: "record_directory_precheck op process_instance_id = Inr ()"
  shows "(\<exists>o'. record_directory_work now op process_instance_id payload t = (o', t))
        \<and> (dro_recovery_id op \<in> dor_key ` set (directory_operations t)
            \<or> insert_directory_operation now op t = (Raises Integrity_Error, t))
    \<or> directory_row_ok op \<and> dro_recovery_id op \<notin> dor_key ` set (directory_operations t)
      \<and> record_directory_work now op process_instance_id payload t =
          (Returns (first_directory_row op process_instance_id payload),
           directory_planned now op process_instance_id payload t)"
proof (cases "List.find (\<lambda>r. dor_key r = dro_recovery_id op) (directory_operations t)")
  case (Some r)
  have "dro_recovery_id op \<in> dor_key ` set (directory_operations t)" using find_Some_iff' [OF Some] by force
  then show ?thesis using Some
    by (auto simp: record_directory_work_def work_then_check load_directory_operation [OF inv])
next
  case None
  then have fresh: "dro_recovery_id op \<notin> dor_key ` set (directory_operations t)" by (auto simp: find_None_iff')
  let ?row = "\<lparr>dor_operation = op, dor_updated_utc = now\<rparr>"
  let ?t1 = "t\<lparr>directory_operations := directory_operations t @ [?row]\<rparr>"
  let ?e = "first_directory_event op process_instance_id payload"
  show ?thesis
  proof (cases "insert_directory_operation now op t = (Returns (), ?t1)")
    case False
    then have "insert_directory_operation now op t = (Raises Integrity_Error, t)"
      by (auto simp: insert_directory_operation_def Let_def split: if_splits)
    then show ?thesis using None
      by (simp add: record_directory_work_def work_then_check load_directory_operation [OF inv] work_then_raises Let_def)
  next
    case True
    then have ok: "directory_row_ok op"
      by (auto simp: insert_directory_operation_def Let_def split: if_splits)
    note v = validate_first_row [OF pre ok]
    let ?t2 = "?t1\<lparr>directory_events := directory_events t @ [?e]\<rparr>"
    let ?p = "\<lambda>r. dro_recovery_id r = dro_recovery_id op \<and> dro_event_sequence r = 0"
    let ?f = "\<lambda>r. r\<lparr>dor_operation := (dor_operation r)\<lparr>dro_event_sequence := 1, dro_event_hash := Some (dre_event_hash ?e)\<rparr>\<rparr>"
    have others: "\<not> ?p (dor_operation r)" if "r \<in> set (directory_operations t)" for r
      using fresh that by (force simp: dor_key_def)
    have upd: "update_directory_operations ?p ?f ?t2 = (Returns 1, directory_planned now op process_instance_id payload t)"
    proof -
      have "sql_update (\<lambda>r. ?p (dor_operation r)) ?f (directory_operations t @ [?row]) =
          directory_operations t @ [\<lparr>dor_operation = first_directory_row op process_instance_id payload, dor_updated_utc = now\<rparr>]"
        using others v(5) by (auto simp: sql_update_def first_directory_row_def intro!: map_idI)
      moreover have "sql_count (\<lambda>r. ?p (dor_operation r)) (directory_operations t @ [?row]) = 1"
        using others v(5) by (auto simp: sql_count_def filter_empty_conv)
      moreover have "list_all (\<lambda>r. ?p (dor_operation r) \<longrightarrow> directory_row_ok (dor_operation (?f r))
           \<and> directory_state_monotone (dro_state (dor_operation r)) (dro_state (dor_operation (?f r))))
         (directory_operations t @ [?row])"
        using others v(2) by (auto simp: list_all_iff directory_state_monotone_def first_directory_row_def)
      ultimately show ?thesis by (simp add: update_directory_operations_def directory_planned_def Let_def)
    qed
    have read: "load_recorded_directory_operation (dro_recovery_id op) (directory_planned now op process_instance_id payload t) =
        (Returns (first_directory_row op process_instance_id payload), directory_planned now op process_instance_id payload t)"
    proof -
      have "List.find (\<lambda>r. dor_key r = dro_recovery_id op) (directory_operations (directory_planned now op process_instance_id payload t)) =
          Some \<lparr>dor_operation = first_directory_row op process_instance_id payload, dor_updated_utc = now\<rparr>"
        using None by (simp add: directory_planned_def find_append dor_key_def first_directory_row_def)
      then show ?thesis
        using load_directory_operation [OF directory_planned_inv [OF inv pre ok fresh]]
        by (simp add: load_recorded_directory_operation_def work_check_def)
    qed
    have "record_directory_work now op process_instance_id payload t =
        (Returns (first_directory_row op process_instance_id payload), directory_planned now op process_instance_id payload t)"
      using None True insert_first_event [OF inv fresh v(6) refl refl, where now = now and payload = payload] upd read
      by (simp add: record_directory_work_def work_then_check load_directory_operation [OF inv] work_then_returns
          first_directory_event_def Let_def)
    then show ?thesis using ok fresh by blast
  qed
qed

end
