(* ===== verification/Directory_Changes.thy ===== *)
theory Directory_Changes
  imports Directory_Journal
begin

text \<open>
  Transitions of directory recoveries: what is written, and that it keeps the invariant of the journal.
\<close>

definition next_directory_event ::
  "DirectoryRecoveryOperation \<Rightarrow> DirectoryRecoveryTransition \<Rightarrow> directory_event" where
  "next_directory_event op tr =
     (let payload_json = canonical_directory_recovery_payload (drt_payload tr) in
      \<lparr>dre_recovery_id = dro_recovery_id op, dre_event_sequence = dro_event_sequence op + 1,
        dre_from_state = Some (dro_state op), dre_to_state = drt_next_state tr,
        dre_process_instance_id = drt_process_instance_id tr, dre_payload_json = payload_json,
        dre_previous_event_hash = dro_event_hash op,
        dre_event_hash = directory_event_hash (dro_recovery_id op) (dro_event_sequence op + 1) (Some (dro_state op))
          (drt_next_state tr) (drt_process_instance_id tr) payload_json (dro_event_hash op)\<rparr>)"

definition moved_directory ::
  "DirectoryRecoveryOperation \<Rightarrow> DirectoryRecoveryTransition \<Rightarrow> string option \<Rightarrow> string option \<Rightarrow>
   DirectoryRecoveryOperation"
where
  "moved_directory op tr managed_object_id last_error_code =
     op\<lparr>dro_state := drt_next_state tr, dro_managed_object_id := managed_object_id,
        dro_last_error_code := last_error_code, dro_event_sequence := dro_event_sequence op + 1,
        dro_event_hash := Some (dre_event_hash (next_directory_event op tr)),
        dro_row_version := dro_row_version op + 1\<rparr>"

definition directory_moved ::
  "string \<Rightarrow> DirectoryRecoveryOperation \<Rightarrow> DirectoryRecoveryOperation \<Rightarrow> directory_event \<Rightarrow> recovery_tables \<Rightarrow> recovery_tables" where
  "directory_moved now op op' e t =
     t\<lparr>directory_operations := sql_update (\<lambda>r. dor_key r = dro_recovery_id op)
          (\<lambda>r. r\<lparr>dor_operation := op', dor_updated_utc := now\<rparr>) (directory_operations t),
       directory_events := directory_events t @ [e]\<rparr>"

lemma next_directory_event_simps [simp]:
  "dre_recovery_id (next_directory_event op tr) = dro_recovery_id op"
  "dre_event_sequence (next_directory_event op tr) = dro_event_sequence op + 1"
  "dre_previous_event_hash (next_directory_event op tr) = dro_event_hash op"
  "dre_from_state (next_directory_event op tr) = Some (dro_state op)"
  "dre_to_state (next_directory_event op tr) = drt_next_state tr"
  "dre_process_instance_id (next_directory_event op tr) = drt_process_instance_id tr"
  "is_hex64 (dre_event_hash (next_directory_event op tr))"
  "directory_event_sealed (next_directory_event op tr)"
  by (simp_all add: next_directory_event_def directory_event_sealed_def Let_def)

lemma path_states_are_no_conflicts:
  assumes "directory_step kind s s'" "s' \<noteq> CONFLICT_STATE_BY_KIND kind"
  shows "\<not> state_in s' DIRECTORY_CONFLICT_STATES"
proof -
  have "list_all (\<lambda>kind. list_all (\<lambda>s. s = CONFLICT_STATE_BY_KIND kind \<or> \<not> state_in s DIRECTORY_CONFLICT_STATES)
      (directory_states_of_kind kind)) directory_kinds"
    by code_simp
  note all_directory_kinds [OF this, of kind]
  then show ?thesis using assms directory_step_states(2) [OF assms(1)] unfolding list_all_iff by blast
qed

text \<open>The row after a validated transition passes the validation and the constraints of the table.\<close>

lemma moved_directory_valid:
  assumes valid: "validate_directory_recovery_operation op = Inr ()" and ok: "directory_row_ok op"
    and seq: "1 \<le> dro_event_sequence op" "1 \<le> dro_row_version op"
    and step: "directory_step (dro_kind op) (dro_state op) (drt_next_state tr)"
    and conflict: "drt_next_state tr = CONFLICT_STATE_BY_KIND (dro_kind op) \<Longrightarrow> \<not> opt_untrimmed (drt_last_error_code tr)"
    and evidence: "normalized_evidence (dro_managed_object_id op) (drt_managed_object_id tr) = Inr managed"
      "normalized_evidence (dro_last_error_code op) (drt_last_error_code tr) = Inr error"
  shows "validate_directory_recovery_operation (moved_directory op tr managed error) = Inr ()"
    "directory_row_ok (moved_directory op tr managed error)"
proof -
  have s': "state_in (drt_next_state tr) (directory_states_of_kind (dro_kind op))"
    using directory_step_states(2) [OF step] by simp
  have error: "drt_next_state tr = CONFLICT_STATE_BY_KIND (dro_kind op) \<Longrightarrow> \<not> opt_untrimmed error"
    using conflict evidence(2) by (auto simp: normalized_evidence_def opt_untrimmed_def split: option.splits if_splits)
  have managed: "managed = Some v \<Longrightarrow> \<not> untrimmed v" for v
    using evidence(1) valid
    by (auto simp: normalized_evidence_def validate_directory_recovery_operation_def split: option.splits if_splits)
  show "validate_directory_recovery_operation (moved_directory op tr managed error) = Inr ()"
    using valid s' error managed seq
    by (auto simp: validate_directory_recovery_operation_def moved_directory_def split: if_splits option.splits)
  have "\<exists>v. error = Some v \<and> sql_trim v \<noteq> []" if "state_in (drt_next_state tr) DIRECTORY_CONFLICT_STATES"
  proof -
    have "drt_next_state tr = CONFLICT_STATE_BY_KIND (dro_kind op)"
      using path_states_are_no_conflicts [OF step] that by blast
    then show ?thesis using error by (auto simp: opt_untrimmed_def sql_trim_nonempty split: option.splits)
  qed
  then show "directory_row_ok (moved_directory op tr managed error)"
    using ok s' seq by (auto simp: directory_row_ok_def moved_directory_def)
qed

lemma directory_row_facts:
  assumes "directory_row_sound t op"
  shows "1 \<le> dro_event_sequence op" "1 \<le> dro_row_version op" "validate_directory_recovery_operation op = Inr ()"
    "directory_row_ok op"
proof -
  have "directory_events_of (dro_recovery_id op) t \<noteq> []"
    using assms by (simp add: directory_row_sound_def directory_history_fits_def)
  then have "1 \<le> length (directory_events_of (dro_recovery_id op) t)" by (cases "directory_events_of (dro_recovery_id op) t") auto
  then show "1 \<le> dro_event_sequence op" "1 \<le> dro_row_version op" "validate_directory_recovery_operation op = Inr ()"
    "directory_row_ok op"
    using assms by (simp_all add: directory_row_sound_def directory_history_fits_def)
qed

lemma directory_row_hash:
  assumes "directory_row_sound t op"
  shows "case dro_event_hash op of None \<Rightarrow> False | Some h \<Rightarrow> is_hex64 h"
  using directory_row_facts(1,4) [OF assms] by (auto simp: directory_row_ok_def split: option.splits)

lemma insert_next_event:
  assumes inv: "directory_inv t" and row: "r \<in> set (directory_operations t)" "dor_operation r = op"
    and process: "\<not> untrimmed (drt_process_instance_id tr)"
  shows "insert_directory_event (next_directory_event op tr) t =
    (Returns (), t\<lparr>directory_events := directory_events t @ [next_directory_event op tr]\<rparr>)"
proof -
  have sound: "directory_row_sound t op" using inv row by (auto simp: directory_inv_def)
  note facts = directory_row_facts [OF sound]
  have chained: "streams_chained dre_recovery_id dre_event_sequence dre_previous_event_hash dre_event_hash 1 (directory_events t)"
    using inv by (simp add: directory_inv_def)
  have "dre_event_sequence e \<noteq> dro_event_sequence op + 1"
    if e: "e \<in> set (directory_events t)" "dre_recovery_id e = dro_recovery_id op" for e
  proof -
    let ?evs = "directory_events_of (dro_recovery_id op) t"
    have n: "numbered_chain dre_event_sequence dre_previous_event_hash dre_event_hash 1 ?evs"
      using chained by (simp add: streams_chained_def directory_events_of_def)
    obtain i where "i < length ?evs" "?evs ! i = e"
      using e by (metis (mono_tags, lifting) directory_events_of_def in_set_conv_nth mem_Collect_eq set_filter)
    then have "dre_event_sequence e = 1 + int i" "int i < int (length ?evs)" using n by (auto simp: numbered_chain_def)
    then show ?thesis using sound by (simp add: directory_row_sound_def directory_history_fits_def)
  qed
  then show ?thesis
    using facts(1) process sql_trim_nonempty [of "drt_process_instance_id tr"] directory_row_hash [OF sound] row
    by (auto simp: insert_directory_event_def list_ex_iff split: option.splits)
qed

lemma directory_moved_inv:
  assumes inv: "directory_inv t" and row: "r \<in> set (directory_operations t)" "dor_operation r = op"
    and process: "\<not> untrimmed (drt_process_instance_id tr)"
    and step: "directory_step (dro_kind op) (dro_state op) (drt_next_state tr)"
    and conflict: "drt_next_state tr = CONFLICT_STATE_BY_KIND (dro_kind op) \<Longrightarrow> \<not> opt_untrimmed (drt_last_error_code tr)"
    and evidence: "normalized_evidence (dro_managed_object_id op) (drt_managed_object_id tr) = Inr managed"
      "normalized_evidence (dro_last_error_code op) (drt_last_error_code tr) = Inr error"
  shows "directory_inv (directory_moved now op (moved_directory op tr managed error) (next_directory_event op tr) t)"
    (is "directory_inv ?t'")
proof -
  let ?e = "next_directory_event op tr" and ?op' = "moved_directory op tr managed error"
  let ?evs = "directory_events_of (dro_recovery_id op) t"
  have sound: "directory_row_sound t op" using inv row by (auto simp: directory_inv_def)
  note facts = directory_row_facts [OF sound]
  note valid = moved_directory_valid [OF facts(3,4,1,2) step conflict evidence]
  have id: "dro_recovery_id ?op' = dro_recovery_id op" "dro_kind ?op' = dro_kind op" by (simp_all add: moved_directory_def)
  have evs: "directory_events_of i ?t' = directory_events_of i t @ (if i = dro_recovery_id op then [?e] else [])" for i
    by (simp add: directory_events_of_def directory_moved_def)
  have fits: "directory_history_fits op ?evs" using sound by (simp add: directory_row_sound_def)
  have "directory_history_fits ?op' (?evs @ [?e])"
  proof -
    let ?h = "map dre_to_state ?evs"
    have h: "?h \<noteq> []" "?h \<in> set (directory_histories (dro_kind op))" "last ?h = dro_state op"
      "map dre_from_state ?evs = None # map Some (butlast ?h)"
      using fits by (auto simp: directory_history_fits_def last_map)
    have "?h @ [drt_next_state tr] \<in> set (directory_histories (dro_kind op))"
      by (rule directory_history_extends [OF h(2)]) (use step h(3) in simp)
    moreover have "map Some (butlast ?h) @ [Some (dro_state op)] = map Some ?h"
      using h(1,3) by (metis append_butlast_last_id list.simps(8,9) map_append)
    ultimately show ?thesis
      using fits h(4) by (simp add: directory_history_fits_def id) (simp add: moved_directory_def)
  qed
  then have new: "directory_row_sound ?t' ?op'" using valid by (simp add: directory_row_sound_def evs id)
  have rows: "directory_row_sound ?t' (dor_operation x)" if x: "x \<in> set (directory_operations ?t')" for x
  proof -
    obtain y where y: "y \<in> set (directory_operations t)"
      "x = (if dor_key y = dro_recovery_id op then y\<lparr>dor_operation := ?op', dor_updated_utc := now\<rparr> else y)"
      using x by (auto simp: directory_moved_def sql_update_def)
    then show ?thesis
      using new inv by (auto simp: directory_inv_def directory_row_sound_def evs dor_key_def)
  qed
  have keys: "map dor_key (directory_operations ?t') = map dor_key (directory_operations t)"
    by (auto simp: directory_moved_def sql_update_def dor_key_def id)
  have "directory_event_recorded (directory_events t) ?e"
    unfolding directory_event_recorded_def
    using insert_next_event [OF inv row process] sound inv
    by (intro exI [of _ t] conjI disjI2 exI [of _ op]) (simp_all add: directory_inv_def)
  then have log: "streams_chained dre_recovery_id dre_event_sequence dre_previous_event_hash dre_event_hash 1
      (directory_events t @ [?e])"
    using inv by (intro directory_log.records_extends) (simp_all add: directory_inv_def)
  have "\<forall>x \<in> set (directory_events ?t'). directory_event_sealed x
      \<and> dre_recovery_id x \<in> dor_key ` set (directory_operations ?t')"
  proof
    fix x assume "x \<in> set (directory_events ?t')"
    then have "directory_event_sealed x \<and> dre_recovery_id x \<in> set (map dor_key (directory_operations t))"
      using inv row by (auto simp: directory_inv_def directory_moved_def dor_key_def)
    then show "directory_event_sealed x \<and> dre_recovery_id x \<in> dor_key ` set (directory_operations ?t')"
      using keys by (metis image_set)
  qed
  moreover have "directory_events ?t' = directory_events t @ [?e]" by (simp add: directory_moved_def)
  moreover have "distinct (map dor_key (directory_operations ?t'))" using keys inv by (simp add: directory_inv_def)
  ultimately show ?thesis using log rows unfolding directory_inv_def by simp
qed

text \<open>A transition is written with its event or nothing is.\<close>

lemma apply_directory_effect:
  assumes inv: "directory_inv t" and row: "r \<in> set (directory_operations t)" "dor_operation r = op"
  shows "(\<exists>e. apply_directory_transition now op tr t = (Raises e, t))
    \<or> (\<exists>managed error. validate_directory_recovery_transition op tr = Inr ()
         \<and> normalized_evidence (dro_managed_object_id op) (drt_managed_object_id tr) = Inr managed
         \<and> normalized_evidence (dro_last_error_code op) (drt_last_error_code tr) = Inr error
         \<and> apply_directory_transition now op tr t = (Returns (moved_directory op tr managed error),
             directory_moved now op (moved_directory op tr managed error) (next_directory_event op tr) t))"
proof (cases "validate_directory_recovery_transition op tr")
  case (Inl e)
  then show ?thesis by (simp add: apply_directory_transition_def work_then_check raising_def)
next
  case valid: (Inr u)
  have sound: "directory_row_sound t op" using inv row by (auto simp: directory_inv_def)
  have "validate_directory_recovery_transition op tr = Inr ()" using valid by simp
  note v = this [unfolded validated_directory_transition [OF directory_row_state [OF sound]]]
  show ?thesis
  proof (cases "normalized_evidence (dro_managed_object_id op) (drt_managed_object_id tr)")
    case (Inl e)
    then show ?thesis using valid by (simp add: apply_directory_transition_def work_then_check raising_def)
  next
    case managed: (Inr managed)
    show ?thesis
    proof (cases "normalized_evidence (dro_last_error_code op) (drt_last_error_code tr)")
      case (Inl e)
      then show ?thesis using valid managed by (simp add: apply_directory_transition_def work_then_check raising_def)
    next
      case error: (Inr error)
      let ?e = "next_directory_event op tr" and ?op' = "moved_directory op tr managed error"
      let ?t' = "directory_moved now op ?op' ?e t"
      let ?p = "\<lambda>x. dro_recovery_id x = dro_recovery_id op
              \<and> directory_state_value (dro_state x) = directory_state_value (dro_state op)
              \<and> dro_event_sequence x = dro_event_sequence op \<and> dro_row_version x = dro_row_version op"
      let ?f = "\<lambda>x. x\<lparr>dor_operation := (dor_operation x)\<lparr>dro_state := drt_next_state tr,
                dro_managed_object_id := managed, dro_last_error_code := error,
                dro_event_sequence := dro_event_sequence op + 1, dro_event_hash := Some (dre_event_hash ?e),
                dro_row_version := dro_row_version (dor_operation x) + 1\<rparr>, dor_updated_utc := now\<rparr>"
      let ?t1 = "t\<lparr>directory_events := directory_events t @ [?e]\<rparr>"
      have process: "\<not> untrimmed (drt_process_instance_id tr)"
        and step: "directory_step (dro_kind op) (dro_state op) (drt_next_state tr)"
        and conflict: "drt_next_state tr = CONFLICT_STATE_BY_KIND (dro_kind op) \<Longrightarrow> \<not> opt_untrimmed (drt_last_error_code tr)"
        using v by auto
      note inv' = directory_moved_inv [OF inv row process step conflict managed error, of now]
      note ok = moved_directory_valid(2) [OF directory_row_facts(3,4,1,2) [OF sound] step conflict managed error]
      have d: "distinct (map dor_key (directory_operations t))" using inv by (simp add: directory_inv_def)
      have only: "x = r" if "x \<in> set (directory_operations t)" "dor_key x = dro_recovery_id op" for x
        by (rule distinct_key_eq [OF d]) (use that row in \<open>simp_all add: dor_key_def\<close>)
      have upd: "update_directory_operations ?p ?f ?t1 = (Returns 1, ?t')"
      proof -
        have "sql_update (\<lambda>x. ?p (dor_operation x)) ?f (directory_operations t) =
            sql_update (\<lambda>x. dor_key x = dro_recovery_id op) (\<lambda>x. x\<lparr>dor_operation := ?op', dor_updated_utc := now\<rparr>)
              (directory_operations t)"
          unfolding sql_update_def
        proof (rule map_cong [OF refl])
          fix x assume x: "x \<in> set (directory_operations t)"
          show "(if ?p (dor_operation x) then ?f x else x) =
              (if dor_key x = dro_recovery_id op then x\<lparr>dor_operation := ?op', dor_updated_utc := now\<rparr> else x)"
          proof (cases "dor_key x = dro_recovery_id op")
            case True
            then have "x = r" by (rule only [OF x])
            then show ?thesis using row by (simp add: dor_key_def moved_directory_def)
          next
            case False
            then show ?thesis by (simp add: dor_key_def)
          qed
        qed
        moreover have "sql_count (\<lambda>x. ?p (dor_operation x)) (directory_operations t) = 1"
          by (rule sql_count_key [THEN iffD2, OF d, of _ "dro_recovery_id op"]) (use row in \<open>auto simp: dor_key_def\<close>)
        moreover have "directory_row_ok (dor_operation (?f x))
           \<and> directory_state_monotone (dro_state (dor_operation x)) (dro_state (dor_operation (?f x)))"
          if x: "x \<in> set (directory_operations t)" "?p (dor_operation x)" for x
        proof -
          have "x = r" using only [OF x(1)] x(2) by (simp add: dor_key_def)
          moreover have "directory_state_monotone (dro_state op) (drt_next_state tr)"
            using trigger_admits_steps [OF directory_step_states [OF step]] step by simp
          ultimately show ?thesis using ok row by (simp add: moved_directory_def)
        qed
        ultimately show ?thesis
          by (simp add: update_directory_operations_def directory_moved_def Let_def list_all_iff)
      qed
      have read: "load_recorded_directory_operation (dro_recovery_id op) ?t' = (Returns ?op', ?t')"
      proof -
        have "List.find (\<lambda>x. dor_key x = dro_recovery_id op) (directory_operations ?t') \<noteq> None"
        proof -
          have "r\<lparr>dor_operation := ?op', dor_updated_utc := now\<rparr> \<in> set (directory_operations ?t')"
            using row by (auto simp: directory_moved_def sql_update_def dor_key_def)
          moreover have "dor_key (r\<lparr>dor_operation := ?op', dor_updated_utc := now\<rparr>) = dro_recovery_id op"
            by (simp add: dor_key_def moved_directory_def)
          ultimately show ?thesis unfolding find_None_iff' by blast
        qed
        then obtain x where x: "List.find (\<lambda>x. dor_key x = dro_recovery_id op) (directory_operations ?t') = Some x"
          by blast
        then have "x \<in> set (directory_operations ?t')" "dor_key x = dro_recovery_id op" using find_Some_iff' by fastforce+
        then have "dor_operation x = ?op'"
          by (auto simp: directory_moved_def sql_update_def dor_key_def split: if_splits)
        then show ?thesis
          using x load_directory_operation [OF inv'] by (simp add: load_recorded_directory_operation_def work_check_def)
      qed
      have "apply_directory_transition now op tr t = (Returns ?op', ?t')"
        using valid managed error insert_next_event [OF inv row process] upd read
        by (simp add: apply_directory_transition_def work_then_check work_then_returns next_directory_event_def raising_def Let_def)
      then show ?thesis using valid managed error by auto
    qed
  qed
qed

section \<open>The work keeps the journal\<close>

lemma record_directory_keeps:
  assumes "record_directory_precheck op process_instance_id = Inr ()"
  shows "work_keeps directory_inv (record_directory_work now op process_instance_id payload)"
proof (rule work_keepsI)
  fix t assume inv: "directory_inv t"
  show "directory_inv (snd (record_directory_work now op process_instance_id payload t))"
    using record_directory_effect [OF inv assms, of now payload] directory_planned_inv [OF inv assms] inv by auto
qed

lemma transition_directory_keeps: "work_keeps directory_inv (transition_directory_work now tr)"
proof (rule work_keepsI)
  fix t assume inv: "directory_inv t"
  let ?find = "List.find (\<lambda>r. dor_key r = drt_recovery_id tr) (directory_operations t)"
  show "directory_inv (snd (transition_directory_work now tr t))"
  proof (cases ?find)
    case None
    then show ?thesis using inv by (simp add: transition_directory_work_def work_then_check load_directory_operation)
  next
    case (Some r)
    then have r: "r \<in> set (directory_operations t)" using find_Some_iff' by fastforce
    let ?op = "dor_operation r"
    have sound: "directory_row_sound t ?op" using inv r by (simp add: directory_inv_def)
    have "directory_inv (snd (apply_directory_transition now ?op tr t))"
      using apply_directory_effect [OF inv r refl, of now tr]
    proof (elim disjE exE conjE)
      fix managed error
      assume "validate_directory_recovery_transition ?op tr = Inr ()"
        and ev: "normalized_evidence (dro_managed_object_id ?op) (drt_managed_object_id tr) = Inr managed"
          "normalized_evidence (dro_last_error_code ?op) (drt_last_error_code tr) = Inr error"
        and w: "apply_directory_transition now ?op tr t = (Returns (moved_directory ?op tr managed error),
             directory_moved now ?op (moved_directory ?op tr managed error) (next_directory_event ?op tr) t)"
      then show ?thesis
        using directory_moved_inv [OF inv r refl _ _ _ ev, of now]
        unfolding validated_directory_transition [OF directory_row_state [OF sound]] by simp
    qed (use inv in simp)
    then show ?thesis
      using inv Some by (auto simp: transition_directory_work_def work_then_check load_directory_operation split: sum.split)
  qed
qed

lemma directory_glue_keeps_directories:
  "work_keeps directory_inv (record_directory_recovery_if_applicable now ds op process_instance_id)"
  "work_keeps directory_inv (record_directory_catalog_terminal now ds op process_instance_id pl)"
proof -
  have gated: "work_keeps directory_inv (work_then (work_check (\<lambda>_. record_directory_precheck planned process_instance_id)) (\<lambda>_.
      work_then (nested h (record_directory_work now planned process_instance_id payload)) (\<lambda>_. work_return ())))"
    for planned h payload
  proof (cases "record_directory_precheck planned process_instance_id")
    case (Inl e)
    then show ?thesis by (auto simp: work_keeps_def work_then_check)
  next
    case (Inr u)
    then have "work_keeps directory_inv (record_directory_work now planned process_instance_id payload)"
      by (intro record_directory_keeps) simp
    then show ?thesis by (intro work_rules)
  qed
  show "work_keeps directory_inv (record_directory_recovery_if_applicable now ds op process_instance_id)"
    unfolding record_directory_recovery_if_applicable_def Let_def by (intro work_rules gated)
  show "work_keeps directory_inv (record_directory_catalog_terminal now ds op process_instance_id pl)"
    unfolding record_directory_catalog_terminal_def Let_def by (intro work_rules transition_directory_keeps)
qed

end
