(* ===== verification/Recovery_Steps.thy ===== *)
theory Recovery_Steps
  imports Directory_Changes
begin

text \<open>
  The recovery database as a transition system.  A state is the connection with the retry deadlines held in
  memory.  A call is an operation of one of the four stores; it has any arguments, inside a transaction that
  another part of the program has begun or on its own; that part commits or rolls back at any time; a restart
  of the process loses what is not committed, and the deadlines.  The only assumption on the callers is that
  an operation is planned without a place in an intent segment and without a catalog handoff, which is what
  \<open>planned_recovery_operation\<close> builds.
\<close>

definition unbound_operation :: "RecoveryOperation \<Rightarrow> bool" where
  "unbound_operation op \<longleftrightarrow> rop_intent_segment_id op = None \<and> rop_catalog_handoff_id op = None"

lemma planned_operation_is_unbound:
  assumes "planned_recovery_operation run_id run_target_id operation_id target_endpoint_id target_endpoint_revision_id
       endpoint_generation owner_installation_id ownership_epoch lease_id lease_resource_key
       fencing_token final_relative_path target_precondition_kind operation_kind plan_sequence_no
       planned_bytes job_id job_revision_id retention_policy source_endpoint_id
       source_endpoint_revision_id source_relative_path source_precondition_json = Inr op"
  shows "unbound_operation op" "rop_phase op = PLANNED" "validate_recovery_operation op = Inr ()"
  using assms by (auto simp: planned_recovery_operation_def unbound_operation_def Let_def)

inductive recovery_call :: "recovery_state \<Rightarrow> recovery_state \<Rightarrow> bool" where
  allocates_token: "recovery_call (c, dl) (snd (allocate_next_fencing_token now resource_key epoch c), dl)"
| registers_lease: "recovery_call (c, dl) (snd (register_acquired_resource_lease now request c), dl)"
| releases_lease: "recovery_call (c, dl) (snd (release_resource_lease now lease_id c), dl)"
| reconciles_lease: "recovery_call (c, dl)
    (snd (reconcile_stale_active_resource_lease_after_lock_acquired now resource_key endpoint_id c), dl)"
| publishes_segment: "recovery_call (c, dl) (snd (publish_intent_segment now segment c), dl)"
| imports_segment: "recovery_call (c, dl) (snd (import_intent_segment now segment c), dl)"
| finalizes_segment: "recovery_call (c, dl) (snd (finalize_missing_terminal_intent_segment now segment_id c), dl)"
| moves_segment: "recovery_call (c, dl)
    (snd (transition_intent_segment_state now segment_id expected_state next_state c), dl)"
| plans_directory: "recovery_call (c, dl)
    (snd (record_directory_recovery_operation now dop process_instance_id dpayload c), dl)"
| moves_directory: "recovery_call (c, dl) (snd (transition_directory_recovery_operation now transition c), dl)"
| plans_operation: "unbound_operation op \<Longrightarrow>
    recovery_call (c, dl) (snd (record_planned_operation now ds op process_instance_id payload c), dl)"
| moves_operation: "recovery_call s (snd (record_operation_phase_transition now ds q s))"
| fails_staging: "recovery_call s (snd (record_staging_failure now clock failure s))"
| rebinds_lease: "recovery_call (c, dl) (snd (record_operation_lease_rebound now change phase c), dl)"
| refreshes_intent: "recovery_call (c, dl) (snd (record_commit_intent_refreshed now change segment_id ordinal c), dl)"
| refreshes_preserved_intent: "recovery_call (c, dl)
    (snd (record_old_target_preserved_commit_intent_refreshed now change segment_id ordinal c), dl)"
| asks_retry: "staging_retry_is_due clock op dl = Inr (due, dl') \<Longrightarrow> recovery_call (c, dl) (c, dl')"

inductive_cases recovery_callE: "recovery_call s s'"

inductive recovery_step :: "recovery_state \<Rightarrow> recovery_state \<Rightarrow> bool" where
  store_called: "recovery_call s s' \<Longrightarrow> recovery_step s s'"
| caller_begins: "\<not> in_transaction c \<Longrightarrow> recovery_step (c, dl) (begin_immediate c, dl)"
| caller_commits: "in_transaction c \<Longrightarrow> recovery_step (c, dl) (commit c, dl)"
| caller_rolls_back: "recovery_step (c, dl) (rollback c, dl)"
| process_restarts: "recovery_step (c, dl) (rollback c, Map.empty)"

inductive_cases recovery_stepE: "recovery_step s s'"

inductive recovery_reachable :: "recovery_state \<Rightarrow> bool" where
  recovery_init: "recovery_reachable (\<lparr>rc_tables = empty_recovery_tables, rc_begun = None\<rparr>, Map.empty)"
| recovery_next: "recovery_reachable s \<Longrightarrow> recovery_step s s' \<Longrightarrow> recovery_reachable s'"

section \<open>The invariant\<close>

definition recovery_inv :: "recovery_tables \<Rightarrow> bool" where
  "recovery_inv t \<longleftrightarrow> journal_inv t \<and> directory_inv t \<and> segment_inv t \<and> lease_inv t \<and> rows_admitted t"

lemma work_keeps_recovery:
  "work_keeps journal_inv m \<Longrightarrow> work_keeps directory_inv m \<Longrightarrow> work_keeps segment_inv m \<Longrightarrow> work_keeps lease_inv m \<Longrightarrow>
    work_keeps rows_admitted m \<Longrightarrow> work_keeps recovery_inv m"
  by (simp add: work_keeps_def recovery_inv_def)

lemma recovery_inv_empty: "recovery_inv empty_recovery_tables"
  by (simp add: recovery_inv_def journal_inv_def directory_inv_def segment_inv_def segments_def lease_inv_def
      rows_admitted_def intent_places_unique_def List.map_filter_def
      leases_sound_def resource_history_def empty_recovery_tables_def)

lemmas lease_frames =
  lease_work_frame [OF journal_inv_ignores_leases] lease_work_frame [OF directory_inv_ignores(1)]
  lease_work_frame [OF segment_inv_ignores(1)] lease_work_frame [OF rows_admitted_ignores(1)]

lemmas segment_frames =
  segment_work_frame [OF directory_inv_ignores(2)] segment_work_frame [OF lease_inv_ignores(2)]
  segment_work_frame [OF rows_admitted_ignores(2)]

lemmas directory_frames =
  directory_work_keeps [OF journal_inv_ignores] directory_work_keeps [OF segment_inv_ignores(3)]
  directory_work_keeps [OF lease_inv_ignores(1)] directory_work_keeps [OF rows_admitted_ignores(3)]

lemmas operation_frames =
  journal_work_frame [OF directory_inv_ignores(3) directory_glue_keeps_directories]
  journal_work_frame [OF segment_inv_ignores(2) directory_glue_keeps(1,2) [OF segment_inv_ignores(3)]]
  journal_work_frame [OF lease_inv_ignores(3) directory_glue_keeps(1,2) [OF lease_inv_ignores(1)]]
  journal_works_keep_rows

lemma lease_works_keep:
  "1 \<le> epoch \<Longrightarrow> work_keeps recovery_inv (allocate_token now k epoch)"
  "validate_resource_lease_request request \<Longrightarrow> work_keeps recovery_inv (register_work now request)"
  "work_keeps recovery_inv (release_work now lease_id)"
  "work_keeps recovery_inv (reconcile_work now k endpoint_id)"
  by (intro work_keeps_recovery lease_frames allocate_keeps register_keeps release_keeps reconcile_keeps; assumption)+

lemma segment_works_keep:
  "validate_recovery_intent_segment s = Inr () \<Longrightarrow> work_keeps recovery_inv (record_segment_work require_lease now s)"
  "work_keeps recovery_inv (finalize_missing_work now segment_id)"
  "work_keeps recovery_inv (transition_segment_work now segment_id expected_state next_state)"
  by (intro work_keeps_recovery segment_frames segment_works_keep_journal segment_works_keep_chain; assumption)+

lemma directory_works_keep:
  "record_directory_precheck op process_instance_id = Inr () \<Longrightarrow>
    work_keeps recovery_inv (record_directory_work now op process_instance_id payload)"
  "work_keeps recovery_inv (transition_directory_work now transition)"
  by (intro work_keeps_recovery directory_frames record_directory_keeps transition_directory_keeps; assumption)+

lemma operation_works_keep:
  "validate_recovery_operation op = Inr () \<Longrightarrow> rop_phase op = PLANNED \<Longrightarrow> unbound_operation op \<Longrightarrow>
    work_keeps recovery_inv (record_planned_work now ds op process_instance_id payload)"
  "validate_recovery_phase_transition (pt_expected_phase q) (pt_next_phase q) = Inr () \<Longrightarrow>
    work_keeps recovery_inv (phase_transition_work now ds q)"
  "validate_staging_failure failure = Inr () \<Longrightarrow> work_keeps recovery_inv (staging_failure_work now clock failure)"
  "phase \<in> set PRE_COMMIT_LEASE_REBIND_PHASES \<Longrightarrow> work_keeps recovery_inv (lease_change_work now change phase None)"
  "phase \<in> {COMMIT_INTENT_RECORDED, OLD_TARGET_PRESERVED} \<Longrightarrow>
    work_keeps recovery_inv (lease_change_work now change phase (Some place))"
proof -
  show "work_keeps recovery_inv (record_planned_work now ds op process_instance_id payload)"
    if "validate_recovery_operation op = Inr ()" "rop_phase op = PLANNED" "unbound_operation op"
    by (intro work_keeps_recovery operation_frames record_planned_keeps) (use that in \<open>auto simp: unbound_operation_def\<close>)
  show "work_keeps recovery_inv (phase_transition_work now ds q)"
    if "validate_recovery_phase_transition (pt_expected_phase q) (pt_next_phase q) = Inr ()"
    by (intro work_keeps_recovery operation_frames phase_transition_keeps that)
  show "work_keeps recovery_inv (staging_failure_work now clock failure)" if "validate_staging_failure failure = Inr ()"
    by (intro work_keeps_recovery operation_frames staging_failure_keeps that)
  show "work_keeps recovery_inv (lease_change_work now change phase None)" if "phase \<in> set PRE_COMMIT_LEASE_REBIND_PHASES"
    by (intro work_keeps_recovery operation_frames lease_change_keeps) (use that in auto)
  show "work_keeps recovery_inv (lease_change_work now change phase (Some place))"
    if "phase \<in> {COMMIT_INTENT_RECORDED, OLD_TARGET_PRESERVED}"
    by (intro work_keeps_recovery operation_frames lease_change_keeps) (use that in auto)
qed

text \<open>The connection of the three operations that also change the deadlines.\<close>

lemma phase_transition_connection:
  "fst (snd (record_operation_phase_transition now ds q (c, dl))) =
     (case and_then (validate_process_instance_id (pt_process_instance_id q))
         (\<lambda>_. raising Operation_Violation (validate_recovery_phase_transition (pt_expected_phase q) (pt_next_phase q))) of
        Inl e \<Rightarrow> c
      | Inr _ \<Rightarrow> snd (transaction recovery_handlers (phase_transition_work now ds q) c))"
  by (auto simp: record_operation_phase_transition_def raising_def split: sum.split option.split prod.split)

lemma staging_failure_connection:
  "fst (snd (record_staging_failure now clock failure (c, dl))) =
     (case validate_staging_failure failure of
        Inl e \<Rightarrow> c
      | Inr _ \<Rightarrow> snd (transaction staging_failure_handlers (staging_failure_work now clock failure) c))"
  by (auto simp: record_staging_failure_def split: sum.split option.split prod.split)

lemmas store_operation_defs =
  allocate_next_fencing_token_def register_acquired_resource_lease_def release_resource_lease_def
  reconcile_stale_active_resource_lease_after_lock_acquired_def publish_intent_segment_def import_intent_segment_def
  finalize_missing_terminal_intent_segment_def transition_intent_segment_state_def
  record_directory_recovery_operation_def transition_directory_recovery_operation_def record_planned_operation_def
  record_operation_lease_rebound_def record_commit_intent_refreshed_def
  record_old_target_preserved_commit_intent_refreshed_def

lemma recovery_call_keeps:
  assumes "recovery_call s s'" "connection_inv recovery_inv (fst s)"
  shows "connection_inv recovery_inv (fst s')"
  using assms
proof (induction rule: recovery_call.induct)
  case (moves_operation s now ds q)
  then show ?case
    by (cases s) (auto simp: phase_transition_connection intro!: transaction_keeps operation_works_keep split: sum.split)
next
  case (fails_staging s now clock failure)
  then show ?case
    by (cases s) (auto simp: staging_failure_connection intro!: transaction_keeps operation_works_keep split: sum.split)
qed (auto simp: store_operation_defs
    intro!: transaction_keeps lease_works_keep segment_works_keep directory_works_keep operation_works_keep
    split: sum.split)

lemma recovery_step_keeps:
  assumes "recovery_step s s'" "connection_inv recovery_inv (fst s)"
  shows "connection_inv recovery_inv (fst s')"
  using assms by (induction rule: recovery_step.induct) (auto dest: recovery_call_keeps)

text \<open>Inside a transaction of a caller no store operation ends it.\<close>

lemma recovery_call_in_transaction:
  assumes "recovery_call s s'" "in_transaction (fst s)"
  shows "rc_begun (fst s') = rc_begun (fst s)"
  using assms
proof (induction rule: recovery_call.induct)
  case (moves_operation s now ds q)
  then show ?case
    by (cases s) (auto simp: phase_transition_connection transaction_in_outer split: sum.split)
next
  case (fails_staging s now clock failure)
  then show ?case
    by (cases s) (auto simp: staging_failure_connection transaction_in_outer split: sum.split)
qed (auto simp: store_operation_defs transaction_in_outer split: sum.split)

lemma recovery_reachable_inv:
  assumes "recovery_reachable s"
  shows "recovery_inv (rc_tables (fst s))"
proof -
  have "connection_inv recovery_inv (fst s)"
    using assms
  proof induction
    case recovery_init
    then show ?case by (simp add: connection_inv_def recovery_inv_empty)
  next
    case (recovery_next s s')
    then show ?case using recovery_step_keeps by blast
  qed
  then show ?thesis by (simp add: connection_inv_def)
qed

end
