(* ===== verification/Recovery_Safety.thy ===== *)
theory Recovery_Safety
  imports Recovery_Steps "HOL-Library.Sublist"
begin

text \<open>
  What the invariant of the recovery database gives: the phases an operation has gone through, the leases its
  changes were made under, and what becomes of a transaction that an unexpected exception leaves open.
\<close>

section \<open>The order of phases\<close>

text \<open>The phases that come before a phase in every case; \<open>OLD_TARGET_PRESERVED\<close> is optional.\<close>

definition phases_before :: "RecoveryOperationPhase \<Rightarrow> RecoveryOperationPhase list" where
  "phases_before p =
     takeWhile (\<lambda>x. x \<noteq> (if p = OLD_TARGET_PRESERVED then FILESYSTEM_APPLIED else p)) RECOVERY_OPERATION_LINEAR_SUCCESS_PATH"

lemma legal_step_extends_path:
  assumes "legal_step (Some q) p" "p \<in> set (OLD_TARGET_PRESERVED # RECOVERY_OPERATION_LINEAR_SUCCESS_PATH)"
  shows "p = q \<or> q \<in> set (OLD_TARGET_PRESERVED # RECOVERY_OPERATION_LINEAR_SUCCESS_PATH)
     \<and> (phases_before p = phases_before q @ [q] \<or> phases_before p = phases_before q)"
proof -
  have "list_all (\<lambda>q. list_all (\<lambda>p. legal_step (Some q) p \<longrightarrow>
      p = q \<or> q \<in> set (OLD_TARGET_PRESERVED # RECOVERY_OPERATION_LINEAR_SUCCESS_PATH)
        \<and> (phases_before p = phases_before q @ [q] \<or> phases_before p = phases_before q))
      (OLD_TARGET_PRESERVED # RECOVERY_OPERATION_LINEAR_SUCCESS_PATH)) RECOVERY_OPERATION_PHASES"
    by code_simp
  then show ?thesis using assms phases_complete unfolding list_all_iff by blast
qed

lemma replay_follows_path:
  assumes "replay evs = Some (Some p)" "p \<in> set (OLD_TARGET_PRESERVED # RECOVERY_OPERATION_LINEAR_SUCCESS_PATH)"
  shows "subseq (phases_before p @ [p]) (map rev_to_phase evs)"
  using assms
proof (induction evs arbitrary: p rule: rev_induct)
  case (snoc e evs)
  obtain from_phase where f: "replay evs = Some from_phase" "rev_from_phase e = from_phase" "legal_step from_phase p"
    "rev_to_phase e = p"
    using snoc.prems(1) by (auto simp: replay_step_def split: option.splits if_splits)
  show ?case
  proof (cases from_phase)
    case None
    then have "p = PLANNED" using f(3) by (simp add: legal_step_def)
    then have "phases_before p = []" by (simp add: phases_before_def RECOVERY_OPERATION_LINEAR_SUCCESS_PATH_def)
    then show ?thesis using f(4) by (simp add: list_emb_append2)
  next
    case (Some q)
    from legal_step_extends_path [OF f(3) [unfolded Some] snoc.prems(2)]
    show ?thesis
    proof
      assume "p = q"
      then have "subseq (phases_before p @ [p]) (map rev_to_phase evs)" using snoc.IH [of p] f(1) Some snoc.prems(2) by simp
      then show ?thesis by (simp add: subseq_rev_drop_many)
    next
      assume q: "q \<in> set (OLD_TARGET_PRESERVED # RECOVERY_OPERATION_LINEAR_SUCCESS_PATH)
        \<and> (phases_before p = phases_before q @ [q] \<or> phases_before p = phases_before q)"
      then have IH: "subseq (phases_before q @ [q]) (map rev_to_phase evs)" using snoc.IH [of q] f(1) Some by simp
      then have "subseq (phases_before q) (map rev_to_phase evs)" by (metis subseq_order.trans subseq_rev_drop_many subseq_order.refl)
      then have "subseq (phases_before p) (map rev_to_phase evs)" using q IH by auto
      then show ?thesis using f(4) by (simp add: list_emb_append_mono)
    qed
  qed
qed simp

section \<open>Fences\<close>

text \<open>A row that work writes is bound to a lease that is held.\<close>

definition work_fenced :: "'a work \<Rightarrow> bool" where
  "work_fenced m \<longleftrightarrow>
     (\<forall>t. recovery_inv t \<longrightarrow> (\<forall>r \<in> set (recovery_operations (snd (m t))).
        r \<in> set (recovery_operations t)
        \<or> require_active_matching_lease (ror_operation r) (snd (m t)) = Inr ()))"

lemma work_fenced_if_unchanged:
  assumes "\<And>rows. work_keeps (\<lambda>t. recovery_operations t = rows) m"
  shows "work_fenced m"
  unfolding work_fenced_def
proof (intro allI impI ballI disjI1)
  fix t r assume "r \<in> set (recovery_operations (snd (m t)))"
  moreover have "recovery_operations (snd (m t)) = recovery_operations t" by (rule work_keepsD [OF assms]) simp
  ultimately show "r \<in> set (recovery_operations t)" by simp
qed

lemma operations_frame [simp]:
  "ignores_leases (\<lambda>t. recovery_operations t = rows)" "ignores_segments (\<lambda>t. recovery_operations t = rows)"
  "ignores_directories (\<lambda>t. recovery_operations t = rows)"
  by (simp_all add: ignores_leases_def ignores_segments_def ignores_directories_def)

lemma leases_and_rows_frame:
  "ignores_directories (\<lambda>t. resource_leases t = leases \<and> recovery_operations t = rows)"
  by (simp add: ignores_directories_def)

lemma other_works_fenced:
  "work_fenced (allocate_token now k epoch)" "work_fenced (register_work now request)"
  "work_fenced (release_work now lease_id)" "work_fenced (reconcile_work now k endpoint_id)"
  "work_fenced (record_segment_work require_lease now s)" "work_fenced (finalize_missing_work now segment_id)"
  "work_fenced (transition_segment_work now segment_id expected_state next_state)"
  "work_fenced (record_directory_work now dop process_instance_id dpayload)"
  "work_fenced (transition_directory_work now transition)"
  by (rule work_fenced_if_unchanged, (rule lease_work_frame segment_work_frame directory_work_keeps), simp)+

lemma require_lease_cong:
  assumes "resource_leases t' = resource_leases t"
  shows "require_active_matching_lease op t' = require_active_matching_lease op t"
  using assms by (simp add: require_active_matching_lease_def)

lemma change_operation_fenced:
  assumes "require_active_matching_lease op t = Inr ()"
    and t': "resource_leases t' = resource_leases t"
      "recovery_operations t' = recovery_operations (change_operation now from_phase op process_instance_id payload t)"
    and r: "r \<in> set (recovery_operations t')"
  shows "r \<in> set (recovery_operations t) \<or> require_active_matching_lease (ror_operation r) t' = Inr ()"
proof -
  have "r \<in> set (with_operation now op (recovery_operations t))"
    using r t'(2) by (simp add: change_operation_def Let_def)
  then have "r \<in> set (recovery_operations t) \<or> ror_operation r = op"
    by (auto simp: with_operation_rows split: if_splits)
  then show ?thesis using assms(1) require_lease_cong [OF t'(1)] by auto
qed

lemma change_operation_leases [simp]:
  "resource_leases (change_operation now from_phase op process_instance_id payload t) = resource_leases t"
  by (simp add: change_operation_def Let_def)

lemma tail_keeps_leases_and_rows:
  assumes "ignores_directories (\<lambda>x. resource_leases x = resource_leases t \<and> recovery_operations x = recovery_operations t) \<Longrightarrow>
    work_keeps (\<lambda>x. resource_leases x = resource_leases t \<and> recovery_operations x = recovery_operations t) m"
  shows "resource_leases (snd (m t)) = resource_leases t" "recovery_operations (snd (m t)) = recovery_operations t"
  using work_keepsD [OF assms [OF leases_and_rows_frame], of t] by simp_all

lemma phase_transition_fenced: "work_fenced (phase_transition_work now ds q)"
  unfolding work_fenced_def
proof (intro allI impI ballI)
  fix t r
  assume inv: "recovery_inv t" and r: "r \<in> set (recovery_operations (snd (phase_transition_work now ds q t)))"
  then have "journal_inv t" by (simp add: recovery_inv_def)
  from phase_transition_effect [OF this, of now ds q]
  show "r \<in> set (recovery_operations t)
      \<or> require_active_matching_lease (ror_operation r) (snd (phase_transition_work now ds q t)) = Inr ()"
  proof (elim disjE exE conjE)
    fix x u
    assume rec: "transition_recorded now q t x u"
      and w: "phase_transition_work now ds q t = transition_tail now ds q u
        (change_operation now (pt_expected_phase q) u (pt_process_instance_id q) (pt_payload q) t)"
    note tail = tail_keeps_leases_and_rows [OF transition_tail_keeps,
        of "change_operation now (pt_expected_phase q) u (pt_process_instance_id q) (pt_payload q) t" now ds q u]
    show ?thesis
      by (rule change_operation_fenced [OF _ _ _ r]) (use rec tail w in \<open>auto simp: transition_recorded_def\<close>)
  qed (use r in auto)
qed

lemma load_recorded_keeps_all: "snd (load_recorded_operation run_id operation_id t) = t"
  by (auto simp: load_recorded_operation_def work_check_def split: sum.split)

lemma lease_change_fenced: "work_fenced (lease_change_work now change phase intent)"
  unfolding work_fenced_def
proof (intro allI impI ballI)
  fix t r
  assume inv: "recovery_inv t" and r: "r \<in> set (recovery_operations (snd (lease_change_work now change phase intent t)))"
  then have "journal_inv t" by (simp add: recovery_inv_def)
  from lease_change_effect [OF this, of now change phase intent]
  show "r \<in> set (recovery_operations t)
      \<or> require_active_matching_lease (ror_operation r) (snd (lease_change_work now change phase intent t)) = Inr ()"
  proof (elim disjE exE conjE)
    fix x
    assume rec: "lease_change_recorded change phase intent t x"
      and w: "lease_change_work now change phase intent t =
        load_recorded_operation (lch_run_id change) (lch_operation_id change)
          (change_operation now phase (leased_operation change intent (ror_operation x)) (lch_process_instance_id change)
            (lch_payload change) t)"
    show ?thesis
      by (rule change_operation_fenced [OF _ _ _ r])
        (use rec in \<open>auto simp: w load_recorded_keeps_all lease_change_recorded_def\<close>)
  qed (use r in auto)
qed

lemma staging_failure_fenced: "work_fenced (staging_failure_work now clock failure)"
  unfolding work_fenced_def
proof (intro allI impI ballI)
  fix t r
  assume inv: "recovery_inv t" and r: "r \<in> set (recovery_operations (snd (staging_failure_work now clock failure t)))"
  then have "journal_inv t" by (simp add: recovery_inv_def)
  from staging_failure_effect [OF this, of now clock failure]
  show "r \<in> set (recovery_operations t)
      \<or> require_active_matching_lease (ror_operation r) (snd (staging_failure_work now clock failure t)) = Inr ()"
  proof (elim disjE exE conjE)
    fix x timing payload
    assume rec: "failure_recorded clock failure t x timing"
      and w: "staging_failure_work now clock failure t =
        work_then (load_recorded_operation (sf_run_id failure) (sf_operation_id failure)) (\<lambda>recorded. work_return (recorded, timing))
          (change_operation now (sf_expected_phase failure) (failed_operation failure timing (ror_operation x))
            (sf_process_instance_id failure) payload t)"
    let ?t' = "change_operation now (sf_expected_phase failure) (failed_operation failure timing (ror_operation x))
            (sf_process_instance_id failure) payload t"
    have "snd (staging_failure_work now clock failure t) = ?t'"
      unfolding w using load_recorded_keeps_all [of "sf_run_id failure" "sf_operation_id failure" ?t']
      by (auto simp: work_then_def split: prod.split outcome.split)
    then show ?thesis
      by (intro change_operation_fenced [OF _ _ _ r]) (use rec in \<open>auto simp: failure_recorded_def\<close>)
  qed (use r in auto)
qed

lemma planned_fenced: "work_fenced (record_planned_work now ds op process_instance_id payload)"
  unfolding work_fenced_def
proof (intro allI impI ballI)
  fix t r
  assume r: "r \<in> set (recovery_operations (snd (record_planned_work now ds op process_instance_id payload t)))"
  define Q where "Q = (\<lambda>x :: recovery_tables. resource_leases x = resource_leases t
      \<and> (\<forall>r \<in> set (recovery_operations x). r \<in> set (recovery_operations t) \<or> ror_operation r = op))"
  have Q: "Q t" "ignores_directories Q" by (simp_all add: Q_def ignores_directories_def)
  have writes: "work_keeps Q (insert_operation now op)" "work_keeps Q (insert_recovery_event e)" for e
    by (auto simp: Q_def work_keeps_def insert_operation_def insert_recovery_event_def Let_def)
  have "work_keeps Q (work_then (insert_operation now op) (\<lambda>_.
           work_then (append_event now (rop_run_id op) (rop_operation_id op) None (rop_phase op)
              process_instance_id payload) (\<lambda>_.
           work_then (record_directory_recovery_if_applicable now ds op process_instance_id) (\<lambda>_.
             load_recorded_operation (rop_run_id op) (rop_operation_id op)))))"
    unfolding append_event_def load_recorded_operation_def Let_def
    by (intro work_rules writes directory_glue_keeps Q(2))
  note insertion = work_keepsD [OF this Q(1)]
  have "work_keeps (\<lambda>x. recovery_operations x = recovery_operations t)
      (work_then (record_directory_recovery_if_applicable now ds existing process_instance_id) (\<lambda>_. work_return existing))"
    for existing
    by (intro work_rules directory_glue_keeps) simp
  note replay = work_keepsD [OF this, of t]
  show "r \<in> set (recovery_operations t)
      \<or> require_active_matching_lease (ror_operation r) (snd (record_planned_work now ds op process_instance_id payload t)) = Inr ()"
  proof (cases "List.find (at_operation (rop_run_id op) (rop_operation_id op)) (recovery_operations t)")
    case (Some x)
    then have "recovery_operations (snd (record_planned_work now ds op process_instance_id payload t)) = recovery_operations t"
      using replay by (simp add: record_planned_work_def work_then_check)
    then show ?thesis using r by simp
  next
    case None
    show ?thesis
    proof (cases "require_active_matching_lease op t")
      case (Inl e)
      then show ?thesis using r None by (simp add: record_planned_work_def work_then_check)
    next
      case (Inr u)
      let ?t' = "snd (record_planned_work now ds op process_instance_id payload t)"
      have "Q ?t'" using insertion None Inr by (simp add: record_planned_work_def work_then_check)
      then have "resource_leases ?t' = resource_leases t"
        and "r \<in> set (recovery_operations t) \<or> ror_operation r = op" using r by (simp_all add: Q_def)
      then show ?thesis using Inr require_lease_cong [of ?t' t op] by auto
    qed
  qed
qed

text \<open>The tables after an operation are those of its work, or those before.\<close>

lemma transaction_tables:
  "rc_tables (snd (transaction translate body c)) = snd (body (rc_tables c))
   \<or> rc_tables (snd (transaction translate body c)) = rc_tables c"
  by (auto simp: transaction_def Let_def begin_immediate_def commit_def rollback_def split: prod.split outcome.split option.split)

lemma tables_fenced:
  assumes "work_fenced body" "t' = snd (body t) \<or> t' = t" "recovery_inv t" "r \<in> set (recovery_operations t')"
  shows "r \<in> set (recovery_operations t) \<or> require_active_matching_lease (ror_operation r) t' = Inr ()"
  using assms unfolding work_fenced_def by blast

lemma call_tables:
  fixes c :: recovery_connection
  defines "from_work \<equiv> \<lambda>t' t. t' = t \<or> t' = rc_tables c"
  shows
  "from_work (rc_tables (snd (allocate_next_fencing_token now k epoch c))) (snd (allocate_token now k epoch (rc_tables c)))"
  "from_work (rc_tables (snd (register_acquired_resource_lease now request c))) (snd (register_work now request (rc_tables c)))"
  "from_work (rc_tables (snd (release_resource_lease now lease_id c))) (snd (release_work now lease_id (rc_tables c)))"
  "from_work (rc_tables (snd (reconcile_stale_active_resource_lease_after_lock_acquired now k endpoint_id c)))
     (snd (reconcile_work now k endpoint_id (rc_tables c)))"
  "from_work (rc_tables (snd (publish_intent_segment now s c)))
     (snd (record_segment_work segment_require_active_matching_lease now s (rc_tables c)))"
  "from_work (rc_tables (snd (import_intent_segment now s c)))
     (snd (record_segment_work segment_require_historical_matching_lease now s (rc_tables c)))"
  "from_work (rc_tables (snd (finalize_missing_terminal_intent_segment now segment_id c)))
     (snd (finalize_missing_work now segment_id (rc_tables c)))"
  "from_work (rc_tables (snd (transition_intent_segment_state now segment_id expected_state next_state c)))
     (snd (transition_segment_work now segment_id expected_state next_state (rc_tables c)))"
  "from_work (rc_tables (snd (record_directory_recovery_operation now dop process_instance_id dpayload c)))
     (snd (record_directory_work now dop process_instance_id dpayload (rc_tables c)))"
  "from_work (rc_tables (snd (transition_directory_recovery_operation now transition c)))
     (snd (transition_directory_work now transition (rc_tables c)))"
  "from_work (rc_tables (snd (record_planned_operation now ds op process_instance_id payload c)))
     (snd (record_planned_work now ds op process_instance_id payload (rc_tables c)))"
  "from_work (rc_tables (snd (record_operation_lease_rebound now change phase c)))
     (snd (lease_change_work now change phase None (rc_tables c)))"
  "from_work (rc_tables (snd (record_commit_intent_refreshed now change segment_id ordinal c)))
     (snd (lease_change_work now change COMMIT_INTENT_RECORDED (Some (segment_id, ordinal)) (rc_tables c)))"
  "from_work (rc_tables (snd (record_old_target_preserved_commit_intent_refreshed now change segment_id ordinal c)))
     (snd (lease_change_work now change OLD_TARGET_PRESERVED (Some (segment_id, ordinal)) (rc_tables c)))"
  unfolding from_work_def store_operation_defs by (simp_all add: transaction_tables split: sum.split)

lemma connection_tables:
  "rc_tables (fst (snd (record_operation_phase_transition now ds q (c, dl)))) =
     snd (phase_transition_work now ds q (rc_tables c))
   \<or> rc_tables (fst (snd (record_operation_phase_transition now ds q (c, dl)))) = rc_tables c"
  "rc_tables (fst (snd (record_staging_failure now clock failure (c, dl)))) =
     snd (staging_failure_work now clock failure (rc_tables c))
   \<or> rc_tables (fst (snd (record_staging_failure now clock failure (c, dl)))) = rc_tables c"
  unfolding phase_transition_connection staging_failure_connection by (simp_all add: transaction_tables split: sum.split)

lemmas call_fences =
  other_works_fenced(1) [THEN tables_fenced, OF call_tables(1)] other_works_fenced(2) [THEN tables_fenced, OF call_tables(2)]
  other_works_fenced(3) [THEN tables_fenced, OF call_tables(3)] other_works_fenced(4) [THEN tables_fenced, OF call_tables(4)]
  other_works_fenced(5) [THEN tables_fenced, OF call_tables(5)] other_works_fenced(5) [THEN tables_fenced, OF call_tables(6)]
  other_works_fenced(6) [THEN tables_fenced, OF call_tables(7)] other_works_fenced(7) [THEN tables_fenced, OF call_tables(8)]
  other_works_fenced(8) [THEN tables_fenced, OF call_tables(9)] other_works_fenced(9) [THEN tables_fenced, OF call_tables(10)]
  planned_fenced [THEN tables_fenced, OF call_tables(11)]
  lease_change_fenced [THEN tables_fenced, OF call_tables(12)] lease_change_fenced [THEN tables_fenced, OF call_tables(13)]
  lease_change_fenced [THEN tables_fenced, OF call_tables(14)]
  phase_transition_fenced [THEN tables_fenced, OF connection_tables(1)]
  staging_failure_fenced [THEN tables_fenced, OF connection_tables(2)]

lemma recovery_call_fenced:
  assumes "recovery_call s s'" "recovery_inv (rc_tables (fst s))"
    and "r \<in> set (recovery_operations (rc_tables (fst s')))"
  shows "r \<in> set (recovery_operations (rc_tables (fst s)))
    \<or> require_active_matching_lease (ror_operation r) (rc_tables (fst s')) = Inr ()"
  using assms
proof (induction rule: recovery_call.induct)
  case (moves_operation s now ds q)
  then show ?case by (cases s) (simp only: fst_conv, rule call_fences; assumption)
next
  case (fails_staging s now clock failure)
  then show ?case by (cases s) (simp only: fst_conv, rule call_fences; assumption)
qed ((simp only: fst_conv, rule call_fences; assumption) | simp)+

text \<open>A lease that matches is held, and in a sound table it has the greatest token of its resource.\<close>

lemma matching_lease_is_newest:
  assumes "lease_inv t" "require_active_matching_lease op t = Inr ()"
  shows "\<exists>l \<in> set (resource_leases t). rl_lease_id l = rop_lease_id op \<and> rl_resource_key l = rop_lease_resource_key op
    \<and> rl_owner_instance_id l = rop_owner_installation_id op \<and> rl_state l = ACQUIRED
    \<and> lease_token l = (rop_ownership_epoch op, rop_fencing_token op)
    \<and> (\<forall>x \<in> set (resource_leases t). rl_resource_key x = rl_resource_key l \<longrightarrow> x = l \<or> lease_token x < lease_token l)"
proof -
  obtain l where f: "List.find (\<lambda>l. rl_lease_id l = rop_lease_id op) (resource_leases t) = Some l"
    using assms(2) by (auto simp: require_active_matching_lease_def split: option.splits)
  then have l: "l \<in> set (resource_leases t)" "rl_lease_id l = rop_lease_id op" using find_Some_iff' by fastforce+
  have m: "rl_resource_key l = rop_lease_resource_key op" "rl_owner_instance_id l = rop_owner_installation_id op"
    "rl_state l = ACQUIRED" "lease_token l = (rop_ownership_epoch op, rop_fencing_token op)"
    using assms(2) f by (auto simp: require_active_matching_lease_def lease_token_def split: if_splits)
  show ?thesis using l m held_lease_is_newest [OF assms(1) l(1) m(3)] by blast
qed

section \<open>A transaction that is left open\<close>

text \<open>Calls of the stores inside a transaction leave its beginning as it is.\<close>

lemma recovery_calls_in_transaction:
  assumes "recovery_call\<^sup>*\<^sup>* s s'" "in_transaction (fst s)"
  shows "rc_begun (fst s') = rc_begun (fst s)"
  using assms
proof (induction rule: rtranclp_induct)
  case (step x y)
  then have "in_transaction (fst x)" by (simp add: in_transaction_def)
  then show ?case using step recovery_call_in_transaction by metis
qed simp

end
