(* ===== verification/Completion_Laws.thy ===== *)
theory Completion_Laws
  imports Run_Completion Run_Execution_Laws Recovery_Safety
begin

text \<open>
  What the listing of the recovery store says of the journal, and what the completions of a target do with it on
  the stores of the program.
\<close>

section \<open>The listing\<close>

definition journal_lister :: "recovery_tables \<Rightarrow> operation_lister" where
  "journal_lister t run_id run_target_id phase limit =
     list_operations_for_run_target_in_phase run_id run_target_id phase limit t"

definition target_operations :: "recovery_tables \<Rightarrow> string \<Rightarrow> string \<Rightarrow> RecoveryOperationPhase set \<Rightarrow> RecoveryOperation list" where
  "target_operations t run_id run_target_id phases =
     filter (\<lambda>op. rop_run_id op = run_id \<and> rop_run_target_id op = run_target_id \<and> rop_phase op \<in> phases)
       (map ror_operation (recovery_operations t))"

lemma read_operation_returns [simp]: "read_operation op = Inr op"
  by (simp add: read_operation_def)

lemma rows_of_returns [simp]: "rows_of (map (\<lambda>r. Inr (f r)) rs) = Inr (map f rs)"
  by (induction rs) simp_all

lemma list_operations_returns:
  assumes "1 \<le> limit"
  shows "list_operations wanted order limit t =
    Inr (take (nat limit) (map ror_operation (sort_key order (filter wanted (recovery_operations t)))))"
  using assms by (simp add: list_operations_def positive_limit_def take_map)

lemma mset_sorted_operations:
  "mset (map ror_operation (sort_key order (filter (\<lambda>r. P (ror_operation r)) rows))) =
     mset (filter P (map ror_operation rows))"
proof -
  have "filter P (map ror_operation rows) = map ror_operation (filter (\<lambda>r. P (ror_operation r)) rows)"
    by (simp add: filter_map comp_def)
  then show ?thesis by (metis mset_map mset_sort)
qed

lemma listed_operations:
  assumes "1 \<le> limit"
  obtains ops where "journal_lister t i j p limit = Inr (take (nat limit) ops)"
    "mset ops = mset (target_operations t i j {p})"
proof (rule that)
  let ?P = "\<lambda>op. rop_run_id op = i \<and> rop_run_target_id op = j \<and> rop_phase op = p"
  show "journal_lister t i j p limit =
      Inr (take (nat limit) (map ror_operation (sort_key plan_order (filter (\<lambda>r. ?P (ror_operation r)) (recovery_operations t)))))"
    using assms by (simp add: journal_lister_def list_operations_for_run_target_in_phase_def list_operations_returns)
  show "mset (map ror_operation (sort_key plan_order (filter (\<lambda>r. ?P (ror_operation r)) (recovery_operations t)))) =
      mset (target_operations t i j {p})"
    unfolding target_operations_def singleton_iff by (rule mset_sorted_operations)
qed

lemma listed_length:
  assumes "1 \<le> limit"
  obtains ops where "journal_lister t i j p limit = Inr ops"
    "length ops = min (nat limit) (length (target_operations t i j {p}))" "set ops \<subseteq> set (target_operations t i j {p})"
proof -
  obtain ops where ops: "journal_lister t i j p limit = Inr (take (nat limit) ops)"
      "mset ops = mset (target_operations t i j {p})"
    using listed_operations [OF assms] .
  have "length ops = length (target_operations t i j {p})" "set ops = set (target_operations t i j {p})"
    using ops(2) mset_eq_length mset_eq_setD by blast+
  then show ?thesis using ops(1) set_take_subset [of "nat limit" ops] by (intro that) auto
qed

lemma listed_everything:
  assumes "1 \<le> limit" "journal_lister t i j p limit = Inr ops" "int (length ops) < limit"
  shows "mset ops = mset (target_operations t i j {p})"
proof -
  obtain all where a: "journal_lister t i j p limit = Inr (take (nat limit) all)" "mset all = mset (target_operations t i j {p})"
    using listed_operations [OF assms(1)] .
  have "length all \<le> nat limit" using a(1) assms by (simp add: min_def split: if_splits)
  then show ?thesis using a assms(2) by simp
qed

lemma mset_target_operations_union:
  assumes "P \<inter> Q = {}"
  shows "mset (target_operations t i j (P \<union> Q)) = mset (target_operations t i j P) + mset (target_operations t i j Q)"
proof -
  have "filter_mset (\<lambda>op. rop_run_id op = i \<and> rop_run_target_id op = j \<and> rop_phase op \<in> P \<union> Q) M =
      filter_mset (\<lambda>op. rop_run_id op = i \<and> rop_run_target_id op = j \<and> rop_phase op \<in> P) M
      + filter_mset (\<lambda>op. rop_run_id op = i \<and> rop_run_target_id op = j \<and> rop_phase op \<in> Q) M" for M
    using assms by (induction M) auto
  then show ?thesis by (simp add: target_operations_def)
qed

definition FINISHED_PHASES :: "RecoveryOperationPhase set" where
  "FINISHED_PHASES = {CATALOG_RECORDED, CLEANED}"

lemma cataloged_operations_are_the_finished:
  assumes c: "cataloged_operations (journal_lister t) permit target = Inr ops"
    and n: "int (length ops) = rt_planned_operations target" "rt_planned_operations target \<noteq> 0"
  shows "mset ops = mset (target_operations t (mp_run_id permit) (mp_run_target_id permit) FINISHED_PHASES)"
proof -
  let ?i = "mp_run_id permit" and ?j = "mp_run_target_id permit" and ?n = "rt_planned_operations target + 1"
  obtain xs ys where xs: "journal_lister t ?i ?j CATALOG_RECORDED ?n = Inr xs" and ys: "journal_lister t ?i ?j CLEANED ?n = Inr ys"
    and ops: "ops = sort_key rop_operation_id (xs @ ys)"
    using c n(2) by (auto simp: cataloged_operations_def)
  have "1 \<le> ?n" "int (length xs) < ?n" "int (length ys) < ?n" using n ops by auto
  then have "mset ops = mset (target_operations t ?i ?j {CATALOG_RECORDED}) + mset (target_operations t ?i ?j {CLEANED})"
    using listed_everything xs ys by (simp add: ops)
  then show ?thesis
    using mset_target_operations_union [of "{CATALOG_RECORDED}" "{CLEANED}" t ?i ?j] by (simp add: FINISHED_PHASES_def insert_commute)
qed

section \<open>The run store\<close>

lemma completed_target_state:
  assumes inv: "catalog_inv db" and c: "complete_target outer i j extra f finish db = (Inr (Some run), db')"
    and k: "\<And>t. tr_id (f t) = tr_id t" "\<And>t. tr_run_id (f t) = tr_run_id t"
  shows "\<exists>t0. extra t0 \<and> load_target db' i j = Some (started_target ((f t0)\<lparr>tr_row_version := tr_row_version t0 + 1\<rparr>))
    \<and> db_load_started_run i db' = Inr (Some run)"
proof -
  let ?q = "\<lambda>t. tr_state t = RunTargetState.EXECUTING \<and> extra t \<and> run_in db (tr_run_id t) [RunState.EXECUTING]"
  let ?p = "\<lambda>t. tr_run_id t = i \<and> tr_id t = j \<and> ?q t"
  let ?db1 = "update_targets ?p f db"
  let ?db2 = "update_runs (\<lambda>r. rr_id r = i \<and> rr_state r = RunState.EXECUTING) (finish ?db1) ?db1"
  have n: "sql_count ?p (c_run_targets db) = Suc 0" and r: "return_run outer db ?db2 i = (Inr (Some run), db')"
    using c by (auto simp: complete_target_def Let_def give_up_def split: if_splits)
  from r have db': "db' = ?db2" "db_load_started_run i ?db2 = Inr (Some run)"
    by (auto simp: return_run_def give_up_def split: sum.splits option.splits)
  then show ?thesis using updated_target [OF inv n k, of db'] by auto
qed

section \<open>A completion after catalog handoffs\<close>

lemma completion_result_completed:
  assumes "completion_result j conflict failed run_completed answer = (Inr out, s')" "rcp_completed out"
  shows "\<exists>updated. answer = (Inr (Some updated), s')"
proof -
  obtain a b where "answer = (a, b)" by (cases answer)
  then show ?thesis
    using assms by (cases a) (auto simp: completion_result_def not_completed_def split: option.splits)
qed

lemma success_completed:
  assumes c: "complete_run_target_success load_run record_succeeded i j n b s = (Inr out, s')" "rcp_completed out"
    and l: "load_run i s = Inr (Some run)" "target_by_id run j = Some target"
  shows "n = rt_planned_operations target \<and> b = rt_planned_bytes target
    \<and> (\<exists>updated. record_succeeded i j n b s = (Inr (Some updated), s'))"
proof -
  have "n = rt_planned_operations target \<and> b = rt_planned_bytes target
      \<and> completion_result j ''RUN_TARGET_COMPLETION_CONFLICT'' ''RUN_TARGET_COMPLETION_LOAD_FAILED''
        (\<lambda>st. st = RunState.COMPLETED) (record_succeeded i j n b s) = (Inr out, s')"
    using c l unfolding complete_run_target_success_def by (auto simp: not_completed_def split: if_splits)
  then show ?thesis using completion_result_completed c(2) by metis
qed

lemma run_call_Inr: "run_call answer = (Inr a, s) \<longleftrightarrow> answer = (Inr a, s)"
  by (cases answer) (auto simp: run_call_def split: sum.splits)

lemma completion_target_cases:
  assumes "completion_target permit loaded = r"
  shows "case r of Inl outcome \<Rightarrow> \<not> rcp_completed outcome
    | Inr (run, target) \<Rightarrow> loaded = Some run \<and> sr_state run = RunState.EXECUTING
        \<and> target_by_id run (mp_run_target_id permit) = Some target
        \<and> rt_state target = RunTargetState.EXECUTING \<and> \<not> target_permit_mismatch target permit"
  using assms unfolding completion_target_def not_completed_def
  by (cases loaded) (auto split: if_splits option.splits)

lemma successful_completion_cases:
  assumes "complete_run_target_after_catalog_handoffs load_run record_succeeded listed permit s = (Inr outcome, s')"
    "rcp_completed outcome"
  obtains run target ops where "load_run (mp_run_id permit) s = Inr (Some run)"
    "target_by_id run (mp_run_target_id permit) = Some target" "rt_state target = RunTargetState.EXECUTING"
    "\<not> target_permit_mismatch target permit" "cataloged_operations listed permit target = Inr ops"
    "\<And>op. op \<in> set ops \<Longrightarrow> operation_matches_permit op permit"
    "int (length ops) = rt_planned_operations target" "sum_list (map operation_byte_count ops) = rt_planned_bytes target"
    "\<exists>updated. record_succeeded (mp_run_id permit) (mp_run_target_id permit) (int (length ops))
      (sum_list (map operation_byte_count ops)) s = (Inr (Some updated), s')"
proof -
  obtain run target ops where c: "load_run (mp_run_id permit) s = Inr (Some run)"
      "target_by_id run (mp_run_target_id permit) = Some target" "rt_state target = RunTargetState.EXECUTING"
      "\<not> target_permit_mismatch target permit" "cataloged_operations listed permit target = Inr ops"
      "\<not> list_ex (\<lambda>op. \<not> operation_matches_permit op permit) ops"
    and success: "run_call (complete_run_target_success load_run record_succeeded (mp_run_id permit)
      (mp_run_target_id permit) (int (length ops)) (sum_list (map operation_byte_count ops)) s) = (Inr outcome, s')"
  proof -
    obtain loaded where l: "load_run (mp_run_id permit) s = Inr loaded"
      using assms unfolding complete_run_target_after_catalog_handoffs_def by (cases "load_run (mp_run_id permit) s") auto
    note ct = completion_target_cases [of permit loaded, OF refl]
    obtain run target where rt: "completion_target permit loaded = Inr (run, target)"
      using assms ct unfolding complete_run_target_after_catalog_handoffs_def l
      by (cases "completion_target permit loaded") auto
    show ?thesis
      using assms ct l rt that [of run target] unfolding complete_run_target_after_catalog_handoffs_def with_cataloged_operations_def
      by (auto simp: not_completed_def split: sum.splits if_splits)
  qed
  show ?thesis
    using success_completed [OF success [unfolded run_call_Inr] assms(2) c(1,2)] c
    by (intro that [OF c(1-5)]) (auto simp: list_ex_iff)
qed

lemma finished_operations_were_verified:
  assumes "journal_inv t" "op \<in> set (target_operations t i j FINISHED_PHASES)"
  shows "subseq (phases_before CLEANED) (map rev_to_phase (operation_events op t))"
proof -
  have op: "replay (operation_events op t) = Some (Some (rop_phase op))" "rop_phase op \<in> FINISHED_PHASES"
    using assms by (auto simp: target_operations_def journal_inv_def)
  have path: "rop_phase op \<in> set (OLD_TARGET_PRESERVED # RECOVERY_OPERATION_LINEAR_SUCCESS_PATH)"
    using op(2) by (auto simp: FINISHED_PHASES_def RECOVERY_OPERATION_LINEAR_SUCCESS_PATH_def)
  have before: "phases_before CLEANED = phases_before CATALOG_RECORDED @ [CATALOG_RECORDED]" by code_simp
  show ?thesis
    using replay_follows_path [OF op(1) path] op(2) before
    by (auto simp: FINISHED_PHASES_def dest: subseq_order.trans [OF subseq_rev_drop_many [OF subseq_order.refl]])
qed

section \<open>Targets with several ends\<close>

text \<open>The counts the executor uses, on the journal.\<close>

lemma journal_listed:
  assumes "0 \<le> n"
  obtains ops where "journal_lister t i j p (max (n + 1) 1) = Inr ops" "journal_lister t i j p (n + 1) = Inr ops"
    "int (length ops) = min (n + 1) (int (length (target_operations t i j {p})))"
    "set ops \<subseteq> set (target_operations t i j {p})" "ops = [] \<longleftrightarrow> target_operations t i j {p} = []"
proof -
  have m: "max (n + 1) 1 = n + 1" using assms by simp
  obtain ops where ops: "journal_lister t i j p (n + 1) = Inr ops"
      "length ops = min (nat (n + 1)) (length (target_operations t i j {p}))" "set ops \<subseteq> set (target_operations t i j {p})"
    using listed_length [of "n + 1" t i j p] assms by auto
  have len: "int (length ops) = min (n + 1) (int (length (target_operations t i j {p})))"
    using assms unfolding ops(2) by (simp add: of_nat_min)
  then have "int (length ops) = 0 \<longleftrightarrow> int (length (target_operations t i j {p})) = 0" using assms by linarith
  then show ?thesis using ops len m by (intro that [of ops]) auto
qed

lemma phase_count_returns:
  assumes "0 \<le> n"
  shows "phase_count (journal_lister t) permit p (n + 1) =
    Inr (min (n + 1) (int (length (target_operations t (mp_run_id permit) (mp_run_target_id permit) {p}))))"
  by (rule journal_listed [OF assms, of t "mp_run_id permit" "mp_run_target_id permit" p])
    (simp add: phase_count_def)

lemma has_phase_returns:
  assumes "0 \<le> n"
  shows "has_phase (journal_lister t) permit p (n + 1) =
    Inr (target_operations t (mp_run_id permit) (mp_run_target_id permit) {p} \<noteq> [])"
  by (rule journal_listed [OF assms, of t "mp_run_id permit" "mp_run_target_id permit" p])
    (simp add: has_phase_def)

lemma recorded_count_returns:
  assumes "0 \<le> rt_planned_operations target"
  shows "catalog_recorded_count (journal_lister t) permit target = Inr
    (min (rt_planned_operations target + 1)
       (int (length (target_operations t (mp_run_id permit) (mp_run_target_id permit) {CATALOG_RECORDED})))
     + min (rt_planned_operations target + 1)
       (int (length (target_operations t (mp_run_id permit) (mp_run_target_id permit) {CLEANED}))))"
  by (rule journal_listed [OF assms, of t "mp_run_id permit" "mp_run_target_id permit" CATALOG_RECORDED],
      rule journal_listed [OF assms, of t "mp_run_id permit" "mp_run_target_id permit" CLEANED])
    (simp add: catalog_recorded_count_def)

text \<open>The operations of the target of a permit that stand at some phases.\<close>

definition permitted :: "recovery_tables \<Rightarrow> MutationPermit \<Rightarrow> RecoveryOperationPhase set \<Rightarrow> RecoveryOperation list" where
  "permitted t permit phases = target_operations t (mp_run_id permit) (mp_run_target_id permit) phases"

lemma length_finished:
  "length (permitted t permit FINISHED_PHASES) =
     length (permitted t permit {CATALOG_RECORDED}) + length (permitted t permit {CLEANED})"
  using arg_cong [OF mset_target_operations_union [of "{CATALOG_RECORDED}" "{CLEANED}" t "mp_run_id permit"
      "mp_run_target_id permit"], of size]
  by (simp add: permitted_def FINISHED_PHASES_def insert_commute)

lemma terminal_operations_returns:
  assumes "0 < rt_planned_operations target" "int (length (permitted t permit {p})) \<le> rt_planned_operations target"
  obtains ops where "terminal_operations (journal_lister t) permit target p = Inr ops"
    "length ops = length (permitted t permit {p})" "set ops \<subseteq> set (permitted t permit {p})"
  using assms journal_listed [of "rt_planned_operations target" t "mp_run_id permit" "mp_run_target_id permit" p]
  unfolding permitted_def terminal_operations_def
  by (metis (no_types, lifting) add_increasing2 less_imp_le min.absorb2 nat_int_comparison(1) order_less_irrefl zero_le_one)

lemma cataloged_operations_returns:
  assumes n: "0 < rt_planned_operations target"
    and le: "int (length (permitted t permit FINISHED_PHASES)) \<le> rt_planned_operations target"
  obtains ops where "cataloged_operations (journal_lister t) permit target = Inr ops"
    "length ops = length (permitted t permit FINISHED_PHASES)" "set ops \<subseteq> set (permitted t permit FINISHED_PHASES)"
proof -
  let ?i = "mp_run_id permit" and ?j = "mp_run_target_id permit"
  have le': "int (length (permitted t permit {CATALOG_RECORDED})) \<le> rt_planned_operations target"
    "int (length (permitted t permit {CLEANED})) \<le> rt_planned_operations target"
    using le by (simp_all add: length_finished)
  obtain xs where xs: "terminal_operations (journal_lister t) permit target CATALOG_RECORDED = Inr xs"
      "length xs = length (permitted t permit {CATALOG_RECORDED})" "set xs \<subseteq> set (permitted t permit {CATALOG_RECORDED})"
    using terminal_operations_returns [OF n le'(1)] .
  obtain ys where ys: "terminal_operations (journal_lister t) permit target CLEANED = Inr ys"
      "length ys = length (permitted t permit {CLEANED})" "set ys \<subseteq> set (permitted t permit {CLEANED})"
    using terminal_operations_returns [OF n le'(2)] .
  show ?thesis
  proof (rule that)
    show "cataloged_operations (journal_lister t) permit target = Inr (sort_key rop_operation_id (xs @ ys))"
      using xs(1) ys(1) n by (simp add: cataloged_operations_def terminal_operations_def)
    show "length (sort_key rop_operation_id (xs @ ys)) = length (permitted t permit FINISHED_PHASES)"
      using xs(2) ys(2) by (simp add: length_finished)
    show "set (sort_key rop_operation_id (xs @ ys)) \<subseteq> set (permitted t permit FINISHED_PHASES)"
      using xs(3) ys(3) by (auto simp: permitted_def target_operations_def FINISHED_PHASES_def)
  qed
qed

definition bound_to_permit :: "MutationPermit \<Rightarrow> RecoveryOperation \<Rightarrow> bool" where
  "bound_to_permit permit op \<longleftrightarrow> operation_matches_terminal_permit op permit (rop_phase op)"

lemma bound_operations_match:
  assumes "\<And>op. op \<in> set (permitted t permit {p}) \<Longrightarrow> bound_to_permit permit op" "set ops \<subseteq> set (permitted t permit {p})"
  shows "terminal_operation_mismatch ops permit p = None"
  using assms by (force simp: terminal_operation_mismatch_def find_None_iff permitted_def target_operations_def bound_to_permit_def)

lemma bound_finished_match:
  assumes "\<And>op. op \<in> set (permitted t permit FINISHED_PHASES) \<Longrightarrow> bound_to_permit permit op"
    "set ops \<subseteq> set (permitted t permit FINISHED_PHASES)"
  shows "\<not> list_ex (\<lambda>op. \<not> operation_matches_permit op permit) ops"
  using assms by (force simp: list_ex_iff permitted_def target_operations_def bound_to_permit_def FINISHED_PHASES_def
      operation_matches_permit_def operation_matches_terminal_permit_def)

lemma completion_target_found:
  assumes "sr_state run = RunState.EXECUTING" "target_by_id run (mp_run_target_id permit) = Some target"
    "rt_state target = RunTargetState.EXECUTING" "\<not> target_permit_mismatch target permit"
  shows "completion_target permit (Some run) = Inr (run, target)"
  using assms by (simp add: completion_target_def)

end
