(* ===== verification/Recovery_Examples.thy ===== *)
theory Recovery_Examples
  imports Recovery_Safety
begin

text \<open>
  A recovery database reached by calls of its stores: a lease is registered, an operation is planned under it
  and has its source validated, and the recovery of a directory is recorded.
\<close>

lemma transaction_returns:
  "body t = (Returns v, t') \<Longrightarrow>
     transaction translate body \<lparr>rc_tables = t, rc_begun = None\<rparr> = (Inr (Some v), \<lparr>rc_tables = t', rc_begun = None\<rparr>)"
  by (simp add: transaction_def in_transaction_def begin_immediate_def commit_def)

definition ex_lease_request :: lease_request where
  "ex_lease_request = \<lparr>lq_lease_id = ''l1'', lq_resource_key = ''k1'', lq_owner_instance_id = ''i1'',
     lq_ownership_epoch = 1, lq_run_id = ''run'', lq_run_target_id = ''t1'', lq_endpoint_id = ''e1'',
     lq_endpoint_generation = Some 1, lq_lease_mode = ''EXCLUSIVE'', lq_os_lock_kind = ''LOCAL_OS_HANDLE''\<rparr>"

definition ex_held :: recovery_tables where
  "ex_held = empty_recovery_tables\<lparr>
     lease_counters := [\<lparr>lc_resource_key = ''k1'', lc_ownership_epoch = 1, lc_last_fencing_token = 1, lc_updated_utc = ''u''\<rparr>],
     resource_leases := [\<lparr>rl_lease_id = ''l1'', rl_resource_key = ''k1'', rl_ownership_epoch = 1, rl_fencing_token = 1,
        rl_lease_mode = ''EXCLUSIVE'', rl_owner_instance_id = ''i1'', rl_run_id = Some ''run'', rl_run_target_id = Some ''t1'',
        rl_endpoint_id = Some ''e1'', rl_endpoint_generation = Some 1, rl_os_lock_kind = ''LOCAL_OS_HANDLE'',
        rl_state = ACQUIRED, rl_acquired_utc = ''u'', rl_heartbeat_utc = ''u'', rl_released_utc = None\<rparr>]\<rparr>"

lemma ex_register:
  "register_acquired_resource_lease ''u'' ex_lease_request \<lparr>rc_tables = empty_recovery_tables, rc_begun = None\<rparr> =
     (Inr (Some 1), \<lparr>rc_tables = ex_held, rc_begun = None\<rparr>)"
  by code_simp

definition ex_operation :: RecoveryOperation where
  "ex_operation = (case planned_recovery_operation ''run'' ''t1'' ''o1'' ''e1'' ''v1'' 1 ''i1'' 1 ''l1'' ''k1'' 1 ''a.txt''
     ABSENT COPY_NEW 0 3 None None None None None None None of Inr op \<Rightarrow> op)"

lemma ex_operation_planned:
  "planned_recovery_operation ''run'' ''t1'' ''o1'' ''e1'' ''v1'' 1 ''i1'' 1 ''l1'' ''k1'' 1 ''a.txt''
     ABSENT COPY_NEW 0 3 None None None None None None None = Inr ex_operation"
  by code_simp

lemmas ex_operation_facts = planned_operation_is_unbound [OF ex_operation_planned]

lemma ex_operation_fields [simp]:
  "rop_run_id ex_operation = ''run''" "rop_operation_id ex_operation = ''o1''" "rop_phase ex_operation = PLANNED"
  "rop_lease_id ex_operation = ''l1''" "rop_intent_segment_id ex_operation = None" "rop_catalog_handoff_id ex_operation = None"
  by code_simp+

definition ex_row :: recovery_operation_row where
  "ex_row = \<lparr>ror_operation = ex_operation, ror_updated_utc = ''u''\<rparr>"

definition ex_event :: recovery_event where
  "ex_event = next_event ''u'' ''run'' ''o1'' None PLANNED ''p1'' None (ex_held\<lparr>recovery_operations := [ex_row]\<rparr>)"

definition ex_planned :: recovery_tables where
  "ex_planned = ex_held\<lparr>recovery_operations := [ex_row], recovery_events := [ex_event]\<rparr>"

lemma ex_held_tables [simp]:
  "recovery_operations ex_held = []" "recovery_events ex_held = []" "directory_operations ex_held = []"
  "directory_events ex_held = []" "intent_segments ex_held = []"
  by (simp_all add: ex_held_def empty_recovery_tables_def)

lemma ex_insert: "insert_operation ''u'' ex_operation ex_held = (Returns (), ex_held\<lparr>recovery_operations := [ex_row]\<rparr>)"
  by code_simp

lemma ex_plan:
  "record_planned_operation ''u'' True ex_operation ''p1'' None \<lparr>rc_tables = ex_held, rc_begun = None\<rparr> =
     (Inr (Some ex_operation), \<lparr>rc_tables = ex_planned, rc_begun = None\<rparr>)"
proof -
  have lease: "require_active_matching_lease ex_operation ex_held = Inr ()" by code_simp
  have kind: "directory_kind_of ex_operation = None" by code_simp
  have process: "validate_process_instance_id ''p1'' = Inr ()" by code_simp
  have "append_event ''u'' ''run'' ''o1'' None PLANNED ''p1'' None (ex_held\<lparr>recovery_operations := [ex_row]\<rparr>) =
      (Returns (), ex_planned)"
    using append_event_returns [of "ex_held\<lparr>recovery_operations := [ex_row]\<rparr>" "''run''" "''o1''" "''u''" None PLANNED "''p1''" None]
    by (simp add: ex_planned_def ex_event_def ex_row_def row_key_def)
  then have "record_planned_work ''u'' True ex_operation ''p1'' None ex_held = (Returns ex_operation, ex_planned)"
    using lease kind ex_insert
    by (simp add: record_planned_work_def work_then_check work_then_returns record_directory_recovery_if_applicable_def
        load_recorded_operation_def work_check_def ex_planned_def ex_row_def at_operation_def)
  then show ?thesis
    using transaction_returns process ex_operation_facts(3) by (simp add: record_planned_operation_def raising_def)
qed

lemma ex_held_reachable: "recovery_reachable (\<lparr>rc_tables = ex_held, rc_begun = None\<rparr>, Map.empty)"
  using recovery_next [OF recovery_init store_called [OF registers_lease [of _ _ "''u''" ex_lease_request]]]
  by (simp add: ex_register)

lemma ex_planned_reachable: "recovery_reachable (\<lparr>rc_tables = ex_planned, rc_begun = None\<rparr>, Map.empty)"
  using recovery_next [OF ex_held_reachable store_called [OF plans_operation [OF ex_operation_facts(1), of _ _ "''u''" True "''p1''" None]]]
  by (simp add: ex_plan)

lemma ex_planned_rows [simp]: "recovery_operations ex_planned = [ex_row]" "ror_operation ex_row = ex_operation"
  by (simp_all add: ex_planned_def ex_row_def)

section \<open>A transition\<close>

definition ex_transition :: phase_transition where
  "ex_transition = \<lparr>pt_run_id = ''run'', pt_operation_id = ''o1'', pt_expected_phase = PLANNED,
     pt_next_phase = SOURCE_VALIDATED, pt_process_instance_id = ''p1'', pt_payload = None, pt_intent_segment_id = None,
     pt_intent_ordinal = None, pt_catalog_handoff_id = None, pt_operation_metadata = None\<rparr>"

definition ex_validated_operation :: RecoveryOperation where
  "ex_validated_operation = ex_operation\<lparr>rop_phase := SOURCE_VALIDATED\<rparr>"

definition ex_validated :: recovery_tables where
  "ex_validated = change_operation ''u'' PLANNED ex_validated_operation ''p1'' None ex_planned"

lemma ex_transition_recorded:
  "record_operation_phase_transition ''u'' True ex_transition (\<lparr>rc_tables = ex_planned, rc_begun = None\<rparr>, Map.empty) =
     (Inr (Some ex_validated_operation), (\<lparr>rc_tables = ex_validated, rc_begun = None\<rparr>, Map.empty))"
proof -
  have after: "operation_after_transition ex_operation ex_transition = Inr ex_validated_operation" by code_simp
  have inv: "journal_inv ex_planned"
    using recovery_reachable_inv [OF ex_planned_reachable] by (simp add: recovery_inv_def)
  have lease: "require_active_matching_lease ex_validated_operation ex_planned = Inr ()"
    "recovery_row_references_ok ex_planned ex_validated_operation" "recovery_row_ok ex_validated_operation"
  proof -
    have "require_active_matching_lease ex_validated_operation ex_held = Inr ()"
      "recovery_row_references_ok ex_held ex_validated_operation" by code_simp+
    then show "require_active_matching_lease ex_validated_operation ex_planned = Inr ()"
      "recovery_row_references_ok ex_planned ex_validated_operation"
      by (simp_all add: require_active_matching_lease_def recovery_row_references_ok_def ex_planned_def ex_validated_operation_def)
    show "recovery_row_ok ex_validated_operation" by code_simp
  qed
  have columns: "set_transition_columns ''u'' ex_validated_operation ex_row = \<lparr>ror_operation = ex_validated_operation, ror_updated_utc = ''u''\<rparr>"
    using transition_columns_are_complete [of ex_row ex_transition ex_validated_operation "''u''"] after by (simp add: ex_row_def)
  let ?t1 = "ex_planned\<lparr>recovery_operations := [\<lparr>ror_operation = ex_validated_operation, ror_updated_utc = ''u''\<rparr>]\<rparr>"
  have upd: "update_operations (\<lambda>op. rop_run_id op = ''run'' \<and> rop_operation_id op = ''o1'' \<and> rop_phase op = PLANNED)
      (set_transition_columns ''u'' ex_validated_operation) ex_planned = (Returns 1, ?t1)"
    using lease columns
    by (simp add: update_operations_def intent_places_unique_def intent_place_def List.map_filter_def sql_update_def sql_count_def
        ex_validated_operation_def)
  have app: "append_event ''u'' ''run'' ''o1'' (Some PLANNED) SOURCE_VALIDATED ''p1'' None ?t1 = (Returns (), ex_validated)"
    using append_event_returns [of ?t1 "''run''" "''o1''" "''u''" "Some PLANNED" SOURCE_VALIDATED "''p1''" None] inv
    by (simp add: journal_inv_def ex_validated_def change_operation_def with_operation_def sql_update_def at_operation_def
        row_key_def ex_validated_operation_def ex_row_def Let_def)
  have "phase_transition_work ''u'' True ex_transition ex_planned = (Returns ex_validated_operation, ex_validated)"
    using after lease upd app
    by (simp add: phase_transition_work_def work_then_check work_then_returns ex_transition_def at_operation_def one_row_def
        load_recorded_operation_def work_check_def ex_validated_def change_operation_def with_operation_def sql_update_def
        ex_validated_operation_def Let_def)
  note recorded = transaction_returns [where body = "phase_transition_work ''u'' True ex_transition" and translate = recovery_handlers,
      OF this]
  have "validate_process_instance_id (pt_process_instance_id ex_transition) = Inr ()"
    "validate_recovery_phase_transition (pt_expected_phase ex_transition) (pt_next_phase ex_transition) = Inr ()"
    by code_simp+
  moreover have "staging_discard (pt_run_id ex_transition) (pt_operation_id ex_transition) Map.empty = Inr Map.empty"
  proof -
    have "\<not> blank (pt_run_id ex_transition)" "\<not> blank (pt_operation_id ex_transition)" by code_simp+
    then show ?thesis by (simp add: staging_discard_def operation_key_def)
  qed
  ultimately show ?thesis
    using recorded by (simp add: record_operation_phase_transition_def raising_def)
qed

lemma ex_validated_reachable: "recovery_reachable (\<lparr>rc_tables = ex_validated, rc_begun = None\<rparr>, Map.empty)"
  using recovery_next [OF ex_planned_reachable store_called [OF moves_operation [of _ "''u''" True ex_transition]]]
  by (simp add: ex_transition_recorded)

lemma ex_validated_rows:
  "recovery_operations ex_validated = [\<lparr>ror_operation = ex_validated_operation, ror_updated_utc = ''u''\<rparr>]"
  by (simp add: ex_validated_def change_operation_def with_operation_def sql_update_def at_operation_def
      ex_validated_operation_def Let_def)

section \<open>A directory\<close>

definition ex_directory :: DirectoryRecoveryOperation where
  "ex_directory = (case planned_directory_recovery_operation ''d1'' ''o2'' ''run'' ''t1'' ''e1'' ''v1'' ''i1'' 1 CREATE ''dir''
     None None of Inr op \<Rightarrow> op)"

definition ex_with_directory :: recovery_tables where
  "ex_with_directory = directory_planned ''u'' ex_directory ''p1'' [] ex_validated"

lemma ex_directory_recorded:
  "record_directory_recovery_operation ''u'' ex_directory ''p1'' [] \<lparr>rc_tables = ex_validated, rc_begun = None\<rparr> =
     (Inr (Some (first_directory_row ex_directory ''p1'' [])), \<lparr>rc_tables = ex_with_directory, rc_begun = None\<rparr>)"
proof -
  have inv: "directory_inv ex_validated"
    using recovery_reachable_inv [OF ex_validated_reachable] by (simp add: recovery_inv_def)
  have pre: "record_directory_precheck ex_directory ''p1'' = Inr ()" by code_simp
  have none: "directory_operations ex_validated = []"
    by (simp add: ex_validated_def change_operation_def ex_planned_def Let_def)
  have "insert_directory_operation ''u'' ex_directory empty_recovery_tables =
      (Returns (), empty_recovery_tables\<lparr>directory_operations := [\<lparr>dor_operation = ex_directory, dor_updated_utc = ''u''\<rparr>]\<rparr>)"
    by code_simp
  then have ok: "directory_row_ok ex_directory"
    by (simp add: insert_directory_operation_def Let_def split: if_splits)
  have "insert_directory_operation ''u'' ex_directory ex_validated \<noteq> (Raises Integrity_Error, ex_validated)"
    using ok none by (simp add: insert_directory_operation_def Let_def)
  then have "record_directory_work ''u'' ex_directory ''p1'' [] ex_validated =
      (Returns (first_directory_row ex_directory ''p1'' []), ex_with_directory)"
    using record_directory_effect [OF inv pre, of "''u''" "[]"] none by (auto simp: ex_with_directory_def)
  note recorded = transaction_returns [where body = "record_directory_work ''u'' ex_directory ''p1'' []", OF this]
  show ?thesis using recorded pre by (simp add: record_directory_recovery_operation_def)
qed

lemma ex_with_directory_reachable: "recovery_reachable (\<lparr>rc_tables = ex_with_directory, rc_begun = None\<rparr>, Map.empty)"
  using recovery_next [OF ex_validated_reachable store_called [OF plans_directory [of _ _ "''u''" ex_directory "''p1''" "[]"]]]
  by (simp add: ex_directory_recorded)

lemma ex_directory_rows:
  "directory_operations ex_with_directory =
     [\<lparr>dor_operation = first_directory_row ex_directory ''p1'' [], dor_updated_utc = ''u''\<rparr>]"
  by (simp add: ex_with_directory_def directory_planned_def ex_validated_def change_operation_def ex_planned_def Let_def)

end
