(* ===== verification/Completion_Properties.thy ===== *)
theory Completion_Properties
  imports Completion_Laws Run_Examples Recovery_Examples
begin

text \<open>
  The properties of the end of a run target: what its completion rests on, and a journal no completion accepts.
\<close>

section \<open>Success\<close>

lemma target_operations_distinct:
  assumes "distinct (map row_key (recovery_operations t))"
  shows "distinct (map rop_operation_id (target_operations t run_id run_target_id phases))"
proof -
  have "row_key = (\<lambda>r. (rop_run_id (ror_operation r), rop_operation_id (ror_operation r)))" by (simp add: row_key_def fun_eq_iff)
  then have "distinct (map (\<lambda>op. (rop_run_id op, rop_operation_id op)) (map ror_operation (recovery_operations t)))"
    using assms by (simp add: comp_def)
  moreover have "distinct (map (\<lambda>op. (rop_run_id op, rop_operation_id op)) ops) \<Longrightarrow>
      distinct (map rop_operation_id (filter (\<lambda>op. rop_run_id op = run_id \<and> P op) ops))" for P and ops :: "RecoveryOperation list"
    by (induction ops) (auto simp: image_iff)
  ultimately show ?thesis unfolding target_operations_def by simp
qed

text \<open>C8: A target is recorded as SUCCEEDED only on the evidence of the journal.  When the completion after the
catalog handoffs reports that the target is completed, the target was EXECUTING under the lease of the permit.  A target
with planned operations has in the recovery journal exactly as many operations recorded in the catalog as were
planned: not one is missing and, the run and the operation being the primary key of the journal, not one is there
twice; their verified bytes are the bytes that were planned, and each is bound to the endpoint, the owner, the epoch
and the resource of the permit.  Of a target with no planned operation the journal is not asked; it had no planned
bytes either.\<close>

theorem successful_target_is_journaled:
  assumes "reachable (db, dl)" "distinct (map row_key (recovery_operations t))" "rcp_completed outcome"
    and c: "complete_run_target_after_catalog_handoffs db_load_started_run (db_record_run_target_succeeded outer now)
      (journal_lister t) permit db = (Inr outcome, db')"
  defines "finished \<equiv> target_operations t (mp_run_id permit) (mp_run_target_id permit) {CATALOG_RECORDED, CLEANED}"
  shows "\<exists>target target'. load_target db (mp_run_id permit) (mp_run_target_id permit) = Some target
    \<and> rt_state target = RunTargetState.EXECUTING \<and> \<not> target_permit_mismatch target permit
    \<and> load_target db' (mp_run_id permit) (mp_run_target_id permit) = Some target'
    \<and> rt_state target' = RunTargetState.SUCCEEDED
    \<and> rt_completed_operations target' = rt_planned_operations target
    \<and> rt_completed_bytes target' = rt_planned_bytes target
    \<and> (if rt_planned_operations target = 0 then rt_planned_bytes target = 0
       else int (length finished) = rt_planned_operations target \<and> distinct (map rop_operation_id finished)
        \<and> sum_list (map operation_byte_count finished) = rt_planned_bytes target
        \<and> (\<forall>op \<in> set finished. operation_matches_permit op permit))"
proof -
  let ?i = "mp_run_id permit" and ?j = "mp_run_target_id permit"
  have inv: "catalog_inv db" using reachable_catalog_inv [OF assms(1)] by simp
  obtain run target ops where run: "db_load_started_run ?i db = Inr (Some run)" "target_by_id run ?j = Some target"
      "rt_state target = RunTargetState.EXECUTING" "\<not> target_permit_mismatch target permit"
    and ops: "cataloged_operations (journal_lister t) permit target = Inr ops"
      "\<And>op. op \<in> set ops \<Longrightarrow> operation_matches_permit op permit" "int (length ops) = rt_planned_operations target"
      "sum_list (map operation_byte_count ops) = rt_planned_bytes target"
    and recorded: "\<exists>updated. db_record_run_target_succeeded outer now ?i ?j (int (length ops))
      (sum_list (map operation_byte_count ops)) db = (Inr (Some updated), db')"
    by (rule successful_completion_cases [OF c assms(3)]) (rule that; assumption)
  obtain updated where "db_record_run_target_succeeded outer now ?i ?j (rt_planned_operations target)
      (rt_planned_bytes target) db = (Inr (Some updated), db')"
    using recorded ops(3,4) by auto
  from completed_target_state [OF inv this [unfolded db_record_run_target_succeeded_def]]
  obtain target' where target': "load_target db' ?i ?j = Some target'" "rt_state target' = RunTargetState.SUCCEEDED"
      "rt_completed_operations target' = rt_planned_operations target" "rt_completed_bytes target' = rt_planned_bytes target"
    by (auto simp: started_target_def)
  have "int (length finished) = rt_planned_operations target \<and> sum_list (map operation_byte_count finished) = rt_planned_bytes target
      \<and> (\<forall>op \<in> set finished. operation_matches_permit op permit)" if "rt_planned_operations target \<noteq> 0"
  proof -
    have m: "mset ops = mset finished"
      using cataloged_operations_are_the_finished [OF ops(1,3) that] by (simp add: finished_def FINISHED_PHASES_def)
    then have "length finished = length ops" "set finished = set ops"
      "sum_list (map operation_byte_count finished) = sum_list (map operation_byte_count ops)"
      by (metis mset_eq_length, metis mset_eq_setD, metis mset_map sum_mset_sum_list)
    then show ?thesis using ops by auto
  qed
  moreover have "rt_planned_bytes target = 0" if "rt_planned_operations target = 0"
    using ops(3,4) that by simp
  moreover have "distinct (map rop_operation_id finished)"
    unfolding finished_def by (rule target_operations_distinct [OF assms(2)])
  ultimately have journal: "if rt_planned_operations target = 0 then rt_planned_bytes target = 0
      else int (length finished) = rt_planned_operations target \<and> distinct (map rop_operation_id finished)
        \<and> sum_list (map operation_byte_count finished) = rt_planned_bytes target
        \<and> (\<forall>op \<in> set finished. operation_matches_permit op permit)"
    by (cases "rt_planned_operations target = 0") simp_all
  then show ?thesis using loaded_target [OF inv run(1,2)] run(3,4) target' by blast
qed

definition ex_done_operation :: "string \<Rightarrow> RecoveryOperationPhase \<Rightarrow> int \<Rightarrow> RecoveryOperation" where
  "ex_done_operation i phase bytes = ex_operation\<lparr>rop_run_id := ''run'', rop_run_target_id := ''t1'', rop_operation_id := i,
     rop_target_endpoint_id := ''e1'', rop_target_endpoint_revision_id := ''rev'', rop_owner_installation_id := ''home'',
     rop_ownership_epoch := 3, rop_lease_resource_key := ''disk'', rop_phase := phase,
     rop_expected_final_fingerprint_json := Some (json_dumps True (JObj [(''byte_count'', JInt bytes)]))\<rparr>"

definition ex_done :: recovery_tables where
  "ex_done = empty_recovery_tables\<lparr>recovery_operations :=
     [\<lparr>ror_operation = ex_done_operation ''o1'' CLEANED 4, ror_updated_utc = ''u''\<rparr>,
      \<lparr>ror_operation = ex_done_operation ''o2'' CATALOG_RECORDED 6, ror_updated_utc = ''u''\<rparr>]\<rparr>"

definition ex_permit :: MutationPermit where
  "ex_permit = \<lparr>mp_lease_id = ''lease'', mp_resource_key = ''disk'', mp_owner_installation_id = ''home'',
     mp_ownership_epoch = 3, mp_fencing_token = 7, mp_run_id = ''run'', mp_run_target_id = ''t1'', mp_endpoint_id = ''e1'',
     mp_endpoint_generation = 1, mp_endpoint_revision_id = ''rev''\<rparr>"

definition ex_completion :: "(RunTargetCompletionOutcome, catalog) engine_call" where
  "ex_completion = complete_run_target_after_catalog_handoffs db_load_started_run
     (db_record_run_target_succeeded False ''2'') (journal_lister ex_done) ex_permit demo_executing"

lemma ex_completion_completes: "(case ex_completion of (Inr outcome, db') \<Rightarrow> rcp_completed outcome | _ \<Rightarrow> False)"
  by code_simp

theorem successful_target_is_journaled_witness:
  "\<exists>target'. load_target (snd ex_completion) ''run'' ''t1'' = Some target' \<and> rt_state target' = RunTargetState.SUCCEEDED"
proof -
  obtain outcome db' where c: "ex_completion = (Inr outcome, db')" "rcp_completed outcome"
    using ex_completion_completes by (auto split: prod.splits sum.splits)
  have "mp_run_id ex_permit = ''run''" "mp_run_target_id ex_permit = ''t1''" "snd ex_completion = db'"
    by (simp_all add: ex_permit_def c(1))
  moreover have "distinct (map row_key (recovery_operations ex_done))"
    by (simp add: ex_done_def row_key_def ex_done_operation_def)
  ultimately show ?thesis
    using successful_target_is_journaled [OF demo_executing_reachable _ c(2) c(1) [unfolded ex_completion_def]] by auto
qed

section \<open>Mixed ends\<close>

text \<open>C32: A target whose operations ended in different ways is never completed.  If of its planned operations some
were SKIPPED after their staging attempts were exhausted, some CANCELLED because the old target was restored, and
the others recorded in the catalog, then none of the three conditions holds under which the executor asks for a
completion, and both completions refuse and change nothing, although every operation of the target has come to its end.\<close>

theorem mixed_outcomes_never_complete:
  assumes run: "load_run (mp_run_id permit) s = Inr (Some run)" "sr_state run = RunState.EXECUTING"
      "target_by_id run (mp_run_target_id permit) = Some target" "rt_state target = RunTargetState.EXECUTING"
      "\<not> target_permit_mismatch target permit"
    and ops: "permitted t permit {SKIPPED} \<noteq> []" "permitted t permit {RecoveryOperationPhase.CANCELLED} \<noteq> []"
      "permitted t permit {USER_DECISION_REQUIRED} = []"
      "\<forall>op \<in> set (permitted t permit {RecoveryOperationPhase.CANCELLED}).
         rop_last_error_code op = Some RESTORED_OLD_TARGET_CANCEL_CODE"
      "\<forall>op \<in> set (permitted t permit UNIV). bound_to_permit permit op"
    and count: "int (length (permitted t permit {SKIPPED}) + length (permitted t permit {RecoveryOperationPhase.CANCELLED})
      + length (permitted t permit {CATALOG_RECORDED, CLEANED})) = rt_planned_operations target"
  shows "terminal_recovery_ready (journal_lister t) permit target = Inr False
    \<and> skipped_recovery_ready (journal_lister t) permit target = Inr False
    \<and> catalog_completion_ready (journal_lister t) permit target = Inr False
    \<and> complete_run_target_after_terminal_recovery load_run required warned cancelled (journal_lister t) permit s =
        (Inr (not_completed (Some run) (Some target) ''RUN_TARGET_TERMINAL_RECOVERY_NOT_READY''), s)
    \<and> complete_run_target_after_catalog_handoffs load_run succeeded (journal_lister t) permit s =
        (Inr (not_completed (Some run) (Some target) ''RUN_TARGET_COMPLETION_COUNTS_MISMATCH''), s)"
proof (intro conjI)
  let ?n = "rt_planned_operations target" and ?C = "RecoveryOperationPhase.CANCELLED"
  let ?len = "\<lambda>P. int (length (permitted t permit P))"
  have count': "?len {SKIPPED} + ?len {?C} + ?len FINISHED_PHASES = ?n" "0 < ?len {SKIPPED}" "0 < ?len {?C}"
    using count ops(1,2) by (simp_all add: FINISHED_PHASES_def)
  then have n: "0 < ?n" "?len {SKIPPED} + ?len FINISHED_PHASES < ?n" "?len {?C} + ?len FINISHED_PHASES < ?n"
    "?len FINISHED_PHASES < ?n" "?len {SKIPPED} \<le> ?n" "?len {?C} \<le> ?n" by linarith+
  have f: "?len FINISHED_PHASES = ?len {CATALOG_RECORDED} + ?len {CLEANED}" by (simp add: length_finished)
  have recorded: "catalog_recorded_count (journal_lister t) permit target = Inr (?len FINISHED_PHASES)"
    using recorded_count_returns [of target t permit] n f by (simp add: permitted_def)
  have counts: "phase_count (journal_lister t) permit SKIPPED (?n + 1) = Inr (?len {SKIPPED})"
    "phase_count (journal_lister t) permit ?C (?n + 1) = Inr (?len {?C})"
    "has_phase (journal_lister t) permit USER_DECISION_REQUIRED (?n + 1) = Inr False"
    using phase_count_returns [of ?n t permit SKIPPED] phase_count_returns [of ?n t permit ?C]
      has_phase_returns [of ?n t permit USER_DECISION_REQUIRED] n ops(3) by (simp_all add: permitted_def)
  show "terminal_recovery_ready (journal_lister t) permit target = Inr False"
    "skipped_recovery_ready (journal_lister t) permit target = Inr False"
    "catalog_completion_ready (journal_lister t) permit target = Inr False"
    using n count'(2,3) by (simp_all add: recorded counts terminal_recovery_ready_def skipped_recovery_ready_def catalog_completion_ready_def)
  have bound: "bound_to_permit permit op" if "op \<in> set (permitted t permit P)" for op P
    using ops(5) that by (simp add: permitted_def target_operations_def)
  obtain skipped where skipped: "terminal_operations (journal_lister t) permit target SKIPPED = Inr skipped"
      "int (length skipped) = ?len {SKIPPED}" "set skipped \<subseteq> set (permitted t permit {SKIPPED})"
    using terminal_operations_returns [OF n(1,5)] by (metis)
  obtain cancels where cancels: "terminal_operations (journal_lister t) permit target ?C = Inr cancels"
      "int (length cancels) = ?len {?C}" "set cancels \<subseteq> set (permitted t permit {?C})"
    using terminal_operations_returns [OF n(1,6)] by (metis)
  obtain finished where don: "cataloged_operations (journal_lister t) permit target = Inr finished"
      "int (length finished) = ?len FINISHED_PHASES" "set finished \<subseteq> set (permitted t permit FINISHED_PHASES)"
    using cataloged_operations_returns [OF n(1) less_imp_le [OF n(4)]] by (metis)
  have decisions: "terminal_operations (journal_lister t) permit target USER_DECISION_REQUIRED = Inr []"
    by (rule terminal_operations_returns [OF n(1), of t permit USER_DECISION_REQUIRED]) (use n(1) ops(3) in simp_all)
  note matches = bound_operations_match [OF bound skipped(3)] bound_operations_match [OF bound cancels(3)]
    bound_finished_match [OF bound don(3)]
  have restored: "filter (\<lambda>op. rop_last_error_code op = Some RESTORED_OLD_TARGET_CANCEL_CODE) cancels = cancels"
    using cancels(3) ops(4) by (auto simp: filter_id_conv)
  have found: "completion_target permit (Some run) = Inr (run, target)" by (rule completion_target_found [OF run(2-5)])
  show "complete_run_target_after_terminal_recovery load_run required warned cancelled (journal_lister t) permit s =
      (Inr (not_completed (Some run) (Some target) ''RUN_TARGET_TERMINAL_RECOVERY_NOT_READY''), s)"
    unfolding complete_run_target_after_terminal_recovery_def
    using run(1) found decisions skipped cancels don matches restored n
    by (simp add: with_terminal_operations_def with_cataloged_operations_def Let_def terminal_operation_mismatch_def)
  show "complete_run_target_after_catalog_handoffs load_run succeeded (journal_lister t) permit s =
      (Inr (not_completed (Some run) (Some target) ''RUN_TARGET_COMPLETION_COUNTS_MISMATCH''), s)"
  proof -
    have "0 \<le> operation_byte_count op" for op
      by (auto simp: operation_byte_count_def payload_byte_count_def split: option.split json.split)
    then have "0 \<le> sum_list (map operation_byte_count finished)" by (intro sum_list_nonneg) auto
    then show ?thesis
      unfolding complete_run_target_after_catalog_handoffs_def
      using run found don matches(3) n
      by (simp add: with_cataloged_operations_def complete_run_target_success_def run_call_def)
  qed
qed

definition ex_mixed :: recovery_tables where
  "ex_mixed = empty_recovery_tables\<lparr>recovery_operations :=
     [\<lparr>ror_operation = ex_done_operation ''o1'' SKIPPED 4, ror_updated_utc = ''u''\<rparr>,
      \<lparr>ror_operation = (ex_done_operation ''o2'' RecoveryOperationPhase.CANCELLED 6)
         \<lparr>rop_last_error_code := Some RESTORED_OLD_TARGET_CANCEL_CODE\<rparr>, ror_updated_utc = ''u''\<rparr>]\<rparr>"

theorem mixed_outcomes_never_complete_witness:
  "\<exists>target. terminal_recovery_ready (journal_lister ex_mixed) ex_permit target = Inr False
    \<and> skipped_recovery_ready (journal_lister ex_mixed) ex_permit target = Inr False"
proof -
  have loads: "case db_load_started_run ''run'' demo_executing of Inr (Some run) \<Rightarrow> sr_state run = RunState.EXECUTING
      \<and> (case target_by_id run ''t1'' of Some target \<Rightarrow> rt_state target = RunTargetState.EXECUTING
          \<and> \<not> target_permit_mismatch target ex_permit \<and> rt_planned_operations target = 2 | None \<Rightarrow> False)
    | _ \<Rightarrow> False"
    by code_simp
  then obtain run target where run: "db_load_started_run ''run'' demo_executing = Inr (Some run)"
      "sr_state run = RunState.EXECUTING" "target_by_id run ''t1'' = Some target"
      "rt_state target = RunTargetState.EXECUTING" "\<not> target_permit_mismatch target ex_permit"
      "rt_planned_operations target = 2"
    by (auto split: sum.splits option.splits)
  have permit: "mp_run_id ex_permit = ''run''" "mp_run_target_id ex_permit = ''t1''" by (simp_all add: ex_permit_def)
  have ops: "length (permitted ex_mixed ex_permit {SKIPPED}) = 1"
    "length (permitted ex_mixed ex_permit {RecoveryOperationPhase.CANCELLED}) = 1"
    "length (permitted ex_mixed ex_permit {CATALOG_RECORDED, CLEANED}) = 0"
    "permitted ex_mixed ex_permit {USER_DECISION_REQUIRED} = []"
    "\<forall>op \<in> set (permitted ex_mixed ex_permit {RecoveryOperationPhase.CANCELLED}).
       rop_last_error_code op = Some RESTORED_OLD_TARGET_CANCEL_CODE"
    "\<forall>op \<in> set (permitted ex_mixed ex_permit UNIV). bound_to_permit ex_permit op"
    by (simp_all add: permitted_def target_operations_def ex_mixed_def ex_done_operation_def ex_permit_def
        bound_to_permit_def operation_matches_terminal_permit_def)
  show ?thesis
    using mixed_outcomes_never_complete [where load_run = db_load_started_run and s = demo_executing and run = run
        and target = target and permit = ex_permit and t = ex_mixed] run ops permit
    by (intro exI [of _ target]) (auto simp flip: length_greater_0_conv)
qed

end
