(* ===== verification/Run_Stop.thy ===== *)
theory Run_Stop
  imports Run_Completion Run_Target_Store
begin

text \<open>
  \<open>application/run_stop.py\<close>: one step of a graceful stop, on the two stores of the program.  The engine holds the
  catalog with the runs and the recovery database with the operations; a call changes one of them at a time.
\<close>

type_synonym engine_state = "catalog \<times> recovery_state"

definition on_catalog :: "(catalog \<Rightarrow> 'a result \<times> catalog) \<Rightarrow> engine_state \<Rightarrow> ('a, engine_state) engine_call" where
  "on_catalog call s =
     (case call (fst s) of
        (Inl e, db) \<Rightarrow> (Inl (Run_Error e), (db, snd s))
      | (Inr a, db) \<Rightarrow> (Inr a, (db, snd s)))"

definition on_recovery ::
  "(recovery_state \<Rightarrow> (recovery_error + 'a) \<times> recovery_state) \<Rightarrow> engine_state \<Rightarrow> ('a, engine_state) engine_call" where
  "on_recovery call s =
     (case call (snd s) of
        (Inl e, rs) \<Rightarrow> (Inl (Recovery_Error e), (fst s, rs))
      | (Inr a, rs) \<Rightarrow> (Inr a, (fst s, rs)))"

text \<open>A query of the recovery database.\<close>

definition ask_recovery :: "(recovery_tables \<Rightarrow> recovery_error + 'a) \<Rightarrow> engine_state \<Rightarrow> ('a, engine_state) engine_call" where
  "ask_recovery query = on_recovery (\<lambda>rs. (query (rc_tables (fst rs)), rs))"

definition engine_then ::
  "('a, engine_state) engine_call \<Rightarrow> ('a \<Rightarrow> engine_state \<Rightarrow> ('b, engine_state) engine_call) \<Rightarrow> ('b, engine_state) engine_call" where
  "engine_then call f = (case call of (Inl e, s) \<Rightarrow> (Inl e, s) | (Inr a, s) \<Rightarrow> f a s)"

section \<open>The outcome of a step\<close>

record RunStopPreparationOutcome =
  rsp_run_id :: "string option"
  rsp_advanced :: bool
  rsp_idle :: bool
  rsp_allow_execution :: bool
  rsp_ready_to_finalize :: bool
  rsp_boundary_run_target_id :: "string option"
  rsp_boundary_operation_id :: "string option"
  rsp_cancelled_operations :: nat
  rsp_target_progress :: "RunTargetStopProgress list"
  rsp_validation_codes :: "string list"

definition stop_outcome :: "string option \<Rightarrow> string option \<Rightarrow> string option \<Rightarrow> RunStopPreparationOutcome" where
  "stop_outcome run_id boundary_run_target_id boundary_operation_id =
     \<lparr>rsp_run_id = run_id, rsp_advanced = False, rsp_idle = False, rsp_allow_execution = False,
      rsp_ready_to_finalize = False, rsp_boundary_run_target_id = boundary_run_target_id,
      rsp_boundary_operation_id = boundary_operation_id, rsp_cancelled_operations = 0,
      rsp_target_progress = [], rsp_validation_codes = []\<rparr>"

definition stop_outcome_of :: "RunStopRequest \<Rightarrow> RunStopPreparationOutcome" where
  "stop_outcome_of request =
     stop_outcome (Some (srq_run_id request)) (srq_boundary_run_target_id request) (srq_boundary_operation_id request)"

definition stop_blocked :: "RunStopRequest \<Rightarrow> string \<Rightarrow> RunStopPreparationOutcome" where
  "stop_blocked request validation_code = (stop_outcome_of request)\<lparr>rsp_validation_codes := [validation_code]\<rparr>"

section \<open>A step\<close>

definition STOP_CANCELLATION_BATCH_SIZE :: int where "STOP_CANCELLATION_BATCH_SIZE = 100"

definition USER_STOP_AFTER_ACTIVE_FILE_CODE :: string where
  "USER_STOP_AFTER_ACTIVE_FILE_CODE = ''USER_STOP_AFTER_ACTIVE_FILE''"

text \<open>What the step is called with: the clock, the recovery store's directory store, the process and the batch.\<close>

record stop_step =
  sst_now :: string
  sst_directory_store :: bool
  sst_process_instance_id :: string
  sst_batch_size :: int

definition boundary_is_safe :: "RecoveryOperation \<Rightarrow> bool" where
  "boundary_is_safe op =
     (if rop_phase op \<in> set RECOVERY_OPERATION_TERMINAL_PHASES then True
      else if rop_phase op \<noteq> CATALOG_RECORDED then False
      else if rop_operation_kind op = CREATE_DIRECTORY then False
      else \<not> (rop_target_precondition_kind op = DIRECTORY_EMPTY \<and> \<not> opt_blank (rop_quarantine_object_id op)))"

definition no_operation_metadata :: RecoveryOperationMetadata where
  "no_operation_metadata =
     \<lparr>rom_source_guard_kind = None, rom_source_guard_evidence_hash = None, rom_source_hash_evidence_kind = None,
      rom_staging_object_id = None, rom_version_object_id = None, rom_version_created_utc = None,
      rom_version_retention_until_utc = None, rom_version_manifest_hash = None, rom_quarantine_object_id = None,
      rom_expected_source_fingerprint_json = None, rom_expected_target_fingerprint_json = None,
      rom_expected_staging_fingerprint_json = None, rom_expected_final_fingerprint_json = None,
      rom_transfer_state = None, rom_assurance_level = None, rom_staging_durability_state = None,
      rom_final_durability_state = None, rom_last_error_code = None\<rparr>"

definition stop_cancellation :: "string \<Rightarrow> RecoveryOperation \<Rightarrow> phase_transition" where
  "stop_cancellation process_instance_id op =
     \<lparr>pt_run_id = rop_run_id op, pt_operation_id = rop_operation_id op, pt_expected_phase = PLANNED,
      pt_next_phase = RecoveryOperationPhase.CANCELLED, pt_process_instance_id = process_instance_id,
      pt_payload = Some [(''reason'', JStr USER_STOP_AFTER_ACTIVE_FILE_CODE), (''stop_mode'', JStr ''AFTER_ACTIVE_FILE'')],
      pt_intent_segment_id = None, pt_intent_ordinal = None, pt_catalog_handoff_id = None,
      pt_operation_metadata =
        Some (no_operation_metadata\<lparr>rom_last_error_code := Some USER_STOP_AFTER_ACTIVE_FILE_CODE\<rparr>)\<rparr>"

text \<open>The loop over a batch; \<open>False\<close> when an operation was changed in between.\<close>

fun cancel_planned :: "stop_step \<Rightarrow> RecoveryOperation list \<Rightarrow> recovery_state \<Rightarrow> (recovery_error + bool) \<times> recovery_state" where
  "cancel_planned q [] rs = (Inr True, rs)"
| "cancel_planned q (op # ops) rs =
     (case record_operation_phase_transition (sst_now q) (sst_directory_store q)
         (stop_cancellation (sst_process_instance_id q) op) rs of
        (Inl e, rs') \<Rightarrow> (Inl e, rs')
      | (Inr None, rs') \<Rightarrow> (Inr False, rs')
      | (Inr (Some updated), rs') \<Rightarrow> cancel_planned q ops rs')"

definition stop_progress :: "RunTargetStopProgress_row \<Rightarrow> RunTargetStopProgress" where
  "stop_progress r = \<lparr>tsp_run_target_id = sp_run_target_id r, tsp_completed_operations = sp_completed_operations r,
     tsp_completed_bytes = sp_completed_bytes r\<rparr>"

definition cancel_or_finalize :: "stop_step \<Rightarrow> RunStopRequest \<Rightarrow> engine_state \<Rightarrow> (RunStopPreparationOutcome, engine_state) engine_call" where
  "cancel_or_finalize q request s =
     engine_then (ask_recovery (list_started_operations_for_run (srq_run_id request) 2) s) (\<lambda>listed s.
     let started = filter (\<lambda>op. Some (rop_operation_id op) \<noteq> srq_boundary_operation_id request) listed in
     if started \<noteq> [] then (Inr (stop_blocked request ''RUN_STOP_UNEXPECTED_ACTIVE_OPERATION''), s)
     else
       engine_then (ask_recovery (list_planned_operations_for_run (srq_run_id request)
           (srq_boundary_operation_id request) (sst_batch_size q)) s) (\<lambda>planned s.
       engine_then (on_recovery (cancel_planned q planned) s) (\<lambda>all_cancelled s.
       if \<not> all_cancelled then (Inr (stop_blocked request ''RUN_STOP_CANCELLATION_STATE_CONFLICT''), s)
       else if planned \<noteq> []
       then (Inr ((stop_outcome_of request)\<lparr>rsp_advanced := True, rsp_cancelled_operations := length planned\<rparr>), s)
       else (Inr ((stop_outcome_of request)\<lparr>rsp_ready_to_finalize := True, rsp_target_progress :=
              map stop_progress (summarize_successful_operations_for_run (srq_run_id request)
                (rc_tables (fst (snd s))))\<rparr>), s))))"

definition bind_boundary ::
  "RunStopRequest \<Rightarrow> RecoveryOperation \<Rightarrow> engine_state \<Rightarrow> (RunStopPreparationOutcome, engine_state) engine_call" where
  "bind_boundary request operation s =
     engine_then (on_catalog (db_bind_requested_run_stop_boundary False (srq_run_id request)
         (rop_run_target_id operation) (rop_operation_id operation)) s) (\<lambda>bound s.
     case bound of
       None \<Rightarrow> (Inr (stop_blocked request ''RUN_STOP_BOUNDARY_STATE_CONFLICT''), s)
     | Some bound_request \<Rightarrow>
         engine_then (on_catalog (db_activate_requested_run_stop False (srq_run_id request)) s) (\<lambda>activated s.
         if activated = None then (Inr (stop_blocked bound_request ''RUN_STOP_ACTIVATION_STATE_CONFLICT''), s)
         else (Inr ((stop_outcome (Some (srq_run_id request)) (Some (rop_run_target_id operation))
           (Some (rop_operation_id operation)))\<lparr>rsp_advanced := True\<rparr>), s)))"

definition advance_boundary ::
  "stop_step \<Rightarrow> RunStopRequest \<Rightarrow> string \<Rightarrow> engine_state \<Rightarrow> (RunStopPreparationOutcome, engine_state) engine_call" where
  "advance_boundary q request boundary_operation_id s =
     engine_then (ask_recovery (load_operation (srq_run_id request) boundary_operation_id) s) (\<lambda>loaded s.
     case loaded of
       None \<Rightarrow> (Inr (stop_blocked request ''RUN_STOP_BOUNDARY_OPERATION_MISSING''), s)
     | Some operation \<Rightarrow>
         if Some (rop_run_target_id operation) \<noteq> srq_boundary_run_target_id request
         then (Inr (stop_blocked request ''RUN_STOP_BOUNDARY_OPERATION_MISSING''), s)
         else if \<not> boundary_is_safe operation
         then engine_then (on_catalog (db_activate_requested_run_stop False (srq_run_id request)) s) (\<lambda>activated s.
           if activated = None then (Inr (stop_blocked request ''RUN_STOP_ACTIVATION_STATE_CONFLICT''), s)
           else (Inr ((stop_outcome_of request)\<lparr>rsp_allow_execution := True\<rparr>), s))
         else cancel_or_finalize q request s)"

definition prepare_next_requested_run_stop ::
  "stop_step \<Rightarrow> engine_state \<Rightarrow> (RunStopPreparationOutcome, engine_state) engine_call" where
  "prepare_next_requested_run_stop q s =
     (case db_load_next_requested_run_stop (fst s) of
        None \<Rightarrow> (Inr ((stop_outcome None None None)\<lparr>rsp_idle := True\<rparr>), s)
      | Some request \<Rightarrow>
          if blank (sst_process_instance_id q)
          then (Inr (stop_blocked request ''RUN_STOP_REQUIRES_PROCESS_INSTANCE''), s)
          else if sst_batch_size q < 1
          then (Inr (stop_blocked request ''RUN_STOP_REQUIRES_POSITIVE_CANCELLATION_BATCH''), s)
          else
            (case srq_boundary_operation_id request of
               None \<Rightarrow>
                 engine_then (ask_recovery (list_started_operations_for_run (srq_run_id request) 2) s) (\<lambda>started s.
                 case started of
                   [] \<Rightarrow> cancel_or_finalize q request s
                 | [operation] \<Rightarrow> bind_boundary request operation s
                 | _ \<Rightarrow> (Inr (stop_blocked request ''RUN_STOP_MULTIPLE_ACTIVE_OPERATIONS''), s))
             | Some boundary_operation_id \<Rightarrow> advance_boundary q request boundary_operation_id s))"

section \<open>The executor's part\<close>

text \<open>
  What \<open>execute_one_run_executor_cycle\<close> does with the step before it does anything else.  When the step is ready
  the leases of the run are released (\<open>release_leases\<close>, the held lease registry) and the run is stopped.  \<open>None\<close>
  means that the cycle goes on to execute.
\<close>

datatype stop_action = Run_Stopped | Stop_Cancellation_Advanced | Stop_Boundary_Bound | Stop_Blocked "string list"

definition advance_requested_run_stop ::
  "(string \<Rightarrow> engine_state \<Rightarrow> (unit, engine_state) engine_call) \<Rightarrow> stop_step \<Rightarrow> engine_state \<Rightarrow>
   (stop_action option, engine_state) engine_call" where
  "advance_requested_run_stop release_leases q s =
     engine_then (prepare_next_requested_run_stop q s) (\<lambda>stopping s.
     if rsp_idle stopping then (Inr None, s)
     else
       (case (if rsp_ready_to_finalize stopping then rsp_run_id stopping else None) of
          Some run_id \<Rightarrow>
            engine_then (release_leases run_id s) (\<lambda>_ s.
            engine_then (on_catalog (db_finalize_requested_run_stop False (sst_now q) run_id
              (rsp_target_progress stopping)) s) (\<lambda>stopped s.
            (Inr (Some (if stopped = None then Stop_Blocked [''RUN_STOP_FINALIZE_STATE_CONFLICT''] else Run_Stopped)), s)))
        | None \<Rightarrow>
            if rsp_advanced stopping
            then (Inr (Some (if rsp_cancelled_operations stopping \<noteq> 0 then Stop_Cancellation_Advanced
                             else Stop_Boundary_Bound)), s)
            else if rsp_validation_codes stopping \<noteq> []
            then (Inr (Some (Stop_Blocked (rsp_validation_codes stopping))), s)
            else (Inr None, s)))"

end
