(* ===== verification/Stop_Laws.thy ===== *)
theory Stop_Laws
  imports Run_Stop Completion_Laws
begin

text \<open>
  What a step of a graceful stop does to the journal: it cancels planned operations one after the other, as long as
  each is bound to a lease that is held.
\<close>

section \<open>Cancelling an operation\<close>

definition cancelled_operation :: "RecoveryOperation \<Rightarrow> RecoveryOperation" where
  "cancelled_operation op = op\<lparr>rop_phase := RecoveryOperationPhase.CANCELLED, rop_staging_retry_backoff_ms := None,
     rop_staging_retry_not_before_utc := None, rop_last_error_code := Some USER_STOP_AFTER_ACTIVE_FILE_CODE\<rparr>"

lemma cancelled_operation_simps [simp]:
  "rop_run_id (cancelled_operation op) = rop_run_id op" "rop_operation_id (cancelled_operation op) = rop_operation_id op"
  "rop_run_target_id (cancelled_operation op) = rop_run_target_id op"
  "rop_phase (cancelled_operation op) = RecoveryOperationPhase.CANCELLED"
  "rop_intent_segment_id (cancelled_operation op) = rop_intent_segment_id op"
  "rop_intent_ordinal (cancelled_operation op) = rop_intent_ordinal op"
  "rop_lease_id (cancelled_operation op) = rop_lease_id op"
  "rop_lease_resource_key (cancelled_operation op) = rop_lease_resource_key op"
  "rop_owner_installation_id (cancelled_operation op) = rop_owner_installation_id op"
  "rop_ownership_epoch (cancelled_operation op) = rop_ownership_epoch op"
  "rop_fencing_token (cancelled_operation op) = rop_fencing_token op"
  "rop_target_endpoint_id (cancelled_operation op) = rop_target_endpoint_id op"
  "rop_final_relative_path (cancelled_operation op) = rop_final_relative_path op"
  "rop_source_guard_evidence_hash (cancelled_operation op) = rop_source_guard_evidence_hash op"
  "rop_source_path_chain_hash (cancelled_operation op) = rop_source_path_chain_hash op"
  "rop_source_case_context_hash (cancelled_operation op) = rop_source_case_context_hash op"
  "rop_expected_target_path_chain_hash (cancelled_operation op) = rop_expected_target_path_chain_hash op"
  by (simp_all add: cancelled_operation_def)

lemma cancelled_operation_valid:
  assumes "validate_recovery_operation op = Inr ()"
  shows "validate_recovery_operation (cancelled_operation op) = Inr ()"
proof -
  have "0 \<le> rop_staging_failure_count op"
    using assms by (auto simp: validate_recovery_operation_def validate_staging_state_def split: if_splits)
  then have "validate_staging_state (cancelled_operation op) = Inr ()"
    by (simp add: validate_staging_state_def cancelled_operation_def validate_staging_retry_persistence_def raise_if_def)
  moreover have "validate_phase_requirements (cancelled_operation op) = Inr ()"
    by (simp add: validate_phase_requirements_def phase_sets)
  moreover have "validate_identity_and_numbers (cancelled_operation op) = validate_identity_and_numbers op"
    by (cases op) (simp only: validate_identity_and_numbers_def cancelled_operation_def RecoveryOperation.simps)
  moreover have "validate_retention (cancelled_operation op) = validate_retention op"
    by (cases op) (simp only: validate_retention_def cancelled_operation_def RecoveryOperation.simps)
  moreover have "validate_source (cancelled_operation op) = validate_source op"
    by (cases op) (simp only: validate_source_def cancelled_operation_def RecoveryOperation.simps)
  ultimately show ?thesis using assms by (simp add: validate_recovery_operation_def)
qed

lemma cancelled_row_ok:
  assumes "recovery_row_ok op"
  shows "recovery_row_ok (cancelled_operation op)"
  using assms by (simp add: recovery_row_ok_def cancelled_operation_def PHASES_REQUIRING_INTENT_def)

lemma cancelled_lease [simp]:
  "require_active_matching_lease (cancelled_operation op) t = require_active_matching_lease op t"
  by (auto simp: require_active_matching_lease_def split: option.split)

lemma stop_cancellation_simps [simp]:
  "pt_run_id (stop_cancellation pid op) = rop_run_id op" "pt_operation_id (stop_cancellation pid op) = rop_operation_id op"
  "pt_expected_phase (stop_cancellation pid op) = PLANNED"
  "pt_next_phase (stop_cancellation pid op) = RecoveryOperationPhase.CANCELLED"
  "pt_process_instance_id (stop_cancellation pid op) = pid"
  by (simp_all add: stop_cancellation_def)

definition stop_payload :: "(string \<times> json) list option" where
  "stop_payload = Some [(''reason'', JStr USER_STOP_AFTER_ACTIVE_FILE_CODE), (''stop_mode'', JStr ''AFTER_ACTIVE_FILE'')]"

lemma stop_cancellation_payload: "pt_payload (stop_cancellation pid op) = stop_payload"
  by (simp add: stop_cancellation_def stop_payload_def)

lemma operation_after_cancellation:
  assumes "validate_recovery_operation op = Inr ()"
  shows "operation_after_transition op (stop_cancellation pid op) = Inr (cancelled_operation op)"
proof -
  have "apply_operation_metadata (op\<lparr>rop_phase := RecoveryOperationPhase.CANCELLED, rop_staging_retry_backoff_ms := None,
      rop_staging_retry_not_before_utc := None\<rparr>) (pt_operation_metadata (stop_cancellation pid op)) = cancelled_operation op"
    by (cases op) (simp add: stop_cancellation_def no_operation_metadata_def apply_operation_metadata_def or_else_def
        cancelled_operation_def)
  then show ?thesis
    using cancelled_operation_valid [OF assms]
    by (simp add: operation_after_transition_def transition_bindings_def stop_cancellation_def raising_def Let_def)
qed

definition lease_held :: "recovery_tables \<Rightarrow> RecoveryOperation \<Rightarrow> bool" where
  "lease_held t op \<longleftrightarrow> require_active_matching_lease op t = Inr ()"

lemma lease_not_held:
  "\<not> lease_held t op \<longleftrightarrow> require_active_matching_lease op t = Inl (Operation_Store_Error ''RECOVERY_OPERATION_LEASE_MISMATCH'')"
  by (auto simp: lease_held_def require_active_matching_lease_def split: option.split)

lemma lease_held_reference: "lease_held t op \<Longrightarrow> list_ex (\<lambda>l. rl_lease_id l = rop_lease_id op) (resource_leases t)"
  unfolding lease_held_def require_active_matching_lease_def list_ex_iff
  by (auto split: option.splits dest: find_Some_iff')

definition cancelled_tables :: "stop_step \<Rightarrow> RecoveryOperation \<Rightarrow> recovery_tables \<Rightarrow> recovery_tables" where
  "cancelled_tables q op =
     change_operation (sst_now q) PLANNED (cancelled_operation op) (sst_process_instance_id q) stop_payload"

lemma find_row_of:
  assumes "distinct (map row_key rows)" "r \<in> set rows"
  shows "List.find (at_operation (rop_run_id (ror_operation r)) (rop_operation_id (ror_operation r))) rows = Some r"
  by (rule find_unique [OF assms(2)])
    (use distinct_key_eq [OF assms(1)] assms(2) in \<open>auto simp: at_operation_key row_key_def\<close>)

lemma map_filter_updated:
  assumes "\<And>x. x \<in> set xs \<Longrightarrow> p x \<Longrightarrow> g (f x) = g x"
  shows "List.map_filter g (map (\<lambda>x. if p x then f x else x) xs) = List.map_filter g xs"
  using assms by (induction xs) (auto simp: map_filter_simps split: option.split)

text \<open>The update of a cancellation is admitted.\<close>

lemma cancellation_update:
  assumes inv: "journal_inv t" "rows_admitted t" and r: "r \<in> set (recovery_operations t)"
    and planned: "rop_phase (ror_operation r) = PLANNED" and held: "lease_held t (ror_operation r)"
  defines "op \<equiv> ror_operation r"
  shows "update_operations (\<lambda>x. rop_run_id x = rop_run_id op \<and> rop_operation_id x = rop_operation_id op \<and> rop_phase x = PLANNED)
     (set_transition_columns now (cancelled_operation op)) t =
     (Returns 1, t\<lparr>recovery_operations := with_operation now (cancelled_operation op) (recovery_operations t)\<rparr>)"
proof -
  let ?p = "\<lambda>x. rop_run_id x = rop_run_id op \<and> rop_operation_id x = rop_operation_id op \<and> rop_phase x = PLANNED"
  let ?f = "set_transition_columns now (cancelled_operation op)"
  have d: "distinct (map row_key (recovery_operations t))" and sound: "operation_sound (map isr_segment (intent_segments t)) op"
    using inv(1) r by (auto simp: journal_inv_def op_def)
  have only: "x = r" if "x \<in> set (recovery_operations t)" "?p (ror_operation x)" for x
    by (rule distinct_key_eq [OF d that(1) r]) (use that(2) in \<open>simp add: row_key_def op_def\<close>)
  have f: "?f r = r\<lparr>ror_operation := cancelled_operation op, ror_updated_utc := now\<rparr>"
    using transition_columns_are_complete [of r "stop_cancellation [] op" "cancelled_operation op" now]
      operation_after_cancellation sound by (simp add: operation_sound_def op_def)
  have no_segment: "rop_intent_segment_id op = None"
    using sound planned by (simp add: operation_sound_def PRE_COMMIT_LEASE_REBIND_PHASES_def op_def)
  have ok: "recovery_row_ok (ror_operation (?f x)) \<and> recovery_row_references_ok t (ror_operation (?f x))"
    if "x \<in> set (recovery_operations t)" "?p (ror_operation x)" for x
    unfolding only [OF that] f
    using cancelled_row_ok inv(2) r lease_held_reference [OF held] no_segment
    by (auto simp: rows_admitted_def recovery_row_references_ok_def op_def cancelled_operation_def)
  have "intent_place (?f x) = intent_place x" if "x \<in> set (recovery_operations t)" "?p (ror_operation x)" for x
    unfolding only [OF that] f by (simp add: intent_place_def op_def)
  then have "List.map_filter intent_place (sql_update (\<lambda>x. ?p (ror_operation x)) ?f (recovery_operations t)) =
      List.map_filter intent_place (recovery_operations t)"
    unfolding sql_update_def by (intro map_filter_updated) blast
  then have unique: "intent_places_unique (sql_update (\<lambda>x. ?p (ror_operation x)) ?f (recovery_operations t))"
    using inv(2) by (simp add: intent_places_unique_def rows_admitted_def)
  have "update_operations ?p ?f t \<in> {(Raises Integrity_Error, t),
      (Returns 1, t\<lparr>recovery_operations := with_operation now (cancelled_operation op) (recovery_operations t)\<rparr>)}"
    by (rule update_operations_one [OF d r]) (use planned f in \<open>auto simp: row_key_def op_def\<close>)
  moreover have "fst (update_operations ?p ?f t) \<noteq> Raises Integrity_Error"
    using ok unique by (auto simp: update_operations_def list_all_iff Let_def)
  ultimately show ?thesis by auto
qed

lemma cancellation_work:
  assumes inv: "journal_inv t" "rows_admitted t" and r: "r \<in> set (recovery_operations t)"
    and planned: "rop_phase (ror_operation r) = PLANNED"
  defines "op \<equiv> ror_operation r"
  shows "phase_transition_work (sst_now q) ds (stop_cancellation (sst_process_instance_id q) op) t =
    (if lease_held t op then (Returns (cancelled_operation op), cancelled_tables q op t)
     else (Raises (Operation_Store_Error ''RECOVERY_OPERATION_LEASE_MISMATCH''), t))"
proof -
  let ?c = "stop_cancellation (sst_process_instance_id q) op"
  have d: "distinct (map row_key (recovery_operations t))" and valid: "validate_recovery_operation op = Inr ()"
    using inv(1) r by (auto simp: journal_inv_def op_def operation_sound_def)
  note found = find_row_of [OF d r, folded op_def]
  have [simp]: "ror_operation r = op" by (simp add: op_def)
  show ?thesis
  proof (cases "lease_held t op")
    case False
    then show ?thesis
      using found planned operation_after_cancellation [OF valid] lease_not_held [THEN iffD1, OF False]
      by (simp add: phase_transition_work_def work_then_check)
  next
    case True
    let ?t1 = "t\<lparr>recovery_operations := with_operation (sst_now q) (cancelled_operation op) (recovery_operations t)\<rparr>"
    let ?row = "r\<lparr>ror_operation := cancelled_operation op, ror_updated_utc := sst_now q\<rparr>"
    have row: "?row \<in> set (recovery_operations ?t1)" "row_key ?row = (rop_run_id op, rop_operation_id op)"
      using r by (force simp: with_operation_def sql_update_def at_operation_def row_key_def)+
    have keys: "map row_key (recovery_operations ?t1) = map row_key (recovery_operations t)"
      by (simp add: with_operation_keys)
    have app: "append_event (sst_now q) (rop_run_id op) (rop_operation_id op) (Some PLANNED)
        RecoveryOperationPhase.CANCELLED (sst_process_instance_id q) stop_payload ?t1 = (Returns (), cancelled_tables q op t)"
      using append_event_returns [of ?t1 "rop_run_id op" "rop_operation_id op" "sst_now q" "Some PLANNED"
          RecoveryOperationPhase.CANCELLED "sst_process_instance_id q" stop_payload] inv(1) row
      by (auto simp: journal_inv_def cancelled_tables_def change_operation_def Let_def)
    have "recovery_operations (cancelled_tables q op t) = recovery_operations ?t1"
      by (simp add: cancelled_tables_def change_operation_def Let_def)
    then have "List.find (at_operation (rop_run_id op) (rop_operation_id op)) (recovery_operations (cancelled_tables q op t)) = Some ?row"
      using find_row_of [OF _ row(1)] d keys by simp
    then show ?thesis
      using True found planned operation_after_cancellation [OF valid] app
        cancellation_update [OF inv r planned, folded op_def, OF True, of "sst_now q"]
      by (simp add: phase_transition_work_def work_then_check work_then_returns lease_held_def one_row_def
          load_recorded_operation_def work_check_def stop_cancellation_payload)
  qed
qed

section \<open>Cancelling a batch\<close>

definition op_key :: "RecoveryOperation \<Rightarrow> string \<times> string" where
  "op_key op = (rop_run_id op, rop_operation_id op)"

lemma row_key_op: "row_key r = op_key (ror_operation r)"
  by (simp add: row_key_def op_key_def)

lemma op_key_cancelled [simp]: "op_key (cancelled_operation op) = op_key op"
  by (simp add: op_key_def)

lemma cancelled_twice [simp]: "cancelled_operation (cancelled_operation op) = cancelled_operation op"
  by (simp add: cancelled_operation_def)

definition cancel_row :: "string \<Rightarrow> (string \<times> string) set \<Rightarrow> recovery_operation_row \<Rightarrow> recovery_operation_row" where
  "cancel_row now keys r = (if row_key r \<in> keys
     then r\<lparr>ror_operation := cancelled_operation (ror_operation r), ror_updated_utc := now\<rparr> else r)"

lemma cancel_row_key [simp]: "row_key (cancel_row now keys r) = row_key r"
  by (simp add: cancel_row_def row_key_def)

lemma cancel_row_none [simp]: "cancel_row now {} = (\<lambda>r. r)"
  by (simp add: cancel_row_def fun_eq_iff)

lemma cancel_rows_again: "map (cancel_row now K) (map (cancel_row now L) rows) = map (cancel_row now (L \<union> K)) rows"
  by (auto simp: cancel_row_def row_key_op)

lemma cancelled_tables_frame:
  assumes "distinct (map row_key (recovery_operations t))" "r \<in> set (recovery_operations t)"
  shows "recovery_operations (cancelled_tables q (ror_operation r) t) =
      map (cancel_row (sst_now q) {op_key (ror_operation r)}) (recovery_operations t)"
    "resource_leases (cancelled_tables q (ror_operation r) t) = resource_leases t"
proof -
  have "x = r" if "x \<in> set (recovery_operations t)" "row_key x = op_key (ror_operation r)" for x
    by (rule distinct_key_eq [OF assms(1) that(1) assms(2)]) (use that(2) in \<open>simp add: row_key_op\<close>)
  then show "recovery_operations (cancelled_tables q (ror_operation r) t) =
      map (cancel_row (sst_now q) {op_key (ror_operation r)}) (recovery_operations t)"
    by (auto simp: cancelled_tables_def change_operation_def with_operation_def sql_update_def at_operation_key
        cancel_row_def op_key_def Let_def)
qed (simp add: cancelled_tables_def)

lemma cancellation_call:
  assumes c: "\<not> in_transaction c" "recovery_inv (rc_tables c)" and pid: "\<not> blank (sst_process_instance_id q)"
    and r: "r \<in> set (recovery_operations (rc_tables c))" "rop_phase (ror_operation r) = PLANNED"
  defines "op \<equiv> ror_operation r"
  shows "record_operation_phase_transition (sst_now q) ds (stop_cancellation (sst_process_instance_id q) op) (c, dl) =
    (if lease_held (rc_tables c) op
     then (Inr (Some (cancelled_operation op)),
           (\<lparr>rc_tables = cancelled_tables q op (rc_tables c), rc_begun = None\<rparr>,
            dl((strip (rop_run_id op), strip (rop_operation_id op)) := None)))
     else (Inl (Operation_Store_Error ''RECOVERY_OPERATION_LEASE_MISMATCH''), (c, dl)))"
proof -
  let ?c = "stop_cancellation (sst_process_instance_id q) op"
  have inv: "journal_inv (rc_tables c)" "rows_admitted (rc_tables c)" using c(2) by (simp_all add: recovery_inv_def)
  have "validate_recovery_operation op = Inr ()" using inv(1) r(1) by (auto simp: journal_inv_def op_def operation_sound_def)
  then have ids: "\<not> blank (rop_run_id op)" "\<not> blank (rop_operation_id op)"
    by (auto simp: validate_recovery_operation_def validate_identity_and_numbers_def split: if_splits)
  have legal: "validate_recovery_phase_transition PLANNED RecoveryOperationPhase.CANCELLED = Inr ()" by code_simp
  note work = cancellation_work [OF inv r, folded op_def, of q ds]
  note alone = transaction_alone [where body = "phase_transition_work (sst_now q) ds ?c" and translate = recovery_handlers,
      OF c(1)]
  show ?thesis
  proof (cases "lease_held (rc_tables c) op")
    case True
    then show ?thesis
      using alone(1) [OF work [unfolded if_P [OF True]] refl] ids pid legal
      by (simp add: record_operation_phase_transition_def raising_def validate_process_instance_id_def staging_discard_def
          operation_key_def)
  next
    case False
    then show ?thesis
      using alone(3) [OF work [unfolded if_not_P [OF False]] refl] pid legal
      by (simp add: record_operation_phase_transition_def raising_def validate_process_instance_id_def recovery_handlers_def)
  qed
qed

lemma cancellation_keeps:
  assumes c: "\<not> in_transaction c" "recovery_inv (rc_tables c)" "\<not> blank (sst_process_instance_id q)"
    and r: "r \<in> set (recovery_operations (rc_tables c))" "rop_phase (ror_operation r) = PLANNED"
    and held: "lease_held (rc_tables c) (ror_operation r)"
  shows "recovery_inv (cancelled_tables q (ror_operation r) (rc_tables c))"
proof -
  have "connection_inv recovery_inv c" using c by (auto simp: connection_inv_def in_transaction_def split: option.split)
  then show ?thesis
    using recovery_call_keeps [OF moves_operation [of "(c, Map.empty)" "sst_now q" True
          "stop_cancellation (sst_process_instance_id q) (ror_operation r)"]]
      cancellation_call [OF c r, of True Map.empty] held
    by (simp add: connection_inv_def)
qed

text \<open>A batch is cancelled up to the first operation whose lease is not held.\<close>

lemma cancel_planned_effect:
  assumes "\<not> in_transaction c" "recovery_inv (rc_tables c)" "\<not> blank (sst_process_instance_id q)"
    and "distinct (map op_key ops)"
    and "\<And>op. op \<in> set ops \<Longrightarrow> rop_phase op = PLANNED \<and> op \<in> ror_operation ` set (recovery_operations (rc_tables c))"
  defines "held \<equiv> takeWhile (lease_held (rc_tables c)) ops"
  shows "\<exists>t dl'. cancel_planned q ops (c, dl) =
      (if held = ops then Inr True else Inl (Operation_Store_Error ''RECOVERY_OPERATION_LEASE_MISMATCH''),
       (\<lparr>rc_tables = t, rc_begun = None\<rparr>, dl'))
    \<and> recovery_operations t = map (cancel_row (sst_now q) (op_key ` set held)) (recovery_operations (rc_tables c))
    \<and> resource_leases t = resource_leases (rc_tables c) \<and> recovery_inv t \<and> (held = [] \<longrightarrow> t = rc_tables c \<and> dl' = dl)"
  using assms(1,2,4,5) unfolding held_def
proof (induction ops arbitrary: c dl)
  case Nil
  have "c = \<lparr>rc_tables = rc_tables c, rc_begun = None\<rparr>" using Nil(1) by (cases c) (simp add: in_transaction_def)
  then show ?case using Nil(2) by (intro exI [of _ "rc_tables c"] exI [of _ dl]) simp
next
  case (Cons op ops)
  obtain r where r: "r \<in> set (recovery_operations (rc_tables c))" "ror_operation r = op" "rop_phase op = PLANNED"
    using Cons.prems(4) [of op] by auto
  note call = cancellation_call [OF Cons.prems(1,2) assms(3) r(1), unfolded r(2), OF r(3), of "sst_directory_store q" dl]
  show ?case
  proof (cases "lease_held (rc_tables c) op")
    case False
    have "c = \<lparr>rc_tables = rc_tables c, rc_begun = None\<rparr>" using Cons.prems(1) by (cases c) (simp add: in_transaction_def)
    then show ?thesis
      using False call Cons.prems(2) by (intro exI [of _ "rc_tables c"] exI [of _ dl]) simp
  next
    case True
    let ?t1 = "cancelled_tables q op (rc_tables c)"
    let ?c1 = "\<lparr>rc_tables = ?t1, rc_begun = None\<rparr>"
    have d: "distinct (map row_key (recovery_operations (rc_tables c)))"
      using Cons.prems(2) by (simp add: recovery_inv_def journal_inv_def)
    note frame = cancelled_tables_frame [OF d r(1), of q, unfolded r(2)]
    have inv: "recovery_inv ?t1"
      using cancellation_keeps [OF Cons.prems(1,2) assms(3) r(1), unfolded r(2), OF r(3) True] .
    have same: "lease_held ?t1 = lease_held (rc_tables c)"
      using require_lease_cong [OF frame(2)] by (simp add: lease_held_def fun_eq_iff)
    let ?dl1 = "dl((strip (rop_run_id op), strip (rop_operation_id op)) := None)"
    have later: "rop_phase x = PLANNED \<and> x \<in> ror_operation ` set (recovery_operations (rc_tables ?c1))" if x: "x \<in> set ops" for x
    proof -
      obtain y where y: "y \<in> set (recovery_operations (rc_tables c))" "ror_operation y = x" "rop_phase x = PLANNED"
        using Cons.prems(4) [of x] x by auto
      have "op_key x \<noteq> op_key op" using Cons.prems(3) x by (metis distinct.simps(2) image_eqI list.set_map list.simps(9))
      then have "cancel_row (sst_now q) {op_key op} y = y" using y(2) by (simp add: cancel_row_def row_key_op)
      then have "y \<in> set (recovery_operations ?t1)" using y(1) unfolding frame(1) by (metis image_eqI set_map)
      then show ?thesis using y by auto
    qed
    have "\<not> in_transaction ?c1" "recovery_inv (rc_tables ?c1)" "distinct (map op_key ops)"
      using inv Cons.prems(3) by (simp_all add: in_transaction_def)
    from Cons.IH [OF this later, of ?dl1]
    obtain t dl' where IH: "cancel_planned q ops (?c1, ?dl1) =
        (if takeWhile (lease_held ?t1) ops = ops then Inr True
         else Inl (Operation_Store_Error ''RECOVERY_OPERATION_LEASE_MISMATCH''), (\<lparr>rc_tables = t, rc_begun = None\<rparr>, dl'))"
      "recovery_operations t = map (cancel_row (sst_now q) (op_key ` set (takeWhile (lease_held ?t1) ops))) (recovery_operations ?t1)"
      "resource_leases t = resource_leases ?t1" "recovery_inv t"
      by (metis (no_types, lifting) recovery_connection.select_convs(1))
    have rows: "recovery_operations t = map (cancel_row (sst_now q)
        (insert (op_key op) (op_key ` set (takeWhile (lease_held (rc_tables c)) ops)))) (recovery_operations (rc_tables c))"
      using IH(2) cancel_rows_again [of "sst_now q" _ "{op_key op}"] by (simp add: frame(1) same)
    show ?thesis
      using IH(1,3,4) call True rows frame(2)
      by (intro exI [of _ t] exI [of _ dl']) (simp add: same)
  qed
qed

section \<open>A step\<close>

lemma engine_then_simps [simp]:
  "engine_then (Inl e, s) f = (Inl e, s)" "engine_then (Inr a, s) f = f a s"
  by (simp_all add: engine_then_def)

lemma ask_recovery_returns:
  "query (rc_tables (fst rs)) = Inr a \<Longrightarrow> ask_recovery query (db, rs) = (Inr a, (db, rs))"
  by (simp add: ask_recovery_def on_recovery_def)

definition started_of :: "recovery_tables \<Rightarrow> string \<Rightarrow> RecoveryOperation list" where
  "started_of t run_id = filter (\<lambda>op. rop_run_id op = run_id \<and> rop_phase op \<noteq> PLANNED
     \<and> rop_phase op \<notin> set RECOVERY_OPERATION_TERMINAL_PHASES) (map ror_operation (recovery_operations t))"

definition planned_of :: "recovery_tables \<Rightarrow> RunStopRequest \<Rightarrow> RecoveryOperation list" where
  "planned_of t request = filter (\<lambda>op. rop_run_id op = srq_run_id request \<and> rop_phase op = PLANNED
     \<and> Some (rop_operation_id op) \<noteq> srq_boundary_operation_id request) (map ror_operation (recovery_operations t))"

lemma listed_multiset:
  assumes "1 \<le> n"
  shows "\<exists>ops. list_operations (\<lambda>r. P (ror_operation r)) order n t = Inr (take (nat n) ops)
    \<and> mset ops = mset (filter P (map ror_operation (recovery_operations t)))"
  by (rule exI, rule conjI, rule list_operations_returns [OF assms], rule mset_sorted_operations)

lemma stop_listings:
  shows "\<exists>ops. list_started_operations_for_run i 2 t = Inr (take 2 ops) \<and> mset ops = mset (started_of t i)"
    and "1 \<le> n \<Longrightarrow> \<exists>ops. list_planned_operations_for_run (srq_run_id request) (srq_boundary_operation_id request) n t =
        Inr (take (nat n) ops) \<and> mset ops = mset (planned_of t request)"
  using listed_multiset [of 2 "\<lambda>op. rop_run_id op = i \<and> rop_phase op \<noteq> PLANNED \<and> rop_phase op \<notin> set RECOVERY_OPERATION_TERMINAL_PHASES"]
    listed_multiset [of n "\<lambda>op. rop_run_id op = srq_run_id request \<and> rop_phase op = PLANNED
    \<and> Some (rop_operation_id op) \<noteq> srq_boundary_operation_id request"]
  unfolding list_started_operations_for_run_def started_of_def list_planned_operations_for_run_def planned_of_def
  by (simp_all del: mset_map mset_filter)

lemma distinct_op_keys:
  assumes "journal_inv t" "mset ops = mset (filter P (map ror_operation (recovery_operations t)))"
  shows "distinct (map op_key (take n ops))"
proof -
  have "map op_key (map ror_operation (recovery_operations t)) = map row_key (recovery_operations t)"
    by (simp add: row_key_op)
  then have "distinct (map op_key (filter P (map ror_operation (recovery_operations t))))"
    using assms(1) by (metis distinct_map_filter journal_inv_def)
  then have "distinct (map op_key ops)" using assms(2) by (metis mset_eq_imp_distinct_iff mset_map)
  then show ?thesis by (metis distinct_take take_map)
qed

text \<open>What a step leaves: some planned operations cancelled, nothing else changed.\<close>

definition stop_effect :: "stop_step \<Rightarrow> (string \<times> string) set \<Rightarrow> recovery_tables \<Rightarrow> recovery_tables \<Rightarrow> bool" where
  "stop_effect q K t t' \<longleftrightarrow>
     recovery_operations t' = map (cancel_row (sst_now q) K) (recovery_operations t)
     \<and> resource_leases t' = resource_leases t \<and> recovery_inv t'"

lemma stop_effect_none [simp]: "recovery_inv t \<Longrightarrow> stop_effect q {} t t"
  by (simp add: stop_effect_def)

definition first_planned :: "stop_step \<Rightarrow> RunStopRequest \<Rightarrow> recovery_tables \<Rightarrow> RecoveryOperation list" where
  "first_planned q request t =
     (case list_planned_operations_for_run (srq_run_id request) (srq_boundary_operation_id request) (sst_batch_size q) t of
        Inr ops \<Rightarrow> ops | Inl e \<Rightarrow> [])"

lemma first_planned_listed:
  assumes "journal_inv t" "1 \<le> sst_batch_size q"
  shows "list_planned_operations_for_run (srq_run_id request) (srq_boundary_operation_id request) (sst_batch_size q) t =
      Inr (first_planned q request t)"
    "set (first_planned q request t) \<subseteq> set (planned_of t request)"
    "first_planned q request t = [] \<longleftrightarrow> planned_of t request = []" "distinct (map op_key (first_planned q request t))"
    "length (first_planned q request t) = min (nat (sst_batch_size q)) (length (planned_of t request))"
proof -
  obtain ops where ops: "list_planned_operations_for_run (srq_run_id request) (srq_boundary_operation_id request)
      (sst_batch_size q) t = Inr (take (nat (sst_batch_size q)) ops)" "mset ops = mset (planned_of t request)"
    using stop_listings(2) [OF assms(2)] by blast
  have f: "first_planned q request t = take (nat (sst_batch_size q)) ops" by (simp add: first_planned_def ops(1))
  show "list_planned_operations_for_run (srq_run_id request) (srq_boundary_operation_id request) (sst_batch_size q) t =
      Inr (first_planned q request t)" using ops(1) f by simp
  show "set (first_planned q request t) \<subseteq> set (planned_of t request)"
    using mset_eq_setD [OF ops(2)] by (auto simp: f dest: in_set_takeD)
  have "nat (sst_batch_size q) \<noteq> 0" using assms(2) by simp
  then show "first_planned q request t = [] \<longleftrightarrow> planned_of t request = []"
    using ops(2) unfolding f by (metis mset_zero_iff take_eq_Nil)
  show "distinct (map op_key (first_planned q request t))"
    unfolding f by (rule distinct_op_keys [OF assms(1) ops(2) [unfolded planned_of_def]])
  show "length (first_planned q request t) = min (nat (sst_batch_size q)) (length (planned_of t request))"
    unfolding f using mset_eq_length [OF ops(2)] by simp
qed

lemma cancel_first_planned:
  fixes request :: RunStopRequest
  assumes c: "\<not> in_transaction c" "recovery_inv (rc_tables c)" "\<not> blank (sst_process_instance_id q)" "1 \<le> sst_batch_size q"
  defines "ops \<equiv> first_planned q request (rc_tables c)"
  shows "\<exists>t dl'. cancel_planned q ops (c, dl) =
      (if list_all (lease_held (rc_tables c)) ops then Inr True
       else Inl (Operation_Store_Error ''RECOVERY_OPERATION_LEASE_MISMATCH''), (\<lparr>rc_tables = t, rc_begun = None\<rparr>, dl'))
    \<and> stop_effect q (op_key ` set (takeWhile (lease_held (rc_tables c)) ops)) (rc_tables c) t
    \<and> (takeWhile (lease_held (rc_tables c)) ops = [] \<longrightarrow> t = rc_tables c \<and> dl' = dl)"
proof -
  have "journal_inv (rc_tables c)" using c(2) by (simp add: recovery_inv_def)
  note listed = first_planned_listed [OF this c(4), of request, folded ops_def]
  have "rop_phase op = PLANNED \<and> op \<in> ror_operation ` set (recovery_operations (rc_tables c))" if "op \<in> set ops" for op
    using listed(2) that by (auto simp: planned_of_def)
  from cancel_planned_effect [OF c(1-3) listed(4) this, of dl]
  show ?thesis by (auto simp: stop_effect_def list_all_iff)
qed

end
