(* ===== verification/Stop_Steps.thy ===== *)
theory Stop_Steps
  imports Stop_Laws
begin

text \<open>
  What one step of a graceful stop answers and leaves, and how far the steps of several cycles get.
\<close>

section \<open>Cancelling or finalizing\<close>

definition other_started :: "recovery_tables \<Rightarrow> RunStopRequest \<Rightarrow> RecoveryOperation list" where
  "other_started t request = filter (\<lambda>op. Some (rop_operation_id op) \<noteq> srq_boundary_operation_id request)
     (started_of t (srq_run_id request))"

text \<open>Two rows are enough to see an operation that is not the boundary.\<close>

lemma listed_others:
  assumes "journal_inv t" "mset ops = mset (started_of t i)"
  shows "filter (\<lambda>op. Some (rop_operation_id op) \<noteq> b) (take 2 ops) = [] \<longleftrightarrow>
    filter (\<lambda>op. Some (rop_operation_id op) \<noteq> b) (started_of t i) = []"
proof -
  let ?other = "\<lambda>op. Some (rop_operation_id op) \<noteq> b"
  have run: "rop_run_id op = i" if "op \<in> set ops" for op
    using that mset_eq_setD [OF assms(2)] by (auto simp: started_of_def)
  have d: "distinct (map op_key ops)"
    using distinct_op_keys [OF assms(1) assms(2) [unfolded started_of_def], of "length ops"] by simp
  have "filter ?other (take 2 ops) = [] \<longleftrightarrow> filter ?other ops = []"
  proof (cases "length ops \<le> 1")
    case True
    then show ?thesis by simp
  next
    case False
    then obtain x xs where x: "ops = x # xs" by (cases ops) simp_all
    with False obtain y zs where "xs = y # zs" by (cases xs) simp_all
    then have xy: "ops = x # y # zs" using x by simp
    have first: "{x, y} \<subseteq> set (take 2 ops)" "{x, y} \<subseteq> set ops" unfolding xy by simp_all
    then have "rop_run_id x = i" "rop_run_id y = i" using run by blast+
    moreover have "op_key x \<noteq> op_key y" using d unfolding xy by simp
    ultimately have "rop_operation_id x \<noteq> rop_operation_id y" unfolding op_key_def by metis
    then obtain z where "z \<in> {x, y}" and z: "?other z" by (metis insertCI option.inject)
    then have "z \<in> set (take 2 ops)" "z \<in> set ops" using first by blast+
    then show ?thesis using z unfolding filter_empty_conv by blast
  qed
  moreover have "filter ?other ops = [] \<longleftrightarrow> filter ?other (started_of t i) = []"
    using mset_eq_setD [OF assms(2)] by (simp add: filter_empty_conv)
  ultimately show ?thesis by simp
qed

definition stop_ready :: "RunStopRequest \<Rightarrow> recovery_tables \<Rightarrow> RunStopPreparationOutcome" where
  "stop_ready request t = (stop_outcome_of request)\<lparr>rsp_ready_to_finalize := True, rsp_target_progress :=
     map stop_progress (summarize_successful_operations_for_run (srq_run_id request) t)\<rparr>"

definition cancellation_answer ::
  "stop_step \<Rightarrow> RunStopRequest \<Rightarrow> recovery_tables \<Rightarrow> engine_error + RunStopPreparationOutcome" where
  "cancellation_answer q request t =
     (if other_started t request \<noteq> [] then Inr (stop_blocked request ''RUN_STOP_UNEXPECTED_ACTIVE_OPERATION'')
      else if planned_of t request = [] then Inr (stop_ready request t)
      else if list_all (lease_held t) (first_planned q request t)
      then Inr ((stop_outcome_of request)\<lparr>rsp_advanced := True, rsp_cancelled_operations := length (first_planned q request t)\<rparr>)
      else Inl (Recovery_Error (Operation_Store_Error ''RECOVERY_OPERATION_LEASE_MISMATCH'')))"

definition cancels :: "stop_step \<Rightarrow> RunStopRequest \<Rightarrow> recovery_tables \<Rightarrow> RecoveryOperation list" where
  "cancels q request t =
     (if other_started t request \<noteq> [] then [] else takeWhile (lease_held t) (first_planned q request t))"

lemma cancels_planned:
  assumes "journal_inv t" "1 \<le> sst_batch_size q" "op \<in> set (cancels q request t)"
  shows "op \<in> set (planned_of t request)" "lease_held t op"
  using assms(3) first_planned_listed(2) [OF assms(1,2), of request]
  by (auto simp: cancels_def split: if_splits dest: set_takeWhileD)

lemma cancel_or_finalize_result:
  assumes c: "\<not> in_transaction c" "recovery_inv (rc_tables c)" "\<not> blank (sst_process_instance_id q)" "1 \<le> sst_batch_size q"
  defines "t \<equiv> rc_tables c"
  obtains t' dl' where "cancel_or_finalize q request (db, (c, dl)) =
      (cancellation_answer q request t, (db, (\<lparr>rc_tables = t', rc_begun = None\<rparr>, dl')))"
    "stop_effect q (op_key ` set (cancels q request t)) t t'" "cancels q request t = [] \<Longrightarrow> t' = t \<and> dl' = dl"
proof -
  have inv: "journal_inv t" "recovery_inv t" using c(2) by (simp_all add: t_def recovery_inv_def)
  have c_is: "c = \<lparr>rc_tables = t, rc_begun = None\<rparr>" using c(1) by (cases c) (simp add: t_def in_transaction_def)
  obtain ops where ops: "list_started_operations_for_run (srq_run_id request) 2 t = Inr (take 2 ops)"
      "mset ops = mset (started_of t (srq_run_id request))"
    using stop_listings(1) by blast
  have asked: "ask_recovery (list_started_operations_for_run (srq_run_id request) 2) (db, c, dl) = (Inr (take 2 ops), (db, c, dl))"
    using ops(1) by (simp add: ask_recovery_returns t_def)
  have others: "filter (\<lambda>op. Some (rop_operation_id op) \<noteq> srq_boundary_operation_id request) (take 2 ops) \<noteq> [] \<longleftrightarrow>
      other_started t request \<noteq> []"
    unfolding other_started_def by (simp only: listed_others [OF inv(1) ops(2)])
  note first = first_planned_listed [OF inv(1) c(4), of request]
  have listed: "ask_recovery (list_planned_operations_for_run (srq_run_id request) (srq_boundary_operation_id request)
      (sst_batch_size q)) (db, c, dl) = (Inr (first_planned q request t), (db, c, dl))"
    using first(1) by (simp add: ask_recovery_returns t_def)
  show thesis
  proof (cases "other_started t request \<noteq> []")
    case True
    have "cancel_or_finalize q request (db, (c, dl)) = (cancellation_answer q request t, (db, (c, dl)))"
      unfolding cancel_or_finalize_def by (simp only: asked engine_then_simps Let_def others True if_True)
        (simp add: cancellation_answer_def True)
    then show thesis using that [of t dl] c_is inv(2) True by (simp add: cancels_def)
  next
    case False
    have k: "cancels q request t = takeWhile (lease_held t) (first_planned q request t)"
      using False by (simp add: cancels_def)
    obtain t' dl' where cancelled: "cancel_planned q (first_planned q request t) (c, dl) =
        (if list_all (lease_held t) (first_planned q request t) then Inr True
         else Inl (Operation_Store_Error ''RECOVERY_OPERATION_LEASE_MISMATCH''), (\<lparr>rc_tables = t', rc_begun = None\<rparr>, dl'))"
        "stop_effect q (op_key ` set (cancels q request t)) t t'" "cancels q request t = [] \<Longrightarrow> t' = t \<and> dl' = dl"
      using cancel_first_planned [OF c, of request dl, folded t_def] unfolding k by blast
    have same: "t' = t" if "first_planned q request t = []" using cancelled(3) that by (simp add: k)
    have "cancel_or_finalize q request (db, (c, dl)) =
        (cancellation_answer q request t, (db, (\<lparr>rc_tables = t', rc_begun = None\<rparr>, dl')))"
      unfolding cancel_or_finalize_def
      by (simp only: asked engine_then_simps Let_def others False if_False listed)
        (auto simp: on_recovery_def cancelled(1) cancellation_answer_def False first(3) [symmetric] same stop_ready_def)
    from that [OF this cancelled(2,3)] show thesis .
  qed
qed

section \<open>The boundary\<close>

text \<open>Nothing of the run is under way: either nothing was started, or the bound file has reached a safe boundary.\<close>

definition boundary_reached :: "recovery_tables \<Rightarrow> RunStopRequest \<Rightarrow> bool" where
  "boundary_reached t request \<longleftrightarrow>
     (case srq_boundary_operation_id request of
        None \<Rightarrow> started_of t (srq_run_id request) = []
      | Some b \<Rightarrow> (\<exists>op. load_operation (srq_run_id request) b t = Inr (Some op)
          \<and> Some (rop_run_target_id op) = srq_boundary_run_target_id request \<and> boundary_is_safe op))"

lemma on_catalog_keeps: "on_catalog call s = (answer, s') \<Longrightarrow> snd s' = snd s"
  by (auto simp: on_catalog_def split: prod.splits sum.splits)

lemma stop_outcomes_not_ready [simp]:
  "\<not> rsp_ready_to_finalize (stop_outcome i j k)" "\<not> rsp_ready_to_finalize (stop_outcome_of request)"
  "\<not> rsp_ready_to_finalize (stop_blocked request code)"
  by (simp_all add: stop_outcome_def stop_outcome_of_def stop_blocked_def)

lemma load_operation_returns: "\<exists>loaded. load_operation i j t = Inr loaded"
  by (auto simp: load_operation_def split: option.split)

text \<open>A step either changes nothing in the journal, and is not ready, or cancels or finalizes.\<close>

lemma prepare_cases:
  assumes "prepare_next_requested_run_stop q (db, (c, dl)) = (answer, s')"
  obtains (kept) db' where "s' = (db', (c, dl))" "\<And>outcome. answer = Inr outcome \<Longrightarrow> \<not> rsp_ready_to_finalize outcome"
  | (cancelling) request where "db_load_next_requested_run_stop db = Some request" "\<not> blank (sst_process_instance_id q)"
      "1 \<le> sst_batch_size q" "boundary_reached (rc_tables c) request"
      "cancel_or_finalize q request (db, (c, dl)) = (answer, s')"
proof (cases "db_load_next_requested_run_stop db")
  case None
  then show thesis using assms kept by (auto simp: prepare_next_requested_run_stop_def)
next
  case (Some request)
  let ?i = "srq_run_id request"
  have kept': thesis if "snd s' = (c, dl)" "\<And>outcome. answer = Inr outcome \<Longrightarrow> \<not> rsp_ready_to_finalize outcome"
    using kept [of "fst s'"] that by (cases s') simp
  show thesis
  proof (cases "blank (sst_process_instance_id q) \<or> sst_batch_size q < 1")
    case True
    then show thesis
      using assms Some by (auto simp: prepare_next_requested_run_stop_def split: if_splits intro!: kept')
  next
    case ok: False
    show thesis
    proof (cases "srq_boundary_operation_id request")
      case None
      obtain ops where ops: "list_started_operations_for_run ?i 2 (rc_tables c) = Inr (take 2 ops)"
          "mset ops = mset (started_of (rc_tables c) ?i)"
        using stop_listings(1) by blast
      have step: "(case take 2 ops of [] \<Rightarrow> cancel_or_finalize q request (db, (c, dl))
          | [operation] \<Rightarrow> bind_boundary request operation (db, (c, dl))
          | _ \<Rightarrow> (Inr (stop_blocked request ''RUN_STOP_MULTIPLE_ACTIVE_OPERATIONS''), (db, (c, dl)))) = (answer, s')"
        using assms ok Some None ops(1)
        by (simp add: prepare_next_requested_run_stop_def ask_recovery_returns)
      consider "take 2 ops = []" | x where "take 2 ops = [x]" | x y zs where "take 2 ops = x # y # zs"
        by (metis list.exhaust)
      then show thesis
      proof cases
        case 1
        then have "started_of (rc_tables c) ?i = []" using ops(2) by (metis mset_zero_iff take_eq_Nil zero_neq_numeral)
        then show thesis using cancelling [OF Some] ok step 1 None by (simp add: boundary_reached_def)
      next
        case (2 x)
        then show thesis
          using step by (intro kept') (auto simp: bind_boundary_def engine_then_def dest!: on_catalog_keeps
              split: prod.splits sum.splits option.splits if_splits)
      next
        case (3 x y zs)
        then show thesis using step by (intro kept') auto
      qed
    next
      case (Some b)
      obtain loaded where loaded: "load_operation ?i b (rc_tables c) = Inr loaded" using load_operation_returns by blast
      have step: "advance_boundary q request b (db, (c, dl)) = (answer, s')"
        using assms ok \<open>db_load_next_requested_run_stop db = Some request\<close> Some
        by (simp add: prepare_next_requested_run_stop_def)
      show thesis
      proof (cases "\<exists>op. loaded = Some op \<and> Some (rop_run_target_id op) = srq_boundary_run_target_id request \<and> boundary_is_safe op")
        case True
        then show thesis
          using step loaded ok Some
          by (intro cancelling [OF \<open>db_load_next_requested_run_stop db = Some request\<close>])
            (auto simp: advance_boundary_def ask_recovery_returns boundary_reached_def)
      next
        case False
        then show thesis
          using step loaded by (intro kept') (auto simp: advance_boundary_def ask_recovery_returns engine_then_def [of "on_catalog _ _"]
              dest!: on_catalog_keeps split: prod.splits sum.splits option.splits if_splits)
      qed
    qed
  qed
qed

section \<open>What a step leaves\<close>

lemma filter_map_changed:
  assumes "\<And>x. x \<in> set xs \<Longrightarrow> p x \<Longrightarrow> \<not> P (f x)"
  shows "filter P (map (\<lambda>x. if p x then f x else x) xs) = filter (\<lambda>x. P x \<and> \<not> p x) xs"
  using assms by (induction xs) auto

lemma stop_effect_operations:
  assumes "stop_effect q K t t'"
  shows "map ror_operation (recovery_operations t') =
    map (\<lambda>op. if op_key op \<in> K then cancelled_operation op else op) (map ror_operation (recovery_operations t))"
  using assms by (simp add: stop_effect_def cancel_row_def row_key_op)

text \<open>The keys of a batch of planned operations belong to no other operation.\<close>

lemma batch_key:
  assumes "journal_inv t" "set cs \<subseteq> set (planned_of t request)"
    and "op \<in> set (map ror_operation (recovery_operations t))" "op_key op \<in> op_key ` set cs"
  shows "op \<in> set cs"
proof -
  obtain x where x: "x \<in> set cs" "op_key x = op_key op" using assms(4) by auto
  then have "x \<in> set (map ror_operation (recovery_operations t))" using assms(2) by (auto simp: planned_of_def)
  then obtain r r' where r: "r \<in> set (recovery_operations t)" "ror_operation r = x"
      "r' \<in> set (recovery_operations t)" "ror_operation r' = op"
    using assms(3) by auto
  have "distinct (map row_key (recovery_operations t))" using assms(1) by (simp add: journal_inv_def)
  then have "r = r'" by (rule distinct_key_eq) (use r x in \<open>simp_all add: row_key_op\<close>)
  then show ?thesis using r x by simp
qed

lemma batch_leaves:
  assumes inv: "journal_inv t" and cs: "set cs \<subseteq> set (planned_of t request)"
    and effect: "stop_effect q (op_key ` set cs) t t'"
  shows "started_of t' i = started_of t i"
    "planned_of t' request = filter (\<lambda>op. op_key op \<notin> op_key ` set cs) (planned_of t request)"
    "boundary_reached t request \<Longrightarrow> boundary_reached t' request"
proof -
  have only: "op \<in> set cs" if "op \<in> set (map ror_operation (recovery_operations t))" "op_key op \<in> op_key ` set cs" for op
    by (rule batch_key [OF inv cs that])
  have planned: "rop_phase op = PLANNED" if "op \<in> set cs" for op using cs that by (auto simp: planned_of_def)
  have terminal: "RecoveryOperationPhase.CANCELLED \<in> set RECOVERY_OPERATION_TERMINAL_PHASES" by code_simp
  show started: "started_of t' i = started_of t i" for i
  proof -
    let ?P = "\<lambda>op. rop_run_id op = i \<and> rop_phase op \<noteq> PLANNED \<and> rop_phase op \<notin> set RECOVERY_OPERATION_TERMINAL_PHASES"
    have gone: "\<not> ?P (cancelled_operation op)" for op using terminal by simp
    have kept: "(?P op \<and> op_key op \<notin> op_key ` set cs) = ?P op"
      if "op \<in> set (map ror_operation (recovery_operations t))" for op
      using only [OF that] planned [of op] by blast
    show ?thesis
      unfolding started_of_def stop_effect_operations [OF effect] filter_map_changed [where P = ?P and f = cancelled_operation, OF gone] by (rule filter_cong [OF refl kept])
  qed
  show "planned_of t' request = filter (\<lambda>op. op_key op \<notin> op_key ` set cs) (planned_of t request)"
    unfolding planned_of_def stop_effect_operations [OF effect] filter_filter
    by (subst filter_map_changed) (auto intro!: filter_cong)
  show "boundary_reached t' request" if reached: "boundary_reached t request"
  proof (cases "srq_boundary_operation_id request")
    case None
    then show ?thesis using reached started by (simp add: boundary_reached_def)
  next
    case (Some b)
    let ?i = "srq_run_id request"
    obtain r where r: "List.find (at_operation ?i b) (recovery_operations t) = Some r"
        "Some (rop_run_target_id (ror_operation r)) = srq_boundary_run_target_id request" "boundary_is_safe (ror_operation r)"
      using reached Some by (auto simp: boundary_reached_def load_operation_def split: option.splits)
    have r_in: "r \<in> set (recovery_operations t)" "at_operation ?i b r" using find_Some_iff' [OF r(1)] by auto
    have "rop_phase (ror_operation r) \<noteq> PLANNED"
      using r(3) by (auto simp: boundary_is_safe_def RECOVERY_OPERATION_TERMINAL_PHASES_def split: if_splits)
    then have "op_key (ror_operation r) \<notin> op_key ` set cs" using only [of "ror_operation r"] planned r_in(1) by (metis image_eqI list.set_map)
    then have "cancel_row (sst_now q) (op_key ` set cs) r = r" by (simp add: cancel_row_def row_key_op)
    then have "r \<in> set (recovery_operations t')"
      using effect r_in(1) unfolding stop_effect_def by (metis image_eqI list.set_map)
    moreover have "distinct (map row_key (recovery_operations t'))"
      using effect unfolding stop_effect_def recovery_inv_def journal_inv_def by blast
    ultimately have "List.find (at_operation ?i b) (recovery_operations t') = Some r"
      using find_row_of [of "recovery_operations t'" r] r_in(2) by (simp add: at_operation_def)
    then show ?thesis using Some r(2,3) by (simp add: boundary_reached_def load_operation_def)
  qed
qed

lemma stop_effect_leases:
  assumes "stop_effect q K t t'"
  shows "lease_held t' = lease_held t"
proof -
  have "require_active_matching_lease op t' = require_active_matching_lease op t" for op
    using assms by (intro require_lease_cong) (simp add: stop_effect_def)
  then show ?thesis by (simp add: lease_held_def fun_eq_iff)
qed

text \<open>A batch that is cancelled as a whole leaves so many operations less.\<close>

lemma planned_after_batch:
  assumes inv: "journal_inv t" and cs: "set cs \<subseteq> set (planned_of t request)" "distinct (map op_key cs)"
    and effect: "stop_effect q (op_key ` set cs) t t'"
  shows "length (planned_of t' request) = length (planned_of t request) - length cs"
proof -
  let ?in = "\<lambda>op. op_key op \<in> op_key ` set cs"
  have ops: "op \<in> set (map ror_operation (recovery_operations t))" if "op \<in> set (planned_of t request)" for op
    using that by (simp add: planned_of_def)
  have "distinct (map op_key (planned_of t request))"
    using distinct_op_keys [OF inv refl, of "length (planned_of t request)"
        "\<lambda>op. rop_run_id op = srq_run_id request \<and> rop_phase op = PLANNED \<and> Some (rop_operation_id op) \<noteq> srq_boundary_operation_id request"]
    unfolding planned_of_def by simp
  then have d: "distinct (planned_of t request)" "distinct cs" using cs(2) by (simp_all add: distinct_map)
  have "set (filter ?in (planned_of t request)) = set cs"
    using cs(1) batch_key [OF inv cs(1) ops] by auto
  then have "length (filter ?in (planned_of t request)) = length cs"
    using d by (metis distinct_card distinct_filter)
  then show ?thesis
    using sum_length_filter_compl [of ?in "planned_of t request"] by (simp add: batch_leaves(2) [OF inv cs(1) effect])
qed

text \<open>A step that is ready changed nothing and found nothing left to do.\<close>

lemma stop_ready_means_ended:
  assumes inv: "journal_inv t" and reached: "boundary_reached t request"
    and answer: "cancellation_answer q request t = Inr outcome" "rsp_ready_to_finalize outcome"
    and first: "planned_of t request = [] \<Longrightarrow> cancels q request t = []"
  shows "rsp_run_id outcome = Some (srq_run_id request)" "cancels q request t = []"
    "\<And>op. op \<in> ror_operation ` set (recovery_operations t) \<Longrightarrow> rop_run_id op = srq_run_id request \<Longrightarrow>
      rop_phase op \<in> set RECOVERY_OPERATION_TERMINAL_PHASES
      \<or> Some (rop_operation_id op) = srq_boundary_operation_id request \<and> boundary_is_safe op"
proof -
  have none: "other_started t request = []" "planned_of t request = []" and outcome: "outcome = stop_ready request t"
    using answer by (auto simp: cancellation_answer_def stop_outcome_of_def stop_outcome_def stop_blocked_def split: if_splits)
  show "rsp_run_id outcome = Some (srq_run_id request)"
    by (simp add: outcome stop_ready_def stop_outcome_of_def stop_outcome_def)
  show "cancels q request t = []" by (rule first [OF none(2)])
  fix op assume op: "op \<in> ror_operation ` set (recovery_operations t)" "rop_run_id op = srq_run_id request"
  show "rop_phase op \<in> set RECOVERY_OPERATION_TERMINAL_PHASES
      \<or> Some (rop_operation_id op) = srq_boundary_operation_id request \<and> boundary_is_safe op"
  proof (cases "Some (rop_operation_id op) = srq_boundary_operation_id request")
    case False
    then show ?thesis
      using op none by (auto simp: other_started_def started_of_def planned_of_def filter_empty_conv)
  next
    case True
    obtain r where r: "r \<in> set (recovery_operations t)" "ror_operation r = op" using op(1) by auto
    have "load_operation (srq_run_id request) (rop_operation_id op) t = Inr (Some op)"
      using find_row_of [OF _ r(1)] inv op(2) r(2) by (simp add: journal_inv_def load_operation_def)
    then show ?thesis using reached True by (auto simp: boundary_reached_def split: option.splits)
  qed
qed

section \<open>Cycles\<close>

text \<open>The stop part of one cycle after the other; what each answers, and the engine after the last.\<close>

fun stop_cycles ::
  "(string \<Rightarrow> engine_state \<Rightarrow> (unit, engine_state) engine_call) \<Rightarrow> stop_step list \<Rightarrow> engine_state \<Rightarrow>
   (engine_error + stop_action option) list \<times> engine_state" where
  "stop_cycles release_leases [] s = ([], s)"
| "stop_cycles release_leases (q # qs) s =
     (case advance_requested_run_stop release_leases q s of
        (answer, s1) \<Rightarrow> (case stop_cycles release_leases qs s1 of (answers, s2) \<Rightarrow> (answer # answers, s2)))"

definition step_ready :: "stop_step \<Rightarrow> bool" where
  "step_ready q \<longleftrightarrow> \<not> blank (sst_process_instance_id q) \<and> 1 \<le> sst_batch_size q"

lemma prepare_at_boundary:
  assumes "db_load_next_requested_run_stop db = Some request" "step_ready q" "boundary_reached (rc_tables c) request"
  shows "prepare_next_requested_run_stop q (db, (c, dl)) = cancel_or_finalize q request (db, (c, dl))"
proof (cases "srq_boundary_operation_id request")
  case None
  obtain ops where ops: "list_started_operations_for_run (srq_run_id request) 2 (rc_tables c) = Inr (take 2 ops)"
      "mset ops = mset (started_of (rc_tables c) (srq_run_id request))"
    using stop_listings(1) by blast
  have "ops = []" using assms(3) ops(2) None by (simp add: boundary_reached_def)
  then show ?thesis
    using assms(1,2) ops(1) None by (simp add: prepare_next_requested_run_stop_def step_ready_def ask_recovery_returns)
next
  case (Some b)
  then show ?thesis
    using assms by (auto simp: prepare_next_requested_run_stop_def step_ready_def advance_boundary_def
        boundary_reached_def ask_recovery_returns)
qed

text \<open>One cycle: as long as operations are planned, a batch of them is cancelled.\<close>

lemma cancelling_cycle:
  assumes c: "\<not> in_transaction c" "recovery_inv (rc_tables c)"
    and q: "db_load_next_requested_run_stop db = Some request" "step_ready q"
    and idle: "boundary_reached (rc_tables c) request" "other_started (rc_tables c) request = []"
    and planned: "planned_of (rc_tables c) request \<noteq> []"
      "\<forall>op \<in> set (planned_of (rc_tables c) request). lease_held (rc_tables c) op"
  obtains c' dl' where "advance_requested_run_stop release_leases q (db, (c, dl)) =
      (Inr (Some Stop_Cancellation_Advanced), (db, (c', dl')))"
    "\<not> in_transaction c'" "recovery_inv (rc_tables c')"
    "boundary_reached (rc_tables c') request" "other_started (rc_tables c') request = []"
    "length (planned_of (rc_tables c') request) =
      length (planned_of (rc_tables c) request) - min (nat (sst_batch_size q)) (length (planned_of (rc_tables c) request))"
    "\<forall>op \<in> set (planned_of (rc_tables c') request). lease_held (rc_tables c') op"
proof -
  let ?t = "rc_tables c"
  have inv: "journal_inv ?t" using c(2) by (simp add: recovery_inv_def)
  have ready: "\<not> blank (sst_process_instance_id q)" "1 \<le> sst_batch_size q" using q(2) by (simp_all add: step_ready_def)
  note first = first_planned_listed [OF inv ready(2), of request]
  have held: "list_all (lease_held ?t) (first_planned q request ?t)"
    using first(2) planned(2) by (auto simp: list_all_iff)
  have batch: "cancels q request ?t = first_planned q request ?t"
    using held idle(2) by (simp add: cancels_def list_all_iff)
  obtain t' dl' where step: "cancel_or_finalize q request (db, (c, dl)) =
      (cancellation_answer q request ?t, (db, (\<lparr>rc_tables = t', rc_begun = None\<rparr>, dl')))"
      "stop_effect q (op_key ` set (first_planned q request ?t)) ?t t'"
    by (rule cancel_or_finalize_result [OF c ready, of request db dl]) (simp add: batch)
  note leaves = batch_leaves [OF inv first(2) step(2)]
  have "advance_requested_run_stop release_leases q (db, (c, dl)) =
      (Inr (Some Stop_Cancellation_Advanced), (db, (\<lparr>rc_tables = t', rc_begun = None\<rparr>, dl')))"
    using step(1) prepare_at_boundary [OF q idle(1)] held idle(2) planned(1) first(3)
    by (simp add: advance_requested_run_stop_def cancellation_answer_def stop_outcome_of_def stop_outcome_def)
  moreover have "lease_held t' op" if "op \<in> set (planned_of t' request)" for op
    using that planned(2) unfolding leaves(2) stop_effect_leases [OF step(2)] by simp
  moreover have "length (planned_of t' request) = length (planned_of ?t request)
      - min (nat (sst_batch_size q)) (length (planned_of ?t request))"
    using planned_after_batch [OF inv first(2,4) step(2)] first(5) by simp
  moreover have "recovery_inv t'" using step(2) by (simp add: stop_effect_def)
  moreover have "boundary_reached t' request" by (rule leaves(3) [OF idle(1)])
  moreover have "other_started t' request = []" using idle(2) by (simp add: other_started_def leaves(1))
  ultimately show thesis
    by (intro that [of "\<lparr>rc_tables = t', rc_begun = None\<rparr>" dl']) (simp_all add: in_transaction_def)
qed

lemma finalizing_cycle:
  assumes c: "\<not> in_transaction c" "recovery_inv (rc_tables c)"
    and q: "db_load_next_requested_run_stop db = Some request" "step_ready q"
    and idle: "boundary_reached (rc_tables c) request" "other_started (rc_tables c) request = []"
      "planned_of (rc_tables c) request = []"
  shows "prepare_next_requested_run_stop q (db, (c, dl)) = (Inr (stop_ready request (rc_tables c)), (db, (c, dl)))"
proof -
  have ready: "\<not> blank (sst_process_instance_id q)" "1 \<le> sst_batch_size q" using q(2) by (simp_all add: step_ready_def)
  have inv: "journal_inv (rc_tables c)" using c(2) by (simp add: recovery_inv_def)
  have none: "cancels q request (rc_tables c) = []"
    using first_planned_listed(3) [OF inv ready(2), of request] idle(3) by (simp add: cancels_def)
  have c_is: "\<lparr>rc_tables = rc_tables c, rc_begun = None\<rparr> = c" using c(1) by (cases c) (simp add: in_transaction_def)
  show ?thesis
    unfolding prepare_at_boundary [OF q idle(1)]
    by (rule cancel_or_finalize_result [OF c ready, of request db dl])
      (use none idle c_is in \<open>simp add: cancellation_answer_def\<close>)
qed

text \<open>A cycle whose first operation is under a lease that is not held raises and changes nothing.\<close>

lemma refused_cycle:
  assumes c: "\<not> in_transaction c" "recovery_inv (rc_tables c)"
    and q: "db_load_next_requested_run_stop db = Some request" "step_ready q"
    and idle: "boundary_reached (rc_tables c) request" "other_started (rc_tables c) request = []"
    and planned: "planned_of (rc_tables c) request \<noteq> []"
      "\<forall>op \<in> set (planned_of (rc_tables c) request). \<not> lease_held (rc_tables c) op"
  shows "advance_requested_run_stop release_leases q (db, (c, dl)) =
    (Inl (Recovery_Error (Operation_Store_Error ''RECOVERY_OPERATION_LEASE_MISMATCH'')), (db, (c, dl)))"
proof -
  have ready: "\<not> blank (sst_process_instance_id q)" "1 \<le> sst_batch_size q" using q(2) by (simp_all add: step_ready_def)
  have inv: "journal_inv (rc_tables c)" using c(2) by (simp add: recovery_inv_def)
  note first = first_planned_listed [OF inv ready(2), of request]
  obtain op ops where ops: "first_planned q request (rc_tables c) = op # ops"
    using first(3) planned(1) by (cases "first_planned q request (rc_tables c)") simp_all
  have released: "\<not> lease_held (rc_tables c) op" using first(2) planned(2) by (simp add: ops)
  have none: "cancels q request (rc_tables c) = []" using released by (simp add: cancels_def ops)
  have c_is: "\<lparr>rc_tables = rc_tables c, rc_begun = None\<rparr> = c" using c(1) by (cases c) (simp add: in_transaction_def)
  have "prepare_next_requested_run_stop q (db, (c, dl)) =
      (Inl (Recovery_Error (Operation_Store_Error ''RECOVERY_OPERATION_LEASE_MISMATCH'')), (db, (c, dl)))"
    unfolding prepare_at_boundary [OF q idle(1)]
    by (rule cancel_or_finalize_result [OF c ready, of request db dl])
      (use none idle c_is planned(1) released in \<open>simp add: cancellation_answer_def ops\<close>)
  then show ?thesis by (simp add: advance_requested_run_stop_def)
qed

lemma batches_left:
  assumes "0 < b" "0 < (m :: nat)"
  shows "(m + b - 1) div b = Suc ((m - min b m + b - 1) div b)"
proof (cases "b \<le> m")
  case True
  have "(m + b - 1) div b = Suc ((m + b - 1 - b) div b)" using assms by (intro le_div_geq) simp_all
  then show ?thesis using True assms(2) by simp
next
  case False
  then have "(m + b - 1) div b = Suc ((m + b - 1 - b) div b)" using assms by (intro le_div_geq) simp_all
  then show ?thesis using False assms by simp
qed

end
