(* ===== verification/Run_Handler_Properties.thy ===== *)
theory Run_Handler_Properties
  imports Run_Examples
begin

text \<open>
  Properties of the handlers of \<open>application/runs.py\<close> over the SQLite store, of the two requests that
  end at a boundary (pause and stop), and the two places where the code does not do what it means to.
\<close>

section \<open>Reaching the boundary of a stop\<close>

lemma run_in_known: "run_in db i S \<Longrightarrow> i \<in> rr_id ` set (c_runs db)"
  by (auto simp: run_in_def list_ex_iff intro: rev_image_eqI)

text \<open>An operation whose last statement on the run table moves run \<open>i\<close> returns the moved run.\<close>

lemma returned_run:
  assumes inv: "catalog_inv db1" "catalog_inv db2" and r0: "r0 \<in> set (c_runs db1)" "rr_id r0 = i" "p r0"
    and runs: "c_runs db2 = c_runs (update_runs (\<lambda>r. rr_id r = i \<and> p r) f db1)" and f: "\<And>r. rr_id (f r) = rr_id r"
  shows "\<exists>run. return_run outer db db2 i = (Inr (Some run), db2) \<and> db_load_started_run i db2 = Inr (Some run)
    \<and> sr_state run = rr_state (f r0)"
proof -
  have "map rr_id (c_runs db2) = map rr_id (c_runs db1)" unfolding runs by (rule update_runs_ids [OF f])
  moreover have "i \<in> set (map rr_id (c_runs db1))" using r0(1,2) by auto
  ultimately have "i \<in> rr_id ` set (c_runs db2)" by (metis list.set_map)
  from return_run_valid [OF inv(2) this, of outer db] obtain run where
    run: "return_run outer db db2 i = (Inr (Some run), db2)" "db_load_started_run i db2 = Inr (Some run)"
    by (elim exE conjE)
  from load_run_row [OF run(2)] obtain q where q: "q \<in> set (c_runs db2)" "rr_id q = i" "sr_state run = rr_state q"
    by (elim exE conjE)
  have "q = (f r0)\<lparr>rr_row_version := rr_row_version r0 + 1\<rparr>"
    by (rule updated_run [OF distinct_run_ids [OF inv(1)] r0 f q(1) [unfolded runs] q(2)])
  then have "sr_state run = rr_state (f r0)" using q(3) by simp
  then show ?thesis using run by blast
qed

lemma applied_not_pending:
  "\<not> stop_pending (update_stops (\<lambda>s. st_run_id s = i \<and> st_state s = STOP_PENDING)
      (\<lambda>s. s\<lparr>st_state := STOP_APPLIED, st_applied_utc := u\<rparr>) db) i"
proof -
  have "\<not> list_ex (\<lambda>s. st_run_id s = i \<and> st_state s = STOP_PENDING)
      (sql_update (\<lambda>s. st_run_id s = i \<and> st_state s = STOP_PENDING)
        (\<lambda>s. (s\<lparr>st_state := STOP_APPLIED, st_applied_utc := u\<rparr>)\<lparr>st_row_version := st_row_version s + 1\<rparr>) ss)" for ss
    by (induction ss) (simp_all add: sql_update_def)
  then show ?thesis by (simp add: stop_pending_def update_stops_def)
qed

lemma finalize_stop_laws:
  assumes inv: "catalog_inv db" and r: "run_in db i STOPPABLE_RUN_STATES" and p: "stop_pending db i"
  shows "\<exists>run db'. db_finalize_requested_run_stop outer now i progress db = (Inr (Some run), db') \<and> catalog_inv db'
    \<and> db_load_started_run i db' = Inr (Some run) \<and> sr_state run = RunState.CANCELLED \<and> \<not> stop_pending db' i"
proof -
  have "i \<in> rr_id ` set (c_runs db)" by (rule run_in_known [OF r])
  then obtain run where run: "db_load_started_run i db = Inr (Some run)" using load_run_total [OF inv, of i] by auto
  have q: "db_load_run_stop_request i db \<noteq> None"
    using p by (auto simp: db_load_run_stop_request_def stop_pending_def list_ex_iff find_None_iff')
  define by_target where "by_target = map_of (rev (map (\<lambda>p. (tsp_run_target_id p, p)) progress))"
  define db1 where "db1 = fold (stop_target now i by_target) (sr_targets run) db"
  define g where "g = (\<lambda>r :: run_row. r\<lparr>rr_state := RunState.CANCELLED, rr_finished_utc := Some now,
     rr_summary_json := json_dumps True (JObj (dict_set ''stop_mode'' (JStr ''AFTER_ACTIVE_FILE'')
       (dict_set ''result'' (JStr ''STOPPED'') (sr_summary run))))\<rparr>)"
  have g_id: "rr_id (g r) = rr_id r" for r by (simp add: g_def)
  define db2 where "db2 = update_runs (\<lambda>r. rr_id r = i \<and> rr_state r \<in> set STOPPABLE_RUN_STATES) g db1"
  define db3 where "db3 = update_stops (\<lambda>s. st_run_id s = i \<and> st_state s = STOP_PENDING)
                    (\<lambda>s. s\<lparr>st_state := STOP_APPLIED, st_applied_utc := Some now\<rparr>) db2"
  have runs1: "c_runs db1 = c_runs db" by (simp add: db1_def fold_stop_target_rows)
  have n: "sql_count (\<lambda>r. rr_id r = i \<and> rr_state r \<in> set STOPPABLE_RUN_STATES) (c_runs db) = Suc 0"
    by (rule update_runs_hit [OF inv r]) simp
  have op: "db_finalize_requested_run_stop b now i progress db = return_run b db db3 i" for b
    using q n runs1
    unfolding db_finalize_requested_run_stop_def run sum.case option.case Let_def
      by_target_def [symmetric] db1_def [symmetric] g_def [symmetric] db2_def [symmetric] db3_def [symmetric]
    by auto
  have inv3: "catalog_inv db3"
    using finalize_stop_good [OF inv, of True now i progress] unfolding op
    by (simp add: good_def return_run_def give_up_def split: sum.splits option.splits)
  obtain r0 where r0: "r0 \<in> set (c_runs db)" "rr_id r0 = i" "rr_state r0 \<in> set STOPPABLE_RUN_STATES"
    using r by (auto simp: run_in_def list_ex_iff)
  have "c_runs db3 = c_runs (update_runs (\<lambda>r. rr_id r = i \<and> rr_state r \<in> set STOPPABLE_RUN_STATES) g db)"
    by (simp add: db3_def update_stops_def db2_def update_runs_def runs1)
  from returned_run [OF inv inv3 r0 this g_id, of outer db] obtain run' where
    run': "return_run outer db db3 i = (Inr (Some run'), db3)" "db_load_started_run i db3 = Inr (Some run')"
      "sr_state run' = rr_state (g r0)"
    by (elim exE conjE)
  have "sr_state run' = RunState.CANCELLED" unfolding run'(3) by (simp add: g_def)
  moreover have "\<not> stop_pending db3 i" unfolding db3_def by (rule applied_not_pending)
  ultimately show ?thesis using op run' inv3 by metis
qed

lemma cancelled_run_closed:
  assumes "catalog_inv db" "db_load_started_run i db = Inr (Some run)" "sr_state run = RunState.CANCELLED"
  shows "list_all (\<lambda>t. rt_state t \<notin> set OPEN_TARGET_STATES) (sr_targets run)"
proof -
  from load_run_row [OF assms(2)] obtain r where r: "r \<in> set (c_runs db)" "rr_id r = i" "sr_state run = rr_state r"
      "sr_targets run = load_targets db i"
    by (elim exE conjE)
  have "tr_state t \<notin> set OPEN_TARGET_STATES" if "t \<in> set (c_run_targets db)" "tr_run_id t = i" for t
    using inv_row(3) [OF assms(1) r(1) that(1)] that(2) r(2,3) assms(3) by (simp add: compat_def)
  then show ?thesis by (auto simp: r(4) list_all_iff load_targets_set)
qed

text \<open>A stop that was requested can always be carried out: as long as the run is in a stoppable state,
  finalising the request succeeds, inside or outside a caller's transaction; the run is then CANCELLED, none
  of its targets is open, and the request is no longer pending.\<close>

theorem requested_stop_completes:
  assumes "reachable (db, dl)" "run_in db i STOPPABLE_RUN_STATES" "stop_pending db i"
  shows "\<exists>run db'. db_finalize_requested_run_stop outer now i progress db = (Inr (Some run), db')
    \<and> db_load_started_run i db' = Inr (Some run) \<and> sr_state run = RunState.CANCELLED
    \<and> list_all (\<lambda>t. rt_state t \<notin> set OPEN_TARGET_STATES) (sr_targets run) \<and> \<not> stop_pending db' i"
proof -
  have "catalog_inv db" using reachable_catalog_inv [OF assms(1)] by simp
  from finalize_stop_laws [OF this assms(2,3), of outer now progress] obtain run db' where
    "db_finalize_requested_run_stop outer now i progress db = (Inr (Some run), db')" "catalog_inv db'"
    "db_load_started_run i db' = Inr (Some run)" "sr_state run = RunState.CANCELLED" "\<not> stop_pending db' i"
    by (elim exE conjE)
  then show ?thesis using cancelled_run_closed [of db' i run] by blast
qed

theorem requested_stop_completes_witness:
  "\<exists>run. fst (db_finalize_requested_run_stop False ''9'' ''run'' [] demo_paused) = Inr (Some run) \<and> sr_state run = RunState.CANCELLED"
proof -
  have "run_in demo_paused ''run'' STOPPABLE_RUN_STATES" by code_simp
  from requested_stop_completes [OF demo_paused_reachable this demo_paused_rows(3), of False "''9''" "[]"]
  show ?thesis by auto
qed

section \<open>Reaching the boundary of a pause\<close>

lemma finalize_pause_laws:
  assumes inv: "catalog_inv db" and r: "run_in db i [RunState.PAUSING]"
  shows "\<exists>run db'. db_finalize_requested_run_pause outer i db = (Inr (Some run), db') \<and> catalog_inv db'
    \<and> db_load_started_run i db' = Inr (Some run) \<and> sr_state run = RunState.PAUSED"
proof -
  define db1 where "db1 = update_targets
            (\<lambda>t. tr_run_id t = i
              \<and> tr_state t \<in> set [RunTargetState.ACQUIRING_LEASE, RunTargetState.REVALIDATING,
                                 RunTargetState.EXECUTING, RunTargetState.WAITING_FOR_ENDPOINT]
              \<and> run_in db (tr_run_id t) [RunState.PAUSING])
            (\<lambda>t. (clear_lease t)\<lparr>tr_state := RunTargetState.PAUSED\<rparr>) db"
  define db2 where "db2 = update_runs (\<lambda>r. rr_id r = i \<and> rr_state r = RunState.PAUSING) (\<lambda>r. r\<lparr>rr_state := RunState.PAUSED\<rparr>) db1"
  have runs1: "c_runs db1 = c_runs db" by (simp add: db1_def)
  have n: "sql_count (\<lambda>r. rr_id r = i \<and> rr_state r = RunState.PAUSING) (c_runs db) = Suc 0"
    by (rule update_runs_hit [OF inv r]) simp
  have op: "db_finalize_requested_run_pause b i db = return_run b db db2 i" for b
    unfolding db_finalize_requested_run_pause_def Let_def db1_def [symmetric] db2_def [symmetric] using n runs1 by simp
  have inv2: "catalog_inv db2"
    using finalize_requested_run_pause_good [OF inv, of True i] unfolding op
    by (simp add: good_def return_run_def give_up_def split: sum.splits option.splits)
  obtain r0 where r0: "r0 \<in> set (c_runs db)" "rr_id r0 = i" "rr_state r0 = RunState.PAUSING"
    using r by (auto simp: run_in_def list_ex_iff)
  have "c_runs db2 = c_runs (update_runs (\<lambda>r. rr_id r = i \<and> rr_state r = RunState.PAUSING) (\<lambda>r. r\<lparr>rr_state := RunState.PAUSED\<rparr>) db)"
    by (simp add: db2_def update_runs_def runs1)
  from returned_run [OF inv inv2 r0 this, of outer db] obtain run where
    "return_run outer db db2 i = (Inr (Some run), db2)" "db_load_started_run i db2 = Inr (Some run)" "sr_state run = RunState.PAUSED"
    by auto
  then show ?thesis using op inv2 by metis
qed

text \<open>A pause that was requested reaches its boundary: finalising a PAUSING run always succeeds, and
  the paused run has no target that is acquiring a lease, revalidating, executing or waiting, and none that
  still records a lease unless it was closed before.\<close>

theorem requested_pause_completes:
  assumes "reachable (db, dl)" "run_in db i [RunState.PAUSING]"
  shows "\<exists>run db'. db_finalize_requested_run_pause outer i db = (Inr (Some run), db')
    \<and> db_load_started_run i db' = Inr (Some run) \<and> sr_state run = RunState.PAUSED
    \<and> list_all (\<lambda>t. rt_state t \<in> {RunTargetState.PENDING, RunTargetState.PAUSED} \<and> rt_last_lease_id t = None
         \<or> rt_state t \<notin> set OPEN_TARGET_STATES) (sr_targets run)"
proof -
  have inv: "catalog_inv db" using reachable_catalog_inv [OF assms(1)] by simp
  from finalize_pause_laws [OF inv assms(2), of outer] obtain run db' where
    fin: "db_finalize_requested_run_pause outer i db = (Inr (Some run), db')" and inv': "catalog_inv db'"
    and load: "db_load_started_run i db' = Inr (Some run)" "sr_state run = RunState.PAUSED"
    by (elim exE conjE)
  from load_run_row [OF load(1)] obtain r where r: "r \<in> set (c_runs db')" "rr_id r = i" "sr_state run = rr_state r"
      "sr_targets run = load_targets db' i"
    by (elim exE conjE)
  have "tr_state t \<in> {RunTargetState.PENDING, RunTargetState.PAUSED} \<and> tr_last_lease_id t = None \<or> tr_state t \<notin> set OPEN_TARGET_STATES"
    if "t \<in> set (c_run_targets db')" "tr_run_id t = i" for t
    using inv_row(2) [OF inv' that(1)] inv_row(3) [OF inv' r(1) that(1)] that(2) r(2,3) load(2)
    by (cases "tr_state t") (simp_all add: compat_def target_ok_def target_state_ok_def no_lease_def OPEN_TARGET_STATES_def)
  then have "list_all (\<lambda>t. rt_state t \<in> {RunTargetState.PENDING, RunTargetState.PAUSED} \<and> rt_last_lease_id t = None
         \<or> rt_state t \<notin> set OPEN_TARGET_STATES) (sr_targets run)"
    unfolding r(4) list_all_iff load_targets_set by auto
  then show ?thesis using fin load by blast
qed

theorem requested_pause_completes_witness:
  "\<exists>run. fst (db_finalize_requested_run_pause True ''run'' (snd (db_request_run_pause True ''run'' demo_executing))) = Inr (Some run)
     \<and> sr_state run = RunState.PAUSED"
proof -
  have "reachable (snd (db_request_run_pause True ''run'' demo_executing), Map.empty)"
    by (rule reachable_step [OF demo_executing_reachable store_step.request_run_pause])
  moreover have "run_in (snd (db_request_run_pause True ''run'' demo_executing)) ''run'' [RunState.PAUSING]" by code_simp
  ultimately show ?thesis using requested_pause_completes [of _ _ "''run''" True] by fastforce
qed

section \<open>The control handlers\<close>

text \<open>A pause command on the SQLite store never raises.  When it is applied the store holds the returned
  run as PAUSING or PAUSED, a replay changes nothing, and a command that is not applied changes nothing and
  says why.\<close>

theorem pause_command_sound:
  assumes "reachable (db, dl)"
  shows "\<exists>out db'. request_run_pause db_load_started_run (db_request_run_pause outer) c db = (Inr out, db') \<and> catalog_inv db' \<and>
     (if rco_applied out
      then \<exists>run. rco_run out = Some run \<and> db_load_started_run (rcc_run_id c) db' = Inr (Some run)
             \<and> sr_state run \<in> {RunState.PAUSING, RunState.PAUSED} \<and> (rco_idempotent_replay out \<longrightarrow> db' = db)
      else db' = db \<and> rco_validation_codes out \<noteq> [])"
  using sqlite_pause.pause_handler [of db outer c] reachable_catalog_inv [OF assms] by simp

theorem pause_command_sound_witness:
  "\<exists>out db'. request_run_pause db_load_started_run (db_request_run_pause True) demo_command demo_executing = (Inr out, db')
     \<and> catalog_inv db'"
  using pause_command_sound [OF demo_executing_reachable, of True demo_command] by blast

text \<open>A stop command on the SQLite store never raises.  When it is applied, the request is recorded as
  pending, unless the run was cancelled before, in which case nothing changes; a command that is not applied
  changes nothing and says why.\<close>

theorem stop_command_sound:
  assumes "reachable (db, dl)"
  shows "\<exists>out db'. request_run_stop_after_active_file db_load_started_run (db_request_run_stop_after_active_file outer now) c db = (Inr out, db')
     \<and> catalog_inv db' \<and>
     (if rco_applied out
      then \<exists>run. rco_run out = Some run \<and> db_load_started_run (rcc_run_id c) db' = Inr (Some run)
             \<and> (if rco_idempotent_replay out then db' = db \<and> sr_state run = RunState.CANCELLED
                else stop_pending db' (rcc_run_id c))
      else db' = db \<and> rco_validation_codes out \<noteq> [])"
  using sqlite_pause.stop_handler [of db outer now c] reachable_catalog_inv [OF assms] by simp

theorem stop_command_sound_witness:
  "\<exists>out db'. request_run_stop_after_active_file db_load_started_run (db_request_run_stop_after_active_file True ''5'')
     demo_command demo_executing = (Inr out, db') \<and> catalog_inv db'"
  using stop_command_sound [OF demo_executing_reachable, of True "''5''" demo_command] by blast

text \<open>A resume command that runs in a transaction of its own never raises; when it is applied the run is
  QUEUED with a target to work on and no stop request was pending; when it is not applied nothing changes.\<close>

theorem resume_command_sound:
  assumes "reachable (db, dl)"
  shows "\<exists>out db'. resume_paused_run db_load_started_run (db_resume_paused_run False) c db = (Inr out, db') \<and> catalog_inv db' \<and>
     (if rco_applied out
      then \<exists>run. rco_run out = Some run \<and> db_load_started_run (rcc_run_id c) db' = Inr (Some run) \<and> sr_state run = RunState.QUEUED
             \<and> list_ex (\<lambda>t. rt_state t = RunTargetState.PENDING) (sr_targets run) \<and> \<not> stop_pending db (rcc_run_id c)
      else db' = db \<and> rco_validation_codes out \<noteq> [])"
  using sqlite_control.resume_handler [of db c] reachable_catalog_inv [OF assms] by simp

theorem resume_command_sound_witness:
  "\<exists>out db'. resume_paused_run db_load_started_run (db_resume_paused_run False) demo_command demo_paused = (Inr out, db') \<and> catalog_inv db'"
  using resume_command_sound [OF demo_paused_reachable, of demo_command] by blast

text \<open>C34: Inside a caller's transaction, which is how the IPC server runs the command, a resume that is refused
  because a stop is pending has already made the paused targets PENDING, and that is what the caller commits;
  the run stays PAUSED, and from then on activating the stop request is refused as well, so the request can no
  longer be prepared for its boundary.\<close>

theorem refused_resume_keeps_target_changes:
  assumes "reachable (db, dl)" "run_in db (rcc_run_id c) [RunState.PAUSED]" "stop_pending db (rcc_run_id c)"
  shows "\<exists>out. resume_paused_run db_load_started_run (db_resume_paused_run True) c db = (Inr out, resume_targets (rcc_run_id c) db)
     \<and> \<not> rco_applied out
     \<and> db_activate_requested_run_stop outer (rcc_run_id c) (resume_targets (rcc_run_id c) db) = (Inr None, resume_targets (rcc_run_id c) db)"
proof -
  let ?i = "rcc_run_id c"
  have inv: "catalog_inv db" using reachable_catalog_inv [OF assms(1)] by simp
  have "?i \<in> rr_id ` set (c_runs db)" by (rule run_in_known [OF assms(2)])
  then obtain run where run: "db_load_started_run ?i db = Inr (Some run)" using load_run_total [OF inv, of ?i] by auto
  from load_run_row [OF run] obtain r where r: "r \<in> set (c_runs db)" "rr_id r = ?i" "sr_state run = rr_state r"
    by (elim exE conjE)
  have "sr_state run = RunState.PAUSED"
    using run_in_iff [OF distinct_run_ids [OF inv] r(1,2), of "[RunState.PAUSED]"] assms(2) r(3) by simp
  moreover have "sr_run_id run = ?i" by (rule load_run_id [OF run])
  ultimately show ?thesis
    using refused_resume_aux [OF inv assms(2,3)] run
    by (simp add: resume_paused_run_def run_control_rejected_def)
qed

theorem refused_resume_keeps_target_changes_witness:
  "\<exists>out. resume_paused_run db_load_started_run (db_resume_paused_run True) demo_command demo_paused =
       (Inr out, resume_targets ''run'' demo_paused) \<and> \<not> rco_applied out
     \<and> map tr_state (c_run_targets (resume_targets ''run'' demo_paused)) \<noteq> map tr_state (c_run_targets demo_paused)"
proof -
  have "map tr_state (c_run_targets (resume_targets ''run'' demo_paused)) \<noteq> map tr_state (c_run_targets demo_paused)"
    by code_simp
  then show ?thesis
    using refused_resume_keeps_target_changes [OF demo_paused_reachable, of demo_command] demo_paused_rows
    by (auto simp: demo_command_def)
qed

end
