(* ===== verification/Stop_Properties.thy ===== *)
theory Stop_Properties
  imports Stop_Steps Run_Handler_Properties Recovery_Examples
begin

text \<open>
  The properties of a graceful stop over both databases: what it may cancel, that it ends, and how it fails when the
  leases of the run were released.
\<close>

section \<open>What a step cancels\<close>

text \<open>C9: A graceful stop cancels untouched files only.  Whatever a step of it answers, the journal afterwards is the
journal before with some operations cancelled, each of which was PLANNED, belongs to the run whose stop is pending, is
not the bound file and is under a lease that is held; and a step that is ready to finalize the run leaves it with no
operation but those that have ended and the bound file at a safe boundary.\<close>

theorem stop_cancels_untouched_files_only:
  assumes "recovery_reachable (c, dl)" "\<not> in_transaction c"
    and step: "prepare_next_requested_run_stop q (db, (c, dl)) = (answer, (db', (c', dl')))"
  shows "recovery_inv (rc_tables c') \<and> (\<exists>K.
      recovery_operations (rc_tables c') = map (cancel_row (sst_now q) K) (recovery_operations (rc_tables c))
    \<and> (\<forall>op \<in> ror_operation ` set (recovery_operations (rc_tables c)). op_key op \<in> K \<longrightarrow>
        rop_phase op = PLANNED \<and> lease_held (rc_tables c) op
        \<and> (\<exists>request. db_load_next_requested_run_stop db = Some request \<and> rop_run_id op = srq_run_id request
            \<and> Some (rop_operation_id op) \<noteq> srq_boundary_operation_id request)))
    \<and> (\<forall>outcome. answer = Inr outcome \<and> rsp_ready_to_finalize outcome \<longrightarrow>
        (\<exists>request. db_load_next_requested_run_stop db = Some request \<and> rsp_run_id outcome = Some (srq_run_id request)
        \<and> (\<forall>op \<in> ror_operation ` set (recovery_operations (rc_tables c')). rop_run_id op = srq_run_id request \<longrightarrow>
            rop_phase op \<in> set RECOVERY_OPERATION_TERMINAL_PHASES
            \<or> Some (rop_operation_id op) = srq_boundary_operation_id request \<and> boundary_is_safe op)))"
proof -
  let ?t = "rc_tables c"
  have inv: "recovery_inv ?t" "journal_inv ?t" using recovery_reachable_inv [OF assms(1)] by (simp_all add: recovery_inv_def)
  from step show ?thesis
  proof (cases rule: prepare_cases)
    case (kept db1)
    then show ?thesis using inv(1) by (auto intro!: exI [of _ "{}"])
  next
    case (cancelling request)
    obtain t' dl1 where result: "answer = cancellation_answer q request ?t" "rc_tables c' = t'"
        "stop_effect q (op_key ` set (cancels q request ?t)) ?t t'" "cancels q request ?t = [] \<Longrightarrow> t' = ?t"
      by (rule cancel_or_finalize_result [OF assms(2) inv(1) cancelling(2,3), of request db dl])
        (use cancelling(5) in auto)
    have sub: "set (cancels q request ?t) \<subseteq> set (planned_of ?t request)"
      using cancels_planned(1) [OF inv(2) cancelling(3)] by blast
    have only: "rop_phase op = PLANNED \<and> lease_held ?t op \<and> rop_run_id op = srq_run_id request
        \<and> Some (rop_operation_id op) \<noteq> srq_boundary_operation_id request"
      if "op \<in> ror_operation ` set (recovery_operations ?t)" "op_key op \<in> op_key ` set (cancels q request ?t)" for op
      using batch_key [OF inv(2) sub, of op] that cancels_planned [OF inv(2) cancelling(3), of op request]
      by (auto simp: planned_of_def)
    have ready: "rsp_run_id outcome = Some (srq_run_id request)
        \<and> (\<forall>op \<in> ror_operation ` set (recovery_operations t'). rop_run_id op = srq_run_id request \<longrightarrow>
            rop_phase op \<in> set RECOVERY_OPERATION_TERMINAL_PHASES
            \<or> Some (rop_operation_id op) = srq_boundary_operation_id request \<and> boundary_is_safe op)"
      if "answer = Inr outcome" "rsp_ready_to_finalize outcome" for outcome
    proof -
      have a: "cancellation_answer q request ?t = Inr outcome" using that(1) result(1) by simp
      have none: "cancels q request ?t = []" if "planned_of ?t request = []"
        using cancels_planned(1) [OF inv(2) cancelling(3), of _ request] that by (cases "cancels q request ?t") auto
      note ended = stop_ready_means_ended [OF inv(2) cancelling(4) a that(2) none]
      then show ?thesis using result(4) [OF ended(2)] by blast
    qed
    let ?K = "op_key ` set (cancels q request ?t)"
    have after: "recovery_inv (rc_tables c')"
      "recovery_operations (rc_tables c') = map (cancel_row (sst_now q) ?K) (recovery_operations ?t)"
      using result(2,3) by (simp_all add: stop_effect_def)
    have cancelled: "\<forall>op \<in> ror_operation ` set (recovery_operations ?t). op_key op \<in> ?K \<longrightarrow>
        rop_phase op = PLANNED \<and> lease_held ?t op
        \<and> (\<exists>request. db_load_next_requested_run_stop db = Some request \<and> rop_run_id op = srq_run_id request
            \<and> Some (rop_operation_id op) \<noteq> srq_boundary_operation_id request)"
      using only cancelling(1) by blast
    show ?thesis
      unfolding result(2) by (rule conjI, use after result(2) in blast, rule conjI, use after cancelled result(2) in blast)
        (use ready cancelling(1) in blast)
  qed
qed

section \<open>A stop ends\<close>

lemma next_stop_pending:
  assumes "db_load_next_requested_run_stop db = Some request"
  shows "stop_pending db (srq_run_id request)"
proof -
  let ?pending = "sort_key (\<lambda>s. (st_requested_utc s, st_run_id s)) (filter (\<lambda>s. st_state s = STOP_PENDING) (c_run_stop_requests db))"
  obtain s ss where s: "?pending = s # ss" "request = stop_request s"
    using assms by (auto simp: db_load_next_requested_run_stop_def split: list.splits)
  have "s \<in> set ?pending" unfolding s(1) by simp
  then have "s \<in> set (c_run_stop_requests db)" "st_state s = STOP_PENDING" by simp_all
  then show ?thesis unfolding s(2) by (auto simp: stop_pending_def stop_request_def list_ex_iff)
qed

lemma stop_cycles_end:
  assumes runs: "catalog_inv db" "db_load_next_requested_run_stop db = Some request"
      "run_in db (srq_run_id request) STOPPABLE_RUN_STATES"
    and journal: "\<not> in_transaction c" "recovery_inv (rc_tables c)"
    and idle: "boundary_reached (rc_tables c) request" "other_started (rc_tables c) request = []"
    and held: "\<forall>op \<in> set (planned_of (rc_tables c) request). lease_held (rc_tables c) op"
    and release: "\<forall>s. \<exists>rs. release_leases (srq_run_id request) s = (Inr (), (fst s, rs))"
    and steps: "0 < b" "\<forall>q \<in> set qs. \<not> blank (sst_process_instance_id q) \<and> sst_batch_size q = int b"
      "length qs = Suc ((length (planned_of (rc_tables c) request) + b - 1) div b)"
  shows "\<exists>db' rs' run. stop_cycles release_leases qs (db, (c, dl)) =
      (replicate (length qs - 1) (Inr (Some Stop_Cancellation_Advanced)) @ [Inr (Some Run_Stopped)], (db', rs'))
    \<and> db_load_started_run (srq_run_id request) db' = Inr (Some run) \<and> sr_state run = RunState.CANCELLED
    \<and> list_all (\<lambda>t. rt_state t \<notin> set OPEN_TARGET_STATES) (sr_targets run)
    \<and> \<not> stop_pending db' (srq_run_id request)"
  using journal idle held steps(2,3)
proof (induction qs arbitrary: c dl)
  case Nil
  then show ?case by simp
next
  case (Cons q qs)
  let ?i = "srq_run_id request" and ?m = "length (planned_of (rc_tables c) request)"
  have q: "step_ready q" "nat (sst_batch_size q) = b" using Cons.prems(6) steps(1) by (simp_all add: step_ready_def)
  show ?case
  proof (cases "?m = 0")
    case True
    have one: "qs = []" using Cons.prems(7) steps(1) True by simp
    have pending: "stop_pending db ?i" by (rule next_stop_pending [OF runs(2)])
    obtain rs' where rs: "release_leases ?i (db, (c, dl)) = (Inr (), (db, rs'))" using release by (metis fst_conv)
    obtain run db' where stopped: "db_finalize_requested_run_stop False (sst_now q) ?i
          (rsp_target_progress (stop_ready request (rc_tables c))) db = (Inr (Some run), db')" "catalog_inv db'"
        "db_load_started_run ?i db' = Inr (Some run)" "sr_state run = RunState.CANCELLED" "\<not> stop_pending db' ?i"
      using finalize_stop_laws [OF runs(1,3) pending, of False "sst_now q" "rsp_target_progress (stop_ready request (rc_tables c))"]
      by (elim exE conjE)
    have "prepare_next_requested_run_stop q (db, (c, dl)) = (Inr (stop_ready request (rc_tables c)), (db, (c, dl)))"
      by (rule finalizing_cycle [OF Cons.prems(1,2) runs(2) q(1) Cons.prems(3,4)]) (use True in simp)
    moreover have "\<not> rsp_idle (stop_ready request (rc_tables c))" "rsp_ready_to_finalize (stop_ready request (rc_tables c))"
      "rsp_run_id (stop_ready request (rc_tables c)) = Some ?i"
      by (simp_all add: stop_ready_def stop_outcome_of_def stop_outcome_def)
    ultimately have "advance_requested_run_stop release_leases q (db, (c, dl)) = (Inr (Some Run_Stopped), (db', rs'))"
      using rs stopped(1) by (simp add: advance_requested_run_stop_def on_catalog_def)
    then show ?thesis using one stopped cancelled_run_closed [OF stopped(2-4)] by simp
  next
    case False
    then have m: "0 < ?m" "planned_of (rc_tables c) request \<noteq> []" by auto
    obtain c' dl' where next_cycle: "advance_requested_run_stop release_leases q (db, (c, dl)) =
        (Inr (Some Stop_Cancellation_Advanced), (db, (c', dl')))"
      "\<not> in_transaction c'" "recovery_inv (rc_tables c')" "boundary_reached (rc_tables c') request"
      "other_started (rc_tables c') request = []"
      "length (planned_of (rc_tables c') request) = ?m - min (nat (sst_batch_size q)) ?m"
      "\<forall>op \<in> set (planned_of (rc_tables c') request). lease_held (rc_tables c') op"
      by (rule cancelling_cycle [OF Cons.prems(1,2) runs(2) q(1) Cons.prems(3,4) m(2) Cons.prems(5), of release_leases dl])
    have len: "length qs = Suc ((length (planned_of (rc_tables c') request) + b - 1) div b)"
      using Cons.prems(7) batches_left [OF steps(1) m(1)] by (simp add: next_cycle(6) q(2))
    from Cons.IH [OF next_cycle(2-5,7) _ len, of dl'] Cons.prems(6)
    obtain db' rs' run where rest: "stop_cycles release_leases qs (db, (c', dl')) =
        (replicate (length qs - 1) (Inr (Some Stop_Cancellation_Advanced)) @ [Inr (Some Run_Stopped)], (db', rs'))"
      "db_load_started_run ?i db' = Inr (Some run)" "sr_state run = RunState.CANCELLED"
      "list_all (\<lambda>t. rt_state t \<notin> set OPEN_TARGET_STATES) (sr_targets run)" "\<not> stop_pending db' ?i"
      by auto
    have "replicate (length qs) x = x # replicate (length qs - 1) x" for x :: "engine_error + stop_action option"
      using len by (cases qs) simp_all
    then show ?thesis using next_cycle(1) rest by simp
  qed
qed

text \<open>C10: A graceful stop ends.  Let the files of the run that were started have come to an end, but for the bound
one, which is at a safe boundary, and let m operations be planned still, each under a lease that is held.  With batches
of b operations, whatever the clock says, the executor answers ceiling (m / b) cycles in a row with a batch that it
cancelled, and in the next it releases the leases of the run and stops it: the run is CANCELLED, none of its targets is
open, and the request is no longer pending.\<close>

theorem graceful_stop_ends:
  assumes runs: "reachable (db, deadlines)" "db_load_next_requested_run_stop db = Some request"
      "run_in db (srq_run_id request) STOPPABLE_RUN_STATES"
    and journal: "recovery_reachable (c, dl)" "\<not> in_transaction c"
    and idle: "boundary_reached (rc_tables c) request" "other_started (rc_tables c) request = []"
    and held: "\<forall>op \<in> set (planned_of (rc_tables c) request). lease_held (rc_tables c) op"
    and release: "\<forall>s. \<exists>rs. release_leases (srq_run_id request) s = (Inr (), (fst s, rs))"
    and steps: "0 < b" "\<forall>q \<in> set qs. \<not> blank (sst_process_instance_id q) \<and> sst_batch_size q = int b"
      "length qs = Suc ((length (planned_of (rc_tables c) request) + b - 1) div b)"
  shows "\<exists>db' rs' run. stop_cycles release_leases qs (db, (c, dl)) =
      (replicate (length qs - 1) (Inr (Some Stop_Cancellation_Advanced)) @ [Inr (Some Run_Stopped)], (db', rs'))
    \<and> db_load_started_run (srq_run_id request) db' = Inr (Some run) \<and> sr_state run = RunState.CANCELLED
    \<and> list_all (\<lambda>t. rt_state t \<notin> set OPEN_TARGET_STATES) (sr_targets run)
    \<and> \<not> stop_pending db' (srq_run_id request)"
proof -
  have inv: "catalog_inv db" "recovery_inv (rc_tables c)"
    using reachable_catalog_inv [OF runs(1)] recovery_reachable_inv [OF journal(1)] by simp_all
  show ?thesis
    by (rule stop_cycles_end [where release_leases = release_leases and b = b, OF inv(1) runs(2,3) journal(2) inv(2) idle held release steps])
qed

section \<open>A stop that cannot go on\<close>

text \<open>C31: Once the leases of a run were released, a graceful stop of it can no longer cancel its planned operations.
A pause and an orderly shutdown release the leases and leave the untouched operations PLANNED under them; the
cancellation is recorded like a change to the target, under a lease that must be ACQUIRED.  Each cycle then raises
RECOVERY_OPERATION_LEASE_MISMATCH in its first step and changes neither database, however often it is repeated.\<close>

theorem stop_fails_after_release:
  assumes "recovery_reachable (c, dl)" "\<not> in_transaction c" "db_load_next_requested_run_stop db = Some request"
    and idle: "boundary_reached (rc_tables c) request" "other_started (rc_tables c) request = []"
    and planned: "planned_of (rc_tables c) request \<noteq> []"
      "\<forall>op \<in> set (planned_of (rc_tables c) request). \<not> lease_held (rc_tables c) op"
    and steps: "\<forall>q \<in> set qs. \<not> blank (sst_process_instance_id q) \<and> 1 \<le> sst_batch_size q"
  shows "stop_cycles release_leases qs (db, (c, dl)) =
    (replicate (length qs) (Inl (Recovery_Error (Operation_Store_Error ''RECOVERY_OPERATION_LEASE_MISMATCH''))), (db, (c, dl)))"
  using steps
proof (induction qs)
  case Nil
  then show ?case by simp
next
  case (Cons q qs)
  have "recovery_inv (rc_tables c)" using recovery_reachable_inv [OF assms(1)] by simp
  from refused_cycle [where q = q and release_leases = release_leases and dl = dl, OF assms(2) this assms(3) _ idle planned] Cons
  show ?case by (simp add: step_ready_def)
qed

section \<open>Applied\<close>

text \<open>A paused run whose stop is pending, and its journal: one operation is planned, its lease held or released.\<close>

definition ex_stop_request :: RunStopRequest where
  "ex_stop_request = \<lparr>srq_run_id = ''run'', srq_boundary_run_target_id = None, srq_boundary_operation_id = None\<rparr>"

definition ex_stop_step :: "string \<Rightarrow> stop_step" where
  "ex_stop_step now = \<lparr>sst_now = now, sst_directory_store = True, sst_process_instance_id = ''p1'',
     sst_batch_size = STOP_CANCELLATION_BATCH_SIZE\<rparr>"

definition ex_released :: recovery_tables where
  "ex_released = ex_planned\<lparr>resource_leases := map (released ''v'') (resource_leases ex_held)\<rparr>"

lemma demo_stop_pending: "db_load_next_requested_run_stop demo_paused = Some ex_stop_request"
  by code_simp

lemma demo_stoppable: "run_in demo_paused (srq_run_id ex_stop_request) STOPPABLE_RUN_STATES"
  by code_simp

lemma ex_stop_step_ready [simp]:
  "\<not> blank (sst_process_instance_id (ex_stop_step now))" "sst_batch_size (ex_stop_step now) = 100"
proof -
  have "\<not> blank ''p1''" by code_simp
  then show "\<not> blank (sst_process_instance_id (ex_stop_step now))" "sst_batch_size (ex_stop_step now) = 100"
    by (simp_all add: ex_stop_step_def STOP_CANCELLATION_BATCH_SIZE_def)
qed

lemma ex_alone [simp]: "\<not> in_transaction \<lparr>rc_tables = t, rc_begun = None\<rparr>"
  by (simp add: in_transaction_def)

lemma ex_planned_stop:
  assumes "recovery_operations t = [ex_row]"
  shows "boundary_reached t ex_stop_request" "other_started t ex_stop_request = []"
    "planned_of t ex_stop_request = [ex_operation]"
  using assms by (simp_all add: boundary_reached_def other_started_def started_of_def planned_of_def ex_stop_request_def)

lemma ex_planned_leases: "resource_leases ex_planned = resource_leases ex_held"
  by (simp add: ex_planned_def)

lemma ex_planned_held: "lease_held ex_planned ex_operation"
proof -
  have "require_active_matching_lease ex_operation ex_held = Inr ()" by code_simp
  then show ?thesis unfolding lease_held_def by (metis require_lease_cong ex_planned_leases)
qed

lemma ex_release:
  "release_resource_lease ''v'' ''l1'' \<lparr>rc_tables = ex_planned, rc_begun = None\<rparr> =
     (Inr (Some ()), \<lparr>rc_tables = ex_released, rc_begun = None\<rparr>)"
proof -
  let ?held = "\<lambda>l. rl_lease_id l = ''l1'' \<and> rl_state l = ACQUIRED"
  have "\<not> blank ''l1''" by code_simp
  moreover have "sql_count ?held (resource_leases ex_held) = 1"
    "sql_update ?held (released ''v'') (resource_leases ex_held) = map (released ''v'') (resource_leases ex_held)"
    by code_simp+
  then have "release_work ''v'' ''l1'' ex_planned = (Returns (), ex_released)"
    by (simp only: release_work_def Let_def ex_released_def ex_planned_leases if_False simp_thms)
  ultimately show ?thesis unfolding release_resource_lease_def by (simp only: transaction_returns if_False)
qed

lemma ex_released_reachable: "recovery_reachable (\<lparr>rc_tables = ex_released, rc_begun = None\<rparr>, Map.empty)"
  using recovery_next [OF ex_planned_reachable store_called [OF releases_lease [of _ _ "''v''" "''l1''"]]]
  by (simp add: ex_release)

lemma ex_released_tables:
  "recovery_operations ex_released = [ex_row]" "\<not> lease_held ex_released ex_operation"
proof -
  have "require_active_matching_lease ex_operation (ex_held\<lparr>resource_leases := map (released ''v'') (resource_leases ex_held)\<rparr>)
      \<noteq> Inr ()"
    by code_simp
  moreover have "resource_leases ex_released =
      resource_leases (ex_held\<lparr>resource_leases := map (released ''v'') (resource_leases ex_held)\<rparr>)"
    by (simp add: ex_released_def)
  ultimately show "\<not> lease_held ex_released ex_operation"
    unfolding lease_held_def by (metis require_lease_cong)
  show "recovery_operations ex_released = [ex_row]" by (simp add: ex_released_def)
qed

theorem stop_cancels_untouched_files_only_witness:
  "recovery_inv (rc_tables (fst (snd (snd (prepare_next_requested_run_stop (ex_stop_step ''9'')
     (demo_paused, (\<lparr>rc_tables = ex_planned, rc_begun = None\<rparr>, Map.empty)))))))"
proof -
  obtain answer db' c' dl' where step: "prepare_next_requested_run_stop (ex_stop_step ''9'')
      (demo_paused, (\<lparr>rc_tables = ex_planned, rc_begun = None\<rparr>, Map.empty)) = (answer, (db', (c', dl')))"
    by (metis prod.exhaust)
  from stop_cancels_untouched_files_only [OF ex_planned_reachable ex_alone step] step show ?thesis by simp
qed

theorem graceful_stop_ends_witness:
  "fst (stop_cycles (\<lambda>_ s. (Inr (), s)) [ex_stop_step ''8'', ex_stop_step ''9'']
     (demo_paused, (\<lparr>rc_tables = ex_planned, rc_begun = None\<rparr>, Map.empty))) =
   [Inr (Some Stop_Cancellation_Advanced), Inr (Some Run_Stopped)]"
  using graceful_stop_ends [OF demo_paused_reachable demo_stop_pending demo_stoppable ex_planned_reachable ex_alone,
      where release_leases = "\<lambda>_ s. (Inr (), s)" and b = 100 and qs = "[ex_stop_step ''8'', ex_stop_step ''9'']"]
    ex_planned_stop [of ex_planned] ex_planned_held
  by auto

theorem stop_fails_after_release_witness:
  "stop_cycles (\<lambda>_ s. (Inr (), s)) [ex_stop_step ''8'', ex_stop_step ''9'']
     (demo_paused, (\<lparr>rc_tables = ex_released, rc_begun = None\<rparr>, Map.empty)) =
   (replicate 2 (Inl (Recovery_Error (Operation_Store_Error ''RECOVERY_OPERATION_LEASE_MISMATCH''))),
    (demo_paused, (\<lparr>rc_tables = ex_released, rc_begun = None\<rparr>, Map.empty)))"
  using stop_fails_after_release [OF ex_released_reachable ex_alone demo_stop_pending,
      where release_leases = "\<lambda>_ s. (Inr (), s)" and qs = "[ex_stop_step ''8'', ex_stop_step ''9'']"]
    ex_planned_stop [OF ex_released_tables(1)] ex_released_tables(2)
  by (simp add: numeral_2_eq_2)

end
