(* ===== verification/Plan_Graph.thy ===== *)
theory Plan_Graph
  imports Plans
begin

text \<open>
  The dependency check of \<open>application/plans.py\<close> (\<open>_validate_dependencies\<close> and
  \<open>_reject_dependency_cycles\<close>) decides acyclicity of the dependency relation.
\<close>

section \<open>The relation a dictionary of edges stands for\<close>

definition edge_rel :: "edges \<Rightarrow> (string \<times> string) set" where
  "edge_rel e = {(a, b). \<exists>ys. map_of e a = Some ys \<and> b \<in> set ys}"

definition dep_rel :: "PlanDependency list \<Rightarrow> (string \<times> string) set" where
  "dep_rel ds = (\<lambda>d. (pd_before_operation_id d, pd_after_operation_id d)) ` set ds"

definition edges_closed :: "edges \<Rightarrow> bool" where
  "edges_closed e \<longleftrightarrow> snd ` edge_rel e \<subseteq> fst ` set e"

text \<open>The order in which \<open>visit\<close> finishes: every successor is finished before its predecessor.\<close>

fun topo :: "edges \<Rightarrow> string list \<Rightarrow> bool" where
  "topo e [] = True"
| "topo e (x # vs) = (x \<notin> set vs \<and> edge_rel e `` {x} \<subseteq> set vs \<and> topo e vs)"

lemma topo_closed:
  assumes "topo e vs" "(x, y) \<in> (edge_rel e)\<^sup>*" "x \<in> set vs"
  shows "y \<in> set vs"
  using assms(2,3)
proof (induction rule: converse_rtrancl_induct)
  case (step x z)
  have "z \<in> set vs" if "topo e vs" "x \<in> set vs" for vs
    using that step.hyps(1) by (induction vs) auto
  with assms(1) step show ?case by blast
qed

lemma topo_acyclic: "topo e vs \<Longrightarrow> x \<in> set vs \<Longrightarrow> (x, x) \<notin> (edge_rel e)\<^sup>+"
proof (induction vs)
  case (Cons v vs)
  have "(v, v) \<notin> (edge_rel e)\<^sup>+"
  proof
    assume "(v, v) \<in> (edge_rel e)\<^sup>+"
    then obtain z where "(v, z) \<in> edge_rel e" "(z, v) \<in> (edge_rel e)\<^sup>*"
      by (meson tranclD)
    with Cons.prems(1) topo_closed [of e vs z v] show False by auto
  qed
  with Cons show ?case by auto
qed simp

section \<open>Depth-first search\<close>

lemma visit_topo:
  "visit e vg vd x = Inr vd' \<Longrightarrow> topo e vd \<Longrightarrow> set vg \<inter> set vd = {} \<Longrightarrow>
     topo e vd' \<and> insert x (set vd) \<subseteq> set vd' \<and> set vg \<inter> set vd' = {}"
  "visit_all e vg vd xs = Inr vd' \<Longrightarrow> topo e vd \<Longrightarrow> set vg \<inter> set vd = {} \<Longrightarrow>
     topo e vd' \<and> set xs \<union> set vd \<subseteq> set vd' \<and> set vg \<inter> set vd' = {}"
proof (induction e vg vd x and e vg vd xs arbitrary: vd' and vd' rule: visit_visit_all.induct)
  case (1 e vg vd x)
  show ?case
  proof (cases "x \<in> set vd")
    case True
    then show ?thesis using 1 by (simp add: visit.simps)
  next
    case False
    then obtain ys ws where ys: "x \<notin> set vg" "map_of e x = Some ys"
        "visit_all e (x # vg) vd ys = Inr ws" "vd' = x # ws"
      using 1(2) by (auto simp: visit.simps split: if_splits option.splits sum.splits)
    have "topo e ws \<and> set ys \<union> set vd \<subseteq> set ws \<and> set (x # vg) \<inter> set ws = {}"
      using 1(1) [OF False ys(1,2,3) 1(3)] 1(4) False by auto
    moreover have "edge_rel e `` {x} = set ys" using ys(2) by (auto simp: edge_rel_def)
    ultimately show ?thesis using ys by auto
  qed
next
  case (3 e vg vd x xs)
  from 3(3) obtain ws where ws: "visit e vg vd x = Inr ws" "visit_all e vg ws xs = Inr vd'"
    by (auto split: sum.splits)
  have a: "topo e ws \<and> insert x (set vd) \<subseteq> set ws \<and> set vg \<inter> set ws = {}"
    using 3(1) [OF ws(1) 3(4,5)] .
  have "topo e vd' \<and> set xs \<union> set ws \<subseteq> set vd' \<and> set vg \<inter> set vd' = {}"
    using 3(2) [OF ws] a by blast
  with a show ?case by auto
qed simp

lemma visit_error:
  "visit e vg vd x = Inl c \<Longrightarrow> edges_closed e \<Longrightarrow> x \<in> fst ` set e \<Longrightarrow>
     \<forall>v \<in> set vg. (v, x) \<in> (edge_rel e)\<^sup>+ \<Longrightarrow>
     c = ''PLAN_DEPENDENCIES_MUST_BE_ACYCLIC'' \<and> \<not> acyclic (edge_rel e)"
  "visit_all e vg vd xs = Inl c \<Longrightarrow> edges_closed e \<Longrightarrow> set xs \<subseteq> fst ` set e \<Longrightarrow>
     \<forall>v \<in> set vg. \<forall>x \<in> set xs. (v, x) \<in> (edge_rel e)\<^sup>+ \<Longrightarrow>
     c = ''PLAN_DEPENDENCIES_MUST_BE_ACYCLIC'' \<and> \<not> acyclic (edge_rel e)"
proof (induction e vg vd x and e vg vd xs rule: visit_visit_all.induct)
  case (1 e vg vd x)
  have nv: "x \<notin> set vd" using 1(2) by (auto simp: visit.simps)
  obtain ys where ys: "map_of e x = Some ys"
    using 1(4) by (metis map_of_eq_None_iff option.exhaust)
  show ?case
  proof (cases "x \<in> set vg")
    case True
    then have "c = ''PLAN_DEPENDENCIES_MUST_BE_ACYCLIC''" using 1(2) nv by (simp add: visit.simps)
    then show ?thesis using 1(5) True by (auto simp: acyclic_def)
  next
    case False
    have e: "visit_all e (x # vg) vd ys = Inl c"
      using 1(2) nv False ys by (simp add: visit.simps split: sum.splits)
    have r: "(x, y) \<in> edge_rel e" if "y \<in> set ys" for y using that ys by (auto simp: edge_rel_def)
    show ?thesis
    proof (rule 1(1) [OF nv False ys e 1(3)])
      show "set ys \<subseteq> fst ` set e" using r 1(3) by (force simp: edges_closed_def)
      show "\<forall>v \<in> set (x # vg). \<forall>y \<in> set ys. (v, y) \<in> (edge_rel e)\<^sup>+"
        using r 1(5) by (auto intro: trancl.intros)
    qed
  qed
next
  case (3 e vg vd x xs)
  show ?case
  proof (cases "visit e vg vd x")
    case (Inl c')
    then have "visit e vg vd x = Inl c" using 3(3) by simp
    then show ?thesis using 3(1) 3(4-) by simp
  next
    case (Inr ws)
    then have "visit_all e vg ws xs = Inl c" using 3(3) by simp
    then show ?thesis using 3(2) [OF Inr] 3(4-) by simp
  qed
qed simp

text \<open>A successful search has finished every key, so no cycle is left; a search that fails has
  met a node on its own path.\<close>

lemma reject_dependency_cycles_iff:
  assumes "edges_closed e"
  shows "reject_dependency_cycles e =
    (if acyclic (edge_rel e) then Inr () else Inl ''PLAN_DEPENDENCIES_MUST_BE_ACYCLIC'')"
proof (cases "visit_all e [] [] (map fst e)")
  case (Inl c)
  then show ?thesis
    using visit_error(2) [OF Inl assms] by (simp add: reject_dependency_cycles_def)
next
  case (Inr vs)
  then have t: "topo e vs" "set (map fst e) \<subseteq> set vs"
    using visit_topo(2) [OF Inr] by simp_all
  have "x \<in> set vs" if "(x, y) \<in> (edge_rel e)\<^sup>+" for x y
  proof -
    from tranclD [OF that] obtain z where "(x, z) \<in> edge_rel e" by blast
    then have "x \<in> fst ` set e" by (force simp: edge_rel_def dest: map_of_SomeD)
    then show ?thesis using t(2) by auto
  qed
  then have "acyclic (edge_rel e)" using topo_acyclic [OF t(1)] by (auto simp: acyclic_def)
  then show ?thesis using Inr by (simp add: reject_dependency_cycles_def)
qed

section \<open>Building the edges\<close>

definition dependency_ok :: "string list \<Rightarrow> PlanDependency \<Rightarrow> bool" where
  "dependency_ok ids d \<longleftrightarrow> pd_before_operation_id d \<noteq> pd_after_operation_id d
     \<and> pd_before_operation_id d \<in> set ids \<and> pd_after_operation_id d \<in> set ids"

lemma map_of_map_values:
  "map_of (map (\<lambda>(k, v). (k, f k v)) e) k = map_option (f k) (map_of e k)"
  by (induction e) auto

lemma add_dependencies_ok:
  assumes "list_all (dependency_ok ids) ds" "set ids \<subseteq> fst ` set e"
  shows "\<exists>e'. add_dependencies ids e ds = Inr e' \<and> map fst e' = map fst e \<and>
              edge_rel e' = edge_rel e \<union> dep_rel ds"
  using assms
proof (induction ds arbitrary: e)
  case Nil
  then show ?case by (simp add: dep_rel_def)
next
  case (Cons d ds)
  let ?b = "pd_before_operation_id d" and ?a = "pd_after_operation_id d"
  let ?e = "map (\<lambda>(k, ys). (k, if k = ?b then List.insert ?a ys else ys)) e"
  have k: "map fst ?e = map fst e" by (simp add: case_prod_beta comp_def)
  have ids: "set ids \<subseteq> fst ` set ?e"
    using Cons.prems(2) k by (metis list.set_map)
  have "?b \<in> fst ` set e" using Cons.prems by (auto simp: dependency_ok_def)
  then obtain ys where ys: "map_of e ?b = Some ys" by (metis map_of_eq_None_iff option.exhaust)
  have m: "map_of ?e k = map_option (\<lambda>ys. if k = ?b then List.insert ?a ys else ys) (map_of e k)" for k
    by (rule map_of_map_values)
  have "edge_rel ?e = insert (?b, ?a) (edge_rel e)"
  proof (rule set_eqI)
    fix p :: "string \<times> string"
    obtain x y where p: "p = (x, y)" by (cases p)
    show "p \<in> edge_rel ?e \<longleftrightarrow> p \<in> insert (?b, ?a) (edge_rel e)"
      by (cases "x = ?b") (simp_all add: p edge_rel_def m ys)
  qed
  then have r: "edge_rel ?e \<union> dep_rel ds = edge_rel e \<union> dep_rel (d # ds)"
    by (auto simp: dep_rel_def)
  obtain e' where "add_dependencies ids ?e ds = Inr e'" "map fst e' = map fst ?e"
      "edge_rel e' = edge_rel ?e \<union> dep_rel ds"
    using Cons.IH [OF _ ids] Cons.prems(1) by auto
  then show ?case using Cons.prems(1) k r by (simp add: dependency_ok_def)
qed

lemma add_dependencies_bad:
  "\<not> list_all (dependency_ok ids) ds \<Longrightarrow> add_dependencies ids e ds \<noteq> Inr e'"
  by (induction ds arbitrary: e) (auto simp: dependency_ok_def)

lemma edge_rel_initial: "edge_rel (map (\<lambda>i. (i, [])) ids) = {}"
proof -
  have "ys = []" if "map_of (map (\<lambda>i. (i, [])) ids) a = Some ys" for a :: string and ys :: "string list"
    using that by (induction ids) (auto split: if_splits)
  then show ?thesis by (fastforce simp: edge_rel_def)
qed

text \<open>What the dependency check decides, on every input.\<close>

lemma validate_dependencies_iff:
  "validate_dependencies ops ds = Inr () \<longleftrightarrow>
     list_all (dependency_ok (map po_operation_id ops)) ds \<and> acyclic (dep_rel ds)"
proof (cases "list_all (dependency_ok (map po_operation_id ops)) ds")
  case True
  let ?ids = "map po_operation_id ops"
  let ?e = "map (\<lambda>i. (i, [])) ?ids :: edges"
  have f: "map fst ?e = ?ids" by (simp add: comp_def)
  then have "set ?ids \<subseteq> fst ` set ?e" by (metis list.set_map order_refl)
  from add_dependencies_ok [OF True this]
  obtain e' where e': "add_dependencies ?ids ?e ds = Inr e'" "map fst e' = ?ids" "edge_rel e' = dep_rel ds"
    unfolding f edge_rel_initial by auto
  have "edges_closed e'"
    using True e'(2,3) list.set_map [of fst e']
    by (auto simp: edges_closed_def dep_rel_def list_all_iff dependency_ok_def)
  then show ?thesis
    using True e' by (simp add: validate_dependencies_def Let_def reject_dependency_cycles_iff)
next
  case False
  then show ?thesis using add_dependencies_bad [OF False]
    by (auto simp: validate_dependencies_def Let_def)
qed

end
