(* ===== verification/Plan_Sealing.thy ===== *)
theory Plan_Sealing
  imports Plan_Graph
begin

text \<open>
  What \<open>seal_plan\<close> of \<open>application/plans.py\<close> guarantees of the plan it returns: its shape, the
  evidence of its copy operations, independence of the order of the arguments, and that the
  checksum binds every field.
\<close>

section \<open>The validation loops\<close>

definition operation_valid :: "string list \<Rightarrow> PlanOperation \<Rightarrow> bool" where
  "operation_valid writable op \<longleftrightarrow> validate_operation writable [] [] op = Inr ()"

definition endpoint_valid :: "PlanEndpoint \<Rightarrow> bool" where
  "endpoint_valid e \<longleftrightarrow> (\<exists>r. validate_endpoint [] [] e = Inr r)"

definition writable_ordinals :: "PlanEndpoint list \<Rightarrow> int list" where
  "writable_ordinals es =
     List.map_filter (\<lambda>e. if pe_role e = TARGET_WRITABLE then pe_target_ordinal e else None) es"

lemma writable_ordinals_simps [simp]:
  "writable_ordinals [] = []"
  "writable_ordinals (e # es) =
     (if pe_role e = TARGET_WRITABLE
      then (case pe_target_ordinal e of None \<Rightarrow> writable_ordinals es | Some i \<Rightarrow> i # writable_ordinals es)
      else writable_ordinals es)"
  by (simp_all add: writable_ordinals_def map_filter_simps split: option.split)

lemma validate_operation_iff:
  "validate_operation w ids seqs op = Inr () \<longleftrightarrow>
     operation_valid w op \<and> po_operation_id op \<notin> set ids \<and> po_sequence_no op \<notin> set seqs"
  by (simp add: operation_valid_def validate_operation_def)

lemma validate_operations_loop_iff:
  "validate_operations_loop w ids seqs ops = Inr () \<longleftrightarrow>
     list_all (operation_valid w) ops
     \<and> distinct (map po_operation_id ops) \<and> set ids \<inter> po_operation_id ` set ops = {}
     \<and> distinct (map po_sequence_no ops) \<and> set seqs \<inter> po_sequence_no ` set ops = {}"
  by (induction ops arbitrary: ids seqs) (auto simp: validate_operation_iff)

lemma validate_endpoint_iff:
  "validate_endpoint ids ords e = Inr r \<longleftrightarrow>
     endpoint_valid e \<and> pe_endpoint_id e \<notin> set ids
     \<and> set ords \<inter> set (writable_ordinals [e]) = {} \<and> r = writable_ordinals [e] @ ords"
  by (cases "pe_target_ordinal e")
    (auto simp: validate_endpoint_def endpoint_valid_def validate_writable_target_endpoint_def)

lemma validate_endpoints_loop_iff:
  "validate_endpoints_loop ids ords es = Inr () \<longleftrightarrow>
     list_all endpoint_valid es
     \<and> distinct (map pe_endpoint_id es) \<and> set ids \<inter> pe_endpoint_id ` set es = {}
     \<and> distinct (writable_ordinals es) \<and> set ords \<inter> set (writable_ordinals es) = {}"
proof (induction es arbitrary: ids ords)
  case (Cons e es)
  show ?case
    unfolding validate_endpoints_loop.simps and_then_Inr_iff validate_endpoint_iff
    by (cases "pe_target_ordinal e") (auto simp: Cons.IH)
qed simp

lemma validate_operations_iff:
  "validate_operations ops es = Inr () \<longleftrightarrow>
     ops \<noteq> [] \<and> list_all (operation_valid (writable_endpoint_ids es)) ops
     \<and> distinct (map po_operation_id ops) \<and> distinct (map po_sequence_no ops)"
  by (auto simp: validate_operations_def validate_operations_loop_iff)

lemma validate_endpoints_iff:
  "validate_endpoints es = Inr () \<longleftrightarrow>
     list_all endpoint_valid es \<and> distinct (map pe_endpoint_id es) \<and> distinct (writable_ordinals es)"
  by (auto simp: validate_endpoints_def validate_endpoints_loop_iff)

lemmas validation_iffs = validate_operations_iff validate_endpoints_iff validate_dependencies_iff

section \<open>The sealed plan\<close>

definition plan_parts ::
  "PlanOperation list \<Rightarrow> PlanEndpoint list \<Rightarrow> PlanDependency list \<Rightarrow>
   PlanOperation list \<times> PlanEndpoint list \<times> PlanDependency list" where
  "plan_parts ops es ds =
     (sort_key po_sequence_no (bind_single_target_operations ops (sort_key endpoint_order_key es)),
      sort_key endpoint_order_key es, sort_key dependency_order_key ds)"

lemma seal_plan_InrD:
  assumes "seal_plan i a j r ops es ds parent policy risk = Inr plan"
  shows "plan_parts ops es ds = (sp_operations plan, sp_endpoints plan, sp_dependencies plan)"
    and "validate_endpoints (sp_endpoints plan) = Inr ()"
    and "validate_operations (sp_operations plan) (sp_endpoints plan) = Inr ()"
    and "validate_dependencies (sp_operations plan) (sp_dependencies plan) = Inr ()"
    and "sp_operation_count plan = int (length (sp_operations plan))"
    and "sp_planned_bytes plan = sum_list (map po_planned_bytes (sp_operations plan))"
    and "sp_plan_checksum plan = checksum (canonical_payload (plan\<lparr>sp_plan_checksum := []\<rparr>))"
    and "sp_immutable plan"
  using assms by (auto simp: seal_plan_def Let_def plan_parts_def)

lemma checksum_field_irrelevant [simp]:
  "canonical_payload (plan\<lparr>sp_plan_checksum := c\<rparr>) = canonical_payload plan"
  by (simp add: canonical_payload_def)

lemma bind_single_target_as_map:
  "\<exists>f. \<forall>ops. bind_single_target_operations ops es = map f ops"
proof -
  have "bind_single_target_operations ops es =
      map (case filter (\<lambda>e. pe_role e = TARGET_WRITABLE) es of
             [t] \<Rightarrow> (\<lambda>op. if po_target_endpoint_id op \<noteq> None then op
                           else op\<lparr>po_target_endpoint_id := Some (pe_endpoint_id t)\<rparr>)
           | _ \<Rightarrow> (\<lambda>op. op)) ops" for ops
    by (simp add: bind_single_target_operations_def split: list.split)
  then show ?thesis by blast
qed

lemma operation_valid_target:
  "operation_valid w op \<Longrightarrow> po_target_endpoint_id op = Some t \<Longrightarrow> t \<in> set w"
  by (auto simp: operation_valid_def validate_operation_def split: if_splits)

lemma operation_valid_copy:
  assumes "operation_valid w op" "effective_operation_type op \<in> {Some COPY_NEW, Some REPLACE_CHANGED}"
  shows "\<exists>path evidence. po_source_relative_path op = Some path \<and> \<not> blank path \<and> \<not> looks_absolute_path path
    \<and> source_precondition_from_json (po_source_precondition_json op) = Inr evidence
    \<and> sfp_relative_path evidence = path \<and> sfp_size_bytes evidence = po_planned_bytes op"
proof -
  have "validate_source_precondition op = Inr ()"
    using assms(1) by (auto simp: operation_valid_def validate_operation_def split: if_splits)
  with assms(2) show ?thesis
    unfolding validate_source_precondition_def by (auto split: if_splits option.splits sum.splits)
qed

lemma operation_valid_bytes: "operation_valid w op \<Longrightarrow> 0 \<le> po_planned_bytes op"
  by (auto simp: operation_valid_def validate_operation_def split: if_splits)

lemma sorted_wrt_of_sort_key:
  assumes "distinct (map f (sort_key f xs))"
  shows "sorted_wrt (<) (map f (sort_key f xs))"
  using assms by (simp add: strict_sorted_iff)

lemma seal_plan_structure_aux:
  assumes "seal_plan i a j r ops es ds parent policy risk = Inr plan"
  shows "verify_plan_checksum plan" "sp_operations plan \<noteq> []"
    "distinct (map po_operation_id (sp_operations plan))"
    "sorted_wrt (<) (map po_sequence_no (sp_operations plan))"
    "distinct (map pe_endpoint_id (sp_endpoints plan))"
    "distinct (writable_ordinals (sp_endpoints plan))"
    "list_all (dependency_ok (map po_operation_id (sp_operations plan))) (sp_dependencies plan)"
    "acyclic (dep_rel (sp_dependencies plan))"
    "0 \<le> sp_planned_bytes plan"
proof -
  note s = seal_plan_InrD [OF assms]
  show "verify_plan_checksum plan" using s(7) by (simp add: verify_plan_checksum_def)
  show "sp_operations plan \<noteq> []" "distinct (map po_operation_id (sp_operations plan))"
    "distinct (map pe_endpoint_id (sp_endpoints plan))" "distinct (writable_ordinals (sp_endpoints plan))"
    "list_all (dependency_ok (map po_operation_id (sp_operations plan))) (sp_dependencies plan)"
    "acyclic (dep_rel (sp_dependencies plan))"
    using s(2,3,4) by (simp_all add: validation_iffs)
  have d: "distinct (map po_sequence_no (sp_operations plan))" using s(3) by (simp add: validation_iffs)
  show "sorted_wrt (<) (map po_sequence_no (sp_operations plan))"
    using s(1) sorted_wrt_of_sort_key [of po_sequence_no "bind_single_target_operations ops (sp_endpoints plan)"] d
    by (auto simp: plan_parts_def)
  show "0 \<le> sp_planned_bytes plan"
    using s(3,6) by (auto simp: validation_iffs list_all_iff intro!: sum_list_nonneg dest!: operation_valid_bytes)
qed

section \<open>Order of the arguments\<close>

lemma endpoint_order_key_inj:
  "distinct (map pe_endpoint_id es) \<Longrightarrow> inj_on endpoint_order_key (set es)"
  by (auto simp: inj_on_def endpoint_order_key_def distinct_map)

lemma dependency_order_key_inj: "inj dependency_order_key"
proof (rule injI)
  fix d d' assume "dependency_order_key d = dependency_order_key d'"
  then show "d = d'" by (cases d, cases d') (simp add: dependency_order_key_def)
qed

lemma plan_parts_perm:
  assumes "mset ops = mset ops'" "mset es = mset es'" "mset ds = mset ds'"
    "plan_parts ops es ds = (pops, pes, pds)"
    "distinct (map pe_endpoint_id pes)" "distinct (map po_sequence_no pops)"
  shows "plan_parts ops' es' ds' = (pops, pes, pds)"
proof -
  have "inj_on endpoint_order_key (set es)"
    using assms(4,5) endpoint_order_key_inj [of "sort_key endpoint_order_key es"] by (auto simp: plan_parts_def)
  then have e: "sort_key endpoint_order_key es' = pes"
    using sort_key_perm_eq [OF assms(2), of endpoint_order_key] assms(4) by (simp add: plan_parts_def)
  have d: "sort_key dependency_order_key ds' = pds"
    using sort_key_perm_eq [OF assms(3), of dependency_order_key] assms(4) dependency_order_key_inj
    by (simp add: plan_parts_def inj_on_subset)
  obtain f where f: "\<And>ops. bind_single_target_operations ops pes = map f ops"
    using bind_single_target_as_map by blast
  have o: "sort_key po_sequence_no (map f ops) = pops"
    using assms(4) e f by (auto simp: plan_parts_def)
  then have "inj_on po_sequence_no (set (map f ops))"
    using assms(6) by (metis distinct_map set_sort)
  moreover have "mset (map f ops) = mset (map f ops')" using assms(1) by simp
  ultimately have "sort_key po_sequence_no (map f ops') = pops"
    using o sort_key_perm_eq [of "map f ops" "map f ops'" po_sequence_no] by simp
  then show ?thesis using e d f by (simp add: plan_parts_def)
qed

lemma seal_plan_parts_cong:
  assumes "plan_parts ops es ds = plan_parts ops' es' ds'"
  shows "seal_plan i a j r ops es ds parent policy risk = seal_plan i a j r ops' es' ds' parent policy risk"
proof -
  have e: "sort_key endpoint_order_key es = sort_key endpoint_order_key es'"
    and d: "sort_key dependency_order_key ds = sort_key dependency_order_key ds'"
    using assms by (simp_all add: plan_parts_def)
  have "sort_key po_sequence_no (bind_single_target_operations ops (sort_key endpoint_order_key es')) =
        sort_key po_sequence_no (bind_single_target_operations ops' (sort_key endpoint_order_key es'))"
    using assms e by (simp add: plan_parts_def)
  then show ?thesis unfolding seal_plan_def Let_def by (simp only: e d)
qed

lemma seal_plan_perm_aux:
  assumes "seal_plan i a j r ops es ds parent policy risk = Inr plan"
    "mset ops = mset ops'" "mset es = mset es'" "mset ds = mset ds'"
  shows "seal_plan i a j r ops' es' ds' parent policy risk = Inr plan"
proof -
  note s = seal_plan_InrD [OF assms(1)]
  have "plan_parts ops' es' ds' = plan_parts ops es ds"
    using s(2,3) plan_parts_perm [OF assms(2-4) s(1)] s(1) by (simp add: validation_iffs)
  then show ?thesis using assms(1) seal_plan_parts_cong by metis
qed

end
