(* ===== verification/Plan_Checksum.thy ===== *)
theory Plan_Checksum
  imports Plan_Sealing
begin

text \<open>
  The canonical payload of \<open>application/plans.py\<close> determines the plan: two plans with the same
  serialisation agree in every field, the risk summary up to the order of its keys.
\<close>

section \<open>Values of enumerations\<close>

lemma operation_type_value_inject [simp]: "operation_type_value t = operation_type_value u \<longleftrightarrow> t = u"
  by (cases t; cases u) (simp_all add: operation_type_value_def)

lemma precondition_kind_value_inject [simp]: "precondition_kind_value t = precondition_kind_value u \<longleftrightarrow> t = u"
  by (cases t; cases u) (simp_all add: precondition_kind_value_def)

lemma risk_level_value_inject [simp]: "risk_level_value t = risk_level_value u \<longleftrightarrow> t = u"
  by (cases t; cases u) (simp_all add: risk_level_value_def)

lemma endpoint_role_value_inject [simp]: "endpoint_role_value t = endpoint_role_value u \<longleftrightarrow> t = u"
  by (cases t; cases u) (simp_all add: endpoint_role_value_def)

lemma jopt_inject [simp]:
  "canon (jopt_str a) = canon (jopt_str b) \<longleftrightarrow> a = b"
  "canon (jopt_int c) = canon (jopt_int d) \<longleftrightarrow> c = d"
  by (auto simp: jopt_str_def jopt_int_def split: option.splits)

lemma wf_json_jopt [simp]: "wf_json (jopt_str a)" "wf_json (jopt_int b)"
  by (simp_all add: jopt_str_def jopt_int_def split: option.split)

lemma map_option_inj_eq: "inj f \<Longrightarrow> map_option f x = map_option f y \<Longrightarrow> x = y"
  by (cases x; cases y) (auto dest: injD)

section \<open>Equal objects have equal members\<close>

lemma canon_JObj_eq_lookup:
  assumes "canon (JObj a) = canon (JObj b)" "distinct (map fst a)" "distinct (map fst b)"
  shows "map_option canon (map_of a k) = map_option canon (map_of b k)"
proof -
  obtain d where d: "canon (JObj a) = JObj d" by simp
  then have "canon (JObj b) = JObj d" using assms(1) by simp
  then show ?thesis
    using canon_JObj_lookup [OF assms(2) d, of k] canon_JObj_lookup [OF assms(3), of d k] by simp
qed

lemma operation_payload_distinct:
  "\<exists>kvs. operation_payload op True True True = JObj kvs \<and> distinct (map fst kvs)"
  by (simp add: operation_payload_def)

lemma operation_payload_inject:
  assumes "canon (operation_payload p True True True) = canon (operation_payload q True True True)"
  shows "p = q"
proof -
  note l = canon_JObj_eq_lookup [OF assms [unfolded operation_payload_def if_True append_Cons append_Nil]]
  have "map_option operation_type_value (po_deferred_operation_type p) =
        map_option operation_type_value (po_deferred_operation_type q)"
    using l [of "''deferred_operation_type''"] by simp
  then have "po_deferred_operation_type p = po_deferred_operation_type q"
    by (rule map_option_inj_eq [rotated]) (simp add: inj_def)
  then show ?thesis
    using l [of "''execution_phase''"] l [of "''operation_id''"] l [of "''operation_type''"]
      l [of "''planned_bytes''"] l [of "''reason_code''"] l [of "''risk_level''"]
      l [of "''sequence_no''"] l [of "''stable_order_key''"] l [of "''target_precondition_kind''"]
      l [of "''target_relative_path''"] l [of "''target_endpoint_id''"]
      l [of "''source_relative_path''"] l [of "''source_precondition_json''"]
    by (cases p; cases q) simp
qed

lemma endpoint_payload_inject:
  assumes "canon (endpoint_payload p) = canon (endpoint_payload q)"
  shows "p = q"
proof -
  note l = canon_JObj_eq_lookup [OF assms [unfolded endpoint_payload_def]]
  show ?thesis
    using l [of "''capabilities_hash''"] l [of "''control_schema_version''"] l [of "''endpoint_id''"]
      l [of "''endpoint_generation''"] l [of "''endpoint_revision_id''"] l [of "''planned_bytes''"]
      l [of "''planned_operations''"] l [of "''required_owner_installation_id''"]
      l [of "''required_ownership_epoch''"] l [of "''role''"] l [of "''root_case_context_hash''"]
      l [of "''snapshot_id''"] l [of "''target_ordinal''"]
    by (cases p; cases q) simp
qed

lemma dependency_payload_inject:
  assumes "canon (dependency_payload p) = canon (dependency_payload q)"
  shows "p = q"
proof -
  note l = canon_JObj_eq_lookup [OF assms [unfolded dependency_payload_def]]
  show ?thesis
    using l [of "''after_operation_id''"] l [of "''before_operation_id''"] by (cases p; cases q) simp
qed

lemma map_canon_inject:
  assumes "\<And>x y. canon (f x) = canon (f y) \<Longrightarrow> x = y" "canon (JArr (map f xs)) = canon (JArr (map f ys))"
  shows "xs = ys"
proof -
  have "map (canon \<circ> f) xs = map (canon \<circ> f) ys" using assms(2) by simp
  moreover have "inj (canon \<circ> f)" using assms(1) by (simp add: inj_def)
  ultimately show ?thesis by (simp add: inj_map_eq_map)
qed

section \<open>The payload of a plan\<close>

lemma wf_payloads:
  "wf_json (operation_payload op True True True)" "wf_json (endpoint_payload e)" "wf_json (dependency_payload d)"
  by (simp_all add: operation_payload_def endpoint_payload_def dependency_payload_def)

lemma wf_canonical_payload:
  assumes "wf_json (JObj (sp_risk_summary p))" "4 \<le> sp_operation_schema_version p"
  shows "wf_json (canonical_payload p)"
  using assms by (simp add: canonical_payload_def list_all_iff wf_payloads)

definition payload_members :: "SealedPlan \<Rightarrow> (string \<times> json) list" where
  "payload_members p = (case canonical_payload p of JObj kvs \<Rightarrow> kvs | _ \<Rightarrow> [])"

lemma payload_members: "canonical_payload p = JObj (payload_members p)" "distinct (map fst (payload_members p))"
  by (simp_all add: payload_members_def canonical_payload_def canonical_payload_def)

lemma payload_lookup:
  assumes "canon (canonical_payload p) = canon (canonical_payload q)"
  shows "map_option canon (map_of (payload_members p) k) = map_option canon (map_of (payload_members q) k)"
  using assms unfolding payload_members(1) by (rule canon_JObj_eq_lookup) (rule payload_members(2))+

lemma canonical_payload_inject:
  assumes "canon (canonical_payload p) = canon (canonical_payload q)"
    "4 \<le> sp_operation_schema_version p" "4 \<le> sp_operation_schema_version q"
  shows "canon (JObj (sp_risk_summary p)) = canon (JObj (sp_risk_summary q))"
    and "q\<lparr>sp_risk_summary := sp_risk_summary p, sp_plan_checksum := sp_plan_checksum p\<rparr> = p"
proof -
  note l = payload_lookup [OF assms(1)]
  show r: "canon (JObj (sp_risk_summary p)) = canon (JObj (sp_risk_summary q))"
    using l [of "''risk_summary''"] by (simp add: payload_members_def canonical_payload_def del: canon.simps)
  have "sp_operations p = sp_operations q"
    by (rule map_canon_inject [OF operation_payload_inject])
      (use l [of "''operations''"] assms(2,3) in \<open>simp_all add: payload_members_def canonical_payload_def del: canon.simps(1)\<close>)
  moreover have "sp_endpoints p = sp_endpoints q"
    by (rule map_canon_inject [OF endpoint_payload_inject])
      (use l [of "''endpoints''"] in \<open>simp_all add: payload_members_def canonical_payload_def del: canon.simps(1)\<close>)
  moreover have "sp_dependencies p = sp_dependencies q"
    by (rule map_canon_inject [OF dependency_payload_inject])
      (use l [of "''dependencies''"] in \<open>simp_all add: payload_members_def canonical_payload_def del: canon.simps(1)\<close>)
  moreover have "sp_analysis_id p = sp_analysis_id q"
    using l [of "''analysis_id''"] by (simp add: payload_members_def canonical_payload_def)
  moreover have "sp_checksum_algorithm p = sp_checksum_algorithm q"
    using l [of "''checksum_algorithm''"] by (simp add: payload_members_def canonical_payload_def)
  moreover have "sp_execution_policy p = sp_execution_policy q"
    using l [of "''execution_policy''"] by (simp add: payload_members_def canonical_payload_def)
  moreover have "sp_immutable p = sp_immutable q"
    using l [of "''immutable''"] by (simp add: payload_members_def canonical_payload_def)
  moreover have "sp_job_id p = sp_job_id q"
    using l [of "''job_id''"] by (simp add: payload_members_def canonical_payload_def)
  moreover have "sp_job_revision_id p = sp_job_revision_id q"
    using l [of "''job_revision_id''"] by (simp add: payload_members_def canonical_payload_def)
  moreover have "sp_operation_count p = sp_operation_count q"
    using l [of "''operation_count''"] by (simp add: payload_members_def canonical_payload_def)
  moreover have "sp_operation_schema_version p = sp_operation_schema_version q"
    using l [of "''operation_schema_version''"] by (simp add: payload_members_def canonical_payload_def)
  moreover have "sp_parent_plan_id p = sp_parent_plan_id q"
    using l [of "''parent_plan_id''"] by (simp add: payload_members_def canonical_payload_def)
  moreover have "sp_planned_bytes p = sp_planned_bytes q"
    using l [of "''planned_bytes''"] by (simp add: payload_members_def canonical_payload_def)
  moreover have "sp_plan_id p = sp_plan_id q"
    using l [of "''plan_id''"] by (simp add: payload_members_def canonical_payload_def)
  moreover have "sp_plan_schema_version p = sp_plan_schema_version q"
    using l [of "''plan_schema_version''"] by (simp add: payload_members_def canonical_payload_def)
  moreover have "sp_planner_version p = sp_planner_version q"
    using l [of "''planner_version''"] by (simp add: payload_members_def canonical_payload_def)
  moreover have "sp_serializer_version p = sp_serializer_version q"
    using l [of "''serializer_version''"] by (simp add: payload_members_def canonical_payload_def)
  ultimately show "q\<lparr>sp_risk_summary := sp_risk_summary p, sp_plan_checksum := sp_plan_checksum p\<rparr> = p"
    by (intro SealedPlan.equality) simp_all
qed

lemma checksum_binds_aux:
  assumes "verify_plan_checksum p" "verify_plan_checksum q" "sp_plan_checksum p = sp_plan_checksum q"
    "inj_on sha256_hexdigest
       ((\<lambda>plan. utf8 (json_dumps False (canonical_payload plan))) ` {p, q})"
    "4 \<le> sp_operation_schema_version p" "4 \<le> sp_operation_schema_version q"
    "wf_json (JObj (sp_risk_summary p))" "wf_json (JObj (sp_risk_summary q))"
  shows "canon (JObj (sp_risk_summary p)) = canon (JObj (sp_risk_summary q))
     \<and> q\<lparr>sp_risk_summary := sp_risk_summary p\<rparr> = p"
proof -
  have "utf8 (json_dumps False (canonical_payload p)) = utf8 (json_dumps False (canonical_payload q))"
  proof (rule inj_onD [OF assms(4)])
    show "sha256_hexdigest (utf8 (json_dumps False (canonical_payload p))) =
          sha256_hexdigest (utf8 (json_dumps False (canonical_payload q)))"
      using assms(1-3) by (simp only: verify_plan_checksum_def checksum_def)
  qed (rule imageI, simp)+
  then have "json_dumps False (canonical_payload p) = json_dumps False (canonical_payload q)"
    by (rule utf8_inject)
  then have "canon (canonical_payload p) = canon (canonical_payload q)"
    using assms(5-8) by (intro dumps_inject) (auto intro!: wf_canonical_payload)
  from canonical_payload_inject [OF this assms(5,6)] show ?thesis
    using assms(3) by (cases p; cases q) simp
qed

end
