(* ===== verification/Utc_Text.thy ===== *)
theory Utc_Text
  imports Endpoint_Retry
begin

text \<open>
  The UTC text form: what \<open>_format_utc\<close> writes \<open>_parse_utc\<close> reads back, for every instant of the
  years 1 to 9999, up to the milliseconds the text keeps.
\<close>

section \<open>The calendar\<close>

text \<open>The month of a day of the year, as \<open>_ord2ymd\<close> guesses and corrects it.\<close>

definition month_day :: "bool \<Rightarrow> int \<Rightarrow> nat \<times> int" where
  "month_day leap n =
     (let y = (if leap then 4 else 1); month = nat ((n + 50) div 32); preceding = days_before_month y month
      in if n < preceding then (month - 1, n - (preceding - days_in_month y (month - 1)) + 1)
         else (month, n - preceding + 1))"

definition month_day_ok :: "bool \<Rightarrow> int \<Rightarrow> bool" where
  "month_day_ok leap n =
     (let (m, d) = month_day leap n; y = (if leap then 4 else 1) in
       1 \<le> m \<and> m \<le> 12 \<and> 1 \<le> d \<and> d \<le> days_in_month y m \<and> days_before_month y m + d = n + 1)"

lemma month_day_all: "list_all (\<lambda>n. month_day_ok True n \<and> month_day_ok False n) [0..364]"
  by code_simp

lemma leap_cong:
  assumes "is_leap y = is_leap z"
  shows "days_in_month y = days_in_month z" "days_before_month y = days_before_month z"
proof -
  show m: "days_in_month y = days_in_month z" using assms by (simp add: days_in_month_def fun_eq_iff)
  show "days_before_month y = days_before_month z" by (simp add: days_before_month_def fun_eq_iff m)
qed

lemma month_day_correct:
  assumes "0 \<le> n" "n < 365" "is_leap y = leap" "month_day leap n = (m, d)"
  shows "1 \<le> m \<and> m \<le> 12 \<and> 1 \<le> d \<and> d \<le> days_in_month y m \<and> days_before_month y m + d = n + 1"
proof -
  have l: "is_leap y = is_leap (if leap then 4 else 1)" using assms(3) by (simp add: is_leap_def)
  have "n \<in> set [0..364]" using assms(1,2) by auto
  then have "month_day_ok leap n" using month_day_all unfolding list_all_iff by (cases leap) auto
  then show ?thesis unfolding leap_cong [OF l] using assms(1,4) by (simp add: month_day_ok_def Let_def)
qed

lemma ord2ymd_decompose:
  fixes n :: int
  assumes n: "0 \<le> n" and a: "a = n div 146097" and b: "b = n mod 146097 div 36524"
    and c: "c = n mod 146097 mod 36524 div 1461" and d: "d = n mod 146097 mod 36524 mod 1461 div 365"
    and e: "e = n mod 146097 mod 36524 mod 1461 mod 365"
  shows "n = 146097 * a + 36524 * b + 1461 * c + 365 * d + e" "0 \<le> a" "0 \<le> b" "b \<le> 4" "0 \<le> c" "c \<le> 24"
    "0 \<le> d" "d \<le> 4" "0 \<le> e" "e < 365" "b = 4 \<Longrightarrow> c = 0 \<and> d = 0 \<and> e = 0" "d = 4 \<Longrightarrow> e = 0 \<and> c < 24"
proof -
  define r q p where "r = n mod 146097" and "q = r mod 36524" and "p = q mod 1461"
  have bounds: "0 \<le> r" "r < 146097" "0 \<le> q" "q < 36524" "0 \<le> p" "p < 1461" by (simp_all add: r_def q_def p_def)
  have eqs: "n = 146097 * a + r" "r = 36524 * b + q" "q = 1461 * c + p" "p = 365 * d + e"
    by (simp_all add: a b c d e r_def q_def p_def)
  show e': "0 \<le> e" "e < 365" by (simp_all add: e)
  show "0 \<le> a" using n by (simp add: a pos_imp_zdiv_nonneg_iff)
  show "n = 146097 * a + 36524 * b + 1461 * c + 365 * d + e" using eqs by linarith
  show "0 \<le> b" "b \<le> 4" "0 \<le> c" "c \<le> 24" "0 \<le> d" "d \<le> 4" using bounds eqs e' by linarith+
  show "c = 0 \<and> d = 0 \<and> e = 0" if "b = 4"
  proof -
    have "q = 0" using bounds eqs that by linarith
    then show ?thesis by (simp add: c d e q_def r_def)
  qed
  show "e = 0 \<and> c < 24" if "d = 4" using bounds eqs e' that by linarith
qed

lemma year_divs:
  fixes a b c d :: int
  assumes "0 \<le> b" "b \<le> 3" "0 \<le> c" "c \<le> 24" "0 \<le> d" "d \<le> 3"
  shows "(400 * a + 100 * b + 4 * c + d) div 4 = 100 * a + 25 * b + c"
    "(400 * a + 100 * b + 4 * c + d) div 100 = 4 * a + b" "(400 * a + 100 * b + 4 * c + d) div 400 = a"
proof -
  let ?y = "400 * a + 100 * b + 4 * c + d"
  show "?y div 4 = 100 * a + 25 * b + c" by (rule int_div_pos_eq [where r = d]) (use assms in simp_all)
  show "?y div 100 = 4 * a + b" by (rule int_div_pos_eq [where r = "4 * c + d"]) (use assms in simp_all)
  show "?y div 400 = a" by (rule int_div_pos_eq [where r = "100 * b + 4 * c + d"]) (use assms in simp_all)
qed

lemma december:
  assumes "is_leap y"
  shows "days_before_month y 12 = 335" "days_in_month y 12 = 31"
proof -
  have l: "is_leap y = is_leap 4" using assms by (simp add: is_leap_def)
  show "days_before_month y 12 = 335" "days_in_month y 12 = 31" unfolding leap_cong [OF l] by code_simp+
qed

lemma leap_end:
  fixes a b c d :: int
  assumes "0 \<le> b" "b \<le> 3" "0 \<le> c" "c \<le> 24" "y = 400 * a + 100 * b + 4 * c + 4" "c < 24 \<or> b = 3"
  shows "is_leap y" "ymd2ord y 12 31 = 146097 * a + 36524 * b + 1461 * c + 1461"
proof -
  show l: "is_leap y"
  proof (cases "c < 24")
    case True
    have "y mod 4 = 0" by (rule int_mod_pos_eq [where q = "100 * a + 25 * b + c + 1"]) (use assms in simp_all)
    moreover have "y mod 100 = 4 * c + 4" by (rule int_mod_pos_eq [where q = "4 * a + b"]) (use assms True in simp_all)
    ultimately show ?thesis using assms(3) by (simp add: is_leap_def)
  next
    case False
    then have "y = 400 * (a + 1)" using assms by simp
    then show ?thesis by (simp add: is_leap_def)
  qed
  have y: "y - 1 = 400 * a + 100 * b + 4 * c + 3" using assms(5) by simp
  show "ymd2ord y 12 31 = 146097 * a + 36524 * b + 1461 * c + 1461"
    unfolding ymd2ord_def december [OF l] days_before_year_def y
    using year_divs [OF assms(1-4), of 3 a] by simp
qed

lemma ord2ymd_correct:
  assumes "1 \<le> ordinal" "ordinal \<le> 3652059" "ord2ymd ordinal = (y, m, d)"
  shows "1 \<le> y \<and> y \<le> 9999 \<and> 1 \<le> m \<and> m \<le> 12 \<and> 1 \<le> d \<and> d \<le> days_in_month y m \<and> ymd2ord y m d = ordinal"
proof -
  define n where "n = ordinal - 1"
  have n: "0 \<le> n" "n \<le> 3652058" using assms(1,2) by (simp_all add: n_def)
  define a b c d' e where abc: "a = n div 146097" "b = n mod 146097 div 36524" "c = n mod 146097 mod 36524 div 1461"
    "d' = n mod 146097 mod 36524 mod 1461 div 365" "e = n mod 146097 mod 36524 mod 1461 mod 365"
  note dec = ord2ymd_decompose [OF n(1) abc]
  let ?y = "a * 400 + 1 + b * 100 + c * 4 + d'"
  have o: "ord2ymd ordinal = (if d' = 4 \<or> b = 4 then (?y - 1, 12, 31)
      else (?y, month_day (is_leap ?y) e))"
  proof -
    have l: "is_leap ?y = is_leap (if is_leap ?y then 4 else 1)" by (simp add: is_leap_def)
    show ?thesis
      unfolding ord2ymd_def Let_def n_def [symmetric] abc [symmetric] month_day_def leap_cong [OF l] by (simp add: split_beta)
  qed
  have a24: "a \<le> 24" using n(2) dec(1-10) by linarith
  consider (b4) "b = 4" | (d4) "b \<le> 3" "d' = 4" | (plain) "b \<le> 3" "d' \<le> 3" using dec(4,8) by linarith
  then show ?thesis
  proof cases
    case b4
    then have z: "c = 0" "d' = 0" "e = 0" using dec(11) by blast+
    have y: "y = 400 * a + 100 * 3 + 4 * 24 + 4" "m = 12" "d = 31" using o assms(3) b4 z by auto
    note l = leap_end [OF _ _ _ _ y(1)]
    have "ymd2ord y 12 31 = ordinal" using l(2) dec(1) b4 z by (simp add: n_def)
    moreover have "is_leap y" using l(1) by simp
    moreover have "a \<le> 23" using n(2) dec(1) b4 z by linarith
    ultimately show ?thesis using december [of y] y dec(2) by auto
  next
    case d4
    then have z: "e = 0" "c < 24" using dec(12) by blast+
    have y: "y = 400 * a + 100 * b + 4 * c + 4" "m = 12" "d = 31" using o assms(3) d4 by auto
    note l = leap_end [OF dec(3) d4(1) dec(5,6) y(1)]
    have "ymd2ord y 12 31 = ordinal" using l(2) dec(1) d4 z by (simp add: n_def)
    moreover have "is_leap y" using l(1) z by simp
    ultimately show ?thesis using december [of y] y a24 dec(2-6) d4 z by auto
  next
    case plain
    have y: "y = ?y" "month_day (is_leap ?y) e = (m, d)" using o assms(3) plain by auto
    note md = month_day_correct [OF dec(9,10) refl y(2), folded y(1)]
    have y1: "y - 1 = 400 * a + 100 * b + 4 * c + d'" using y(1) by simp
    have "days_before_year y = 146097 * a + 36524 * b + 1461 * c + 365 * d'"
      unfolding days_before_year_def y1 year_divs [OF dec(3) plain(1) dec(5,6,7) plain(2)] by simp
    then have "ymd2ord y m d = ordinal" using md dec(1) by (simp add: ymd2ord_def n_def)
    moreover have "1 \<le> y" using y(1) dec(2,3,5,7) by linarith
    moreover have "y \<le> 9999" using y(1) a24 dec n(2) plain by linarith
    ultimately show ?thesis using md by blast
  qed
qed

section \<open>Digits\<close>

lemma length_show_nat: "n < 10 ^ w \<Longrightarrow> 0 < w \<Longrightarrow> length (show_nat n) \<le> w"
proof (induction n arbitrary: w rule: show_nat.induct)
  case (1 n)
  show ?case
  proof (cases "n < 10")
    case True
    then show ?thesis using 1 by (subst show_nat.simps) simp
  next
    case False
    then obtain v where v: "w = Suc v" "0 < v" using 1(2,3) by (cases w; cases "w - 1") auto
    then have "length (show_nat (n div 10)) \<le> v" using 1 False by (intro 1(1)) auto
    then show ?thesis using False v by (subst show_nat.simps) simp
  qed
qed

lemma pad_digits:
  assumes "0 \<le> i" "i < 10 ^ w" "0 < w"
  shows "length (pad w i) = w" "list_all is_digit (pad w i)" "read_nat (pad w i) = nat i"
proof -
  have "nat i < 10 ^ w" using assms(1,2) by (simp add: nat_less_iff)
  then have "length (show_nat (nat i)) \<le> w" using assms(3) by (rule length_show_nat)
  then show "length (pad w i) = w" by (simp add: pad_def Let_def)
  show "list_all is_digit (pad w i)"
    using show_nat_digits [of "nat i"] by (auto simp: pad_def Let_def list_all_iff is_digit_def)
  show "read_nat (pad w i) = nat i" by (simp add: pad_def Let_def)
qed

lemma read_pad:
  assumes "0 \<le> i" "i < 10 ^ w" "0 < w"
  shows "read_digits (pad w i) = Some i"
  using pad_digits [OF assms] assms by (auto simp: read_digits_def)

lemma days_in_month_le:
  assumes "1 \<le> m" "m \<le> 12"
  shows "days_in_month y m \<le> 31"
proof -
  have "days_in_month y m \<in> set [31, if is_leap y then 29 else 28, 31, 30, 31, 30, 31, 31, 30, 31, 30, 31]"
    unfolding days_in_month_def by (rule nth_mem) (use assms in simp)
  then show ?thesis by (auto split: if_splits)
qed

lemma parse_date_pad:
  assumes "1 \<le> y" "y \<le> 9999" "1 \<le> m" "m \<le> 12" "1 \<le> d" "d \<le> days_in_month y m"
  shows "parse_date (pad 4 y @ ''-'' @ pad 2 (int m) @ ''-'' @ pad 2 d) = Some (ymd2ord y m d)"
proof -
  have "days_in_month y m \<le> 31" by (rule days_in_month_le [OF assms(3,4)])
  then have d: "0 \<le> d" "d < 10 ^ 2" and m: "0 \<le> int m" "int m < 10 ^ 2" and y: "0 \<le> y" "y < 10 ^ 4"
    using assms by simp_all
  note len = pad_digits(1) [OF d, simplified] pad_digits(1) [OF m, simplified] pad_digits(1) [OF y, simplified]
  note rd = read_pad [OF d, simplified] read_pad [OF m, simplified] read_pad [OF y, simplified]
  show ?thesis
    using assms by (simp add: parse_date_def len rd nth_append)
qed

lemma parse_time_pad:
  assumes "0 \<le> h" "h \<le> 23" "0 \<le> mi" "mi \<le> 59" "0 \<le> se" "se \<le> 59" "0 \<le> ms" "ms \<le> 999"
  shows "parse_time (pad 2 h @ '':'' @ pad 2 mi @ '':'' @ pad 2 se @ ''.'' @ pad 3 ms)
    = Some (h * 3600000000 + mi * 60000000 + se * 1000000 + ms * 1000)"
proof -
  have h: "0 \<le> h" "h < 10 ^ 2" and mi: "0 \<le> mi" "mi < 10 ^ 2" and se: "0 \<le> se" "se < 10 ^ 2" and ms: "0 \<le> ms" "ms < 10 ^ 3"
    using assms by simp_all
  note len = pad_digits(1) [OF h, simplified] pad_digits(1) [OF mi, simplified] pad_digits(1) [OF se, simplified]
    pad_digits(1) [OF ms, simplified]
  note rd = read_pad [OF h, simplified] read_pad [OF mi, simplified] read_pad [OF se, simplified] read_pad [OF ms, simplified]
  have "read_nat (pad 3 ms @ ''000'') = nat ms * 1000"
    using pad_digits(3) [OF ms, simplified] by (simp add: read_nat_def digit_val_def)
  moreover have "take 6 (pad 3 ms @ replicate 6 CHR ''0'') = pad 3 ms @ ''000''"
  proof -
    have "take 6 (pad 3 ms @ replicate 6 CHR ''0'') = pad 3 ms @ replicate 3 CHR ''0''" by (simp add: len)
    then show ?thesis by (simp add: numeral_3_eq_3)
  qed
  ultimately have "parse_fraction (pad 3 ms) = Some (ms * 1000)"
    using ms(1) by (simp add: parse_fraction_def rd)
  then show ?thesis
    using assms by (simp add: parse_time_def Let_def len rd nth_append)
qed

section \<open>The round trip\<close>

lemma strip_ends:
  assumes "\<not> py_isspace c" "\<not> py_isspace d"
  shows "strip (c # s @ [d]) = c # s @ [d]"
  using assms by (simp add: strip_def trim_by_def)

lemma digit_not_space: "is_digit c \<Longrightarrow> \<not> py_isspace c"
  by (auto simp: is_digit_def py_isspace_def)

lemma split_at_T:
  assumes "length a = 10"
  shows "take 10 (a @ ''T'' @ b) = a" "drop 11 (a @ ''T'' @ b) = b"
  using assms by simp_all

lemma utc_parts:
  fixes us :: int
  assumes "0 \<le> us" "us < 86400000000"
  shows "us div 3600000000 * 3600000000 + us div 60000000 mod 60 * 60000000 + us div 1000000 mod 60 * 1000000
      + us div 1000 mod 1000 * 1000 = us - us mod 1000"
    "0 \<le> us div 3600000000" "us div 3600000000 \<le> 23"
proof -
  have a: "us div 1000000 div 60 = us div 60000000" "us div 60000000 div 60 = us div 3600000000"
    "us div 1000 div 1000 = us div 1000000"
    using zdiv_zmult2_eq [of 60 us 1000000] zdiv_zmult2_eq [of 60 us 60000000] zdiv_zmult2_eq [of 1000 us 1000] by simp_all
  have "us div 60000000 mod 60 = us div 60000000 - 60 * (us div 3600000000)"
    "us div 1000000 mod 60 = us div 1000000 - 60 * (us div 60000000)"
    "us div 1000 mod 1000 = us div 1000 - 1000 * (us div 1000000)" "us mod 1000 = us - 1000 * (us div 1000)"
    by (simp_all add: minus_mult_div_eq_mod [symmetric] a)
  then show "us div 3600000000 * 3600000000 + us div 60000000 mod 60 * 60000000 + us div 1000000 mod 60 * 1000000
      + us div 1000 mod 1000 * 1000 = us - us mod 1000" by linarith
  show "0 \<le> us div 3600000000" using assms(1) by (simp add: pos_imp_zdiv_nonneg_iff)
  show "us div 3600000000 \<le> 23" using assms(2) by linarith
qed

lemma parse_format_utc:
  assumes "0 \<le> t" "t < 3652059 * MICROS_PER_DAY"
  shows "parse_utc (format_utc t) = Inr (t - t mod 1000)"
proof -
  let ?us = "t mod MICROS_PER_DAY" and ?n = "t div MICROS_PER_DAY + 1"
  obtain y m d where ymd: "ord2ymd ?n = (y, m, d)" by (metis surj_pair)
  have n: "1 \<le> ?n" "?n \<le> 3652059"
    using assms by (simp_all add: MICROS_PER_DAY_def pos_imp_zdiv_nonneg_iff)
  note c = ord2ymd_correct [OF n ymd]
  let ?date = "pad 4 y @ ''-'' @ pad 2 (int m) @ ''-'' @ pad 2 d"
  let ?time = "pad 2 (?us div 3600000000) @ '':'' @ pad 2 (?us div 60000000 mod 60) @ '':''
         @ pad 2 (?us div 1000000 mod 60) @ ''.'' @ pad 3 (?us div 1000 mod 1000)"
  have us: "0 \<le> ?us" "?us < 86400000000" by (simp_all add: MICROS_PER_DAY_def)
  have f: "format_utc t = ?date @ ''T'' @ ?time @ ''Z''" by (simp add: format_utc_def ymd Let_def)
  have date: "parse_date ?date = Some ?n" using parse_date_pad [of y m d] c by simp
  have time: "parse_time ?time = Some (?us - ?us mod 1000)"
    unfolding utc_parts(1) [OF us, symmetric] using utc_parts(2,3) [OF us] by (intro parse_time_pad) simp_all
  have "length (pad 2 d) = 2" "length (pad 2 (int m)) = 2" "length (pad 4 y) = 4"
  proof -
    have "d \<le> 31" using days_in_month_le [of m y] c by linarith
    then show "length (pad 2 d) = 2" "length (pad 2 (int m)) = 2" "length (pad 4 y) = 4"
      using c by (intro pad_digits; simp)+
  qed
  then have len: "length ?date = 10" by simp
  obtain x xs where x: "pad 4 y = x # xs" "is_digit x"
    using pad_digits(1,2) [of y 4] c by (cases "pad 4 y") auto
  have zone: "\<not> py_isspace CHR ''Z''" by (simp add: py_isspace_def)
  have st: "strip (?date @ ''T'' @ ?time @ ''Z'') = ?date @ ''T'' @ ?time @ ''Z''"
    using strip_ends [OF digit_not_space [OF x(2)], of "CHR ''Z''" "xs @ ''-'' @ pad 2 (int m) @ ''-'' @ pad 2 d @ ''T'' @ ?time"]
      zone by (simp add: x(1))
  have body: "butlast (?date @ ''T'' @ ?time @ ''Z'') = ?date @ ''T'' @ ?time" by (simp add: butlast_append)
  have td: "take 10 (?date @ ''T'' @ ?time) = ?date" "drop 11 (?date @ ''T'' @ ?time) = ?time"
    using split_at_T [OF len, of ?time] by (simp_all only: append_assoc)
  have "parse_utc (format_utc t) = Inr ((?n - 1) * MICROS_PER_DAY + (?us - ?us mod 1000))"
    unfolding parse_utc_def f st Let_def body td date time by simp
  moreover have "?us mod 1000 = t mod 1000" by (simp add: MICROS_PER_DAY_def mod_mod_cancel)
  moreover have "(?n - 1) * MICROS_PER_DAY + ?us = t" by simp
  ultimately show ?thesis by (simp add: algebra_simps)
qed

section \<open>Planned retries can be armed\<close>

text \<open>The clock shows a time whose text form has a four digit year, also after the longest backoff.\<close>

definition clock_ok :: "clock_reading \<Rightarrow> bool" where
  "clock_ok clock \<longleftrightarrow> 0 \<le> monotonic_ns clock \<and>
     (case parse_utc (utc_now clock) of Inl _ \<Rightarrow> False
      | Inr t \<Rightarrow> 0 \<le> t \<and> t + ENDPOINT_RETRY_MAX_MS * 1000 < 3652059 * MICROS_PER_DAY)"

lemma planned_retry:
  assumes c: "clock_ok clock" and b: "1 \<le> b" "b \<le> ENDPOINT_RETRY_MAX_MS"
  shows "\<exists>timing. retry_plan clock b = Inr timing \<and> ert_backoff_ms timing = b
    \<and> ert_deadline_monotonic_ns timing = monotonic_ns clock + b * 1000000
    \<and> last (ert_retry_not_before_utc timing) = CHR ''Z'' \<and> ert_retry_not_before_utc timing \<noteq> []
    \<and> (\<forall>event_id dl. 1 \<le> event_id \<longrightarrow> retry_activate event_id timing dl = Inr (dl(event_id \<mapsto>
         \<lparr>ad_retry_not_before_utc = ert_retry_not_before_utc timing, ad_backoff_ms = b,
          ad_deadline_monotonic_ns = monotonic_ns clock + b * 1000000\<rparr>)))"
proof -
  obtain t where t: "parse_utc (utc_now clock) = Inr t" "0 \<le> t" "t + ENDPOINT_RETRY_MAX_MS * 1000 < 3652059 * MICROS_PER_DAY"
    using c by (auto simp: clock_ok_def split: sum.splits)
  let ?timing = "\<lparr>ert_observed_utc = format_utc t, ert_retry_not_before_utc = format_utc (t + b * 1000), ert_backoff_ms = b,
     ert_deadline_monotonic_ns = monotonic_ns clock + b * 1000000\<rparr>"
  have v: "validate_backoff b = Inr ()" using b by (simp add: validate_backoff_def)
  have p: "retry_plan clock b = Inr ?timing"
    using c by (simp add: retry_plan_def v t(1) monotonic_now_def clock_ok_def)
  have "parse_utc (format_utc (t + b * 1000)) = Inr (t + b * 1000 - (t + b * 1000) mod 1000)"
    by (rule parse_format_utc) (use b t(2,3) in \<open>simp_all add: ENDPOINT_RETRY_MAX_MS_def\<close>)
  then have "retry_activate event_id ?timing dl = Inr (dl(event_id \<mapsto>
         \<lparr>ad_retry_not_before_utc = ert_retry_not_before_utc ?timing, ad_backoff_ms = b,
          ad_deadline_monotonic_ns = monotonic_ns clock + b * 1000000\<rparr>))" if "1 \<le> event_id" for event_id dl
    using that by (simp add: retry_activate_def v validate_event_id_def raise_if_def)
  then show ?thesis using p format_utc_ends_with_Z [of "t + b * 1000"] by (intro exI [of _ ?timing]) simp
qed

end
