(* ===== verification/Plan_Properties.thy ===== *)
theory Plan_Properties
  imports Plan_Checksum Utc_Text
begin

text \<open>
  The properties of sealed plans, of their checksum, of source preconditions and of the text forms the
  program stores (JSON, UTC time stamps).
\<close>

section \<open>An example\<close>

definition demo_endpoint :: PlanEndpoint where
  "demo_endpoint =
     \<lparr>pe_endpoint_id = ''e1'', pe_endpoint_revision_id = ''rev'', pe_snapshot_id = ''snap'', pe_role = TARGET_WRITABLE,
      pe_capabilities_hash = ''caps'', pe_root_case_context_hash = ''case'', pe_endpoint_generation = 1,
      pe_target_ordinal = Some 0, pe_required_owner_installation_id = Some ''home'', pe_required_ownership_epoch = Some 3,
      pe_control_schema_version = Some 1, pe_planned_operations = 2, pe_planned_bytes = 0\<rparr>"

definition demo_operation :: "string \<Rightarrow> int \<Rightarrow> PlanOperation" where
  "demo_operation i n =
     \<lparr>po_operation_id = i, po_operation_type = CREATE_DIRECTORY, po_sequence_no = n, po_execution_phase = 0,
      po_stable_order_key = i, po_target_precondition_kind = ABSENT, po_reason_code = ''NEW'', po_risk_level = LOW,
      po_target_endpoint_id = None, po_target_relative_path = Some i, po_source_relative_path = None,
      po_source_precondition_json = None, po_deferred_operation_type = None, po_planned_bytes = 0\<rparr>"

definition demo_operations :: "PlanOperation list" where
  "demo_operations = [demo_operation ''b'' 2, demo_operation ''a'' 1]"

definition demo_dependency :: PlanDependency where
  "demo_dependency = \<lparr>pd_before_operation_id = ''a'', pd_after_operation_id = ''b''\<rparr>"

abbreviation demo_seal :: "PlanOperation list \<Rightarrow> SealedPlan result" where
  "demo_seal ops \<equiv> seal_plan ''plan'' ''analysis'' ''job'' ''job-1'' ops [demo_endpoint] [demo_dependency] None ''MANUAL'' None"

section \<open>Sealing\<close>

lemma seal_plan_Inr_iff:
  assumes "plan_parts ops es ds = (ops', es', ds')"
  shows "(\<exists>plan. seal_plan i a j r ops es ds parent policy risk = Inr plan) \<longleftrightarrow>
     validate_plan_identity i a j r policy = Inr () \<and> validate_endpoints es' = Inr ()
     \<and> validate_operations ops' es' = Inr () \<and> validate_dependencies ops' ds' = Inr ()"
  using assms by (auto simp: seal_plan_def Let_def plan_parts_def)

text \<open>C11: A plan is sealed exactly when its parts are in order: the identity is complete, every endpoint is
  well-formed, their ids and the ordinals of writable targets are distinct, there is an operation, every
  operation passes the operation rules, their ids and sequence numbers are distinct, every dependency joins two
  different operations of the plan, and the dependencies have no cycle.  Binding and sorting come first.\<close>

theorem plan_is_sealed_iff_valid:
  "(\<exists>plan. seal_plan i a j r ops es ds parent policy risk = Inr plan) \<longleftrightarrow>
     (let (ops', es', ds') = plan_parts ops es ds in
        validate_plan_identity i a j r policy = Inr ()
        \<and> list_all endpoint_valid es' \<and> distinct (map pe_endpoint_id es') \<and> distinct (writable_ordinals es')
        \<and> ops' \<noteq> [] \<and> list_all (operation_valid (writable_endpoint_ids es')) ops'
        \<and> distinct (map po_operation_id ops') \<and> distinct (map po_sequence_no ops')
        \<and> list_all (dependency_ok (map po_operation_id ops')) ds' \<and> acyclic (dep_rel ds'))"
proof -
  obtain ops' es' ds' where p: "plan_parts ops es ds = (ops', es', ds')" by (metis surj_pair)
  show ?thesis unfolding seal_plan_Inr_iff [OF p] p Let_def prod.case validation_iffs by blast
qed

lemma demo_seals: "\<exists>plan. demo_seal demo_operations = Inr plan"
proof -
  let ?parts = "plan_parts demo_operations [demo_endpoint] [demo_dependency]"
  have "validate_plan_identity ''plan'' ''analysis'' ''job'' ''job-1'' ''MANUAL'' = Inr ()
     \<and> validate_endpoints (fst (snd ?parts)) = Inr () \<and> validate_operations (fst ?parts) (fst (snd ?parts)) = Inr ()
     \<and> validate_dependencies (fst ?parts) (snd (snd ?parts)) = Inr ()"
    by code_simp
  then show ?thesis using seal_plan_Inr_iff [of demo_operations _ _ "fst ?parts" "fst (snd ?parts)" "snd (snd ?parts)"] by simp
qed

text \<open>C12: A sealed plan is what its readers rely on: its checksum verifies, it has operations with distinct ids
  in strictly increasing sequence order, endpoints with distinct ids and distinct writable ordinals, only
  dependencies between operations of the plan and without a cycle, the counts it states, and it is immutable.\<close>

theorem sealed_plan_is_well_formed:
  assumes "seal_plan i a j r ops es ds parent policy risk = Inr plan"
  shows "verify_plan_checksum plan \<and> sp_immutable plan \<and> sp_operations plan \<noteq> []
    \<and> distinct (map po_operation_id (sp_operations plan)) \<and> sorted_wrt (<) (map po_sequence_no (sp_operations plan))
    \<and> distinct (map pe_endpoint_id (sp_endpoints plan)) \<and> distinct (writable_ordinals (sp_endpoints plan))
    \<and> list_all (dependency_ok (map po_operation_id (sp_operations plan))) (sp_dependencies plan)
    \<and> acyclic (dep_rel (sp_dependencies plan))
    \<and> sp_operation_count plan = int (length (sp_operations plan))
    \<and> sp_planned_bytes plan = sum_list (map po_planned_bytes (sp_operations plan)) \<and> 0 \<le> sp_planned_bytes plan"
  using seal_plan_structure_aux [OF assms] seal_plan_InrD(5,6,8) [OF assms] by blast

theorem sealed_plan_is_well_formed_witness:
  "\<exists>plan. demo_seal demo_operations = Inr plan \<and> verify_plan_checksum plan \<and> distinct (map po_operation_id (sp_operations plan))"
  using demo_seals sealed_plan_is_well_formed by blast

text \<open>Every mutating operation of a sealed plan that has a writable target writes to one of the plan's
  writable endpoints, and one that copies content carries evidence about its source: a relative path and a
  source precondition that parses, names that path and has the planned size.\<close>

theorem sealed_operations_have_target_and_evidence:
  assumes "seal_plan i a j r ops es ds parent policy risk = Inr plan" "op \<in> set (sp_operations plan)"
  shows "(case po_target_endpoint_id op of
        None \<Rightarrow> po_operation_type op \<notin> set MUTATING_OPERATION_TYPES \<or> writable_endpoint_ids (sp_endpoints plan) = []
      | Some t \<Rightarrow> t \<in> set (writable_endpoint_ids (sp_endpoints plan)))
    \<and> (effective_operation_type op \<in> {Some COPY_NEW, Some REPLACE_CHANGED} \<longrightarrow>
        (\<exists>path evidence. po_source_relative_path op = Some path \<and> \<not> blank path \<and> \<not> looks_absolute_path path
          \<and> source_precondition_from_json (po_source_precondition_json op) = Inr evidence
          \<and> sfp_relative_path evidence = path \<and> sfp_size_bytes evidence = po_planned_bytes op))"
proof -
  have v: "operation_valid (writable_endpoint_ids (sp_endpoints plan)) op"
    using seal_plan_InrD(3) [OF assms(1)] assms(2) by (simp add: validation_iffs list_all_iff)
  have "case po_target_endpoint_id op of
        None \<Rightarrow> po_operation_type op \<notin> set MUTATING_OPERATION_TYPES \<or> writable_endpoint_ids (sp_endpoints plan) = []
      | Some t \<Rightarrow> t \<in> set (writable_endpoint_ids (sp_endpoints plan))"
    using v by (cases "po_target_endpoint_id op") (auto simp: operation_valid_def validate_operation_def split: if_splits)
  then show ?thesis using operation_valid_copy [OF v] by blast
qed

theorem sealed_operations_have_target_and_evidence_witness:
  "\<exists>plan op. demo_seal demo_operations = Inr plan \<and> op \<in> set (sp_operations plan)
     \<and> (case po_target_endpoint_id op of
        None \<Rightarrow> po_operation_type op \<notin> set MUTATING_OPERATION_TYPES \<or> writable_endpoint_ids (sp_endpoints plan) = []
      | Some t \<Rightarrow> t \<in> set (writable_endpoint_ids (sp_endpoints plan)))"
proof -
  obtain plan where p: "demo_seal demo_operations = Inr plan" using demo_seals by blast
  have "sp_operations plan \<noteq> []" using seal_plan_structure_aux(2) [OF p] .
  then have "hd (sp_operations plan) \<in> set (sp_operations plan)" by simp
  then show ?thesis using sealed_operations_have_target_and_evidence [OF p] p by blast
qed

text \<open>The order in which the caller lists operations, endpoints and dependencies does not matter: any
  rearrangement seals to the same plan with the same checksum.\<close>

theorem sealing_ignores_argument_order:
  assumes "seal_plan i a j r ops es ds parent policy risk = Inr plan"
    "mset ops = mset ops'" "mset es = mset es'" "mset ds = mset ds'"
  shows "seal_plan i a j r ops' es' ds' parent policy risk = Inr plan"
  by (rule seal_plan_perm_aux [OF assms])

theorem sealing_ignores_argument_order_witness:
  "\<exists>plan. demo_seal demo_operations = Inr plan \<and> demo_seal (rev demo_operations) = Inr plan"
proof -
  obtain plan where p: "demo_seal demo_operations = Inr plan" using demo_seals by blast
  from sealing_ignores_argument_order [OF p, of "rev demo_operations" "[demo_endpoint]" "[demo_dependency]"] p
  show ?thesis by simp
qed

text \<open>C18: The depth first search for cycles terminates and decides acyclicity: over a dependency graph whose
  edges stay among its nodes it accepts exactly the acyclic ones and otherwise raises the cycle error.\<close>

theorem cycle_search_decides_acyclicity:
  assumes "edges_closed e"
  shows "reject_dependency_cycles e =
    (if acyclic (edge_rel e) then Inr () else Inl ''PLAN_DEPENDENCIES_MUST_BE_ACYCLIC'')"
  by (rule reject_dependency_cycles_iff [OF assms])

theorem cycle_search_decides_acyclicity_witness:
  "\<not> acyclic (edge_rel [(''a'', [''b'']), (''b'', [''a''])])"
proof -
  let ?e = "[(''a'', [''b'']), (''b'', [''a''])]"
  have c: "edges_closed ?e" by (auto simp: edges_closed_def edge_rel_def split: if_splits)
  have "reject_dependency_cycles ?e = Inl ''PLAN_DEPENDENCIES_MUST_BE_ACYCLIC''" by code_simp
  then show ?thesis using cycle_search_decides_acyclicity [OF c] by (auto split: if_splits)
qed

section \<open>What a checksum binds\<close>

text \<open>C13: A verified checksum pins the whole plan down.  Two plans of the current operation schema that both
  verify and show the same checksum are the same plan, up to the order of the keys in the risk summary, as long
  as the digest does not collide on their two serialisations.\<close>

theorem checksum_binds_plan:
  assumes "verify_plan_checksum p" "verify_plan_checksum q" "sp_plan_checksum p = sp_plan_checksum q"
    and "inj_on sha256_hexdigest ((\<lambda>plan. utf8 (json_dumps False (canonical_payload plan))) ` {p, q})"
    and "4 \<le> sp_operation_schema_version p" "4 \<le> sp_operation_schema_version q"
    and "wf_json (JObj (sp_risk_summary p))" "wf_json (JObj (sp_risk_summary q))"
  shows "canon (JObj (sp_risk_summary p)) = canon (JObj (sp_risk_summary q))
     \<and> q\<lparr>sp_risk_summary := sp_risk_summary p\<rparr> = p"
  by (rule checksum_binds_aux [OF assms])

definition unsigned_demo_plan :: "(string \<times> json) list \<Rightarrow> SealedPlan" where
  "unsigned_demo_plan risk =
     \<lparr>sp_plan_id = ''plan'', sp_analysis_id = ''analysis'', sp_job_id = ''job'', sp_job_revision_id = ''job-1'',
      sp_endpoints = [demo_endpoint], sp_operations = demo_operations, sp_dependencies = [demo_dependency],
      sp_planner_version = PLANNER_VERSION, sp_plan_schema_version = PLAN_SCHEMA_VERSION,
      sp_operation_schema_version = OPERATION_SCHEMA_VERSION, sp_execution_policy = ''MANUAL'',
      sp_checksum_algorithm = PLAN_CHECKSUM_ALGORITHM, sp_serializer_version = PLAN_SERIALIZER_VERSION,
      sp_plan_checksum = [], sp_risk_summary = risk, sp_operation_count = 2, sp_planned_bytes = 0,
      sp_immutable = True, sp_parent_plan_id = None\<rparr>"

definition demo_plan :: "(string \<times> json) list \<Rightarrow> SealedPlan" where
  "demo_plan risk =
     unsigned_demo_plan risk\<lparr>sp_plan_checksum := checksum (canonical_payload (unsigned_demo_plan risk))\<rparr>"

lemma demo_plan_simps [simp]:
  "canonical_payload (demo_plan risk) = canonical_payload (unsigned_demo_plan risk)"
  "sp_plan_checksum (demo_plan risk) = checksum (canonical_payload (unsigned_demo_plan risk))"
  "sp_risk_summary (demo_plan risk) = risk" "sp_operation_schema_version (demo_plan risk) = 4"
  by (simp_all add: demo_plan_def unsigned_demo_plan_def OPERATION_SCHEMA_VERSION_def canonical_payload_def)

theorem checksum_binds_plan_witness:
  "\<exists>p q. p \<noteq> q \<and> verify_plan_checksum p \<and> verify_plan_checksum q \<and> sp_plan_checksum p = sp_plan_checksum q
     \<and> q\<lparr>sp_risk_summary := sp_risk_summary p\<rparr> = p"
proof (intro exI conjI)
  let ?r = "[(''a'', JInt 1), (''b'', JInt 2)]"
  let ?p = "demo_plan ?r" and ?q = "demo_plan (rev ?r)"
  have same: "json_dumps False (canonical_payload (unsigned_demo_plan ?r)) =
      json_dumps False (canonical_payload (unsigned_demo_plan (rev ?r)))" by code_simp
  have "sp_risk_summary ?p \<noteq> sp_risk_summary ?q" by simp
  then show "?p \<noteq> ?q" by metis
  show v: "verify_plan_checksum ?p" "verify_plan_checksum ?q" by (simp_all add: verify_plan_checksum_def)
  show c: "sp_plan_checksum ?p = sp_plan_checksum ?q" using same by (simp add: checksum_def)
  have i: "inj_on sha256_hexdigest ((\<lambda>plan. utf8 (json_dumps False (canonical_payload plan))) ` {?p, ?q})"
    using same by simp
  show "?q\<lparr>sp_risk_summary := sp_risk_summary ?p\<rparr> = ?p" using checksum_binds_plan [OF v c i] by simp
qed

text \<open>C40: The evidence about a source file survives its JSON form: a precondition the constructor accepts is
  read back unchanged, and whatever is read from any text is one the constructor accepts; everything else is
  refused, with a missing payload told apart from a broken one.\<close>

theorem source_precondition_codec:
  "(source_precondition_post_init p = Inr p \<longrightarrow>
      source_precondition_from_json (Some (source_precondition_to_json p)) = Inr p)
   \<and> (case source_precondition_from_json payload of
        Inr q \<Rightarrow> source_precondition_post_init q = Inr q
      | Inl code \<Rightarrow> code = (if payload = None then ''SOURCE_PRECONDITION_MISSING'' else ''SOURCE_PRECONDITION_INVALID''))"
proof (intro conjI impI)
  show "source_precondition_from_json (Some (source_precondition_to_json p)) = Inr p"
    if "source_precondition_post_init p = Inr p" using source_precondition_roundtrip_aux [OF that] .
  show "case source_precondition_from_json payload of
        Inr q \<Rightarrow> source_precondition_post_init q = Inr q
      | Inl code \<Rightarrow> code = (if payload = None then ''SOURCE_PRECONDITION_MISSING'' else ''SOURCE_PRECONDITION_INVALID'')"
    by (auto simp: source_precondition_from_json_def source_precondition_from_dict_def and_then_def source_precondition_post_init_def
      split: option.splits sum.splits json.splits if_splits)
qed

definition demo_evidence :: SourceFilePrecondition where
  "demo_evidence = \<lparr>sfp_snapshot_id = ''s'', sfp_snapshot_entry_id = ''e'', sfp_relative_path = ''a/b.jpg'', sfp_size_bytes = 12,
     sfp_identity_fingerprint_hash = concat (replicate 16 ''0af9''), sfp_schema_version = 1, sfp_object_type = ''file''\<rparr>"

theorem source_precondition_codec_witness:
  "source_precondition_from_json (Some (source_precondition_to_json demo_evidence)) = Inr demo_evidence"
proof -
  have "source_precondition_post_init demo_evidence = Inr demo_evidence" by code_simp
  then show ?thesis using source_precondition_codec [of demo_evidence None] by blast
qed

section \<open>Backoff\<close>

text \<open>The wait before a retry grows from five seconds to five minutes: with an identity and a positive
  attempt number it lies between four fifths of the nominal backoff and the nominal backoff, which never
  shrinks from one attempt to the next and reaches the maximum by the seventh; without them it is refused.\<close>

theorem backoff_is_bounded:
  "case endpoint_retry_backoff_ms run_id run_target_id attempt_no of
     Inl code \<Rightarrow> blank run_id \<or> blank run_target_id \<or> attempt_no < 1
   | Inr b \<Rightarrow> nominal_backoff_ms attempt_no * ENDPOINT_RETRY_JITTER_FLOOR_PERCENT div 100 \<le> b
       \<and> b \<le> nominal_backoff_ms attempt_no \<and> nominal_backoff_ms attempt_no \<le> nominal_backoff_ms (attempt_no + 1)
       \<and> (attempt_no \<ge> 7 \<longrightarrow> nominal_backoff_ms attempt_no = ENDPOINT_RETRY_MAX_MS)
       \<and> validate_backoff b = Inr ()"
proof (cases "endpoint_retry_backoff_ms run_id run_target_id attempt_no")
  case (Inl code)
  then show ?thesis by (auto simp: endpoint_retry_backoff_ms_def Let_def split: if_splits)
next
  case (Inr b)
  note k = backoff_bounds_aux [OF Inr] and n = nominal_backoff_bounds [OF backoff_bounds_aux(3) [OF Inr]]
  have "ENDPOINT_RETRY_MAX_MS \<le> nominal_backoff_ms 7"
    by (simp add: nominal_backoff_ms_def ENDPOINT_RETRY_MAX_MS_def ENDPOINT_RETRY_BASE_MS_def)
  then have "7 \<le> attempt_no \<longrightarrow> nominal_backoff_ms attempt_no = ENDPOINT_RETRY_MAX_MS"
    using n(2) nominal_backoff_mono [of 7 attempt_no] by linarith
  moreover have "validate_backoff b = Inr ()"
    using k n by (simp add: validate_backoff_def raise_if_def ENDPOINT_RETRY_MAX_MS_def ENDPOINT_RETRY_BASE_MS_def)
  ultimately show ?thesis
    using k nominal_backoff_mono [of attempt_no "attempt_no + 1"] Inr
    by (simp add: ENDPOINT_RETRY_JITTER_FLOOR_PERCENT_def)
qed

theorem backoff_is_bounded_witness:
  "\<exists>b. endpoint_retry_backoff_ms ''run'' ''t1'' 9 = Inr b \<and> 240000 \<le> b \<and> b \<le> 300000"
proof -
  obtain b where b: "endpoint_retry_backoff_ms ''run'' ''t1'' 9 = Inr b"
    by (simp add: endpoint_retry_backoff_ms_def Let_def blank_iff py_isspace_def)
  have "nominal_backoff_ms 9 = 300000" by code_simp
  then show ?thesis
    using backoff_is_bounded [of "''run''" "''t1''" 9] b by (simp add: ENDPOINT_RETRY_JITTER_FLOOR_PERCENT_def)
qed

section \<open>Time stamps\<close>

text \<open>A time stamp the program writes is one it can read: every UTC time of the years 1 to 9999 is read
  back from its text, at the millisecond the text has.\<close>

theorem utc_text_roundtrip:
  assumes "0 \<le> t" "t < 3652059 * MICROS_PER_DAY"
  shows "parse_utc (format_utc t) = Inr (t - t mod 1000)"
  by (rule parse_format_utc [OF assms])

theorem utc_text_roundtrip_witness: "parse_utc (format_utc 63800000000123456) = Inr 63800000000123000"
  using utc_text_roundtrip [of 63800000000123456] by (simp add: MICROS_PER_DAY_def)

end
