(* ===== verification/Run_Start.thy ===== *)
theory Run_Start
  imports Plan_Checksum Run_Steps
begin

text \<open>
  Starting a run from a sealed plan, from \<open>application/runs.py\<close>: parsing the command, the readiness of the
  plan, the scope of a retry with the closure under dependencies, and the run that is saved.  The plan store,
  the job lifecycle store and the operation audit store are arguments.  A Python \<open>set\<close> of ids is a list whose
  order does not matter to the result.
\<close>

definition APP_VERSION :: string where "APP_VERSION = ''0B-dev''"
definition MAX_RUN_TARGET_SCOPE :: nat where "MAX_RUN_TARGET_SCOPE = 32"
definition MAX_RUN_OPERATION_SCOPE :: nat where "MAX_RUN_OPERATION_SCOPE = 100"
definition MAX_RUN_OPERATION_ID_LENGTH :: nat where "MAX_RUN_OPERATION_ID_LENGTH = 256"

record StartRunCommand =
  src_request_id :: string
  src_idempotency_key :: string
  src_plan_id :: string
  src_plan_checksum :: string
  src_run_idempotency_key :: "string option"
  src_trigger_occurrence_id :: "string option"
  src_target_endpoint_ids :: "string list"
  src_resumed_from_run_id :: "string option"
  src_source_operation_ids :: "string list"
  src_selected_plan_operation_ids :: "string list"

record RunIds =
  ri_run_id :: string
  ri_logical_run_group_id :: string

record RunStartReadiness =
  rsr_plan_id :: string
  rsr_plan_found :: bool
  rsr_plan_checksum_matches :: bool
  rsr_plan_checksum_valid :: bool
  rsr_plan_runnable :: bool
  rsr_validation_codes :: "string list"

record RunStartOutcome =
  rso_created :: bool
  rso_idempotent_replay :: bool
  rso_readiness :: RunStartReadiness
  rso_run :: "StartedRun option"

datatype JobLifecycleState = ACTIVE | ARCHIVED | DELETED

record JobLifecycleRecord =
  jl_job_id :: string
  jl_job_revision_id :: string
  jl_state :: JobLifecycleState
  jl_row_version :: int
  jl_archived_utc :: "string option"

record OperationAuditIdentity =
  oai_run_id :: string
  oai_run_target_id :: string
  oai_operation_id :: string
  oai_target_relative_path :: "string option"

text \<open>Of \<open>OperationOutcomeSummary\<close> only the final state is read here.\<close>

record OperationOutcomeSummary =
  oos_final_state :: string

section \<open>The command\<close>

definition bad_scope_id :: "nat \<Rightarrow> string \<Rightarrow> bool" where
  "bad_scope_id limit s \<longleftrightarrow> blank s \<or> length s > limit \<or> s \<noteq> strip s"

fun parse_scope_items :: "nat \<Rightarrow> string \<Rightarrow> json list \<Rightarrow> string list result" where
  "parse_scope_items limit code [] = Inr []"
| "parse_scope_items limit code (item # items) =
     (case item of
        JStr s \<Rightarrow>
          if bad_scope_id limit s then Inl code
          else and_then (parse_scope_items limit code items) (\<lambda>rest. Inr (s # rest))
      | _ \<Rightarrow> Inl code)"

definition parse_scope :: "string \<Rightarrow> nat \<Rightarrow> nat \<Rightarrow> string \<Rightarrow> string \<Rightarrow> (string \<times> json) list \<Rightarrow> string list result" where
  "parse_scope field max_items limit invalid duplicate payload =
     (case map_of payload field of
        None \<Rightarrow> Inr []
      | Some (JArr items) \<Rightarrow>
          if \<not> (1 \<le> length items \<and> length items \<le> max_items) then Inl invalid
          else and_then (parse_scope_items limit invalid items) (\<lambda>ids.
            if distinct ids then Inr ids else Inl duplicate)
      | Some _ \<Rightarrow> Inl invalid)"

definition parse_target_endpoint_ids :: "(string \<times> json) list \<Rightarrow> string list result" where
  "parse_target_endpoint_ids = parse_scope ''target_endpoint_ids'' MAX_RUN_TARGET_SCOPE 128
     ''START_RUN_TARGET_SCOPE_INVALID'' ''START_RUN_TARGET_SCOPE_DUPLICATE''"

definition parse_source_operation_ids :: "(string \<times> json) list \<Rightarrow> string list result" where
  "parse_source_operation_ids = parse_scope ''source_operation_ids'' MAX_RUN_OPERATION_SCOPE MAX_RUN_OPERATION_ID_LENGTH
     ''START_RUN_OPERATION_SCOPE_INVALID'' ''START_RUN_OPERATION_SCOPE_DUPLICATE''"

definition parse_resumed_from_run_id :: "(string \<times> json) list \<Rightarrow> string option result" where
  "parse_resumed_from_run_id payload =
     (case map_of payload ''resumed_from_run_id'' of
        None \<Rightarrow> Inr None
      | Some (JStr s) \<Rightarrow> if bad_scope_id 128 s then Inl ''START_RUN_RETRY_SOURCE_INVALID'' else Inr (Some s)
      | Some _ \<Rightarrow> Inl ''START_RUN_RETRY_SOURCE_INVALID'')"

definition parse_start_run_command :: "string \<Rightarrow> string \<Rightarrow> (string \<times> json) list \<Rightarrow> StartRunCommand result" where
  "parse_start_run_command request_id idempotency_key payload =
     (if \<not> list_all (\<lambda>(k, _). k \<in> set [''plan_id'', ''plan_checksum'', ''target_endpoint_ids'',
          ''resumed_from_run_id'', ''source_operation_ids'']) payload
      then Inl ''START_RUN_PAYLOAD_INVALID''
      else
        (case map_of payload ''plan_id'' of
           Some (JStr plan_id) \<Rightarrow>
             if blank plan_id then Inl ''START_RUN_REQUIRES_PLAN_ID''
             else
               (case map_of payload ''plan_checksum'' of
                  Some (JStr plan_checksum) \<Rightarrow>
                    if \<not> is_hex64 plan_checksum then Inl ''START_RUN_REQUIRES_PLAN_CHECKSUM''
                    else
                      and_then (parse_target_endpoint_ids payload) (\<lambda>targets.
                      and_then (parse_resumed_from_run_id payload) (\<lambda>resumed.
                      and_then (parse_source_operation_ids payload) (\<lambda>sources.
                        if resumed \<noteq> None \<and> targets = [] then Inl ''START_RUN_RETRY_REQUIRES_TARGET_SCOPE''
                        else if sources \<noteq> [] \<and> resumed = None
                        then Inl ''START_RUN_OPERATION_RETRY_REQUIRES_SOURCE_RUN''
                        else Inr \<lparr>src_request_id = request_id, src_idempotency_key = idempotency_key,
                               src_plan_id = plan_id, src_plan_checksum = plan_checksum,
                               src_run_idempotency_key = None, src_trigger_occurrence_id = None,
                               src_target_endpoint_ids = targets, src_resumed_from_run_id = resumed,
                               src_source_operation_ids = sources, src_selected_plan_operation_ids = []\<rparr>)))
                | _ \<Rightarrow> Inl ''START_RUN_REQUIRES_PLAN_CHECKSUM'')
         | _ \<Rightarrow> Inl ''START_RUN_REQUIRES_PLAN_ID''))"

section \<open>Readiness\<close>

definition missing_plan :: "string \<Rightarrow> RunStartReadiness" where
  "missing_plan plan_id = \<lparr>rsr_plan_id = plan_id, rsr_plan_found = False, rsr_plan_checksum_matches = False,
     rsr_plan_checksum_valid = False, rsr_plan_runnable = False, rsr_validation_codes = [''PLAN_NOT_FOUND'']\<rparr>"

definition ready_to_queue :: "string \<Rightarrow> RunStartReadiness" where
  "ready_to_queue plan_id = \<lparr>rsr_plan_id = plan_id, rsr_plan_found = True, rsr_plan_checksum_matches = True,
     rsr_plan_checksum_valid = True, rsr_plan_runnable = True, rsr_validation_codes = []\<rparr>"

definition not_ready_to_queue :: "RunStartReadiness \<Rightarrow> string \<Rightarrow> RunStartReadiness" where
  "not_ready_to_queue readiness code =
     readiness\<lparr>rsr_plan_runnable := False, rsr_validation_codes := [code]\<rparr>"

definition effective_run_idempotency_key :: "StartRunCommand \<Rightarrow> string" where
  "effective_run_idempotency_key c =
     (case src_run_idempotency_key c of None \<Rightarrow> src_idempotency_key c
      | Some k \<Rightarrow> if k = [] then src_idempotency_key c else k)"

definition target_endpoints :: "SealedPlan \<Rightarrow> PlanEndpoint list" where
  "target_endpoints plan =
     sort_key (\<lambda>e. (case pe_target_ordinal e of None \<Rightarrow> - 1 | Some n \<Rightarrow> n, pe_endpoint_id e))
       (filter (\<lambda>e. pe_role e = TARGET_WRITABLE) (sp_endpoints plan))"

definition selected_plan_operations :: "SealedPlan \<Rightarrow> string list \<Rightarrow> PlanOperation list" where
  "selected_plan_operations plan ids =
     (if ids = [] then sp_operations plan
      else filter (\<lambda>op. po_operation_id op \<in> set ids) (sp_operations plan))"

definition selected_target_endpoints :: "SealedPlan \<Rightarrow> string list \<Rightarrow> string list \<Rightarrow> PlanEndpoint list" where
  "selected_target_endpoints plan target_ids op_ids =
     (if op_ids \<noteq> [] then
        (let chosen = map po_target_endpoint_id (filter (\<lambda>op. po_operation_id op \<in> set op_ids) (sp_operations plan))
         in filter (\<lambda>e. Some (pe_endpoint_id e) \<in> set chosen) (target_endpoints plan))
      else if target_ids = [] then target_endpoints plan
      else filter (\<lambda>e. pe_endpoint_id e \<in> set target_ids) (target_endpoints plan))"

definition selected_scope_is_blocked :: "SealedPlan \<Rightarrow> string list \<Rightarrow> string list \<Rightarrow> bool" where
  "selected_scope_is_blocked plan target_ids op_ids =
     (if op_ids \<noteq> [] then
        list_ex (\<lambda>op. po_operation_id op \<in> set op_ids \<and> risk_level_value (po_risk_level op) = ''BLOCKED'') (sp_operations plan)
      else if target_ids = [] then map_of (sp_risk_summary plan) ''highest'' = Some (JStr ''BLOCKED'')
      else
        list_ex (\<lambda>op. risk_level_value (po_risk_level op) = ''BLOCKED''
          \<and> (case po_target_endpoint_id op of None \<Rightarrow> True | Some e \<Rightarrow> e \<in> set target_ids)) (sp_operations plan))"

definition executable_operations_for_endpoints :: "SealedPlan \<Rightarrow> PlanEndpoint list \<Rightarrow> PlanOperation list" where
  "executable_operations_for_endpoints plan endpoints =
     filter (\<lambda>op. po_operation_type op \<in> set MUTATING_OPERATION_TYPES
       \<and> po_target_endpoint_id op \<in> set (map (Some \<circ> pe_endpoint_id) endpoints)) (sp_operations plan)"

definition scope_validation_code :: "nat \<Rightarrow> nat \<Rightarrow> string \<Rightarrow> string \<Rightarrow> string list \<Rightarrow> string option" where
  "scope_validation_code max_items limit invalid duplicate ids =
     (if ids = [] then None
      else if \<not> (1 \<le> length ids \<and> length ids \<le> max_items) then Some invalid
      else if \<not> distinct ids then Some duplicate
      else if list_ex (bad_scope_id limit) ids then Some invalid
      else None)"

definition target_scope_validation_code :: "string list \<Rightarrow> string option" where
  "target_scope_validation_code = scope_validation_code MAX_RUN_TARGET_SCOPE 128
     ''START_RUN_TARGET_SCOPE_INVALID'' ''START_RUN_TARGET_SCOPE_DUPLICATE''"

definition operation_scope_validation_code :: "string list \<Rightarrow> string option" where
  "operation_scope_validation_code = scope_validation_code MAX_RUN_OPERATION_SCOPE MAX_RUN_OPERATION_ID_LENGTH
     ''START_RUN_OPERATION_SCOPE_INVALID'' ''START_RUN_OPERATION_SCOPE_DUPLICATE''"

definition when_code :: "bool \<Rightarrow> string \<Rightarrow> string list" where
  "when_code b code = (if b then [code] else [])"

definition readiness_codes :: "StartRunCommand \<Rightarrow> SealedPlan \<Rightarrow> string list" where
  "readiness_codes c plan =
     (let targets = src_target_endpoint_ids c; ops = src_selected_plan_operation_ids c;
          selected = selected_plan_operations plan ops;
          endpoints = selected_target_endpoints plan targets ops;
          blocked = selected_scope_is_blocked plan targets ops;
          count = (if ops \<noteq> [] then length selected else length (executable_operations_for_endpoints plan endpoints))
      in (case target_scope_validation_code targets of None \<Rightarrow> [] | Some code \<Rightarrow> [code])
         @ (case operation_scope_validation_code ops of None \<Rightarrow> [] | Some code \<Rightarrow> [code])
         @ when_code (src_source_operation_ids c \<noteq> [] \<and> ops = []) ''RUN_RETRY_OPERATION_SCOPE_UNRESOLVED''
         @ when_code (sp_plan_checksum plan \<noteq> src_plan_checksum c) ''PLAN_CHECKSUM_MISMATCH''
         @ when_code (\<not> verify_plan_checksum plan) ''PLAN_CHECKSUM_INVALID''
         @ when_code (\<not> sp_immutable plan) ''PLAN_NOT_IMMUTABLE''
         @ when_code (ops \<noteq> [] \<and> \<not> list_all (\<lambda>i. i \<in> set (map po_operation_id (sp_operations plan))) ops)
             ''PLAN_OPERATION_SCOPE_UNKNOWN''
         @ when_code (ops \<noteq> [] \<and> list_ex (\<lambda>op. po_operation_type op \<notin> set MUTATING_OPERATION_TYPES) selected)
             ''PLAN_OPERATION_SCOPE_NOT_MUTATING''
         @ when_code (targets \<noteq> [] \<and> \<not> list_all (\<lambda>i. i \<in> set (map pe_endpoint_id (target_endpoints plan))) targets)
             ''PLAN_TARGET_SCOPE_UNKNOWN''
         @ when_code (ops \<noteq> [] \<and> list_ex (\<lambda>op. po_target_endpoint_id op \<notin> set (map Some targets)) selected)
             ''PLAN_OPERATION_SCOPE_TARGET_MISMATCH''
         @ when_code blocked ''PLAN_BLOCKED''
         @ when_code (count < 1 \<and> endpoints \<noteq> [] \<and> \<not> blocked) ''PLAN_REQUIRES_EXECUTABLE_OPERATIONS''
         @ when_code (endpoints = []) ''PLAN_REQUIRES_TARGET_ENDPOINT'')"

definition readiness_for_plan :: "StartRunCommand \<Rightarrow> SealedPlan \<Rightarrow> RunStartReadiness" where
  "readiness_for_plan c plan =
     (if readiness_codes c plan \<noteq> [] then
        \<lparr>rsr_plan_id = src_plan_id c, rsr_plan_found = True,
         rsr_plan_checksum_matches = (sp_plan_checksum plan = src_plan_checksum c),
         rsr_plan_checksum_valid = verify_plan_checksum plan, rsr_plan_runnable = False,
         rsr_validation_codes = readiness_codes c plan\<rparr>
      else ready_to_queue (src_plan_id c))"

definition job_lifecycle_run_rejection ::
  "(string \<Rightarrow> JobLifecycleRecord option result) option \<Rightarrow> string \<Rightarrow> RunStartReadiness \<Rightarrow> RunStartReadiness option result" where
  "job_lifecycle_run_rejection job_lifecycle job_id readiness =
     (case job_lifecycle of
        None \<Rightarrow> Inr None
      | Some load \<Rightarrow>
          and_then (load job_id) (\<lambda>rec.
            if (case rec of None \<Rightarrow> False | Some r \<Rightarrow> jl_state r = ACTIVE) then Inr None
            else Inr (Some (not_ready_to_queue readiness
              (if rec \<noteq> None then ''RUN_JOB_ARCHIVED'' else ''RUN_JOB_NOT_FOUND'')))))"

definition evaluate_start_run ::
  "(string \<Rightarrow> SealedPlan option result) \<Rightarrow> (string \<Rightarrow> JobLifecycleRecord option result) option \<Rightarrow>
   StartRunCommand \<Rightarrow> RunStartReadiness result" where
  "evaluate_start_run load_plan job_lifecycle c =
     and_then (load_plan (src_plan_id c)) (\<lambda>found.
       case found of
         None \<Rightarrow> Inr (missing_plan (src_plan_id c))
       | Some plan \<Rightarrow>
           and_then (job_lifecycle_run_rejection job_lifecycle (sp_job_id plan) (readiness_for_plan c plan)) (\<lambda>rejection.
             case rejection of Some r \<Rightarrow> Inr r | None \<Rightarrow> Inr (readiness_for_plan c plan)))"

section \<open>The scope of a retry\<close>

text \<open>A dictionary built from \<open>(key, value)\<close> pairs: a later pair replaces an earlier one.\<close>

definition dict_get :: "('a \<Rightarrow> 'k) \<Rightarrow> 'a list \<Rightarrow> 'k \<Rightarrow> 'a option" where
  "dict_get key xs k = List.find (\<lambda>x. key x = k) (rev xs)"

fun retry_targets_code :: "RunTargetState list \<Rightarrow> (string \<Rightarrow> StartedRunTarget option) \<Rightarrow> bool \<Rightarrow> string list \<Rightarrow> string option" where
  "retry_targets_code retryable source_target same_plan [] = None"
| "retry_targets_code retryable source_target same_plan (e # es) =
     (case source_target e of
        None \<Rightarrow> Some ''RUN_RETRY_TARGET_NOT_IN_SOURCE''
      | Some t \<Rightarrow>
          if rt_state t \<notin> set retryable then Some ''RUN_RETRY_TARGET_NOT_FAILED''
          else if same_plan then Some ''RUN_RETRY_REQUIRES_FRESH_PLAN''
          else retry_targets_code retryable source_target same_plan es)"

definition retry_source_validation_code :: "StartedRun option \<Rightarrow> SealedPlan \<Rightarrow> string list \<Rightarrow> bool \<Rightarrow> string option" where
  "retry_source_validation_code source plan target_ids operation_retry =
     (case source of
        None \<Rightarrow> Some ''RUN_RETRY_SOURCE_NOT_FOUND''
      | Some s \<Rightarrow>
          if target_ids = [] then Some ''RUN_RETRY_REQUIRES_TARGET_SCOPE''
          else if sr_state s \<notin> set TERMINAL_RUN_STATES then Some ''RUN_RETRY_SOURCE_NOT_TERMINAL''
          else if sr_job_id s \<noteq> sp_job_id plan then Some ''RUN_RETRY_SOURCE_JOB_MISMATCH''
          else retry_targets_code
                 (if operation_retry then OPERATION_RETRYABLE_RUN_TARGET_STATES else RETRYABLE_RUN_TARGET_STATES)
                 (dict_get rt_endpoint_id (sr_targets s)) (sr_plan_id s = sp_plan_id plan) target_ids)"

text \<open>
  The audit store may raise; \<open>except (RuntimeError, ValueError)\<close> names two kinds of exceptions, and any other passes.
  A round of the loop over the source operations ends with a match, with a code, or with such an exception.
\<close>

datatype audit_error = Audit_Runtime_Error string | Audit_Value_Error string | Audit_Other_Error string

datatype retry_end = Retry_Refused string | Retry_Raises string

fun audit_failed :: "audit_error \<Rightarrow> retry_end" where
  "audit_failed (Audit_Other_Error e) = Retry_Raises e"
| "audit_failed _ = Retry_Refused ''RUN_RETRY_OPERATION_AUDIT_UNAVAILABLE''"

type_synonym operation_audits =
  "(string \<Rightarrow> string \<Rightarrow> audit_error + OperationAuditIdentity option) \<times>
   (string \<Rightarrow> string \<Rightarrow> audit_error + OperationOutcomeSummary option)"

text \<open>One round of the loop over the source operations: the operation of the fresh plan that stands for it.\<close>

definition retry_match ::
  "operation_audits \<Rightarrow> StartedRun \<Rightarrow> SealedPlan \<Rightarrow> SealedPlan \<Rightarrow> string list \<Rightarrow> string \<Rightarrow> retry_end + string" where
  "retry_match audits source source_plan fresh_plan target_ids op_id =
     (case dict_get po_operation_id (sp_operations source_plan) op_id of
        None \<Rightarrow> Inl (Retry_Refused ''RUN_RETRY_OPERATION_NOT_IN_SOURCE_PLAN'')
      | Some op \<Rightarrow>
          (case (po_target_endpoint_id op, po_target_relative_path op,
                 dict_get rt_endpoint_id (sr_targets source)
                   (case po_target_endpoint_id op of None \<Rightarrow> [] | Some e \<Rightarrow> e)) of
             (Some endpoint_id, Some path, Some target) \<Rightarrow>
               if endpoint_id \<notin> set target_ids then Inl (Retry_Refused ''RUN_RETRY_OPERATION_TARGET_MISMATCH'')
               else
                 (case fst audits (sr_run_id source) op_id of
                    Inl e \<Rightarrow> Inl (audit_failed e)
                  | Inr identity \<Rightarrow>
                 (case snd audits (sr_run_id source) op_id of
                    Inl e \<Rightarrow> Inl (audit_failed e)
                  | Inr outcome \<Rightarrow>
                      if (case identity of None \<Rightarrow> True
                          | Some i \<Rightarrow> oai_run_target_id i \<noteq> rt_run_target_id target
                              \<or> oai_target_relative_path i \<noteq> Some path)
                      then Inl (Retry_Refused ''RUN_RETRY_OPERATION_AUDIT_MISMATCH'')
                      else
                        (case outcome of
                           None \<Rightarrow> Inl (Retry_Refused ''RUN_RETRY_OPERATION_OUTCOME_NOT_FOUND'')
                         | Some out \<Rightarrow>
                             if oos_final_state out = ''SUCCEEDED''
                             then Inl (Retry_Refused ''RUN_RETRY_OPERATION_ALREADY_SUCCEEDED'')
                             else if oos_final_state out \<notin> set [''SKIPPED'', ''CANCELLED'', ''RECOVERY_REQUIRED'']
                             then Inl (Retry_Refused ''RUN_RETRY_OPERATION_NOT_RETRYABLE'')
                             else
                               (case filter (\<lambda>f. po_operation_type f \<in> set MUTATING_OPERATION_TYPES
                                       \<and> po_target_endpoint_id f = Some endpoint_id
                                       \<and> po_target_relative_path f = Some path) (sp_operations fresh_plan) of
                                  [f] \<Rightarrow> Inr (po_operation_id f)
                                | _ \<Rightarrow> Inl (Retry_Refused ''RUN_RETRY_OPERATION_NOT_IN_FRESH_PLAN'')))))
           | _ \<Rightarrow> Inl (Retry_Refused ''RUN_RETRY_OPERATION_TARGET_MISMATCH'')))"

fun retry_matches :: "(string \<Rightarrow> retry_end + string) \<Rightarrow> string list \<Rightarrow> string list \<Rightarrow> retry_end + string list" where
  "retry_matches matching selected [] = Inr selected"
| "retry_matches matching selected (i # is) =
     and_then (matching i) (\<lambda>f. retry_matches matching (if f \<in> set selected then selected else f # selected) is)"

definition requirements :: "PlanDependency list \<Rightarrow> string \<Rightarrow> string list" where
  "requirements deps op_id =
     remdups (map pd_before_operation_id (filter (\<lambda>d. pd_after_operation_id d = op_id) deps))"

text \<open>The \<open>while pending\<close> loop: the head of the list is the element \<open>pop\<close> takes.\<close>

function close_scope :: "PlanDependency list \<Rightarrow> string list \<Rightarrow> string list \<Rightarrow> string list" where
  "close_scope deps selected [] = selected"
| "close_scope deps selected (op_id # pending) =
     (let new = filter (\<lambda>r. r \<notin> set selected) (requirements deps op_id)
      in close_scope deps (new @ selected) (rev new @ pending))"
  by pat_completeness auto

lemma close_scope_measure:
  fixes deps :: "PlanDependency list" and selected :: "string list" and op_id :: string
  defines "B \<equiv> set (map pd_before_operation_id deps)"
  defines "new \<equiv> filter (\<lambda>r. r \<notin> set selected) (requirements deps op_id)"
  shows "card (B - set (new @ selected)) + length new = card (B - set selected)"
proof -
  have "set new \<subseteq> B - set selected" by (auto simp: new_def B_def requirements_def)
  moreover have "finite (B - set selected)" by (simp add: B_def)
  moreover have "distinct new" by (simp add: new_def requirements_def)
  then have "length new = card (set new)" by (rule distinct_card [symmetric])
  moreover have "B - set (new @ selected) = (B - set selected) - set new" by auto
  ultimately show ?thesis by (simp add: card_Diff_subset card_mono)
qed

termination close_scope
proof (relation "measure (\<lambda>(deps, selected, pending).
    2 * card (set (map pd_before_operation_id deps) - set selected) + length pending)")
  fix deps selected op_id pending new
  assume new: "new = filter (\<lambda>r. r \<notin> set selected) (requirements deps op_id)"
  show "((deps, new @ selected, rev new @ pending), deps, selected, op_id # pending)
      \<in> measure (\<lambda>(deps, selected, pending). 2 * card (set (map pd_before_operation_id deps) - set selected) + length pending)"
    using close_scope_measure [of deps selected op_id] unfolding new by simp
qed simp

definition retry_operation_scope ::
  "(string \<Rightarrow> SealedPlan option result) \<Rightarrow> operation_audits option \<Rightarrow> StartedRun option \<Rightarrow> SealedPlan \<Rightarrow>
   string list \<Rightarrow> string list \<Rightarrow> (string list \<times> string option) result" where
  "retry_operation_scope load_plan audits source fresh_plan target_ids source_ids =
     (if source_ids = [] then Inr ([], None)
      else
        (case (source, audits) of
           (None, _) \<Rightarrow> Inr ([], Some ''RUN_RETRY_SOURCE_NOT_FOUND'')
         | (_, None) \<Rightarrow> Inr ([], Some ''RUN_RETRY_OPERATION_AUDIT_UNAVAILABLE'')
         | (Some s, Some a) \<Rightarrow>
             and_then (load_plan (sr_plan_id s)) (\<lambda>found.
               case found of
                 None \<Rightarrow> Inr ([], Some ''RUN_RETRY_SOURCE_PLAN_INVALID'')
               | Some source_plan \<Rightarrow>
                   if sp_plan_checksum source_plan \<noteq> sr_plan_checksum s \<or> \<not> sp_immutable source_plan
                     \<or> \<not> verify_plan_checksum source_plan
                   then Inr ([], Some ''RUN_RETRY_SOURCE_PLAN_INVALID'')
                   else
                     (case retry_matches (retry_match a s source_plan fresh_plan target_ids) [] source_ids of
                        Inl (Retry_Refused code) \<Rightarrow> Inr ([], Some code)
                      | Inl (Retry_Raises e) \<Rightarrow> Inl e
                      | Inr matched \<Rightarrow>
                          let ids = close_scope (sp_dependencies fresh_plan) matched matched;
                              ops = filter (\<lambda>op. po_operation_id op \<in> set ids) (sp_operations fresh_plan)
                          in if length ops \<noteq> length ids then Inr ([], Some ''RUN_RETRY_OPERATION_DEPENDENCY_NOT_FOUND'')
                             else if list_ex (\<lambda>op. po_operation_type op \<notin> set MUTATING_OPERATION_TYPES
                                 \<or> po_target_endpoint_id op \<notin> set (map Some target_ids)) ops
                             then Inr ([], Some ''RUN_RETRY_OPERATION_DEPENDENCY_INVALID'')
                             else Inr (map po_operation_id ops, None)))))"

section \<open>The run that is saved\<close>

definition started_run_target :: "string \<Rightarrow> PlanOperation list \<Rightarrow> PlanEndpoint \<Rightarrow> StartedRunTarget" where
  "started_run_target run_id operations e =
     (let ordinal = (case pe_target_ordinal e of None \<Rightarrow> 0 | Some n \<Rightarrow> n);
          scoped = filter (\<lambda>op. po_target_endpoint_id op = Some (pe_endpoint_id e)) operations
      in \<lparr>rt_run_target_id = run_id @ ''-target-'' @ pad04 ordinal, rt_endpoint_id = pe_endpoint_id e,
          rt_endpoint_revision_id = pe_endpoint_revision_id e, rt_state = RunTargetState.PENDING,
          rt_required_owner_installation_id = pe_required_owner_installation_id e,
          rt_required_ownership_epoch = pe_required_ownership_epoch e,
          rt_lease_resource_key = Some (''endpoint:'' @ pe_endpoint_id e), rt_last_lease_id = None,
          rt_last_ownership_epoch = None, rt_last_fencing_token = None,
          rt_planned_operations = (if operations \<noteq> [] then int (length scoped) else pe_planned_operations e),
          rt_planned_bytes = (if operations \<noteq> [] then sum_list (map po_planned_bytes scoped) else pe_planned_bytes e),
          rt_completed_operations = 0, rt_completed_bytes = 0\<rparr>)"

definition deferred_operations :: "SealedPlan \<Rightarrow> PlanEndpoint list \<Rightarrow> PlanOperation list" where
  "deferred_operations plan endpoints =
     filter (\<lambda>op. po_operation_type op = DEFER_AUTOMATION_POLICY
       \<and> po_target_endpoint_id op \<in> set (map (Some \<circ> pe_endpoint_id) endpoints)) (sp_operations plan)"

definition run_summary :: "StartRunCommand \<Rightarrow> SealedPlan \<Rightarrow> PlanOperation list \<Rightarrow> bool \<Rightarrow> (string \<times> json) list" where
  "run_summary c plan deferred retried =
     [(''executor_pending'', JBool True), (''action_required'', JBool (deferred \<noteq> [])),
      (''automation_policy'', JStr (sp_execution_policy plan)),
      (''deferred_operation_count'', JInt (int (length deferred))),
      (''deferred_planned_bytes'', JInt (sum_list (map po_planned_bytes deferred))),
      (''scope'', JStr (if src_source_operation_ids c \<noteq> [] then ''OPERATION_RETRY''
         else if retried then ''TARGET_RETRY'' else ''0B_RUN_START_SKELETON''))]
     @ (if src_target_endpoint_ids c \<noteq> [] \<or> src_selected_plan_operation_ids c \<noteq> []
        then [(''target_endpoint_ids'', JArr (map JStr (src_target_endpoint_ids c)))] else [])
     @ (case src_resumed_from_run_id c of None \<Rightarrow> [] | Some i \<Rightarrow> [(''resumed_from_run_id'', JStr i)])
     @ (if src_source_operation_ids c \<noteq> []
        then [(''source_operation_ids'', JArr (map JStr (src_source_operation_ids c)))] else [])
     @ (if src_selected_plan_operation_ids c \<noteq> []
        then [(''operation_ids'', JArr (map JStr (src_selected_plan_operation_ids c)))] else [])
     @ (case src_trigger_occurrence_id c of None \<Rightarrow> [] | Some i \<Rightarrow> [(''trigger_occurrence_id'', JStr i)])"

definition started_run_from_plan ::
  "StartRunCommand \<Rightarrow> SealedPlan \<Rightarrow> RunIds \<Rightarrow> StartedRun option \<Rightarrow> RunState \<Rightarrow> StartedRun" where
  "started_run_from_plan c plan ids retry_source initial_state =
     (let targets = src_target_endpoint_ids c; op_ids = src_selected_plan_operation_ids c;
          endpoints = selected_target_endpoints plan targets op_ids;
          planned = (if op_ids \<noteq> [] then selected_plan_operations plan op_ids
                     else executable_operations_for_endpoints plan endpoints)
      in \<lparr>sr_run_id = ri_run_id ids, sr_job_id = sp_job_id plan, sr_job_revision_id = sp_job_revision_id plan,
          sr_plan_id = sp_plan_id plan, sr_command_request_id = src_request_id c,
          sr_idempotency_key = effective_run_idempotency_key c, sr_command_receipt_id = src_idempotency_key c,
          sr_logical_run_group_id = (case retry_source of None \<Rightarrow> ri_logical_run_group_id ids
             | Some s \<Rightarrow> sr_logical_run_group_id s),
          sr_trigger_type = MANUAL_LOCAL_PREVIEW, sr_state = initial_state, sr_app_version = APP_VERSION,
          sr_plan_checksum = sp_plan_checksum plan, sr_planned_operations = int (length planned),
          sr_planned_bytes = sum_list (map po_planned_bytes planned),
          sr_targets = map (started_run_target (ri_run_id ids)
             (if op_ids \<noteq> [] then selected_plan_operations plan op_ids else [])) endpoints,
          sr_summary = run_summary c plan (deferred_operations plan endpoints) (retry_source \<noteq> None),
          sr_warning_count = 0, sr_error_count = 0, sr_trigger_occurrence_id = src_trigger_occurrence_id c,
          sr_resumed_from_run_id = src_resumed_from_run_id c\<rparr>)"

section \<open>The handler\<close>

definition not_created :: "RunStartReadiness \<Rightarrow> RunStartOutcome" where
  "not_created readiness =
     \<lparr>rso_created = False, rso_idempotent_replay = False, rso_readiness = readiness, rso_run = None\<rparr>"

definition replayed :: "RunStartReadiness \<Rightarrow> StartedRun \<Rightarrow> RunStartOutcome" where
  "replayed readiness run =
     \<lparr>rso_created = False, rso_idempotent_replay = True, rso_readiness = readiness, rso_run = Some run\<rparr>"

text \<open>What a retry adds: the source run and the command with the operations that were selected, or the outcome
  that refuses it.\<close>

definition resolve_retry ::
  "(string \<Rightarrow> StartedRun option result) \<Rightarrow> (string \<Rightarrow> SealedPlan option result) \<Rightarrow> operation_audits option \<Rightarrow>
   SealedPlan \<Rightarrow> StartRunCommand \<Rightarrow> (RunStartOutcome + StartedRun option \<times> StartRunCommand) result" where
  "resolve_retry load_run load_plan audits plan c =
     (let refuse = (\<lambda>code. Inr (Inl (not_created (not_ready_to_queue (readiness_for_plan c plan) code))))
      in if src_source_operation_ids c \<noteq> [] \<and> src_resumed_from_run_id c = None
         then refuse ''RUN_RETRY_OPERATION_REQUIRES_SOURCE_RUN''
         else
           (case src_resumed_from_run_id c of
              None \<Rightarrow> Inr (Inr (None, c))
            | Some source_id \<Rightarrow>
                and_then (load_run source_id) (\<lambda>source.
                  case retry_source_validation_code source plan (src_target_endpoint_ids c) (src_source_operation_ids c \<noteq> []) of
                    Some code \<Rightarrow> refuse code
                  | None \<Rightarrow>
                      and_then (retry_operation_scope load_plan audits source plan (src_target_endpoint_ids c)
                          (src_source_operation_ids c)) (\<lambda>(ids, code).
                        case code of
                          Some code \<Rightarrow> refuse code
                        | None \<Rightarrow> Inr (Inr (source,
                            if ids \<noteq> [] then c\<lparr>src_selected_plan_operation_ids := ids\<rparr> else c))))))"

definition start_run_from_sealed_plan ::
  "(string \<Rightarrow> 's \<Rightarrow> StartedRun option result) \<Rightarrow> (string \<Rightarrow> 's \<Rightarrow> StartedRun option result) \<Rightarrow>
   (string \<Rightarrow> 's \<Rightarrow> StartedRun option result) \<Rightarrow> (StartedRun \<Rightarrow> 's \<Rightarrow> unit result \<times> 's) \<Rightarrow>
   (string \<Rightarrow> SealedPlan option result) \<Rightarrow> operation_audits option \<Rightarrow> (string \<Rightarrow> JobLifecycleRecord option result) option \<Rightarrow>
   bool \<Rightarrow> RunIds \<Rightarrow> StartRunCommand \<Rightarrow> 's \<Rightarrow> RunStartOutcome result \<times> 's" where
  "start_run_from_sealed_plan load_by_key load_run load_active save load_plan audits job_lifecycle defer ids c s =
     (case load_by_key (effective_run_idempotency_key c) s of
        Inl e \<Rightarrow> (Inl e, s)
      | Inr (Some existing) \<Rightarrow> (Inr (replayed (ready_to_queue (src_plan_id c)) existing), s)
      | Inr None \<Rightarrow>
          (case load_plan (src_plan_id c) of
             Inl e \<Rightarrow> (Inl e, s)
           | Inr None \<Rightarrow> (Inr (not_created (missing_plan (src_plan_id c))), s)
           | Inr (Some plan) \<Rightarrow>
               (case job_lifecycle_run_rejection job_lifecycle (sp_job_id plan) (readiness_for_plan c plan) of
                  Inl e \<Rightarrow> (Inl e, s)
                | Inr (Some rejection) \<Rightarrow> (Inr (not_created rejection), s)
                | Inr None \<Rightarrow>
                    (case resolve_retry (\<lambda>i. load_run i s) load_plan audits plan c of
                       Inl e \<Rightarrow> (Inl e, s)
                     | Inr (Inl refused) \<Rightarrow> (Inr refused, s)
                     | Inr (Inr (retry_source, ec)) \<Rightarrow>
                         let readiness = readiness_for_plan ec plan
                         in if \<not> rsr_plan_runnable readiness then (Inr (not_created readiness), s)
                            else
                              (case load_active (sp_job_id plan) s of
                                 Inl e \<Rightarrow> (Inl e, s)
                               | Inr (Some active) \<Rightarrow> (Inr (replayed readiness active), s)
                               | Inr None \<Rightarrow>
                                   let run = started_run_from_plan ec plan ids retry_source
                                         (if defer then RunState.CREATED else RunState.QUEUED)
                                   in (case save run s of
                                         (Inl e, s') \<Rightarrow> (Inl e, s')
                                       | (Inr _, s') \<Rightarrow>
                                           (Inr \<lparr>rso_created = True, rso_idempotent_replay = False,
                                             rso_readiness = readiness, rso_run = Some run\<rparr>, s')))))))"

end
