(* ===== verification/Run_Start_Laws.thy ===== *)
theory Run_Start_Laws
  imports Run_Start Run_Control
begin

text \<open>
  Lemmas about starting a run: the closure of a retry scope under dependencies, the shape of the run that is
  saved, the contract of the handler with the run store, and that at most one run of a job is active.
\<close>

section \<open>The closure under dependencies\<close>

lemma requirements_iff: "r \<in> set (requirements deps i) \<longleftrightarrow> (r, i) \<in> dep_rel deps"
  by (auto simp: requirements_def dep_rel_def)

definition scope_closed :: "PlanDependency list \<Rightarrow> string set \<Rightarrow> bool" where
  "scope_closed deps S \<longleftrightarrow> (\<forall>i \<in> S. set (requirements deps i) \<subseteq> S)"

lemma scope_closed_rtrancl:
  assumes "scope_closed deps S" "(x, y) \<in> (dep_rel deps)\<^sup>*" "y \<in> S"
  shows "x \<in> S"
  using assms(2,3)
  by (induction rule: converse_rtrancl_induct) (use assms(1) in \<open>auto simp: scope_closed_def requirements_iff subset_iff\<close>)

lemma close_scope_facts:
  assumes "set pending \<subseteq> set selected" "\<forall>i \<in> set selected - set pending. set (requirements deps i) \<subseteq> set selected"
    "distinct selected"
  shows "distinct (close_scope deps selected pending) \<and> set selected \<subseteq> set (close_scope deps selected pending)
    \<and> scope_closed deps (set (close_scope deps selected pending))
    \<and> set (close_scope deps selected pending) \<subseteq> {x. \<exists>y \<in> set selected. (x, y) \<in> (dep_rel deps)\<^sup>*}"
  using assms
proof (induction deps selected pending rule: close_scope.induct)
  case (1 deps selected)
  then show ?case by (auto simp: scope_closed_def)
next
  case (2 deps selected op_id pending)
  define new where "new = filter (\<lambda>r. r \<notin> set selected) (requirements deps op_id)"
  have new: "set (requirements deps op_id) \<subseteq> set (new @ selected)" "distinct new" "set new \<inter> set selected = {}"
      "\<And>x. x \<in> set new \<Longrightarrow> (x, op_id) \<in> dep_rel deps"
    by (auto simp: new_def requirements_iff) (simp add: requirements_def)
  have ih: "distinct (close_scope deps (new @ selected) (rev new @ pending))
    \<and> set (new @ selected) \<subseteq> set (close_scope deps (new @ selected) (rev new @ pending))
    \<and> scope_closed deps (set (close_scope deps (new @ selected) (rev new @ pending)))
    \<and> set (close_scope deps (new @ selected) (rev new @ pending)) \<subseteq> {x. \<exists>y \<in> set (new @ selected). (x, y) \<in> (dep_rel deps)\<^sup>*}"
  proof (rule 2(1) [OF new_def])
    show "set (rev new @ pending) \<subseteq> set (new @ selected)" using 2(2) by auto
    show "\<forall>i \<in> set (new @ selected) - set (rev new @ pending). set (requirements deps i) \<subseteq> set (new @ selected)"
    proof
      fix i assume i: "i \<in> set (new @ selected) - set (rev new @ pending)"
      show "set (requirements deps i) \<subseteq> set (new @ selected)"
        using i new(1) 2(3) by (cases "i = op_id") auto
    qed
    show "distinct (new @ selected)" using 2(4) new(2,3) by simp
  qed
  have op: "op_id \<in> set selected" using 2(2) by simp
  have "{x. \<exists>y \<in> set (new @ selected). (x, y) \<in> (dep_rel deps)\<^sup>*} \<subseteq> {x. \<exists>y \<in> set selected. (x, y) \<in> (dep_rel deps)\<^sup>*}"
  proof clarify
    fix x y assume "y \<in> set (new @ selected)" "(x, y) \<in> (dep_rel deps)\<^sup>*"
    then show "\<exists>y \<in> set selected. (x, y) \<in> (dep_rel deps)\<^sup>*"
      using new(4) [of y] op by (auto intro: rtrancl_into_rtrancl)
  qed
  with ih show ?case by (simp add: Let_def flip: new_def) blast
qed

lemma close_scope_correct:
  assumes "distinct selected"
  shows "distinct (close_scope deps selected selected)"
    "set (close_scope deps selected selected) = {x. \<exists>y \<in> set selected. (x, y) \<in> (dep_rel deps)\<^sup>*}"
proof -
  note f = close_scope_facts [of selected selected deps, OF _ _ assms]
  show "distinct (close_scope deps selected selected)" using f by simp
  show "set (close_scope deps selected selected) = {x. \<exists>y \<in> set selected. (x, y) \<in> (dep_rel deps)\<^sup>*}"
    using f scope_closed_rtrancl [of deps "set (close_scope deps selected selected)"] by fastforce
qed

lemma retry_matches_facts:
  assumes "retry_matches matching selected is = Inr ids" "distinct selected"
  shows "distinct ids \<and> set ids = set selected \<union> {f. \<exists>i \<in> set is. matching i = Inr f} \<and> list_all (\<lambda>i. \<exists>f. matching i = Inr f) is"
  using assms
proof (induction "is" arbitrary: selected)
  case (Cons i "is")
  then obtain f where f: "matching i = Inr f"
    "retry_matches matching (if f \<in> set selected then selected else f # selected) is = Inr ids"
    by (cases "matching i") auto
  have "distinct (if f \<in> set selected then selected else f # selected)" using Cons.prems(2) by simp
  from Cons.IH [OF f(2) this] show ?case using f(1) by auto
qed simp

section \<open>The saved run\<close>

lemma wf_json_strings [simp]: "wf_json (JArr (map JStr xs))"
  by (simp add: list_all_iff)

lemma run_summary_wf: "wf_json (JObj (run_summary c plan deferred retried))"
  by (auto simp: run_summary_def list_all_iff split: option.splits)

lemma started_run_is_fresh:
  "initial_state \<in> {RunState.CREATED, RunState.QUEUED} \<Longrightarrow> fresh_run (started_run_from_plan c plan ids source initial_state)"
  by (simp add: fresh_run_def started_run_from_plan_def Let_def run_summary_wf started_run_target_def
      list.pred_map comp_def list.pred_True del: wf_json.simps)

section \<open>What saving does\<close>

lemma insert_targets_facts:
  assumes "insert_targets ts db = (b, db')"
  shows "c_runs db' = c_runs db \<and> c_run_stop_requests db' = c_run_stop_requests db \<and> c_wait_events db' = c_wait_events db
    \<and> (\<exists>us. c_run_targets db' = c_run_targets db @ us \<and> set us \<subseteq> set ts \<and> (b \<longrightarrow> us = ts))"
  using assms
proof (induction ts arbitrary: db)
  case (Cons t ts)
  show ?case
  proof (cases "target_constraints db t")
    case True
    then have "insert_targets ts (db\<lparr>c_run_targets := c_run_targets db @ [t]\<rparr>) = (b, db')" using Cons.prems by simp
    from Cons.IH [OF this] show ?thesis by auto
  qed (use Cons.prems in auto)
qed simp

lemma save_started_run_cases:
  assumes "db_save_started_run False now run db = (res, db')"
  obtains (saved) "res = Inr ()" "run_constraints db (run_row_of now run)" "c_runs db' = c_runs db @ [run_row_of now run]"
      "c_run_targets db' = c_run_targets db @ map (target_row_of (sr_run_id run)) (sr_targets run)"
    | (refused) e where "res = Inl e" "db' = db"
  using assms
  by (auto simp: db_save_started_run_def Let_def give_up_def split: if_splits prod.splits bool.splits
      dest!: insert_targets_facts)

lemma load_one_Some:
  assumes "catalog_inv db" "r \<in> set (c_runs db)"
  shows "\<exists>run. load_one db (Some r) = Inr (Some run) \<and> sr_run_id run = rr_id r \<and> sr_job_id run = rr_job_id r
    \<and> sr_state run = rr_state r \<and> sr_idempotency_key run = rr_idempotency_key r"
proof -
  have "run_ok r" using inv_row(1) [OF assms] .
  then obtain summary where "json_object (rr_summary_json r) = Inr summary" by (auto simp: run_ok_def json_object_ok_def)
  then show ?thesis by (simp add: load_one_def started_run_def)
qed

lemma first_run_SomeD:
  assumes "first_run p db = Some r"
  shows "r \<in> set (c_runs db) \<and> p r"
proof -
  have "r \<in> set (sort_key (\<lambda>r. (rr_started_utc r, rr_id r)) (filter p (c_runs db)))"
    using assms by (auto simp: first_run_def simp del: set_sort split: list.splits)
  then show ?thesis by simp
qed

lemma first_run_None_iff: "first_run p db = None \<longleftrightarrow> (\<forall>r \<in> set (c_runs db). \<not> p r)"
proof -
  let ?s = "sort_key (\<lambda>r. (rr_started_utc r, rr_id r)) (filter p (c_runs db))"
  have "first_run p db = None \<longleftrightarrow> set ?s = {}" by (simp add: first_run_def del: set_sort split: list.split)
  then show ?thesis by auto
qed

lemma load_active_total:
  assumes "catalog_inv db"
  shows "\<exists>x. db_load_active_run_for_job j db = Inr x
    \<and> (x = None \<longleftrightarrow> (\<forall>r \<in> set (c_runs db). rr_job_id r = j \<longrightarrow> rr_state r \<notin> set ACTIVE_RUN_STATES))"
proof (cases "first_run (\<lambda>r. rr_job_id r = j \<and> rr_state r \<in> set ACTIVE_RUN_STATES) db")
  case None
  then have "\<forall>r \<in> set (c_runs db). rr_job_id r = j \<longrightarrow> rr_state r \<notin> set ACTIVE_RUN_STATES" by (simp add: first_run_None_iff)
  then show ?thesis by (simp add: db_load_active_run_for_job_def load_one_def None)
next
  case (Some r)
  then show ?thesis
    using load_one_Some [OF assms, of r] first_run_SomeD [OF Some] by (auto simp: db_load_active_run_for_job_def)
qed

lemma load_by_key_total:
  assumes "catalog_inv db"
  shows "\<exists>x. db_load_started_run_by_idempotency_key k db = Inr x \<and> (x = None \<longleftrightarrow> k \<notin> rr_idempotency_key ` set (c_runs db))"
proof (cases "List.find (\<lambda>r. rr_idempotency_key r = k) (c_runs db)")
  case None
  then have "k \<notin> rr_idempotency_key ` set (c_runs db)" by (auto simp: find_None_iff')
  then show ?thesis by (simp add: db_load_started_run_by_idempotency_key_def load_one_def None)
next
  case (Some r)
  then show ?thesis
    using load_one_Some [OF assms, of r] find_Some_iff' [OF Some]
    by (auto simp: db_load_started_run_by_idempotency_key_def)
qed

section \<open>The handler and its store\<close>

lemma resolve_retry_refused:
  "resolve_retry load_run load_plan audits plan c = Inr (Inl out) \<Longrightarrow> \<not> rso_created out"
  by (auto simp: resolve_retry_def Let_def not_created_def and_then_def split: if_splits option.splits sum.splits)

lemma start_cases:
  assumes "start_run_from_sealed_plan load_by_key load_run load_active save load_plan audits jobs defer ids c s = (res, s')"
  obtains (unchanged) "s' = s" "\<And>out. res = Inr out \<Longrightarrow> \<not> rso_created out"
    | (saving) plan source ec run out where
      "load_by_key (effective_run_idempotency_key c) s = Inr None" "load_plan (src_plan_id c) = Inr (Some plan)"
      "job_lifecycle_run_rejection jobs (sp_job_id plan) (readiness_for_plan c plan) = Inr None"
      "resolve_retry (\<lambda>i. load_run i s) load_plan audits plan c = Inr (Inr (source, ec))"
      "rsr_plan_runnable (readiness_for_plan ec plan)" "load_active (sp_job_id plan) s = Inr None"
      "run = started_run_from_plan ec plan ids source (if defer then RunState.CREATED else RunState.QUEUED)"
      "save run s = (case res of Inl e \<Rightarrow> Inl e | Inr _ \<Rightarrow> Inr (), s')" 
      "out = \<lparr>rso_created = True, rso_idempotent_replay = False, rso_readiness = readiness_for_plan ec plan, rso_run = Some run\<rparr>"
      "case res of Inl _ \<Rightarrow> True | Inr o' \<Rightarrow> o' = out"
proof -
  consider (no) "s' = s" "\<And>out. res = Inr out \<Longrightarrow> \<not> rso_created out"
    | (yes) plan source ec where
      "load_by_key (effective_run_idempotency_key c) s = Inr None" "load_plan (src_plan_id c) = Inr (Some plan)"
      "job_lifecycle_run_rejection jobs (sp_job_id plan) (readiness_for_plan c plan) = Inr None"
      "resolve_retry (\<lambda>i. load_run i s) load_plan audits plan c = Inr (Inr (source, ec))"
      "rsr_plan_runnable (readiness_for_plan ec plan)" "load_active (sp_job_id plan) s = Inr None"
    using assms
    by (auto simp: start_run_from_sealed_plan_def Let_def replayed_def not_created_def
        dest: resolve_retry_refused split: sum.splits option.splits if_splits prod.splits)
  then show thesis
  proof cases
    case no then show thesis by (rule unchanged)
  next
    case (yes plan source ec)
    then show thesis
      using assms that(2) [of plan source ec]
      by (auto simp: start_run_from_sealed_plan_def Let_def split: sum.splits prod.splits if_splits)
  qed
qed

text \<open>What starting a run needs of the store.\<close>

locale run_start_store =
  fixes valid :: "'s \<Rightarrow> bool"
    and load_by_key load_run load_active :: "string \<Rightarrow> 's \<Rightarrow> StartedRun option result"
    and save :: "StartedRun \<Rightarrow> 's \<Rightarrow> unit result \<times> 's"
    and later :: "'s \<Rightarrow> 's \<Rightarrow> bool"
  assumes refused_save: "save run s = (Inl e, s') \<Longrightarrow> s' = s"
    and saved_valid: "valid s \<Longrightarrow> fresh_run run \<Longrightarrow> save run s = (Inr u, s') \<Longrightarrow> valid s'"
    and saved_by_key: "valid s \<Longrightarrow> fresh_run run \<Longrightarrow> save run s = (Inr u, s') \<Longrightarrow>
      \<exists>stored. load_by_key (sr_idempotency_key run) s' = Inr (Some stored) \<and> sr_run_id stored = sr_run_id run"
    and saved_active: "valid s \<Longrightarrow> fresh_run run \<Longrightarrow> save run s = (Inr u, s') \<Longrightarrow> load_active (sr_job_id run) s = Inr None \<Longrightarrow>
      \<exists>stored. load_active (sr_job_id run) s' = Inr (Some stored) \<and> sr_run_id stored = sr_run_id run"
    and kept_by_key: "valid s \<Longrightarrow> later s s' \<Longrightarrow> load_by_key k s = Inr (Some run) \<Longrightarrow>
      \<exists>stored. load_by_key k s' = Inr (Some stored) \<and> sr_run_id stored = sr_run_id run"
begin

abbreviation start where
  "start \<equiv> start_run_from_sealed_plan load_by_key load_run load_active save"

lemma not_created_unchanged:
  assumes "start load_plan audits jobs defer ids c s = (res, s')" "\<And>out. res = Inr out \<Longrightarrow> \<not> rso_created out"
  shows "s' = s"
  using assms(1)
proof (cases rule: start_cases)
  case (saving plan source ec run out)
  then obtain e where "res = Inl e" using assms(2) by (cases res) auto
  then show ?thesis using saving(8) refused_save by auto
qed

lemma created_facts:
  assumes "valid s" "start load_plan audits jobs defer ids c s = (Inr out, s')" "rso_created out"
  shows "valid s' \<and> (\<exists>plan run. rso_run out = Some run \<and> load_plan (src_plan_id c) = Inr (Some plan)
     \<and> fresh_run run \<and> save run s = (Inr (), s') \<and> sr_run_id run = ri_run_id ids
     \<and> sr_job_id run = sp_job_id plan \<and> sr_plan_checksum run = src_plan_checksum c \<and> verify_plan_checksum plan
     \<and> sr_idempotency_key run = effective_run_idempotency_key c
     \<and> load_by_key (sr_idempotency_key run) s = Inr None \<and> load_active (sr_job_id run) s = Inr None)"
  using assms(2)
proof (cases rule: start_cases)
  case unchanged
  then show ?thesis using assms(3) by simp
next
  case (saving plan source ec run out')
  have f: "fresh_run run" unfolding saving(7) by (rule started_run_is_fresh) simp
  have ec: "ec = c \<or> (\<exists>ids. ec = c\<lparr>src_selected_plan_operation_ids := ids\<rparr>)"
    using saving(4) by (auto simp: resolve_retry_def Let_def and_then_def split: if_splits option.splits sum.splits)
  then have k: "effective_run_idempotency_key ec = effective_run_idempotency_key c" "src_plan_checksum ec = src_plan_checksum c"
    by (auto simp: effective_run_idempotency_key_def split: option.split)
  have codes: "readiness_codes ec plan = []" using saving(5) by (auto simp: readiness_for_plan_def split: if_splits)
  have "sp_plan_checksum plan = src_plan_checksum ec" "verify_plan_checksum plan"
    using codes by (auto simp: readiness_codes_def Let_def when_code_def split: if_splits)
  moreover have "save run s = (Inr (), s')" using saving(8) by simp
  moreover have "valid s'" using saved_valid [OF assms(1) f] calculation(3) by blast
  moreover have "sr_run_id run = ri_run_id ids" "sr_job_id run = sp_job_id plan" "sr_plan_checksum run = sp_plan_checksum plan"
      "sr_idempotency_key run = effective_run_idempotency_key ec"
    by (simp_all add: saving(7) started_run_from_plan_def Let_def)
  ultimately show ?thesis using saving(1,2,6,9,10) f k by auto
qed

lemma started_twice:
  assumes "valid s" "start load_plan audits jobs defer ids c s = (Inr out, s')" "rso_created out"
    "effective_run_idempotency_key c' = effective_run_idempotency_key c" "later s' s''"
  shows "\<exists>out'. start_run_from_sealed_plan load_by_key load_run load_active save' load_plan' audits' jobs' defer' ids' c' s'' = (Inr out', s'') \<and> rso_idempotent_replay out' \<and> \<not> rso_created out'
    \<and> map_option sr_run_id (rso_run out') = map_option sr_run_id (rso_run out)"
proof -
  obtain run where run: "rso_run out = Some run" "fresh_run run" "save run s = (Inr (), s')"
      "sr_idempotency_key run = effective_run_idempotency_key c" "valid s'"
    using created_facts [OF assms(1-3)] by auto
  obtain stored where stored: "load_by_key (effective_run_idempotency_key c) s' = Inr (Some stored)" "sr_run_id stored = sr_run_id run"
    using saved_by_key [OF assms(1) run(2,3)] run(4) by auto
  obtain kept where "load_by_key (effective_run_idempotency_key c) s'' = Inr (Some kept)" "sr_run_id kept = sr_run_id run"
    using kept_by_key [OF run(5) assms(5) stored(1)] stored(2) by auto
  then show ?thesis using run(1) assms(4) by (simp add: start_run_from_sealed_plan_def replayed_def)
qed

lemma never_second_active:
  assumes "valid s" "start load_plan audits jobs defer ids c s = (Inr out, s')" "rso_created out"
    "load_plan' (src_plan_id c') = Inr (Some plan')" "sp_job_id plan' = sr_job_id (the (rso_run out))"
    "start load_plan' audits' jobs' defer' ids' c' s' = (Inr out', s'')"
  shows "\<not> rso_created out' \<and> s'' = s'"
proof -
  obtain run where run: "rso_run out = Some run" "fresh_run run" "save run s = (Inr (), s')" "load_active (sr_job_id run) s = Inr None"
    using created_facts [OF assms(1-3)] by auto
  obtain stored where a: "load_active (sr_job_id run) s' = Inr (Some stored)" using saved_active [OF assms(1) run(2-4)] by auto
  from assms(6) show ?thesis
  proof (cases rule: start_cases)
    case (saving plan source ec run' out'')
    then show ?thesis using a assms(4,5) run(1) by simp
  qed simp
qed

end

text \<open>Whatever the run store does later, the row of a run keeps its id and its key.\<close>

definition later_catalog :: "catalog \<Rightarrow> catalog \<Rightarrow> bool" where
  "later_catalog db db' \<longleftrightarrow> (\<exists>dl dl'. store_step\<^sup>*\<^sup>* (db, dl) (db', dl'))"

lemma later_row:
  assumes "store_step\<^sup>*\<^sup>* s s'" "catalog_inv (fst s)" "r \<in> set (c_runs (fst s))"
  shows "catalog_inv (fst s') \<and>
    (\<exists>r' \<in> set (c_runs (fst s')). rr_id r' = rr_id r \<and> rr_idempotency_key r' = rr_idempotency_key r)"
  using assms
proof (induction rule: rtranclp_induct)
  case (step s1 s2)
  then obtain r1 where r1: "catalog_inv (fst s1)" "r1 \<in> set (c_runs (fst s1))" "rr_id r1 = rr_id r"
      "rr_idempotency_key r1 = rr_idempotency_key r"
    by blast
  have g: "catalog_inv (fst s2)" "evolves (fst s1) (fst s2)"
    using store_step_good [OF step.hyps(2) r1(1)] by (simp_all add: good_def)
  obtain r2 where "r2 \<in> set (c_runs (fst s2))" "run_evolves r1 r2" by (rule evolves_run [OF g(2) r1(2)])
  then show ?case using g(1) run_evolves_keys [of r1 r2] r1(3,4) by auto
qed blast

lemma later_by_key:
  assumes inv: "catalog_inv db" and later: "later_catalog db db'"
    and found: "db_load_started_run_by_idempotency_key k db = Inr (Some run)"
  shows "\<exists>stored. db_load_started_run_by_idempotency_key k db' = Inr (Some stored) \<and> sr_run_id stored = sr_run_id run"
proof -
  obtain r where r: "List.find (\<lambda>r. rr_idempotency_key r = k) (c_runs db) = Some r" "load_one db (Some r) = Inr (Some run)"
    using found
    by (cases "List.find (\<lambda>r. rr_idempotency_key r = k) (c_runs db)")
      (simp_all add: db_load_started_run_by_idempotency_key_def load_one_def)
  have row: "r \<in> set (c_runs db)" "rr_idempotency_key r = k" using find_Some_iff' [OF r(1)] by auto
  have id: "sr_run_id run = rr_id r" using load_one_Some [OF inv row(1)] r(2) by auto
  obtain dl dl' where steps: "store_step\<^sup>*\<^sup>* (db, dl) (db', dl')" using later by (auto simp: later_catalog_def)
  obtain r' where r': "catalog_inv db'" "r' \<in> set (c_runs db')" "rr_id r' = rr_id r" "rr_idempotency_key r' = k"
    using later_row [OF steps, of r] inv row by auto
  obtain q where q: "List.find (\<lambda>r. rr_idempotency_key r = k) (c_runs db') = Some q"
    using r'(2,4) by (cases "List.find (\<lambda>r. rr_idempotency_key r = k) (c_runs db')") (auto simp: find_None_iff')
  have "q \<in> set (c_runs db')" "rr_idempotency_key q = k" using find_Some_iff' [OF q] by auto
  moreover have "inj_on rr_idempotency_key (set (c_runs db'))"
    using r'(1) by (simp add: catalog_inv_def run_keys_ok_def distinct_map)
  ultimately have "q = r'" using r'(2,4) by (metis inj_onD)
  then show ?thesis
    using load_one_Some [OF r'(1,2)] q r'(3) id by (auto simp: db_load_started_run_by_idempotency_key_def)
qed

interpretation sqlite_start: run_start_store catalog_inv db_load_started_run_by_idempotency_key db_load_started_run
  db_load_active_run_for_job "db_save_started_run False now" later_catalog for now
proof
  show "catalog_inv s \<Longrightarrow> later_catalog s s' \<Longrightarrow> db_load_started_run_by_idempotency_key k s = Inr (Some run) \<Longrightarrow>
      \<exists>stored. db_load_started_run_by_idempotency_key k s' = Inr (Some stored) \<and> sr_run_id stored = sr_run_id run" for s s' k run
    by (rule later_by_key)
  show "db_save_started_run False now run s = (Inl e, s') \<Longrightarrow> s' = s" for run s e s'
    by (erule save_started_run_cases) auto
  fix s run u s' assume inv: "catalog_inv s" and f: "fresh_run run" and save: "db_save_started_run False now run s = (Inr u, s')"
  show inv': "catalog_inv s'" using save_started_run_good [OF inv f, of False now] save by (simp add: good_def)
  obtain rows: "c_runs s' = c_runs s @ [run_row_of now run]" "run_constraints s (run_row_of now run)"
    using save by (rule save_started_run_cases) auto
  let ?r = "run_row_of now run"
  have r: "?r \<in> set (c_runs s')" "rr_id ?r = sr_run_id run" "rr_idempotency_key ?r = sr_idempotency_key run"
      "rr_job_id ?r = sr_job_id run" "rr_state ?r = sr_state run"
    using rows by (simp_all add: run_row_of_def)
  have new: "List.find (\<lambda>r. rr_idempotency_key r = sr_idempotency_key run) (c_runs s) = None"
    using rows(2) r(3) unfolding run_constraints_def find_None_iff' set_map by (metis imageI)
  have "List.find (\<lambda>r. rr_idempotency_key r = sr_idempotency_key run) (c_runs s') = Some ?r"
    using new r(3) by (simp add: rows(1) find_append)
  then show "\<exists>stored. db_load_started_run_by_idempotency_key (sr_idempotency_key run) s' = Inr (Some stored) \<and> sr_run_id stored = sr_run_id run"
    using load_one_Some [OF inv' r(1)] r(2) by (auto simp: db_load_started_run_by_idempotency_key_def)
  assume "db_load_active_run_for_job (sr_job_id run) s = Inr None"
  then have old: "\<forall>r \<in> set (c_runs s). rr_job_id r = sr_job_id run \<longrightarrow> rr_state r \<notin> set ACTIVE_RUN_STATES"
    using load_active_total [OF inv, of "sr_job_id run"] by auto
  let ?p = "\<lambda>r. rr_job_id r = sr_job_id run \<and> rr_state r \<in> set ACTIVE_RUN_STATES"
  have "?p ?r" using r f by (auto simp: fresh_run_def ACTIVE_RUN_STATES_def)
  then have "first_run ?p s' = Some r' \<Longrightarrow> r' = ?r" for r'
    using first_run_SomeD [of ?p s' r'] old unfolding rows(1) by auto
  moreover have "first_run ?p s' \<noteq> None" using \<open>?p ?r\<close> r(1) by (auto simp: first_run_None_iff)
  ultimately have "first_run ?p s' = Some ?r" by auto
  then show "\<exists>stored. db_load_active_run_for_job (sr_job_id run) s' = Inr (Some stored) \<and> sr_run_id stored = sr_run_id run"
    using load_one_Some [OF inv' r(1)] r(2) by (auto simp: db_load_active_run_for_job_def)
qed

section \<open>At most one active run of a job\<close>

definition active_runs :: "string \<Rightarrow> run_row list \<Rightarrow> run_row list" where
  "active_runs j rs = filter (\<lambda>r. rr_job_id r = j \<and> rr_state r \<in> set ACTIVE_RUN_STATES) rs"

lemma run_evolves_active:
  assumes "run_evolves r r'" "rr_state r' \<in> set ACTIVE_RUN_STATES"
  shows "rr_state r \<in> set ACTIVE_RUN_STATES"
  using assms by (cases "rr_state r") (auto simp: run_evolves_def ACTIVE_RUN_STATES_def TERMINAL_RUN_STATES_def)

lemma run_evolves_job: "run_evolves r r' \<Longrightarrow> rr_job_id r' = rr_job_id r"
  by (cases r; cases r') (auto simp: run_evolves_def run_identity_def)

lemma active_runs_mono: "list_all2 run_evolves rs rs' \<Longrightarrow> length (active_runs j rs') \<le> length (active_runs j rs)"
  by (induction rule: list_all2_induct) (auto simp: active_runs_def dest: run_evolves_active run_evolves_job)

text \<open>Only \<open>save_started_run\<close> adds a row to \<open>runs\<close>.\<close>

definition same_runs :: "catalog \<Rightarrow> catalog \<Rightarrow> bool" where
  "same_runs db db' \<longleftrightarrow> length (c_runs db') = length (c_runs db)"

lemma same_runs_update [simp]:
  "same_runs db db" "same_runs db (update_runs p f db') = same_runs db db'"
  "same_runs db (update_targets q g db') = same_runs db db'" "same_runs db (update_stops k h db') = same_runs db db'"
  "same_runs db (db'\<lparr>c_wait_events := w, c_wait_event_seq := n\<rparr>) = same_runs db db'"
  "same_runs db (db'\<lparr>c_run_stop_requests := st\<rparr>) = same_runs db db'"
  by (simp_all add: same_runs_def update_runs_def update_targets_def update_stops_def sql_update_def)

lemma same_runs_ends [simp]:
  assumes "same_runs db db1"
  shows "same_runs db (snd (give_up outer db db1 r))" "same_runs db (snd (return_run outer db db1 i))"
    "same_runs db (snd (return_target outer db db1 i t))"
  using assms by (simp_all add: give_up_def return_run_def return_target_def split: sum.split option.split)

lemma same_runs_stop [simp]: "same_runs db (fold (stop_target now i prog) ts db') = same_runs db db'"
  by (induction ts arbitrary: db') (simp_all add: stop_target_def Let_def split: prod.split)

lemma same_runs_return: "return_target outer db db2 i t = (r, db3) \<Longrightarrow> same_runs db db2 \<Longrightarrow> same_runs db db3"
  using same_runs_ends(3) [of db db2 outer i t] by simp

lemma same_runs_activate:
  assumes "same_runs db db2"
  shows "same_runs db (fst (snd (case return_target outer db db2 i t of
      (Inr (Some target), db3) \<Rightarrow>
        (case act of Inl _ \<Rightarrow> (x, db3, dl) | Inr dl' \<Rightarrow> (Inr (Some target), db3, dl'))
    | (r, db3) \<Rightarrow> (r, db3, dl))))"
  using same_runs_ends(3) [OF assms, of outer i t] by (auto split: prod.split sum.split option.split)

lemma same_runs_waiting: "same_runs (fst s) (fst (snd (db_record_run_target_waiting_for_endpoint outer clock i t ex reason s)))"
  by (cases s) (auto simp: db_record_run_target_waiting_for_endpoint_def Let_def simp del: set_simps
      split: sum.split intro!: same_runs_activate)

lemma same_runs_requeue: "same_runs (fst s) (fst (snd (db_requeue_next_due_waiting_run_target outer clock s)))"
  by (cases s) (auto simp: db_requeue_next_due_waiting_run_target_def Let_def
      split: sum.split option.split prod.split dest!: same_runs_return)

lemmas run_operation_defs =
  db_release_created_run_def db_request_run_pause_def db_finalize_requested_run_pause_def db_resume_paused_run_def
  db_request_run_stop_after_active_file_def db_bind_requested_run_stop_boundary_def db_activate_requested_run_stop_def
  db_finalize_requested_run_stop_def db_begin_run_target_preflight_def db_record_run_target_lease_acquired_def
  db_record_run_target_lease_reacquired_def db_record_run_target_execution_started_def db_record_run_target_succeeded_def
  db_record_run_target_succeeded_with_warnings_def db_record_run_target_recovery_required_def
  db_record_run_target_cancelled_def complete_target_def

lemma store_step_runs:
  assumes "store_step s s'"
  shows "same_runs (fst s) (fst s') \<or>
    (\<exists>run outer now. fresh_run run \<and> fst s' = snd (db_save_started_run outer now run (fst s)))"
  using assms
proof (induction rule: store_step.induct)
  case (save_started_run run db dl outer now)
  then show ?case by auto
qed (simp_all add: run_operation_defs Let_def same_runs_waiting same_runs_requeue split: sum.split option.split)

abbreviation sqlite_start_run where
  "sqlite_start_run now \<equiv> start_run_from_sealed_plan db_load_started_run_by_idempotency_key db_load_started_run
     db_load_active_run_for_job (db_save_started_run False now)"

text \<open>The application: runs are created by the start handler, every other operation of the store may be called
  at any time.\<close>

inductive app_step :: "store_state \<Rightarrow> store_state \<Rightarrow> bool" where
  start_run: "sqlite_start_run now load_plan audits jobs defer ids c db = (res, db') \<Longrightarrow> app_step (db, dl) (db', dl)"
| run_operation: "store_step s s' \<Longrightarrow> same_runs (fst s) (fst s') \<Longrightarrow> app_step s s'"

inductive app_reachable :: "store_state \<Rightarrow> bool" where
  app_init: "c_runs db = [] \<Longrightarrow> c_run_targets db = [] \<Longrightarrow> c_run_stop_requests db = [] \<Longrightarrow>
    c_wait_events db = [] \<Longrightarrow> c_wait_event_seq db = 0 \<Longrightarrow> app_reachable (db, Map.empty)"
| app_next: "app_reachable s \<Longrightarrow> app_step s s' \<Longrightarrow> app_reachable s'"

lemma start_step:
  assumes "sqlite_start_run now load_plan audits jobs defer ids c db = (res, db')"
  shows "db' = db \<or> (\<exists>run. fresh_run run \<and> db_save_started_run False now run db = (Inr (), db')
    \<and> db_load_active_run_for_job (sr_job_id run) db = Inr None)"
  using assms
proof (cases rule: start_cases)
  case (saving plan source ec run out)
  have f: "fresh_run run" unfolding saving(7) by (rule started_run_is_fresh) simp
  have j: "sr_job_id run = sp_job_id plan" by (simp add: saving(7) started_run_from_plan_def Let_def)
  from saving(8) show ?thesis
    by (rule save_started_run_cases) (use saving(6,8) f j in \<open>auto split: sum.splits\<close>)
qed simp

lemma app_step_store_step:
  assumes "app_step s s'"
  shows "s' = s \<or> store_step s s'"
  using assms
proof (induction rule: app_step.induct)
  case (start_run now load_plan audits jobs deferred ids c db res db' dl)
  from start_step [OF this] show ?case
    by (metis snd_conv store_step.save_started_run)
qed simp

lemma app_reachable_reachable: "app_reachable s \<Longrightarrow> reachable s"
  by (induction rule: app_reachable.induct) (auto intro: reachable_init reachable_step dest: app_step_store_step)

lemma app_step_active:
  assumes "app_step s s'" "catalog_inv (fst s)" "length (active_runs j (c_runs (fst s))) \<le> 1"
  shows "length (active_runs j (c_runs (fst s'))) \<le> 1"
  using assms
proof (induction rule: app_step.induct)
  case (start_run now load_plan audits jobs deferred ids c db res db' dl)
  from start_step [OF this(1)] show ?case
  proof (elim disjE exE conjE)
    fix run assume f: "fresh_run run" and save: "db_save_started_run False now run db = (Inr (), db')"
      and none: "db_load_active_run_for_job (sr_job_id run) db = Inr None"
    have rows: "c_runs db' = c_runs db @ [run_row_of now run]" using save by (rule save_started_run_cases) auto
    have "sr_job_id run = j \<Longrightarrow> active_runs j (c_runs db) = []"
      using load_active_total [of db j] start_run(2) none by (auto simp: active_runs_def filter_empty_conv)
    then show ?case using start_run(3) by (auto simp: rows active_runs_def run_row_of_def)
  qed (use start_run in simp)
next
  case (run_operation s s')
  have "evolves (fst s) (fst s')" using store_step_good [OF run_operation(1,3)] by (simp add: good_def)
  then obtain rs where rs: "c_runs (fst s') = rs @ drop (length rs) (c_runs (fst s'))" "list_all2 run_evolves (c_runs (fst s)) rs"
    by (auto simp: evolves_def)
  have "length rs = length (c_runs (fst s'))" using rs(2) run_operation(2) by (simp add: same_runs_def list_all2_lengthD)
  then have "c_runs (fst s') = rs" using rs(1) by simp
  then show ?case using active_runs_mono [OF rs(2), of j] run_operation(4) by simp
qed

lemma app_reachable_active: "app_reachable s \<Longrightarrow> length (active_runs j (c_runs (fst s))) \<le> 1"
proof (induction rule: app_reachable.induct)
  case (app_next s s')
  then show ?case using app_step_active reachable_catalog_inv [OF app_reachable_reachable] by blast
qed (simp add: active_runs_def)

section \<open>A sealed plan can be started\<close>

definition plain_command :: "SealedPlan \<Rightarrow> StartRunCommand \<Rightarrow> bool" where
  "plain_command plan c \<longleftrightarrow> src_plan_id c = sp_plan_id plan \<and> src_plan_checksum c = sp_plan_checksum plan
     \<and> src_target_endpoint_ids c = [] \<and> src_resumed_from_run_id c = None \<and> src_source_operation_ids c = []
     \<and> src_selected_plan_operation_ids c = []"

lemma plain_readiness:
  assumes "plain_command plan c"
  shows "readiness_codes c plan = [] \<longleftrightarrow> verify_plan_checksum plan \<and> sp_immutable plan
    \<and> map_of (sp_risk_summary plan) ''highest'' \<noteq> Some (JStr ''BLOCKED'')
    \<and> executable_operations_for_endpoints plan (target_endpoints plan) \<noteq> []"
proof -
  have "executable_operations_for_endpoints plan [] = []" by (simp add: executable_operations_for_endpoints_def)
  then show ?thesis
    using assms
    by (auto simp: plain_command_def readiness_codes_def Let_def when_code_def target_scope_validation_code_def
        operation_scope_validation_code_def scope_validation_code_def selected_target_endpoints_def selected_scope_is_blocked_def)
qed

text \<open>The rows a new run refers to exist, and its ids are new.\<close>

definition store_admits :: "catalog \<Rightarrow> SealedPlan \<Rightarrow> StartRunCommand \<Rightarrow> RunIds \<Rightarrow> bool" where
  "store_admits db plan c ids \<longleftrightarrow>
     ri_run_id ids \<notin> set (map rr_id (c_runs db))
     \<and> effective_run_idempotency_key c \<notin> set (map rr_idempotency_key (c_runs db))
     \<and> (sp_job_id plan, sp_job_revision_id plan) \<in> set (c_job_revisions db)
     \<and> (sp_plan_id plan, sp_job_id plan, sp_job_revision_id plan) \<in> set (c_plan_seal_details db)
     \<and> src_idempotency_key c \<in> set (c_command_receipts db)
     \<and> list_all (\<lambda>e. (pe_endpoint_id e, pe_endpoint_revision_id e) \<in> set (c_endpoint_revisions db)) (sp_endpoints plan)
     \<and> list_all (\<lambda>t. take (length (ri_run_id ids)) (tr_id t) \<noteq> ri_run_id ids \<and> tr_run_id t \<noteq> ri_run_id ids) (c_run_targets db)"

lemma insert_targets_ok:
  assumes "distinct (map tr_id ts)" "distinct (map tr_endpoint_id ts)" "i \<in> set (map rr_id (c_runs db))"
    "\<forall>t \<in> set ts. tr_run_id t = i \<and> (tr_endpoint_id t, tr_endpoint_revision_id t) \<in> set (c_endpoint_revisions db)
       \<and> 0 \<le> tr_planned_operations t \<and> 0 \<le> tr_planned_bytes t \<and> tr_id t \<notin> set (map tr_id (c_run_targets db))
       \<and> (i, tr_endpoint_id t) \<notin> set (map (\<lambda>t. (tr_run_id t, tr_endpoint_id t)) (c_run_targets db))"
  shows "insert_targets ts db = (True, db\<lparr>c_run_targets := c_run_targets db @ ts\<rparr>)"
  using assms
proof (induction ts arbitrary: db)
  case (Cons t ts)
  let ?db = "db\<lparr>c_run_targets := c_run_targets db @ [t]\<rparr>"
  have "target_constraints db t" using Cons.prems by (simp add: target_constraints_def)
  moreover have "insert_targets ts ?db = (True, ?db\<lparr>c_run_targets := c_run_targets ?db @ ts\<rparr>)"
  proof (rule Cons.IH)
    show "\<forall>u \<in> set ts. tr_run_id u = i \<and> (tr_endpoint_id u, tr_endpoint_revision_id u) \<in> set (c_endpoint_revisions ?db)
       \<and> 0 \<le> tr_planned_operations u \<and> 0 \<le> tr_planned_bytes u \<and> tr_id u \<notin> set (map tr_id (c_run_targets ?db))
       \<and> (i, tr_endpoint_id u) \<notin> set (map (\<lambda>t. (tr_run_id t, tr_endpoint_id t)) (c_run_targets ?db))"
    proof
      fix u assume u: "u \<in> set ts"
      then have "tr_id u \<noteq> tr_id t" "tr_endpoint_id u \<noteq> tr_endpoint_id t" using Cons.prems(1,2) by (auto simp: image_iff)
      then show "tr_run_id u = i \<and> (tr_endpoint_id u, tr_endpoint_revision_id u) \<in> set (c_endpoint_revisions ?db)
       \<and> 0 \<le> tr_planned_operations u \<and> 0 \<le> tr_planned_bytes u \<and> tr_id u \<notin> set (map tr_id (c_run_targets ?db))
       \<and> (i, tr_endpoint_id u) \<notin> set (map (\<lambda>t. (tr_run_id t, tr_endpoint_id t)) (c_run_targets ?db))"
        using Cons.prems(4) u by auto
    qed
  qed (use Cons.prems in auto)
  ultimately show ?case by simp
qed simp

lemma writable_ordinals_inj:
  assumes "distinct (writable_ordinals es)" "distinct (map pe_endpoint_id es)" "list_all endpoint_valid es"
    "e \<in> set es" "f \<in> set es" "pe_role e = TARGET_WRITABLE" "pe_role f = TARGET_WRITABLE" "pe_target_ordinal e = pe_target_ordinal f"
  shows "e = f"
  using assms
proof (induction es)
  case (Cons g es)
  have some: "\<exists>n \<ge> 0. pe_target_ordinal h = Some n" if "endpoint_valid h" "pe_role h = TARGET_WRITABLE" for h
    using that by (auto simp: endpoint_valid_def validate_endpoint_def validate_writable_target_endpoint_def split: option.splits if_splits)
  have mem: "n \<in> set (writable_ordinals es)" if "h \<in> set es" "pe_role h = TARGET_WRITABLE" "pe_target_ordinal h = Some n" for h n
    using that by (force simp: writable_ordinals_def List.map_filter_def image_iff)
  obtain n where n: "pe_target_ordinal e = Some n" "pe_target_ordinal f = Some n"
    using some [of e] Cons.prems(3,4,6,8) by (auto simp: list_all_iff)
  show ?case
  proof (cases "e = g \<or> f = g")
    case True
    then show ?thesis using mem [of e n] mem [of f n] n Cons.prems by auto
  next
    case False
    then show ?thesis using Cons by (auto split: if_splits option.splits)
  qed
qed simp

lemma sealed_endpoint:
  assumes "seal_plan i a j r ops es ds parent policy risk = Inr plan" "e \<in> set (sp_endpoints plan)"
  shows "0 \<le> pe_planned_operations e" "0 \<le> pe_planned_bytes e"
    "pe_role e = TARGET_WRITABLE \<Longrightarrow> \<exists>n \<ge> 0. pe_target_ordinal e = Some n"
proof -
  have "endpoint_valid e"
    using seal_plan_InrD(2) [OF assms(1)] assms(2) by (simp add: validation_iffs list_all_iff)
  then show "0 \<le> pe_planned_operations e" "0 \<le> pe_planned_bytes e"
      "pe_role e = TARGET_WRITABLE \<Longrightarrow> \<exists>n \<ge> 0. pe_target_ordinal e = Some n"
    by (auto simp: endpoint_valid_def validate_endpoint_def validate_writable_target_endpoint_def
        split: option.splits if_splits)
qed

lemma set_target_endpoints: "set (target_endpoints plan) = {e \<in> set (sp_endpoints plan). pe_role e = TARGET_WRITABLE}"
  by (auto simp: target_endpoints_def)

lemma sealed_targets:
  assumes seal: "seal_plan i a j r ops es ds parent policy risk = Inr plan"
  shows "distinct (map rt_run_target_id (map (started_run_target run_id []) (target_endpoints plan)))"
    "distinct (map rt_endpoint_id (map (started_run_target run_id []) (target_endpoints plan)))"
proof -
  have ids: "distinct (map pe_endpoint_id (sp_endpoints plan))" by (rule seal_plan_structure_aux(5) [OF seal])
  then have "distinct (sp_endpoints plan)" by (rule distinct_map [THEN iffD1, THEN conjunct1])
  then have d: "distinct (target_endpoints plan)" by (simp add: target_endpoints_def)
  have "list_all endpoint_valid (sp_endpoints plan)" using seal_plan_InrD(2) [OF seal] by (simp add: validation_iffs)
  note inj = writable_ordinals_inj [OF seal_plan_structure_aux(6) [OF seal] ids this]
  have "e = f" if "e \<in> set (target_endpoints plan)" "f \<in> set (target_endpoints plan)"
      "rt_run_target_id (started_run_target run_id [] e) = rt_run_target_id (started_run_target run_id [] f)" for e f
  proof -
    note ef = that
    obtain n where n: "0 \<le> n" "pe_target_ordinal e = Some n"
      using sealed_endpoint(3) [OF seal, of e] ef(1) by (auto simp: set_target_endpoints)
    obtain m where m: "0 \<le> m" "pe_target_ordinal f = Some m"
      using sealed_endpoint(3) [OF seal, of f] ef(2) by (auto simp: set_target_endpoints)
    show ?thesis
      using n m ef inj [of e f] pad04_inject [of n m] by (auto simp: set_target_endpoints started_run_target_def Let_def)
  qed
  then show "distinct (map rt_run_target_id (map (started_run_target run_id []) (target_endpoints plan)))"
    using d by (simp add: distinct_map comp_def inj_on_def)
  have "inj_on pe_endpoint_id (set (target_endpoints plan))"
    using ids by (auto simp: distinct_map set_target_endpoints intro: inj_on_subset)
  then show "distinct (map rt_endpoint_id (map (started_run_target run_id []) (target_endpoints plan)))"
    using d by (simp add: distinct_map comp_def inj_on_def started_run_target_def Let_def)
qed

lemma plain_run:
  assumes "plain_command plan c"
  shows "started_run_from_plan c plan ids None st =
    started_run_from_plan c plan ids None st\<lparr>sr_targets := map (started_run_target (ri_run_id ids) []) (target_endpoints plan),
      sr_planned_operations := int (length (executable_operations_for_endpoints plan (target_endpoints plan))),
      sr_planned_bytes := sum_list (map po_planned_bytes (executable_operations_for_endpoints plan (target_endpoints plan))),
      sr_job_id := sp_job_id plan, sr_job_revision_id := sp_job_revision_id plan, sr_plan_id := sp_plan_id plan,
      sr_run_id := ri_run_id ids, sr_idempotency_key := effective_run_idempotency_key c, sr_warning_count := 0,
      sr_command_receipt_id := src_idempotency_key c, sr_error_count := 0, sr_resumed_from_run_id := None,
      sr_plan_checksum := sp_plan_checksum plan\<rparr>"
  using assms by (simp add: plain_command_def started_run_from_plan_def Let_def selected_target_endpoints_def)

lemma sealed_save:
  assumes seal: "seal_plan i a j r ops es ds parent policy risk = Inr plan"
    and c: "plain_command plan c" and admits: "store_admits db plan c ids"
    and run: "run = started_run_from_plan c plan ids None st"
  shows "\<exists>db'. db_save_started_run False now run db = (Inr (), db')"
proof -
  let ?r = "run_row_of now run" and ?ts = "map (target_row_of (ri_run_id ids)) (sr_targets run)"
  have f: "sr_run_id run = ri_run_id ids" "sr_targets run = map (started_run_target (ri_run_id ids) []) (target_endpoints plan)"
      "sr_planned_operations run \<ge> 0" "sr_job_id run = sp_job_id plan" "sr_job_revision_id run = sp_job_revision_id plan"
      "sr_plan_id run = sp_plan_id plan" "sr_idempotency_key run = effective_run_idempotency_key c"
      "sr_command_receipt_id run = src_idempotency_key c" "sr_resumed_from_run_id run = None"
      "sr_warning_count run = 0" "sr_error_count run = 0" "sr_plan_checksum run = sp_plan_checksum plan"
      "sr_planned_bytes run = sum_list (map po_planned_bytes (executable_operations_for_endpoints plan (target_endpoints plan)))"
    unfolding run by (subst plain_run [OF c], simp)+
  have "0 \<le> po_planned_bytes op" if "op \<in> set (sp_operations plan)" for op
    using seal_plan_InrD(3) [OF seal] that operation_valid_bytes by (simp add: validation_iffs list_all_iff) blast
  then have "0 \<le> sr_planned_bytes run"
    unfolding f(13) by (intro sum_list_nonneg) (auto simp: executable_operations_for_endpoints_def)
  moreover have "length (sp_plan_checksum plan) = 64"
    using seal_plan_InrD(7) [OF seal] sha256_hexdigest_is_hex64 by (simp add: checksum_def is_hex64_def)
  ultimately have rc: "run_constraints db ?r"
    using admits f by (auto simp: run_constraints_def run_row_of_def store_admits_def)
  have ids: "map tr_id ?ts = map rt_run_target_id (sr_targets run)" "map tr_endpoint_id ?ts = map rt_endpoint_id (sr_targets run)"
    by (simp_all add: target_row_of_def comp_def)
  have new: "ri_run_id ids @ x \<notin> tr_id ` set (c_run_targets db)"
      "(ri_run_id ids, e) \<notin> (\<lambda>t. (tr_run_id t, tr_endpoint_id t)) ` set (c_run_targets db)" for x e
  proof -
    have "\<forall>t \<in> set (c_run_targets db). take (length (ri_run_id ids)) (tr_id t) \<noteq> ri_run_id ids \<and> tr_run_id t \<noteq> ri_run_id ids"
      using admits by (simp add: store_admits_def list_all_iff)
    then show "ri_run_id ids @ x \<notin> tr_id ` set (c_run_targets db)"
        "(ri_run_id ids, e) \<notin> (\<lambda>t. (tr_run_id t, tr_endpoint_id t)) ` set (c_run_targets db)"
      by (auto simp: append_eq_conv_conj image_iff)
  qed
  have "insert_targets ?ts (db\<lparr>c_runs := c_runs db @ [?r]\<rparr>) =
      (True, db\<lparr>c_runs := c_runs db @ [?r], c_run_targets := c_run_targets db @ ?ts\<rparr>)"
  proof (subst insert_targets_ok [of _ "ri_run_id ids"])
    show "distinct (map tr_id ?ts)" "distinct (map tr_endpoint_id ?ts)"
      unfolding ids unfolding f(2) by (rule sealed_targets [OF seal])+
    show "ri_run_id ids \<in> set (map rr_id (c_runs (db\<lparr>c_runs := c_runs db @ [?r]\<rparr>)))"
      using f(1) by (simp add: run_row_of_def)
    show "\<forall>t \<in> set ?ts. tr_run_id t = ri_run_id ids
       \<and> (tr_endpoint_id t, tr_endpoint_revision_id t) \<in> set (c_endpoint_revisions (db\<lparr>c_runs := c_runs db @ [?r]\<rparr>))
       \<and> 0 \<le> tr_planned_operations t \<and> 0 \<le> tr_planned_bytes t
       \<and> tr_id t \<notin> set (map tr_id (c_run_targets (db\<lparr>c_runs := c_runs db @ [?r]\<rparr>)))
       \<and> (ri_run_id ids, tr_endpoint_id t) \<notin> set (map (\<lambda>t. (tr_run_id t, tr_endpoint_id t))
            (c_run_targets (db\<lparr>c_runs := c_runs db @ [?r]\<rparr>)))"
      using admits sealed_endpoint(1,2) [OF seal]
      by (simp add: new f(2) target_row_of_def started_run_target_def Let_def set_target_endpoints store_admits_def list_all_iff)
  qed simp
  then show ?thesis using rc f(1) by (simp add: db_save_started_run_def)
qed

definition has_executable_operation :: "SealedPlan \<Rightarrow> bool" where
  "has_executable_operation plan \<longleftrightarrow>
     (\<exists>op \<in> set (sp_operations plan). po_operation_type op \<in> set MUTATING_OPERATION_TYPES \<and> po_target_endpoint_id op \<noteq> None)"

definition job_admitted :: "(string \<Rightarrow> JobLifecycleRecord option result) option \<Rightarrow> string \<Rightarrow> bool" where
  "job_admitted jobs job_id \<longleftrightarrow>
     (case jobs of None \<Rightarrow> True | Some load \<Rightarrow> \<exists>r. load job_id = Inr (Some r) \<and> jl_state r = ACTIVE)"

lemma sealed_executable:
  assumes "seal_plan i a j r ops es ds parent policy risk = Inr plan"
  shows "executable_operations_for_endpoints plan (target_endpoints plan) \<noteq> [] \<longleftrightarrow> has_executable_operation plan"
proof
  assume "executable_operations_for_endpoints plan (target_endpoints plan) \<noteq> []"
  then show "has_executable_operation plan"
    by (auto simp: executable_operations_for_endpoints_def filter_empty_conv has_executable_operation_def)
next
  assume "has_executable_operation plan"
  then obtain op t where op: "op \<in> set (sp_operations plan)" "po_operation_type op \<in> set MUTATING_OPERATION_TYPES"
      "po_target_endpoint_id op = Some t"
    unfolding has_executable_operation_def by blast
  have "operation_valid (writable_endpoint_ids (sp_endpoints plan)) op"
    using seal_plan_InrD(3) [OF assms] op(1) by (simp add: validation_iffs list_all_iff)
  then have "t \<in> set (writable_endpoint_ids (sp_endpoints plan))" using op(3) by (rule operation_valid_target)
  then show "executable_operations_for_endpoints plan (target_endpoints plan) \<noteq> []"
    using op by (auto simp: executable_operations_for_endpoints_def filter_empty_conv set_target_endpoints writable_endpoint_ids_def)
qed

lemma sealed_codes:
  assumes "seal_plan i a j r ops es ds parent policy risk = Inr plan" "plain_command plan c"
  shows "readiness_codes c plan = [] \<longleftrightarrow>
    map_of (sp_risk_summary plan) ''highest'' \<noteq> Some (JStr ''BLOCKED'') \<and> has_executable_operation plan"
  using plain_readiness [OF assms(2)] seal_plan_structure_aux(1) [OF assms(1)] seal_plan_InrD(8) [OF assms(1)]
    sealed_executable [OF assms(1)] by simp

lemma plain_start_iff:
  assumes inv: "catalog_inv db" and seal: "seal_plan i a j r ops es ds parent policy risk = Inr plan"
    and c: "plain_command plan c" and admits: "store_admits db plan c ids"
    and load: "load_plan (sp_plan_id plan) = Inr (Some plan)"
    and jobs: "jobs = None \<or> (\<exists>load_job rec. jobs = Some load_job \<and> load_job (sp_job_id plan) = Inr rec)"
  shows "\<exists>out db'. sqlite_start_run now load_plan audits jobs late ids c db = (Inr out, db')
    \<and> (rso_created out \<longleftrightarrow> job_admitted jobs (sp_job_id plan) \<and> has_executable_operation plan
        \<and> map_of (sp_risk_summary plan) ''highest'' \<noteq> Some (JStr ''BLOCKED'')
        \<and> (\<forall>r \<in> set (c_runs db). rr_job_id r = sp_job_id plan \<longrightarrow> rr_state r \<notin> set ACTIVE_RUN_STATES))"
proof -
  let ?run = "started_run_from_plan c plan ids None (if late then RunState.CREATED else RunState.QUEUED)"
  have codes: "rsr_plan_runnable (readiness_for_plan c plan) \<longleftrightarrow> readiness_codes c plan = []"
    by (simp add: readiness_for_plan_def ready_to_queue_def not_ready_to_queue_def)
  have key: "db_load_started_run_by_idempotency_key (effective_run_idempotency_key c) db = Inr None"
    using load_by_key_total [OF inv, of "effective_run_idempotency_key c"] admits by (auto simp: store_admits_def)
  obtain active where active: "db_load_active_run_for_job (sp_job_id plan) db = Inr active"
      "active = None \<longleftrightarrow> (\<forall>r \<in> set (c_runs db). rr_job_id r = sp_job_id plan \<longrightarrow> rr_state r \<notin> set ACTIVE_RUN_STATES)"
    using load_active_total [OF inv, of "sp_job_id plan"] by auto
  obtain db' where save: "db_save_started_run False now ?run db = (Inr (), db')"
    using sealed_save [OF seal c admits refl] by blast
  have retry: "resolve_retry (\<lambda>i. db_load_started_run i db) load_plan audits plan c = Inr (Inr (None, c))"
    using c by (simp add: plain_command_def resolve_retry_def Let_def)
  have "\<exists>rej. job_lifecycle_run_rejection jobs (sp_job_id plan) (readiness_for_plan c plan) = Inr rej
      \<and> (rej = None \<longleftrightarrow> job_admitted jobs (sp_job_id plan))"
    using jobs by (auto simp: job_lifecycle_run_rejection_def job_admitted_def and_then_def split: option.split)
  then obtain rej where rej: "job_lifecycle_run_rejection jobs (sp_job_id plan) (readiness_for_plan c plan) = Inr rej"
      "rej = None \<longleftrightarrow> job_admitted jobs (sp_job_id plan)"
    by blast
  have start: "sqlite_start_run now load_plan audits jobs late ids c db =
      (case rej of Some rejection \<Rightarrow> (Inr (not_created rejection), db)
       | None \<Rightarrow> if readiness_codes c plan \<noteq> [] then (Inr (not_created (readiness_for_plan c plan)), db)
                else (case active of Some run \<Rightarrow> (Inr (replayed (readiness_for_plan c plan) run), db)
                      | None \<Rightarrow> (Inr \<lparr>rso_created = True, rso_idempotent_replay = False,
                          rso_readiness = readiness_for_plan c plan, rso_run = Some ?run\<rparr>, db')))"
    using key active(1) save retry load rej(1) codes c
    by (cases late) (simp_all add: plain_command_def start_run_from_sealed_plan_def Let_def split: option.split)
  show ?thesis
    unfolding start rej(2) [symmetric] active(2) [symmetric]
    using sealed_codes [OF seal c] by (cases rej; cases active) (auto simp: not_created_def replayed_def)
qed

section \<open>Retries of single operations\<close>

lemma retry_scope_facts:
  assumes "retry_operation_scope load_plan audits source plan target_ids source_ids = Inr (ids, None)" "source_ids \<noteq> []"
    "distinct (map po_operation_id (sp_operations plan))"
  shows "\<exists>s a source_plan. source = Some s \<and> audits = Some a \<and> load_plan (sr_plan_id s) = Inr (Some source_plan)
    \<and> verify_plan_checksum source_plan
    \<and> (\<forall>i \<in> set source_ids. \<exists>f \<in> set ids. retry_match a s source_plan plan target_ids i = Inr f)
    \<and> set ids = {x. \<exists>i \<in> set source_ids. \<exists>f. retry_match a s source_plan plan target_ids i = Inr f \<and> (x, f) \<in> (dep_rel (sp_dependencies plan))\<^sup>*}
    \<and> ids = map po_operation_id (filter (\<lambda>op. po_operation_id op \<in> set ids) (sp_operations plan))
    \<and> (\<forall>op \<in> set (sp_operations plan). po_operation_id op \<in> set ids \<longrightarrow> po_operation_type op \<in> set MUTATING_OPERATION_TYPES
         \<and> po_target_endpoint_id op \<in> Some ` set target_ids)"
proof -
  obtain s a source_plan matched where sa: "source = Some s" "audits = Some a" "load_plan (sr_plan_id s) = Inr (Some source_plan)"
      "verify_plan_checksum source_plan" "retry_matches (retry_match a s source_plan plan target_ids) [] source_ids = Inr matched"
    using assms(1,2) by (auto simp: retry_operation_scope_def and_then_def split: option.splits sum.splits if_splits retry_end.splits)
  define cl where "cl = close_scope (sp_dependencies plan) matched matched"
  define sel where "sel = filter (\<lambda>op. po_operation_id op \<in> set cl) (sp_operations plan)"
  have ids: "length sel = length cl" "ids = map po_operation_id sel"
      "\<not> list_ex (\<lambda>op. po_operation_type op \<notin> set MUTATING_OPERATION_TYPES \<or> po_target_endpoint_id op \<notin> set (map Some target_ids)) sel"
    using assms(1,2) sa by (auto simp: retry_operation_scope_def Let_def simp flip: cl_def sel_def split: if_splits)
  note m = retry_matches_facts [OF sa(5)]
  have cl: "distinct cl" "set cl = {x. \<exists>y \<in> set matched. (x, y) \<in> (dep_rel (sp_dependencies plan))\<^sup>*}"
    using close_scope_correct [of matched] m by (simp_all add: cl_def)
  have "distinct ids" using assms(3) by (simp add: ids(2) sel_def distinct_map_filter)
  moreover have "set ids \<subseteq> set cl" by (auto simp: ids(2) sel_def)
  moreover have "length ids = length cl" using ids by simp
  ultimately have same: "set ids = set cl"
    using cl(1) by (metis List.finite_set card_subset_eq distinct_card)
  show ?thesis
  proof (intro exI conjI)
    show "source = Some s" "audits = Some a" "load_plan (sr_plan_id s) = Inr (Some source_plan)" "verify_plan_checksum source_plan"
      by (fact sa)+
    show "\<forall>i \<in> set source_ids. \<exists>f \<in> set ids. retry_match a s source_plan plan target_ids i = Inr f"
      using m unfolding same cl(2) by (force simp: list_all_iff)
    show "set ids = {x. \<exists>i \<in> set source_ids. \<exists>f. retry_match a s source_plan plan target_ids i = Inr f
        \<and> (x, f) \<in> (dep_rel (sp_dependencies plan))\<^sup>*}"
      using m unfolding same cl(2) by auto
    show "ids = map po_operation_id (filter (\<lambda>op. po_operation_id op \<in> set ids) (sp_operations plan))"
      unfolding same by (simp add: ids(2) sel_def)
    show "\<forall>op \<in> set (sp_operations plan). po_operation_id op \<in> set ids \<longrightarrow> po_operation_type op \<in> set MUTATING_OPERATION_TYPES
         \<and> po_target_endpoint_id op \<in> Some ` set target_ids"
      using ids(3) unfolding same by (auto simp: sel_def list_ex_iff)
  qed
qed

lemma sum_by_endpoint:
  fixes f :: "PlanOperation \<Rightarrow> int"
  assumes "distinct (map pe_endpoint_id es)" "\<forall>op \<in> set ops. po_target_endpoint_id op \<in> Some ` pe_endpoint_id ` set es"
  shows "sum_list (map (\<lambda>e. sum_list (map f (filter (\<lambda>op. po_target_endpoint_id op = Some (pe_endpoint_id e)) ops))) es) = sum_list (map f ops)"
  using assms(2)
proof (induction ops)
  case Nil
  then show ?case by (induction es) simp_all
next
  case (Cons op ops)
  obtain e where e: "e \<in> set es" "po_target_endpoint_id op = Some (pe_endpoint_id e)" using Cons.prems by auto
  have "sum_list (map (\<lambda>x. (if pe_endpoint_id e = pe_endpoint_id x then f op else 0) + g x) es) = f op + sum_list (map g es)" for g
    using assms(1) e(1)
  proof (induction es)
    case (Cons h es)
    have "sum_list (map (\<lambda>x. (if pe_endpoint_id h = pe_endpoint_id x then f op else 0) + g x) es) = sum_list (map g es)"
      using Cons.prems(1) by (intro arg_cong [where f = sum_list] map_cong) (auto simp: image_iff)
    then show ?case using Cons by auto
  qed simp
  note split = this [of "\<lambda>x. sum_list (map f (filter (\<lambda>u. po_target_endpoint_id u = Some (pe_endpoint_id x)) ops))"]
  have cons: "sum_list (map f (filter (\<lambda>u. po_target_endpoint_id u = Some (pe_endpoint_id x)) (op # ops))) =
      (if pe_endpoint_id e = pe_endpoint_id x then f op else 0) +
      sum_list (map f (filter (\<lambda>u. po_target_endpoint_id u = Some (pe_endpoint_id x)) ops))" for x
    using e(2) by simp
  have "sum_list (map (\<lambda>e. sum_list (map f (filter (\<lambda>op. po_target_endpoint_id op = Some (pe_endpoint_id e)) ops))) es) =
      sum_list (map f ops)" using Cons.IH Cons.prems by simp
  then show ?case unfolding cons split by simp
qed

end
