(* ===== verification/Run_Start_Properties.thy ===== *)
theory Run_Start_Properties
  imports Plan_Properties Run_Start_Laws Run_Handler_Properties
begin

text \<open>The properties of starting a run from a sealed plan.\<close>

section \<open>An example\<close>

definition demo_start_command :: "SealedPlan \<Rightarrow> StartRunCommand" where
  "demo_start_command plan =
     \<lparr>src_request_id = ''req'', src_idempotency_key = ''key'', src_plan_id = ''plan'', src_plan_checksum = sp_plan_checksum plan,
      src_run_idempotency_key = None, src_trigger_occurrence_id = None, src_target_endpoint_ids = [],
      src_resumed_from_run_id = None, src_source_operation_ids = [], src_selected_plan_operation_ids = []\<rparr>"

definition demo_ids :: RunIds where "demo_ids = \<lparr>ri_run_id = ''run-1'', ri_logical_run_group_id = ''group''\<rparr>"

definition demo_store :: catalog where
  "demo_store = \<lparr>c_runs = [], c_run_targets = [], c_run_stop_requests = [], c_wait_events = [], c_wait_event_seq = 0,
     c_job_revisions = [(''job'', ''job-1'')], c_plan_seal_details = [(''plan'', ''job'', ''job-1'')],
     c_command_receipts = [''key''], c_endpoint_revisions = [(''e1'', ''rev'')]\<rparr>"

abbreviation demo_load :: "SealedPlan \<Rightarrow> string \<Rightarrow> SealedPlan option result" where
  "demo_load plan \<equiv> (\<lambda>i. Inr (if i = ''plan'' then Some plan else None))"

lemma demo_store_reachable: "reachable (demo_store, Map.empty)" "app_reachable (demo_store, Map.empty)"
  by (auto simp: demo_store_def intro: reachable_init app_init)

lemma demo_sealed:
  obtains plan where "demo_seal demo_operations = Inr plan" "sp_plan_id plan = ''plan''" "sp_job_id plan = ''job''"
    "sp_job_revision_id plan = ''job-1''" "sp_endpoints plan = [demo_endpoint]"
    "sp_operations plan = fst (plan_parts demo_operations [demo_endpoint] [demo_dependency])"
    "sp_risk_summary plan = risk_summary (sp_operations plan)"
proof -
  obtain plan where p: "demo_seal demo_operations = Inr plan" using demo_seals by blast
  have "fst (snd (plan_parts demo_operations [demo_endpoint] [demo_dependency])) = [demo_endpoint]"
    by (simp add: plan_parts_def)
  then have "sp_endpoints plan = [demo_endpoint]" using seal_plan_InrD(1) [OF p] by simp
  moreover have "sp_operations plan = fst (plan_parts demo_operations [demo_endpoint] [demo_dependency])"
    using seal_plan_InrD(1) [OF p] by simp
  moreover have "sp_plan_id plan = ''plan'' \<and> sp_job_id plan = ''job'' \<and> sp_job_revision_id plan = ''job-1''
      \<and> sp_risk_summary plan = risk_summary (sp_operations plan)"
    using p by (auto simp: seal_plan_def Let_def)
  ultimately show thesis using that [OF p] by blast
qed

lemma demo_admitted:
  assumes "sp_plan_id plan = ''plan''" "sp_job_id plan = ''job''" "sp_job_revision_id plan = ''job-1''" "sp_endpoints plan = [demo_endpoint]"
  shows "store_admits demo_store plan (demo_start_command plan) demo_ids" "plain_command plan (demo_start_command plan)"
  using assms
  by (simp_all add: store_admits_def demo_store_def demo_ids_def demo_start_command_def effective_run_idempotency_key_def
      demo_endpoint_def plain_command_def)

lemma demo_executable:
  "list_ex (\<lambda>op. po_operation_type op \<in> set MUTATING_OPERATION_TYPES \<and> po_target_endpoint_id op \<noteq> None)
     (fst (plan_parts demo_operations [demo_endpoint] [demo_dependency]))"
  "map_of (risk_summary (fst (plan_parts demo_operations [demo_endpoint] [demo_dependency]))) ''highest'' \<noteq> Some (JStr ''BLOCKED'')"
  by code_simp+

lemma demo_starts:
  obtains plan out db' where "demo_seal demo_operations = Inr plan" "sp_plan_id plan = ''plan''" "sp_job_id plan = ''job''"
    "sqlite_start_run ''1'' (demo_load plan) None None False demo_ids (demo_start_command plan) demo_store = (Inr out, db')"
    "rso_created out"
proof -
  obtain plan where p: "demo_seal demo_operations = Inr plan" "sp_plan_id plan = ''plan''" "sp_job_id plan = ''job''"
    "sp_job_revision_id plan = ''job-1''" "sp_endpoints plan = [demo_endpoint]"
    "sp_operations plan = fst (plan_parts demo_operations [demo_endpoint] [demo_dependency])"
    "sp_risk_summary plan = risk_summary (sp_operations plan)"
    by (rule demo_sealed)
  have op: "has_executable_operation plan"
    using demo_executable(1) unfolding p(6) has_executable_operation_def by (auto simp: list_ex_iff)
  have inv: "catalog_inv demo_store" using reachable_catalog_inv [OF demo_store_reachable(1)] by simp
  have "demo_load plan (sp_plan_id plan) = Inr (Some plan)" using p(2) by simp
  from plain_start_iff [where load_plan = "demo_load plan", OF inv p(1) demo_admitted(2,1) [OF p(2-5)] this disjI1 [OF refl], of "''1''" None False]
  show thesis using that [OF p(1-3)] op demo_executable(2) p(6,7) by (auto simp: demo_store_def job_admitted_def)
qed

section \<open>Starting\<close>

text \<open>C36: Exactly when a sealed plan can be started.  In a reachable catalog that knows the revision of the job,
  the plan, its endpoints and the command receipt, and that has no run with the id or the key of the new one, a command that names the plan and its checksum, with no narrower
  scope and no earlier run, is answered without an error; it creates the run if and only if the lifecycle store, when the
  handler has one, knows the job as active, the plan has an operation of a mutating type for a target and is not
  blocked, and no run of the job is active.  So whatever sealing accepts passes the readiness checks and the constraints
  of the tables.  A created run is fresh and can be loaded by the key; a run that is not created leaves the
  catalog as it was.\<close>

theorem sealed_plan_can_be_started:
  assumes "reachable (db, dl)" "seal_plan i a j r ops es ds parent policy risk = Inr plan"
    and "plain_command plan c" "store_admits db plan c ids" "load_plan (sp_plan_id plan) = Inr (Some plan)"
    and "jobs = None \<or> (\<exists>load_job rec. jobs = Some load_job \<and> load_job (sp_job_id plan) = Inr rec)"
  shows "\<exists>out db'. sqlite_start_run now load_plan audits jobs late ids c db = (Inr out, db')
     \<and> (rso_created out \<longleftrightarrow>
          (case jobs of None \<Rightarrow> True | Some load_job \<Rightarrow> \<exists>rec. load_job (sp_job_id plan) = Inr (Some rec) \<and> jl_state rec = ACTIVE)
          \<and> (\<exists>op \<in> set (sp_operations plan). po_operation_type op \<in> set MUTATING_OPERATION_TYPES \<and> po_target_endpoint_id op \<noteq> None)
          \<and> map_of (sp_risk_summary plan) ''highest'' \<noteq> Some (JStr ''BLOCKED'')
          \<and> (\<forall>r \<in> set (c_runs db). rr_job_id r = sp_job_id plan \<longrightarrow> rr_state r \<notin> set ACTIVE_RUN_STATES))
     \<and> (if rso_created out then
          reachable (db', dl) \<and> (\<exists>run stored. rso_run out = Some run \<and> fresh_run run
            \<and> db_load_started_run_by_idempotency_key (effective_run_idempotency_key c) db' = Inr (Some stored)
            \<and> sr_run_id stored = ri_run_id ids)
        else db' = db)"
proof -
  have inv: "catalog_inv db" using reachable_catalog_inv [OF assms(1)] by simp
  obtain out db' where out: "sqlite_start_run now load_plan audits jobs late ids c db = (Inr out, db')"
    and iff: "rso_created out \<longleftrightarrow> job_admitted jobs (sp_job_id plan) \<and> has_executable_operation plan
        \<and> map_of (sp_risk_summary plan) ''highest'' \<noteq> Some (JStr ''BLOCKED'')
        \<and> (\<forall>r \<in> set (c_runs db). rr_job_id r = sp_job_id plan \<longrightarrow> rr_state r \<notin> set ACTIVE_RUN_STATES)"
    using plain_start_iff [where load_plan = load_plan, OF inv assms(2-6)] by blast
  have made: "reachable (db', dl) \<and> (\<exists>run stored. rso_run out = Some run \<and> fresh_run run
      \<and> db_load_started_run_by_idempotency_key (effective_run_idempotency_key c) db' = Inr (Some stored)
      \<and> sr_run_id stored = ri_run_id ids)" if created: "rso_created out"
  proof -
    from sqlite_start.created_facts [OF inv out created] obtain run where
      run: "rso_run out = Some run" "fresh_run run" "db_save_started_run False now run db = (Inr (), db')"
        "sr_run_id run = ri_run_id ids" "sr_idempotency_key run = effective_run_idempotency_key c"
      by blast
    have "store_step (db, dl) (db', dl)" using store_step.save_started_run [OF run(2), of db dl False now] run(3) by simp
    then show ?thesis
      using run(1,2) sqlite_start.saved_by_key [OF inv run(2,3)] run(4,5) reachable_step [OF assms(1)] by auto
  qed
  have "db' = db" if "\<not> rso_created out" using sqlite_start.not_created_unchanged [OF out] that by blast
  then have "if rso_created out then reachable (db', dl) \<and> (\<exists>run stored. rso_run out = Some run \<and> fresh_run run
      \<and> db_load_started_run_by_idempotency_key (effective_run_idempotency_key c) db' = Inr (Some stored)
      \<and> sr_run_id stored = ri_run_id ids) else db' = db"
    using made by (cases "rso_created out") simp_all
  with out iff show ?thesis unfolding job_admitted_def has_executable_operation_def by blast
qed

text \<open>A handler with a lifecycle store, as the IPC server has one.\<close>

definition demo_job_record :: "string \<Rightarrow> JobLifecycleState \<Rightarrow> JobLifecycleRecord" where
  "demo_job_record i st =
     \<lparr>jl_job_id = i, jl_job_revision_id = ''job-1'', jl_state = st, jl_row_version = 1, jl_archived_utc = None\<rparr>"

abbreviation demo_jobs :: "JobLifecycleState \<Rightarrow> (string \<Rightarrow> JobLifecycleRecord option result) option" where
  "demo_jobs st \<equiv> Some (\<lambda>i. Inr (Some (demo_job_record i st)))"

theorem sealed_plan_can_be_started_witness:
  "\<exists>plan out db'. demo_seal demo_operations = Inr plan \<and> rso_created out
     \<and> sqlite_start_run ''1'' (demo_load plan) None (demo_jobs ACTIVE) False demo_ids (demo_start_command plan) demo_store = (Inr out, db')"
proof -
  obtain plan where p: "demo_seal demo_operations = Inr plan" "sp_plan_id plan = ''plan''" "sp_job_id plan = ''job''"
    "sp_job_revision_id plan = ''job-1''" "sp_endpoints plan = [demo_endpoint]"
    "sp_operations plan = fst (plan_parts demo_operations [demo_endpoint] [demo_dependency])"
    "sp_risk_summary plan = risk_summary (sp_operations plan)"
    by (rule demo_sealed)
  have op: "\<exists>op \<in> set (sp_operations plan). po_operation_type op \<in> set MUTATING_OPERATION_TYPES \<and> po_target_endpoint_id op \<noteq> None"
    using demo_executable(1) unfolding p(6) by (auto simp: list_ex_iff)
  have "demo_load plan (sp_plan_id plan) = Inr (Some plan)" using p(2) by simp
  from sealed_plan_can_be_started [where load_plan = "demo_load plan" and jobs = "demo_jobs ACTIVE",
      OF demo_store_reachable(1) p(1) demo_admitted(2,1) [OF p(2-5)] this, of "''1''" None False]
  show ?thesis using p op demo_executable(2) by (auto simp: demo_store_def demo_job_record_def)
qed

text \<open>Starting is all or nothing.  When the handler reports a created run, the plan it named was found, its
  checksum verifies and is the one in the command, no run with the key and no active run of the job existed,
  and exactly that run was saved; in every other case, errors included, the catalog is as it was.\<close>

theorem start_creates_or_changes_nothing:
  assumes "reachable (db, dl)" "sqlite_start_run now load_plan audits jobs late ids c db = (res, db')"
  shows "(case res of
      Inr out \<Rightarrow>
        if rso_created out then
          (\<exists>plan run. rso_run out = Some run \<and> load_plan (src_plan_id c) = Inr (Some plan) \<and> verify_plan_checksum plan
             \<and> sr_plan_checksum run = src_plan_checksum c \<and> sr_job_id run = sp_job_id plan \<and> sr_run_id run = ri_run_id ids
             \<and> db_load_started_run_by_idempotency_key (effective_run_idempotency_key c) db = Inr None
             \<and> db_load_active_run_for_job (sp_job_id plan) db = Inr None
             \<and> db_save_started_run False now run db = (Inr (), db'))
        else db' = db
    | Inl _ \<Rightarrow> db' = db)"
proof -
  have inv: "catalog_inv db" using reachable_catalog_inv [OF assms(1)] by simp
  show ?thesis
  proof (cases "\<exists>out. res = Inr out \<and> rso_created out")
    case True
    then obtain out where out: "res = Inr out" "rso_created out" by blast
    from sqlite_start.created_facts [OF inv assms(2) [unfolded out(1)] out(2)] show ?thesis using out by auto
  next
    case False
    then have "db' = db" using sqlite_start.not_created_unchanged [OF assms(2)] by blast
    then show ?thesis using False by (auto split: sum.split)
  qed
qed

theorem start_creates_or_changes_nothing_witness:
  "\<exists>plan run db'. demo_seal demo_operations = Inr plan \<and> sr_run_id run = ''run-1'' \<and> sr_plan_checksum run = sp_plan_checksum plan
     \<and> db_save_started_run False ''1'' run demo_store = (Inr (), db')"
proof -
  obtain plan out db' where d: "demo_seal demo_operations = Inr plan"
    "sqlite_start_run ''1'' (demo_load plan) None None False demo_ids (demo_start_command plan) demo_store = (Inr out, db')"
    "rso_created out"
    by (rule demo_starts)
  from start_creates_or_changes_nothing [OF demo_store_reachable(1) d(2)] d(1,3) show ?thesis
    by (auto simp: demo_ids_def demo_start_command_def)
qed

text \<open>C37: Starting is idempotent, for as long as the catalog is kept.  After a run was created, whatever operations of
  the run store are called in between, in whatever order and over restarts, and also after the run has ended, a command with
  the same idempotency key is answered with that run and changes nothing, whatever has become of the plan, the job or
  the audit store since.\<close>

theorem repeated_start_is_replayed:
  assumes "reachable (db, dl)" "sqlite_start_run now load_plan audits jobs late ids c db = (Inr out, db')" "rso_created out"
    "store_step\<^sup>*\<^sup>* (db', dl') (db'', dl'')" "effective_run_idempotency_key c' = effective_run_idempotency_key c"
  shows "\<exists>out'. sqlite_start_run now' load_plan' audits' jobs' late' ids' c' db'' = (Inr out', db'')
    \<and> rso_idempotent_replay out' \<and> \<not> rso_created out' \<and> map_option sr_run_id (rso_run out') = map_option sr_run_id (rso_run out)"
proof -
  have inv: "catalog_inv db" using reachable_catalog_inv [OF assms(1)] by simp
  have "later_catalog db' db''" using assms(4) by (auto simp: later_catalog_def)
  then show ?thesis using sqlite_start.started_twice [OF inv assms(2,3,5)] by simp
qed

text \<open>A run that is stopped ends.\<close>

lemma save_keeps_stops: "db_save_started_run False now run db = (Inr u, db') \<Longrightarrow> c_run_stop_requests db' = c_run_stop_requests db"
  by (auto simp: db_save_started_run_def Let_def give_up_def split: if_splits prod.splits bool.splits dest!: insert_targets_facts)

lemma stopped_run_ends:
  assumes inv: "catalog_inv db" and r: "run_in db i STOPPABLE_RUN_STATES" and none: "c_run_stop_requests db = []"
  obtains db'' run where "store_step\<^sup>*\<^sup>* (db, dl) (db'', dl)" "db_load_started_run i db'' = Inr (Some run)"
    "sr_state run = RunState.CANCELLED"
proof -
  define db1 where "db1 = snd (db_request_run_stop_after_active_file False now i db)"
  let ?X = "update_runs (\<lambda>r. rr_id r = i) (\<lambda>r. r) (db\<lparr>c_run_stop_requests := [\<lparr>st_run_id = i, st_state = STOP_PENDING,
      st_boundary_run_target_id = None, st_boundary_operation_id = None, st_requested_utc = now, st_applied_utc = None,
      st_row_version = 1\<rparr>]\<rparr>)"
  have op: "db_request_run_stop_after_active_file False now i db = return_run False db ?X i"
    using r none by (simp add: db_request_run_stop_after_active_file_def)
  have "return_run False db ?X i \<noteq> (Inr None, db)"
    by (simp add: return_run_def give_up_def split: sum.split option.split)
  then obtain run1 where req: "return_run False db ?X i = (Inr (Some run1), db1)" "catalog_inv db1" "stop_pending db1 i"
    using db_stop_laws [OF inv, of False now i] unfolding op db1_def by (elim disjE exE conjE) simp_all
  have "c_runs db1 = c_runs ?X" using req(1) by (simp add: return_run_def give_up_def split: sum.splits option.splits)
  then have "c_runs db1 = map (\<lambda>r. if rr_id r = i then r\<lparr>rr_row_version := rr_row_version r + 1\<rparr> else r) (c_runs db)"
    by (simp add: update_runs_def sql_update_def)
  moreover have "list_ex (\<lambda>r. rr_id r = i \<and> rr_state r \<in> set S)
      (map (\<lambda>r. if rr_id r = i then r\<lparr>rr_row_version := rr_row_version r + 1\<rparr> else r) rs) =
      list_ex (\<lambda>r. rr_id r = i \<and> rr_state r \<in> set S) rs" for S and rs :: "run_row list"
    by (induction rs) simp_all
  ultimately have "run_in db1 i STOPPABLE_RUN_STATES" using r by (simp only: run_in_def)
  from finalize_stop_laws [OF req(2) this req(3), of False now "[]"] obtain run db'' where
    fin: "db_finalize_requested_run_stop False now i [] db1 = (Inr (Some run), db'')" "db_load_started_run i db'' = Inr (Some run)"
      "sr_state run = RunState.CANCELLED"
    by (elim exE conjE)
  have "store_step (db, dl) (db1, dl)" unfolding db1_def by (rule store_step.request_run_stop)
  moreover have "store_step (db1, dl) (db'', dl)"
    using store_step.finalize_requested_run_stop [of db1 dl False now i "[]"] fin(1) by simp
  ultimately have "store_step\<^sup>*\<^sup>* (db, dl) (db'', dl)" by (metis converse_rtranclp_into_rtranclp r_into_rtranclp)
  then show thesis using fin(2,3) by (rule that)
qed

theorem repeated_start_is_replayed_witness:
  "\<exists>c db'' run out'. db_load_started_run ''run-1'' db'' = Inr (Some run) \<and> sr_state run = RunState.CANCELLED
     \<and> sqlite_start_run ''9'' (\<lambda>_. Inr None) None None False demo_ids c db'' = (Inr out', db'')
     \<and> rso_idempotent_replay out' \<and> map_option sr_run_id (rso_run out') = Some ''run-1''"
proof -
  obtain plan out db' where d: "demo_seal demo_operations = Inr plan"
    "sqlite_start_run ''1'' (demo_load plan) None None False demo_ids (demo_start_command plan) demo_store = (Inr out, db')"
    "rso_created out"
    by (rule demo_starts)
  have inv: "catalog_inv demo_store" using reachable_catalog_inv [OF demo_store_reachable(1)] by simp
  from sqlite_start.created_facts [OF inv d(2,3)] obtain run where
    run: "rso_run out = Some run" "fresh_run run" "db_save_started_run False ''1'' run demo_store = (Inr (), db')" "catalog_inv db'"
      "sr_run_id run = ''run-1''"
    by (auto simp: demo_ids_def)
  have rows: "c_runs db' = [run_row_of ''1'' run]"
    using run(3) by (rule save_started_run_cases) (auto simp: demo_store_def)
  have "run_in db' ''run-1'' STOPPABLE_RUN_STATES"
    using run(2,5) by (auto simp: run_in_def rows run_row_of_def fresh_run_def STOPPABLE_RUN_STATES_def)
  moreover have "c_run_stop_requests db' = []" using save_keeps_stops [OF run(3)] by (simp add: demo_store_def)
  ultimately obtain db'' ended where e: "store_step\<^sup>*\<^sup>* (db', Map.empty) (db'', Map.empty)"
      "db_load_started_run ''run-1'' db'' = Inr (Some ended)" "sr_state ended = RunState.CANCELLED"
    by (rule stopped_run_ends [OF run(4)])
  from repeated_start_is_replayed [OF demo_store_reachable(1) d(2,3) e(1) refl] e(2,3) run(1,5) show ?thesis by fastforce
qed

text \<open>C38: At most one run of a job is active.  When runs are created by the start handler only, every catalog the
  application can reach, whatever other operations of the store are called in between, has at most one run of a
  job in a state in which \<open>load_active_run_for_job\<close> finds it.\<close>

theorem one_active_run_per_job:
  assumes "app_reachable (db, dl)"
  shows "length (filter (\<lambda>r. rr_job_id r = j \<and> rr_state r \<in> set ACTIVE_RUN_STATES) (c_runs db)) \<le> 1"
  using app_reachable_active [OF assms, of j] by (simp add: active_runs_def)

theorem one_active_run_per_job_witness:
  "\<exists>db' :: catalog. c_runs db' \<noteq> [] \<and> length (filter (\<lambda>r. rr_job_id r = ''job'' \<and> rr_state r \<in> set ACTIVE_RUN_STATES) (c_runs db')) \<le> 1"
proof -
  obtain plan out db' where d: "demo_seal demo_operations = Inr plan"
    "sqlite_start_run ''1'' (demo_load plan) None None False demo_ids (demo_start_command plan) demo_store = (Inr out, db')"
    "rso_created out"
    by (rule demo_starts)
  have "catalog_inv demo_store" using reachable_catalog_inv [OF demo_store_reachable(1)] by simp
  from sqlite_start.created_facts [OF this d(2,3)] obtain run where "db_save_started_run False ''1'' run demo_store = (Inr (), db')"
    by blast
  then have "c_runs db' \<noteq> []" by (rule save_started_run_cases) auto
  moreover have "app_reachable (db', Map.empty)"
    by (rule app_next [OF demo_store_reachable(2) app_step.start_run [OF d(2)]])
  ultimately show ?thesis using one_active_run_per_job [of db' Map.empty "''job''"] by blast
qed

section \<open>Commands\<close>

text \<open>A start command that parses is one the readiness checks can take: it names a plan and a checksum of 64
  hexadecimal digits, its target scope passes the check that readiness repeats, and it only asks for operations
  of an earlier run when it names that run and the targets to retry.\<close>

theorem parsed_start_command_is_scoped:
  assumes "parse_start_run_command request_id key payload = Inr c"
  shows "\<not> blank (src_plan_id c) \<and> is_hex64 (src_plan_checksum c)
    \<and> target_scope_validation_code (src_target_endpoint_ids c) = None
    \<and> operation_scope_validation_code (src_source_operation_ids c) = None
    \<and> (src_source_operation_ids c \<noteq> [] \<longrightarrow> src_resumed_from_run_id c \<noteq> None)
    \<and> (src_resumed_from_run_id c \<noteq> None \<longrightarrow> src_target_endpoint_ids c \<noteq> [])
    \<and> src_selected_plan_operation_ids c = [] \<and> src_idempotency_key c = key"
proof -
  have items: "length ids = length items \<and> \<not> list_ex (bad_scope_id limit) ids" if "parse_scope_items limit code items = Inr ids"
    for limit code items ids
    using that by (induction items arbitrary: ids) (auto split: json.splits if_splits)
  have scope: "scope_validation_code n limit inv dup ids = None" if "parse_scope field n limit inv dup p = Inr ids" for field n limit inv dup p ids
    using that items by (fastforce simp: parse_scope_def scope_validation_code_def split: option.splits json.splits if_splits)
  show ?thesis
    using assms scope
    by (auto simp: parse_start_run_command_def target_scope_validation_code_def operation_scope_validation_code_def
        parse_target_endpoint_ids_def parse_source_operation_ids_def split: if_splits option.splits json.splits)
qed

theorem parsed_start_command_is_scoped_witness:
  "\<exists>c. parse_start_run_command ''r'' ''k'' [(''plan_id'', JStr ''p''), (''plan_checksum'', JStr (replicate 64 CHR ''a'')),
       (''target_endpoint_ids'', JArr [JStr ''e1''])] = Inr c \<and> src_target_endpoint_ids c = [''e1''] \<and> is_hex64 (src_plan_checksum c)"
proof -
  let ?p = "[(''plan_id'', JStr ''p''), (''plan_checksum'', JStr (replicate 64 CHR ''a'')), (''target_endpoint_ids'', JArr [JStr ''e1''])]"
  have "case parse_start_run_command ''r'' ''k'' ?p of Inr c \<Rightarrow> src_target_endpoint_ids c = [''e1''] | Inl _ \<Rightarrow> False" by code_simp
  then obtain c where c: "parse_start_run_command ''r'' ''k'' ?p = Inr c" "src_target_endpoint_ids c = [''e1'']"
    by (auto split: sum.splits)
  then show ?thesis using parsed_start_command_is_scoped [OF c(1)] by blast
qed

section \<open>Retries\<close>

text \<open>C39: The scope of an operation retry is right.  When the operations of a failed run are resolved against a
  fresh plan, the source plan was verified, every operation asked for has its one counterpart in the fresh plan,
  and what is selected is exactly what the counterparts depend on, directly or not; it comes in plan order and
  only mutates targets the command names.\<close>

theorem retry_scope_is_dependency_closed:
  assumes "retry_operation_scope load_plan audits source plan target_ids source_ids = Inr (ids, None)" "source_ids \<noteq> []"
    "distinct (map po_operation_id (sp_operations plan))"
  shows "\<exists>s a source_plan. source = Some s \<and> audits = Some a \<and> load_plan (sr_plan_id s) = Inr (Some source_plan)
    \<and> verify_plan_checksum source_plan
    \<and> (\<forall>i \<in> set source_ids. \<exists>f \<in> set ids. retry_match a s source_plan plan target_ids i = Inr f)
    \<and> set ids = {x. \<exists>i \<in> set source_ids. \<exists>f. retry_match a s source_plan plan target_ids i = Inr f
         \<and> (x, f) \<in> (dep_rel (sp_dependencies plan))\<^sup>*}
    \<and> ids = map po_operation_id (filter (\<lambda>op. po_operation_id op \<in> set ids) (sp_operations plan))
    \<and> (\<forall>op \<in> set (sp_operations plan). po_operation_id op \<in> set ids \<longrightarrow> po_operation_type op \<in> set MUTATING_OPERATION_TYPES
         \<and> po_target_endpoint_id op \<in> Some ` set target_ids)"
  by (rule retry_scope_facts [OF assms])

text \<open>An interrupted run of the first plan and a fresh plan with the same operations: the second operation depends
  on the first, so a retry of the second selects both.\<close>

definition bound_operation :: "string \<Rightarrow> int \<Rightarrow> PlanOperation" where
  "bound_operation i n = (demo_operation i n)\<lparr>po_target_endpoint_id := Some ''e1''\<rparr>"

definition unsigned_retry_plan :: "string \<Rightarrow> SealedPlan" where
  "unsigned_retry_plan i = (unsigned_demo_plan [])\<lparr>sp_plan_id := i,
     sp_operations := [bound_operation ''a'' 1, bound_operation ''b'' 2, bound_operation ''c'' 3]\<rparr>"

definition retry_plan_of :: "string \<Rightarrow> SealedPlan" where
  "retry_plan_of i = (unsigned_retry_plan i)\<lparr>sp_plan_checksum := checksum (canonical_payload (unsigned_retry_plan i))\<rparr>"

definition failed_run :: StartedRun where
  "failed_run = (started_run_from_plan (demo_start_command (unsigned_retry_plan ''old'')) (unsigned_retry_plan ''old'') demo_ids None RunState.QUEUED)
     \<lparr>sr_state := RunState.CANCELLED, sr_plan_checksum := sp_plan_checksum (retry_plan_of ''old'')\<rparr>"

definition demo_audits :: operation_audits where
  "demo_audits = (\<lambda>r i. Inr (Some \<lparr>oai_run_id = r, oai_run_target_id = ''run-1-target-0000'', oai_operation_id = i, oai_target_relative_path = Some i\<rparr>),
     \<lambda>r i. Inr (Some \<lparr>oos_final_state = ''CANCELLED''\<rparr>))"

lemma retry_plan_simps [simp]:
  "verify_plan_checksum (retry_plan_of i)" "sp_operations (retry_plan_of i) = sp_operations (unsigned_retry_plan i)"
  "sp_immutable (retry_plan_of i)" "sp_dependencies (retry_plan_of i) = sp_dependencies (unsigned_retry_plan i)"
  "sp_endpoints (retry_plan_of i) = [demo_endpoint]" "sp_risk_summary (retry_plan_of i) = []"
proof -
  show "verify_plan_checksum (retry_plan_of i)" by (simp add: retry_plan_of_def verify_plan_checksum_def)
qed (simp_all add: retry_plan_of_def unsigned_retry_plan_def unsigned_demo_plan_def)

lemma retry_match_operations:
  assumes "sp_operations p = sp_operations p'" "sp_operations q = sp_operations q'" "sr_targets s = sr_targets s'" "sr_run_id s = sr_run_id s'"
  shows "retry_match a s p q ts i = retry_match a s' p' q' ts i"
  unfolding retry_match_def assms ..

lemma demo_retry_scope:
  "retry_operation_scope (\<lambda>i. Inr (Some (retry_plan_of i))) (Some demo_audits) (Some failed_run) (retry_plan_of ''new'') [''e1''] [''b''] =
     Inr ([''a'', ''b''], None)"
proof -
  have plan: "sr_plan_id failed_run = ''old''" "sr_plan_checksum failed_run = sp_plan_checksum (retry_plan_of ''old'')"
    by (simp_all add: failed_run_def started_run_from_plan_def Let_def unsigned_retry_plan_def)
  let ?r = "started_run_from_plan (demo_start_command (unsigned_retry_plan ''old'')) (unsigned_retry_plan ''old'') demo_ids None RunState.QUEUED"
  have "retry_match demo_audits failed_run (retry_plan_of ''old'') (retry_plan_of ''new'') [''e1''] ''b'' =
      retry_match demo_audits ?r (unsigned_retry_plan ''old'') (unsigned_retry_plan ''new'') [''e1''] ''b''"
    by (rule retry_match_operations) (simp_all add: failed_run_def)
  also have "\<dots> = Inr ''b''" by code_simp
  finally have m: "retry_match demo_audits failed_run (retry_plan_of ''old'') (retry_plan_of ''new'') [''e1''] ''b'' = Inr ''b''" .
  have c: "close_scope (sp_dependencies (unsigned_retry_plan ''new'')) [''b''] [''b''] = [''a'', ''b'']" by code_simp
  have o: "filter (\<lambda>op. po_operation_id op \<in> set [''a'', ''b'']) (sp_operations (unsigned_retry_plan ''new'')) =
      [bound_operation ''a'' 1, bound_operation ''b'' 2]"
    by (simp add: unsigned_retry_plan_def bound_operation_def demo_operation_def)
  show ?thesis
    using m c o plan
    by (simp add: retry_operation_scope_def Let_def bound_operation_def demo_operation_def MUTATING_OPERATION_TYPES_def)
qed

theorem retry_scope_is_dependency_closed_witness:
  "set [''a'', ''b''] = {x. (x, ''b'') \<in> (dep_rel (sp_dependencies (retry_plan_of ''new'')))\<^sup>*}"
proof -
  have d: "distinct (map po_operation_id (sp_operations (retry_plan_of ''new'')))"
    by (simp add: unsigned_retry_plan_def bound_operation_def demo_operation_def)
  have "sr_plan_id failed_run = ''old''"
    by (simp add: failed_run_def started_run_from_plan_def Let_def unsigned_retry_plan_def)
  let ?r = "started_run_from_plan (demo_start_command (unsigned_retry_plan ''old'')) (unsigned_retry_plan ''old'') demo_ids None RunState.QUEUED"
  have "retry_match demo_audits failed_run (retry_plan_of ''old'') (retry_plan_of ''new'') [''e1''] ''b'' =
      retry_match demo_audits ?r (unsigned_retry_plan ''old'') (unsigned_retry_plan ''new'') [''e1''] ''b''"
    by (rule retry_match_operations) (simp_all add: failed_run_def)
  also have "\<dots> = Inr ''b''" by code_simp
  finally have m: "retry_match demo_audits failed_run (retry_plan_of ''old'') (retry_plan_of ''new'') [''e1''] ''b'' = Inr ''b''" .
  have "[''b''] \<noteq> []" by simp
  from retry_scope_is_dependency_closed [OF demo_retry_scope this d] obtain s a p where
    e: "Some failed_run = Some s" "Some demo_audits = Some a" "Inr (Some (retry_plan_of (sr_plan_id s))) = (Inr (Some p) :: SealedPlan option result)"
    and ids: "set [''a'', ''b''] = {x. \<exists>i \<in> set [''b'']. \<exists>f. retry_match a s p (retry_plan_of ''new'') [''e1''] i = Inr f
         \<and> (x, f) \<in> (dep_rel (sp_dependencies (retry_plan_of ''new'')))\<^sup>*}"
    by (elim exE conjE)
  have "s = failed_run" "a = demo_audits" "p = retry_plan_of ''old''" using e \<open>sr_plan_id failed_run = ''old''\<close> by auto
  then show ?thesis using ids m by simp
qed

text \<open>The planned totals of an operation retry add up.  For a plan with distinct endpoints and operations that
  is ready for the selected operations, the run plans as many operations as were selected, and its totals of
  operations and bytes are the sums over its targets.\<close>

theorem operation_retry_totals_add_up:
  assumes "rsr_plan_runnable (readiness_for_plan c plan)" "src_selected_plan_operation_ids c \<noteq> []"
    "distinct (map pe_endpoint_id (sp_endpoints plan))" "distinct (map po_operation_id (sp_operations plan))"
    "run = started_run_from_plan c plan ids source st"
  shows "sr_planned_operations run = int (length (src_selected_plan_operation_ids c))
    \<and> sr_planned_operations run = sum_list (map rt_planned_operations (sr_targets run))
    \<and> sr_planned_bytes run = sum_list (map rt_planned_bytes (sr_targets run))"
proof -
  let ?ids = "src_selected_plan_operation_ids c"
  define sel where "sel = selected_plan_operations plan ?ids"
  define es where "es = selected_target_endpoints plan (src_target_endpoint_ids c) ?ids"
  have codes: "readiness_codes c plan = []" using assms(1) by (auto simp: readiness_for_plan_def split: if_splits)
  have known: "set ?ids \<subseteq> po_operation_id ` set (sp_operations plan)" "distinct ?ids"
    and scope: "\<forall>op \<in> set sel. po_target_endpoint_id op \<in> Some ` set (src_target_endpoint_ids c)"
      "set (src_target_endpoint_ids c) \<subseteq> pe_endpoint_id ` set (target_endpoints plan)"
    using codes assms(2)
    by (auto simp: readiness_codes_def Let_def when_code_def list_ex_iff list_all_iff operation_scope_validation_code_def
        scope_validation_code_def sel_def split: if_splits option.splits)
  have sel: "sel = filter (\<lambda>op. po_operation_id op \<in> set ?ids) (sp_operations plan)"
    using assms(2) by (simp add: sel_def selected_plan_operations_def)
  have "set (map po_operation_id sel) = set ?ids" using known(1) by (auto simp: sel)
  moreover have "distinct (map po_operation_id sel)" using assms(4) by (simp add: sel distinct_map_filter)
  ultimately have "length sel = length ?ids" using known(2) by (metis distinct_card length_map)
  moreover have ne: "sel \<noteq> []" using calculation assms(2) by auto
  moreover have "distinct (map pe_endpoint_id es)"
  proof -
    have "distinct (sp_endpoints plan)" "inj_on pe_endpoint_id (set (sp_endpoints plan))" using assms(3) by (simp_all add: distinct_map)
    then show ?thesis
      by (auto simp: es_def selected_target_endpoints_def Let_def distinct_map target_endpoints_def intro: inj_on_subset)
  qed
  moreover have "\<forall>op \<in> set sel. po_target_endpoint_id op \<in> Some ` pe_endpoint_id ` set es"
  proof
    fix op assume op: "op \<in> set sel"
    then obtain e where e: "e \<in> set (target_endpoints plan)" "po_target_endpoint_id op = Some (pe_endpoint_id e)"
      using scope by blast
    have "e \<in> set es" using op e assms(2) by (force simp: es_def selected_target_endpoints_def Let_def sel)
    then show "po_target_endpoint_id op \<in> Some ` pe_endpoint_id ` set es" using e(2) by blast
  qed
  moreover have "sum_list (map (\<lambda>_. 1) ops) = int (length ops)" for ops :: "PlanOperation list" by (induction ops) simp_all
  ultimately show ?thesis
    using sum_by_endpoint [of es sel "\<lambda>_. 1"] sum_by_endpoint [of es sel po_planned_bytes] assms(2)
    by (simp add: assms(5) started_run_from_plan_def started_run_target_def Let_def comp_def flip: sel_def es_def)
qed

theorem operation_retry_totals_add_up_witness:
  "\<exists>run :: StartedRun. sr_planned_operations run = 2 \<and> sr_planned_operations run = sum_list (map rt_planned_operations (sr_targets run))"
proof -
  let ?c = "(demo_start_command (retry_plan_of ''new''))\<lparr>src_target_endpoint_ids := [''e1''],
     src_resumed_from_run_id := Some ''run-0'', src_source_operation_ids := [''b''], src_selected_plan_operation_ids := [''a'', ''b'']\<rparr>"
  have "target_scope_validation_code [''e1''] = None" "operation_scope_validation_code [''a'', ''b''] = None" by code_simp+
  then have "rsr_plan_runnable (readiness_for_plan ?c (retry_plan_of ''new''))"
    by (simp add: readiness_for_plan_def readiness_codes_def Let_def when_code_def ready_to_queue_def
        selected_plan_operations_def selected_target_endpoints_def selected_scope_is_blocked_def target_endpoints_def
        unsigned_retry_plan_def bound_operation_def demo_operation_def demo_endpoint_def demo_start_command_def
        MUTATING_OPERATION_TYPES_def risk_level_value_def)
  moreover have "distinct (map po_operation_id (sp_operations (retry_plan_of ''new'')))"
    by (simp add: unsigned_retry_plan_def bound_operation_def demo_operation_def)
  moreover have "distinct (map pe_endpoint_id (sp_endpoints (retry_plan_of ''new'')))" "src_selected_plan_operation_ids ?c \<noteq> []" by simp_all
  ultimately have "sr_planned_operations (started_run_from_plan ?c (retry_plan_of ''new'') demo_ids None RunState.QUEUED) = 2
    \<and> sr_planned_operations (started_run_from_plan ?c (retry_plan_of ''new'') demo_ids None RunState.QUEUED) =
      sum_list (map rt_planned_operations (sr_targets (started_run_from_plan ?c (retry_plan_of ''new'') demo_ids None RunState.QUEUED)))"
    using operation_retry_totals_add_up [of ?c "retry_plan_of ''new''", OF _ _ _ _ refl, of demo_ids None RunState.QUEUED] by simp
  then show ?thesis by blast
qed

end
