(* ===== verification/Run_Properties.thy ===== *)
theory Run_Properties
  imports Run_Examples
begin

text \<open>The properties of the run store as a state machine and of the handlers on top of it.\<close>

section \<open>Reachable catalogs\<close>

text \<open>C1: In every catalog the store can reach, a run that is recorded as COMPLETED has only targets that
  SUCCEEDED, each with exactly its planned operations and bytes completed and under a recorded lease.\<close>

theorem completed_run_is_complete:
  assumes "reachable (db, dl)" "r \<in> set (c_runs db)" "rr_state r = RunState.COMPLETED"
    "t \<in> set (c_run_targets db)" "tr_run_id t = rr_id r"
  shows "tr_state t = RunTargetState.SUCCEEDED \<and> tr_completed_operations t = tr_planned_operations t
    \<and> tr_completed_bytes t = tr_planned_bytes t \<and> has_lease t \<and> tr_finished_utc t \<noteq> None"
proof -
  have inv: "catalog_inv db" using reachable_catalog_inv [OF assms(1)] by simp
  have "tr_state t = RunTargetState.SUCCEEDED" using inv_row(3) [OF inv assms(2,4,5)] assms(3) by (simp add: compat_def)
  then show ?thesis
    using inv_row(2) [OF inv assms(4)] by (auto simp: target_ok_def target_state_ok_def OPEN_TARGET_STATES_def)
qed

theorem completed_run_is_complete_witness:
  "rr_state (hd (c_runs demo_completed)) = RunState.COMPLETED \<and>
   tr_completed_bytes (hd (c_run_targets demo_completed)) = tr_planned_bytes (hd (c_run_targets demo_completed))"
proof -
  obtain r where r: "c_runs demo_completed = [r]" "rr_id r = ''run''" "rr_state r = RunState.COMPLETED"
    using demo_completed_rows(1) by auto
  obtain t u where t: "c_run_targets demo_completed = [t, u]" "tr_run_id t = ''run''"
    using demo_completed_rows(2) by auto
  show ?thesis using completed_run_is_complete [OF demo_completed_reachable, of r t] r t by simp
qed

text \<open>C2: In every reachable catalog a target that is EXECUTING holds a lease whose epoch is the one the
  target requires, and its run is EXECUTING, PAUSING or RECOVERY_REQUIRED: nothing executes for a run
  that is queued, paused or finished.\<close>

theorem executing_target_is_leased:
  assumes "reachable (db, dl)" "t \<in> set (c_run_targets db)" "tr_state t = RunTargetState.EXECUTING"
  shows "has_lease t \<and> (\<exists>r \<in> set (c_runs db). rr_id r = tr_run_id t
    \<and> rr_state r \<in> {RunState.EXECUTING, RunState.PAUSING, RunState.RECOVERY_REQUIRED})"
proof -
  have inv: "catalog_inv db" using reachable_catalog_inv [OF assms(1)] by simp
  have "tr_run_id t \<in> set (map rr_id (c_runs db))" using inv assms(2) by (auto simp: catalog_inv_def target_keys_ok_def)
  then obtain r where r: "r \<in> set (c_runs db)" "rr_id r = tr_run_id t" by auto
  have "rr_state r \<in> {RunState.EXECUTING, RunState.PAUSING, RunState.RECOVERY_REQUIRED}"
    using inv_row(1) [OF inv r(1)] inv_row(3) [OF inv r(1) assms(2) r(2) [symmetric]] assms(3)
    by (cases "rr_state r") (simp_all add: compat_def run_ok_def OPEN_TARGET_STATES_def)
  then show ?thesis
    using r inv_row(2) [OF inv assms(2)] assms(3) by (auto simp: target_ok_def target_state_ok_def)
qed

theorem executing_target_is_leased_witness:
  "has_lease (hd (c_run_targets demo_executing)) \<and> tr_state (hd (c_run_targets demo_executing)) = RunTargetState.EXECUTING"
proof -
  obtain t u where t: "c_run_targets demo_executing = [t, u]" "tr_state t = RunTargetState.EXECUTING"
    using demo_executing_rows(2) by auto
  show ?thesis using executing_target_is_leased [OF demo_executing_reachable, of t] t by simp
qed

text \<open>In every reachable catalog the finishing time of a run is set exactly when its state is terminal,
  the finishing time of a target exactly when the target is closed, and a run that ended in any state but
  RECOVERY_REQUIRED has no open target left.\<close>

theorem finished_iff_terminal:
  assumes "reachable (db, dl)" "r \<in> set (c_runs db)" "t \<in> set (c_run_targets db)" "tr_run_id t = rr_id r"
  shows "(rr_finished_utc r = None \<longleftrightarrow> rr_state r \<notin> set TERMINAL_RUN_STATES)
    \<and> (tr_finished_utc t = None \<longleftrightarrow> tr_state t \<in> set OPEN_TARGET_STATES)
    \<and> (rr_finished_utc r \<noteq> None \<and> rr_state r \<noteq> RunState.RECOVERY_REQUIRED \<longrightarrow> tr_finished_utc t \<noteq> None)"
proof -
  have inv: "catalog_inv db" using reachable_catalog_inv [OF assms(1)] by simp
  note ok = inv_row(1) [OF inv assms(2)] inv_row(2) [OF inv assms(3)] inv_row(3) [OF inv assms(2,3,4)]
  have "rr_state r \<in> set TERMINAL_RUN_STATES \<Longrightarrow> rr_state r \<noteq> RunState.RECOVERY_REQUIRED \<Longrightarrow>
      tr_state t \<notin> set OPEN_TARGET_STATES"
    using ok(1,3) by (auto simp: TERMINAL_RUN_STATES_def OPEN_TARGET_STATES_def compat_def run_ok_def)
  then show ?thesis using ok(1,2) by (auto simp: run_ok_def target_ok_def)
qed

theorem finished_iff_terminal_witness:
  "rr_finished_utc (hd (c_runs demo_completed)) \<noteq> None \<and> tr_finished_utc (hd (c_run_targets demo_completed)) \<noteq> None"
proof -
  obtain r where r: "c_runs demo_completed = [r]" "rr_id r = ''run''" "rr_state r = RunState.COMPLETED"
    using demo_completed_rows(1) by auto
  obtain t u where t: "c_run_targets demo_completed = [t, u]" "tr_run_id t = ''run''"
    using demo_completed_rows(2) by auto
  show ?thesis
    using finished_iff_terminal [OF demo_completed_reachable, of r t] r t by (auto simp: TERMINAL_RUN_STATES_def)
qed

section \<open>Steps\<close>

text \<open>C3: Whatever operation is called with whatever arguments, inside a caller's transaction or not, a run
  stays what it is (identity, plan, planned totals) and its state changes only along \<open>run_edge\<close>; the same
  holds for targets and \<open>target_edge\<close>.\<close>

theorem steps_follow_state_machines:
  assumes "reachable s" "store_step s s'"
  shows "(\<forall>r \<in> set (c_runs (fst s)). \<exists>r' \<in> set (c_runs (fst s')). run_identity r' = run_identity r
      \<and> (rr_state r' = rr_state r \<or> rr_state r' \<in> set (run_edge (rr_state r))))
    \<and> (\<forall>t \<in> set (c_run_targets (fst s)). \<exists>t' \<in> set (c_run_targets (fst s')). target_identity t' = target_identity t
      \<and> (tr_state t' = tr_state t \<or> tr_state t' \<in> set (target_edge (tr_state t))))"
proof -
  have e: "evolves (fst s) (fst s')"
    using store_step_good [OF assms(2) reachable_catalog_inv [OF assms(1)]] by (simp add: good_def)
  have "\<exists>r' \<in> set (c_runs (fst s')). run_identity r' = run_identity r
      \<and> (rr_state r' = rr_state r \<or> rr_state r' \<in> set (run_edge (rr_state r)))" if "r \<in> set (c_runs (fst s))" for r
    by (rule evolves_run [OF e that]) (auto simp: run_evolves_def)
  moreover have "\<exists>t' \<in> set (c_run_targets (fst s')). target_identity t' = target_identity t
      \<and> (tr_state t' = tr_state t \<or> tr_state t' \<in> set (target_edge (tr_state t)))" if "t \<in> set (c_run_targets (fst s))" for t
    by (rule evolves_target [OF e that]) (auto simp: target_evolves_def)
  ultimately show ?thesis by blast
qed

theorem steps_follow_state_machines_witness:
  "\<exists>r \<in> set (c_runs demo_queued). \<exists>r' \<in> set (c_runs (demo_claim ''t1'' demo_queued)).
     rr_state r' = rr_state r \<or> rr_state r' \<in> set (run_edge (rr_state r))"
proof -
  have "store_step (demo_queued, Map.empty) (demo_claim ''t1'' demo_queued, Map.empty)"
    unfolding demo_claim_def by (rule store_step.begin_run_target_preflight)
  note p = steps_follow_state_machines [OF demo_queued_reachable this, simplified]
  have "hd (c_runs demo_queued) \<in> set (c_runs demo_queued)" using demo_queued_rows(1) by auto
  then show ?thesis using p by blast
qed

lemma terminal_kept:
  assumes "store_step\<^sup>*\<^sup>* s s'" "catalog_inv (fst s)"
  shows "catalog_inv (fst s') \<and> {r \<in> set (c_runs (fst s)). rr_state r \<in> set TERMINAL_RUN_STATES} \<subseteq> set (c_runs (fst s'))
    \<and> {t \<in> set (c_run_targets (fst s)). tr_state t \<notin> set OPEN_TARGET_STATES} \<subseteq> set (c_run_targets (fst s'))"
  using assms
proof (induction rule: rtranclp_induct)
  case (step s1 s2)
  then have inv: "catalog_inv (fst s1)" by blast
  have g: "good (fst s1) (fst s2)" by (rule store_step_good [OF step.hyps(2) inv])
  then have e: "evolves (fst s1) (fst s2)" by (simp add: good_def)
  have "r \<in> set (c_runs (fst s2))" if "r \<in> set (c_runs (fst s1))" "rr_state r \<in> set TERMINAL_RUN_STATES" for r
    using that by (elim evolves_run [OF e]) (auto simp: run_evolves_def)
  moreover have "t \<in> set (c_run_targets (fst s2))" if "t \<in> set (c_run_targets (fst s1))" "tr_state t \<notin> set OPEN_TARGET_STATES" for t
    using that by (elim evolves_target [OF e]) (auto simp: target_evolves_def)
  ultimately show ?case using step.IH [OF step.prems] g unfolding good_def by blast
qed simp

text \<open>C4: What is finished stays as it is: no sequence of operations, over restarts of the process, changes
  a single column of a run in a terminal state or of a target that is closed.\<close>

theorem terminal_rows_are_final:
  assumes "reachable s" "store_step\<^sup>*\<^sup>* s s'"
  shows "{r \<in> set (c_runs (fst s)). rr_state r \<in> set TERMINAL_RUN_STATES} \<subseteq> set (c_runs (fst s'))
    \<and> {t \<in> set (c_run_targets (fst s)). tr_state t \<notin> set OPEN_TARGET_STATES} \<subseteq> set (c_run_targets (fst s'))"
  using terminal_kept [OF assms(2) reachable_catalog_inv [OF assms(1)]] by blast

theorem terminal_rows_are_final_witness:
  "hd (c_runs demo_completed) \<in> set (c_runs (snd (db_request_run_pause True ''run'' demo_completed)))"
proof -
  have "store_step\<^sup>*\<^sup>* (demo_completed, Map.empty) (snd (db_request_run_pause True ''run'' demo_completed), Map.empty)"
    by (rule r_into_rtranclp) (rule store_step.request_run_pause)
  note p = terminal_rows_are_final [OF demo_completed_reachable this, simplified]
  obtain r where "c_runs demo_completed = [r]" "rr_state r = RunState.COMPLETED"
    using demo_completed_rows(1) by auto
  then show ?thesis using p by (auto simp: TERMINAL_RUN_STATES_def)
qed

end
