(* ===== verification/Run_Target_Properties.thy ===== *)
theory Run_Target_Properties
  imports Run_Examples Utc_Text
begin

text \<open>
  Properties of the store operations on targets: atomicity outside a caller's transaction, the lease and
  execution handlers, waiting for an endpoint, and how the last target of a run decides its final state.
\<close>

section \<open>Atomicity\<close>

text \<open>An operation either returns a value or leaves the catalog as it was.\<close>

definition atomic_result :: "'a option result \<times> catalog \<Rightarrow> catalog \<Rightarrow> bool" where
  "atomic_result res db = (case res of (Inr (Some _), _) \<Rightarrow> True | (_, db') \<Rightarrow> db' = db)"

lemma atomic_ends [simp]:
  "atomic_result (give_up False db db' (Inl e)) db" "atomic_result (give_up False db db' (Inr None)) db"
  "atomic_result (return_run False db db' i) db" "atomic_result (return_target False db db' i j) db"
  "atomic_result (Inr None, db) db" "atomic_result (Inr (Some x), db') db" "atomic_result (Inl e, db) db"
  by (simp_all add: atomic_result_def give_up_def return_run_def return_target_def split: sum.split option.split)





section \<open>Leases\<close>

text \<open>C14: Acquiring the lease of a target leaks nothing.  When the handler hands a lease out, the catalog
  holds the target as REVALIDATING with exactly that lease, its epoch and fencing token, and with an owner
  and epoch the target accepts; when it answers that it does not, no lease is handed out, and one the authority had
  granted was released again without any change to the catalog; and when it raises, the authority was not asked or
  granted none.\<close>

theorem lease_is_recorded_or_released:
  assumes "reachable s" "acquire_run_target_lease (\<lambda>i s. db_load_started_run i (fst s))
      (db_record_run_target_waiting_for_endpoint outer clock)
      (\<lambda>i j lease_id owner epoch token s. map_prod id (\<lambda>db. (db, snd s))
         (db_record_run_target_lease_acquired outer i j lease_id owner epoch token (fst s)))
      acquire release run_id run_target_id s l = (answer, s', l')"
  shows "case answer of Inl e \<Rightarrow> l' = l \<or> (\<exists>request attempt. acquire request l = (attempt, l') \<and> \<not> ela_acquired attempt)
    | Inr out \<Rightarrow> if rlo_acquired out
    then \<exists>t lease. rlo_target out = Some t \<and> rlo_lease out = Some lease \<and> catalog_inv (fst s')
       \<and> load_target (fst s') run_id run_target_id = Some t
       \<and> rt_state t = RunTargetState.REVALIDATING \<and> rt_last_lease_id t = Some (lel_lease_id lease)
       \<and> rt_last_ownership_epoch t = Some (lel_ownership_epoch lease) \<and> rt_last_fencing_token t = Some (lel_fencing_token lease)
       \<and> rt_required_owner_installation_id t \<in> {None, Some (lel_owner_installation_id lease)}
       \<and> rt_required_ownership_epoch t \<in> {None, Some (lel_ownership_epoch lease)}
    else rlo_lease out = None \<and> catalog_inv (fst s') \<and>
      (l' = l \<or> (\<exists>request attempt l1. acquire request l = (attempt, l1) \<and>
         (if ela_acquired attempt \<and> ela_lease attempt \<noteq> None then l' = release (the (ela_lease attempt)) l1 \<and> s' = s
          else l' = l1)))"
proof (cases answer)
  case (Inl e)
  from sqlite_target.lease_handler_raises [OF reachable_catalog_inv [OF assms(1)] assms(2) [unfolded Inl]]
  show ?thesis by (simp add: Inl)
next
  case (Inr out)
  from sqlite_target.lease_handler [OF reachable_catalog_inv [OF assms(1)] assms(2) [unfolded Inr]]
  show ?thesis unfolding Inr sum.case .
qed

lemma case_doneD:
  "case x of (Inr out, s') \<Rightarrow> P out s' | _ \<Rightarrow> False \<Longrightarrow> \<exists>out s'. x = (Inr out, s') \<and> P out s'"
  by (simp split: prod.splits sum.splits)

lemma case_done3D:
  "case x of (Inr out, s', l') \<Rightarrow> P out s' l' | _ \<Rightarrow> False \<Longrightarrow> \<exists>out s' l'. x = (Inr out, s', l') \<and> P out s' l'"
  by (cases x; cases "snd x") (simp split: sum.splits)

abbreviation demo_live_lease :: LiveEndpointLease where
  "demo_live_lease \<equiv> \<lparr>lel_lease_id = ''lease'', lel_owner_installation_id = ''home'', lel_ownership_epoch = 3, lel_fencing_token = 7\<rparr>"

theorem lease_is_recorded_or_released_witness:
  "\<exists>db t. load_target db ''run'' ''t1'' = Some t \<and> rt_state t = RunTargetState.REVALIDATING
     \<and> rt_last_fencing_token t = Some 7"
proof -
  let ?acquire = "\<lambda>_ l. (\<lparr>ela_acquired = True, ela_lease = Some demo_live_lease, ela_validation_codes = []\<rparr>, Suc l)"
  let ?clock = "\<lparr>utc_now = [], monotonic_ns = 0\<rparr>"
  let ?s = "(demo_claim ''t1'' demo_queued, Map.empty) :: store_state"
  let ?run = "acquire_run_target_lease (\<lambda>i s. db_load_started_run i (fst s))
      (db_record_run_target_waiting_for_endpoint True ?clock)
      (\<lambda>i j lease_id owner epoch token s. map_prod id (\<lambda>db. (db, snd s))
         (db_record_run_target_lease_acquired True i j lease_id owner epoch token (fst s)))
      ?acquire (\<lambda>_ l. l - 1) ''run'' ''t1'' ?s (0 :: nat)"
  have r: "reachable ?s"
    unfolding demo_claim_def by (rule reachable_step [OF demo_queued_reachable store_step.begin_run_target_preflight])
  have "case ?run of (Inr out, s', l') \<Rightarrow> rlo_acquired out \<and> rlo_lease out \<noteq> None \<and> lel_fencing_token (the (rlo_lease out)) = 7
     | _ \<Rightarrow> False"
    by code_simp
  from case_done3D [OF this] obtain out s' l' where run: "?run = (Inr out, s', l')" and out: "rlo_acquired out"
    "lel_fencing_token (the (rlo_lease out)) = 7"
    by (elim exE conjE)
  from lease_is_recorded_or_released [OF r run] out show ?thesis by fastforce
qed

text \<open>C16: A target only starts executing under a mutation permit that the retained lease issued for exactly
  this run and target: when the handler reports a start, the permit names the run, the target, its endpoint at its
  revision and its resource, and the catalog holds the target as EXECUTING with the lease, epoch and fencing token of
  that permit; otherwise nothing changed, no permit is handed out, and a code says why; and a handler that raises has
  changed nothing either.\<close>

theorem execution_starts_under_its_permit:
  assumes "reachable s" "start_run_target_execution (\<lambda>i s. db_load_started_run i (fst s))
      (\<lambda>i j lease_id owner epoch token s. map_prod id (\<lambda>db. (db, snd s))
         (db_record_run_target_execution_started outer i j lease_id owner epoch token (fst s)))
      issue run_id run_target_id lease s = (answer, s')"
  shows "case answer of Inl e \<Rightarrow> s' = s | Inr out \<Rightarrow> catalog_inv (fst s') \<and> (if reo_started out
    then \<exists>t permit. reo_target out = Some t \<and> reo_mutation_permit out = Some permit \<and> issue lease = Inr permit
       \<and> load_target (fst s') run_id run_target_id = Some t \<and> rt_state t = RunTargetState.EXECUTING
       \<and> mp_run_id permit = run_id \<and> mp_run_target_id permit = run_target_id \<and> mp_endpoint_id permit = rt_endpoint_id t
       \<and> mp_endpoint_revision_id permit = rt_endpoint_revision_id t \<and> rt_lease_resource_key t = Some (mp_resource_key permit)
       \<and> mp_lease_id permit = lel_lease_id lease \<and> rt_last_lease_id t = Some (mp_lease_id permit)
       \<and> rt_last_ownership_epoch t = Some (mp_ownership_epoch permit) \<and> rt_last_fencing_token t = Some (mp_fencing_token permit)
       \<and> rt_required_owner_installation_id t \<in> {None, Some (mp_owner_installation_id permit)}
    else s' = s \<and> reo_mutation_permit out = None \<and> reo_validation_codes out \<noteq> [])"
proof (cases answer)
  case (Inl e)
  from sqlite_target.execution_handler_raises [OF reachable_catalog_inv [OF assms(1)] assms(2) [unfolded Inl]]
  show ?thesis by (simp add: Inl)
next
  case (Inr out)
  from sqlite_target.execution_handler [OF reachable_catalog_inv [OF assms(1)] assms(2) [unfolded Inr]]
  show ?thesis unfolding Inr sum.case .
qed

theorem execution_starts_under_its_permit_witness:
  "\<exists>db t. load_target db ''run'' ''t1'' = Some t \<and> rt_state t = RunTargetState.EXECUTING
     \<and> rt_last_lease_id t = Some ''lease''"
proof -
  let ?permit = "\<lparr>mp_lease_id = ''lease'', mp_resource_key = ''disk'', mp_owner_installation_id = ''home'',
     mp_ownership_epoch = 3, mp_fencing_token = 7, mp_run_id = ''run'', mp_run_target_id = ''t1'', mp_endpoint_id = ''e1'',
     mp_endpoint_generation = 1, mp_endpoint_revision_id = ''rev''\<rparr>"
  let ?s = "(demo_lease ''t1'' (demo_claim ''t1'' demo_queued), Map.empty) :: store_state"
  let ?run = "start_run_target_execution (\<lambda>i s. db_load_started_run i (fst s))
      (\<lambda>i j lease_id owner epoch token s. map_prod id (\<lambda>db. (db, snd s))
         (db_record_run_target_execution_started False i j lease_id owner epoch token (fst s)))
      (\<lambda>_. Inr ?permit) ''run'' ''t1'' demo_live_lease ?s"
  have r: "reachable ?s"
    unfolding demo_claim_def demo_lease_def
    by (rule reachable_step [OF reachable_step [OF demo_queued_reachable store_step.begin_run_target_preflight]
          store_step.record_run_target_lease_acquired])
  have "case ?run of (Inr out, s') \<Rightarrow> reo_started out | _ \<Rightarrow> False" by code_simp
  from case_doneD [OF this] obtain out s' where run: "?run = (Inr out, s')" and out: "reo_started out" by (elim exE conjE)
  from execution_starts_under_its_permit [OF r run] out show ?thesis by fastforce
qed

section \<open>Waiting for an endpoint\<close>

lemma foldl_max_ge: "(a :: int) \<le> foldl max a xs \<and> (x \<in> set xs \<longrightarrow> x \<le> foldl max a xs)"
proof (induction xs arbitrary: a)
  case (Cons y ys)
  have "a \<le> max a y" "y \<le> max a y" "max a y \<le> foldl max (max a y) ys" using Cons by simp_all
  then show ?case using Cons [of "max a y"] by (simp del: max.bounded_iff) force
qed simp

lemma next_attempt_no_above:
  "1 \<le> next_attempt_no db i j"
  "e \<in> set (c_wait_events db) \<Longrightarrow> we_run_id e = i \<Longrightarrow> we_run_target_id e = j \<Longrightarrow> we_attempt_no e < next_attempt_no db i j"
proof -
  let ?ns = "map we_attempt_no (filter (\<lambda>e. we_run_id e = i \<and> we_run_target_id e = j) (c_wait_events db))"
  show "1 \<le> next_attempt_no db i j" using foldl_max_ge [of 0 ?ns] by (simp add: next_attempt_no_def)
  assume "e \<in> set (c_wait_events db)" "we_run_id e = i" "we_run_target_id e = j"
  then have "we_attempt_no e \<in> set ?ns" by auto
  then have "we_attempt_no e \<le> foldl max 0 ?ns" using foldl_max_ge [of 0 ?ns "we_attempt_no e"] by blast
  then show "we_attempt_no e < next_attempt_no db i j" by (simp add: next_attempt_no_def)
qed

lemma trim_last:
  assumes "s \<noteq> []" "\<not> p (last s)"
  shows "trim_by p s \<noteq> [] \<and> last (trim_by p s) = last s"
proof -
  have d: "dropWhile p s \<noteq> []" using assms by (auto simp: dropWhile_eq_Nil_conv)
  moreover from this have "last (dropWhile p s) = last s" by (metis last_appendR takeWhile_dropWhile_id)
  ultimately have "hd (rev (dropWhile p s)) = last s" "rev (dropWhile p s) \<noteq> []" by (simp_all add: hd_rev)
  then obtain u where "rev (dropWhile p s) = last s # u" by (cases "rev (dropWhile p s)") auto
  then show ?thesis using assms(2) by (simp add: trim_by_def)
qed

lemma waiting_succeeds:
  assumes inv: "catalog_inv db" and st: "st \<in> set [RunTargetState.ACQUIRING_LEASE, RunTargetState.REVALIDATING, RunTargetState.EXECUTING]"
    and reason: "\<not> blank reason" and ids: "\<not> blank i" "\<not> blank j"
    and t0: "t0 \<in> set (c_run_targets db)" "tr_run_id t0 = i" "tr_id t0 = j" "tr_state t0 = st"
    and run: "run_in db i [RunState.PREFLIGHT, RunState.EXECUTING]" and clock: "clock_ok clock"
  shows "\<exists>t db' dl'. db_record_run_target_waiting_for_endpoint outer clock i j st reason (db, dl) = (Inr (Some t), db', dl')"
proof -
  let ?n = "next_attempt_no db i j"
  obtain b where b: "endpoint_retry_backoff_ms i j ?n = Inr b"
    using ids next_attempt_no_above(1) [of db i j] by (simp add: endpoint_retry_backoff_ms_def Let_def)
  note bb = backoff_bounds_aux [OF b] nominal_backoff_bounds [OF next_attempt_no_above(1), of db i j]
  have b1: "1 \<le> b" "b \<le> ENDPOINT_RETRY_MAX_MS" using bb by (simp_all add: ENDPOINT_RETRY_BASE_MS_def)
  obtain timing where tm: "retry_plan clock b = Inr timing" "ert_backoff_ms timing = b"
      "last (ert_retry_not_before_utc timing) = CHR ''Z''" "ert_retry_not_before_utc timing \<noteq> []"
      "\<And>event_id dl. 1 \<le> event_id \<Longrightarrow> \<exists>dl'. retry_activate event_id timing dl = Inr dl'"
    using planned_retry [OF clock b1] by blast
  let ?q = "\<lambda>t. tr_state t = st \<and> run_in db (tr_run_id t) [RunState.PREFLIGHT, RunState.EXECUTING]"
  let ?p = "\<lambda>t. tr_run_id t = i \<and> tr_id t = j \<and> ?q t"
  let ?f = "\<lambda>t. (clear_lease t)\<lparr>tr_state := RunTargetState.WAITING_FOR_ENDPOINT,
                          tr_result_json := Some (wait_result_json timing ?n (strip reason))\<rparr>"
  let ?db1 = "update_targets ?p ?f db"
  let ?event = "\<lparr>we_id = c_wait_event_seq ?db1 + 1, we_run_id = i, we_run_target_id = j, we_attempt_no = ?n,
     we_reason_code = strip reason, we_observed_utc = ert_observed_utc timing, we_backoff_ms = ert_backoff_ms timing,
     we_retry_not_before_utc = ert_retry_not_before_utc timing\<rparr>"
  let ?db2 = "?db1\<lparr>c_wait_events := c_wait_events ?db1 @ [?event], c_wait_event_seq := c_wait_event_seq ?db1 + 1\<rparr>"
  have "0 < sql_count ?p (c_run_targets db)" unfolding sql_count_pos using t0 run by auto
  then have count: "sql_count ?p (c_run_targets db) = Suc 0" using target_count_le_1 [OF inv, of i j ?q] by simp
  have keys: "map (\<lambda>t. (tr_run_id t, tr_id t)) (c_run_targets ?db1) = map (\<lambda>t. (tr_run_id t, tr_id t)) (c_run_targets db)"
    by (simp add: update_targets_def sql_update_map_key clear_lease_def)
  have fresh: "(i, j, ?n) \<notin> set (map (\<lambda>e. (we_run_id e, we_run_target_id e, we_attempt_no e)) (c_wait_events db))"
    using next_attempt_no_above(2) [of _ db i j] by fastforce
  have key: "(i, j) \<in> set (map (\<lambda>t. (tr_run_id t, tr_id t)) (c_run_targets db))" using t0(1-3) by force
  have events: "c_wait_events ?db1 = c_wait_events db" "c_wait_event_seq ?db1 = c_wait_event_seq db"
    by (simp_all add: update_targets_def)
  have c: "\<not> \<not> wait_constraints ?db1 ?event"
    unfolding wait_constraints_def keys events using fresh key next_attempt_no_above(1) [of db i j] b1 tm(2-4)
      trim_last [of "ert_retry_not_before_utc timing" "\<lambda>c. c = CHR '' ''"] reason
    by (simp add: sql_trim_nonempty ENDPOINT_RETRY_MAX_MS_def sql_trim_def [of "ert_retry_not_before_utc timing"])
  obtain t where t: "load_target ?db2 i j = Some t"
    using updated_target [OF inv count, of ?f ?db2] by (auto simp: clear_lease_def)
  have "1 \<le> c_wait_event_seq ?db1 + 1" using inv by (simp add: events catalog_inv_def wait_keys_ok_def)
  then obtain dl' where act: "retry_activate (c_wait_event_seq ?db1 + 1) timing dl = Inr dl'" using tm(5) by blast
  have ok: "\<not> (st \<notin> set [RunTargetState.ACQUIRING_LEASE, RunTargetState.REVALIDATING, RunTargetState.EXECUTING] \<or> strip reason = [])"
    using st reason by (simp add: blank_def)
  have tm': "and_then (endpoint_retry_backoff_ms i j ?n) (retry_plan clock) = Inr timing" by (simp add: b tm(1))
  have hit: "\<not> sql_count ?p (c_run_targets db) \<noteq> 1" using count by simp
  show ?thesis
    unfolding db_record_run_target_waiting_for_endpoint_def Let_def prod.case if_not_P [OF ok] tm' sum.case if_not_P [OF hit]
      if_not_P [OF c] return_target_def t option.case act by blast
qed

text \<open>A target that has to wait for its endpoint can always be put to wait.  In a reachable catalog, for a
  target in the state the caller expects whose run is active, and a clock that can be read, recording the
  wait succeeds: the target is WAITING_FOR_ENDPOINT without a lease, exactly one event is appended, its id and
  its attempt number are above those of all earlier events of the target, its backoff lies between 80 percent
  and all of the nominal backoff of that attempt, and the deadline armed in memory is that far from now.\<close>

theorem waiting_is_recorded:
  assumes "reachable (db, dl)" "st \<in> set [RunTargetState.ACQUIRING_LEASE, RunTargetState.REVALIDATING, RunTargetState.EXECUTING]"
    "\<not> blank reason" "\<not> blank i" "\<not> blank j" "run_in db i [RunState.PREFLIGHT, RunState.EXECUTING]" "clock_ok clock"
    "t0 \<in> set (c_run_targets db)" "tr_run_id t0 = i" "tr_id t0 = j" "tr_state t0 = st"
  shows "\<exists>t db' dl' e. db_record_run_target_waiting_for_endpoint outer clock i j st reason (db, dl) = (Inr (Some t), db', dl')
    \<and> load_target db' i j = Some t \<and> rt_state t = RunTargetState.WAITING_FOR_ENDPOINT \<and> rt_last_lease_id t = None
    \<and> c_wait_events db' = c_wait_events db @ [e] \<and> we_run_id e = i \<and> we_run_target_id e = j
    \<and> (\<forall>e' \<in> set (c_wait_events db). we_id e' < we_id e
         \<and> (we_run_id e' = i \<and> we_run_target_id e' = j \<longrightarrow> we_attempt_no e' < we_attempt_no e))
    \<and> nominal_backoff_ms (we_attempt_no e) * 80 div 100 \<le> we_backoff_ms e \<and> we_backoff_ms e \<le> nominal_backoff_ms (we_attempt_no e)
    \<and> (\<exists>active. dl' = dl(we_id e \<mapsto> active) \<and> ad_backoff_ms active = we_backoff_ms e
         \<and> ad_retry_not_before_utc active = we_retry_not_before_utc e
         \<and> ad_deadline_monotonic_ns active = monotonic_ns clock + we_backoff_ms e * 1000000)"
proof -
  have inv: "catalog_inv db" using reachable_catalog_inv [OF assms(1)] by simp
  obtain t db' dl' where op: "db_record_run_target_waiting_for_endpoint outer clock i j st reason (db, dl) = (Inr (Some t), db', dl')"
    using waiting_succeeds [OF inv assms(2-5,8-11,6,7), of outer dl] by blast
  obtain timing b where w: "endpoint_retry_backoff_ms i j (next_attempt_no db i j) = Inr b" "retry_plan clock b = Inr timing"
      "c_wait_events db' = c_wait_events db @ [\<lparr>we_id = c_wait_event_seq db + 1, we_run_id = i, we_run_target_id = j,
             we_attempt_no = next_attempt_no db i j, we_reason_code = strip reason,
             we_observed_utc = ert_observed_utc timing, we_backoff_ms = ert_backoff_ms timing,
             we_retry_not_before_utc = ert_retry_not_before_utc timing\<rparr>]" (is "_ = _ @ [?e]")
      "retry_activate (c_wait_event_seq db + 1) timing dl = Inr dl'"
      "load_target db' i j = Some t" "rt_state t = RunTargetState.WAITING_FOR_ENDPOINT" "rt_last_lease_id t = None"
    using waiting_shape [OF inv op] unfolding option.case wait_recorded_def by (elim exE conjE)
  note bb = backoff_bounds_aux [OF w(1)] nominal_backoff_bounds [OF next_attempt_no_above(1), of db i j]
  have b1: "1 \<le> b" "b \<le> ENDPOINT_RETRY_MAX_MS" using bb by (simp_all add: ENDPOINT_RETRY_BASE_MS_def)
  have keys: "0 \<le> c_wait_event_seq db" "\<And>e. e \<in> set (c_wait_events db) \<Longrightarrow> we_id e \<le> c_wait_event_seq db"
    using inv by (auto simp: catalog_inv_def wait_keys_ok_def list_all_iff)
  have tm: "ert_backoff_ms timing = b" "dl' = dl(c_wait_event_seq db + 1 \<mapsto>
         \<lparr>ad_retry_not_before_utc = ert_retry_not_before_utc timing, ad_backoff_ms = b,
          ad_deadline_monotonic_ns = monotonic_ns clock + b * 1000000\<rparr>)"
    using planned_retry [OF assms(7) b1] w(2,4) keys(1) by auto
  have "\<forall>e' \<in> set (c_wait_events db). we_id e' < we_id ?e
         \<and> (we_run_id e' = i \<and> we_run_target_id e' = j \<longrightarrow> we_attempt_no e' < we_attempt_no ?e)"
    using keys(2) next_attempt_no_above(2) [of _ db i j] by fastforce
  then show ?thesis
    using op w(3,5-7) tm bb(1,2) by (intro exI [of _ t] exI [of _ db'] exI [of _ dl'] exI [of _ ?e]) auto
qed

theorem waiting_is_recorded_witness:
  "\<exists>db' e. snd (db_record_run_target_waiting_for_endpoint True \<lparr>utc_now = ''2024-02-29T23:59:59Z'', monotonic_ns = 5\<rparr> ''run'' ''t1''
      RunTargetState.ACQUIRING_LEASE ''ENDPOINT_ROOT_UNAVAILABLE'' (demo_claim ''t1'' demo_queued, Map.empty)) = db'
    \<and> c_wait_events (fst db') = c_wait_events (demo_claim ''t1'' demo_queued) @ [e] \<and> we_run_target_id e = ''t1''"
proof -
  have r: "reachable (demo_claim ''t1'' demo_queued, Map.empty)"
    unfolding demo_claim_def by (rule reachable_step [OF demo_queued_reachable store_step.begin_run_target_preflight])
  have "map (\<lambda>t. (tr_run_id t, tr_id t, tr_state t)) (c_run_targets (demo_claim ''t1'' demo_queued)) =
      [(''run'', ''t1'', RunTargetState.ACQUIRING_LEASE), (''run'', ''t2'', RunTargetState.PENDING)]"
    by code_simp
  then obtain t0 u where t0: "c_run_targets (demo_claim ''t1'' demo_queued) = [t0, u]" "tr_run_id t0 = ''run''" "tr_id t0 = ''t1''"
      "tr_state t0 = RunTargetState.ACQUIRING_LEASE"
    by auto
  have c: "clock_ok \<lparr>utc_now = ''2024-02-29T23:59:59Z'', monotonic_ns = 5\<rparr>"
    "run_in (demo_claim ''t1'' demo_queued) ''run'' [RunState.PREFLIGHT, RunState.EXECUTING]"
    "\<not> blank ''ENDPOINT_ROOT_UNAVAILABLE''" "\<not> blank ''run''" "\<not> blank ''t1''"
    by code_simp+
  from waiting_is_recorded [OF r _ c(3-5,2,1) _ t0(2-4), of True] t0(1) show ?thesis by auto
qed

text \<open>C35: A deadline that is armed in this process counts monotonic time only: the retry of an event is due
  exactly when the monotonic clock has advanced by the backoff since the wait was planned, whatever the wall
  clock shows by then.\<close>

theorem armed_retry_is_never_early:
  assumes "retry_plan clock0 b = Inr timing" "retry_activate event_id timing dl = Inr dl1"
    "retry_is_due clock event_id b (ert_retry_not_before_utc timing) dl1 = Inr (due, dl2)"
  shows "(due \<longleftrightarrow> monotonic_ns clock0 + b * 1000000 \<le> monotonic_ns clock) \<and> dl2 = dl1"
  using assms
  by (auto simp: retry_plan_def retry_activate_def retry_is_due_def monotonic_now_def Let_def split: if_splits)

theorem armed_retry_is_never_early_witness:
  "\<exists>timing dl1 dl2. retry_plan \<lparr>utc_now = ''2024-02-29T23:59:59Z'', monotonic_ns = 5\<rparr> 5000 = Inr timing
     \<and> retry_is_due \<lparr>utc_now = ''1999-01-01T00:00:00Z'', monotonic_ns = 5000000005\<rparr> 1 5000 (ert_retry_not_before_utc timing) dl1 = Inr (True, dl2)"
proof -
  let ?start = "\<lparr>utc_now = ''2024-02-29T23:59:59Z'', monotonic_ns = 5\<rparr>" and ?later = "\<lparr>utc_now = ''1999-01-01T00:00:00Z'', monotonic_ns = 5000000005\<rparr>"
  have "clock_ok ?start" by code_simp
  from planned_retry [OF this, of 5000] obtain timing where t: "retry_plan ?start 5000 = Inr timing"
      "\<And>event_id dl. 1 \<le> event_id \<Longrightarrow> \<exists>dl'. retry_activate event_id timing dl = Inr dl'"
    by (auto simp: ENDPOINT_RETRY_MAX_MS_def)
  obtain dl1 where d: "retry_activate 1 timing Map.empty = Inr dl1" using t(2) [of 1 Map.empty] by auto
  have "\<exists>due dl2. retry_is_due ?later 1 5000 (ert_retry_not_before_utc timing) dl1 = Inr (due, dl2)"
    using d t(1) by (auto simp: retry_plan_def retry_activate_def retry_is_due_def monotonic_now_def Let_def split: if_splits)
  then obtain due dl2 where q: "retry_is_due ?later 1 5000 (ert_retry_not_before_utc timing) dl1 = Inr (due, dl2)" by blast
  from armed_retry_is_never_early [OF t(1) d q] show ?thesis using t(1) q by auto
qed

text \<open>After a restart, when nothing is armed, the first look at an event arms a deadline that is at most
  one backoff away, however far the wall clock was set back, and an event whose wall clock time has come is due
  at once.\<close>

theorem retry_after_restart_is_bounded:
  assumes "dl event_id = None" "retry_is_due clock event_id b utc dl = Inr (due, dl2)"
  shows "\<exists>active now at. dl2 = dl(event_id \<mapsto> active) \<and> parse_utc (utc_now clock) = Inr now \<and> parse_utc utc = Inr at
    \<and> monotonic_ns clock \<le> ad_deadline_monotonic_ns active
    \<and> ad_deadline_monotonic_ns active \<le> monotonic_ns clock + b * 1000000 \<and> (due \<longleftrightarrow> at \<le> now)"
proof -
  obtain now at where p: "parse_utc (utc_now clock) = Inr now" "parse_utc utc = Inr at" and b: "1 \<le> b"
    and r: "dl2 = dl(event_id \<mapsto> \<lparr>ad_retry_not_before_utc = utc, ad_backoff_ms = b,
        ad_deadline_monotonic_ns = monotonic_ns clock + min b (ceil_ms (at - now)) * 1000000\<rparr>)"
      "due = (monotonic_ns clock + min b (ceil_ms (at - now)) * 1000000 \<le> monotonic_ns clock)"
    using assms by (auto simp: retry_is_due_def validate_backoff_def monotonic_now_def Let_def split: if_splits)
  have "ceil_ms (at - now) \<le> 0 \<longleftrightarrow> at \<le> now"
    by (simp add: ceil_ms_def pos_imp_zdiv_nonneg_iff max_def)
  then have "due \<longleftrightarrow> at \<le> now" using r(2) b by (auto simp: min_le_iff_disj)
  then show ?thesis using p r(1) b ceil_ms_nonneg [of "at - now"] by auto
qed

theorem retry_after_restart_is_bounded_witness:
  "\<exists>due dl2. retry_is_due \<lparr>utc_now = ''2024-01-01T00:00:00Z'', monotonic_ns = 9\<rparr> 1 5000 ''2024-01-01T00:00:02Z'' Map.empty = Inr (due, dl2)
     \<and> \<not> due"
proof -
  let ?q = "retry_is_due \<lparr>utc_now = ''2024-01-01T00:00:00Z'', monotonic_ns = 9\<rparr> 1 5000 ''2024-01-01T00:00:02Z'' Map.empty"
  have "case ?q of Inr (due, dl) \<Rightarrow> True | _ \<Rightarrow> False" by code_simp
  then obtain due dl2 where q: "?q = Inr (due, dl2)" by (auto split: sum.splits)
  have p: "parse_utc ''2024-01-01T00:00:00Z'' = Inr 63839664000000000" "parse_utc ''2024-01-01T00:00:02Z'' = Inr 63839664002000000"
    by code_simp+
  from retry_after_restart_is_bounded [OF _ q] p q show ?thesis by auto
qed

section \<open>How a run ends\<close>

definition demo_action_run :: catalog where
  "demo_action_run = demo_execute ''t2'' (demo_execute ''t1'' (snd (db_save_started_run False ''0''
     (demo_started_run [(''action_required'', JBool True), (''deferred_operation_count'', JInt 1)]) demo_empty)))"

text \<open>The final state of a run whose summary asks for action depends on the order in which its targets
  close: with one target cancelled and one succeeded it is PARTIAL_FAILURE when the cancellation is recorded
  last, and COMPLETED_WITH_WARNINGS when the success is.\<close>

theorem final_state_depends_on_order:
  "map rr_state (c_runs (snd (db_record_run_target_cancelled False ''3'' ''run'' ''t2'' ''STOPPED''
       (snd (db_record_run_target_succeeded False ''2'' ''run'' ''t1'' 2 10 demo_action_run))))) = [RunState.PARTIAL_FAILURE]
   \<and> map rr_state (c_runs (snd (db_record_run_target_succeeded False ''3'' ''run'' ''t1'' 2 10
       (snd (db_record_run_target_cancelled False ''2'' ''run'' ''t2'' ''STOPPED'' demo_action_run))))) = [RunState.COMPLETED_WITH_WARNINGS]"
  by code_simp

end
