(* ===== verification/Recovery_Properties.thy ===== *)
theory Recovery_Properties
  imports Recovery_Examples
begin

text \<open>
  The properties of the recovery journal: what holds of its tables in every reachable state, under which leases
  they are written, and the failure that leaves a transaction open.
\<close>

lemma reachable_journal:
  assumes "recovery_reachable s"
  shows "journal_inv (rc_tables (fst s))" "directory_inv (rc_tables (fst s))" "segment_inv (rc_tables (fst s))"
    "lease_inv (rc_tables (fst s))"
  using recovery_reachable_inv [OF assms] by (simp_all add: recovery_inv_def)

lemma find_row:
  assumes "distinct (map row_key rows)" "r \<in> set rows"
  shows "List.find (at_operation (rop_run_id (ror_operation r)) (rop_operation_id (ror_operation r))) rows = Some r"
proof -
  have "List.find (at_operation (rop_run_id (ror_operation r)) (rop_operation_id (ror_operation r))) rows \<noteq> None"
    using assms(2) by (auto simp: find_None_iff' at_operation_def)
  then obtain x where x: "List.find (at_operation (rop_run_id (ror_operation r)) (rop_operation_id (ror_operation r))) rows = Some x"
    by blast
  have "row_key x = row_key r" using find_at_operation(2) [OF x] by (simp add: row_key_def)
  then show ?thesis using x distinct_key_eq [OF assms(1) find_at_operation(1) [OF x] assms(2)] by simp
qed

text \<open>C23: Every recovery operation the store holds, in every state that calls of the stores, transactions of
callers and restarts can lead to, is one the application's validation accepts and is the one that is read back
under its run and operation id; at a phase that requires it, it has a place in an intent segment that is durable
and agrees with it in run, target, endpoint, ownership, lease and fencing token; and a catalog handoff is there
at CATALOG_RECORDED and CLEANED and at no phase that comes before.\<close>

theorem recorded_operations_are_valid:
  assumes "recovery_reachable s" "r \<in> set (recovery_operations (rc_tables (fst s)))"
  shows "validate_recovery_operation (ror_operation r) = Inr ()
    \<and> load_operation (rop_run_id (ror_operation r)) (rop_operation_id (ror_operation r)) (rc_tables (fst s)) =
        Inr (Some (ror_operation r))
    \<and> (rop_phase (ror_operation r) \<in> set PHASES_REQUIRING_INTENT \<longrightarrow>
        (\<exists>x \<in> set (intent_segments (rc_tables (fst s))). segment_binds (isr_segment x) (ror_operation r)))
    \<and> (rop_phase (ror_operation r) \<in> {CATALOG_RECORDED, CLEANED} \<longrightarrow> rop_catalog_handoff_id (ror_operation r) \<noteq> None)
    \<and> (rop_catalog_handoff_id (ror_operation r) \<noteq> None \<longrightarrow>
        rop_phase (ror_operation r) = CATALOG_RECORDED
        \<or> rop_phase (ror_operation r) \<in> set RECOVERY_OPERATION_TERMINAL_PHASES)"
proof -
  let ?t = "rc_tables (fst s)" and ?op = "ror_operation r"
  have inv: "journal_inv ?t" by (rule reachable_journal(1) [OF assms(1)])
  then have sound: "operation_sound (segments ?t) ?op" and d: "distinct (map row_key (recovery_operations ?t))"
    using assms(2) by (auto simp: journal_inv_def segments_def)
  have valid: "validate_recovery_operation ?op = Inr ()" using sound by (simp add: operation_sound_def)
  have "\<exists>x \<in> set (intent_segments ?t). segment_binds (isr_segment x) ?op" if "rop_phase ?op \<in> set PHASES_REQUIRING_INTENT"
  proof -
    have "list_ex (\<lambda>s. segment_binds s ?op) (segments ?t)"
      using sound intent_phases_need_segment [OF valid that] by (simp add: operation_sound_def)
    then show ?thesis by (auto simp: list_ex_iff segments_def)
  qed
  then show ?thesis
    using valid find_row [OF d assms(2)] cleaned_needs_handoff [OF valid] sound by (simp add: operation_sound_def)
qed

lemma recorded_operations_are_valid_witness:
  "validate_recovery_operation ex_validated_operation = Inr ()
   \<and> load_operation ''run'' ''o1'' ex_validated = Inr (Some ex_validated_operation)"
proof -
  have "rop_run_id ex_validated_operation = ''run''" "rop_operation_id ex_validated_operation = ''o1''" by code_simp+
  then show ?thesis
    using recorded_operations_are_valid [OF ex_validated_reachable, of "\<lparr>ror_operation = ex_validated_operation, ror_updated_utc = ''u''\<rparr>"]
    by (simp add: ex_validated_rows del: load_operation_reads)
qed

text \<open>C20: The events recorded for an operation tell where it stands: read from the start, each fits the phase before
it and records a change the application allows, and the last leads to the phase of its row.  The events of its run
are numbered from zero without a gap, each carries the hash of the one before it, and each hash is the one computed
from the event's own content.\<close>

theorem journal_replays_to_the_row:
  assumes "recovery_reachable s" "r \<in> set (recovery_operations (rc_tables (fst s)))"
  shows "replay (operation_events (ror_operation r) (rc_tables (fst s))) = Some (Some (rop_phase (ror_operation r)))
    \<and> numbered_chain rev_run_sequence rev_previous_event_hash rev_event_hash 0
        (filter (\<lambda>e. rev_run_id e = rop_run_id (ror_operation r)) (recovery_events (rc_tables (fst s))))
    \<and> (\<forall>e \<in> set (recovery_events (rc_tables (fst s))).
        rev_event_hash e = recovery_event_hash (rev_run_id e) (rev_run_sequence e) (rev_operation_id e)
          (rev_from_phase e) (rev_to_phase e) (rev_process_instance_id e) (rev_payload_json e) (rev_previous_event_hash e))"
  using reachable_journal(1) [OF assms(1)] assms(2)
  unfolding journal_inv_def streams_chained_def event_sealed_def by blast

lemma journal_replays_to_the_row_witness:
  "replay (operation_events ex_validated_operation ex_validated) = Some (Some SOURCE_VALIDATED)"
  using journal_replays_to_the_row [OF ex_validated_reachable, of "\<lparr>ror_operation = ex_validated_operation, ror_updated_utc = ''u''\<rparr>"]
  by (simp add: ex_validated_rows) (simp add: ex_validated_operation_def)

text \<open>C21: No phase of a recovery operation is skipped.  When an operation stands at a phase of the success path, its
journal has recorded every phase that comes before it, in order: nothing is applied to the file system unless the
commit intent was recorded and its preconditions revalidated, nothing is recorded in the catalog unless the file was
verified in place, and nothing is cleaned that was not recorded in the catalog.  Only preserving the old target is
optional.\<close>

theorem recovery_phases_are_reached_in_order:
  assumes "recovery_reachable s" "r \<in> set (recovery_operations (rc_tables (fst s)))"
    "rop_phase (ror_operation r) \<in> set (OLD_TARGET_PRESERVED # RECOVERY_OPERATION_LINEAR_SUCCESS_PATH)"
  shows "subseq (phases_before (rop_phase (ror_operation r)) @ [rop_phase (ror_operation r)])
    (map rev_to_phase (operation_events (ror_operation r) (rc_tables (fst s))))"
  using reachable_journal(1) [OF assms(1)] assms(2,3)
  by (intro replay_follows_path) (simp_all add: journal_inv_def)

lemma recovery_phases_are_reached_in_order_witness:
  "subseq [PLANNED, SOURCE_VALIDATED] (map rev_to_phase (operation_events ex_validated_operation ex_validated))
   \<and> phases_before CATALOG_RECORDED = butlast (butlast RECOVERY_OPERATION_LINEAR_SUCCESS_PATH)"
proof
  have p: "rop_phase ex_validated_operation = SOURCE_VALIDATED" by code_simp
  have path: "SOURCE_VALIDATED \<in> set (OLD_TARGET_PRESERVED # RECOVERY_OPERATION_LINEAR_SUCCESS_PATH)"
    "phases_before SOURCE_VALIDATED = [PLANNED]" by code_simp+
  show "subseq [PLANNED, SOURCE_VALIDATED] (map rev_to_phase (operation_events ex_validated_operation ex_validated))"
    using recovery_phases_are_reached_in_order [OF ex_validated_reachable, of "\<lparr>ror_operation = ex_validated_operation, ror_updated_utc = ''u''\<rparr>"]
      path by (simp add: ex_validated_rows p)
  show "phases_before CATALOG_RECORDED = butlast (butlast RECOVERY_OPERATION_LINEAR_SUCCESS_PATH)" by code_simp
qed

text \<open>C22: The journal is written under the newest lease only.  Whatever call of a store makes a row of the operations
table appear, when it is done that row names a lease of the row's resource and owner which is held, and whose epoch
and fencing token are the row's and exceed those of every other lease the resource has had: a holder of an older
lease changes no operation.\<close>

theorem journal_writes_are_fenced:
  assumes "recovery_reachable s" "recovery_call s s'"
    "r \<in> set (recovery_operations (rc_tables (fst s')))" "r \<notin> set (recovery_operations (rc_tables (fst s)))"
  shows "\<exists>l \<in> set (resource_leases (rc_tables (fst s'))).
    rl_lease_id l = rop_lease_id (ror_operation r) \<and> rl_resource_key l = rop_lease_resource_key (ror_operation r)
    \<and> rl_owner_instance_id l = rop_owner_installation_id (ror_operation r) \<and> rl_state l = ACQUIRED
    \<and> lease_token l = (rop_ownership_epoch (ror_operation r), rop_fencing_token (ror_operation r))
    \<and> (\<forall>x \<in> set (resource_leases (rc_tables (fst s'))). rl_resource_key x = rl_resource_key l \<longrightarrow>
         x = l \<or> lease_token x < lease_token l)"
proof (rule matching_lease_is_newest)
  show "lease_inv (rc_tables (fst s'))"
    by (rule reachable_journal(4)) (rule recovery_next [OF assms(1) store_called [OF assms(2)]])
  show "require_active_matching_lease (ror_operation r) (rc_tables (fst s')) = Inr ()"
    using recovery_call_fenced [OF assms(2) recovery_reachable_inv [OF assms(1)] assms(3)] assms(4) by blast
qed

lemma journal_writes_are_fenced_witness:
  "\<exists>l \<in> set (resource_leases ex_planned). rl_lease_id l = ''l1'' \<and> rl_state l = ACQUIRED \<and> lease_token l = (1, 1)"
proof -
  have call: "recovery_call (\<lparr>rc_tables = ex_held, rc_begun = None\<rparr>, Map.empty) (\<lparr>rc_tables = ex_planned, rc_begun = None\<rparr>, Map.empty)"
    using plans_operation [OF ex_operation_facts(1), of "\<lparr>rc_tables = ex_held, rc_begun = None\<rparr>" Map.empty "''u''" True "''p1''" None]
    by (simp add: ex_plan)
  have "rop_ownership_epoch ex_operation = 1" "rop_fencing_token ex_operation = 1" by code_simp+
  then show ?thesis
    using journal_writes_are_fenced [OF ex_held_reachable call, of ex_row] by auto
qed

text \<open>C24: A directory recovery keeps to the path of its kind.  In every reachable state the states its events record
are a beginning of the success path of its kind, or such a beginning followed by the conflict state of the kind,
which nothing follows; each event starts from the state the one before it led to; the events are numbered from one
and linked by hash; and the row holds the state, the number and the hash of the last event.\<close>

theorem directory_recovery_follows_its_path:
  assumes "recovery_reachable s" "r \<in> set (directory_operations (rc_tables (fst s)))"
  defines "op \<equiv> dor_operation r" and "evs \<equiv> directory_events_of (dro_recovery_id (dor_operation r)) (rc_tables (fst s))"
  shows "map dre_to_state evs \<in> set (directory_histories (dro_kind op))
    \<and> map dre_from_state evs = None # map Some (butlast (map dre_to_state evs))
    \<and> numbered_chain dre_event_sequence dre_previous_event_hash dre_event_hash 1 evs
    \<and> dro_state op = dre_to_state (last evs) \<and> dro_event_sequence op = int (length evs)
    \<and> dro_event_hash op = Some (dre_event_hash (last evs))
    \<and> validate_directory_recovery_operation op = Inr ()"
proof -
  have inv: "directory_inv (rc_tables (fst s))" by (rule reachable_journal(2) [OF assms(1)])
  then have "directory_row_sound (rc_tables (fst s)) op" using assms(2) by (simp add: directory_inv_def op_def)
  moreover have "numbered_chain dre_event_sequence dre_previous_event_hash dre_event_hash 1 evs"
    using inv by (simp add: directory_inv_def streams_chained_def evs_def directory_events_of_def)
  ultimately show ?thesis
    by (simp add: directory_row_sound_def directory_history_fits_def evs_def op_def)
qed

lemma directory_recovery_follows_its_path_witness:
  "map dre_to_state (directory_events_of ''d1'' ex_with_directory) \<in> set (directory_histories CREATE)
   \<and> dro_state (first_directory_row ex_directory ''p1'' []) = dre_to_state (last (directory_events_of ''d1'' ex_with_directory))"
proof -
  have "dro_recovery_id (first_directory_row ex_directory ''p1'' []) = ''d1''"
    "dro_kind (first_directory_row ex_directory ''p1'' []) = CREATE"
    unfolding first_directory_row_def by (simp, code_simp)+
  then show ?thesis
    using directory_recovery_follows_its_path [OF ex_with_directory_reachable, of
        "\<lparr>dor_operation = first_directory_row ex_directory ''p1'' [], dor_updated_utc = ''u''\<rparr>"]
    by (simp add: ex_directory_rows)
qed

text \<open>The trigger of the directory table and the application agree.  For a recovery the store holds and a
transition of it to another state of its kind, with a process instance and, for a conflict, an error code, the
trigger admits the new state exactly if the application's validation accepts the transition.\<close>

theorem directory_trigger_agrees_with_validation:
  assumes "recovery_reachable s" "r \<in> set (directory_operations (rc_tables (fst s)))" "op = dor_operation r"
    and "drt_recovery_id tr = dro_recovery_id op" "drt_expected_state tr = dro_state op"
    "\<not> untrimmed (drt_process_instance_id tr)"
    "drt_next_state tr \<in> set (directory_states_of_kind (dro_kind op))" "drt_next_state tr \<noteq> dro_state op"
    "drt_next_state tr = CONFLICT_STATE_BY_KIND (dro_kind op) \<longrightarrow> \<not> opt_untrimmed (drt_last_error_code tr)"
  shows "directory_state_monotone (dro_state op) (drt_next_state tr) \<longleftrightarrow>
    validate_directory_recovery_transition op tr = Inr ()"
proof -
  have sound: "directory_row_sound (rc_tables (fst s)) op"
    using reachable_journal(2) [OF assms(1)] assms(2,3) by (simp add: directory_inv_def)
  note state = directory_row_state [OF sound]
  show ?thesis
    unfolding validated_directory_transition [OF state] trigger_admits_steps [OF state assms(7)]
    using directory_row_facts(3) [OF sound] assms(4-9) by auto
qed

lemma directory_trigger_agrees_with_validation_witness:
  "validate_directory_recovery_transition (first_directory_row ex_directory ''p1'' [])
     \<lparr>drt_recovery_id = ''d1'', drt_expected_state = Create_State DIRECTORY_PLANNED,
       drt_next_state = Create_State DIRECTORY_PARENT_VALIDATED, drt_process_instance_id = ''p1'', drt_payload = [],
       drt_managed_object_id = None, drt_last_error_code = None\<rparr> = Inr ()"
proof -
  let ?op = "first_directory_row ex_directory ''p1'' []"
  have "dro_recovery_id ?op = ''d1''" "dro_kind ?op = CREATE" "dro_state ?op = Create_State DIRECTORY_PLANNED"
    unfolding first_directory_row_def by (simp, code_simp)+
  moreover have "Create_State DIRECTORY_PARENT_VALIDATED \<in> set (directory_states_of_kind CREATE)" "\<not> untrimmed ''p1''"
    "directory_state_monotone (Create_State DIRECTORY_PLANNED) (Create_State DIRECTORY_PARENT_VALIDATED)"
    "CONFLICT_STATE_BY_KIND CREATE \<noteq> Create_State DIRECTORY_PARENT_VALIDATED"
    by code_simp+
  ultimately show ?thesis
    using directory_trigger_agrees_with_validation [OF ex_with_directory_reachable, of
        "\<lparr>dor_operation = ?op, dor_updated_utc = ''u''\<rparr>" ?op
        "\<lparr>drt_recovery_id = ''d1'', drt_expected_state = Create_State DIRECTORY_PLANNED,
          drt_next_state = Create_State DIRECTORY_PARENT_VALIDATED, drt_process_instance_id = ''p1'', drt_payload = [],
          drt_managed_object_id = None, drt_last_error_code = None\<rparr>"]
    by (simp add: ex_directory_rows)
qed

text \<open>C25: Moving an operation that is not recorded in the catalog to CLEANED leaves the transaction open.
validate_recovery_phase_transition accepts the move of an operation in any phase that is not terminal; the validation
of the updated operation refuses it, with an exception that is raised after the transaction has begun and that no
except clause names.  From then on every store takes the open transaction for one of its caller and commits nothing,
so that whatever they record and report as recorded is gone when the process restarts.\<close>

theorem refused_validation_leaves_transaction_open:
  assumes "recovery_reachable (c, dl)" "\<not> in_transaction c" "r \<in> set (recovery_operations (rc_tables c))"
    and q: "pt_run_id q = rop_run_id (ror_operation r)" "pt_operation_id q = rop_operation_id (ror_operation r)"
      "pt_expected_phase q = rop_phase (ror_operation r)" "pt_next_phase q = CLEANED"
      "\<not> blank (pt_process_instance_id q)" "pt_intent_segment_id q = None" "pt_intent_ordinal q = None"
      "pt_catalog_handoff_id q = None"
    and phase: "rop_phase (ror_operation r) \<notin> insert CATALOG_RECORDED (set RECOVERY_OPERATION_TERMINAL_PHASES)"
  shows "\<exists>code. record_operation_phase_transition now ds q (c, dl) =
      (Inl (Operation_Violation code), (c\<lparr>rc_begun := Some (rc_tables c)\<rparr>, dl))
    \<and> (\<forall>s'. recovery_call\<^sup>*\<^sup>* (c\<lparr>rc_begun := Some (rc_tables c)\<rparr>, dl) s' \<longrightarrow>
         rc_tables (rollback (fst s')) = rc_tables c)"
proof -
  let ?op = "ror_operation r" and ?t = "rc_tables c"
  let ?u = "apply_operation_metadata (?op\<lparr>rop_phase := CLEANED, rop_staging_retry_backoff_ms := None,
      rop_staging_retry_not_before_utc := None\<rparr>) (pt_operation_metadata q)"
  have inv: "journal_inv ?t" using reachable_journal(1) [OF assms(1)] by simp
  then have d: "distinct (map row_key (recovery_operations ?t))" and "operation_sound (segments ?t) ?op"
    using assms(3) by (auto simp: journal_inv_def segments_def)
  then have "rop_catalog_handoff_id ?op = None" using phase by (auto simp: operation_sound_def)
  then have "validate_recovery_operation ?u \<noteq> Inr ()" using cleaned_needs_handoff [of ?u] by auto
  then obtain code where code: "validate_recovery_operation ?u = Inl code"
    by (cases "validate_recovery_operation ?u") auto
  have "operation_after_transition ?op q = Inl (Operation_Violation code)"
    using q(4,6-8) code by (simp add: operation_after_transition_def transition_bindings_def raising_def Let_def)
  then have work: "phase_transition_work now ds q ?t = (Raises (Operation_Violation code), ?t)"
    using find_row [OF d assms(3)] q(1-3) by (simp add: phase_transition_work_def work_then_check)
  have "recovery_handlers (Operation_Violation code) = None" by (simp add: recovery_handlers_def)
  then have "transaction recovery_handlers (phase_transition_work now ds q) c =
      (Inl (Operation_Violation code), \<lparr>rc_tables = ?t, rc_begun = Some ?t\<rparr>)"
    using transaction_alone(4) [where body = "phase_transition_work now ds q" and translate = recovery_handlers,
        OF assms(2) work refl] by simp
  moreover have "validate_process_instance_id (pt_process_instance_id q) = Inr ()"
    "validate_recovery_phase_transition (pt_expected_phase q) (pt_next_phase q) = Inr ()"
    using q(3-5) phase by (auto simp: validate_process_instance_id_def validate_recovery_phase_transition_def phase_sets)
  ultimately have "record_operation_phase_transition now ds q (c, dl) =
      (Inl (Operation_Violation code), (c\<lparr>rc_begun := Some ?t\<rparr>, dl))"
    by (cases c) (simp add: record_operation_phase_transition_def raising_def)
  moreover have "rc_tables (rollback (fst s')) = ?t" if "recovery_call\<^sup>*\<^sup>* (c\<lparr>rc_begun := Some ?t\<rparr>, dl) s'" for s'
    using recovery_calls_in_transaction [OF that] by (simp add: in_transaction_def rollback_def)
  ultimately show ?thesis by blast
qed

lemma refused_validation_leaves_transaction_open_witness:
  "\<exists>code. record_operation_phase_transition ''u'' True (ex_transition\<lparr>pt_next_phase := CLEANED\<rparr>)
     (\<lparr>rc_tables = ex_planned, rc_begun = None\<rparr>, Map.empty) =
     (Inl (Operation_Violation code), (\<lparr>rc_tables = ex_planned, rc_begun = Some ex_planned\<rparr>, Map.empty))"
proof -
  have "\<not> blank ''p1''" "PLANNED \<notin> insert CATALOG_RECORDED (set RECOVERY_OPERATION_TERMINAL_PHASES)" by code_simp+
  then show ?thesis
    using refused_validation_leaves_transaction_open [OF ex_planned_reachable, of ex_row
        "ex_transition\<lparr>pt_next_phase := CLEANED\<rparr>" "''u''" True]
    by (auto simp: in_transaction_def ex_transition_def)
qed

end
