(* ===== verification/Run_Progress.thy ===== *)
theory Run_Progress
  imports Run_Steps
begin

text \<open>
  The progress read model: \<open>load_run_progress_snapshot\<close> of \<open>adapters/sqlite/runs.py\<close> and the polling
  query of \<open>application/progress_read_models.py\<close>.  The fields of the snapshot that the store over both databases
  fills in (transfers, the active file, the rate) keep their defaults here; \<open>Live_Progress\<close> is that store.  The
  constant \<open>schema_version\<close> is left out.  \<open>bytes_per_second\<close>, a quotient of two numbers, is kept as the pair of the
  bytes and the microseconds in which they were transferred.
\<close>

record RunTargetProgressSnapshot =
  rtp_run_target_id :: string
  rtp_endpoint_id :: string
  rtp_endpoint_revision_id :: string
  rtp_state :: RunTargetState
  rtp_planned_operations :: int
  rtp_completed_operations :: int
  rtp_planned_bytes :: int
  rtp_completed_bytes :: int
  rtp_warning_count :: int
  rtp_error_count :: int
  rtp_endpoint_wait_attempts :: int
  rtp_endpoint_wait_total_backoff_ms :: int
  rtp_endpoint_retry_backoff_ms :: "int option"
  rtp_endpoint_retry_not_before_utc :: "string option"
  rtp_endpoint_wait_reason_code :: "string option"
  rtp_endpoint_wait_started_utc :: "string option"

record RunProgressSnapshot =
  rps_run_id :: string
  rps_job_id :: string
  rps_job_revision_id :: string
  rps_plan_id :: string
  rps_sequence_no :: int
  rps_state :: RunState
  rps_terminal :: bool
  rps_started_utc :: string
  rps_finished_utc :: "string option"
  rps_planned_operations :: int
  rps_completed_operations :: int
  rps_planned_bytes :: int
  rps_completed_bytes :: int
  rps_warning_count :: int
  rps_error_count :: int
  rps_targets :: "RunTargetProgressSnapshot list"
  rps_action_required :: bool
  rps_deferred_operation_count :: int
  rps_deferred_planned_bytes :: int
  rps_transferred_operations :: int
  rps_transferred_bytes :: int
  rps_active_relative_path :: "string option"
  rps_active_phase :: "string option"
  rps_active_planned_bytes :: "int option"
  rps_active_staging_failure_count :: "int option"
  rps_active_retry_backoff_ms :: "int option"
  rps_active_retry_not_before_utc :: "string option"
  rps_active_last_error_code :: "string option"
  rps_bytes_per_second :: "(int \<times> int) option"
  rps_eta_seconds :: "int option"
  rps_stop_requested :: bool

definition MAX_PROGRESS_SNAPSHOT_TARGETS :: nat where "MAX_PROGRESS_SNAPSHOT_TARGETS = 32"
definition MAX_PROGRESS_QUERY_ID_LENGTH :: nat where "MAX_PROGRESS_QUERY_ID_LENGTH = 256"
definition MAX_PROGRESS_ACTIVE_PATH_LENGTH :: int where "MAX_PROGRESS_ACTIVE_PATH_LENGTH = 32767"

section \<open>Validation of snapshots\<close>

definition validate_snapshot_text :: "string \<Rightarrow> string \<Rightarrow> unit result" where
  "validate_snapshot_text value error_code =
     raise_if (value = [] \<or> length value > MAX_PROGRESS_QUERY_ID_LENGTH) error_code"

definition validate_non_negative_counts :: "int list \<Rightarrow> unit result" where
  "validate_non_negative_counts values = raise_if (list_ex (\<lambda>v. v < 0) values) ''RUN_PROGRESS_COUNT_INVALID''"

definition snapshot_utc_invalid :: "string option \<Rightarrow> bool" where
  "snapshot_utc_invalid v =
     (case v of None \<Rightarrow> False
      | Some s \<Rightarrow> blank s \<or> length s > 64 \<or> s = [] \<or> last s \<noteq> CHR ''Z'')"

definition target_snapshot_post_init :: "RunTargetProgressSnapshot \<Rightarrow> unit result" where
  "target_snapshot_post_init t =
     and_then (validate_snapshot_text (rtp_run_target_id t) ''RUN_PROGRESS_TARGET_ID_INVALID'') (\<lambda>_.
     and_then (validate_snapshot_text (rtp_endpoint_id t) ''RUN_PROGRESS_ENDPOINT_ID_INVALID'') (\<lambda>_.
     and_then (validate_snapshot_text (rtp_endpoint_revision_id t) ''RUN_PROGRESS_ENDPOINT_REVISION_ID_INVALID'') (\<lambda>_.
     and_then (validate_non_negative_counts [rtp_planned_operations t, rtp_completed_operations t,
         rtp_planned_bytes t, rtp_completed_bytes t, rtp_warning_count t, rtp_error_count t,
         rtp_endpoint_wait_attempts t, rtp_endpoint_wait_total_backoff_ms t]) (\<lambda>_.
     and_then (raise_if (case rtp_endpoint_retry_backoff_ms t of None \<Rightarrow> False | Some b \<Rightarrow> b < 1 \<or> b > 300000)
         ''RUN_PROGRESS_ENDPOINT_BACKOFF_INVALID'') (\<lambda>_.
     and_then (raise_if (snapshot_utc_invalid (rtp_endpoint_retry_not_before_utc t)
           \<or> snapshot_utc_invalid (rtp_endpoint_wait_started_utc t)) ''RUN_PROGRESS_ENDPOINT_UTC_INVALID'') (\<lambda>_.
       case rtp_endpoint_wait_reason_code t of None \<Rightarrow> Inr ()
       | Some code \<Rightarrow> validate_snapshot_text code ''RUN_PROGRESS_ENDPOINT_WAIT_REASON_INVALID''))))))"

definition snapshot_active_post_init :: "RunProgressSnapshot \<Rightarrow> unit result" where
  "snapshot_active_post_init p =
     and_then (raise_if (case rps_active_relative_path p of None \<Rightarrow> False
         | Some s \<Rightarrow> s = [] \<or> int (length s) > MAX_PROGRESS_ACTIVE_PATH_LENGTH) ''RUN_PROGRESS_ACTIVE_PATH_INVALID'') (\<lambda>_.
     and_then (case rps_active_phase p of None \<Rightarrow> Inr ()
         | Some s \<Rightarrow> validate_snapshot_text s ''RUN_PROGRESS_ACTIVE_PHASE_INVALID'') (\<lambda>_.
     and_then (raise_if (case rps_active_planned_bytes p of None \<Rightarrow> False | Some n \<Rightarrow> n < 0)
         ''RUN_PROGRESS_ACTIVE_BYTES_INVALID'') (\<lambda>_.
     and_then (raise_if (case rps_active_staging_failure_count p of None \<Rightarrow> False | Some n \<Rightarrow> n < 0)
         ''RUN_PROGRESS_ACTIVE_FAILURE_COUNT_INVALID'') (\<lambda>_.
     and_then (raise_if ((rps_active_retry_backoff_ms p = None) \<noteq> (rps_active_retry_not_before_utc p = None))
         ''RUN_PROGRESS_ACTIVE_RETRY_PAIR_INVALID'') (\<lambda>_.
     and_then (raise_if (case rps_active_retry_backoff_ms p of None \<Rightarrow> False | Some b \<Rightarrow> \<not> (1 \<le> b \<and> b \<le> 30000))
         ''RUN_PROGRESS_ACTIVE_RETRY_BACKOFF_INVALID'') (\<lambda>_.
     and_then (raise_if (case rps_active_retry_not_before_utc p of None \<Rightarrow> False
         | Some s \<Rightarrow> s = [] \<or> last s \<noteq> CHR ''Z'' \<or> length s > 64) ''RUN_PROGRESS_ACTIVE_RETRY_UTC_INVALID'') (\<lambda>_.
     and_then (case rps_active_last_error_code p of None \<Rightarrow> Inr ()
         | Some s \<Rightarrow> validate_snapshot_text s ''RUN_PROGRESS_ACTIVE_ERROR_CODE_INVALID'') (\<lambda>_.
     and_then (raise_if (case rps_bytes_per_second p of None \<Rightarrow> False | Some (b, _) \<Rightarrow> b < 0)
         ''RUN_PROGRESS_SPEED_INVALID'') (\<lambda>_.
       raise_if (case rps_eta_seconds p of None \<Rightarrow> False | Some n \<Rightarrow> n < 0) ''RUN_PROGRESS_ETA_INVALID'')))))))))"

definition snapshot_post_init :: "RunProgressSnapshot \<Rightarrow> unit result" where
  "snapshot_post_init p =
     and_then (validate_snapshot_text (rps_run_id p) ''RUN_PROGRESS_RUN_ID_INVALID'') (\<lambda>_.
     and_then (validate_snapshot_text (rps_job_id p) ''RUN_PROGRESS_JOB_ID_INVALID'') (\<lambda>_.
     and_then (validate_snapshot_text (rps_job_revision_id p) ''RUN_PROGRESS_JOB_REVISION_ID_INVALID'') (\<lambda>_.
     and_then (validate_snapshot_text (rps_plan_id p) ''RUN_PROGRESS_PLAN_ID_INVALID'') (\<lambda>_.
     and_then (raise_if (rps_sequence_no p < 0) ''RUN_PROGRESS_SEQUENCE_INVALID'') (\<lambda>_.
     and_then (raise_if (rps_started_utc p = [] \<or> length (rps_started_utc p) > 64)
         ''RUN_PROGRESS_STARTED_UTC_INVALID'') (\<lambda>_.
     and_then (raise_if (case rps_finished_utc p of None \<Rightarrow> False | Some f \<Rightarrow> f = [] \<or> length f > 64)
         ''RUN_PROGRESS_FINISHED_UTC_INVALID'') (\<lambda>_.
     and_then (raise_if (length (rps_targets p) > MAX_PROGRESS_SNAPSHOT_TARGETS)
         ''RUN_PROGRESS_TARGET_LIMIT_EXCEEDED'') (\<lambda>_.
     and_then (validate_non_negative_counts [rps_planned_operations p, rps_completed_operations p, rps_planned_bytes p,
         rps_completed_bytes p, rps_warning_count p, rps_error_count p, rps_transferred_operations p,
         rps_transferred_bytes p, rps_deferred_operation_count p, rps_deferred_planned_bytes p]) (\<lambda>_.
       snapshot_active_post_init p)))))))))"

section \<open>The snapshot of a run\<close>

text \<open>\<open>_run_action_metadata\<close>: a Boolean is an \<open>int\<close> for \<open>isinstance\<close>, which the code excludes.\<close>

definition run_action_metadata :: "string \<Rightarrow> (bool \<times> int \<times> int) result" where
  "run_action_metadata payload =
     and_then (json_object payload) (\<lambda>summary.
       let field = (\<lambda>k d. case map_of summary k of None \<Rightarrow> d | Some v \<Rightarrow> v)
       in case (field ''action_required'' (JBool False), field ''deferred_operation_count'' (JInt 0),
                field ''deferred_planned_bytes'' (JInt 0)) of
            (JBool action, JInt deferred, JInt bytes) \<Rightarrow>
              if deferred < 0 \<or> bytes < 0 \<or> action \<noteq> (deferred > 0) then Inl ''RUN_ACTION_REQUIRED_METADATA_INVALID''
              else Inr (action, deferred, bytes)
          | _ \<Rightarrow> Inl ''RUN_ACTION_REQUIRED_METADATA_INVALID'')"

definition target_waits :: "catalog \<Rightarrow> target_row \<Rightarrow> wait_row list" where
  "target_waits db t =
     sort_key we_id (filter (\<lambda>e. we_run_id e = tr_run_id t \<and> we_run_target_id e = tr_id t) (c_wait_events db))"

definition last_option :: "'a list \<Rightarrow> 'a option" where
  "last_option xs = (if xs = [] then None else Some (last xs))"

definition target_snapshot :: "catalog \<Rightarrow> target_row \<Rightarrow> RunTargetProgressSnapshot" where
  "target_snapshot db t =
     (let waits = target_waits db t in
      \<lparr>rtp_run_target_id = tr_id t, rtp_endpoint_id = tr_endpoint_id t,
       rtp_endpoint_revision_id = tr_endpoint_revision_id t, rtp_state = tr_state t,
       rtp_planned_operations = tr_planned_operations t, rtp_completed_operations = tr_completed_operations t,
       rtp_planned_bytes = tr_planned_bytes t, rtp_completed_bytes = tr_completed_bytes t,
       rtp_warning_count = tr_warning_count t, rtp_error_count = tr_error_count t,
       rtp_endpoint_wait_attempts = int (length waits),
       rtp_endpoint_wait_total_backoff_ms = sum_list (map we_backoff_ms waits),
       rtp_endpoint_retry_backoff_ms = map_option we_backoff_ms (last_option waits),
       rtp_endpoint_retry_not_before_utc = map_option we_retry_not_before_utc (last_option waits),
       rtp_endpoint_wait_reason_code = map_option we_reason_code (last_option waits),
       rtp_endpoint_wait_started_utc =
         (case sort (map we_observed_utc waits) of [] \<Rightarrow> None | u # _ \<Rightarrow> Some u)\<rparr>)"

fun validate_targets :: "RunTargetProgressSnapshot list \<Rightarrow> unit result" where
  "validate_targets [] = Inr ()"
| "validate_targets (t # ts) = and_then (target_snapshot_post_init t) (\<lambda>_. validate_targets ts)"

definition progress_snapshot ::
  "run_row \<Rightarrow> target_row list \<Rightarrow> stop_row option \<Rightarrow> RunTargetProgressSnapshot list \<Rightarrow> bool \<times> int \<times> int \<Rightarrow> RunProgressSnapshot" where
  "progress_snapshot r rows stop targets meta =
     \<lparr>rps_run_id = rr_id r, rps_job_id = rr_job_id r,
      rps_job_revision_id = rr_job_revision_id r, rps_plan_id = rr_plan_id r,
      rps_sequence_no = rr_row_version r + sum_list (map tr_row_version rows)
        + (case stop of None \<Rightarrow> 0 | Some s \<Rightarrow> st_row_version s),
      rps_state = rr_state r, rps_terminal = (rr_state r \<in> set TERMINAL_RUN_STATES),
      rps_started_utc = rr_started_utc r, rps_finished_utc = rr_finished_utc r,
      rps_planned_operations = rr_planned_operations r,
      rps_completed_operations = sum_list (map rtp_completed_operations targets),
      rps_planned_bytes = rr_planned_bytes r,
      rps_completed_bytes = sum_list (map rtp_completed_bytes targets),
      rps_warning_count = rr_warning_count r, rps_error_count = rr_error_count r,
      rps_targets = targets, rps_action_required = fst meta,
      rps_deferred_operation_count = fst (snd meta), rps_deferred_planned_bytes = snd (snd meta),
      rps_transferred_operations = 0, rps_transferred_bytes = 0, rps_active_relative_path = None,
      rps_active_phase = None, rps_active_planned_bytes = None, rps_active_staging_failure_count = None,
      rps_active_retry_backoff_ms = None, rps_active_retry_not_before_utc = None, rps_active_last_error_code = None,
      rps_bytes_per_second = None, rps_eta_seconds = None,
      rps_stop_requested = (case stop of None \<Rightarrow> False | Some s \<Rightarrow> st_state s = STOP_PENDING)\<rparr>"

definition db_load_run_progress_snapshot :: "string \<Rightarrow> catalog \<Rightarrow> RunProgressSnapshot option result" where
  "db_load_run_progress_snapshot run_id db =
     (case List.find (\<lambda>r. rr_id r = run_id) (c_runs db) of
        None \<Rightarrow> Inr None
      | Some r \<Rightarrow>
          let rows = take (MAX_PROGRESS_SNAPSHOT_TARGETS + 1)
                (sort_key tr_id (filter (\<lambda>t. tr_run_id t = run_id) (c_run_targets db)))
          in if length rows > MAX_PROGRESS_SNAPSHOT_TARGETS then Inl ''RUN_PROGRESS_TARGET_LIMIT_EXCEEDED''
             else
               let stop = List.find (\<lambda>s. st_run_id s = run_id) (c_run_stop_requests db);
                   targets = map (target_snapshot db) rows
               in and_then (validate_targets targets) (\<lambda>_.
                  and_then (run_action_metadata (rr_summary_json r)) (\<lambda>meta.
                    let p = progress_snapshot r rows stop targets meta
                    in and_then (snapshot_post_init p) (\<lambda>_. Inr (Some p)))))"

section \<open>The polling query\<close>

record RunProgressSnapshotResult =
  rpr_run_id :: string
  rpr_read_model_available :: bool
  rpr_run_found :: bool
  rpr_changed :: bool
  rpr_sequence_reset :: bool
  rpr_requested_after_sequence_no :: "int option"
  rpr_snapshot :: "RunProgressSnapshot option"

text \<open>The argument \<open>after_sequence_no\<close>, which a caller can get wrong as a Boolean.\<close>

datatype sequence_argument = SeqBool bool | SeqInt int

definition normalize_run_id :: "string \<Rightarrow> string result" where
  "normalize_run_id run_id =
     (let normalized = strip run_id in
      if normalized = [] then Inl ''RUN_PROGRESS_REQUIRES_RUN_ID''
      else if length normalized > MAX_PROGRESS_QUERY_ID_LENGTH then Inl ''RUN_PROGRESS_RUN_ID_TOO_LONG''
      else Inr normalized)"

definition normalize_after_sequence :: "sequence_argument option \<Rightarrow> int option result" where
  "normalize_after_sequence after =
     (case after of
        None \<Rightarrow> Inr None
      | Some (SeqBool _) \<Rightarrow> Inl ''RUN_PROGRESS_SEQUENCE_INVALID''
      | Some (SeqInt n) \<Rightarrow> if n < 0 then Inl ''RUN_PROGRESS_SEQUENCE_INVALID'' else Inr (Some n))"

definition query_run_progress ::
  "(string \<Rightarrow> 's \<Rightarrow> RunProgressSnapshot option result) option \<Rightarrow> string \<Rightarrow> sequence_argument option \<Rightarrow> 's \<Rightarrow>
   RunProgressSnapshotResult result" where
  "query_run_progress store run_id after s =
     and_then (normalize_run_id run_id) (\<lambda>i.
     and_then (normalize_after_sequence after) (\<lambda>seq.
       let none = \<lparr>rpr_run_id = i, rpr_read_model_available = True, rpr_run_found = False, rpr_changed = False,
                   rpr_sequence_reset = False, rpr_requested_after_sequence_no = seq, rpr_snapshot = None\<rparr>
       in case store of
            None \<Rightarrow> Inr (none\<lparr>rpr_read_model_available := False\<rparr>)
          | Some load \<Rightarrow>
              and_then (load i s) (\<lambda>snapshot.
                case snapshot of
                  None \<Rightarrow> Inr none
                | Some p \<Rightarrow>
                    let unchanged = (seq = Some (rps_sequence_no p))
                    in Inr (none\<lparr>rpr_run_found := True, rpr_changed := \<not> unchanged,
                         rpr_sequence_reset := (case seq of None \<Rightarrow> False | Some n \<Rightarrow> n > rps_sequence_no p),
                         rpr_snapshot := (if unchanged then None else Some p)\<rparr>))))"

end
