(* ===== verification/Run_Progress_Laws.thy ===== *)
theory Run_Progress_Laws
  imports Run_Progress
begin

text \<open>
  A client that polls the progress of a run compares sequence numbers only.  Here it is shown that
  every step of the store either leaves everything the snapshot is made from alone or raises the
  sequence number, so an equal number means an equal snapshot.
\<close>

section \<open>What a snapshot is made from\<close>

definition run_view :: "string \<Rightarrow> catalog \<Rightarrow> run_row option \<times> target_row list \<times> stop_row option \<times> wait_row list" where
  "run_view i db =
     (List.find (\<lambda>r. rr_id r = i) (c_runs db), filter (\<lambda>t. tr_run_id t = i) (c_run_targets db),
      List.find (\<lambda>s. st_run_id s = i) (c_run_stop_requests db), filter (\<lambda>e. we_run_id e = i) (c_wait_events db))"

fun view_version :: "run_row option \<times> target_row list \<times> stop_row option \<times> wait_row list \<Rightarrow> int" where
  "view_version (r, ts, s, ws) =
     (case r of None \<Rightarrow> 0 | Some r \<Rightarrow> rr_row_version r) + sum_list (map tr_row_version ts)
       + (case s of None \<Rightarrow> 0 | Some s \<Rightarrow> st_row_version s)"

lemma target_waits_view:
  "tr_run_id t = i \<Longrightarrow> target_waits db t =
     sort_key we_id (filter (\<lambda>e. we_run_target_id e = tr_id t) (filter (\<lambda>e. we_run_id e = i) (c_wait_events db)))"
  by (simp add: target_waits_def conj_commute)

lemma snapshot_cong:
  assumes "run_view i db' = run_view i db"
  shows "db_load_run_progress_snapshot i db' = db_load_run_progress_snapshot i db"
proof -
  have r: "List.find (\<lambda>r. rr_id r = i) (c_runs db') = List.find (\<lambda>r. rr_id r = i) (c_runs db)"
    and t: "filter (\<lambda>t. tr_run_id t = i) (c_run_targets db') = filter (\<lambda>t. tr_run_id t = i) (c_run_targets db)"
    and s: "List.find (\<lambda>s. st_run_id s = i) (c_run_stop_requests db') = List.find (\<lambda>s. st_run_id s = i) (c_run_stop_requests db)"
    and w: "filter (\<lambda>e. we_run_id e = i) (c_wait_events db') = filter (\<lambda>e. we_run_id e = i) (c_wait_events db)"
    using assms by (simp_all add: run_view_def)
  have "target_snapshot db' t = target_snapshot db t" if "tr_run_id t = i" for t
    using that w by (simp add: target_snapshot_def target_waits_view)
  then have m: "map (target_snapshot db') (take k (sort_key tr_id (filter (\<lambda>t. tr_run_id t = i) (c_run_targets db)))) =
      map (target_snapshot db) (take k (sort_key tr_id (filter (\<lambda>t. tr_run_id t = i) (c_run_targets db))))" for k
    by (intro map_cong refl) (auto dest!: in_set_takeD)
  show ?thesis unfolding db_load_run_progress_snapshot_def r s t Let_def m ..
qed

lemma snapshot_sequence:
  assumes "db_load_run_progress_snapshot i db = Inr (Some p)"
  shows "rps_sequence_no p = view_version (run_view i db)" "fst (run_view i db) \<noteq> None"
proof -
  let ?rows = "sort_key tr_id (filter (\<lambda>t. tr_run_id t = i) (c_run_targets db))"
  obtain r where r: "List.find (\<lambda>r. rr_id r = i) (c_runs db) = Some r"
    using assms by (cases "List.find (\<lambda>r. rr_id r = i) (c_runs db)") (simp_all add: db_load_run_progress_snapshot_def)
  then show "fst (run_view i db) \<noteq> None" by (simp add: run_view_def)
  have "length (take (MAX_PROGRESS_SNAPSHOT_TARGETS + 1) ?rows) \<le> MAX_PROGRESS_SNAPSHOT_TARGETS"
    using assms r by (auto simp: db_load_run_progress_snapshot_def Let_def split: if_splits)
  then have a: "take (MAX_PROGRESS_SNAPSHOT_TARGETS + 1) ?rows = ?rows" by simp
  have "sum_list (map tr_row_version ?rows) = sum_list (map tr_row_version (filter (\<lambda>t. tr_run_id t = i) (c_run_targets db)))"
    by (simp add: sum_mset_sum_list [symmetric] del: sum_mset_sum_list)
  then show "rps_sequence_no p = view_version (run_view i db)"
    using assms unfolding db_load_run_progress_snapshot_def r a Let_def
    by (auto simp: run_view_def r progress_snapshot_def split: if_splits)
qed

section \<open>Steps raise the number\<close>

definition stop_evolves :: "stop_row \<Rightarrow> stop_row \<Rightarrow> bool" where
  "stop_evolves s s' \<longleftrightarrow> s' = s \<or> st_run_id s' = st_run_id s \<and> st_row_version s < st_row_version s'"

text \<open>What a step does to the tables that \<open>evolves\<close> says nothing about.\<close>

definition ticks :: "catalog \<Rightarrow> catalog \<Rightarrow> bool" where
  "ticks db db' \<longleftrightarrow>
     (\<forall>t \<in> set (drop (length (c_run_targets db)) (c_run_targets db')). 1 \<le> tr_row_version t)
     \<and> (\<exists>ss ns. c_run_stop_requests db' = ss @ ns \<and> list_all2 stop_evolves (c_run_stop_requests db) ss
          \<and> (\<forall>s \<in> set ns. 1 \<le> st_row_version s))
     \<and> (\<exists>ws. c_wait_events db' = c_wait_events db @ ws
          \<and> (\<forall>w \<in> set ws. \<exists>t \<in> set (c_run_targets db') - set (c_run_targets db). tr_run_id t = we_run_id w))"

definition quiet :: "catalog \<Rightarrow> catalog \<Rightarrow> bool" where
  "quiet db db' \<longleftrightarrow> length (c_run_targets db') = length (c_run_targets db)
     \<and> c_run_stop_requests db' = c_run_stop_requests db \<and> c_wait_events db' = c_wait_events db"

lemma stop_evolves_refl [simp]: "stop_evolves s s"
  by (simp add: stop_evolves_def)

lemma stops_refl [simp]: "list_all2 stop_evolves ss ss"
  by (simp add: list.rel_refl)

lemma ticks_intro:
  assumes "length (c_run_targets db') = length (c_run_targets db)"
    "c_run_stop_requests db' = ss @ ns" "list_all2 stop_evolves (c_run_stop_requests db) ss"
    "\<And>s. s \<in> set ns \<Longrightarrow> 1 \<le> st_row_version s" "c_wait_events db' = c_wait_events db @ ws"
    "\<And>w. w \<in> set ws \<Longrightarrow> \<exists>t \<in> set (c_run_targets db') - set (c_run_targets db). tr_run_id t = we_run_id w"
  shows "ticks db db'"
  unfolding ticks_def using assms by (intro conjI exI [of _ ss] exI [of _ ns] exI [of _ ws]) auto

lemma quiet_ticks: "quiet db db' \<Longrightarrow> ticks db db'"
  unfolding quiet_def by (rule ticks_intro [of _ _ "c_run_stop_requests db" "[]" "[]"]) auto

lemma quiet_refl [simp]: "quiet db db"
  by (simp add: quiet_def)

lemma quiet_update [simp]:
  "quiet db (update_runs p f db') = quiet db db'" "quiet db (update_targets q g db') = quiet db db'"
  by (simp_all add: quiet_def update_runs_def update_targets_def sql_update_def)

lemma quiet_ends [intro]:
  "quiet db a \<Longrightarrow> quiet db b \<Longrightarrow> quiet db (snd (give_up outer a b x))"
  "quiet db a \<Longrightarrow> quiet db b \<Longrightarrow> quiet db (snd (return_run outer a b i))"
  "quiet db a \<Longrightarrow> quiet db b \<Longrightarrow> quiet db (snd (return_target outer a b i j))"
  by (simp_all add: give_up_def return_run_def return_target_def split: sum.split option.split)

lemma ticks_ends:
  "ticks db a \<Longrightarrow> ticks db b \<Longrightarrow> ticks db (snd (give_up outer a b x))"
  "ticks db a \<Longrightarrow> ticks db b \<Longrightarrow> ticks db (snd (return_run outer a b i))"
  by (simp_all add: give_up_def return_run_def split: sum.split option.split)

lemma ticks_refl [simp]: "ticks db db"
  by (simp add: quiet_ticks)

lemma versions_tick:
  fixes v :: "'a \<Rightarrow> int"
  assumes "list_all2 R xs ys" "\<And>x y. R x y \<Longrightarrow> y = x \<or> v x < v y"
  shows "ys = xs \<or> sum_list (map v xs) < sum_list (map v ys)"
  using assms(1) by (induction rule: list_all2_induct) (use assms(2) in fastforce)+

lemma new_versions:
  fixes v :: "'a \<Rightarrow> int"
  assumes "\<And>x. x \<in> set xs \<Longrightarrow> 1 \<le> v x"
  shows "xs = [] \<or> 0 < sum_list (map v xs)"
  using assms
proof (induction xs)
  case (Cons x xs)
  then show ?case using Cons.prems [of x] by fastforce
qed simp

lemma list_all2_filter:
  assumes "list_all2 R xs ys" "\<And>x y. R x y \<Longrightarrow> P y = P x"
  shows "list_all2 R (filter P xs) (filter P ys)"
  using assms(1) by (induction rule: list_all2_induct) (auto simp: assms(2))

lemma list_all2_find:
  assumes "list_all2 R xs ys" "\<And>x y. R x y \<Longrightarrow> P y = P x"
  shows "rel_option R (List.find P xs) (List.find P ys)"
  using assms(1) by (induction rule: list_all2_induct) (auto simp: assms(2))

lemma filter_eqD:
  assumes "filter P xs = filter P ys" "x \<in> set xs" "P x"
  shows "x \<in> set ys"
proof -
  have "x \<in> set (filter P xs)" using assms(2,3) by simp
  then show ?thesis unfolding assms(1) by simp
qed

lemma targets_tick:
  assumes "list_all2 target_evolves ts us" "\<And>t. t \<in> set ns \<Longrightarrow> 1 \<le> tr_row_version t"
  shows "filter (\<lambda>t. tr_run_id t = i) (us @ ns) = filter (\<lambda>t. tr_run_id t = i) ts
    \<or> sum_list (map tr_row_version (filter (\<lambda>t. tr_run_id t = i) ts))
      < sum_list (map tr_row_version (filter (\<lambda>t. tr_run_id t = i) (us @ ns)))"
proof -
  have "list_all2 target_evolves (filter (\<lambda>t. tr_run_id t = i) ts) (filter (\<lambda>t. tr_run_id t = i) us)"
    by (rule list_all2_filter [OF assms(1)]) (simp add: target_evolves_keys)
  from versions_tick [OF this, of tr_row_version] new_versions [of "filter (\<lambda>t. tr_run_id t = i) ns" tr_row_version] assms(2)
  show ?thesis by (fastforce simp: target_evolves_def)
qed

lemma stops_tick:
  assumes "list_all2 stop_evolves ss us" "\<And>s. s \<in> set ns \<Longrightarrow> 1 \<le> st_row_version s"
  shows "List.find (\<lambda>s. st_run_id s = i) (us @ ns) = List.find (\<lambda>s. st_run_id s = i) ss
    \<or> (case List.find (\<lambda>s. st_run_id s = i) ss of None \<Rightarrow> 0 | Some s \<Rightarrow> st_row_version s)
      < (case List.find (\<lambda>s. st_run_id s = i) (us @ ns) of None \<Rightarrow> 0 | Some s \<Rightarrow> st_row_version s)"
proof -
  have "rel_option stop_evolves (List.find (\<lambda>s. st_run_id s = i) ss) (List.find (\<lambda>s. st_run_id s = i) us)"
    by (rule list_all2_find [OF assms(1)]) (auto simp: stop_evolves_def)
  then show ?thesis
  proof (cases rule: option.rel_cases)
    case None
    show ?thesis
    proof (cases "List.find (\<lambda>s. st_run_id s = i) ns")
      case new: (Some s)
      then have "1 \<le> st_row_version s" using assms(2) find_Some_iff' [OF new] by blast
      then show ?thesis using None new by (simp add: find_append)
    qed (simp add: None find_append)
  next
    case (Some s s')
    then show ?thesis by (auto simp: find_append stop_evolves_def)
  qed
qed

lemma view_or_tick:
  assumes e: "evolves db db'" and k: "ticks db db'" and r: "fst (run_view i db) \<noteq> None"
  shows "run_view i db' = run_view i db \<or> view_version (run_view i db) < view_version (run_view i db')"
proof -
  let ?T = "\<lambda>db. filter (\<lambda>t. tr_run_id t = i) (c_run_targets db)" and ?R = "\<lambda>db. List.find (\<lambda>r. rr_id r = i) (c_runs db)"
    and ?S = "\<lambda>db. List.find (\<lambda>s. st_run_id s = i) (c_run_stop_requests db)"
    and ?W = "\<lambda>db. filter (\<lambda>e. we_run_id e = i) (c_wait_events db)"
  obtain rs ts where rs: "c_runs db' = rs @ drop (length rs) (c_runs db')" "list_all2 run_evolves (c_runs db) rs"
    and ts: "c_run_targets db' = ts @ drop (length ts) (c_run_targets db')" "list_all2 target_evolves (c_run_targets db) ts"
    using e unfolding evolves_def by blast
  have rel: "rel_option run_evolves (?R db) (List.find (\<lambda>r. rr_id r = i) rs)"
    by (rule list_all2_find [OF rs(2)]) (simp add: run_evolves_keys)
  obtain q where q: "?R db = Some q" using r by (auto simp: run_view_def)
  obtain q' where q': "?R db' = Some q'" "run_evolves q q'"
  proof -
    obtain q' where "List.find (\<lambda>r. rr_id r = i) rs = Some q'" "run_evolves q q'"
      using rel q by (cases "List.find (\<lambda>r. rr_id r = i) rs") auto
    moreover from this have "?R db' = Some q'" by (subst rs(1)) (simp add: find_append)
    ultimately show ?thesis using that by blast
  qed
  have run: "q' = q \<or> rr_row_version q < rr_row_version q'" using q'(2) by (auto simp: run_evolves_def)
  have targets: "?T db' = ?T db \<or> sum_list (map tr_row_version (?T db)) < sum_list (map tr_row_version (?T db'))"
    using targets_tick [OF ts(2), of "drop (length ts) (c_run_targets db')" i] k list_all2_lengthD [OF ts(2)] ts(1)
    by (simp add: ticks_def)
  obtain ss ns where ss: "c_run_stop_requests db' = ss @ ns" "list_all2 stop_evolves (c_run_stop_requests db) ss"
      "\<And>s. s \<in> set ns \<Longrightarrow> 1 \<le> st_row_version s"
    using k unfolding ticks_def by blast
  let ?v = "\<lambda>s. case s of None \<Rightarrow> 0 | Some s \<Rightarrow> st_row_version s"
  have stops: "?S db' = ?S db \<or> ?v (?S db) < ?v (?S db')"
    unfolding ss(1) by (rule stops_tick [OF ss(2,3)])
  have waits: "?W db' = ?W db" if "?T db' = ?T db"
  proof -
    obtain ws where ws: "c_wait_events db' = c_wait_events db @ ws"
        "\<And>w. w \<in> set ws \<Longrightarrow> \<exists>t \<in> set (c_run_targets db') - set (c_run_targets db). tr_run_id t = we_run_id w"
      using k unfolding ticks_def by blast
    have "we_run_id w \<noteq> i" if w: "w \<in> set ws" for w
      using ws(2) [OF w] filter_eqD [OF \<open>?T db' = ?T db\<close>] by blast
    then show ?thesis by (auto simp: ws(1) filter_empty_conv)
  qed
  show ?thesis
    using run targets stops waits by (auto simp: run_view_def q q'(1))
qed

section \<open>The operations\<close>

lemma quiet_operations:
  "quiet db (snd (db_release_created_run outer run_id db))"
  "quiet db (snd (db_request_run_pause outer run_id db))"
  "quiet db (snd (db_finalize_requested_run_pause outer run_id db))"
  "quiet db (snd (db_resume_paused_run outer run_id db))"
  "quiet db (snd (db_activate_requested_run_stop outer run_id db))"
  "quiet db (snd (db_begin_run_target_preflight outer now run_id j db))"
  "quiet db (snd (db_record_run_target_lease_acquired outer run_id j lease_id owner epoch token db))"
  "quiet db (snd (db_record_run_target_lease_reacquired outer run_id j old_lease old_epoch old_token lease_id owner epoch token db))"
  "quiet db (snd (db_record_run_target_execution_started outer run_id j lease_id owner epoch token db))"
  subgoal unfolding db_release_created_run_def by (auto simp: Let_def split: sum.split option.split)
  subgoal unfolding db_request_run_pause_def by (auto simp: Let_def)
  subgoal unfolding db_finalize_requested_run_pause_def by (auto simp: Let_def)
  subgoal unfolding db_resume_paused_run_def by (auto simp: Let_def)
  subgoal unfolding db_activate_requested_run_stop_def by (auto simp: Let_def split: sum.split option.split)
  subgoal unfolding db_begin_run_target_preflight_def by (auto simp: Let_def)
  subgoal unfolding db_record_run_target_lease_acquired_def by (auto simp: Let_def)
  subgoal unfolding db_record_run_target_lease_reacquired_def by (auto simp: Let_def)
  subgoal unfolding db_record_run_target_execution_started_def by (auto simp: Let_def)
  done

lemma quiet_complete_target: "quiet db (snd (complete_target outer run_id j extra f finish db))"
  unfolding complete_target_def by (auto simp: Let_def)

lemma quiet_completions:
  "quiet db (snd (db_record_run_target_succeeded outer now run_id j ops bytes db))"
  "quiet db (snd (db_record_run_target_succeeded_with_warnings outer now run_id j ops bytes skipped_ops skipped_bytes code db))"
  "quiet db (snd (db_record_run_target_recovery_required outer now run_id j code db))"
  "quiet db (snd (db_record_run_target_cancelled outer now run_id j code db))"
  by (simp_all add: db_record_run_target_succeeded_def db_record_run_target_succeeded_with_warnings_def
      db_record_run_target_recovery_required_def db_record_run_target_cancelled_def Let_def quiet_complete_target)

lemma quiet_requeue: "quiet (fst s) (fst (snd (db_requeue_next_due_waiting_run_target outer clock s)))"
proof -
  obtain db dl where s: "s = (db, dl)" by fastforce
  have t: "quiet db (fst (snd (case return_target outer db db2 i j of
              (Inr (Some target), db3) \<Rightarrow> (Inr (Some target), db3, dl1) | (r, db3) \<Rightarrow> (r, db3, dl2))))"
    if "quiet db db2" for db2 i j dl1 dl2
    using quiet_ends(3) [OF quiet_refl that, of outer i j] by (auto split: prod.split sum.split option.split)
  obtain x dl' where f: "first_due clock (retry_candidates db) dl = (x, dl')" by fastforce
  consider "\<exists>e. x = Inl e" | "x = Inr None" | u e where "x = Inr (Some (u, e))"
    by (metis option.exhaust sum.exhaust surj_pair)
  then show ?thesis
  proof cases
    case 3
    then show ?thesis by (simp add: s db_requeue_next_due_waiting_run_target_def Let_def f t)
  qed (use f in \<open>auto simp: s db_requeue_next_due_waiting_run_target_def\<close>)
qed

lemma ticks_insert_targets:
  assumes "ticks db db'" "\<And>t. t \<in> set ts \<Longrightarrow> tr_row_version t = 1" "length (c_run_targets db) \<le> length (c_run_targets db')"
    "c_wait_events db' = c_wait_events db"
  shows "ticks db (snd (insert_targets ts db'))"
  using assms
proof (induction ts arbitrary: db')
  case (Cons t ts)
  have "ticks db (db'\<lparr>c_run_targets := c_run_targets db' @ [t]\<rparr>)"
    using Cons.prems unfolding ticks_def by auto
  then show ?case using Cons.prems by (auto intro!: Cons.IH)
qed simp

lemma ticks_save_started_run: "ticks db (snd (db_save_started_run outer now run db))"
proof -
  let ?db = "db\<lparr>c_runs := c_runs db @ [run_row_of now run]\<rparr>"
  let ?ts = "map (target_row_of (sr_run_id run)) (sr_targets run)"
  have "ticks db (snd (insert_targets ?ts ?db))"
    by (rule ticks_insert_targets) (auto simp: target_row_of_def intro: quiet_ticks simp: quiet_def)
  then show ?thesis
    by (auto simp: db_save_started_run_def Let_def give_up_def split: prod.split bool.split)
qed

lemma ticks_update_stops:
  assumes "quiet db db'" "\<And>s. st_run_id (f s) = st_run_id s"
  shows "ticks db (update_stops p f db')"
proof -
  have "list_all2 stop_evolves (c_run_stop_requests db) (c_run_stop_requests (update_stops p f db'))"
    using assms by (auto simp: quiet_def update_stops_def sql_update_def list_all2_map2 stop_evolves_def intro!: list_all2_refl)
  then show ?thesis
    using assms(1) unfolding quiet_def
    by (intro ticks_intro [of _ _ "c_run_stop_requests (update_stops p f db')" "[]" "[]"]) (auto simp: update_stops_def)
qed

lemma ticks_request_stop: "ticks db (snd (db_request_run_stop_after_active_file outer now run_id db))"
proof -
  have "ticks db (update_runs p f (db\<lparr>c_run_stop_requests := c_run_stop_requests db @ [s]\<rparr>))" if "st_row_version s = 1" for s p f
    using that by (intro ticks_intro [of _ _ "c_run_stop_requests db" "[s]" "[]"]) (auto simp: update_runs_def)
  then show ?thesis
    unfolding db_request_run_stop_after_active_file_def Let_def by (auto intro!: ticks_ends)
qed

lemma ticks_bind_boundary: "ticks db (snd (db_bind_requested_run_stop_boundary outer run_id j op db))"
  unfolding db_bind_requested_run_stop_boundary_def Let_def
  by (auto intro!: ticks_ends ticks_update_stops split: option.split)

lemma quiet_stop_targets: "quiet db db' \<Longrightarrow> quiet db (fold (stop_target now run_id progress) tgs db')"
  by (induction tgs arbitrary: db') (auto simp: stop_target_def Let_def split: prod.split)

lemma ticks_finalize_stop: "ticks db (snd (db_finalize_requested_run_stop outer now run_id progress db))"
  unfolding db_finalize_requested_run_stop_def Let_def
  by (auto simp: quiet_ticks quiet_stop_targets intro!: ticks_ends ticks_update_stops split: sum.split option.split)

text \<open>A wait event comes with a new version of the row of its target.\<close>

lemma ticks_wait_event:
  assumes inv: "catalog_inv db" and n: "sql_count (\<lambda>t. tr_run_id t = i \<and> tr_id t = j \<and> p t) (c_run_targets db) = 1"
    and w: "we_run_id w = i"
    and db': "db' = (update_targets (\<lambda>t. tr_run_id t = i \<and> tr_id t = j \<and> p t) f db)\<lparr>c_wait_events := c_wait_events db @ [w], c_wait_event_seq := k\<rparr>"
    and f: "\<And>t. tr_id (f t) = tr_id t \<and> tr_run_id (f t) = tr_run_id t"
  shows "ticks db db'"
proof -
  let ?p = "\<lambda>t. tr_run_id t = i \<and> tr_id t = j \<and> p t"
  have "0 < sql_count ?p (c_run_targets db)" using n by simp
  then obtain t0 where t0: "t0 \<in> set (c_run_targets db)" "?p t0" unfolding sql_count_pos by blast
  let ?t = "(f t0)\<lparr>tr_row_version := tr_row_version t0 + 1\<rparr>"
  have "?t \<in> set (c_run_targets db')"
    using t0 unfolding db' update_targets_def sql_update_def by (auto intro!: rev_image_eqI [of t0])
  moreover have "?t \<notin> set (c_run_targets db)"
  proof
    assume "?t \<in> set (c_run_targets db)"
    moreover have "distinct (map tr_id (c_run_targets db))" using inv by (simp add: catalog_inv_def target_keys_ok_def)
    moreover have "tr_id ?t = tr_id t0" using f by simp
    ultimately have "?t = t0" using t0(1) by (metis distinct_map inj_onD)
    then have "tr_row_version ?t = tr_row_version t0" by (rule arg_cong)
    then show False by simp
  qed
  moreover have "tr_run_id ?t = we_run_id w" using f t0 w by simp
  ultimately have "\<exists>t \<in> set (c_run_targets db') - set (c_run_targets db). tr_run_id t = we_run_id w" by blast
  then show ?thesis
    by (intro ticks_intro [of _ _ "c_run_stop_requests db" "[]" "[w]"])
      (auto simp: db' update_targets_def sql_update_def)
qed

lemma ticks_waiting:
  assumes inv: "catalog_inv (fst s)"
  shows "ticks (fst s) (fst (snd (db_record_run_target_waiting_for_endpoint outer clock run_id j expected reason s)))"
proof -
  obtain db dl where s: "s = (db, dl)" by fastforce
  have t: "ticks db (fst (snd (case return_target outer db db2 run_id j of
              (Inr (Some target), db3) \<Rightarrow>
                (case retry_activate n timing dl of Inl _ \<Rightarrow> (x, db3, dl) | Inr dl' \<Rightarrow> (Inr (Some target), db3, dl'))
            | (r, db3) \<Rightarrow> (r, db3, dl))))"
    if "ticks db db2" for db2 n timing x
    using that by (simp add: return_target_def give_up_def split: option.split sum.split)
  have e: "c_wait_events (update_targets p f db) = c_wait_events db" for p f by (simp add: update_targets_def)
  have f: "tr_id ((clear_lease t)\<lparr>tr_state := x, tr_result_json := y\<rparr>) = tr_id t
      \<and> tr_run_id ((clear_lease t)\<lparr>tr_state := x, tr_result_json := y\<rparr>) = tr_run_id t" for t x y
    by (simp add: clear_lease_def)
  show ?thesis
    unfolding s db_record_run_target_waiting_for_endpoint_def Let_def prod.case
    by (auto simp: e quiet_ticks simp del: set_simps One_nat_def split: sum.split
        intro!: t ticks_wait_event [OF inv [unfolded s fst_conv] _ _ refl f])
qed

lemma store_step_ticks:
  assumes "store_step s s'" "catalog_inv (fst s)"
  shows "ticks (fst s) (fst s')"
  using assms
proof (induction rule: store_step.induct)
  case (record_run_target_waiting_for_endpoint s outer clock run_id target_id expected reason)
  then show ?case by (rule ticks_waiting)
next
  case (requeue_next_due_waiting_run_target s outer clock)
  show ?case by (rule quiet_ticks [OF quiet_requeue])
qed (simp_all add: quiet_operations quiet_completions quiet_ticks ticks_save_started_run ticks_request_stop
      ticks_bind_boundary ticks_finalize_stop)

lemma store_steps_view:
  assumes "store_step\<^sup>*\<^sup>* s s'" "catalog_inv (fst s)" "fst (run_view i (fst s)) \<noteq> None"
  shows "catalog_inv (fst s') \<and> (run_view i (fst s') = run_view i (fst s)
    \<or> view_version (run_view i (fst s)) < view_version (run_view i (fst s'))) \<and> fst (run_view i (fst s')) \<noteq> None"
  using assms(1)
proof (induction rule: rtranclp_induct)
  case base
  then show ?case using assms(2,3) by simp
next
  case (step s1 s2)
  then have inv: "catalog_inv (fst s1)" and v: "fst (run_view i (fst s1)) \<noteq> None" by blast+
  have g: "good (fst s1) (fst s2)" by (rule store_step_good [OF step.hyps(2) inv])
  then have e: "evolves (fst s1) (fst s2)" by (simp add: good_def)
  have "fst (run_view i (fst s2)) \<noteq> None"
  proof -
    obtain r where "r \<in> set (c_runs (fst s1))" "rr_id r = i"
      using v by (auto simp: run_view_def find_None_iff')
    then obtain r' where "r' \<in> set (c_runs (fst s2))" "rr_id r' = i"
      using evolves_run [OF e] run_evolves_keys(1) by metis
    then show ?thesis by (auto simp: run_view_def find_None_iff')
  qed
  moreover note view_or_tick [OF e store_step_ticks [OF step.hyps(2) inv] v]
  ultimately show ?case using step.IH g unfolding good_def by fastforce
qed

lemma poll_aux:
  assumes "catalog_inv (fst s)" "store_step\<^sup>*\<^sup>* s s'"
    "db_load_run_progress_snapshot i (fst s) = Inr (Some p)" "db_load_run_progress_snapshot i (fst s') = Inr (Some p')"
  shows "rps_sequence_no p \<le> rps_sequence_no p' \<and> (rps_sequence_no p' = rps_sequence_no p \<longrightarrow> p' = p)"
proof -
  note v = store_steps_view [OF assms(2,1) snapshot_sequence(2) [OF assms(3)]]
  show ?thesis
    using v snapshot_cong [of i "fst s'" "fst s"] snapshot_sequence(1) [OF assms(3)] snapshot_sequence(1) [OF assms(4)] assms(3,4)
    by auto
qed

end
