(* ===== verification/Live_Progress.thy ===== *)
theory Live_Progress
  imports Run_Progress_Laws Recovery_Store
begin

text \<open>
  The progress store that the engine serves to clients, \<open>adapters/sqlite/run_progress.py\<close>: the snapshot of the catalog
  with what the recovery journal adds to it, under a number that counts the events of both.

  An instant is an \<open>int\<close>, microseconds since the start of the year 1.  \<open>_parse_utc\<close> takes the extended calendar forms
  of \<open>datetime.fromisoformat\<close>, as \<open>Endpoint_Retry\<close> does, with an offset or none.
\<close>

definition PROGRESS_SEQUENCE_FACTOR :: int where "PROGRESS_SEQUENCE_FACTOR = 1000000000"
definition RATE_WINDOW :: int where "RATE_WINDOW = 60 * 1000000"
definition MAX_RATE_SAMPLES :: nat where "MAX_RATE_SAMPLES = 128"

section \<open>Instants\<close>

definition replace_zulu :: "string \<Rightarrow> string" where
  "replace_zulu value = concat (map (\<lambda>c. if c = CHR ''Z'' then ''+00:00'' else [c]) value)"

text \<open>The time of day and the offset, in microseconds; no offset is UTC.\<close>

definition parse_time_and_offset :: "string \<Rightarrow> (int \<times> int) option" where
  "parse_time_and_offset s =
     (let time = takeWhile (\<lambda>c. c \<noteq> CHR ''+'' \<and> c \<noteq> CHR ''-'') s; rest = drop (length time) s
      in case parse_time time of
           None \<Rightarrow> None
         | Some us \<Rightarrow>
             (case rest of
                [] \<Rightarrow> Some (us, 0)
              | sign # offset \<Rightarrow> map_option (\<lambda>n. (us, if sign = CHR ''-'' then - n else n)) (parse_time offset)))"

definition progress_parse_utc :: "string \<Rightarrow> int result" where
  "progress_parse_utc value =
     (let s = replace_zulu value
      in case (parse_date (take 10 s), if length s = 10 then Some (0, 0) else parse_time_and_offset (drop 11 s)) of
           (Some ordinal, Some (us, offset)) \<Rightarrow>
             let at_utc = (ordinal - 1) * MICROS_PER_DAY + us - offset
             in if at_utc < 0 \<or> 3652059 * MICROS_PER_DAY \<le> at_utc then Inl ''OverflowError'' else Inr at_utc
         | _ \<Rightarrow> Inl ''ValueError'')"

section \<open>What the journal holds for a run\<close>

definition run_operations :: "string \<Rightarrow> recovery_tables \<Rightarrow> RecoveryOperation list" where
  "run_operations run_id t = filter (\<lambda>op. rop_run_id op = run_id) (map ror_operation (recovery_operations t))"

definition run_events :: "string \<Rightarrow> recovery_tables \<Rightarrow> recovery_event list" where
  "run_events run_id t = filter (\<lambda>e. rev_run_id e = run_id) (recovery_events t)"

text \<open>\<open>coalesce(max(run_sequence), 0)\<close>.\<close>

definition recovery_sequence :: "string \<Rightarrow> recovery_tables \<Rightarrow> int" where
  "recovery_sequence run_id t =
     (case map rev_run_sequence (run_events run_id t) of [] \<Rightarrow> 0 | n # ns \<Rightarrow> fold max ns n)"

record ActiveOperation =
  act_relative_path :: string
  act_phase :: string
  act_planned_bytes :: int
  act_staging_failure_count :: int
  act_retry_backoff_ms :: "int option"
  act_retry_not_before_utc :: "string option"
  act_last_error_code :: "string option"

definition load_active_operation :: "string \<Rightarrow> recovery_tables \<Rightarrow> ActiveOperation option" where
  "load_active_operation run_id t =
     (case sort_key (\<lambda>op. (if rop_phase op = PLANNED then (1 :: int) else 0, rop_plan_sequence_no op, rop_operation_id op))
         (filter (\<lambda>op. rop_phase op \<notin> set RECOVERY_OPERATION_TERMINAL_PHASES) (run_operations run_id t)) of
        [] \<Rightarrow> None
      | op # _ \<Rightarrow> Some
          \<lparr>act_relative_path =
             (case rop_source_relative_path op of Some path \<Rightarrow> path | None \<Rightarrow> rop_final_relative_path op),
           act_phase = phase_value (rop_phase op), act_planned_bytes = rop_planned_bytes op,
           act_staging_failure_count = rop_staging_failure_count op,
           act_retry_backoff_ms = rop_staging_retry_backoff_ms op,
           act_retry_not_before_utc = rop_staging_retry_not_before_utc op,
           act_last_error_code = rop_last_error_code op\<rparr>)"

text \<open>The \<open>INNER JOIN\<close> of the transfer events with their operations, in the order of the events.\<close>

definition transfer_rows :: "string \<Rightarrow> recovery_tables \<Rightarrow> (string \<times> int) list" where
  "transfer_rows run_id t =
     concat (map (\<lambda>e. map (\<lambda>op. (rev_event_utc e, rop_planned_bytes op))
         (filter (\<lambda>op. rop_operation_id op = rev_operation_id e) (run_operations run_id t)))
       (filter (\<lambda>e. rev_to_phase e = TRANSFERRED) (run_events run_id t)))"

definition load_transfer_totals :: "string \<Rightarrow> recovery_tables \<Rightarrow> int \<times> int" where
  "load_transfer_totals run_id t =
     (int (length (transfer_rows run_id t)), sum_list (map snd (transfer_rows run_id t)))"

text \<open>The entry of \<open>_load_completed_target_totals\<close> for a target, or \<open>(0, 0)\<close>.\<close>

definition completed_target_totals :: "string \<Rightarrow> recovery_tables \<Rightarrow> string \<Rightarrow> int \<times> int" where
  "completed_target_totals run_id t run_target_id =
     (let done = filter (\<lambda>op. rop_run_target_id op = run_target_id \<and> rop_phase op \<in> {CATALOG_RECORDED, CLEANED})
            (run_operations run_id t)
      in (int (length done), sum_list (map rop_planned_bytes done)))"

section \<open>The average rate\<close>

fun bytes_in_window :: "int \<Rightarrow> int \<Rightarrow> (string \<times> int) list \<Rightarrow> int result" where
  "bytes_in_window window_start now [] = Inr 0"
| "bytes_in_window window_start now ((utc, n) # rows) =
     and_then (progress_parse_utc utc) (\<lambda>event_utc.
     and_then (bytes_in_window window_start now rows) (\<lambda>total.
       Inr (if window_start \<le> event_utc \<and> event_utc \<le> now then n + total else total)))"

definition load_average_rate :: "int \<Rightarrow> string \<Rightarrow> string \<Rightarrow> recovery_tables \<Rightarrow> (int \<times> int) option result" where
  "load_average_rate now run_id started_utc t =
     and_then (progress_parse_utc started_utc) (\<lambda>started.
       let window_start = max started (now - RATE_WINDOW) in
       and_then (bytes_in_window window_start now (take MAX_RATE_SAMPLES (rev (transfer_rows run_id t)))) (\<lambda>bytes.
         let elapsed = now - window_start in
         Inr (if bytes \<le> 0 \<or> elapsed < 1000000 then None else Some (bytes, elapsed))))"

text \<open>The rate and the estimate, which are given for a run that is executing.  A rate is positive.\<close>

definition rate_and_eta ::
  "int \<Rightarrow> string \<Rightarrow> RunProgressSnapshot \<Rightarrow> recovery_tables \<Rightarrow> ((int \<times> int) option \<times> int option) result" where
  "rate_and_eta now run_id p t =
     (if rps_state p = RunState.EXECUTING
      then and_then (load_average_rate now run_id (rps_started_utc p) t) (\<lambda>rate.
        Inr (rate,
          (case rate of
             None \<Rightarrow> None
           | Some (bytes, elapsed) \<Rightarrow>
               let remaining = max (rps_planned_bytes p - snd (load_transfer_totals run_id t)) 0
               in Some (remaining * elapsed div (bytes * 1000000)))))
      else Inr (None, None))"

section \<open>The snapshot\<close>

definition live_target ::
  "string \<Rightarrow> recovery_tables \<Rightarrow> RunTargetProgressSnapshot \<Rightarrow> RunTargetProgressSnapshot" where
  "live_target run_id t target =
     (let (operations, bytes) = completed_target_totals run_id t (rtp_run_target_id target)
      in target\<lparr>rtp_completed_operations := max (rtp_completed_operations target) operations,
                rtp_completed_bytes := max (rtp_completed_bytes target) bytes\<rparr>)"

definition live_snapshot ::
  "string \<Rightarrow> RunProgressSnapshot \<Rightarrow> RunTargetProgressSnapshot list \<Rightarrow> (int \<times> int) option \<Rightarrow> int option \<Rightarrow>
   recovery_tables \<Rightarrow> RunProgressSnapshot"
where
  "live_snapshot run_id p targets rate eta t =
     (let terminal = rps_terminal p; active = (if terminal then None else load_active_operation run_id t);
          (operations, bytes) = load_transfer_totals run_id t
      in p\<lparr>rps_sequence_no := rps_sequence_no p * PROGRESS_SEQUENCE_FACTOR + recovery_sequence run_id t,
           rps_completed_operations := sum_list (map rtp_completed_operations targets),
           rps_completed_bytes := sum_list (map rtp_completed_bytes targets),
           rps_targets := targets,
           rps_transferred_operations := operations, rps_transferred_bytes := bytes,
           rps_active_relative_path := map_option act_relative_path active,
           rps_active_phase := map_option act_phase active,
           rps_active_planned_bytes := map_option act_planned_bytes active,
           rps_active_staging_failure_count := map_option act_staging_failure_count active,
           rps_active_retry_backoff_ms := Option.bind active act_retry_backoff_ms,
           rps_active_retry_not_before_utc := Option.bind active act_retry_not_before_utc,
           rps_active_last_error_code := Option.bind active act_last_error_code,
           rps_bytes_per_second := (if terminal then None else rate),
           rps_eta_seconds := (if terminal then None else eta)\<rparr>)"

text \<open>Each \<open>replace\<close> checks the new value again.\<close>

definition load_live_progress_snapshot ::
  "(string \<Rightarrow> 's \<Rightarrow> RunProgressSnapshot option result) \<Rightarrow> int \<Rightarrow> string \<Rightarrow> 's \<times> recovery_tables \<Rightarrow>
   RunProgressSnapshot option result"
where
  "load_live_progress_snapshot catalog_runs now run_id st =
     (let t = snd st in
      and_then (catalog_runs run_id (fst st)) (\<lambda>snapshot.
        case snapshot of
          None \<Rightarrow> Inr None
        | Some p \<Rightarrow>
            let targets = map (live_target run_id t) (rps_targets p) in
            and_then (validate_targets targets) (\<lambda>_.
            and_then (rate_and_eta now run_id p t) (\<lambda>(rate, eta).
              let q = live_snapshot run_id p targets rate eta t
              in and_then (snapshot_post_init q) (\<lambda>_. Inr (Some q))))))"

text \<open>The store of the engine.\<close>

definition load_engine_progress ::
  "int \<Rightarrow> string \<Rightarrow> catalog \<times> recovery_tables \<Rightarrow> RunProgressSnapshot option result" where
  "load_engine_progress = load_live_progress_snapshot db_load_run_progress_snapshot"

end
