(* ===== verification/Live_Progress_Laws.thy ===== *)
theory Live_Progress_Laws
  imports Live_Progress Recovery_Safety
begin

text \<open>
  What the number of a served snapshot stands for: a call on the recovery database leaves what the snapshot reads of a
  run alone or appends one event of the run, and the number counts the versions of the catalog and these events.
\<close>

section \<open>The number of the journal\<close>

lemma recovery_sequence_counts:
  assumes "journal_inv t"
  shows "recovery_sequence i t = max 0 (int (length (run_events i t)) - 1)"
proof -
  have "(case map rev_run_sequence evs of [] \<Rightarrow> 0 | n # ns \<Rightarrow> fold max ns n) = max 0 (int (length evs) - 1)"
    if "numbered_chain rev_run_sequence rev_previous_event_hash rev_event_hash 0 evs" for evs :: "recovery_event list"
    using that
  proof (induction evs rule: rev_induct)
    case (snoc e evs)
    then have e: "rev_run_sequence e = int (length evs)"
      and ih: "(case map rev_run_sequence evs of [] \<Rightarrow> 0 | n # ns \<Rightarrow> fold max ns n) = max 0 (int (length evs) - 1)"
      by simp_all
    then show ?case by (cases evs) simp_all
  qed simp
  moreover have "numbered_chain rev_run_sequence rev_previous_event_hash rev_event_hash 0 (run_events i t)"
    using assms by (simp add: run_events_def journal_inv_def streams_chained_def)
  ultimately show ?thesis by (simp add: recovery_sequence_def)
qed

section \<open>One event at a time\<close>

definition same_run :: "string \<Rightarrow> recovery_tables \<Rightarrow> recovery_tables \<Rightarrow> bool" where
  "same_run i t t' \<longleftrightarrow> run_operations i t' = run_operations i t \<and> run_events i t' = run_events i t"

definition logs_one :: "recovery_tables \<Rightarrow> recovery_tables \<Rightarrow> bool" where
  "logs_one t t' \<longleftrightarrow> (\<forall>i. same_run i t t' \<or> (\<exists>e. run_events i t' = run_events i t @ [e]))"

lemma logs_one_same: "recovery_operations t' = recovery_operations t \<Longrightarrow> recovery_events t' = recovery_events t \<Longrightarrow> logs_one t t'"
  by (simp add: logs_one_def same_run_def run_operations_def run_events_def)

lemma logs_one_refl [simp]: "logs_one t t"
  by (simp add: logs_one_same)

lemma with_operation_other:
  "rop_run_id op \<noteq> i \<Longrightarrow> filter (\<lambda>x. rop_run_id x = i) (map ror_operation (with_operation now op rows)) =
     filter (\<lambda>x. rop_run_id x = i) (map ror_operation rows)"
  by (induction rows) (auto simp: with_operation_def sql_update_def at_operation_def)

lemma change_operation_logs: "logs_one t (change_operation now from_phase op process_instance_id payload t)"
  unfolding logs_one_def
proof
  fix i
  show "same_run i t (change_operation now from_phase op process_instance_id payload t)
    \<or> (\<exists>e. run_events i (change_operation now from_phase op process_instance_id payload t) = run_events i t @ [e])"
  proof (cases "rop_run_id op = i")
    case True
    then show ?thesis by (simp add: run_events_def change_operation_def Let_def)
  next
    case False
    then show ?thesis
      by (simp add: same_run_def run_events_def run_operations_def change_operation_def Let_def with_operation_other
          del: filter_map)
  qed
qed

definition work_logs :: "'a work \<Rightarrow> bool" where
  "work_logs m \<longleftrightarrow> (\<forall>t. recovery_inv t \<longrightarrow> logs_one t (snd (m t)))"

lemma work_logs_if_unchanged:
  assumes "\<And>rows evs. work_keeps (\<lambda>t. recovery_operations t = rows \<and> recovery_events t = evs) m"
  shows "work_logs m"
  unfolding work_logs_def
proof (intro allI impI)
  fix t
  have "recovery_operations (snd (m t)) = recovery_operations t \<and> recovery_events (snd (m t)) = recovery_events t"
    by (rule work_keepsD [OF assms]) simp
  then show "logs_one t (snd (m t))" by (simp add: logs_one_same)
qed

lemma journal_frame [simp]:
  "ignores_leases (\<lambda>t. recovery_operations t = rows \<and> recovery_events t = evs)"
  "ignores_segments (\<lambda>t. recovery_operations t = rows \<and> recovery_events t = evs)"
  "ignores_directories (\<lambda>t. recovery_operations t = rows \<and> recovery_events t = evs)"
  by (simp_all add: ignores_leases_def ignores_segments_def ignores_directories_def)

lemma other_works_log:
  "work_logs (allocate_token now k epoch)" "work_logs (register_work now request)"
  "work_logs (release_work now lease_id)" "work_logs (reconcile_work now k endpoint_id)"
  "work_logs (record_segment_work require_lease now s)" "work_logs (finalize_missing_work now segment_id)"
  "work_logs (transition_segment_work now segment_id expected_state next_state)"
  "work_logs (record_directory_work now dop process_instance_id dpayload)"
  "work_logs (transition_directory_work now transition)"
  by (rule work_logs_if_unchanged, (rule lease_work_frame segment_work_frame directory_work_keeps), simp)+

lemma logs_one_then:
  assumes "logs_one t t1"
    and "\<And>rows evs. work_keeps (\<lambda>t. recovery_operations t = rows \<and> recovery_events t = evs) m"
  shows "logs_one t (snd (m t1))"
proof -
  have "recovery_operations (snd (m t1)) = recovery_operations t1 \<and> recovery_events (snd (m t1)) = recovery_events t1"
    by (rule work_keepsD [OF assms(2)]) simp
  then show ?thesis using assms(1) by (simp add: logs_one_def same_run_def run_operations_def run_events_def)
qed

lemma phase_transition_logs: "work_logs (phase_transition_work now ds q)"
  unfolding work_logs_def
proof (intro allI impI)
  fix t assume "recovery_inv t"
  then have "journal_inv t" by (simp add: recovery_inv_def)
  from phase_transition_effect [OF this, of now ds q] show "logs_one t (snd (phase_transition_work now ds q t))"
    by (elim disjE exE conjE) (simp_all add: logs_one_then [OF change_operation_logs transition_tail_keeps])
qed

lemma lease_change_logs: "work_logs (lease_change_work now change phase intent)"
  unfolding work_logs_def
proof (intro allI impI)
  fix t assume "recovery_inv t"
  then have "journal_inv t" by (simp add: recovery_inv_def)
  from lease_change_effect [OF this, of now change phase intent]
  show "logs_one t (snd (lease_change_work now change phase intent t))"
    by (elim disjE exE conjE) (simp_all add: load_recorded_keeps_all change_operation_logs)
qed

lemma staging_failure_logs: "work_logs (staging_failure_work now clock failure)"
  unfolding work_logs_def
proof (intro allI impI)
  fix t assume "recovery_inv t"
  then have "journal_inv t" by (simp add: recovery_inv_def)
  from staging_failure_effect [OF this, of now clock failure]
  show "logs_one t (snd (staging_failure_work now clock failure t))"
  proof (elim disjE exE conjE)
    fix x timing payload
    assume w: "staging_failure_work now clock failure t =
        work_then (load_recorded_operation (sf_run_id failure) (sf_operation_id failure)) (\<lambda>recorded. work_return (recorded, timing))
          (change_operation now (sf_expected_phase failure) (failed_operation failure timing (ror_operation x))
            (sf_process_instance_id failure) payload t)"
    let ?t' = "change_operation now (sf_expected_phase failure) (failed_operation failure timing (ror_operation x))
            (sf_process_instance_id failure) payload t"
    have "snd (staging_failure_work now clock failure t) = ?t'"
      unfolding w using load_recorded_keeps_all [of "sf_run_id failure" "sf_operation_id failure" ?t']
      by (auto simp: work_then_def split: prod.split outcome.split)
    then show ?thesis by (simp add: change_operation_logs)
  qed simp
qed

lemma record_planned_logs:
  assumes "validate_recovery_operation op = Inr ()" "rop_phase op = PLANNED" "unbound_operation op"
  shows "work_logs (record_planned_work now ds op process_instance_id payload)"
  unfolding work_logs_def
proof (intro allI impI)
  fix t assume "recovery_inv t"
  then have inv: "journal_inv t" by (simp add: recovery_inv_def)
  have sound: "operation_sound (map isr_segment (intent_segments t)) op"
    using assms by (simp add: operation_sound_def unbound_operation_def)
  show "logs_one t (snd (record_planned_work now ds op process_instance_id payload t))"
  proof (cases "List.find (at_operation (rop_run_id op) (rop_operation_id op)) (recovery_operations t)")
    case (Some r)
    have "logs_one t (snd (work_then (record_directory_recovery_if_applicable now ds (ror_operation r)
        process_instance_id) (\<lambda>_. work_return (ror_operation r)) t))"
      by (rule logs_one_then) (simp, intro work_rules directory_glue_keeps, simp)
    then show ?thesis using Some by (auto simp: record_planned_work_def work_then_check)
  next
    case None
    define t1 where "t1 = t\<lparr>recovery_operations := recovery_operations t @ [\<lparr>ror_operation = op, ror_updated_utc = now\<rparr>]\<rparr>"
    define t2 where "t2 = t1\<lparr>recovery_events := recovery_events t1 @ [next_event now (rop_run_id op) (rop_operation_id op)
      None PLANNED process_instance_id payload t1]\<rparr>"
    note plan = journal_inv_plan(1) [OF inv sound assms(2) None, of now process_instance_id payload,
        folded t1_def, folded t2_def]
    have "logs_one t t2"
      by (auto simp: logs_one_def same_run_def run_operations_def run_events_def t2_def t1_def)
    then have tail: "logs_one t (snd (work_then (record_directory_recovery_if_applicable now ds op process_instance_id)
        (\<lambda>_. load_recorded_operation (rop_run_id op) (rop_operation_id op)) t2))"
      unfolding load_recorded_operation_def by (rule logs_one_then) (intro work_rules directory_glue_keeps, simp)
    have "insert_operation now op t \<in> {(Raises Integrity_Error, t), (Returns (), t1)}"
      by (simp add: insert_operation_def Let_def t1_def)
    then show ?thesis
      using tail plan None
      by (auto simp: record_planned_work_def work_then_check assms(2) work_then_returns split: sum.split)
         (auto simp: work_then_def)
  qed
qed

lemma transaction_logs:
  "work_logs m \<Longrightarrow> recovery_inv (rc_tables c) \<Longrightarrow> logs_one (rc_tables c) (rc_tables (snd (transaction handlers m c)))"
  using transaction_tables [of handlers m c] by (auto simp: work_logs_def)

lemma recovery_call_logs:
  assumes "recovery_call s s'" "recovery_inv (rc_tables (fst s))"
  shows "logs_one (rc_tables (fst s)) (rc_tables (fst s'))"
  using assms
proof (induction rule: recovery_call.induct)
  case (moves_operation s now ds q)
  then show ?case
    by (cases s) (auto simp: phase_transition_connection intro!: transaction_logs phase_transition_logs split: sum.split)
next
  case (fails_staging s now clock failure)
  then show ?case
    by (cases s) (auto simp: staging_failure_connection intro!: transaction_logs staging_failure_logs split: sum.split)
qed (auto simp: store_operation_defs
    intro!: transaction_logs other_works_log record_planned_logs lease_change_logs
    split: sum.split)

section \<open>The engine at work\<close>

text \<open>
  The two databases of the engine side by side: any operation of the run store, any call on the recovery database,
  the transactions of its callers, and a restart between them.  A transaction that a poll looked into is not rolled
  back: the engine answers polls between its steps.
\<close>

inductive engine_step :: "store_state \<times> recovery_state \<Rightarrow> store_state \<times> recovery_state \<Rightarrow> bool" where
  catalog_called: "store_step s s' \<Longrightarrow> engine_step (s, r) (s', r)"
| recovery_called: "recovery_call r r' \<Longrightarrow> engine_step (s, r) (s, r')"
| transaction_begun: "\<not> in_transaction c \<Longrightarrow> engine_step (s, c, dl) (s, begin_immediate c, dl)"
| transaction_committed: "in_transaction c \<Longrightarrow> engine_step (s, c, dl) (s, commit c, dl)"
| restarted: "\<not> in_transaction c \<Longrightarrow> engine_step (s, c, dl) (s, c, Map.empty)"

abbreviation journal_of :: "store_state \<times> recovery_state \<Rightarrow> recovery_tables" where
  "journal_of x \<equiv> rc_tables (fst (snd x))"

lemma engine_step_parts:
  assumes "engine_step x x'" "recovery_reachable (snd x)"
  shows "recovery_reachable (snd x') \<and> store_step\<^sup>*\<^sup>* (fst x) (fst x') \<and> logs_one (journal_of x) (journal_of x')"
  using assms
proof (induction rule: engine_step.induct)
  case (recovery_called r r' s)
  then show ?case
    using recovery_call_logs [OF recovery_called(1)] recovery_reachable_inv recovery_next store_called by auto
next
  case (transaction_begun c s dl)
  then show ?case using recovery_next [OF _ caller_begins] by (auto simp: begin_immediate_def)
next
  case (transaction_committed c s dl)
  then show ?case using recovery_next [OF _ caller_commits] by (auto simp: commit_def)
next
  case (restarted c s dl)
  then have "recovery_step (c, dl) (c, Map.empty)"
    using process_restarts [of c dl] by (simp add: rollback_def in_transaction_def)
  then show ?case using recovery_next [of "(c, dl)"] restarted(2) by auto
qed auto

lemma engine_steps_parts:
  assumes "engine_step\<^sup>*\<^sup>* x x'" "recovery_reachable (snd x)"
  shows "recovery_reachable (snd x') \<and> store_step\<^sup>*\<^sup>* (fst x) (fst x')
    \<and> (same_run i (journal_of x) (journal_of x')
       \<or> length (run_events i (journal_of x)) < length (run_events i (journal_of x')))"
  using assms
proof (induction rule: rtranclp_induct)
  case (step y z)
  note last = engine_step_parts [OF step.hyps(2)]
  have one: "same_run i (journal_of y) (journal_of z)
      \<or> length (run_events i (journal_of y)) < length (run_events i (journal_of z))"
    using last step unfolding logs_one_def by fastforce
  have "same_run i (journal_of x) (journal_of z)
      \<or> length (run_events i (journal_of x)) < length (run_events i (journal_of z))"
    using one step.IH step.prems unfolding same_run_def by auto
  then show ?case using last step by auto
qed (simp add: same_run_def)

section \<open>What is read for a run\<close>

lemma live_fields_cong:
  assumes "same_run i t t'"
  shows "recovery_sequence i t' = recovery_sequence i t" "load_active_operation i t' = load_active_operation i t"
    "load_transfer_totals i t' = load_transfer_totals i t" "live_target i t' = live_target i t"
  using assms
  by (simp_all add: fun_eq_iff same_run_def recovery_sequence_def load_active_operation_def load_transfer_totals_def
      transfer_rows_def live_target_def completed_target_totals_def)

text \<open>A run that was just planned: at most one event, so every operation of the run is PLANNED.\<close>

lemma first_event_plans:
  assumes inv: "journal_inv t" and one: "length (run_events i t) \<le> 1"
  shows "\<forall>op \<in> set (run_operations i t). rop_phase op = PLANNED" "\<forall>e \<in> set (run_events i t). rev_to_phase e = PLANNED"
proof -
  have row: "rop_phase op = PLANNED \<and> run_events i t = operation_events op t" if op: "op \<in> set (run_operations i t)" for op
  proof -
    have "replay (operation_events op t) = Some (Some (rop_phase op))" and run: "rop_run_id op = i"
      using inv op by (auto simp: run_operations_def journal_inv_def)
    moreover have sub: "operation_events op t = filter (\<lambda>e. rev_operation_id e = rop_operation_id op) (run_events i t)"
      using run by (simp add: operation_events_def run_events_def conj_commute)
    ultimately obtain e where "run_events i t = [e]" "operation_events op t = [e]"
      using one by (cases "run_events i t") (auto split: if_splits)
    then show ?thesis using \<open>replay (operation_events op t) = Some (Some (rop_phase op))\<close>
      by (auto simp: replay_def replay_step_def legal_step_def split: if_splits option.splits)
  qed
  then show "\<forall>op \<in> set (run_operations i t). rop_phase op = PLANNED" by blast
  show "\<forall>e \<in> set (run_events i t). rev_to_phase e = PLANNED"
  proof
    fix e assume e: "e \<in> set (run_events i t)"
    then obtain r where r: "r \<in> set (recovery_operations t)" "row_key r = (rev_run_id e, rev_operation_id e)" "rev_run_id e = i"
      using inv by (auto simp: run_events_def journal_inv_def)
    then have op: "ror_operation r \<in> set (run_operations i t)" by (auto simp: run_operations_def row_key_def)
    have "run_events i t = [e]" using e one by (cases "run_events i t") auto
    then have "operation_events (ror_operation r) t = [e]" using row [OF op] by simp
    moreover have "replay (operation_events (ror_operation r) t) = Some (Some PLANNED)"
      using inv r(1) row [OF op] by (simp add: journal_inv_def)
    ultimately show "rev_to_phase e = PLANNED"
      by (auto simp: replay_def replay_step_def split: if_splits)
  qed
qed

lemma planned_totals:
  assumes "journal_inv t" "length (run_events i t) \<le> 1"
  shows "load_transfer_totals i t = (0, 0)" "completed_target_totals i t j = (0, 0)"
proof -
  note planned = first_event_plans [OF assms]
  have "filter (\<lambda>e. rev_to_phase e = TRANSFERRED) (run_events i t) = []" using planned(2) by (auto simp: filter_empty_conv)
  then show "load_transfer_totals i t = (0, 0)" by (simp add: load_transfer_totals_def transfer_rows_def)
  have "filter (\<lambda>op. rop_run_target_id op = j \<and> rop_phase op \<in> {CATALOG_RECORDED, CLEANED}) (run_operations i t) = []"
    using planned(1) by (auto simp: filter_empty_conv)
  then show "completed_target_totals i t j = (0, 0)" by (simp add: completed_target_totals_def Let_def)
qed

section \<open>Polling\<close>

definition without_rate :: "RunProgressSnapshot \<Rightarrow> RunProgressSnapshot" where
  "without_rate p = p\<lparr>rps_bytes_per_second := None, rps_eta_seconds := None\<rparr>"

definition without_active :: "RunProgressSnapshot \<Rightarrow> RunProgressSnapshot" where
  "without_active p = p\<lparr>rps_active_relative_path := None, rps_active_phase := None, rps_active_planned_bytes := None,
     rps_active_staging_failure_count := None, rps_active_retry_backoff_ms := None,
     rps_active_retry_not_before_utc := None, rps_active_last_error_code := None\<rparr>"

lemma live_snapshot_SomeD:
  assumes "load_engine_progress now i (db, t) = Inr (Some q)"
  obtains p rate eta where "db_load_run_progress_snapshot i db = Inr (Some p)"
    "q = live_snapshot i p (map (live_target i t) (rps_targets p)) rate eta t"
  using assms
  by (auto simp: load_engine_progress_def load_live_progress_snapshot_def Let_def split: option.splits prod.splits)

lemma live_snapshot_sequence:
  "rps_sequence_no (live_snapshot i p targets rate eta t) = rps_sequence_no p * PROGRESS_SEQUENCE_FACTOR + recovery_sequence i t"
  by (simp add: live_snapshot_def Let_def split: prod.split)

lemma live_snapshot_same:
  assumes "same_run i t t'"
  shows "without_rate (live_snapshot i p (map (live_target i t') ts) rate' eta' t') =
    without_rate (live_snapshot i p (map (live_target i t) ts) rate eta t)"
  by (simp add: without_rate_def live_snapshot_def Let_def live_fields_cong [OF assms] split: prod.split)

lemma live_snapshot_planned:
  assumes "journal_inv t" "length (run_events i t) \<le> 1" "journal_inv t'" "length (run_events i t') \<le> 1"
  shows "without_active (without_rate (live_snapshot i p (map (live_target i t') ts) rate' eta' t')) =
    without_active (without_rate (live_snapshot i p (map (live_target i t) ts) rate eta t))"
proof -
  have "live_target i t' = live_target i t"
    by (simp add: fun_eq_iff live_target_def planned_totals [OF assms(1,2)] planned_totals [OF assms(3,4)])
  moreover have "recovery_sequence i t' = recovery_sequence i t"
    using assms by (simp add: recovery_sequence_counts)
  ultimately show ?thesis
    by (simp add: without_active_def without_rate_def live_snapshot_def Let_def
        planned_totals [OF assms(1,2)] planned_totals [OF assms(3,4)])
qed

lemma live_poll:
  assumes "reachable (fst x)" "recovery_reachable (snd x)" "engine_step\<^sup>*\<^sup>* x x'"
    and p: "load_engine_progress now i (fst (fst x), journal_of x) = Inr (Some p)"
    and p': "load_engine_progress now' i (fst (fst x'), journal_of x') = Inr (Some p')"
  shows "rps_sequence_no p \<le> rps_sequence_no p' \<and> (rps_sequence_no p' = rps_sequence_no p \<longrightarrow>
      without_active (without_rate p') = without_active (without_rate p)
      \<and> (without_rate p' = without_rate p
         \<or> run_events i (journal_of x) = [] \<and> length (run_events i (journal_of x')) = 1))"
proof -
  let ?t = "journal_of x" and ?t' = "journal_of x'"
  note parts = engine_steps_parts [OF assms(3,2), of i]
  have inv: "journal_inv ?t" "journal_inv ?t'"
    using recovery_reachable_inv [OF assms(2)] recovery_reachable_inv [of "snd x'"] parts by (simp_all add: recovery_inv_def)
  have steps: "store_step\<^sup>*\<^sup>* (fst x) (fst x')" using parts by blast
  obtain c rate eta where c: "db_load_run_progress_snapshot i (fst (fst x)) = Inr (Some c)"
    "p = live_snapshot i c (map (live_target i ?t) (rps_targets c)) rate eta ?t"
    using p by (rule live_snapshot_SomeD)
  obtain c' rate' eta' where c': "db_load_run_progress_snapshot i (fst (fst x')) = Inr (Some c')"
    "p' = live_snapshot i c' (map (live_target i ?t') (rps_targets c')) rate' eta' ?t'"
    using p' by (rule live_snapshot_SomeD)
  note catalog = poll_aux [OF reachable_catalog_inv [OF assms(1)] steps c(1) c'(1)]
  have journal: "recovery_sequence i ?t \<le> recovery_sequence i ?t'"
    using parts inv by (auto simp: recovery_sequence_counts same_run_def)
  have le: "rps_sequence_no c * PROGRESS_SEQUENCE_FACTOR \<le> rps_sequence_no c' * PROGRESS_SEQUENCE_FACTOR"
    using catalog by (simp add: PROGRESS_SEQUENCE_FACTOR_def)
  have "without_active (without_rate p') = without_active (without_rate p)
      \<and> (without_rate p' = without_rate p \<or> run_events i ?t = [] \<and> length (run_events i ?t') = 1)"
    if same: "rps_sequence_no p' = rps_sequence_no p"
  proof -
    have eqs: "rps_sequence_no c' = rps_sequence_no c" "recovery_sequence i ?t' = recovery_sequence i ?t"
      using same le journal unfolding c(2) c'(2) live_snapshot_sequence by (simp_all add: PROGRESS_SEQUENCE_FACTOR_def)
    have cc: "c' = c" using catalog eqs(1) by simp
    consider (same) "same_run i ?t ?t'" | (first) "run_events i ?t = []" "length (run_events i ?t') = 1"
      using parts eqs(2) inv by (fastforce simp: recovery_sequence_counts)
    then show ?thesis
    proof cases
      case same
      then show ?thesis using live_snapshot_same [OF same] unfolding c(2) c'(2) cc by metis
    next
      case first
      then show ?thesis using live_snapshot_planned [OF inv(1) _ inv(2)] unfolding c(2) c'(2) cc by simp
    qed
  qed
  then show ?thesis using le journal unfolding c(2) c'(2) live_snapshot_sequence by simp
qed

end
