(* ===== verification/Live_Progress_Properties.thy ===== *)
theory Live_Progress_Properties
  imports Live_Progress_Laws Run_Examples Recovery_Examples
begin

text \<open>What a client that polls the progress of a run by number sees, and the one change it does not.\<close>

text \<open>C15: Polling by number is sound, but for the first planned operation.  Let a client have read the snapshot \<open>p\<close> that
  the engine serves, and let it ask, after any operations of the run store and any calls on the recovery database,
  for changes since its number.  It is never told that the number was reset.  When it is told of a change, the answer is
  the current snapshot, which has a larger number.  When it is told that nothing changed, the current snapshot has the
  same number and is \<open>p\<close>, but for the rate and the estimate, which are made from the clock; the columns of the active
  operation, too, may differ, but only when the journal had no event of the run before and has exactly one now: that
  event has number 0, as an empty journal has.\<close>

theorem polling_misses_nothing:
  assumes "reachable s" "recovery_reachable r" "engine_step\<^sup>*\<^sup>* (s, r) (s', r')" "strip i = i"
    "load_engine_progress now i (fst s, rc_tables (fst r)) = Inr (Some p)"
    "query_run_progress (Some (load_engine_progress now')) i (Some (SeqInt (rps_sequence_no p)))
       (fst s', rc_tables (fst r')) = Inr res"
  shows "rpr_run_found res \<and> \<not> rpr_sequence_reset res
    \<and> (\<exists>p'. load_engine_progress now' i (fst s', rc_tables (fst r')) = Inr (Some p')
        \<and> (if rpr_changed res then rpr_snapshot res = Some p' \<and> rps_sequence_no p < rps_sequence_no p'
           else rpr_snapshot res = None \<and> rps_sequence_no p' = rps_sequence_no p
             \<and> without_active (without_rate p') = without_active (without_rate p)
             \<and> (without_rate p' = without_rate p
                \<or> run_events i (rc_tables (fst r)) = [] \<and> length (run_events i (rc_tables (fst r'))) = 1)))"
proof -
  let ?x = "(s, r)" and ?x' = "(s', r')"
  have n: "normalize_run_id i = Inr i" "0 \<le> rps_sequence_no p"
    using assms(4,6) by (auto simp: query_run_progress_def normalize_run_id_def normalize_after_sequence_def Let_def split: if_splits)
  obtain found where found: "load_engine_progress now' i (fst s', rc_tables (fst r')) = Inr found"
    using assms(6) n by (auto simp: query_run_progress_def normalize_after_sequence_def Let_def)
  obtain p' where p': "found = Some p'"
  proof -
    obtain c where "db_load_run_progress_snapshot i (fst s) = Inr (Some c)" using assms(5) by (rule live_snapshot_SomeD)
    note v = snapshot_sequence(2) [OF this]
    have steps: "store_step\<^sup>*\<^sup>* s s'" using engine_steps_parts [OF assms(3), of i] assms(2) by simp
    have "fst (run_view i (fst s')) \<noteq> None" using store_steps_view [OF steps reachable_catalog_inv [OF assms(1)] v] by blast
    then have "db_load_run_progress_snapshot i (fst s') \<noteq> Inr None"
      by (auto simp: db_load_run_progress_snapshot_def run_view_def Let_def split: option.splits)
    then have "found \<noteq> None"
      using found by (auto simp: load_engine_progress_def load_live_progress_snapshot_def Let_def split: option.splits prod.splits)
    then show thesis using that by blast
  qed
  have poll: "rps_sequence_no p \<le> rps_sequence_no p' \<and> (rps_sequence_no p' = rps_sequence_no p \<longrightarrow>
      without_active (without_rate p') = without_active (without_rate p)
      \<and> (without_rate p' = without_rate p
         \<or> run_events i (rc_tables (fst r)) = [] \<and> length (run_events i (rc_tables (fst r'))) = 1))"
    using live_poll [of ?x ?x' now i p now' p'] assms(1-3,5) found p' by simp
  have res: "res = \<lparr>rpr_run_id = i, rpr_read_model_available = True, rpr_run_found = True,
      rpr_changed = (rps_sequence_no p \<noteq> rps_sequence_no p'), rpr_sequence_reset = (rps_sequence_no p > rps_sequence_no p'),
      rpr_requested_after_sequence_no = Some (rps_sequence_no p),
      rpr_snapshot = (if rps_sequence_no p = rps_sequence_no p' then None else Some p')\<rparr>"
    using assms(6) n found p' by (simp add: query_run_progress_def normalize_after_sequence_def Let_def)
  show ?thesis using found p' poll by (auto simp: res)
qed

text \<open>The change a client misses: between its polls the first operation of the run is planned, and the engine says that
  nothing changed, although the snapshot now names the active file.\<close>

abbreviation ex_unlogged :: recovery_tables where
  "ex_unlogged \<equiv> ex_held\<lparr>recovery_operations := [ex_row]\<rparr>"

lemma ex_planned_fields:
  "recovery_sequence ''run'' ex_planned = 0" "transfer_rows ''run'' ex_planned = []"
  "run_operations ''run'' ex_planned = run_operations ''run'' ex_unlogged"
  "recovery_sequence ''run'' ex_unlogged = 0" "transfer_rows ''run'' ex_unlogged = []"
  by (simp_all add: recovery_sequence_def transfer_rows_def run_events_def run_operations_def ex_planned_def ex_event_def
      last_run_event_def)

lemma ex_planned_snapshot:
  "load_engine_progress now ''run'' (db, ex_planned) = load_engine_progress now ''run'' (db, ex_unlogged)"
proof -
  have "live_target ''run'' ex_planned = live_target ''run'' ex_unlogged"
    by (simp add: fun_eq_iff live_target_def completed_target_totals_def ex_planned_fields)
  moreover have "rate_and_eta now ''run'' p ex_planned = rate_and_eta now ''run'' p ex_unlogged" for p
    unfolding rate_and_eta_def load_average_rate_def load_transfer_totals_def ex_planned_fields ..
  moreover have "live_snapshot ''run'' p ts rate eta ex_planned = live_snapshot ''run'' p ts rate eta ex_unlogged" for p ts rate eta
    unfolding live_snapshot_def load_transfer_totals_def load_active_operation_def ex_planned_fields ..
  ultimately show ?thesis
    by (simp add: load_engine_progress_def load_live_progress_snapshot_def Let_def)
qed

lemma ex_polls:
  "case load_engine_progress 0 ''run'' (demo_queued, ex_held) of
     Inr (Some p) \<Rightarrow> rps_active_relative_path p = None \<and> rps_sequence_no p = 3000000000 | _ \<Rightarrow> False"
  "case load_engine_progress 0 ''run'' (demo_queued, ex_unlogged) of
     Inr (Some p) \<Rightarrow> rps_active_relative_path p \<noteq> None \<and> rps_sequence_no p = 3000000000 | _ \<Rightarrow> False"
  by code_simp+

theorem polling_misses_nothing_witness:
  "\<exists>p p' res. load_engine_progress 0 ''run'' (demo_queued, ex_held) = Inr (Some p)
     \<and> load_engine_progress 0 ''run'' (demo_queued, ex_planned) = Inr (Some p')
     \<and> rps_active_relative_path p = None \<and> rps_active_relative_path p' \<noteq> None
     \<and> query_run_progress (Some (load_engine_progress 0)) ''run'' (Some (SeqInt (rps_sequence_no p))) (demo_queued, ex_planned) = Inr res
     \<and> rpr_run_found res \<and> \<not> rpr_changed res \<and> rpr_snapshot res = None"
proof -
  let ?s = "(demo_queued, Map.empty) :: store_state"
  let ?r = "(\<lparr>rc_tables = ex_held, rc_begun = None\<rparr>, Map.empty) :: recovery_state"
  let ?r' = "(\<lparr>rc_tables = ex_planned, rc_begun = None\<rparr>, Map.empty) :: recovery_state"
  obtain p where p: "load_engine_progress 0 ''run'' (demo_queued, ex_held) = Inr (Some p)" "rps_active_relative_path p = None"
      "rps_sequence_no p = 3000000000"
    using ex_polls(1) by (auto split: sum.splits option.splits)
  obtain p' where p': "load_engine_progress 0 ''run'' (demo_queued, ex_planned) = Inr (Some p')" "rps_active_relative_path p' \<noteq> None"
      "rps_sequence_no p' = 3000000000"
    using ex_polls(2) by (auto simp: ex_planned_snapshot split: sum.splits option.splits)
  have "recovery_call ?r ?r'"
    using plans_operation [OF ex_operation_facts(1), of "\<lparr>rc_tables = ex_held, rc_begun = None\<rparr>" Map.empty "''u''" True "''p1''" None]
    by (simp add: ex_plan)
  then have steps: "engine_step\<^sup>*\<^sup>* (?s, ?r) (?s, ?r')" by (intro r_into_rtranclp recovery_called)
  have id: "strip ''run'' = ''run''" by code_simp
  have "\<exists>res. query_run_progress (Some (load_engine_progress 0)) ''run'' (Some (SeqInt (rps_sequence_no p)))
      (demo_queued, ex_planned) = Inr res \<and> \<not> rpr_changed res"
    using p' p(3) id
    by (simp add: query_run_progress_def normalize_run_id_def normalize_after_sequence_def MAX_PROGRESS_QUERY_ID_LENGTH_def)
  then obtain res where res: "query_run_progress (Some (load_engine_progress 0)) ''run'' (Some (SeqInt (rps_sequence_no p)))
      (demo_queued, ex_planned) = Inr res" "\<not> rpr_changed res"
    by blast
  have "rpr_run_found res \<and> rpr_snapshot res = None"
    using polling_misses_nothing [OF demo_queued_reachable ex_held_reachable steps id, of 0 p 0 res] p(1) res by auto
  then show ?thesis using p(1,2) p'(1,2) res by blast
qed

end
