(* ===== verification/Spec2Isabelle.thy ===== *)
theory Spec2Isabelle
  imports Command_Properties Handoff_Properties Completion_Properties Stop_Properties Plan_Properties Run_Start_Properties Run_Properties Run_Handler_Properties Run_Target_Properties
    Recovery_Properties Live_Progress_Properties
begin

text \<open>
  A verification development of the plan, run and recovery core of MediaSync Home.

  \<^bold>\<open>The program.\<close>  MediaSync Home backs up directories to endpoints.  An analysis ends in a \<^emph>\<open>sealed plan\<close>
  (\<open>application/plans.py\<close>): endpoints, operations and dependencies, checked, put into a canonical order and
  signed with a checksum.  A plan is executed by a \<^emph>\<open>run\<close> with one target per writable endpoint.  The run
  handlers (\<open>application/runs.py\<close>) decide; the SQLite store (\<open>adapters/sqlite/runs.py\<close>) keeps the rows in the
  catalog, guards every change with the condition of its UPDATE and rolls back what it does not accept; the
  retry scheduler (\<open>application/endpoint_retry.py\<close>) holds the deadlines of targets that wait for an endpoint;
  clients poll progress by a sequence number (\<open>application/progress_read_models.py\<close>,
  \<open>adapters/sqlite/run_progress.py\<close>).  While a target executes,
  each of its operations is journaled in a second database, the recovery database, before and after every step
  that touches the file system: its phase (\<open>application/recovery_operations.py\<close>,
  \<open>adapters/sqlite/recovery_operations.py\<close>), the intent segment its commit is announced in
  (\<open>application/recovery_intents.py\<close>), the states of directories (\<open>application/directory_recovery.py\<close>), all under
  leases with fencing tokens (\<open>adapters/sqlite/lease_tokens.py\<close>).  A command of a client leaves a receipt under its
  idempotency key (\<open>application/command_receipts.py\<close>, \<open>adapters/sqlite/command_receipts.py\<close>), and its effect a message
  in an outbox, delivered under claims with tokens (\<open>application/outbox.py\<close>, \<open>adapters/sqlite/outbox.py\<close>).  As no
  transaction spans the two databases, the start of a run is handed from the catalog to the recovery database in four
  transactions with a record on either side (\<open>application/cross_store_handoffs.py\<close>,
  \<open>adapters/sqlite/cross_store_handoffs.py\<close>), completed by a reconciliation after a crash.

  \<^bold>\<open>Theories.\<close>
  \<^item> \<open>Prelude\<close>: results (\<open>string + 'a\<close>, \<open>Inl\<close> the code an exception carries), Python's \<open>strip\<close>, sorting, SQL counts.
  \<^item> \<open>Json\<close>, \<open>Sha256\<close>: \<open>json.dumps\<close> with sorted keys and compact separators, \<open>json.loads\<close>, the digest.
  \<^item> \<open>Source_Preconditions\<close>: \<open>application/source_preconditions.py\<close>.
  \<^item> \<open>Plans\<close>: the records and every function that takes part in \<open>seal_plan\<close> and \<open>verify_plan_checksum\<close>;
    \<open>Plan_Graph\<close>: the depth first search against acyclicity; \<open>Plan_Sealing\<close>: what sealing accepts and yields;
    \<open>Plan_Checksum\<close>: the canonical payload determines the plan.
  \<^item> \<open>Endpoint_Retry\<close>: the backoff, the UTC text form and the scheduler as a map from event ids to deadlines;
    \<open>Utc_Text\<close>: the calendar conversion is correct.
  \<^item> \<open>Run_Model\<close>: states and records of runs.  \<open>Run_Store\<close>, \<open>Run_Target_Store\<close>: the catalog (a record of the
    four run tables as lists of rows) and one definition per store operation, each with a Boolean that tells
    whether a caller's transaction is open, in which case nothing is rolled back here.
  \<^item> \<open>Run_Invariants\<close>: the invariant of the catalog and the edges along which rows evolve; \<open>Run_Store_Safety\<close>,
    \<open>Run_Target_Safety\<close>: every operation keeps them; \<open>Run_Steps\<close>: the step relation over all operations and
    process restarts, and the reachable states.
  \<^item> \<open>Run_Control\<close>, \<open>Run_Execution\<close>: the handlers over an arbitrary store, their contracts with the store as
    locales, interpreted on the SQLite operations; \<open>Run_Execution_Laws\<close>: the laws behind those interpretations.
  \<^item> \<open>Run_Start\<close>: the start command, the readiness of a plan, the scope of a retry and the handler that saves the
    run; \<open>Run_Start_Laws\<close>: its contract with the store as a locale, the closure of a retry under dependencies, and
    the application steps in which runs are created by that handler only.
  \<^item> \<open>Run_Progress\<close>, \<open>Run_Progress_Laws\<close>: the progress snapshot of the catalog, and that its number stands for its
    content.  \<open>Live_Progress\<close>: the snapshot that the engine serves, with what the recovery journal adds to it;
    \<open>Live_Progress_Laws\<close>: the steps of both databases side by side, and what the combined number counts;
    \<open>Live_Progress_Properties\<close>: what a client that polls sees.
  \<^item> \<open>Staging_Retry\<close>, \<open>Recovery_Data\<close>, \<open>Recovery_Intents\<close>, \<open>Directory_Recovery\<close>: the application layer of the recovery
    journal: phases, records, validations.
  \<^item> \<open>Recovery_Tables\<close>: the seven tables as lists of rows, the connection with the snapshot of an open transaction,
    and the frame of every operation (begin, work, commit, roll back, the exceptions that are handled), with the
    rules by which work keeps an invariant.  \<open>Recovery_Rows\<close>: the columns of an operation, written and read.
    \<open>Resource_Leases\<close>, \<open>Segment_Store\<close>, \<open>Directory_Store\<close>, \<open>Recovery_Store\<close>: one definition per operation of the
    four stores, its work apart from the frame.
  \<^item> \<open>Recovery_Logs\<close>: an append-only log with a hash chain per stream, as a locale, interpreted on the events of a
    run; \<open>Segment_Laws\<close> interprets it on the intent segments of a run target, \<open>Directory_Journal\<close> on the events of a
    directory recovery.  \<open>Recovery_Journal\<close>, \<open>Recovery_Work\<close>, \<open>Recovery_Changes\<close>: the invariant of the operations and
    their events, and that planning, transitions, failures and new leases keep it; \<open>Lease_Laws\<close>: the invariant of
    leases and tokens; \<open>Directory_Laws\<close>, \<open>Directory_Changes\<close>: paths of directory states and what a transition
    writes; \<open>Recovery_Frames\<close>: which tables an operation leaves alone; \<open>Recovery_Steps\<close>: the step relation over all
    calls, transactions of callers and restarts, and the invariant of its reachable states; \<open>Recovery_Safety\<close>: the
    order of phases, fences, and a transaction left open.
  \<^item> \<open>Command_Receipts\<close>: receipts, their transitions, the store with its tombstones, the reconciliation at startup, and
    the calls of these stores (\<open>store_call\<close>: a function from the database to a result, \<open>Inl\<close> the exception, and the
    database) with the transaction around them.  \<open>Outbox\<close>: messages, claims, tombstones of delivered effects, the
    monotonic window of a claim and the dispatch of one message, with the delivery port and the clock as arguments.
  \<^item> \<open>Evolving_Store\<close>: the contract of a store whose steps keep an invariant and move it forward, as a locale;
    \<open>Receipt_Laws\<close>, \<open>Outbox_Laws\<close> and \<open>Start_Handoff_Steps\<close> interpret it on the receipts, on the outbox and on the
    two databases.
  \<^item> \<open>Handoff_Store\<close>: handoffs, their evidence and hash, the table that holds them on either side, the bindings of
    runs.  \<open>Run_Start_Handoff\<close>: both databases and the coordinator of run starts, one definition per method.
    \<open>Handoff_Laws\<close>: what a table of handoffs keeps; \<open>Start_Handoff_Laws\<close>: the invariant of the two databases, kept by
    every transaction, whether it returns or raises; \<open>Start_Handoff_Steps\<close>: the step relation, in which a crash may
    follow every transaction, and that the coordinator succeeds.
  \<^item> \<open>Command_Properties\<close>, \<open>Handoff_Properties\<close>: the properties of receipts, outbox and handoffs.
  \<^item> \<open>Run_Completion\<close>: the completion of a target from the recovery journal (\<open>application/run_completion.py\<close>) and
    the conditions of the executor cycle for it (\<open>application/run_executor_cycle.py\<close>); \<open>Completion_Laws\<close>: the journal
    as the listing these definitions take, and what they return on it; \<open>Completion_Properties\<close>: the properties.
  \<^item> \<open>Run_Stop\<close>: a step of a graceful stop (\<open>application/run_stop.py\<close>) and the executor's part in it, over the
    catalog and the recovery database; \<open>Stop_Laws\<close>: what cancelling a batch of operations leaves, or where it is
    refused; \<open>Stop_Steps\<close>: what a step answers, and the steps of several cycles; \<open>Stop_Properties\<close>: the properties.
  \<^item> \<open>Recovery_Examples\<close>, \<open>Recovery_Properties\<close>: a reachable recovery database and the properties of the journal.
  \<^item> \<open>Run_Examples\<close>: concrete runs, reached by steps of the store, at which the properties are applied.
  \<^item> \<open>Run_Properties\<close>, \<open>Run_Handler_Properties\<close>, \<open>Run_Target_Properties\<close>, \<open>Run_Start_Properties\<close>,
    \<open>Plan_Properties\<close>: the properties.

  \<^bold>\<open>What is shown.\<close>  Of the store: invariants of every reachable catalog, the state machines of runs and targets,
  finality of what is closed, atomicity of operations that own their transaction, progress of pause and stop
  requests.  Of the handlers: a command does what its outcome says, a lease is recorded or released, execution
  starts only under its permit.  Of progress: a client that polls by number misses nothing but the first planned
  operation, and the rate.  Of retries: bounds of the backoff, monotonic deadlines, bounded waits after a
  restart.  Of starting: exactly
  when a sealed plan can be started, that a start changes nothing or creates exactly its run and is answered with that run
  ever after, at most one run of a job is active.
  Of plans: sealing accepts exactly the well-formed plans and fixes their order, the checksum binds
  every field.  Of the text forms: round trips.  Of the recovery journal: its rows are valid and agree with their
  events, the events of a run are a sealed hash chain, no phase of the success path is skipped, every write is made
  under a lease with the greatest token of its resource, directories keep to the path of their kind and the trigger
  of their table agrees with the application; and a validation that fails inside a transaction leaves it open.  Of
  commands: a key once recorded always answers with the same command, effects are enqueued once, a lost claim cannot
  end a message, a due message is dispatched.  Of the start of a run over both databases: after any crash the two
  sides are in one of five pairs of states with the same evidence, a released run is bound, a confirmation is all or
  nothing, an interrupted start can be completed and reconciliation completes what it finds; and a run that is paused
  before it is bound escapes all of this.  Of the completion: a target succeeds only with all its operations in the
  journal, recorded under its permit with the planned bytes, and a target with both skipped and cancelled operations is
  never completed.  Of a graceful stop: it cancels untouched files only, it ends within as many cycles as there are batches
  while the leases are held, and once they were released it fails in every cycle.

  \<^bold>\<open>Loops and fuel.\<close>  The cycle search recurses under the number of nodes not yet visited,
  the closure of a retry scope under the number of operations not yet selected.  The JSON parser takes
  fuel twice the length of the text, each value consumes a character, and \<open>loads_dumps\<close> shows this is enough for
  every text the program writes.  Nothing else needs fuel.

  \<^bold>\<open>Modelling decisions.\<close>  A Python \<open>str\<close> is a \<open>string\<close> of code points below 256.  A \<open>set\<close> that only grows in a loop
  is a list.  Integers are unbounded, as in Python; the 64 bits of an SQLite column are not modelled.  Exceptions
  the program does not raise itself (faults of the database or of the file system, the recursion limit) are left
  out.  \<open>timedelta.total_seconds\<close> is exact; a rate, a float in
  the code, is kept as bytes and microseconds, and the estimate is rounded down from their exact quotient.  \<open>fromisoformat\<close> accepts the extended forms only.  The guidance text
  \<open>next_action\<close> of outcomes is left out.  The endpoint lease authority and the mutation permit are arguments
  of the handlers.  The recovery journal and the tables of handoffs and bindings are separate parts of the recovery
  database, which no operation writes together; in the journal a handoff id stands for the entry of the catalog.  The
  tables of handoffs hold the starts of runs only: the handoffs of finished operations, which have ids and a type of
  their own, are not in the model.  Receipts and messages of the outbox whose SQL constraints a caller violates are
  refused as an error of the store.  In the
  recovery database the order of a query is that of \<open>BINARY\<close> collation, and of a JSON column's constraint only
  what the validation before it has established is used.

  \<^bold>\<open>Not modelled.\<close>  The Qt presentation, the named pipe transport, process wiring, file system effects (staging,
  verification, commit, scanning, leases on disk), backups of the databases, jobs and schedules, retention,
  recovery classification, the handoffs of finished operations from the recovery database to the catalog, the
  classification of database faults, the rest of the executor cycle and duplicate detection.
\<close>

end
